(* ===== verification/Prelude.thy ===== *)
theory Prelude
  imports Main "HOL-Library.Word"
begin

text \<open>
  Shared vocabulary of the development: fixed-width integer types, the C++ standard-library
  string and integer routines the sources call (\<open>rfind(p, 0) == 0\<close>, \<open>std::to_string\<close>,
  \<open>std::stoull\<close> and \<open>std::stol\<close> with base 0, \<open>std::isspace\<close>, \<open>std::tolower\<close>),
  in-place update of the first match of a \<open>std::find_if\<close>, and little-endian byte packing.
  The lemmas declared here are what the component theories simplify with.
  Strings are byte strings, as \<open>std::string\<close> is: one \<open>char\<close> per byte.
\<close>

unbundle bit_operations_syntax

type_synonym u8 = "8 word"
type_synonym u16 = "16 word"
type_synonym u32 = "32 word"
type_synonym u64 = "64 word"

named_theorems wire "unfolding rules of the byte-level encoders"
named_theorems surface "closed facts about the fixed command tables"

section \<open>Strings\<close>

definition starts_with :: "string \<Rightarrow> string \<Rightarrow> bool" where
  "starts_with value prefix \<longleftrightarrow> take (length prefix) value = prefix"

lemma starts_with_append [simp]: "starts_with (p @ s) p"
  by (simp add: starts_with_def)

lemma starts_with_iff: "starts_with s p \<longleftrightarrow> (\<exists>r. s = p @ r)"
proof
  assume "starts_with s p"
  then have "s = p @ drop (length p) s"
    unfolding starts_with_def by (metis append_take_drop_id)
  then show "\<exists>r. s = p @ r" by blast
qed auto

lemma starts_with_hd: "starts_with s p \<Longrightarrow> p \<noteq> [] \<Longrightarrow> s \<noteq> [] \<and> hd s = hd p"
  by (auto simp: starts_with_iff)

definition is_space :: "char \<Rightarrow> bool" where
  "is_space c \<longleftrightarrow> c = CHR '' '' \<or> c = CHR 0x09 \<or> c = CHR 0x0A \<or> c = CHR 0x0B
     \<or> c = CHR 0x0C \<or> c = CHR 0x0D"

definition to_lower :: "char \<Rightarrow> char" where
  "to_lower c = (let n = (of_char c :: nat) in
     if 65 \<le> n \<and> n \<le> 90 then char_of (n + 32) else c)"

section \<open>Decimal printing and C integer scanning\<close>

fun nat_to_dec :: "nat \<Rightarrow> string" where
  "nat_to_dec n =
     (if n < 10 then [char_of (48 + n)]
      else nat_to_dec (n div 10) @ [char_of (48 + n mod 10)])"

declare nat_to_dec.simps [simp del]

definition int_to_dec :: "int \<Rightarrow> string" where
  "int_to_dec i = (if i < 0 then CHR ''-'' # nat_to_dec (nat (- i)) else nat_to_dec (nat i))"

definition digit_val :: "char \<Rightarrow> nat option" where
  "digit_val c = (let n = (of_char c :: nat) in
     if 48 \<le> n \<and> n \<le> 57 then Some (n - 48)
     else if 97 \<le> n \<and> n \<le> 122 then Some (n - 87)
     else if 65 \<le> n \<and> n \<le> 90 then Some (n - 55)
     else None)"

definition is_base_digit :: "nat \<Rightarrow> char \<Rightarrow> bool" where
  "is_base_digit b c = (case digit_val c of None \<Rightarrow> False | Some d \<Rightarrow> d < b)"

fun digits_value :: "nat \<Rightarrow> nat \<Rightarrow> string \<Rightarrow> nat" where
  "digits_value b acc [] = acc"
| "digits_value b acc (c # cs) =
     digits_value b (acc * b + (case digit_val c of None \<Rightarrow> 0 | Some d \<Rightarrow> d)) cs"

text \<open>
  The scan shared by \<open>strtoull\<close> and \<open>strtol\<close> with base 0: leading white space, an optional
  sign, a base prefix, then the longest run of digits. The result is the sign, the magnitude
  and the number of characters consumed; \<open>None\<close> is "no conversion". \<open>0x\<close> with no hexadecimal
  digit after it converts the \<open>0\<close> alone.
\<close>

definition scan_sign :: "string \<Rightarrow> bool \<times> nat \<times> string" where
  "scan_sign s = (case s of [] \<Rightarrow> (False, 0, [])
     | c # r \<Rightarrow> if c = CHR ''-'' then (True, 1, r)
               else if c = CHR ''+'' then (False, 1, r) else (False, 0, c # r))"

definition scan_base :: "string \<Rightarrow> nat \<times> nat \<times> string" where
  "scan_base s =
     (if starts_with s ''0x'' \<or> starts_with s ''0X'' then (16, 2, drop 2 s)
      else if starts_with s ''0'' then (8, 0, s) else (10, 0, s))"

definition scan_integer :: "string \<Rightarrow> (bool \<times> nat \<times> nat) option" where
  "scan_integer s =
     (let blanks = length (takeWhile is_space s);
          (neg, sgn, body) = scan_sign (dropWhile is_space s);
          (base, pre, rest) = scan_base body;
          ds = takeWhile (is_base_digit base) rest
      in if ds = [] then (if pre = 2 then Some (neg, 0, blanks + sgn + 1) else None)
         else Some (neg, digits_value base 0 ds, blanks + sgn + pre + length ds))"

text \<open>
  \<open>std::stoull\<close>: the value and the characters consumed, \<open>None\<close> where it throws. A minus sign
  is accepted and the magnitude is negated modulo \<open>2^64\<close>, as \<open>strtoull\<close> does.
\<close>

definition stoull :: "string \<Rightarrow> (nat \<times> nat) option" where
  "stoull s = (case scan_integer s of None \<Rightarrow> None
     | Some (neg, m, used) \<Rightarrow>
         if m \<ge> 2 ^ 64 then None
         else Some (if neg then (2 ^ 64 - m) mod 2 ^ 64 else m, used))"

lemma stoull_code [code]:
  "stoull s = (case scan_integer s of None \<Rightarrow> None
     | Some (neg, m, used) \<Rightarrow>
         if int m \<ge> 18446744073709551616 then None
         else Some (if \<not> neg then m
                    else if m = 0 then 0 else nat (18446744073709551616 - int m), used))"
  by (auto simp: stoull_def nat_diff_distrib split: option.split prod.split)

text \<open>\<open>std::stol\<close> on a 64-bit \<open>long\<close>.\<close>

definition stol :: "string \<Rightarrow> (int \<times> nat) option" where
  "stol s = (case scan_integer s of None \<Rightarrow> None
     | Some (neg, m, used) \<Rightarrow>
         if neg then (if m \<le> 2 ^ 63 then Some (- int m, used) else None)
         else if m < 2 ^ 63 then Some (int m, used) else None)"

lemma stol_code [code]:
  "stol s = (case scan_integer s of None \<Rightarrow> None
     | Some (neg, m, used) \<Rightarrow>
         if neg then (if int m \<le> 9223372036854775808 then Some (- int m, used) else None)
         else if int m < 9223372036854775808 then Some (int m, used) else None)"
  by (auto simp: stol_def split: option.split prod.split)

lemma digit_char:
  assumes "d < 10"
  shows "digit_val (char_of (48 + d)) = Some d"
  using assms by (simp add: digit_val_def Let_def)

lemma digit_char_not_space: "d < 10 \<Longrightarrow> \<not> is_space (char_of (48 + d :: nat))"
  by (auto simp: is_space_def dest!: arg_cong [where f = "of_char :: char \<Rightarrow> nat"])

lemma char_of_48 [simp]: "char_of (48 :: nat) = CHR ''0''"
  by code_simp

lemma char_of_digit_zero [simp]:
  assumes "d < 10"
  shows "char_of (48 + d :: nat) = CHR ''0'' \<longleftrightarrow> d = 0"
proof
  assume "char_of (48 + d :: nat) = CHR ''0''"
  then have "of_char (char_of (48 + d :: nat)) = (of_char (CHR ''0'') :: nat)" by simp
  with assms show "d = 0" by simp
qed simp

lemma digit_char_neq [simp]:
  "d < 10 \<Longrightarrow> char_of (48 + d :: nat) \<noteq> CHR ''-''"
  "d < 10 \<Longrightarrow> char_of (48 + d :: nat) \<noteq> CHR ''+''"
  "d < 10 \<Longrightarrow> char_of (48 + d :: nat) \<noteq> CHR '',''"
  by (auto dest!: arg_cong [where f = "of_char :: char \<Rightarrow> nat"])

definition dec_digit :: "char \<Rightarrow> bool" where
  "dec_digit c \<longleftrightarrow> (\<exists>d<10. c = char_of (48 + d :: nat))"

lemma dec_digitI [intro]: "d < 10 \<Longrightarrow> dec_digit (char_of (48 + d :: nat))"
  by (auto simp: dec_digit_def)

lemma dec_digitD:
  assumes "dec_digit c"
  shows "is_base_digit 10 c" "\<not> is_space c" "c \<noteq> CHR ''-''" "c \<noteq> CHR ''+''" "c \<noteq> CHR '',''"
  using assms by (auto simp: dec_digit_def is_base_digit_def digit_char digit_char_not_space)

lemma nat_to_dec_digits: "c \<in> set (nat_to_dec n) \<Longrightarrow> dec_digit c"
proof (induction n rule: nat_to_dec.induct)
  case (1 n)
  then show ?case
    by (cases "n < 10") (auto simp: nat_to_dec.simps [of n])
qed

lemma nat_to_dec_Nil [simp]: "nat_to_dec n \<noteq> []"
  by (subst nat_to_dec.simps) simp

lemma digits_value_append:
  "digits_value b acc (xs @ ys) = digits_value b (digits_value b acc xs) ys"
  by (induction xs arbitrary: acc) auto

lemma digits_value_nat_to_dec: "digits_value 10 0 (nat_to_dec n) = n"
proof (induction n rule: nat_to_dec.induct)
  case (1 n)
  show ?case
  proof (cases "n < 10")
    case True
    then show ?thesis by (simp add: nat_to_dec.simps [of n] digit_char)
  next
    case False
    then show ?thesis
      using "1.IH" by (simp add: nat_to_dec.simps [of n] digits_value_append digit_char)
  qed
qed

lemma nat_to_dec_zero: "nat_to_dec 0 = ''0''"
  by (subst nat_to_dec.simps) simp

lemma hd_nat_to_dec: "n > 0 \<Longrightarrow> hd (nat_to_dec n) \<noteq> CHR ''0''"
proof (induction n rule: nat_to_dec.induct)
  case (1 n)
  show ?case
  proof (cases "n < 10")
    case True
    with 1 show ?thesis by (simp add: nat_to_dec.simps [of n])
  next
    case False
    with 1 show ?thesis by (simp add: nat_to_dec.simps [of n])
  qed
qed

lemma nat_to_dec_inj: "nat_to_dec m = nat_to_dec n \<longleftrightarrow> m = n"
  by (metis digits_value_nat_to_dec)

lemma all_dec_digits:
  "takeWhile (is_base_digit 10) (nat_to_dec n) = nat_to_dec n"
  by (simp add: takeWhile_eq_all_conv dec_digitD nat_to_dec_digits)

lemma scan_integer_nat_to_dec:
  "scan_integer (nat_to_dec n) = Some (False, n, length (nat_to_dec n))"
proof (cases "n = 0")
  case True
  then show ?thesis
    by (simp add: nat_to_dec_zero) code_simp
next
  case False
  obtain c r where cr: "nat_to_dec n = c # r"
    by (cases "nat_to_dec n") auto
  have c: "dec_digit c"
    using nat_to_dec_digits [of c n] cr by simp
  have c0: "c \<noteq> CHR ''0''"
    using hd_nat_to_dec [of n] False cr by simp
  have base: "scan_base (nat_to_dec n) = (10, 0, nat_to_dec n)"
    using c0 by (simp add: scan_base_def cr starts_with_def)
  have "scan_sign (dropWhile is_space (nat_to_dec n)) = (False, 0, nat_to_dec n)"
    using dec_digitD [OF c] by (simp add: scan_sign_def cr)
  moreover have "takeWhile is_space (nat_to_dec n) = []"
    using dec_digitD [OF c] by (simp add: cr)
  ultimately show ?thesis
    by (simp add: scan_integer_def base all_dec_digits digits_value_nat_to_dec)
qed

lemma stoull_nat_to_dec:
  "n < 2 ^ 64 \<Longrightarrow> stoull (nat_to_dec n) = Some (n, length (nat_to_dec n))"
  by (simp add: stoull_def scan_integer_nat_to_dec)

lemma stol_nat_to_dec:
  "n < 2 ^ 63 \<Longrightarrow> stol (nat_to_dec n) = Some (int n, length (nat_to_dec n))"
  by (simp add: stol_def scan_integer_nat_to_dec)

lemma stoull_bound: "stoull s = Some (n, used) \<Longrightarrow> n < 2 ^ 64"
  by (auto simp: stoull_def split: option.splits if_splits)

section \<open>In-place update of the first match\<close>

text \<open>
  \<open>auto it = std::find_if(v.begin(), v.end(), p)\<close> followed by a write through \<open>it\<close>.
\<close>

fun update_first :: "('a \<Rightarrow> bool) \<Rightarrow> ('a \<Rightarrow> 'a) \<Rightarrow> 'a list \<Rightarrow> 'a list" where
  "update_first p f [] = []"
| "update_first p f (x # xs) = (if p x then f x # xs else x # update_first p f xs)"

lemma length_update_first [simp]: "length (update_first p f xs) = length xs"
  by (induction xs) auto

lemma update_first_absent: "List.find p xs = None \<Longrightarrow> update_first p f xs = xs"
  by (induction xs) (auto split: if_splits)

lemma find_update_first:
  "List.find p xs = Some x \<Longrightarrow> p (f x) \<Longrightarrow> List.find p (update_first p f xs) = Some (f x)"
  by (induction xs) (auto split: if_splits)

lemma map_update_first:
  "(\<And>x. g (f x) = g x) \<Longrightarrow> map g (update_first p f xs) = map g xs"
  by (induction xs) auto

lemma set_update_first:
  "y \<in> set (update_first p f xs) \<Longrightarrow> y \<in> set xs \<or> (\<exists>x\<in>set xs. p x \<and> y = f x)"
  by (induction xs) (auto split: if_splits)

lemma find_Some_mem: "List.find p xs = Some x \<Longrightarrow> x \<in> set xs \<and> p x"
  by (metis find_Some_iff nth_mem)

section \<open>Little-endian packing\<close>

text \<open>
  The object representation of an unsigned integer on the supported (little-endian) hosts:
  what \<open>memcpy\<close> of a packed header and the byte-by-byte \<open>append\<close> helpers produce.
\<close>

fun word_to_le :: "nat \<Rightarrow> 'a::len word \<Rightarrow> u8 list" where
  "word_to_le 0 w = []"
| "word_to_le (Suc n) w = ucast w # word_to_le n (drop_bit 8 w)"

fun le_to_word :: "u8 list \<Rightarrow> 'a::len word" where
  "le_to_word [] = 0"
| "le_to_word (b # bs) = ucast b OR push_bit 8 (le_to_word bs)"

lemma length_word_to_le [simp]: "length (word_to_le n w) = n"
  by (induction n arbitrary: w) auto

lemma le_to_word_take_bit:
  "le_to_word (word_to_le n w) = take_bit (8 * n) (w :: 'a::len word)"
proof (induction n arbitrary: w)
  case 0
  then show ?case by simp
next
  case (Suc n)
  have "ucast (ucast w :: u8) OR push_bit 8 (take_bit (8 * n) (drop_bit 8 w))
      = take_bit (8 * Suc n) w"
    by (rule bit_word_eqI) (auto simp: bit_simps)
  then show ?case by (simp add: Suc.IH)
qed

lemma le_round_trip [simp]:
  "LENGTH('a) = 8 * n \<Longrightarrow> le_to_word (word_to_le n w) = (w :: 'a::len word)"
  by (simp add: le_to_word_take_bit take_bit_word_eq_self)

lemma word_to_le_inject:
  "LENGTH('a) = 8 * n \<Longrightarrow> word_to_le n v = word_to_le n w \<longleftrightarrow> v = (w :: 'a::len word)"
  by (metis le_round_trip)

lemma le_to_word_word_to_le:
  "8 * length bs \<le> LENGTH('a) \<Longrightarrow> word_to_le (length bs) (le_to_word bs :: 'a::len word) = bs"
proof (induction bs)
  case Nil
  then show ?case by simp
next
  case (Cons b bs)
  let ?w = "le_to_word bs :: 'a word"
  have lo: "ucast (ucast b OR push_bit 8 ?w) = b"
    using Cons.prems by (intro bit_word_eqI) (auto simp: bit_simps)
  have small: "take_bit (8 * length bs) ?w = ?w"
    using le_to_word_take_bit [of "length bs" ?w] Cons by simp
  have hi: "drop_bit 8 (ucast b OR push_bit 8 ?w) = ?w"
  proof (rule bit_word_eqI)
    fix k assume "k < LENGTH('a)"
    have "bit ?w k \<longrightarrow> k < 8 * length bs"
      using small by (metis bit_take_bit_iff)
    moreover have "\<not> bit b (8 + k)"
      using bit_imp_le_length [of b "8 + k"] by auto
    ultimately show "bit (drop_bit 8 (ucast b OR push_bit 8 ?w)) k = bit ?w k"
      using Cons.prems by (auto simp: bit_simps)
  qed
  show ?case using Cons lo hi by simp
qed

end
