(* ===== verification/Command_Surface.thy ===== *)
theory Command_Surface
  imports Prelude
begin

text \<open>
  The command surface (\<open>RuntimeCommandSurface.h/.cpp\<close>): the fixed tables of the 44 BWAPI unit
  commands and 28 game actions, the evidence status recorded for each entry, and the lookups
  every gate of the runtime uses. \<open>enum_codec\<close> is the interface of the \<open>toString\<close> / \<open>parse\<close>
  pairs of the enumerations; each pair of the sources interprets it.
\<close>

section \<open>Print/parse pairs of enumerations\<close>

locale enum_codec =
  fixes print :: "'a \<Rightarrow> string" and parse :: "string \<Rightarrow> 'a option"
    and norm :: "string \<Rightarrow> string" and parsable :: "'a \<Rightarrow> bool"
  assumes parse_print: "parsable x \<Longrightarrow> parse (print x) = Some x"
    and parse_sound: "parse s = Some x \<Longrightarrow> parsable x \<and> norm s = print x"
    and parse_norm: "parse (norm s) = parse s"
begin

lemma parse_iff: "parse s = Some x \<longleftrightarrow> parsable x \<and> norm s = print x"
  by (metis parse_print parse_sound parse_norm)

lemma print_inj: "parsable x \<Longrightarrow> parsable y \<Longrightarrow> print x = print y \<longleftrightarrow> x = y"
  by (metis option.inject parse_print)

lemma parse_None_iff: "parse s = None \<longleftrightarrow> (\<forall>x. parsable x \<longrightarrow> norm s \<noteq> print x)"
  by (metis not_None_eq parse_iff)

end

section \<open>Evidence status\<close>

datatype evidence_status =
  EvidenceUnknown | LiveProven | MockTested | DocumentedScenario | FailClosed | AdapterLocal

fun evidence_toString :: "evidence_status \<Rightarrow> string" where
  "evidence_toString LiveProven = ''live-proven''"
| "evidence_toString MockTested = ''mock-tested''"
| "evidence_toString DocumentedScenario = ''documented-scenario''"
| "evidence_toString FailClosed = ''fail-closed''"
| "evidence_toString AdapterLocal = ''adapter-local''"
| "evidence_toString EvidenceUnknown = ''unknown''"

definition parseRuntimeCommandEvidenceStatus :: "string \<Rightarrow> evidence_status option" where
  "parseRuntimeCommandEvidenceStatus value =
     (if value = ''live-proven'' then Some LiveProven
      else if value = ''mock-tested'' then Some MockTested
      else if value = ''documented-scenario'' then Some DocumentedScenario
      else if value = ''fail-closed'' then Some FailClosed
      else if value = ''adapter-local'' then Some AdapterLocal
      else None)"

interpretation evidence_codec: enum_codec evidence_toString parseRuntimeCommandEvidenceStatus
    "\<lambda>s. s" "\<lambda>x. x \<noteq> EvidenceUnknown"
proof unfold_locales
  fix x
  assume "x \<noteq> EvidenceUnknown"
  then show "parseRuntimeCommandEvidenceStatus (evidence_toString x) = Some x"
    by (cases x) (simp_all add: parseRuntimeCommandEvidenceStatus_def)
qed (auto simp: parseRuntimeCommandEvidenceStatus_def split: if_splits)

definition isProductionCommandEvidenceStatus :: "evidence_status \<Rightarrow> bool" where
  "isProductionCommandEvidenceStatus status \<longleftrightarrow> status = LiveProven"

record command_evidence =
  ev_name :: string
  ev_status :: evidence_status
  ev_detail :: string

section \<open>The tables\<close>

record command_surface =
  unitCommands :: "string list"
  gameActions :: "string list"
  unitCommandEvidence :: "command_evidence list"
  gameActionEvidence :: "command_evidence list"

definition totalEntries :: "command_surface \<Rightarrow> int" where
  "totalEntries s = int (length (unitCommands s) + length (gameActions s))"

definition containsCommandSurfaceEntry :: "string list \<Rightarrow> string \<Rightarrow> bool" where
  "containsCommandSurfaceEntry entries name \<longleftrightarrow> name \<in> set entries"

definition containsCommandEvidenceEntry :: "command_evidence list \<Rightarrow> string \<Rightarrow> bool" where
  "containsCommandEvidenceEntry entries name \<longleftrightarrow> List.find (\<lambda>e. ev_name e = name) entries \<noteq> None"

definition commandEvidenceStatusFor :: "command_evidence list \<Rightarrow> string \<Rightarrow> evidence_status" where
  "commandEvidenceStatusFor entries name =
     (case List.find (\<lambda>e. ev_name e = name) entries of
        None \<Rightarrow> EvidenceUnknown
      | Some entry \<Rightarrow> ev_status entry)"

definition adapterLocalActions :: "string list" where
  "adapterLocalActions =
     [''setScreenPosition'', ''enableFlag'', ''setLastError'', ''vPrintf'', ''vSendTextEx'',
      ''leaveGame'', ''setLocalSpeed'', ''issueCommand'', ''setTextSize'', ''vDrawText'',
      ''drawBox'', ''drawTriangle'', ''drawCircle'', ''drawEllipse'', ''drawDot'', ''drawLine'',
      ''setLatCom'', ''setGUI'', ''setMap'', ''setFrameSkip'', ''setCommandOptimizationLevel'',
      ''setRevealAll'']"

definition isAdapterLocalGameActionName :: "string \<Rightarrow> bool" where
  "isAdapterLocalGameActionName name \<longleftrightarrow> containsCommandSurfaceEntry adapterLocalActions name"

definition unitCommandNames :: "string list" where
  "unitCommandNames =
     [''Attack_Move'', ''Attack_Unit'', ''Build'', ''Build_Addon'', ''Train'', ''Morph'',
      ''Research'', ''Upgrade'', ''Set_Rally_Position'', ''Set_Rally_Unit'', ''Move'', ''Patrol'',
      ''Hold_Position'', ''Stop'', ''Follow'', ''Gather'', ''Return_Cargo'', ''Repair'',
      ''Burrow'', ''Unburrow'', ''Cloak'', ''Decloak'', ''Siege'', ''Unsiege'', ''Lift'', ''Land'',
      ''Load'', ''Unload'', ''Unload_All'', ''Unload_All_Position'', ''Right_Click_Position'',
      ''Right_Click_Unit'', ''Halt_Construction'', ''Cancel_Construction'', ''Cancel_Addon'',
      ''Cancel_Train'', ''Cancel_Train_Slot'', ''Cancel_Morph'', ''Cancel_Research'',
      ''Cancel_Upgrade'', ''Use_Tech'', ''Use_Tech_Position'', ''Use_Tech_Unit'', ''Place_COP'']"

definition gameActionNames :: "string list" where
  "gameActionNames =
     [''setScreenPosition'', ''pingMinimap'', ''enableFlag'', ''setLastError'', ''vPrintf'',
      ''vSendTextEx'', ''pauseGame'', ''resumeGame'', ''leaveGame'', ''restartGame'',
      ''setLocalSpeed'', ''issueCommand'', ''setTextSize'', ''vDrawText'', ''drawBox'',
      ''drawTriangle'', ''drawCircle'', ''drawEllipse'', ''drawDot'', ''drawLine'', ''setLatCom'',
      ''setGUI'', ''setMap'', ''setFrameSkip'', ''setAlliance'', ''setVision'',
      ''setCommandOptimizationLevel'', ''setRevealAll'']"

definition makeEvidence :: "string \<Rightarrow> evidence_status \<Rightarrow> string \<Rightarrow> command_evidence" where
  "makeEvidence name status detail = \<lparr>ev_name = name, ev_status = status, ev_detail = detail\<rparr>"

definition gameActionEvidenceFor :: "string \<Rightarrow> command_evidence" where
  "gameActionEvidenceFor action =
     (let status = if isAdapterLocalGameActionName action then AdapterLocal else MockTested
      in makeEvidence action status
           (if status = AdapterLocal then ''adapter-local-runtime-facade''
            else ''runtime-command-encoder-test''))"

definition makeBWAPICommandSurface :: command_surface where
  "makeBWAPICommandSurface =
     \<lparr>unitCommands = unitCommandNames,
      gameActions = gameActionNames,
      unitCommandEvidence =
        map (\<lambda>c. makeEvidence c MockTested ''runtime-command-encoder-test'') unitCommandNames,
      gameActionEvidence = map gameActionEvidenceFor gameActionNames\<rparr>"

section \<open>Facts about the tables\<close>

lemma surface_unitCommands [simp]: "unitCommands makeBWAPICommandSurface = unitCommandNames"
  by (simp add: makeBWAPICommandSurface_def)

lemma surface_gameActions [simp]: "gameActions makeBWAPICommandSurface = gameActionNames"
  by (simp add: makeBWAPICommandSurface_def)

lemma length_unitCommandNames [surface]: "length unitCommandNames = 44"
  by (simp add: unitCommandNames_def)

lemma length_gameActionNames [surface]: "length gameActionNames = 28"
  by (simp add: gameActionNames_def)

lemma totalEntries_surface [simp]: "totalEntries makeBWAPICommandSurface = 72"
  by (simp add: totalEntries_def surface)

lemma distinct_unitCommandNames [surface]: "distinct unitCommandNames"
  by code_simp

lemma distinct_gameActionNames [surface]: "distinct gameActionNames"
  by code_simp

lemma unitCommandNames_ne [surface]: "unitCommandNames \<noteq> []" "gameActionNames \<noteq> []"
  by (simp_all add: unitCommandNames_def gameActionNames_def)

lemma adapter_local_in_surface [surface]: "set adapterLocalActions \<subseteq> set gameActionNames"
  by code_simp

lemma names_nonempty [surface]: "[] \<notin> set unitCommandNames" "[] \<notin> set gameActionNames"
  by (simp_all add: unitCommandNames_def gameActionNames_def)

lemma contains_iff [simp]: "containsCommandSurfaceEntry es n \<longleftrightarrow> n \<in> set es"
  by (simp add: containsCommandSurfaceEntry_def)

lemma containsCommandEvidenceEntry_iff:
  "containsCommandEvidenceEntry es n \<longleftrightarrow> n \<in> ev_name ` set es"
  by (auto simp: containsCommandEvidenceEntry_def find_None_iff)

lemma commandEvidenceStatusFor_map:
  assumes "n \<in> set ns" and "\<And>m. ev_name (f m) = m"
  shows "commandEvidenceStatusFor (map f ns) n = ev_status (f n)"
  using assms by (induction ns) (auto simp: commandEvidenceStatusFor_def)

lemma builtin_unit_evidence:
  "n \<in> set unitCommandNames \<Longrightarrow>
   commandEvidenceStatusFor (unitCommandEvidence makeBWAPICommandSurface) n = MockTested"
  by (simp add: makeBWAPICommandSurface_def commandEvidenceStatusFor_map makeEvidence_def)

lemma builtin_action_evidence:
  "n \<in> set gameActionNames \<Longrightarrow>
   commandEvidenceStatusFor (gameActionEvidence makeBWAPICommandSurface) n
     = (if n \<in> set adapterLocalActions then AdapterLocal else MockTested)"
  by (simp add: makeBWAPICommandSurface_def commandEvidenceStatusFor_map
      gameActionEvidenceFor_def makeEvidence_def isAdapterLocalGameActionName_def Let_def)

end
