(* ===== verification/Runtime_Backend.thy ===== *)
theory Runtime_Backend
  imports Command_Surface
begin

text \<open>
  The vocabulary of the backends (\<open>RuntimeBackend.h/.cpp\<close>): platforms, products, capabilities and
  session states with their printers and parsers, the runtime environment, and the probe result a
  backend reports. The parsers normalise case and the separators before they compare.
\<close>

datatype platform = Windows | MacOS | Linux | PlatformUnknown

datatype product = StarCraftBroodWar1161 | StarCraftRemastered | ProductUnknown

datatype capability =
  ReadGameState | ReadMapData | ReadUnitData | ReadBulletData | ReadPlayerData | ReadRegionData
| IssueCommands | DrawOverlays | DispatchEvents | ReplayAnalysis | MultiplayerSync | BattleNet
| LoadAIModules | SharedMemoryClient

datatype session_state = SessionClosed | SessionOpen | SessionFailed

record runtime_environment =
  env_platform :: platform
  env_product :: product
  env_version :: string
  env_processId :: int
  env_executablePath :: string
  env_manifestPath :: string
  env_executorBridgePath :: string

record probe_result =
  pr_supported :: bool
  pr_reason :: string
  pr_capabilities :: "capability list"
  pr_unitCommands :: "string list"
  pr_gameActions :: "string list"
  pr_unitCommandEvidence :: "command_evidence list"
  pr_gameActionEvidence :: "command_evidence list"
  pr_apiSurfaceMethods :: int
  pr_commandSurfaceEntries :: int

record open_result =
  or_opened :: bool
  or_state :: session_state
  or_reason :: string

definition default_probe_result :: probe_result where
  "default_probe_result =
     \<lparr>pr_supported = False, pr_reason = [], pr_capabilities = [], pr_unitCommands = [],
      pr_gameActions = [], pr_unitCommandEvidence = [], pr_gameActionEvidence = [],
      pr_apiSurfaceMethods = 0, pr_commandSurfaceEntries = 0\<rparr>"

section \<open>Printers\<close>

fun platform_toString :: "platform \<Rightarrow> string" where
  "platform_toString Windows = ''windows''"
| "platform_toString MacOS = ''macos''"
| "platform_toString Linux = ''linux''"
| "platform_toString PlatformUnknown = ''unknown''"

fun product_toString :: "product \<Rightarrow> string" where
  "product_toString StarCraftBroodWar1161 = ''starcraft-brood-war-1.16.1''"
| "product_toString StarCraftRemastered = ''starcraft-remastered''"
| "product_toString ProductUnknown = ''unknown''"

fun capability_toString :: "capability \<Rightarrow> string" where
  "capability_toString ReadGameState = ''read-game-state''"
| "capability_toString ReadMapData = ''read-map-data''"
| "capability_toString ReadUnitData = ''read-unit-data''"
| "capability_toString ReadBulletData = ''read-bullet-data''"
| "capability_toString ReadPlayerData = ''read-player-data''"
| "capability_toString ReadRegionData = ''read-region-data''"
| "capability_toString IssueCommands = ''issue-commands''"
| "capability_toString DrawOverlays = ''draw-overlays''"
| "capability_toString DispatchEvents = ''dispatch-events''"
| "capability_toString ReplayAnalysis = ''replay-analysis''"
| "capability_toString MultiplayerSync = ''multiplayer-sync''"
| "capability_toString BattleNet = ''battle-net''"
| "capability_toString LoadAIModules = ''load-ai-modules''"
| "capability_toString SharedMemoryClient = ''shared-memory-client''"

fun session_toString :: "session_state \<Rightarrow> string" where
  "session_toString SessionClosed = ''closed''"
| "session_toString SessionOpen = ''open''"
| "session_toString SessionFailed = ''failed''"

section \<open>Parsers\<close>

definition normalized :: "string \<Rightarrow> string" where
  "normalized value =
     map (\<lambda>ch. if ch = CHR ''_'' \<or> ch = CHR '' '' \<or> ch = CHR ''.'' then CHR ''-''
               else to_lower ch) value"

definition parsePlatform :: "string \<Rightarrow> platform" where
  "parsePlatform value =
     (let key = normalized value in
      if key = ''windows'' \<or> key = ''win32'' \<or> key = ''win64'' then Windows
      else if key = ''macos'' \<or> key = ''mac-os'' \<or> key = ''darwin'' \<or> key = ''osx'' then MacOS
      else if key = ''linux'' then Linux
      else PlatformUnknown)"

definition parseProduct :: "string \<Rightarrow> product" where
  "parseProduct value =
     (let key = normalized value in
      if key = ''starcraft-remastered'' \<or> key = ''remastered'' \<or> key = ''scr''
      then StarCraftRemastered
      else if key = ''starcraft-brood-war-1-16-1'' \<or> key = ''brood-war-1-16-1''
        \<or> key = ''bw-1-16-1'' \<or> key = ''1161''
      then StarCraftBroodWar1161
      else ProductUnknown)"

definition parseCapability :: "string \<Rightarrow> capability option" where
  "parseCapability value =
     (let key = normalized value in
      if key = ''read-game-state'' then Some ReadGameState
      else if key = ''read-map-data'' then Some ReadMapData
      else if key = ''read-unit-data'' then Some ReadUnitData
      else if key = ''read-bullet-data'' then Some ReadBulletData
      else if key = ''read-player-data'' then Some ReadPlayerData
      else if key = ''read-region-data'' then Some ReadRegionData
      else if key = ''issue-commands'' then Some IssueCommands
      else if key = ''draw-overlays'' then Some DrawOverlays
      else if key = ''dispatch-events'' then Some DispatchEvents
      else if key = ''replay-analysis'' then Some ReplayAnalysis
      else if key = ''multiplayer-sync'' then Some MultiplayerSync
      else if key = ''battle-net'' then Some BattleNet
      else if key = ''load-ai-modules'' then Some LoadAIModules
      else if key = ''shared-memory-client'' then Some SharedMemoryClient
      else None)"

lemma to_lower_idem [simp]: "to_lower (to_lower c) = to_lower c"
  by (simp add: to_lower_def Let_def)

lemma to_lower_sep:
  "to_lower c = CHR ''_'' \<longleftrightarrow> c = CHR ''_''"
  "to_lower c = CHR '' '' \<longleftrightarrow> c = CHR '' ''"
  "to_lower c = CHR ''.'' \<longleftrightarrow> c = CHR ''.''"
  by (auto simp: to_lower_def Let_def dest!: arg_cong [where f = "of_char :: char \<Rightarrow> nat"]
      split: if_splits)

lemma to_lower_dash [simp]: "to_lower (CHR ''-'') = CHR ''-''"
  by code_simp

lemma normalized_idem [simp]: "normalized (normalized s) = normalized s"
  by (induction s) (auto simp: normalized_def to_lower_sep)

lemma normalized_capability: "normalized (capability_toString c) = capability_toString c"
  by (cases c) (simp_all add: normalized_def to_lower_def)

interpretation capability_codec: enum_codec capability_toString parseCapability normalized
    "\<lambda>_. True"
proof unfold_locales
  fix x
  show "parseCapability (capability_toString x) = Some x"
    unfolding parseCapability_def normalized_capability Let_def by (cases x) simp_all
qed (auto simp: parseCapability_def Let_def split: if_splits)

lemma parseProduct_print: "parseProduct (product_toString p) = p"
  by (cases p; hypsubst; code_simp)

lemma parsePlatform_print: "parsePlatform (platform_toString p) = p"
  by (cases p; hypsubst; code_simp)

lemma parseProduct_norm: "parseProduct (normalized s) = parseProduct s"
  by (simp add: parseProduct_def)

section \<open>Class instances\<close>

text \<open>Capabilities are finite: quantifiers over them evaluate.\<close>

definition allCapabilities :: "capability list" where
  "allCapabilities =
     [ReadGameState, ReadMapData, ReadUnitData, ReadBulletData, ReadPlayerData, ReadRegionData,
      IssueCommands, DrawOverlays, DispatchEvents, ReplayAnalysis, MultiplayerSync, BattleNet,
      LoadAIModules, SharedMemoryClient]"

instantiation capability :: enum
begin

definition enum_capability :: "capability list" where
  "enum_capability = allCapabilities"

definition enum_all_capability :: "(capability \<Rightarrow> bool) \<Rightarrow> bool" where
  "enum_all_capability P \<longleftrightarrow> list_all P allCapabilities"

definition enum_ex_capability :: "(capability \<Rightarrow> bool) \<Rightarrow> bool" where
  "enum_ex_capability P \<longleftrightarrow> list_ex P allCapabilities"

instance
proof
  have all: "c \<in> set allCapabilities" for c
    by (cases c) (simp_all add: allCapabilities_def)
  show "(UNIV :: capability set) = set enum_class.enum"
    using all by (auto simp: enum_capability_def)
  show "distinct (enum_class.enum :: capability list)"
    by (simp add: enum_capability_def allCapabilities_def)
  show "enum_class.enum_all P \<longleftrightarrow> Ball UNIV P" for P :: "capability \<Rightarrow> bool"
    using all by (auto simp: enum_all_capability_def list_all_iff)
  show "enum_class.enum_ex P \<longleftrightarrow> Bex UNIV P" for P :: "capability \<Rightarrow> bool"
    using all by (auto simp: enum_ex_capability_def list_ex_iff)
qed

end

end
