(* ===== verification/Runtime_Contract.thy ===== *)
theory Runtime_Contract
  imports Runtime_Backend
begin

text \<open>
  The versioned runtime contract (\<open>RuntimeContract.h/.cpp\<close>): bindings, structure layouts and fields
  a runtime must resolve, the parity contracts of the two products, contract validation, the
  production-evidence audit and the production gate \<open>canClaimProductionSupport\<close>.
  Error and warning vectors are threaded through the checks in the code's order.
\<close>

section \<open>Data\<close>

datatype binding_kind =
  DataAddress | FunctionAddress | ImportedFunction | StructureLayoutKind | HookPoint
| CommandQueueKind | Transport

datatype binding_requirement = Required | Optional

record runtime_binding =
  b_name :: string
  b_kind :: binding_kind
  b_requirement :: binding_requirement
  b_resolved :: bool
  b_evidence :: string

record structure_field =
  f_name :: string
  f_offset :: nat
  f_size :: nat
  f_resolved :: bool
  f_evidence :: string

record structure_layout =
  st_name :: string
  st_size :: nat
  st_requirement :: binding_requirement
  st_evidence :: string
  st_fields :: "structure_field list"

record runtime_contract =
  c_product :: product
  c_version :: string
  c_requiredApiSurfaceMethods :: int
  c_requiredCommandSurfaceEntries :: int
  c_requiredCapabilities :: "capability list"
  c_bindings :: "runtime_binding list"
  c_structures :: "structure_layout list"

record contract_validation =
  cv_valid :: bool
  cv_errors :: "string list"
  cv_warnings :: "string list"

definition empty_contract :: runtime_contract where
  "empty_contract =
     \<lparr>c_product = ProductUnknown, c_version = [], c_requiredApiSurfaceMethods = 0,
      c_requiredCommandSurfaceEntries = 0, c_requiredCapabilities = [], c_bindings = [],
      c_structures = []\<rparr>"

fun binding_kind_toString :: "binding_kind \<Rightarrow> string" where
  "binding_kind_toString DataAddress = ''data-address''"
| "binding_kind_toString FunctionAddress = ''function-address''"
| "binding_kind_toString ImportedFunction = ''imported-function''"
| "binding_kind_toString StructureLayoutKind = ''structure-layout''"
| "binding_kind_toString HookPoint = ''hook-point''"
| "binding_kind_toString CommandQueueKind = ''command-queue''"
| "binding_kind_toString Transport = ''transport''"

fun requirement_toString :: "binding_requirement \<Rightarrow> string" where
  "requirement_toString Required = ''required''"
| "requirement_toString Optional = ''optional''"

definition parseBindingKind :: "string \<Rightarrow> binding_kind option" where
  "parseBindingKind value =
     (if value = ''data-address'' then Some DataAddress
      else if value = ''function-address'' then Some FunctionAddress
      else if value = ''imported-function'' then Some ImportedFunction
      else if value = ''structure-layout'' then Some StructureLayoutKind
      else if value = ''hook-point'' then Some HookPoint
      else if value = ''command-queue'' then Some CommandQueueKind
      else if value = ''transport'' then Some Transport
      else None)"

definition parseBindingRequirement :: "string \<Rightarrow> binding_requirement option" where
  "parseBindingRequirement value =
     (if value = ''required'' then Some Required
      else if value = ''optional'' then Some Optional
      else None)"

interpretation binding_kind_codec: enum_codec binding_kind_toString parseBindingKind
    "\<lambda>s. s" "\<lambda>_. True"
proof unfold_locales
  fix x
  show "parseBindingKind (binding_kind_toString x) = Some x"
    by (cases x) (simp_all add: parseBindingKind_def)
qed (auto simp: parseBindingKind_def split: if_splits)

interpretation requirement_codec: enum_codec requirement_toString parseBindingRequirement
    "\<lambda>s. s" "\<lambda>_. True"
proof unfold_locales
  fix x
  show "parseBindingRequirement (requirement_toString x) = Some x"
    by (cases x) (simp_all add: parseBindingRequirement_def)
qed (auto simp: parseBindingRequirement_def split: if_splits)

section \<open>The parity contracts\<close>

definition fullParityCapabilities :: "capability list" where
  "fullParityCapabilities =
     [ReadGameState, ReadMapData, ReadUnitData, ReadBulletData, ReadPlayerData, ReadRegionData,
      IssueCommands, DrawOverlays, DispatchEvents, ReplayAnalysis, MultiplayerSync, BattleNet,
      LoadAIModules, SharedMemoryClient]"

definition requiredBinding :: "string \<Rightarrow> binding_kind \<Rightarrow> runtime_binding" where
  "requiredBinding name kind =
     \<lparr>b_name = name, b_kind = kind, b_requirement = Required, b_resolved = False,
      b_evidence = []\<rparr>"

definition mkfield :: "string \<Rightarrow> structure_field" where
  "mkfield name =
     \<lparr>f_name = name, f_offset = 0, f_size = 0, f_resolved = False, f_evidence = []\<rparr>"

definition requiredStructure :: "string \<Rightarrow> structure_field list \<Rightarrow> structure_layout" where
  "requiredStructure name flds =
     \<lparr>st_name = name, st_size = 0, st_requirement = Required, st_evidence = [],
      st_fields = flds\<rparr>"

definition parityBindings :: "runtime_binding list" where
  "parityBindings =
     [requiredBinding ''BW::BWDATA::Game'' DataAddress,
      requiredBinding ''BW::BWDATA::Players'' DataAddress,
      requiredBinding ''BW::BWDATA::UnitNodeTable'' DataAddress,
      requiredBinding ''BW::BWDATA::BulletNodeTable'' DataAddress,
      requiredBinding ''BW::BWDATA::MapTileArray'' DataAddress,
      requiredBinding ''BW::BWDATA::sgdwBytesInCmdQueue'' CommandQueueKind,
      requiredBinding ''BW::BWDATA::TurnBuffer'' CommandQueueKind,
      requiredBinding ''BW::BWFXN_ExecuteGameTriggers'' FunctionAddress,
      requiredBinding ''Storm::SNetReceiveMessage'' ImportedFunction,
      requiredBinding ''Storm::SNetSendTurn'' ImportedFunction,
      requiredBinding ''draw-game-layer-hook'' HookPoint,
      requiredBinding ''ai-module-loader'' Transport,
      requiredBinding ''shared-memory-client-transport'' Transport]"

definition parityStructures :: "structure_layout list" where
  "parityStructures =
     [requiredStructure ''BW::BWGame''
        [mkfield ''players'', mkfield ''alliance'', mkfield ''elapsedFrames''],
      requiredStructure ''BW::CUnit''
        [mkfield ''id'', mkfield ''position'', mkfield ''hitPoints'', mkfield ''order'',
         mkfield ''player''],
      requiredStructure ''BW::CBullet''
        [mkfield ''position'', mkfield ''velocity'', mkfield ''sourceUnit'', mkfield ''target''],
      requiredStructure ''BW::PlayerInfo''
        [mkfield ''stormId'', mkfield ''race'', mkfield ''resources'', mkfield ''supply''],
      requiredStructure ''BW::ReplayHeader''
        [mkfield ''mapName'', mkfield ''frameCount'', mkfield ''playerCount'']]"

definition makeBroodWar1161ParityContract :: runtime_contract where
  "makeBroodWar1161ParityContract =
     \<lparr>c_product = StarCraftBroodWar1161,
      c_version = ''1.16.1'',
      c_requiredApiSurfaceMethods = 385,
      c_requiredCommandSurfaceEntries = totalEntries makeBWAPICommandSurface,
      c_requiredCapabilities = fullParityCapabilities,
      c_bindings = parityBindings,
      c_structures = parityStructures\<rparr>"

definition clearField :: "structure_field \<Rightarrow> structure_field" where
  "clearField f = f\<lparr>f_offset := 0, f_size := 0, f_resolved := False, f_evidence := []\<rparr>"

definition clearStructure :: "structure_layout \<Rightarrow> structure_layout" where
  "clearStructure s =
     s\<lparr>st_size := 0, st_evidence := [], st_fields := map clearField (st_fields s)\<rparr>"

definition makeRemasteredParityContract :: "string \<Rightarrow> runtime_contract" where
  "makeRemasteredParityContract version =
     (let contract = makeBroodWar1161ParityContract\<lparr>c_product := StarCraftRemastered,
                       c_version := version\<rparr>
      in contract\<lparr>c_bindings :=
             map (\<lambda>b. b\<lparr>b_resolved := False, b_evidence := []\<rparr>) (c_bindings contract),
           c_structures := map clearStructure (c_structures contract)\<rparr>)"

section \<open>Lookups\<close>

definition findRuntimeBinding ::
  "runtime_contract \<Rightarrow> string \<Rightarrow> binding_kind \<Rightarrow> runtime_binding option" where
  "findRuntimeBinding contract name kind =
     List.find (\<lambda>b. b_name b = name \<and> b_kind b = kind) (c_bindings contract)"

definition findStructureLayout :: "runtime_contract \<Rightarrow> string \<Rightarrow> structure_layout option" where
  "findStructureLayout contract name =
     List.find (\<lambda>s. st_name s = name) (c_structures contract)"

definition findStructureField ::
  "runtime_contract \<Rightarrow> string \<Rightarrow> string \<Rightarrow> structure_field option" where
  "findStructureField contract structureName fieldName =
     (case findStructureLayout contract structureName of
        None \<Rightarrow> None
      | Some s \<Rightarrow> List.find (\<lambda>f. f_name f = fieldName) (st_fields s))"

section \<open>Evidence classes\<close>

definition isNonProductionEvidence :: "string \<Rightarrow> bool" where
  "isNonProductionEvidence evidence \<longleftrightarrow>
     evidence = ''fixture'' \<or> starts_with evidence ''fixture:''
   \<or> evidence = ''unit-test'' \<or> starts_with evidence ''unit-test:''
   \<or> evidence = ''mock'' \<or> starts_with evidence ''mock:''
   \<or> evidence = ''self-fixture'' \<or> starts_with evidence ''self-fixture:''
   \<or> evidence = ''diagnostic'' \<or> starts_with evidence ''diagnostic.''
   \<or> evidence = ''static-anchor'' \<or> starts_with evidence ''static-anchor:''
   \<or> evidence = ''scr-platform-anchor'' \<or> starts_with evidence ''scr-platform-anchor:''
   \<or> evidence = ''static-layout'' \<or> starts_with evidence ''static-layout:''"

definition isProductionEvidence :: "string \<Rightarrow> bool" where
  "isProductionEvidence evidence \<longleftrightarrow> starts_with evidence ''proof.''"

definition evidenceProofLine :: "string \<Rightarrow> string" where
  "evidenceProofLine evidence =
     (if \<not> isProductionEvidence evidence then []
      else if CHR '':'' \<notin> set evidence then evidence
      else takeWhile (\<lambda>c. c \<noteq> CHR '':'') evidence)"

fun expectedProductionProofForBinding :: "string \<Rightarrow> binding_kind \<Rightarrow> string" where
  "expectedProductionProofForBinding name DataAddress =
     (if name = ''BW::BWDATA::Game'' then ''proof.read_game_state=passed''
      else if name = ''BW::BWDATA::Players'' then ''proof.read_player_data=passed''
      else if name = ''BW::BWDATA::UnitNodeTable'' then ''proof.read_units=passed''
      else if name = ''BW::BWDATA::BulletNodeTable'' then ''proof.read_bullet_data=passed''
      else if name = ''BW::BWDATA::MapTileArray'' then ''proof.read_map_data=passed''
      else [])"
| "expectedProductionProofForBinding name FunctionAddress =
     (if name = ''BW::BWFXN_ExecuteGameTriggers'' then ''proof.dispatch_events=passed'' else [])"
| "expectedProductionProofForBinding name ImportedFunction =
     (if name = ''Storm::SNetReceiveMessage'' \<or> name = ''Storm::SNetSendTurn''
      then ''proof.multiplayer_sync=passed'' else [])"
| "expectedProductionProofForBinding name HookPoint =
     (if name = ''draw-game-layer-hook'' then ''proof.draw_overlays=passed'' else [])"
| "expectedProductionProofForBinding name CommandQueueKind =
     (if name = ''BW::BWDATA::sgdwBytesInCmdQueue'' \<or> name = ''BW::BWDATA::TurnBuffer''
      then ''proof.issue_commands=passed'' else [])"
| "expectedProductionProofForBinding name Transport =
     (if name = ''ai-module-loader'' then ''proof.load_ai_modules=passed''
      else if name = ''shared-memory-client-transport'' then ''proof.attach=passed''
      else [])"
| "expectedProductionProofForBinding name StructureLayoutKind = []"

definition expectedProductionProofForStructure :: "string \<Rightarrow> string" where
  "expectedProductionProofForStructure name =
     (if name = ''BW::BWGame'' then ''proof.read_game_state=passed''
      else if name = ''BW::CUnit'' then ''proof.read_units=passed''
      else if name = ''BW::CBullet'' then ''proof.read_bullet_data=passed''
      else if name = ''BW::PlayerInfo'' then ''proof.read_player_data=passed''
      else if name = ''BW::ReplayHeader'' then ''proof.replay_analysis=passed''
      else [])"

definition expectedProductionProofForField :: "string \<Rightarrow> string \<Rightarrow> string" where
  "expectedProductionProofForField structureName fieldName =
     (if structureName = ''BW::BWGame''
      then (if fieldName = ''players'' \<or> fieldName = ''alliance''
            then ''proof.read_player_data=passed''
            else if fieldName = ''elapsedFrames'' then ''proof.read_game_state=passed''
            else [])
      else if structureName = ''BW::CUnit'' then ''proof.read_units=passed''
      else if structureName = ''BW::CBullet'' then ''proof.read_bullet_data=passed''
      else if structureName = ''BW::PlayerInfo'' then ''proof.read_player_data=passed''
      else if structureName = ''BW::ReplayHeader'' then ''proof.replay_analysis=passed''
      else [])"

section \<open>The production-evidence audit\<close>

definition addProductionEvidenceError ::
  "string list \<Rightarrow> string \<Rightarrow> string \<Rightarrow> string \<Rightarrow> string list" where
  "addProductionEvidenceError errors subject evidence expectedProof =
     (if evidence = [] then errors @ [subject @ '' is missing production proof evidence'']
      else if isNonProductionEvidence evidence
      then errors @ [subject @ '' uses non-production evidence: '' @ evidence]
      else if \<not> isProductionEvidence evidence
      then errors @ [subject @ '' evidence is not a production proof: '' @ evidence]
      else let proofLine = evidenceProofLine evidence in
        if expectedProof = []
        then errors @ [subject @ '' has no accepted production proof mapping: '' @ proofLine]
        else if proofLine \<noteq> expectedProof
        then errors @ [subject @ '' uses wrong production proof: '' @ proofLine
                         @ ''; expected '' @ expectedProof]
        else errors)"

definition auditBinding :: "string list \<Rightarrow> runtime_binding \<Rightarrow> string list" where
  "auditBinding errors b =
     (if b_resolved b
      then addProductionEvidenceError errors (''resolved binding '' @ b_name b) (b_evidence b)
             (expectedProductionProofForBinding (b_name b) (b_kind b))
      else errors)"

definition auditField :: "string \<Rightarrow> string list \<Rightarrow> structure_field \<Rightarrow> string list" where
  "auditField structureName errors f =
     (if f_resolved f
      then addProductionEvidenceError errors
             (''resolved structure field '' @ structureName @ ''.'' @ f_name f) (f_evidence f)
             (expectedProductionProofForField structureName (f_name f))
      else errors)"

definition auditStructure :: "string list \<Rightarrow> structure_layout \<Rightarrow> string list" where
  "auditStructure errors s =
     (let errors = (if st_size s \<noteq> 0
        then addProductionEvidenceError errors (''resolved structure layout '' @ st_name s)
               (st_evidence s) (expectedProductionProofForStructure (st_name s))
        else errors)
      in foldl (auditField (st_name s)) errors (st_fields s))"

definition contractProductionEvidenceErrors :: "runtime_contract \<Rightarrow> string list" where
  "contractProductionEvidenceErrors contract =
     foldl auditStructure (foldl auditBinding [] (c_bindings contract)) (c_structures contract)"

definition contractContainsFixtureEvidence :: "runtime_contract \<Rightarrow> bool" where
  "contractContainsFixtureEvidence contract \<longleftrightarrow>
     list_ex (\<lambda>b. b_resolved b \<and> isNonProductionEvidence (b_evidence b)) (c_bindings contract)
   \<or> list_ex (\<lambda>s. (st_size s \<noteq> 0 \<and> isNonProductionEvidence (st_evidence s))
        \<or> list_ex (\<lambda>f. f_resolved f \<and> isNonProductionEvidence (f_evidence f)) (st_fields s))
       (c_structures contract)"

section \<open>Validation\<close>

definition cvError :: "bool \<Rightarrow> string \<Rightarrow> contract_validation \<Rightarrow> contract_validation" where
  "cvError c message r = (if c then r\<lparr>cv_errors := cv_errors r @ [message]\<rparr> else r)"

definition cvWarning :: "bool \<Rightarrow> string \<Rightarrow> contract_validation \<Rightarrow> contract_validation" where
  "cvWarning c message r = (if c then r\<lparr>cv_warnings := cv_warnings r @ [message]\<rparr> else r)"

definition validateBinding :: "contract_validation \<Rightarrow> runtime_binding \<Rightarrow> contract_validation" where
  "validateBinding r b =
     (if b_name b = [] then cvError True ''runtime binding has an empty name'' r
      else
        let r = cvError (b_requirement b = Required \<and> \<not> b_resolved b)
                  (''required '' @ binding_kind_toString (b_kind b)
                     @ '' binding is unresolved: '' @ b_name b) r;
            r = cvWarning (b_resolved b \<and> b_evidence b = [])
                  (''resolved binding is missing validation evidence: '' @ b_name b) r
        in cvWarning (b_resolved b \<and> isNonProductionEvidence (b_evidence b))
             (''resolved binding uses non-production validation evidence: '' @ b_name b) r)"

definition validateField ::
  "structure_layout \<Rightarrow> contract_validation \<Rightarrow> structure_field \<Rightarrow> contract_validation" where
  "validateField s r f =
     (if f_name f = [] then cvError True (''structure field has an empty name in: '' @ st_name s) r
      else
        let path = st_name s @ ''.'' @ f_name f;
            r = cvError (st_requirement s = Required \<and> \<not> f_resolved f)
                  (''required structure field is unresolved: '' @ path) r;
            r = cvError (f_resolved f \<and> f_size f = 0)
                  (''resolved structure field has no size: '' @ path) r;
            r = cvWarning (f_resolved f \<and> f_evidence f = [])
                  (''resolved structure field is missing validation evidence: '' @ path) r
        in cvWarning (f_resolved f \<and> isNonProductionEvidence (f_evidence f))
             (''resolved structure field uses non-production validation evidence: '' @ path) r)"

definition validateStructure ::
  "contract_validation \<Rightarrow> structure_layout \<Rightarrow> contract_validation" where
  "validateStructure r s =
     (if st_name s = [] then cvError True ''structure layout has an empty name'' r
      else
        let r = cvError (st_requirement s = Required \<and> st_size s = 0)
                  (''required structure has no validated size: '' @ st_name s) r;
            r = cvWarning (st_size s \<noteq> 0 \<and> st_evidence s = [])
                  (''resolved structure layout is missing validation evidence: '' @ st_name s) r;
            r = cvWarning (st_size s \<noteq> 0 \<and> isNonProductionEvidence (st_evidence s))
                  (''resolved structure layout uses non-production validation evidence: ''
                     @ st_name s) r
        in foldl (validateField s) r (st_fields s))"

definition validateRuntimeContract :: "runtime_contract \<Rightarrow> contract_validation" where
  "validateRuntimeContract contract =
     (let r = \<lparr>cv_valid = False, cv_errors = [], cv_warnings = []\<rparr>;
          r = cvError (c_product contract = ProductUnknown) ''runtime product is unknown'' r;
          r = cvError (c_version contract = []) ''runtime version is empty'' r;
          r = cvError (c_requiredCapabilities contract = [])
                ''runtime contract has no required capabilities'' r;
          r = cvError (c_requiredApiSurfaceMethods contract \<le> 0)
                ''runtime contract has no required API surface method count'' r;
          r = cvError (c_requiredCommandSurfaceEntries contract \<le> 0)
                ''runtime contract has no required command surface entry count'' r;
          r = foldl validateBinding r (c_bindings contract);
          r = foldl validateStructure r (c_structures contract)
      in r\<lparr>cv_valid := (cv_errors r = [])\<rparr>)"

section \<open>The production gate\<close>

definition hasCapability :: "probe_result \<Rightarrow> capability \<Rightarrow> bool" where
  "hasCapability probe capability \<longleftrightarrow> capability \<in> set (pr_capabilities probe)"

fun hasProductionCommandEvidence :: "string list \<Rightarrow> command_evidence list \<Rightarrow> bool" where
  "hasProductionCommandEvidence [] evidenceEntries = True"
| "hasProductionCommandEvidence (entry # rest) evidenceEntries =
     (if \<not> isProductionCommandEvidenceStatus (commandEvidenceStatusFor evidenceEntries entry)
      then False else hasProductionCommandEvidence rest evidenceEntries)"

definition canClaimProductionSupport :: "probe_result \<Rightarrow> runtime_contract \<Rightarrow> bool" where
  "canClaimProductionSupport probe contract =
     (if \<not> pr_supported probe then False
      else if \<not> cv_valid (validateRuntimeContract contract) then False
      else if contractProductionEvidenceErrors contract \<noteq> [] then False
      else if pr_apiSurfaceMethods probe < c_requiredApiSurfaceMethods contract then False
      else if pr_commandSurfaceEntries probe < c_requiredCommandSurfaceEntries contract then False
      else let commandSurface = makeBWAPICommandSurface in
        if \<not> list_all (containsCommandSurfaceEntry (pr_unitCommands probe))
               (unitCommands commandSurface) then False
        else if \<not> list_all (containsCommandSurfaceEntry (pr_gameActions probe))
               (gameActions commandSurface) then False
        else if \<not> hasProductionCommandEvidence (unitCommands commandSurface)
               (pr_unitCommandEvidence probe) then False
        else if \<not> hasProductionCommandEvidence (gameActions commandSurface)
               (pr_gameActionEvidence probe) then False
        else list_all (hasCapability probe) (c_requiredCapabilities contract))"

section \<open>What validation decides\<close>

lemma cvError_errors [simp]: "cv_errors (cvError c m r) = cv_errors r @ (if c then [m] else [])"
  by (simp add: cvError_def)

lemma cvWarning_errors [simp]: "cv_errors (cvWarning c m r) = cv_errors r"
  by (simp add: cvWarning_def)

lemma cvError_warnings [simp]: "cv_warnings (cvError c m r) = cv_warnings r"
  by (simp add: cvError_def)

lemma cvWarning_warnings [simp]:
  "cv_warnings (cvWarning c m r) = cv_warnings r @ (if c then [m] else [])"
  by (simp add: cvWarning_def)

text \<open>A fold that only appends: nothing is reported exactly when no step reports.\<close>

lemma foldl_silent:
  assumes "\<And>r x. out (step r x) = [] \<longleftrightarrow> out r = [] \<and> ok x"
  shows "out (foldl step r xs) = [] \<longleftrightarrow> out r = [] \<and> (\<forall>x\<in>set xs. ok x)"
  by (induction xs arbitrary: r) (auto simp: assms)

definition binding_ok :: "runtime_binding \<Rightarrow> bool" where
  "binding_ok b \<longleftrightarrow> b_name b \<noteq> [] \<and> (b_requirement b = Required \<longrightarrow> b_resolved b)"

definition field_ok :: "structure_layout \<Rightarrow> structure_field \<Rightarrow> bool" where
  "field_ok s f \<longleftrightarrow> f_name f \<noteq> [] \<and> (st_requirement s = Required \<longrightarrow> f_resolved f)
     \<and> (f_resolved f \<longrightarrow> f_size f \<noteq> 0)"

definition structure_ok :: "structure_layout \<Rightarrow> bool" where
  "structure_ok s \<longleftrightarrow> st_name s \<noteq> [] \<and> (st_requirement s = Required \<longrightarrow> st_size s \<noteq> 0)
     \<and> (\<forall>f\<in>set (st_fields s). field_ok s f)"

definition contract_ok :: "runtime_contract \<Rightarrow> bool" where
  "contract_ok c \<longleftrightarrow> c_product c \<noteq> ProductUnknown \<and> c_version c \<noteq> []
     \<and> c_requiredCapabilities c \<noteq> [] \<and> 0 < c_requiredApiSurfaceMethods c
     \<and> 0 < c_requiredCommandSurfaceEntries c
     \<and> (\<forall>b\<in>set (c_bindings c). binding_ok b) \<and> (\<forall>s\<in>set (c_structures c). structure_ok s)"

lemma validateBinding_errors:
  "cv_errors (validateBinding r b) = [] \<longleftrightarrow> cv_errors r = [] \<and> binding_ok b"
  by (auto simp: validateBinding_def binding_ok_def)

lemma validateField_errors:
  "cv_errors (validateField s r f) = [] \<longleftrightarrow> cv_errors r = [] \<and> field_ok s f"
  by (auto simp: validateField_def field_ok_def Let_def)

lemma validateStructure_errors:
  "cv_errors (validateStructure r s) = [] \<longleftrightarrow> cv_errors r = [] \<and> structure_ok s"
proof (cases "st_name s = []")
  case True
  then show ?thesis by (simp add: validateStructure_def structure_ok_def)
next
  case False
  then show ?thesis
    by (auto simp: validateStructure_def structure_ok_def Let_def
        foldl_silent [where ok = "field_ok s", OF validateField_errors])
qed

lemma validate_errors_Nil_iff:
  "cv_errors (validateRuntimeContract c) = [] \<longleftrightarrow> contract_ok c"
  by (auto simp: validateRuntimeContract_def Let_def contract_ok_def
      foldl_silent [where ok = structure_ok, OF validateStructure_errors]
      foldl_silent [where ok = binding_ok, OF validateBinding_errors])

lemma validate_valid_iff: "cv_valid (validateRuntimeContract c) \<longleftrightarrow> contract_ok c"
proof -
  have "cv_valid (validateRuntimeContract c) \<longleftrightarrow> cv_errors (validateRuntimeContract c) = []"
    by (simp add: validateRuntimeContract_def Let_def)
  then show ?thesis by (simp add: validate_errors_Nil_iff)
qed

section \<open>What the audit decides\<close>

definition evidence_proves :: "string \<Rightarrow> string \<Rightarrow> bool" where
  "evidence_proves evidence expected \<longleftrightarrow> expected \<noteq> [] \<and> evidenceProofLine evidence = expected"

lemma production_not_nonproduction:
  "isProductionEvidence e \<Longrightarrow> \<not> isNonProductionEvidence e"
  by (auto simp: isProductionEvidence_def isNonProductionEvidence_def starts_with_iff)

lemma evidenceProofLine_Nil: "\<not> isProductionEvidence e \<Longrightarrow> evidenceProofLine e = []"
  by (simp add: evidenceProofLine_def)

lemma addProductionEvidenceError_Nil_iff:
  "addProductionEvidenceError es subj e ex = [] \<longleftrightarrow> es = [] \<and> evidence_proves e ex"
proof (cases "isProductionEvidence e")
  case True
  then have "e \<noteq> []" by (auto simp: isProductionEvidence_def starts_with_def)
  with True show ?thesis
    using production_not_nonproduction [OF True]
    by (auto simp: addProductionEvidenceError_def evidence_proves_def Let_def)
next
  case False
  then show ?thesis
    by (auto simp: addProductionEvidenceError_def evidence_proves_def evidenceProofLine_Nil)
qed

definition audited_binding :: "runtime_binding \<Rightarrow> bool" where
  "audited_binding b \<longleftrightarrow> (b_resolved b \<longrightarrow>
     evidence_proves (b_evidence b) (expectedProductionProofForBinding (b_name b) (b_kind b)))"

definition audited_field :: "string \<Rightarrow> structure_field \<Rightarrow> bool" where
  "audited_field sn f \<longleftrightarrow> (f_resolved f \<longrightarrow>
     evidence_proves (f_evidence f) (expectedProductionProofForField sn (f_name f)))"

definition audited_structure :: "structure_layout \<Rightarrow> bool" where
  "audited_structure s \<longleftrightarrow>
     (st_size s \<noteq> 0 \<longrightarrow>
        evidence_proves (st_evidence s) (expectedProductionProofForStructure (st_name s)))
   \<and> (\<forall>f\<in>set (st_fields s). audited_field (st_name s) f)"

definition audited_contract :: "runtime_contract \<Rightarrow> bool" where
  "audited_contract c \<longleftrightarrow> (\<forall>b\<in>set (c_bindings c). audited_binding b)
     \<and> (\<forall>s\<in>set (c_structures c). audited_structure s)"

lemma auditBinding_Nil: "auditBinding es b = [] \<longleftrightarrow> es = [] \<and> audited_binding b"
  by (auto simp: auditBinding_def audited_binding_def addProductionEvidenceError_Nil_iff)

lemma auditField_Nil: "auditField sn es f = [] \<longleftrightarrow> es = [] \<and> audited_field sn f"
  by (auto simp: auditField_def audited_field_def addProductionEvidenceError_Nil_iff)

lemmas audit_field_fold =
  foldl_silent [where out = "\<lambda>e. e", OF auditField_Nil]

lemma auditStructure_Nil: "auditStructure es s = [] \<longleftrightarrow> es = [] \<and> audited_structure s"
  by (auto simp: auditStructure_def audited_structure_def Let_def audit_field_fold
      addProductionEvidenceError_Nil_iff)

lemma evidence_errors_Nil_iff: "contractProductionEvidenceErrors c = [] \<longleftrightarrow> audited_contract c"
  by (simp add: contractProductionEvidenceErrors_def audited_contract_def
      foldl_silent [where out = "\<lambda>e. e", OF auditStructure_Nil]
      foldl_silent [where out = "\<lambda>e. e", OF auditBinding_Nil])

lemma hasProductionCommandEvidence_iff:
  "hasProductionCommandEvidence ns es \<longleftrightarrow>
   (\<forall>n\<in>set ns. commandEvidenceStatusFor es n = LiveProven)"
  by (induction ns) (auto simp: isProductionCommandEvidenceStatus_def)

text \<open>The gate as one conjunction: the specification the early returns implement.\<close>

lemma canClaim_iff:
  "canClaimProductionSupport probe c \<longleftrightarrow>
     pr_supported probe \<and> contract_ok c \<and> audited_contract c
   \<and> c_requiredApiSurfaceMethods c \<le> pr_apiSurfaceMethods probe
   \<and> c_requiredCommandSurfaceEntries c \<le> pr_commandSurfaceEntries probe
   \<and> set unitCommandNames \<subseteq> set (pr_unitCommands probe)
   \<and> set gameActionNames \<subseteq> set (pr_gameActions probe)
   \<and> (\<forall>n\<in>set unitCommandNames.
        commandEvidenceStatusFor (pr_unitCommandEvidence probe) n = LiveProven)
   \<and> (\<forall>n\<in>set gameActionNames.
        commandEvidenceStatusFor (pr_gameActionEvidence probe) n = LiveProven)
   \<and> set (c_requiredCapabilities c) \<subseteq> set (pr_capabilities probe)"
  by (auto simp: canClaimProductionSupport_def validate_valid_iff evidence_errors_Nil_iff
      hasProductionCommandEvidence_iff hasCapability_def list_all_iff Let_def not_less)

end
