(* ===== verification/Contract_Properties.thy ===== *)
theory Contract_Properties
  imports Runtime_Contract
begin

text \<open>
  What the production gate lets through: the validation and the audit as exact predicates, the
  evidence that can never pass, and a completed parity contract that does pass, so the gate is
  neither vacuous nor closed.
\<close>

section \<open>Completing a contract\<close>

definition complete_binding :: "runtime_binding \<Rightarrow> runtime_binding" where
  "complete_binding b =
     b\<lparr>b_resolved := True, b_evidence := expectedProductionProofForBinding (b_name b) (b_kind b)\<rparr>"

definition complete_field :: "string \<Rightarrow> structure_field \<Rightarrow> structure_field" where
  "complete_field sn f =
     f\<lparr>f_resolved := True, f_size := 4,
       f_evidence := expectedProductionProofForField sn (f_name f)\<rparr>"

definition complete_structure :: "structure_layout \<Rightarrow> structure_layout" where
  "complete_structure s =
     s\<lparr>st_size := 64, st_evidence := expectedProductionProofForStructure (st_name s),
       st_fields := map (complete_field (st_name s)) (st_fields s)\<rparr>"

definition complete :: "runtime_contract \<Rightarrow> runtime_contract" where
  "complete c =
     c\<lparr>c_version := (if c_version c = [] then ''1.23'' else c_version c),
       c_bindings := map complete_binding (c_bindings c),
       c_structures := map complete_structure (c_structures c)\<rparr>"

definition proven :: "string list \<Rightarrow> command_evidence list" where
  "proven names = map (\<lambda>n. makeEvidence n LiveProven ''live'') names"

definition full_probe :: "runtime_contract \<Rightarrow> probe_result" where
  "full_probe c =
     default_probe_result\<lparr>pr_supported := True,
       pr_apiSurfaceMethods := c_requiredApiSurfaceMethods c,
       pr_commandSurfaceEntries := c_requiredCommandSurfaceEntries c,
       pr_unitCommands := unitCommandNames, pr_gameActions := gameActionNames,
       pr_unitCommandEvidence := proven unitCommandNames,
       pr_gameActionEvidence := proven gameActionNames,
       pr_capabilities := c_requiredCapabilities c\<rparr>"

lemma complete_contract_ok: "contract_ok (complete (makeRemasteredParityContract v))"
proof -
  have "contract_ok (complete (makeRemasteredParityContract v))
    = contract_ok (complete (makeRemasteredParityContract ''1''))"
    by (simp add: contract_ok_def complete_def makeRemasteredParityContract_def)
  also have "\<dots>" by code_simp
  finally show ?thesis .
qed

lemma complete_audited: "audited_contract (complete (makeRemasteredParityContract v))"
proof -
  have "audited_contract (complete (makeRemasteredParityContract v))
    = audited_contract (complete (makeRemasteredParityContract ''1''))"
    by (simp add: audited_contract_def complete_def makeRemasteredParityContract_def)
  also have "\<dots>" by code_simp
  finally show ?thesis .
qed

lemma complete_1161:
  "contract_ok (complete makeBroodWar1161ParityContract)"
  "audited_contract (complete makeBroodWar1161ParityContract)"
  by code_simp+

lemma proven_status: "n \<in> set names \<Longrightarrow> commandEvidenceStatusFor (proven names) n = LiveProven"
  by (simp add: proven_def commandEvidenceStatusFor_map makeEvidence_def)

lemma full_probe_claims:
  assumes "contract_ok c" and "audited_contract c"
  shows "canClaimProductionSupport (full_probe c) c"
  using assms by (simp add: canClaim_iff full_probe_def proven_status)

lemma fixture_not_proof: "isNonProductionEvidence e \<Longrightarrow> \<not> evidence_proves e p"
  using production_not_nonproduction [of e] evidenceProofLine_Nil [of e]
  by (auto simp: evidence_proves_def)

lemma fixture_not_audited: "contractContainsFixtureEvidence c \<Longrightarrow> \<not> audited_contract c"
  using fixture_not_proof
  by (fastforce simp: contractContainsFixtureEvidence_def audited_contract_def
      audited_binding_def audited_structure_def audited_field_def list_ex_iff)

section \<open>Properties\<close>

text \<open>
  C1. The production gate is exactly this conjunction: the backend reports support, the contract
  validates, every resolved entry carries the production proof its name calls for, the method and
  entry counts are reached, and every command and action of the surface is present and live
  proven, with all required capabilities.
\<close>

theorem production_gate_exact:
  "canClaimProductionSupport probe c \<longleftrightarrow>
     pr_supported probe \<and> contract_ok c \<and> audited_contract c
   \<and> c_requiredApiSurfaceMethods c \<le> pr_apiSurfaceMethods probe
   \<and> c_requiredCommandSurfaceEntries c \<le> pr_commandSurfaceEntries probe
   \<and> set unitCommandNames \<subseteq> set (pr_unitCommands probe)
   \<and> set gameActionNames \<subseteq> set (pr_gameActions probe)
   \<and> commandEvidenceStatusFor (pr_unitCommandEvidence probe) ` set unitCommandNames \<subseteq> {LiveProven}
   \<and> commandEvidenceStatusFor (pr_gameActionEvidence probe) ` set gameActionNames \<subseteq> {LiveProven}
   \<and> set (c_requiredCapabilities c) \<subseteq> set (pr_capabilities probe)"
  by (simp only: canClaim_iff image_subset_iff singleton_iff)

text \<open>
  Validation reports no error exactly for a well-formed contract, and the audit none exactly
  for a contract whose resolved entries are all backed by their own production proof; either list
  of errors closes the gate.
\<close>

theorem validation_and_audit_exact:
  "(cv_errors (validateRuntimeContract c) = []) = contract_ok c
   \<and> cv_valid (validateRuntimeContract c) = contract_ok c
   \<and> (contractProductionEvidenceErrors c = []) = audited_contract c
   \<and> (contract_ok c \<and> audited_contract c) = canClaimProductionSupport (full_probe c) c"
proof -
  have "(contract_ok c \<and> audited_contract c) = canClaimProductionSupport (full_probe c) c"
    using full_probe_claims canClaim_iff by blast
  then show ?thesis
    by (intro conjI validate_errors_Nil_iff validate_valid_iff evidence_errors_Nil_iff) simp
qed

text \<open>
  The gate can be passed: every binding, structure and field of both parity contracts has an
  accepted production proof, so the contract completed with those proofs is claimed by a backend
  that reports the whole surface live proven; left as shipped, with nothing resolved, neither
  contract can be claimed by any backend.
\<close>

theorem parity_contracts_reachable:
  "canClaimProductionSupport (full_probe (complete (makeRemasteredParityContract v)))
     (complete (makeRemasteredParityContract v))
   \<and> canClaimProductionSupport (full_probe (complete makeBroodWar1161ParityContract))
     (complete makeBroodWar1161ParityContract)
   \<and> \<not> canClaimProductionSupport probe (makeRemasteredParityContract v)
   \<and> \<not> canClaimProductionSupport probe makeBroodWar1161ParityContract"
proof -
  have "\<not> contract_ok (makeRemasteredParityContract ''1'')" by code_simp
  moreover have "contract_ok (makeRemasteredParityContract v)
      \<longrightarrow> contract_ok (makeRemasteredParityContract ''1'')"
    by (simp add: contract_ok_def makeRemasteredParityContract_def)
  moreover have "\<not> contract_ok makeBroodWar1161ParityContract" by code_simp
  ultimately show ?thesis
    using canClaim_iff
    by (intro conjI full_probe_claims complete_contract_ok complete_audited complete_1161) blast+
qed

text \<open>
  Development evidence never claims production support: a contract that still holds a fixture,
  mock, unit-test, diagnostic or static-anchor entry is refused, and so is a probe that carries
  the built-in command evidence of the surface, whatever else it reports.
\<close>

theorem development_evidence_refused:
  assumes "contractContainsFixtureEvidence c
    \<or> pr_unitCommandEvidence probe = unitCommandEvidence makeBWAPICommandSurface
    \<or> pr_gameActionEvidence probe = gameActionEvidence makeBWAPICommandSurface"
  shows "\<not> canClaimProductionSupport probe c"
  using assms
proof (elim disjE)
  assume "contractContainsFixtureEvidence c"
  then show ?thesis using fixture_not_audited by (auto simp: canClaim_iff)
next
  assume e: "pr_unitCommandEvidence probe = unitCommandEvidence makeBWAPICommandSurface"
  have "''Build'' \<in> set unitCommandNames" by code_simp
  with e show ?thesis
    using builtin_unit_evidence [of "''Build''"] by (force simp: canClaim_iff)
next
  assume e: "pr_gameActionEvidence probe = gameActionEvidence makeBWAPICommandSurface"
  have "''pauseGame'' \<in> set gameActionNames" by code_simp
  with e show ?thesis
    using builtin_action_evidence [of "''pauseGame''"] by (force simp: canClaim_iff split: if_splits)
qed

definition mocked_contract :: runtime_contract where
  "mocked_contract =
     (complete makeBroodWar1161ParityContract)\<lparr>c_bindings :=
        [(requiredBinding ''BW::BWDATA::Game'' DataAddress)\<lparr>b_resolved := True,
           b_evidence := ''mock:replay''\<rparr>]\<rparr>"

theorem development_evidence_refused_witness:
  "\<not> canClaimProductionSupport (full_probe mocked_contract) mocked_contract"
proof (rule development_evidence_refused)
  have "contractContainsFixtureEvidence mocked_contract" by code_simp
  then show "contractContainsFixtureEvidence mocked_contract
    \<or> pr_unitCommandEvidence (full_probe mocked_contract)
        = unitCommandEvidence makeBWAPICommandSurface
    \<or> pr_gameActionEvidence (full_probe mocked_contract)
        = gameActionEvidence makeBWAPICommandSurface" ..
qed

end
