(* ===== verification/Fifo.thy ===== *)
theory Fifo
  imports Prelude
begin

text \<open>
  The contract a command queue of the runtime offers its clients, whatever holds the entries: the
  in-memory \<open>RuntimeCommandQueue\<close> and the file-backed resident queue both interpret it.
  A queue is seen through the list of its pending entries; putting appends one entry or is refused
  and changes nothing, consuming hands out a prefix and leaves the rest.
  The client lemma is about any sequence of operations: what went in and was accepted comes out
  in that order, once, or is still pending.
\<close>

datatype ('a, 'k) fifo_op = Put 'a | Consume 'k

record ('a, 'q) fifo_trace =
  tr_accepted :: "'a list"
  tr_consumed :: "'a list"
  tr_state :: 'q

fun fifo_run ::
  "('a \<Rightarrow> 'q \<Rightarrow> bool) \<Rightarrow> ('a \<Rightarrow> 'q \<Rightarrow> 'q) \<Rightarrow> ('k \<Rightarrow> 'q \<Rightarrow> 'a list \<times> 'q) \<Rightarrow> 'q
   \<Rightarrow> ('a, 'k) fifo_op list \<Rightarrow> ('a, 'q) fifo_trace" where
  "fifo_run accepts put consume q [] = \<lparr>tr_accepted = [], tr_consumed = [], tr_state = q\<rparr>"
| "fifo_run accepts put consume q (Put x # ops) =
     (let t = fifo_run accepts put consume (put x q) ops
      in t\<lparr>tr_accepted := (if accepts x q then [x] else []) @ tr_accepted t\<rparr>)"
| "fifo_run accepts put consume q (Consume k # ops) =
     (let t = fifo_run accepts put consume (snd (consume k q)) ops
      in t\<lparr>tr_consumed := fst (consume k q) @ tr_consumed t\<rparr>)"

locale fifo =
  fixes inv :: "'q \<Rightarrow> bool" and contents :: "'q \<Rightarrow> 'a list"
    and accepts :: "'a \<Rightarrow> 'q \<Rightarrow> bool" and put :: "'a \<Rightarrow> 'q \<Rightarrow> 'q"
    and consume :: "'k \<Rightarrow> 'q \<Rightarrow> 'a list \<times> 'q"
  assumes put_accepted: "inv q \<Longrightarrow> accepts x q \<Longrightarrow> contents (put x q) = contents q @ [x]"
    and put_refused: "inv q \<Longrightarrow> \<not> accepts x q \<Longrightarrow> put x q = q"
    and put_inv: "inv q \<Longrightarrow> inv (put x q)"
    and consume_contents:
      "inv q \<Longrightarrow> fst (consume k q) @ contents (snd (consume k q)) = contents q"
    and consume_inv: "inv q \<Longrightarrow> inv (snd (consume k q))"
begin

lemma run_inv: "inv q \<Longrightarrow> inv (tr_state (fifo_run accepts put consume q ops))"
proof (induction ops arbitrary: q)
  case Nil
  then show ?case by simp
next
  case (Cons op ops)
  then show ?case by (cases op) (simp_all add: Let_def put_inv consume_inv)
qed

lemma run_conserves:
  "inv q \<Longrightarrow>
   contents q @ tr_accepted (fifo_run accepts put consume q ops)
   = tr_consumed (fifo_run accepts put consume q ops)
     @ contents (tr_state (fifo_run accepts put consume q ops))"
proof (induction ops arbitrary: q)
  case Nil
  then show ?case by simp
next
  case (Cons op ops)
  show ?case
  proof (cases op)
    case (Put x)
    have "inv (put x q)" using Cons.prems by (rule put_inv)
    note IH = Cons.IH [OF this]
    show ?thesis
    proof (cases "accepts x q")
      case True
      with IH Cons.prems Put show ?thesis by (simp add: Let_def put_accepted)
    next
      case False
      with IH Cons.prems Put show ?thesis by (simp add: Let_def put_refused)
    qed
  next
    case (Consume k)
    have "inv (snd (consume k q))" using Cons.prems by (rule consume_inv)
    note IH = Cons.IH [OF this]
    have "contents q = fst (consume k q) @ contents (snd (consume k q))"
      using consume_contents [OF Cons.prems] by simp
    with IH Consume show ?thesis by (simp add: Let_def)
  qed
qed

lemma run_never_invents:
  "inv q \<Longrightarrow> x \<in> set (tr_consumed (fifo_run accepts put consume q ops)) \<Longrightarrow>
   x \<in> set (contents q) \<or> x \<in> set (tr_accepted (fifo_run accepts put consume q ops))"
  by (drule run_conserves [where ops = ops], drule arg_cong [where f = set]) auto

end

end
