(* ===== verification/Command_Queue.thy ===== *)
theory Command_Queue
  imports Command_Surface Fifo
begin

text \<open>
  The in-memory command queue (\<open>RuntimeCommandQueue.h/.cpp\<close>): requests are admitted when they name
  a command of the surface (and, for unit commands, a non-negative target), kept in order, and
  handed over all at once by \<open>drain\<close>. Integers of a request are C++ \<open>int\<close> values.
\<close>

datatype command_kind = UnitCommand | GameAction

record command_request =
  rq_kind :: command_kind
  rq_name :: string
  rq_targetUnitId :: int
  rq_arguments :: "int list"

record queue_result =
  qr_accepted :: bool
  qr_reason :: string
  qr_queueSize :: nat

record command_queue =
  cq_surface :: command_surface
  cq_pending :: "command_request list"

fun command_kind_toString :: "command_kind \<Rightarrow> string" where
  "command_kind_toString UnitCommand = ''unit-command''"
| "command_kind_toString GameAction = ''game-action''"

definition rejected :: "string \<Rightarrow> nat \<Rightarrow> queue_result" where
  "rejected reason queueSize =
     \<lparr>qr_accepted = False, qr_reason = reason, qr_queueSize = queueSize\<rparr>"

definition accepted :: "nat \<Rightarrow> queue_result" where
  "accepted queueSize = \<lparr>qr_accepted = True, qr_reason = [], qr_queueSize = queueSize\<rparr>"

definition new_command_queue :: command_queue where
  "new_command_queue = \<lparr>cq_surface = makeBWAPICommandSurface, cq_pending = []\<rparr>"

definition push_pending :: "command_request \<Rightarrow> command_queue \<Rightarrow> queue_result \<times> command_queue" where
  "push_pending request q =
     (let q = q\<lparr>cq_pending := cq_pending q @ [request]\<rparr>
      in (accepted (length (cq_pending q)), q))"

definition enqueue :: "command_request \<Rightarrow> command_queue \<Rightarrow> queue_result \<times> command_queue" where
  "enqueue request q =
     (let n = length (cq_pending q); name = rq_name request in
      if name = [] then (rejected ''runtime command name is empty'' n, q)
      else case rq_kind request of
        UnitCommand \<Rightarrow>
          if \<not> containsCommandSurfaceEntry (unitCommands (cq_surface q)) name
          then (rejected (''unknown BWAPI unit command: '' @ name) n, q)
          else if rq_targetUnitId request < 0
          then (rejected ''runtime unit command target id is negative'' n, q)
          else push_pending request q
      | GameAction \<Rightarrow>
          if \<not> containsCommandSurfaceEntry (gameActions (cq_surface q)) name
          then (rejected (''unknown BWAPI game action: '' @ name) n, q)
          else push_pending request q)"

definition drain :: "command_queue \<Rightarrow> command_request list \<times> command_queue" where
  "drain q = (cq_pending q, q\<lparr>cq_pending := []\<rparr>)"

definition cq_empty :: "command_queue \<Rightarrow> bool" where
  "cq_empty q \<longleftrightarrow> cq_pending q = []"

definition cq_size :: "command_queue \<Rightarrow> nat" where
  "cq_size q = length (cq_pending q)"

section \<open>Admission and the queue invariant\<close>

definition admissible :: "command_request \<Rightarrow> bool" where
  "admissible r \<longleftrightarrow>
     (case rq_kind r of
        UnitCommand \<Rightarrow> rq_name r \<in> set unitCommandNames \<and> 0 \<le> rq_targetUnitId r
      | GameAction \<Rightarrow> rq_name r \<in> set gameActionNames)"

definition queue_inv :: "command_queue \<Rightarrow> bool" where
  "queue_inv q \<longleftrightarrow> cq_surface q = makeBWAPICommandSurface
     \<and> (\<forall>r\<in>set (cq_pending q). admissible r)"

lemma queue_inv_new: "queue_inv new_command_queue"
  by (simp add: queue_inv_def new_command_queue_def)

lemma enqueue_accepted:
  assumes "queue_inv q"
  shows "qr_accepted (fst (enqueue r q)) \<longleftrightarrow> admissible r"
  using assms names_nonempty
  by (cases "rq_kind r")
    (auto simp: enqueue_def queue_inv_def admissible_def push_pending_def accepted_def
      rejected_def Let_def)

lemma enqueue_state:
  assumes "queue_inv q"
  shows "snd (enqueue r q) = (if admissible r then q\<lparr>cq_pending := cq_pending q @ [r]\<rparr> else q)"
  using assms names_nonempty
  by (cases "rq_kind r")
    (auto simp: enqueue_def queue_inv_def admissible_def push_pending_def Let_def)

lemma enqueue_size:
  assumes "queue_inv q"
  shows "qr_queueSize (fst (enqueue r q)) = cq_size (snd (enqueue r q))"
  using assms
  by (cases "rq_kind r")
    (auto simp: enqueue_def push_pending_def accepted_def rejected_def cq_size_def Let_def)

lemma enqueue_inv: "queue_inv q \<Longrightarrow> queue_inv (snd (enqueue r q))"
  by (subst enqueue_state) (auto simp: queue_inv_def)

lemma drain_inv: "queue_inv q \<Longrightarrow> queue_inv (snd (drain q))"
  by (simp add: drain_def queue_inv_def)

interpretation cq: fifo queue_inv cq_pending "\<lambda>r q. qr_accepted (fst (enqueue r q))"
    "\<lambda>r q. snd (enqueue r q)" "\<lambda>_ :: unit. drain"
  by unfold_locales
    (simp_all add: enqueue_accepted enqueue_state drain_def enqueue_inv drain_inv,
     auto simp: queue_inv_def)

section \<open>Properties\<close>

definition queue_run ::
  "command_queue \<Rightarrow> (command_request, unit) fifo_op list \<Rightarrow> (command_request, command_queue) fifo_trace"
  where
  "queue_run = fifo_run (\<lambda>r q. qr_accepted (fst (enqueue r q))) (\<lambda>r q. snd (enqueue r q))
     (\<lambda>_. drain)"

lemma queue_run_inv: "queue_inv q \<Longrightarrow> queue_inv (tr_state (queue_run q ops))"
  unfolding queue_run_def by (rule cq.run_inv)

lemma queue_run_accepted:
  "queue_inv q \<Longrightarrow>
   tr_accepted (queue_run q ops) = [r. Put r \<leftarrow> ops, admissible r]"
  unfolding queue_run_def
proof (induction ops arbitrary: q)
  case Nil
  then show ?case by simp
next
  case (Cons op ops)
  then show ?case
    by (cases op) (simp_all add: Let_def enqueue_accepted enqueue_inv drain_inv)
qed

text \<open>
  C34. From a new queue, after any interleaving of \<open>enqueue\<close> and \<open>drain\<close> calls, the requests
  drained so far followed by the requests still pending are exactly the admissible requests that
  were enqueued, in their order: none is lost, duplicated, reordered or invented, and every
  pending request names a known command.
\<close>

theorem queue_delivers_admissible_in_order:
  "tr_consumed (queue_run new_command_queue ops)
     @ cq_pending (tr_state (queue_run new_command_queue ops))
   = [r. Put r \<leftarrow> ops, admissible r]
   \<and> queue_inv (tr_state (queue_run new_command_queue ops))"
proof -
  have "cq_pending new_command_queue = []"
    by (simp add: new_command_queue_def)
  moreover note cq.run_conserves [OF queue_inv_new, of ops, folded queue_run_def]
  ultimately show ?thesis
    by (simp add: queue_run_accepted [OF queue_inv_new] queue_run_inv [OF queue_inv_new])
qed

end
