(* ===== verification/Command_Encoder.thy ===== *)
theory Command_Encoder
  imports Command_Queue
begin

text \<open>
  The turn-buffer encoder (\<open>RuntimeCommandEncoder.h/.cpp\<close>): from a command request to the bytes
  StarCraft's command queue receives, or a rejection with its reason. The helpers that return
  their failure through an out-parameter are modelled with continuations: \<open>with_arg\<close>,
  \<open>with_count\<close>, \<open>with_target\<close> and \<open>with_queued\<close> are "return the failure, or go on".
\<close>

record encoded_command =
  enc_encoded :: bool
  enc_bytes :: "u8 list"
  enc_reason :: string
  enc_warnings :: "string list"

definition reject :: "string \<Rightarrow> encoded_command" where
  "reject reason =
     \<lparr>enc_encoded = False, enc_bytes = [], enc_reason = reason, enc_warnings = []\<rparr>"

definition accept :: "u8 list \<Rightarrow> encoded_command" where
  "accept bytes = \<lparr>enc_encoded = True, enc_bytes = bytes, enc_reason = [], enc_warnings = []\<rparr>"

definition add_warning :: "string \<Rightarrow> encoded_command \<Rightarrow> encoded_command" where
  "add_warning w e =
     (if enc_encoded e then e\<lparr>enc_warnings := enc_warnings e @ [w]\<rparr> else e)"

definition AttackOpcode :: int where "AttackOpcode = 0x15"
definition RightClickOpcode :: int where "RightClickOpcode = 0x14"
definition UnitTypeNone :: int where "UnitTypeNone = 228"
definition MaxSelectionCount :: nat where "MaxSelectionCount = 12"

definition int16_min :: int where "int16_min = - 32768"
definition int16_max :: int where "int16_max = 32767"
definition uint16_max :: int where "uint16_max = 65535"
definition uint8_max :: int where "uint8_max = 255"
definition int8_min :: int where "int8_min = - 128"
definition int8_max :: int where "int8_max = 127"
definition int32_max :: int where "int32_max = 2147483647"

lemmas limits = int16_min_def int16_max_def uint16_max_def uint8_max_def int8_min_def
  int8_max_def int32_max_def

section \<open>Argument checks\<close>

definition inRange :: "int \<Rightarrow> int \<Rightarrow> int \<Rightarrow> bool" where
  "inRange value lo hi \<longleftrightarrow> value \<ge> lo \<and> value \<le> hi"

definition readArg ::
  "command_request \<Rightarrow> nat \<Rightarrow> string \<Rightarrow> int \<Rightarrow> int \<Rightarrow> encoded_command + int" where
  "readArg request index label lo hi =
     (if index \<ge> length (rq_arguments request)
      then Inl (reject (''missing argument: '' @ label))
      else let value = rq_arguments request ! index in
        if \<not> inRange value lo hi
        then Inl (reject (label @ '' is out of range ['' @ int_to_dec lo @ '', '' @ int_to_dec hi
                            @ '']: '' @ int_to_dec value))
        else Inr value)"

definition requireArgCount :: "command_request \<Rightarrow> nat \<Rightarrow> nat \<Rightarrow> encoded_command option" where
  "requireArgCount request minCount maxCount =
     (let n = length (rq_arguments request) in
      if n < minCount \<or> n > maxCount
      then Some (reject (rq_name request @ '' expects ''
             @ (if minCount = maxCount then nat_to_dec minCount
                else nat_to_dec minCount @ ''..'' @ nat_to_dec maxCount)
             @ '' argument(s), got '' @ nat_to_dec n))
      else None)"

definition readQueued :: "command_request \<Rightarrow> nat \<Rightarrow> encoded_command + int" where
  "readQueued request index =
     (let args = rq_arguments request in
      if length args \<le> index then Inr 0
      else if length args \<noteq> index + 1
      then Inl (reject (rq_name request @ '' has unexpected extra argument(s)''))
      else if \<not> inRange (args ! index) 0 1 then Inl (reject ''queued flag must be 0 or 1'')
      else Inr (args ! index))"

definition with_arg ::
  "command_request \<Rightarrow> nat \<Rightarrow> string \<Rightarrow> int \<Rightarrow> int \<Rightarrow> (int \<Rightarrow> encoded_command) \<Rightarrow> encoded_command"
  where
  "with_arg request index label lo hi k =
     (case readArg request index label lo hi of Inl failure \<Rightarrow> failure | Inr value \<Rightarrow> k value)"

definition with_count ::
  "command_request \<Rightarrow> nat \<Rightarrow> nat \<Rightarrow> encoded_command \<Rightarrow> encoded_command" where
  "with_count request lo hi k =
     (case requireArgCount request lo hi of Some failure \<Rightarrow> failure | None \<Rightarrow> k)"

definition with_queued ::
  "command_request \<Rightarrow> nat \<Rightarrow> (int \<Rightarrow> encoded_command) \<Rightarrow> encoded_command" where
  "with_queued request index k =
     (case readQueued request index of Inl failure \<Rightarrow> failure | Inr queued \<Rightarrow> k queued)"

definition with_target :: "command_request \<Rightarrow> encoded_command \<Rightarrow> encoded_command" where
  "with_target request k =
     (if \<not> inRange (rq_targetUnitId request) 1 uint16_max
      then reject (rq_name request @ '' requires --unit to be a raw 16-bit BW UnitTarget id'')
      else k)"

section \<open>Byte appenders\<close>

definition appendU8 :: "u8 list \<Rightarrow> int \<Rightarrow> u8 list" where
  "appendU8 bytes value = bytes @ [word_of_int (value AND 0xff)]"

definition appendS8 :: "u8 list \<Rightarrow> int \<Rightarrow> u8 list" where
  "appendS8 bytes value = bytes @ [word_of_int (sint (word_of_int value :: 8 word))]"

definition appendU16LE :: "u8 list \<Rightarrow> int \<Rightarrow> u8 list" where
  "appendU16LE bytes value =
     (let encoded = (word_of_int value :: u16)
      in bytes @ [ucast (encoded AND 0xff)] @ [ucast (drop_bit 8 encoded AND 0xff)])"

definition appendS16LE :: "u8 list \<Rightarrow> int \<Rightarrow> u8 list" where
  "appendS16LE bytes value =
     appendU16LE bytes (uint (word_of_int (sint (word_of_int value :: 16 word)) :: u16))"

definition appendU32LE :: "u8 list \<Rightarrow> u32 \<Rightarrow> u8 list" where
  "appendU32LE bytes value =
     bytes @ [ucast (value AND 0xff)] @ [ucast (drop_bit 8 value AND 0xff)]
       @ [ucast (drop_bit 16 value AND 0xff)] @ [ucast (drop_bit 24 value AND 0xff)]"

definition appendPositionUnitTarget :: "u8 list \<Rightarrow> int \<Rightarrow> int \<Rightarrow> int \<Rightarrow> u8 list" where
  "appendPositionUnitTarget bytes x y unitTarget =
     appendU16LE (appendS16LE (appendS16LE bytes x) y) unitTarget"

section \<open>Command forms\<close>

definition encodeAttackTarget :: "int \<Rightarrow> int \<Rightarrow> int \<Rightarrow> int \<Rightarrow> int \<Rightarrow> encoded_command" where
  "encodeAttackTarget x y unitTarget order queued =
     (let bytes = appendU8 [] AttackOpcode;
          bytes = appendPositionUnitTarget bytes x y unitTarget;
          bytes = appendU16LE bytes UnitTypeNone;
          bytes = appendU8 bytes order;
          bytes = appendU8 bytes queued
      in accept bytes)"

definition encodeRightClickTarget :: "int \<Rightarrow> int \<Rightarrow> int \<Rightarrow> int \<Rightarrow> encoded_command" where
  "encodeRightClickTarget x y unitTarget queued =
     (let bytes = appendU8 [] RightClickOpcode;
          bytes = appendPositionUnitTarget bytes x y unitTarget;
          bytes = appendU8 bytes queued
      in accept bytes)"

definition encodePositionAttackCommand :: "command_request \<Rightarrow> int \<Rightarrow> encoded_command" where
  "encodePositionAttackCommand request order =
     with_count request 2 3
       (with_arg request 0 ''x'' int16_min int16_max (\<lambda>x.
        with_arg request 1 ''y'' int16_min int16_max (\<lambda>y.
        with_queued request 2 (\<lambda>queued. encodeAttackTarget x y 0 order queued))))"

definition encodeUnitAttackCommand :: "command_request \<Rightarrow> int \<Rightarrow> encoded_command" where
  "encodeUnitAttackCommand request order =
     with_count request 0 1
       (with_target request
         (with_queued request 0 (\<lambda>queued.
           encodeAttackTarget 0 0 (rq_targetUnitId request) order queued)))"

definition encodePositionAttackCommandUnqueued :: "command_request \<Rightarrow> int \<Rightarrow> encoded_command" where
  "encodePositionAttackCommandUnqueued request order =
     with_count request 2 2
       (with_arg request 0 ''x'' int16_min int16_max (\<lambda>x.
        with_arg request 1 ''y'' int16_min int16_max (\<lambda>y. encodeAttackTarget x y 0 order 0)))"

definition encodeUnitAttackCommandUnqueued :: "command_request \<Rightarrow> int \<Rightarrow> encoded_command" where
  "encodeUnitAttackCommandUnqueued request order =
     with_count request 0 0
       (with_target request (encodeAttackTarget 0 0 (rq_targetUnitId request) order 0))"

definition encodeRightClickPositionCommand :: "command_request \<Rightarrow> encoded_command" where
  "encodeRightClickPositionCommand request =
     with_count request 2 3
       (with_arg request 0 ''x'' int16_min int16_max (\<lambda>x.
        with_arg request 1 ''y'' int16_min int16_max (\<lambda>y.
        with_queued request 2 (\<lambda>queued. encodeRightClickTarget x y 0 queued))))"

definition encodeRightClickUnitCommand :: "command_request \<Rightarrow> encoded_command" where
  "encodeRightClickUnitCommand request =
     with_count request 0 1
       (with_target request
         (with_queued request 0 (\<lambda>queued.
           encodeRightClickTarget 0 0 (rq_targetUnitId request) queued)))"

definition encodeQueuedOpcodeCommand :: "command_request \<Rightarrow> int \<Rightarrow> encoded_command" where
  "encodeQueuedOpcodeCommand request opcode =
     with_count request 0 1
       (with_queued request 0 (\<lambda>queued. accept (appendU8 (appendU8 [] opcode) queued)))"

definition encodeUnusedByteCommand :: "command_request \<Rightarrow> int \<Rightarrow> encoded_command" where
  "encodeUnusedByteCommand request opcode =
     with_count request 0 0 (accept (appendU8 (appendU8 [] opcode) 0))"

definition encodeSingleOpcodeCommand :: "command_request \<Rightarrow> int \<Rightarrow> encoded_command" where
  "encodeSingleOpcodeCommand request opcode = with_count request 0 0 (accept (appendU8 [] opcode))"

definition encodeFixedQueuedOpcodeCommand ::
  "command_request \<Rightarrow> int \<Rightarrow> int \<Rightarrow> encoded_command" where
  "encodeFixedQueuedOpcodeCommand request opcode queued =
     with_count request 0 0 (accept (appendU8 (appendU8 [] opcode) queued))"

definition encodeTileAndUnitTypeCommand :: "command_request \<Rightarrow> int \<Rightarrow> encoded_command" where
  "encodeTileAndUnitTypeCommand request order =
     with_count request 3 3
       (with_arg request 0 ''tileX'' int16_min int16_max (\<lambda>tileX.
        with_arg request 1 ''tileY'' int16_min int16_max (\<lambda>tileY.
        with_arg request 2 ''unitType'' 0 uint16_max (\<lambda>unitType.
          let bytes = appendU8 [] 0x0c;
              bytes = appendU8 bytes order;
              bytes = appendS16LE bytes tileX;
              bytes = appendS16LE bytes tileY;
              bytes = appendU16LE bytes unitType
          in accept bytes))))"

definition encodeBuildCommand :: "command_request \<Rightarrow> encoded_command" where
  "encodeBuildCommand request =
     with_count request 4 4
       (with_arg request 3 ''buildOrder'' 0 uint8_max (\<lambda>order.
         add_warning
           ''Build is state-dependent in BWAPI; buildOrder must already be DroneStartBuild, PlaceBuilding, or PlaceProtossBuilding.''
           (encodeTileAndUnitTypeCommand
              (request\<lparr>rq_arguments := butlast (rq_arguments request)\<rparr>)
              (uint (word_of_int order :: u8)))))"

definition encodeType16Command ::
  "command_request \<Rightarrow> int \<Rightarrow> string \<Rightarrow> encoded_command" where
  "encodeType16Command request opcode label =
     with_count request 1 1
       (with_arg request 0 label 0 uint16_max (\<lambda>value.
          accept (appendU16LE (appendU8 [] opcode) value)))"

definition encodeType8Command ::
  "command_request \<Rightarrow> int \<Rightarrow> string \<Rightarrow> encoded_command" where
  "encodeType8Command request opcode label =
     with_count request 1 1
       (with_arg request 0 label 0 uint8_max (\<lambda>value.
          accept (appendU8 (appendU8 [] opcode) value)))"

definition cancelTrainBytes :: "int \<Rightarrow> encoded_command" where
  "cancelTrainBytes slot = accept (appendU8 (appendS8 (appendU8 [] 0x20) slot) 0)"

definition encodeCancelTrain :: "command_request \<Rightarrow> encoded_command" where
  "encodeCancelTrain request =
     with_count request 0 1
       (if rq_arguments request \<noteq> []
        then with_arg request 0 ''slot'' int8_min int8_max cancelTrainBytes
        else cancelTrainBytes (- 2))"

definition encodeUnitMorph :: "command_request \<Rightarrow> encoded_command" where
  "encodeUnitMorph request =
     add_warning
       ''Morph can be a unit morph or building morph in BWAPI; this encodes the unit-morph command form.''
       (encodeType16Command request 0x23 ''unitType'')"

definition encodeTrain :: "command_request \<Rightarrow> encoded_command" where
  "encodeTrain request =
     add_warning
       ''Train is state-dependent for larvae, morph-capable zerg units, carriers, and reavers; this encodes the TrainUnit command form.''
       (encodeType16Command request 0x1f ''unitType'')"

definition encodeUseTechPosition :: "command_request \<Rightarrow> encoded_command" where
  "encodeUseTechPosition request =
     with_count request 3 3
       (with_arg request 0 ''x'' int16_min int16_max (\<lambda>x.
        with_arg request 1 ''y'' int16_min int16_max (\<lambda>y.
        with_arg request 2 ''order'' 0 uint8_max (\<lambda>order.
          encodeAttackTarget x y 0 order 0))))"

definition encodeUseTechUnit :: "command_request \<Rightarrow> encoded_command" where
  "encodeUseTechUnit request =
     with_count request 1 1
       (with_target request
         (with_arg request 0 ''order'' 0 uint8_max (\<lambda>order.
           encodeAttackTarget 0 0 (rq_targetUnitId request) order 0)))"

definition encodeLoadCommand :: "command_request \<Rightarrow> encoded_command" where
  "encodeLoadCommand request =
     with_count request 1 2
       (with_target request
         (with_arg request 0 ''loadOrder'' 0 uint8_max (\<lambda>order.
           with_queued request 1 (\<lambda>queued.
             add_warning
               ''Load is state-dependent in BWAPI; loadOrder must already be PickupBunker, PickupTransport, or RightClick.''
               (encodeAttackTarget 0 0 (rq_targetUnitId request) order queued)))))"

definition encodeUnloadAllCommand :: "command_request \<Rightarrow> encoded_command" where
  "encodeUnloadAllCommand request =
     add_warning
       ''Unload_All is state-dependent in BWAPI; this encodes the bunker UnloadAll command form.''
       (encodeUnusedByteCommand request 0x28)"

definition encodeCancelMorphCommand :: "command_request \<Rightarrow> encoded_command" where
  "encodeCancelMorphCommand request =
     add_warning
       ''Cancel_Morph is state-dependent in BWAPI; this encodes the non-building CancelUnitMorph command form.''
       (encodeSingleOpcodeCommand request 0x19)"

definition Stim_Packs :: int where "Stim_Packs = 0"

definition encodeUseTechCommand :: "command_request \<Rightarrow> encoded_command" where
  "encodeUseTechCommand request =
     with_count request 1 1
       (with_arg request 0 ''tech'' 0 uint8_max (\<lambda>tech.
         if tech = Stim_Packs then accept (appendU8 [] 0x36)
         else reject ''Use_Tech requires live unit state for this tech; only Stim_Packs has a state-independent turn-buffer form''))"

definition encodeUnloadCommand :: "command_request \<Rightarrow> encoded_command" where
  "encodeUnloadCommand request =
     with_count request 0 0
       (with_target request (accept (appendU16LE (appendU8 [] 0x29) (rq_targetUnitId request))))"

definition encodeLiftCommand :: "command_request \<Rightarrow> encoded_command" where
  "encodeLiftCommand request =
     with_count request 0 0 (accept (appendU32LE (appendU8 [] 0x2f) 0))"

definition encodePingMinimap :: "command_request \<Rightarrow> encoded_command" where
  "encodePingMinimap request =
     with_count request 2 2
       (with_arg request 0 ''x'' int16_min int16_max (\<lambda>x.
        with_arg request 1 ''y'' int16_min int16_max (\<lambda>y.
          accept (appendS16LE (appendS16LE (appendU8 [] 0x58) x) y))))"

definition encodeSetAlliance :: "command_request \<Rightarrow> encoded_command" where
  "encodeSetAlliance request =
     with_count request 1 1
       (with_arg request 0 ''alliance'' 0 int32_max (\<lambda>alliance.
          accept (appendU32LE (appendU8 [] 0x0e) (word_of_int alliance))))"

definition encodeSetVision :: "command_request \<Rightarrow> encoded_command" where
  "encodeSetVision request =
     with_count request 1 1
       (with_arg request 0 ''vision'' 0 uint16_max (\<lambda>vision.
          accept (appendU16LE (appendU8 [] 0x0d) vision)))"

definition encodeGameAction :: "command_request \<Rightarrow> encoded_command" where
  "encodeGameAction request =
     (let name = rq_name request in
      if name = ''pauseGame'' then encodeSingleOpcodeCommand request 0x10
      else if name = ''resumeGame'' then encodeSingleOpcodeCommand request 0x11
      else if name = ''restartGame'' then encodeSingleOpcodeCommand request 0x08
      else if name = ''pingMinimap'' then encodePingMinimap request
      else if name = ''setAlliance'' then encodeSetAlliance request
      else if name = ''setVision'' then encodeSetVision request
      else reject (''game action is not a BW turn-buffer command: '' @ name))"

section \<open>Order identifiers (\<open>BWAPI::Orders::Enum\<close>)\<close>

definition Orders_Move :: int where "Orders_Move = 6"
definition Orders_Attack1 :: int where "Orders_Attack1 = 8"
definition Orders_AttackMove :: int where "Orders_AttackMove = 14"
definition Orders_Repair :: int where "Orders_Repair = 34"
definition Orders_PlaceAddon :: int where "Orders_PlaceAddon = 36"
definition Orders_RallyPointUnit :: int where "Orders_RallyPointUnit = 39"
definition Orders_RallyPointTile :: int where "Orders_RallyPointTile = 40"
definition Orders_Follow :: int where "Orders_Follow = 49"
definition Orders_BuildingLand :: int where "Orders_BuildingLand = 71"
definition Orders_Harvest1 :: int where "Orders_Harvest1 = 79"
definition Orders_MoveUnload :: int where "Orders_MoveUnload = 112"
definition Orders_Patrol :: int where "Orders_Patrol = 152"
definition Orders_CTFCOP2 :: int where "Orders_CTFCOP2 = 155"

section \<open>Dispatch\<close>

definition encodeRuntimeCommandRequest :: "command_request \<Rightarrow> encoded_command" where
  "encodeRuntimeCommandRequest request =
     (let name = rq_name request in
      if name = [] then reject ''runtime command name is empty''
      else if rq_kind request = GameAction then encodeGameAction request
      else if name = ''Move'' then encodePositionAttackCommand request Orders_Move
      else if name = ''Attack_Move'' then encodePositionAttackCommand request Orders_AttackMove
      else if name = ''Patrol'' then encodePositionAttackCommand request Orders_Patrol
      else if name = ''Set_Rally_Position''
        then encodePositionAttackCommandUnqueued request Orders_RallyPointTile
      else if name = ''Unload_All_Position''
        then encodePositionAttackCommand request Orders_MoveUnload
      else if name = ''Attack_Unit'' then encodeUnitAttackCommand request Orders_Attack1
      else if name = ''Follow'' then encodeUnitAttackCommand request Orders_Follow
      else if name = ''Gather'' then encodeUnitAttackCommand request Orders_Harvest1
      else if name = ''Repair'' then encodeUnitAttackCommand request Orders_Repair
      else if name = ''Set_Rally_Unit''
        then encodeUnitAttackCommandUnqueued request Orders_RallyPointUnit
      else if name = ''Right_Click_Position'' then encodeRightClickPositionCommand request
      else if name = ''Right_Click_Unit'' then encodeRightClickUnitCommand request
      else if name = ''Stop'' then encodeQueuedOpcodeCommand request 0x1a
      else if name = ''Halt_Construction'' then encodeFixedQueuedOpcodeCommand request 0x1a 0
      else if name = ''Hold_Position'' then encodeQueuedOpcodeCommand request 0x2b
      else if name = ''Return_Cargo'' then encodeQueuedOpcodeCommand request 0x1e
      else if name = ''Burrow'' then encodeUnusedByteCommand request 0x2c
      else if name = ''Unburrow'' then encodeUnusedByteCommand request 0x2d
      else if name = ''Cloak'' then encodeUnusedByteCommand request 0x21
      else if name = ''Decloak'' then encodeUnusedByteCommand request 0x22
      else if name = ''Siege'' then encodeUnusedByteCommand request 0x26
      else if name = ''Unsiege'' then encodeUnusedByteCommand request 0x25
      else if name = ''Lift'' then encodeLiftCommand request
      else if name = ''Cancel_Construction'' then encodeSingleOpcodeCommand request 0x18
      else if name = ''Cancel_Addon'' then encodeSingleOpcodeCommand request 0x34
      else if name = ''Cancel_Research'' then encodeSingleOpcodeCommand request 0x31
      else if name = ''Cancel_Upgrade'' then encodeSingleOpcodeCommand request 0x33
      else if name = ''Cancel_Train'' \<or> name = ''Cancel_Train_Slot''
        then encodeCancelTrain request
      else if name = ''Train'' then encodeTrain request
      else if name = ''Morph'' then encodeUnitMorph request
      else if name = ''Research'' then encodeType8Command request 0x30 ''tech''
      else if name = ''Upgrade'' then encodeType8Command request 0x32 ''upgrade''
      else if name = ''Build'' then encodeBuildCommand request
      else if name = ''Build_Addon''
        then encodeTileAndUnitTypeCommand request Orders_PlaceAddon
      else if name = ''Land'' then encodeTileAndUnitTypeCommand request Orders_BuildingLand
      else if name = ''Place_COP'' then encodeTileAndUnitTypeCommand request Orders_CTFCOP2
      else if name = ''Load'' then encodeLoadCommand request
      else if name = ''Unload_All'' then encodeUnloadAllCommand request
      else if name = ''Cancel_Morph'' then encodeCancelMorphCommand request
      else if name = ''Use_Tech'' then encodeUseTechCommand request
      else if name = ''Use_Tech_Position'' then encodeUseTechPosition request
      else if name = ''Use_Tech_Unit'' then encodeUseTechUnit request
      else if name = ''Unload'' then encodeUnloadCommand request
      else reject (''unit command requires live unit state or a dedicated adapter implementation: ''
                     @ name))"

definition encoderAdapterLocalActions :: "string list" where
  "encoderAdapterLocalActions =
     [''setScreenPosition'', ''enableFlag'', ''setLastError'', ''vPrintf'', ''vSendTextEx'',
      ''leaveGame'', ''setLocalSpeed'', ''issueCommand'', ''setTextSize'', ''vDrawText'',
      ''drawBox'', ''drawTriangle'', ''drawCircle'', ''drawEllipse'', ''drawDot'', ''drawLine'',
      ''setLatCom'', ''setGUI'', ''setMap'', ''setFrameSkip'', ''setCommandOptimizationLevel'',
      ''setRevealAll'']"

definition isRuntimeAdapterLocalGameAction :: "string \<Rightarrow> bool" where
  "isRuntimeAdapterLocalGameAction name \<longleftrightarrow> name \<in> set encoderAdapterLocalActions"

section \<open>Selection and hexadecimal formatting\<close>

fun appendTargets :: "u8 list \<Rightarrow> int list \<Rightarrow> encoded_command" where
  "appendTargets bytes [] = accept bytes"
| "appendTargets bytes (unitTargetId # rest) =
     (if \<not> inRange unitTargetId 1 uint16_max
      then reject ''selection unit target id must be in [1, 65535]''
      else appendTargets (appendU16LE bytes unitTargetId) rest)"

definition encodeRuntimeSelectCommand :: "int list \<Rightarrow> bool \<Rightarrow> encoded_command" where
  "encodeRuntimeSelectCommand unitTargetIds addToSelection =
     (if unitTargetIds = [] then reject ''selection command requires at least one unit target id''
      else if length unitTargetIds > MaxSelectionCount
      then reject ''selection command supports at most 12 unit target ids''
      else let bytes = appendU8 [] (if addToSelection then 0x0a else 0x09);
               bytes = appendU8 bytes (int (length unitTargetIds))
           in appendTargets bytes unitTargetIds)"

definition hex_digit :: "nat \<Rightarrow> char" where
  "hex_digit d = (if d < 10 then char_of (48 + d) else char_of (87 + d))"

definition hex_byte :: "u8 \<Rightarrow> string" where
  "hex_byte b = [hex_digit (unat b div 16), hex_digit (unat b mod 16)]"

fun formatCommandBytesHex :: "u8 list \<Rightarrow> string" where
  "formatCommandBytesHex [] = []"
| "formatCommandBytesHex [b] = hex_byte b"
| "formatCommandBytesHex (b # c # bs) = hex_byte b @ CHR '' '' # formatCommandBytesHex (c # bs)"

section \<open>The appenders produce little-endian encodings\<close>

lemma appendU8_le [wire]: "appendU8 bs v = bs @ word_to_le 1 (word_of_int v :: u8)"
proof -
  have "word_of_int (v AND 255) = (word_of_int v :: u8)"
    by (rule bit_word_eqI) (auto simp: bit_simps numeral_eq_Suc less_Suc_eq)
  then show ?thesis by (simp add: appendU8_def numeral_eq_Suc)
qed

lemma appendS8_le [wire]: "appendS8 bs v = bs @ word_to_le 1 (word_of_int v :: u8)"
  by (simp add: appendS8_def)

lemma mask_byte: "ucast (w AND 0xff) = (ucast w :: u8)"
  for w :: "'a::len word"
proof -
  have "w AND 0xff = take_bit 8 w"
    by (simp add: take_bit_eq_mask mask_eq_exp_minus_1)
  then show ?thesis
    by (auto intro!: bit_word_eqI simp: bit_simps dest: bit_imp_le_length)
qed

lemma appendU16LE_le [wire]: "appendU16LE bs v = bs @ word_to_le 2 (word_of_int v :: u16)"
  by (simp add: appendU16LE_def Let_def mask_byte numeral_eq_Suc)

lemma appendS16LE_le [wire]: "appendS16LE bs v = bs @ word_to_le 2 (word_of_int v :: u16)"
  by (simp add: appendS16LE_def appendU16LE_le)

lemma appendU32LE_le [wire]: "appendU32LE bs w = bs @ word_to_le 4 w"
  by (simp add: appendU32LE_def mask_byte numeral_eq_Suc)

lemma appendPosition_le [wire]:
  "appendPositionUnitTarget bs x y t =
     bs @ word_to_le 2 (word_of_int x :: u16) @ word_to_le 2 (word_of_int y :: u16)
        @ word_to_le 2 (word_of_int t :: u16)"
  by (simp add: appendPositionUnitTarget_def appendS16LE_le appendU16LE_le)

lemma appendTargets_le:
  "appendTargets bs ts =
     (if \<forall>t\<in>set ts. inRange t 1 uint16_max
      then accept (bs @ concat (map (\<lambda>t. word_to_le 2 (word_of_int t :: u16)) ts))
      else reject ''selection unit target id must be in [1, 65535]'')"
  by (induction ts arbitrary: bs) (auto simp: appendU16LE_le)

section \<open>Acceptance of the continuation helpers\<close>

lemma enc_accept [simp]: "enc_encoded (accept bs)" "enc_bytes (accept bs) = bs"
  by (simp_all add: accept_def)

lemma enc_reject [simp]: "\<not> enc_encoded (reject r)" "enc_bytes (reject r) = []"
  by (simp_all add: reject_def)

lemma enc_add_warning [simp]:
  "enc_encoded (add_warning w e) = enc_encoded e" "enc_bytes (add_warning w e) = enc_bytes e"
  by (simp_all add: add_warning_def)

definition args_between :: "command_request \<Rightarrow> nat \<Rightarrow> nat \<Rightarrow> bool" where
  "args_between r lo hi \<longleftrightarrow> lo \<le> length (rq_arguments r) \<and> length (rq_arguments r) \<le> hi"

definition arg_in :: "command_request \<Rightarrow> nat \<Rightarrow> int \<Rightarrow> int \<Rightarrow> bool" where
  "arg_in r i lo hi \<longleftrightarrow> i < length (rq_arguments r) \<and> inRange (rq_arguments r ! i) lo hi"

definition queued_ok :: "command_request \<Rightarrow> nat \<Rightarrow> bool" where
  "queued_ok r i \<longleftrightarrow> length (rq_arguments r) \<le> i
     \<or> (length (rq_arguments r) = i + 1 \<and> inRange (rq_arguments r ! i) 0 1)"

definition queued_value :: "command_request \<Rightarrow> nat \<Rightarrow> int" where
  "queued_value r i = (if length (rq_arguments r) \<le> i then 0 else rq_arguments r ! i)"

lemma encoded_with_count [simp]:
  "enc_encoded (with_count r lo hi k) \<longleftrightarrow> args_between r lo hi \<and> enc_encoded k"
  by (auto simp: with_count_def requireArgCount_def args_between_def Let_def)

lemma encoded_with_arg [simp]:
  "enc_encoded (with_arg r i l lo hi k) \<longleftrightarrow>
     arg_in r i lo hi \<and> enc_encoded (k (rq_arguments r ! i))"
  by (auto simp: with_arg_def readArg_def arg_in_def Let_def)

lemma encoded_with_queued [simp]:
  "enc_encoded (with_queued r i k) \<longleftrightarrow> queued_ok r i \<and> enc_encoded (k (queued_value r i))"
  by (auto simp: with_queued_def readQueued_def queued_ok_def queued_value_def Let_def)

lemma encoded_with_target [simp]:
  "enc_encoded (with_target r k) \<longleftrightarrow>
     inRange (rq_targetUnitId r) 1 uint16_max \<and> enc_encoded k"
  by (simp add: with_target_def)

lemma with_count_eq [simp]: "args_between r lo hi \<Longrightarrow> with_count r lo hi k = k"
  by (auto simp: with_count_def requireArgCount_def args_between_def Let_def)

lemma with_arg_eq [simp]: "arg_in r i lo hi \<Longrightarrow> with_arg r i l lo hi k = k (rq_arguments r ! i)"
  by (simp add: with_arg_def readArg_def arg_in_def Let_def)

lemma with_queued_eq [simp]: "queued_ok r i \<Longrightarrow> with_queued r i k = k (queued_value r i)"
  by (auto simp: with_queued_def readQueued_def queued_ok_def queued_value_def Let_def)

lemma with_target_eq [simp]:
  "inRange (rq_targetUnitId r) 1 uint16_max \<Longrightarrow> with_target r k = k"
  by (simp add: with_target_def)

end
