(* ===== verification/Order_Types.thy ===== *)
theory Order_Types
  imports Command_Encoder
begin

text \<open>
  The packed command structures of the original injected client (\<open>BW/OrderTypes.h/.cpp\<close>,
  \<open>BW/UnitTarget.h/.cpp\<close>, \<open>BW/PositionUnitTarget.h/.cpp\<close>): one constructor per class of
  \<open>BW::Orders\<close>, holding its fields in declaration order after the opcode byte, \<open>pack\<close> for the
  bytes the structure occupies under \<open>#pragma pack(1)\<close>, and the classes' C++ constructors.
  A \<open>Select\<close> is packed to its \<open>size()\<close>, as its callers queue it.
\<close>

section \<open>Targets\<close>

record bw_unit =
  u_index :: nat \<comment> \<open>position in \<open>BWDATA::UnitNodeTable\<close>\<close>
  u_uniquenessIdentifier :: u8
  u_positionX :: u16
  u_positionY :: u16

definition UNIT_ARRAY_MAX_LENGTH :: nat where "UNIT_ARRAY_MAX_LENGTH = 1700"
definition MAX_SELECTION_COUNT :: nat where "MAX_SELECTION_COUNT = 12"

definition mkUnitTarget :: "bw_unit \<Rightarrow> u16" where
  "mkUnitTarget u =
     (let unitID = (word_of_nat (u_index u + 1) :: u16) in
      if unat unitID \<le> UNIT_ARRAY_MAX_LENGTH
      then unitID OR push_bit 11 (ucast (u_uniquenessIdentifier u))
      else 0)"

text \<open>The index a \<open>PositionUnitTarget\<close> reads back: \<open>(target.getTarget() & 0x7FF) - 1\<close>.\<close>

definition unitTargetIndex :: "u16 \<Rightarrow> int" where
  "unitTargetIndex t = uint (t AND 0x7FF) - 1"

text \<open>\<open>PositionUnitTarget\<close>: position and target; by coordinates, or by unit.\<close>

definition pt_at :: "int \<Rightarrow> int \<Rightarrow> u16 \<times> u16 \<times> u16" where
  "pt_at x y = (word_of_int x, word_of_int y, 0)"

definition pt_unit :: "bw_unit \<Rightarrow> u16 \<times> u16 \<times> u16" where
  "pt_unit u = (u_positionX u, u_positionY u, mkUnitTarget u)"

section \<open>The classes\<close>

type_synonym posTarget = "u16 \<times> u16 \<times> u16"

datatype bw_order =
  OAttack posTarget u8 u8
| ORightClick posTarget u8
| OSelectAdd "u16 list"
| OSelect "u16 list"
| OTrainUnit u16
| OTrainFighter
| OMakeBuilding u8 u16 u16 u16
| OPlaceCOP u16 u16 u16
| OInvent u8
| OUpgrade u8
| OMakeAddon u16 u16 u16
| OMakeNydusExit u16 u16
| OChangeSlot u8 u8
| ORequestChangeRace u8 u8
| OUpdateSlot u8 u8 u8 u8 u8
| OStartGame
| OPauseGame
| OResumeGame
| OLeaveGame u8
| OMergeDarkArchon
| OMergeArchon
| OMinimapPing u16 u16
| OUseStimPack
| OBuildingMorph u16
| OCancelAddon
| OCancelUpgrade
| OCancelResearch
| OCancelNuke
| OLift
| OLand u16 u16 u16
| OBurrow
| OUnburrow
| OHoldPosition u8
| OUnloadUnit u16
| OUnloadAll
| OSiege
| OUnsiege
| OUnitMorph u16
| OCloak
| ODecloak
| OReturnCargo u8
| OStop u8
| OReaverStop
| OCarrierStop
| OCancelUnitMorph
| OCancelConstruction
| OCancelTrain u8
| OUseCheat u32
| ORestartGame
| OSetAllies u32
| OSetVision u16

abbreviation le16 :: "u16 \<Rightarrow> u8 list" where "le16 \<equiv> word_to_le 2"
abbreviation le32 :: "u32 \<Rightarrow> u8 list" where "le32 \<equiv> word_to_le 4"

fun packTarget :: "posTarget \<Rightarrow> u8 list" where
  "packTarget (x, y, t) = le16 x @ le16 y @ le16 t"

primrec pack :: "bw_order \<Rightarrow> u8 list" where
  "pack (OAttack target order type) = [0x15] @ packTarget target @ le16 228 @ [order] @ [type]"
| "pack (ORightClick target type) = [0x14] @ packTarget target @ le16 228 @ [type]"
| "pack (OSelectAdd targets) = [0x0A] @ [word_of_nat (length targets)] @ concat (map le16 targets)"
| "pack (OSelect targets) = [0x09] @ [word_of_nat (length targets)] @ concat (map le16 targets)"
| "pack (OTrainUnit type) = [0x1F] @ le16 type"
| "pack OTrainFighter = [0x27]"
| "pack (OMakeBuilding raceDependant x y type) =
     [0x0c] @ [raceDependant] @ le16 x @ le16 y @ le16 type"
| "pack (OPlaceCOP x y type) = [0x0c] @ [155] @ le16 x @ le16 y @ le16 type"
| "pack (OInvent tech) = [0x30] @ [tech]"
| "pack (OUpgrade upgrade) = [0x32] @ [upgrade]"
| "pack (OMakeAddon x y type) = [0x0c] @ [36] @ le16 x @ le16 y @ le16 type"
| "pack (OMakeNydusExit x y) = [0x0c] @ [46] @ le16 x @ le16 y @ le16 134"
| "pack (OChangeSlot slotID slotType) = [0x44] @ [slotID] @ [slotType]"
| "pack (ORequestChangeRace slotID race) = [0x41] @ [slotID] @ [race]"
| "pack (OUpdateSlot slot storm owner race team) = [0x3e] @ [slot, storm, owner, race, team]"
| "pack OStartGame = [0x3c]"
| "pack OPauseGame = [0x10]"
| "pack OResumeGame = [0x11]"
| "pack (OLeaveGame type) = [0x57] @ [type]"
| "pack OMergeDarkArchon = [0x5a]"
| "pack OMergeArchon = [0x2a]"
| "pack (OMinimapPing x y) = [0x58] @ le16 x @ le16 y"
| "pack OUseStimPack = [0x36]"
| "pack (OBuildingMorph type) = [0x35] @ le16 type"
| "pack OCancelAddon = [0x34]"
| "pack OCancelUpgrade = [0x33]"
| "pack OCancelResearch = [0x31]"
| "pack OCancelNuke = [0x2e]"
| "pack OLift = [0x2f] @ le32 0"
| "pack (OLand x y type) = [0x0c] @ [71] @ le16 x @ le16 y @ le16 type"
| "pack OBurrow = [0x2c] @ [0]"
| "pack OUnburrow = [0x2d] @ [0]"
| "pack (OHoldPosition type) = [0x2b] @ [type]"
| "pack (OUnloadUnit target) = [0x29] @ le16 target"
| "pack OUnloadAll = [0x28] @ [0]"
| "pack OSiege = [0x26] @ [0]"
| "pack OUnsiege = [0x25] @ [0]"
| "pack (OUnitMorph type) = [0x23] @ le16 type"
| "pack OCloak = [0x21] @ [0]"
| "pack ODecloak = [0x22] @ [0]"
| "pack (OReturnCargo type) = [0x1e] @ [type]"
| "pack (OStop type) = [0x1a] @ [type]"
| "pack OReaverStop = [0x1c]"
| "pack OCarrierStop = [0x1b]"
| "pack OCancelUnitMorph = [0x19]"
| "pack OCancelConstruction = [0x18]"
| "pack (OCancelTrain slot) = [0x20] @ [slot] @ [0]"
| "pack (OUseCheat flags) = [0x12] @ le32 flags"
| "pack ORestartGame = [0x08]"
| "pack (OSetAllies allies) = [0x0e] @ le32 allies"
| "pack (OSetVision vision) = [0x0d] @ le16 vision"

section \<open>C++ constructors\<close>

definition queuedFlag :: "bool \<Rightarrow> u8" where
  "queuedFlag queued = (if queued then 1 else 0)"

definition Attack_unit :: "bw_unit \<Rightarrow> int \<Rightarrow> bool \<Rightarrow> bw_order" where
  "Attack_unit target OrderID queued = OAttack (pt_unit target) (word_of_int OrderID) (queuedFlag queued)"

definition Attack_xy :: "int \<Rightarrow> int \<Rightarrow> int \<Rightarrow> bool \<Rightarrow> bw_order" where
  "Attack_xy x y OrderID queued = OAttack (pt_at x y) (word_of_int OrderID) (queuedFlag queued)"

definition Attack_target :: "posTarget \<Rightarrow> int \<Rightarrow> bool \<Rightarrow> bw_order" where
  "Attack_target target OrderID queued = OAttack target (word_of_int OrderID) (queuedFlag queued)"

definition RightClick_unit :: "bw_unit \<Rightarrow> bool \<Rightarrow> bw_order" where
  "RightClick_unit target queued = ORightClick (pt_unit target) (queuedFlag queued)"

definition RightClick_xy :: "int \<Rightarrow> int \<Rightarrow> bool \<Rightarrow> bw_order" where
  "RightClick_xy x y queued = ORightClick (pt_at x y) (queuedFlag queued)"

definition RightClick_target :: "posTarget \<Rightarrow> bool \<Rightarrow> bw_order" where
  "RightClick_target target queued = ORightClick target (queuedFlag queued)"

text \<open>Null units of the array are skipped, and at most twelve entries are looked at.\<close>

definition selectTargets :: "bw_unit option list \<Rightarrow> u16 list" where
  "selectTargets units =
     [mkUnitTarget u. Some u \<leftarrow> take MAX_SELECTION_COUNT units]"

definition SelectAdd_units :: "bw_unit option list \<Rightarrow> bw_order" where
  "SelectAdd_units units = OSelectAdd (selectTargets units)"

definition Select_units :: "bw_unit option list \<Rightarrow> bw_order" where
  "Select_units units = OSelect (selectTargets units)"

definition Select_size :: "u16 list \<Rightarrow> nat" where
  "Select_size targets = 2 + length targets * 2"

definition TrainUnit_of :: "int \<Rightarrow> bw_order" where
  "TrainUnit_of type = OTrainUnit (word_of_int type)"

datatype race = Zerg | Terran | Protoss | OtherRace

definition MakeBuilding_of :: "race \<Rightarrow> u16 \<Rightarrow> u16 \<Rightarrow> int \<Rightarrow> bw_order" where
  "MakeBuilding_of r x y type =
     OMakeBuilding (case r of Zerg \<Rightarrow> 25 | Terran \<Rightarrow> 30 | Protoss \<Rightarrow> 31 | OtherRace \<Rightarrow> 0)
       x y (word_of_int type)"

definition MakeBuilding_xy :: "race \<Rightarrow> int \<Rightarrow> int \<Rightarrow> int \<Rightarrow> bw_order" where
  "MakeBuilding_xy r tileX tileY type =
     MakeBuilding_of r (word_of_int tileX) (word_of_int tileY) type"

definition PlaceCOP_xy :: "int \<Rightarrow> int \<Rightarrow> int \<Rightarrow> bw_order" where
  "PlaceCOP_xy x y type = OPlaceCOP (word_of_int x) (word_of_int y) (word_of_int type)"

definition Invent_of :: "int \<Rightarrow> bw_order" where
  "Invent_of tech = OInvent (word_of_int tech)"

definition Upgrade_of :: "int \<Rightarrow> bw_order" where
  "Upgrade_of upgrade = OUpgrade (word_of_int upgrade)"

definition MakeAddon_xy :: "int \<Rightarrow> int \<Rightarrow> int \<Rightarrow> bw_order" where
  "MakeAddon_xy x y type = OMakeAddon (word_of_int x) (word_of_int y) (word_of_int type)"

definition MakeNydusExit_xy :: "int \<Rightarrow> int \<Rightarrow> bw_order" where
  "MakeNydusExit_xy x y = OMakeNydusExit (word_of_int x) (word_of_int y)"

definition LeaveGame_of :: "int \<Rightarrow> bw_order" where
  "LeaveGame_of type = OLeaveGame (word_of_int type)"

definition MinimapPing_xy :: "int \<Rightarrow> int \<Rightarrow> bw_order" where
  "MinimapPing_xy x y = OMinimapPing (word_of_int x) (word_of_int y)"

definition BuildingMorph_of :: "int \<Rightarrow> bw_order" where
  "BuildingMorph_of type = OBuildingMorph (word_of_int type)"

definition Land_xy :: "int \<Rightarrow> int \<Rightarrow> int \<Rightarrow> bw_order" where
  "Land_xy x y type = OLand (word_of_int x) (word_of_int y) (word_of_int type)"

definition HoldPosition_of :: "bool \<Rightarrow> bw_order" where
  "HoldPosition_of queued = OHoldPosition (queuedFlag queued)"

definition UnloadUnit_of :: "bw_unit \<Rightarrow> bw_order" where
  "UnloadUnit_of unload = OUnloadUnit (mkUnitTarget unload)"

definition UnitMorph_of :: "int \<Rightarrow> bw_order" where
  "UnitMorph_of type = OUnitMorph (word_of_int type)"

definition ReturnCargo_of :: "bool \<Rightarrow> bw_order" where
  "ReturnCargo_of queued = OReturnCargo (queuedFlag queued)"

definition Stop_of :: "bool \<Rightarrow> bw_order" where
  "Stop_of queued = OStop (queuedFlag queued)"

definition CancelTrain_of :: "int \<Rightarrow> bw_order" where
  "CancelTrain_of slot = OCancelTrain (word_of_int slot)"

definition ChangeSlot_of :: "int \<Rightarrow> int \<Rightarrow> bw_order" where
  "ChangeSlot_of slotID type = OChangeSlot (word_of_int slotID) (word_of_int type)"

definition RequestChangeRace_of :: "int \<Rightarrow> int \<Rightarrow> bw_order" where
  "RequestChangeRace_of slot race = ORequestChangeRace (word_of_int slot) (word_of_int race)"

definition UpdateSlot_of :: "int \<Rightarrow> int \<Rightarrow> int \<Rightarrow> int \<Rightarrow> int \<Rightarrow> bw_order" where
  "UpdateSlot_of slot stormPlayerID owner newRace team =
     OUpdateSlot (word_of_int slot) (word_of_int stormPlayerID) (word_of_int owner)
       (word_of_int newRace) (word_of_int team)"

definition UseCheat_of :: "u32 \<Rightarrow> bw_order" where
  "UseCheat_of flags = OUseCheat flags"

definition SetAllies_of :: "u32 \<Rightarrow> bw_order" where
  "SetAllies_of allies = OSetAllies allies"

definition SetVision_of :: "u16 \<Rightarrow> bw_order" where
  "SetVision_of vision = OSetVision vision"

lemmas order_ctors = Attack_unit_def Attack_xy_def Attack_target_def RightClick_unit_def
  RightClick_xy_def RightClick_target_def TrainUnit_of_def MakeBuilding_of_def MakeBuilding_xy_def
  PlaceCOP_xy_def Invent_of_def Upgrade_of_def MakeAddon_xy_def MakeNydusExit_xy_def
  LeaveGame_of_def MinimapPing_xy_def BuildingMorph_of_def Land_xy_def HoldPosition_of_def
  UnloadUnit_of_def UnitMorph_of_def ReturnCargo_of_def Stop_of_def CancelTrain_of_def

section \<open>Unit targets round trip\<close>

lemma mkUnitTarget_index_bits:
  "(k OR push_bit 11 (ucast (q :: u8))) AND 0x7FF = take_bit 11 (k :: u16)"
proof -
  have "X AND 0x7FF = take_bit 11 X" for X :: u16
    by (simp add: take_bit_eq_mask mask_eq_exp_minus_1)
  then show ?thesis
    by (auto intro!: bit_word_eqI simp: bit_simps)
qed

lemma unitTargetIndex_mkUnitTarget:
  assumes "u_index u < UNIT_ARRAY_MAX_LENGTH"
  shows "unitTargetIndex (mkUnitTarget u) = int (u_index u)"
proof -
  define w where "w = (word_of_nat (u_index u + 1) :: u16)"
  have id: "uint w = int (u_index u) + 1"
    using assms by (simp add: w_def UNIT_ARRAY_MAX_LENGTH_def unsigned_of_nat take_bit_nat_eq_self flip: of_nat_Suc)
  have "unat w = u_index u + 1" using id by (simp add: unat_eq_nat_uint)
  then have small: "unat w \<le> UNIT_ARRAY_MAX_LENGTH" using assms by simp
  have "uint (take_bit 11 w) = uint w"
    using assms id by (simp add: unsigned_take_bit_eq take_bit_int_eq_self UNIT_ARRAY_MAX_LENGTH_def)
  moreover have "mkUnitTarget u = w OR push_bit 11 (ucast (u_uniquenessIdentifier u))"
    using small unfolding mkUnitTarget_def Let_def w_def by (simp only: if_True)
  ultimately show ?thesis
    using id by (simp add: unitTargetIndex_def mkUnitTarget_index_bits)
qed

text \<open>
  Targets of live units survive the wire: the index read back from a packed target
  (\<open>(targetID & 0x7FF) - 1\<close>) is the unit's index in the unit table, whatever its uniqueness
  identifier, so a selection built from units names those units, in order, nulls skipped and at
  most twelve entries looked at.
\<close>

theorem selection_names_its_units:
  assumes "\<forall>u. Some u \<in> set units \<longrightarrow> u_index u < UNIT_ARRAY_MAX_LENGTH"
  shows "map unitTargetIndex (selectTargets units)
    = [int (u_index u). Some u \<leftarrow> take MAX_SELECTION_COUNT units]"
proof -
  have "map unitTargetIndex [mkUnitTarget u. Some u \<leftarrow> us] = [int (u_index u). Some u \<leftarrow> us]"
    if "\<forall>u. Some u \<in> set us \<longrightarrow> u_index u < UNIT_ARRAY_MAX_LENGTH" for us
    using that
  proof (induction us)
    case (Cons a us)
    then show ?case by (cases a) (simp_all add: unitTargetIndex_mkUnitTarget)
  qed simp
  moreover have "\<forall>u. Some u \<in> set (take MAX_SELECTION_COUNT units)
      \<longrightarrow> u_index u < UNIT_ARRAY_MAX_LENGTH"
    using assms in_set_takeD by fastforce
  ultimately show ?thesis by (simp only: selectTargets_def)
qed

definition sample_bw_unit :: "nat \<Rightarrow> bw_unit" where
  "sample_bw_unit i =
     \<lparr>u_index = i, u_uniquenessIdentifier = 31, u_positionX = 64, u_positionY = 96\<rparr>"

theorem selection_names_its_units_witness:
  "map unitTargetIndex (selectTargets [Some (sample_bw_unit 1699), None, Some (sample_bw_unit 0)])
   = [int (u_index u). Some u \<leftarrow> take MAX_SELECTION_COUNT
        [Some (sample_bw_unit 1699), None, Some (sample_bw_unit 0)]]"
  by (rule selection_names_its_units)
    (auto simp: sample_bw_unit_def UNIT_ARRAY_MAX_LENGTH_def)

end
