(* ===== verification/Unit_Command.thy ===== *)
theory Unit_Command
  imports Order_Types
begin

text \<open>
  The client's unit commands (\<open>BWAPILIB/UnitCommand.cpp\<close>, \<open>include/BWAPI/UnitCommand.h\<close>): the
  command record, one constructor function per kind of command and the accessors that read a
  command back; with the parts of \<open>Type\<close>, \<open>UnitType\<close>, \<open>TechType\<close> and \<open>Position\<close> they rest on.
  A type identifier is an integer, as in \<open>Type\<close>; a unit pointer is \<open>None\<close> when null.
\<close>

section \<open>Type identifiers\<close>

text \<open>\<open>Type<T, UnknownId>::Type(int)\<close>: an identifier out of range becomes \<open>Unknown\<close>.\<close>

definition mkType :: "int \<Rightarrow> int \<Rightarrow> int" where
  "mkType unknown i = (if i < 0 \<or> i > unknown then unknown else i)"

text \<open>\<open>UnitCommandTypes::Enum\<close>.\<close>

abbreviation (input) Attack_Move :: int where "Attack_Move \<equiv> 0"
abbreviation (input) Attack_Unit :: int where "Attack_Unit \<equiv> 1"
abbreviation (input) Build :: int where "Build \<equiv> 2"
abbreviation (input) Build_Addon :: int where "Build_Addon \<equiv> 3"
abbreviation (input) Train :: int where "Train \<equiv> 4"
abbreviation (input) Morph :: int where "Morph \<equiv> 5"
abbreviation (input) Research :: int where "Research \<equiv> 6"
abbreviation (input) Upgrade :: int where "Upgrade \<equiv> 7"
abbreviation (input) Set_Rally_Position :: int where "Set_Rally_Position \<equiv> 8"
abbreviation (input) Set_Rally_Unit :: int where "Set_Rally_Unit \<equiv> 9"
abbreviation (input) Move :: int where "Move \<equiv> 10"
abbreviation (input) Patrol :: int where "Patrol \<equiv> 11"
abbreviation (input) Hold_Position :: int where "Hold_Position \<equiv> 12"
abbreviation (input) Stop :: int where "Stop \<equiv> 13"
abbreviation (input) Follow :: int where "Follow \<equiv> 14"
abbreviation (input) Gather :: int where "Gather \<equiv> 15"
abbreviation (input) Return_Cargo :: int where "Return_Cargo \<equiv> 16"
abbreviation (input) Repair :: int where "Repair \<equiv> 17"
abbreviation (input) Burrow :: int where "Burrow \<equiv> 18"
abbreviation (input) Unburrow :: int where "Unburrow \<equiv> 19"
abbreviation (input) Cloak :: int where "Cloak \<equiv> 20"
abbreviation (input) Decloak :: int where "Decloak \<equiv> 21"
abbreviation (input) Siege :: int where "Siege \<equiv> 22"
abbreviation (input) Unsiege :: int where "Unsiege \<equiv> 23"
abbreviation (input) Lift :: int where "Lift \<equiv> 24"
abbreviation (input) Land :: int where "Land \<equiv> 25"
abbreviation (input) Load :: int where "Load \<equiv> 26"
abbreviation (input) Unload :: int where "Unload \<equiv> 27"
abbreviation (input) Unload_All :: int where "Unload_All \<equiv> 28"
abbreviation (input) Unload_All_Position :: int where "Unload_All_Position \<equiv> 29"
abbreviation (input) Right_Click_Position :: int where "Right_Click_Position \<equiv> 30"
abbreviation (input) Right_Click_Unit :: int where "Right_Click_Unit \<equiv> 31"
abbreviation (input) Halt_Construction :: int where "Halt_Construction \<equiv> 32"
abbreviation (input) Cancel_Construction :: int where "Cancel_Construction \<equiv> 33"
abbreviation (input) Cancel_Addon :: int where "Cancel_Addon \<equiv> 34"
abbreviation (input) Cancel_Train :: int where "Cancel_Train \<equiv> 35"
abbreviation (input) Cancel_Train_Slot :: int where "Cancel_Train_Slot \<equiv> 36"
abbreviation (input) Cancel_Morph :: int where "Cancel_Morph \<equiv> 37"
abbreviation (input) Cancel_Research :: int where "Cancel_Research \<equiv> 38"
abbreviation (input) Cancel_Upgrade :: int where "Cancel_Upgrade \<equiv> 39"
abbreviation (input) Use_Tech :: int where "Use_Tech \<equiv> 40"
abbreviation (input) Use_Tech_Position :: int where "Use_Tech_Position \<equiv> 41"
abbreviation (input) Use_Tech_Unit :: int where "Use_Tech_Unit \<equiv> 42"
abbreviation (input) Place_COP :: int where "Place_COP \<equiv> 43"

abbreviation (input) Uc_None :: int where "Uc_None \<equiv> 44"

text \<open>\<open>UnitTypes::Enum\<close>, the members the command code names.\<close>

abbreviation (input) Zerg_Infested_Terran :: int where "Zerg_Infested_Terran \<equiv> 50"
abbreviation (input) Protoss_Carrier :: int where "Protoss_Carrier \<equiv> 72"
abbreviation (input) Hero_Gantrithor :: int where "Hero_Gantrithor \<equiv> 82"
abbreviation (input) Protoss_Reaver :: int where "Protoss_Reaver \<equiv> 83"
abbreviation (input) Hero_Warbringer :: int where "Hero_Warbringer \<equiv> 81"
abbreviation (input) Zerg_Nydus_Canal :: int where "Zerg_Nydus_Canal \<equiv> 134"
abbreviation (input) Zerg_Larva :: int where "Zerg_Larva \<equiv> 35"
abbreviation (input) Zerg_Mutalisk :: int where "Zerg_Mutalisk \<equiv> 43"
abbreviation (input) Zerg_Hydralisk :: int where "Zerg_Hydralisk \<equiv> 38"
abbreviation (input) Zerg_Hatchery :: int where "Zerg_Hatchery \<equiv> 131"
abbreviation (input) Zerg_Lair :: int where "Zerg_Lair \<equiv> 132"
abbreviation (input) Zerg_Spire :: int where "Zerg_Spire \<equiv> 141"
abbreviation (input) Zerg_Creep_Colony :: int where "Zerg_Creep_Colony \<equiv> 143"
abbreviation (input) Terran_Bunker :: int where "Terran_Bunker \<equiv> 125"
abbreviation (input) Terran_Dropship :: int where "Terran_Dropship \<equiv> 11"
abbreviation (input) Protoss_Shuttle :: int where "Protoss_Shuttle \<equiv> 69"
abbreviation (input) Zerg_Overlord :: int where "Zerg_Overlord \<equiv> 42"
abbreviation (input) Hero_Yggdrasill :: int where "Hero_Yggdrasill \<equiv> 57"
abbreviation (input) UnitType_None :: int where "UnitType_None \<equiv> 228"
abbreviation (input) UnitType_Unknown :: int where "UnitType_Unknown \<equiv> 233"

abbreviation (input) TechType_None :: int where "TechType_None \<equiv> 44"
abbreviation (input) TechType_Unknown :: int where "TechType_Unknown \<equiv> 46"
abbreviation (input) UpgradeType_None :: int where "UpgradeType_None \<equiv> 61"
abbreviation (input) UpgradeType_Unknown :: int where "UpgradeType_Unknown \<equiv> 62"

definition Building_flag :: u32 where "Building_flag = 0x00000001"
definition Addon_flag :: u32 where "Addon_flag = 0x00000002"

text \<open>\<open>UnitPrototypeFlags::unitFlags\<close>, each entry the disjunction of its flags.\<close>

definition unitFlags :: "u32 list" where
  "unitFlags =
     [
      0x18010000, 0x18210200, 0x58000000, 0x58000000, 0x30000010, 0x5a000000, 0x30000010,
      0x58010008, 0x5a200204, 0x5a208104, 0x18010040, 0x5a000004, 0x5c200004, 0x18000000,
      0x38000004, 0x18010000, 0x18210240, 0x58000040, 0x30000010, 0x58000040, 0x18010040,
      0x5a200244, 0x5a208144, 0x5a000040, 0x30000010, 0x42000040, 0x30000010, 0x5c200044,
      0x5c200044, 0x5c200044, 0x42000000, 0x30000010, 0x18010000, 0x18008004, 0x18210000,
      0x18010080, 0x10000, 0x18110480, 0x18110080, 0x1c010080, 0x18010080, 0x18110088, 0x1a018084,
      0x1a010084, 0x1d010084, 0x1a210084, 0x1a310080, 0x18010484, 0x1c0100c0, 0x1a2100c4,
      0x18110080, 0x182102c0, 0x1a3100c0, 0x181100c0, 0x181104c0, 0x1a0100c4, 0x1d0100c4,
      0x1a0180c4, 0x5a000004, 0x10004, 0x5a200004, 0x18410000, 0x1d010084, 0x1c200100, 0x58004008,
      0x18010000, 0x5a000000, 0x18210000, 0x1c000100, 0x5a004004, 0x5a000004, 0x5a200004,
      0xdc000004, 0x58000004, 0x18410000, 0x18410040, 0x1c000140, 0x18010040, 0x5a000040,
      0x18210040, 0x5a000044, 0xdc004040, 0xdc000044, 0xdc004000, 0x5840c004, 0x78000000,
      0x5a200044, 0x18210040, 0x5a000044, 0x18010000, 0x18010000, 0, 0, 0x18010000, 0x18010004,
      0x18010000, 0x18010000, 0x10000, 0x5a200044, 0x18210240, 0x18210240, 0x4, 0x5c200044,
      0x18110080, 0x182102c0, 0x20000000, 0xc4001021, 0x44200003, 0x44000003, 0x44000001,
      0x44002001, 0xc4000021, 0x44000001, 0xc4000021, 0xc4000021, 0x44000003, 0x44000021,
      0x44000003, 0x44000003, 0x4000001, 0x44000003, 0x44000003, 0x44000021, 0x44000001,
      0x54008101, 0x44000001, 0x44000001, 0x44000001, 0x20000800, 0x20000800, 0x840100a1,
      0x85011081, 0x85011081, 0x85011081, 0x5030081, 0x5030081, 0x5030081, 0x5030081, 0x5030081,
      0x5030081, 0x5030081, 0x5030081, 0x5030081, 0x5030081, 0x15038081, 0x5002081, 0x15030081,
      0x5038081, 0x5038081, 0x5012081, 0x5030081, 0x5038081, 0x5038081, 0x5000081, 0xc4001001,
      0xc4080001, 0x44000001, 0x44002001, 0x44080001, 0x44080001, 0xc4080001, 0x44080001,
      0x54088001, 0x44080001, 0x44080001, 0x44080001, 0x44080001, 0xc4080001, 0x44000001,
      0x44080001, 0x44080001, 0x44080001, 0x44280001, 0x24000001, 0x4000001, 0x4000001,
      0x24002001, 0x24002001, 0x24002001, 0x24002001, 0x24002001, 0x44000001, 0x44000001,
      0x44000001, 0x44000001, 0x4000001, 0x4000001, 0x4000001, 0x24002001, 0x44000001, 0x44000001,
      0x20000001, 0x20000001, 0x20000001, 0x20000001, 0x20000001, 0x20000001, 0x20000001,
      0x20000001, 0x20000001, 0x44000001, 0x5038081, 0x20000000, 0x54008000, 0x20000000,
      0x20000000, 0x20000000, 0x20000000, 0x20000000, 0x54008000, 0x44008000, 0x44008000,
      0x44008000, 0x44008000, 0x1001, 0x20000800, 0x20800800, 0x20800800, 0x20800800, 0x20800800,
      0x800800, 0x800800, 0x800800, 0x800800, 0x800800, 0x800800, 0x800800, 0x800800, 0, 0, 0, 0,
      0, 0]"

definition unitRace :: "race list" where
  "unitRace =
     [
      Terran, Terran, Terran, Terran, Terran, Terran, Terran, Terran, Terran, Terran, Terran,
      Terran, Terran, Terran, Terran, Terran, Terran, Terran, Terran, Terran, Terran, Terran,
      Terran, Terran, Terran, Terran, Terran, Terran, Terran, Terran, Terran, Terran, Terran,
      Terran, Terran, Zerg, Zerg, Zerg, Zerg, Zerg, Zerg, Zerg, Zerg, Zerg, Zerg, Zerg, Zerg,
      Zerg, Zerg, Zerg, Zerg, Zerg, Zerg, Zerg, Zerg, Zerg, Zerg, Zerg, Terran, Zerg, Protoss,
      Protoss, Zerg, Protoss, Protoss, Protoss, Protoss, Protoss, Protoss, Protoss, Protoss,
      Protoss, Protoss, Protoss, Protoss, Protoss, Protoss, Protoss, Protoss, Protoss, Protoss,
      Protoss, Protoss, Protoss, Protoss, Protoss, Protoss, Protoss, Protoss, OtherRace,
      OtherRace, Zerg, Zerg, OtherRace, OtherRace, OtherRace, OtherRace, Zerg, Protoss, Terran,
      Terran, OtherRace, Terran, Zerg, Zerg, OtherRace, Terran, Terran, Terran, Terran, Terran,
      Terran, Terran, Terran, Terran, Terran, Terran, Terran, Terran, Terran, Terran, Terran,
      Terran, Terran, Terran, Terran, Terran, Terran, OtherRace, OtherRace, Zerg, Zerg, Zerg,
      Zerg, Zerg, Zerg, Zerg, Zerg, Zerg, Zerg, Zerg, Zerg, Zerg, Zerg, Zerg, Zerg, Zerg, Zerg,
      Zerg, Zerg, Zerg, Zerg, Zerg, Zerg, Protoss, Protoss, Protoss, Protoss, Protoss, Protoss,
      Protoss, Protoss, Protoss, Protoss, Protoss, Protoss, Protoss, Protoss, Protoss, Protoss,
      Protoss, Protoss, Protoss, Protoss, Protoss, Protoss, OtherRace, OtherRace, OtherRace,
      OtherRace, OtherRace, OtherRace, OtherRace, OtherRace, OtherRace, OtherRace, OtherRace,
      OtherRace, OtherRace, Protoss, Terran, Zerg, Terran, Protoss, Zerg, Terran, Protoss, Zerg,
      Terran, Protoss, Terran, Zerg, OtherRace, OtherRace, OtherRace, OtherRace, OtherRace,
      OtherRace, OtherRace, OtherRace, OtherRace, OtherRace, OtherRace, OtherRace, OtherRace,
      OtherRace, OtherRace, OtherRace, OtherRace, OtherRace, OtherRace, OtherRace, OtherRace,
      OtherRace, OtherRace, OtherRace, OtherRace, OtherRace, OtherRace, OtherRace, OtherRace,
      OtherRace, OtherRace, OtherRace]"

definition techOrders :: "int list" where
  "techOrders =
     [
      189, 115, 122, 132, 139, 189, 141, 143, 113, 189, 189, 189, 27, 121, 119, 144, 145, 146,
      120, 142, 148, 137, 147, 189, 180, 181, 189, 182, 189, 184, 185, 186, 189, 189, 176, 189,
      189, 189, 189, 189, 189, 189, 189, 189, 189, 126, 190]"

definition isBuilding :: "int \<Rightarrow> bool" where
  "isBuilding t \<longleftrightarrow> unitFlags ! nat t AND Building_flag \<noteq> 0"

definition isAddon :: "int \<Rightarrow> bool" where
  "isAddon t \<longleftrightarrow> unitFlags ! nat t AND Addon_flag \<noteq> 0"

definition getRace :: "int \<Rightarrow> race" where
  "getRace t = unitRace ! nat t"

definition techOrder :: "int \<Rightarrow> int" where
  "techOrder t = techOrders ! nat t"

lemma table_lengths: "length unitFlags = 234" "length unitRace = 234" "length techOrders = 47"
  by (simp_all add: unitFlags_def unitRace_def techOrders_def)

section \<open>Positions\<close>

text \<open>The map size in tiles, \<open>None\<close> while the \<open>Broodwar\<close> pointer is not set.\<close>

type_synonym map_size = "(int \<times> int) option"

definition setMin :: "int \<Rightarrow> int \<Rightarrow> int \<times> int \<Rightarrow> int \<times> int" where
  "setMin mx my p = (if fst p < mx then mx else fst p, if snd p < my then my else snd p)"

definition setMax :: "int \<Rightarrow> int \<Rightarrow> int \<times> int \<Rightarrow> int \<times> int" where
  "setMax mx my p = (if fst p > mx then mx else fst p, if snd p > my then my else snd p)"

definition pointIsValid :: "int \<Rightarrow> map_size \<Rightarrow> int \<times> int \<Rightarrow> bool" where
  "pointIsValid scale ms p \<longleftrightarrow>
     (if fst p < 0 \<or> snd p < 0 then False
      else case ms of
        None \<Rightarrow> fst p < (256 * 32) div scale \<and> snd p < (256 * 32) div scale
      | Some (w, h) \<Rightarrow> fst p < (w * 32) div scale \<and> snd p < (h * 32) div scale)"

definition makeValid :: "int \<Rightarrow> map_size \<Rightarrow> int \<times> int \<Rightarrow> int \<times> int" where
  "makeValid scale ms p =
     (let q = setMin 0 0 p in
      case ms of
        None \<Rightarrow> (let mx = (256 * 32) div scale - 1 in setMax mx mx q)
      | Some (w, h) \<Rightarrow> setMax ((w * 32) div scale - 1) ((h * 32) div scale - 1) q)"

lemma makeValid_valid:
  assumes "0 < scale" "scale \<le> 32" and "\<forall>w h. ms = Some (w, h) \<longrightarrow> 0 < w \<and> 0 < h"
  shows "pointIsValid scale ms (makeValid scale ms p)"
proof -
  have pos: "0 < (k * 32) div scale" if "0 < k" for k :: int
    using that assms(1,2) by (simp add: pos_imp_zdiv_pos_iff)
  show ?thesis
  proof (cases ms)
    case None
    then show ?thesis
      using pos [of 256] by (auto simp: makeValid_def pointIsValid_def setMin_def setMax_def Let_def)
  next
    case (Some wh)
    then show ?thesis
      using assms(3) pos [of "fst wh"] pos [of "snd wh"]
      by (cases wh) (auto simp: makeValid_def pointIsValid_def setMin_def setMax_def Let_def)
  qed
qed

lemma makeValid_id: "pointIsValid scale ms p \<Longrightarrow> makeValid scale ms p = p"
  by (auto simp: makeValid_def pointIsValid_def setMin_def setMax_def Let_def
      split: if_splits option.splits prod.splits)

section \<open>The command record\<close>

text \<open>What the command code reads of a live unit.\<close>

record live_unit = bw_unit +
  lu_type :: int
  lu_position :: "int \<times> int"
  lu_tile :: "int \<times> int"
  lu_isSieged :: bool
  lu_isCloaked :: bool
  lu_isBurrowed :: bool

type_synonym unit_ref = "live_unit option"

record unit_command =
  uc_unit :: unit_ref
  uc_type :: int
  uc_target :: unit_ref
  uc_x :: int
  uc_y :: int
  uc_extra :: int

definition mk_command :: "unit_ref \<Rightarrow> int \<Rightarrow> unit_command" where
  "mk_command u t =
     \<lparr>uc_unit = u, uc_type = t, uc_target = None, uc_x = 32000, uc_y = 32032, uc_extra = 0\<rparr>"

definition assignTarget :: "int \<Rightarrow> map_size \<Rightarrow> int \<Rightarrow> int \<Rightarrow> unit_command \<Rightarrow> unit_command" where
  "assignTarget scale ms x y c =
     (let target = makeValid scale ms (x, y) in c\<lparr>uc_x := fst target, uc_y := snd target\<rparr>)"

abbreviation assignPosition :: "map_size \<Rightarrow> int \<Rightarrow> int \<Rightarrow> unit_command \<Rightarrow> unit_command" where
  "assignPosition \<equiv> assignTarget 1"

abbreviation assignTile :: "map_size \<Rightarrow> int \<Rightarrow> int \<Rightarrow> unit_command \<Rightarrow> unit_command" where
  "assignTile \<equiv> assignTarget 32"

definition shift_extra :: "bool \<Rightarrow> int" where
  "shift_extra q = (if q then 1 else 0)"

section \<open>Constructor functions\<close>

definition uc_attack_pos :: "map_size \<Rightarrow> unit_ref \<Rightarrow> int \<Rightarrow> int \<Rightarrow> bool \<Rightarrow> unit_command" where
  "uc_attack_pos ms u x y q = (assignPosition ms x y (mk_command u Attack_Move))\<lparr>uc_extra := shift_extra q\<rparr>"

definition uc_move :: "map_size \<Rightarrow> unit_ref \<Rightarrow> int \<Rightarrow> int \<Rightarrow> bool \<Rightarrow> unit_command" where
  "uc_move ms u x y q = (assignPosition ms x y (mk_command u Move))\<lparr>uc_extra := shift_extra q\<rparr>"

definition uc_patrol :: "map_size \<Rightarrow> unit_ref \<Rightarrow> int \<Rightarrow> int \<Rightarrow> bool \<Rightarrow> unit_command" where
  "uc_patrol ms u x y q = (assignPosition ms x y (mk_command u Patrol))\<lparr>uc_extra := shift_extra q\<rparr>"

definition uc_unloadAll_pos :: "map_size \<Rightarrow> unit_ref \<Rightarrow> int \<Rightarrow> int \<Rightarrow> bool \<Rightarrow> unit_command" where
  "uc_unloadAll_pos ms u x y q = (assignPosition ms x y (mk_command u Unload_All_Position))\<lparr>uc_extra := shift_extra q\<rparr>"

definition uc_rightClick_pos :: "map_size \<Rightarrow> unit_ref \<Rightarrow> int \<Rightarrow> int \<Rightarrow> bool \<Rightarrow> unit_command" where
  "uc_rightClick_pos ms u x y q = (assignPosition ms x y (mk_command u Right_Click_Position))\<lparr>uc_extra := shift_extra q\<rparr>"

definition uc_attack_unit :: "unit_ref \<Rightarrow> unit_ref \<Rightarrow> bool \<Rightarrow> unit_command" where
  "uc_attack_unit u target q = (mk_command u Attack_Unit)\<lparr>uc_target := target, uc_extra := shift_extra q\<rparr>"

definition uc_follow :: "unit_ref \<Rightarrow> unit_ref \<Rightarrow> bool \<Rightarrow> unit_command" where
  "uc_follow u target q = (mk_command u Follow)\<lparr>uc_target := target, uc_extra := shift_extra q\<rparr>"

definition uc_gather :: "unit_ref \<Rightarrow> unit_ref \<Rightarrow> bool \<Rightarrow> unit_command" where
  "uc_gather u target q = (mk_command u Gather)\<lparr>uc_target := target, uc_extra := shift_extra q\<rparr>"

definition uc_repair :: "unit_ref \<Rightarrow> unit_ref \<Rightarrow> bool \<Rightarrow> unit_command" where
  "uc_repair u target q = (mk_command u Repair)\<lparr>uc_target := target, uc_extra := shift_extra q\<rparr>"

definition uc_load :: "unit_ref \<Rightarrow> unit_ref \<Rightarrow> bool \<Rightarrow> unit_command" where
  "uc_load u target q = (mk_command u Load)\<lparr>uc_target := target, uc_extra := shift_extra q\<rparr>"

definition uc_rightClick_unit :: "unit_ref \<Rightarrow> unit_ref \<Rightarrow> bool \<Rightarrow> unit_command" where
  "uc_rightClick_unit u target q = (mk_command u Right_Click_Unit)\<lparr>uc_target := target, uc_extra := shift_extra q\<rparr>"

definition uc_holdPosition :: "unit_ref \<Rightarrow> bool \<Rightarrow> unit_command" where
  "uc_holdPosition u q = (mk_command u Hold_Position)\<lparr>uc_extra := shift_extra q\<rparr>"

definition uc_stop :: "unit_ref \<Rightarrow> bool \<Rightarrow> unit_command" where
  "uc_stop u q = (mk_command u Stop)\<lparr>uc_extra := shift_extra q\<rparr>"

definition uc_returnCargo :: "unit_ref \<Rightarrow> bool \<Rightarrow> unit_command" where
  "uc_returnCargo u q = (mk_command u Return_Cargo)\<lparr>uc_extra := shift_extra q\<rparr>"

definition uc_unloadAll :: "unit_ref \<Rightarrow> bool \<Rightarrow> unit_command" where
  "uc_unloadAll u q = (mk_command u Unload_All)\<lparr>uc_extra := shift_extra q\<rparr>"

definition uc_buildAddon :: "unit_ref \<Rightarrow> int \<Rightarrow> unit_command" where
  "uc_buildAddon u type = (mk_command u Build_Addon)\<lparr>uc_extra := type\<rparr>"

definition uc_train :: "unit_ref \<Rightarrow> int \<Rightarrow> unit_command" where
  "uc_train u type = (mk_command u Train)\<lparr>uc_extra := type\<rparr>"

definition uc_morph :: "unit_ref \<Rightarrow> int \<Rightarrow> unit_command" where
  "uc_morph u type = (mk_command u Morph)\<lparr>uc_extra := type\<rparr>"

definition uc_research :: "unit_ref \<Rightarrow> int \<Rightarrow> unit_command" where
  "uc_research u type = (mk_command u Research)\<lparr>uc_extra := type\<rparr>"

definition uc_upgrade :: "unit_ref \<Rightarrow> int \<Rightarrow> unit_command" where
  "uc_upgrade u type = (mk_command u Upgrade)\<lparr>uc_extra := type\<rparr>"

definition uc_haltConstruction :: "unit_ref \<Rightarrow> unit_command" where
  "uc_haltConstruction u = mk_command u Halt_Construction"

definition uc_cancelConstruction :: "unit_ref \<Rightarrow> unit_command" where
  "uc_cancelConstruction u = mk_command u Cancel_Construction"

definition uc_cancelAddon :: "unit_ref \<Rightarrow> unit_command" where
  "uc_cancelAddon u = mk_command u Cancel_Addon"

definition uc_cancelMorph :: "unit_ref \<Rightarrow> unit_command" where
  "uc_cancelMorph u = mk_command u Cancel_Morph"

definition uc_cancelResearch :: "unit_ref \<Rightarrow> unit_command" where
  "uc_cancelResearch u = mk_command u Cancel_Research"

definition uc_cancelUpgrade :: "unit_ref \<Rightarrow> unit_command" where
  "uc_cancelUpgrade u = mk_command u Cancel_Upgrade"

definition uc_burrow :: "unit_ref \<Rightarrow> unit_command" where
  "uc_burrow u = mk_command u Burrow"

definition uc_unburrow :: "unit_ref \<Rightarrow> unit_command" where
  "uc_unburrow u = mk_command u Unburrow"

definition uc_cloak :: "unit_ref \<Rightarrow> unit_command" where
  "uc_cloak u = mk_command u Cloak"

definition uc_decloak :: "unit_ref \<Rightarrow> unit_command" where
  "uc_decloak u = mk_command u Decloak"

definition uc_siege :: "unit_ref \<Rightarrow> unit_command" where
  "uc_siege u = mk_command u Siege"

definition uc_unsiege :: "unit_ref \<Rightarrow> unit_command" where
  "uc_unsiege u = mk_command u Unsiege"

definition uc_lift :: "unit_ref \<Rightarrow> unit_command" where
  "uc_lift u = mk_command u Lift"

definition uc_land :: "map_size \<Rightarrow> unit_ref \<Rightarrow> int \<Rightarrow> int \<Rightarrow> unit_command" where
  "uc_land ms u x y = assignTile ms x y (mk_command u Land)"

definition uc_placeCOP :: "map_size \<Rightarrow> unit_ref \<Rightarrow> int \<Rightarrow> int \<Rightarrow> unit_command" where
  "uc_placeCOP ms u x y = assignTile ms x y (mk_command u Place_COP)"

definition uc_build :: "map_size \<Rightarrow> unit_ref \<Rightarrow> int \<Rightarrow> int \<Rightarrow> int \<Rightarrow> unit_command" where
  "uc_build ms u x y type = (assignTile ms x y (mk_command u Build))\<lparr>uc_extra := type\<rparr>"

definition uc_setRallyPoint_pos :: "map_size \<Rightarrow> unit_ref \<Rightarrow> int \<Rightarrow> int \<Rightarrow> unit_command" where
  "uc_setRallyPoint_pos ms u x y = assignPosition ms x y (mk_command u Set_Rally_Position)"

definition uc_setRallyPoint_unit :: "unit_ref \<Rightarrow> unit_ref \<Rightarrow> unit_command" where
  "uc_setRallyPoint_unit u target = (mk_command u Set_Rally_Unit)\<lparr>uc_target := target\<rparr>"

definition uc_unload :: "unit_ref \<Rightarrow> unit_ref \<Rightarrow> unit_command" where
  "uc_unload u target = (mk_command u Unload)\<lparr>uc_target := target\<rparr>"

definition uc_cancelTrain :: "unit_ref \<Rightarrow> int \<Rightarrow> unit_command" where
  "uc_cancelTrain u slot = (mk_command u (if slot \<ge> 0 then Cancel_Train_Slot else Cancel_Train))\<lparr>uc_extra := slot\<rparr>"

definition uc_useTech_pos :: "map_size \<Rightarrow> unit_ref \<Rightarrow> int \<Rightarrow> int \<Rightarrow> int \<Rightarrow> unit_command" where
  "uc_useTech_pos ms u tech x y = (assignPosition ms x y (mk_command u Use_Tech_Position))\<lparr>uc_extra := tech\<rparr>"

definition uc_useTech_unit :: "unit_ref \<Rightarrow> int \<Rightarrow> unit_ref \<Rightarrow> unit_command" where
  "uc_useTech_unit u tech target = (mk_command u Use_Tech_Unit)\<lparr>uc_target := target, uc_extra := tech\<rparr>"

text \<open>\<open>useTech(Unit, TechType)\<close> reads the unit's state for the techs with a toggle: a null unit is
  dereferenced there (\<open>None\<close>).\<close>

definition uc_useTech :: "unit_ref \<Rightarrow> int \<Rightarrow> unit_command option" where
  "uc_useTech u tech =
     (let c = (mk_command u Use_Tech)\<lparr>uc_extra := tech\<rparr> in
      if tech = 11 then
        map_option (\<lambda>v. c\<lparr>uc_type := if lu_isBurrowed v then Unburrow else Burrow\<rparr>) u
      else if tech = 9 \<or> tech = 10 then
        map_option (\<lambda>v. c\<lparr>uc_type := if lu_isCloaked v then Decloak else Cloak\<rparr>) u
      else if tech = 5 then
        map_option (\<lambda>v. c\<lparr>uc_type := if lu_isSieged v then Unsiege else Siege\<rparr>) u
      else Some c)"

section \<open>Accessors\<close>

definition isTileCommand :: "unit_command \<Rightarrow> bool" where
  "isTileCommand c \<longleftrightarrow> uc_type c = Build \<or> uc_type c = Land \<or> uc_type c = Place_COP"

definition getTargetPosition :: "unit_command \<Rightarrow> int \<times> int" where
  "getTargetPosition c =
     (if isTileCommand c then (uc_x c * 32, uc_y c * 32) else (uc_x c, uc_y c))"

text \<open>Scaling down truncates towards zero, as C++ division does.\<close>

definition getTargetTilePosition :: "unit_command \<Rightarrow> int \<times> int" where
  "getTargetTilePosition c =
     (if isTileCommand c then (uc_x c, uc_y c)
      else (sgn (uc_x c) * (\<bar>uc_x c\<bar> div 32), sgn (uc_y c) * (\<bar>uc_y c\<bar> div 32)))"

definition getUnitType :: "unit_command \<Rightarrow> int" where
  "getUnitType c =
     (if uc_type c = Build \<or> uc_type c = Build_Addon \<or> uc_type c = Train \<or> uc_type c = Morph
      then mkType UnitType_Unknown (uc_extra c) else UnitType_None)"

definition getTechType :: "unit_command \<Rightarrow> int" where
  "getTechType c =
     (if uc_type c = Research \<or> uc_type c = Use_Tech \<or> uc_type c = Use_Tech_Position
         \<or> uc_type c = Use_Tech_Unit
      then mkType TechType_Unknown (uc_extra c) else TechType_None)"

definition getUpgradeType :: "unit_command \<Rightarrow> int" where
  "getUpgradeType c =
     (if uc_type c = Upgrade then mkType UpgradeType_Unknown (uc_extra c) else UpgradeType_None)"

definition getSlot :: "unit_command \<Rightarrow> int" where
  "getSlot c = (if uc_type c = Cancel_Train_Slot then uc_extra c else - 1)"

definition isQueued :: "unit_command \<Rightarrow> bool" where
  "isQueued c =
     (if uc_type c = Attack_Move \<or> uc_type c = Attack_Unit \<or> uc_type c = Move
         \<or> uc_type c = Patrol \<or> uc_type c = Hold_Position \<or> uc_type c = Stop
         \<or> uc_type c = Follow \<or> uc_type c = Gather \<or> uc_type c = Return_Cargo
         \<or> uc_type c = Repair \<or> uc_type c = Load \<or> uc_type c = Unload_All
         \<or> uc_type c = Unload_All_Position \<or> uc_type c = Right_Click_Position
         \<or> uc_type c = Right_Click_Unit
      then uc_extra c \<noteq> 0 else False)"

text \<open>Targets are compared as pointers, so by the unit's place in the unit table.\<close>

definition uc_equal :: "unit_command \<Rightarrow> unit_command \<Rightarrow> bool" where
  "uc_equal a b \<longleftrightarrow> uc_type a = uc_type b
     \<and> map_option u_index (uc_target a) = map_option u_index (uc_target b)
     \<and> uc_x a = uc_x b \<and> uc_y a = uc_y b \<and> uc_extra a = uc_extra b"

end
