(* ===== verification/Wire_Format.thy ===== *)
theory Wire_Format
  imports Order_Types
begin

text \<open>
  What the encoder promises, stated against the packed structures of \<open>BW::Orders\<close>.
  \<open>command_forms\<close> and \<open>action_forms\<close> give each surface name its form; a form says which
  requests are acceptable (\<open>form_ok\<close>), which structure they stand for (\<open>form_order\<close>), and which
  of the request's integers matter (\<open>effective\<close>). The encoder is proved to implement this table,
  to lose nothing, and to produce streams that can be cut into commands again.
\<close>

datatype command_form =
  FAttackPos int
| FAttackPosUnqueued int
| FAttackUnit int
| FAttackUnitUnqueued int
| FRightClickPos
| FRightClickUnit
| FQueued "u8 \<Rightarrow> bw_order"
| FPlain bw_order
| FCancelTrain
| FType16 "u16 \<Rightarrow> bw_order"
| FType8 "u8 \<Rightarrow> bw_order"
| FTile "u16 \<Rightarrow> u16 \<Rightarrow> u16 \<Rightarrow> bw_order"
| FBuild
| FLoad
| FUseTech
| FUseTechPos
| FUseTechUnit
| FUnload
| FPing
| FAlliance
| FVision

definition command_forms :: "(string \<times> command_form) list" where
  "command_forms =
     [(''Move'', FAttackPos Orders_Move), (''Attack_Move'', FAttackPos Orders_AttackMove),
      (''Patrol'', FAttackPos Orders_Patrol),
      (''Set_Rally_Position'', FAttackPosUnqueued Orders_RallyPointTile),
      (''Unload_All_Position'', FAttackPos Orders_MoveUnload),
      (''Attack_Unit'', FAttackUnit Orders_Attack1), (''Follow'', FAttackUnit Orders_Follow),
      (''Gather'', FAttackUnit Orders_Harvest1), (''Repair'', FAttackUnit Orders_Repair),
      (''Set_Rally_Unit'', FAttackUnitUnqueued Orders_RallyPointUnit),
      (''Right_Click_Position'', FRightClickPos), (''Right_Click_Unit'', FRightClickUnit),
      (''Stop'', FQueued OStop), (''Halt_Construction'', FPlain (OStop 0)),
      (''Hold_Position'', FQueued OHoldPosition), (''Return_Cargo'', FQueued OReturnCargo),
      (''Burrow'', FPlain OBurrow), (''Unburrow'', FPlain OUnburrow), (''Cloak'', FPlain OCloak),
      (''Decloak'', FPlain ODecloak), (''Siege'', FPlain OSiege), (''Unsiege'', FPlain OUnsiege),
      (''Lift'', FPlain OLift), (''Cancel_Construction'', FPlain OCancelConstruction),
      (''Cancel_Addon'', FPlain OCancelAddon), (''Cancel_Research'', FPlain OCancelResearch),
      (''Cancel_Upgrade'', FPlain OCancelUpgrade), (''Cancel_Train'', FCancelTrain),
      (''Cancel_Train_Slot'', FCancelTrain), (''Train'', FType16 OTrainUnit),
      (''Morph'', FType16 OUnitMorph), (''Research'', FType8 OInvent),
      (''Upgrade'', FType8 OUpgrade), (''Build'', FBuild), (''Build_Addon'', FTile OMakeAddon),
      (''Land'', FTile OLand), (''Place_COP'', FTile OPlaceCOP), (''Load'', FLoad),
      (''Unload_All'', FPlain OUnloadAll), (''Cancel_Morph'', FPlain OCancelUnitMorph),
      (''Use_Tech'', FUseTech), (''Use_Tech_Position'', FUseTechPos),
      (''Use_Tech_Unit'', FUseTechUnit), (''Unload'', FUnload)]"

definition action_forms :: "(string \<times> command_form) list" where
  "action_forms =
     [(''pauseGame'', FPlain OPauseGame), (''resumeGame'', FPlain OResumeGame),
      (''restartGame'', FPlain ORestartGame), (''pingMinimap'', FPing),
      (''setAlliance'', FAlliance), (''setVision'', FVision)]"

definition request_form :: "command_request \<Rightarrow> command_form option" where
  "request_form r =
     (case rq_kind r of UnitCommand \<Rightarrow> map_of command_forms (rq_name r)
      | GameAction \<Rightarrow> map_of action_forms (rq_name r))"

abbreviation arg :: "command_request \<Rightarrow> nat \<Rightarrow> int" where
  "arg r i \<equiv> rq_arguments r ! i"

abbreviation s16 :: "command_request \<Rightarrow> nat \<Rightarrow> bool" where
  "s16 r i \<equiv> arg_in r i int16_min int16_max"

abbreviation target_ok :: "command_request \<Rightarrow> bool" where
  "target_ok r \<equiv> inRange (rq_targetUnitId r) 1 uint16_max"

fun form_ok :: "command_form \<Rightarrow> command_request \<Rightarrow> bool" where
  "form_ok (FAttackPos _) r \<longleftrightarrow> args_between r 2 3 \<and> s16 r 0 \<and> s16 r 1 \<and> queued_ok r 2"
| "form_ok (FAttackPosUnqueued _) r \<longleftrightarrow> args_between r 2 2 \<and> s16 r 0 \<and> s16 r 1"
| "form_ok (FAttackUnit _) r \<longleftrightarrow> args_between r 0 1 \<and> target_ok r \<and> queued_ok r 0"
| "form_ok (FAttackUnitUnqueued _) r \<longleftrightarrow> args_between r 0 0 \<and> target_ok r"
| "form_ok FRightClickPos r \<longleftrightarrow> args_between r 2 3 \<and> s16 r 0 \<and> s16 r 1 \<and> queued_ok r 2"
| "form_ok FRightClickUnit r \<longleftrightarrow> args_between r 0 1 \<and> target_ok r \<and> queued_ok r 0"
| "form_ok (FQueued _) r \<longleftrightarrow> args_between r 0 1 \<and> queued_ok r 0"
| "form_ok (FPlain _) r \<longleftrightarrow> args_between r 0 0"
| "form_ok FCancelTrain r \<longleftrightarrow> args_between r 0 1
     \<and> (rq_arguments r \<noteq> [] \<longrightarrow> arg_in r 0 int8_min int8_max)"
| "form_ok (FType16 _) r \<longleftrightarrow> args_between r 1 1 \<and> arg_in r 0 0 uint16_max"
| "form_ok (FType8 _) r \<longleftrightarrow> args_between r 1 1 \<and> arg_in r 0 0 uint8_max"
| "form_ok (FTile _) r \<longleftrightarrow> args_between r 3 3 \<and> s16 r 0 \<and> s16 r 1 \<and> arg_in r 2 0 uint16_max"
| "form_ok FBuild r \<longleftrightarrow> args_between r 4 4 \<and> s16 r 0 \<and> s16 r 1 \<and> arg_in r 2 0 uint16_max
     \<and> arg_in r 3 0 uint8_max"
| "form_ok FLoad r \<longleftrightarrow> args_between r 1 2 \<and> target_ok r \<and> arg_in r 0 0 uint8_max \<and> queued_ok r 1"
| "form_ok FUseTech r \<longleftrightarrow> args_between r 1 1 \<and> arg_in r 0 0 uint8_max \<and> arg r 0 = Stim_Packs"
| "form_ok FUseTechPos r \<longleftrightarrow> args_between r 3 3 \<and> s16 r 0 \<and> s16 r 1 \<and> arg_in r 2 0 uint8_max"
| "form_ok FUseTechUnit r \<longleftrightarrow> args_between r 1 1 \<and> target_ok r \<and> arg_in r 0 0 uint8_max"
| "form_ok FUnload r \<longleftrightarrow> args_between r 0 0 \<and> target_ok r"
| "form_ok FPing r \<longleftrightarrow> args_between r 2 2 \<and> s16 r 0 \<and> s16 r 1"
| "form_ok FAlliance r \<longleftrightarrow> args_between r 1 1 \<and> arg_in r 0 0 int32_max"
| "form_ok FVision r \<longleftrightarrow> args_between r 1 1 \<and> arg_in r 0 0 uint16_max"

fun form_order :: "command_form \<Rightarrow> command_request \<Rightarrow> bw_order" where
  "form_order (FAttackPos ord) r = Attack_xy (arg r 0) (arg r 1) ord (queued_value r 2 = 1)"
| "form_order (FAttackPosUnqueued ord) r = Attack_xy (arg r 0) (arg r 1) ord False"
| "form_order (FAttackUnit ord) r =
     Attack_target (0, 0, word_of_int (rq_targetUnitId r)) ord (queued_value r 0 = 1)"
| "form_order (FAttackUnitUnqueued ord) r =
     Attack_target (0, 0, word_of_int (rq_targetUnitId r)) ord False"
| "form_order FRightClickPos r = RightClick_xy (arg r 0) (arg r 1) (queued_value r 2 = 1)"
| "form_order FRightClickUnit r =
     RightClick_target (0, 0, word_of_int (rq_targetUnitId r)) (queued_value r 0 = 1)"
| "form_order (FQueued mk) r = mk (queuedFlag (queued_value r 0 = 1))"
| "form_order (FPlain ord) r = ord"
| "form_order FCancelTrain r =
     CancelTrain_of (if rq_arguments r = [] then - 2 else arg r 0)"
| "form_order (FType16 mk) r = mk (word_of_int (arg r 0))"
| "form_order (FType8 mk) r = mk (word_of_int (arg r 0))"
| "form_order (FTile mk) r = mk (word_of_int (arg r 0)) (word_of_int (arg r 1)) (word_of_int (arg r 2))"
| "form_order FBuild r =
     OMakeBuilding (word_of_int (arg r 3)) (word_of_int (arg r 0)) (word_of_int (arg r 1))
       (word_of_int (arg r 2))"
| "form_order FLoad r =
     Attack_target (0, 0, word_of_int (rq_targetUnitId r)) (arg r 0) (queued_value r 1 = 1)"
| "form_order FUseTech r = OUseStimPack"
| "form_order FUseTechPos r = Attack_xy (arg r 0) (arg r 1) (arg r 2) False"
| "form_order FUseTechUnit r =
     Attack_target (0, 0, word_of_int (rq_targetUnitId r)) (arg r 0) False"
| "form_order FUnload r = OUnloadUnit (word_of_int (rq_targetUnitId r))"
| "form_order FPing r = MinimapPing_xy (arg r 0) (arg r 1)"
| "form_order FAlliance r = OSetAllies (word_of_int (arg r 0))"
| "form_order FVision r = OSetVision (word_of_int (arg r 0))"

text \<open>
  The bytes the encoder writes for a structure: the packed structure, but for a right click,
  where the encoder leaves out the two bytes of the \<open>always0xe4\<close> field.
\<close>

fun encoder_bytes :: "bw_order \<Rightarrow> u8 list" where
  "encoder_bytes (ORightClick target type) = [0x14] @ packTarget target @ [type]"
| "encoder_bytes ord = pack ord"

definition implements :: "encoded_command \<Rightarrow> command_form \<Rightarrow> command_request \<Rightarrow> bool" where
  "implements e f r \<longleftrightarrow> (enc_encoded e \<longleftrightarrow> form_ok f r)
     \<and> enc_bytes e = (if form_ok f r then encoder_bytes (form_order f r) else [])"

section \<open>Rejection carries no bytes\<close>

definition silent :: "encoded_command \<Rightarrow> bool" where
  "silent e \<longleftrightarrow> (\<not> enc_encoded e \<longrightarrow> enc_bytes e = [])"

lemma silent_basic [simp]: "silent (accept bs)" "silent (reject m)"
    "silent (add_warning w e) = silent e"
  by (simp_all add: silent_def)

lemma silent_with_count [simp]: "silent k \<Longrightarrow> silent (with_count r lo hi k)"
  by (auto simp: with_count_def requireArgCount_def Let_def)

lemma silent_with_arg [simp]: "(\<And>v. silent (k v)) \<Longrightarrow> silent (with_arg r i l lo hi k)"
  by (auto simp: with_arg_def readArg_def Let_def)

lemma silent_with_queued [simp]: "(\<And>v. silent (k v)) \<Longrightarrow> silent (with_queued r i k)"
  by (auto simp: with_queued_def readQueued_def Let_def)

lemma silent_with_target [simp]: "silent k \<Longrightarrow> silent (with_target r k)"
  by (auto simp: with_target_def)

lemma implementsI:
  assumes "silent e" and "enc_encoded e \<longleftrightarrow> form_ok f r"
    and "form_ok f r \<Longrightarrow> enc_bytes e = encoder_bytes (form_order f r)"
  shows "implements e f r"
  using assms by (auto simp: implements_def silent_def)

section \<open>Each helper implements its form\<close>

lemma queued_value_flag:
  "queued_ok r i \<Longrightarrow> word_of_int (queued_value r i) = (queuedFlag (queued_value r i = 1) :: u8)"
proof -
  assume "queued_ok r i"
  then have "queued_value r i = 0 \<or> queued_value r i = 1"
    by (auto simp: queued_ok_def queued_value_def inRange_def)
  then show ?thesis by (auto simp: queuedFlag_def)
qed

lemmas form_simps = encodeAttackTarget_def encodeRightClickTarget_def AttackOpcode_def
  RightClickOpcode_def UnitTypeNone_def order_ctors pt_at_def queued_value_flag queuedFlag_def wire

lemma impl_AttackPos: "implements (encodePositionAttackCommand r ord) (FAttackPos ord) r"
  by (rule implementsI) (auto simp: encodePositionAttackCommand_def form_simps Let_def)

lemma impl_AttackPosUnqueued:
  "implements (encodePositionAttackCommandUnqueued r ord) (FAttackPosUnqueued ord) r"
  by (rule implementsI) (auto simp: encodePositionAttackCommandUnqueued_def form_simps Let_def)

lemma impl_AttackUnit: "implements (encodeUnitAttackCommand r ord) (FAttackUnit ord) r"
  by (rule implementsI) (auto simp: encodeUnitAttackCommand_def form_simps Let_def)

lemma impl_AttackUnitUnqueued:
  "implements (encodeUnitAttackCommandUnqueued r ord) (FAttackUnitUnqueued ord) r"
  by (rule implementsI) (auto simp: encodeUnitAttackCommandUnqueued_def form_simps Let_def)

lemma impl_RightClickPos: "implements (encodeRightClickPositionCommand r) FRightClickPos r"
  by (rule implementsI) (auto simp: encodeRightClickPositionCommand_def form_simps Let_def)

lemma impl_RightClickUnit: "implements (encodeRightClickUnitCommand r) FRightClickUnit r"
  by (rule implementsI) (auto simp: encodeRightClickUnitCommand_def form_simps Let_def)

lemma impl_Tile:
  "\<lbrakk>\<And>x y t. encoder_bytes (mk x y t) = [0x0c, word_of_int ord] @ le16 x @ le16 y @ le16 t\<rbrakk>
   \<Longrightarrow> implements (encodeTileAndUnitTypeCommand r ord) (FTile mk) r"
  by (rule implementsI) (auto simp: encodeTileAndUnitTypeCommand_def form_simps Let_def)

lemma impl_Single:
  "encoder_bytes o' = [word_of_int opc] \<Longrightarrow> implements (encodeSingleOpcodeCommand r opc) (FPlain o') r"
  by (rule implementsI) (auto simp: encodeSingleOpcodeCommand_def wire)

lemma impl_Unused:
  "encoder_bytes o' = [word_of_int opc, 0] \<Longrightarrow> implements (encodeUnusedByteCommand r opc) (FPlain o') r"
  by (rule implementsI) (auto simp: encodeUnusedByteCommand_def wire)

lemma impl_FixedQueued:
  "encoder_bytes o' = [word_of_int opc, 0]
   \<Longrightarrow> implements (encodeFixedQueuedOpcodeCommand r opc 0) (FPlain o') r"
  by (rule implementsI) (auto simp: encodeFixedQueuedOpcodeCommand_def wire)

lemma impl_Queued:
  "(\<And>q. encoder_bytes (mk q) = [word_of_int opc, q])
   \<Longrightarrow> implements (encodeQueuedOpcodeCommand r opc) (FQueued mk) r"
  by (rule implementsI) (auto simp: encodeQueuedOpcodeCommand_def wire queued_value_flag)

lemma impl_Type16:
  "(\<And>v. encoder_bytes (mk v) = word_of_int opc # le16 v)
   \<Longrightarrow> implements (encodeType16Command r opc l) (FType16 mk) r"
  by (rule implementsI) (auto simp: encodeType16Command_def wire)

lemma impl_Type8:
  "(\<And>v. encoder_bytes (mk v) = [word_of_int opc, v])
   \<Longrightarrow> implements (encodeType8Command r opc l) (FType8 mk) r"
  by (rule implementsI) (auto simp: encodeType8Command_def wire)

lemma implements_add_warning [simp]: "implements (add_warning w e) f r = implements e f r"
  by (simp add: implements_def)

lemma arg_in_butlast:
  "args_between r 4 4 \<Longrightarrow> i < 3 \<Longrightarrow>
   arg_in (r\<lparr>rq_arguments := butlast (rq_arguments r)\<rparr>) i lo hi = arg_in r i lo hi
   \<and> butlast (rq_arguments r) ! i = rq_arguments r ! i"
  by (auto simp: args_between_def arg_in_def nth_butlast)

lemma args_between_butlast:
  "args_between r 4 4 \<Longrightarrow> args_between (r\<lparr>rq_arguments := butlast (rq_arguments r)\<rparr>) 3 3"
  by (auto simp: args_between_def)

lemma impl_Build: "implements (encodeBuildCommand r) FBuild r"
  by (rule implementsI)
    (auto simp: encodeBuildCommand_def encodeTileAndUnitTypeCommand_def form_simps Let_def
      arg_in_butlast args_between_butlast)

lemma impl_CancelTrain: "implements (encodeCancelTrain r) FCancelTrain r"
  by (rule implementsI) (auto simp: encodeCancelTrain_def cancelTrainBytes_def form_simps)

lemma impl_Load: "implements (encodeLoadCommand r) FLoad r"
  by (rule implementsI) (auto simp: encodeLoadCommand_def form_simps Let_def)

lemma impl_UseTech: "implements (encodeUseTechCommand r) FUseTech r"
  by (rule implementsI) (auto simp: encodeUseTechCommand_def form_simps Stim_Packs_def)

lemma impl_UseTechPos: "implements (encodeUseTechPosition r) FUseTechPos r"
  by (rule implementsI) (auto simp: encodeUseTechPosition_def form_simps Let_def)

lemma impl_UseTechUnit: "implements (encodeUseTechUnit r) FUseTechUnit r"
  by (rule implementsI) (auto simp: encodeUseTechUnit_def form_simps Let_def)

lemma impl_Unload: "implements (encodeUnloadCommand r) FUnload r"
  by (rule implementsI) (auto simp: encodeUnloadCommand_def form_simps)

lemma impl_Lift: "implements (encodeLiftCommand r) (FPlain OLift) r"
  by (rule implementsI) (auto simp: encodeLiftCommand_def form_simps)

lemma impl_Ping: "implements (encodePingMinimap r) FPing r"
  by (rule implementsI) (auto simp: encodePingMinimap_def form_simps)

lemma impl_Alliance: "implements (encodeSetAlliance r) FAlliance r"
  by (rule implementsI) (auto simp: encodeSetAlliance_def form_simps)

lemma impl_Vision: "implements (encodeSetVision r) FVision r"
  by (rule implementsI) (auto simp: encodeSetVision_def form_simps)

lemmas impls = impl_AttackPos impl_AttackPosUnqueued impl_AttackUnit impl_AttackUnitUnqueued
  impl_RightClickPos impl_RightClickUnit impl_Tile impl_Single impl_Unused impl_FixedQueued
  impl_Queued impl_Type16 impl_Type8 impl_Build impl_CancelTrain impl_Load impl_UseTech
  impl_UseTechPos impl_UseTechUnit impl_Unload impl_Lift impl_Ping impl_Alliance impl_Vision

section \<open>The dispatcher implements the table\<close>

lemma dispatch_unit:
  assumes "rq_kind r = UnitCommand" and "(rq_name r, f) \<in> set command_forms"
  shows "implements (encodeRuntimeCommandRequest r) f r"
  using assms unfolding command_forms_def list.set insert_iff empty_iff prod.inject
  by (elim disjE conjE FalseE)
    (simp_all add: encodeRuntimeCommandRequest_def impls encodeTrain_def encodeUnitMorph_def
      encodeUnloadAllCommand_def encodeCancelMorphCommand_def Orders_PlaceAddon_def
      Orders_BuildingLand_def Orders_CTFCOP2_def)

lemma dispatch_action:
  assumes "rq_kind r = GameAction" and "(rq_name r, f) \<in> set action_forms"
  shows "implements (encodeRuntimeCommandRequest r) f r"
  using assms unfolding action_forms_def list.set insert_iff empty_iff prod.inject
  by (elim disjE conjE FalseE)
    (simp_all add: encodeRuntimeCommandRequest_def encodeGameAction_def impls)

lemma dispatch_unknown_unit:
  assumes "rq_kind r = UnitCommand" and "rq_name r \<notin> fst ` set command_forms"
  shows "\<not> enc_encoded (encodeRuntimeCommandRequest r)
    \<and> enc_bytes (encodeRuntimeCommandRequest r) = []"
  using assms by (simp add: command_forms_def encodeRuntimeCommandRequest_def Let_def)

lemma dispatch_unknown_action:
  assumes "rq_kind r = GameAction" and "rq_name r \<notin> fst ` set action_forms"
  shows "\<not> enc_encoded (encodeRuntimeCommandRequest r)
    \<and> enc_bytes (encodeRuntimeCommandRequest r) = []"
  using assms by (simp add: action_forms_def encodeRuntimeCommandRequest_def encodeGameAction_def Let_def)

lemma encode_some:
  "request_form r = Some f \<Longrightarrow> implements (encodeRuntimeCommandRequest r) f r"
  by (auto simp: request_form_def intro: dispatch_unit dispatch_action dest!: map_of_SomeD
      split: command_kind.splits)

lemma encode_none:
  "request_form r = None \<Longrightarrow> \<not> enc_encoded (encodeRuntimeCommandRequest r)
    \<and> enc_bytes (encodeRuntimeCommandRequest r) = []"
  by (simp add: request_form_def map_of_eq_None_iff dispatch_unknown_unit dispatch_unknown_action
      split: command_kind.splits)

lemma encoded_iff:
  "enc_encoded (encodeRuntimeCommandRequest r) \<longleftrightarrow>
   (\<exists>f. request_form r = Some f \<and> form_ok f r)"
  using encode_some [of r] encode_none [of r]
  by (cases "request_form r") (auto simp: implements_def)

lemma encoded_bytes:
  "request_form r = Some f \<Longrightarrow> form_ok f r \<Longrightarrow>
   enc_bytes (encodeRuntimeCommandRequest r) = encoder_bytes (form_order f r)"
  using encode_some by (auto simp: implements_def)

lemma request_form_names:
  "request_form r \<noteq> None \<longleftrightarrow>
   (case rq_kind r of UnitCommand \<Rightarrow> rq_name r \<in> fst ` set command_forms
    | GameAction \<Rightarrow> rq_name r \<in> fst ` set action_forms)"
  by (simp add: request_form_def map_of_eq_None_iff del: not_None_eq split: command_kind.splits)

lemma command_forms_names: "set (map fst command_forms) = set unitCommandNames"
  by code_simp

lemma action_forms_names:
  "set gameActionNames = set (map fst action_forms) \<union> set adapterLocalActions"
  "set (map fst action_forms) \<inter> set adapterLocalActions = {}"
  by code_simp+

section \<open>Nothing of a request is lost\<close>

fun effective :: "command_form \<Rightarrow> command_request \<Rightarrow> int list" where
  "effective (FAttackPos _) r = [arg r 0, arg r 1, queued_value r 2]"
| "effective (FAttackPosUnqueued _) r = [arg r 0, arg r 1]"
| "effective (FAttackUnit _) r = [rq_targetUnitId r, queued_value r 0]"
| "effective (FAttackUnitUnqueued _) r = [rq_targetUnitId r]"
| "effective FRightClickPos r = [arg r 0, arg r 1, queued_value r 2]"
| "effective FRightClickUnit r = [rq_targetUnitId r, queued_value r 0]"
| "effective (FQueued _) r = [queued_value r 0]"
| "effective (FPlain _) r = []"
| "effective FCancelTrain r = [if rq_arguments r = [] then - 2 else arg r 0]"
| "effective (FType16 _) r = [arg r 0]"
| "effective (FType8 _) r = [arg r 0]"
| "effective (FTile _) r = [arg r 0, arg r 1, arg r 2]"
| "effective FBuild r = [arg r 0, arg r 1, arg r 2, arg r 3]"
| "effective FLoad r = [rq_targetUnitId r, arg r 0, queued_value r 1]"
| "effective FUseTech r = [arg r 0]"
| "effective FUseTechPos r = [arg r 0, arg r 1, arg r 2]"
| "effective FUseTechUnit r = [rq_targetUnitId r, arg r 0]"
| "effective FUnload r = [rq_targetUnitId r]"
| "effective FPing r = [arg r 0, arg r 1]"
| "effective FAlliance r = [arg r 0]"
| "effective FVision r = [arg r 0]"

text \<open>The structure of a form, with the opcode-specific constructors known to be injective.\<close>

definition inj_bytes8 :: "(u8 \<Rightarrow> bw_order) \<Rightarrow> bool" where
  "inj_bytes8 mk \<longleftrightarrow> (\<exists>p. \<forall>v. encoder_bytes (mk v) = [p, v])"

definition inj_bytes16 :: "(u16 \<Rightarrow> bw_order) \<Rightarrow> bool" where
  "inj_bytes16 mk \<longleftrightarrow> (\<exists>p. \<forall>v. encoder_bytes (mk v) = p # le16 v)"

fun regular_form :: "command_form \<Rightarrow> bool" where
  "regular_form (FQueued mk) \<longleftrightarrow> inj_bytes8 mk"
| "regular_form (FType8 mk) \<longleftrightarrow> inj_bytes8 mk"
| "regular_form (FType16 mk) \<longleftrightarrow> inj_bytes16 mk"
| "regular_form (FTile mk) \<longleftrightarrow>
     (\<exists>p q. \<forall>x y t. encoder_bytes (mk x y t) = p # q # le16 x @ le16 y @ le16 t)"
| "regular_form _ \<longleftrightarrow> True"

lemma forms_regular:
  "(n, f) \<in> set command_forms \<Longrightarrow> regular_form f" "(n, f) \<in> set action_forms \<Longrightarrow> regular_form f"
  unfolding command_forms_def action_forms_def list.set insert_iff empty_iff prod.inject
  by (elim disjE conjE FalseE; simp add: inj_bytes8_def inj_bytes16_def)+

lemma request_form_regular: "request_form r = Some f \<Longrightarrow> regular_form f"
  by (auto simp: request_form_def dest!: map_of_SomeD intro: forms_regular
      split: command_kind.splits)

lemma signed16_inj:
  assumes "inRange x int16_min int16_max" "inRange y int16_min int16_max"
  shows "(word_of_int x :: u16) = word_of_int y \<longleftrightarrow> x = y"
proof -
  have "sint (word_of_int z :: 16 word) = z" if "inRange z int16_min int16_max" for z
    using that by (simp add: sint_sbintrunc' signed_take_bit_int_eq_self inRange_def limits)
  then show ?thesis using assms by metis
qed

lemma signed8_inj:
  assumes "inRange x int8_min int8_max" "inRange y int8_min int8_max"
  shows "(word_of_int x :: u8) = word_of_int y \<longleftrightarrow> x = y"
proof -
  have "sint (word_of_int z :: 8 word) = z" if "inRange z int8_min int8_max" for z
    using that by (simp add: sint_sbintrunc' signed_take_bit_int_eq_self inRange_def limits)
  then show ?thesis using assms by metis
qed

lemma signed8_default:
  "inRange x int8_min int8_max \<Longrightarrow> (word_of_int x :: u8) = - 2 \<longleftrightarrow> x = - 2"
  using signed8_inj [of x "- 2"] by (simp add: inRange_def limits)

lemma unsigned_inj:
  assumes "0 \<le> x" "x < 2 ^ LENGTH('a)" "0 \<le> y" "y < 2 ^ LENGTH('a)"
  shows "(word_of_int x :: 'a::len word) = word_of_int y \<longleftrightarrow> x = y"
  using assms by (metis take_bit_int_eq_self uint_word_of_int_eq)

lemma unsigned16_inj:
  "inRange x l uint16_max \<Longrightarrow> inRange y l uint16_max \<Longrightarrow> 0 \<le> l \<Longrightarrow>
   (word_of_int x :: u16) = word_of_int y \<longleftrightarrow> x = y"
  by (rule unsigned_inj) (auto simp: inRange_def limits)

lemma unsigned8_inj:
  "inRange x 0 uint8_max \<Longrightarrow> inRange y 0 uint8_max \<Longrightarrow>
   (word_of_int x :: u8) = word_of_int y \<longleftrightarrow> x = y"
  by (rule unsigned_inj) (auto simp: inRange_def limits)

lemma unsigned32_inj:
  "inRange x 0 int32_max \<Longrightarrow> inRange y 0 int32_max \<Longrightarrow>
   (word_of_int x :: u32) = word_of_int y \<longleftrightarrow> x = y"
  by (rule unsigned_inj) (auto simp: inRange_def limits)

lemma flag_inj:
  "queued_ok r i \<Longrightarrow> queued_ok r' i \<Longrightarrow>
   queuedFlag (queued_value r i = 1) = queuedFlag (queued_value r' i = 1)
   \<longleftrightarrow> queued_value r i = queued_value r' i"
  by (auto simp: queued_ok_def queued_value_def queuedFlag_def inRange_def)

lemmas field_inj = signed16_inj signed8_inj signed8_default unsigned16_inj unsigned8_inj unsigned32_inj flag_inj

lemma le_inj [simp]: "le16 v = le16 w \<longleftrightarrow> v = w" "le32 x = le32 y \<longleftrightarrow> x = y"
  by (simp_all add: word_to_le_inject)

lemma form_lossless:
  assumes "regular_form f" and "form_ok f r" and "form_ok f r'"
    and "encoder_bytes (form_order f r) = encoder_bytes (form_order f r')"
  shows "effective f r = effective f r'"
  using assms
  by (cases f)
    (auto simp: order_ctors pt_at_def field_inj arg_in_def inj_bytes8_def inj_bytes16_def
      Stim_Packs_def split: if_splits)

section \<open>Cutting a stream of commands\<close>

text \<open>
  The turn buffer is the concatenation of the queued commands; the reader knows a command's
  length from its first bytes. \<open>split_frames\<close> is that reader, for any length rule.
\<close>

function split_frames :: "(u8 list \<Rightarrow> nat) \<Rightarrow> u8 list \<Rightarrow> u8 list list" where
  "split_frames len bs =
     (if bs = [] \<or> len bs = 0 then [] else take (len bs) bs # split_frames len (drop (len bs) bs))"
  by pat_completeness auto
termination
  by (relation "measure (\<lambda>(len, bs). length bs)") auto

declare split_frames.simps [simp del]

locale framing =
  fixes len :: "u8 list \<Rightarrow> nat" and frame :: "u8 list \<Rightarrow> bool"
  assumes frame_nonempty: "frame f \<Longrightarrow> f \<noteq> []"
    and frame_size: "frame f \<Longrightarrow> len (f @ rest) = length f"
begin

lemma split_concat: "(\<And>f. f \<in> set fs \<Longrightarrow> frame f) \<Longrightarrow> split_frames len (concat fs) = fs"
proof (induction fs)
  case Nil
  then show ?case by (simp add: split_frames.simps)
next
  case (Cons f fs)
  then have "frame f" by simp
  then have "len (f @ concat fs) = length f" "f \<noteq> []"
    by (simp_all add: frame_size frame_nonempty)
  with Cons show ?case by (subst split_frames.simps) simp
qed

lemma concat_inj:
  "(\<And>f. f \<in> set fs \<Longrightarrow> frame f) \<Longrightarrow> (\<And>g. g \<in> set gs \<Longrightarrow> frame g) \<Longrightarrow>
   concat fs = concat gs \<Longrightarrow> fs = gs"
  by (metis split_concat)

end

text \<open>The sizes of the \<open>BW::Orders\<close> structures by opcode; a selection says its own length.\<close>

definition opcode_sizes :: "(u8 \<times> nat) list" where
  "opcode_sizes =
     [(0x15, 11), (0x14, 10), (0x1F, 3), (0x27, 1), (0x0c, 8), (0x30, 2), (0x32, 2), (0x44, 3),
      (0x41, 3), (0x3e, 6), (0x3c, 1), (0x10, 1), (0x11, 1), (0x57, 2), (0x5a, 1), (0x2a, 1),
      (0x58, 5), (0x36, 1), (0x35, 3), (0x34, 1), (0x33, 1), (0x31, 1), (0x2e, 1), (0x2f, 5),
      (0x2c, 2), (0x2d, 2), (0x2b, 2), (0x29, 3), (0x28, 2), (0x26, 2), (0x25, 2), (0x23, 3),
      (0x21, 2), (0x22, 2), (0x1e, 2), (0x1a, 2), (0x1c, 1), (0x1b, 1), (0x19, 1), (0x18, 1),
      (0x20, 3), (0x12, 5), (0x08, 1), (0x0e, 5), (0x0d, 3)]"

fun packed_size :: "u8 list \<Rightarrow> nat" where
  "packed_size [] = 0"
| "packed_size (opc # rest) =
     (if opc = 0x0A \<or> opc = 0x09
      then (case rest of [] \<Rightarrow> 0 | n # _ \<Rightarrow> 2 + 2 * unat n)
      else (case map_of opcode_sizes opc of None \<Rightarrow> 0 | Some n \<Rightarrow> n))"

fun sendable :: "bw_order \<Rightarrow> bool" where
  "sendable (OSelectAdd ts) \<longleftrightarrow> length ts \<le> MAX_SELECTION_COUNT"
| "sendable (OSelect ts) \<longleftrightarrow> length ts \<le> MAX_SELECTION_COUNT"
| "sendable _ \<longleftrightarrow> True"

definition bw_frame :: "u8 list \<Rightarrow> bool" where
  "bw_frame f \<longleftrightarrow> (\<exists>ord. sendable ord \<and> f = pack ord)"

lemma length_packTarget [simp]: "length (packTarget t) = 6"
  by (cases t) simp

lemma length_concat_le16 [simp]: "length (concat (map le16 ts)) = 2 * length ts"
  by (induction ts) auto

lemma pack_nonempty: "pack ord \<noteq> []"
  by (cases ord) simp_all

lemma packed_size_pack: "sendable ord \<Longrightarrow> packed_size (pack ord @ rest) = length (pack ord)"
  by (cases ord)
    (simp_all add: opcode_sizes_def MAX_SELECTION_COUNT_def unat_of_nat)

interpretation bw: framing packed_size bw_frame
  by unfold_locales (auto simp: bw_frame_def pack_nonempty packed_size_pack)

lemma pack_not_rightclick:
  "(\<forall>t ty. ord \<noteq> ORightClick t ty) \<Longrightarrow> encoder_bytes ord = pack ord"
  by (cases ord) auto

end
