(* ===== verification/Encoder_Properties.thy ===== *)
theory Encoder_Properties
  imports Wire_Format
begin

text \<open>
  What the encoder's output is on the wire: which names it can encode, the framing of a turn
  buffer, right clicks and selections.
\<close>

section \<open>Every form accepts some request\<close>

fun sample_args :: "command_form \<Rightarrow> int list" where
  "sample_args (FAttackPos _) = [0, 0]"
| "sample_args (FAttackPosUnqueued _) = [0, 0]"
| "sample_args FRightClickPos = [0, 0]"
| "sample_args (FType16 _) = [0]"
| "sample_args (FType8 _) = [0]"
| "sample_args (FTile _) = [0, 0, 0]"
| "sample_args FBuild = [0, 0, 0, 0]"
| "sample_args FLoad = [0]"
| "sample_args FUseTech = [0]"
| "sample_args FUseTechPos = [0, 0, 0]"
| "sample_args FUseTechUnit = [0]"
| "sample_args FPing = [0, 0]"
| "sample_args FAlliance = [0]"
| "sample_args FVision = [0]"
| "sample_args _ = []"

lemma sample_ok:
  "form_ok f \<lparr>rq_kind = k, rq_name = n, rq_targetUnitId = 1, rq_arguments = sample_args f\<rparr>"
  by (cases f)
    (simp_all add: args_between_def arg_in_def inRange_def limits queued_ok_def Stim_Packs_def)

lemma some_encoded:
  assumes "(case k of UnitCommand \<Rightarrow> map_of command_forms n | GameAction \<Rightarrow> map_of action_forms n) = Some f"
  shows "\<exists>r. rq_kind r = k \<and> rq_name r = n \<and> enc_encoded (encodeRuntimeCommandRequest r)"
proof -
  let ?r = "\<lparr>rq_kind = k, rq_name = n, rq_targetUnitId = 1, rq_arguments = sample_args f\<rparr>"
  have "request_form ?r = Some f" using assms by (cases k) (simp_all add: request_form_def)
  with sample_ok [of f k n] have "enc_encoded (encodeRuntimeCommandRequest ?r)"
    by (auto simp: encoded_iff)
  then show ?thesis by (intro exI [of _ ?r]) simp
qed

lemma encoded_names:
  "{rq_name r |r. rq_kind r = UnitCommand \<and> enc_encoded (encodeRuntimeCommandRequest r)}
     = set (map fst command_forms)"
  "{rq_name r |r. rq_kind r = GameAction \<and> enc_encoded (encodeRuntimeCommandRequest r)}
     = set (map fst action_forms)"
proof -
  have "rq_name r \<in> set (map fst command_forms)"
    if "rq_kind r = UnitCommand" "enc_encoded (encodeRuntimeCommandRequest r)" for r
    using that by (auto simp: encoded_iff request_form_def dest!: map_of_SomeD
        intro: rev_image_eqI)
  moreover have "\<exists>r. rq_kind r = UnitCommand \<and> rq_name r = n
      \<and> enc_encoded (encodeRuntimeCommandRequest r)" if "n \<in> set (map fst command_forms)" for n
    using that some_encoded [where k = UnitCommand and n = n]
    by (cases "map_of command_forms n") (auto simp: map_of_eq_None_iff)
  ultimately show "{rq_name r |r. rq_kind r = UnitCommand
      \<and> enc_encoded (encodeRuntimeCommandRequest r)} = set (map fst command_forms)"
    by (intro set_eqI iffI) (simp only: mem_Collect_eq, metis)+
  have "rq_name r \<in> set (map fst action_forms)"
    if "rq_kind r = GameAction" "enc_encoded (encodeRuntimeCommandRequest r)" for r
    using that by (auto simp: encoded_iff request_form_def dest!: map_of_SomeD
        intro: rev_image_eqI)
  moreover have "\<exists>r. rq_kind r = GameAction \<and> rq_name r = n
      \<and> enc_encoded (encodeRuntimeCommandRequest r)" if "n \<in> set (map fst action_forms)" for n
    using that some_encoded [where k = GameAction and n = n]
    by (cases "map_of action_forms n") (auto simp: map_of_eq_None_iff)
  ultimately show "{rq_name r |r. rq_kind r = GameAction
      \<and> enc_encoded (encodeRuntimeCommandRequest r)} = set (map fst action_forms)"
    by (intro set_eqI iffI) (simp only: mem_Collect_eq, metis)+
qed

lemma adapter_local_same: "isRuntimeAdapterLocalGameAction = isAdapterLocalGameActionName"
proof -
  have "encoderAdapterLocalActions = adapterLocalActions"
    unfolding encoderAdapterLocalActions_def adapterLocalActions_def ..
  then show ?thesis
    by (auto simp: fun_eq_iff isRuntimeAdapterLocalGameAction_def isAdapterLocalGameActionName_def
        containsCommandSurfaceEntry_def)
qed

lemma diff_of_union: "A = B \<union> C \<Longrightarrow> B \<inter> C = {} \<Longrightarrow> B = A - C"
  by blast

lemma encodable_surface:
  "set (map fst command_forms) = set (unitCommands makeBWAPICommandSurface)"
  "set (map fst action_forms)
     = set (gameActions makeBWAPICommandSurface) - {n. isAdapterLocalGameActionName n}"
proof -
  show "set (map fst command_forms) = set (unitCommands makeBWAPICommandSurface)"
    unfolding command_forms_names makeBWAPICommandSurface_def by simp
  have local: "{n. isAdapterLocalGameActionName n} = set adapterLocalActions"
    by (simp add: isAdapterLocalGameActionName_def containsCommandSurfaceEntry_def)
  show "set (map fst action_forms)
     = set (gameActions makeBWAPICommandSurface) - {n. isAdapterLocalGameActionName n}"
    unfolding local surface_gameActions by (rule diff_of_union [OF action_forms_names])
qed

section \<open>Right clicks and selections\<close>

definition right_click_names :: "string list" where
  "right_click_names = [''Right_Click_Position'', ''Right_Click_Unit'']"

lemma form_order_rightclick:
  assumes "request_form r = Some f"
  shows "(\<exists>t ty. form_order f r = ORightClick t ty) \<longleftrightarrow>
    rq_kind r = UnitCommand \<and> rq_name r \<in> set right_click_names"
proof (cases "rq_kind r")
  case UnitCommand
  with assms have "(rq_name r, f) \<in> set command_forms"
    by (auto simp: request_form_def dest: map_of_SomeD)
  then show ?thesis
    using UnitCommand unfolding command_forms_def list.set insert_iff empty_iff prod.inject
    by (elim disjE conjE FalseE)
      (simp_all add: right_click_names_def order_ctors pt_at_def)
next
  case GameAction
  with assms have "(rq_name r, f) \<in> set action_forms"
    by (auto simp: request_form_def dest: map_of_SomeD)
  then show ?thesis
    using GameAction unfolding action_forms_def list.set insert_iff empty_iff prod.inject
    by (elim disjE conjE FalseE) (simp_all add: order_ctors pt_at_def)
qed

lemma form_order_sendable:
  assumes "request_form r = Some f"
  shows "sendable (form_order f r)"
proof -
  have "(rq_name r, f) \<in> set command_forms \<or> (rq_name r, f) \<in> set action_forms"
    using assms by (auto simp: request_form_def dest: map_of_SomeD split: command_kind.splits)
  then show ?thesis
    unfolding command_forms_def action_forms_def list.set insert_iff empty_iff prod.inject
    by (elim disjE conjE FalseE) (simp_all add: order_ctors pt_at_def)
qed

lemma select_encoded:
  "encodeRuntimeSelectCommand ids add =
     (if ids = [] then reject ''selection command requires at least one unit target id''
      else if length ids > 12 then reject ''selection command supports at most 12 unit target ids''
      else if list_all (\<lambda>t. inRange t 1 uint16_max) ids
      then accept (pack ((if add then OSelectAdd else OSelect) (map word_of_int ids)))
      else reject ''selection unit target id must be in [1, 65535]'')"
  by (auto simp: encodeRuntimeSelectCommand_def MaxSelectionCount_def appendTargets_le list_all_iff
      wire comp_def)

definition turn_command :: "encoded_command \<Rightarrow> bool" where
  "turn_command e \<longleftrightarrow> enc_encoded e
     \<and> ((\<exists>r. e = encodeRuntimeCommandRequest r \<and> rq_name r \<notin> set right_click_names)
        \<or> (\<exists>ids add. e = encodeRuntimeSelectCommand ids add))"

lemma turn_command_frame: "turn_command e \<Longrightarrow> bw_frame (enc_bytes e)"
proof -
  assume "turn_command e"
  then consider (req) r where "e = encodeRuntimeCommandRequest r" "enc_encoded e"
      "rq_name r \<notin> set right_click_names"
    | (sel) ids add where "e = encodeRuntimeSelectCommand ids add" "enc_encoded e"
    by (auto simp: turn_command_def)
  then show ?thesis
  proof cases
    case req
    then obtain f where f: "request_form r = Some f" "form_ok f r"
      by (auto simp: encoded_iff)
    then have "encoder_bytes (form_order f r) = pack (form_order f r)"
      using req form_order_rightclick by (intro pack_not_rightclick) blast
    with req f show ?thesis
      using form_order_sendable encoded_bytes by (auto simp: bw_frame_def)
  next
    case sel
    let ?o = "(if add then OSelectAdd else OSelect) (map word_of_int ids)"
    from sel have "length ids \<le> 12" "enc_bytes e = pack ?o"
      by (auto simp: select_encoded split: if_splits)
    then show ?thesis
      by (auto simp: bw_frame_def MAX_SELECTION_COUNT_def intro!: exI [of _ ?o])
  qed
qed

section \<open>Properties\<close>

text \<open>
  C2. The encoder implements the command table: a request is accepted exactly when its name has a
  form and its arguments fit that form, and the bytes are then those of the \<open>BW::Orders\<close> structure
  of the form built from the request's values (right clicks without the \<open>always0xe4\<close> field); a
  rejected request carries no bytes.
\<close>

theorem encoder_implements_command_table:
  "case request_form r of
     None \<Rightarrow> \<not> enc_encoded (encodeRuntimeCommandRequest r)
       \<and> enc_bytes (encodeRuntimeCommandRequest r) = []
   | Some f \<Rightarrow> enc_encoded (encodeRuntimeCommandRequest r) = form_ok f r
       \<and> enc_bytes (encodeRuntimeCommandRequest r)
           = (if form_ok f r then encoder_bytes (form_order f r) else [])"
  using encode_some encode_none by (auto simp: implements_def split: option.split)

text \<open>
  The encoder covers the surface: the unit commands it can encode are exactly the 44 of the
  surface, and the game actions it can encode are exactly those of the surface that are not
  adapter-local; the encoder's own list of adapter-local actions is the surface's.
\<close>

lemma encoder_covers_surface:
  "{rq_name r |r. rq_kind r = UnitCommand \<and> enc_encoded (encodeRuntimeCommandRequest r)}
     = set (unitCommands makeBWAPICommandSurface)
   \<and> {rq_name r |r. rq_kind r = GameAction \<and> enc_encoded (encodeRuntimeCommandRequest r)}
     = set (gameActions makeBWAPICommandSurface) - {n. isAdapterLocalGameActionName n}
   \<and> isRuntimeAdapterLocalGameAction = isAdapterLocalGameActionName"
  unfolding encoded_names by (intro conjI encodable_surface adapter_local_same)

text \<open>
  Encoding loses nothing: two accepted requests for the same command with the same bytes have
  the same coordinates, target, identifiers and queue flag (an omitted flag being 0), so no
  integer is truncated on the wire.
\<close>

theorem encode_lossless:
  assumes "rq_kind r = rq_kind r'" and "rq_name r = rq_name r'"
    and "enc_encoded (encodeRuntimeCommandRequest r)"
    and "enc_encoded (encodeRuntimeCommandRequest r')"
    and "enc_bytes (encodeRuntimeCommandRequest r) = enc_bytes (encodeRuntimeCommandRequest r')"
  shows "map_option (\<lambda>f. effective f r) (request_form r)
    = map_option (\<lambda>f. effective f r') (request_form r')"
proof -
  have same: "request_form r' = request_form r"
    using assms(1,2) by (cases "rq_kind r'") (simp_all add: request_form_def)
  from assms(3,4) same obtain f where f: "request_form r = Some f" "form_ok f r" "form_ok f r'"
    by (auto simp: encoded_iff)
  then have "effective f r = effective f r'"
    using assms(5) same encoded_bytes request_form_regular by (intro form_lossless) auto
  with f same show ?thesis by simp
qed

definition move_request :: "int list \<Rightarrow> command_request" where
  "move_request args =
     \<lparr>rq_kind = UnitCommand, rq_name = ''Move'', rq_targetUnitId = 0, rq_arguments = args\<rparr>"

lemma move_request_default:
  "encodeRuntimeCommandRequest (move_request [100, 200, 0])
     = encodeRuntimeCommandRequest (move_request [100, 200])"
  by (simp add: encodeRuntimeCommandRequest_def move_request_def encodePositionAttackCommand_def
      with_count_def requireArgCount_def with_arg_def readArg_def with_queued_def readQueued_def
      inRange_def limits encodeAttackTarget_def Let_def)

lemma move_request_encoded:
  "enc_encoded (encodeRuntimeCommandRequest (move_request [100, 200]))"
  by (simp add: encodeRuntimeCommandRequest_def move_request_def encodePositionAttackCommand_def
      with_count_def requireArgCount_def with_arg_def readArg_def with_queued_def readQueued_def
      inRange_def limits encodeAttackTarget_def Let_def)

theorem encode_lossless_witness:
  "map_option (\<lambda>f. effective f (move_request [100, 200])) (request_form (move_request [100, 200]))
   = map_option (\<lambda>f. effective f (move_request [100, 200, 0]))
       (request_form (move_request [100, 200, 0]))"
proof (rule encode_lossless)
  show "enc_encoded (encodeRuntimeCommandRequest (move_request [100, 200, 0]))"
    by (simp only: move_request_default move_request_encoded)
  show "enc_bytes (encodeRuntimeCommandRequest (move_request [100, 200]))
    = enc_bytes (encodeRuntimeCommandRequest (move_request [100, 200, 0]))"
    by (simp only: move_request_default)
qed (simp_all add: move_request_encoded, simp_all add: move_request_def)

text \<open>
  A turn buffer filled with accepted commands and selections (right clicks aside) can be cut
  into exactly those commands by a reader that knows the sizes of the \<open>BW::Orders\<close> structures.
\<close>

theorem turn_buffer_splits:
  assumes "\<forall>e\<in>set es. turn_command e"
  shows "split_frames packed_size (concat (map enc_bytes es)) = map enc_bytes es"
  using assms by (intro bw.split_concat) (auto intro: turn_command_frame)

theorem turn_buffer_splits_witness:
  "split_frames packed_size
     (concat (map enc_bytes [encodeRuntimeSelectCommand [2049, 2050] False,
        encodeRuntimeCommandRequest (move_request [100, 200])]))
   = map enc_bytes [encodeRuntimeSelectCommand [2049, 2050] False,
        encodeRuntimeCommandRequest (move_request [100, 200])]"
proof (rule turn_buffer_splits)
  have "turn_command (encodeRuntimeSelectCommand [2049, 2050] False)"
    unfolding turn_command_def
    by (intro conjI disjI2 exI [of _ "[2049, 2050]"] exI [of _ False] refl)
      (simp add: select_encoded inRange_def limits)
  moreover have "turn_command (encodeRuntimeCommandRequest (move_request [100, 200]))"
    unfolding turn_command_def
    by (intro conjI disjI1 exI [of _ "move_request [100, 200]"] refl move_request_encoded)
      (simp add: move_request_def right_click_names_def)
  ultimately show "\<forall>e\<in>set [encodeRuntimeSelectCommand [2049, 2050] False,
      encodeRuntimeCommandRequest (move_request [100, 200])]. turn_command e"
    by simp
qed

text \<open>
  The right-click packet disagrees with the structure the client of 1.16.1 sends: for every
  accepted right click the encoder writes the ten-byte \<open>BW::Orders::RightClick\<close> without its
  \<open>always0xe4\<close> field, eight bytes, so a reader that takes the structure's size runs two bytes into
  whatever follows.
\<close>

theorem right_click_packet_short:
  assumes "rq_kind r = UnitCommand" and "rq_name r \<in> set right_click_names"
    and "enc_encoded (encodeRuntimeCommandRequest r)"
  shows "\<exists>target type.
     enc_bytes (encodeRuntimeCommandRequest r)
       = take 7 (pack (ORightClick target type)) @ drop 9 (pack (ORightClick target type))
   \<and> length (enc_bytes (encodeRuntimeCommandRequest r)) = 8
   \<and> packed_size (enc_bytes (encodeRuntimeCommandRequest r) @ rest) = 10"
proof -
  from assms(3) obtain f where f: "request_form r = Some f" "form_ok f r"
    by (auto simp: encoded_iff)
  with assms obtain t ty where o: "form_order f r = ORightClick t ty"
    using form_order_rightclick by blast
  with f have "enc_bytes (encodeRuntimeCommandRequest r) = 0x14 # packTarget t @ [ty]"
    by (simp add: encoded_bytes)
  then show ?thesis
    by (intro exI [of _ t] exI [of _ ty]) (simp add: opcode_sizes_def)
qed

definition right_click_request :: command_request where
  "right_click_request =
     \<lparr>rq_kind = UnitCommand, rq_name = ''Right_Click_Position'', rq_targetUnitId = 0,
      rq_arguments = [320, 96, 1]\<rparr>"

theorem right_click_packet_short_witness:
  "\<exists>target type.
     enc_bytes (encodeRuntimeCommandRequest right_click_request)
       = take 7 (pack (ORightClick target type)) @ drop 9 (pack (ORightClick target type))
   \<and> length (enc_bytes (encodeRuntimeCommandRequest right_click_request)) = 8
   \<and> packed_size (enc_bytes (encodeRuntimeCommandRequest right_click_request) @ [0x1a, 0]) = 10"
proof (rule right_click_packet_short)
  show "enc_encoded (encodeRuntimeCommandRequest right_click_request)"
    by (simp add: encodeRuntimeCommandRequest_def right_click_request_def
        encodeRightClickPositionCommand_def with_count_def requireArgCount_def with_arg_def
        readArg_def with_queued_def readQueued_def inRange_def limits encodeRightClickTarget_def
        Let_def)
qed (simp_all add: right_click_request_def right_click_names_def)

text \<open>
  A selection command is accepted exactly for one to twelve raw 16-bit target ids, and then is
  the packed \<open>Select\<close> or \<open>SelectAdd\<close> structure of those ids, at its \<open>size()\<close>.
\<close>

lemma select_command_is_select_structure:
  "(enc_encoded (encodeRuntimeSelectCommand ids add)
      = (ids \<noteq> [] \<and> length ids \<le> MAX_SELECTION_COUNT
         \<and> list_all (\<lambda>t. inRange t 1 uint16_max) ids))
   \<and> enc_bytes (encodeRuntimeSelectCommand ids add)
      = (if enc_encoded (encodeRuntimeSelectCommand ids add)
         then pack ((if add then OSelectAdd else OSelect) (map word_of_int ids)) else [])
   \<and> length (pack (OSelect (map word_of_int ids))) = Select_size (map word_of_int ids)"
  by (simp add: select_encoded MAX_SELECTION_COUNT_def Select_size_def length_concat_le16 del: map_map)

end
