(* ===== verification/Game_Commands.thy ===== *)
theory Game_Commands
  imports Unit_Command Encoder_Properties
begin

text \<open>
  \<open>GameImpl::executeCommand\<close> of the injected 1.16.1 client (\<open>BWAPI/Source/BWAPI/GameCommands.cpp\<close>):
  the \<open>BW::Orders\<close> structure it queues for a unit command. The last section compares it with the
  portable runtime's encoder.
\<close>

section \<open>Executing a command\<close>

text \<open>\<open>NullTarget\<close> is the dereference of a null \<open>target\<close> pointer.\<close>

datatype exec_result = Queued bw_order | NothingQueued | NullTarget

definition on_target :: "unit_command \<Rightarrow> (live_unit \<Rightarrow> bw_order) \<Rightarrow> exec_result" where
  "on_target c mk = (case uc_target c of None \<Rightarrow> NullTarget | Some t \<Rightarrow> Queued (mk t))"

definition bwu :: "live_unit \<Rightarrow> bw_unit" where
  "bwu = bw_unit.truncate"

definition attack_target :: "unit_command \<Rightarrow> int \<Rightarrow> bool \<Rightarrow> exec_result" where
  "attack_target c ord q = on_target c (\<lambda>t. Attack_unit (bwu t) ord q)"

definition unitTypeOr :: "unit_ref \<Rightarrow> int" where
  "unitTypeOr u = (case u of None \<Rightarrow> UnitType_None | Some v \<Rightarrow> lu_type v)"

definition exec_attack_move :: "unit_command \<Rightarrow> exec_result" where
  "exec_attack_move c =
     (if uc_unit c \<noteq> None \<and> unitTypeOr (uc_unit c) = Zerg_Infested_Terran
      then Queued (Attack_xy (uc_x c) (uc_y c) 8 (isQueued c))
      else Queued (Attack_xy (uc_x c) (uc_y c) 14 (isQueued c)))"

definition exec_attack_unit :: "unit_command \<Rightarrow> exec_result" where
  "exec_attack_unit c =
     (let ut = unitTypeOr (uc_unit c) in
      if ut = Protoss_Carrier \<or> ut = Hero_Gantrithor then attack_target c 53 (isQueued c)
      else if ut = Protoss_Reaver \<or> ut = Hero_Warbringer then attack_target c 59 (isQueued c)
      else if isBuilding ut then attack_target c 19 (isQueued c)
      else attack_target c 8 (isQueued c))"

definition exec_build :: "unit_command \<Rightarrow> exec_result" where
  "exec_build c =
     (let extraType = mkType UnitType_Unknown (uc_extra c) in
      if uc_unit c \<noteq> None \<and> unitTypeOr (uc_unit c) = Zerg_Nydus_Canal
         \<and> extraType = Zerg_Nydus_Canal
      then Queued (MakeNydusExit_xy (uc_x c) (uc_y c))
      else if isAddon extraType then Queued (MakeAddon_xy (uc_x c) (uc_y c) extraType)
      else Queued (MakeBuilding_xy (getRace extraType) (uc_x c) (uc_y c) extraType))"

definition exec_build_addon :: "map_size \<Rightarrow> live_unit \<Rightarrow> unit_command \<Rightarrow> exec_result" where
  "exec_build_addon ms u c =
     (let target = makeValid 32 ms (fst (lu_tile u) + 4, snd (lu_tile u) + 1) in
      Queued (MakeAddon_xy (fst target) (snd target) (getUnitType c)))"

definition exec_train :: "unit_command \<Rightarrow> exec_result" where
  "exec_train c =
     (let type1 = mkType UnitType_Unknown (uc_extra c); ut = unitTypeOr (uc_unit c) in
      if ut \<in> {Zerg_Larva, Zerg_Mutalisk, Zerg_Hydralisk} then Queued (UnitMorph_of type1)
      else if ut \<in> {Zerg_Hatchery, Zerg_Lair, Zerg_Spire, Zerg_Creep_Colony}
      then Queued (BuildingMorph_of type1)
      else if ut \<in> {Protoss_Carrier, Hero_Gantrithor, Protoss_Reaver, Hero_Warbringer}
      then Queued OTrainFighter
      else Queued (TrainUnit_of type1))"

definition exec_morph :: "unit_command \<Rightarrow> exec_result" where
  "exec_morph c =
     (let type = mkType UnitType_Unknown (uc_extra c) in
      if isBuilding type then Queued (BuildingMorph_of type) else Queued (UnitMorph_of type))"

definition exec_stop :: "unit_command \<Rightarrow> exec_result" where
  "exec_stop c =
     (let ut = unitTypeOr (uc_unit c) in
      if ut \<in> {Protoss_Reaver, Hero_Warbringer} then Queued OReaverStop
      else if ut \<in> {Protoss_Carrier, Hero_Gantrithor} then Queued OCarrierStop
      else Queued (Stop_of (isQueued c)))"

definition exec_land :: "unit_command \<Rightarrow> exec_result" where
  "exec_land c =
     (case uc_unit c of
        None \<Rightarrow> NothingQueued
      | Some u \<Rightarrow> Queued (Land_xy (uc_x c) (uc_y c) (lu_type u)))"

definition exec_load :: "unit_command \<Rightarrow> exec_result" where
  "exec_load c =
     (let thisType = unitTypeOr (uc_unit c) in
      if thisType = Terran_Bunker then attack_target c 95 (isQueued c)
      else if thisType \<in> {Terran_Dropship, Protoss_Shuttle, Zerg_Overlord, Hero_Yggdrasill}
      then attack_target c 94 (isQueued c)
      else
        (case uc_target c of
           None \<Rightarrow> NullTarget
         | Some t \<Rightarrow>
             if lu_type t \<in> {Terran_Bunker, Terran_Dropship, Protoss_Shuttle, Zerg_Overlord,
                              Hero_Yggdrasill}
             then Queued (RightClick_unit (bwu t) (isQueued c)) else NothingQueued))"

definition exec_unload_all :: "live_unit \<Rightarrow> unit_command \<Rightarrow> exec_result" where
  "exec_unload_all u c =
     (if lu_type u = Terran_Bunker then Queued OUnloadAll
      else Queued (Attack_xy (fst (lu_position u)) (snd (lu_position u)) 112 (isQueued c)))"

definition exec_cancel_morph :: "unit_command \<Rightarrow> exec_result" where
  "exec_cancel_morph c =
     (if uc_unit c \<noteq> None \<and> isBuilding (unitTypeOr (uc_unit c)) then Queued OCancelConstruction
      else Queued OCancelUnitMorph)"

definition toggle :: "unit_command \<Rightarrow> (live_unit \<Rightarrow> bool) \<Rightarrow> bw_order \<Rightarrow> bw_order \<Rightarrow> exec_result" where
  "toggle c active off on =
     (case uc_unit c of
        None \<Rightarrow> Queued on
      | Some u \<Rightarrow> if active u then Queued off else Queued on)"

definition exec_use_tech :: "unit_command \<Rightarrow> exec_result" where
  "exec_use_tech c =
     (let tech = mkType TechType_Unknown (uc_extra c) in
      if tech = 0 then Queued OUseStimPack
      else if tech = 5 then toggle c lu_isSieged OUnsiege OSiege
      else if tech = 10 \<or> tech = 9 then toggle c lu_isCloaked ODecloak OCloak
      else if tech = 11 then toggle c lu_isBurrowed OUnburrow OBurrow
      else NothingQueued)"

definition exec_use_tech_position :: "unit_command \<Rightarrow> exec_result" where
  "exec_use_tech_position c =
     (let order = (if getTechType c = 34 then 177 else techOrder (getTechType c)) in
      Queued (Attack_xy (uc_x c) (uc_y c) order False))"

definition exec_use_tech_unit :: "unit_command \<Rightarrow> exec_result" where
  "exec_use_tech_unit c =
     (let tech = mkType TechType_Unknown (uc_extra c) in
      if tech = 23 then Queued OMergeArchon
      else if tech = 28 then Queued OMergeDarkArchon
      else attack_target c (techOrder tech) False)"

definition executeCommand :: "map_size \<Rightarrow> unit_command \<Rightarrow> exec_result" where
  "executeCommand ms c =
     (let ct = uc_type c; queued = isQueued c; x = uc_x c; y = uc_y c in
      if ct = Attack_Move then exec_attack_move c
      else if ct = Attack_Unit then exec_attack_unit c
      else if ct = Build then exec_build c
      else if ct = Build_Addon \<and> uc_unit c \<noteq> None then exec_build_addon ms (the (uc_unit c)) c
      else if ct = Train then exec_train c
      else if ct = Morph then exec_morph c
      else if ct = Research then Queued (Invent_of (getTechType c))
      else if ct = Upgrade then Queued (Upgrade_of (getUpgradeType c))
      else if ct = Set_Rally_Position then Queued (Attack_xy x y 40 False)
      else if ct = Set_Rally_Unit then attack_target c 39 False
      else if ct = Move then Queued (Attack_xy x y 6 queued)
      else if ct = Patrol then Queued (Attack_xy x y 152 queued)
      else if ct = Hold_Position then Queued (HoldPosition_of queued)
      else if ct = Stop then exec_stop c
      else if ct = Follow then attack_target c 49 queued
      else if ct = Gather then attack_target c 79 queued
      else if ct = Return_Cargo then Queued (ReturnCargo_of queued)
      else if ct = Repair then attack_target c 34 queued
      else if ct = Burrow then Queued OBurrow
      else if ct = Unburrow then Queued OUnburrow
      else if ct = Cloak then Queued OCloak
      else if ct = Decloak then Queued ODecloak
      else if ct = Siege then Queued OSiege
      else if ct = Unsiege then Queued OUnsiege
      else if ct = Lift then Queued OLift
      else if ct = Land then exec_land c
      else if ct = Load then exec_load c
      else if ct = Unload then on_target c (\<lambda>t. UnloadUnit_of (bwu t))
      else if ct = Unload_All \<and> uc_unit c \<noteq> None then exec_unload_all (the (uc_unit c)) c
      else if ct = Unload_All_Position then Queued (Attack_xy x y 112 queued)
      else if ct = Right_Click_Position then Queued (RightClick_xy x y queued)
      else if ct = Right_Click_Unit then on_target c (\<lambda>t. RightClick_unit (bwu t) queued)
      else if ct = Halt_Construction then Queued (Stop_of False)
      else if ct = Cancel_Construction then Queued OCancelConstruction
      else if ct = Cancel_Addon then Queued OCancelAddon
      else if ct = Cancel_Train \<or> ct = Cancel_Train_Slot then Queued (CancelTrain_of (uc_extra c))
      else if ct = Cancel_Morph then exec_cancel_morph c
      else if ct = Cancel_Research then Queued OCancelResearch
      else if ct = Cancel_Upgrade then Queued OCancelUpgrade
      else if ct = Use_Tech then exec_use_tech c
      else if ct = Use_Tech_Position then exec_use_tech_position c
      else if ct = Use_Tech_Unit then exec_use_tech_unit c
      else if ct = Place_COP \<and> uc_unit c \<noteq> None
      then Queued (PlaceCOP_xy x y (lu_type (the (uc_unit c))))
      else NothingQueued)"

end
