(* ===== verification/Client_Agreement.thy ===== *)
theory Client_Agreement
  imports Game_Commands
begin

text \<open>
  The portable runtime's encoder against the injected client. \<open>request_of\<close> is the runtime request
  an adapter makes of a unit command: the command type's surface name, the target's raw id and
  the integers the encoder asks for. Where the client's choice of order depends on nothing the
  encoder cannot be told (\<open>generic\<close>), both put the same bytes on the wire, but for the position
  of a unit target, which the encoder leaves at the origin, and the short right click.
\<close>

section \<open>The request for a unit command\<close>

definition type_forms :: "command_form list" where
  "type_forms =
     [FAttackPos 14, FAttackUnit 8, FBuild, FTile OMakeAddon, FType16 OTrainUnit,
      FType16 OUnitMorph, FType8 OInvent, FType8 OUpgrade, FAttackPosUnqueued 40,
      FAttackUnitUnqueued 39, FAttackPos 6, FAttackPos 152, FQueued OHoldPosition, FQueued OStop,
      FAttackUnit 49, FAttackUnit 79, FQueued OReturnCargo, FAttackUnit 34, FPlain OBurrow,
      FPlain OUnburrow, FPlain OCloak, FPlain ODecloak, FPlain OSiege, FPlain OUnsiege,
      FPlain OLift, FTile OLand, FLoad, FUnload, FPlain OUnloadAll, FAttackPos 112,
      FRightClickPos, FRightClickUnit, FPlain (OStop 0), FPlain OCancelConstruction,
      FPlain OCancelAddon, FCancelTrain, FCancelTrain, FPlain OCancelUnitMorph,
      FPlain OCancelResearch, FPlain OCancelUpgrade, FUseTech, FUseTechPos, FUseTechUnit,
      FTile OPlaceCOP]"

lemma type_forms_table: "map (map_of command_forms) unitCommandNames = map Some type_forms"
  by (simp add: type_forms_def unitCommandNames_def command_forms_def Orders_Move_def
      Orders_AttackMove_def Orders_Patrol_def Orders_RallyPointTile_def Orders_MoveUnload_def
      Orders_Attack1_def Orders_Follow_def Orders_Harvest1_def Orders_Repair_def
      Orders_RallyPointUnit_def)

lemma length_type_forms: "length type_forms = 44"
  by (simp add: type_forms_def)

lemma form_of_type:
  assumes "k < 44"
  shows "map_of command_forms (unitCommandNames ! k) = Some (type_forms ! k)"
proof -
  have "map (map_of command_forms) unitCommandNames ! k = map Some type_forms ! k"
    by (simp only: type_forms_table)
  with assms show ?thesis by (simp add: surface length_type_forms)
qed

definition race_code :: "race \<Rightarrow> int" where
  "race_code r = (case r of Zerg \<Rightarrow> 25 | Terran \<Rightarrow> 30 | Protoss \<Rightarrow> 31 | OtherRace \<Rightarrow> 0)"

definition unit_id :: "unit_ref \<Rightarrow> int" where
  "unit_id u = (case u of None \<Rightarrow> 0 | Some v \<Rightarrow> uint (mkUnitTarget (bwu v)))"

definition request_arguments :: "map_size \<Rightarrow> unit_command \<Rightarrow> int list" where
  "request_arguments ms c =
     (let ct = uc_type c; x = uc_x c; y = uc_y c; extra = uc_extra c in
      if ct \<in> {Attack_Move, Move, Patrol, Unload_All_Position, Right_Click_Position}
      then [x, y, extra]
      else if ct = Set_Rally_Position then [x, y]
      else if ct \<in> {Attack_Unit, Hold_Position, Stop, Follow, Gather, Return_Cargo, Repair,
                    Right_Click_Unit, Train, Morph, Research, Upgrade, Cancel_Train,
                    Cancel_Train_Slot, Use_Tech}
      then [extra]
      else if ct = Build then [x, y, extra, race_code (getRace extra)]
      else if ct = Build_Addon
      then (let t = makeValid 32 ms (fst (lu_tile (the (uc_unit c))) + 4,
                                     snd (lu_tile (the (uc_unit c))) + 1)
            in [fst t, snd t, extra])
      else if ct \<in> {Land, Place_COP} then [x, y, unitTypeOr (uc_unit c)]
      else if ct = Load
      then [if unitTypeOr (uc_unit c) = Terran_Bunker then 95 else 94, extra]
      else if ct = Use_Tech_Position
      then [x, y, if extra = 34 then 177 else techOrder extra]
      else if ct = Use_Tech_Unit then [techOrder extra]
      else [])"

definition request_of :: "map_size \<Rightarrow> unit_command \<Rightarrow> command_request" where
  "request_of ms c =
     \<lparr>rq_kind = UnitCommand, rq_name = unitCommandNames ! nat (uc_type c),
      rq_targetUnitId = unit_id (uc_target c), rq_arguments = request_arguments ms c\<rparr>"

lemma request_of_form:
  "0 \<le> uc_type c \<Longrightarrow> uc_type c < 44 \<Longrightarrow>
   request_form (request_of ms c) = Some (type_forms ! nat (uc_type c))"
  by (simp add: request_form_def request_of_def form_of_type)

section \<open>Commands whose order does not hang on the unit's state\<close>

definition generic :: "unit_command \<Rightarrow> bool" where
  "generic c \<longleftrightarrow>
     (let ct = uc_type c; ut = unitTypeOr (uc_unit c); extra = uc_extra c in
      0 \<le> ct \<and> ct < 44
      \<and> (ct \<in> {Build, Build_Addon, Train, Morph} \<longrightarrow> 0 \<le> extra \<and> extra \<le> UnitType_Unknown)
      \<and> (ct \<in> {Research, Use_Tech, Use_Tech_Position, Use_Tech_Unit} \<longrightarrow>
           0 \<le> extra \<and> extra \<le> TechType_Unknown)
      \<and> (ct = Upgrade \<longrightarrow> 0 \<le> extra \<and> extra \<le> UpgradeType_Unknown)
      \<and> (ct \<in> {Build_Addon, Land, Unload_All, Place_COP} \<longrightarrow> uc_unit c \<noteq> None)
      \<and> (ct = Attack_Move \<longrightarrow> ut \<noteq> Zerg_Infested_Terran)
      \<and> (ct = Attack_Unit \<longrightarrow> \<not> isBuilding ut
           \<and> ut \<notin> {Protoss_Carrier, Hero_Gantrithor, Protoss_Reaver, Hero_Warbringer})
      \<and> (ct = Build \<longrightarrow> \<not> isAddon extra
           \<and> (uc_unit c = None \<or> ut \<noteq> Zerg_Nydus_Canal \<or> extra \<noteq> Zerg_Nydus_Canal))
      \<and> (ct = Train \<longrightarrow> ut \<notin> {Zerg_Larva, Zerg_Mutalisk, Zerg_Hydralisk, Zerg_Hatchery, Zerg_Lair,
                             Zerg_Spire, Zerg_Creep_Colony, Protoss_Carrier, Hero_Gantrithor,
                             Protoss_Reaver, Hero_Warbringer})
      \<and> (ct = Morph \<longrightarrow> \<not> isBuilding extra)
      \<and> (ct = Stop \<longrightarrow> ut \<notin> {Protoss_Carrier, Hero_Gantrithor, Protoss_Reaver, Hero_Warbringer})
      \<and> (ct = Load \<longrightarrow> ut \<in> {Terran_Bunker, Terran_Dropship, Protoss_Shuttle, Zerg_Overlord,
                            Hero_Yggdrasill})
      \<and> (ct = Unload_All \<longrightarrow> ut = Terran_Bunker)
      \<and> (ct = Cancel_Morph \<longrightarrow> uc_unit c = None \<or> \<not> isBuilding ut)
      \<and> (ct = Use_Tech \<longrightarrow> extra = Stim_Packs)
      \<and> (ct = Use_Tech_Unit \<longrightarrow> extra \<noteq> 23 \<and> extra \<noteq> 28))"

text \<open>The structure with the position of a unit target at the origin.\<close>

fun at_origin :: "bw_order \<Rightarrow> bw_order" where
  "at_origin (OAttack (x, y, t) order type) = OAttack (if t = 0 then (x, y, t) else (0, 0, t)) order type"
| "at_origin (ORightClick (x, y, t) type) = ORightClick (if t = 0 then (x, y, t) else (0, 0, t)) type"
| "at_origin order = order"

text \<open>A target that is a live unit of the unit table.\<close>

definition live_target :: "unit_command \<Rightarrow> bool" where
  "live_target c \<longleftrightarrow>
     (case uc_target c of None \<Rightarrow> False | Some t \<Rightarrow> u_index t < UNIT_ARRAY_MAX_LENGTH)"

definition targets_unit :: "int \<Rightarrow> bool" where
  "targets_unit ct \<longleftrightarrow> ct \<in> {Attack_Unit, Set_Rally_Unit, Follow, Gather, Repair, Load, Unload,
     Right_Click_Unit, Use_Tech_Unit}"

lemma mkUnitTarget_nonzero:
  "u_index u < UNIT_ARRAY_MAX_LENGTH \<Longrightarrow> mkUnitTarget u \<noteq> 0"
proof
  assume "u_index u < UNIT_ARRAY_MAX_LENGTH" "mkUnitTarget u = 0"
  then have "unitTargetIndex 0 = int (u_index u)"
    using unitTargetIndex_mkUnitTarget [of u] by simp
  then show False by (simp add: unitTargetIndex_def)
qed

lemma unit_id_word [simp]:
  "word_of_int (unit_id (Some t)) = mkUnitTarget (bwu t)"
  by (simp add: unit_id_def)

lemma bwu_index [simp]: "u_index (bwu t) = u_index t"
  by (simp add: bwu_def bw_unit.truncate_def)

lemma extra_flag:
  "e \<in> {0, 1} \<Longrightarrow> queuedFlag (e = 1) = queuedFlag (e \<noteq> (0::int))"
  by auto

section \<open>Agreement\<close>

text \<open>Both sides, type by type: the client's order and the form of the request.\<close>

definition agrees :: "map_size \<Rightarrow> unit_command \<Rightarrow> bool" where
  "agrees ms c \<longleftrightarrow>
     (\<exists>ord. executeCommand ms c = Queued ord
        \<and> form_order (type_forms ! nat (uc_type c)) (request_of ms c) = at_origin ord)"

lemmas exec_defs = executeCommand_def exec_attack_move_def exec_attack_unit_def exec_build_def
  exec_build_addon_def exec_train_def exec_morph_def exec_stop_def exec_land_def exec_load_def
  exec_unload_all_def exec_cancel_morph_def exec_use_tech_def exec_use_tech_position_def
  exec_use_tech_unit_def on_target_def attack_target_def

lemma nat_range44: "0 \<le> (k::int) \<Longrightarrow> k < 44 \<Longrightarrow> k \<in> {0..43}"
  by simp

lemma agrees_unit_target:
  assumes "uc_type c = k" "targets_unit k" "generic c" "live_target c"
    and "uc_extra c \<in> {0, 1} \<or> k \<in> {Set_Rally_Unit, Unload, Use_Tech_Unit}"
  shows "agrees ms c"
proof -
  obtain t where t: "uc_target c = Some t" "mkUnitTarget (bwu t) \<noteq> 0"
    using assms(4) mkUnitTarget_nonzero by (auto simp: live_target_def split: option.splits)
  show ?thesis
    using assms(1-3,5) t unfolding targets_unit_def
    by (elim insertE emptyE)
      (auto simp: agrees_def exec_defs generic_def type_forms_def request_of_def
        request_arguments_def order_ctors queued_value_def isQueued_def pt_unit_def Let_def
        mkType_def queuedFlag_def nth_Cons')
qed

lemma agrees_plain:
  assumes "uc_type c \<in> {18..24} \<union> {32..34} \<union> {38, 39}"
  shows "agrees ms c"
proof -
  have "uc_type c \<in> {18, 19, 20, 21, 22, 23, 24, 32, 33, 34, 38, 39}" using assms by auto
  then show ?thesis
    by (elim insertE emptyE)
      (simp_all add: agrees_def exec_defs type_forms_def request_of_def order_ctors queuedFlag_def
        nth_Cons' Let_def)
qed

lemma agrees_state:
  assumes "uc_type c \<in> {Train, Morph, Research, Upgrade, Unload_All, Cancel_Train,
      Cancel_Train_Slot, Cancel_Morph, Use_Tech}" and "generic c"
  shows "agrees ms c"
  using assms
  by (elim insertE emptyE)
    (auto simp: agrees_def exec_defs generic_def type_forms_def request_of_def
      request_arguments_def order_ctors getTechType_def getUpgradeType_def mkType_def
      unitTypeOr_def Stim_Packs_def nth_Cons' Let_def split: option.splits)

lemma agrees_flag:
  assumes "uc_type c \<in> {Attack_Move, Move, Patrol, Unload_All_Position, Right_Click_Position,
      Hold_Position, Stop, Return_Cargo}"
    and "generic c" and "uc_extra c \<in> {0, 1}"
  shows "agrees ms c"
  using assms
  by (elim insertE emptyE)
    (auto simp: agrees_def exec_defs generic_def type_forms_def request_of_def
      request_arguments_def order_ctors queued_value_def isQueued_def pt_at_def queuedFlag_def
      nth_Cons' Let_def)

lemma agrees_rally:
  "uc_type c = Set_Rally_Position \<Longrightarrow> generic c \<Longrightarrow> agrees ms c"
  by (simp add: agrees_def exec_defs type_forms_def request_of_def request_arguments_def
      order_ctors pt_at_def queuedFlag_def nth_Cons' Let_def)

lemma agrees_tile:
  assumes "uc_type c \<in> {Build, Build_Addon, Land, Place_COP}" and "generic c"
  shows "agrees ms c"
  using assms
  by (elim insertE emptyE)
    (auto simp: agrees_def exec_defs generic_def type_forms_def request_of_def
      request_arguments_def order_ctors getUnitType_def mkType_def race_code_def unitTypeOr_def
      nth_Cons' Let_def split: race.splits)

lemma agrees_tech_position:
  assumes "uc_type c = Use_Tech_Position" and "generic c"
  shows "agrees ms c"
  using assms
  by (auto simp: agrees_def exec_defs generic_def type_forms_def request_of_def
      request_arguments_def order_ctors getTechType_def mkType_def pt_at_def nth_Cons' Let_def)

lemma flag_of_isQueued:
  assumes "isQueued c \<longrightarrow> uc_extra c = 1"
    and "uc_type c \<in> {Attack_Move, Attack_Unit, Move, Patrol, Hold_Position, Stop, Follow, Gather,
      Return_Cargo, Repair, Load, Unload_All, Unload_All_Position, Right_Click_Position,
      Right_Click_Unit}"
  shows "uc_extra c \<in> {0, 1}"
  using assms by (auto simp: isQueued_def)

lemma type_cases:
  assumes "0 \<le> k" "k < (44::int)"
  shows "k \<in> {18..24} \<union> {32..34} \<union> {38, 39}
    \<or> k \<in> {Train, Morph, Research, Upgrade, Unload_All, Cancel_Train, Cancel_Train_Slot,
        Cancel_Morph, Use_Tech}
    \<or> k \<in> {Attack_Move, Move, Patrol, Unload_All_Position, Right_Click_Position,
        Hold_Position, Stop, Return_Cargo} \<or> k = Set_Rally_Position
    \<or> k \<in> {Build, Build_Addon, Land, Place_COP} \<or> k = Use_Tech_Position
    \<or> k \<in> {Attack_Unit, Follow, Gather, Repair, Load, Right_Click_Unit}
    \<or> k \<in> {Set_Rally_Unit, Unload, Use_Tech_Unit}"
  using assms by (simp, presburger)

lemma generic_agrees:
  assumes "generic c" and "targets_unit (uc_type c) \<longrightarrow> live_target c"
    and "isQueued c \<longrightarrow> uc_extra c = 1"
  shows "agrees ms c"
proof -
  have range: "0 \<le> uc_type c" "uc_type c < 44" using assms(1) by (auto simp: generic_def Let_def)
  note flag = flag_of_isQueued [OF assms(3)]
  show ?thesis
    using type_cases [OF range]
  proof (elim disjE)
    assume "uc_type c \<in> {18..24} \<union> {32..34} \<union> {38, 39}"
    then show ?thesis by (rule agrees_plain)
  next
    assume "uc_type c \<in> {Train, Morph, Research, Upgrade, Unload_All, Cancel_Train,
        Cancel_Train_Slot, Cancel_Morph, Use_Tech}"
    then show ?thesis using assms(1) by (rule agrees_state)
  next
    assume "uc_type c \<in> {Attack_Move, Move, Patrol, Unload_All_Position, Right_Click_Position,
        Hold_Position, Stop, Return_Cargo}"
    then show ?thesis using assms(1) by (intro agrees_flag flag) blast+
  next
    assume "uc_type c = Set_Rally_Position"
    then show ?thesis using assms(1) by (rule agrees_rally)
  next
    assume "uc_type c \<in> {Build, Build_Addon, Land, Place_COP}"
    then show ?thesis using assms(1) by (rule agrees_tile)
  next
    assume "uc_type c = Use_Tech_Position"
    then show ?thesis using assms(1) by (rule agrees_tech_position)
  next
    assume t: "uc_type c \<in> {Attack_Unit, Follow, Gather, Repair, Load, Right_Click_Unit}"
    then have "targets_unit (uc_type c)" unfolding targets_unit_def by blast
    moreover have "uc_extra c \<in> {0, 1}" using t by (intro flag) blast
    ultimately show ?thesis
      using assms(1,2) by (intro agrees_unit_target [OF refl] disjI1) simp_all
  next
    assume t: "uc_type c \<in> {Set_Rally_Unit, Unload, Use_Tech_Unit}"
    then have "targets_unit (uc_type c)" unfolding targets_unit_def by blast
    with t show ?thesis
      using assms(1,2) by (intro agrees_unit_target [OF refl] disjI2) simp_all
  qed
qed

section \<open>Properties\<close>

text \<open>A right click is the one structure the encoder writes two bytes shorter.\<close>

fun is_right_click :: "bw_order \<Rightarrow> bool" where
  "is_right_click (ORightClick target type) = True"
| "is_right_click _ = False"

lemma encoder_bytes_pack:
  "if is_right_click ord
   then pack ord = take 7 (encoder_bytes ord) @ le16 228 @ drop 7 (encoder_bytes ord)
   else encoder_bytes ord = pack ord"
proof (cases "is_right_click ord")
  case True
  then obtain x y t type where "ord = ORightClick (x, y, t) type"
    by (cases ord) auto
  then show ?thesis by (simp add: numeral_2_eq_2 numeral_eq_Suc)
next
  case False
  then show ?thesis by (cases ord) simp_all
qed

lemma is_right_click_at_origin [simp]: "is_right_click (at_origin ord) = is_right_click ord"
  by (cases ord rule: at_origin.cases) simp_all

text \<open>
  C33. The portable encoder agrees with the injected client. For a unit command of \<open>generic\<close> form the
  client queues a \<open>BW::Orders\<close> structure, and whenever the encoder accepts the corresponding request,
  its bytes are the packed structure byte for byte, with the position of a unit target at the origin;
  only for a right click the structure has two bytes more, the \<open>always0xe4\<close> field after the target,
  which the encoder leaves out. \<open>generic\<close> leaves out the commands whose order hangs on the unit
  (attack, train and stop of carriers, reavers and larvae or egg-laying units, attacks by buildings
  and infested Terrans, loading into a unit that is no transport, unload-all of anything but a bunker, cancelling a morphing
  building), and those with a second form the encoder does not have: building an addon or a second
  Nydus end, morphing into a building, technologies without a target other than stim packs, and the
  Archon merges.
\<close>

theorem encoder_agrees_with_client:
  assumes "generic c" and "targets_unit (uc_type c) \<longrightarrow> live_target c"
    and "isQueued c \<longrightarrow> uc_extra c = 1"
    and "enc_encoded (encodeRuntimeCommandRequest (request_of ms c))"
    and "bytes = enc_bytes (encodeRuntimeCommandRequest (request_of ms c))"
  shows "\<exists>ord. executeCommand ms c = Queued ord
    \<and> (if is_right_click ord then pack (at_origin ord) = take 7 bytes @ le16 228 @ drop 7 bytes
       else pack (at_origin ord) = bytes)"
proof -
  have range: "0 \<le> uc_type c" "uc_type c < 44" using assms(1) by (auto simp: generic_def Let_def)
  obtain ord where ord: "executeCommand ms c = Queued ord"
      "form_order (type_forms ! nat (uc_type c)) (request_of ms c) = at_origin ord"
    using generic_agrees [OF assms(1-3)] by (auto simp: agrees_def)
  have "bytes = encoder_bytes (form_order (type_forms ! nat (uc_type c)) (request_of ms c))"
    using assms(4,5) request_of_form [OF range, of ms] by (auto simp: encoded_iff intro: encoded_bytes)
  then have "bytes = encoder_bytes (at_origin ord)" by (simp only: ord(2))
  then show ?thesis
    using encoder_bytes_pack [of "at_origin ord"] ord(1) by (cases "is_right_click ord") auto
qed

definition sample_unit :: live_unit where
  "sample_unit =
     \<lparr>u_index = 41, u_uniquenessIdentifier = 3, u_positionX = 640, u_positionY = 512,
      lu_type = 0, lu_position = (640, 512), lu_tile = (20, 16),
      lu_isSieged = False, lu_isCloaked = False, lu_isBurrowed = False\<rparr>"

lemma sample_index: "u_index sample_unit = 41"
  by (simp add: sample_unit_def)

theorem encoder_agrees_with_client_witness:
  "\<exists>ord. executeCommand None (uc_follow None (Some sample_unit) True) = Queued ord
    \<and> (if is_right_click ord
       then pack (at_origin ord)
         = take 7 (enc_bytes (encodeRuntimeCommandRequest
             (request_of None (uc_follow None (Some sample_unit) True))))
           @ le16 228
           @ drop 7 (enc_bytes (encodeRuntimeCommandRequest
             (request_of None (uc_follow None (Some sample_unit) True))))
       else pack (at_origin ord)
         = enc_bytes (encodeRuntimeCommandRequest
             (request_of None (uc_follow None (Some sample_unit) True))))"
proof (rule encoder_agrees_with_client [OF _ _ _ _ refl])
  let ?c = "uc_follow None (Some sample_unit) True"
  have fields [simp]: "uc_type ?c = Follow" "uc_extra ?c = 1" "uc_target ?c = Some sample_unit"
    by (simp_all add: uc_follow_def mk_command_def shift_extra_def)
  show "generic ?c" by (simp add: generic_def)
  show "targets_unit (uc_type ?c) \<longrightarrow> live_target ?c"
    unfolding live_target_def fields(3) option.case sample_index
    by (simp add: UNIT_ARRAY_MAX_LENGTH_def)
  show "isQueued ?c \<longrightarrow> uc_extra ?c = 1" by simp
  have "unit_id (Some sample_unit) = 6186"
    by (simp add: unit_id_def mkUnitTarget_def bwu_def bw_unit.truncate_def sample_unit_def
        UNIT_ARRAY_MAX_LENGTH_def Let_def)
  then have "form_ok (FAttackUnit 49) (request_of None ?c)"
    by (simp add: request_of_def request_arguments_def args_between_def inRange_def limits
        queued_ok_def)
  then show "enc_encoded (encodeRuntimeCommandRequest (request_of None ?c))"
    using request_of_form [of ?c None] by (simp add: encoded_iff type_forms_def)
qed

section \<open>The client's commands fit the encoder\<close>

definition real_map :: "map_size \<Rightarrow> bool" where
  "real_map ms \<longleftrightarrow> (case ms of None \<Rightarrow> True | Some (w, h) \<Rightarrow> 0 < w \<and> w \<le> 256 \<and> 0 < h \<and> h \<le> 256)"

lemma makeValid_s16:
  assumes "real_map ms"
  shows "inRange (fst (makeValid 1 ms p)) int16_min int16_max"
    "inRange (snd (makeValid 1 ms p)) int16_min int16_max"
  using assms
  by (auto simp: real_map_def makeValid_def setMin_def setMax_def inRange_def limits Let_def
      split: option.splits)

lemma unit_id_range:
  "u_index t < UNIT_ARRAY_MAX_LENGTH \<Longrightarrow> inRange (unit_id (Some t)) 1 uint16_max"
proof -
  assume "u_index t < UNIT_ARRAY_MAX_LENGTH"
  then have "mkUnitTarget (bwu t) \<noteq> 0" by (intro mkUnitTarget_nonzero) simp
  then have "uint (mkUnitTarget (bwu t)) \<noteq> 0" by (metis word_of_int_0 word_of_int_uint)
  then have "1 \<le> uint (mkUnitTarget (bwu t))"
    using uint_ge_0 [of "mkUnitTarget (bwu t)"] by linarith
  moreover have "uint (mkUnitTarget (bwu t)) < 65536"
    using uint_lt2p [of "mkUnitTarget (bwu t)"] by simp
  ultimately show ?thesis by (simp add: unit_id_def inRange_def limits)
qed

definition fits :: "map_size \<Rightarrow> unit_command \<Rightarrow> bool" where
  "fits ms c \<longleftrightarrow> 0 \<le> uc_type c \<and> uc_type c < 44
     \<and> form_ok (type_forms ! nat (uc_type c)) (request_of ms c)"

lemma fits_encodable: "fits ms c \<Longrightarrow> enc_encoded (encodeRuntimeCommandRequest (request_of ms c))"
  by (auto simp: fits_def encoded_iff request_of_form)

definition position_commands :: "map_size \<Rightarrow> unit_ref \<Rightarrow> int \<Rightarrow> int \<Rightarrow> bool \<Rightarrow> unit_command list" where
  "position_commands ms u x y q =
     [uc_attack_pos ms u x y q, uc_move ms u x y q, uc_patrol ms u x y q,
      uc_unloadAll_pos ms u x y q, uc_rightClick_pos ms u x y q, uc_setRallyPoint_pos ms u x y]"

definition target_commands :: "unit_ref \<Rightarrow> unit_ref \<Rightarrow> bool \<Rightarrow> unit_command list" where
  "target_commands u t q =
     [uc_attack_unit u t q, uc_follow u t q, uc_gather u t q, uc_repair u t q,
      uc_rightClick_unit u t q, uc_load u t q, uc_setRallyPoint_unit u t, uc_unload u t]"

definition plain_commands :: "unit_ref \<Rightarrow> bool \<Rightarrow> unit_command list" where
  "plain_commands u q =
     [uc_holdPosition u q, uc_stop u q, uc_returnCargo u q, uc_unloadAll u q, uc_burrow u,
      uc_unburrow u, uc_cloak u, uc_decloak u, uc_siege u, uc_unsiege u, uc_lift u,
      uc_haltConstruction u, uc_cancelConstruction u, uc_cancelAddon u, uc_cancelMorph u,
      uc_cancelResearch u, uc_cancelUpgrade u, uc_cancelTrain u (- 2)]"

lemmas encodable_simps = fits_def type_forms_def request_of_def request_arguments_def
  mk_command_def assignTarget_def shift_extra_def args_between_def arg_in_def queued_ok_def Let_def

lemma position_fits:
  "real_map ms \<Longrightarrow> c \<in> set (position_commands ms u x y q) \<Longrightarrow>
   fits ms c"
  using makeValid_s16 [of ms "(x, y)"] unfolding position_commands_def list.set
  by (elim insertE emptyE)
    (simp_all add: encodable_simps uc_attack_pos_def uc_move_def uc_patrol_def
      uc_unloadAll_pos_def uc_rightClick_pos_def uc_setRallyPoint_pos_def inRange_def)

lemma target_fits:
  "u_index t < UNIT_ARRAY_MAX_LENGTH \<Longrightarrow> c \<in> set (target_commands u (Some t) q) \<Longrightarrow>
   fits ms c"
  using unit_id_range [of t] unfolding target_commands_def list.set
  by (elim insertE emptyE)
    (simp_all add: encodable_simps uc_attack_unit_def uc_follow_def uc_gather_def uc_repair_def
      uc_rightClick_unit_def uc_load_def uc_setRallyPoint_unit_def uc_unload_def inRange_def limits)

lemma plain_fits:
  "c \<in> set (plain_commands u q) \<Longrightarrow> fits ms c"
  unfolding plain_commands_def list.set
  by (elim insertE emptyE)
    (simp_all add: encodable_simps uc_holdPosition_def uc_stop_def uc_returnCargo_def
      uc_unloadAll_def uc_burrow_def uc_unburrow_def uc_cloak_def uc_decloak_def uc_siege_def
      uc_unsiege_def uc_lift_def uc_haltConstruction_def uc_cancelConstruction_def
      uc_cancelAddon_def uc_cancelMorph_def uc_cancelResearch_def uc_cancelUpgrade_def
      uc_cancelTrain_def inRange_def limits)

text \<open>
  The client's own commands fit the encoder: every position command (its coordinates clamped
  to a map of at most 256 by 256 tiles), every command at a live unit of the unit table and every
  command without a target is a request the encoder accepts, with or without the queue flag.
\<close>

theorem client_commands_encodable:
  assumes "real_map ms" and "u_index t < UNIT_ARRAY_MAX_LENGTH"
  shows "list_all (\<lambda>c. enc_encoded (encodeRuntimeCommandRequest (request_of ms c)))
     (position_commands ms u x y q @ target_commands u (Some t) q @ plain_commands u q)"
  unfolding list_all_iff
  using assms position_fits target_fits plain_fits by (metis UnE set_append fits_encodable)

theorem client_commands_encodable_witness:
  "list_all (\<lambda>c. enc_encoded (encodeRuntimeCommandRequest (request_of (Some (128, 96)) c)))
     (position_commands (Some (128, 96)) None (- 5) 99999 True
        @ target_commands None (Some sample_unit) True @ plain_commands None True)"
  by (rule client_commands_encodable)
    (simp_all add: real_map_def sample_index UNIT_ARRAY_MAX_LENGTH_def)

end
