(* ===== verification/Resident_Queue.thy ===== *)
theory Resident_Queue
  imports Fifo
begin

text \<open>
  The file-backed queue between the runtime and the resident adapter (the queue half of
  \<open>RuntimeResidentBridge.h/.cpp\<close>): a 40-byte header, then \<open>capacityRecords\<close> slots of
  \<open>recordBytes\<close> bytes, used as a ring indexed by 64-bit sequence numbers. The file is its list of
  bytes, \<open>None\<close> when it does not exist; opening and writing an existing file succeeds. Structures
  are copied to and from the file as they lie in memory, little-endian.
\<close>

section \<open>Files\<close>

type_synonym queue_file = "u8 list option"

definition bytes_at :: "u8 list \<Rightarrow> nat \<Rightarrow> nat \<Rightarrow> u8 list" where
  "bytes_at f off n = take n (drop off f)"

text \<open>\<open>seekp\<close> then \<open>write\<close>: a gap behind the end of the file reads as zeros.\<close>

definition write_at :: "nat \<Rightarrow> u8 list \<Rightarrow> u8 list \<Rightarrow> u8 list" where
  "write_at off bs f =
     take off (f @ replicate (off - length f) 0) @ bs @ drop (off + length bs) f"

definition resize_file :: "nat \<Rightarrow> u8 list \<Rightarrow> u8 list" where
  "resize_file n f = take n (f @ replicate (n - length f) 0)"

lemma length_write_at [simp]: "length (write_at off bs f) = max (length f) (off + length bs)"
  by (auto simp: write_at_def)

lemma bytes_at_written: "bytes_at (write_at off bs f) off (length bs) = bs"
  by (simp add: bytes_at_def write_at_def)

lemma bytes_at_before:
  "o' + n \<le> off \<Longrightarrow> off \<le> length f \<Longrightarrow> bytes_at (write_at off bs f) o' n = bytes_at f o' n"
  by (auto simp: bytes_at_def write_at_def drop_take)

lemma bytes_at_after:
  assumes "off + length bs \<le> o'" "off \<le> length f"
  shows "bytes_at (write_at off bs f) o' n = bytes_at f o' n"
proof -
  have "drop o' (write_at off bs f) = drop (o' - (off + length bs)) (drop (off + length bs) f)"
    using assms by (simp add: write_at_def drop_append)
  also have "\<dots> = drop o' f" using assms by simp
  finally show ?thesis by (simp add: bytes_at_def)
qed

section \<open>Headers\<close>

datatype queue_kind = QCommand | QStateSnapshot | QEvent | QOverlay | QProof

fun kind_code :: "queue_kind \<Rightarrow> u16" where
  "kind_code QCommand = 1"
| "kind_code QStateSnapshot = 2"
| "kind_code QEvent = 3"
| "kind_code QOverlay = 4"
| "kind_code QProof = 5"

fun queue_kind_toString :: "queue_kind \<Rightarrow> string" where
  "queue_kind_toString QCommand = ''command''"
| "queue_kind_toString QStateSnapshot = ''state-snapshot''"
| "queue_kind_toString QEvent = ''event''"
| "queue_kind_toString QOverlay = ''overlay''"
| "queue_kind_toString QProof = ''proof''"

fun residentQueueReadyName :: "queue_kind \<Rightarrow> string" where
  "residentQueueReadyName QCommand = ''command''"
| "residentQueueReadyName QStateSnapshot = ''state_snapshot''"
| "residentQueueReadyName QEvent = ''event''"
| "residentQueueReadyName QOverlay = ''overlay''"
| "residentQueueReadyName QProof = ''proof''"

definition QueueMagic :: u32 where "QueueMagic = 0x53434151"
definition AbiMajor :: u16 where "AbiMajor = 1"

record queue_header =
  qh_magic :: u32
  qh_abiMajor :: u16
  qh_headerBytes :: u16
  qh_recordBytes :: u16
  qh_kind :: u16
  qh_capacityRecords :: u32
  qh_writeSequence :: u64
  qh_readSequence :: u64
  qh_heartbeat :: u64

record record_header =
  rh_headerBytes :: u16
  rh_kind :: u16
  rh_payloadBytes :: u32
  rh_sequence :: u64

abbreviation sizeof_queue_header :: nat where "sizeof_queue_header \<equiv> 40"
abbreviation sizeof_record_header :: nat where "sizeof_record_header \<equiv> 16"

definition queue_header_bytes :: "queue_header \<Rightarrow> u8 list" where
  "queue_header_bytes h =
     word_to_le 4 (qh_magic h) @ word_to_le 2 (qh_abiMajor h) @ word_to_le 2 (qh_headerBytes h)
   @ word_to_le 2 (qh_recordBytes h) @ word_to_le 2 (qh_kind h)
   @ word_to_le 4 (qh_capacityRecords h) @ word_to_le 8 (qh_writeSequence h)
   @ word_to_le 8 (qh_readSequence h) @ word_to_le 8 (qh_heartbeat h)"

definition queue_header_of :: "u8 list \<Rightarrow> queue_header" where
  "queue_header_of bs =
     \<lparr>qh_magic = le_to_word (bytes_at bs 0 4), qh_abiMajor = le_to_word (bytes_at bs 4 2),
      qh_headerBytes = le_to_word (bytes_at bs 6 2), qh_recordBytes = le_to_word (bytes_at bs 8 2),
      qh_kind = le_to_word (bytes_at bs 10 2), qh_capacityRecords = le_to_word (bytes_at bs 12 4),
      qh_writeSequence = le_to_word (bytes_at bs 16 8),
      qh_readSequence = le_to_word (bytes_at bs 24 8),
      qh_heartbeat = le_to_word (bytes_at bs 32 8)\<rparr>"

definition record_header_bytes :: "record_header \<Rightarrow> u8 list" where
  "record_header_bytes r =
     word_to_le 2 (rh_headerBytes r) @ word_to_le 2 (rh_kind r) @ word_to_le 4 (rh_payloadBytes r)
   @ word_to_le 8 (rh_sequence r)"

definition record_header_of :: "u8 list \<Rightarrow> record_header" where
  "record_header_of bs =
     \<lparr>rh_headerBytes = le_to_word (bytes_at bs 0 2), rh_kind = le_to_word (bytes_at bs 2 2),
      rh_payloadBytes = le_to_word (bytes_at bs 4 4), rh_sequence = le_to_word (bytes_at bs 8 8)\<rparr>"

lemma length_queue_header_bytes [simp]: "length (queue_header_bytes h) = 40"
  by (simp add: queue_header_bytes_def)

lemma length_record_header_bytes [simp]: "length (record_header_bytes r) = 16"
  by (simp add: record_header_bytes_def)

lemma queue_header_of_bytes [simp]: "queue_header_of (queue_header_bytes h @ rest) = h"
  by (simp add: queue_header_of_def queue_header_bytes_def bytes_at_def)

lemma queue_header_of_exact [simp]: "queue_header_of (queue_header_bytes h) = h"
  using queue_header_of_bytes [of h "[]"] by simp

lemma record_header_of_bytes [simp]: "record_header_of (record_header_bytes r @ rest) = r"
  by (simp add: record_header_of_def record_header_bytes_def bytes_at_def)

definition makeRuntimeResidentQueueHeader :: "queue_kind \<Rightarrow> u16 \<Rightarrow> u32 \<Rightarrow> u64 \<Rightarrow> queue_header" where
  "makeRuntimeResidentQueueHeader kind recordBytes capacityRecords heartbeat =
     \<lparr>qh_magic = QueueMagic, qh_abiMajor = AbiMajor, qh_headerBytes = 40,
      qh_recordBytes = recordBytes, qh_kind = kind_code kind,
      qh_capacityRecords = capacityRecords, qh_writeSequence = 0, qh_readSequence = 0,
      qh_heartbeat = heartbeat\<rparr>"

section \<open>Validation\<close>

record bridge_options =
  bo_minimumHeartbeat :: u64
  bo_maximumReadyFileAgeMs :: u64

record queue_validation =
  qv_valid :: bool
  qv_errors :: "string list"

definition validation :: "string list \<Rightarrow> queue_validation" where
  "validation errors = \<lparr>qv_valid = (errors = []), qv_errors = errors\<rparr>"

definition error_if :: "bool \<Rightarrow> string \<Rightarrow> string list" where
  "error_if c e = (if c then [e] else [])"

definition validateRuntimeResidentQueueHeader ::
  "queue_header \<Rightarrow> u16 \<Rightarrow> bridge_options \<Rightarrow> queue_validation" where
  "validateRuntimeResidentQueueHeader h expectedKind options = validation
     (error_if (qh_magic h \<noteq> QueueMagic) ''resident queue magic is invalid''
    @ error_if (qh_abiMajor h \<noteq> AbiMajor) ''resident queue ABI major version is unsupported''
    @ error_if (unat (qh_headerBytes h) < sizeof_queue_header) ''resident queue header is truncated''
    @ error_if (qh_kind h \<noteq> expectedKind) ''resident queue kind does not match expected queue''
    @ error_if (qh_recordBytes h = 0) ''resident queue record size is zero''
    @ error_if (qh_capacityRecords h = 0) ''resident queue capacity is zero''
    @ (if qh_readSequence h > qh_writeSequence h
       then [''resident queue read sequence is ahead of write sequence'']
       else error_if (qh_writeSequence h - qh_readSequence h > ucast (qh_capacityRecords h))
              ''resident queue sequence distance exceeds capacity'')
    @ error_if (qh_heartbeat h < bo_minimumHeartbeat options) ''resident queue heartbeat is stale'')"

definition validateRuntimeResidentRecordHeader ::
  "queue_header \<Rightarrow> record_header \<Rightarrow> u16 \<Rightarrow> queue_validation" where
  "validateRuntimeResidentRecordHeader q r expectedKind = validation
     (error_if (unat (rh_headerBytes r) < sizeof_record_header)
        ''resident queue record header is truncated''
    @ error_if (rh_kind r \<noteq> expectedKind)
        ''resident queue record kind does not match expected queue''
    @ (if unat (qh_recordBytes q) < sizeof_record_header
       then [''resident queue record size cannot contain a record header'']
       else if rh_headerBytes r > qh_recordBytes q
       then [''resident queue record header exceeds record capacity'']
       else error_if (unat (rh_payloadBytes r) > unat (qh_recordBytes q) - unat (rh_headerBytes r))
              ''resident queue record payload exceeds record capacity'')
    @ error_if (rh_sequence r < qh_readSequence q \<or> rh_sequence r \<ge> qh_writeSequence q)
        ''resident queue record sequence is outside the readable window'')"

section \<open>Reading and writing the header\<close>

definition readResidentQueueHeaderFile :: "string \<Rightarrow> queue_file \<Rightarrow> string + queue_header" where
  "readResidentQueueHeaderFile path file =
     (case file of
        None \<Rightarrow> Inl (''resident queue file does not exist or is not readable: '' @ path)
      | Some f \<Rightarrow>
          if length (take sizeof_queue_header f) \<noteq> sizeof_queue_header
          then Inl (''resident queue file does not contain a complete queue header: '' @ path)
          else Inr (queue_header_of (take sizeof_queue_header f)))"

definition writeResidentQueueHeaderFile :: "queue_header \<Rightarrow> queue_file \<Rightarrow> queue_file" where
  "writeResidentQueueHeaderFile h file =
     Some (write_at 0 (queue_header_bytes h) (case file of None \<Rightarrow> [] | Some f \<Rightarrow> f))"

definition residentQueueFileSize :: "queue_header \<Rightarrow> nat" where
  "residentQueueFileSize h =
     unat (qh_headerBytes h) + unat (qh_recordBytes h) * unat (qh_capacityRecords h)"

definition residentQueueRecordOffset :: "queue_header \<Rightarrow> u64 \<Rightarrow> nat" where
  "residentQueueRecordOffset h sequence =
     (let slot = (if qh_capacityRecords h = 0 then 0
                  else unat (sequence mod ucast (qh_capacityRecords h)))
      in unat (qh_headerBytes h) + slot * unat (qh_recordBytes h))"

definition validateRuntimeResidentQueueFile ::
  "string \<Rightarrow> queue_kind \<Rightarrow> bridge_options \<Rightarrow> queue_file \<Rightarrow> queue_validation" where
  "validateRuntimeResidentQueueFile path kind options file =
     (case readResidentQueueHeaderFile path file of
        Inl e \<Rightarrow> \<lparr>qv_valid = False, qv_errors = [e]\<rparr>
      | Inr h \<Rightarrow> validateRuntimeResidentQueueHeader h (kind_code kind) options)"

text \<open>\<open>ensure\<close>: the sequences of a compatible existing queue are kept, anything else is reset.\<close>

definition ensureRuntimeResidentQueueFile ::
  "string \<Rightarrow> queue_header \<Rightarrow> bridge_options \<Rightarrow> queue_file
   \<Rightarrow> queue_validation \<times> queue_header \<times> queue_file" where
  "ensureRuntimeResidentQueueFile path desired options file =
     (let v = validateRuntimeResidentQueueHeader desired (qh_kind desired) options in
      if \<not> qv_valid v then (v, desired, file)
      else
        let actual =
          (case readResidentQueueHeaderFile path file of
             Inl _ \<Rightarrow> desired
           | Inr existing \<Rightarrow>
               if qv_valid (validateRuntimeResidentQueueHeader existing (qh_kind desired)
                    (options\<lparr>bo_minimumHeartbeat := 0\<rparr>))
                  \<and> qh_recordBytes existing = qh_recordBytes desired
                  \<and> qh_capacityRecords existing = qh_capacityRecords desired
                  \<and> qh_headerBytes existing = qh_headerBytes desired
               then desired\<lparr>qh_readSequence := qh_readSequence existing,
                            qh_writeSequence := qh_writeSequence existing\<rparr>
               else desired);
            created = (case file of None \<Rightarrow> [] | Some f \<Rightarrow> f);
            sized = resize_file (residentQueueFileSize actual) created
        in (validation (qv_errors v), actual, writeResidentQueueHeaderFile actual (Some sized)))"

section \<open>Append, read, acknowledge\<close>

record append_result =
  ap_appended :: bool
  ap_sequence :: u64
  ap_reason :: string
  ap_errors :: "string list"

definition rejectAppend :: "string \<Rightarrow> append_result" where
  "rejectAppend reason =
     \<lparr>ap_appended = False, ap_sequence = 0, ap_reason = reason, ap_errors = [reason]\<rparr>"

definition rejectAppendAll :: "string list \<Rightarrow> append_result" where
  "rejectAppendAll errors = (rejectAppend (hd errors))\<lparr>ap_errors := errors\<rparr>"

definition record_slot :: "queue_header \<Rightarrow> record_header \<Rightarrow> u8 list \<Rightarrow> u8 list" where
  "record_slot h r payload =
     write_at 16 payload (write_at 0 (record_header_bytes r) (replicate (unat (qh_recordBytes h)) 0))"

definition new_record :: "queue_header \<Rightarrow> queue_kind \<Rightarrow> u8 list \<Rightarrow> record_header" where
  "new_record h kind payload =
     \<lparr>rh_headerBytes = 16, rh_kind = kind_code kind,
      rh_payloadBytes = word_of_nat (length payload), rh_sequence = qh_writeSequence h\<rparr>"

definition bump :: "queue_header \<Rightarrow> queue_header" where
  "bump h = h\<lparr>qh_writeSequence := qh_writeSequence h + 1\<rparr>"

definition appendRuntimeResidentQueueRecord ::
  "string \<Rightarrow> queue_kind \<Rightarrow> u8 list \<Rightarrow> bridge_options \<Rightarrow> queue_file \<Rightarrow> append_result \<times> queue_file" where
  "appendRuntimeResidentQueueRecord path kind payload options file =
     (case readResidentQueueHeaderFile path file of
        Inl e \<Rightarrow> (rejectAppendAll [e], file)
      | Inr h \<Rightarrow>
          let v = validateRuntimeResidentQueueHeader h (kind_code kind) options in
          if \<not> qv_valid v then (rejectAppendAll (qv_errors v), file)
          else if unat (qh_recordBytes h) < sizeof_record_header
          then (rejectAppend ''resident queue record size cannot contain a record header'', file)
          else if length payload > unat (qh_recordBytes h) - sizeof_record_header
          then (rejectAppend ''resident queue payload exceeds record capacity'', file)
          else if qh_writeSequence h - qh_readSequence h \<ge> ucast (qh_capacityRecords h)
          then (rejectAppend ''resident queue is full'', file)
          else
            let r = new_record h kind payload;
                rv = validateRuntimeResidentRecordHeader (bump h) r (kind_code kind)
            in if \<not> qv_valid rv then (rejectAppendAll (qv_errors rv), file)
               else
                 let written = map_option
                       (write_at (residentQueueRecordOffset h (rh_sequence r)) (record_slot h r payload))
                       file
                 in (\<lparr>ap_appended = True, ap_sequence = rh_sequence r, ap_reason = [], ap_errors = []\<rparr>,
                     writeResidentQueueHeaderFile (bump h) written))"

record queue_record =
  qr_header :: record_header
  qr_payload :: "u8 list"

record read_result =
  rd_read :: bool
  rd_header :: queue_header
  rd_records :: "queue_record list"
  rd_reason :: string
  rd_errors :: "string list"

definition default_queue_header :: queue_header where
  "default_queue_header = makeRuntimeResidentQueueHeader QCommand 0 0 0"

definition rejectRead :: "string \<Rightarrow> read_result" where
  "rejectRead reason =
     \<lparr>rd_read = False, rd_header = default_queue_header, rd_records = [], rd_reason = reason,
      rd_errors = [reason]\<rparr>"

definition rejectReadAll :: "string list \<Rightarrow> read_result" where
  "rejectReadAll errors = (rejectRead (hd errors))\<lparr>rd_errors := errors\<rparr>"

text \<open>
  \<open>SlotOverread\<close> is the copy of a 16-byte record header out of a slot buffer of fewer bytes, which
  the code does before any check of \<open>recordBytes\<close> against the record header.
\<close>

datatype read_outcome = ReadDone read_result | SlotOverread

fun read_records ::
  "queue_header \<Rightarrow> queue_kind \<Rightarrow> u8 list \<Rightarrow> nat \<Rightarrow> u64 \<Rightarrow> queue_record list \<Rightarrow> read_outcome" where
  "read_records h kind f 0 sequence acc =
     ReadDone \<lparr>rd_read = True, rd_header = h, rd_records = acc, rd_reason = [], rd_errors = []\<rparr>"
| "read_records h kind f (Suc n) sequence acc =
     (let slot = bytes_at f (residentQueueRecordOffset h sequence) (unat (qh_recordBytes h)) in
      if length slot \<noteq> unat (qh_recordBytes h)
      then ReadDone (rejectRead ''resident queue record slot is truncated'')
      else if unat (qh_recordBytes h) < sizeof_record_header then SlotOverread
      else
        let r = record_header_of slot;
            v = validateRuntimeResidentRecordHeader h r (kind_code kind)
        in if \<not> qv_valid v then ReadDone (rejectReadAll (qv_errors v))
           else
             let payload = bytes_at slot (unat (rh_headerBytes r)) (unat (rh_payloadBytes r))
             in read_records h kind f n (sequence + 1)
                  (acc @ [\<lparr>qr_header = r, qr_payload = payload\<rparr>]))"

definition readRuntimeResidentQueueRecords ::
  "string \<Rightarrow> queue_kind \<Rightarrow> nat \<Rightarrow> bridge_options \<Rightarrow> queue_file \<Rightarrow> read_outcome" where
  "readRuntimeResidentQueueRecords path kind maxRecords options file =
     (case readResidentQueueHeaderFile path file of
        Inl e \<Rightarrow> ReadDone (rejectReadAll [e])
      | Inr h \<Rightarrow>
          let v = validateRuntimeResidentQueueHeader h (kind_code kind) options in
          if \<not> qv_valid v then ReadDone (rejectReadAll (qv_errors v))
          else if maxRecords = 0 \<or> qh_readSequence h = qh_writeSequence h
          then ReadDone \<lparr>rd_read = True, rd_header = h, rd_records = [], rd_reason = [], rd_errors = []\<rparr>
          else
            let available = unat (qh_writeSequence h - qh_readSequence h)
            in read_records h kind (the file) (min available maxRecords) (qh_readSequence h) [])"

record acknowledge_result =
  ak_acknowledged :: bool
  ak_header :: queue_header
  ak_reason :: string
  ak_errors :: "string list"

definition rejectAcknowledge :: "string \<Rightarrow> acknowledge_result" where
  "rejectAcknowledge reason =
     \<lparr>ak_acknowledged = False, ak_header = default_queue_header, ak_reason = reason,
      ak_errors = [reason]\<rparr>"

definition rejectAcknowledgeAll :: "string list \<Rightarrow> acknowledge_result" where
  "rejectAcknowledgeAll errors = (rejectAcknowledge (hd errors))\<lparr>ak_errors := errors\<rparr>"

definition acknowledgeRuntimeResidentQueueRecords ::
  "string \<Rightarrow> queue_kind \<Rightarrow> u64 \<Rightarrow> bridge_options \<Rightarrow> queue_file \<Rightarrow> acknowledge_result \<times> queue_file" where
  "acknowledgeRuntimeResidentQueueRecords path kind readSequence options file =
     (case readResidentQueueHeaderFile path file of
        Inl e \<Rightarrow> (rejectAcknowledgeAll [e], file)
      | Inr h \<Rightarrow>
          let v = validateRuntimeResidentQueueHeader h (kind_code kind) options in
          if \<not> qv_valid v then (rejectAcknowledgeAll (qv_errors v), file)
          else if readSequence < qh_readSequence h \<or> readSequence > qh_writeSequence h
          then (rejectAcknowledge
                  ''resident queue acknowledge sequence is outside the readable window'', file)
          else
            let h' = h\<lparr>qh_readSequence := readSequence\<rparr>
            in (\<lparr>ak_acknowledged = True, ak_header = h', ak_reason = [], ak_errors = []\<rparr>,
                writeResidentQueueHeaderFile h' file))"

section \<open>Ready lines\<close>

definition residentQueueReadyKey :: "queue_kind \<Rightarrow> string \<Rightarrow> string" where
  "residentQueueReadyKey kind suffix =
     ''resident.queue.'' @ residentQueueReadyName kind @ ''.'' @ suffix"

definition makeRuntimeResidentQueueReadyLines ::
  "queue_kind \<Rightarrow> string \<Rightarrow> queue_header \<Rightarrow> string list" where
  "makeRuntimeResidentQueueReadyLines kind queuePath h =
     (let prefix = ''resident.queue.'' @ residentQueueReadyName kind in
      [prefix @ ''.path='' @ queuePath,
       prefix @ ''.record_bytes='' @ nat_to_dec (unat (qh_recordBytes h)),
       prefix @ ''.capacity_records='' @ nat_to_dec (unat (qh_capacityRecords h)),
       prefix @ ''.write_sequence='' @ nat_to_dec (unat (qh_writeSequence h)),
       prefix @ ''.read_sequence='' @ nat_to_dec (unat (qh_readSequence h)),
       prefix @ ''.heartbeat='' @ nat_to_dec (unat (qh_heartbeat h))])"

end
