(* ===== verification/Resident_Queue_Ring.thy ===== *)
theory Resident_Queue_Ring
  imports Resident_Queue
begin

text \<open>
  The ring a queue file holds: which files are well-formed (\<open>queue_ok\<close>), the payloads pending in
  them (\<open>contents_of\<close>), and that append, read, acknowledge and \<open>ensure\<close> act on the contents as a
  bounded FIFO, through the interpretation of the \<open>fifo\<close> locale.
\<close>

section \<open>The queue a file holds\<close>

abbreviation wseq :: "queue_header \<Rightarrow> nat" where "wseq h \<equiv> unat (qh_writeSequence h)"
abbreviation rseq :: "queue_header \<Rightarrow> nat" where "rseq h \<equiv> unat (qh_readSequence h)"
abbreviation capr :: "queue_header \<Rightarrow> nat" where "capr h \<equiv> unat (qh_capacityRecords h)"
abbreviation recb :: "queue_header \<Rightarrow> nat" where "recb h \<equiv> unat (qh_recordBytes h)"
abbreviation hdrb :: "queue_header \<Rightarrow> nat" where "hdrb h \<equiv> unat (qh_headerBytes h)"

definition slot_off :: "queue_header \<Rightarrow> nat \<Rightarrow> nat" where
  "slot_off h n = hdrb h + (n mod capr h) * recb h"

definition file_header :: "u8 list \<Rightarrow> queue_header" where
  "file_header f = queue_header_of (take 40 f)"

definition slot_at :: "queue_header \<Rightarrow> u8 list \<Rightarrow> nat \<Rightarrow> u8 list" where
  "slot_at h f n = bytes_at f (slot_off h n) (recb h)"

definition payload_of :: "u8 list \<Rightarrow> u8 list" where
  "payload_of slot =
     (let r = record_header_of slot
      in bytes_at slot (unat (rh_headerBytes r)) (unat (rh_payloadBytes r)))"

definition record_ok :: "u16 \<Rightarrow> queue_header \<Rightarrow> u8 list \<Rightarrow> nat \<Rightarrow> bool" where
  "record_ok k h slot n \<longleftrightarrow>
     (let r = record_header_of slot in
      16 \<le> unat (rh_headerBytes r) \<and> rh_headerBytes r \<le> qh_recordBytes h \<and> rh_kind r = k
      \<and> unat (rh_payloadBytes r) \<le> recb h - unat (rh_headerBytes r)
      \<and> unat (rh_sequence r) = n)"

definition header_ok :: "u16 \<Rightarrow> bridge_options \<Rightarrow> queue_header \<Rightarrow> bool" where
  "header_ok k options h \<longleftrightarrow> qh_magic h = QueueMagic \<and> qh_abiMajor h = AbiMajor \<and> 40 \<le> hdrb h
     \<and> qh_kind h = k \<and> 0 < recb h \<and> 0 < capr h \<and> rseq h \<le> wseq h \<and> wseq h - rseq h \<le> capr h
     \<and> bo_minimumHeartbeat options \<le> qh_heartbeat h"

definition queue_ok :: "u16 \<Rightarrow> bridge_options \<Rightarrow> u8 list \<Rightarrow> bool" where
  "queue_ok k options f \<longleftrightarrow>
     (let h = file_header f in
      header_ok k options h \<and> 16 \<le> recb h \<and> residentQueueFileSize h \<le> length f
      \<and> (\<forall>n. rseq h \<le> n \<and> n < wseq h \<longrightarrow> record_ok k h (slot_at h f n) n))"

definition contents_of :: "u8 list \<Rightarrow> u8 list list" where
  "contents_of f =
     (let h = file_header f in map (\<lambda>n. payload_of (slot_at h f n)) [rseq h..<wseq h])"

lemma unat_bound: "unat (w :: 'a::len word) < 2 ^ LENGTH('a)"
  by (rule unsigned_less)

lemma unat_word_of_nat: "n < 2 ^ LENGTH('a) \<Longrightarrow> unat (word_of_nat n :: 'a::len word) = n"
  by (simp add: unsigned_of_nat take_bit_nat_eq_self)

lemma error_if_Nil [simp]: "error_if c e = [] \<longleftrightarrow> \<not> c"
  by (simp add: error_if_def)

lemma validation_valid [simp]: "qv_valid (validation es) \<longleftrightarrow> es = []"
  by (simp add: validation_def)

lemma distance_unat:
  "r \<le> w \<Longrightarrow> unat (w - r) = unat w - unat (r :: u64)"
  by (simp add: unat_sub)

lemma unat_ucast_32_64 [simp]: "unat (ucast (x :: u32) :: u64) = unat x"
proof -
  have "unat x < 2 ^ 32" using unat_bound [of x] by simp
  then show ?thesis by (simp add: unsigned_ucast_eq take_bit_nat_eq_self)
qed

lemma header_valid_iff:
  "qv_valid (validateRuntimeResidentQueueHeader h k options) \<longleftrightarrow> header_ok k options h"
proof -
  have "qh_writeSequence h - qh_readSequence h > ucast (qh_capacityRecords h) \<longleftrightarrow>
      wseq h - rseq h > capr h" if "\<not> qh_readSequence h > qh_writeSequence h"
    using that by (simp add: word_less_nat_alt distance_unat word_le_nat_alt)
  then show ?thesis
    by (auto simp: validateRuntimeResidentQueueHeader_def header_ok_def word_less_nat_alt
        word_le_nat_alt unat_gt_0 not_less split: if_splits)
qed

lemma record_offset: "residentQueueRecordOffset h s = slot_off h (unat s)" if "0 < capr h"
  using that by (auto simp: residentQueueRecordOffset_def slot_off_def unat_mod Let_def)

lemma slot_fits: "0 < capr h \<Longrightarrow> slot_off h n + recb h \<le> residentQueueFileSize h"
proof -
  assume "0 < capr h"
  then have "n mod capr h + 1 \<le> capr h" by (simp add: Suc_leI)
  then have "(n mod capr h + 1) * recb h \<le> capr h * recb h" by (rule mult_le_mono1)
  then show ?thesis by (simp add: slot_off_def residentQueueFileSize_def algebra_simps)
qed

lemma mod_window_distinct:
  assumes "a < b" "b < a + (c :: nat)"
  shows "a mod c \<noteq> b mod c"
proof
  assume "a mod c = b mod c"
  then have "c dvd b - a" using assms(1) by (metis mod_eq_dvd_iff_nat less_imp_le)
  with assms show False by (auto dest: dvd_imp_le)
qed

lemma slots_disjoint:
  assumes "n < m" "m < n + capr h"
  shows "slot_off h n + recb h \<le> slot_off h m \<or> slot_off h m + recb h \<le> slot_off h n"
proof -
  have "n mod capr h < m mod capr h \<or> m mod capr h < n mod capr h"
    using mod_window_distinct [OF assms] by linarith
  moreover have "(x + 1) * recb h \<le> y * recb h" if "x < y" for x y
    using that by (intro mult_le_mono1) simp
  ultimately show ?thesis by (force simp: slot_off_def)
qed

section \<open>Reading back what was written\<close>

lemma file_header_written [simp]:
  "file_header (write_at 0 (queue_header_bytes h) f) = h"
  by (simp add: file_header_def write_at_def)

lemma slot_at_header_write:
  "40 \<le> hdrb h \<Longrightarrow> slot_at h (write_at 0 (queue_header_bytes h') f) n = slot_at h f n"
  by (simp add: slot_at_def slot_off_def bytes_at_after)

lemma slot_at_bump [simp]: "slot_at (bump h) f n = slot_at h f n"
  by (simp add: slot_at_def slot_off_def bump_def)

lemma slot_at_ack [simp]: "slot_at (h\<lparr>qh_readSequence := s\<rparr>) f n = slot_at h f n"
  by (simp add: slot_at_def slot_off_def)

lemma slot_at_written:
  assumes "length s = recb h"
  shows "slot_at h (write_at (slot_off h n) s f) n = s"
  using bytes_at_written [of "slot_off h n" s f] assms by (simp add: slot_at_def)

lemma slot_at_other:
  assumes "length s = recb h" "n < m" "m < n + capr h"
    and "residentQueueFileSize h \<le> length f" "0 < capr h"
  shows "slot_at h (write_at (slot_off h m) s f) n = slot_at h f n"
proof -
  have "slot_off h m + recb h \<le> length f" using slot_fits [of h m] assms by simp
  with slots_disjoint [OF assms(2,3)] show ?thesis
    using assms(1) by (auto simp: slot_at_def intro: bytes_at_before bytes_at_after)
qed

lemma header_before_slots:
  assumes "40 \<le> hdrb h" "slot_off h n \<le> length f"
  shows "take 40 (write_at (slot_off h n) s f) = take 40 f"
proof -
  have "bytes_at (write_at (slot_off h n) s f) 0 40 = bytes_at f 0 40"
    using assms by (intro bytes_at_before) (auto simp: slot_off_def)
  then show ?thesis by (simp add: bytes_at_def)
qed

lemma length_record_slot:
  "16 \<le> recb h \<Longrightarrow> length payload \<le> recb h - 16 \<Longrightarrow> length (record_slot h r payload) = recb h"
  by (simp add: record_slot_def)

lemma record_slot_split:
  assumes "16 \<le> recb h"
  shows "\<exists>rest. record_slot h r payload = record_header_bytes r @ payload @ rest"
  by (auto simp: record_slot_def write_at_def)

lemma new_record_slot:
  assumes "16 \<le> recb h" "length payload \<le> recb h - 16"
  shows "record_header_of (record_slot h (new_record h kind payload) payload) = new_record h kind payload"
    and "payload_of (record_slot h (new_record h kind payload) payload) = payload"
proof -
  let ?r = "new_record h kind payload"
  obtain rest where s: "record_slot h ?r payload = record_header_bytes ?r @ payload @ rest"
    using record_slot_split [OF assms(1)] by blast
  show r: "record_header_of (record_slot h ?r payload) = ?r"
    by (simp add: s)
  have hb: "unat (rh_headerBytes ?r) = 16" by (simp add: new_record_def)
  have "length payload < 2 ^ 32"
    using assms unat_bound [of "qh_recordBytes h"] by simp
  then have "unat (rh_payloadBytes ?r) = length payload"
    by (simp add: new_record_def unat_word_of_nat)
  then show "payload_of (record_slot h ?r payload) = payload"
    unfolding payload_of_def Let_def r by (simp add: hb) (simp add: s bytes_at_def)
qed

lemma record_valid_iff:
  assumes "16 \<le> recb q"
  shows "qv_valid (validateRuntimeResidentRecordHeader q r k) \<longleftrightarrow>
    16 \<le> unat (rh_headerBytes r) \<and> rh_kind r = k \<and> rh_headerBytes r \<le> qh_recordBytes q
    \<and> unat (rh_payloadBytes r) \<le> recb q - unat (rh_headerBytes r)
    \<and> rseq q \<le> unat (rh_sequence r) \<and> unat (rh_sequence r) < wseq q"
  using assms
  by (auto simp: validateRuntimeResidentRecordHeader_def word_less_nat_alt word_le_nat_alt not_less
      split: if_splits)

section \<open>Append\<close>

definition roomy :: "u8 list \<Rightarrow> u8 list \<Rightarrow> bool" where
  "roomy payload f \<longleftrightarrow>
     (let h = file_header f in
      length payload \<le> recb h - 16 \<and> wseq h - rseq h < capr h \<and> wseq h + 1 < 2 ^ 64)"

lemma queue_ok_header:
  "queue_ok k options f \<Longrightarrow> readResidentQueueHeaderFile path (Some f) = Inr (file_header f)"
proof -
  assume "queue_ok k options f"
  then have "40 \<le> length f"
    by (simp add: queue_ok_def header_ok_def residentQueueFileSize_def Let_def)
  then show ?thesis by (simp add: readResidentQueueHeaderFile_def file_header_def)
qed

lemma bump_wseq: "wseq h + 1 < 2 ^ 64 \<Longrightarrow> wseq (bump h) = wseq h + 1"
  by (simp add: bump_def unat_word_ariths)

lemma bump_fields [simp]:
  "qh_readSequence (bump h) = qh_readSequence h" "qh_capacityRecords (bump h) = qh_capacityRecords h"
  "qh_recordBytes (bump h) = qh_recordBytes h" "qh_headerBytes (bump h) = qh_headerBytes h"
  "qh_kind (bump h) = qh_kind h" "qh_magic (bump h) = qh_magic h"
  "qh_abiMajor (bump h) = qh_abiMajor h" "qh_heartbeat (bump h) = qh_heartbeat h"
  "residentQueueFileSize (bump h) = residentQueueFileSize h"
  by (simp_all add: bump_def residentQueueFileSize_def)

lemma bump_exhausted: "\<not> wseq h + 1 < 2 ^ 64 \<Longrightarrow> wseq (bump h) = 0"
proof -
  assume "\<not> wseq h + 1 < 2 ^ 64"
  moreover have "wseq h < 2 ^ 64" using unat_bound [of "qh_writeSequence h"] by simp
  ultimately have "wseq h + 1 = 2 ^ 64" by simp
  then show ?thesis by (simp add: bump_def unat_word_ariths)
qed

lemma append_appends:
  assumes "queue_ok (kind_code kind) options f"
  shows "ap_appended (fst (appendRuntimeResidentQueueRecord path kind payload options (Some f)))
    \<longleftrightarrow> roomy payload f" (is ?app)
    and "\<not> roomy payload f \<Longrightarrow>
      snd (appendRuntimeResidentQueueRecord path kind payload options (Some f)) = Some f"
    and "roomy payload f \<Longrightarrow>
      snd (appendRuntimeResidentQueueRecord path kind payload options (Some f))
        = (let h = file_header f;
               s = record_slot h (new_record h kind payload) payload
           in Some (write_at 0 (queue_header_bytes (bump h)) (write_at (slot_off h (wseq h)) s f)))"
    and "roomy payload f \<Longrightarrow>
      fst (appendRuntimeResidentQueueRecord path kind payload options (Some f))
        = \<lparr>ap_appended = True, ap_sequence = qh_writeSequence (file_header f), ap_reason = [],
           ap_errors = []\<rparr>"
proof -
  let ?h = "file_header f" and ?k = "kind_code kind"
  let ?r = "new_record ?h kind payload"
  let ?a = "appendRuntimeResidentQueueRecord path kind payload options (Some f)"
  have ok: "header_ok ?k options ?h" "16 \<le> recb ?h"
    using assms by (auto simp: queue_ok_def Let_def)
  note hdr = queue_ok_header [OF assms, of path]
  have full: "qh_writeSequence ?h - qh_readSequence ?h \<ge> ucast (qh_capacityRecords ?h)
      \<longleftrightarrow> capr ?h \<le> wseq ?h - rseq ?h"
    using ok by (simp add: word_le_nat_alt distance_unat header_ok_def)
  have rec: "qv_valid (validateRuntimeResidentRecordHeader (bump ?h) ?r ?k)
      \<longleftrightarrow> wseq ?h + 1 < 2 ^ 64" if "length payload \<le> recb ?h - 16"
  proof -
    have "length payload < 2 ^ 32" using that unat_bound [of "qh_recordBytes ?h"] by simp
    then have "unat (rh_payloadBytes ?r) = length payload"
      by (simp add: new_record_def unat_word_of_nat)
    moreover have "16 \<le> qh_recordBytes ?h" using ok by (simp add: word_le_nat_alt)
    ultimately show ?thesis
      using that ok bump_wseq [of ?h] bump_exhausted [of ?h]
      by (cases "wseq ?h + 1 < 2 ^ 64")
        (auto simp: record_valid_iff new_record_def header_ok_def)
  qed
  have off: "residentQueueRecordOffset ?h s = slot_off ?h (unat s)" for s
    using ok by (intro record_offset) (simp add: header_ok_def)
  have seq: "rh_sequence ?r = qh_writeSequence ?h" by (simp add: new_record_def)
  have "\<not> recb ?h < 16" using ok by simp
  note simps = this appendRuntimeResidentQueueRecord_def hdr header_valid_iff ok roomy_def Let_def full rec
    rejectAppend_def rejectAppendAll_def not_le not_less
  show ?app using ok by (simp add: simps)
  show "snd ?a = Some f" if "\<not> roomy payload f"
    using that ok by (auto simp: simps)
  show "snd ?a = (let h = file_header f; s = record_slot h (new_record h kind payload) payload
      in Some (write_at 0 (queue_header_bytes (bump h)) (write_at (slot_off h (wseq h)) s f)))"
    if "roomy payload f"
    using that ok by (simp add: simps writeResidentQueueHeaderFile_def off seq)
  show "fst ?a = \<lparr>ap_appended = True, ap_sequence = qh_writeSequence ?h, ap_reason = [],
      ap_errors = []\<rparr>" if "roomy payload f"
    using that ok by (simp add: simps seq)
qed

lemma append_preserves:
  assumes ok: "queue_ok k options f" and room: "roomy payload f" and k: "k = kind_code kind"
  defines "h \<equiv> file_header f"
  defines "f' \<equiv> write_at 0 (queue_header_bytes (bump h))
    (write_at (slot_off h (wseq h)) (record_slot h (new_record h kind payload) payload) f)"
  shows "queue_ok k options f'" and "contents_of f' = contents_of f @ [payload]"
proof -
  let ?s = "record_slot h (new_record h kind payload) payload"
  let ?g = "write_at (slot_off h (wseq h)) ?s f"
  have h: "header_ok k options h" "16 \<le> recb h" "residentQueueFileSize h \<le> length f"
    and recs: "\<And>n. rseq h \<le> n \<Longrightarrow> n < wseq h \<Longrightarrow> record_ok k h (slot_at h f n) n"
    using ok by (auto simp: queue_ok_def h_def Let_def)
  have r: "length payload \<le> recb h - 16" "wseq h - rseq h < capr h" "wseq h + 1 < 2 ^ 64"
    using room by (auto simp: roomy_def h_def Let_def)
  have ls: "length ?s = recb h" using h(2) r(1) by (rule length_record_slot)
  have h': "file_header f' = bump h" by (simp add: f'_def)
  have w': "wseq (bump h) = wseq h + 1" using r(3) by (rule bump_wseq)
  have slot': "slot_at h f' n = slot_at h ?g n" for n
    using h(1) by (simp add: f'_def slot_at_header_write header_ok_def)
  have old: "slot_at h ?g n = slot_at h f n" if "rseq h \<le> n" "n < wseq h" for n
    using that h r(2) ls by (intro slot_at_other) (auto simp: header_ok_def)
  have new: "slot_at h ?g (wseq h) = ?s" using ls by (rule slot_at_written)
  have "record_ok k h ?s (wseq h)"
  proof -
    have "length payload < 2 ^ 32" using r(1) unat_bound [of "qh_recordBytes h"] by simp
    then have "unat (rh_payloadBytes (new_record h kind payload)) = length payload"
      by (simp add: new_record_def unat_word_of_nat)
    moreover have "16 \<le> qh_recordBytes h" using h(2) by (simp add: word_le_nat_alt)
    ultimately show ?thesis
      using r(1) by (simp add: record_ok_def new_record_slot [OF h(2) r(1)] Let_def)
        (simp add: new_record_def k)
  qed
  then have recs': "record_ok k (bump h) (slot_at (bump h) f' n) n"
    if "rseq h \<le> n" "n < wseq h + 1" for n
    using that old [of n] new recs [of n] by (cases "n = wseq h") (auto simp: slot' record_ok_def)
  have size': "residentQueueFileSize h \<le> length f'" using h(3) by (simp add: f'_def)
  show "queue_ok k options f'"
    using h r recs' size' by (auto simp: queue_ok_def h' w' header_ok_def Let_def)
  have "contents_of f' = map (\<lambda>n. payload_of (slot_at h ?g n)) [rseq h..<wseq h + 1]"
    by (simp add: contents_of_def h' w' slot' Let_def)
  also have "\<dots> = map (\<lambda>n. payload_of (slot_at h ?g n)) [rseq h..<wseq h] @ [payload_of ?s]"
    using h(1) new by (simp add: header_ok_def)
  also have "map (\<lambda>n. payload_of (slot_at h ?g n)) [rseq h..<wseq h] = contents_of f"
    using old by (simp add: contents_of_def h_def [symmetric] Let_def)
  finally show "contents_of f' = contents_of f @ [payload]"
    by (simp add: new_record_slot [OF h(2) r(1)])
qed

section \<open>Read and acknowledge\<close>

text \<open>The record a reader makes of a slot.\<close>

definition record_at :: "queue_header \<Rightarrow> u8 list \<Rightarrow> nat \<Rightarrow> queue_record" where
  "record_at h f n =
     \<lparr>qr_header = record_header_of (slot_at h f n), qr_payload = payload_of (slot_at h f n)\<rparr>"

lemma read_records_ok:
  assumes "header_ok k options h" "16 \<le> recb h" "residentQueueFileSize h \<le> length f"
    and "k = kind_code kind"
    and "\<And>i. unat s \<le> i \<Longrightarrow> i < unat s + n \<Longrightarrow> record_ok k h (slot_at h f i) i"
    and "rseq h \<le> unat s" "unat s + n \<le> wseq h"
  shows "read_records h kind f n s acc =
      ReadDone \<lparr>rd_read = True, rd_header = h,
        rd_records = acc @ map (record_at h f) [unat s..<unat s + n], rd_reason = [], rd_errors = []\<rparr>"
  using assms(5-7)
proof (induction n arbitrary: s acc)
  case 0
  then show ?case by simp
next
  case (Suc n)
  let ?slot = "slot_at h f (unat s)"
  let ?r = "record_header_of ?slot"
  have cap: "0 < capr h" using assms(1) by (simp add: header_ok_def)
  have slot: "bytes_at f (residentQueueRecordOffset h s) (recb h) = ?slot"
    using record_offset [OF cap, of s] by (simp add: slot_at_def)
  have len: "length ?slot = recb h"
    using slot_fits [OF cap, of "unat s"] assms(3) by (simp add: slot_at_def bytes_at_def)
  have "record_ok k h ?slot (unat s)" using Suc.prems by simp
  then have v: "qv_valid (validateRuntimeResidentRecordHeader h ?r (kind_code kind))"
    using assms(2,4) Suc.prems by (simp add: record_valid_iff record_ok_def Let_def)
  have "unat s + 1 < 2 ^ 64" using Suc.prems unat_bound [of "qh_writeSequence h"] by simp
  then have s': "unat (s + 1) = unat s + 1" by (simp add: unat_word_ariths)
  have "read_records h kind f n (s + 1) (acc @ [record_at h f (unat s)]) =
      ReadDone \<lparr>rd_read = True, rd_header = h,
        rd_records = (acc @ [record_at h f (unat s)])
          @ map (record_at h f) [unat (s + 1)..<unat (s + 1) + n],
        rd_reason = [], rd_errors = []\<rparr>"
    using Suc.prems s' by (intro Suc.IH) simp_all
  moreover have "read_records h kind f (Suc n) s acc = read_records h kind f n (s + 1)
      (acc @ [record_at h f (unat s)])"
    using len v assms(2) by (simp add: slot payload_of_def record_at_def Let_def)
  moreover have "[unat s..<unat s + Suc n] = unat s # [unat s + 1..<unat s + 1 + n]"
    by (simp add: upt_conv_Cons)
  ultimately show ?case using s' by simp
qed

lemma take_upt_map: "take n (map g [a..<b]) = map g [a..<a + min (b - a) n]"
  by (cases "a \<le> b") (simp_all add: take_map min_def)

lemma read_ok_exact:
  assumes "queue_ok (kind_code kind) options f"
  shows "readRuntimeResidentQueueRecords path kind maxRecords options (Some f) =
      ReadDone \<lparr>rd_read = True, rd_header = file_header f,
        rd_records = take maxRecords
          (map (record_at (file_header f) f) [rseq (file_header f)..<wseq (file_header f)]),
        rd_reason = [], rd_errors = []\<rparr>"
proof -
  let ?h = "file_header f" and ?k = "kind_code kind"
  have h: "header_ok ?k options ?h" "16 \<le> recb ?h" "residentQueueFileSize ?h \<le> length f"
    and recs: "\<And>n. rseq ?h \<le> n \<Longrightarrow> n < wseq ?h \<Longrightarrow> record_ok ?k ?h (slot_at ?h f n) n"
    using assms by (auto simp: queue_ok_def Let_def)
  note hdr = queue_ok_header [OF assms, of path]
  have le: "rseq ?h \<le> wseq ?h" using h(1) by (simp add: header_ok_def)
  show ?thesis
  proof (cases "maxRecords = 0 \<or> qh_readSequence ?h = qh_writeSequence ?h")
    case True
    then show ?thesis
      by (auto simp: readRuntimeResidentQueueRecords_def hdr header_valid_iff h(1) Let_def)
  next
    case False
    let ?n = "min (wseq ?h - rseq ?h) maxRecords"
    have "unat (qh_writeSequence ?h - qh_readSequence ?h) = wseq ?h - rseq ?h"
      using le by (simp add: distance_unat word_le_nat_alt)
    then have "readRuntimeResidentQueueRecords path kind maxRecords options (Some f)
        = read_records ?h kind f ?n (qh_readSequence ?h) []"
      using False by (auto simp: readRuntimeResidentQueueRecords_def hdr header_valid_iff h(1) Let_def)
    then show ?thesis
      using read_records_ok [OF h(1,2,3) refl, of "qh_readSequence ?h" ?n "[]"] recs le
      by (simp add: take_upt_map)
  qed
qed

lemma contents_records:
  "contents_of f
    = map (qr_payload \<circ> record_at (file_header f) f) [rseq (file_header f)..<wseq (file_header f)]"
  by (simp add: contents_of_def record_at_def Let_def)

lemma read_ok:
  assumes "queue_ok (kind_code kind) options f"
  shows "\<exists>rs. readRuntimeResidentQueueRecords path kind maxRecords options (Some f) =
      ReadDone \<lparr>rd_read = True, rd_header = file_header f, rd_records = rs, rd_reason = [],
        rd_errors = []\<rparr>
    \<and> map qr_payload rs = take maxRecords (contents_of f)"
  using read_ok_exact [OF assms, of path maxRecords]
  by (simp add: contents_records take_map)

lemma contents_length: "length (contents_of f) = wseq (file_header f) - rseq (file_header f)"
  by (simp add: contents_of_def Let_def)

lemma ack_ok:
  assumes ok: "queue_ok (kind_code kind) options f" and n: "n \<le> length (contents_of f)"
  defines "s \<equiv> qh_readSequence (file_header f) + word_of_nat n"
  defines "g \<equiv> write_at 0 (queue_header_bytes (file_header f\<lparr>qh_readSequence := s\<rparr>)) f"
  shows "acknowledgeRuntimeResidentQueueRecords path kind s options (Some f)
      = (\<lparr>ak_acknowledged = True, ak_header = file_header f\<lparr>qh_readSequence := s\<rparr>, ak_reason = [],
          ak_errors = []\<rparr>, Some g)"
    and "queue_ok (kind_code kind) options g" and "contents_of g = drop n (contents_of f)"
proof -
  let ?h = "file_header f" and ?k = "kind_code kind"
  have h: "header_ok ?k options ?h" "16 \<le> recb ?h" "residentQueueFileSize ?h \<le> length f"
    and recs: "\<And>i. rseq ?h \<le> i \<Longrightarrow> i < wseq ?h \<Longrightarrow> record_ok ?k ?h (slot_at ?h f i) i"
    using ok by (auto simp: queue_ok_def Let_def)
  have le: "rseq ?h \<le> wseq ?h" using h(1) by (simp add: header_ok_def)
  have n': "rseq ?h + n \<le> wseq ?h" using n le by (simp add: contents_length)
  then have "rseq ?h + n < 2 ^ 64" using unat_bound [of "qh_writeSequence ?h"] by simp
  then have s: "unat s = rseq ?h + n"
    by (simp add: s_def unat_word_ariths unat_word_of_nat)
  show "acknowledgeRuntimeResidentQueueRecords path kind s options (Some f)
      = (\<lparr>ak_acknowledged = True, ak_header = ?h\<lparr>qh_readSequence := s\<rparr>, ak_reason = [],
          ak_errors = []\<rparr>, Some g)"
    using s n' le by (simp add: acknowledgeRuntimeResidentQueueRecords_def queue_ok_header [OF ok]
        header_valid_iff h(1) word_less_nat_alt writeResidentQueueHeaderFile_def g_def Let_def)
  have g: "file_header g = ?h\<lparr>qh_readSequence := s\<rparr>" by (simp add: g_def)
  have slot: "slot_at ?h g i = slot_at ?h f i" for i
    using h(1) by (simp add: g_def slot_at_header_write header_ok_def)
  show "queue_ok ?k options g"
    using h recs s n' by (auto simp: queue_ok_def g slot header_ok_def residentQueueFileSize_def
        record_ok_def Let_def) (auto simp: g_def)
  show "contents_of g = drop n (contents_of f)"
    by (simp add: contents_of_def g slot s drop_map Let_def add.commute)
qed

text \<open>A consumer reads at most \<open>maxRecords\<close> records and acknowledges those it read.\<close>

definition rq_consume :: "queue_kind \<Rightarrow> bridge_options \<Rightarrow> nat \<Rightarrow> u8 list \<Rightarrow> u8 list list \<times> u8 list" where
  "rq_consume kind options maxRecords f =
     (case readRuntimeResidentQueueRecords [] kind maxRecords options (Some f) of
        SlotOverread \<Rightarrow> ([], f)
      | ReadDone rr \<Rightarrow>
          (map qr_payload (rd_records rr),
           the (snd (acknowledgeRuntimeResidentQueueRecords [] kind
             (qh_readSequence (rd_header rr) + word_of_nat (length (rd_records rr)))
             options (Some f)))))"

definition rq_accepts :: "queue_kind \<Rightarrow> bridge_options \<Rightarrow> u8 list \<Rightarrow> u8 list \<Rightarrow> bool" where
  "rq_accepts kind options payload f =
     ap_appended (fst (appendRuntimeResidentQueueRecord [] kind payload options (Some f)))"

definition rq_put :: "queue_kind \<Rightarrow> bridge_options \<Rightarrow> u8 list \<Rightarrow> u8 list \<Rightarrow> u8 list" where
  "rq_put kind options payload f =
     the (snd (appendRuntimeResidentQueueRecord [] kind payload options (Some f)))"

lemma rq_consume_ok:
  assumes "queue_ok (kind_code kind) options f"
  shows "fst (rq_consume kind options m f) = take m (contents_of f)"
    and "contents_of (snd (rq_consume kind options m f)) = drop m (contents_of f)"
    and "queue_ok (kind_code kind) options (snd (rq_consume kind options m f))"
proof -
  obtain rs where rs: "readRuntimeResidentQueueRecords [] kind m options (Some f) =
      ReadDone \<lparr>rd_read = True, rd_header = file_header f, rd_records = rs, rd_reason = [],
        rd_errors = []\<rparr>" "map qr_payload rs = take m (contents_of f)"
    using read_ok [OF assms] by blast
  then have len: "length rs = min (length (contents_of f)) m"
    by (metis length_map length_take)
  then have n: "length rs \<le> length (contents_of f)" by simp
  note ack = ack_ok(1) [OF assms n, where path = "[]"] ack_ok(2,3) [OF assms n]
  show "fst (rq_consume kind options m f) = take m (contents_of f)"
    using rs by (simp add: rq_consume_def)
  show "contents_of (snd (rq_consume kind options m f)) = drop m (contents_of f)"
    using ack rs(1) len by (simp add: rq_consume_def min_def)
  show "queue_ok (kind_code kind) options (snd (rq_consume kind options m f))"
    using ack rs(1) by (simp add: rq_consume_def)
qed

lemma rq_put_ok:
  assumes "queue_ok (kind_code kind) options f"
  shows "rq_accepts kind options p f \<longleftrightarrow> roomy p f"
    and "rq_accepts kind options p f \<Longrightarrow> contents_of (rq_put kind options p f) = contents_of f @ [p]"
    and "\<not> rq_accepts kind options p f \<Longrightarrow> rq_put kind options p f = f"
    and "queue_ok (kind_code kind) options (rq_put kind options p f)"
proof -
  note app = append_appends [OF assms, where path = "[]" and payload = p]
  show acc: "rq_accepts kind options p f \<longleftrightarrow> roomy p f" using app(1) by (simp add: rq_accepts_def)
  show ref: "\<not> rq_accepts kind options p f \<Longrightarrow> rq_put kind options p f = f"
    using app(2) acc by (simp add: rq_put_def)
  show "rq_accepts kind options p f \<Longrightarrow> contents_of (rq_put kind options p f) = contents_of f @ [p]"
    using app(3) acc append_preserves(2) [OF assms _ refl, of p] by (simp add: rq_put_def Let_def)
  show "queue_ok (kind_code kind) options (rq_put kind options p f)"
    using app(3) acc ref append_preserves(1) [OF assms _ refl, of p] assms
    by (cases "roomy p f") (simp_all add: rq_put_def Let_def)
qed

interpretation rq: fifo "queue_ok (kind_code kind) options" contents_of
    "rq_accepts kind options" "rq_put kind options" "rq_consume kind options"
  for kind options
  by unfold_locales (simp_all add: rq_put_ok rq_consume_ok)

definition rq_run ::
  "queue_kind \<Rightarrow> bridge_options \<Rightarrow> u8 list \<Rightarrow> (u8 list, nat) fifo_op list \<Rightarrow> (u8 list, u8 list) fifo_trace"
  where
  "rq_run kind options =
     fifo_run (rq_accepts kind options) (rq_put kind options) (rq_consume kind options)"

section \<open>Ensuring a queue file\<close>

definition compatible :: "queue_header \<Rightarrow> bridge_options \<Rightarrow> queue_file \<Rightarrow> bool" where
  "compatible d options file \<longleftrightarrow>
     (case file of
        None \<Rightarrow> False
      | Some f \<Rightarrow> 40 \<le> length f
          \<and> header_ok (qh_kind d) (options\<lparr>bo_minimumHeartbeat := 0\<rparr>) (file_header f)
          \<and> qh_recordBytes (file_header f) = qh_recordBytes d
          \<and> qh_capacityRecords (file_header f) = qh_capacityRecords d
          \<and> qh_headerBytes (file_header f) = qh_headerBytes d)"

definition ensured_header :: "queue_header \<Rightarrow> bridge_options \<Rightarrow> queue_file \<Rightarrow> queue_header" where
  "ensured_header d options file =
     (if compatible d options file
      then d\<lparr>qh_readSequence := qh_readSequence (file_header (the file)),
             qh_writeSequence := qh_writeSequence (file_header (the file))\<rparr>
      else d)"

lemma ensure_eq:
  assumes "header_ok (qh_kind d) options d"
  shows "ensureRuntimeResidentQueueFile path d options file =
    (let a = ensured_header d options file in
     (\<lparr>qv_valid = True, qv_errors = []\<rparr>, a,
      Some (write_at 0 (queue_header_bytes a)
        (resize_file (residentQueueFileSize a) (case file of None \<Rightarrow> [] | Some f \<Rightarrow> f)))))"
proof -
  have v: "qv_valid (validateRuntimeResidentQueueHeader d (qh_kind d) options)"
    using assms by (simp add: header_valid_iff)
  then have "qv_errors (validateRuntimeResidentQueueHeader d (qh_kind d) options) = []"
    by (simp add: validateRuntimeResidentQueueHeader_def validation_def)
  moreover have "(case readResidentQueueHeaderFile path file of
             Inl _ \<Rightarrow> d
           | Inr existing \<Rightarrow>
               if qv_valid (validateRuntimeResidentQueueHeader existing (qh_kind d)
                    (options\<lparr>bo_minimumHeartbeat := 0\<rparr>))
                  \<and> qh_recordBytes existing = qh_recordBytes d
                  \<and> qh_capacityRecords existing = qh_capacityRecords d
                  \<and> qh_headerBytes existing = qh_headerBytes d
               then d\<lparr>qh_readSequence := qh_readSequence existing,
                      qh_writeSequence := qh_writeSequence existing\<rparr>
               else d) = ensured_header d options file"
    by (auto simp: readResidentQueueHeaderFile_def ensured_header_def compatible_def
        header_valid_iff file_header_def min_def split: option.split)
  ultimately show ?thesis
    using v by (simp add: ensureRuntimeResidentQueueFile_def writeResidentQueueHeaderFile_def
        validation_def Let_def)
qed

lemma bytes_at_resize:
  "off + n \<le> size' \<Longrightarrow> size' \<le> length f \<Longrightarrow> bytes_at (resize_file size' f) off n = bytes_at f off n"
  by (simp add: bytes_at_def resize_file_def drop_take)

lemma length_resize [simp]: "length (resize_file n f) = n"
  by (simp add: resize_file_def)

lemma ensure_result:
  fixes d :: queue_header
  defines "k \<equiv> qh_kind d"
  assumes d: "header_ok k options d" "16 \<le> recb d" "qh_readSequence d = qh_writeSequence d"
    and f: "compatible d options file \<Longrightarrow>
      queue_ok k (options\<lparr>bo_minimumHeartbeat := 0\<rparr>) (the file)"
  defines "a \<equiv> ensured_header d options file"
  defines "g \<equiv> write_at 0 (queue_header_bytes a)
    (resize_file (residentQueueFileSize a) (case file of None \<Rightarrow> [] | Some f \<Rightarrow> f))"
  shows "queue_ok k options g"
    and "contents_of g = (if compatible d options file then contents_of (the file) else [])"
proof -
  have g: "file_header g = a" by (simp add: g_def)
  have len: "residentQueueFileSize a \<le> length g" by (simp add: g_def)
  have "queue_ok k options g \<and>
    contents_of g = (if compatible d options file then contents_of (the file) else [])"
  proof (cases "compatible d options file")
    case False
    then have a: "a = d" by (simp add: a_def ensured_header_def)
    with False show ?thesis
      using d len by (auto simp: queue_ok_def contents_of_def g Let_def)
  next
    case True
    then obtain f where fl: "file = Some f" by (auto simp: compatible_def split: option.splits)
    let ?h = "file_header f"
    have a: "a = d\<lparr>qh_readSequence := qh_readSequence ?h, qh_writeSequence := qh_writeSequence ?h\<rparr>"
      using True by (simp add: a_def ensured_header_def fl)
    have ok: "queue_ok k (options\<lparr>bo_minimumHeartbeat := 0\<rparr>) f" using assms(5) [OF True] by (simp add: fl)
    have geo: "qh_recordBytes ?h = qh_recordBytes d" "qh_capacityRecords ?h = qh_capacityRecords d"
      "qh_headerBytes ?h = qh_headerBytes d"
      using True by (auto simp: compatible_def fl)
    have size_a: "residentQueueFileSize a = residentQueueFileSize ?h"
      using geo by (simp add: a residentQueueFileSize_def)
    have size_f: "residentQueueFileSize ?h \<le> length f" using ok by (simp add: queue_ok_def Let_def)
    have cap: "0 < capr ?h" "40 \<le> hdrb ?h" using ok by (auto simp: queue_ok_def header_ok_def Let_def)
    have off: "slot_off a n = slot_off ?h n" for n using geo by (simp add: a slot_off_def)
    have slot: "slot_at a g n = slot_at ?h f n" for n
    proof -
      have "slot_at a g n
          = bytes_at (resize_file (residentQueueFileSize ?h) f) (slot_off ?h n) (recb ?h)"
      proof -
        have "recb a = recb ?h" using geo by (simp add: a)
        moreover have "40 \<le> slot_off ?h n" using cap by (simp add: slot_off_def)
        ultimately show ?thesis by (simp add: slot_at_def g_def fl size_a off bytes_at_after)
      qed
      also have "\<dots> = slot_at ?h f n"
        using slot_fits [OF cap(1), of n] size_f by (simp add: slot_at_def bytes_at_resize)
      finally show ?thesis .
    qed
    have rec: "record_ok k a s n = record_ok k ?h s n" for s n
      using geo by (simp add: record_ok_def a)
    have "header_ok k options a"
      using d(1) ok geo by (auto simp: header_ok_def a queue_ok_def Let_def)
    moreover have "16 \<le> recb a" using d(2) by (simp add: a)
    moreover have "record_ok k a (slot_at a g n) n" if "rseq a \<le> n" "n < wseq a" for n
      using ok that unfolding slot rec by (auto simp: queue_ok_def a Let_def)
    moreover have "contents_of g = contents_of f"
      by (simp add: contents_of_def g slot Let_def) (simp add: a)
    ultimately show ?thesis
      using len True by (simp add: queue_ok_def g fl Let_def)
  qed
  then show "queue_ok k options g"
    "contents_of g = (if compatible d options file then contents_of (the file) else [])" by auto
qed

end
