(* ===== verification/Resident_Queue_Properties.thy ===== *)
theory Resident_Queue_Properties
  imports Resident_Queue_Ring
begin

text \<open>
  The promises of the resident queue as properties, and what two processes that share the file
  without a lock can do to it: \<open>append\<close> and \<open>acknowledge\<close> both read the whole header, change one
  field and write the whole header back.
\<close>

section \<open>Two processes on one file\<close>

datatype writer_pc = WIdle | WHasHeader queue_header | WSlotWritten queue_header | WDone
datatype reader_pc = RIdle | RHasHeader queue_header | RDone

record shared =
  sh_file :: "u8 list"
  sh_writer :: writer_pc
  sh_reader :: reader_pc

text \<open>
  The steps of one \<open>append\<close> of \<open>p\<close> and of one \<open>acknowledge\<close> of sequence \<open>s\<close>, each file access a
  step; both calls check the header they read before going on.
\<close>

definition append_passes :: "queue_kind \<Rightarrow> bridge_options \<Rightarrow> u8 list \<Rightarrow> queue_header \<Rightarrow> bool" where
  "append_passes kind options p h \<longleftrightarrow> header_ok (kind_code kind) options h \<and> 16 \<le> recb h
     \<and> length p \<le> recb h - 16 \<and> wseq h - rseq h < capr h \<and> wseq h + 1 < 2 ^ 64"

definition ack_passes :: "queue_kind \<Rightarrow> bridge_options \<Rightarrow> u64 \<Rightarrow> queue_header \<Rightarrow> bool" where
  "ack_passes kind options s h \<longleftrightarrow> header_ok (kind_code kind) options h
     \<and> qh_readSequence h \<le> s \<and> s \<le> qh_writeSequence h"

definition put_slot :: "queue_kind \<Rightarrow> u8 list \<Rightarrow> queue_header \<Rightarrow> u8 list \<Rightarrow> u8 list" where
  "put_slot kind p h f =
     write_at (slot_off h (wseq h)) (record_slot h (new_record h kind p) p) f"

inductive race_step ::
  "queue_kind \<Rightarrow> bridge_options \<Rightarrow> u8 list \<Rightarrow> u64 \<Rightarrow> shared \<Rightarrow> shared \<Rightarrow> bool"
  for kind options p s where
  w_read: "sh_writer t = WIdle \<Longrightarrow> append_passes kind options p (file_header (sh_file t)) \<Longrightarrow>
    race_step kind options p s t (t\<lparr>sh_writer := WHasHeader (file_header (sh_file t))\<rparr>)"
| w_slot: "sh_writer t = WHasHeader h \<Longrightarrow>
    race_step kind options p s t
      (t\<lparr>sh_file := put_slot kind p h (sh_file t), sh_writer := WSlotWritten h\<rparr>)"
| w_header: "sh_writer t = WSlotWritten h \<Longrightarrow>
    race_step kind options p s t
      (t\<lparr>sh_file := write_at 0 (queue_header_bytes (bump h)) (sh_file t), sh_writer := WDone\<rparr>)"
| r_read: "sh_reader t = RIdle \<Longrightarrow> ack_passes kind options s (file_header (sh_file t)) \<Longrightarrow>
    race_step kind options p s t (t\<lparr>sh_reader := RHasHeader (file_header (sh_file t))\<rparr>)"
| r_header: "sh_reader t = RHasHeader h \<Longrightarrow>
    race_step kind options p s t
      (t\<lparr>sh_file := write_at 0 (queue_header_bytes (h\<lparr>qh_readSequence := s\<rparr>)) (sh_file t),
         sh_reader := RDone\<rparr>)"

definition race :: "queue_kind \<Rightarrow> bridge_options \<Rightarrow> u8 list \<Rightarrow> u64 \<Rightarrow> shared \<Rightarrow> shared \<Rightarrow> bool" where
  "race kind options p s = (race_step kind options p s)\<^sup>*\<^sup>*"

definition race_start :: "u8 list \<Rightarrow> shared" where
  "race_start f = \<lparr>sh_file = f, sh_writer = WIdle, sh_reader = RIdle\<rparr>"

section \<open>What the interleavings can leave behind\<close>

text \<open>The header values an interleaving can hold, and the state invariant.\<close>

abbreviation acked :: "u64 \<Rightarrow> queue_header \<Rightarrow> queue_header" where
  "acked s h \<equiv> h\<lparr>qh_readSequence := s\<rparr>"

definition race_header :: "u64 \<Rightarrow> queue_header \<Rightarrow> shared \<Rightarrow> bool" where
  "race_header s h t \<longleftrightarrow>
     (let x = file_header (sh_file t) in
      case (sh_writer t, sh_reader t) of
        (WDone, RDone) \<Rightarrow> x \<in> {bump h, acked s h, bump (acked s h)}
      | (WDone, _) \<Rightarrow> x = bump h
      | (_, RDone) \<Rightarrow> x = acked s h
      | (_, _) \<Rightarrow> x = h)"

definition race_copies :: "u64 \<Rightarrow> queue_header \<Rightarrow> shared \<Rightarrow> bool" where
  "race_copies s h t \<longleftrightarrow>
     (\<forall>x. sh_writer t = WHasHeader x \<or> sh_writer t = WSlotWritten x \<longrightarrow>
        x = h \<or> x = acked s h \<and> sh_reader t = RDone)
   \<and> (\<forall>x. sh_reader t = RHasHeader x \<longrightarrow> x = h \<or> x = bump h \<and> sh_writer t = WDone)"

definition race_slots :: "queue_kind \<Rightarrow> u8 list \<Rightarrow> queue_header \<Rightarrow> u8 list \<Rightarrow> shared \<Rightarrow> bool" where
  "race_slots kind p h f t \<longleftrightarrow>
     residentQueueFileSize h \<le> length (sh_file t)
   \<and> (\<forall>n. rseq h \<le> n \<and> n < wseq h \<longrightarrow> slot_at h (sh_file t) n = slot_at h f n)
   \<and> ((\<exists>x. sh_writer t = WSlotWritten x) \<or> sh_writer t = WDone \<longrightarrow>
        slot_at h (sh_file t) (wseq h) = record_slot h (new_record h kind p) p)"

definition race_inv ::
  "queue_kind \<Rightarrow> bridge_options \<Rightarrow> u8 list \<Rightarrow> u64 \<Rightarrow> u8 list \<Rightarrow> shared \<Rightarrow> bool" where
  "race_inv kind options p s f t \<longleftrightarrow>
     race_header s (file_header f) t \<and> race_copies s (file_header f) t
   \<and> race_slots kind p (file_header f) f t"

lemma acked_simps [simp]:
  "slot_off (acked s h) n = slot_off h n" "bump (acked s h) = acked s (bump h)"
  "record_slot (acked s h) r q = record_slot h r q" "new_record (acked s h) kind q = new_record h kind q"
  by (simp_all add: slot_off_def bump_def record_slot_def new_record_def)

lemma put_slot_acked [simp]: "put_slot kind p (acked s h) f = put_slot kind p h f"
  by (simp add: put_slot_def)

lemma put_slot_header:
  assumes "40 \<le> hdrb h" "0 < capr h" "residentQueueFileSize h \<le> length f"
  shows "file_header (put_slot kind p h f) = file_header f"
proof -
  have "slot_off h (wseq h) \<le> length f" using slot_fits [OF assms(2), of "wseq h"] assms(3) by simp
  then show ?thesis
    using header_before_slots [OF assms(1)] by (simp add: file_header_def put_slot_def)
qed

lemma put_slot_slots:
  assumes "append_passes kind options p h" "residentQueueFileSize h \<le> length f"
  shows "slot_at h (put_slot kind p h f) (wseq h) = record_slot h (new_record h kind p) p"
    and "rseq h \<le> n \<Longrightarrow> n < wseq h \<Longrightarrow> slot_at h (put_slot kind p h f) n = slot_at h f n"
    and "length f \<le> length (put_slot kind p h f)"
proof -
  have len: "length (record_slot h (new_record h kind p) p) = recb h"
    using assms(1) by (intro length_record_slot) (simp_all add: append_passes_def)
  show "slot_at h (put_slot kind p h f) (wseq h) = record_slot h (new_record h kind p) p"
    unfolding put_slot_def by (rule slot_at_written [OF len])
  show "slot_at h (put_slot kind p h f) n = slot_at h f n" if "rseq h \<le> n" "n < wseq h"
    unfolding put_slot_def using that assms len
    by (intro slot_at_other) (auto simp: append_passes_def header_ok_def)
  show "length f \<le> length (put_slot kind p h f)" by (simp add: put_slot_def)
qed

lemma race_inv_step:
  assumes inv: "race_inv kind options p s f t" and step: "race_step kind options p s t t'"
    and pass: "append_passes kind options p (file_header f)"
  shows "race_inv kind options p s f t'"
proof -
  let ?h = "file_header f"
  have geo: "40 \<le> hdrb ?h" "0 < capr ?h"
    using pass by (auto simp: append_passes_def header_ok_def)
  note defs = race_inv_def race_header_def race_copies_def race_slots_def Let_def
  show ?thesis
    using step
  proof cases
    case w_read
    with inv show ?thesis by (auto simp: defs split: reader_pc.splits)
  next
    case (w_slot h)
    with inv have h: "h = ?h \<or> h = acked s ?h \<and> sh_reader t = RDone" by (auto simp: defs)
    then have put: "put_slot kind p h (sh_file t) = put_slot kind p ?h (sh_file t)" by auto
    have size: "residentQueueFileSize ?h \<le> length (sh_file t)" using inv by (simp add: defs)
    show ?thesis
      using inv h w_slot put_slot_header [OF geo size] put_slot_slots [OF pass size] size put
      by (auto simp: defs split: reader_pc.splits intro: order_trans)
  next
    case (w_header h)
    with inv have h: "h = ?h \<or> h = acked s ?h \<and> sh_reader t = RDone" by (auto simp: defs)
    show ?thesis
      using inv h w_header geo
      by (auto simp: defs slot_at_header_write split: reader_pc.splits)
  next
    case r_read
    with inv show ?thesis by (auto simp: defs split: writer_pc.splits)
  next
    case (r_header h)
    with inv have h: "h = ?h \<or> h = bump ?h \<and> sh_writer t = WDone" by (auto simp: defs)
    show ?thesis
      using inv h r_header geo
      by (auto simp: defs slot_at_header_write split: writer_pc.splits)
  qed
qed

lemma race_inv_start: "race_inv kind options p s f (race_start f)" if "queue_ok k options f"
  using that by (simp add: race_inv_def race_header_def race_copies_def race_slots_def
      race_start_def queue_ok_def Let_def)

lemma race_inv_reach:
  assumes "race kind options p s (race_start f) t"
    and "queue_ok k options f" and "append_passes kind options p (file_header f)"
  shows "race_inv kind options p s f t"
  using assms(1) unfolding race_def
proof (induction rule: rtranclp_induct)
  case base
  show ?case using assms(2) by (rule race_inv_start)
next
  case (step t t')
  show ?case using step.IH step.hyps(2) assms(3) by (rule race_inv_step)
qed

lemma roomy_passes:
  "queue_ok (kind_code kind) options f \<Longrightarrow> roomy p f \<Longrightarrow> append_passes kind options p (file_header f)"
  by (auto simp: queue_ok_def roomy_def append_passes_def Let_def)

lemma race_contents:
  assumes inv: "race_inv kind options p s f t" and "sh_writer t = WDone"
    and pass: "append_passes kind options p (file_header f)"
    and s: "unat s = rseq (file_header f) + n" "rseq (file_header f) + n \<le> wseq (file_header f)"
  shows "file_header (sh_file t) = bump (file_header f) \<Longrightarrow>
      contents_of (sh_file t) = contents_of f @ [p]"
    and "file_header (sh_file t) = acked s (file_header f) \<Longrightarrow>
      contents_of (sh_file t) = drop n (contents_of f)"
    and "file_header (sh_file t) = bump (acked s (file_header f)) \<Longrightarrow>
      contents_of (sh_file t) = drop n (contents_of f) @ [p]"
proof -
  let ?h = "file_header f" and ?g = "sh_file t"
  have w: "wseq (bump ?h) = wseq ?h + 1" "rseq ?h \<le> wseq ?h"
    using pass bump_wseq [of ?h] by (auto simp: append_passes_def header_ok_def)
  have rec: "16 \<le> recb ?h" "length p \<le> recb ?h - 16" using pass by (auto simp: append_passes_def)
  have old: "slot_at ?h ?g i = slot_at ?h f i" if "rseq ?h \<le> i" "i < wseq ?h" for i
    using inv that by (simp add: race_inv_def race_slots_def)
  have new: "payload_of (slot_at ?h ?g (wseq ?h)) = p"
    using inv assms(2) new_record_slot [OF rec] by (simp add: race_inv_def race_slots_def)
  have upto: "map (\<lambda>i. payload_of (slot_at ?h ?g i)) [rseq ?h + m..<wseq ?h] = drop m (contents_of f)"
    for m
    using old by (simp add: contents_of_def drop_map Let_def add.commute)
  show "contents_of ?g = contents_of f @ [p]" if "file_header ?g = bump ?h"
    using upto [of 0] w new by (simp add: contents_of_def [of ?g] that Let_def)
  show "contents_of ?g = drop n (contents_of f)" if "file_header ?g = acked s ?h"
    using upto [of n] by (simp add: contents_of_def [of ?g] that s(1) Let_def)
  show "contents_of ?g = drop n (contents_of f) @ [p]" if "file_header ?g = bump (acked s ?h)"
    using upto [of n] w new s(2) by (simp add: contents_of_def [of ?g] that s(1) Let_def)
qed

section \<open>The three schedules\<close>

lemma race_steps:
  "race kind options p s t t"
  "race_step kind options p s t t' \<Longrightarrow> race kind options p s t' t'' \<Longrightarrow> race kind options p s t t''"
  by (auto simp: race_def intro: converse_rtranclp_into_rtranclp)

definition race_setup :: "queue_kind \<Rightarrow> bridge_options \<Rightarrow> u8 list \<Rightarrow> u64 \<Rightarrow> u8 list \<Rightarrow> bool" where
  "race_setup kind options p s f \<longleftrightarrow>
     append_passes kind options p (file_header f) \<and> residentQueueFileSize (file_header f) \<le> length f
   \<and> qh_readSequence (file_header f) \<le> s \<and> s \<le> qh_writeSequence (file_header f)"

definition both_done :: "u8 list \<Rightarrow> shared" where
  "both_done f = \<lparr>sh_file = f, sh_writer = WDone, sh_reader = RDone\<rparr>"

lemma race_setup_facts:
  assumes "race_setup kind options p s f"
  shows "append_passes kind options p (file_header f)"
    and "ack_passes kind options s (file_header f)"
    and "ack_passes kind options s (bump (file_header f))"
    and "file_header (put_slot kind p (file_header f) f) = file_header f"
proof -
  let ?h = "file_header f"
  show pass: "append_passes kind options p ?h" using assms by (simp add: race_setup_def)
  then have geo: "40 \<le> hdrb ?h" "0 < capr ?h" by (auto simp: append_passes_def header_ok_def)
  show "ack_passes kind options s ?h"
    using assms by (auto simp: race_setup_def ack_passes_def append_passes_def)
  show "ack_passes kind options s (bump ?h)"
    using assms bump_wseq [of ?h]
    by (auto simp: race_setup_def ack_passes_def append_passes_def header_ok_def word_le_nat_alt)
  show "file_header (put_slot kind p ?h f) = ?h"
    using put_slot_header [OF geo, of f] assms by (simp add: race_setup_def)
qed

lemma append_then_ack:
  assumes "race_setup kind options p s f"
  shows "\<exists>g. race kind options p s (race_start f) (both_done g)
    \<and> file_header g = acked s (bump (file_header f))"
proof -
  let ?h = "file_header f"
  let ?f1 = "write_at 0 (queue_header_bytes (bump ?h)) (put_slot kind p ?h f)"
  let ?g = "write_at 0 (queue_header_bytes (acked s (bump ?h))) ?f1"
  have "race kind options p s (race_start f) (both_done ?g)"
    unfolding race_start_def both_done_def
    apply (rule race_steps(2) [OF race_step.w_read])
      apply (simp_all add: race_setup_facts [OF assms])
    apply (rule race_steps(2) [OF race_step.w_slot], simp)
    apply (rule race_steps(2) [OF race_step.w_header], simp)
    apply (rule race_steps(2) [OF race_step.r_read])
      apply (simp_all add: race_setup_facts [OF assms])
    apply (rule race_steps(2) [OF race_step.r_header], simp)
    apply (simp add: race_steps(1))
    done
  then show ?thesis by (intro exI [of _ ?g]) simp
qed

lemma append_inside_ack:
  assumes "race_setup kind options p s f"
  shows "\<exists>g. race kind options p s (race_start f) (both_done g) \<and> file_header g = acked s (file_header f)"
proof -
  let ?h = "file_header f"
  let ?f1 = "write_at 0 (queue_header_bytes (bump ?h)) (put_slot kind p ?h f)"
  let ?g = "write_at 0 (queue_header_bytes (acked s ?h)) ?f1"
  have "race kind options p s (race_start f) (both_done ?g)"
    unfolding race_start_def both_done_def
    apply (rule race_steps(2) [OF race_step.r_read])
      apply (simp_all add: race_setup_facts [OF assms])
    apply (rule race_steps(2) [OF race_step.w_read])
      apply (simp_all add: race_setup_facts [OF assms])
    apply (rule race_steps(2) [OF race_step.w_slot], simp)
    apply (rule race_steps(2) [OF race_step.w_header], simp)
    apply (rule race_steps(2) [OF race_step.r_header], simp)
    apply (simp add: race_steps(1))
    done
  then show ?thesis by (intro exI [of _ ?g]) simp
qed

lemma ack_inside_append:
  assumes "race_setup kind options p s f"
  shows "\<exists>g. race kind options p s (race_start f) (both_done g) \<and> file_header g = bump (file_header f)"
proof -
  let ?h = "file_header f"
  let ?g = "write_at 0 (queue_header_bytes (bump ?h))
    (put_slot kind p ?h (write_at 0 (queue_header_bytes (acked s ?h)) f))"
  have "race kind options p s (race_start f) (both_done ?g)"
    unfolding race_start_def both_done_def
    apply (rule race_steps(2) [OF race_step.w_read])
      apply (simp_all add: race_setup_facts [OF assms])
    apply (rule race_steps(2) [OF race_step.r_read])
      apply (simp_all add: race_setup_facts [OF assms])
    apply (rule race_steps(2) [OF race_step.r_header], simp)
    apply (rule race_steps(2) [OF race_step.w_slot], simp)
    apply (rule race_steps(2) [OF race_step.w_header], simp)
    apply (simp add: race_steps(1))
    done
  then show ?thesis by (intro exI [of _ ?g]) simp
qed

lemma race_setup_of:
  assumes "queue_ok (kind_code kind) options f" "roomy p f" "n \<le> length (contents_of f)"
    and "s = qh_readSequence (file_header f) + word_of_nat n"
  shows "race_setup kind options p s f"
    and "unat s = rseq (file_header f) + n" and "rseq (file_header f) + n \<le> wseq (file_header f)"
proof -
  let ?h = "file_header f"
  have le: "rseq ?h \<le> wseq ?h" using assms(1) by (simp add: queue_ok_def header_ok_def Let_def)
  show n: "rseq ?h + n \<le> wseq ?h" using assms(3) le by (simp add: contents_length)
  then have "rseq ?h + n < 2 ^ 64" using unat_bound [of "qh_writeSequence ?h"] by simp
  then show s: "unat s = rseq ?h + n" by (simp add: assms(4) unat_word_ariths unat_word_of_nat)
  show "race_setup kind options p s f"
    using roomy_passes [OF assms(1,2)] assms(1) s n
    by (simp add: race_setup_def queue_ok_def word_le_nat_alt Let_def)
qed

definition race_results ::
  "queue_kind \<Rightarrow> bridge_options \<Rightarrow> u8 list \<Rightarrow> u64 \<Rightarrow> u8 list \<Rightarrow> u8 list list set" where
  "race_results kind options p s f =
     {contents_of g |g. race kind options p s (race_start f) (both_done g)}"

lemma race_results_eq:
  assumes "queue_ok (kind_code kind) options f" "roomy p f" "n \<le> length (contents_of f)"
    and "s = qh_readSequence (file_header f) + word_of_nat n"
  shows "race_results kind options p s f =
    {drop n (contents_of f) @ [p], drop n (contents_of f), contents_of f @ [p]}"
proof -
  note su = race_setup_of [OF assms]
  note pass = race_setup_facts(1) [OF su(1)]
  have cont: "file_header g = bump (file_header f) \<Longrightarrow> contents_of g = contents_of f @ [p]"
      "file_header g = acked s (file_header f) \<Longrightarrow> contents_of g = drop n (contents_of f)"
      "file_header g = acked s (bump (file_header f)) \<Longrightarrow>
         contents_of g = drop n (contents_of f) @ [p]"
      "file_header g \<in> {bump (file_header f), acked s (file_header f), acked s (bump (file_header f))}"
    if "race kind options p s (race_start f) (both_done g)" for g
  proof -
    have inv: "race_inv kind options p s f (both_done g)"
      using that assms(1) pass by (rule race_inv_reach)
    show "file_header g = bump (file_header f) \<Longrightarrow> contents_of g = contents_of f @ [p]"
      "file_header g = acked s (file_header f) \<Longrightarrow> contents_of g = drop n (contents_of f)"
      "file_header g = acked s (bump (file_header f)) \<Longrightarrow>
         contents_of g = drop n (contents_of f) @ [p]"
      using race_contents [OF inv _ pass su(2,3)] by (simp_all add: both_done_def)
    show "file_header g \<in> {bump (file_header f), acked s (file_header f), acked s (bump (file_header f))}"
      using inv by (auto simp: race_inv_def race_header_def both_done_def)
  qed
  have mem: "contents_of g \<in> race_results kind options p s f"
    if "race kind options p s (race_start f) (both_done g)" for g
    using that by (auto simp: race_results_def)
  obtain g1 where "race kind options p s (race_start f) (both_done g1)"
      "file_header g1 = bump (file_header f)"
    using ack_inside_append [OF su(1)] by blast
  then have "contents_of f @ [p] \<in> race_results kind options p s f"
    using mem [of g1] cont(1) [of g1] by simp
  moreover obtain g2 where "race kind options p s (race_start f) (both_done g2)"
      "file_header g2 = acked s (file_header f)"
    using append_inside_ack [OF su(1)] by blast
  then have "drop n (contents_of f) \<in> race_results kind options p s f"
    using mem [of g2] cont(2) [of g2] by simp
  moreover obtain g3 where "race kind options p s (race_start f) (both_done g3)"
      "file_header g3 = acked s (bump (file_header f))"
    using append_then_ack [OF su(1)] by blast
  then have "drop n (contents_of f) @ [p] \<in> race_results kind options p s f"
    using mem [of g3] cont(3) [of g3] by simp
  moreover have "c \<in> {drop n (contents_of f) @ [p], drop n (contents_of f), contents_of f @ [p]}"
    if c: "c \<in> race_results kind options p s f" for c
  proof -
    obtain g where g: "c = contents_of g" "race kind options p s (race_start f) (both_done g)"
      using c by (auto simp: race_results_def)
    show ?thesis using cont [OF g(2)] g(1) by blast
  qed
  ultimately show ?thesis by blast
qed

section \<open>Samples\<close>

definition plain_options :: bridge_options where
  "plain_options = \<lparr>bo_minimumHeartbeat = 2, bo_maximumReadyFileAgeMs = 30000\<rparr>"

definition sample_header :: queue_header where
  "sample_header = makeRuntimeResidentQueueHeader QCommand 24 2 5"

definition sample_file :: "u8 list" where
  "sample_file = the (snd (snd (ensureRuntimeResidentQueueFile ''q'' sample_header plain_options None)))"

lemma sample_header_ok:
  "header_ok (kind_code QCommand) plain_options sample_header" "16 \<le> recb sample_header"
  "qh_kind sample_header = kind_code QCommand"
  "qh_readSequence sample_header = qh_writeSequence sample_header"
  by (simp_all add: header_ok_def sample_header_def plain_options_def
      makeRuntimeResidentQueueHeader_def)

lemma sample_file_ok:
  "queue_ok (kind_code QCommand) plain_options sample_file" "contents_of sample_file = []"
  "file_header sample_file = sample_header"
proof -
  have nc: "\<not> compatible sample_header plain_options None" by (simp add: compatible_def)
  have "sample_file = write_at 0 (queue_header_bytes (ensured_header sample_header plain_options None))
      (resize_file (residentQueueFileSize (ensured_header sample_header plain_options None)) [])"
    using sample_header_ok by (simp add: sample_file_def ensure_eq Let_def)
  moreover note ensure_result [of sample_header plain_options None] sample_header_ok nc
  ultimately show "queue_ok (kind_code QCommand) plain_options sample_file"
    "contents_of sample_file = []"
    by (simp_all add: ensured_header_def)
  show "file_header sample_file = sample_header"
    using sample_header_ok nc
    by (simp add: sample_file_def ensure_eq Let_def ensured_header_def del: kind_code.simps)
qed

section \<open>Properties\<close>

text \<open>
  C3. The resident queue delivers: from the file \<open>ensure\<close> leaves behind, after any sequence of
  appends and of reads each acknowledged up to what was read, the payloads consumed followed by
  those still in the file are those the file held before (none, unless an existing queue of the
  same geometry was kept) and then the appended ones, in order, and the file stays well-formed.
\<close>

theorem resident_queue_delivers:
  assumes "header_ok (kind_code kind) options d" and "16 \<le> recb d" and "qh_kind d = kind_code kind"
    and "qh_readSequence d = qh_writeSequence d"
    and "compatible d options old \<longrightarrow>
      queue_ok (kind_code kind) (options\<lparr>bo_minimumHeartbeat := 0\<rparr>) (the old)"
  shows "\<exists>f. snd (snd (ensureRuntimeResidentQueueFile path d options old)) = Some f
    \<and> tr_consumed (rq_run kind options f ops) @ contents_of (tr_state (rq_run kind options f ops))
      = (if compatible d options old then contents_of (the old) else [])
        @ tr_accepted (rq_run kind options f ops)
    \<and> queue_ok (kind_code kind) options (tr_state (rq_run kind options f ops))"
proof -
  let ?f = "write_at 0 (queue_header_bytes (ensured_header d options old))
    (resize_file (residentQueueFileSize (ensured_header d options old))
      (case old of None \<Rightarrow> [] | Some f \<Rightarrow> f))"
  have "snd (snd (ensureRuntimeResidentQueueFile path d options old)) = Some ?f"
    using assms(1,3) by (simp add: ensure_eq Let_def)
  moreover have ok: "queue_ok (kind_code kind) options ?f"
    and c: "contents_of ?f = (if compatible d options old then contents_of (the old) else [])"
    using ensure_result [of d options old] assms by simp_all
  ultimately show ?thesis
    using rq.run_conserves [OF ok, of ops] rq.run_inv [OF ok, of ops]
    by (intro exI [of _ ?f]) (simp add: rq_run_def)
qed

theorem resident_queue_delivers_witness:
  "\<exists>f. snd (snd (ensureRuntimeResidentQueueFile ''q'' sample_header plain_options None)) = Some f
    \<and> tr_consumed (rq_run QCommand plain_options f [Put [1, 2], Put [3], Put [4], Consume 1])
        @ contents_of (tr_state
            (rq_run QCommand plain_options f [Put [1, 2], Put [3], Put [4], Consume 1]))
      = (if compatible sample_header plain_options None then contents_of (the None) else [])
        @ tr_accepted (rq_run QCommand plain_options f [Put [1, 2], Put [3], Put [4], Consume 1])
    \<and> queue_ok (kind_code QCommand) plain_options
        (tr_state (rq_run QCommand plain_options f [Put [1, 2], Put [3], Put [4], Consume 1]))"
  by (rule resident_queue_delivers)
    (simp_all only: sample_header_ok, simp add: compatible_def)

text \<open>
  Append is exact: on a well-formed file it succeeds exactly when the payload fits a record, the
  ring has a free slot and the 64-bit sequence is not exhausted; it then reports the sequence
  number and adds the payload at the end; otherwise the file is untouched. The ring never holds
  more than its capacity.
\<close>

theorem resident_append_exact:
  assumes "queue_ok (kind_code kind) options f"
  shows "let r = appendRuntimeResidentQueueRecord path kind payload options (Some f); h = file_header f in
      ap_appended (fst r) = (length payload \<le> recb h - 16 \<and> length (contents_of f) < capr h
        \<and> wseq h + 1 < 2 ^ 64)
    \<and> (if ap_appended (fst r)
       then ap_sequence (fst r) = qh_writeSequence h
         \<and> contents_of (the (snd r)) = contents_of f @ [payload]
         \<and> queue_ok (kind_code kind) options (the (snd r))
       else snd r = Some f)
    \<and> length (contents_of f) \<le> capr h"
proof -
  note app = append_appends [OF assms, where path = path and payload = payload]
  have "roomy payload f \<longleftrightarrow> length payload \<le> recb (file_header f) - 16
      \<and> length (contents_of f) < capr (file_header f) \<and> wseq (file_header f) + 1 < 2 ^ 64"
    by (simp add: roomy_def contents_length Let_def)
  moreover have "length (contents_of f) \<le> capr (file_header f)"
    using assms by (simp add: contents_length queue_ok_def header_ok_def Let_def)
  ultimately show ?thesis
    using app append_preserves [OF assms _ refl, of payload]
    by (cases "roomy payload f") (simp_all add: Let_def)
qed

theorem resident_append_exact_witness:
  "let r = appendRuntimeResidentQueueRecord ''q'' QCommand [1, 2, 3] plain_options (Some sample_file);
       h = file_header sample_file in
      ap_appended (fst r) = (length [1 :: u8, 2, 3] \<le> recb h - 16
        \<and> length (contents_of sample_file) < capr h \<and> wseq h + 1 < 2 ^ 64)
    \<and> (if ap_appended (fst r)
       then ap_sequence (fst r) = qh_writeSequence h
         \<and> contents_of (the (snd r)) = contents_of sample_file @ [[1, 2, 3]]
         \<and> queue_ok (kind_code QCommand) plain_options (the (snd r))
       else snd r = Some sample_file)
    \<and> length (contents_of sample_file) \<le> capr h"
  by (rule resident_append_exact) (rule sample_file_ok)

text \<open>
  Reading is exact: on a well-formed file it succeeds and returns the first \<open>maxRecords\<close>
  pending payloads in order, and acknowledging the sequence it reached leaves exactly the rest.
\<close>

theorem resident_read_exact:
  assumes "queue_ok (kind_code kind) options f"
  shows "\<exists>r. readRuntimeResidentQueueRecords path kind maxRecords options (Some f) = ReadDone r
    \<and> rd_read r \<and> map qr_payload (rd_records r) = take maxRecords (contents_of f)
    \<and> (\<exists>g. snd (acknowledgeRuntimeResidentQueueRecords path kind
            (qh_readSequence (rd_header r) + word_of_nat (length (rd_records r))) options (Some f))
          = Some g
        \<and> contents_of g = drop maxRecords (contents_of f) \<and> queue_ok (kind_code kind) options g)"
proof -
  obtain rs where rs: "readRuntimeResidentQueueRecords path kind maxRecords options (Some f) =
      ReadDone \<lparr>rd_read = True, rd_header = file_header f, rd_records = rs, rd_reason = [],
        rd_errors = []\<rparr>" "map qr_payload rs = take maxRecords (contents_of f)"
    using read_ok [OF assms] by blast
  then have len: "length rs = min (length (contents_of f)) maxRecords"
    by (metis length_map length_take)
  then have n: "length rs \<le> length (contents_of f)" by simp
  have "drop (length rs) (contents_of f) = drop maxRecords (contents_of f)"
    by (simp add: len min_def)
  with rs ack_ok(1) [OF assms n, where path = path] ack_ok(2,3) [OF assms n] show ?thesis by simp
qed

theorem resident_read_exact_witness:
  "\<exists>r. readRuntimeResidentQueueRecords ''q'' QCommand 8 plain_options (Some sample_file) = ReadDone r
    \<and> rd_read r \<and> map qr_payload (rd_records r) = take 8 (contents_of sample_file)
    \<and> (\<exists>g. snd (acknowledgeRuntimeResidentQueueRecords ''q'' QCommand
            (qh_readSequence (rd_header r) + word_of_nat (length (rd_records r))) plain_options
            (Some sample_file)) = Some g
        \<and> contents_of g = drop 8 (contents_of sample_file)
        \<and> queue_ok (kind_code QCommand) plain_options g)"
  by (rule resident_read_exact) (rule sample_file_ok)

text \<open>
  Without a lock, one append racing one acknowledge has exactly three outcomes. The file may
  end as after running them one after the other, but also with the acknowledged records still
  pending, or without the record whose append reported success: the header written last takes
  the other process's sequence back.
\<close>

theorem unlocked_race_outcomes:
  assumes "queue_ok (kind_code kind) options f" and "roomy p f" and "n \<le> length (contents_of f)"
  shows "race_results kind options p (qh_readSequence (file_header f) + word_of_nat n) f =
    {drop n (contents_of f) @ [p], drop n (contents_of f), contents_of f @ [p]}"
  using assms by (intro race_results_eq) simp_all

theorem unlocked_race_outcomes_witness:
  "race_results QCommand plain_options [7] (qh_readSequence (file_header sample_file) + word_of_nat 0)
     sample_file
   = {drop 0 (contents_of sample_file) @ [[7]], drop 0 (contents_of sample_file),
      contents_of sample_file @ [[7]]}"
  by (rule unlocked_race_outcomes)
    (simp_all add: sample_file_ok roomy_def del: kind_code.simps,
     simp add: sample_header_def makeRuntimeResidentQueueHeader_def)

text \<open>
  A queue whose records are smaller than a record header passes the header check, and reading
  it copies a 16-byte record header out of a shorter slot buffer: any pending record is enough.
\<close>

theorem short_records_overread:
  assumes "header_ok (kind_code kind) options (file_header f)"
    and "recb (file_header f) < 16" and "rseq (file_header f) < wseq (file_header f)"
    and "residentQueueFileSize (file_header f) \<le> length f" and "0 < maxRecords"
  shows "qv_valid (validateRuntimeResidentQueueFile path kind options (Some f))
    \<and> readRuntimeResidentQueueRecords path kind maxRecords options (Some f) = SlotOverread"
proof -
  let ?h = "file_header f"
  have "40 \<le> length f"
    using assms(1,4) by (simp add: header_ok_def residentQueueFileSize_def)
  then have hdr: "readResidentQueueHeaderFile path (Some f) = Inr ?h"
    by (simp add: readResidentQueueHeaderFile_def file_header_def)
  have cap: "0 < capr ?h" using assms(1) by (simp add: header_ok_def)
  have ne: "qh_readSequence ?h \<noteq> qh_writeSequence ?h" using assms(3) by auto
  have "0 < unat (qh_writeSequence ?h - qh_readSequence ?h)"
    using assms(3) by (simp add: distance_unat word_le_nat_alt)
  then obtain m where m: "min (unat (qh_writeSequence ?h - qh_readSequence ?h)) maxRecords = Suc m"
    using assms(5) by (metis gr0_conv_Suc min_less_iff_conj)
  have len: "length (bytes_at f (residentQueueRecordOffset ?h (qh_readSequence ?h)) (recb ?h)) = recb ?h"
    using slot_fits [OF cap, of "rseq ?h"] assms(4) record_offset [OF cap]
    by (simp add: bytes_at_def)
  have "read_records ?h kind f (Suc m) (qh_readSequence ?h) [] = SlotOverread"
    using len assms(2) by (simp add: Let_def)
  then show ?thesis
    using m ne assms(1,5)
    by (simp add: readRuntimeResidentQueueRecords_def validateRuntimeResidentQueueFile_def hdr
        header_valid_iff Let_def del: read_records.simps)
qed

definition short_header :: queue_header where
  "short_header = (makeRuntimeResidentQueueHeader QOverlay 4 2 9)\<lparr>qh_writeSequence := 1\<rparr>"

definition short_file :: "u8 list" where
  "short_file = queue_header_bytes short_header @ replicate 8 0"

theorem short_records_overread_witness:
  "qv_valid (validateRuntimeResidentQueueFile ''q'' QOverlay plain_options (Some short_file))
    \<and> readRuntimeResidentQueueRecords ''q'' QOverlay 1 plain_options (Some short_file) = SlotOverread"
proof (rule short_records_overread)
  have h: "file_header short_file = short_header" by (simp add: file_header_def short_file_def)
  show "header_ok (kind_code QOverlay) plain_options (file_header short_file)"
    unfolding h
    by (simp add: header_ok_def short_header_def plain_options_def makeRuntimeResidentQueueHeader_def)
  show "residentQueueFileSize (file_header short_file) \<le> length short_file"
    unfolding h by (simp add: residentQueueFileSize_def short_header_def short_file_def
        makeRuntimeResidentQueueHeader_def)
qed (simp_all add: file_header_def short_file_def short_header_def makeRuntimeResidentQueueHeader_def)

text \<open>
  Headers survive the file: a queue header written to any file reads back field by field, with
  the rest of the file untouched, and a record header likewise.
\<close>

lemma headers_round_trip:
  "readResidentQueueHeaderFile path (writeResidentQueueHeaderFile h old) = Inr h
   \<and> drop 40 (the (writeResidentQueueHeaderFile h (Some f))) = drop 40 f
   \<and> record_header_of (record_header_bytes r @ rest) = r"
  by (simp add: readResidentQueueHeaderFile_def writeResidentQueueHeaderFile_def write_at_def)

end
