(* ===== verification/Text_Lines.thy ===== *)
theory Text_Lines
  imports Prelude
begin

text \<open>
  Texts as lines and separated fields: \<open>std::getline\<close> with the default and with a given
  delimiter, splitting at every separator and at the first, \<open>std::strtol\<close> with base 10, and the
  \<open><<\<close> of integers and of whole lines. The round trips proved here are what the components'
  readers and writers are composed of.
\<close>

section \<open>Lines\<close>

fun getlines :: "string \<Rightarrow> string list" where
  "getlines [] = []"
| "getlines (c # cs) =
     (if c = CHR 0x0A then [] # getlines cs
      else case getlines cs of [] \<Rightarrow> [[c]] | l # ls \<Rightarrow> (c # l) # ls)"

definition text_of :: "string list \<Rightarrow> string" where
  "text_of ls = concat (map (\<lambda>l. l @ [CHR 0x0A]) ls)"

lemma text_of_simps [simp]:
  "text_of [] = []"
  "text_of (l # ls) = l @ CHR 0x0A # text_of ls"
  "text_of (ls @ ms) = text_of ls @ text_of ms"
  by (simp_all add: text_of_def)

lemma getlines_newline [simp]:
  "CHR 0x0A \<notin> set l \<Longrightarrow> getlines (l @ CHR 0x0A # rest) = l # getlines rest"
  by (induction l) auto

lemma getlines_text_of [simp]:
  "list_all (\<lambda>l. CHR 0x0A \<notin> set l) ls \<Longrightarrow> getlines (text_of ls) = ls"
  by (induction ls) auto

lemma getlines_text_of_append:
  "list_all (\<lambda>l. CHR 0x0A \<notin> set l) ls \<Longrightarrow> getlines (text_of ls @ rest) = ls @ getlines rest"
  by (induction ls) auto

lemma getlines_no_newline: "l \<in> set (getlines s) \<Longrightarrow> CHR 0x0A \<notin> set l"
proof (induction s arbitrary: l rule: getlines.induct)
  case 1
  then show ?case by simp
next
  case (2 c cs)
  then show ?case by (fastforce split: if_splits list.splits)
qed

section \<open>Separated fields\<close>

text \<open>\<open>std::getline(input, part, delimiter)\<close> until the stream fails.\<close>

fun getlines_by :: "char \<Rightarrow> string \<Rightarrow> string list" where
  "getlines_by d [] = []"
| "getlines_by d (c # cs) =
     (if c = d then [] # getlines_by d cs
      else case getlines_by d cs of [] \<Rightarrow> [[c]] | l # ls \<Rightarrow> (c # l) # ls)"

fun split_on :: "char \<Rightarrow> string \<Rightarrow> string list" where
  "split_on d [] = [[]]"
| "split_on d (c # cs) =
     (if c = d then [] # split_on d cs
      else case split_on d cs of [] \<Rightarrow> [[c]] | f # fs \<Rightarrow> (c # f) # fs)"

fun join_on :: "char \<Rightarrow> string list \<Rightarrow> string" where
  "join_on d [] = []"
| "join_on d [f] = f"
| "join_on d (f # g # fs) = f @ d # join_on d (g # fs)"

lemma split_on_not_Nil [simp]: "split_on d s \<noteq> []"
  by (induction s) (auto split: list.split)

lemma split_on_atom [simp]: "d \<notin> set f \<Longrightarrow> split_on d f = [f]"
  by (induction f) auto

lemma split_on_sep [simp]: "d \<notin> set f \<Longrightarrow> split_on d (f @ d # rest) = f # split_on d rest"
  by (induction f) auto

lemma split_on_join:
  "fs \<noteq> [] \<Longrightarrow> list_all (\<lambda>f. d \<notin> set f) fs \<Longrightarrow> split_on d (join_on d fs) = fs"
  by (induction d fs rule: join_on.induct) auto

lemma getlines_by_split_on:
  "getlines_by d s @ (if s = [] \<or> last s = d then [[]] else []) = split_on d s"
proof (induction s)
  case Nil
  then show ?case by simp
next
  case (Cons c s)
  show ?case
  proof (cases "s = []")
    case True
    then show ?thesis by simp
  next
    case False
    then have "getlines_by d s \<noteq> []" by (cases s) (auto split: list.split)
    then obtain l ls where g: "getlines_by d s = l # ls" by (cases "getlines_by d s") auto
    then have "split_on d s = l # ls @ (if last s = d then [[]] else [])"
      using Cons.IH False by (simp del: split_on.simps getlines_by.simps)
    with g False show ?thesis by auto
  qed
qed

text \<open>The text before and after the first separator (\<open>find\<close> and two \<open>substr\<close>).\<close>

definition split_at :: "char \<Rightarrow> string \<Rightarrow> (string \<times> string) option" where
  "split_at c s =
     (if c \<in> set s then Some (takeWhile (\<lambda>x. x \<noteq> c) s, tl (dropWhile (\<lambda>x. x \<noteq> c) s)) else None)"

lemma split_at_sep [simp]: "c \<notin> set k \<Longrightarrow> split_at c (k @ c # v) = Some (k, v)"
  by (induction k) (auto simp: split_at_def)

lemma split_at_None_iff: "split_at c s = None \<longleftrightarrow> c \<notin> set s"
  by (simp add: split_at_def)

lemma split_at_Some: "split_at c s = Some (k, v) \<Longrightarrow> s = k @ c # v \<and> c \<notin> set k"
proof -
  assume a: "split_at c s = Some (k, v)"
  then have c: "c \<in> set s" by (auto simp: split_at_def split: if_splits)
  from split_list_first [OF c] obtain ys zs where "s = ys @ c # zs" "c \<notin> set ys" by blast
  with a show ?thesis by simp
qed

section \<open>Integers\<close>

text \<open>
  The scan of \<open>std::strtol\<close> with base 10: sign, magnitude and the characters consumed; \<open>None\<close>
  where there is no digit.
\<close>

definition scan_decimal :: "string \<Rightarrow> (bool \<times> nat \<times> nat) option" where
  "scan_decimal s =
     (let blanks = length (takeWhile is_space s);
          (neg, sgn, body) = scan_sign (dropWhile is_space s);
          ds = takeWhile (is_base_digit 10) body
      in if ds = [] then None
         else Some (neg, digits_value 10 0 ds, blanks + sgn + length ds))"

lemma scan_decimal_nat [simp]: "scan_decimal (nat_to_dec n) = Some (False, n, length (nat_to_dec n))"
proof -
  obtain c r where cr: "nat_to_dec n = c # r" by (cases "nat_to_dec n") auto
  have c: "dec_digit c" using nat_to_dec_digits [of c n] cr by simp
  have "scan_sign (dropWhile is_space (nat_to_dec n)) = (False, 0, nat_to_dec n)"
    using dec_digitD [OF c] by (simp add: scan_sign_def cr)
  moreover have "takeWhile is_space (nat_to_dec n) = []"
    using dec_digitD [OF c] by (simp add: cr)
  ultimately show ?thesis
    by (simp add: scan_decimal_def all_dec_digits digits_value_nat_to_dec)
qed

lemma scan_decimal_minus [simp]:
  "scan_decimal (CHR ''-'' # nat_to_dec n) = Some (True, n, Suc (length (nat_to_dec n)))"
  by (simp add: scan_decimal_def is_space_def scan_sign_def all_dec_digits digits_value_nat_to_dec)

lemma scan_decimal_int:
  "scan_decimal (int_to_dec i) = Some (i < 0, nat \<bar>i\<bar>, length (int_to_dec i))"
  by (simp add: int_to_dec_def)

lemma dec_digit_not:
  assumes "dec_digit c"
  shows "c \<noteq> CHR ''|''" "c \<noteq> CHR 0x00" "c \<noteq> CHR 0x09" "c \<noteq> CHR 0x0A" "c \<noteq> CHR 0x0D" "c \<noteq> CHR ''=''"
  using assms by (auto simp: dec_digit_def dest!: arg_cong [where f = "of_char :: char \<Rightarrow> nat"])

text \<open>The characters an integer prints with.\<close>

definition dec_char :: "char \<Rightarrow> bool" where
  "dec_char c \<longleftrightarrow> c = CHR ''-'' \<or> dec_digit c"

lemma dec_charD:
  assumes "dec_char c"
  shows "c \<noteq> CHR ''|''" "c \<noteq> CHR 0x00" "c \<noteq> CHR 0x09" "c \<noteq> CHR 0x0A" "c \<noteq> CHR 0x0D" "c \<noteq> CHR ''=''"
    "c \<noteq> CHR '',''"
  using assms dec_digit_not [of c] dec_digitD(5) [of c] by (auto simp: dec_char_def)

lemma int_to_dec_chars: "c \<in> set (int_to_dec i) \<Longrightarrow> dec_char c"
  by (auto simp: int_to_dec_def dec_char_def split: if_splits dest: nat_to_dec_digits)

lemma nat_to_dec_chars: "c \<in> set (nat_to_dec n) \<Longrightarrow> dec_char c"
  by (auto simp: dec_char_def dest: nat_to_dec_digits)

lemma int_to_dec_Nil [simp]: "int_to_dec i \<noteq> []"
  by (simp add: int_to_dec_def)

lemma int_to_dec_free [simp]:
  "CHR ''|'' \<notin> set (int_to_dec i)" "CHR 0x00 \<notin> set (int_to_dec i)"
  "CHR 0x09 \<notin> set (int_to_dec i)" "CHR 0x0A \<notin> set (int_to_dec i)"
  "CHR 0x0D \<notin> set (int_to_dec i)" "CHR ''='' \<notin> set (int_to_dec i)" "CHR '','' \<notin> set (int_to_dec i)"
  using int_to_dec_chars dec_charD by blast+

lemma nat_to_dec_free [simp]:
  "CHR ''|'' \<notin> set (nat_to_dec n)" "CHR 0x00 \<notin> set (nat_to_dec n)"
  "CHR 0x09 \<notin> set (nat_to_dec n)" "CHR 0x0A \<notin> set (nat_to_dec n)"
  "CHR 0x0D \<notin> set (nat_to_dec n)" "CHR ''='' \<notin> set (nat_to_dec n)" "CHR '','' \<notin> set (nat_to_dec n)"
  using nat_to_dec_chars dec_charD by blast+

text \<open>\<open>value.c_str()\<close>: the characters before the first NUL.\<close>

definition c_str :: "string \<Rightarrow> string" where
  "c_str s = takeWhile (\<lambda>c. c \<noteq> CHR 0x00) s"

lemma c_str_id [simp]: "CHR 0x00 \<notin> set s \<Longrightarrow> c_str s = s"
  by (auto simp: c_str_def takeWhile_eq_all_conv)

text \<open>A C++ \<open>int\<close>.\<close>

definition int32_range :: "int \<Rightarrow> bool" where
  "int32_range i \<longleftrightarrow> - 2147483648 \<le> i \<and> i \<le> 2147483647"

section \<open>Bytes\<close>

definition bytes_of_text :: "string \<Rightarrow> u8 list" where
  "bytes_of_text s = map (\<lambda>c. word_of_nat (of_char c)) s"

definition text_of_bytes :: "u8 list \<Rightarrow> string" where
  "text_of_bytes bs = map (\<lambda>b. char_of (unat b)) bs"

lemma of_char_lt: "(of_char c :: nat) < 256"
  using nat_of_char_less_256 by simp

lemma text_of_bytes_of_text [simp]: "text_of_bytes (bytes_of_text s) = s"
  using of_char_lt by (induction s) (simp_all add: bytes_of_text_def text_of_bytes_def
      unsigned_of_nat take_bit_nat_eq_self)

lemma length_bytes_of_text [simp]: "length (bytes_of_text s) = length s"
  by (simp add: bytes_of_text_def)

end
