(* ===== verification/Runtime_Manifest.thy ===== *)
theory Runtime_Manifest
  imports Contract_Properties Text_Lines
begin

text \<open>
  Runtime manifests (\<open>RuntimeManifest.h/.cpp\<close>): a line-oriented text whose directives declare what
  a runtime implements. \<open>processLine\<close> is one round of the reading loop, \<open>loadRuntimeManifest\<close> the
  whole loader; a stream is the string of its characters. Sizes are 64-bit.
\<close>

section \<open>Directives and results\<close>

record binding_directive =
  bd_name :: string
  bd_kind :: binding_kind
  bd_requirement :: binding_requirement
  bd_evidence :: string
  bd_line :: nat

record structure_directive =
  sd_name :: string
  sd_size :: nat
  sd_requirement :: binding_requirement
  sd_line :: nat

record field_directive =
  fd_structureName :: string
  fd_fieldName :: string
  fd_offset :: nat
  fd_size :: nat
  fd_line :: nat

record accumulator =
  ma_product :: product
  ma_version :: string
  ma_apiSurfaceMethods :: int
  ma_commandSurfaceEntries :: int
  ma_hasApiSurfaceMethods :: bool
  ma_hasCommandSurfaceEntries :: bool
  ma_capabilities :: "capability list"
  ma_unitCommands :: "string list"
  ma_gameActions :: "string list"
  ma_unitCommandEvidence :: "command_evidence list"
  ma_gameActionEvidence :: "command_evidence list"
  ma_bindings :: "binding_directive list"
  ma_structures :: "structure_directive list"
  ma_fields :: "field_directive list"
  ma_errors :: "string list" \<comment> \<open>\<open>result.errors\<close>\<close>

definition empty_accumulator :: accumulator where
  "empty_accumulator =
     \<lparr>ma_product = ProductUnknown, ma_version = [], ma_apiSurfaceMethods = 0,
      ma_commandSurfaceEntries = 0, ma_hasApiSurfaceMethods = False,
      ma_hasCommandSurfaceEntries = False, ma_capabilities = [], ma_unitCommands = [],
      ma_gameActions = [], ma_unitCommandEvidence = [], ma_gameActionEvidence = [],
      ma_bindings = [], ma_structures = [], ma_fields = [], ma_errors = []\<rparr>"

record manifest =
  m_contract :: runtime_contract
  m_capabilities :: "capability list"
  m_unitCommands :: "string list"
  m_gameActions :: "string list"
  m_unitCommandEvidence :: "command_evidence list"
  m_gameActionEvidence :: "command_evidence list"
  m_apiSurfaceMethods :: int
  m_commandSurfaceEntries :: int

record load_result =
  lr_loaded :: bool
  lr_manifest :: manifest
  lr_errors :: "string list"
  lr_warnings :: "string list"

section \<open>Text helpers\<close>

definition trim :: "string \<Rightarrow> string" where
  "trim value = rev (dropWhile is_space (rev (dropWhile is_space value)))"

abbreviation non_space :: "char \<Rightarrow> bool" where "non_space c \<equiv> \<not> is_space c"

function splitWhitespace :: "string \<Rightarrow> string list" where
  "splitWhitespace line =
     (let rest = dropWhile is_space line in
      if rest = [] then []
      else takeWhile non_space rest # splitWhitespace (dropWhile non_space rest))"
  by pat_completeness auto
termination
proof (relation "measure length")
  fix line rest :: string
  assume rest: "rest = dropWhile is_space line" "rest \<noteq> []"
  then have "non_space (hd rest)" using hd_dropWhile by blast
  then have "length (dropWhile non_space rest) < length rest"
    using rest(2) by (cases rest) (auto simp: length_dropWhile_le le_imp_less_Suc)
  moreover have "length rest \<le> length line" by (simp add: rest(1) length_dropWhile_le)
  ultimately show "(dropWhile non_space rest, line) \<in> measure length" by simp
qed simp

declare splitWhitespace.simps [simp del]

text \<open>\<open>std::getline\<close> until the stream ends: a final newline starts no further line.\<close>

definition message :: "string \<Rightarrow> nat \<Rightarrow> string \<Rightarrow> string" where
  "message sourceName line text =
     sourceName @ (if line > 0 then '':'' @ nat_to_dec line else []) @ '': '' @ text"

definition addError :: "string \<Rightarrow> nat \<Rightarrow> string \<Rightarrow> accumulator \<Rightarrow> accumulator" where
  "addError sourceName line text st =
     st\<lparr>ma_errors := ma_errors st @ [message sourceName line text]\<rparr>"

definition parseSize :: "string \<Rightarrow> nat option" where
  "parseSize value =
     (case stoull value of
        None \<Rightarrow> None
      | Some (number, consumed) \<Rightarrow> if consumed \<noteq> length value then None else Some number)"

definition parseInt :: "string \<Rightarrow> int option" where
  "parseInt value =
     (case parseSize value of
        None \<Rightarrow> None
      | Some n \<Rightarrow> if n > 2147483647 then None else Some (int n))"

section \<open>The directives\<close>

definition productDirective :: "string \<Rightarrow> nat \<Rightarrow> string list \<Rightarrow> accumulator \<Rightarrow> accumulator" where
  "productDirective src line tokens st =
     (if length tokens \<noteq> 2
      then addError src line ''product directive expects exactly one value'' st
      else let st = st\<lparr>ma_product := parseProduct (tokens ! 1)\<rparr> in
        if ma_product st = ProductUnknown
        then addError src line (''unknown product: '' @ tokens ! 1) st else st)"

definition versionDirective :: "string \<Rightarrow> nat \<Rightarrow> string list \<Rightarrow> accumulator \<Rightarrow> accumulator" where
  "versionDirective src line tokens st =
     (if length tokens \<noteq> 2
      then addError src line ''version directive expects exactly one value'' st
      else st\<lparr>ma_version := tokens ! 1\<rparr>)"

definition apiSurfaceDirective :: "string \<Rightarrow> nat \<Rightarrow> string list \<Rightarrow> accumulator \<Rightarrow> accumulator" where
  "apiSurfaceDirective src line tokens st =
     (case if length tokens \<noteq> 2 then None else parseInt (tokens ! 1) of
        None \<Rightarrow>
          addError src line ''api-surface-methods directive expects one non-negative integer'' st
      | Some n \<Rightarrow> st\<lparr>ma_apiSurfaceMethods := n, ma_hasApiSurfaceMethods := True\<rparr>)"

definition commandSurfaceDirective ::
  "string \<Rightarrow> nat \<Rightarrow> string list \<Rightarrow> accumulator \<Rightarrow> accumulator" where
  "commandSurfaceDirective src line tokens st =
     (case if length tokens \<noteq> 2 then None else parseInt (tokens ! 1) of
        None \<Rightarrow>
          addError src line ''command-surface-entries directive expects one non-negative integer'' st
      | Some n \<Rightarrow> st\<lparr>ma_commandSurfaceEntries := n, ma_hasCommandSurfaceEntries := True\<rparr>)"

definition capabilityDirective :: "string \<Rightarrow> nat \<Rightarrow> string list \<Rightarrow> accumulator \<Rightarrow> accumulator" where
  "capabilityDirective src line tokens st =
     (if length tokens \<noteq> 2
      then addError src line ''capability directive expects exactly one value'' st
      else case parseCapability (tokens ! 1) of
        None \<Rightarrow> addError src line (''unknown capability: '' @ tokens ! 1) st
      | Some c \<Rightarrow> st\<lparr>ma_capabilities := ma_capabilities st @ [c]\<rparr>)"

definition entryEvidence :: "string list \<Rightarrow> evidence_status \<Rightarrow> command_evidence" where
  "entryEvidence tokens status =
     \<lparr>ev_name = tokens ! 1, ev_status = status,
      ev_detail = (if length tokens = 4 then tokens ! 3 else [])\<rparr>"

definition unitCommandDirective :: "string \<Rightarrow> nat \<Rightarrow> string list \<Rightarrow> accumulator \<Rightarrow> accumulator" where
  "unitCommandDirective src line tokens st =
     (if length tokens < 3 \<or> length tokens > 4
      then addError src line
             ''unit-command directive expects: unit-command <name> <evidence-status> [detail]'' st
      else let st = st\<lparr>ma_unitCommands := ma_unitCommands st @ [tokens ! 1]\<rparr> in
        case parseRuntimeCommandEvidenceStatus (tokens ! 2) of
          None \<Rightarrow> addError src line (''unknown unit-command evidence status: '' @ tokens ! 2) st
        | Some status \<Rightarrow> st\<lparr>ma_unitCommandEvidence :=
            ma_unitCommandEvidence st @ [entryEvidence tokens status]\<rparr>)"

definition gameActionDirective :: "string \<Rightarrow> nat \<Rightarrow> string list \<Rightarrow> accumulator \<Rightarrow> accumulator" where
  "gameActionDirective src line tokens st =
     (if length tokens < 3 \<or> length tokens > 4
      then addError src line
             ''game-action directive expects: game-action <name> <evidence-status> [detail]'' st
      else let st = st\<lparr>ma_gameActions := ma_gameActions st @ [tokens ! 1]\<rparr> in
        case parseRuntimeCommandEvidenceStatus (tokens ! 2) of
          None \<Rightarrow> addError src line (''unknown game-action evidence status: '' @ tokens ! 2) st
        | Some status \<Rightarrow> st\<lparr>ma_gameActionEvidence :=
            ma_gameActionEvidence st @ [entryEvidence tokens status]\<rparr>)"

definition bindingDirective :: "string \<Rightarrow> nat \<Rightarrow> string list \<Rightarrow> accumulator \<Rightarrow> accumulator" where
  "bindingDirective src line tokens st =
     (if length tokens \<noteq> 5
      then addError src line
             ''binding directive expects: binding <name> <kind> <requirement> <evidence>'' st
      else case parseBindingKind (tokens ! 2) of
        None \<Rightarrow> addError src line (''unknown binding kind: '' @ tokens ! 2) st
      | Some kind \<Rightarrow>
          (case parseBindingRequirement (tokens ! 3) of
             None \<Rightarrow> addError src line (''unknown binding requirement: '' @ tokens ! 3) st
           | Some requirement \<Rightarrow>
               if tokens ! 4 = [] then addError src line ''binding evidence cannot be empty'' st
               else if starts_with (tokens ! 4) ''proof.''
               then addError src line
                 ''binding evidence cannot use runtime proof evidence; proof.* is only accepted from a validated ready file'' st
               else st\<lparr>ma_bindings := ma_bindings st @
                 [\<lparr>bd_name = tokens ! 1, bd_kind = kind, bd_requirement = requirement,
                   bd_evidence = tokens ! 4, bd_line = line\<rparr>]\<rparr>))"

definition structureDirective :: "string \<Rightarrow> nat \<Rightarrow> string list \<Rightarrow> accumulator \<Rightarrow> accumulator" where
  "structureDirective src line tokens st =
     (if length tokens \<noteq> 4
      then addError src line ''structure directive expects: structure <name> <size> <requirement>'' st
      else case parseSize (tokens ! 2) of
        None \<Rightarrow> addError src line ''structure size must be a positive integer'' st
      | Some sz \<Rightarrow>
          if sz = 0 then addError src line ''structure size must be a positive integer'' st
          else (case parseBindingRequirement (tokens ! 3) of
             None \<Rightarrow> addError src line (''unknown structure requirement: '' @ tokens ! 3) st
           | Some requirement \<Rightarrow> st\<lparr>ma_structures := ma_structures st @
               [\<lparr>sd_name = tokens ! 1, sd_size = sz, sd_requirement = requirement,
                 sd_line = line\<rparr>]\<rparr>))"

text \<open>\<open>rfind('.')\<close>: the parts before and after the last dot.\<close>

definition splitLastDot :: "string \<Rightarrow> (string \<times> string) option" where
  "splitLastDot s =
     (if CHR ''.'' \<notin> set s then None
      else let after = rev (takeWhile (\<lambda>c. c \<noteq> CHR ''.'') (rev s))
           in Some (take (length s - length after - 1) s, after))"

definition fieldDirective :: "string \<Rightarrow> nat \<Rightarrow> string list \<Rightarrow> accumulator \<Rightarrow> accumulator" where
  "fieldDirective src line tokens st =
     (if length tokens \<noteq> 4
      then addError src line ''field directive expects: field <structure>.<field> <offset> <size>'' st
      else case splitLastDot (tokens ! 1) of
        None \<Rightarrow> addError src line ''field name must use <structure>.<field>'' st
      | Some (structureName, fieldName) \<Rightarrow>
          if structureName = [] \<or> fieldName = []
          then addError src line ''field name must use <structure>.<field>'' st
          else (case parseSize (tokens ! 2) of
             None \<Rightarrow> addError src line ''field offset must be a non-negative integer'' st
           | Some offset \<Rightarrow>
               (case parseSize (tokens ! 3) of
                  None \<Rightarrow> addError src line ''field size must be a positive integer'' st
                | Some sz \<Rightarrow>
                    if sz = 0 then addError src line ''field size must be a positive integer'' st
                    else st\<lparr>ma_fields := ma_fields st @
                      [\<lparr>fd_structureName = structureName, fd_fieldName = fieldName,
                        fd_offset = offset, fd_size = sz, fd_line = line\<rparr>]\<rparr>)))"

definition processTokens :: "string \<Rightarrow> nat \<Rightarrow> string list \<Rightarrow> accumulator \<Rightarrow> accumulator" where
  "processTokens src line tokens st =
     (let directive = tokens ! 0 in
      if directive = ''product'' then productDirective src line tokens st
      else if directive = ''version'' then versionDirective src line tokens st
      else if directive = ''api-surface-methods'' then apiSurfaceDirective src line tokens st
      else if directive = ''command-surface-entries''
      then commandSurfaceDirective src line tokens st
      else if directive = ''capability'' then capabilityDirective src line tokens st
      else if directive = ''unit-command'' then unitCommandDirective src line tokens st
      else if directive = ''game-action'' then gameActionDirective src line tokens st
      else if directive = ''binding'' then bindingDirective src line tokens st
      else if directive = ''structure'' then structureDirective src line tokens st
      else if directive = ''field'' then fieldDirective src line tokens st
      else addError src line (''unknown manifest directive: '' @ directive) st)"

definition processLine :: "string \<Rightarrow> nat \<Rightarrow> string \<Rightarrow> accumulator \<Rightarrow> accumulator" where
  "processLine src line rawLine st =
     (let text = trim (takeWhile (\<lambda>c. c \<noteq> CHR ''#'') rawLine) in
      if text = [] then st
      else let tokens = splitWhitespace text in
        if tokens = [] then st else processTokens src line tokens st)"

fun processLines :: "string \<Rightarrow> nat \<Rightarrow> string list \<Rightarrow> accumulator \<Rightarrow> accumulator" where
  "processLines src line [] st = st"
| "processLines src line (l # ls) st =
     processLines src (line + 1) ls (processLine src (line + 1) l st)"

section \<open>Overlaying the contract\<close>

text \<open>\<open>addWarning\<close> formats as \<open>addError\<close> does; each step threads the contract and the warnings.\<close>

type_synonym overlay = "runtime_contract \<times> string list"

definition addWarning :: "string \<Rightarrow> nat \<Rightarrow> string \<Rightarrow> string list \<Rightarrow> string list" where
  "addWarning sourceName line text warnings = warnings @ [message sourceName line text]"

definition resolve_binding :: "binding_directive \<Rightarrow> runtime_binding \<Rightarrow> runtime_binding" where
  "resolve_binding d b =
     b\<lparr>b_requirement := bd_requirement d, b_resolved := True, b_evidence := bd_evidence d\<rparr>"

definition applyBinding :: "string \<Rightarrow> overlay \<Rightarrow> binding_directive \<Rightarrow> overlay" where
  "applyBinding src = (\<lambda>(contract, warnings) d.
     if findRuntimeBinding contract (bd_name d) (bd_kind d) = None
     then (contract, addWarning src (bd_line d)
             (''manifest binding is not part of the BWAPI parity contract: '' @ bd_name d) warnings)
     else (contract\<lparr>c_bindings :=
             update_first (\<lambda>b. b_name b = bd_name d \<and> b_kind b = bd_kind d) (resolve_binding d)
               (c_bindings contract)\<rparr>, warnings))"

definition applyBindings :: "string \<Rightarrow> binding_directive list \<Rightarrow> overlay \<Rightarrow> overlay" where
  "applyBindings src directives result = foldl (applyBinding src) result directives"

definition size_structure :: "structure_directive \<Rightarrow> structure_layout \<Rightarrow> structure_layout" where
  "size_structure d s = s\<lparr>st_size := sd_size d, st_requirement := sd_requirement d\<rparr>"

definition applyStructure :: "string \<Rightarrow> overlay \<Rightarrow> structure_directive \<Rightarrow> overlay" where
  "applyStructure src = (\<lambda>(contract, warnings) d.
     if findStructureLayout contract (sd_name d) = None
     then (contract, addWarning src (sd_line d)
             (''manifest structure is not part of the BWAPI parity contract: '' @ sd_name d) warnings)
     else (contract\<lparr>c_structures :=
             update_first (\<lambda>s. st_name s = sd_name d) (size_structure d) (c_structures contract)\<rparr>,
           warnings))"

definition applyStructures :: "string \<Rightarrow> structure_directive list \<Rightarrow> overlay \<Rightarrow> overlay" where
  "applyStructures src directives result = foldl (applyStructure src) result directives"

definition place_field :: "field_directive \<Rightarrow> structure_field \<Rightarrow> structure_field" where
  "place_field d f = f\<lparr>f_resolved := True, f_offset := fd_offset d, f_size := fd_size d\<rparr>"

definition applyField :: "string \<Rightarrow> overlay \<Rightarrow> field_directive \<Rightarrow> overlay" where
  "applyField src = (\<lambda>(contract, warnings) d.
     case findStructureLayout contract (fd_structureName d) of
       None \<Rightarrow> (contract, addWarning src (fd_line d)
         (''manifest field references an unknown structure: '' @ fd_structureName d) warnings)
     | Some s \<Rightarrow>
         if List.find (\<lambda>f. f_name f = fd_fieldName d) (st_fields s) = None
         then (contract, addWarning src (fd_line d)
           (''manifest field is not part of the BWAPI parity contract: '' @ fd_structureName d
              @ ''.'' @ fd_fieldName d) warnings)
         else (contract\<lparr>c_structures :=
             update_first (\<lambda>s. st_name s = fd_structureName d)
               (\<lambda>s. s\<lparr>st_fields := update_first (\<lambda>f. f_name f = fd_fieldName d) (place_field d)
                       (st_fields s)\<rparr>) (c_structures contract)\<rparr>, warnings))"

definition applyFields :: "string \<Rightarrow> field_directive list \<Rightarrow> overlay \<Rightarrow> overlay" where
  "applyFields src directives result = foldl (applyField src) result directives"

section \<open>The command tables of a manifest\<close>

fun declared_errors ::
  "string \<Rightarrow> string \<Rightarrow> string list \<Rightarrow> string list \<Rightarrow> string list \<Rightarrow> string list" where
  "declared_errors src label requiredEntries seen [] = []"
| "declared_errors src label requiredEntries seen (actual # rest) =
     (if containsCommandSurfaceEntry seen actual
      then [message src 0 (''manifest declares duplicate '' @ label @ '': '' @ actual)] else [])
   @ (if \<not> containsCommandSurfaceEntry requiredEntries actual
      then [message src 0 (''manifest declares unknown '' @ label @ '': '' @ actual)] else [])
   @ declared_errors src label requiredEntries (seen @ [actual]) rest"

definition validateCommandEntries ::
  "string \<Rightarrow> string list \<Rightarrow> command_evidence list \<Rightarrow> string list \<Rightarrow> string \<Rightarrow> string list" where
  "validateCommandEntries src actualEntries evidenceEntries requiredEntries label =
     declared_errors src label requiredEntries [] actualEntries
   @ map (\<lambda>required. message src 0 (''manifest is missing required '' @ label @ '': '' @ required))
       (filter (\<lambda>required. \<not> containsCommandSurfaceEntry actualEntries required) requiredEntries)
   @ (if length evidenceEntries \<noteq> length actualEntries
      then [message src 0
              (''manifest '' @ label @ '' evidence count does not match declared entries'')]
      else map (\<lambda>actual. message src 0
                  (''manifest is missing evidence status for '' @ label @ '': '' @ actual))
             (filter (\<lambda>actual. \<not> containsCommandEvidenceEntry evidenceEntries actual)
                actualEntries))"

definition allowsPartialCommandSurface :: "accumulator \<Rightarrow> bool" where
  "allowsPartialCommandSurface st \<longleftrightarrow>
     ma_hasCommandSurfaceEntries st \<and> ma_commandSurfaceEntries st = 0
   \<and> ma_unitCommands st = [] \<and> ma_gameActions st = []"

section \<open>The loader\<close>

text \<open>\<open>static_cast<int>\<close> of a \<open>std::size_t\<close>.\<close>

definition size_to_int :: "nat \<Rightarrow> int" where
  "size_to_int n = sint (word_of_nat n :: u32)"

definition manifest_errors :: "string \<Rightarrow> accumulator \<Rightarrow> string list" where
  "manifest_errors src st =
     ma_errors st
   @ (if ma_product st = ProductUnknown then [message src 0 ''manifest product is missing''] else [])
   @ (if ma_version st = [] then [message src 0 ''manifest version is missing''] else [])
   @ (if \<not> ma_hasApiSurfaceMethods st
      then [message src 0 ''manifest API surface method count is missing''] else [])
   @ (if \<not> ma_hasCommandSurfaceEntries st
      then [message src 0 ''manifest command surface entry count is missing''] else [])
   @ (if \<not> allowsPartialCommandSurface st
      then validateCommandEntries src (ma_unitCommands st) (ma_unitCommandEvidence st)
             (unitCommands makeBWAPICommandSurface) ''unit command''
         @ validateCommandEntries src (ma_gameActions st) (ma_gameActionEvidence st)
             (gameActions makeBWAPICommandSurface) ''game action''
      else [])
   @ (if size_to_int (length (ma_unitCommands st) + length (ma_gameActions st))
           \<noteq> ma_commandSurfaceEntries st
      then [message src 0
        ''manifest command surface entry count does not match declared command/action names'']
      else [])"

definition base_contract :: "accumulator \<Rightarrow> runtime_contract" where
  "base_contract st =
     (let contract =
        (if ma_product st = StarCraftBroodWar1161 then makeBroodWar1161ParityContract
         else if ma_product st = StarCraftRemastered
         then makeRemasteredParityContract (ma_version st)
         else empty_contract\<lparr>c_product := ProductUnknown\<rparr>)
      in contract\<lparr>c_version := ma_version st\<rparr>)"

definition overlaid :: "string \<Rightarrow> accumulator \<Rightarrow> overlay" where
  "overlaid src st =
     applyFields src (ma_fields st)
       (applyStructures src (ma_structures st)
         (applyBindings src (ma_bindings st) (base_contract st, [])))"

definition manifest_of :: "accumulator \<Rightarrow> runtime_contract \<Rightarrow> manifest" where
  "manifest_of st contract =
     \<lparr>m_contract = contract, m_capabilities = ma_capabilities st,
      m_unitCommands = ma_unitCommands st, m_gameActions = ma_gameActions st,
      m_unitCommandEvidence = ma_unitCommandEvidence st,
      m_gameActionEvidence = ma_gameActionEvidence st,
      m_apiSurfaceMethods = ma_apiSurfaceMethods st,
      m_commandSurfaceEntries = ma_commandSurfaceEntries st\<rparr>"

definition loadRuntimeManifest :: "string \<Rightarrow> string \<Rightarrow> load_result" where
  "loadRuntimeManifest input src =
     (let st = processLines src 0 (getlines input) empty_accumulator;
          errors = manifest_errors src st;
          (contract, warnings) = overlaid src st
      in \<lparr>lr_loaded = (errors = []), lr_manifest = manifest_of st contract,
          lr_errors = errors, lr_warnings = warnings\<rparr>)"

text \<open>The file is its contents, \<open>None\<close> where \<open>std::ifstream\<close> cannot open the path.\<close>

definition loadRuntimeManifestFile :: "string \<Rightarrow> string option \<Rightarrow> load_result" where
  "loadRuntimeManifestFile path contents =
     (case contents of
        None \<Rightarrow> \<lparr>lr_loaded = False, lr_manifest = manifest_of empty_accumulator empty_contract,
                 lr_errors = [path @ '': unable to open runtime manifest''], lr_warnings = []\<rparr>
      | Some input \<Rightarrow> loadRuntimeManifest input path)"

end
