(* ===== verification/Manifest_Properties.thy ===== *)
theory Manifest_Properties
  imports Runtime_Manifest
begin

text \<open>
  What loading a manifest promises: the invariant of the reading loop, the exact effect of the
  overlay on the parity contract, completeness of the command tables of a loaded manifest, and
  that no text can carry a contract through the production gate.
\<close>

section \<open>The invariant of the reading loop\<close>

definition entries_paired :: "accumulator \<Rightarrow> bool" where
  "entries_paired st \<longleftrightarrow>
     map ev_name (ma_unitCommandEvidence st) = ma_unitCommands st
   \<and> map ev_name (ma_gameActionEvidence st) = ma_gameActions st"

definition known_status :: "command_evidence list \<Rightarrow> bool" where
  "known_status es \<longleftrightarrow> list_all (\<lambda>e. ev_status e \<noteq> EvidenceUnknown) es"

definition reading_inv :: "accumulator \<Rightarrow> bool" where
  "reading_inv st \<longleftrightarrow>
     list_all (\<lambda>d. \<not> isProductionEvidence (bd_evidence d)) (ma_bindings st)
   \<and> list_all (\<lambda>d. 0 < sd_size d \<and> sd_size d < 2 ^ 64) (ma_structures st)
   \<and> list_all (\<lambda>d. fd_offset d < 2 ^ 64 \<and> 0 < fd_size d \<and> fd_size d < 2 ^ 64) (ma_fields st)
   \<and> (ma_errors st = [] \<longrightarrow> entries_paired st)
   \<and> known_status (ma_unitCommandEvidence st) \<and> known_status (ma_gameActionEvidence st)"

lemma addError_inv [simp]: "reading_inv st \<Longrightarrow> reading_inv (addError src line text st)"
  by (simp add: reading_inv_def addError_def)

lemma parseSize_bound: "parseSize v = Some n \<Longrightarrow> n < 2 ^ 64"
  by (auto simp: parseSize_def dest: stoull_bound split: option.splits if_splits)

lemma status_known: "parseRuntimeCommandEvidenceStatus v = Some s \<Longrightarrow> s \<noteq> EvidenceUnknown"
  using evidence_codec.parse_sound by blast

lemma productDirective_inv: "reading_inv st \<Longrightarrow> reading_inv (productDirective src line ts st)"
  by (auto simp: productDirective_def Let_def reading_inv_def addError_def entries_paired_def)

lemma versionDirective_inv: "reading_inv st \<Longrightarrow> reading_inv (versionDirective src line ts st)"
  by (auto simp: versionDirective_def reading_inv_def addError_def entries_paired_def)

lemma apiSurfaceDirective_inv:
  "reading_inv st \<Longrightarrow> reading_inv (apiSurfaceDirective src line ts st)"
  by (auto simp: apiSurfaceDirective_def reading_inv_def addError_def entries_paired_def
      split: option.split)

lemma commandSurfaceDirective_inv:
  "reading_inv st \<Longrightarrow> reading_inv (commandSurfaceDirective src line ts st)"
  by (auto simp: commandSurfaceDirective_def reading_inv_def addError_def entries_paired_def
      split: option.split)

lemma capabilityDirective_inv:
  "reading_inv st \<Longrightarrow> reading_inv (capabilityDirective src line ts st)"
  by (auto simp: capabilityDirective_def reading_inv_def addError_def entries_paired_def
      split: option.split)

lemma unitCommandDirective_inv:
  "reading_inv st \<Longrightarrow> reading_inv (unitCommandDirective src line ts st)"
  by (auto simp: unitCommandDirective_def Let_def reading_inv_def addError_def entries_paired_def
      entryEvidence_def known_status_def status_known split: option.split)

lemma gameActionDirective_inv:
  "reading_inv st \<Longrightarrow> reading_inv (gameActionDirective src line ts st)"
  by (auto simp: gameActionDirective_def Let_def reading_inv_def addError_def entries_paired_def
      entryEvidence_def known_status_def status_known split: option.split)

lemma bindingDirective_inv: "reading_inv st \<Longrightarrow> reading_inv (bindingDirective src line ts st)"
  by (auto simp: bindingDirective_def reading_inv_def addError_def entries_paired_def
      isProductionEvidence_def split: option.split)

lemma structureDirective_inv:
  "reading_inv st \<Longrightarrow> reading_inv (structureDirective src line ts st)"
  by (auto simp: structureDirective_def reading_inv_def addError_def entries_paired_def
      dest: parseSize_bound split: option.split)

lemma fieldDirective_inv: "reading_inv st \<Longrightarrow> reading_inv (fieldDirective src line ts st)"
  by (auto simp: fieldDirective_def reading_inv_def addError_def entries_paired_def
      dest: parseSize_bound split: option.split)

lemmas directive_inv =
  productDirective_inv versionDirective_inv apiSurfaceDirective_inv commandSurfaceDirective_inv
  capabilityDirective_inv unitCommandDirective_inv gameActionDirective_inv bindingDirective_inv
  structureDirective_inv fieldDirective_inv

lemma processTokens_inv: "reading_inv st \<Longrightarrow> reading_inv (processTokens src line ts st)"
  by (simp add: processTokens_def Let_def directive_inv)

lemma processLine_inv: "reading_inv st \<Longrightarrow> reading_inv (processLine src line raw st)"
  by (simp add: processLine_def Let_def processTokens_inv)

lemma processLines_inv: "reading_inv st \<Longrightarrow> reading_inv (processLines src line ls st)"
  by (induction ls arbitrary: line st) (simp_all add: processLine_inv)

lemma read_inv: "reading_inv (processLines src line ls empty_accumulator)"
  by (rule processLines_inv)
    (simp add: reading_inv_def empty_accumulator_def entries_paired_def known_status_def)

section \<open>The overlay\<close>

lemma list_all_update_first:
  "list_all P xs \<Longrightarrow> (\<And>x. P x \<Longrightarrow> p x \<Longrightarrow> P (f x)) \<Longrightarrow> list_all P (update_first p f xs)"
  by (induction xs) auto

lemma map_option_self: "map_option (\<lambda>a. a) x = x"
  by (cases x) simp_all

lemma update_first_same: "List.find p xs = Some x \<Longrightarrow> f x = x \<Longrightarrow> update_first p f xs = xs"
  by (induction xs) (auto split: if_splits)

lemma find_update_first_key:
  assumes "\<And>x. key (f x) = key x"
  shows "List.find (\<lambda>x. key x = k) (update_first (\<lambda>x. key x = k') f xs)
    = (if k = k' then map_option f (List.find (\<lambda>x. key x = k) xs)
       else List.find (\<lambda>x. key x = k) xs)"
  using assms by (induction xs) auto

text \<open>The last directive with the key wins; later ones overwrite earlier ones completely.\<close>

definition last_wins :: "('d \<Rightarrow> bool) \<Rightarrow> ('d \<Rightarrow> 'x \<Rightarrow> 'x) \<Rightarrow> 'd list \<Rightarrow> 'x \<Rightarrow> 'x" where
  "last_wins p f ds x = (case List.find p (rev ds) of None \<Rightarrow> x | Some d \<Rightarrow> f d x)"

lemma last_wins_Nil [simp]: "last_wins p f [] = id"
  by (simp add: last_wins_def fun_eq_iff)

lemma last_wins_snoc:
  assumes "\<And>d d' x. f d (f d' x) = f d x"
  shows "last_wins p f (ds @ [d]) = (if p d then f d \<circ> last_wins p f ds else last_wins p f ds)"
  using assms by (auto simp: last_wins_def fun_eq_iff split: option.split)

lemma last_wins_step:
  assumes found: "List.find (\<lambda>x. key x = k) xs = map_option (last_wins P f ds) init"
    and "P d = (target = k)"
    and "\<And>d x. key (f d x) = key x" and "\<And>d d' x. f d (f d' x) = f d x"
  shows "List.find (\<lambda>x. key x = k) (update_first (\<lambda>x. key x = target) (f d) xs)
      = map_option (last_wins P f (ds @ [d])) init"
  using assms
  by (cases "k = target")
    (simp_all add: find_update_first_key last_wins_snoc option.map_comp)

definition binding_key :: "runtime_binding \<Rightarrow> string \<times> binding_kind" where
  "binding_key b = (b_name b, b_kind b)"

lemma findRuntimeBinding_key:
  "findRuntimeBinding c n k = List.find (\<lambda>b. binding_key b = (n, k)) (c_bindings c)"
  by (simp add: findRuntimeBinding_def binding_key_def)

lemma binding_match:
  "(\<lambda>b. b_name b = n \<and> b_kind b = k) = (\<lambda>b. binding_key b = (n, k))"
  by (simp add: binding_key_def fun_eq_iff)

lemma binding_key_resolve [simp]: "binding_key (resolve_binding d b) = binding_key b"
  by (simp add: binding_key_def resolve_binding_def)

lemma resolve_twice [simp]: "resolve_binding d (resolve_binding d' b) = resolve_binding d b"
  by (simp add: resolve_binding_def)

text \<open>Without its search the step is the update: a missing target changes nothing.\<close>

lemma applyBinding_fst:
  "fst (applyBinding src r d)
     = fst r\<lparr>c_bindings := update_first (\<lambda>b. binding_key b = (bd_name d, bd_kind d))
              (resolve_binding d) (c_bindings (fst r))\<rparr>"
  by (auto simp: applyBinding_def findRuntimeBinding_key binding_match update_first_absent
      split: prod.split)

lemma applyBindings_fst:
  "\<exists>bs. fst (applyBindings src ds r) = fst r\<lparr>c_bindings := bs\<rparr>
     \<and> map binding_key bs = map binding_key (c_bindings (fst r))
     \<and> List.find (\<lambda>b. binding_key b = nk) bs
         = map_option (last_wins (\<lambda>d. (bd_name d, bd_kind d) = nk) resolve_binding ds)
             (List.find (\<lambda>b. binding_key b = nk) (c_bindings (fst r)))"
proof (induction ds rule: rev_induct)
  case Nil
  show ?case
    by (rule exI [of _ "c_bindings (fst r)"]) (simp add: applyBindings_def map_option_self)
next
  case (snoc d ds)
  then obtain bs where bs:
    "fst (applyBindings src ds r) = fst r\<lparr>c_bindings := bs\<rparr>"
    "map binding_key bs = map binding_key (c_bindings (fst r))"
    "List.find (\<lambda>b. binding_key b = nk) bs
       = map_option (last_wins (\<lambda>d. (bd_name d, bd_kind d) = nk) resolve_binding ds)
           (List.find (\<lambda>b. binding_key b = nk) (c_bindings (fst r)))"
    by blast
  have step: "applyBindings src (ds @ [d]) r = applyBinding src (applyBindings src ds r) d"
    by (simp add: applyBindings_def)
  show ?case
    by (rule exI [of _ "update_first (\<lambda>b. binding_key b = (bd_name d, bd_kind d))
          (resolve_binding d) bs"])
      (simp add: step applyBinding_fst bs map_update_first last_wins_step [OF bs(3)])
qed

lemma size_twice [simp]: "size_structure d (size_structure d' s) = size_structure d s"
  by (simp add: size_structure_def)

lemma st_name_size [simp]: "st_name (size_structure d s) = st_name s"
  by (simp add: size_structure_def)

lemma st_fields_size [simp]: "st_fields (size_structure d s) = st_fields s"
  by (simp add: size_structure_def)

lemma applyStructure_fst:
  "fst (applyStructure src r d)
     = fst r\<lparr>c_structures := update_first (\<lambda>s. st_name s = sd_name d) (size_structure d)
              (c_structures (fst r))\<rparr>"
  by (auto simp: applyStructure_def findStructureLayout_def update_first_absent split: prod.split)

text \<open>The names of the structures and of their fields.\<close>

definition shape :: "structure_layout list \<Rightarrow> (string \<times> string list) list" where
  "shape ss = map (\<lambda>s. (st_name s, map f_name (st_fields s))) ss"

lemma applyStructures_fst:
  "\<exists>ss. fst (applyStructures src ds r) = fst r\<lparr>c_structures := ss\<rparr>
     \<and> shape ss = shape (c_structures (fst r))
     \<and> List.find (\<lambda>s. st_name s = n) ss
         = map_option (last_wins (\<lambda>d. sd_name d = n) size_structure ds)
             (List.find (\<lambda>s. st_name s = n) (c_structures (fst r)))"
proof (induction ds rule: rev_induct)
  case Nil
  show ?case
    by (rule exI [of _ "c_structures (fst r)"]) (simp add: applyStructures_def map_option_self)
next
  case (snoc d ds)
  then obtain ss where ss:
    "fst (applyStructures src ds r) = fst r\<lparr>c_structures := ss\<rparr>"
    "shape ss = shape (c_structures (fst r))"
    "List.find (\<lambda>s. st_name s = n) ss
       = map_option (last_wins (\<lambda>d. sd_name d = n) size_structure ds)
           (List.find (\<lambda>s. st_name s = n) (c_structures (fst r)))"
    by blast
  have step: "applyStructures src (ds @ [d]) r = applyStructure src (applyStructures src ds r) d"
    by (simp add: applyStructures_def)
  have "shape (update_first (\<lambda>s. st_name s = sd_name d) (size_structure d) ss) = shape ss"
    by (simp add: shape_def map_update_first)
  then show ?case
    by (intro exI [of _ "update_first (\<lambda>s. st_name s = sd_name d) (size_structure d) ss"])
      (simp add: step applyStructure_fst ss last_wins_step [OF ss(3)])
qed

lemma place_twice [simp]: "place_field d (place_field d' f) = place_field d f"
  by (simp add: place_field_def)

lemma f_name_place [simp]: "f_name (place_field d f) = f_name f"
  by (simp add: place_field_def)

definition place_in :: "field_directive \<Rightarrow> structure_field list \<Rightarrow> structure_field list" where
  "place_in d = update_first (\<lambda>f. f_name f = fd_fieldName d) (place_field d)"

lemma applyField_fst:
  "fst (applyField src r d)
     = fst r\<lparr>c_structures := update_first (\<lambda>s. st_name s = fd_structureName d)
              (\<lambda>s. s\<lparr>st_fields := place_in d (st_fields s)\<rparr>) (c_structures (fst r))\<rparr>"
  by (auto simp: applyField_def findStructureLayout_def place_in_def update_first_absent
      update_first_same split: prod.split option.split)

fun placed :: "string \<Rightarrow> field_directive list \<Rightarrow> structure_field list \<Rightarrow> structure_field list" where
  "placed n [] flds = flds"
| "placed n (d # ds) flds =
     placed n ds (if fd_structureName d = n then place_in d flds else flds)"

lemma applyFields_fst:
  "\<exists>ss. fst (applyFields src ds r) = fst r\<lparr>c_structures := ss\<rparr>
     \<and> shape ss = shape (c_structures (fst r))
     \<and> List.find (\<lambda>s. st_name s = n) ss
         = map_option (\<lambda>s. s\<lparr>st_fields := placed n ds (st_fields s)\<rparr>)
             (List.find (\<lambda>s. st_name s = n) (c_structures (fst r)))"
proof (induction ds arbitrary: r)
  case Nil
  show ?case
    by (rule exI [of _ "c_structures (fst r)"]) (simp add: applyFields_def map_option_self)
next
  case (Cons d ds)
  let ?r = "applyField src r d"
  from Cons obtain ss where ss:
    "fst (applyFields src ds ?r) = fst ?r\<lparr>c_structures := ss\<rparr>"
    "shape ss = shape (c_structures (fst ?r))"
    "List.find (\<lambda>s. st_name s = n) ss
       = map_option (\<lambda>s. s\<lparr>st_fields := placed n ds (st_fields s)\<rparr>)
           (List.find (\<lambda>s. st_name s = n) (c_structures (fst ?r)))"
    by blast
  have step: "applyFields src (d # ds) r = applyFields src ds ?r"
    by (simp add: applyFields_def)
  have "shape (c_structures (fst ?r)) = shape (c_structures (fst r))"
    by (simp add: applyField_fst shape_def map_update_first place_in_def)
  then show ?case
    by (intro exI [of _ ss])
      (auto simp: step ss applyField_fst find_update_first_key option.map_comp o_def)
qed

lemma find_placed:
  "List.find (\<lambda>f. f_name f = k) (placed n ds flds)
     = map_option (last_wins (\<lambda>d. (fd_structureName d, fd_fieldName d) = (n, k)) place_field ds)
         (List.find (\<lambda>f. f_name f = k) flds)"
proof (induction ds rule: rev_induct)
  case Nil
  then show ?case by (simp add: map_option_self)
next
  case (snoc d ds)
  have "placed n (ds @ [d]) flds
      = (if fd_structureName d = n then place_in d (placed n ds flds) else placed n ds flds)"
    by (induction ds arbitrary: flds) simp_all
  then show ?case
    using last_wins_step [where d = d and target = "fd_fieldName d", OF snoc]
    by (auto simp: snoc place_in_def last_wins_snoc)
qed

section \<open>Nothing in a manifest is proof\<close>

definition unproven_structure :: "structure_layout \<Rightarrow> bool" where
  "unproven_structure s \<longleftrightarrow> st_evidence s = [] \<and> (st_requirement s = Required \<or> st_size s \<noteq> 0)"

definition unproven_binding :: "runtime_binding \<Rightarrow> bool" where
  "unproven_binding b \<longleftrightarrow> \<not> isProductionEvidence (b_evidence b)"

definition unproven :: "runtime_contract \<Rightarrow> bool" where
  "unproven c \<longleftrightarrow>
     list_all unproven_binding (c_bindings c) \<and> list_all unproven_structure (c_structures c)
   \<and> (c_product c = ProductUnknown \<or> c_structures c \<noteq> [])"

lemma update_first_Nil [simp]: "update_first p f xs = [] \<longleftrightarrow> xs = []"
  by (cases xs) auto

lemma foldl_invariant:
  assumes "P r" and "list_all Q ds" and "\<And>r d. P r \<Longrightarrow> Q d \<Longrightarrow> P (f r d)"
  shows "P (foldl f r ds)"
  using assms by (induction ds arbitrary: r) auto

lemma applyBindings_unproven:
  assumes "unproven (fst r)" and "list_all (\<lambda>d. \<not> isProductionEvidence (bd_evidence d)) ds"
  shows "unproven (fst (applyBindings src ds r))"
  unfolding applyBindings_def
  by (rule foldl_invariant [where P = "\<lambda>r. unproven (fst r)", OF assms])
    (auto simp: applyBinding_fst unproven_def unproven_binding_def resolve_binding_def
      intro!: list_all_update_first)

lemma applyStructures_unproven:
  assumes "unproven (fst r)" and "list_all (\<lambda>d. 0 < sd_size d \<and> sd_size d < 2 ^ 64) ds"
  shows "unproven (fst (applyStructures src ds r))"
  unfolding applyStructures_def
  by (rule foldl_invariant [where P = "\<lambda>r. unproven (fst r)", OF assms])
    (auto simp: applyStructure_fst unproven_def unproven_structure_def size_structure_def
      intro!: list_all_update_first)

lemma applyFields_unproven:
  "unproven (fst r) \<Longrightarrow> unproven (fst (applyFields src ds r))"
  unfolding applyFields_def
  by (rule foldl_invariant [where P = "\<lambda>r. unproven (fst r)" and Q = "\<lambda>_. True"])
    (auto simp: applyField_fst unproven_def unproven_structure_def list_all_iff
      dest!: set_update_first)

lemma base_contract_shape:
  "c_product (base_contract st) = ma_product st"
  "c_version (base_contract st) = ma_version st"
  by (cases "ma_product st"; simp add: base_contract_def makeRemasteredParityContract_def
      makeBroodWar1161ParityContract_def Let_def)+

lemma base_contract_parts:
  "c_bindings (base_contract st)
     = (if ma_product st = ProductUnknown then [] else parityBindings)
   \<and> c_structures (base_contract st)
     = (if ma_product st = ProductUnknown then [] else parityStructures)"
proof -
  have "map (\<lambda>b. b\<lparr>b_resolved := False, b_evidence := []\<rparr>) parityBindings = parityBindings"
    by (simp add: parityBindings_def requiredBinding_def)
  moreover have "map clearStructure parityStructures = parityStructures"
    by (simp add: parityStructures_def requiredStructure_def clearStructure_def clearField_def
        mkfield_def)
  ultimately show ?thesis
    by (cases "ma_product st") (simp_all add: base_contract_def empty_contract_def Let_def
        makeRemasteredParityContract_def makeBroodWar1161ParityContract_def)
qed

lemma parity_unproven:
  "list_all unproven_binding parityBindings" "list_all unproven_structure parityStructures"
  "parityStructures \<noteq> []"
  by code_simp+

lemma base_contract_unproven: "unproven (base_contract st)"
  using parity_unproven
  by (simp add: unproven_def base_contract_parts base_contract_shape)

lemma overlaid_unproven: "reading_inv st \<Longrightarrow> unproven (fst (overlaid src st))"
  unfolding overlaid_def reading_inv_def
  by (intro applyFields_unproven applyStructures_unproven applyBindings_unproven)
    (simp_all add: base_contract_unproven)

lemma unproven_refused: "unproven c \<Longrightarrow> \<not> canClaimProductionSupport probe c"
proof
  assume u: "unproven c" and claim: "canClaimProductionSupport probe c"
  then have "contract_ok c" "audited_contract c" by (simp_all add: canClaim_iff)
  then obtain s where s: "s \<in> set (c_structures c)" "structure_ok s" "audited_structure s"
    using u by (cases "c_structures c")
      (auto simp: unproven_def contract_ok_def audited_contract_def)
  then have "unproven_structure s" using u by (auto simp: unproven_def list_all_iff)
  then show False
    using s by (auto simp: unproven_structure_def structure_ok_def audited_structure_def
        evidence_proves_def evidenceProofLine_def isProductionEvidence_def starts_with_def)
qed

lemma lr_manifest_contract:
  "m_contract (lr_manifest (loadRuntimeManifest input src))
     = fst (overlaid src (processLines src 0 (getlines input) empty_accumulator))"
  by (simp add: loadRuntimeManifest_def manifest_of_def Let_def split: prod.split)

section \<open>What is loaded\<close>

lemma declared_errors_Nil:
  "declared_errors src label req seen xs = [] \<longleftrightarrow>
     distinct xs \<and> set xs \<inter> set seen = {} \<and> set xs \<subseteq> set req"
  by (induction xs arbitrary: seen) auto

lemma validateCommandEntries_Nil:
  "validateCommandEntries src as es req label = [] \<longleftrightarrow>
     distinct as \<and> set as = set req \<and> length es = length as \<and> set as \<subseteq> ev_name ` set es"
  by (auto simp: validateCommandEntries_def declared_errors_Nil filter_empty_conv
      containsCommandEvidenceEntry_iff)

lemma size_to_int_closed [simp]: "size_to_int 0 = 0" "size_to_int 72 = 72"
  by (simp_all add: size_to_int_def)

definition full_surface :: "string list \<Rightarrow> string list \<Rightarrow> bool" where
  "full_surface units actions \<longleftrightarrow>
     distinct units \<and> set units = set unitCommandNames
   \<and> distinct actions \<and> set actions = set gameActionNames"

lemma full_surface_length:
  assumes "full_surface units actions"
  shows "length units = 44" "length actions = 28"
  using assms distinct_card [of units] distinct_card [of actions]
    distinct_card [OF distinct_unitCommandNames] distinct_card [OF distinct_gameActionNames]
  by (simp_all add: full_surface_def surface)

lemma manifest_errors_Nil:
  assumes "manifest_errors src st = []"
  shows "ma_errors st = []" "ma_product st \<noteq> ProductUnknown" "ma_version st \<noteq> []"
    "allowsPartialCommandSurface st \<or> full_surface (ma_unitCommands st) (ma_gameActions st)"
    "size_to_int (length (ma_unitCommands st) + length (ma_gameActions st))
       = ma_commandSurfaceEntries st"
  using assms by (auto simp: manifest_errors_def validateCommandEntries_Nil full_surface_def
      split: if_splits)

lemma size_of_surface:
  "full_surface units actions \<Longrightarrow> size_to_int (length units + length actions) = 72"
  using full_surface_length by simp

section \<open>Warnings\<close>

definition in_contract :: "runtime_contract \<Rightarrow> accumulator \<Rightarrow> bool" where
  "in_contract c st \<longleftrightarrow>
     list_all (\<lambda>d. findRuntimeBinding c (bd_name d) (bd_kind d) \<noteq> None) (ma_bindings st)
   \<and> list_all (\<lambda>d. findStructureLayout c (sd_name d) \<noteq> None) (ma_structures st)
   \<and> list_all (\<lambda>d. findStructureField c (fd_structureName d) (fd_fieldName d) \<noteq> None)
       (ma_fields st)"

lemma find_None_key: "List.find (\<lambda>x. key x = k) xs = None \<longleftrightarrow> k \<notin> set (map key xs)"
  by (auto simp: find_None_iff)

lemma find_mono_shape:
  assumes "map key xs = map key ys"
  shows "(List.find (\<lambda>x. key x = k) xs = None) = (List.find (\<lambda>x. key x = k) ys = None)"
  using assms by (simp only: find_None_key)

lemma applyBindings_snd:
  "snd (applyBindings src ds r) = [] \<longleftrightarrow> snd r = []
     \<and> list_all (\<lambda>d. findRuntimeBinding (fst r) (bd_name d) (bd_kind d) \<noteq> None) ds"
proof (induction ds arbitrary: r)
  case Nil
  then show ?case by (simp add: applyBindings_def)
next
  case (Cons d ds)
  let ?r = "applyBinding src r d"
  have keep: "(findRuntimeBinding (fst ?r) n k = None) = (findRuntimeBinding (fst r) n k = None)"
    for n k
    unfolding findRuntimeBinding_key
    by (rule find_mono_shape) (simp add: applyBinding_fst map_update_first)
  have "snd ?r = [] \<longleftrightarrow> snd r = [] \<and> findRuntimeBinding (fst r) (bd_name d) (bd_kind d) \<noteq> None"
    by (auto simp: applyBinding_def addWarning_def split: prod.split)
  moreover have "applyBindings src (d # ds) r = applyBindings src ds ?r"
    by (simp add: applyBindings_def)
  ultimately show ?case
    by (auto simp: Cons keep)
qed

lemma applyStructures_snd:
  "snd (applyStructures src ds r) = [] \<longleftrightarrow> snd r = []
     \<and> list_all (\<lambda>d. findStructureLayout (fst r) (sd_name d) \<noteq> None) ds"
proof (induction ds arbitrary: r)
  case Nil
  then show ?case by (simp add: applyStructures_def)
next
  case (Cons d ds)
  let ?r = "applyStructure src r d"
  have keep: "(findStructureLayout (fst ?r) n = None) = (findStructureLayout (fst r) n = None)"
    for n
    unfolding findStructureLayout_def
    by (rule find_mono_shape) (simp add: applyStructure_fst map_update_first)
  have "snd ?r = [] \<longleftrightarrow> snd r = [] \<and> findStructureLayout (fst r) (sd_name d) \<noteq> None"
    by (auto simp: applyStructure_def addWarning_def split: prod.split)
  moreover have "applyStructures src (d # ds) r = applyStructures src ds ?r"
    by (simp add: applyStructures_def)
  ultimately show ?case
    by (auto simp: Cons keep)
qed

text \<open>Which fields there are depends on the shape alone.\<close>

lemma shape_names: "shape ss = shape ss' \<Longrightarrow> map st_name ss = map st_name ss'"
  by (metis (no_types, lifting) map_map shape_def comp_apply fst_conv map_eq_conv)

lemma findStructureField_shape:
  assumes "shape (c_structures c) = shape (c_structures c')"
  shows "(findStructureField c n k = None) = (findStructureField c' n k = None)"
proof -
  have "(case List.find (\<lambda>s. st_name s = n) ss of None \<Rightarrow> None
      | Some s \<Rightarrow> List.find (\<lambda>f. f_name f = k) (st_fields s)) = None
    \<longleftrightarrow> (case map_of (shape ss) n of None \<Rightarrow> True | Some fs \<Rightarrow> k \<notin> set fs)" for ss
    by (induction ss) (auto simp: shape_def find_None_iff)
  then show ?thesis
    using assms by (simp add: findStructureField_def findStructureLayout_def)
qed

lemma findStructureLayout_shape:
  assumes "shape (c_structures c) = shape (c_structures c')"
  shows "(findStructureLayout c n = None) = (findStructureLayout c' n = None)"
  unfolding findStructureLayout_def by (rule find_mono_shape) (rule shape_names [OF assms])

lemma applyFields_snd:
  "snd (applyFields src ds r) = [] \<longleftrightarrow> snd r = []
     \<and> list_all (\<lambda>d. findStructureField (fst r) (fd_structureName d) (fd_fieldName d) \<noteq> None) ds"
proof (induction ds arbitrary: r)
  case Nil
  then show ?case by (simp add: applyFields_def)
next
  case (Cons d ds)
  let ?r = "applyField src r d"
  have "shape (c_structures (fst ?r)) = shape (c_structures (fst r))"
    by (simp add: applyField_fst shape_def map_update_first place_in_def)
  note keep = findStructureField_shape [OF this]
  have "snd ?r = [] \<longleftrightarrow> snd r = []
      \<and> findStructureField (fst r) (fd_structureName d) (fd_fieldName d) \<noteq> None"
    by (auto simp: applyField_def addWarning_def findStructureField_def
        split: prod.split option.split)
  moreover have "applyFields src (d # ds) r = applyFields src ds ?r"
    by (simp add: applyFields_def)
  ultimately show ?case
    by (auto simp: Cons keep)
qed

lemma overlaid_parts:
  obtains bs :: "runtime_binding list" and ss ss' :: "structure_layout list" where
    "fst (overlaid src st) = base_contract st\<lparr>c_bindings := bs, c_structures := ss'\<rparr>"
    "map binding_key bs = map binding_key (c_bindings (base_contract st))"
    "shape ss' = shape (c_structures (base_contract st))"
    "List.find (\<lambda>b. binding_key b = nk) bs
       = map_option (last_wins (\<lambda>d. (bd_name d, bd_kind d) = nk) resolve_binding (ma_bindings st))
           (List.find (\<lambda>b. binding_key b = nk) (c_bindings (base_contract st)))"
    "List.find (\<lambda>s. st_name s = n) ss'
       = map_option (\<lambda>s. s\<lparr>st_fields := placed n (ma_fields st) (st_fields s)\<rparr>)
           (List.find (\<lambda>s. st_name s = n) ss)"
    "List.find (\<lambda>s. st_name s = n) ss
         = map_option (last_wins (\<lambda>d. sd_name d = n) size_structure (ma_structures st))
             (List.find (\<lambda>s. st_name s = n) (c_structures (base_contract st)))"
proof -
  let ?c0 = "base_contract st"
  let ?r1 = "applyBindings src (ma_bindings st) (?c0, [])"
  let ?r2 = "applyStructures src (ma_structures st) ?r1"
  obtain bs where bs: "fst ?r1 = ?c0\<lparr>c_bindings := bs\<rparr>"
    "map binding_key bs = map binding_key (c_bindings ?c0)"
    "List.find (\<lambda>b. binding_key b = nk) bs
       = map_option (last_wins (\<lambda>d. (bd_name d, bd_kind d) = nk) resolve_binding (ma_bindings st))
           (List.find (\<lambda>b. binding_key b = nk) (c_bindings ?c0))"
    using applyBindings_fst [of src "ma_bindings st" "(?c0, [])" nk] by auto
  obtain ss where ss: "fst ?r2 = fst ?r1\<lparr>c_structures := ss\<rparr>"
    "shape ss = shape (c_structures (fst ?r1))"
    "List.find (\<lambda>s. st_name s = n) ss
         = map_option (last_wins (\<lambda>d. sd_name d = n) size_structure (ma_structures st))
             (List.find (\<lambda>s. st_name s = n) (c_structures (fst ?r1)))"
    using applyStructures_fst [of src "ma_structures st" ?r1 n] by blast
  obtain ss' where ss': "fst (overlaid src st) = fst ?r2\<lparr>c_structures := ss'\<rparr>"
    "shape ss' = shape (c_structures (fst ?r2))"
    "List.find (\<lambda>s. st_name s = n) ss'
         = map_option (\<lambda>s. s\<lparr>st_fields := placed n (ma_fields st) (st_fields s)\<rparr>)
             (List.find (\<lambda>s. st_name s = n) (c_structures (fst ?r2)))"
    using applyFields_fst [of src "ma_fields st" ?r2 n] unfolding overlaid_def by blast
  show thesis
    by (rule that [where bs = bs and ss = ss and ss' = ss']) (use bs ss ss' in simp_all)
qed

lemma overlaid_snd: "(snd (overlaid src st) = []) = in_contract (base_contract st) st"
proof -
  let ?c0 = "base_contract st"
  let ?r1 = "applyBindings src (ma_bindings st) (?c0, [])"
  let ?r2 = "applyStructures src (ma_structures st) ?r1"
  have 1: "c_structures (fst ?r1) = c_structures ?c0"
    using applyBindings_fst [of src "ma_bindings st" "(?c0, [])" "([], DataAddress)"] by auto
  have 2: "shape (c_structures (fst ?r2)) = shape (c_structures ?c0)"
    using applyStructures_fst [of src "ma_structures st" ?r1 "[]"] 1 by auto
  show ?thesis
    using findStructureField_shape [OF 2] findStructureLayout_shape [of "fst ?r1" ?c0] 1
    by (auto simp: overlaid_def applyFields_snd applyStructures_snd applyBindings_snd
        in_contract_def)
qed

section \<open>Signed numbers\<close>

lemma stoull_minus:
  assumes "0 < n" "n < 2 ^ 64"
  shows "stoull (CHR ''-'' # nat_to_dec n) = Some (2 ^ 64 - n, Suc (length (nat_to_dec n)))"
proof -
  obtain c r where cr: "nat_to_dec n = c # r" by (cases "nat_to_dec n") auto
  then have "c \<noteq> CHR ''0''" using hd_nat_to_dec [OF assms(1)] by simp
  then have base: "scan_base (nat_to_dec n) = (10, 0, nat_to_dec n)"
    by (simp add: scan_base_def cr starts_with_def)
  have "scan_sign (CHR ''-'' # nat_to_dec n) = (True, 1, nat_to_dec n)"
    by (simp add: scan_sign_def)
  then have "scan_integer (CHR ''-'' # nat_to_dec n) = Some (True, n, Suc (length (nat_to_dec n)))"
    by (simp add: scan_integer_def is_space_def base all_dec_digits digits_value_nat_to_dec)
  then show ?thesis using assms by (simp add: stoull_def)
qed

lemma parseSize_nat: "n < 2 ^ 64 \<Longrightarrow> parseSize (nat_to_dec n) = Some n"
  by (simp add: parseSize_def stoull_nat_to_dec)

lemma parseSize_minus:
  "0 < n \<Longrightarrow> n < 2 ^ 64 \<Longrightarrow> parseSize (CHR ''-'' # nat_to_dec n) = Some (2 ^ 64 - n)"
  by (simp add: parseSize_def stoull_minus)

section \<open>Properties\<close>

text \<open>
  C5. A manifest is a description, never evidence: whatever its text, and whether or not it
  loaded, no binding of the resulting contract carries production evidence and no probe result
  can claim production support with that contract.
\<close>

theorem manifest_never_claims_production:
  "\<not> canClaimProductionSupport probe (m_contract (lr_manifest (loadRuntimeManifest input src)))
   \<and> list_all unproven_binding
       (c_bindings (m_contract (lr_manifest (loadRuntimeManifest input src))))"
proof -
  have "unproven (m_contract (lr_manifest (loadRuntimeManifest input src)))"
    unfolding lr_manifest_contract by (rule overlaid_unproven [OF read_inv])
  then show ?thesis using unproven_refused by (auto simp: unproven_def)
qed

text \<open>
  What the overlay does to the parity contract of the manifest's product: the last directive
  naming a binding, a structure or a field decides it, everything no directive names keeps its
  value, no entry is added, removed or renamed, and a warning is given exactly when some directive
  names something the contract does not have.
\<close>

theorem manifest_overlay_exact:
  "findRuntimeBinding (fst (overlaid src st)) n k
     = map_option (last_wins (\<lambda>d. (bd_name d, bd_kind d) = (n, k)) resolve_binding (ma_bindings st))
         (findRuntimeBinding (base_contract st) n k)
   \<and> map_option (\<lambda>s. (st_size s, st_requirement s, st_evidence s))
         (findStructureLayout (fst (overlaid src st)) sn)
     = map_option (\<lambda>s. (st_size s, st_requirement s, st_evidence s))
         (map_option (last_wins (\<lambda>d. sd_name d = sn) size_structure (ma_structures st))
           (findStructureLayout (base_contract st) sn))
   \<and> findStructureField (fst (overlaid src st)) sn fn
     = map_option (last_wins (\<lambda>d. (fd_structureName d, fd_fieldName d) = (sn, fn)) place_field
           (ma_fields st))
         (findStructureField (base_contract st) sn fn)
   \<and> map binding_key (c_bindings (fst (overlaid src st)))
     = map binding_key (c_bindings (base_contract st))
   \<and> shape (c_structures (fst (overlaid src st))) = shape (c_structures (base_contract st))
   \<and> (snd (overlaid src st) = []) = in_contract (base_contract st) st"
proof -
  obtain bs ss ss' where p:
    "fst (overlaid src st) = base_contract st\<lparr>c_bindings := bs, c_structures := ss'\<rparr>"
    "map binding_key bs = map binding_key (c_bindings (base_contract st))"
    "shape ss' = shape (c_structures (base_contract st))"
    "List.find (\<lambda>b. binding_key b = (n, k)) bs
       = map_option (last_wins (\<lambda>d. (bd_name d, bd_kind d) = (n, k)) resolve_binding
             (ma_bindings st))
           (List.find (\<lambda>b. binding_key b = (n, k)) (c_bindings (base_contract st)))"
    "List.find (\<lambda>s. st_name s = sn) ss'
       = map_option (\<lambda>s. s\<lparr>st_fields := placed sn (ma_fields st) (st_fields s)\<rparr>)
           (List.find (\<lambda>s. st_name s = sn) ss)"
    "List.find (\<lambda>s. st_name s = sn) ss
         = map_option (last_wins (\<lambda>d. sd_name d = sn) size_structure (ma_structures st))
             (List.find (\<lambda>s. st_name s = sn) (c_structures (base_contract st)))"
    by (rule overlaid_parts)
  have flds: "st_fields (last_wins P size_structure ds s) = st_fields s" for P ds s
    by (simp add: last_wins_def split: option.split)
  show ?thesis
    using p(2-) by (auto simp: p(1) findRuntimeBinding_key findStructureLayout_def
        findStructureField_def option.map_comp o_def find_placed flds overlaid_snd
        split: option.split)
qed

text \<open>
  What a consumer may rely on once a manifest has loaded: the product is known and the
  version is given; every declared command and action has its own evidence entry with a known
  status, in the same order; and the manifest either declares no command at all or declares the
  whole surface exactly once, the declared count being that number.
\<close>

theorem loaded_manifest_complete:
  assumes "lr_loaded (loadRuntimeManifest input src)"
    and "m = lr_manifest (loadRuntimeManifest input src)"
  shows "c_product (m_contract m) \<noteq> ProductUnknown \<and> c_version (m_contract m) \<noteq> []
   \<and> map ev_name (m_unitCommandEvidence m) = m_unitCommands m
   \<and> map ev_name (m_gameActionEvidence m) = m_gameActions m
   \<and> known_status (m_unitCommandEvidence m) \<and> known_status (m_gameActionEvidence m)
   \<and> (m_unitCommands m = [] \<and> m_gameActions m = [] \<and> m_commandSurfaceEntries m = 0
      \<or> full_surface (m_unitCommands m) (m_gameActions m) \<and> m_commandSurfaceEntries m = 72)"
proof -
  define st where "st = processLines src 0 (getlines input) empty_accumulator"
  have load: "manifest_errors src st = []" "m = manifest_of st (fst (overlaid src st))"
    using assms by (simp_all add: loadRuntimeManifest_def st_def Let_def split: prod.splits)
  note e = manifest_errors_Nil [OF load(1)]
  obtain bs ss' where "fst (overlaid src st) = base_contract st\<lparr>c_bindings := bs, c_structures := ss'\<rparr>"
    by (rule overlaid_parts)
  then have "c_product (fst (overlaid src st)) = ma_product st"
    "c_version (fst (overlaid src st)) = ma_version st"
    by (simp_all add: base_contract_shape)
  moreover have "reading_inv st" unfolding st_def by (rule read_inv)
  ultimately show ?thesis
    using e by (auto simp: load(2) manifest_of_def reading_inv_def entries_paired_def
        allowsPartialCommandSurface_def size_of_surface)
qed

text \<open>
  The size parser of the manifests reads every decimal number of 64 bits back, but it also
  accepts a minus sign: a field directive with a negative offset or size adds no error and stores
  the number modulo 2^64, although its error text promises to refuse anything but a non-negative
  offset and a positive size.
\<close>

theorem negative_sizes_accepted:
  assumes "0 < n" "n < 2 ^ 64" "0 < k" "k < 2 ^ 64"
    and "splitLastDot name = Some (structureName, fieldName)"
    and "structureName \<noteq> []" "fieldName \<noteq> []"
  shows "parseSize (nat_to_dec n) = Some n
   \<and> fieldDirective src line
       [''field'', name, CHR ''-'' # nat_to_dec n, CHR ''-'' # nat_to_dec k] st
     = st\<lparr>ma_fields := ma_fields st @
         [\<lparr>fd_structureName = structureName, fd_fieldName = fieldName, fd_offset = 2 ^ 64 - n,
           fd_size = 2 ^ 64 - k, fd_line = line\<rparr>]\<rparr>"
  using assms by (simp add: fieldDirective_def parseSize_nat parseSize_minus)

theorem negative_sizes_accepted_witness:
  "fieldDirective ''m'' 7 [''field'', ''BW::CUnit.id'', ''-1'', ''-4''] empty_accumulator
     = empty_accumulator\<lparr>ma_fields :=
         [\<lparr>fd_structureName = ''BW::CUnit'', fd_fieldName = ''id'',
           fd_offset = 18446744073709551615, fd_size = 18446744073709551612, fd_line = 7\<rparr>]\<rparr>"
proof -
  have "splitLastDot ''BW::CUnit.id'' = Some (''BW::CUnit'', ''id'')" by code_simp
  moreover have "nat_to_dec 1 = ''1''" "nat_to_dec 4 = ''4''" by code_simp+
  ultimately show ?thesis
    using negative_sizes_accepted [of 1 4 "''BW::CUnit.id''" "''BW::CUnit''" "''id''"
        "''m''" 7 empty_accumulator]
    by (simp add: empty_accumulator_def)
qed

end
