(* ===== verification/Bootstrap_Manifest.thy ===== *)
theory Bootstrap_Manifest
  imports Manifest_Properties
begin

text \<open>
  The bootstrap manifest (\<open>makeRuntimeBootstrapManifest\<close> in \<open>RuntimeInstallation.cpp\<close>): the text
  the launch and setup tools write for a detected installation, and what the program's own loader
  makes of it.
\<close>

record runtime_installation =
  ri_found :: bool
  ri_product :: product
  ri_platform :: platform
  ri_installRoot :: string
  ri_appBundlePath :: string
  ri_executablePath :: string
  ri_launcherPath :: string
  ri_compatibilityRuntime :: string
  ri_compatibilityRuntimePath :: string
  ri_compatibilityPrefix :: string
  ri_version :: string
  ri_reason :: string
  ri_searchedPaths :: "string list"

definition makeRuntimeEnvironmentForInstallation ::
  "runtime_environment \<Rightarrow> runtime_installation \<Rightarrow> int \<Rightarrow> runtime_environment" where
  "makeRuntimeEnvironmentForInstallation baseEnvironment installation processId =
     baseEnvironment\<lparr>env_platform := ri_platform installation,
       env_product := ri_product installation, env_version := ri_version installation,
       env_executablePath := ri_executablePath installation, env_processId := processId\<rparr>"

definition output_line :: "string \<Rightarrow> string" where
  "output_line s = s @ [CHR 0x0A]"

definition writeAllCommandSurface :: string where
  "writeAllCommandSurface =
     output_line ''# Command surface is intentionally not claimed in the bootstrap manifest.''
   @ output_line ''# Add validated unit-command and game-action directives only after the in-game adapter proves them.''"

definition installedVersion :: "runtime_installation \<Rightarrow> string" where
  "installedVersion installation =
     (if ri_version installation = [] then ''unknown'' else ri_version installation)"

definition optional_line :: "string \<Rightarrow> string \<Rightarrow> string" where
  "optional_line directive value = (if value \<noteq> [] then output_line (directive @ value) else [])"

definition makeRuntimeBootstrapManifest :: "runtime_installation \<Rightarrow> string" where
  "makeRuntimeBootstrapManifest installation =
     output_line ''# Generated StarCraft API runtime bootstrap manifest.''
   @ output_line ''# This manifest records local installation identity only.''
   @ output_line ''# It must not be treated as BWAPI parity evidence until validated in-game bindings are added.''
   @ output_line (''product '' @ product_toString (ri_product installation))
   @ output_line (''version '' @ installedVersion installation)
   @ optional_line ''compatibility-runtime '' (ri_compatibilityRuntime installation)
   @ optional_line ''compatibility-runtime-path '' (ri_compatibilityRuntimePath installation)
   @ optional_line ''compatibility-prefix '' (ri_compatibilityPrefix installation)
   @ output_line ''api-surface-methods 0''
   @ output_line ''command-surface-entries 0''
   @ writeAllCommandSurface"

section \<open>Reading lines\<close>

lemma getlines_line [simp]:
  "CHR 0x0A \<notin> set l \<Longrightarrow> getlines (output_line l @ rest) = l # getlines rest"
  by (induction l) (auto simp: output_line_def)

lemma getlines_whole_line:
  "getlines (output_line l @ rest) = getlines (output_line l) @ getlines rest"
proof (induction l)
  case Nil
  then show ?case by (simp add: output_line_def)
next
  case (Cons c l)
  have "getlines (output_line l) \<noteq> []"
    by (cases l) (auto simp: output_line_def split: list.split)
  then obtain f fs where "getlines (output_line l) = f # fs"
    by (cases "getlines (output_line l)") auto
  with Cons show ?case by (simp add: output_line_def)
qed

lemma getlines_prefix:
  "CHR 0x0A \<notin> set p \<Longrightarrow> p \<noteq> [] \<Longrightarrow> \<exists>l ls. getlines (p @ rest) = (p @ l) # ls"
proof (induction p)
  case Nil
  then show ?case by simp
next
  case (Cons c p)
  show ?case
  proof (cases "p = []")
    case True
    then show ?thesis using Cons.prems by (auto split: list.split)
  next
    case False
    then show ?thesis using Cons by auto
  qed
qed

definition word_text :: "string \<Rightarrow> bool" where
  "word_text s \<longleftrightarrow> s \<noteq> [] \<and> list_all (\<lambda>c. \<not> is_space c \<and> c \<noteq> CHR ''#'') s"

lemma is_space_blank [simp]: "is_space (CHR '' '')"
  by (simp add: is_space_def)

lemma word_textD:
  assumes "word_text s"
  shows "s \<noteq> []" "\<not> is_space (hd s)" "\<not> is_space (last s)" "CHR 0x0A \<notin> set s"
    "c \<in> set s \<Longrightarrow> \<not> is_space c" "c \<in> set s \<Longrightarrow> c \<noteq> CHR ''#''"
  using assms by (auto simp: word_text_def list_all_iff is_space_def)

lemma splitWhitespace_Nil [simp]: "splitWhitespace [] = []"
  by (simp add: splitWhitespace.simps)

lemma splitWhitespace_word:
  assumes "word_text w" and "rest = [] \<or> is_space (hd rest)"
  shows "splitWhitespace (w @ rest) = w # splitWhitespace rest"
proof -
  have "dropWhile is_space (w @ rest) = w @ rest"
    using word_textD [OF assms(1)] by (cases w) auto
  moreover have "takeWhile non_space (w @ rest) = w"
    using word_textD(5) [OF assms(1)] assms(2)
    by (cases rest) (simp_all add: takeWhile_append2 takeWhile_eq_all_conv)
  moreover have "dropWhile non_space (w @ rest) = rest"
    using word_textD(5) [OF assms(1)] assms(2)
    by (cases rest) (simp_all add: dropWhile_append2)
  ultimately show ?thesis
    using word_textD(1) [OF assms(1)] by (subst splitWhitespace.simps) simp
qed

lemma splitWhitespace_blank: "splitWhitespace (CHR '' '' # rest) = splitWhitespace rest"
  by (subst (1 2) splitWhitespace.simps) simp

lemma dropWhile_stop: "dropWhile P b = b \<Longrightarrow> dropWhile P (a @ b) = dropWhile P a @ b"
  by (induction a) auto

lemma trim_word_rest:
  assumes "word_text w"
  obtains y where "trim (w @ CHR '' '' # x) = w @ y" "y = [] \<or> is_space (hd y)"
proof -
  have w: "w \<noteq> []" "\<not> is_space (hd w)" "\<not> is_space (last w)" using word_textD [OF assms] by auto
  have first: "dropWhile is_space (w @ CHR '' '' # x) = w @ CHR '' '' # x"
    using w by (cases w) auto
  let ?r = "rev x @ [CHR '' '']"
  have "rev (w @ CHR '' '' # x) = ?r @ rev w" by simp
  moreover have stop: "dropWhile is_space (rev w) = rev w"
    using w by (cases "rev w") (auto simp: hd_rev [symmetric])
  ultimately have drop: "dropWhile is_space (rev (w @ CHR '' '' # x))
      = dropWhile is_space ?r @ rev w"
    using dropWhile_stop [OF stop, of ?r] by simp
  show thesis
  proof (rule that)
    show "trim (w @ CHR '' '' # x) = w @ rev (dropWhile is_space ?r)"
      using first drop by (simp add: trim_def)
    have "takeWhile is_space ?r @ dropWhile is_space ?r = ?r" by simp
    then have "dropWhile is_space ?r = [] \<or> last (dropWhile is_space ?r) = CHR '' ''"
      by (metis last_appendR last_snoc)
    then show "rev (dropWhile is_space ?r) = [] \<or> is_space (hd (rev (dropWhile is_space ?r)))"
      by (auto simp: hd_rev)
  qed
qed

lemma takeWhile_word:
  "word_text w \<Longrightarrow> takeWhile (\<lambda>c. c \<noteq> CHR ''#'') (w @ rest) = w @ takeWhile (\<lambda>c. c \<noteq> CHR ''#'') rest"
  using word_textD(6) by (simp add: takeWhile_append2)

lemma processLine_comment [simp]: "processLine src n (CHR ''#'' # l) st = st"
  by (simp add: processLine_def trim_def)

lemma processLine_directive:
  assumes "word_text w"
  shows "\<exists>ts. processLine src n (w @ CHR '' '' # x) st = processTokens src n (w # ts) st"
proof -
  obtain y where y: "trim (w @ CHR '' '' # takeWhile (\<lambda>c. c \<noteq> CHR ''#'') x) = w @ y"
    "y = [] \<or> is_space (hd y)"
    by (rule trim_word_rest [OF assms])
  then show ?thesis
    using word_textD(1) [OF assms] splitWhitespace_word [OF assms y(2)]
    by (auto simp: processLine_def Let_def takeWhile_word [OF assms])
qed

lemma trim_two:
  assumes "word_text w" "word_text v"
  shows "trim (w @ CHR '' '' # v) = w @ CHR '' '' # v"
proof -
  have "dropWhile is_space (w @ CHR '' '' # v) = w @ CHR '' '' # v"
    using word_textD(1,2) [OF assms(1)] by (cases w) auto
  moreover have "dropWhile is_space (rev v @ CHR '' '' # rev w) = rev v @ CHR '' '' # rev w"
    using word_textD(1,3) [OF assms(2)] by (cases "rev v") (auto simp: hd_rev [symmetric])
  ultimately show ?thesis by (simp add: trim_def)
qed

lemma processLine_value:
  assumes "word_text w" "word_text v"
  shows "processLine src n (w @ CHR '' '' # v) st = processTokens src n [w, v] st"
proof -
  have all: "takeWhile (\<lambda>c. c \<noteq> CHR ''#'') v = v"
    using word_textD(6) [OF assms(2)] by (simp add: takeWhile_eq_all_conv)
  have "splitWhitespace (w @ CHR '' '' # v) = [w, v]"
    using splitWhitespace_word [OF assms(1), of "CHR '' '' # v"]
      splitWhitespace_word [OF assms(2), of "[]"] by (simp add: splitWhitespace_blank)
  then show ?thesis
    using word_textD(1) [OF assms(1)]
    by (simp add: processLine_def Let_def takeWhile_word [OF assms(1)] trim_two [OF assms] all)
qed

section \<open>Errors are never withdrawn\<close>

lemma addError_errors [simp]: "ma_errors (addError src n text st) \<noteq> []"
  by (simp add: addError_def)

lemma directive_errors:
  assumes "ma_errors st \<noteq> []"
  shows "ma_errors (productDirective src n ts st) \<noteq> []"
    "ma_errors (versionDirective src n ts st) \<noteq> []"
    "ma_errors (apiSurfaceDirective src n ts st) \<noteq> []"
    "ma_errors (commandSurfaceDirective src n ts st) \<noteq> []"
    "ma_errors (capabilityDirective src n ts st) \<noteq> []"
    "ma_errors (unitCommandDirective src n ts st) \<noteq> []"
    "ma_errors (gameActionDirective src n ts st) \<noteq> []"
    "ma_errors (bindingDirective src n ts st) \<noteq> []"
    "ma_errors (structureDirective src n ts st) \<noteq> []"
    "ma_errors (fieldDirective src n ts st) \<noteq> []"
  using assms
  by (simp_all add: productDirective_def versionDirective_def apiSurfaceDirective_def
      commandSurfaceDirective_def capabilityDirective_def unitCommandDirective_def
      gameActionDirective_def bindingDirective_def structureDirective_def fieldDirective_def
      Let_def split: option.split)

lemma processTokens_errors:
  "ma_errors st \<noteq> [] \<Longrightarrow> ma_errors (processTokens src n ts st) \<noteq> []"
  by (simp add: processTokens_def Let_def directive_errors)

lemma processLines_errors:
  "ma_errors st \<noteq> [] \<Longrightarrow> ma_errors (processLines src n ls st) \<noteq> []"
  by (induction ls arbitrary: n st) (auto simp: processLine_def Let_def processTokens_errors)

lemma processLines_append:
  "processLines src n (ls @ ms) st = processLines src (n + length ls) ms (processLines src n ls st)"
  by (induction ls arbitrary: n st) simp_all

lemma unknown_directive_errors:
  assumes "word_text w" and "\<And>ts. ma_errors (processTokens src (n + 1) (w # ts) st) \<noteq> []"
  shows "ma_errors (processLines src n (getlines ((w @ '' '') @ rest)) st) \<noteq> []"
proof -
  have "CHR 0x0A \<notin> set (w @ '' '')" using word_textD(4) [OF assms(1)] by simp
  then obtain l ls where "getlines ((w @ '' '') @ rest) = ((w @ '' '') @ l) # ls"
    using getlines_prefix [of "w @ '' ''" rest] by auto
  moreover obtain ts where
    "processLine src (n + 1) (w @ CHR '' '' # l) st = processTokens src (n + 1) (w # ts) st"
    using processLine_directive [OF assms(1)] by blast
  ultimately show ?thesis
    using assms(2) by (simp add: processLines_errors)
qed

section \<open>Loading the generated manifest\<close>

lemma keyword_texts:
  "word_text ''product''" "word_text ''version''" "word_text ''compatibility-runtime''"
  "word_text ''compatibility-runtime-path''" "word_text ''compatibility-prefix''"
  "word_text ''api-surface-methods''" "word_text ''command-surface-entries''"
  "word_text ''unknown''" "word_text ''0''"
  by (simp_all add: word_text_def is_space_def)

lemma product_text: "word_text (product_toString p)"
  by (cases p) (simp_all add: word_text_def is_space_def)

text \<open>The state after the first five lines.\<close>

definition identified :: "runtime_installation \<Rightarrow> string \<Rightarrow> accumulator" where
  "identified installation src =
     (let st = empty_accumulator\<lparr>ma_product := ri_product installation\<rparr>;
          st = (if ri_product installation = ProductUnknown
                then addError src 4 (''unknown product: '' @ product_toString (ri_product installation)) st
                else st)
      in st\<lparr>ma_version := installedVersion installation\<rparr>)"

lemma product_line:
  "processLine src n (''product '' @ product_toString p) st
     = productDirective src n [''product'', product_toString p] st"
  using processLine_value [OF keyword_texts(1) product_text, of src n p st]
  by (simp add: processTokens_def)

lemma version_line:
  "word_text v \<Longrightarrow> processLine src n (''version '' @ v) st = st\<lparr>ma_version := v\<rparr>"
  using processLine_value [OF keyword_texts(2), of v src n st]
  by (simp add: processTokens_def versionDirective_def)

lemma parse_zero: "parseInt ''0'' = Some 0"
  using stoull_nat_to_dec [of 0] by (simp add: nat_to_dec_zero parseInt_def parseSize_def)

lemma api_line:
  "processLine src n ''api-surface-methods 0'' st
     = st\<lparr>ma_apiSurfaceMethods := 0, ma_hasApiSurfaceMethods := True\<rparr>"
  using processLine_value [OF keyword_texts(6) keyword_texts(9), of src n st]
  by (simp add: processTokens_def apiSurfaceDirective_def parse_zero)

lemma entries_line:
  "processLine src n ''command-surface-entries 0'' st
     = st\<lparr>ma_commandSurfaceEntries := 0, ma_hasCommandSurfaceEntries := True\<rparr>"
  using processLine_value [OF keyword_texts(7) keyword_texts(9), of src n st]
  by (simp add: processTokens_def commandSurfaceDirective_def parse_zero)

lemma newline_texts:
  "CHR 0x0A \<notin> set (product_toString p)" "word_text v \<Longrightarrow> CHR 0x0A \<notin> set v"
  using word_textD(4) [OF product_text] word_textD(4) by simp_all

lemmas identity_lines =
  product_line [simplified] version_line [simplified] newline_texts

text \<open>The lines after the version.\<close>

definition after_version :: "runtime_installation \<Rightarrow> string" where
  "after_version installation =
     optional_line ''compatibility-runtime '' (ri_compatibilityRuntime installation)
   @ optional_line ''compatibility-runtime-path '' (ri_compatibilityRuntimePath installation)
   @ optional_line ''compatibility-prefix '' (ri_compatibilityPrefix installation)
   @ output_line ''api-surface-methods 0''
   @ output_line ''command-surface-entries 0''
   @ writeAllCommandSurface"

lemma bootstrap_head:
  assumes "word_text (installedVersion inst)"
  shows "processLines src 0 (getlines (makeRuntimeBootstrapManifest inst)) empty_accumulator
    = processLines src 5 (getlines (after_version inst)) (identified inst src)"
  using assms
  by (simp add: makeRuntimeBootstrapManifest_def after_version_def identity_lines
      productDirective_def parseProduct_print identified_def Let_def numeral_eq_Suc
      split del: if_split cong: if_cong)

text \<open>A line of the compatibility block: its directive is none the loader knows.\<close>

lemma compatibility_unknown:
  assumes "w \<in> {''compatibility-runtime'', ''compatibility-runtime-path'', ''compatibility-prefix''}"
    and "value \<noteq> []"
  shows "ma_errors (processLines src n (getlines (optional_line (w @ '' '') value @ rest)) st) \<noteq> []"
proof -
  have "word_text w" using assms(1) by (elim insertE emptyE) (simp_all only: keyword_texts)
  moreover have "ma_errors (processTokens src (n + 1) (w # ts) st) \<noteq> []" for ts
    using assms(1) by (elim insertE emptyE) (simp_all add: processTokens_def)
  ultimately have "ma_errors (processLines src n
      (getlines ((w @ '' '') @ (value @ [CHR 0x0A] @ rest))) st) \<noteq> []"
    by (rule unknown_directive_errors)
  then show ?thesis
    using assms(2) by (simp add: optional_line_def output_line_def)
qed

lemma optional_line_Nil [simp]: "optional_line d [] = []"
  by (simp add: optional_line_def)

definition no_compatibility :: "runtime_installation \<Rightarrow> bool" where
  "no_compatibility inst \<longleftrightarrow> ri_compatibilityRuntime inst = []
     \<and> ri_compatibilityRuntimePath inst = [] \<and> ri_compatibilityPrefix inst = []"

lemma after_version_refused:
  assumes "\<not> no_compatibility inst"
  shows "ma_errors (processLines src n (getlines (after_version inst)) st) \<noteq> []"
proof -
  consider "ri_compatibilityRuntime inst \<noteq> []"
    | "ri_compatibilityRuntime inst = []" "ri_compatibilityRuntimePath inst \<noteq> []"
    | "ri_compatibilityRuntime inst = []" "ri_compatibilityRuntimePath inst = []"
      "ri_compatibilityPrefix inst \<noteq> []"
    using assms by (auto simp: no_compatibility_def)
  then show ?thesis
  proof cases
    case 1
    then show ?thesis
      using compatibility_unknown [of "''compatibility-runtime''"] by (simp add: after_version_def)
  next
    case 2
    then show ?thesis
      using compatibility_unknown [of "''compatibility-runtime-path''"]
      by (simp add: after_version_def)
  next
    case 3
    then show ?thesis
      using compatibility_unknown [of "''compatibility-prefix''"] by (simp add: after_version_def)
  qed
qed

text \<open>The text up to the version line, which may hold line breaks of its own.\<close>

lemma bootstrap_refused:
  assumes "\<not> no_compatibility inst"
  shows "\<not> lr_loaded (loadRuntimeManifest (makeRuntimeBootstrapManifest inst) src)"
proof -
  have suffix: "\<exists>ls. getlines rest = ls @ tail \<Longrightarrow> \<exists>ls. getlines (output_line l @ rest) = ls @ tail"
    for l rest tail
    using getlines_whole_line [of l rest] by auto
  have "\<exists>ls. getlines (makeRuntimeBootstrapManifest inst) = ls @ getlines (after_version inst)"
    unfolding makeRuntimeBootstrapManifest_def after_version_def [symmetric]
    by (intro suffix) simp
  then obtain ls where "getlines (makeRuntimeBootstrapManifest inst)
      = ls @ getlines (after_version inst)" ..
  then have "ma_errors (processLines src 0 (getlines (makeRuntimeBootstrapManifest inst))
      empty_accumulator) \<noteq> []"
    using after_version_refused [OF assms] by (simp add: processLines_append)
  then show ?thesis
    by (simp add: loadRuntimeManifest_def Let_def manifest_errors_def split: prod.split)
qed

lemma after_version_read:
  assumes "no_compatibility inst"
  shows "processLines src n (getlines (after_version inst)) st
    = st\<lparr>ma_apiSurfaceMethods := 0, ma_hasApiSurfaceMethods := True,
         ma_commandSurfaceEntries := 0, ma_hasCommandSurfaceEntries := True\<rparr>"
proof -
  have "getlines (after_version inst) = [''api-surface-methods 0'', ''command-surface-entries 0'',
      ''# Command surface is intentionally not claimed in the bootstrap manifest.'',
      ''# Add validated unit-command and game-action directives only after the in-game adapter proves them.'']"
    using assms getlines_line [of "''# Add validated unit-command and game-action directives only after the in-game adapter proves them.''" "[]"]
    by (simp add: after_version_def no_compatibility_def writeAllCommandSurface_def)
  then show ?thesis by (simp add: api_line entries_line)
qed

lemma bootstrap_load_result:
  assumes "ri_version inst = [] \<or> word_text (ri_version inst)"
  shows "lr_loaded (loadRuntimeManifest (makeRuntimeBootstrapManifest inst) src)
     = (ri_product inst \<noteq> ProductUnknown \<and> no_compatibility inst)
   \<and> (no_compatibility inst \<longrightarrow>
        lr_manifest (loadRuntimeManifest (makeRuntimeBootstrapManifest inst) src)
          = manifest_of empty_accumulator
              (base_contract (empty_accumulator\<lparr>ma_product := ri_product inst,
                 ma_version := installedVersion inst\<rparr>)))"
proof -
  have word: "word_text (installedVersion inst)"
    using assms keyword_texts by (auto simp: installedVersion_def)
  note ver = word_textD(1) [OF word]
  let ?st = "processLines src 0 (getlines (makeRuntimeBootstrapManifest inst)) empty_accumulator"
  show ?thesis
  proof (cases "no_compatibility inst")
    case False
    then have "ma_errors ?st \<noteq> []"
      by (simp add: bootstrap_head [OF word] after_version_refused)
    then have "manifest_errors src ?st \<noteq> []" by (simp add: manifest_errors_def)
    then show ?thesis using False by (simp add: loadRuntimeManifest_def Let_def split: prod.split)
  next
    case True
    have st: "?st = identified inst src\<lparr>ma_apiSurfaceMethods := 0,
        ma_hasApiSurfaceMethods := True, ma_commandSurfaceEntries := 0,
        ma_hasCommandSurfaceEntries := True\<rparr>"
      by (simp add: bootstrap_head [OF word] after_version_read [OF True])
    have parts: "ma_product ?st = ri_product inst" "ma_version ?st = installedVersion inst"
      "ma_bindings ?st = []" "ma_structures ?st = []" "ma_fields ?st = []"
      "ma_capabilities ?st = []" "ma_unitCommands ?st = []" "ma_gameActions ?st = []"
      "ma_unitCommandEvidence ?st = []" "ma_gameActionEvidence ?st = []"
      "ma_apiSurfaceMethods ?st = 0" "ma_commandSurfaceEntries ?st = 0"
      "ma_hasApiSurfaceMethods ?st" "ma_hasCommandSurfaceEntries ?st"
      "(ma_errors ?st = []) = (ri_product inst \<noteq> ProductUnknown)"
      unfolding st by (simp_all add: identified_def Let_def empty_accumulator_def addError_def)
    have "(manifest_errors src ?st = []) = (ri_product inst \<noteq> ProductUnknown)"
      using ver by (simp add: manifest_errors_def parts allowsPartialCommandSurface_def)
    moreover have "overlaid src ?st = (base_contract ?st, [])"
      by (simp add: overlaid_def parts applyFields_def applyStructures_def applyBindings_def)
    moreover have "base_contract ?st = base_contract (empty_accumulator\<lparr>ma_product :=
        ri_product inst, ma_version := installedVersion inst\<rparr>)"
      by (simp add: base_contract_def parts)
    moreover have "manifest_of ?st c = manifest_of empty_accumulator c" for c
      unfolding manifest_of_def parts by (simp add: empty_accumulator_def)
    ultimately show ?thesis
      using True by (simp add: loadRuntimeManifest_def Let_def)
  qed
qed

text \<open>A 1.16.1 installation found on Linux, and a Remastered one.\<close>

definition wine_installation :: runtime_installation where
  "wine_installation =
     \<lparr>ri_found = True, ri_product = StarCraftBroodWar1161, ri_platform = Linux,
      ri_installRoot = ''/opt/bw'', ri_appBundlePath = [],
      ri_executablePath = ''/opt/bw/StarCraft.exe'', ri_launcherPath = [],
      ri_compatibilityRuntime = ''wine'', ri_compatibilityRuntimePath = ''/usr/bin/wine'',
      ri_compatibilityPrefix = [], ri_version = ''1.16.1'', ri_reason = [],
      ri_searchedPaths = []\<rparr>"

definition remastered_installation :: runtime_installation where
  "remastered_installation = wine_installation\<lparr>ri_product := StarCraftRemastered,
     ri_compatibilityRuntime := [], ri_compatibilityRuntimePath := [], ri_version := []\<rparr>"

section \<open>Properties\<close>

text \<open>
  C37. The bootstrap manifest the tools write for an installation against the program's own loader.
  For an installation with a compatibility runtime, path or prefix (under Wine) the generated text
  contains directives the loader does not know, so it is refused whatever the product, the version
  and the rest are. Without them, and with a version that is empty or one word (no blank, no
  comment sign), it is loaded exactly when the product is known; the manifest then carries the
  product and the version over (\<open>unknown\<close> for an empty one) and claims nothing else.
\<close>

theorem bootstrap_manifest_loads:
  "(\<not> no_compatibility inst \<longrightarrow>
      \<not> lr_loaded (loadRuntimeManifest (makeRuntimeBootstrapManifest inst) src))
   \<and> (no_compatibility inst \<longrightarrow> ri_version inst = [] \<or> word_text (ri_version inst) \<longrightarrow>
        lr_loaded (loadRuntimeManifest (makeRuntimeBootstrapManifest inst) src)
          = (ri_product inst \<noteq> ProductUnknown)
      \<and> lr_manifest (loadRuntimeManifest (makeRuntimeBootstrapManifest inst) src)
          = manifest_of empty_accumulator
              (base_contract (empty_accumulator\<lparr>ma_product := ri_product inst,
                 ma_version := installedVersion inst\<rparr>)))"
  using bootstrap_load_result bootstrap_refused by blast

theorem bootstrap_manifest_loads_witness:
  "\<not> lr_loaded (loadRuntimeManifest (makeRuntimeBootstrapManifest wine_installation) ''m'')
   \<and> lr_loaded (loadRuntimeManifest (makeRuntimeBootstrapManifest remastered_installation) ''m'')"
  using bootstrap_manifest_loads [of wine_installation "''m''"]
    bootstrap_manifest_loads [of remastered_installation "''m''"]
  by (simp add: wine_installation_def remastered_installation_def no_compatibility_def
      word_text_def is_space_def)

theorem loaded_manifest_complete_witness:
  "ri_product remastered_installation = StarCraftRemastered
   \<and> c_product (m_contract (lr_manifest (loadRuntimeManifest
       (makeRuntimeBootstrapManifest remastered_installation) ''m''))) \<noteq> ProductUnknown"
proof -
  have "lr_loaded (loadRuntimeManifest (makeRuntimeBootstrapManifest remastered_installation) ''m'')"
    using bootstrap_load_result [of remastered_installation "''m''"]
    by (simp add: wine_installation_def remastered_installation_def no_compatibility_def)
  from loaded_manifest_complete [OF this refl] show ?thesis
    by (simp add: remastered_installation_def)
qed

end
