(* ===== verification/Runtime_Readiness.thy ===== *)
theory Runtime_Readiness
  imports Contract_Properties
begin

text \<open>
  The production-readiness report (\<open>RuntimeReadiness.h/.cpp\<close>) and the result of the executor
  preflight it reads (\<open>RuntimeExecutor.h\<close>): nineteen checks in a fixed order, each with its detail
  text, and the verdict that no check of severity error has failed.
\<close>

section \<open>The executor's preflight result\<close>

record preflight_result =
  pf_contractValid :: bool
  pf_processIdentified :: bool
  pf_memoryAccessible :: bool
  pf_targetLocated :: bool
  pf_executorAvailable :: bool
  pf_executorName :: string
  pf_executorBridgeMode :: string
  pf_memoryAccessReason :: string
  pf_provenCapabilities :: "capability list"
  pf_missingBehaviorProofs :: "string list"
  pf_errors :: "string list"
  pf_warnings :: "string list"

definition default_preflight :: preflight_result where
  "default_preflight =
     \<lparr>pf_contractValid = False, pf_processIdentified = False, pf_memoryAccessible = False,
      pf_targetLocated = False, pf_executorAvailable = False, pf_executorName = [],
      pf_executorBridgeMode = [], pf_memoryAccessReason = [], pf_provenCapabilities = [],
      pf_missingBehaviorProofs = [], pf_errors = [], pf_warnings = []\<rparr>"

definition BridgeValidatedAdapterMode :: string where
  "BridgeValidatedAdapterMode = ''validated-runtime-adapter''"

section \<open>Checks\<close>

datatype readiness_severity = SeverityInfo | SeverityWarning | SeverityError

fun severity_toString :: "readiness_severity \<Rightarrow> string" where
  "severity_toString SeverityInfo = ''info''"
| "severity_toString SeverityWarning = ''warning''"
| "severity_toString SeverityError = ''error''"

record readiness_check =
  rc_id :: string
  rc_passed :: bool
  rc_severity :: readiness_severity
  rc_detail :: string

record readiness_report =
  rr_productionReady :: bool
  rr_checks :: "readiness_check list"

definition addCheck ::
  "string \<Rightarrow> bool \<Rightarrow> readiness_severity \<Rightarrow> string \<Rightarrow> readiness_report \<Rightarrow> readiness_report" where
  "addCheck name passed severity detail report =
     report\<lparr>rr_checks := rr_checks report @
       [\<lparr>rc_id = name, rc_passed = passed, rc_severity = severity, rc_detail = detail\<rparr>]\<rparr>"

fun join :: "string list \<Rightarrow> string" where
  "join [] = []"
| "join [v] = v"
| "join (v # w # vs) = v @ ''; '' @ join (w # vs)"

definition requiresCapability :: "runtime_contract \<Rightarrow> capability \<Rightarrow> bool" where
  "requiresCapability contract capability \<longleftrightarrow> capability \<in> set (c_requiredCapabilities contract)"

definition missingCapabilities :: "probe_result \<Rightarrow> runtime_contract \<Rightarrow> string list" where
  "missingCapabilities probe contract =
     map capability_toString
       (filter (\<lambda>c. \<not> hasCapability probe c) (c_requiredCapabilities contract))"

definition missingEntries :: "string list \<Rightarrow> string list \<Rightarrow> string list" where
  "missingEntries required actual = filter (\<lambda>entry. entry \<notin> set actual) required"

definition nonProductionCommandEvidence ::
  "string list \<Rightarrow> command_evidence list \<Rightarrow> string list" where
  "nonProductionCommandEvidence required evidenceEntries =
     map (\<lambda>entry. entry @ ''=''
            @ evidence_toString (commandEvidenceStatusFor evidenceEntries entry))
       (filter (\<lambda>entry. \<not> isProductionCommandEvidenceStatus
                   (commandEvidenceStatusFor evidenceEntries entry)) required)"

definition countDetail :: "int \<Rightarrow> int \<Rightarrow> string \<Rightarrow> string" where
  "countDetail actual required label =
     label @ '' implemented='' @ int_to_dec actual @ '' required='' @ int_to_dec required"

definition isBlocking :: "readiness_check \<Rightarrow> bool" where
  "isBlocking check \<longleftrightarrow> rc_severity check = SeverityError \<and> \<not> rc_passed check"

definition hasBlockingFailures :: "readiness_report \<Rightarrow> bool" where
  "hasBlockingFailures report \<longleftrightarrow> list_ex isBlocking (rr_checks report)"

definition blockingReadinessGaps :: "readiness_report \<Rightarrow> readiness_check list" where
  "blockingReadinessGaps report = filter isBlocking (rr_checks report)"

section \<open>The report\<close>

text \<open>The contract's half of the checks, up to the required capabilities.\<close>

definition contractChecks ::
  "probe_result \<Rightarrow> runtime_contract \<Rightarrow> readiness_report \<Rightarrow> readiness_report" where
  "contractChecks probe contract report =
     (let validation = validateRuntimeContract contract;
          productionEvidenceErrors = contractProductionEvidenceErrors contract;
          commandSurface = makeBWAPICommandSurface;
          missingUnitCommands =
            missingEntries (unitCommands commandSurface) (pr_unitCommands probe);
          nonLiveUnitCommands =
            nonProductionCommandEvidence (unitCommands commandSurface)
              (pr_unitCommandEvidence probe);
          missingGameActions =
            missingEntries (gameActions commandSurface) (pr_gameActions probe);
          nonLiveGameActions =
            nonProductionCommandEvidence (gameActions commandSurface)
              (pr_gameActionEvidence probe);
          missingCapabilityNames = missingCapabilities probe contract;
          report = addCheck ''backend-supported'' (pr_supported probe) SeverityError
            (if pr_supported probe then ''runtime backend claims support'' else pr_reason probe)
            report;
          report = addCheck ''contract-valid'' (cv_valid validation) SeverityError
            (if cv_valid validation
             then ''runtime contract has resolved required bindings and layouts''
             else join (cv_errors validation)) report;
          report = addCheck ''contract-production-evidence'' (productionEvidenceErrors = [])
            SeverityError
            (if productionEvidenceErrors = []
             then ''all resolved runtime contract entries use production proof evidence''
             else join productionEvidenceErrors) report;
          report = addCheck ''api-surface-complete''
            (pr_apiSurfaceMethods probe \<ge> c_requiredApiSurfaceMethods contract) SeverityError
            (countDetail (pr_apiSurfaceMethods probe) (c_requiredApiSurfaceMethods contract)
               ''BWAPI abstract methods'') report;
          report = addCheck ''command-surface-count-complete''
            (pr_commandSurfaceEntries probe \<ge> c_requiredCommandSurfaceEntries contract)
            SeverityError
            (countDetail (pr_commandSurfaceEntries probe)
               (c_requiredCommandSurfaceEntries contract) ''BWAPI command/action entries'') report;
          report = addCheck ''unit-command-surface-complete'' (missingUnitCommands = [])
            SeverityError
            (if missingUnitCommands = [] then ''all BWAPI unit commands are implemented by name''
             else join missingUnitCommands) report;
          report = addCheck ''unit-command-evidence-live'' (nonLiveUnitCommands = []) SeverityError
            (if nonLiveUnitCommands = []
             then ''all BWAPI unit commands have live-proven behavior evidence''
             else join nonLiveUnitCommands) report;
          report = addCheck ''game-action-surface-complete'' (missingGameActions = [])
            SeverityError
            (if missingGameActions = []
             then ''all BWAPI game action methods are implemented by name''
             else join missingGameActions) report;
          report = addCheck ''game-action-evidence-live'' (nonLiveGameActions = []) SeverityError
            (if nonLiveGameActions = []
             then ''all BWAPI game actions have live-proven behavior evidence''
             else join nonLiveGameActions) report
      in addCheck ''required-capabilities-present'' (missingCapabilityNames = []) SeverityError
           (if missingCapabilityNames = [] then ''all required runtime capabilities are present''
            else join missingCapabilityNames) report)"

definition memoryAccessDetail :: "bool \<Rightarrow> preflight_result \<Rightarrow> string" where
  "memoryAccessDetail requiresMemoryAccess pf =
     (if \<not> requiresMemoryAccess
      then ''process memory access is not required by this runtime contract''
      else (if pf_memoryAccessible pf then ''target runtime process memory access is available''
            else ''target runtime process memory access is unavailable'')
         @ (if pf_memoryAccessReason pf \<noteq> [] then '': '' @ pf_memoryAccessReason pf else []))"

definition bridgeModeValid :: "preflight_result \<Rightarrow> bool" where
  "bridgeModeValid pf \<longleftrightarrow>
     pf_executorBridgeMode pf = [] \<or> pf_executorBridgeMode pf = BridgeValidatedAdapterMode"

definition bridgeModeDetail :: "preflight_result \<Rightarrow> string" where
  "bridgeModeDetail pf =
     (if pf_executorBridgeMode pf = [] then ''executor did not report filesystem bridge mode''
      else if bridgeModeValid pf then ''filesystem bridge mode is validated-runtime-adapter''
      else ''filesystem bridge mode is '' @ pf_executorBridgeMode pf @ ''; expected ''
             @ BridgeValidatedAdapterMode)"

definition behaviorProofComplete :: "preflight_result \<Rightarrow> bool" where
  "behaviorProofComplete pf \<longleftrightarrow> pf_executorAvailable pf \<and> pf_missingBehaviorProofs pf = []"

definition behaviorProofDetail :: "preflight_result \<Rightarrow> string" where
  "behaviorProofDetail pf =
     (if behaviorProofComplete pf then ''all required executor behavior proofs are present''
      else if pf_missingBehaviorProofs pf \<noteq> [] then join (pf_missingBehaviorProofs pf)
      else ''runtime executor is unavailable; behavior proofs cannot be complete'')"

text \<open>The executor's half.\<close>

definition executorChecks ::
  "runtime_contract \<Rightarrow> preflight_result \<Rightarrow> readiness_report \<Rightarrow> readiness_report" where
  "executorChecks contract pf report =
     (let report = addCheck ''executor-contract-valid'' (pf_contractValid pf) SeverityError
            (if pf_contractValid pf then ''executor accepted runtime contract''
             else ''executor rejected runtime contract'') report;
          report = addCheck ''runtime-process-identified'' (pf_processIdentified pf) SeverityError
            (if pf_processIdentified pf then ''target runtime process is identified''
             else ''target runtime process is not identified'') report;
          requiresMemoryAccess = requiresCapability contract SharedMemoryClient;
          report = addCheck ''runtime-memory-accessible''
            (\<not> requiresMemoryAccess \<or> pf_memoryAccessible pf) SeverityError
            (memoryAccessDetail requiresMemoryAccess pf) report;
          report = addCheck ''runtime-target-located'' (pf_targetLocated pf) SeverityError
            (if pf_targetLocated pf then ''target executable or runtime image is located''
             else ''target executable or runtime image is not located'') report;
          report = addCheck ''executor-available'' (pf_executorAvailable pf) SeverityError
            (if pf_executorAvailable pf then ''authorized runtime executor is available''
             else ''authorized runtime executor is not available'') report;
          report = addCheck ''executor-bridge-mode-valid'' (bridgeModeValid pf) SeverityError
            (bridgeModeDetail pf) report;
          report = addCheck ''executor-behavior-proof-complete'' (behaviorProofComplete pf)
            SeverityError (behaviorProofDetail pf) report;
          report = addCheck ''executor-preflight-clean'' (pf_errors pf = []) SeverityError
            (if pf_errors pf = [] then ''executor preflight has no blocking errors''
             else join (pf_errors pf)) report
      in addCheck ''executor-preflight-warnings'' (pf_warnings pf = []) SeverityWarning
           (if pf_warnings pf = [] then ''executor preflight has no warnings''
            else join (pf_warnings pf)) report)"

definition evaluateProductionReadiness ::
  "probe_result \<Rightarrow> runtime_contract \<Rightarrow> preflight_result \<Rightarrow> readiness_report" where
  "evaluateProductionReadiness probe contract executorPreflight =
     (let report = executorChecks contract executorPreflight
            (contractChecks probe contract \<lparr>rr_productionReady = False, rr_checks = []\<rparr>)
      in report\<lparr>rr_productionReady := \<not> hasBlockingFailures report\<rparr>)"

section \<open>What the checks decide\<close>

lemma addCheck_blocking:
  "list_ex isBlocking (rr_checks (addCheck name passed sev detail r)) \<longleftrightarrow>
     list_ex isBlocking (rr_checks r) \<or> (sev = SeverityError \<and> \<not> passed)"
  by (auto simp: addCheck_def isBlocking_def)

lemma missingCapabilities_Nil:
  "missingCapabilities probe c = [] \<longleftrightarrow> set (c_requiredCapabilities c) \<subseteq> set (pr_capabilities probe)"
  by (auto simp: missingCapabilities_def hasCapability_def filter_empty_conv)

lemma missingEntries_Nil: "missingEntries req act = [] \<longleftrightarrow> set req \<subseteq> set act"
  by (auto simp: missingEntries_def filter_empty_conv)

lemma nonProduction_Nil:
  "nonProductionCommandEvidence req es = [] \<longleftrightarrow>
     (\<forall>n\<in>set req. commandEvidenceStatusFor es n = LiveProven)"
  by (auto simp: nonProductionCommandEvidence_def filter_empty_conv
      isProductionCommandEvidenceStatus_def)

lemma contractChecks_blocking:
  "list_ex isBlocking (rr_checks (contractChecks probe c r)) \<longleftrightarrow>
     list_ex isBlocking (rr_checks r) \<or> \<not> canClaimProductionSupport probe c"
  by (simp add: contractChecks_def Let_def addCheck_blocking canClaim_iff validate_valid_iff
      evidence_errors_Nil_iff missingCapabilities_Nil missingEntries_Nil nonProduction_Nil)
    blast

definition executor_ready :: "runtime_contract \<Rightarrow> preflight_result \<Rightarrow> bool" where
  "executor_ready c pf \<longleftrightarrow>
     pf_contractValid pf \<and> pf_processIdentified pf \<and> pf_targetLocated pf
   \<and> pf_executorAvailable pf
   \<and> (SharedMemoryClient \<in> set (c_requiredCapabilities c) \<longrightarrow> pf_memoryAccessible pf)
   \<and> bridgeModeValid pf \<and> pf_missingBehaviorProofs pf = [] \<and> pf_errors pf = []"

lemma executorChecks_blocking:
  "list_ex isBlocking (rr_checks (executorChecks c pf r)) \<longleftrightarrow>
     list_ex isBlocking (rr_checks r) \<or> \<not> executor_ready c pf"
  by (simp add: executorChecks_def Let_def addCheck_blocking executor_ready_def
      requiresCapability_def behaviorProofComplete_def)
    blast

lemma productionReady_iff:
  "rr_productionReady (evaluateProductionReadiness probe c pf) \<longleftrightarrow>
     canClaimProductionSupport probe c \<and> executor_ready c pf"
  by (simp add: evaluateProductionReadiness_def Let_def hasBlockingFailures_def
      executorChecks_blocking contractChecks_blocking)

definition check_ids :: "string list" where
  "check_ids =
     [''backend-supported'', ''contract-valid'', ''contract-production-evidence'',
      ''api-surface-complete'', ''command-surface-count-complete'',
      ''unit-command-surface-complete'', ''unit-command-evidence-live'',
      ''game-action-surface-complete'', ''game-action-evidence-live'',
      ''required-capabilities-present'', ''executor-contract-valid'',
      ''runtime-process-identified'', ''runtime-memory-accessible'', ''runtime-target-located'',
      ''executor-available'', ''executor-bridge-mode-valid'',
      ''executor-behavior-proof-complete'', ''executor-preflight-clean'',
      ''executor-preflight-warnings'']"

text \<open>
  The readiness verdict is the production gate and the executor's conditions, nothing more and
  nothing less; it holds exactly when the list of blocking gaps is empty; and every report runs the
  same nineteen checks in the same order.
\<close>

theorem readiness_exact:
  "rr_productionReady (evaluateProductionReadiness probe c pf)
     = (canClaimProductionSupport probe c \<and> executor_ready c pf)
   \<and> (blockingReadinessGaps (evaluateProductionReadiness probe c pf) = [])
     = rr_productionReady (evaluateProductionReadiness probe c pf)
   \<and> map rc_id (rr_checks (evaluateProductionReadiness probe c pf)) = check_ids"
proof -
  have "map rc_id (rr_checks (evaluateProductionReadiness probe c pf)) = check_ids"
    by (simp add: evaluateProductionReadiness_def executorChecks_def contractChecks_def Let_def
        addCheck_def check_ids_def)
  moreover have "(blockingReadinessGaps (evaluateProductionReadiness probe c pf) = [])
      = rr_productionReady (evaluateProductionReadiness probe c pf)"
    by (auto simp: blockingReadinessGaps_def evaluateProductionReadiness_def Let_def
        hasBlockingFailures_def filter_empty_conv list_ex_iff)
  ultimately show ?thesis using productionReady_iff by blast
qed

end
