(* ===== verification/Implementation_Gap.thy ===== *)
theory Implementation_Gap
  imports Runtime_Readiness
begin

text \<open>
  The implementation-gap report (\<open>RuntimeImplementationGap.h/.cpp\<close>): the gaps of a runtime in the
  order the code collects them, their totals by category, and how the report relates to the
  readiness verdict.
\<close>

record implementation_gap =
  gap_category :: string
  gap_id :: string
  gap_detail :: string

record category_count =
  cc_category :: string
  cc_count :: nat

definition gap :: "string \<Rightarrow> string \<Rightarrow> string \<Rightarrow> implementation_gap" where
  "gap category name detail = \<lparr>gap_category = category, gap_id = name, gap_detail = detail\<rparr>"

definition gapIf :: "bool \<Rightarrow> string \<Rightarrow> string \<Rightarrow> string \<Rightarrow> implementation_gap list" where
  "gapIf missing category name detail = (if missing then [gap category name detail] else [])"

definition gapCountDetail :: "int \<Rightarrow> int \<Rightarrow> string" where
  "gapCountDetail actual required =
     ''implemented='' @ int_to_dec actual @ '' required='' @ int_to_dec required"

definition nonProductionEvidenceGaps ::
  "string list \<Rightarrow> command_evidence list \<Rightarrow> string \<Rightarrow> implementation_gap list" where
  "nonProductionEvidenceGaps requiredEntries evidenceEntries label =
     concat (map (\<lambda>entry.
       let status = commandEvidenceStatusFor evidenceEntries entry in
       gapIf (\<not> isProductionCommandEvidenceStatus status) ''command-evidence'' entry
         (label @ '' does not have live-proven behavior evidence: '' @ evidence_toString status))
       requiredEntries)"

definition isBehaviorProofPreflightError :: "string \<Rightarrow> bool" where
  "isBehaviorProofPreflightError err \<longleftrightarrow>
     starts_with err ''runtime executor bridge ready file is missing behavior proof: ''"

section \<open>Collecting\<close>

definition backendGaps :: "probe_result \<Rightarrow> runtime_contract \<Rightarrow> implementation_gap list" where
  "backendGaps probe contract =
     gapIf (\<not> pr_supported probe) ''backend'' ''runtime-backend''
       (if pr_reason probe = [] then ''backend does not claim support'' else pr_reason probe)
   @ gapIf (pr_apiSurfaceMethods probe < c_requiredApiSurfaceMethods contract) ''api-surface''
       ''BWAPI.abstract-methods''
       (gapCountDetail (pr_apiSurfaceMethods probe) (c_requiredApiSurfaceMethods contract))
   @ gapIf (pr_commandSurfaceEntries probe < c_requiredCommandSurfaceEntries contract)
       ''command-surface'' ''BWAPI.command-action-entries''
       (gapCountDetail (pr_commandSurfaceEntries probe)
          (c_requiredCommandSurfaceEntries contract))"

definition surfaceGaps :: "probe_result \<Rightarrow> runtime_contract \<Rightarrow> implementation_gap list" where
  "surfaceGaps probe contract =
     (let surface = makeBWAPICommandSurface in
      concat (map (\<lambda>command.
        gapIf (\<not> containsCommandSurfaceEntry (pr_unitCommands probe) command) ''unit-command'' command
          ''BWAPI unit command is not implemented by the runtime adapter'') (unitCommands surface))
    @ concat (map (\<lambda>action.
        gapIf (\<not> containsCommandSurfaceEntry (pr_gameActions probe) action) ''game-action'' action
          ''BWAPI game action is not implemented by the runtime adapter'') (gameActions surface))
    @ nonProductionEvidenceGaps (unitCommands surface) (pr_unitCommandEvidence probe)
        ''BWAPI unit command''
    @ nonProductionEvidenceGaps (gameActions surface) (pr_gameActionEvidence probe)
        ''BWAPI game action''
    @ concat (map (\<lambda>capability.
        gapIf (\<not> hasCapability probe capability) ''capability'' (capability_toString capability)
          ''required runtime capability is not implemented'') (c_requiredCapabilities contract)))"

definition bindingGaps :: "runtime_binding \<Rightarrow> implementation_gap list" where
  "bindingGaps b =
     gapIf (b_requirement b = Required \<and> \<not> b_resolved b) (binding_kind_toString (b_kind b))
       (b_name b) ''required runtime binding is unresolved''"

definition structureGaps :: "structure_layout \<Rightarrow> implementation_gap list" where
  "structureGaps s =
     gapIf (st_requirement s = Required \<and> st_size s = 0) ''structure-layout'' (st_name s)
       ''required runtime structure size is unresolved''
   @ concat (map (\<lambda>f.
       gapIf (st_requirement s = Required \<and> \<not> f_resolved f) ''structure-field''
         (st_name s @ ''.'' @ f_name f) ''required runtime structure field is unresolved'')
       (st_fields s))"

definition evidenceGaps :: "runtime_contract \<Rightarrow> implementation_gap list" where
  "evidenceGaps contract =
     map (\<lambda>(i, e). gap ''contract-evidence'' (''evidence.'' @ nat_to_dec i) e)
       (enumerate 0 (contractProductionEvidenceErrors contract))"

definition preflightGaps ::
  "runtime_contract \<Rightarrow> preflight_result \<Rightarrow> implementation_gap list" where
  "preflightGaps contract pf =
     gapIf (\<not> pf_processIdentified pf) ''executor-preflight'' ''runtime-process-identified''
       ''target runtime process is not identified''
   @ gapIf (requiresCapability contract SharedMemoryClient \<and> \<not> pf_memoryAccessible pf)
       ''memory-access'' ''runtime-process-memory-accessible''
       (if pf_memoryAccessReason pf = []
        then ''target runtime process memory access is unavailable''
        else ''target runtime process memory access is unavailable: '' @ pf_memoryAccessReason pf)
   @ gapIf (\<not> pf_targetLocated pf) ''executor-preflight'' ''runtime-target-located''
       ''target executable or runtime image is not located''
   @ gapIf (\<not> pf_executorAvailable pf) ''executor-preflight'' ''executor-available''
       ''authorized runtime executor is not available''
   @ gapIf (pf_executorBridgeMode pf \<noteq> []
         \<and> pf_executorBridgeMode pf \<noteq> BridgeValidatedAdapterMode)
       ''executor-bridge-mode'' (pf_executorBridgeMode pf)
       ''runtime executor bridge mode is not validated-runtime-adapter''
   @ map (\<lambda>proof. gap ''executor-behavior-proof'' proof
            ''required runtime adapter behavior proof is missing'') (pf_missingBehaviorProofs pf)"

definition preflightErrorGaps ::
  "runtime_contract \<Rightarrow> preflight_result \<Rightarrow> implementation_gap list" where
  "preflightErrorGaps contract pf =
     (let validation = validateRuntimeContract contract in
      concat (map (\<lambda>(i, e).
        if e \<in> set (cv_errors validation) then []
        else if isBehaviorProofPreflightError e then []
        else [gap ''executor-preflight-error'' (''error.'' @ nat_to_dec i) e])
        (enumerate 0 (pf_errors pf))))"

definition collectRuntimeImplementationGaps ::
  "probe_result \<Rightarrow> runtime_contract \<Rightarrow> preflight_result \<Rightarrow> implementation_gap list" where
  "collectRuntimeImplementationGaps probe contract preflight =
     backendGaps probe contract
   @ surfaceGaps probe contract
   @ concat (map bindingGaps (c_bindings contract))
   @ concat (map structureGaps (c_structures contract))
   @ evidenceGaps contract
   @ preflightGaps contract preflight
   @ preflightErrorGaps contract preflight"

section \<open>Totals\<close>

fun bump_count :: "string \<Rightarrow> category_count list \<Rightarrow> category_count list" where
  "bump_count category [] = [\<lparr>cc_category = category, cc_count = 1\<rparr>]"
| "bump_count category (c # cs) =
     (if cc_category c = category then c\<lparr>cc_count := cc_count c + 1\<rparr> # cs
      else c # bump_count category cs)"

definition summarizeRuntimeImplementationGapsByCategory ::
  "implementation_gap list \<Rightarrow> category_count list" where
  "summarizeRuntimeImplementationGapsByCategory gaps =
     foldl (\<lambda>counts g. bump_count (gap_category g) counts) [] gaps"

definition countRuntimeImplementationGapsByCategory ::
  "implementation_gap list \<Rightarrow> string \<Rightarrow> nat" where
  "countRuntimeImplementationGapsByCategory gaps category =
     length (filter (\<lambda>g. gap_category g = category) gaps)"

section \<open>The totals are the counts\<close>

definition category_totals :: "(string \<Rightarrow> nat) \<Rightarrow> string list \<Rightarrow> category_count list" where
  "category_totals f cats = map (\<lambda>c. \<lparr>cc_category = c, cc_count = f c\<rparr>) cats"

lemma bump_totals:
  "distinct cats \<Longrightarrow> bump_count k (category_totals f cats)
     = (if k \<in> set cats then category_totals (f(k := f k + 1)) cats
        else category_totals f cats @ [\<lparr>cc_category = k, cc_count = 1\<rparr>])"
  by (induction cats) (auto simp: category_totals_def)

lemma category_totals_snoc:
  "k \<notin> set cats \<Longrightarrow> category_totals (f(k := n)) (cats @ [k])
     = category_totals f cats @ [\<lparr>cc_category = k, cc_count = n\<rparr>]"
  by (auto simp: category_totals_def)

text \<open>The categories in the order of their first gap.\<close>

definition categories :: "implementation_gap list \<Rightarrow> string list" where
  "categories gaps = rev (remdups (rev (map gap_category gaps)))"

lemma summarize_counts:
  "summarizeRuntimeImplementationGapsByCategory gaps
     = category_totals (countRuntimeImplementationGapsByCategory gaps) (categories gaps)"
proof (induction gaps rule: rev_induct)
  case Nil
  then show ?case
    by (simp add: summarizeRuntimeImplementationGapsByCategory_def category_totals_def
        categories_def)
next
  case (snoc g gaps)
  let ?k = "gap_category g"
  let ?n = "countRuntimeImplementationGapsByCategory gaps"
  have summary: "summarizeRuntimeImplementationGapsByCategory (gaps @ [g])
      = bump_count ?k (category_totals ?n (categories gaps))"
    by (simp add: snoc [symmetric]) (simp add: summarizeRuntimeImplementationGapsByCategory_def)
  have count: "countRuntimeImplementationGapsByCategory (gaps @ [g]) = ?n(?k := ?n ?k + 1)"
    by (auto simp: countRuntimeImplementationGapsByCategory_def)
  have cats: "categories (gaps @ [g])
      = (if ?k \<in> set (categories gaps) then categories gaps else categories gaps @ [?k])"
    by (simp add: categories_def)
  have "?k \<notin> set (categories gaps) \<Longrightarrow> ?n ?k = 0"
    by (auto simp: categories_def countRuntimeImplementationGapsByCategory_def filter_empty_conv
        image_iff)
  moreover have "distinct (categories gaps)" by (simp add: categories_def)
  ultimately show ?case
    unfolding summary count cats
    by (simp add: bump_totals category_totals_snoc del: fun_upd_apply)
qed

lemma totals_sum:
  "sum_list (map (countRuntimeImplementationGapsByCategory gaps) (categories gaps)) = length gaps"
proof -
  have "sum_list (map (countRuntimeImplementationGapsByCategory gaps) (categories gaps))
      = (\<Sum>c\<in>set (map gap_category gaps). count_list (map gap_category gaps) c)"
    by (simp add: sum_list_distinct_conv_sum_set categories_def
        countRuntimeImplementationGapsByCategory_def count_list_eq_length_filter filter_map o_def
        eq_commute)
  then show ?thesis by (simp add: sum_count_set)
qed

section \<open>When the report is empty\<close>

lemma gapIf_Nil [simp]: "gapIf m c n d = [] \<longleftrightarrow> \<not> m"
  by (simp add: gapIf_def)

lemma nonProductionEvidenceGaps_Nil:
  "nonProductionEvidenceGaps req es label = [] \<longleftrightarrow>
     (\<forall>n\<in>set req. commandEvidenceStatusFor es n = LiveProven)"
  by (simp add: nonProductionEvidenceGaps_def isProductionCommandEvidenceStatus_def Let_def)

lemma surfaceGaps_Nil:
  "surfaceGaps probe c = [] \<longleftrightarrow>
     set unitCommandNames \<subseteq> set (pr_unitCommands probe)
   \<and> set gameActionNames \<subseteq> set (pr_gameActions probe)
   \<and> (\<forall>n\<in>set unitCommandNames.
        commandEvidenceStatusFor (pr_unitCommandEvidence probe) n = LiveProven)
   \<and> (\<forall>n\<in>set gameActionNames.
        commandEvidenceStatusFor (pr_gameActionEvidence probe) n = LiveProven)
   \<and> set (c_requiredCapabilities c) \<subseteq> set (pr_capabilities probe)"
  by (auto simp: surfaceGaps_def Let_def nonProductionEvidenceGaps_Nil hasCapability_def)

lemma backendGaps_Nil:
  "backendGaps probe c = [] \<longleftrightarrow> pr_supported probe
   \<and> c_requiredApiSurfaceMethods c \<le> pr_apiSurfaceMethods probe
   \<and> c_requiredCommandSurfaceEntries c \<le> pr_commandSurfaceEntries probe"
  by (auto simp: backendGaps_def)

lemma enumerate_Nil: "enumerate n xs = [] \<longleftrightarrow> xs = []"
  by (cases xs) simp_all

lemma evidenceGaps_Nil: "evidenceGaps c = [] \<longleftrightarrow> audited_contract c"
  by (simp add: evidenceGaps_def enumerate_Nil evidence_errors_Nil_iff)

lemma preflightGaps_Nil:
  "preflightGaps c pf = [] \<longleftrightarrow>
     pf_processIdentified pf \<and> pf_targetLocated pf \<and> pf_executorAvailable pf
   \<and> (SharedMemoryClient \<in> set (c_requiredCapabilities c) \<longrightarrow> pf_memoryAccessible pf)
   \<and> bridgeModeValid pf \<and> pf_missingBehaviorProofs pf = []"
  by (auto simp: preflightGaps_def requiresCapability_def bridgeModeValid_def)

lemma preflightErrorGaps_Nil:
  "preflightErrorGaps c pf = [] \<longleftrightarrow>
     (\<forall>e\<in>set (pf_errors pf).
        e \<in> set (cv_errors (validateRuntimeContract c)) \<or> isBehaviorProofPreflightError e)"
proof -
  have hidden: "(case x of (i, e) \<Rightarrow>
        if e \<in> set (cv_errors (validateRuntimeContract c)) then []
        else if isBehaviorProofPreflightError e then []
        else [gap ''executor-preflight-error'' (''error.'' @ nat_to_dec i) e]) = []
    \<longleftrightarrow> snd x \<in> set (cv_errors (validateRuntimeContract c))
      \<or> isBehaviorProofPreflightError (snd x)" for x
    by (simp split: prod.split)
  have "snd ` set (enumerate 0 (pf_errors pf)) = set (pf_errors pf)"
    by (metis list.set_map map_snd_enumerate)
  moreover have "preflightErrorGaps c pf = [] \<longleftrightarrow>
      (\<forall>x\<in>set (enumerate 0 (pf_errors pf)). snd x \<in> set (cv_errors (validateRuntimeContract c))
        \<or> isBehaviorProofPreflightError (snd x))"
    by (simp add: preflightErrorGaps_def Let_def hidden)
  ultimately show ?thesis by (metis (no_types, lifting) image_iff)
qed

lemma contract_ok_no_gaps:
  assumes "contract_ok c"
  shows "concat (map bindingGaps (c_bindings c)) = []"
    "concat (map structureGaps (c_structures c)) = []"
  using assms
  by (auto simp: contract_ok_def bindingGaps_def binding_ok_def structureGaps_def
      structure_ok_def field_ok_def)

lemma gaps_Nil_when_ok:
  assumes "contract_ok c"
  shows "collectRuntimeImplementationGaps probe c pf = [] \<longleftrightarrow>
    canClaimProductionSupport probe c \<and> pf_processIdentified pf \<and> pf_targetLocated pf
   \<and> pf_executorAvailable pf
   \<and> (SharedMemoryClient \<in> set (c_requiredCapabilities c) \<longrightarrow> pf_memoryAccessible pf)
   \<and> bridgeModeValid pf \<and> pf_missingBehaviorProofs pf = []
   \<and> list_all isBehaviorProofPreflightError (pf_errors pf)"
proof -
  have "cv_errors (validateRuntimeContract c) = []"
    using assms by (simp add: validate_errors_Nil_iff)
  then show ?thesis
    unfolding collectRuntimeImplementationGaps_def append_is_Nil_conv backendGaps_Nil
      surfaceGaps_Nil evidenceGaps_Nil preflightGaps_Nil preflightErrorGaps_Nil
    using contract_ok_no_gaps [OF assms] assms
    by (auto simp: canClaim_iff list_all_iff)
qed

section \<open>Properties\<close>

text \<open>
  How the gap report relates to the readiness verdict: a runtime is production ready exactly
  when its gap report is empty, its contract validates, the executor accepted the contract, and
  the preflight errors hold no behaviour-proof complaint (the report leaves those to its own list
  of missing proofs).
\<close>

theorem gap_report_exact:
  "rr_productionReady (evaluateProductionReadiness probe c pf)
     = (collectRuntimeImplementationGaps probe c pf = [] \<and> contract_ok c \<and> pf_contractValid pf
        \<and> list_all (\<lambda>e. \<not> isBehaviorProofPreflightError e) (pf_errors pf))"
proof (cases "contract_ok c")
  case True
  have "pf_errors pf = [] \<longleftrightarrow> list_all isBehaviorProofPreflightError (pf_errors pf)
      \<and> list_all (\<lambda>e. \<not> isBehaviorProofPreflightError e) (pf_errors pf)"
    by (cases "pf_errors pf") auto
  then show ?thesis
    using True by (auto simp: productionReady_iff gaps_Nil_when_ok executor_ready_def)
next
  case False
  then show ?thesis by (auto simp: productionReady_iff canClaim_iff)
qed

text \<open>
  The totals by category are the counts: one entry per category that has a gap, in the order
  in which the categories first appear, each with the number the counting function gives, and
  together they account for every gap.
\<close>

lemma gap_totals_exact:
  "summarizeRuntimeImplementationGapsByCategory gaps
     = map (\<lambda>c. \<lparr>cc_category = c,
                 cc_count = countRuntimeImplementationGapsByCategory gaps c\<rparr>) (categories gaps)
   \<and> distinct (categories gaps) \<and> set (categories gaps) = gap_category ` set gaps
   \<and> sum_list (map cc_count (summarizeRuntimeImplementationGapsByCategory gaps)) = length gaps"
proof -
  have "map cc_count (summarizeRuntimeImplementationGapsByCategory gaps)
      = map (countRuntimeImplementationGapsByCategory gaps) (categories gaps)"
    by (simp add: summarize_counts category_totals_def)
  then show ?thesis
    using totals_sum [of gaps]
    by (simp add: summarize_counts category_totals_def categories_def o_def)
qed

text \<open>A completed contract whose version is empty, and the preflight the executor makes of it.\<close>

definition unversioned_contract :: runtime_contract where
  "unversioned_contract = (complete makeBroodWar1161ParityContract)\<lparr>c_version := []\<rparr>"

definition unversioned_preflight :: preflight_result where
  "unversioned_preflight =
     \<lparr>pf_contractValid = cv_valid (validateRuntimeContract unversioned_contract),
      pf_processIdentified = True, pf_memoryAccessible = True, pf_targetLocated = True,
      pf_executorAvailable = True, pf_executorName = ''adapter'',
      pf_executorBridgeMode = BridgeValidatedAdapterMode, pf_memoryAccessReason = [],
      pf_provenCapabilities = fullParityCapabilities, pf_missingBehaviorProofs = [],
      pf_errors = cv_errors (validateRuntimeContract unversioned_contract), pf_warnings = []\<rparr>"

lemma unversioned_invalid: "\<not> contract_ok unversioned_contract"
  by (simp add: contract_ok_def unversioned_contract_def)

lemma unversioned_audited: "audited_contract unversioned_contract"
  using complete_1161(2) by (simp add: audited_contract_def unversioned_contract_def)

lemma unversioned_entries_ok:
  "concat (map bindingGaps (c_bindings unversioned_contract)) = []"
  "concat (map structureGaps (c_structures unversioned_contract)) = []"
  using contract_ok_no_gaps [OF complete_1161(1)] by (simp_all add: unversioned_contract_def)

text \<open>
  The gap report is not a readiness test: a contract that is complete except that its version
  is empty is invalid, the executor's preflight reports exactly the validation errors, and the
  report drops all of them as already covered although no gap covers them. Its list is empty while
  the runtime is not production ready.
\<close>

theorem gap_report_hides_validation_errors:
  "collectRuntimeImplementationGaps (full_probe unversioned_contract) unversioned_contract
     unversioned_preflight = []
   \<and> pf_errors unversioned_preflight \<noteq> []
   \<and> \<not> rr_productionReady (evaluateProductionReadiness (full_probe unversioned_contract)
         unversioned_contract unversioned_preflight)"
proof (intro conjI)
  show "collectRuntimeImplementationGaps (full_probe unversioned_contract) unversioned_contract
     unversioned_preflight = []"
    unfolding collectRuntimeImplementationGaps_def append_is_Nil_conv backendGaps_Nil
      surfaceGaps_Nil evidenceGaps_Nil preflightGaps_Nil preflightErrorGaps_Nil
    using unversioned_entries_ok unversioned_audited
    by (simp add: full_probe_def proven_status unversioned_preflight_def bridgeModeValid_def)
  show "pf_errors unversioned_preflight \<noteq> []"
    using unversioned_invalid by (simp add: unversioned_preflight_def validate_errors_Nil_iff)
  show "\<not> rr_productionReady (evaluateProductionReadiness (full_probe unversioned_contract)
         unversioned_contract unversioned_preflight)"
    using unversioned_invalid by (simp add: productionReady_iff canClaim_iff)
qed

end
