(* ===== verification/Backends.thy ===== *)
theory Backends
  imports Bootstrap_Manifest Runtime_Readiness
begin

text \<open>
  The host environment (\<open>RuntimeEnvironment.cpp\<close>), the 1.16.1 backend
  (\<open>Legacy1161RuntimeBackend\<close>), the placeholder backend (\<open>UnsupportedRuntimeBackend\<close>) and the
  factory. What a backend learns from the operating system (the detected installation, the opened
  process) is an argument of its probe.
\<close>

section \<open>The host environment\<close>

text \<open>\<open>std::strtol\<close> with base 10: value and characters consumed, \<open>None\<close> where \<open>errno\<close> is set.\<close>

definition strtol10 :: "string \<Rightarrow> (int \<times> nat) option" where
  "strtol10 s =
     (let blanks = length (takeWhile is_space s);
          (neg, sgn, body) = scan_sign (dropWhile is_space s);
          ds = takeWhile (is_base_digit 10) body;
          m = digits_value 10 0 ds
      in if ds = [] then Some (0, 0)
         else if neg then (if m \<le> 2 ^ 63 then Some (- int m, blanks + sgn + length ds) else None)
         else if m < 2 ^ 63 then Some (int m, blanks + sgn + length ds) else None)"

definition parseProcessId :: "string \<Rightarrow> int" where
  "parseProcessId value =
     (if value = [] then 0
      else case strtol10 value of
        None \<Rightarrow> 0
      | Some (parsed, used) \<Rightarrow>
          if used = 0 \<or> used \<noteq> length value \<or> parsed \<le> 0 \<or> parsed > 2147483647 then 0
          else parsed)"

definition default_environment :: runtime_environment where
  "default_environment =
     \<lparr>env_platform = PlatformUnknown, env_product = ProductUnknown, env_version = [],
      env_processId = 0, env_executablePath = [], env_manifestPath = [],
      env_executorBridgePath = []\<rparr>"

text \<open>\<open>getenv\<close> is a map; \<open>host\<close> is the platform of the build.\<close>

definition detectHost :: "platform \<Rightarrow> (string \<rightharpoonup> string) \<Rightarrow> runtime_environment" where
  "detectHost host getenv =
     (let environment = default_environment\<lparr>env_platform := host\<rparr>;
          environment = (case getenv ''STARCRAFT_API_PRODUCT'' of None \<Rightarrow> environment
            | Some v \<Rightarrow> environment\<lparr>env_product := parseProduct v\<rparr>);
          environment = (case getenv ''STARCRAFT_API_VERSION'' of None \<Rightarrow> environment
            | Some v \<Rightarrow> environment\<lparr>env_version := v\<rparr>);
          environment = (case getenv ''STARCRAFT_API_PROCESS_ID'' of None \<Rightarrow> environment
            | Some v \<Rightarrow> environment\<lparr>env_processId := parseProcessId v\<rparr>);
          environment = (case getenv ''STARCRAFT_API_EXECUTABLE'' of None \<Rightarrow> environment
            | Some v \<Rightarrow> environment\<lparr>env_executablePath := v\<rparr>);
          environment = (case getenv ''STARCRAFT_API_MANIFEST'' of None \<Rightarrow> environment
            | Some v \<Rightarrow> environment\<lparr>env_manifestPath := v\<rparr>)
      in case getenv ''STARCRAFT_API_EXECUTOR_BRIDGE_DIR'' of None \<Rightarrow> environment
         | Some v \<Rightarrow> environment\<lparr>env_executorBridgePath := v\<rparr>)"

section \<open>The 1.16.1 backend\<close>

record process_open_result =
  po_opened :: bool
  po_processId :: int
  po_executablePath :: string
  po_reason :: string

definition not_opened :: process_open_result where
  "not_opened = \<lparr>po_opened = False, po_processId = 0, po_executablePath = [], po_reason = []\<rparr>"

definition legacyApiSurface :: "probe_result \<Rightarrow> probe_result" where
  "legacyApiSurface result =
     result\<lparr>pr_apiSurfaceMethods := c_requiredApiSurfaceMethods makeBroodWar1161ParityContract\<rparr>"

definition addBuiltInCommandSurface :: "probe_result \<Rightarrow> probe_result" where
  "addBuiltInCommandSurface result =
     (let surface = makeBWAPICommandSurface in
      result\<lparr>pr_unitCommands := unitCommands surface, pr_gameActions := gameActions surface,
        pr_unitCommandEvidence := unitCommandEvidence surface,
        pr_gameActionEvidence := gameActionEvidence surface,
        pr_commandSurfaceEntries := totalEntries surface\<rparr>)"

definition hostNeedsWine :: "platform \<Rightarrow> bool" where
  "hostNeedsWine platform \<longleftrightarrow> platform = MacOS \<or> platform = Linux"

definition legacyUnsupportedReason ::
  "runtime_environment \<Rightarrow> runtime_installation \<Rightarrow> process_open_result \<Rightarrow> string" where
  "legacyUnsupportedReason environment installation process =
     ''StarCraft Brood War 1.16.1 runtime is staged but not production ready. ''
   @ ''The portable backend can identify a Win32 1.16.1 runtime target, ''
   @ ''but production support still requires a validated in-game BWAPI bridge ''
   @ ''with live read/command/event/render proofs.''
   @ (if \<not> ri_found installation
      then '' Installation is not configured: ''
         @ (if ri_reason installation = []
            then ''set STARCRAFT_API_BW1161_DIR or STARCRAFT_API_BW1161_EXE''
            else ri_reason installation) @ ''.''
      else '' Executable: '' @ ri_executablePath installation @ ''.''
         @ (if hostNeedsWine (ri_platform installation)
            then (if ri_compatibilityRuntimePath installation = []
                  then '' Wine is required on this host; set STARCRAFT_API_WINE.''
                  else '' Wine: '' @ ri_compatibilityRuntimePath installation @ ''.'')
            else []))
   @ (if env_processId environment > 0 \<and> \<not> po_opened process
      then '' Process attach check failed: '' @ po_reason process @ ''.'' else [])"

definition legacyProbe ::
  "runtime_environment \<Rightarrow> runtime_installation \<Rightarrow> process_open_result \<Rightarrow> probe_result" where
  "legacyProbe environment installation opened =
     (let result = addBuiltInCommandSurface (legacyApiSurface default_probe_result);
          process = (if env_processId environment > 0 then opened else not_opened)
      in result\<lparr>pr_supported := False,
           pr_reason := legacyUnsupportedReason environment installation process\<rparr>)"

section \<open>The placeholder backend\<close>

definition unsupportedProbe :: "string \<Rightarrow> probe_result" where
  "unsupportedProbe reason = default_probe_result\<lparr>pr_supported := False, pr_reason := reason\<rparr>"

section \<open>Backends and their sessions\<close>

datatype backend_kind =
  LegacyBackend | RemasteredBackend | UnsupportedBackend string string

record backend =
  be_kind :: backend_kind
  be_environment :: runtime_environment
  be_state :: session_state

definition createRuntimeBackend :: "runtime_environment \<Rightarrow> backend" where
  "createRuntimeBackend environment =
     \<lparr>be_kind =
        (if env_product environment = StarCraftBroodWar1161 then LegacyBackend
         else if env_product environment = StarCraftRemastered then RemasteredBackend
         else UnsupportedBackend ''unknown-starcraft-runtime''
                ''No StarCraft runtime product/version was selected.''),
      be_environment = environment, be_state = SessionClosed\<rparr>"

definition backend_name :: "backend \<Rightarrow> string" where
  "backend_name b =
     (case be_kind b of
        LegacyBackend \<Rightarrow> ''legacy-bwapi-1.16.1-runtime''
      | RemasteredBackend \<Rightarrow> ''starcraft-remastered-runtime''
      | UnsupportedBackend name reason \<Rightarrow> name)"

end
