(* ===== verification/Command_Text.thy ===== *)
theory Command_Text
  imports Text_Lines Command_Queue
begin

text \<open>
  The text form of a command between the executor and the resident adapter:
  \<open>serializeArguments\<close>/\<open>serializeCommand\<close> of \<open>RuntimeExecutor.cpp\<close> write
  \<open>kind|name|target|a,b,c\<close>, and \<open>splitString\<close>, \<open>parseIntStrict\<close>, \<open>parseResidentRuntimeCommand\<close>,
  \<open>isResidentOverlayAction\<close> and \<open>residentQueuePayloadText\<close> of
  \<open>RuntimeResidentAdapterEntry.cpp\<close> read it back from the payload of a ring record.
\<close>

section \<open>The executor's side\<close>

definition serializeArguments :: "int list \<Rightarrow> string" where
  "serializeArguments arguments = join_on (CHR '','') (map int_to_dec arguments)"

definition serializeCommand :: "command_request \<Rightarrow> string" where
  "serializeCommand command =
     command_kind_toString (rq_kind command) @ ''|'' @ rq_name command @ ''|''
   @ int_to_dec (rq_targetUnitId command) @ ''|'' @ serializeArguments (rq_arguments command)"

definition command_payload :: "command_request \<Rightarrow> u8 list" where
  "command_payload command = bytes_of_text (serializeCommand command)"

section \<open>The adapter's side\<close>

definition splitString :: "string \<Rightarrow> char \<Rightarrow> string list" where
  "splitString value delimiter =
     getlines_by delimiter value
   @ (if value \<noteq> [] \<and> last value = delimiter then [[]] else [])"

text \<open>\<open>std::strtol\<close> on a 64-bit \<open>long\<close>: an out-of-range value saturates.\<close>

definition strtol_saturated :: "bool \<Rightarrow> nat \<Rightarrow> int" where
  "strtol_saturated neg m = (if neg then max (- (2 ^ 63)) (- int m) else min (2 ^ 63 - 1) (int m))"

definition parseIntStrict :: "string \<Rightarrow> int option" where
  "parseIntStrict value =
     (let s = c_str value in
      case scan_decimal s of
        None \<Rightarrow> None
      | Some (neg, m, used) \<Rightarrow>
          let result = strtol_saturated neg m in
          if used \<noteq> length s \<or> result < - 2147483648 \<or> result > 2147483647 then None
          else Some result)"

fun parseArguments :: "string list \<Rightarrow> int list option" where
  "parseArguments [] = Some []"
| "parseArguments (argument # arguments) =
     (case parseIntStrict argument of
        None \<Rightarrow> None
      | Some parsed \<Rightarrow> map_option ((#) parsed) (parseArguments arguments))"

definition parseArgumentField :: "string \<Rightarrow> int list option" where
  "parseArgumentField text =
     (if text = [] then Some [] else parseArguments (splitString text (CHR '','')))"

definition parseKind :: "string \<Rightarrow> command_kind option" where
  "parseKind text =
     (if text = command_kind_toString UnitCommand then Some UnitCommand
      else if text = command_kind_toString GameAction then Some GameAction
      else None)"

definition parseResidentRuntimeCommand :: "string \<Rightarrow> command_request option" where
  "parseResidentRuntimeCommand line =
     (let parts = splitString line (CHR ''|'') in
      if length parts \<noteq> 4 then None
      else case parseKind (parts ! 0) of
        None \<Rightarrow> None
      | Some kind \<Rightarrow>
          (case parseIntStrict (parts ! 2) of
             None \<Rightarrow> None
           | Some target \<Rightarrow>
               map_option
                 (\<lambda>arguments. \<lparr>rq_kind = kind, rq_name = parts ! 1, rq_targetUnitId = target,
                    rq_arguments = arguments\<rparr>)
                 (parseArgumentField (parts ! 3))))"

definition overlayActionNames :: "string list" where
  "overlayActionNames =
     [''vDrawText'', ''drawBox'', ''drawTriangle'', ''drawCircle'', ''drawEllipse'', ''drawDot'',
      ''drawLine'', ''setTextSize'']"

definition isResidentOverlayAction :: "command_request \<Rightarrow> bool" where
  "isResidentOverlayAction command \<longleftrightarrow>
     rq_kind command = GameAction \<and> rq_name command \<in> set overlayActionNames"

definition payload_blank :: "char \<Rightarrow> bool" where
  "payload_blank ch \<longleftrightarrow> ch = CHR 0x09 \<or> ch = CHR 0x0A \<or> ch = CHR 0x0D"

definition residentQueuePayloadText :: "u8 list \<Rightarrow> string" where
  "residentQueuePayloadText payload =
     map (\<lambda>ch. if payload_blank ch then CHR '' '' else ch) (text_of_bytes payload)"

section \<open>Round trip\<close>

text \<open>A request as C++ holds it: \<open>int\<close> values, and a name the text form can carry.\<close>

definition plain_name :: "string \<Rightarrow> bool" where
  "plain_name name \<longleftrightarrow> list_all (\<lambda>c. c \<noteq> CHR ''|'' \<and> \<not> payload_blank c) name"

definition int32_request :: "command_request \<Rightarrow> bool" where
  "int32_request r \<longleftrightarrow> int32_range (rq_targetUnitId r) \<and> list_all int32_range (rq_arguments r)"

definition text_safe :: "command_request \<Rightarrow> bool" where
  "text_safe r \<longleftrightarrow> plain_name (rq_name r) \<and> int32_request r"

lemma splitString_split_on: "splitString s d = (if s = [] then [] else split_on d s)"
  using getlines_by_split_on [of d s] by (auto simp: splitString_def)

lemma parseIntStrict_print:
  assumes "int32_range i"
  shows "parseIntStrict (int_to_dec i) = Some i"
  using assms
  by (auto simp: parseIntStrict_def scan_decimal_int strtol_saturated_def int32_range_def Let_def)

lemma parseArguments_print:
  "list_all int32_range is \<Longrightarrow> parseArguments (map int_to_dec is) = Some is"
  by (induction "is") (simp_all add: parseIntStrict_print)

lemma join_on_Nil [simp]: "join_on (CHR '','') (map int_to_dec is) = [] \<longleftrightarrow> is = []"
  by (cases "(CHR '','', map int_to_dec is)" rule: join_on.cases) auto

lemma arguments_round_trip:
  assumes "list_all int32_range is"
  shows "parseArgumentField (serializeArguments is) = Some is"
proof (cases "is = []")
  case True
  then show ?thesis by (simp add: serializeArguments_def parseArgumentField_def)
next
  case False
  have "list_all (\<lambda>f. CHR '','' \<notin> set f) (map int_to_dec is)" by (simp add: list_all_iff)
  with False have "splitString (serializeArguments is) (CHR '','') = map int_to_dec is"
    by (simp add: splitString_split_on serializeArguments_def split_on_join)
  with assms False show ?thesis
    by (simp add: parseArguments_print serializeArguments_def parseArgumentField_def)
qed

lemma in_join: "c \<in> set (join_on d fs) \<Longrightarrow> c = d \<or> (\<exists>f\<in>set fs. c \<in> set f)"
  by (induction d fs rule: join_on.induct) auto

lemma serializeArguments_chars:
  "c \<in> set (serializeArguments is) \<Longrightarrow> c = CHR '','' \<or> dec_char c"
  by (auto simp: serializeArguments_def dest!: in_join int_to_dec_chars)

lemma serializeArguments_free:
  "CHR ''|'' \<notin> set (serializeArguments is)" "c \<in> set (serializeArguments is) \<Longrightarrow> \<not> payload_blank c"
  by (auto simp: payload_blank_def dest!: serializeArguments_chars dest: dec_charD)

lemma kind_free:
  "CHR ''|'' \<notin> set (command_kind_toString k)" "c \<in> set (command_kind_toString k) \<Longrightarrow> \<not> payload_blank c"
  by (cases k; auto simp: payload_blank_def)+

lemma parseKind_print: "parseKind (command_kind_toString k) = Some k"
  by (cases k) (simp_all add: parseKind_def)

lemma split_command:
  assumes "plain_name (rq_name r)"
  shows "splitString (serializeCommand r) (CHR ''|'')
    = [command_kind_toString (rq_kind r), rq_name r, int_to_dec (rq_targetUnitId r),
       serializeArguments (rq_arguments r)]"
proof -
  have "CHR ''|'' \<notin> set (rq_name r)" using assms by (auto simp: plain_name_def list_all_iff)
  moreover have "serializeCommand r \<noteq> []" by (simp add: serializeCommand_def)
  ultimately show ?thesis
    by (simp add: splitString_split_on) (simp add: serializeCommand_def kind_free serializeArguments_free)
qed

lemma command_round_trip:
  assumes "text_safe r"
  shows "parseResidentRuntimeCommand (serializeCommand r) = Some r"
proof -
  have args: "list_all int32_range (rq_arguments r)" and target: "int32_range (rq_targetUnitId r)"
    and name: "plain_name (rq_name r)"
    using assms by (simp_all add: text_safe_def int32_request_def)
  show ?thesis
    unfolding parseResidentRuntimeCommand_def split_command [OF name] Let_def
    by (simp add: parseKind_print parseIntStrict_print [OF target] arguments_round_trip [OF args])
qed

lemma serializeCommand_text:
  assumes "plain_name (rq_name r)" "c \<in> set (serializeCommand r)"
  shows "\<not> payload_blank c"
proof -
  consider "c \<in> set (command_kind_toString (rq_kind r))" | "c = CHR ''|''" | "c \<in> set (rq_name r)"
    | "c \<in> set (int_to_dec (rq_targetUnitId r))" | "c \<in> set (serializeArguments (rq_arguments r))"
    using assms(2) by (auto simp: serializeCommand_def)
  then show ?thesis
  proof cases
    case 1 then show ?thesis by (rule kind_free)
  next
    case 2 then show ?thesis by (simp add: payload_blank_def)
  next
    case 3 then show ?thesis using assms(1) by (auto simp: plain_name_def list_all_iff)
  next
    case 4 then show ?thesis by (auto simp: payload_blank_def)
  next
    case 5 then show ?thesis by (rule serializeArguments_free)
  qed
qed

lemma payload_text:
  assumes "plain_name (rq_name r)"
  shows "residentQueuePayloadText (command_payload r) = serializeCommand r"
  using serializeCommand_text [OF assms]
  by (auto simp: residentQueuePayloadText_def command_payload_def intro: map_idI)

lemma payload_round_trip:
  "text_safe r \<Longrightarrow> parseResidentRuntimeCommand (residentQueuePayloadText (command_payload r)) = Some r"
  by (simp add: payload_text command_round_trip text_safe_def)

lemma surface_names_plain:
  "n \<in> set unitCommandNames \<Longrightarrow> plain_name n" "n \<in> set gameActionNames \<Longrightarrow> plain_name n"
proof -
  have "list_all plain_name unitCommandNames" "list_all plain_name gameActionNames" by code_simp+
  then show "n \<in> set unitCommandNames \<Longrightarrow> plain_name n" "n \<in> set gameActionNames \<Longrightarrow> plain_name n"
    by (simp_all add: list_all_iff)
qed

lemma admissible_text_safe: "admissible r \<Longrightarrow> int32_request r \<Longrightarrow> text_safe r"
  by (auto simp: admissible_def text_safe_def surface_names_plain split: command_kind.splits)

end
