(* ===== verification/Command_Submission.thy ===== *)
theory Command_Submission
  imports Command_Text Command_Encoder Resident_Queue
begin

text \<open>
  How the executor hands commands to the game (\<open>RuntimeExecutor.cpp\<close>, \<open>submitDirectRuntimeCommands\<close>
  and \<open>submitResidentRuntimeCommands\<close>): either encoded into the turn buffer of the process, or as
  text into the ring of the resident adapter, with an audit file of what was handed over.
  Process memory (\<open>RuntimeProcessMemory.cpp\<close>, the Linux build) is reached through two system
  calls, which are arguments of the model.
\<close>

section \<open>Process memory\<close>

text \<open>
  \<open>process_vm_readv\<close> and \<open>process_vm_writev\<close> with one element each: the transferred bytes (their
  number) or the text of \<open>errno\<close>. The game runs while we write, so a call also yields the next
  state of the world.
\<close>

record 'm os_memory =
  os_readv :: "'m \<Rightarrow> int \<Rightarrow> u64 \<Rightarrow> nat \<Rightarrow> string + u8 list"
  os_writev :: "'m \<Rightarrow> int \<Rightarrow> u64 \<Rightarrow> u8 list \<Rightarrow> (string + nat) \<times> 'm"

record memory_read =
  mr_success :: bool
  mr_bytesRead :: nat
  mr_bytes :: "u8 list"
  mr_reason :: string

record memory_write =
  mw_success :: bool
  mw_bytesWritten :: nat
  mw_reason :: string

definition read_failure :: "string \<Rightarrow> memory_read" where
  "read_failure reason =
     \<lparr>mr_success = False, mr_bytesRead = 0, mr_bytes = [], mr_reason = reason\<rparr>"

definition writeFailure :: "string \<Rightarrow> memory_write" where
  "writeFailure reason = \<lparr>mw_success = False, mw_bytesWritten = 0, mw_reason = reason\<rparr>"

definition errnoMessage :: "string \<Rightarrow> string \<Rightarrow> string" where
  "errnoMessage operation strerror = operation @ '' failed: '' @ strerror"

text \<open>The checks before the call: the reason of a refusal.\<close>

definition read_refusal :: "int \<Rightarrow> u64 \<Rightarrow> nat \<Rightarrow> string option" where
  "read_refusal processId address n =
     (if processId \<le> 0 then Some ''process id must be positive''
      else if address = 0 then Some ''memory address must be non-zero''
      else if n = 0 then Some ''read size must be positive''
      else None)"

definition readProcessMemory ::
  "'m os_memory \<Rightarrow> 'm \<Rightarrow> int \<Rightarrow> u64 \<Rightarrow> nat \<Rightarrow> memory_read" where
  "readProcessMemory os m processId address n =
     (case read_refusal processId address n of
        Some reason \<Rightarrow> read_failure reason
      | None \<Rightarrow>
          (case os_readv os m processId address n of
             Inl e \<Rightarrow> read_failure (errnoMessage ''process_vm_readv'' e)
           | Inr bytes \<Rightarrow>
               \<lparr>mr_success = True, mr_bytesRead = length bytes, mr_bytes = bytes, mr_reason = []\<rparr>))"

definition write_refusal :: "int \<Rightarrow> u64 \<Rightarrow> nat \<Rightarrow> string option" where
  "write_refusal processId address n =
     (if processId \<le> 0 then Some ''process id must be positive''
      else if address = 0 then Some ''memory address must be non-zero''
      else if n = 0 then Some ''write size must be positive''
      else None)"

definition writeProcessMemory ::
  "'m os_memory \<Rightarrow> 'm \<Rightarrow> int \<Rightarrow> u64 \<Rightarrow> u8 list \<Rightarrow> memory_write \<times> 'm" where
  "writeProcessMemory os m processId address bytes =
     (case write_refusal processId address (length bytes) of
        Some reason \<Rightarrow> (writeFailure reason, m)
      | None \<Rightarrow>
          (case os_writev os m processId address bytes of
             (Inl e, m') \<Rightarrow> (writeFailure (errnoMessage ''process_vm_writev'' e), m')
           | (Inr n, m') \<Rightarrow>
               (\<lparr>mw_success = True, mw_bytesWritten = n, mw_reason = []\<rparr>, m')))"

section \<open>Results and the audit file\<close>

record submit_result =
  sr_submitted :: bool
  sr_submittedCommands :: nat
  sr_reason :: string
  sr_errors :: "string list"
  sr_warnings :: "string list"

definition default_submit_result :: submit_result where
  "default_submit_result =
     \<lparr>sr_submitted = False, sr_submittedCommands = 0, sr_reason = [], sr_errors = [],
      sr_warnings = []\<rparr>"

definition rejectSubmit :: "string \<Rightarrow> submit_result \<Rightarrow> submit_result" where
  "rejectSubmit reason result =
     result\<lparr>sr_reason := reason, sr_errors := sr_errors result @ [reason]\<rparr>"

definition submit_warning :: "string \<Rightarrow> submit_result \<Rightarrow> submit_result" where
  "submit_warning w result = result\<lparr>sr_warnings := sr_warnings result @ [w]\<rparr>"

text \<open>
  A text file opened for appending: \<open>None\<close> while it does not exist, and whether opening succeeds.
\<close>

record text_file =
  tf_text :: "string option"
  tf_opens :: bool

definition append_audit :: "string \<Rightarrow> string list \<Rightarrow> text_file \<Rightarrow> text_file" where
  "append_audit header ls file =
     (if \<not> tf_opens file then file
      else file\<lparr>tf_text := Some
        ((case tf_text file of None \<Rightarrow> header @ [CHR 0x0A] | Some text \<Rightarrow> text) @ text_of ls)\<rparr>)"

definition directAuditHeader :: string where
  "directAuditHeader =
     join_on (CHR 0x09) [''sequence'', ''status'', ''command'', ''encoded_bytes'', ''detail'']"

definition appendDirectCommandAudit ::
  "nat \<Rightarrow> string \<Rightarrow> command_request \<Rightarrow> string \<Rightarrow> string \<Rightarrow> text_file \<Rightarrow> text_file" where
  "appendDirectCommandAudit sequence status command encodedBytes detail audit =
     append_audit directAuditHeader
       [join_on (CHR 0x09)
          [nat_to_dec sequence, status, serializeCommand command, encodedBytes, detail]] audit"

section \<open>Into the turn buffer\<close>

record direct_sink =
  ds_turnBufferAddress :: u64
  ds_bytesInQueueAddress :: u64
  ds_capacityBytes :: nat

text \<open>The loop that encodes: the bytes, or the reason of the first command that does not encode.\<close>

fun encodeCommands :: "command_request list \<Rightarrow> string + encoded_command list" where
  "encodeCommands [] = Inr []"
| "encodeCommands (command # commands) =
     (let encoded = encodeRuntimeCommandRequest command in
      if \<not> enc_encoded encoded
      then Inl (''runtime command is not directly encodable for the BW turn-buffer: ''
                @ enc_reason encoded)
      else case encodeCommands commands of Inl e \<Rightarrow> Inl e | Inr es \<Rightarrow> Inr (encoded # es))"

definition readU32LE :: "u8 list \<Rightarrow> u32" where
  "readU32LE bytes =
     ucast (bytes ! 0) OR push_bit 8 (ucast (bytes ! 1)) OR push_bit 16 (ucast (bytes ! 2))
     OR push_bit 24 (ucast (bytes ! 3))"

definition reason_or :: "string \<Rightarrow> string \<Rightarrow> string" where
  "reason_or reason fallback = (if reason = [] then fallback else reason)"

fun auditDirect ::
  "u64 \<Rightarrow> nat \<Rightarrow> nat \<Rightarrow> (command_request \<times> encoded_command) list \<Rightarrow> text_file \<Rightarrow> text_file" where
  "auditDirect writeAddress i byteOffset [] audit = audit"
| "auditDirect writeAddress i byteOffset ((command, encoded) # rest) audit =
     auditDirect writeAddress (Suc i) (byteOffset + length (enc_bytes encoded)) rest
       (appendDirectCommandAudit (i + 1) ''applied'' command (formatCommandBytesHex (enc_bytes encoded))
          (''written-to-runtime-command-queue:''
             @ nat_to_dec (unat (writeAddress + word_of_nat byteOffset))) audit)"

definition submitDirectRuntimeCommands ::
  "'m os_memory \<Rightarrow> int \<Rightarrow> direct_sink \<Rightarrow> command_request list \<Rightarrow> submit_result \<Rightarrow> 'm \<Rightarrow> text_file
   \<Rightarrow> submit_result \<times> 'm \<times> text_file" where
  "submitDirectRuntimeCommands os processId sink commands result m audit =
     (if commands = [] then (result\<lparr>sr_submitted := True\<rparr>, m, audit)
      else case encodeCommands commands of
        Inl reason \<Rightarrow> (rejectSubmit reason result, m, audit)
      | Inr encodedCommands \<Rightarrow>
      let encodedBytes = concat (map enc_bytes encodedCommands);
          usedBytesRead = readProcessMemory os m processId (ds_bytesInQueueAddress sink) 4 in
      if \<not> mr_success usedBytesRead \<or> mr_bytesRead usedBytesRead \<noteq> 4
      then (rejectSubmit (reason_or (mr_reason usedBytesRead)
              ''unable to read runtime command queue byte count'') result, m, audit)
      else let usedBytes = unat (readU32LE (mr_bytes usedBytesRead)) in
      if usedBytes > ds_capacityBytes sink
      then (rejectSubmit
              ''runtime command queue byte count exceeds known turn-buffer capacity'' result, m, audit)
      else if length encodedBytes > ds_capacityBytes sink - usedBytes
      then (rejectSubmit
              ''runtime command queue does not have enough remaining capacity'' result, m, audit)
      else let writeAddress = ds_turnBufferAddress sink + word_of_nat usedBytes;
               (writeBytes, m1) = writeProcessMemory os m processId writeAddress encodedBytes in
      if \<not> mw_success writeBytes \<or> mw_bytesWritten writeBytes \<noteq> length encodedBytes
      then (rejectSubmit (reason_or (mw_reason writeBytes)
              ''unable to write encoded command bytes to runtime command queue'') result, m1, audit)
      else let readback = readProcessMemory os m1 processId writeAddress (length encodedBytes) in
      if \<not> mr_success readback \<or> mr_bytesRead readback \<noteq> length encodedBytes
      then (rejectSubmit (reason_or (mr_reason readback)
              ''unable to read back encoded command bytes from runtime command queue'') result,
            m1, audit)
      else if encodedBytes \<noteq> take (length encodedBytes) (mr_bytes readback)
      then (rejectSubmit
              ''encoded command bytes readback did not match runtime command queue write'' result,
            m1, audit)
      else let newUsedBytes = (word_of_nat (usedBytes + length encodedBytes) :: u32);
               (writeCount, m2) = writeProcessMemory os m1 processId (ds_bytesInQueueAddress sink)
                 (word_to_le 4 newUsedBytes) in
      if \<not> mw_success writeCount \<or> mw_bytesWritten writeCount \<noteq> 4
      then (rejectSubmit (reason_or (mw_reason writeCount)
              ''unable to advance runtime command queue byte count'') result, m2, audit)
      else (submit_warning
              ''runtime commands were submitted directly to the proven runtime command queue''
              (result\<lparr>sr_submitted := True, sr_submittedCommands := length commands\<rparr>),
            m2, auditDirect writeAddress 0 0 (zip commands encodedCommands) audit))"

section \<open>Into the ring of the resident adapter\<close>

definition bridge_defaults :: bridge_options where
  "bridge_defaults = \<lparr>bo_minimumHeartbeat = 2, bo_maximumReadyFileAgeMs = 30000\<rparr>"

fun submitResidentLoop ::
  "string \<Rightarrow> command_request list \<Rightarrow> nat \<Rightarrow> queue_file \<Rightarrow> text_file
   \<Rightarrow> (string + nat) \<times> queue_file \<times> text_file" where
  "submitResidentLoop queuePath [] submitted q audit = (Inr submitted, q, audit)"
| "submitResidentLoop queuePath (command # commands) submitted q audit =
     (let (appended, q') =
        appendRuntimeResidentQueueRecord queuePath QCommand (command_payload command)
          bridge_defaults q in
      if \<not> ap_appended appended
      then (Inl (reason_or (ap_reason appended) ''unable to append command to resident command queue''),
            q', audit)
      else submitResidentLoop queuePath commands (submitted + 1) q'
             (appendDirectCommandAudit (unat (ap_sequence appended)) ''resident-enqueued'' command []
                (''queued-to-resident-command-ingress:'' @ queuePath) audit))"

definition submitResidentRuntimeCommands ::
  "string \<Rightarrow> command_request list \<Rightarrow> submit_result \<Rightarrow> queue_file \<Rightarrow> text_file
   \<Rightarrow> submit_result \<times> queue_file \<times> text_file" where
  "submitResidentRuntimeCommands queuePath commands result q audit =
     (case submitResidentLoop queuePath commands 0 q audit of
        (Inl reason, q', audit') \<Rightarrow> (rejectSubmit reason result, q', audit')
      | (Inr submitted, q', audit') \<Rightarrow>
          (submit_warning
             (''runtime commands were enqueued to the resident command ingress; ''
              @ ''production issue-command proof still requires observed SC:R behavior'')
             (result\<lparr>sr_submitted := True, sr_submittedCommands := submitted\<rparr>), q', audit'))"

end
