(* ===== verification/Submission_Properties.thy ===== *)
theory Submission_Properties
  imports Command_Submission Resident_Queue_Ring Encoder_Properties
begin

text \<open>
  What a submission leaves behind: in the turn buffer all of the encoded commands or none, in the
  ring of the adapter the longest prefix it had room for.
\<close>

section \<open>Faithful memory\<close>

text \<open>
  The documented behaviour of \<open>process_vm_readv\<close> and \<open>process_vm_writev\<close> on one element, with the
  target process standing still: a read yields bytes of the memory from the address on, a write
  is either refused and changes nothing or stores the whole element (a transfer never splits
  one) and changes nothing else.
\<close>

definition mem_bytes :: "('m \<Rightarrow> nat \<Rightarrow> u8) \<Rightarrow> 'm \<Rightarrow> nat \<Rightarrow> nat \<Rightarrow> u8 list" where
  "mem_bytes byte m a n = map (\<lambda>i. byte m (a + i)) [0..<n]"

definition stored :: "(nat \<Rightarrow> u8) \<Rightarrow> nat \<Rightarrow> u8 list \<Rightarrow> nat \<Rightarrow> u8" where
  "stored b a bs = (\<lambda>x. if a \<le> x \<and> x < a + length bs then bs ! (x - a) else b x)"

definition faithful_memory :: "'m os_memory \<Rightarrow> ('m \<Rightarrow> nat \<Rightarrow> u8) \<Rightarrow> bool" where
  "faithful_memory os byte \<longleftrightarrow>
     (\<forall>m pid a n. case os_readv os m pid a n of
        Inl _ \<Rightarrow> True
      | Inr bs \<Rightarrow> length bs \<le> n \<and> bs = mem_bytes byte m (unat a) (length bs))
   \<and> (\<forall>m pid a bs. case os_writev os m pid a bs of
        (Inl _, m') \<Rightarrow> byte m' = byte m
      | (Inr n, m') \<Rightarrow> n = length bs \<and> byte m' = stored (byte m) (unat a) bs)"

lemma length_mem_bytes [simp]: "length (mem_bytes byte m a n) = n"
  by (simp add: mem_bytes_def)

lemma faithful_read:
  assumes "faithful_memory os byte" and "mr_success (readProcessMemory os m pid a n)"
    and "mr_bytesRead (readProcessMemory os m pid a n) = n"
  shows "mr_bytes (readProcessMemory os m pid a n) = mem_bytes byte m (unat a) n"
proof -
  from assms(2) obtain bs where bs: "os_readv os m pid a n = Inr bs"
    and r: "readProcessMemory os m pid a n
      = \<lparr>mr_success = True, mr_bytesRead = length bs, mr_bytes = bs, mr_reason = []\<rparr>"
    by (auto simp: readProcessMemory_def read_failure_def split: option.splits sum.splits)
  have "case os_readv os m pid a n of Inl _ \<Rightarrow> True
      | Inr bs \<Rightarrow> length bs \<le> n \<and> bs = mem_bytes byte m (unat a) (length bs)"
    using assms(1) unfolding faithful_memory_def by blast
  with bs r assms(3) show ?thesis by simp
qed

lemma faithful_write:
  assumes "faithful_memory os byte" and "writeProcessMemory os m pid a bs = (w, m')"
  shows "(mw_success w \<and> mw_bytesWritten w = length bs \<and> byte m' = stored (byte m) (unat a) bs)
    \<or> (\<not> mw_success w \<and> byte m' = byte m)"
proof -
  note assms(1) [unfolded faithful_memory_def, THEN conjunct2, THEN spec [of _ m],
      THEN spec [of _ pid], THEN spec [of _ a], THEN spec [of _ bs]]
  then show ?thesis
    using assms(2)
    by (auto simp: writeProcessMemory_def writeFailure_def split: option.splits sum.splits prod.splits)
qed

lemma mem_bytes_cong:
  "(\<And>x. a \<le> x \<Longrightarrow> x < a + n \<Longrightarrow> byte m x = byte m' x) \<Longrightarrow> mem_bytes byte m a n = mem_bytes byte m' a n"
  by (simp add: mem_bytes_def)

lemma mem_bytes_stored:
  "byte m' = stored (byte m) a bs \<Longrightarrow> mem_bytes byte m' a (length bs) = bs"
  by (auto simp: mem_bytes_def stored_def intro: nth_equalityI)

lemma mem_bytes_append:
  "mem_bytes byte m a (n + k) = mem_bytes byte m a n @ mem_bytes byte m (a + n) k"
  by (rule nth_equalityI) (auto simp: mem_bytes_def nth_append)

section \<open>The turn buffer\<close>

definition turn_count :: "('m \<Rightarrow> nat \<Rightarrow> u8) \<Rightarrow> direct_sink \<Rightarrow> 'm \<Rightarrow> nat" where
  "turn_count byte sink m = unat (readU32LE (mem_bytes byte m (unat (ds_bytesInQueueAddress sink)) 4))"

definition turn_bytes :: "('m \<Rightarrow> nat \<Rightarrow> u8) \<Rightarrow> direct_sink \<Rightarrow> 'm \<Rightarrow> u8 list" where
  "turn_bytes byte sink m = mem_bytes byte m (unat (ds_turnBufferAddress sink)) (turn_count byte sink m)"

text \<open>The buffer and its counter lie in the address space and do not overlap.\<close>

definition sink_ok :: "direct_sink \<Rightarrow> bool" where
  "sink_ok sink \<longleftrightarrow>
     (let buffer = unat (ds_turnBufferAddress sink); counter = unat (ds_bytesInQueueAddress sink) in
      ds_capacityBytes sink < 2 ^ 32 \<and> buffer + ds_capacityBytes sink < 2 ^ 64
      \<and> counter + 4 < 2 ^ 64
      \<and> (buffer + ds_capacityBytes sink \<le> counter \<or> counter + 4 \<le> buffer))"

lemma readU32LE_le: "length bs = 4 \<Longrightarrow> readU32LE bs = le_to_word bs"
proof -
  assume "length bs = 4"
  then obtain a b c d where "bs = [a, b, c, d]"
    by (auto simp: numeral_eq_Suc length_Suc_conv)
  then show ?thesis
    by (simp add: readU32LE_def push_bit_or)
qed

lemma encodeCommands_eq:
  "encodeCommands cs = Inr es \<longleftrightarrow> es = map encodeRuntimeCommandRequest cs \<and> list_all enc_encoded es"
proof (induction cs arbitrary: es)
  case Nil
  then show ?case by auto
next
  case (Cons c cs)
  show ?case
  proof (cases "encodeCommands cs")
    case (Inl e)
    have "\<not> list_all enc_encoded (map encodeRuntimeCommandRequest cs)"
      using Cons.IH [of "map encodeRuntimeCommandRequest cs"] Inl by simp
    with Inl show ?thesis by (auto simp: Let_def)
  next
    case (Inr ds)
    with Cons.IH have "ds = map encodeRuntimeCommandRequest cs" "list_all enc_encoded ds" by auto
    with Inr show ?thesis by (auto simp: Let_def)
  qed
qed

text \<open>Bytes stored behind the counted ones are not part of the queue.\<close>

lemma stored_behind:
  assumes ok: "sink_ok sink" and used: "turn_count byte sink m + length bs \<le> ds_capacityBytes sink"
    and st: "byte m' = stored (byte m) (unat (ds_turnBufferAddress sink) + turn_count byte sink m) bs"
  shows "turn_count byte sink m' = turn_count byte sink m"
    and "turn_bytes byte sink m' = turn_bytes byte sink m"
    and "mem_bytes byte m' (unat (ds_turnBufferAddress sink)) (turn_count byte sink m + length bs)
       = turn_bytes byte sink m @ bs"
proof -
  let ?b = "unat (ds_turnBufferAddress sink)" and ?c = "unat (ds_bytesInQueueAddress sink)"
  have "mem_bytes byte m' ?c 4 = mem_bytes byte m ?c 4"
    using ok used by (intro mem_bytes_cong) (auto simp: st stored_def sink_ok_def Let_def)
  then show count: "turn_count byte sink m' = turn_count byte sink m" by (simp add: turn_count_def)
  have old: "mem_bytes byte m' ?b (turn_count byte sink m) = mem_bytes byte m ?b (turn_count byte sink m)"
    by (intro mem_bytes_cong) (simp add: st stored_def)
  then show "turn_bytes byte sink m' = turn_bytes byte sink m" by (simp add: turn_bytes_def count)
  show "mem_bytes byte m' ?b (turn_count byte sink m + length bs) = turn_bytes byte sink m @ bs"
    using mem_bytes_stored [OF st] old by (simp add: mem_bytes_append turn_bytes_def)
qed

text \<open>Storing the new count brings them in.\<close>

lemma stored_count:
  assumes ok: "sink_ok sink" and n: "n \<le> ds_capacityBytes sink"
    and st: "byte m' = stored (byte m) (unat (ds_bytesInQueueAddress sink))
       (word_to_le 4 (word_of_nat n :: u32))"
  shows "turn_count byte sink m' = n"
    and "turn_bytes byte sink m' = mem_bytes byte m (unat (ds_turnBufferAddress sink)) n"
proof -
  let ?b = "unat (ds_turnBufferAddress sink)" and ?c = "unat (ds_bytesInQueueAddress sink)"
  have "n < 2 ^ 32" using ok n by (simp add: sink_ok_def Let_def)
  moreover have "mem_bytes byte m' ?c 4 = word_to_le 4 (word_of_nat n :: u32)"
    using mem_bytes_stored [OF st] by simp
  ultimately show count: "turn_count byte sink m' = n"
    by (simp add: turn_count_def readU32LE_le unat_word_of_nat)
  show "turn_bytes byte sink m' = mem_bytes byte m ?b n"
    using ok n unfolding turn_bytes_def count
    by (intro mem_bytes_cong) (auto simp: st stored_def sink_ok_def Let_def)
qed

text \<open>The three ways a submission ends, with the state of the memory.\<close>

lemma submitDirect_cases:
  assumes mem: "faithful_memory os byte" and ok: "sink_ok sink" and ne: "commands \<noteq> []"
    and run: "submitDirectRuntimeCommands os pid sink commands result m audit = (res, m', audit')"
  defines "bs \<equiv> concat (map (enc_bytes \<circ> encodeRuntimeCommandRequest) commands)"
  obtains (refused) "\<exists>reason. res = rejectSubmit reason result" "audit' = audit"
      "turn_bytes byte sink m' = turn_bytes byte sink m"
  | (taken) "sr_submitted res" "sr_submittedCommands res = length commands"
      "list_all (enc_encoded \<circ> encodeRuntimeCommandRequest) commands"
      "turn_bytes byte sink m' = turn_bytes byte sink m @ bs"
      "turn_count byte sink m + length bs \<le> ds_capacityBytes sink"
proof (cases "encodeCommands commands")
  case (Inl reason)
  with run ne show thesis by (intro refused) (auto simp: submitDirectRuntimeCommands_def)
next
  case (Inr es)
  then have es: "concat (map enc_bytes es) = bs"
    and enc: "list_all (enc_encoded \<circ> encodeRuntimeCommandRequest) commands"
    by (auto simp: encodeCommands_eq bs_def list.pred_map)
  let ?count = "readProcessMemory os m pid (ds_bytesInQueueAddress sink) 4"
  let ?used = "unat (readU32LE (mr_bytes ?count))"
  let ?a = "ds_turnBufferAddress sink + word_of_nat ?used"
  obtain w m1 where w: "writeProcessMemory os m pid ?a bs = (w, m1)" by fastforce
  obtain v m2 where v: "writeProcessMemory os m1 pid (ds_bytesInQueueAddress sink)
      (word_to_le 4 (word_of_nat (?used + length bs) :: u32)) = (v, m2)" by fastforce
  note run' = run [unfolded submitDirectRuntimeCommands_def Inr sum.case es Let_def w v prod.case]
  show thesis
  proof (cases "mr_success ?count \<and> mr_bytesRead ?count = 4 \<and> ?used \<le> ds_capacityBytes sink
      \<and> length bs \<le> ds_capacityBytes sink - ?used")
    case False
    with run' ne show thesis by (intro refused) (auto split: if_splits)
  next
    case True
    then have used: "?used = turn_count byte sink m"
      using faithful_read [OF mem, of m pid "ds_bytesInQueueAddress sink" 4]
      by (simp add: turn_count_def)
    have fits: "turn_count byte sink m + length bs \<le> ds_capacityBytes sink"
      using True unfolding used by linarith
    have a: "unat ?a = unat (ds_turnBufferAddress sink) + turn_count byte sink m"
      using ok fits unfolding used
      by (simp add: unat_word_ariths sink_ok_def Let_def unat_word_of_nat)
    consider "byte m1 = byte m" "\<not> mw_success w"
      | "byte m1 = stored (byte m) (unat ?a) bs"
      using faithful_write [OF mem w] by blast
    then show thesis
    proof cases
      case 1
      with run' ne True show thesis
        by (intro refused) (auto simp: turn_bytes_def turn_count_def mem_bytes_def split: if_splits)
    next
      case 2
      note m1 = stored_behind [OF ok fits 2 [unfolded a]]
      let ?again = "readProcessMemory os m1 pid ?a (length bs)"
      consider "byte m2 = byte m1" "\<not> mw_success v"
        | "mw_success v" "mw_bytesWritten v = 4"
          "byte m2 = stored (byte m1) (unat (ds_bytesInQueueAddress sink))
             (word_to_le 4 (word_of_nat (turn_count byte sink m + length bs) :: u32))"
        using faithful_write [OF mem v] unfolding used by fastforce
      then show thesis
      proof cases
        case 1
        then have "turn_bytes byte sink m2 = turn_bytes byte sink m"
          using m1 by (simp add: turn_bytes_def turn_count_def mem_bytes_def)
        with run' ne True 1 m1 show thesis by (intro refused) (auto split: if_splits)
      next
        case c: 2
        have t: "turn_bytes byte sink m2 = turn_bytes byte sink m @ bs"
          using stored_count(2) [OF ok fits c(3)] m1 by simp
        show thesis
        proof (cases "mw_success w \<and> mw_bytesWritten w = length bs \<and> mr_success ?again
            \<and> mr_bytesRead ?again = length bs \<and> bs = take (length bs) (mr_bytes ?again)")
          case False
          with run' ne True c m1 show thesis by (intro refused) (auto split: if_splits)
        next
          case rb: True
          have "res = submit_warning
              ''runtime commands were submitted directly to the proven runtime command queue''
              (result\<lparr>sr_submitted := True, sr_submittedCommands := length commands\<rparr>)" "m' = m2"
            using run' ne True c rb by auto
          with t fits enc show thesis by (intro taken) (simp_all add: submit_warning_def)
        qed
      qed
    qed
  qed
qed

text \<open>A process whose memory answers: every call transfers all it was asked to.\<close>

definition obliging_memory :: "'m os_memory \<Rightarrow> bool" where
  "obliging_memory os \<longleftrightarrow>
     (\<forall>m pid a n. \<exists>bs. os_readv os m pid a n = Inr bs \<and> length bs = n)
   \<and> (\<forall>m pid a bs. \<exists>m'. os_writev os m pid a bs = (Inr (length bs), m'))"

lemma obliging_read:
  assumes "obliging_memory os" "0 < pid" "a \<noteq> 0" "0 < n"
  shows "mr_success (readProcessMemory os m pid a n)" "mr_bytesRead (readProcessMemory os m pid a n) = n"
    "length (mr_bytes (readProcessMemory os m pid a n)) = n"
proof -
  obtain bs where "os_readv os m pid a n = Inr bs" "length bs = n"
    using assms(1) unfolding obliging_memory_def by blast
  with assms show "mr_success (readProcessMemory os m pid a n)"
    "mr_bytesRead (readProcessMemory os m pid a n) = n"
    "length (mr_bytes (readProcessMemory os m pid a n)) = n"
    by (simp_all add: readProcessMemory_def read_refusal_def)
qed

lemma obliging_write:
  assumes "obliging_memory os" "0 < pid" "a \<noteq> 0" "bs \<noteq> []"
    and "writeProcessMemory os m pid a bs = (w, m')"
  shows "mw_success w" "mw_bytesWritten w = length bs"
proof -
  obtain m1 where "os_writev os m pid a bs = (Inr (length bs), m1)"
    using assms(1) unfolding obliging_memory_def by blast
  with assms show "mw_success w" "mw_bytesWritten w = length bs"
    by (auto simp: writeProcessMemory_def write_refusal_def)
qed

lemma encoded_nonempty: "enc_encoded (encodeRuntimeCommandRequest r) \<Longrightarrow>
    enc_bytes (encodeRuntimeCommandRequest r) \<noteq> []"
proof -
  have "encoder_bytes ord \<noteq> []" for ord by (cases ord rule: encoder_bytes.cases) (simp_all add: pack_nonempty)
  moreover assume "enc_encoded (encodeRuntimeCommandRequest r)"
  ultimately show ?thesis by (auto simp: encoded_iff encoded_bytes)
qed

lemma submitDirect_obliging:
  assumes mem: "faithful_memory os byte" and obl: "obliging_memory os" and ok: "sink_ok sink"
    and pid: "0 < pid" "ds_bytesInQueueAddress sink \<noteq> 0" "ds_turnBufferAddress sink \<noteq> 0"
    and run: "submitDirectRuntimeCommands os pid sink commands result m audit = (res, m', audit')"
    and enc: "list_all (enc_encoded \<circ> encodeRuntimeCommandRequest) commands" and ne: "commands \<noteq> []"
    and fits: "turn_count byte sink m
        + length (concat (map (enc_bytes \<circ> encodeRuntimeCommandRequest) commands))
      \<le> ds_capacityBytes sink"
  shows "sr_submitted res"
proof -
  let ?es = "map encodeRuntimeCommandRequest commands"
  let ?bs = "concat (map enc_bytes ?es)"
  have Inr: "encodeCommands commands = Inr ?es"
    using enc by (simp add: encodeCommands_eq list.pred_map)
  have bs: "?bs \<noteq> []"
    using ne enc encoded_nonempty by (cases commands) auto
  let ?count = "readProcessMemory os m pid (ds_bytesInQueueAddress sink) 4"
  let ?used = "unat (readU32LE (mr_bytes ?count))"
  let ?a = "ds_turnBufferAddress sink + word_of_nat ?used"
  note c = obliging_read [OF obl pid(1,2), of 4 m]
  have used: "?used = turn_count byte sink m"
    using faithful_read [OF mem, of m pid "ds_bytesInQueueAddress sink" 4] c
    by (simp add: turn_count_def)
  have "unat ?a = unat (ds_turnBufferAddress sink) + turn_count byte sink m"
    using ok fits unfolding used
    by (simp add: unat_word_ariths sink_ok_def Let_def unat_word_of_nat)
  then have a: "?a \<noteq> 0" using pid(3) by (metis add_is_0 unat_0 unat_eq_zero)
  obtain w m1 where w: "writeProcessMemory os m pid ?a ?bs = (w, m1)" by fastforce
  obtain v m2 where v: "writeProcessMemory os m1 pid (ds_bytesInQueueAddress sink)
      (word_to_le 4 (word_of_nat (?used + length ?bs) :: u32)) = (v, m2)" by fastforce
  note w' = obliging_write [OF obl pid(1) a bs w]
  have v': "mw_success v" "mw_bytesWritten v = 4"
    using obliging_write [OF obl pid(1,2) _ v] by (simp_all add: numeral_eq_Suc)
  have "byte m1 = stored (byte m) (unat ?a) ?bs"
    using faithful_write [OF mem w] w' by blast
  note bk = obliging_read [OF obl pid(1) a, of "length ?bs" m1]
  have rb: "mr_bytes (readProcessMemory os m1 pid ?a (length ?bs)) = ?bs"
    using faithful_read [OF mem, of m1 pid ?a "length ?bs"] bk bs
      mem_bytes_stored [OF \<open>byte m1 = stored (byte m) (unat ?a) ?bs\<close>] by simp
  have room: "\<not> ?used > ds_capacityBytes sink" "\<not> length ?bs > ds_capacityBytes sink - ?used"
    using fits unfolding used by (simp_all add: comp_def)
  note run' = run [unfolded submitDirectRuntimeCommands_def Inr sum.case Let_def w v prod.case]
  show ?thesis
    using run' ne c room w' bk v' bs rb by (auto simp: submit_warning_def)
qed

section \<open>Properties of direct submission\<close>

text \<open>
  C11. Submitting to the turn buffer is atomic: over a memory that reads and stores faithfully the
  bytes the game will take as its turn are the old ones followed by those of all the commands when
  the call reports success, and the old ones unchanged when it reports any failure; the report and
  its count say which. Where the memory answers, the call succeeds exactly when every command
  encodes and the bytes fit the capacity of the sink.
\<close>

theorem direct_submission_atomic:
  assumes "faithful_memory os byte" and "sink_ok sink"
    and "submitDirectRuntimeCommands os pid sink commands default_submit_result m audit
      = (res, m', audit')"
  defines "bs \<equiv> concat (map (enc_bytes \<circ> encodeRuntimeCommandRequest) commands)"
  shows "turn_bytes byte sink m' = turn_bytes byte sink m @ (if sr_submitted res then bs else [])
    \<and> sr_submittedCommands res = (if sr_submitted res then length commands else 0)
    \<and> (sr_errors res = [] \<longleftrightarrow> sr_submitted res)
    \<and> (obliging_memory os \<and> 0 < pid \<and> ds_bytesInQueueAddress sink \<noteq> 0
        \<and> ds_turnBufferAddress sink \<noteq> 0 \<longrightarrow>
       sr_submitted res = (list_all (enc_encoded \<circ> encodeRuntimeCommandRequest) commands
         \<and> (commands = [] \<or> turn_count byte sink m + length bs \<le> ds_capacityBytes sink)))"
proof (cases "commands = []")
  case True
  with assms show ?thesis
    by (auto simp: submitDirectRuntimeCommands_def default_submit_result_def)
next
  case ne: False
  note live = submitDirect_obliging [OF assms(1) _ assms(2) _ _ _ assms(3) _ ne]
  from submitDirect_cases [OF assms(1,2) ne assms(3)] show ?thesis
  proof cases
    case 1
    then have "\<not> sr_submitted res" "sr_errors res \<noteq> []" "sr_submittedCommands res = 0"
      by (auto simp: rejectSubmit_def default_submit_result_def)
    with 1 live ne show ?thesis by (auto simp: bs_def)
  next
    case 2
    moreover have "sr_errors res = []"
      using 2(1) assms(3) ne
      by (auto simp: submitDirectRuntimeCommands_def rejectSubmit_def default_submit_result_def
          submit_warning_def Let_def split: sum.splits if_splits prod.splits)
    ultimately show ?thesis using ne by (simp add: bs_def)
  qed
qed

definition flat_memory :: "(nat \<Rightarrow> u8) os_memory" where
  "flat_memory =
     \<lparr>os_readv = (\<lambda>m pid a n. Inr (mem_bytes (\<lambda>m. m) m (unat a) n)),
      os_writev = (\<lambda>m pid a bs. (Inr (length bs), stored m (unat a) bs))\<rparr>"

lemma flat_memory_faithful: "faithful_memory flat_memory (\<lambda>m. m)" "obliging_memory flat_memory"
  by (simp_all add: faithful_memory_def obliging_memory_def flat_memory_def)

definition demo_sink :: direct_sink where
  "demo_sink =
     \<lparr>ds_turnBufferAddress = 0x1000, ds_bytesInQueueAddress = 0x2000, ds_capacityBytes = 512\<rparr>"

definition empty_file :: text_file where
  "empty_file = \<lparr>tf_text = None, tf_opens = True\<rparr>"

definition demo_submission :: "submit_result \<times> (nat \<Rightarrow> u8) \<times> text_file" where
  "demo_submission = submitDirectRuntimeCommands flat_memory 77 demo_sink
     [move_request [100, 200], move_request [50, 60]] default_submit_result (\<lambda>_. 0) empty_file"

theorem direct_submission_atomic_witness:
  "sr_submitted (fst demo_submission)
   \<and> turn_bytes (\<lambda>m. m) demo_sink (fst (snd demo_submission))
     = enc_bytes (encodeRuntimeCommandRequest (move_request [100, 200]))
       @ enc_bytes (encodeRuntimeCommandRequest (move_request [50, 60]))"
proof -
  obtain res m' audit' where run: "demo_submission = (res, m', audit')" by (cases demo_submission)
  have "sink_ok demo_sink" by (simp add: sink_ok_def demo_sink_def)
  note c = direct_submission_atomic [OF flat_memory_faithful(1) this run [unfolded demo_submission_def]]
  have count: "turn_count (\<lambda>m. m) demo_sink (\<lambda>_. 0) = 0"
    by (simp add: turn_count_def mem_bytes_def readU32LE_def numeral_eq_Suc)
  have enc: "enc_encoded (encodeRuntimeCommandRequest (move_request [50, 60]))"
    "length (enc_bytes (encodeRuntimeCommandRequest (move_request [50, 60]))) = 11"
    "enc_encoded (encodeRuntimeCommandRequest (move_request [100, 200]))"
    "length (enc_bytes (encodeRuntimeCommandRequest (move_request [100, 200]))) = 11"
    by code_simp+
  have "sr_submitted res"
    using c flat_memory_faithful(2) enc by (simp add: demo_sink_def count [unfolded demo_sink_def])
  with c count show ?thesis by (simp add: run turn_bytes_def mem_bytes_def)
qed

section \<open>Into the ring\<close>

text \<open>How many more records the ring takes, and the commands it accepts of a list.\<close>

definition free_slots :: "u8 list \<Rightarrow> nat" where
  "free_slots f =
     (let h = file_header f in min (capr h - (wseq h - rseq h)) (2 ^ 64 - 1 - wseq h))"

definition accepted_commands :: "u8 list \<Rightarrow> command_request list \<Rightarrow> command_request list" where
  "accepted_commands f commands =
     take (free_slots f)
       (takeWhile (\<lambda>c. length (command_payload c) \<le> recb (file_header f) - 16) commands)"

lemma roomy_free: "roomy p f \<longleftrightarrow> length p \<le> recb (file_header f) - 16 \<and> 0 < free_slots f"
  by (auto simp: roomy_def free_slots_def Let_def)

lemma appended_file:
  assumes ok: "queue_ok (kind_code kind) options f" and room: "roomy p f"
  obtains f' where
    "appendRuntimeResidentQueueRecord path kind p options (Some f)
      = (\<lparr>ap_appended = True, ap_sequence = qh_writeSequence (file_header f), ap_reason = [],
          ap_errors = []\<rparr>, Some f')"
    "queue_ok (kind_code kind) options f'" "contents_of f' = contents_of f @ [p]"
    "file_header f' = bump (file_header f)" "free_slots f = Suc (free_slots f')"
proof -
  let ?h = "file_header f"
  define f' where "f' = write_at 0 (queue_header_bytes (bump ?h))
    (write_at (slot_off ?h (wseq ?h)) (record_slot ?h (new_record ?h kind p) p) f)"
  note app = append_appends(3,4) [OF ok room, where path = path]
  have run: "appendRuntimeResidentQueueRecord path kind p options (Some f)
      = (\<lparr>ap_appended = True, ap_sequence = qh_writeSequence ?h, ap_reason = [], ap_errors = []\<rparr>,
         Some f')"
    using app by (simp add: prod_eq_iff f'_def Let_def)
  have h: "file_header f' = bump ?h" by (simp add: f'_def)
  have "wseq ?h + 1 < 2 ^ 64" "rseq ?h \<le> wseq ?h"
    using room ok by (simp_all add: roomy_def queue_ok_def header_ok_def Let_def)
  then have "free_slots f = Suc (free_slots f')"
    using room by (auto simp: free_slots_def h Let_def bump_wseq roomy_def min_def)
  with run h show thesis
    using append_preserves [OF ok room refl] by (intro that) (simp_all add: f'_def)
qed

lemma submitResidentLoop_ok:
  assumes "queue_ok (kind_code QCommand) bridge_defaults f"
  shows "\<exists>outcome f' audit'.
      submitResidentLoop path commands n (Some f) audit = (outcome, Some f', audit')
    \<and> queue_ok (kind_code QCommand) bridge_defaults f'
    \<and> contents_of f' = contents_of f @ map command_payload (accepted_commands f commands)
    \<and> (if accepted_commands f commands = commands then outcome = Inr (n + length commands)
       else \<exists>e. outcome = Inl e)"
  using assms
proof (induction commands arbitrary: f n audit)
  case Nil
  then show ?case by (simp add: accepted_commands_def)
next
  case (Cons c cs)
  show ?case
  proof (cases "roomy (command_payload c) f")
    case False
    then have "accepted_commands f (c # cs) = []"
      by (simp add: accepted_commands_def roomy_free)
    with False Cons.prems append_appends(1,2) [OF Cons.prems, where path = path and payload = "command_payload c"]
    show ?thesis
      by (auto simp: Let_def split: prod.split)
  next
    case True
    obtain f' where f': "appendRuntimeResidentQueueRecord path QCommand (command_payload c)
          bridge_defaults (Some f)
        = (\<lparr>ap_appended = True, ap_sequence = qh_writeSequence (file_header f), ap_reason = [],
            ap_errors = []\<rparr>, Some f')"
      "queue_ok (kind_code QCommand) bridge_defaults f'"
      "contents_of f' = contents_of f @ [command_payload c]"
      "file_header f' = bump (file_header f)" "free_slots f = Suc (free_slots f')"
      using appended_file [OF Cons.prems True] by blast
    have acc: "accepted_commands f (c # cs) = c # accepted_commands f' cs"
      using True f' by (simp add: accepted_commands_def roomy_free)
    show ?thesis
      using Cons.IH [OF f'(2), of "n + 1"
          "appendDirectCommandAudit (unat (qh_writeSequence (file_header f))) ''resident-enqueued'' c []
            (''queued-to-resident-command-ingress:'' @ path) audit"] f'(1,3) acc
      by (auto split: if_splits)
  qed
qed

text \<open>
  Submitting to the ring of the adapter keeps the order and is exact about what it leaves: the
  ring grows by the longest prefix of the commands that fits, and success is reported, with the
  number of commands, exactly when that prefix is all of them. A submission that runs out of room
  reports zero commands although the prefix stays queued.
\<close>

theorem resident_submission_exact:
  assumes "queue_ok (kind_code QCommand) bridge_defaults f"
    and "submitResidentRuntimeCommands path commands default_submit_result (Some f) audit
      = (res, q', audit')"
  shows "\<exists>f'. q' = Some f' \<and> queue_ok (kind_code QCommand) bridge_defaults f'
    \<and> contents_of f' = contents_of f @ map command_payload (accepted_commands f commands)
    \<and> sr_submitted res = (accepted_commands f commands = commands)
    \<and> sr_submittedCommands res = (if accepted_commands f commands = commands then length commands else 0)"
proof -
  obtain outcome f' a where "submitResidentLoop path commands 0 (Some f) audit = (outcome, Some f', a)"
    "queue_ok (kind_code QCommand) bridge_defaults f'"
    "contents_of f' = contents_of f @ map command_payload (accepted_commands f commands)"
    "if accepted_commands f commands = commands then outcome = Inr (length commands)
     else \<exists>e. outcome = Inl e"
    using submitResidentLoop_ok [OF assms(1), of path commands 0 audit] by fastforce
  with assms(2) show ?thesis
    by (auto simp: submitResidentRuntimeCommands_def submit_warning_def rejectSubmit_def
        default_submit_result_def split: if_splits)
qed

text \<open>The ring file the adapter creates for a header when there is none.\<close>

definition fresh_ring :: "queue_header \<Rightarrow> u8 list" where
  "fresh_ring d = the (snd (snd (ensureRuntimeResidentQueueFile ''q'' d bridge_defaults None)))"

lemma fresh_ring_ok:
  assumes "header_ok (qh_kind d) bridge_defaults d" "16 \<le> recb d"
    and "qh_readSequence d = qh_writeSequence d"
  shows "queue_ok (qh_kind d) bridge_defaults (fresh_ring d)" "contents_of (fresh_ring d) = []"
    "file_header (fresh_ring d) = d"
proof -
  have nc: "\<not> compatible d bridge_defaults None" by (simp add: compatible_def)
  have eq: "fresh_ring d = write_at 0 (queue_header_bytes (ensured_header d bridge_defaults None))
      (resize_file (residentQueueFileSize (ensured_header d bridge_defaults None)) [])"
    using assms by (simp add: fresh_ring_def ensure_eq Let_def)
  moreover note ensure_result [of d bridge_defaults None] assms nc
  ultimately show "queue_ok (qh_kind d) bridge_defaults (fresh_ring d)" "contents_of (fresh_ring d) = []"
    by (simp_all add: ensured_header_def)
  show "file_header (fresh_ring d) = d"
    using nc by (simp add: eq ensured_header_def)
qed

text \<open>A command ring as the adapter makes it, with one slot.\<close>

definition command_header :: "u32 \<Rightarrow> queue_header" where
  "command_header slots = makeRuntimeResidentQueueHeader QCommand 528 slots 5"

lemma command_ring:
  assumes "0 < unat slots"
  shows "queue_ok (kind_code QCommand) bridge_defaults (fresh_ring (command_header slots))"
    "contents_of (fresh_ring (command_header slots)) = []"
    "file_header (fresh_ring (command_header slots)) = command_header slots"
  using fresh_ring_ok [of "command_header slots"] assms
  by (simp_all add: command_header_def makeRuntimeResidentQueueHeader_def header_ok_def
      bridge_defaults_def)

definition demo_ring_submission :: "submit_result \<times> queue_file \<times> text_file" where
  "demo_ring_submission = submitResidentRuntimeCommands ''q''
     [move_request [100, 200], move_request [50, 60]] default_submit_result
     (Some (fresh_ring (command_header 1))) empty_file"

theorem resident_submission_exact_witness:
  "sr_submittedCommands (fst demo_ring_submission) = 0
   \<and> map_option contents_of (fst (snd demo_ring_submission))
     = Some [command_payload (move_request [100, 200])]"
proof -
  obtain res q' audit' where run: "demo_ring_submission = (res, q', audit')"
    by (cases demo_ring_submission)
  have ring: "0 < unat (1 :: u32)" by simp
  note r = command_ring [OF ring]
  have "free_slots (fresh_ring (command_header 1)) = 1"
    by (simp add: free_slots_def r(3)) (simp add: command_header_def makeRuntimeResidentQueueHeader_def)
  moreover have "recb (command_header 1) = 528"
    by (simp add: command_header_def makeRuntimeResidentQueueHeader_def)
  moreover have "length (serializeCommand (move_request [100, 200])) = 27"
    "length (serializeCommand (move_request [50, 60])) = 25"
    by code_simp+
  ultimately have "accepted_commands (fresh_ring (command_header 1))
      [move_request [100, 200], move_request [50, 60]] = [move_request [100, 200]]"
    by (simp add: accepted_commands_def r(3) command_payload_def)
  with resident_submission_exact [OF r(1) run [unfolded demo_ring_submission_def]] r(2)
  show ?thesis by (auto simp: run)
qed

end
