(* ===== verification/Command_Ingress.thy ===== *)
theory Command_Ingress
  imports Submission_Properties
begin

text \<open>
  The receiving end in the process of the game (\<open>RuntimeResidentAdapterEntry.cpp\<close>,
  \<open>consumeResidentCommandQueue\<close>, \<open>ensureResidentQueue\<close>, \<open>updateIngressSequenceRange\<close>): once per
  heartbeat the adapter reads up to 64 records of the command ring, parses each, routes drawing
  actions into the overlay ring, notes everything in an audit file and acknowledges what it read.
  The lines it logs are a list, latest last; their time stamps are left out.
\<close>

section \<open>State\<close>

record command_ingress =
  ci_passed :: bool
  ci_receiverActive :: bool
  ci_consumedRecords :: nat
  ci_parsedCommands :: nat
  ci_unitCommands :: nat
  ci_gameActions :: nat
  ci_overlayActions :: nat
  ci_firstSequence :: u64
  ci_lastSequence :: u64
  ci_snapshot :: string
  ci_reason :: string

definition default_command_ingress :: command_ingress where
  "default_command_ingress =
     \<lparr>ci_passed = False, ci_receiverActive = False, ci_consumedRecords = 0, ci_parsedCommands = 0,
      ci_unitCommands = 0, ci_gameActions = 0, ci_overlayActions = 0, ci_firstSequence = 0,
      ci_lastSequence = 0, ci_snapshot = ''issue_commands.snapshot.tsv'', ci_reason = []\<rparr>"

record overlay_ingress =
  oi_passed :: bool
  oi_rendererBound :: bool
  oi_acceptedPrimitives :: nat
  oi_firstSequence :: u64
  oi_lastSequence :: u64
  oi_snapshot :: string
  oi_reason :: string

definition default_overlay_ingress :: overlay_ingress where
  "default_overlay_ingress =
     \<lparr>oi_passed = False, oi_rendererBound = False, oi_acceptedPrimitives = 0, oi_firstSequence = 0,
      oi_lastSequence = 0, oi_snapshot = ''draw_overlays.snapshot.tsv'', oi_reason = []\<rparr>"

record adapter =
  ad_commandQueue :: queue_file
  ad_overlayQueue :: queue_file
  ad_commandQueueHeader :: queue_header
  ad_overlayQueueHeader :: queue_header
  ad_command :: command_ingress
  ad_overlay :: overlay_ingress
  ad_audit :: text_file
  ad_log :: "string list"

definition appendResidentLog :: "string \<Rightarrow> adapter \<Rightarrow> adapter" where
  "appendResidentLog line a = a\<lparr>ad_log := ad_log a @ [line]\<rparr>"

section \<open>Queues of the adapter\<close>

definition ensureResidentQueue ::
  "string \<Rightarrow> queue_header \<Rightarrow> queue_file \<Rightarrow> bool \<times> queue_header \<times> queue_file \<times> string list" where
  "ensureResidentQueue path desired file =
     (let (ensured, actual, file') =
        ensureRuntimeResidentQueueFile path desired bridge_defaults file in
      if qv_valid ensured then (True, actual, file', [])
      else (False, actual, file',
            [''resident.queue.ensure_failed path='' @ path @ '' reason=''
               @ (case qv_errors ensured of [] \<Rightarrow> ''unknown'' | e # _ \<Rightarrow> e)]))"

definition desiredCommandQueueHeader :: "u64 \<Rightarrow> queue_header" where
  "desiredCommandQueueHeader heartbeat = makeRuntimeResidentQueueHeader QCommand (16 + 512) 64 heartbeat"

definition desiredOverlayQueueHeader :: "u64 \<Rightarrow> queue_header" where
  "desiredOverlayQueueHeader heartbeat = makeRuntimeResidentQueueHeader QOverlay (16 + 512) 64 heartbeat"

definition desiredProofQueueHeader :: "u64 \<Rightarrow> queue_header" where
  "desiredProofQueueHeader heartbeat = makeRuntimeResidentQueueHeader QProof 16 64 heartbeat"

section \<open>One record\<close>

text \<open>\<open>updateIngressSequenceRange\<close>: count, first and last sequence.\<close>

definition updateIngressSequenceRange ::
  "nat \<Rightarrow> u64 \<Rightarrow> nat \<times> u64 \<times> u64 \<Rightarrow> nat \<times> u64 \<times> u64" where
  "updateIngressSequenceRange previousCount sequence rg =
     (case rg of (n, firstSequence, lastSequence) \<Rightarrow>
        (n + 1, if previousCount = 0 then sequence else firstSequence, sequence))"

definition note_consumed :: "u64 \<Rightarrow> adapter \<Rightarrow> adapter" where
  "note_consumed sequence a =
     (let c = ad_command a;
          (n, firstSequence, lastSequence) = updateIngressSequenceRange (ci_consumedRecords c) sequence
            (ci_consumedRecords c, ci_firstSequence c, ci_lastSequence c)
      in a\<lparr>ad_command := c\<lparr>ci_consumedRecords := n, ci_firstSequence := firstSequence,
             ci_lastSequence := lastSequence\<rparr>\<rparr>)"

definition note_parsed :: "command_kind \<Rightarrow> adapter \<Rightarrow> adapter" where
  "note_parsed kind a =
     (let c = ad_command a in
      a\<lparr>ad_command := c\<lparr>ci_parsedCommands := ci_parsedCommands c + 1,
          ci_unitCommands := ci_unitCommands c + (case kind of UnitCommand \<Rightarrow> 1 | GameAction \<Rightarrow> 0),
          ci_gameActions := ci_gameActions c + (case kind of UnitCommand \<Rightarrow> 0 | GameAction \<Rightarrow> 1)\<rparr>\<rparr>)"

text \<open>A drawing action goes on to the overlay ring with its payload unchanged.\<close>

definition route_overlay :: "string \<Rightarrow> u8 list \<Rightarrow> adapter \<Rightarrow> bool \<times> adapter" where
  "route_overlay overlayQueuePath payload a =
     (let (appended, q) = appendRuntimeResidentQueueRecord overlayQueuePath QOverlay payload
            bridge_defaults (ad_overlayQueue a);
          a = a\<lparr>ad_overlayQueue := q\<rparr>
      in if ap_appended appended then
           (let ov = ad_overlay a;
                (n, firstSequence, lastSequence) =
                  updateIngressSequenceRange (oi_acceptedPrimitives ov) (ap_sequence appended)
                    (oi_acceptedPrimitives ov, oi_firstSequence ov, oi_lastSequence ov)
            in (True, a\<lparr>ad_overlay := ov\<lparr>oi_acceptedPrimitives := n,
                    oi_firstSequence := firstSequence, oi_lastSequence := lastSequence\<rparr>,
                  ad_command := (ad_command a)
                    \<lparr>ci_overlayActions := ci_overlayActions (ad_command a) + 1\<rparr>\<rparr>))
         else if ap_reason appended \<noteq> []
         then (False, appendResidentLog
                 (''resident.overlay_queue.append_failed reason='' @ ap_reason appended) a)
         else (False, a))"

definition show_bool :: "bool \<Rightarrow> string" where
  "show_bool b = (if b then ''true'' else ''false'')"

definition audit_line :: "u64 \<Rightarrow> u32 \<Rightarrow> command_request option \<Rightarrow> bool \<Rightarrow> string \<Rightarrow> string" where
  "audit_line sequence payloadBytes parsed overlayRouted payloadText =
     join_on (CHR 0x09)
       [nat_to_dec (unat sequence), nat_to_dec (unat payloadBytes), show_bool (parsed \<noteq> None),
        (case parsed of None \<Rightarrow> [] | Some c \<Rightarrow> command_kind_toString (rq_kind c)),
        (case parsed of None \<Rightarrow> [] | Some c \<Rightarrow> rq_name c), show_bool overlayRouted, payloadText]"

definition consume_record :: "string \<Rightarrow> queue_record \<Rightarrow> adapter \<Rightarrow> string \<times> adapter" where
  "consume_record overlayQueuePath record a =
     (let payloadText = residentQueuePayloadText (qr_payload record);
          parsed = parseResidentRuntimeCommand payloadText;
          sequence = rh_sequence (qr_header record);
          a = note_consumed sequence a;
          (routed, a) =
            (case parsed of
               None \<Rightarrow> (False, a)
             | Some command \<Rightarrow>
                 let a = note_parsed (rq_kind command) a in
                 if isResidentOverlayAction command
                 then route_overlay overlayQueuePath (qr_payload record) a else (False, a))
      in (audit_line sequence (rh_payloadBytes (qr_header record)) parsed routed payloadText, a))"

fun consume_records :: "string \<Rightarrow> queue_record list \<Rightarrow> adapter \<Rightarrow> string list \<times> adapter" where
  "consume_records overlayQueuePath [] a = ([], a)"
| "consume_records overlayQueuePath (r # rs) a =
     (let (line, a) = consume_record overlayQueuePath r a;
          (ls, a) = consume_records overlayQueuePath rs a in (line # ls, a))"

section \<open>One pass\<close>

definition commandAuditHeader :: string where
  "commandAuditHeader =
     join_on (CHR 0x09) [''sequence'', ''payload_bytes'', ''parsed'', ''kind'', ''name'',
       ''overlay_routed'', ''payload'']"

text \<open>The records are looked at only where the audit file opens.\<close>

definition audit_records :: "string \<Rightarrow> queue_record list \<Rightarrow> adapter \<Rightarrow> adapter" where
  "audit_records overlayQueuePath records a =
     (if \<not> tf_opens (ad_audit a) then a
      else let (ls, a) = consume_records overlayQueuePath records a in
        a\<lparr>ad_audit := append_audit commandAuditHeader ls (ad_audit a)\<rparr>)"

definition note_pass :: "queue_header \<Rightarrow> nat \<Rightarrow> adapter \<Rightarrow> adapter" where
  "note_pass h count a =
     (let c = ad_command a; ov = ad_overlay a;
          cp = (ci_consumedRecords c > 0); op = (oi_acceptedPrimitives ov > 0);
          a = a\<lparr>ad_commandQueueHeader := h,
              ad_command := c\<lparr>ci_passed := cp, ci_reason :=
                (if cp
                 then ''resident command ingress consumed BWAPI command records in the target process''
                 else ''resident command ingress has not consumed a BWAPI command record yet'')\<rparr>,
              ad_overlay := ov\<lparr>oi_passed := op, oi_rendererBound := False, oi_reason :=
                (if op
                 then ''resident overlay ingress accepted BWAPI draw primitives, ''
                      @ ''but no SC:R render hook is bound''
                 else ''resident overlay ingress has not accepted BWAPI draw primitives yet'')\<rparr>\<rparr>
      in appendResidentLog (''resident.command_queue.consumed records='' @ nat_to_dec count
           @ '' read_sequence='' @ nat_to_dec (unat (qh_readSequence h))
           @ '' overlay_record_bytes=''
           @ nat_to_dec (unat (qh_recordBytes (ad_overlayQueueHeader a)))) a)"

text \<open>\<open>None\<close> is the overread of a ring whose records are shorter than their header.\<close>

definition consumeResidentCommandQueue ::
  "string \<Rightarrow> string \<Rightarrow> adapter \<Rightarrow> adapter option" where
  "consumeResidentCommandQueue commandQueuePath overlayQueuePath a =
     (let a = a\<lparr>ad_command := (ad_command a)\<lparr>ci_receiverActive := True\<rparr>\<rparr> in
      case readRuntimeResidentQueueRecords commandQueuePath QCommand 64 bridge_defaults
             (ad_commandQueue a) of
        SlotOverread \<Rightarrow> None
      | ReadDone rd \<Rightarrow> Some (
          if \<not> rd_read rd
          then (if rd_errors rd \<noteq> []
                then appendResidentLog
                  (''resident.command_queue.read_failed reason='' @ hd (rd_errors rd)) a else a)
          else if rd_records rd = [] then a\<lparr>ad_commandQueueHeader := rd_header rd\<rparr>
          else
            let a = audit_records overlayQueuePath (rd_records rd) a;
                acknowledgedSequence = rh_sequence (qr_header (last (rd_records rd))) + 1;
                (acknowledged, q) = acknowledgeRuntimeResidentQueueRecords commandQueuePath QCommand
                  acknowledgedSequence bridge_defaults (ad_commandQueue a);
                a = a\<lparr>ad_commandQueue := q\<rparr>
            in if \<not> ak_acknowledged acknowledged
               then (if ak_errors acknowledged \<noteq> []
                     then appendResidentLog
                       (''resident.command_queue.ack_failed reason='' @ hd (ak_errors acknowledged)) a
                     else a)
               else note_pass (ak_header acknowledged) (length (rd_records rd)) a))"

end
