(* ===== verification/Ingress_Properties.thy ===== *)
theory Ingress_Properties
  imports Command_Ingress
begin

text \<open>
  From the executor to the adapter: what was submitted to the ring is what the adapter parses, in
  that order and once, and what a pass does when the audit file cannot be opened.
\<close>

section \<open>Records of a well-formed ring\<close>

text \<open>The record of a payload with the sequence number it was appended under.\<close>

definition records_of :: "u8 list \<Rightarrow> queue_record list" where
  "records_of f = map (record_at (file_header f) f) [rseq (file_header f)..<wseq (file_header f)]"

lemma records_payloads: "map qr_payload (records_of f) = contents_of f"
  by (simp add: records_of_def contents_records)

lemma length_payload_of:
  "record_ok k h slot n \<Longrightarrow> length slot = recb h \<Longrightarrow>
   length (payload_of slot) = unat (rh_payloadBytes (record_header_of slot))"
  by (auto simp: record_ok_def payload_of_def bytes_at_def Let_def word_le_nat_alt)

lemma records_headers:
  assumes "queue_ok k options f" and "i < length (records_of f)"
  shows "unat (rh_sequence (qr_header (records_of f ! i))) = rseq (file_header f) + i"
    and "unat (rh_payloadBytes (qr_header (records_of f ! i))) = length (contents_of f ! i)"
proof -
  let ?h = "file_header f"
  let ?n = "rseq ?h + i"
  have n: "?n < wseq ?h" using assms(2) by (simp add: records_of_def)
  then have rec: "record_ok k ?h (slot_at ?h f ?n) ?n"
    using assms(1) by (simp add: queue_ok_def Let_def)
  have r: "records_of f ! i = record_at ?h f ?n" using n by (simp add: records_of_def)
  show "unat (rh_sequence (qr_header (records_of f ! i))) = ?n"
    using rec by (simp add: r record_at_def record_ok_def Let_def)
  have "0 < capr ?h" "residentQueueFileSize ?h \<le> length f"
    using assms(1) by (simp_all add: queue_ok_def header_ok_def Let_def)
  then have "length (slot_at ?h f ?n) = recb ?h"
    using slot_fits [of ?h ?n] by (simp add: slot_at_def bytes_at_def)
  moreover have "contents_of f ! i = payload_of (slot_at ?h f ?n)"
    using nth_upt [OF n] n by (simp add: contents_of_def Let_def)
  ultimately show "unat (rh_payloadBytes (qr_header (records_of f ! i))) = length (contents_of f ! i)"
    using length_payload_of [OF rec] by (simp add: r record_at_def)
qed

section \<open>The pass over the records\<close>

text \<open>
  Which commands of a list the overlay ring takes: the drawing actions, while they fit, with
  \<open>room\<close> free slots of \<open>most\<close> payload bytes.
\<close>

fun overlay_takes :: "nat \<Rightarrow> nat \<Rightarrow> command_request list \<Rightarrow> bool list" where
  "overlay_takes room most [] = []"
| "overlay_takes room most (c # cs) =
     (if isResidentOverlayAction c \<and> length (command_payload c) \<le> most \<and> 0 < room
      then True # overlay_takes (room - 1) most cs
      else False # overlay_takes room most cs)"

definition taken_by :: "u8 list \<Rightarrow> command_request list \<Rightarrow> bool list" where
  "taken_by ov cs = overlay_takes (free_slots ov) (recb (file_header ov) - 16) cs"

definition picked :: "bool list \<Rightarrow> command_request list \<Rightarrow> command_request list" where
  "picked bs cs = map fst (filter snd (zip cs bs))"

lemma length_overlay_takes [simp]: "length (overlay_takes room most cs) = length cs"
  by (induction cs arbitrary: room) simp_all

text \<open>The audit line of a command that arrived in record \<open>r\<close>.\<close>

definition arrival :: "queue_record \<Rightarrow> command_request \<Rightarrow> bool \<Rightarrow> string" where
  "arrival r c routed = audit_line (rh_sequence (qr_header r)) (rh_payloadBytes (qr_header r)) (Some c)
     routed (serializeCommand c)"

definition arrivals :: "queue_record list \<Rightarrow> command_request list \<Rightarrow> bool list \<Rightarrow> string list" where
  "arrivals rs cs bs = map (\<lambda>(r, c, b). arrival r c b) (zip rs (zip cs bs))"

text \<open>What the commands and the \<open>n\<close> routed ones add to the counters.\<close>

definition counted :: "command_request list \<Rightarrow> nat \<Rightarrow> command_ingress \<Rightarrow> command_ingress \<Rightarrow> bool" where
  "counted cs n c c' \<longleftrightarrow>
     ci_consumedRecords c' = ci_consumedRecords c + length cs
   \<and> ci_parsedCommands c' = ci_parsedCommands c + length cs
   \<and> ci_unitCommands c' = ci_unitCommands c + length (filter (\<lambda>r. rq_kind r = UnitCommand) cs)
   \<and> ci_gameActions c' = ci_gameActions c + length (filter (\<lambda>r. rq_kind r = GameAction) cs)
   \<and> ci_overlayActions c' = ci_overlayActions c + n"

text \<open>The step of one record, and of all of them.\<close>

definition arrived ::
  "adapter \<Rightarrow> u8 list \<Rightarrow> command_request list \<Rightarrow> bool list \<Rightarrow> adapter \<Rightarrow> u8 list \<Rightarrow> bool" where
  "arrived a ov cs bs a' ov' \<longleftrightarrow>
     ad_overlayQueue a' = Some ov' \<and> queue_ok (kind_code QOverlay) bridge_defaults ov'
   \<and> contents_of ov' = contents_of ov @ map command_payload (picked bs cs)
   \<and> recb (file_header ov') = recb (file_header ov)
   \<and> free_slots ov = free_slots ov' + length (picked bs cs)
   \<and> counted cs (length (picked bs cs)) (ad_command a) (ad_command a')
   \<and> oi_acceptedPrimitives (ad_overlay a') = oi_acceptedPrimitives (ad_overlay a) + length (picked bs cs)
   \<and> ad_commandQueue a' = ad_commandQueue a \<and> ad_audit a' = ad_audit a"

lemma arrived_Nil:
  assumes "ad_overlayQueue a = Some ov" "queue_ok (kind_code QOverlay) bridge_defaults ov"
  shows "arrived a ov [] [] a ov"
  using assms by (simp add: arrived_def picked_def counted_def)

lemma arrived_Cons:
  assumes "arrived a ov [c] [b] a1 ov1" "arrived a1 ov1 cs bs a2 ov2"
  shows "arrived a ov (c # cs) (b # bs) a2 ov2"
  using assms by (auto simp: arrived_def picked_def counted_def)

lemma consume_record_ok:
  assumes ov: "ad_overlayQueue a = Some ov" "queue_ok (kind_code QOverlay) bridge_defaults ov"
    and c: "text_safe c" "qr_payload r = command_payload c"
  shows "\<exists>a' ov'. consume_record path r a = (arrival r c (hd (taken_by ov [c])), a')
    \<and> arrived a ov [c] (taken_by ov [c]) a' ov'"
proof -
  have ptext: "residentQueuePayloadText (command_payload c) = serializeCommand c"
    "parseResidentRuntimeCommand (serializeCommand c) = Some c"
    using c payload_text command_round_trip by (simp_all add: text_safe_def)
  note step_defs = consume_record_def ptext arrival_def note_consumed_def note_parsed_def
    updateIngressSequenceRange_def Let_def arrived_def picked_def counted_def
  show ?thesis
  proof (cases "isResidentOverlayAction c")
    case False
    then show ?thesis using ov c(2) by (cases "rq_kind c") (simp_all add: step_defs taken_by_def)
  next
    case draw: True
    then have kind: "rq_kind c = GameAction" by (simp add: isResidentOverlayAction_def)
    show ?thesis
    proof (cases "roomy (command_payload c) ov")
      case True
      obtain ov' where ov': "appendRuntimeResidentQueueRecord path QOverlay (command_payload c)
            bridge_defaults (Some ov)
          = (\<lparr>ap_appended = True, ap_sequence = qh_writeSequence (file_header ov), ap_reason = [],
              ap_errors = []\<rparr>, Some ov')"
        "queue_ok (kind_code QOverlay) bridge_defaults ov'"
        "contents_of ov' = contents_of ov @ [command_payload c]"
        "file_header ov' = bump (file_header ov)" "free_slots ov = Suc (free_slots ov')"
        using appended_file [OF ov(2) True] by blast
      have t: "taken_by ov [c] = [True]"
        using True draw by (simp add: taken_by_def roomy_free)
      show ?thesis
        using ov ov' kind draw c(2) unfolding t
        by (simp add: step_defs route_overlay_def)
    next
      case False
      have t: "taken_by ov [c] = [False]"
        using False by (auto simp: taken_by_def roomy_free)
      show ?thesis
        using ov kind draw c(2) append_appends(1,2) [OF ov(2), where path = path
            and payload = "command_payload c"] False unfolding t
        by (auto simp: step_defs route_overlay_def appendResidentLog_def split: prod.split)
    qed
  qed
qed

lemma taken_by_Cons:
  assumes "arrived a ov [c] (taken_by ov [c]) a1 ov1"
  shows "taken_by ov (c # cs) = hd (taken_by ov [c]) # taken_by ov1 cs"
  using assms by (auto simp: taken_by_def arrived_def picked_def split: if_splits)

lemma consume_records_ok:
  assumes "ad_overlayQueue a = Some ov" "queue_ok (kind_code QOverlay) bridge_defaults ov"
    and "list_all text_safe cs" "map qr_payload rs = map command_payload cs"
  shows "\<exists>a' ov'. consume_records path rs a = (arrivals rs cs (taken_by ov cs), a')
    \<and> arrived a ov cs (taken_by ov cs) a' ov'"
  using assms
proof (induction rs arbitrary: a ov cs)
  case Nil
  then show ?case by (auto simp: taken_by_def arrivals_def simp del: kind_code.simps intro: arrived_Nil)
next
  case (Cons r rs)
  then obtain c cs' where cs: "cs = c # cs'" "qr_payload r = command_payload c"
    "map qr_payload rs = map command_payload cs'" by (cases cs) auto
  then have safe: "text_safe c" "list_all text_safe cs'" using Cons.prems by simp_all
  obtain a1 ov1 where one: "consume_record path r a = (arrival r c (hd (taken_by ov [c])), a1)"
    "arrived a ov [c] (taken_by ov [c]) a1 ov1"
    using consume_record_ok [OF Cons.prems(1,2) safe(1) cs(2)] by blast
  then have "ad_overlayQueue a1 = Some ov1" "queue_ok (kind_code QOverlay) bridge_defaults ov1"
    by (simp_all add: arrived_def)
  then obtain a2 ov2 where rest: "consume_records path rs a1 = (arrivals rs cs' (taken_by ov1 cs'), a2)"
    "arrived a1 ov1 cs' (taken_by ov1 cs') a2 ov2"
    using Cons.IH [OF _ _ safe(2) cs(3)] by blast
  note tk = taken_by_Cons [OF one(2), of cs']
  have "taken_by ov [c] = [hd (taken_by ov [c])]" by (simp add: taken_by_def)
  with one rest have "arrived a ov cs (taken_by ov cs) a2 ov2"
    unfolding cs(1) tk by (metis arrived_Cons)
  moreover have "consume_records path (r # rs) a = (arrivals (r # rs) cs (taken_by ov cs), a2)"
    by (simp add: one(1) rest(1) cs(1) tk arrivals_def)
  ultimately show ?case by blast
qed

section \<open>Acknowledging\<close>

lemma ack_records:
  assumes ok: "queue_ok (kind_code kind) options f" and ne: "rs = take m (records_of f)" "rs \<noteq> []"
  obtains f' h' where
    "acknowledgeRuntimeResidentQueueRecords path kind (rh_sequence (qr_header (last rs)) + 1) options
        (Some f)
      = (\<lparr>ak_acknowledged = True, ak_header = h', ak_reason = [], ak_errors = []\<rparr>, Some f')"
    "queue_ok (kind_code kind) options f'" "contents_of f' = drop m (contents_of f)"
proof -
  let ?n = "length rs"
  have n: "?n \<le> length (contents_of f)" "0 < ?n" "?n \<le> length (records_of f)"
    "?n = min (length (contents_of f)) m"
    using ne by (simp_all add: records_payloads [symmetric])
  obtain k where k: "?n = Suc k" using n(2) by (cases ?n) auto
  have "?n \<le> m" using ne(1) by simp
  then have "k < m" using k by simp
  then have last: "last rs = records_of f ! k"
    using ne k by (simp add: last_conv_nth del: length_take)
  have "rseq (file_header f) + ?n \<le> wseq (file_header f)"
    using n(1) ok by (auto simp: contents_length queue_ok_def header_ok_def Let_def)
  then have b: "rseq (file_header f) + Suc k < 2 ^ 64"
    using unat_bound [of "qh_writeSequence (file_header f)"] k by simp
  have "unat (rh_sequence (qr_header (records_of f ! k))) = rseq (file_header f) + k"
    using records_headers(1) [OF ok, of k] n(3) k by simp
  moreover have kk: "unat (word_of_nat ?n :: u64) = Suc k"
    unfolding k by (rule unat_word_of_nat) (use b in simp)
  ultimately have "unat (rh_sequence (qr_header (last rs)) + 1) = rseq (file_header f) + Suc k"
    "unat (qh_readSequence (file_header f) + word_of_nat ?n) = rseq (file_header f) + Suc k"
    using b kk by (simp_all add: last unat_word_ariths)
  then have s: "rh_sequence (qr_header (last rs)) + 1
      = qh_readSequence (file_header f) + word_of_nat ?n"
    by (simp add: word_unat_eq_iff)
  have d: "drop ?n (contents_of f) = drop m (contents_of f)" using n(4) by (simp add: min_def)
  show thesis
    by (rule that, unfold s, rule ack_ok(1) [OF ok n(1)], rule ack_ok(2) [OF ok n(1)],
        unfold d [symmetric], rule ack_ok(3) [OF ok n(1)])
qed

section \<open>A pass\<close>

definition noted :: "string list \<Rightarrow> text_file \<Rightarrow> text_file \<Rightarrow> bool" where
  "noted ls audit audit' \<longleftrightarrow>
     tf_text audit' = Some ((case tf_text audit of None \<Rightarrow> commandAuditHeader @ [CHR 0x0A]
                             | Some text \<Rightarrow> text) @ text_of ls)"

lemma pass_unaudited:
  assumes ok: "queue_ok (kind_code QCommand) bridge_defaults f" and ne: "contents_of f \<noteq> []"
    and a: "ad_commandQueue a = Some f" "\<not> tf_opens (ad_audit a)"
  shows "\<exists>a' f'. consumeResidentCommandQueue path overlayPath a = Some a'
    \<and> ad_commandQueue a' = Some f' \<and> contents_of f' = drop 64 (contents_of f)
    \<and> ad_overlayQueue a' = ad_overlayQueue a \<and> ad_audit a' = ad_audit a
    \<and> counted [] 0 (ad_command a) (ad_command a')"
proof -
  let ?rs = "take 64 (records_of f)"
  have rs: "?rs \<noteq> []" using ne by (simp add: records_payloads [symmetric])
  obtain f' h' where ack: "acknowledgeRuntimeResidentQueueRecords path QCommand
        (rh_sequence (qr_header (last ?rs)) + 1) bridge_defaults (Some f)
      = (\<lparr>ak_acknowledged = True, ak_header = h', ak_reason = [], ak_errors = []\<rparr>, Some f')"
    "contents_of f' = drop 64 (contents_of f)"
    using ack_records [OF ok refl rs] by metis
  note rd = read_ok_exact [OF ok, of path 64, folded records_of_def]
  show ?thesis
    using a ack rs
    by (simp add: consumeResidentCommandQueue_def rd audit_records_def note_pass_def
        appendResidentLog_def counted_def Let_def)
qed

lemma pass_delivers:
  assumes ok: "queue_ok (kind_code QCommand) bridge_defaults f" and ne: "cs \<noteq> []"
    and cs: "take 64 (contents_of f) = map command_payload cs" "list_all text_safe cs"
    and a: "ad_commandQueue a = Some f" "tf_opens (ad_audit a)" "ad_overlayQueue a = Some ov"
    and ov: "queue_ok (kind_code QOverlay) bridge_defaults ov"
  shows "\<exists>a' f' ov'. consumeResidentCommandQueue path overlayPath a = Some a'
    \<and> ad_commandQueue a' = Some f' \<and> queue_ok (kind_code QCommand) bridge_defaults f'
    \<and> contents_of f' = drop 64 (contents_of f)
    \<and> ad_overlayQueue a' = Some ov' \<and> queue_ok (kind_code QOverlay) bridge_defaults ov'
    \<and> contents_of ov' = contents_of ov @ map command_payload (picked (taken_by ov cs) cs)
    \<and> noted (arrivals (take 64 (records_of f)) cs (taken_by ov cs)) (ad_audit a) (ad_audit a')
    \<and> counted cs (length (picked (taken_by ov cs) cs)) (ad_command a) (ad_command a')"
proof -
  let ?rs = "take 64 (records_of f)"
  have rs: "map qr_payload ?rs = map command_payload cs"
    using cs(1) by (simp add: take_map [symmetric] records_payloads)
  with ne have rs_ne: "?rs \<noteq> []" by auto
  define a0 where "a0 = a\<lparr>ad_command := (ad_command a)\<lparr>ci_receiverActive := True\<rparr>\<rparr>"
  have "ad_overlayQueue a0 = Some ov" using a by (simp add: a0_def)
  from consume_records_ok [OF this ov cs(2) rs, of overlayPath] obtain a1 ov1 where
    one: "consume_records overlayPath ?rs a0 = (arrivals ?rs cs (taken_by ov cs), a1)"
      "arrived a0 ov cs (taken_by ov cs) a1 ov1" by blast
  obtain f' h' where ack: "acknowledgeRuntimeResidentQueueRecords path QCommand
        (rh_sequence (qr_header (last ?rs)) + 1) bridge_defaults (Some f)
      = (\<lparr>ak_acknowledged = True, ak_header = h', ak_reason = [], ak_errors = []\<rparr>, Some f')"
    "queue_ok (kind_code QCommand) bridge_defaults f'" "contents_of f' = drop 64 (contents_of f)"
    using ack_records [OF ok refl rs_ne] by metis
  define a2 where "a2 = a1\<lparr>ad_audit := append_audit commandAuditHeader
      (arrivals ?rs cs (taken_by ov cs)) (ad_audit a1), ad_commandQueue := Some f'\<rparr>"
  have "ad_commandQueue a1 = Some f" "ad_audit a1 = ad_audit a" "ad_commandQueue a0 = Some f"
    "ad_audit a0 = ad_audit a"
    using one(2) a by (simp_all add: arrived_def a0_def)
  then have run: "consumeResidentCommandQueue path overlayPath a
      = Some (note_pass h' (length ?rs) a2)"
    using ack(1) rs_ne a one(1) read_ok_exact [OF ok, of path 64, folded records_of_def]
    by (simp add: consumeResidentCommandQueue_def a0_def [symmetric] audit_records_def a2_def Let_def)
  have "noted (arrivals ?rs cs (taken_by ov cs)) (ad_audit a) (ad_audit a2)"
    using a one(2) by (simp add: a2_def noted_def append_audit_def arrived_def a0_def)
  then show ?thesis
    using one(2) ack unfolding run
    by (auto simp: note_pass_def appendResidentLog_def a2_def arrived_def counted_def a0_def Let_def)
qed

text \<open>The audit lines of commands that arrived from sequence number \<open>s\<close> on.\<close>

fun arrival_lines :: "nat \<Rightarrow> command_request list \<Rightarrow> bool list \<Rightarrow> string list" where
  "arrival_lines s (c # cs) (b # bs) =
     join_on (CHR 0x09)
       [nat_to_dec s, nat_to_dec (length (serializeCommand c)), ''true'',
        command_kind_toString (rq_kind c), rq_name c, show_bool b, serializeCommand c]
     # arrival_lines (Suc s) cs bs"
| "arrival_lines s _ _ = []"

lemma arrivals_lines:
  assumes "length rs = length cs" "length bs = length cs"
    and "\<And>i. i < length rs \<Longrightarrow> unat (rh_sequence (qr_header (rs ! i))) = s + i"
    and "\<And>i. i < length rs \<Longrightarrow>
      unat (rh_payloadBytes (qr_header (rs ! i))) = length (serializeCommand (cs ! i))"
  shows "arrivals rs cs bs = arrival_lines s cs bs"
  using assms
proof (induction cs arbitrary: rs bs s)
  case Nil
  then show ?case by (simp add: arrivals_def)
next
  case (Cons c cs)
  obtain r rs' b bs' where rb: "rs = r # rs'" "bs = b # bs'"
    using Cons.prems(1,2) by (metis length_Suc_conv)
  have hd: "unat (rh_sequence (qr_header r)) = s"
    "unat (rh_payloadBytes (qr_header r)) = length (serializeCommand c)"
    using Cons.prems(3,4) [of 0] by (simp_all add: rb)
  have "arrivals rs' cs bs' = arrival_lines (Suc s) cs bs'"
  proof (rule Cons.IH)
    show "length rs' = length cs" "length bs' = length cs" using Cons.prems(1,2) by (simp_all add: rb)
    fix i assume "i < length rs'"
    then show "unat (rh_sequence (qr_header (rs' ! i))) = Suc s + i"
      "unat (rh_payloadBytes (qr_header (rs' ! i))) = length (serializeCommand (cs ! i))"
      using Cons.prems(3,4) [of "Suc i"] by (simp_all add: rb)
  qed
  then show ?case by (simp add: rb hd arrivals_def arrival_def audit_line_def show_bool_def)
qed

lemma ring_arrivals:
  assumes ok: "queue_ok k options f" and cs: "take 64 (contents_of f) = map command_payload cs"
    and bs: "length bs = length cs"
  shows "arrivals (take 64 (records_of f)) cs bs = arrival_lines (rseq (file_header f)) cs bs"
proof (rule arrivals_lines)
  have len: "length (take 64 (records_of f)) = length cs"
    using cs by (metis length_map length_take records_payloads)
  then show "length (take 64 (records_of f)) = length cs" "length bs = length cs" using bs by auto
  fix i assume i: "i < length (take 64 (records_of f))"
  then show "unat (rh_sequence (qr_header (take 64 (records_of f) ! i))) = rseq (file_header f) + i"
    using records_headers(1) [OF ok] by simp
  have "i < length cs" using i unfolding len .
  then have "take 64 (contents_of f) ! i = command_payload (cs ! i)"
    unfolding cs by (rule nth_map)
  then show "unat (rh_payloadBytes (qr_header (take 64 (records_of f) ! i)))
      = length (serializeCommand (cs ! i))"
    using records_headers(2) [OF ok] i by (simp add: command_payload_def)
qed

section \<open>Properties\<close>

lemma split_on_parts: "p \<in> set (split_on d s) \<Longrightarrow> d \<notin> set p \<and> set p \<subseteq> set s"
proof (induction s arbitrary: p)
  case Nil
  then show ?case by simp
next
  case (Cons c s)
  obtain f fs where fs: "split_on d s = f # fs" by (cases "split_on d s") simp_all
  have "f \<in> set (split_on d s)" by (simp add: fs)
  with Cons.IH have f: "d \<notin> set f \<and> set f \<subseteq> set s" .
  show ?case
  proof (cases "p \<in> set (split_on d s)")
    case True
    then show ?thesis using Cons.IH by fastforce
  next
    case False
    with Cons.prems have "p = [] \<or> c \<noteq> d \<and> p = c # f" by (auto simp: fs split: if_splits)
    with f show ?thesis by auto
  qed
qed

lemma parseIntStrict_range: "parseIntStrict v = Some i \<Longrightarrow> int32_range i"
  by (auto simp: parseIntStrict_def int32_range_def Let_def split: option.splits if_splits)

lemma parseArguments_range: "parseArguments fs = Some is \<Longrightarrow> list_all int32_range is"
  by (induction fs arbitrary: "is") (auto dest: parseIntStrict_range split: option.splits)

lemma parsed_safe:
  assumes "parseResidentRuntimeCommand (residentQueuePayloadText payload) = Some c"
  shows "text_safe c"
proof -
  let ?text = "residentQueuePayloadText payload"
  let ?parts = "splitString ?text (CHR ''|'')"
  have blank: "\<not> payload_blank ch" if "ch \<in> set ?text" for ch
    using that by (auto simp: residentQueuePayloadText_def payload_blank_def split: if_splits)
  have "length ?parts = 4" and name: "rq_name c = ?parts ! 1"
    and target: "parseIntStrict (?parts ! 2) = Some (rq_targetUnitId c)"
    and arguments: "parseArgumentField (?parts ! 3) = Some (rq_arguments c)"
    using assms by (auto simp: parseResidentRuntimeCommand_def Let_def split: if_splits option.splits)
  then have "rq_name c \<in> set (split_on (CHR ''|'') ?text)"
    by (auto simp: splitString_split_on split: if_splits)
  then have "plain_name (rq_name c)"
    using split_on_parts blank by (fastforce simp: plain_name_def list_all_iff)
  moreover have "list_all int32_range (rq_arguments c)"
    using arguments by (auto simp: parseArgumentField_def dest: parseArguments_range split: if_splits)
  ultimately show ?thesis
    using parseIntStrict_range [OF target] by (simp add: text_safe_def int32_request_def)
qed

definition carried :: "command_request \<Rightarrow> bool" where
  "carried c \<longleftrightarrow>
     set (rq_name c) \<inter> {CHR ''|'', CHR 0x09, CHR 0x0A, CHR 0x0D} = {}
   \<and> list_all (\<lambda>i. -2147483648 \<le> i \<and> i \<le> 2147483647) (rq_targetUnitId c # rq_arguments c)"

lemma list_all_none_of:
  "list_all (\<lambda>c. c \<noteq> p \<and> \<not> (c = q \<or> c = r \<or> c = s)) n \<longleftrightarrow> set n \<inter> {p, q, r, s} = {}"
  by (induction n) auto

lemma carried_safe: "carried c \<longleftrightarrow> text_safe c"
proof -
  have "plain_name n \<longleftrightarrow> set n \<inter> {CHR ''|'', CHR 0x09, CHR 0x0A, CHR 0x0D} = {}" for n
    unfolding plain_name_def payload_blank_def by (rule list_all_none_of)
  moreover have "int32_request c \<longleftrightarrow>
      list_all (\<lambda>i. -2147483648 \<le> i \<and> i \<le> 2147483647) (rq_targetUnitId c # rq_arguments c)"
    unfolding int32_request_def int32_range_def [abs_def] by simp
  ultimately show ?thesis unfolding carried_def text_safe_def by blast
qed

text \<open>
  C39. The text form of a command loses nothing, exactly where it can: a request is read back from
  the payload the executor puts into the ring as itself if and only if its name has no separator,
  tab, line feed or carriage return and its target and arguments are 32-bit integers
  (\<open>carried\<close>). No two such requests have the same payload.
\<close>

theorem command_text_round_trip:
  "(parseResidentRuntimeCommand (residentQueuePayloadText (command_payload c)) = Some c) = carried c
   \<and> inj_on command_payload (Collect carried)"
proof
  have round: "(parseResidentRuntimeCommand (residentQueuePayloadText (command_payload r)) = Some r)
      = carried r" for r
    using payload_round_trip parsed_safe carried_safe by blast
  then show "(parseResidentRuntimeCommand (residentQueuePayloadText (command_payload c)) = Some c)
      = carried c" .
  show "inj_on command_payload (Collect carried)"
    by (rule inj_onI) (metis mem_Collect_eq option.inject round)
qed

theorem command_text_round_trip_witness:
  "parseResidentRuntimeCommand (residentQueuePayloadText (command_payload
     \<lparr>rq_kind = UnitCommand, rq_name = ''Right_Click_Position'', rq_targetUnitId = 7,
      rq_arguments = [-2147483648, 2147483647, 0]\<rparr>))
   = Some \<lparr>rq_kind = UnitCommand, rq_name = ''Right_Click_Position'', rq_targetUnitId = 7,
      rq_arguments = [-2147483648, 2147483647, 0]\<rparr>
   \<and> parseResidentRuntimeCommand (residentQueuePayloadText (command_payload
     \<lparr>rq_kind = UnitCommand, rq_name = ''a'' @ [CHR 0x09] @ ''b'', rq_targetUnitId = 7,
      rq_arguments = []\<rparr>))
   \<noteq> Some \<lparr>rq_kind = UnitCommand, rq_name = ''a'' @ [CHR 0x09] @ ''b'', rq_targetUnitId = 7,
      rq_arguments = []\<rparr>"
proof -
  have "carried \<lparr>rq_kind = UnitCommand, rq_name = ''Right_Click_Position'', rq_targetUnitId = 7,
      rq_arguments = [-2147483648, 2147483647, 0]\<rparr>"
    "\<not> carried \<lparr>rq_kind = UnitCommand, rq_name = ''a'' @ [CHR 0x09] @ ''b'', rq_targetUnitId = 7,
      rq_arguments = []\<rparr>"
    by (simp_all add: carried_def)
  then show ?thesis using command_text_round_trip by blast
qed

text \<open>
  C6. Commands reach the game's process: when the executor's submission of at most 64 admissible
  commands of 32-bit integers to an empty, well-formed ring reports success, one pass of the adapter
  over that ring, with an audit file it can open and a well-formed overlay ring, parses exactly
  those commands in that order, adds one audit line for each with consecutive sequence numbers,
  forwards to the overlay ring the drawing actions it has room for, counts each command once, and
  leaves the command ring empty. Without an audit file that opens the commands are lost
  (\<open>unaudited_commands_are_lost\<close>), and of more than 64 a pass takes the first 64.
\<close>

theorem submitted_commands_arrive:
  assumes "queue_ok (kind_code QCommand) bridge_defaults f" and "contents_of f = []"
    and "cs \<noteq> []" and "length cs \<le> 64" and "list_all admissible cs" and "list_all int32_request cs"
    and "submitResidentRuntimeCommands path cs default_submit_result (Some f) audit
      = (res, Some g, audit')"
    and "sr_submitted res"
    and "ad_commandQueue a = Some g" and "tf_opens (ad_audit a)" and "ad_overlayQueue a = Some ov"
    and "queue_ok (kind_code QOverlay) bridge_defaults ov"
  shows "\<exists>a' f' ov'. consumeResidentCommandQueue path overlayPath a = Some a'
    \<and> ad_commandQueue a' = Some f' \<and> queue_ok (kind_code QCommand) bridge_defaults f'
    \<and> contents_of f' = []
    \<and> ad_overlayQueue a' = Some ov' \<and> queue_ok (kind_code QOverlay) bridge_defaults ov'
    \<and> contents_of ov' = contents_of ov @ map command_payload (picked (taken_by ov cs) cs)
    \<and> noted (arrival_lines (rseq (file_header g)) cs (taken_by ov cs)) (ad_audit a) (ad_audit a')
    \<and> counted cs (length (picked (taken_by ov cs) cs)) (ad_command a) (ad_command a')"
proof -
  obtain outcome g' au where "submitResidentLoop path cs 0 (Some f) audit = (outcome, Some g', au)"
    "queue_ok (kind_code QCommand) bridge_defaults g'"
    "contents_of g' = map command_payload (accepted_commands f cs)"
    "if accepted_commands f cs = cs then outcome = Inr (length cs) else \<exists>e. outcome = Inl e"
    using submitResidentLoop_ok [OF assms(1), of path cs 0 audit] assms(2) by fastforce
  then have g: "queue_ok (kind_code QCommand) bridge_defaults g" "contents_of g = map command_payload cs"
    using assms(7,8)
    by (auto simp: submitResidentRuntimeCommands_def submit_warning_def rejectSubmit_def
        default_submit_result_def split: if_splits)
  then have pending: "take 64 (contents_of g) = map command_payload cs"
    "drop 64 (contents_of g) = []"
    using assms(4) by simp_all
  have safe: "list_all text_safe cs"
    using assms(5,6) admissible_text_safe by (simp add: list_all_iff)
  have "length (taken_by ov cs) = length cs" by (simp add: taken_by_def)
  note lines = ring_arrivals [OF g(1) pending(1) this]
  show ?thesis
    using pass_delivers [OF g(1) assms(3) pending(1) safe assms(9,10,11,12), of path overlayPath]
    unfolding lines pending(2) .
qed

definition draw_request :: command_request where
  "draw_request =
     \<lparr>rq_kind = GameAction, rq_name = ''drawBox'', rq_targetUnitId = -1,
      rq_arguments = [1, 10, 10, 20, 20]\<rparr>"

definition demo_submitted :: "submit_result \<times> queue_file \<times> text_file" where
  "demo_submitted = submitResidentRuntimeCommands ''c'' [move_request [100, 200], draw_request]
     default_submit_result (Some (fresh_ring (command_header 64))) empty_file"

definition demo_adapter :: adapter where
  "demo_adapter =
     \<lparr>ad_commandQueue = fst (snd demo_submitted),
      ad_overlayQueue = Some (fresh_ring (desiredOverlayQueueHeader 5)),
      ad_commandQueueHeader = command_header 64, ad_overlayQueueHeader = desiredOverlayQueueHeader 5,
      ad_command = default_command_ingress, ad_overlay = default_overlay_ingress,
      ad_audit = empty_file, ad_log = []\<rparr>"

lemma overlay_ring:
  "queue_ok (kind_code QOverlay) bridge_defaults (fresh_ring (desiredOverlayQueueHeader 5))"
  "contents_of (fresh_ring (desiredOverlayQueueHeader 5)) = []"
  "file_header (fresh_ring (desiredOverlayQueueHeader 5)) = desiredOverlayQueueHeader 5"
  using fresh_ring_ok [of "desiredOverlayQueueHeader 5"]
  by (simp_all add: desiredOverlayQueueHeader_def makeRuntimeResidentQueueHeader_def header_ok_def
      bridge_defaults_def)

lemma demo_lengths:
  "length (serializeCommand (move_request [100, 200])) = 27"
  "length (serializeCommand draw_request) = 36"
  by code_simp+

lemma demo_commands_ok:
  "list_all admissible [move_request [100, 200], draw_request]"
  "list_all int32_request [move_request [100, 200], draw_request]"
  "list_all (Not \<circ> isResidentOverlayAction) [move_request [100, 200]]"
  "isResidentOverlayAction draw_request"
  by code_simp+

lemma demo_submitted_all: "sr_submitted (fst demo_submitted)"
  "\<exists>g. demo_submitted = (fst demo_submitted, Some g, snd (snd demo_submitted))"
proof -
  have ring: "0 < unat (64 :: u32)" by simp
  note r = command_ring [OF ring]
  have "free_slots (fresh_ring (command_header 64)) = 64"
    by (simp add: free_slots_def r(3)) (simp add: command_header_def makeRuntimeResidentQueueHeader_def)
  moreover have "recb (command_header 64) = 528"
    by (simp add: command_header_def makeRuntimeResidentQueueHeader_def)
  ultimately have acc: "accepted_commands (fresh_ring (command_header 64))
      [move_request [100, 200], draw_request] = [move_request [100, 200], draw_request]"
    by (simp add: accepted_commands_def r(3) command_payload_def demo_lengths)
  obtain outcome g au where loop: "submitResidentLoop ''c'' [move_request [100, 200], draw_request] 0
      (Some (fresh_ring (command_header 64))) empty_file = (outcome, Some g, au)" "outcome = Inr 2"
    using submitResidentLoop_ok [OF r(1), of "''c''" "[move_request [100, 200], draw_request]" 0 empty_file]
      acc by auto
  then show "sr_submitted (fst demo_submitted)"
    "\<exists>g. demo_submitted = (fst demo_submitted, Some g, snd (snd demo_submitted))"
    by (simp_all add: demo_submitted_def submitResidentRuntimeCommands_def submit_warning_def)
qed

theorem submitted_commands_arrive_witness:
  "\<exists>a' ov'. consumeResidentCommandQueue ''c'' ''o'' demo_adapter = Some a'
    \<and> ad_overlayQueue a' = Some ov' \<and> contents_of ov' = [command_payload draw_request]
    \<and> ci_parsedCommands (ad_command a') = 2 \<and> ci_overlayActions (ad_command a') = 1"
proof -
  have ring: "0 < unat (64 :: u32)" by simp
  note r = command_ring [OF ring]
  obtain g where g: "demo_submitted = (fst demo_submitted, Some g, snd (snd demo_submitted))"
    using demo_submitted_all(2) by blast
  have free: "free_slots (fresh_ring (desiredOverlayQueueHeader 5)) = 64"
    by (simp add: free_slots_def overlay_ring)
      (simp add: desiredOverlayQueueHeader_def makeRuntimeResidentQueueHeader_def)
  have "taken_by (fresh_ring (desiredOverlayQueueHeader 5)) [move_request [100, 200], draw_request]
      = [False, True]"
    using demo_commands_ok(3,4)
    by (simp add: taken_by_def free overlay_ring command_payload_def demo_lengths)
      (simp add: desiredOverlayQueueHeader_def makeRuntimeResidentQueueHeader_def)
  then have picked: "map command_payload (picked (taken_by (fresh_ring (desiredOverlayQueueHeader 5))
      [move_request [100, 200], draw_request]) [move_request [100, 200], draw_request])
    = [command_payload draw_request]"
    by (simp add: picked_def)
  have "fst (snd demo_submitted) = Some g" using g by (metis fst_conv snd_conv)
  then have a: "ad_commandQueue demo_adapter = Some g" "tf_opens (ad_audit demo_adapter)"
    "ad_overlayQueue demo_adapter = Some (fresh_ring (desiredOverlayQueueHeader 5))"
    "ad_command demo_adapter = default_command_ingress"
    by (simp_all add: demo_adapter_def empty_file_def)
  have two: "[move_request [100, 200], draw_request] \<noteq> []"
    "length [move_request [100, 200], draw_request] \<le> 64" by simp_all
  obtain a' ov' where "consumeResidentCommandQueue ''c'' ''o'' demo_adapter = Some a'"
    "ad_overlayQueue a' = Some ov'" "contents_of ov' = [] @ [command_payload draw_request]"
    "counted [move_request [100, 200], draw_request] (length [command_payload draw_request])
       default_command_ingress (ad_command a')"
    using submitted_commands_arrive [OF r(1,2) two demo_commands_ok(1,2)
        g [unfolded demo_submitted_def] demo_submitted_all(1) [unfolded demo_submitted_def]
        a(1-3) overlay_ring(1), of "''o''"]
    unfolding picked [symmetric] overlay_ring(2) a(4) length_map by blast
  then show ?thesis by (simp add: counted_def default_command_ingress_def)
qed

text \<open>
  A pass that cannot open its audit file loses commands: the records it read are acknowledged and
  leave the ring although none was parsed, counted or forwarded.
\<close>

theorem unaudited_commands_are_lost:
  assumes "queue_ok (kind_code QCommand) bridge_defaults f" and "contents_of f \<noteq> []"
    and "ad_commandQueue a = Some f" and "\<not> tf_opens (ad_audit a)"
  shows "\<exists>a' f'. consumeResidentCommandQueue path overlayPath a = Some a'
    \<and> ad_commandQueue a' = Some f' \<and> contents_of f' = drop 64 (contents_of f)
    \<and> ad_overlayQueue a' = ad_overlayQueue a \<and> ad_audit a' = ad_audit a
    \<and> counted [] 0 (ad_command a) (ad_command a')"
  using assms by (rule pass_unaudited)

theorem unaudited_commands_are_lost_witness:
  "\<exists>a'. consumeResidentCommandQueue ''c'' ''o'' (demo_adapter
        \<lparr>ad_audit := \<lparr>tf_text = None, tf_opens = False\<rparr>\<rparr>) = Some a'
    \<and> map_option contents_of (ad_commandQueue a') = Some []
    \<and> ci_parsedCommands (ad_command a') = 0"
proof -
  have ring: "0 < unat (64 :: u32)" by simp
  note r = command_ring [OF ring]
  obtain g where g: "fst (snd demo_submitted) = Some g"
    using demo_submitted_all(2) by (metis fst_conv snd_conv)
  have "queue_ok (kind_code QCommand) bridge_defaults g \<and>
      contents_of g = map command_payload [move_request [100, 200], draw_request]"
    using submitResidentLoop_ok [OF r(1), of "''c''" "[move_request [100, 200], draw_request]" 0 empty_file]
      demo_submitted_all(1) g r(2)
    by (auto simp: demo_submitted_def submitResidentRuntimeCommands_def submit_warning_def
        rejectSubmit_def default_submit_result_def split: if_splits)
  then have "queue_ok (kind_code QCommand) bridge_defaults g" "contents_of g \<noteq> []"
    "contents_of g = map command_payload [move_request [100, 200], draw_request]" by simp_all
  moreover have "ad_commandQueue (demo_adapter\<lparr>ad_audit := \<lparr>tf_text = None, tf_opens = False\<rparr>\<rparr>) = Some g"
    "\<not> tf_opens (ad_audit (demo_adapter\<lparr>ad_audit := \<lparr>tf_text = None, tf_opens = False\<rparr>\<rparr>))"
    using g by (simp_all add: demo_adapter_def)
  ultimately obtain a' f' where "consumeResidentCommandQueue ''c'' ''o''
      (demo_adapter\<lparr>ad_audit := \<lparr>tf_text = None, tf_opens = False\<rparr>\<rparr>) = Some a'"
    "ad_commandQueue a' = Some f'" "contents_of f' = drop 64 (contents_of g)"
    "counted [] 0 default_command_ingress (ad_command a')"
    using unaudited_commands_are_lost [of g
        "demo_adapter\<lparr>ad_audit := \<lparr>tf_text = None, tf_opens = False\<rparr>\<rparr>" "''c''" "''o''"]
    by (auto simp: demo_adapter_def)
  then show ?thesis
    using \<open>contents_of g = _\<close> by (simp add: counted_def default_command_ingress_def)
qed

end
