(* ===== verification/Ready_Files.thy ===== *)
theory Ready_Files
  imports Text_Lines
begin

text \<open>
  The files a bridge directory holds, as the backend reads them (\<open>RemasteredRuntimeBackend.cpp\<close>,
  anonymous namespace; \<open>RuntimeExecutor.cpp\<close> has its own copies of the same readers): the
  \<open>key=value\<close> lines of the ready file, the paths of snapshots, and the metadata and field table of a
  snapshot. A file is its text; what the file system resolves below the bridge directory is a
  \<open>bridge_files\<close> record.
\<close>

section \<open>Ready-file values\<close>

definition fileContainsLine :: "string \<Rightarrow> string \<Rightarrow> bool" where
  "fileContainsLine text expected \<longleftrightarrow> expected \<in> set (getlines text)"

definition readReadyValue :: "string \<Rightarrow> string \<Rightarrow> string" where
  "readReadyValue text key =
     (let prefix = key @ ''='' in
      case List.find (\<lambda>line. starts_with line prefix) (getlines text) of
        None \<Rightarrow> []
      | Some line \<Rightarrow> drop (length prefix) line)"

definition parseUnsignedString :: "string \<Rightarrow> nat option" where
  "parseUnsignedString text =
     (if text = [] then None
      else case stoull text of
        None \<Rightarrow> None
      | Some (parsed, consumed) \<Rightarrow> if consumed \<noteq> length text then None else Some parsed)"

definition parseUnsignedReadyValue :: "string \<Rightarrow> string \<Rightarrow> nat option" where
  "parseUnsignedReadyValue text key = parseUnsignedString (readReadyValue text key)"

section \<open>Snapshot paths\<close>

text \<open>
  What the file system answers below the bridge directory: the text of a regular file at a
  relative path, the components of the canonical path of that file and of the directory itself.
\<close>

record bridge_files =
  bf_regular :: "string \<Rightarrow> string option"
  bf_canonical :: "string \<Rightarrow> string list option"
  bf_directory :: "string list option"

fun pathIsWithinDirectory :: "string list \<Rightarrow> string list \<Rightarrow> bool" where
  "pathIsWithinDirectory [] path = True"
| "pathIsWithinDirectory (d # ds) [] = False"
| "pathIsWithinDirectory (d # ds) (p # ps) = (if d \<noteq> p then False else pathIsWithinDirectory ds ps)"

definition is_absolute :: "string \<Rightarrow> bool" where
  "is_absolute path \<longleftrightarrow> starts_with path ''/''"

text \<open>The text of the snapshot a key of the ready file names, where the path is accepted.\<close>

definition readySnapshot :: "bridge_files \<Rightarrow> string \<Rightarrow> string \<Rightarrow> string option" where
  "readySnapshot files ready key =
     (let value = readReadyValue ready key in
      if value = [] then None
      else if is_absolute value then None
      else case bf_regular files value of
        None \<Rightarrow> None
      | Some contents \<Rightarrow>
          if length contents = 0 then None
          else (case bf_directory files of
             None \<Rightarrow> None
           | Some bridgeDirectory \<Rightarrow>
               (case bf_canonical files value of
                  None \<Rightarrow> None
                | Some canonicalSnapshot \<Rightarrow>
                    if \<not> pathIsWithinDirectory bridgeDirectory canonicalSnapshot then None
                    else Some contents)))"

section \<open>Snapshot metadata\<close>

record snapshot_metadata =
  sm_values :: "string \<rightharpoonup> string"
  sm_hasDuplicateKey :: bool

definition is_blank :: "char \<Rightarrow> bool" where
  "is_blank c \<longleftrightarrow> c = CHR '' '' \<or> c = CHR 0x09"

definition addMetadata :: "string \<Rightarrow> string \<Rightarrow> snapshot_metadata \<Rightarrow> snapshot_metadata" where
  "addMetadata key value md =
     md\<lparr>sm_hasDuplicateKey := (if sm_values md key \<noteq> None then True else sm_hasDuplicateKey md),
        sm_values := (sm_values md)(key \<mapsto> value)\<rparr>"

text \<open>The result says whether the line is a metadata line at all.\<close>

definition parseSnapshotMetadataLine ::
  "string \<Rightarrow> snapshot_metadata \<Rightarrow> bool \<times> snapshot_metadata" where
  "parseSnapshotMetadataLine line md =
     (if line = [] \<or> hd line \<noteq> CHR ''#'' then (False, md)
      else
        let body = dropWhile is_blank (tl line) in
        if body = [] then (True, md)
        else case (if CHR ''='' \<in> set body then split_at (CHR ''='') body
                   else split_at (CHR 0x09) body) of
          None \<Rightarrow> (True, md)
        | Some (rawKey, rawValue) \<Rightarrow>
            if rawKey = [] then (True, md)
            else
              let key = rev (dropWhile is_blank (rev rawKey));
                  value = dropWhile is_blank rawValue
              in (True, if key \<noteq> [] then addMetadata key value md else md))"

fun readMetadataLines :: "string list \<Rightarrow> snapshot_metadata \<Rightarrow> snapshot_metadata" where
  "readMetadataLines [] md = md"
| "readMetadataLines (l # ls) md =
     (let (isMetadata, md') = parseSnapshotMetadataLine l md in
      if \<not> isMetadata then md' else readMetadataLines ls md')"

definition readSnapshotMetadata :: "string \<Rightarrow> snapshot_metadata" where
  "readSnapshotMetadata snapshot =
     readMetadataLines (getlines snapshot) \<lparr>sm_values = Map.empty, sm_hasDuplicateKey = False\<rparr>"

definition snapshotMetadataValue :: "snapshot_metadata \<Rightarrow> string \<Rightarrow> string" where
  "snapshotMetadataValue md key = (case sm_values md key of None \<Rightarrow> [] | Some v \<Rightarrow> v)"

definition parseUnsignedMetadataValue :: "snapshot_metadata \<Rightarrow> string \<Rightarrow> nat option" where
  "parseUnsignedMetadataValue md key = parseUnsignedString (snapshotMetadataValue md key)"

section \<open>The field table of a snapshot\<close>

definition splitTabs :: "string \<Rightarrow> string list" where
  "splitTabs line = split_on (CHR 0x09) line"

record field_table =
  ft_values :: "string \<rightharpoonup> string"
  ft_headerValid :: bool
  ft_hasDuplicateKey :: bool
  ft_hasMalformedRow :: bool
  ft_rowCount :: nat

definition empty_table :: field_table where
  "empty_table =
     \<lparr>ft_values = Map.empty, ft_headerValid = False, ft_hasDuplicateKey = False,
      ft_hasMalformedRow = False, ft_rowCount = 0\<rparr>"

definition addRow :: "string list \<Rightarrow> field_table \<Rightarrow> field_table" where
  "addRow flds table =
     (if length flds \<noteq> 2 \<or> flds ! 0 = [] then table\<lparr>ft_hasMalformedRow := True\<rparr>
      else table\<lparr>
        ft_hasDuplicateKey :=
          (if ft_values table (flds ! 0) \<noteq> None then True else ft_hasDuplicateKey table),
        ft_values := (ft_values table)(flds ! 0 \<mapsto> flds ! 1),
        ft_rowCount := ft_rowCount table + 1\<rparr>)"

fun readRows :: "bool \<Rightarrow> string list \<Rightarrow> field_table \<Rightarrow> field_table" where
  "readRows headerSeen [] table = table"
| "readRows headerSeen (line # ls) table =
     (if \<not> headerSeen \<and> (line = [] \<or> hd line = CHR ''#'') then readRows headerSeen ls table
      else if headerSeen \<and> line = [] then table
      else if headerSeen \<and> hd line = CHR ''#'' then readRows headerSeen ls table
      else
        let flds = splitTabs line in
        if \<not> headerSeen
        then let table = table\<lparr>ft_headerValid :=
                   length flds = 2 \<and> flds ! 0 = ''field'' \<and> flds ! 1 = ''value''\<rparr>
             in if \<not> ft_headerValid table then table else readRows True ls table
        else readRows headerSeen ls (addRow flds table))"

definition readSnapshotFieldValueTable :: "string \<Rightarrow> field_table" where
  "readSnapshotFieldValueTable snapshot = readRows False (getlines snapshot) empty_table"

definition snapshotFieldValue :: "field_table \<Rightarrow> string \<Rightarrow> string" where
  "snapshotFieldValue table key = (case ft_values table key of None \<Rightarrow> [] | Some v \<Rightarrow> v)"

definition snapshotFieldValueIsTrue :: "field_table \<Rightarrow> string \<Rightarrow> bool" where
  "snapshotFieldValueIsTrue table key \<longleftrightarrow> snapshotFieldValue table key = ''true''"

definition snapshotFieldValueIsFalse :: "field_table \<Rightarrow> string \<Rightarrow> bool" where
  "snapshotFieldValueIsFalse table key \<longleftrightarrow> snapshotFieldValue table key = ''false''"

definition snapshotFieldUnsignedValue :: "field_table \<Rightarrow> string \<Rightarrow> nat option" where
  "snapshotFieldUnsignedValue table key = parseUnsignedString (snapshotFieldValue table key)"

end
