(* ===== verification/Live_Evidence.thy ===== *)
theory Live_Evidence
  imports Ready_Files Runtime_Readiness Manifest_Properties
begin

text \<open>
  Live command evidence of the Remastered backend (\<open>RemasteredRuntimeBackend.cpp\<close>, its anonymous
  namespace): the rules by which a row of the ready file promotes one command to live proven.
\<close>

section \<open>Static evidence\<close>

definition demote :: "command_evidence \<Rightarrow> command_evidence" where
  "demote entry =
     (if ev_status entry \<noteq> LiveProven then entry
      else entry\<lparr>ev_status := DocumentedScenario,
        ev_detail := (if ev_detail entry = []
          then ''static-manifest-live-proof-requires-validated-resident-proof''
          else ev_detail entry
               @ '':static-manifest-live-proof-requires-validated-resident-proof'')\<rparr>)"

definition staticManifestCommandEvidence :: "command_evidence list \<Rightarrow> command_evidence list" where
  "staticManifestCommandEvidence evidence = map demote evidence"

section \<open>The conditions on the ready file\<close>

record state_sample =
  ss_frame :: nat
  ss_tick :: nat

record state_proof =
  sp_readGameStateProofPresent :: bool
  sp_activeMatchProofPresent :: bool
  sp_readGameStateValid :: bool
  sp_activeMatchValid :: bool
  sp_samples :: "state_sample list"
  sp_activeUnitCount :: nat
  sp_activeMatchMode :: string
  sp_errors :: "string list"

definition preflightHasValidatedProof :: "preflight_result \<Rightarrow> string \<Rightarrow> bool" where
  "preflightHasValidatedProof pf proofLine \<longleftrightarrow> proofLine \<notin> set (pf_missingBehaviorProofs pf)"

definition preflightSupportsCommandSpecificEvidence :: "preflight_result \<Rightarrow> string \<Rightarrow> bool" where
  "preflightSupportsCommandSpecificEvidence pf expectedKind =
     (if pf_executorBridgeMode pf \<noteq> BridgeValidatedAdapterMode
         \<or> \<not> preflightHasValidatedProof pf ''proof.read_game_state=passed''
         \<or> \<not> preflightHasValidatedProof pf ''proof.active_match_state=passed''
      then False
      else expectedKind \<noteq> ''unit-command''
         \<or> preflightHasValidatedProof pf ''proof.read_units=passed'')"

text \<open>The number parses and satisfies \<open>P\<close>.\<close>

definition number_is :: "(nat \<Rightarrow> bool) \<Rightarrow> nat option \<Rightarrow> bool" where
  "number_is P v = (case v of None \<Rightarrow> False | Some n \<Rightarrow> P n)"

definition readyFileMatchesEnvironmentProcess :: "string \<Rightarrow> runtime_environment \<Rightarrow> bool" where
  "readyFileMatchesEnvironmentProcess ready environment =
     (case parseUnsignedReadyValue ready ''process_id'' of
        None \<Rightarrow> False
      | Some readyProcessId \<Rightarrow>
          if readyProcessId = 0 then False
          else if env_processId environment > 0 \<and> int readyProcessId \<noteq> env_processId environment
          then False
          else let readyExecutable = readReadyValue ready ''executable'' in
            env_executablePath environment = [] \<or> readyExecutable = []
            \<or> readyExecutable = env_executablePath environment)"

definition readyFileHasValidatedActiveMatchContext :: "string \<Rightarrow> bool" where
  "readyFileHasValidatedActiveMatchContext ready \<longleftrightarrow>
     fileContainsLine ready ''proof.active_match_state=passed''
   \<and> readReadyValue ready ''resident.proof.active_match.source'' = ''resident''
   \<and> readReadyValue ready ''resident.proof.active_match.mode'' \<noteq> []
   \<and> number_is (\<lambda>readyProcessId. readyProcessId > 0
        \<and> number_is (\<lambda>p. p = readyProcessId)
            (parseUnsignedReadyValue ready ''resident.proof.active_match.process_id''))
       (parseUnsignedReadyValue ready ''process_id'')
   \<and> number_is (\<lambda>residentHeartbeat. residentHeartbeat > 0
        \<and> number_is (\<lambda>h. h = residentHeartbeat)
            (parseUnsignedReadyValue ready ''resident.proof.active_match.heartbeat''))
       (parseUnsignedReadyValue ready ''resident.adapter.heartbeat'')
   \<and> number_is (\<lambda>n. n > 0)
       (parseUnsignedReadyValue ready ''resident.proof.active_match.unit_activity_count'')"

definition readyFileHasCommandSpecificEvidenceContext ::
  "string \<Rightarrow> string \<Rightarrow> state_proof \<Rightarrow> bool" where
  "readyFileHasCommandSpecificEvidenceContext ready expectedKind stateProof =
     (if readReadyValue ready ''executor'' \<noteq> ''starcraft-api-resident-adapter''
         \<or> readReadyValue ready ''resident.adapter'' \<noteq> ''active''
         \<or> readReadyValue ready ''resident.adapter.abi'' \<noteq> ''starcraft-api-resident-adapter-v1''
         \<or> \<not> fileContainsLine ready ''command.receiver=active''
         \<or> \<not> fileContainsLine ready ''command.sink=runtime-command-queue-v1''
         \<or> \<not> fileContainsLine ready ''proof.attach=passed''
         \<or> \<not> fileContainsLine ready ''proof.read_game_state=passed''
         \<or> \<not> readyFileHasValidatedActiveMatchContext ready
      then False
      else if \<not> sp_readGameStateValid stateProof \<or> \<not> sp_activeMatchValid stateProof
         \<or> sp_samples stateProof = []
      then False
      else expectedKind \<noteq> ''unit-command''
         \<or> fileContainsLine ready ''proof.read_units=passed'')"

definition commandSpecificProofLine :: "string \<Rightarrow> string" where
  "commandSpecificProofLine commandName =
     ''proof.issue_commands.command.'' @ commandName @ ''=passed''"

definition commandSpecificSnapshotKey :: "string \<Rightarrow> string" where
  "commandSpecificSnapshotKey commandName =
     ''proof.issue_commands.command.'' @ commandName @ ''.snapshot''"

section \<open>The conditions on the snapshot\<close>

definition trueFields :: "string list" where
  "trueFields =
     [''passed'', ''delivery_checked'', ''behavior_checked'', ''receiver_active'',
      ''behavior_observed'']"

definition requiredFieldValues :: "(string \<times> string) list" where
  "requiredFieldValues =
     [(''live_behavior_witness'', ''starcraft-runtime-adapter-proof-command-behavior-v1''),
      (''storage_kind'', ''live-sc-r-command-queue-v1''),
      (''issue_commands_required_adapter_abi'', ''starcraft-api-resident-adapter-v1''),
      (''issue_commands_required_adapter_location'', ''in-process-target-runtime''),
      (''issue_commands_required_adapter_thread_policy'', ''execute-on-target-runtime-thread''),
      (''issue_commands_required_adapter_behavior'',
       ''encoded-bwapi-command-reaches-live-scr-command-path-and-changes-frame-behavior''),
      (''issue_commands_required_adapter_promotion_rule'',
       ''promote-only-this-command-name-from-this-snapshot'')]"

definition positiveFields :: "string list" where
  "positiveFields =
     [''encoded_bytes'', ''attempt_count'', ''appended_bytes'', ''behavior_sample_count'',
      ''vector_address'', ''bytes_in_queue_address'', ''frame_counter_address'']"

definition validatedCommandSpecificSnapshotPayload :: "string \<Rightarrow> string \<Rightarrow> string \<Rightarrow> bool" where
  "validatedCommandSpecificSnapshotPayload snapshot commandName expectedKind =
     (let flds = readSnapshotFieldValueTable snapshot in
      if \<not> ft_headerValid flds \<or> ft_hasDuplicateKey flds \<or> ft_hasMalformedRow flds
         \<or> ft_rowCount flds = 0
      then False
      else
        list_all (snapshotFieldValueIsTrue flds) trueFields
      \<and> snapshotFieldValueIsFalse flds ''self_fixture''
      \<and> snapshotFieldValue flds ''command'' = commandName
      \<and> snapshotFieldValue flds ''command_kind'' = expectedKind
      \<and> list_all (\<lambda>(key, expected). snapshotFieldValue flds key = expected) requiredFieldValues
      \<and> list_all (\<lambda>key. number_is (\<lambda>n. n > 0) (snapshotFieldUnsignedValue flds key)) positiveFields
      \<and> number_is (\<lambda>n. n \<ge> 2) (snapshotFieldUnsignedValue flds ''baseline_delta'')
      \<and> number_is (\<lambda>n. n = 0) (snapshotFieldUnsignedValue flds ''paused_delta'')
      \<and> number_is (\<lambda>n. n \<ge> 2) (snapshotFieldUnsignedValue flds ''resumed_delta'')
      \<and> (expectedKind \<noteq> ''unit-command''
         \<or> number_is (\<lambda>n. n > 0) (snapshotFieldUnsignedValue flds ''unit_id'')))"

definition validatedCommandSpecificSnapshotMetadata ::
  "string \<Rightarrow> string \<Rightarrow> string \<Rightarrow> string \<Rightarrow> state_proof \<Rightarrow> bool" where
  "validatedCommandSpecificSnapshotMetadata snapshot ready commandName expectedKind stateProof =
     (let metadata = readSnapshotMetadata snapshot in
      if sm_hasDuplicateKey metadata then False
      else if snapshotMetadataValue metadata ''schema'' \<noteq> ''starcraft-api.resident-snapshot.v1''
      then False
      else if snapshotMetadataValue metadata ''proof'' \<noteq> ''issue_commands.command'' then False
      else if snapshotMetadataValue metadata ''source_identity'' \<noteq> ''resident-adapter'' then False
      else if snapshotMetadataValue metadata ''command'' \<noteq> commandName then False
      else if snapshotMetadataValue metadata ''command_kind'' \<noteq> expectedKind then False
      else if snapshotMetadataValue metadata ''active_match_correlated'' \<noteq> ''true'' then False
      else if \<not> number_is (\<lambda>snapshotProcessId.
            number_is (\<lambda>residentProcessId. snapshotProcessId \<noteq> 0
                \<and> snapshotProcessId = residentProcessId)
              (parseUnsignedReadyValue ready ''resident.adapter.process_id''))
          (parseUnsignedMetadataValue metadata ''process_id'')
      then False
      else if \<not> number_is (\<lambda>snapshotHeartbeat.
            number_is (\<lambda>residentHeartbeat. snapshotHeartbeat \<noteq> 0
                \<and> snapshotHeartbeat = residentHeartbeat)
              (parseUnsignedReadyValue ready ''resident.adapter.heartbeat''))
          (parseUnsignedMetadataValue metadata ''heartbeat'')
      then False
      else case parseUnsignedMetadataValue metadata ''frame_id'' of
        None \<Rightarrow> False
      | Some frameId \<Rightarrow>
          if frameId = 0 then False
          else if sp_samples stateProof = [] then False
          else ss_frame (hd (sp_samples stateProof)) \<le> frameId
             \<and> frameId \<le> ss_frame (last (sp_samples stateProof)))"

definition commandEvidenceProofIsProven ::
  "bridge_files \<Rightarrow> string \<Rightarrow> preflight_result \<Rightarrow> runtime_environment \<Rightarrow> state_proof \<Rightarrow> string \<Rightarrow>
   string \<Rightarrow> string \<Rightarrow> bool" where
  "commandEvidenceProofIsProven files ready pf environment stateProof detail commandName
       expectedKind =
     (if \<not> preflightSupportsCommandSpecificEvidence pf expectedKind then False
      else if \<not> readyFileMatchesEnvironmentProcess ready environment then False
      else if \<not> readyFileHasCommandSpecificEvidenceContext ready expectedKind stateProof then False
      else
        let proofLine = commandSpecificProofLine commandName in
        if detail \<noteq> proofLine \<or> \<not> fileContainsLine ready proofLine then False
        else case readySnapshot files ready (commandSpecificSnapshotKey commandName) of
          None \<Rightarrow> False
        | Some snapshot \<Rightarrow>
            if \<not> validatedCommandSpecificSnapshotMetadata snapshot ready commandName expectedKind
                   stateProof
            then False
            else validatedCommandSpecificSnapshotPayload snapshot commandName expectedKind)"

section \<open>Rows of live evidence\<close>

definition is_digit :: "char \<Rightarrow> bool" where
  "is_digit c = (let n = (of_char c :: nat) in 48 \<le> n \<and> n \<le> 57)"

definition allAsciiDigits :: "string \<Rightarrow> bool" where
  "allAsciiDigits value \<longleftrightarrow> value \<noteq> [] \<and> list_all is_digit value"

definition parseBridgeLiveCommandEvidenceValue :: "string \<Rightarrow> command_evidence option" where
  "parseBridgeLiveCommandEvidenceValue value =
     (case split_at (CHR ''|'') value of
        None \<Rightarrow> None
      | Some (name, rest) \<Rightarrow>
          (case split_at (CHR ''|'') rest of
             None \<Rightarrow> None
           | Some (statusText, detail) \<Rightarrow>
               if CHR ''|'' \<in> set detail then None
               else if name = [] \<or> detail = [] then None
               else (case parseRuntimeCommandEvidenceStatus statusText of
                  None \<Rightarrow> None
                | Some status \<Rightarrow>
                    Some \<lparr>ev_name = name, ev_status = status, ev_detail = detail\<rparr>)))"

text \<open>
  The loop over the lines: an unacceptable row discards everything (\<open>return {}\<close>), so the
  accumulator is an option.
\<close>

fun liveRows ::
  "(command_evidence \<Rightarrow> bool) \<Rightarrow> string \<Rightarrow> string list \<Rightarrow> command_evidence list \<Rightarrow>
   command_evidence list" where
  "liveRows acceptable keyPrefix [] result = result"
| "liveRows acceptable keyPrefix (line # ls) result =
     (case split_at (CHR ''='') line of
        None \<Rightarrow> liveRows acceptable keyPrefix ls result
      | Some (key, value) \<Rightarrow>
          if \<not> starts_with key keyPrefix then liveRows acceptable keyPrefix ls result
          else if \<not> allAsciiDigits (drop (length keyPrefix) key) then []
          else (case parseBridgeLiveCommandEvidenceValue value of
             None \<Rightarrow> []
           | Some evidence \<Rightarrow>
               if \<not> acceptable evidence \<or> ev_name evidence \<in> ev_name ` set result then []
               else liveRows acceptable keyPrefix ls (result @ [evidence])))"

definition readProofBackedLiveCommandEvidence ::
  "bridge_files \<Rightarrow> string \<Rightarrow> string \<Rightarrow> string list \<Rightarrow> string \<Rightarrow> runtime_environment \<Rightarrow>
   preflight_result \<Rightarrow> state_proof \<Rightarrow> command_evidence list" where
  "readProofBackedLiveCommandEvidence files ready keyPrefix expectedNames expectedKind environment
       pf stateProof =
     liveRows (\<lambda>evidence. ev_status evidence = LiveProven
         \<and> ev_name evidence \<in> set expectedNames
         \<and> commandEvidenceProofIsProven files ready pf environment stateProof
             (ev_detail evidence) (ev_name evidence) expectedKind)
       keyPrefix (getlines ready) []"

definition mergeLiveCommandEvidence ::
  "command_evidence list \<Rightarrow> command_evidence list \<Rightarrow> command_evidence list" where
  "mergeLiveCommandEvidence target liveEvidence =
     foldl (\<lambda>t live. update_first (\<lambda>existing. ev_name existing = ev_name live) (\<lambda>_. live) t)
       target liveEvidence"

text \<open>\<open>ready\<close> is \<open>None\<close> where the bridge directory has no regular ready file.\<close>

definition applyBridgeLiveCommandEvidence ::
  "bridge_files \<Rightarrow> string option \<Rightarrow> state_proof \<Rightarrow> runtime_environment \<Rightarrow> preflight_result \<Rightarrow>
   probe_result \<Rightarrow> probe_result" where
  "applyBridgeLiveCommandEvidence files readyFile stateProof environment pf result =
     (if env_executorBridgePath environment = []
         \<or> pf_executorBridgeMode pf \<noteq> BridgeValidatedAdapterMode
      then result
      else case readyFile of
        None \<Rightarrow> result
      | Some ready \<Rightarrow>
          result\<lparr>pr_unitCommandEvidence :=
            mergeLiveCommandEvidence (pr_unitCommandEvidence result)
              (readProofBackedLiveCommandEvidence files ready ''command_surface.live_unit_command.''
                 (pr_unitCommands result) ''unit-command'' environment pf stateProof),
           pr_gameActionEvidence :=
            mergeLiveCommandEvidence (pr_gameActionEvidence result)
              (readProofBackedLiveCommandEvidence files ready ''command_surface.live_game_action.''
                 (pr_gameActions result) ''game-action'' environment pf stateProof)\<rparr>)"

section \<open>What a row promotes\<close>

text \<open>The rows of the prefix, parsed: \<open>None\<close> for one that is malformed.\<close>

definition row_of :: "string \<Rightarrow> string \<Rightarrow> command_evidence option option" where
  "row_of keyPrefix line =
     (case split_at (CHR ''='') line of
        None \<Rightarrow> None
      | Some (key, value) \<Rightarrow>
          if \<not> starts_with key keyPrefix then None
          else Some (if allAsciiDigits (drop (length keyPrefix) key)
                     then parseBridgeLiveCommandEvidenceValue value else None))"

definition evidence_rows :: "string \<Rightarrow> string list \<Rightarrow> command_evidence list option" where
  "evidence_rows keyPrefix ls = those (List.map_filter (row_of keyPrefix) ls)"

lemma map_filter_Cons:
  "List.map_filter f (x # xs)
     = (case f x of None \<Rightarrow> List.map_filter f xs | Some y \<Rightarrow> y # List.map_filter f xs)"
  by (simp add: map_filter_simps split: option.split)

lemma liveRows_exact:
  "liveRows acceptable keyPrefix ls result
     = (case evidence_rows keyPrefix ls of
          None \<Rightarrow> []
        | Some es \<Rightarrow>
            if list_all acceptable es \<and> distinct (map ev_name es)
              \<and> set (map ev_name es) \<inter> set (map ev_name result) = {}
            then result @ es else [])"
proof (induction ls arbitrary: result)
  case Nil
  then show ?case by (simp add: evidence_rows_def map_filter_simps)
next
  case (Cons line ls)
  show ?case
  proof (cases "row_of keyPrefix line")
    case None
    then have "liveRows acceptable keyPrefix (line # ls) result = liveRows acceptable keyPrefix ls result"
      by (auto simp: row_of_def split: option.splits if_splits)
    moreover have "evidence_rows keyPrefix (line # ls) = evidence_rows keyPrefix ls"
      by (simp add: evidence_rows_def map_filter_Cons None)
    ultimately show ?thesis using Cons by simp
  next
    case (Some row)
    have rows: "evidence_rows keyPrefix (line # ls)
        = (case row of None \<Rightarrow> None
           | Some e \<Rightarrow> map_option ((#) e) (evidence_rows keyPrefix ls))"
      by (simp add: evidence_rows_def map_filter_Cons Some split: option.split)
    show ?thesis
    proof (cases row)
      case None
      with Some have "liveRows acceptable keyPrefix (line # ls) result = []"
        by (auto simp: row_of_def split: option.splits if_splits)
      then show ?thesis by (simp add: rows None)
    next
      case e: (Some e)
      with Some have step: "liveRows acceptable keyPrefix (line # ls) result
          = (if \<not> acceptable e \<or> ev_name e \<in> ev_name ` set result then []
             else liveRows acceptable keyPrefix ls (result @ [e]))"
        by (auto simp: row_of_def split: option.splits if_splits)
      show ?thesis
        unfolding step Cons rows e
        by (cases "evidence_rows keyPrefix ls") (auto simp: image_iff)
    qed
  qed
qed

lemma readProofBacked_sound:
  assumes "e \<in> set (readProofBackedLiveCommandEvidence files ready p names kind env pf sp)"
  shows "ev_status e = LiveProven" "ev_name e \<in> set names"
    "commandEvidenceProofIsProven files ready pf env sp (ev_detail e) (ev_name e) kind"
  using assms
  by (auto simp: readProofBackedLiveCommandEvidence_def liveRows_exact list_all_iff
      split: option.splits if_splits)

lemma readProofBacked_distinct:
  "distinct (map ev_name (readProofBackedLiveCommandEvidence files ready p names kind env pf sp))"
  by (auto simp: readProofBackedLiveCommandEvidence_def liveRows_exact split: option.split)

lemma map_update_first_names:
  "map ev_name (update_first (\<lambda>x. ev_name x = ev_name live) (\<lambda>_. live) t) = map ev_name t"
  by (induction t) auto

lemma merge_names [simp]: "map ev_name (mergeLiveCommandEvidence t live) = map ev_name t"
  unfolding mergeLiveCommandEvidence_def
  by (induction live arbitrary: t) (simp_all add: map_update_first_names)

lemma merge_member: "e \<in> set (mergeLiveCommandEvidence t live) \<Longrightarrow> e \<in> set t \<or> e \<in> set live"
  unfolding mergeLiveCommandEvidence_def
  by (induction live arbitrary: t) (fastforce dest: set_update_first)+

lemma find_update_live:
  "List.find (\<lambda>x. ev_name x = n) (update_first (\<lambda>x. ev_name x = ev_name live) (\<lambda>_. live) t)
     = (if n = ev_name live then map_option (\<lambda>_. live) (List.find (\<lambda>x. ev_name x = n) t)
        else List.find (\<lambda>x. ev_name x = n) t)"
  by (induction t) auto

lemma merge_find:
  assumes "distinct (map ev_name live)"
  shows "List.find (\<lambda>x. ev_name x = n) (mergeLiveCommandEvidence t live)
    = (case List.find (\<lambda>x. ev_name x = n) t of None \<Rightarrow> None
       | Some e \<Rightarrow> Some (case List.find (\<lambda>x. ev_name x = n) live of None \<Rightarrow> e | Some l \<Rightarrow> l))"
  using assms unfolding mergeLiveCommandEvidence_def
proof (induction live arbitrary: t)
  case Nil
  then show ?case by (simp split: option.split)
next
  case (Cons l live)
  have "ev_name l = n \<Longrightarrow> List.find (\<lambda>x. ev_name x = n) live = None"
    using Cons.prems by (auto simp: find_None_iff image_iff)
  with Cons show ?case
    by (auto simp: find_update_live split: option.splits)
qed

lemma static_no_live: "list_all (\<lambda>e. ev_status e \<noteq> LiveProven) (staticManifestCommandEvidence es)"
  by (induction es) (auto simp: staticManifestCommandEvidence_def demote_def)

lemma static_names [simp]: "map ev_name (staticManifestCommandEvidence es) = map ev_name es"
  by (induction es) (auto simp: staticManifestCommandEvidence_def demote_def)

end
