(* ===== verification/Issue_Proofs.thy ===== *)
theory Issue_Proofs
  imports Ready_Files Command_Text
begin

text \<open>
  The issue proofs of single commands on the adapter's side (\<open>RuntimeResidentAdapterEntry.cpp\<close>): a
  snapshot file with metadata and a field table is loaded, checked against the process, the
  heartbeat and the command, and written back with the context of the current pass; each proof
  that survives contributes its lines to the ready file.
\<close>

section \<open>Lines and tables\<close>

definition readyLineKey :: "string \<Rightarrow> string" where
  "readyLineKey line =
     (case split_at (CHR ''='') line of None \<Rightarrow> [] | Some (key, value) \<Rightarrow> key)"

definition readyValue :: "string list \<Rightarrow> string \<Rightarrow> string" where
  "readyValue ls key =
     (let prefix = key @ ''='' in
      case List.find (\<lambda>line. starts_with line prefix) ls of
        None \<Rightarrow> []
      | Some line \<Rightarrow> drop (length prefix) line)"

definition parseUnsignedValue :: "string \<Rightarrow> nat option" where
  "parseUnsignedValue value =
     (if value = [] then None
      else case stoull value of
        None \<Rightarrow> None
      | Some (number, consumed) \<Rightarrow> if consumed \<noteq> length value then None else Some number)"

definition readReadyFileLines :: "string \<Rightarrow> string list" where
  "readReadyFileLines text = filter (\<lambda>line. line \<noteq> []) (getlines text)"

text \<open>\<open>std::filesystem::path\<close> on POSIX: a file name, with no directory part.\<close>

definition safeBridgeRelativeFileName :: "string \<Rightarrow> bool" where
  "safeBridgeRelativeFileName value \<longleftrightarrow> value \<noteq> [] \<and> CHR ''/'' \<notin> set value"

type_synonym table = "string \<rightharpoonup> string"

text \<open>\<open>emplace\<close>: \<open>None\<close> where the key is already there.\<close>

definition emplace :: "string \<Rightarrow> string \<Rightarrow> table \<Rightarrow> table option" where
  "emplace key value t = (if t key \<noteq> None then None else Some (t(key \<mapsto> value)))"

definition metadata_entry :: "string \<Rightarrow> (string \<times> string) option" where
  "metadata_entry line =
     (case split_at (CHR ''='') line of
        None \<Rightarrow> None
      | Some (before, value) \<Rightarrow> if length before \<le> 2 then None else Some (drop 2 before, value))"

definition field_entry :: "string \<Rightarrow> (string \<times> string) option" where
  "field_entry line =
     (case split_at (CHR 0x09) line of
        None \<Rightarrow> None
      | Some (key, value) \<Rightarrow> if key = [] \<or> CHR 0x09 \<in> set value then None else Some (key, value))"

fun readTables :: "bool \<Rightarrow> string list \<Rightarrow> table \<times> table \<Rightarrow> (bool \<times> table \<times> table) option" where
  "readTables sawFieldHeader [] tables = Some (sawFieldHeader, tables)"
| "readTables sawFieldHeader (line # ls) (metadata, flds) =
     (if line = [] then readTables sawFieldHeader ls (metadata, flds)
      else if \<not> sawFieldHeader \<and> starts_with line ''# '' then
        (case metadata_entry line of
           None \<Rightarrow> None
         | Some (key, value) \<Rightarrow>
             (case emplace key value metadata of
                None \<Rightarrow> None
              | Some metadata' \<Rightarrow> readTables sawFieldHeader ls (metadata', flds)))
      else if \<not> sawFieldHeader then
        (if line \<noteq> ''field'' @ [CHR 0x09] @ ''value'' then None
         else readTables True ls (metadata, flds))
      else
        (case field_entry line of
           None \<Rightarrow> None
         | Some (key, value) \<Rightarrow>
             (case emplace key value flds of
                None \<Rightarrow> None
              | Some flds' \<Rightarrow> readTables sawFieldHeader ls (metadata, flds'))))"

definition readCommandSpecificSnapshotTables :: "string option \<Rightarrow> (table \<times> table) option" where
  "readCommandSpecificSnapshotTables file =
     (case file of
        None \<Rightarrow> None
      | Some text \<Rightarrow>
          (case readTables False (getlines text) (Map.empty, Map.empty) of
             None \<Rightarrow> None
           | Some (sawFieldHeader, metadata, flds) \<Rightarrow>
               if sawFieldHeader \<and> metadata \<noteq> Map.empty \<and> flds \<noteq> Map.empty
               then Some (metadata, flds) else None))"

text \<open>Emptiness of the two tables, executably: a key of one of the lines is in the table.\<close>

lemma readTables_keys:
  assumes "readTables saw ls (m, f) = Some (saw', m', f')"
  shows "m' k \<noteq> None \<Longrightarrow> m k \<noteq> None \<or> (\<exists>l\<in>set ls. \<exists>v. metadata_entry l = Some (k, v))"
    "f' k \<noteq> None \<Longrightarrow> f k \<noteq> None \<or> (\<exists>l\<in>set ls. \<exists>v. field_entry l = Some (k, v))"
proof -
  have "(m' k \<noteq> None \<longrightarrow> m k \<noteq> None \<or> (\<exists>l\<in>set ls. \<exists>v. metadata_entry l = Some (k, v)))
      \<and> (f' k \<noteq> None \<longrightarrow> f k \<noteq> None \<or> (\<exists>l\<in>set ls. \<exists>v. field_entry l = Some (k, v)))"
    using assms
  proof (induction ls arbitrary: saw m f)
    case Nil
    then show ?case by simp
  next
    case (Cons line ls)
    from Cons.prems consider (skip) saw1 where "readTables saw1 ls (m, f) = Some (saw', m', f')"
      | (meta) j v where "metadata_entry line = Some (j, v)"
          "readTables saw ls (m(j \<mapsto> v), f) = Some (saw', m', f')"
      | (row) j v where "field_entry line = Some (j, v)"
          "readTables saw ls (m, f(j \<mapsto> v)) = Some (saw', m', f')"
      by (auto simp: emplace_def split: if_splits option.splits)
    then show ?case
    proof cases
      case skip
      from Cons.IH [OF skip] show ?thesis by auto
    next
      case (meta j v)
      from Cons.IH [OF meta(2)] meta(1) show ?thesis by (auto split: if_splits)
    next
      case (row j v)
      from Cons.IH [OF row(2)] row(1) show ?thesis by (auto split: if_splits)
    qed
  qed
  then show "m' k \<noteq> None \<Longrightarrow> m k \<noteq> None \<or> (\<exists>l\<in>set ls. \<exists>v. metadata_entry l = Some (k, v))"
    "f' k \<noteq> None \<Longrightarrow> f k \<noteq> None \<or> (\<exists>l\<in>set ls. \<exists>v. field_entry l = Some (k, v))"
    by simp_all
qed

definition has_key :: "(string \<Rightarrow> (string \<times> string) option) \<Rightarrow> string list \<Rightarrow> table \<Rightarrow> bool" where
  "has_key entry ls t =
     list_ex (\<lambda>l. case entry l of None \<Rightarrow> False | Some (k, v) \<Rightarrow> t k \<noteq> None) ls"

lemma has_keyI: "\<forall>k. t k \<noteq> None \<longrightarrow> (\<exists>l\<in>set ls. \<exists>v. entry l = Some (k, v)) \<Longrightarrow>
  has_key entry ls t \<longleftrightarrow> t \<noteq> Map.empty"
  unfolding has_key_def list_ex_iff fun_eq_iff by (force split: option.splits)

lemma readCommandSpecificSnapshotTables_code [code]:
  "readCommandSpecificSnapshotTables file =
     (case file of
        None \<Rightarrow> None
      | Some text \<Rightarrow>
          (case readTables False (getlines text) (Map.empty, Map.empty) of
             None \<Rightarrow> None
           | Some (sawFieldHeader, metadata, flds) \<Rightarrow>
               if sawFieldHeader \<and> has_key metadata_entry (getlines text) metadata
                  \<and> has_key field_entry (getlines text) flds
               then Some (metadata, flds) else None))"
proof (cases "file")
  case None
  then show ?thesis by (simp add: readCommandSpecificSnapshotTables_def)
next
  case (Some contents)
  show ?thesis
  proof (cases "readTables False (getlines contents) (Map.empty, Map.empty)")
    case None
    with Some show ?thesis by (simp add: readCommandSpecificSnapshotTables_def)
  next
    case r: (Some r)
    obtain saw m f where "r = (saw, m, f)" by (cases r)
    note r = r [unfolded this]
    have "has_key metadata_entry (getlines contents) m \<longleftrightarrow> m \<noteq> Map.empty"
      "has_key field_entry (getlines contents) f \<longleftrightarrow> f \<noteq> Map.empty"
      using readTables_keys [OF r] by (auto intro!: has_keyI)
    with r Some show ?thesis by (simp add: readCommandSpecificSnapshotTables_def)
  qed
qed

definition tableValue :: "table \<Rightarrow> string \<Rightarrow> string" where
  "tableValue t key = (case t key of None \<Rightarrow> [] | Some value \<Rightarrow> value)"

definition tableValueIsTrue :: "table \<Rightarrow> string \<Rightarrow> bool" where
  "tableValueIsTrue t key \<longleftrightarrow> tableValue t key = ''true''"

definition tableValueIsFalse :: "table \<Rightarrow> string \<Rightarrow> bool" where
  "tableValueIsFalse t key \<longleftrightarrow> tableValue t key = ''false''"

definition tableUnsignedValue :: "table \<Rightarrow> string \<Rightarrow> nat option" where
  "tableUnsignedValue t key = parseUnsignedValue (tableValue t key)"

section \<open>Loading a proof\<close>

record issue_proof =
  is_commandName :: string
  is_commandKind :: string
  is_snapshotName :: string
  is_fields :: table

text \<open>The value parses and satisfies \<open>P\<close>.\<close>

definition unsigned_is :: "(nat \<Rightarrow> bool) \<Rightarrow> nat option \<Rightarrow> bool" where
  "unsigned_is P v = (case v of None \<Rightarrow> False | Some n \<Rightarrow> P n)"

definition commandSpecificSnapshotPayloadValid :: "issue_proof \<Rightarrow> bool" where
  "commandSpecificSnapshotPayloadValid proof \<longleftrightarrow>
     (let f = is_fields proof in
      tableValueIsTrue f ''passed''
    \<and> tableValueIsTrue f ''delivery_checked''
    \<and> tableValueIsTrue f ''behavior_checked''
    \<and> tableValueIsTrue f ''receiver_active''
    \<and> tableValueIsTrue f ''behavior_observed''
    \<and> tableValueIsFalse f ''self_fixture''
    \<and> tableValue f ''command'' = is_commandName proof
    \<and> tableValue f ''command_kind'' = is_commandKind proof
    \<and> tableValue f ''live_behavior_witness'' = ''starcraft-runtime-adapter-proof-command-behavior-v1''
    \<and> tableValue f ''storage_kind'' = ''live-sc-r-command-queue-v1''
    \<and> tableValue f ''issue_commands_required_adapter_abi'' = ''starcraft-api-resident-adapter-v1''
    \<and> tableValue f ''issue_commands_required_adapter_location'' = ''in-process-target-runtime''
    \<and> tableValue f ''issue_commands_required_adapter_thread_policy'' = ''execute-on-target-runtime-thread''
    \<and> tableValue f ''issue_commands_required_adapter_behavior''
        = ''encoded-bwapi-command-reaches-live-scr-command-path-and-changes-frame-behavior''
    \<and> tableValue f ''issue_commands_required_adapter_promotion_rule''
        = ''promote-only-this-command-name-from-this-snapshot''
    \<and> unsigned_is (\<lambda>n. n > 0) (tableUnsignedValue f ''encoded_bytes'')
    \<and> unsigned_is (\<lambda>n. n > 0) (tableUnsignedValue f ''attempt_count'')
    \<and> unsigned_is (\<lambda>n. n > 0) (tableUnsignedValue f ''appended_bytes'')
    \<and> unsigned_is (\<lambda>n. n > 0) (tableUnsignedValue f ''behavior_sample_count'')
    \<and> unsigned_is (\<lambda>n. n > 0) (tableUnsignedValue f ''vector_address'')
    \<and> unsigned_is (\<lambda>n. n > 0) (tableUnsignedValue f ''bytes_in_queue_address'')
    \<and> unsigned_is (\<lambda>n. n > 0) (tableUnsignedValue f ''frame_counter_address'')
    \<and> unsigned_is (\<lambda>n. n \<ge> 2) (tableUnsignedValue f ''baseline_delta'')
    \<and> unsigned_is (\<lambda>n. n = 0) (tableUnsignedValue f ''paused_delta'')
    \<and> unsigned_is (\<lambda>n. n \<ge> 2) (tableUnsignedValue f ''resumed_delta'')
    \<and> (is_commandKind proof \<noteq> ''unit-command''
       \<or> unsigned_is (\<lambda>n. n > 0) (tableUnsignedValue f ''unit_id'')))"

text \<open>
  The process id of the adapter is that of a live process, so the cast to an unsigned 64-bit number
  keeps it.
\<close>

definition commandSpecificSnapshotMetadataValid ::
  "table \<Rightarrow> issue_proof \<Rightarrow> nat \<Rightarrow> nat \<Rightarrow> bool" where
  "commandSpecificSnapshotMetadataValid metadata proof processId currentHeartbeat \<longleftrightarrow>
     tableValue metadata ''schema'' = ''starcraft-api.resident-snapshot.v1''
   \<and> tableValue metadata ''proof'' = ''issue_commands.command''
   \<and> tableValue metadata ''source_identity'' = ''resident-adapter''
   \<and> tableValue metadata ''active_match_correlated'' = ''true''
   \<and> tableValue metadata ''command'' = is_commandName proof
   \<and> tableValue metadata ''command_kind'' = is_commandKind proof
   \<and> unsigned_is (\<lambda>n. n = processId) (tableUnsignedValue metadata ''process_id'')
   \<and> unsigned_is (\<lambda>heartbeat. heartbeat > 0 \<and> heartbeat \<le> currentHeartbeat
        \<and> currentHeartbeat - heartbeat \<le> 5) (tableUnsignedValue metadata ''heartbeat'')
   \<and> unsigned_is (\<lambda>n. n > 0) (tableUnsignedValue metadata ''frame_id'')"

text \<open>The files of the bridge directory by name.\<close>

definition loadCommandSpecificIssueProofSnapshot ::
  "(string \<Rightarrow> string option) \<Rightarrow> nat \<Rightarrow> nat \<Rightarrow> string \<Rightarrow> string \<Rightarrow> string \<Rightarrow> issue_proof option" where
  "loadCommandSpecificIssueProofSnapshot files processId currentHeartbeat commandName commandKind
       snapshotName =
     (if \<not> safeBridgeRelativeFileName snapshotName \<or> commandName = []
         \<or> (commandKind \<noteq> ''unit-command'' \<and> commandKind \<noteq> ''game-action'')
      then None
      else case readCommandSpecificSnapshotTables (files snapshotName) of
        None \<Rightarrow> None
      | Some (metadata, flds) \<Rightarrow>
          let proof = \<lparr>is_commandName = commandName, is_commandKind = commandKind,
                is_snapshotName = snapshotName, is_fields = flds\<rparr>
          in if commandSpecificSnapshotMetadataValid metadata proof processId currentHeartbeat
                \<and> commandSpecificSnapshotPayloadValid proof
             then Some proof else None)"

fun pendingRows ::
  "(string \<Rightarrow> string \<Rightarrow> string \<Rightarrow> issue_proof option) \<Rightarrow> string list \<Rightarrow> string list \<Rightarrow> issue_proof list
   \<Rightarrow> issue_proof list" where
  "pendingRows load [] seen proofs = proofs"
| "pendingRows load (line # ls) seen proofs =
     (if line = [] then pendingRows load ls seen proofs
      else let parts = splitString line (CHR 0x09) in
        if length parts \<noteq> 3 \<or> parts ! 0 \<in> set seen then []
        else case load (parts ! 0) (parts ! 1) (parts ! 2) of
          None \<Rightarrow> []
        | Some proof \<Rightarrow> pendingRows load ls (parts ! 0 # seen) (proofs @ [proof]))"

definition pendingFileName :: string where
  "pendingFileName = ''issue_commands.command.pending.tsv''"

definition readPendingCommandSpecificIssueProofs ::
  "(string \<Rightarrow> string option) \<Rightarrow> nat \<Rightarrow> nat \<Rightarrow> issue_proof list" where
  "readPendingCommandSpecificIssueProofs files processId currentHeartbeat =
     (case files pendingFileName of
        None \<Rightarrow> []
      | Some text \<Rightarrow>
          (case getlines text of
             [] \<Rightarrow> []
           | line # ls \<Rightarrow>
               if line \<noteq> join_on (CHR 0x09) [''command'', ''command_kind'', ''snapshot''] then []
               else pendingRows
                 (loadCommandSpecificIssueProofSnapshot files processId currentHeartbeat) ls [] []))"

definition issueProofPrefix :: string where
  "issueProofPrefix = ''proof.issue_commands.command.''"

fun readyRows ::
  "(string \<Rightarrow> string \<Rightarrow> string \<Rightarrow> issue_proof option) \<Rightarrow> string list \<Rightarrow> string list \<Rightarrow> string list
   \<Rightarrow> issue_proof list \<Rightarrow> issue_proof list" where
  "readyRows load ready [] seen proofs = proofs"
| "readyRows load ready (line # ls) seen proofs =
     (if \<not> starts_with line issueProofPrefix then readyRows load ready ls seen proofs
      else let key = readyLineKey line in
        if key = [] \<or> \<not> starts_with key issueProofPrefix then readyRows load ready ls seen proofs
        else let suffix = drop (length issueProofPrefix) key in
          if suffix = [] \<or> CHR ''.'' \<in> set suffix then readyRows load ready ls seen proofs
          else if readyValue ready key \<noteq> ''passed'' \<or> suffix \<in> set seen then []
          else let snapshotName = readyValue ready (key @ ''.snapshot'') in
            case (case load suffix ''game-action'' snapshotName of
                    None \<Rightarrow> load suffix ''unit-command'' snapshotName | Some proof \<Rightarrow> Some proof) of
              None \<Rightarrow> []
            | Some proof \<Rightarrow> readyRows load ready ls (suffix # seen) (proofs @ [proof]))"

definition readReadyCommandSpecificIssueProofs ::
  "(string \<Rightarrow> string option) \<Rightarrow> string list \<Rightarrow> nat \<Rightarrow> nat \<Rightarrow> issue_proof list" where
  "readReadyCommandSpecificIssueProofs files existingReadyLines processId currentHeartbeat =
     readyRows (loadCommandSpecificIssueProofSnapshot files processId currentHeartbeat)
       existingReadyLines existingReadyLines [] []"

section \<open>Writing a proof back\<close>

record snapshot_context =
  sc_processId :: nat
  sc_heartbeat :: nat
  sc_frameId :: nat
  sc_activeMatchCorrelated :: bool

definition requiredFields :: "string list" where
  "requiredFields =
     [''passed'', ''delivery_checked'', ''behavior_checked'', ''receiver_active'',
      ''behavior_observed'', ''self_fixture'', ''live_behavior_witness'', ''command'',
      ''command_kind'', ''encoded_bytes'', ''attempt_count'', ''storage_kind'', ''vector_address'',
      ''bytes_in_queue_address'', ''frame_counter_address'', ''appended_bytes'',
      ''behavior_sample_count'', ''behavior_observation'', ''baseline_delta'', ''paused_delta'',
      ''resumed_delta'', ''issue_commands_required_adapter_abi'',
      ''issue_commands_required_adapter_location'',
      ''issue_commands_required_adapter_thread_policy'',
      ''issue_commands_required_adapter_behavior'',
      ''issue_commands_required_adapter_promotion_rule'', ''unit_id'']"

definition snapshot_rows :: "issue_proof \<Rightarrow> (string \<times> string) list" where
  "snapshot_rows proof =
     filter (\<lambda>(key, value). value \<noteq> [])
       (map (\<lambda>key. (key, tableValue (is_fields proof) key)) requiredFields)"

definition snapshot_metadata_rows :: "issue_proof \<Rightarrow> snapshot_context \<Rightarrow> (string \<times> string) list" where
  "snapshot_metadata_rows proof context =
     [(''schema'', ''starcraft-api.resident-snapshot.v1''),
      (''proof'', ''issue_commands.command''),
      (''source_identity'', ''resident-adapter''),
      (''process_id'', nat_to_dec (sc_processId context)),
      (''heartbeat'', nat_to_dec (sc_heartbeat context)),
      (''frame_id'', nat_to_dec (sc_frameId context)),
      (''active_match_correlated'', if sc_activeMatchCorrelated context then ''true'' else ''false''),
      (''command'', is_commandName proof),
      (''command_kind'', is_commandKind proof)]"

definition writeRefreshedCommandSpecificIssueSnapshot :: "issue_proof \<Rightarrow> snapshot_context \<Rightarrow> string" where
  "writeRefreshedCommandSpecificIssueSnapshot proof context =
     text_of (map (\<lambda>(key, value). ''# '' @ key @ ''='' @ value) (snapshot_metadata_rows proof context)
       @ [''field'' @ [CHR 0x09] @ ''value'']
       @ map (\<lambda>(key, value). key @ [CHR 0x09] @ value) (snapshot_rows proof))"

section \<open>The lines of the ready file\<close>

record issue_output =
  io_readyLines :: "string list"
  io_files :: "string \<Rightarrow> string option"
  io_unitIndex :: nat
  io_actionIndex :: nat
  io_emitted :: "string list"

definition mergeIssueProofs :: "issue_proof list \<Rightarrow> issue_proof list \<Rightarrow> issue_proof list" where
  "mergeIssueProofs pending ready =
     foldl (\<lambda>merged proof.
         if is_commandName proof \<in> is_commandName ` set merged then merged else merged @ [proof])
       pending ready"

text \<open>
  One proof of the merged list; \<open>writable\<close> says for which snapshots the file can be written, and
  \<open>inSurface\<close> whether the command surface declares the command of that kind.
\<close>

definition emitIssueProof ::
  "(string \<Rightarrow> string \<Rightarrow> bool) \<Rightarrow> (string \<Rightarrow> bool) \<Rightarrow> snapshot_context \<Rightarrow> issue_proof \<Rightarrow> issue_output
   \<Rightarrow> issue_output" where
  "emitIssueProof inSurface writable context proof out =
     (let name = is_commandName proof; kind = is_commandKind proof in
      if name \<in> set (io_emitted out) then out
      else let out = out\<lparr>io_emitted := name # io_emitted out\<rparr> in
      if \<not> inSurface kind name then out
      else if \<not> writable (is_snapshotName proof) then out
      else
        let proofLine = issueProofPrefix @ name @ ''=passed'';
            out = out\<lparr>io_files := (io_files out)(is_snapshotName proof \<mapsto>
                writeRefreshedCommandSpecificIssueSnapshot proof context)\<rparr>;
            common = [proofLine, issueProofPrefix @ name @ ''.snapshot='' @ is_snapshotName proof]
        in if kind = ''unit-command''
           then out\<lparr>io_readyLines := io_readyLines out @ common
                  @ [''command_surface.live_unit_command.'' @ nat_to_dec (io_unitIndex out)
                     @ ''='' @ name @ ''|live-proven|'' @ proofLine],
                io_unitIndex := io_unitIndex out + 1\<rparr>
           else out\<lparr>io_readyLines := io_readyLines out @ common
                  @ [''command_surface.live_game_action.'' @ nat_to_dec (io_actionIndex out)
                     @ ''='' @ name @ ''|live-proven|'' @ proofLine],
                io_actionIndex := io_actionIndex out + 1\<rparr>)"

definition in_surface :: "command_surface \<Rightarrow> string \<Rightarrow> string \<Rightarrow> bool" where
  "in_surface surface kind name \<longleftrightarrow>
     \<not> (kind = ''unit-command'' \<and> \<not> containsCommandSurfaceEntry (unitCommands surface) name)
   \<and> \<not> (kind = ''game-action'' \<and> \<not> containsCommandSurfaceEntry (gameActions surface) name)"

definition emitIssueProofs ::
  "(string \<Rightarrow> bool) \<Rightarrow> snapshot_context \<Rightarrow> string list \<Rightarrow> (string \<Rightarrow> string option) \<Rightarrow> issue_output" where
  "emitIssueProofs writable context existingReadyLines files =
     (let pending = readPendingCommandSpecificIssueProofs files (sc_processId context)
            (sc_heartbeat context);
          ready = readReadyCommandSpecificIssueProofs files existingReadyLines (sc_processId context)
            (sc_heartbeat context);
          out = foldl (\<lambda>out proof.
              emitIssueProof (in_surface makeBWAPICommandSurface) writable context proof out)
            \<lparr>io_readyLines = [], io_files = files, io_unitIndex = 0, io_actionIndex = 0,
             io_emitted = []\<rparr> (mergeIssueProofs pending ready)
      in if io_unitIndex out \<noteq> 0 \<or> io_actionIndex out \<noteq> 0
         then out\<lparr>io_files := (io_files out)(pendingFileName := None)\<rparr> else out)"

end
