(* ===== verification/Snapshot_Round_Trip.thy ===== *)
theory Snapshot_Round_Trip
  imports Live_Evidence Issue_Proofs
begin

text \<open>
  A snapshot as one text for two readers: what the adapter writes is read back field by field by the
  backend and by the adapter itself, and the snapshot of a valid issue proof passes the backend's
  checks of metadata and payload.
\<close>

section \<open>Reading written tables\<close>

definition meta_line :: "string \<times> string \<Rightarrow> string" where
  "meta_line kv = (case kv of (key, value) \<Rightarrow> ''# '' @ key @ ''='' @ value)"

definition row_line :: "string \<times> string \<Rightarrow> string" where
  "row_line kv = (case kv of (key, value) \<Rightarrow> key @ [CHR 0x09] @ value)"

definition field_header :: string where "field_header = ''field'' @ [CHR 0x09] @ ''value''"

text \<open>Keys and values that survive the formats.\<close>

definition meta_ok :: "string \<times> string \<Rightarrow> bool" where
  "meta_ok kv = (case kv of (key, value) \<Rightarrow>
     key \<noteq> [] \<and> CHR ''='' \<notin> set key \<and> list_all (Not \<circ> is_blank) key \<and> (value = [] \<or> \<not> is_blank (hd value))
     \<and> CHR 0x0A \<notin> set key \<and> CHR 0x0A \<notin> set value)"

definition row_ok :: "string \<times> string \<Rightarrow> bool" where
  "row_ok kv = (case kv of (key, value) \<Rightarrow>
     key \<noteq> [] \<and> hd key \<noteq> CHR ''#'' \<and> CHR 0x09 \<notin> set key \<and> CHR 0x09 \<notin> set value
     \<and> CHR 0x0A \<notin> set key \<and> CHR 0x0A \<notin> set value)"

lemma dropWhile_none: "xs = [] \<or> \<not> P (hd xs) \<Longrightarrow> dropWhile P xs = xs"
  by (cases xs) auto

lemma upd_add_map_of:
  "k \<notin> set (map fst kvs) \<Longrightarrow> m(k \<mapsto> v) ++ map_of kvs = m ++ map_of ((k, v) # kvs)"
  by (simp add: map_add_upd_left dom_map_of_conv_image_fst)

lemma parse_meta_line:
  assumes "meta_ok (key, value)"
  shows "parseSnapshotMetadataLine (meta_line (key, value)) md = (True, addMetadata key value md)"
proof -
  have k: "key \<noteq> []" "CHR ''='' \<notin> set key" "list_all (Not \<circ> is_blank) key"
    and v: "value = [] \<or> \<not> is_blank (hd value)"
    using assms by (simp_all add: meta_ok_def)
  then have hd: "\<not> is_blank (hd key)" "\<not> is_blank (last key)"
    by (simp_all add: list_all_iff)
  have body: "dropWhile is_blank (tl (meta_line (key, value))) = key @ CHR ''='' # value"
    using k(1) hd(1) by (cases key) (simp_all add: meta_line_def is_blank_def)
  have "dropWhile is_blank (rev key) = rev key"
    using k(1) hd(2) by (intro dropWhile_none) (simp add: hd_rev)
  moreover have "dropWhile is_blank value = value"
    using v by (rule dropWhile_none)
  moreover have "meta_line (key, value) \<noteq> []" "hd (meta_line (key, value)) = CHR ''#''"
    by (simp_all add: meta_line_def)
  ultimately show ?thesis
    using k by (simp add: parseSnapshotMetadataLine_def body Let_def)
qed

lemma read_meta_lines:
  assumes "list_all meta_ok kvs" "distinct (map fst kvs)" "sm_hasDuplicateKey md = False"
    and "\<forall>k\<in>set (map fst kvs). sm_values md k = None"
  shows "readMetadataLines (map meta_line kvs @ rest) md
    = readMetadataLines rest (md\<lparr>sm_values := sm_values md ++ map_of kvs\<rparr>)"
  using assms
proof (induction kvs arbitrary: md)
  case Nil
  then show ?case by simp
next
  case (Cons kv kvs)
  obtain k v where kv: "kv = (k, v)" by (cases kv)
  have dist: "k \<notin> set (map fst kvs)" "distinct (map fst kvs)" using Cons.prems(2) by (simp_all add: kv)
  let ?md = "md\<lparr>sm_values := (sm_values md)(k \<mapsto> v)\<rparr>"
  have add: "addMetadata k v md = ?md" using Cons.prems(3,4) by (simp add: addMetadata_def kv)
  have "readMetadataLines (map meta_line (kv # kvs) @ rest) md
      = readMetadataLines (map meta_line kvs @ rest) ?md"
    using Cons.prems(1) by (simp add: kv parse_meta_line add)
  also have "\<dots> = readMetadataLines rest (?md\<lparr>sm_values := sm_values ?md ++ map_of kvs\<rparr>)"
  proof (rule Cons.IH)
    show "\<forall>k'\<in>set (map fst kvs). sm_values ?md k' = None"
      using Cons.prems(4) dist by auto
  qed (use Cons.prems dist in simp_all)
  also have "?md\<lparr>sm_values := sm_values ?md ++ map_of kvs\<rparr>
      = md\<lparr>sm_values := (sm_values md)(k \<mapsto> v) ++ map_of kvs\<rparr>"
    by simp
  also have "(sm_values md)(k \<mapsto> v) ++ map_of kvs = sm_values md ++ map_of (kv # kvs)"
    unfolding kv by (rule upd_add_map_of [OF dist(1)])
  finally show ?case .
qed

lemma read_row_lines:
  assumes "list_all row_ok kvs" "distinct (map fst kvs)"
    and "\<forall>k\<in>set (map fst kvs). ft_values t k = None"
  shows "readRows True (map row_line kvs) t
    = t\<lparr>ft_values := ft_values t ++ map_of kvs, ft_rowCount := ft_rowCount t + length kvs\<rparr>"
  using assms
proof (induction kvs arbitrary: t)
  case Nil
  then show ?case by simp
next
  case (Cons kv kvs)
  obtain k v where kv: "kv = (k, v)" by (cases kv)
  have dist: "k \<notin> set (map fst kvs)" "distinct (map fst kvs)" using Cons.prems(2) by (simp_all add: kv)
  have ok: "k \<noteq> []" "hd k \<noteq> CHR ''#''" "CHR 0x09 \<notin> set k" "CHR 0x09 \<notin> set v"
    using Cons.prems(1) by (simp_all add: kv row_ok_def)
  let ?t = "t\<lparr>ft_values := (ft_values t)(k \<mapsto> v), ft_rowCount := ft_rowCount t + 1\<rparr>"
  have "splitTabs (row_line kv) = [k, v]" using ok by (simp add: splitTabs_def row_line_def kv)
  moreover have "row_line kv \<noteq> []" "hd (row_line kv) \<noteq> CHR ''#''"
    using ok by (simp_all add: row_line_def kv)
  moreover have "addRow [k, v] t = ?t" using Cons.prems(3) ok by (simp add: addRow_def kv)
  ultimately have "readRows True (map row_line (kv # kvs)) t = readRows True (map row_line kvs) ?t"
    by simp
  also have "\<dots> = ?t\<lparr>ft_values := ft_values ?t ++ map_of kvs, ft_rowCount := ft_rowCount ?t + length kvs\<rparr>"
  proof (rule Cons.IH)
    show "\<forall>k'\<in>set (map fst kvs). ft_values ?t k' = None" using Cons.prems(3) dist by auto
  qed (use Cons.prems dist in simp_all)
  also have "(ft_values t)(k \<mapsto> v) ++ map_of kvs = ft_values t ++ map_of (kv # kvs)"
    unfolding kv by (rule upd_add_map_of [OF dist(1)])
  then have "?t\<lparr>ft_values := ft_values ?t ++ map_of kvs, ft_rowCount := ft_rowCount ?t + length kvs\<rparr>
    = t\<lparr>ft_values := ft_values t ++ map_of (kv # kvs), ft_rowCount := ft_rowCount t + length (kv # kvs)\<rparr>"
    by simp
  finally show ?case .
qed

lemma skip_meta_lines:
  "readRows False (map meta_line kvs @ rest) t = readRows False rest t"
  by (induction kvs) (auto simp: meta_line_def)

text \<open>A written snapshot as the backend sees it.\<close>

definition table_text :: "(string \<times> string) list \<Rightarrow> (string \<times> string) list \<Rightarrow> string" where
  "table_text meta rows = text_of (map meta_line meta @ [field_header] @ map row_line rows)"

lemma table_lines:
  assumes "list_all meta_ok meta" "list_all row_ok rows"
  shows "getlines (table_text meta rows) = map meta_line meta @ [field_header] @ map row_line rows"
proof -
  have "CHR 0x0A \<notin> set (meta_line kv)" if "kv \<in> set meta" for kv
    using that assms(1) by (auto simp: list_all_iff meta_ok_def meta_line_def)
  moreover have "CHR 0x0A \<notin> set (row_line kv)" if "kv \<in> set rows" for kv
    using that assms(2) by (auto simp: list_all_iff row_ok_def row_line_def)
  ultimately show ?thesis
    unfolding table_text_def by (intro getlines_text_of) (auto simp: list_all_iff field_header_def)
qed

lemma backend_metadata:
  assumes "list_all meta_ok meta" "list_all row_ok rows" "distinct (map fst meta)"
  shows "readSnapshotMetadata (table_text meta rows)
    = \<lparr>sm_values = map_of meta, sm_hasDuplicateKey = False\<rparr>"
  by (simp add: readSnapshotMetadata_def table_lines [OF assms(1,2)] read_meta_lines [OF assms(1,3)])
    (simp add: field_header_def parseSnapshotMetadataLine_def)

lemma backend_table:
  assumes "list_all meta_ok meta" "list_all row_ok rows" "distinct (map fst rows)"
  shows "readSnapshotFieldValueTable (table_text meta rows)
    = \<lparr>ft_values = map_of rows, ft_headerValid = True, ft_hasDuplicateKey = False,
       ft_hasMalformedRow = False, ft_rowCount = length rows\<rparr>"
proof -
  have h: "field_header \<noteq> []" "hd field_header \<noteq> CHR ''#''" "splitTabs field_header = [''field'', ''value'']"
    by (simp_all add: field_header_def splitTabs_def)
  show ?thesis
    using assms by (simp add: readSnapshotFieldValueTable_def table_lines skip_meta_lines h Let_def
        read_row_lines empty_table_def)
qed

section \<open>The adapter reads its own tables\<close>

lemma adapter_meta_lines:
  assumes "list_all meta_ok kvs" "distinct (map fst kvs)"
    and "\<forall>k\<in>set (map fst kvs). m k = None"
  shows "readTables False (map meta_line kvs @ rest) (m, f) = readTables False rest (m ++ map_of kvs, f)"
  using assms
proof (induction kvs arbitrary: m)
  case Nil
  then show ?case by simp
next
  case (Cons kv kvs)
  obtain k v where kv: "kv = (k, v)" by (cases kv)
  have dist: "k \<notin> set (map fst kvs)" "distinct (map fst kvs)" using Cons.prems(2) by (simp_all add: kv)
  have ok: "k \<noteq> []" "CHR ''='' \<notin> set k" using Cons.prems(1) by (simp_all add: kv meta_ok_def)
  have "split_at (CHR ''='') ((''# '' @ k) @ CHR ''='' # v) = Some (''# '' @ k, v)"
    using ok by (intro split_at_sep) auto
  then have entry: "metadata_entry (meta_line kv) = Some (k, v)"
    using ok by (simp add: metadata_entry_def meta_line_def kv)
  have line: "meta_line kv \<noteq> []" "starts_with (meta_line kv) ''# ''"
    by (simp_all add: meta_line_def kv starts_with_def)
  have "m k = None" using Cons.prems(3) by (simp add: kv)
  then have "readTables False (map meta_line (kv # kvs) @ rest) (m, f)
      = readTables False (map meta_line kvs @ rest) (m(k \<mapsto> v), f)"
    using entry line by (simp add: emplace_def)
  also have "\<dots> = readTables False rest (m(k \<mapsto> v) ++ map_of kvs, f)"
    using Cons.prems dist by (intro Cons.IH) auto
  also have "m(k \<mapsto> v) ++ map_of kvs = m ++ map_of (kv # kvs)"
    unfolding kv by (rule upd_add_map_of [OF dist(1)])
  finally show ?case .
qed

lemma adapter_row_lines:
  assumes "list_all row_ok kvs" "distinct (map fst kvs)"
    and "\<forall>k\<in>set (map fst kvs). f k = None"
  shows "readTables True (map row_line kvs) (m, f) = Some (True, m, f ++ map_of kvs)"
  using assms
proof (induction kvs arbitrary: f)
  case Nil
  then show ?case by simp
next
  case (Cons kv kvs)
  obtain k v where kv: "kv = (k, v)" by (cases kv)
  have dist: "k \<notin> set (map fst kvs)" "distinct (map fst kvs)" using Cons.prems(2) by (simp_all add: kv)
  have ok: "k \<noteq> []" "CHR 0x09 \<notin> set k" "CHR 0x09 \<notin> set v"
    using Cons.prems(1) by (simp_all add: kv row_ok_def)
  have entry: "field_entry (row_line kv) = Some (k, v)"
    using ok by (simp add: field_entry_def row_line_def kv)
  have line: "row_line kv \<noteq> []" by (simp add: row_line_def kv)
  have "f k = None" using Cons.prems(3) by (simp add: kv)
  then have "readTables True (map row_line (kv # kvs)) (m, f)
      = readTables True (map row_line kvs) (m, f(k \<mapsto> v))"
    using entry line by (simp add: emplace_def)
  also have "\<dots> = Some (True, m, f(k \<mapsto> v) ++ map_of kvs)"
    using Cons.prems dist by (intro Cons.IH) auto
  also have "f(k \<mapsto> v) ++ map_of kvs = f ++ map_of (kv # kvs)"
    unfolding kv by (rule upd_add_map_of [OF dist(1)])
  finally show ?case .
qed

lemma adapter_tables:
  assumes "list_all meta_ok meta" "list_all row_ok rows" "distinct (map fst meta)" "distinct (map fst rows)"
    and "meta \<noteq> []" "rows \<noteq> []"
  shows "readCommandSpecificSnapshotTables (Some (table_text meta rows)) = Some (map_of meta, map_of rows)"
proof -
  have h: "field_header \<noteq> []" "\<not> starts_with field_header ''# ''"
    by (simp_all add: field_header_def starts_with_def)
  have "readTables False (map meta_line meta @ [field_header] @ map row_line rows) (Map.empty, Map.empty)
      = readTables False ([field_header] @ map row_line rows) (map_of meta, Map.empty)"
    using adapter_meta_lines [OF assms(1,3), of Map.empty] by simp
  also have "\<dots> = readTables True (map row_line rows) (map_of meta, Map.empty)"
    using h by (simp add: field_header_def)
  also have "\<dots> = Some (True, map_of meta, map_of rows)"
    using adapter_row_lines [OF assms(2,4), of Map.empty] by simp
  finally show ?thesis
    using assms(5,6)
    by (simp add: readCommandSpecificSnapshotTables_def table_lines [OF assms(1,2)])
qed

section \<open>Snapshots of issue proofs\<close>

definition clean :: "string \<Rightarrow> bool" where
  "clean v \<longleftrightarrow> CHR 0x09 \<notin> set v \<and> CHR 0x0A \<notin> set v"

text \<open>A proof as the adapter has it after loading and before emitting.\<close>

definition issue_proof_ok :: "issue_proof \<Rightarrow> bool" where
  "issue_proof_ok p \<longleftrightarrow>
     safeBridgeRelativeFileName (is_snapshotName p) \<and> CHR 0x0A \<notin> set (is_snapshotName p)
   \<and> is_commandKind p \<in> {''unit-command'', ''game-action''}
   \<and> in_surface makeBWAPICommandSurface (is_commandKind p) (is_commandName p)
   \<and> commandSpecificSnapshotPayloadValid p
   \<and> list_all (\<lambda>key. clean (tableValue (is_fields p) key)) requiredFields"

definition context_ok :: "snapshot_context \<Rightarrow> bool" where
  "context_ok c \<longleftrightarrow> 0 < sc_processId c \<and> sc_processId c < 2 ^ 64
     \<and> 0 < sc_heartbeat c \<and> sc_heartbeat c < 2 ^ 64
     \<and> 0 < sc_frameId c \<and> sc_frameId c < 2 ^ 64 \<and> sc_activeMatchCorrelated c"

definition name_ok :: "string \<Rightarrow> bool" where
  "name_ok n \<longleftrightarrow> n \<noteq> [] \<and> \<not> is_blank (hd n)
     \<and> list_all (\<lambda>c. c \<noteq> CHR ''='' \<and> c \<noteq> CHR ''|'' \<and> c \<noteq> CHR ''.'' \<and> c \<noteq> CHR 0x09 \<and> c \<noteq> CHR 0x0A) n"

lemma surface_names_ok:
  "n \<in> set unitCommandNames \<Longrightarrow> name_ok n" "n \<in> set gameActionNames \<Longrightarrow> name_ok n"
proof -
  have "list_all name_ok unitCommandNames" "list_all name_ok gameActionNames" by code_simp+
  then show "n \<in> set unitCommandNames \<Longrightarrow> name_ok n" "n \<in> set gameActionNames \<Longrightarrow> name_ok n"
    by (simp_all add: list_all_iff)
qed

lemma in_surface_name:
  "in_surface makeBWAPICommandSurface kind n \<Longrightarrow> kind \<in> {''unit-command'', ''game-action''} \<Longrightarrow> name_ok n"
  using surface_names_ok by (auto simp: in_surface_def contains_iff)

lemma name_clean: "name_ok n \<Longrightarrow> CHR 0x0A \<notin> set n" "name_ok n \<Longrightarrow> \<not> is_blank (hd n)"
  by (auto simp: name_ok_def list_all_iff)

lemma required_keys: "list_all (\<lambda>k. row_ok (k, [])) requiredFields" "distinct requiredFields"
  by code_simp+

lemma hd_nat_to_dec_blank: "\<not> is_blank (hd (nat_to_dec n))"
proof -
  have "dec_digit (hd (nat_to_dec n))" using nat_to_dec_digits by (metis hd_in_set nat_to_dec_Nil)
  from dec_digitD(2) [OF this] show ?thesis by (auto simp: is_blank_def is_space_def)
qed

lemma written_text:
  "writeRefreshedCommandSpecificIssueSnapshot p c
    = table_text (snapshot_metadata_rows p c) (snapshot_rows p)"
  by (simp add: writeRefreshedCommandSpecificIssueSnapshot_def table_text_def field_header_def
      meta_line_def [abs_def] row_line_def [abs_def])

lemma meta_rows_ok:
  assumes "name_ok (is_commandName p)" "is_commandKind p \<in> {''unit-command'', ''game-action''}"
  shows "list_all meta_ok (snapshot_metadata_rows p c)" "distinct (map fst (snapshot_metadata_rows p c))"
proof -
  have "\<not> is_blank (hd (is_commandKind p))" "CHR 0x0A \<notin> set (is_commandKind p)"
    using assms(2) by (auto simp: is_blank_def)
  then show "list_all meta_ok (snapshot_metadata_rows p c)"
    using name_clean [OF assms(1)] hd_nat_to_dec_blank
    by (simp add: snapshot_metadata_rows_def meta_ok_def) (simp add: is_blank_def)
  show "distinct (map fst (snapshot_metadata_rows p c))"
    by (simp add: snapshot_metadata_rows_def)
qed

lemma map_fst_filter_pairs:
  "map fst (filter P (map (\<lambda>k. (k, g k)) ks)) = filter (\<lambda>k. P (k, g k)) ks"
  by (induction ks) simp_all

lemma map_of_filter_pairs:
  "map_of (filter (\<lambda>(k, v). v \<noteq> []) (map (\<lambda>k. (k, g k)) ks)) k
     = (if k \<in> set ks \<and> g k \<noteq> [] then Some (g k) else None)"
  by (induction ks) auto

lemma snapshot_rows_ok:
  assumes "list_all (\<lambda>key. clean (tableValue (is_fields p) key)) requiredFields"
  shows "list_all row_ok (snapshot_rows p)" "distinct (map fst (snapshot_rows p))"
proof -
  have "row_ok (k, tableValue (is_fields p) k)" if "k \<in> set requiredFields" for k
    using that assms required_keys(1) by (auto simp: list_all_iff row_ok_def clean_def)
  then show "list_all row_ok (snapshot_rows p)"
    by (auto simp: snapshot_rows_def list_all_iff)
  show "distinct (map fst (snapshot_rows p))"
    unfolding snapshot_rows_def map_fst_filter_pairs using required_keys(2) by (rule distinct_filter)
qed

lemma snapshot_rows_value:
  "map_of (snapshot_rows p) k
     = (if k \<in> set requiredFields \<and> tableValue (is_fields p) k \<noteq> []
        then Some (tableValue (is_fields p) k) else None)"
  by (simp add: snapshot_rows_def map_of_filter_pairs)

lemma snapshot_rows_nonempty:
  assumes "commandSpecificSnapshotPayloadValid p"
  shows "snapshot_rows p \<noteq> []"
proof
  assume "snapshot_rows p = []"
  with snapshot_rows_value [of p "''passed''"] have "tableValue (is_fields p) ''passed'' = []"
    by (simp add: requiredFields_def split: if_splits)
  with assms show False by (simp add: commandSpecificSnapshotPayloadValid_def tableValueIsTrue_def)
qed

lemma parse_same: "parseUnsignedString = parseUnsignedValue" "number_is = unsigned_is"
  by (simp_all add: fun_eq_iff parseUnsignedString_def parseUnsignedValue_def number_is_def unsigned_is_def)

lemma unsigned_is_Some [simp]: "unsigned_is P (Some n) = P n"
  by (simp add: unsigned_is_def)

lemma parse_nat: "n < 2 ^ 64 \<Longrightarrow> parseUnsignedValue (nat_to_dec n) = Some n"
  by (simp add: parseUnsignedValue_def stoull_nat_to_dec)

lemma table_values:
  assumes "ft_values t = map_of (snapshot_rows p)" "k \<in> set requiredFields"
  shows "snapshotFieldValue t k = tableValue (is_fields p) k"
    "tableValue (map_of (snapshot_rows p)) k = tableValue (is_fields p) k"
  using assms by (simp_all add: snapshotFieldValue_def snapshot_rows_value tableValue_def)

lemma payload_accepted:
  assumes "issue_proof_ok p"
  shows "validatedCommandSpecificSnapshotPayload
    (writeRefreshedCommandSpecificIssueSnapshot p c) (is_commandName p) (is_commandKind p)"
proof -
  have kind: "is_commandKind p \<in> {''unit-command'', ''game-action''}"
    and valid: "commandSpecificSnapshotPayloadValid p"
    and clean: "list_all (\<lambda>key. clean (tableValue (is_fields p) key)) requiredFields"
    and name: "name_ok (is_commandName p)"
    using assms in_surface_name by (auto simp: issue_proof_ok_def)
  define t where "t = \<lparr>ft_values = map_of (snapshot_rows p), ft_headerValid = True,
    ft_hasDuplicateKey = False, ft_hasMalformedRow = False, ft_rowCount = length (snapshot_rows p)\<rparr>"
  have t: "readSnapshotFieldValueTable (writeRefreshedCommandSpecificIssueSnapshot p c) = t"
    unfolding written_text t_def
    by (rule backend_table [OF meta_rows_ok(1) [OF name kind] snapshot_rows_ok [OF clean]])
  have req: "list_all (\<lambda>k. k \<in> set requiredFields)
    (trueFields @ map fst requiredFieldValues @ positiveFields
      @ [''self_fixture'', ''command'', ''command_kind'', ''baseline_delta'', ''paused_delta'',
         ''resumed_delta'', ''unit_id''])"
    by code_simp
  have v: "snapshotFieldValue t k = tableValue (is_fields p) k"
    if "k \<in> set (trueFields @ map fst requiredFieldValues @ positiveFields
      @ [''self_fixture'', ''command'', ''command_kind'', ''baseline_delta'', ''paused_delta'',
         ''resumed_delta'', ''unit_id''])" for k
    using that req by (intro table_values(1)) (auto simp: t_def list_all_iff)
  have lists: "list_all (snapshotFieldValueIsTrue t) trueFields"
    "list_all (\<lambda>(key, expected). snapshotFieldValue t key = expected) requiredFieldValues"
    "list_all (\<lambda>key. number_is (\<lambda>n. n > 0) (snapshotFieldUnsignedValue t key)) positiveFields"
    using v valid
    by (simp_all add: trueFields_def requiredFieldValues_def positiveFields_def
        snapshotFieldValueIsTrue_def snapshotFieldUnsignedValue_def parse_same
        commandSpecificSnapshotPayloadValid_def tableValueIsTrue_def tableUnsignedValue_def Let_def)
  show ?thesis
    using lists v valid snapshot_rows_nonempty [OF valid]
    by (simp add: validatedCommandSpecificSnapshotPayload_def t Let_def
        snapshotFieldValueIsFalse_def snapshotFieldUnsignedValue_def parse_same
        commandSpecificSnapshotPayloadValid_def tableValueIsFalse_def tableUnsignedValue_def)
      (simp add: t_def)
qed

lemma metadata_accepted:
  assumes "issue_proof_ok p" "context_ok c"
    and "parseUnsignedReadyValue ready ''resident.adapter.process_id'' = Some (sc_processId c)"
    and "parseUnsignedReadyValue ready ''resident.adapter.heartbeat'' = Some (sc_heartbeat c)"
    and "sp_samples sp \<noteq> []" "ss_frame (hd (sp_samples sp)) \<le> sc_frameId c"
      "sc_frameId c \<le> ss_frame (last (sp_samples sp))"
  shows "validatedCommandSpecificSnapshotMetadata
    (writeRefreshedCommandSpecificIssueSnapshot p c) ready (is_commandName p) (is_commandKind p) sp"
proof -
  have kind: "is_commandKind p \<in> {''unit-command'', ''game-action''}"
    and clean: "list_all (\<lambda>key. clean (tableValue (is_fields p) key)) requiredFields"
    and name: "name_ok (is_commandName p)"
    using assms in_surface_name by (auto simp: issue_proof_ok_def)
  have m: "readSnapshotMetadata (writeRefreshedCommandSpecificIssueSnapshot p c)
      = \<lparr>sm_values = map_of (snapshot_metadata_rows p c), sm_hasDuplicateKey = False\<rparr>"
    unfolding written_text
    by (rule backend_metadata [OF meta_rows_ok(1) [OF name kind] snapshot_rows_ok(1) [OF clean]
          meta_rows_ok(2) [OF name kind]])
  show ?thesis
    using assms(2-) unfolding validatedCommandSpecificSnapshotMetadata_def m
    by (simp add: snapshot_metadata_rows_def snapshotMetadataValue_def parseUnsignedMetadataValue_def
        parse_same parse_nat context_ok_def Let_def)
qed


section \<open>Snapshots the next pass loads again\<close>

text \<open>What remains of a proof in its refreshed snapshot: the required fields with a value.\<close>

definition refreshed :: "issue_proof \<Rightarrow> issue_proof" where
  "refreshed p = p\<lparr>is_fields := map_of (snapshot_rows p)\<rparr>"

lemma refreshed_simps [simp]:
  "is_commandName (refreshed p) = is_commandName p" "is_commandKind (refreshed p) = is_commandKind p"
  "is_snapshotName (refreshed p) = is_snapshotName p"
  by (simp_all add: refreshed_def)

lemma refreshed_value:
  "k \<in> set requiredFields \<Longrightarrow> tableValue (is_fields (refreshed p)) k = tableValue (is_fields p) k"
  by (simp add: refreshed_def tableValue_def snapshot_rows_value)

lemma refreshed_payload:
  assumes "commandSpecificSnapshotPayloadValid p"
  shows "commandSpecificSnapshotPayloadValid (refreshed p)"
proof -
  have "list_all (\<lambda>k. tableValue (is_fields (refreshed p)) k = tableValue (is_fields p) k) requiredFields"
    by (simp add: list_all_iff refreshed_value)
  from this [unfolded requiredFields_def] assms show ?thesis
    by (simp add: commandSpecificSnapshotPayloadValid_def tableValueIsTrue_def tableValueIsFalse_def
        tableUnsignedValue_def Let_def)
qed

lemma refreshed_rows: "snapshot_rows (refreshed p) = snapshot_rows p"
  unfolding snapshot_rows_def
  by (intro arg_cong [where f = "filter _"] map_cong) (simp_all add: refreshed_value)

lemma written_again:
  "writeRefreshedCommandSpecificIssueSnapshot (refreshed p) c
    = writeRefreshedCommandSpecificIssueSnapshot p c"
  by (simp add: written_text refreshed_rows) (simp add: snapshot_metadata_rows_def)

lemma reload:
  assumes "issue_proof_ok p" "context_ok c" "sc_heartbeat c \<le> hb" "hb - sc_heartbeat c \<le> 5"
    and "files (is_snapshotName p) = Some (writeRefreshedCommandSpecificIssueSnapshot p c)"
  shows "loadCommandSpecificIssueProofSnapshot files (sc_processId c) hb (is_commandName p)
    (is_commandKind p) (is_snapshotName p) = Some (refreshed p)"
proof -
  have kind: "is_commandKind p \<in> {''unit-command'', ''game-action''}"
    and valid: "commandSpecificSnapshotPayloadValid p"
    and clean: "list_all (\<lambda>key. clean (tableValue (is_fields p) key)) requiredFields"
    and name: "name_ok (is_commandName p)"
    using assms(1) in_surface_name by (auto simp: issue_proof_ok_def)
  have meta: "snapshot_metadata_rows p c \<noteq> []" by (simp add: snapshot_metadata_rows_def)
  have tables: "readCommandSpecificSnapshotTables (files (is_snapshotName p))
      = Some (map_of (snapshot_metadata_rows p c), map_of (snapshot_rows p))"
    unfolding assms(5) written_text
    by (rule adapter_tables [OF meta_rows_ok(1) [OF name kind] snapshot_rows_ok(1) [OF clean]
          meta_rows_ok(2) [OF name kind] snapshot_rows_ok(2) [OF clean] meta snapshot_rows_nonempty [OF valid]])
  have "commandSpecificSnapshotMetadataValid (map_of (snapshot_metadata_rows p c)) (refreshed p)
      (sc_processId c) hb"
    using assms(2-4)
    by (simp add: commandSpecificSnapshotMetadataValid_def snapshot_metadata_rows_def tableValue_def
        tableUnsignedValue_def context_ok_def parse_nat)
  moreover have "\<lparr>is_commandName = is_commandName p, is_commandKind = is_commandKind p,
      is_snapshotName = is_snapshotName p, is_fields = map_of (snapshot_rows p)\<rparr> = refreshed p"
    by (simp add: refreshed_def)
  moreover have "safeBridgeRelativeFileName (is_snapshotName p)" "is_commandName p \<noteq> []"
    "\<not> (is_commandKind p \<noteq> ''unit-command'' \<and> is_commandKind p \<noteq> ''game-action'')"
    using assms(1) name by (simp_all add: issue_proof_ok_def name_ok_def)
  ultimately show ?thesis
    using refreshed_payload [OF valid]
    by (simp add: loadCommandSpecificIssueProofSnapshot_def tables Let_def)
qed

lemma refreshed_ok: "issue_proof_ok p \<Longrightarrow> issue_proof_ok (refreshed p)"
  by (simp add: issue_proof_ok_def refreshed_payload list_all_iff refreshed_value)

text \<open>
  C38. A refreshed snapshot survives the next pass: written for a proof the adapter holds, it is
  loaded again under the same command, kind and file as long as the heartbeat has moved by at most
  five, with every required field as it was; and what the next pass writes for the proof so loaded
  is what it would have written for the original, so refreshing loses nothing over any number of
  passes.
\<close>

theorem refreshed_snapshot_reloads:
  assumes "issue_proof_ok p" "context_ok c" "sc_heartbeat c \<le> hb" "hb - sc_heartbeat c \<le> 5"
    and "files (is_snapshotName p) = Some (writeRefreshedCommandSpecificIssueSnapshot p c)"
  shows "\<exists>q. loadCommandSpecificIssueProofSnapshot files (sc_processId c) hb (is_commandName p)
        (is_commandKind p) (is_snapshotName p) = Some q
      \<and> issue_proof_ok q
      \<and> map (tableValue (is_fields q)) requiredFields = map (tableValue (is_fields p)) requiredFields
      \<and> writeRefreshedCommandSpecificIssueSnapshot q = writeRefreshedCommandSpecificIssueSnapshot p"
  using reload [where files = files, OF assms] refreshed_ok [OF assms(1)] refreshed_value
  by (intro exI [of _ "refreshed p"]) (simp add: written_again fun_eq_iff)

definition demo_context :: "nat \<Rightarrow> snapshot_context" where
  "demo_context heartbeat =
     \<lparr>sc_processId = 77, sc_heartbeat = heartbeat, sc_frameId = 12, sc_activeMatchCorrelated = True\<rparr>"

definition demo_proof :: issue_proof where
  "demo_proof = \<lparr>is_commandName = ''Stop'', is_commandKind = ''unit-command'',
     is_snapshotName = ''Stop.tsv'',
     is_fields = map_of
       ([(''command'', ''Stop''), (''command_kind'', ''unit-command''), (''self_fixture'', ''false''),
         (''baseline_delta'', ''3''), (''paused_delta'', ''0''), (''resumed_delta'', ''2''),
         (''unit_id'', ''9'')]
        @ map (\<lambda>k. (k, ''true'')) trueFields @ requiredFieldValues
        @ map (\<lambda>k. (k, ''8'')) positiveFields)\<rparr>"

lemma demo_proof_ok: "issue_proof_ok demo_proof" by code_simp

lemma demo_context_ok: "0 < n \<Longrightarrow> n < 2 ^ 64 \<Longrightarrow> context_ok (demo_context n)"
  by (simp add: context_ok_def demo_context_def)

theorem refreshed_snapshot_reloads_witness:
  "loadCommandSpecificIssueProofSnapshot
     (\<lambda>_. Some (writeRefreshedCommandSpecificIssueSnapshot demo_proof (demo_context 3)))
     77 8 ''Stop'' ''unit-command'' ''Stop.tsv'' \<noteq> None"
proof -
  have "is_commandName demo_proof = ''Stop''" "is_commandKind demo_proof = ''unit-command''"
    "is_snapshotName demo_proof = ''Stop.tsv''" "sc_processId (demo_context 3) = 77"
    "sc_heartbeat (demo_context 3) = 3"
    by (simp_all add: demo_proof_def demo_context_def)
  then show ?thesis
    using refreshed_snapshot_reloads [OF demo_proof_ok demo_context_ok, of 3 8
        "\<lambda>_. Some (writeRefreshedCommandSpecificIssueSnapshot demo_proof (demo_context 3))"]
    by auto
qed

end
