(* ===== verification/Evidence_Properties.thy ===== *)
theory Evidence_Properties
  imports Snapshot_Round_Trip
begin

text \<open>
  The evidence path from the adapter to the backend: which issue proofs the adapter loads, the lines
  it adds to the ready file for them, and that the backend promotes exactly those commands.
\<close>

section \<open>What the adapter loads\<close>

lemma field_entry_clean: "field_entry l = Some (k, v) \<Longrightarrow> CHR 0x0A \<notin> set l \<Longrightarrow> clean v"
  by (auto simp: field_entry_def clean_def dest: split_at_Some split: option.splits if_splits)

lemma readTables_clean:
  assumes "readTables saw ls (m, f) = Some (saw', m', f')" "\<forall>l\<in>set ls. CHR 0x0A \<notin> set l"
    and "\<forall>v\<in>ran f. clean v"
  shows "\<forall>v\<in>ran f'. clean v"
  using assms
proof (induction ls arbitrary: saw m f)
  case Nil
  then show ?case by simp
next
  case (Cons line ls)
  have nl: "\<forall>l\<in>set ls. CHR 0x0A \<notin> set l" "CHR 0x0A \<notin> set line" using Cons.prems(2) by simp_all
  note IH = Cons.IH [OF _ nl(1)]
  consider (same) saw1 m1 where "readTables saw1 ls (m1, f) = Some (saw', m', f')"
    | (row) k v where "field_entry line = Some (k, v)" "f k = None"
        "readTables saw ls (m, f(k \<mapsto> v)) = Some (saw', m', f')"
    using Cons.prems(1)
    by (auto simp: emplace_def split: if_splits option.splits)
  then show ?case
  proof cases
    case same
    then show ?thesis using IH Cons.prems(3) by blast
  next
    case row
    have "\<forall>v\<in>ran (f(k \<mapsto> v)). clean v"
      using field_entry_clean [OF row(1) nl(2)] Cons.prems(3) row(2) by simp
    then show ?thesis using IH row(3) by blast
  qed
qed

lemma tables_clean:
  assumes "readCommandSpecificSnapshotTables file = Some (m, f)"
  shows "clean (tableValue f key)"
proof -
  from assms obtain contents where fl: "file = Some contents"
    by (cases "file") (simp_all add: readCommandSpecificSnapshotTables_def)
  obtain saw m1 f1 where r: "readTables False (getlines contents) (Map.empty, Map.empty) = Some (saw, m1, f1)"
    using assms by (cases "readTables False (getlines contents) (Map.empty, Map.empty)")
      (auto simp: readCommandSpecificSnapshotTables_def fl)
  with assms have "f1 = f"
    by (simp add: readCommandSpecificSnapshotTables_def fl split: if_splits)
  then have "\<forall>v\<in>ran f. clean v"
    using getlines_no_newline readTables_clean [OF r] by simp
  then show ?thesis
    by (cases "f key") (auto simp: tableValue_def clean_def ran_def)
qed

text \<open>Proofs as loaded under the names they carry.\<close>

definition loaded :: "(string \<Rightarrow> string option) \<Rightarrow> snapshot_context \<Rightarrow> issue_proof \<Rightarrow> bool" where
  "loaded files c p \<longleftrightarrow> CHR 0x0A \<notin> set (is_snapshotName p)
     \<and> loadCommandSpecificIssueProofSnapshot files (sc_processId c) (sc_heartbeat c)
         (is_commandName p) (is_commandKind p) (is_snapshotName p) = Some p"

lemma load_Some:
  assumes "loadCommandSpecificIssueProofSnapshot files pid hb n kind snap = Some p"
  shows "is_commandName p = n" "is_commandKind p = kind" "is_snapshotName p = snap"
    "safeBridgeRelativeFileName snap" "kind \<in> {''unit-command'', ''game-action''}"
    "commandSpecificSnapshotPayloadValid p"
    "\<exists>m. readCommandSpecificSnapshotTables (files snap) = Some (m, is_fields p)"
  using assms
  by (auto simp: loadCommandSpecificIssueProofSnapshot_def Let_def split: if_splits option.splits)

lemma loaded_ok:
  assumes "loaded files c p" "in_surface makeBWAPICommandSurface (is_commandKind p) (is_commandName p)"
  shows "issue_proof_ok p"
proof -
  from assms(1) have l: "loadCommandSpecificIssueProofSnapshot files (sc_processId c) (sc_heartbeat c)
      (is_commandName p) (is_commandKind p) (is_snapshotName p) = Some p"
    "CHR 0x0A \<notin> set (is_snapshotName p)"
    by (simp_all add: loaded_def)
  from load_Some(7) [OF l(1)] have "clean (tableValue (is_fields p) key)" for key
    using tables_clean by blast
  then show ?thesis
    using load_Some(4,5,6) [OF l(1)] l(2) assms(2) by (simp add: issue_proof_ok_def list_all_iff)
qed

lemma loaded_snapshot_names:
  assumes "loaded files c p" "loaded files c q" "is_snapshotName p = is_snapshotName q"
  shows "is_commandName p = is_commandName q"
proof -
  have "is_fields p = is_fields q"
    using assms load_Some(7) unfolding loaded_def by (metis option.inject prod.inject)
  moreover have "tableValue (is_fields r) ''command'' = is_commandName r" if "loaded files c r" for r
    using that load_Some(6) by (auto simp: loaded_def commandSpecificSnapshotPayloadValid_def Let_def)
  ultimately show ?thesis using assms by metis
qed

definition distinct_names :: "issue_proof list \<Rightarrow> bool" where
  "distinct_names ps \<longleftrightarrow> distinct (map is_commandName ps)"

lemma split_no_newline:
  "x \<in> set (split_on d s) \<Longrightarrow> CHR 0x0A \<notin> set s \<Longrightarrow> CHR 0x0A \<notin> set x"
proof (induction s arbitrary: x)
  case Nil
  then show ?case by simp
next
  case (Cons a s)
  show ?case
  proof (cases "split_on d s")
    case Nil
    then show ?thesis by simp
  next
    case (Cons f fs)
    with Cons.prems Cons.IH show ?thesis by (auto split: if_splits)
  qed
qed

lemma pendingRows_loaded:
  assumes "list_all (loaded files c) ps" "distinct_names ps" "set seen = is_commandName ` set ps"
    and "\<forall>l\<in>set ls. CHR 0x0A \<notin> set l"
  defines "load \<equiv> loadCommandSpecificIssueProofSnapshot files (sc_processId c) (sc_heartbeat c)"
  shows "list_all (loaded files c) (pendingRows load ls seen ps) \<and> distinct_names (pendingRows load ls seen ps)"
  using assms(1-4)
proof (induction ls arbitrary: seen ps)
  case Nil
  then show ?case by simp
next
  case (Cons line ls)
  let ?parts = "splitString line (CHR 0x09)"
  show ?case
  proof (cases "line \<noteq> [] \<and> length ?parts = 3 \<and> ?parts ! 0 \<notin> set seen")
    case False
    then show ?thesis using Cons by (auto simp: distinct_names_def Let_def)
  next
    case True
    show ?thesis
    proof (cases "load (?parts ! 0) (?parts ! 1) (?parts ! 2)")
      case None
      with True show ?thesis by (simp add: distinct_names_def Let_def)
    next
      case (Some p)
      note n = load_Some(1-3) [OF Some [unfolded load_def]]
      have "?parts ! 2 \<in> set ?parts" using True by simp
      then have "CHR 0x0A \<notin> set (?parts ! 2)"
        using split_no_newline [of "?parts ! 2" "CHR 0x09" line] Cons.prems(4)
        by (auto simp: splitString_split_on split: if_splits)
      then have "loaded files c p" using Some n by (simp add: loaded_def load_def)
      then have "list_all (loaded files c) (ps @ [p])" "distinct_names (ps @ [p])"
        "set (?parts ! 0 # seen) = is_commandName ` set (ps @ [p])"
        using Cons.prems True n by (auto simp: distinct_names_def)
      from Cons.IH [OF this] Cons.prems(4) True Some show ?thesis by (simp add: Let_def)
    qed
  qed
qed

lemma readyRows_loaded:
  assumes "list_all (loaded files c) ps" "distinct_names ps" "set seen = is_commandName ` set ps"
    and "\<forall>l\<in>set ready. CHR 0x0A \<notin> set l"
  defines "load \<equiv> loadCommandSpecificIssueProofSnapshot files (sc_processId c) (sc_heartbeat c)"
  shows "list_all (loaded files c) (readyRows load ready ls seen ps)
    \<and> distinct_names (readyRows load ready ls seen ps)"
  using assms(1-3)
proof (induction ls arbitrary: seen ps)
  case Nil
  then show ?case by simp
next
  case (Cons line ls)
  let ?key = "readyLineKey line"
  let ?n = "drop (length issueProofPrefix) ?key"
  let ?snap = "readyValue ready (?key @ ''.snapshot'')"
  let ?load = "case load ?n ''game-action'' ?snap of
    None \<Rightarrow> load ?n ''unit-command'' ?snap | Some proof \<Rightarrow> Some proof"
  have snap: "CHR 0x0A \<notin> set ?snap"
    using assms(4) find_Some_mem [of "\<lambda>line. starts_with line ((?key @ ''.snapshot'') @ ''='')" ready]
    by (auto simp: readyValue_def Let_def split: option.split dest!: in_set_dropD)
  have "readyRows load ready (line # ls) seen ps = readyRows load ready ls seen ps
    \<or> readyRows load ready (line # ls) seen ps = []
    \<or> (\<exists>p. ?load = Some p \<and> ?n \<notin> set seen
       \<and> readyRows load ready (line # ls) seen ps = readyRows load ready ls (?n # seen) (ps @ [p]))"
    unfolding readyRows.simps(2) Let_def by (cases ?load) auto
  then consider (skip) "readyRows load ready (line # ls) seen ps = readyRows load ready ls seen ps"
    | (stop) "readyRows load ready (line # ls) seen ps = []"
    | (take) p where "?load = Some p" "?n \<notin> set seen"
       "readyRows load ready (line # ls) seen ps = readyRows load ready ls (?n # seen) (ps @ [p])"
    by blast
  then show ?case
  proof cases
    case skip
    then show ?thesis using Cons by simp
  next
    case stop
    then show ?thesis by (simp add: distinct_names_def)
  next
    case (take p)
    then obtain kind where k: "load ?n kind ?snap = Some p" by (auto split: option.splits)
    note n = load_Some(1-3) [OF k [unfolded load_def]]
    have "loaded files c p" using k n snap by (simp add: loaded_def load_def)
    then have "list_all (loaded files c) (ps @ [p])" "distinct_names (ps @ [p])"
      "set (?n # seen) = is_commandName ` set (ps @ [p])"
      using Cons.prems take n by (auto simp: distinct_names_def)
    from Cons.IH [OF this] take show ?thesis by simp
  qed
qed

lemma merge_loaded:
  assumes "list_all P pending" "list_all P ready" "distinct_names pending"
  shows "list_all P (mergeIssueProofs pending ready) \<and> distinct_names (mergeIssueProofs pending ready)"
  using assms unfolding mergeIssueProofs_def
  by (induction ready arbitrary: pending) (auto simp: distinct_names_def)

text \<open>All proofs of a pass.\<close>

definition pass_proofs ::
  "snapshot_context \<Rightarrow> string list \<Rightarrow> (string \<Rightarrow> string option) \<Rightarrow> issue_proof list" where
  "pass_proofs c existing files =
     mergeIssueProofs (readPendingCommandSpecificIssueProofs files (sc_processId c) (sc_heartbeat c))
       (readReadyCommandSpecificIssueProofs files existing (sc_processId c) (sc_heartbeat c))"

lemma pass_proofs_loaded:
  assumes "\<forall>l\<in>set existing. CHR 0x0A \<notin> set l"
  shows "list_all (loaded files c) (pass_proofs c existing files)"
    "distinct_names (pass_proofs c existing files)"
proof -
  have "list_all (loaded files c) (readPendingCommandSpecificIssueProofs files (sc_processId c) (sc_heartbeat c))
      \<and> distinct_names (readPendingCommandSpecificIssueProofs files (sc_processId c) (sc_heartbeat c))"
  proof (cases "files pendingFileName")
    case None
    then show ?thesis by (simp add: readPendingCommandSpecificIssueProofs_def distinct_names_def)
  next
    case (Some contents)
    have "\<forall>l\<in>set (tl (getlines contents)). CHR 0x0A \<notin> set l"
      using getlines_no_newline [of _ contents] by (cases "getlines contents") simp_all
    then show ?thesis
      using Some pendingRows_loaded [of files c "[]" "[]"]
      by (cases "getlines contents")
        (auto simp: readPendingCommandSpecificIssueProofs_def distinct_names_def)
  qed
  moreover have "list_all (loaded files c)
      (readReadyCommandSpecificIssueProofs files existing (sc_processId c) (sc_heartbeat c))"
    using readyRows_loaded [of files c "[]" "[]" existing] assms
    by (simp add: readReadyCommandSpecificIssueProofs_def distinct_names_def)
  ultimately show "list_all (loaded files c) (pass_proofs c existing files)"
    "distinct_names (pass_proofs c existing files)"
    using merge_loaded [where P = "loaded files c"] by (simp_all add: pass_proofs_def)
qed

section \<open>The lines kept from the earlier ready file\<close>

text \<open>
  \<open>normalizedPath\<close> is the file system's (\<open>std::filesystem\<close>) canonical form of a path.
\<close>

definition sameMappedFile :: "(string \<Rightarrow> string) \<Rightarrow> string \<Rightarrow> string \<Rightarrow> bool" where
  "sameMappedFile normalizedPath lhs rhs =
     (if lhs = [] \<or> rhs = [] then False else normalizedPath lhs = normalizedPath rhs)"

definition existingReadyIdentityMatches ::
  "(string \<Rightarrow> string) \<Rightarrow> string list \<Rightarrow> runtime_environment \<Rightarrow> bool" where
  "existingReadyIdentityMatches normalizedPath ls environment =
     (if readyValue ls ''protocol'' \<noteq> ''starcraft-api-file-bridge-v1'' then False
      else if readyValue ls ''product'' \<noteq> product_toString (env_product environment) then False
      else if readyValue ls ''version'' \<noteq> env_version environment then False
      else if readyValue ls ''mode'' \<noteq> BridgeValidatedAdapterMode then False
      else if readyValue ls ''process_id'' \<noteq> int_to_dec (env_processId environment) then False
      else
        let executable = readyValue ls ''executable'' in
        if executable = [] \<or> env_executablePath environment = []
        then executable = env_executablePath environment
        else sameMappedFile normalizedPath executable (env_executablePath environment))"

definition preservableReadyEvidenceLine :: "string \<Rightarrow> bool" where
  "preservableReadyEvidenceLine line \<longleftrightarrow> starts_with line ''diagnostic.''"

text \<open>The loop over the lines from the last to the first.\<close>

fun preserveLines :: "string list \<Rightarrow> string list \<Rightarrow> string list \<Rightarrow> string list" where
  "preserveLines ownedKeys preservedKeys [] = []"
| "preserveLines ownedKeys preservedKeys (line # ls) =
     (if \<not> preservableReadyEvidenceLine line then preserveLines ownedKeys preservedKeys ls
      else
        let key = readyLineKey line in
        if key = [] \<or> key \<in> set ownedKeys \<or> key \<in> set preservedKeys
        then preserveLines ownedKeys preservedKeys ls
        else line # preserveLines ownedKeys (key # preservedKeys) ls)"

definition preservedReadyEvidenceLines ::
  "(string \<Rightarrow> string) \<Rightarrow> string list \<Rightarrow> runtime_environment \<Rightarrow> string list \<Rightarrow> string list" where
  "preservedReadyEvidenceLines normalizedPath existing environment ownedKeys =
     (if \<not> existingReadyIdentityMatches normalizedPath existing environment then []
      else rev (preserveLines ownedKeys [] (rev existing)))"

text \<open>
  The lines of the ready file a pass writes: those appended before the issue proofs, those of the
  proofs, and the lines kept from the earlier file, whose keys no appended line has.
\<close>

definition readyFileLines ::
  "(string \<Rightarrow> string) \<Rightarrow> runtime_environment \<Rightarrow> string list \<Rightarrow> string list \<Rightarrow> issue_output \<Rightarrow>
   string list" where
  "readyFileLines normalizedPath environment existing base out =
     (let readyLines = base @ io_readyLines out;
          ownedKeys = filter (\<lambda>key. key \<noteq> []) (map readyLineKey readyLines)
      in readyLines @ preservedReadyEvidenceLines normalizedPath existing environment ownedKeys)"

lemma preserveLines_diagnostic:
  "l \<in> set (preserveLines owned kept ls) \<Longrightarrow> starts_with l ''diagnostic.''"
  by (induction owned kept ls rule: preserveLines.induct)
    (auto simp: Let_def preservableReadyEvidenceLine_def split: if_splits)

lemma preserved_diagnostic:
  "l \<in> set (preservedReadyEvidenceLines norm existing env owned) \<Longrightarrow> starts_with l ''diagnostic.''"
  by (auto simp: preservedReadyEvidenceLines_def dest: preserveLines_diagnostic split: if_splits)

section \<open>What a snapshot says\<close>

definition comment_line :: "string \<Rightarrow> bool" where
  "comment_line l \<longleftrightarrow> l \<noteq> [] \<and> hd l = CHR ''#''"

definition line_says :: "string \<Rightarrow> string \<Rightarrow> string \<Rightarrow> bool" where
  "line_says k v l \<longleftrightarrow>
     (\<exists>before between after sep. list_all is_blank (before @ between @ after)
        \<and> sep \<in> {CHR ''='', CHR 0x09}
        \<and> l = ''#'' @ before @ k @ between @ [sep] @ after @ v)"

definition metadata_says :: "string \<Rightarrow> string \<Rightarrow> string \<Rightarrow> bool" where
  "metadata_says snapshot k v \<longleftrightarrow>
     (\<exists>l\<in>set (takeWhile comment_line (getlines snapshot)). line_says k v l)"

definition row_says :: "string \<Rightarrow> string \<Rightarrow> string \<Rightarrow> bool" where
  "row_says snapshot k v \<longleftrightarrow> k @ [CHR 0x09] @ v \<in> set (getlines snapshot)"

definition ready_says :: "string \<Rightarrow> string \<Rightarrow> string \<Rightarrow> bool" where
  "ready_says ready k v \<longleftrightarrow> k @ ''='' @ v \<in> set (getlines ready)"

lemma blanks_around:
  "\<exists>b. list_all is_blank b \<and> s = b @ dropWhile is_blank s"
  "\<exists>b. list_all is_blank b \<and> s = rev (dropWhile is_blank (rev s)) @ b"
proof -
  show "\<exists>b. list_all is_blank b \<and> s = b @ dropWhile is_blank s"
    by (rule exI [of _ "takeWhile is_blank s"]) (auto simp: list_all_iff dest: set_takeWhileD)
  have "rev s = takeWhile is_blank (rev s) @ dropWhile is_blank (rev s)" by simp
  then have "s = rev (dropWhile is_blank (rev s)) @ rev (takeWhile is_blank (rev s))"
    by (metis rev_append rev_rev_ident)
  then show "\<exists>b. list_all is_blank b \<and> s = rev (dropWhile is_blank (rev s)) @ b"
    by (intro exI [of _ "rev (takeWhile is_blank (rev s))"])
      (auto simp: list_all_iff dest: set_takeWhileD)
qed

lemma parsed_line_says:
  assumes "sm_values (snd (parseSnapshotMetadataLine l md)) k = Some v"
  shows "sm_values md k = Some v \<or> line_says k v l"
proof (rule ccontr)
  assume neg: "\<not> ?thesis"
  then have new: "sm_values md k \<noteq> Some v" and not: "\<not> line_says k v l" by simp_all
  let ?body = "dropWhile is_blank (tl l)"
  let ?sep = "if CHR ''='' \<in> set ?body then CHR ''='' else CHR 0x09"
  have l: "l = CHR ''#'' # tl l"
    using assms new by (cases l) (auto simp: parseSnapshotMetadataLine_def split: if_splits)
  obtain rk rv where split: "split_at ?sep ?body = Some (rk, rv)"
      and k: "k = rev (dropWhile is_blank (rev rk))" and v: "v = dropWhile is_blank rv"
    using assms new
    by (auto simp: parseSnapshotMetadataLine_def addMetadata_def Let_def
        split: if_splits option.splits prod.splits)
  have body: "?body = rk @ ?sep # rv" using split_at_Some [OF split] by simp
  obtain b where b: "list_all is_blank b" "tl l = b @ ?body" using blanks_around(1) by blast
  obtain c where c: "list_all is_blank c" "rk = k @ c" using blanks_around(2) k by blast
  obtain d where d: "list_all is_blank d" "rv = d @ v" using blanks_around(1) v by blast
  have "tl l = b @ k @ c @ [?sep] @ d @ v"
    by (subst b(2), subst body) (simp only: c(2) d(2) append_assoc append_Cons append_Nil)
  then have "l = ''#'' @ b @ k @ c @ [?sep] @ d @ v"
    by (subst l) simp
  then have "line_says k v l"
    unfolding line_says_def using b(1) c(1) d(1)
    by (intro exI [of _ b] exI [of _ c] exI [of _ d] exI [of _ ?sep]) simp
  with not show False ..
qed

lemma readMetadataLines_says:
  "sm_values (readMetadataLines ls md) k = Some v \<Longrightarrow>
   sm_values md k = Some v \<or> (\<exists>l\<in>set (takeWhile comment_line ls). line_says k v l)"
proof (induction ls arbitrary: md)
  case Nil
  then show ?case by simp
next
  case (Cons l ls)
  show ?case
  proof (cases "comment_line l")
    case False
    then have "parseSnapshotMetadataLine l md = (False, md)"
      by (auto simp: parseSnapshotMetadataLine_def comment_line_def)
    with Cons.prems show ?thesis by simp
  next
    case True
    then have "fst (parseSnapshotMetadataLine l md)"
      by (auto simp: parseSnapshotMetadataLine_def comment_line_def Let_def split: option.split)
    then have "readMetadataLines (l # ls) md
        = readMetadataLines ls (snd (parseSnapshotMetadataLine l md))"
      by (cases "parseSnapshotMetadataLine l md") simp
    then show ?thesis using Cons parsed_line_says True by fastforce
  qed
qed

lemma metadata_value_says:
  assumes "snapshotMetadataValue (readSnapshotMetadata snapshot) k = v" "v \<noteq> []"
  shows "metadata_says snapshot k v"
  using assms readMetadataLines_says [of "getlines snapshot"
      "\<lparr>sm_values = Map.empty, sm_hasDuplicateKey = False\<rparr>" k v]
  by (auto simp: snapshotMetadataValue_def readSnapshotMetadata_def metadata_says_def
      split: option.splits)

lemma join_split: "join_on d (split_on d s) = s"
proof (induction s)
  case Nil
  then show ?case by simp
next
  case (Cons a s)
  then show ?case by (cases "(d, split_on d s)" rule: join_on.cases) auto
qed

lemma addRow_says:
  assumes "ft_values (addRow (splitTabs line) t) k = Some v"
  shows "ft_values t k = Some v \<or> line = k @ [CHR 0x09] @ v"
proof (cases "length (splitTabs line) = 2")
  case True
  then obtain a b where ab: "split_on (CHR 0x09) line = [a, b]"
    by (auto simp: splitTabs_def length_Suc_conv numeral_2_eq_2)
  with join_split [of "CHR 0x09" line] have "line = a @ [CHR 0x09] @ b" by simp
  with assms ab show ?thesis by (auto simp: addRow_def splitTabs_def split: if_splits)
next
  case False
  with assms show ?thesis by (simp add: addRow_def)
qed

lemma readRows_says:
  "ft_values (readRows h ls t) k = Some v \<Longrightarrow>
   ft_values t k = Some v \<or> k @ [CHR 0x09] @ v \<in> set ls"
proof (induction h ls t rule: readRows.induct)
  case (1 h t)
  then show ?case by simp
next
  case (2 h line ls t)
  then show ?case
    using addRow_says [of line t k v] by (auto simp: Let_def split: if_splits)
qed

lemma field_value_says:
  assumes "snapshotFieldValue (readSnapshotFieldValueTable snapshot) k = v" "v \<noteq> []"
  shows "row_says snapshot k v"
  using assms readRows_says [of False "getlines snapshot" empty_table k v]
  by (auto simp: snapshotFieldValue_def readSnapshotFieldValueTable_def row_says_def empty_table_def
      split: option.splits)

lemma ready_value_says:
  assumes "readReadyValue ready k = v" "v \<noteq> []"
  shows "ready_says ready k v"
proof -
  from assms obtain l where l: "List.find (\<lambda>line. starts_with line (k @ ''='')) (getlines ready) = Some l"
      and v: "v = drop (length (k @ ''='')) l"
    by (auto simp: readReadyValue_def Let_def split: option.splits)
  from l have "l \<in> set (getlines ready)" "starts_with l (k @ ''='')"
    by (auto simp: find_Some_iff)
  with v show ?thesis by (auto simp: ready_says_def starts_with_iff)
qed

lemma unsigned_nonempty [simp]: "parseUnsignedString [] = None"
  by (simp add: parseUnsignedString_def)

section \<open>The own snapshot of a promoted command\<close>

text \<open>
  A snapshot of the command \<open>n\<close> by its text: metadata lines and table rows with these values, and
  numbers with these bounds.
\<close>

definition own_metadata :: "string \<Rightarrow> string \<Rightarrow> (string \<times> string) list" where
  "own_metadata kind n =
     [(''schema'', ''starcraft-api.resident-snapshot.v1''), (''proof'', ''issue_commands.command''),
      (''source_identity'', ''resident-adapter''), (''command'', n), (''command_kind'', kind),
      (''active_match_correlated'', ''true'')]"

definition own_rows :: "string \<Rightarrow> string \<Rightarrow> (string \<times> string) list" where
  "own_rows kind n =
     [(''command'', n), (''command_kind'', kind), (''passed'', ''true''),
      (''delivery_checked'', ''true''), (''behavior_checked'', ''true''),
      (''receiver_active'', ''true''), (''behavior_observed'', ''true''),
      (''self_fixture'', ''false''),
      (''live_behavior_witness'', ''starcraft-runtime-adapter-proof-command-behavior-v1''),
      (''storage_kind'', ''live-sc-r-command-queue-v1''),
      (''issue_commands_required_adapter_abi'', ''starcraft-api-resident-adapter-v1''),
      (''issue_commands_required_adapter_location'', ''in-process-target-runtime''),
      (''issue_commands_required_adapter_thread_policy'', ''execute-on-target-runtime-thread''),
      (''issue_commands_required_adapter_behavior'',
       ''encoded-bwapi-command-reaches-live-scr-command-path-and-changes-frame-behavior''),
      (''issue_commands_required_adapter_promotion_rule'',
       ''promote-only-this-command-name-from-this-snapshot'')]"

definition own_numbers :: "string \<Rightarrow> (string \<times> nat set) list" where
  "own_numbers kind =
     [(''encoded_bytes'', {1..}), (''attempt_count'', {1..}), (''appended_bytes'', {1..}),
      (''behavior_sample_count'', {1..}), (''vector_address'', {1..}),
      (''bytes_in_queue_address'', {1..}), (''frame_counter_address'', {1..}),
      (''baseline_delta'', {2..}), (''paused_delta'', {0}), (''resumed_delta'', {2..})]
     @ (if kind = ''unit-command'' then [(''unit_id'', {1..})] else [])"

text \<open>The value \<open>says\<close> gives for a key reads as a number in \<open>N\<close>.\<close>

definition number_in :: "(string \<Rightarrow> string \<Rightarrow> bool) \<Rightarrow> string \<Rightarrow> nat set \<Rightarrow> bool" where
  "number_in says k N \<longleftrightarrow> (\<exists>v x. says k v \<and> parseUnsignedString v = Some x \<and> x \<in> N)"

definition own_contents :: "string \<Rightarrow> string \<Rightarrow> string \<Rightarrow> bool" where
  "own_contents kind n snapshot \<longleftrightarrow>
     (\<forall>(k, v)\<in>set (own_metadata kind n). metadata_says snapshot k v)
   \<and> (\<forall>(k, v)\<in>set (own_rows kind n). row_says snapshot k v)
   \<and> (\<forall>(k, N)\<in>set (own_numbers kind). number_in (row_says snapshot) k N)"

text \<open>The snapshot was taken by the process, at the heartbeat and within the frames of the proof.\<close>

definition own_correlation :: "string \<Rightarrow> state_proof \<Rightarrow> string \<Rightarrow> bool" where
  "own_correlation ready sp snapshot \<longleftrightarrow>
     (\<exists>process>0. number_in (metadata_says snapshot) ''process_id'' {process}
        \<and> number_in (ready_says ready) ''resident.adapter.process_id'' {process})
   \<and> (\<exists>heartbeat>0. number_in (metadata_says snapshot) ''heartbeat'' {heartbeat}
        \<and> number_in (ready_says ready) ''resident.adapter.heartbeat'' {heartbeat})
   \<and> sp_samples sp \<noteq> []
   \<and> number_in (metadata_says snapshot) ''frame_id''
        {ss_frame (hd (sp_samples sp))..ss_frame (last (sp_samples sp))}"

definition own_snapshot ::
  "bridge_files \<Rightarrow> string \<Rightarrow> state_proof \<Rightarrow> string \<Rightarrow> string \<Rightarrow> bool" where
  "own_snapshot files ready sp kind n \<longleftrightarrow>
     (\<exists>file snapshot directory below.
        ready_says ready (''proof.issue_commands.command.'' @ n) ''passed''
      \<and> ready_says ready (''proof.issue_commands.command.'' @ n @ ''.snapshot'') file
      \<and> bf_regular files file = Some snapshot
      \<and> bf_directory files = Some directory \<and> bf_canonical files file = Some (directory @ below)
      \<and> own_contents kind n snapshot \<and> own_correlation ready sp snapshot)"

lemma within_prefix: "pathIsWithinDirectory d p \<Longrightarrow> \<exists>below. p = d @ below"
  by (induction d p rule: pathIsWithinDirectory.induct) (auto split: if_splits)

lemma readySnapshot_own:
  assumes "readySnapshot files ready key = Some snapshot"
  shows "\<exists>file directory below. ready_says ready key file \<and> bf_regular files file = Some snapshot
    \<and> bf_directory files = Some directory \<and> bf_canonical files file = Some (directory @ below)"
  using assms ready_value_says [of ready key, OF refl] within_prefix
  by (fastforce simp: readySnapshot_def Let_def split: if_splits option.splits)

lemma unsigned_value_in:
  assumes "number_is P (parseUnsignedString (f k))" "\<And>x. P x \<Longrightarrow> x \<in> N"
    and "\<And>v. f k = v \<Longrightarrow> v \<noteq> [] \<Longrightarrow> says k v"
  shows "number_in says k N"
proof -
  obtain x where x: "parseUnsignedString (f k) = Some x" "P x"
    using assms(1) by (auto simp: number_is_def split: option.splits)
  then have "f k \<noteq> []" by auto
  then show ?thesis using x assms(2,3) by (auto simp: number_in_def)
qed

lemma field_number_in:
  assumes "number_is P (snapshotFieldUnsignedValue (readSnapshotFieldValueTable snapshot) k)"
    and "\<And>x. P x \<Longrightarrow> x \<in> N"
  shows "number_in (row_says snapshot) k N"
  using assms unsigned_value_in [of P "snapshotFieldValue (readSnapshotFieldValueTable snapshot)" k N]
    field_value_says
  by (simp add: snapshotFieldUnsignedValue_def)

lemma payload_own:
  assumes "validatedCommandSpecificSnapshotPayload snapshot n kind" "n \<noteq> []" "kind \<noteq> []"
  shows "\<forall>(k, v)\<in>set (own_rows kind n). row_says snapshot k v"
    "\<forall>(k, N)\<in>set (own_numbers kind). number_in (row_says snapshot) k N"
proof -
  let ?t = "readSnapshotFieldValueTable snapshot"
  note valid = assms(1) [unfolded validatedCommandSpecificSnapshotPayload_def Let_def]
  have "list_all (\<lambda>(k, v). snapshotFieldValue ?t k = v \<and> v \<noteq> []) (own_rows kind n)"
    using valid assms(2,3)
    by (simp add: own_rows_def trueFields_def requiredFieldValues_def snapshotFieldValueIsTrue_def
        snapshotFieldValueIsFalse_def split: if_splits)
  then show "\<forall>(k, v)\<in>set (own_rows kind n). row_says snapshot k v"
    using field_value_says by (auto simp: list_all_iff)
  have "list_all (\<lambda>(k, N). number_is (\<lambda>x. x \<in> N) (snapshotFieldUnsignedValue ?t k)) (own_numbers kind)"
    using valid
    by (simp add: own_numbers_def positiveFields_def Suc_le_eq split: if_splits)
  then show "\<forall>(k, N)\<in>set (own_numbers kind). number_in (row_says snapshot) k N"
    by (auto simp: list_all_iff intro: field_number_in)
qed

lemma metadata_number_in:
  assumes "number_is P (parseUnsignedMetadataValue (readSnapshotMetadata snapshot) k)"
    and "\<And>x. P x \<Longrightarrow> x \<in> N"
  shows "number_in (metadata_says snapshot) k N"
  using assms unsigned_value_in [of P "snapshotMetadataValue (readSnapshotMetadata snapshot)" k N]
    metadata_value_says
  by (simp add: parseUnsignedMetadataValue_def)

lemma ready_number_in:
  assumes "parseUnsignedReadyValue ready k = Some x"
  shows "number_in (ready_says ready) k {x}"
  using assms unsigned_value_in [of "\<lambda>y. y = x" "readReadyValue ready" k "{x}"] ready_value_says
  by (simp add: parseUnsignedReadyValue_def number_is_def)

lemma same_number_own:
  assumes "number_is (\<lambda>a. number_is (\<lambda>b. a \<noteq> 0 \<and> a = b) (parseUnsignedReadyValue ready k'))
      (parseUnsignedMetadataValue (readSnapshotMetadata snapshot) k)"
  shows "\<exists>x>0. number_in (metadata_says snapshot) k {x} \<and> number_in (ready_says ready) k' {x}"
proof -
  obtain x where x: "parseUnsignedMetadataValue (readSnapshotMetadata snapshot) k = Some x"
      "parseUnsignedReadyValue ready k' = Some x" "x \<noteq> 0"
    using assms by (auto simp: number_is_def split: option.splits)
  then show ?thesis
    using metadata_number_in [of "\<lambda>y. y = x" snapshot k "{x}"] ready_number_in [of ready k' x]
    by (auto simp: number_is_def)
qed

lemma metadata_own:
  assumes "validatedCommandSpecificSnapshotMetadata snapshot ready n kind sp" "n \<noteq> []" "kind \<noteq> []"
  shows "\<forall>(k, v)\<in>set (own_metadata kind n). metadata_says snapshot k v"
    "own_correlation ready sp snapshot"
proof -
  let ?m = "readSnapshotMetadata snapshot"
  note valid = assms(1) [unfolded validatedCommandSpecificSnapshotMetadata_def Let_def]
  have "list_all (\<lambda>(k, v). snapshotMetadataValue ?m k = v \<and> v \<noteq> []) (own_metadata kind n)"
    using valid assms(2,3) by (simp add: own_metadata_def split: if_splits)
  then show "\<forall>(k, v)\<in>set (own_metadata kind n). metadata_says snapshot k v"
    using metadata_value_says by (auto simp: list_all_iff)
  have frame: "number_is (\<lambda>x. ss_frame (hd (sp_samples sp)) \<le> x \<and> x \<le> ss_frame (last (sp_samples sp)))
      (parseUnsignedMetadataValue ?m ''frame_id'')" "sp_samples sp \<noteq> []"
    using valid by (auto simp: number_is_def split: if_splits option.splits)
  show "own_correlation ready sp snapshot"
    unfolding own_correlation_def
    using valid frame(2) metadata_number_in [OF frame(1)]
    by (intro conjI same_number_own) (simp_all split: if_splits)
qed

lemma proven_own_snapshot:
  assumes "commandEvidenceProofIsProven files ready pf env sp detail n kind" "n \<noteq> []" "kind \<noteq> []"
  shows "own_snapshot files ready sp kind n" "detail = ''proof.issue_commands.command.'' @ n @ ''=passed''"
    "pf_executorBridgeMode pf = BridgeValidatedAdapterMode"
proof -
  note proven = assms(1) [unfolded commandEvidenceProofIsProven_def Let_def
      preflightSupportsCommandSpecificEvidence_def]
  show "pf_executorBridgeMode pf = BridgeValidatedAdapterMode"
    "detail = ''proof.issue_commands.command.'' @ n @ ''=passed''"
    using proven by (simp_all add: commandSpecificProofLine_def split: if_splits)
  obtain snapshot where snapshot:
      "readySnapshot files ready (commandSpecificSnapshotKey n) = Some snapshot"
      "validatedCommandSpecificSnapshotMetadata snapshot ready n kind sp"
      "validatedCommandSpecificSnapshotPayload snapshot n kind"
    using proven by (auto split: if_splits option.splits)
  have "ready_says ready (''proof.issue_commands.command.'' @ n) ''passed''"
    using proven
    by (simp add: ready_says_def fileContainsLine_def commandSpecificProofLine_def split: if_splits)
  moreover have "own_contents kind n snapshot"
    using payload_own [OF snapshot(3) assms(2,3)] metadata_own(1) [OF snapshot(2) assms(2,3)]
    by (simp add: own_contents_def)
  ultimately show "own_snapshot files ready sp kind n"
    using readySnapshot_own [OF snapshot(1)] metadata_own(2) [OF snapshot(2) assms(2,3)]
    unfolding own_snapshot_def commandSpecificSnapshotKey_def by blast
qed

lemma parsed_evidence_named:
  "parseBridgeLiveCommandEvidenceValue v = Some e \<Longrightarrow> ev_name e \<noteq> []"
  by (auto simp: parseBridgeLiveCommandEvidenceValue_def split: option.splits if_splits)

lemma those_Some_mem: "those xs = Some ys \<Longrightarrow> y \<in> set ys \<Longrightarrow> Some y \<in> set xs"
  by (induction xs arbitrary: ys) (auto split: option.splits)

lemma live_named:
  assumes "e \<in> set (readProofBackedLiveCommandEvidence files ready p names kind env pf sp)"
  shows "ev_name e \<noteq> []"
proof -
  obtain es where es: "evidence_rows p (getlines ready) = Some es" "e \<in> set es"
    using assms
    by (auto simp: readProofBackedLiveCommandEvidence_def liveRows_exact eq_commute [of _ "evidence_rows p ls" for ls]
        split: option.splits if_splits)
  then have "Some e \<in> set (List.map_filter (row_of p) (getlines ready))"
    unfolding evidence_rows_def by (rule those_Some_mem)
  then obtain l where "row_of p l = Some (Some e)"
    by (auto simp: List.map_filter_def)
  then show ?thesis
    using parsed_evidence_named by (auto simp: row_of_def split: option.splits if_splits)
qed

end
