(* ===== verification/Proof_Emission.thy ===== *)
theory Proof_Emission
  imports Evidence_Properties
begin

text \<open>
  The lines a heartbeat pass adds to the ready file for the issue proofs it keeps, how the backend
  reads them, and the agreement of the two sides: what the adapter emits is promoted, exactly.
\<close>

section \<open>The lines of the ready file\<close>

definition proof_line :: "string \<Rightarrow> string" where
  "proof_line n = issueProofPrefix @ n @ ''=passed''"

definition live_row :: "string \<Rightarrow> nat \<Rightarrow> string \<Rightarrow> string" where
  "live_row prefix i n = prefix @ nat_to_dec i @ ''='' @ n @ ''|live-proven|'' @ proof_line n"

definition unitPrefix :: string where "unitPrefix = ''command_surface.live_unit_command.''"
definition actionPrefix :: string where "actionPrefix = ''command_surface.live_game_action.''"

definition is_unit_proof :: "issue_proof \<Rightarrow> bool" where
  "is_unit_proof p \<longleftrightarrow> is_commandKind p = ''unit-command''"

definition proof_lines :: "nat \<Rightarrow> nat \<Rightarrow> issue_proof \<Rightarrow> string list" where
  "proof_lines u a p =
     [proof_line (is_commandName p),
      issueProofPrefix @ is_commandName p @ ''.snapshot='' @ is_snapshotName p,
      (if is_unit_proof p then live_row unitPrefix u (is_commandName p)
       else live_row actionPrefix a (is_commandName p))]"

fun emitted_lines :: "nat \<Rightarrow> nat \<Rightarrow> issue_proof list \<Rightarrow> string list" where
  "emitted_lines u a [] = []"
| "emitted_lines u a (p # ps) =
     proof_lines u a p @ (if is_unit_proof p then emitted_lines (Suc u) a ps else emitted_lines u (Suc a) ps)"

definition survives :: "(string \<Rightarrow> bool) \<Rightarrow> issue_proof \<Rightarrow> bool" where
  "survives writable p \<longleftrightarrow>
     in_surface makeBWAPICommandSurface (is_commandKind p) (is_commandName p)
   \<and> writable (is_snapshotName p)"

definition emit :: "(string \<Rightarrow> bool) \<Rightarrow> snapshot_context \<Rightarrow> issue_proof \<Rightarrow> issue_output \<Rightarrow> issue_output" where
  "emit writable c p out = emitIssueProof (in_surface makeBWAPICommandSurface) writable c p out"

lemma emit_survivor:
  assumes "is_commandName p \<notin> set (io_emitted out)" "survives writable p"
  shows "io_readyLines (emit writable c p out)
      = io_readyLines out @ proof_lines (io_unitIndex out) (io_actionIndex out) p"
    "io_files (emit writable c p out) = (io_files out)(is_snapshotName p \<mapsto>
       writeRefreshedCommandSpecificIssueSnapshot p c)"
    "io_unitIndex (emit writable c p out) = io_unitIndex out + (if is_unit_proof p then 1 else 0)"
    "io_actionIndex (emit writable c p out) = io_actionIndex out + (if is_unit_proof p then 0 else 1)"
    "io_emitted (emit writable c p out) = is_commandName p # io_emitted out"
  using assms
  by (simp_all add: emit_def emitIssueProof_def survives_def proof_lines_def proof_line_def
      live_row_def unitPrefix_def actionPrefix_def is_unit_proof_def Let_def)

lemma emit_dropped:
  assumes "is_commandName p \<notin> set (io_emitted out)" "\<not> survives writable p"
  shows "emit writable c p out = out\<lparr>io_emitted := is_commandName p # io_emitted out\<rparr>"
  using assms by (auto simp: emit_def emitIssueProof_def survives_def Let_def)

abbreviation emit_run :: "(string \<Rightarrow> bool) \<Rightarrow> snapshot_context \<Rightarrow> issue_output \<Rightarrow> issue_proof list \<Rightarrow> issue_output" where
  "emit_run writable c out ps \<equiv> foldl (\<lambda>out p. emit writable c p out) out ps"

definition put_snapshot ::
  "snapshot_context \<Rightarrow> (string \<rightharpoonup> string) \<Rightarrow> issue_proof \<Rightarrow> (string \<rightharpoonup> string)" where
  "put_snapshot c files p =
     files(is_snapshotName p \<mapsto> writeRefreshedCommandSpecificIssueSnapshot p c)"

lemma emit_all:
  assumes "distinct_names ps" "\<forall>p\<in>set ps. is_commandName p \<notin> set (io_emitted out)"
  shows "io_readyLines (emit_run writable c out ps)
      = io_readyLines out
        @ emitted_lines (io_unitIndex out) (io_actionIndex out) (filter (survives writable) ps)
    \<and> io_files (emit_run writable c out ps)
      = foldl (put_snapshot c) (io_files out) (filter (survives writable) ps)"
  using assms
proof (induction ps arbitrary: out)
  case Nil
  then show ?case by simp
next
  case (Cons p ps)
  let ?out = "emit writable c p out"
  have p: "is_commandName p \<notin> set (io_emitted out)" using Cons.prems by simp
  have "io_emitted ?out = is_commandName p # io_emitted out"
    using emit_survivor(5) [OF p] emit_dropped [OF p] by (cases "survives writable p") simp_all
  then have "distinct_names ps" "\<forall>q\<in>set ps. is_commandName q \<notin> set (io_emitted ?out)"
    using Cons.prems by (auto simp: distinct_names_def image_iff)
  from Cons.IH [OF this] show ?case
    using emit_survivor [OF p] emit_dropped [OF p]
    by (cases "survives writable p") (simp_all add: put_snapshot_def)
qed

lemma put_snapshots_other:
  "x \<notin> is_snapshotName ` set ps \<Longrightarrow> foldl (put_snapshot c) files ps x = files x"
  by (induction ps arbitrary: files) (simp_all add: put_snapshot_def)

lemma put_snapshots:
  assumes "distinct (map is_snapshotName ps)" "p \<in> set ps"
  shows "foldl (put_snapshot c) files ps (is_snapshotName p)
    = Some (writeRefreshedCommandSpecificIssueSnapshot p c)"
  using assms
proof (induction ps arbitrary: files)
  case Nil
  then show ?case by simp
next
  case (Cons q ps)
  show ?case
  proof (cases "p \<in> set ps")
    case True
    with Cons show ?thesis by simp
  next
    case False
    with Cons.prems have "p = q" "is_snapshotName p \<notin> is_snapshotName ` set ps" by auto
    then show ?thesis by (simp add: put_snapshots_other) (simp add: put_snapshot_def)
  qed
qed

section \<open>The rows as the backend reads them\<close>

lemma starts_with_append_iff: "starts_with (p @ s) (p @ t) \<longleftrightarrow> starts_with s t"
  by (auto simp: starts_with_iff)

lemma name_free:
  assumes "name_ok n"
  shows "CHR ''='' \<notin> set n" "CHR ''|'' \<notin> set n" "CHR ''.'' \<notin> set n" "n \<noteq> []"
  using assms by (auto simp: name_ok_def list_all_iff)

lemma same_head:
  assumes "c \<notin> set a" "c \<notin> set b" "starts_with (a @ c # r) (b @ c # s)"
  shows "a = b"
proof -
  from assms(3) obtain t where "a @ c # r = b @ c # (s @ t)" by (auto simp: starts_with_iff)
  then have "split_at c (a @ c # r) = split_at c (b @ c # (s @ t))" by simp
  then show ?thesis using assms(1,2) by simp
qed

lemma dec_digits: "allAsciiDigits (nat_to_dec i)"
proof -
  have "is_digit c" if "c \<in> set (nat_to_dec i)" for c
    using nat_to_dec_digits [OF that] by (auto simp: dec_digit_def is_digit_def Let_def)
  then show ?thesis by (simp add: allAsciiDigits_def list_all_iff)
qed

definition live_evidence :: "string \<Rightarrow> command_evidence" where
  "live_evidence n = \<lparr>ev_name = n, ev_status = LiveProven, ev_detail = proof_line n\<rparr>"

lemma proof_line_free: "name_ok n \<Longrightarrow> CHR ''|'' \<notin> set (proof_line n)" "proof_line n \<noteq> []"
  using name_free(2) by (auto simp: proof_line_def issueProofPrefix_def)

lemma live_value:
  assumes "name_ok n"
  shows "parseBridgeLiveCommandEvidenceValue (n @ ''|live-proven|'' @ proof_line n) = Some (live_evidence n)"
proof -
  have "split_at (CHR ''|'') (n @ ''|live-proven|'' @ proof_line n)
      = Some (n, ''live-proven'' @ CHR ''|'' # proof_line n)"
    using name_free(2) [OF assms] by simp
  moreover have "split_at (CHR ''|'') (''live-proven'' @ CHR ''|'' # proof_line n)
      = Some (''live-proven'', proof_line n)"
    by (rule split_at_sep) simp
  moreover have "parseRuntimeCommandEvidenceStatus ''live-proven'' = Some LiveProven" by code_simp
  ultimately show ?thesis
    using proof_line_free assms name_free(4) [OF assms]
    by (simp add: parseBridgeLiveCommandEvidenceValue_def live_evidence_def)
qed

lemma live_row_parsed:
  assumes "name_ok n" "CHR ''='' \<notin> set prefix"
  shows "row_of prefix (live_row prefix i n) = Some (Some (live_evidence n))"
proof -
  have "split_at (CHR ''='') ((prefix @ nat_to_dec i) @ CHR ''='' # (n @ ''|live-proven|'' @ proof_line n))
      = Some (prefix @ nat_to_dec i, n @ ''|live-proven|'' @ proof_line n)"
    using assms(2) by (intro split_at_sep) simp
  then show ?thesis
    using live_value [OF assms(1)] dec_digits by (simp add: row_of_def live_row_def)
qed

lemma other_prefix: "\<not> starts_with line prefix \<Longrightarrow> CHR ''='' \<notin> set prefix \<Longrightarrow> row_of prefix line = None"
  by (auto simp: row_of_def starts_with_iff split: option.split dest!: split_at_Some)


lemma map_filter_append: "List.map_filter f (xs @ ys) = List.map_filter f xs @ List.map_filter f ys"
  by (simp add: List.map_filter_def)

lemma map_filter_none: "\<forall>x\<in>set xs. f x = None \<Longrightarrow> List.map_filter f xs = []"
  by (induction xs) (simp_all add: List.map_filter_simps)

definition row_prefixes :: "string list" where
  "row_prefixes = [issueProofPrefix, unitPrefix, actionPrefix]"

definition names_ok :: "issue_proof list \<Rightarrow> bool" where
  "names_ok ps \<longleftrightarrow> list_all (\<lambda>p. name_ok (is_commandName p)) ps"

lemmas prefix_defs = issueProofPrefix_def unitPrefix_def actionPrefix_def

lemma proof_lines_rows:
  assumes "name_ok (is_commandName p)"
  shows "List.map_filter (row_of unitPrefix) (proof_lines u a p)
      = (if is_unit_proof p then [Some (live_evidence (is_commandName p))] else [])"
    "List.map_filter (row_of actionPrefix) (proof_lines u a p)
      = (if is_unit_proof p then [] else [Some (live_evidence (is_commandName p))])"
proof -
  have free: "CHR ''='' \<notin> set unitPrefix" "CHR ''='' \<notin> set actionPrefix"
    by (simp_all add: prefix_defs)
  have other: "\<not> starts_with (issueProofPrefix @ x) unitPrefix"
    "\<not> starts_with (issueProofPrefix @ x) actionPrefix"
    "\<not> starts_with (live_row unitPrefix i n) actionPrefix"
    "\<not> starts_with (live_row actionPrefix i n) unitPrefix" for x i n
    by (simp_all add: prefix_defs live_row_def starts_with_iff)
  note rows = live_row_parsed [OF assms free(1)] live_row_parsed [OF assms free(2)]
  show "List.map_filter (row_of unitPrefix) (proof_lines u a p)
      = (if is_unit_proof p then [Some (live_evidence (is_commandName p))] else [])"
    "List.map_filter (row_of actionPrefix) (proof_lines u a p)
      = (if is_unit_proof p then [] else [Some (live_evidence (is_commandName p))])"
    using other_prefix [OF other(1) free(1)] other_prefix [OF other(2) free(2)]
      other_prefix [OF other(3) free(2)] other_prefix [OF other(4) free(1)] rows
    by (simp_all add: proof_lines_def proof_line_def List.map_filter_simps)
qed

lemma emitted_rows:
  assumes "names_ok ps"
  shows "List.map_filter (row_of unitPrefix) (emitted_lines u a ps)
      = map (Some \<circ> live_evidence \<circ> is_commandName) (filter is_unit_proof ps)
    \<and> List.map_filter (row_of actionPrefix) (emitted_lines u a ps)
      = map (Some \<circ> live_evidence \<circ> is_commandName) (filter (\<lambda>p. \<not> is_unit_proof p) ps)"
  using assms
  by (induction u a ps rule: emitted_lines.induct)
    (simp_all add: names_ok_def map_filter_append proof_lines_rows List.map_filter_simps)

text \<open>Lines of other keys: no row of theirs is read for a proof or as evidence.\<close>

definition foreign :: "string list \<Rightarrow> bool" where
  "foreign ls \<longleftrightarrow> list_all (\<lambda>l. list_all (\<lambda>p. \<not> starts_with l p) row_prefixes) ls"

lemma foreign_rows:
  assumes "foreign base"
  shows "List.map_filter (row_of unitPrefix) base = []" "List.map_filter (row_of actionPrefix) base = []"
proof -
  have free: "CHR ''='' \<notin> set unitPrefix" "CHR ''='' \<notin> set actionPrefix"
    by (simp_all add: prefix_defs)
  show "List.map_filter (row_of unitPrefix) base = []" "List.map_filter (row_of actionPrefix) base = []"
    using assms free
    by (auto intro!: map_filter_none other_prefix simp: foreign_def row_prefixes_def list_all_iff)
qed

text \<open>The snapshot key of an emitted proof leads to the snapshot written for it.\<close>

lemma snapshot_key_line:
  assumes "name_ok n" "name_ok m"
  shows "\<not> starts_with (proof_line m) (commandSpecificSnapshotKey n @ ''='')"
    "starts_with (issueProofPrefix @ m @ ''.snapshot='' @ s) (commandSpecificSnapshotKey n @ ''='')
      \<longleftrightarrow> m = n"
    "\<not> starts_with (live_row unitPrefix i m) (commandSpecificSnapshotKey n @ ''='')"
    "\<not> starts_with (live_row actionPrefix i m) (commandSpecificSnapshotKey n @ ''='')"
proof -
  have key: "commandSpecificSnapshotKey n @ ''='' = issueProofPrefix @ n @ CHR ''.'' # ''snapshot=''"
    by (simp add: commandSpecificSnapshotKey_def issueProofPrefix_def)
  have "CHR ''.'' \<in> set (m @ ''=passed'')" if "starts_with (m @ ''=passed'') (n @ CHR ''.'' # ''snapshot='')"
  proof -
    from that obtain t where "m @ ''=passed'' = (n @ CHR ''.'' # ''snapshot='') @ t"
      by (auto simp: starts_with_iff)
    then show ?thesis by simp
  qed
  then show "\<not> starts_with (proof_line m) (commandSpecificSnapshotKey n @ ''='')"
    using name_free(3) [OF assms(2)] by (auto simp: key proof_line_def starts_with_append_iff)
  show "starts_with (issueProofPrefix @ m @ ''.snapshot='' @ s) (commandSpecificSnapshotKey n @ ''='')
      \<longleftrightarrow> m = n"
    using same_head [OF name_free(3) [OF assms(2)] name_free(3) [OF assms(1)],
        of "''snapshot='' @ s" "''snapshot=''"]
    by (auto simp: key starts_with_append_iff) (simp add: starts_with_iff)
  show "\<not> starts_with (live_row unitPrefix i m) (commandSpecificSnapshotKey n @ ''='')"
    "\<not> starts_with (live_row actionPrefix i m) (commandSpecificSnapshotKey n @ ''='')"
    by (simp_all add: key prefix_defs live_row_def starts_with_iff)
qed



lemma find_append_None:
  "List.find P xs = None \<Longrightarrow> List.find P (xs @ ys) = List.find P ys"
  by (induction xs) (simp_all split: if_splits)

lemma find_append_Some:
  "List.find P xs = Some x \<Longrightarrow> List.find P (xs @ ys) = Some x"
  by (induction xs) (simp_all split: if_splits)

lemma proof_lines_find:
  assumes "name_ok n" "name_ok (is_commandName p)"
  shows "List.find (\<lambda>l. starts_with l (commandSpecificSnapshotKey n @ ''='')) (proof_lines u a p)
    = (if is_commandName p = n
       then Some (issueProofPrefix @ n @ ''.snapshot='' @ is_snapshotName p) else None)"
  using snapshot_key_line [OF assms] by (auto simp: proof_lines_def)

lemma emitted_find:
  assumes "names_ok ps" "distinct_names ps" "p \<in> set ps"
  shows "List.find (\<lambda>l. starts_with l (commandSpecificSnapshotKey (is_commandName p) @ ''=''))
      (emitted_lines u a ps)
    = Some (issueProofPrefix @ is_commandName p @ ''.snapshot='' @ is_snapshotName p)"
  using assms
proof (induction u a ps rule: emitted_lines.induct)
  case (1 u a)
  then show ?case by simp
next
  case (2 u a q ps)
  have ok: "name_ok (is_commandName p)" "name_ok (is_commandName q)" "names_ok ps" "distinct_names ps"
    using "2.prems" by (auto simp: names_ok_def distinct_names_def list_all_iff)
  note here = proof_lines_find [OF ok(1,2), of u a]
  show ?case
  proof (cases "p = q")
    case True
    then show ?thesis using here by (simp add: find_append_Some)
  next
    case False
    with "2.prems" have "p \<in> set ps" "is_commandName q \<noteq> is_commandName p"
      by (auto simp: distinct_names_def image_iff)
    then show ?thesis using here ok(3,4) "2.IH" by (simp add: find_append_None)
  qed
qed

lemma emitted_snapshot_value:
  assumes "getlines ready = base @ emitted_lines 0 0 ps @ kept" "foreign base"
    and "names_ok ps" "distinct_names ps" "p \<in> set ps"
  shows "readReadyValue ready (commandSpecificSnapshotKey (is_commandName p)) = is_snapshotName p"
proof -
  let ?key = "commandSpecificSnapshotKey (is_commandName p) @ ''=''"
  have head: "?key = issueProofPrefix @ (is_commandName p @ ''.snapshot='')"
    by (simp add: commandSpecificSnapshotKey_def issueProofPrefix_def)
  have "\<not> starts_with l ?key" if "l \<in> set base" for l
    using assms(2) that
    by (auto simp: foreign_def row_prefixes_def list_all_iff head starts_with_iff)
  then have "List.find (\<lambda>l. starts_with l ?key) base = None" by (simp add: find_None_iff)
  then have "List.find (\<lambda>l. starts_with l ?key) (getlines ready)
      = Some (issueProofPrefix @ is_commandName p @ ''.snapshot='' @ is_snapshotName p)"
    using emitted_find [OF assms(3-5)] by (simp add: assms(1) find_append_None find_append_Some)
  then show ?thesis
    by (simp add: readReadyValue_def Let_def commandSpecificSnapshotKey_def issueProofPrefix_def)
qed

section \<open>The pass and the backend\<close>

definition survivors ::
  "(string \<Rightarrow> bool) \<Rightarrow> snapshot_context \<Rightarrow> string list \<Rightarrow> (string \<Rightarrow> string option) \<Rightarrow> issue_proof list" where
  "survivors writable c existing files = filter (survives writable) (pass_proofs c existing files)"

lemma distinct_finer:
  assumes "distinct (map f xs)" "\<And>x y. x \<in> set xs \<Longrightarrow> y \<in> set xs \<Longrightarrow> g x = g y \<Longrightarrow> f x = f y"
  shows "distinct (map g xs)"
  using assms unfolding distinct_map inj_on_def by blast

lemma survivors_ok:
  assumes "\<forall>l\<in>set existing. CHR 0x0A \<notin> set l"
  shows "list_all issue_proof_ok (survivors writable c existing files)"
    "distinct_names (survivors writable c existing files)"
    "list_all (loaded files c) (survivors writable c existing files)"
    "distinct (map is_snapshotName (survivors writable c existing files))"
    "names_ok (survivors writable c existing files)"
proof -
  note all = pass_proofs_loaded [OF assms, where c = c and files = files]
  show loaded: "list_all (loaded files c) (survivors writable c existing files)"
    using all(1) by (auto simp: survivors_def list_all_iff)
  show "list_all issue_proof_ok (survivors writable c existing files)"
    using all(1) loaded_ok by (auto simp: survivors_def list_all_iff survives_def)
  then show "names_ok (survivors writable c existing files)"
    using in_surface_name by (auto simp: names_ok_def list_all_iff issue_proof_ok_def)
  show names: "distinct_names (survivors writable c existing files)"
    using all(2) by (simp add: survivors_def distinct_names_def distinct_map_filter)
  show "distinct (map is_snapshotName (survivors writable c existing files))"
  proof (rule distinct_finer [OF names [unfolded distinct_names_def]])
    fix p q
    assume "p \<in> set (survivors writable c existing files)" "q \<in> set (survivors writable c existing files)"
    then have "loaded files c p" "loaded files c q" using loaded by (simp_all add: list_all_iff)
    from loaded_snapshot_names [OF this]
    show "is_snapshotName p = is_snapshotName q \<Longrightarrow> is_commandName p = is_commandName q" .
  qed
qed

lemma emit_foldl:
  "emitIssueProofs writable c existing files
   = (let out = emit_run writable c \<lparr>io_readyLines = [], io_files = files, io_unitIndex = 0,
            io_actionIndex = 0, io_emitted = []\<rparr> (pass_proofs c existing files)
      in if io_unitIndex out \<noteq> 0 \<or> io_actionIndex out \<noteq> 0
         then out\<lparr>io_files := (io_files out)(pendingFileName := None)\<rparr> else out)"
  by (simp add: emitIssueProofs_def pass_proofs_def emit_def Let_def)

lemma emitted:
  assumes "\<forall>l\<in>set existing. CHR 0x0A \<notin> set l"
  shows "io_readyLines (emitIssueProofs writable c existing files)
      = emitted_lines 0 0 (survivors writable c existing files)"
    "p \<in> set (survivors writable c existing files) \<Longrightarrow> is_snapshotName p \<noteq> pendingFileName \<Longrightarrow>
      io_files (emitIssueProofs writable c existing files) (is_snapshotName p)
      = Some (writeRefreshedCommandSpecificIssueSnapshot p c)"
proof -
  note all = emit_all [OF pass_proofs_loaded(2) [OF assms, where c = c and files = files],
    of "\<lparr>io_readyLines = [], io_files = files, io_unitIndex = 0, io_actionIndex = 0, io_emitted = []\<rparr>"
       writable c, simplified]
  show "io_readyLines (emitIssueProofs writable c existing files)
      = emitted_lines 0 0 (survivors writable c existing files)"
    using all by (simp add: emit_foldl Let_def survivors_def)
  show "io_files (emitIssueProofs writable c existing files) (is_snapshotName p)
      = Some (writeRefreshedCommandSpecificIssueSnapshot p c)"
    if "p \<in> set (survivors writable c existing files)" "is_snapshotName p \<noteq> pendingFileName"
    using all that put_snapshots [OF survivors_ok(4) [OF assms] that(1)]
    by (simp add: emit_foldl Let_def survivors_def)
qed


text \<open>The evidence the surviving proofs of a pass stand for.\<close>

definition unit_proofs ::
  "(string \<Rightarrow> bool) \<Rightarrow> snapshot_context \<Rightarrow> string list \<Rightarrow> (string \<Rightarrow> string option) \<Rightarrow> issue_proof list" where
  "unit_proofs writable c existing files = filter is_unit_proof (survivors writable c existing files)"

definition action_proofs ::
  "(string \<Rightarrow> bool) \<Rightarrow> snapshot_context \<Rightarrow> string list \<Rightarrow> (string \<Rightarrow> string option) \<Rightarrow> issue_proof list" where
  "action_proofs writable c existing files =
     filter (\<lambda>p. \<not> is_unit_proof p) (survivors writable c existing files)"

text \<open>
  A backend that reads the bridge directory the pass leaves: the ready file holds the lines
  appended before the issue proofs (\<open>base\<close>), those of the proofs and the diagnostic lines kept from
  the earlier file, the snapshots are where the pass wrote them, and the process, the heartbeat
  and the frame are those the pass wrote for. \<open>norm\<close> and \<open>own\<close> are the adapter's file system and
  environment, which decide whether earlier lines are kept.
\<close>

definition reads_pass ::
  "(string \<Rightarrow> string) \<Rightarrow> runtime_environment \<Rightarrow> (string \<Rightarrow> bool) \<Rightarrow> snapshot_context \<Rightarrow>
   string list \<Rightarrow> (string \<Rightarrow> string option) \<Rightarrow> string list \<Rightarrow> bridge_files \<Rightarrow> string \<Rightarrow> state_proof \<Rightarrow>
   bool" where
  "reads_pass norm own writable c existing files base bf ready sp \<longleftrightarrow>
     foreign base
   \<and> getlines ready = readyFileLines norm own existing base (emitIssueProofs writable c existing files)
   \<and> bf_regular bf = io_files (emitIssueProofs writable c existing files)
   \<and> (case bf_directory bf of None \<Rightarrow> False
      | Some directory \<Rightarrow> bf_canonical bf = (\<lambda>n. Some (directory @ [n])))
   \<and> context_ok c
   \<and> parseUnsignedReadyValue ready ''resident.adapter.process_id'' = Some (sc_processId c)
   \<and> parseUnsignedReadyValue ready ''resident.adapter.heartbeat'' = Some (sc_heartbeat c)
   \<and> sp_samples sp \<noteq> [] \<and> ss_frame (hd (sp_samples sp)) \<le> sc_frameId c
   \<and> sc_frameId c \<le> ss_frame (last (sp_samples sp))"

definition accepts_kind ::
  "string \<Rightarrow> preflight_result \<Rightarrow> runtime_environment \<Rightarrow> state_proof \<Rightarrow> string \<Rightarrow> bool" where
  "accepts_kind ready pf env sp kind \<longleftrightarrow>
     preflightSupportsCommandSpecificEvidence pf kind \<and> readyFileMatchesEnvironmentProcess ready env
   \<and> readyFileHasCommandSpecificEvidenceContext ready kind sp"

lemma within_directory [simp]: "pathIsWithinDirectory d (d @ ns)"
  by (induction d) simp_all

lemma snapshot_name_relative:
  "safeBridgeRelativeFileName n \<Longrightarrow> n \<noteq> [] \<and> \<not> is_absolute n"
  by (auto simp: safeBridgeRelativeFileName_def is_absolute_def starts_with_iff)

lemma diagnostic_foreign: "list_all (\<lambda>l. starts_with l ''diagnostic.'') ls \<Longrightarrow> foreign ls"
  by (auto simp: foreign_def row_prefixes_def prefix_defs list_all_iff starts_with_iff)

lemma reads_pass_lines:
  assumes "\<forall>l\<in>set existing. CHR 0x0A \<notin> set l"
    and "reads_pass norm own writable c existing files base bf ready sp"
  obtains kept where "foreign kept" "foreign base"
    "getlines ready = base @ emitted_lines 0 0 (survivors writable c existing files) @ kept"
proof -
  let ?kept = "preservedReadyEvidenceLines norm existing own
      (filter (\<lambda>key. key \<noteq> []) (map readyLineKey
        (base @ io_readyLines (emitIssueProofs writable c existing files))))"
  have "foreign ?kept"
    by (rule diagnostic_foreign) (auto simp: list_all_iff dest: preserved_diagnostic)
  moreover have "getlines ready
      = base @ emitted_lines 0 0 (survivors writable c existing files) @ ?kept" "foreign base"
    using assms by (simp_all add: reads_pass_def readyFileLines_def Let_def emitted(1) [OF assms(1)])
  ultimately show ?thesis using that by blast
qed

lemma survivor_proven:
  assumes existing: "\<forall>l\<in>set existing. CHR 0x0A \<notin> set l"
    and pending: "readCommandSpecificSnapshotTables (files pendingFileName) = None"
    and reads: "reads_pass norm own writable c existing files base bf ready sp"
    and p: "p \<in> set (survivors writable c existing files)"
    and kind: "accepts_kind ready pf env sp (is_commandKind p)"
  shows "commandEvidenceProofIsProven bf ready pf env sp (proof_line (is_commandName p))
    (is_commandName p) (is_commandKind p)"
proof -
  note ok = survivors_ok [OF existing, where writable = writable and c = c and files = files]
  have okp: "issue_proof_ok p" and lp: "loaded files c p"
    using ok(1,3) p by (simp_all add: list_all_iff)
  have "\<exists>m. readCommandSpecificSnapshotTables (files (is_snapshotName p)) = Some m"
    using lp load_Some(7) unfolding loaded_def by blast
  with pending have notpending: "is_snapshotName p \<noteq> pendingFileName" by auto
  obtain kept where lines: "foreign base"
      "getlines ready = base @ emitted_lines 0 0 (survivors writable c existing files) @ kept"
    using reads_pass_lines [OF existing reads] by blast
  have named: "readReadyValue ready (commandSpecificSnapshotKey (is_commandName p)) = is_snapshotName p"
    by (rule emitted_snapshot_value [OF lines(2,1) ok(5,2) p])
  have "proof_line (is_commandName p) \<in> set (emitted_lines u a ps)" if "p \<in> set ps" for u a ps
    using that by (induction u a ps rule: emitted_lines.induct) (auto simp: proof_lines_def)
  then have line: "fileContainsLine ready (proof_line (is_commandName p))"
    using p by (simp add: fileContainsLine_def lines)
  have contents: "bf_regular bf (is_snapshotName p)
      = Some (writeRefreshedCommandSpecificIssueSnapshot p c)"
    using reads emitted(2) [OF existing p notpending] by (simp add: reads_pass_def)
  have "writeRefreshedCommandSpecificIssueSnapshot p c \<noteq> []"
    by (simp add: writeRefreshedCommandSpecificIssueSnapshot_def snapshot_metadata_rows_def)
  then have snapshot: "readySnapshot bf ready (commandSpecificSnapshotKey (is_commandName p))
      = Some (writeRefreshedCommandSpecificIssueSnapshot p c)"
    using reads contents named snapshot_name_relative okp
    by (auto simp: readySnapshot_def reads_pass_def issue_proof_ok_def Let_def
        split: option.split option.split_asm)
  have "proof_line (is_commandName p) = commandSpecificProofLine (is_commandName p)"
    by (simp add: proof_line_def commandSpecificProofLine_def issueProofPrefix_def)
  then show ?thesis
    using kind line snapshot payload_accepted [OF okp] metadata_accepted [OF okp] reads
    by (simp add: commandEvidenceProofIsProven_def accepts_kind_def reads_pass_def)
qed


lemma those_Some: "those (map (Some \<circ> f) xs) = Some (map f xs)"
  by (induction xs) simp_all

lemma promoted_rows:
  assumes existing: "\<forall>l\<in>set existing. CHR 0x0A \<notin> set l"
    and pending: "readCommandSpecificSnapshotTables (files pendingFileName) = None"
    and reads: "reads_pass norm own writable c existing files base bf ready sp"
    and rows: "evidence_rows prefix (getlines ready) = Some (map (live_evidence \<circ> is_commandName) ps)"
    and ps: "set ps \<subseteq> set (survivors writable c existing files)" "distinct (map is_commandName ps)"
      "\<forall>p\<in>set ps. is_commandKind p = kind \<and> is_commandName p \<in> set names"
    and kind: "accepts_kind ready pf env sp kind"
  shows "readProofBackedLiveCommandEvidence bf ready prefix names kind env pf sp
    = map (live_evidence \<circ> is_commandName) ps"
proof -
  have names: "map ev_name (map (live_evidence \<circ> is_commandName) ps) = map is_commandName ps"
    by (simp add: live_evidence_def)
  have "commandEvidenceProofIsProven bf ready pf env sp (proof_line (is_commandName p)) (is_commandName p) kind"
    if "p \<in> set ps" for p
    using survivor_proven [where p = p, OF existing pending reads] kind ps that by auto
  then show ?thesis
    using ps(2,3)
    unfolding readProofBackedLiveCommandEvidence_def liveRows_exact rows option.case names
    by (auto simp: list_all_iff live_evidence_def)
qed

lemma survivors_in_surface:
  assumes "\<forall>l\<in>set existing. CHR 0x0A \<notin> set l" "p \<in> set (survivors writable c existing files)"
  shows "is_unit_proof p \<Longrightarrow> is_commandKind p = ''unit-command'' \<and> is_commandName p \<in> set unitCommandNames"
    "\<not> is_unit_proof p \<Longrightarrow> is_commandKind p = ''game-action'' \<and> is_commandName p \<in> set gameActionNames"
proof -
  have "issue_proof_ok p"
    using survivors_ok(1) [OF assms(1)] assms(2) by (auto simp: list_all_iff)
  then show "is_unit_proof p \<Longrightarrow> is_commandKind p = ''unit-command'' \<and> is_commandName p \<in> set unitCommandNames"
    "\<not> is_unit_proof p \<Longrightarrow> is_commandKind p = ''game-action'' \<and> is_commandName p \<in> set gameActionNames"
    by (auto simp: issue_proof_ok_def is_unit_proof_def in_surface_def contains_iff)
qed

definition demo_directory :: "string \<Rightarrow> string option" where
  "demo_directory n =
     (if n = ''Stop.tsv'' then Some (writeRefreshedCommandSpecificIssueSnapshot demo_proof (demo_context 3))
      else if n = pendingFileName then Some (text_of
        [join_on (CHR 0x09) [''command'', ''command_kind'', ''snapshot''],
         join_on (CHR 0x09) [''Stop'', ''unit-command'', ''Stop.tsv'']])
      else None)"

definition demo_base :: "string list" where
  "demo_base =
    [''executor=starcraft-api-resident-adapter'', ''resident.adapter=active'',
     ''resident.adapter.abi=starcraft-api-resident-adapter-v1'', ''command.receiver=active'',
     ''command.sink=runtime-command-queue-v1'', ''process_id=77'', ''executable=/game'',
     ''resident.adapter.process_id=77'', ''resident.adapter.heartbeat=5'',
     ''proof.attach=passed'', ''proof.read_game_state=passed'', ''proof.read_units=passed'',
     ''proof.active_match_state=passed'', ''resident.proof.active_match.source=resident'',
     ''resident.proof.active_match.mode=melee'', ''resident.proof.active_match.process_id=77'',
     ''resident.proof.active_match.heartbeat=5'',
     ''resident.proof.active_match.unit_activity_count=4'']"

definition demo_pass :: issue_output where
  "demo_pass = emitIssueProofs (\<lambda>_. True) (demo_context 5) [] demo_directory"

definition demo_ready :: string where
  "demo_ready = text_of (demo_base @ io_readyLines demo_pass)"

definition demo_files :: bridge_files where
  "demo_files =
     \<lparr>bf_regular = io_files demo_pass, bf_canonical = (\<lambda>n. Some ([''bridge''] @ [n])),
      bf_directory = Some [''bridge'']\<rparr>"

definition demo_preflight :: preflight_result where
  "demo_preflight = default_preflight\<lparr>pf_executorBridgeMode := BridgeValidatedAdapterMode\<rparr>"

definition demo_environment :: runtime_environment where
  "demo_environment =
     \<lparr>env_platform = Linux, env_product = StarCraftRemastered, env_version = ''1'',
      env_processId = 77, env_executablePath = ''/game'', env_manifestPath = [],
      env_executorBridgePath = ''bridge''\<rparr>"

definition demo_state_proof :: state_proof where
  "demo_state_proof =
     \<lparr>sp_readGameStateProofPresent = True, sp_activeMatchProofPresent = True,
      sp_readGameStateValid = True, sp_activeMatchValid = True,
      sp_samples = [\<lparr>ss_frame = 10, ss_tick = 1\<rparr>, \<lparr>ss_frame = 14, ss_tick = 2\<rparr>],
      sp_activeUnitCount = 4, sp_activeMatchMode = ''melee'', sp_errors = []\<rparr>"

section \<open>Properties\<close>

lemma unaccepted_none:
  assumes "\<not> accepts_kind ready pf env sp kind"
  shows "readProofBackedLiveCommandEvidence bf ready prefix names kind env pf sp = []"
proof -
  have "\<not> commandEvidenceProofIsProven bf ready pf env sp detail n kind" for detail n
    using assms by (auto simp: commandEvidenceProofIsProven_def accepts_kind_def)
  then show ?thesis
    using readProofBacked_sound(3) by (metis last_in_set)
qed

lemma pass_rows:
  assumes "\<forall>l\<in>set existing. CHR 0x0A \<notin> set l"
    and "reads_pass norm own writable c existing files base bf ready sp"
  shows "evidence_rows unitPrefix (getlines ready)
      = Some (map (live_evidence \<circ> is_commandName) (unit_proofs writable c existing files))"
    "evidence_rows actionPrefix (getlines ready)
      = Some (map (live_evidence \<circ> is_commandName) (action_proofs writable c existing files))"
proof -
  obtain kept where kept: "foreign kept" "foreign base"
      "getlines ready = base @ emitted_lines 0 0 (survivors writable c existing files) @ kept"
    using reads_pass_lines [OF assms] .
  then show "evidence_rows unitPrefix (getlines ready)
      = Some (map (live_evidence \<circ> is_commandName) (unit_proofs writable c existing files))"
    "evidence_rows actionPrefix (getlines ready)
      = Some (map (live_evidence \<circ> is_commandName) (action_proofs writable c existing files))"
    using emitted_rows [OF survivors_ok(5) [OF assms(1)]] foreign_rows [OF kept(1)]
      foreign_rows [OF kept(2)] those_Some [where f = "live_evidence \<circ> is_commandName"]
    by (simp_all add: evidence_rows_def kept(3) map_filter_append unit_proofs_def action_proofs_def
        comp_assoc)
qed

text \<open>
  C7. The adapter and the backend agree on live evidence. Take a heartbeat pass over the lines of
  any earlier ready file and any pending file (that is not itself a snapshot), and a backend that
  reads the bridge directory the pass leaves: other lines of the pass carry no proof and no row,
  earlier diagnostic lines are kept behind the proofs, the files lie in the bridge directory under their
  own names, the ready file names the process and the heartbeat of the pass (positive 64-bit numbers, as
  its frame is, of a correlated match), and the backend's state proof has samples that span that frame. Then for each kind of
  command the backend either refuses the kind as a whole (its own preflight, the process of its
  environment or the context lines of the ready file fail, \<open>accepts_kind\<close>) and promotes nothing, or it
  promotes exactly the commands of the issue proofs the pass kept: declared in the command surface and
  written back. Each is promoted under its own name, kind and proof line, in the order emitted, and
  none is lost or discarded as a malformed or duplicate row.
\<close>

theorem emitted_proofs_promote:
  assumes "\<forall>l\<in>set existing. CHR 0x0A \<notin> set l"
    and "readCommandSpecificSnapshotTables (files pendingFileName) = None"
    and "reads_pass norm own writable c existing files base bf ready sp"
  shows "readProofBackedLiveCommandEvidence bf ready unitPrefix unitCommandNames ''unit-command'' env pf sp
      = (if accepts_kind ready pf env sp ''unit-command''
         then map (live_evidence \<circ> is_commandName) (unit_proofs writable c existing files) else [])
    \<and> readProofBackedLiveCommandEvidence bf ready actionPrefix gameActionNames ''game-action'' env pf sp
      = (if accepts_kind ready pf env sp ''game-action''
         then map (live_evidence \<circ> is_commandName) (action_proofs writable c existing files) else [])"
proof -
  note ok = survivors_ok [OF assms(1), where writable = writable and c = c and files = files]
  note rows = pass_rows [OF assms(1,3)]
  have dist: "distinct (map is_commandName (filter P (survivors writable c existing files)))" for P
    using ok(2) by (simp add: distinct_names_def distinct_map_filter)
  note promoted = promoted_rows [OF assms(1-3)]
  have units: "\<forall>p\<in>set (unit_proofs writable c existing files).
      is_commandKind p = ''unit-command'' \<and> is_commandName p \<in> set unitCommandNames"
    and actions: "\<forall>p\<in>set (action_proofs writable c existing files).
      is_commandKind p = ''game-action'' \<and> is_commandName p \<in> set gameActionNames"
    using survivors_in_surface [OF assms(1)] by (auto simp: unit_proofs_def action_proofs_def)
  show ?thesis
    using promoted [OF rows(1) _ _ units] promoted [OF rows(2) _ _ actions] dist unaccepted_none
    by (auto simp: unit_proofs_def action_proofs_def)
qed

lemma demo_snapshot:
  "demo_directory ''Stop.tsv''
    = Some (writeRefreshedCommandSpecificIssueSnapshot demo_proof (demo_context 3))"
  by (simp add: demo_directory_def)

lemma demo_load:
  "loadCommandSpecificIssueProofSnapshot demo_directory 77 5 ''Stop'' ''unit-command'' ''Stop.tsv''
    = Some (refreshed demo_proof)"
  using reload [OF demo_proof_ok, of "demo_context 3" 5 demo_directory] demo_snapshot
  by (simp add: demo_proof_def demo_context_def context_ok_def)

lemma demo_pass_proofs:
  "pass_proofs (demo_context 5) [] demo_directory = [refreshed demo_proof]"
proof -
  have "demo_directory pendingFileName = Some (text_of
        [join_on (CHR 0x09) [''command'', ''command_kind'', ''snapshot''],
         join_on (CHR 0x09) [''Stop'', ''unit-command'', ''Stop.tsv'']])"
    by (simp add: demo_directory_def pendingFileName_def)
  moreover have "splitString (join_on (CHR 0x09) [''Stop'', ''unit-command'', ''Stop.tsv'']) (CHR 0x09)
      = [''Stop'', ''unit-command'', ''Stop.tsv'']"
    by code_simp
  ultimately show ?thesis
    using demo_load
    by (simp add: pass_proofs_def readPendingCommandSpecificIssueProofs_def mergeIssueProofs_def
        readReadyCommandSpecificIssueProofs_def demo_context_def Let_def)
qed

lemma demo_survivors:
  "survivors (\<lambda>_. True) (demo_context 5) [] demo_directory = [refreshed demo_proof]"
  "is_unit_proof (refreshed demo_proof)"
proof -
  have "in_surface makeBWAPICommandSurface ''unit-command'' ''Stop''" by code_simp
  then show "survivors (\<lambda>_. True) (demo_context 5) [] demo_directory = [refreshed demo_proof]"
    by (simp add: survivors_def demo_pass_proofs survives_def) (simp add: demo_proof_def)
  show "is_unit_proof (refreshed demo_proof)" by (simp add: is_unit_proof_def) (simp add: demo_proof_def)
qed

lemma demo_lines: "io_readyLines demo_pass = proof_lines 0 0 demo_proof"
  unfolding demo_pass_def
  by (simp add: emitted(1) demo_survivors) (simp add: proof_lines_def is_unit_proof_def)

lemma demo_ready_text: "demo_ready = text_of (demo_base @ proof_lines 0 0 demo_proof)"
  by (simp add: demo_ready_def demo_lines)

lemma demo_directory_ok:
  "readCommandSpecificSnapshotTables (demo_directory pendingFileName) = None"
  by code_simp

definition demo_all :: "string list" where
  "demo_all = demo_base @ proof_lines 0 0 demo_proof"

lemma demo_getlines: "getlines demo_ready = demo_all"
proof -
  have "list_all (\<lambda>l. CHR 0x0A \<notin> set l) demo_all" by code_simp
  from getlines_text_of [OF this] show ?thesis by (simp only: demo_ready_text demo_all_def)
qed

definition line_value :: "string \<Rightarrow> string \<Rightarrow> bool" where
  "line_value k v = (List.find (\<lambda>l. starts_with l (k @ ''='')) demo_all = Some (k @ ''='' @ v))"

lemma demo_value: "line_value k v \<Longrightarrow> readReadyValue demo_ready k = v"
  by (simp add: line_value_def readReadyValue_def Let_def demo_getlines)

lemma demo_number:
  "line_value k v \<Longrightarrow> parseUnsignedReadyValue demo_ready k = parseUnsignedString v"
  by (simp add: parseUnsignedReadyValue_def demo_value)

lemma demo_values:
  "line_value ''executor'' ''starcraft-api-resident-adapter''" "line_value ''resident.adapter'' ''active''"
  "line_value ''resident.adapter.abi'' ''starcraft-api-resident-adapter-v1''"
  "line_value ''process_id'' ''77''" "line_value ''executable'' ''/game''"
  "line_value ''resident.adapter.process_id'' ''77''" "line_value ''resident.adapter.heartbeat'' ''5''"
  "line_value ''resident.proof.active_match.source'' ''resident''"
  "line_value ''resident.proof.active_match.mode'' ''melee''"
  "line_value ''resident.proof.active_match.process_id'' ''77''"
  "line_value ''resident.proof.active_match.heartbeat'' ''5''"
  "line_value ''resident.proof.active_match.unit_activity_count'' ''4''"
  by code_simp+

lemma demo_numbers:
  "parseUnsignedString ''77'' = Some 77" "parseUnsignedString ''5'' = Some 5"
  "parseUnsignedString ''4'' = Some 4"
  by code_simp+

lemma demo_contains:
  "list_all (\<lambda>l. l \<in> set demo_all)
    [''command.receiver=active'', ''command.sink=runtime-command-queue-v1'', ''proof.attach=passed'',
     ''proof.read_game_state=passed'', ''proof.active_match_state=passed'', ''proof.read_units=passed'']"
  by code_simp

lemma demo_accepts:
  "accepts_kind demo_ready demo_preflight demo_environment demo_state_proof kind"
proof -
  have "readyFileHasValidatedActiveMatchContext demo_ready"
    using demo_contains
    by (simp add: readyFileHasValidatedActiveMatchContext_def fileContainsLine_def demo_getlines
        demo_value [OF demo_values(8)] demo_value [OF demo_values(9)] demo_number [OF demo_values(4)]
        demo_number [OF demo_values(7)] demo_number [OF demo_values(10)]
        demo_number [OF demo_values(11)] demo_number [OF demo_values(12)] demo_numbers number_is_def)
  then have "readyFileHasCommandSpecificEvidenceContext demo_ready kind demo_state_proof"
    using demo_contains
    by (simp add: readyFileHasCommandSpecificEvidenceContext_def fileContainsLine_def demo_getlines
        demo_value [OF demo_values(1)] demo_value [OF demo_values(2)] demo_value [OF demo_values(3)]
        demo_state_proof_def)
  moreover have "readyFileMatchesEnvironmentProcess demo_ready demo_environment"
    by (simp add: readyFileMatchesEnvironmentProcess_def demo_number [OF demo_values(4)] demo_numbers
        demo_value [OF demo_values(5)] demo_environment_def Let_def)
  moreover have "preflightSupportsCommandSpecificEvidence demo_preflight kind"
    by (simp add: preflightSupportsCommandSpecificEvidence_def preflightHasValidatedProof_def
        demo_preflight_def default_preflight_def)
  ultimately show ?thesis by (simp add: accepts_kind_def)
qed

lemma demo_reads:
  "reads_pass id demo_environment (\<lambda>_. True) (demo_context 5) [] demo_directory demo_base demo_files
     demo_ready demo_state_proof"
proof -
  have "getlines demo_ready = readyFileLines id demo_environment [] demo_base demo_pass"
    by (simp add: demo_getlines demo_all_def demo_lines readyFileLines_def Let_def
        preservedReadyEvidenceLines_def)
  moreover have "foreign demo_base" by code_simp
  moreover have "context_ok (demo_context 5)" by (simp add: demo_context_ok)
  ultimately show ?thesis
    by (simp add: reads_pass_def demo_pass_def [symmetric] demo_number [OF demo_values(6)]
        demo_number [OF demo_values(7)] demo_numbers)
      (simp add: demo_files_def demo_context_def demo_state_proof_def)
qed

theorem emitted_proofs_promote_witness:
  "readProofBackedLiveCommandEvidence demo_files demo_ready unitPrefix unitCommandNames
     ''unit-command'' demo_environment demo_preflight demo_state_proof = [live_evidence ''Stop'']"
proof -
  have "readProofBackedLiveCommandEvidence demo_files demo_ready unitPrefix unitCommandNames
      ''unit-command'' demo_environment demo_preflight demo_state_proof
      = map (live_evidence \<circ> is_commandName)
          (unit_proofs (\<lambda>_. True) (demo_context 5) [] demo_directory)"
    using emitted_proofs_promote [OF _ demo_directory_ok demo_reads] demo_accepts by simp
  then show ?thesis by (simp add: unit_proofs_def demo_survivors) (simp add: demo_proof_def)
qed

text \<open>
  The reader of live evidence rows is all or nothing: taking the rows of its prefix, it returns
  them all, in order, when every one is well formed, acceptable and of a different command, and
  nothing at all when a single one is not.
\<close>

theorem live_rows_all_or_nothing:
  "readProofBackedLiveCommandEvidence files ready keyPrefix names kind env pf sp
     = (case evidence_rows keyPrefix (getlines ready) of
          None \<Rightarrow> []
        | Some es \<Rightarrow>
            if list_all (\<lambda>e. ev_status e = LiveProven \<and> ev_name e \<in> set names
                   \<and> commandEvidenceProofIsProven files ready pf env sp (ev_detail e) (ev_name e)
                       kind) es
              \<and> distinct (map ev_name es)
            then es else [])"
  unfolding readProofBackedLiveCommandEvidence_def liveRows_exact
  by (simp split: option.split)

text \<open>
  C8. Promotion is per command: after merging the live rows of a (named) kind into evidence that was not live, a
  command is live proven exactly when it was declared and has a row. Every row stands on the
  command's own proof: the bridge is in validated-adapter mode, the ready file holds the passed line
  of that command and the line naming its snapshot, which is a regular file inside the bridge directory.
  The text of that file names the command and its kind in its metadata and in its table, has the
  rows of a delivered, behaviour-checked command with its counters, addresses and frame deltas, and its process, heartbeat
  and frame are those of the ready file and of the state proof (\<open>own_snapshot\<close>).
\<close>

theorem promotion_needs_own_snapshot:
  assumes "list_all (\<lambda>e. ev_status e \<noteq> LiveProven) target" and "kind \<noteq> []"
    and "live = readProofBackedLiveCommandEvidence files ready keyPrefix names kind env pf sp"
    and "merged = mergeLiveCommandEvidence target live"
  shows "map ev_name merged = map ev_name target
   \<and> (commandEvidenceStatusFor merged n = LiveProven)
       = (n \<in> ev_name ` set target \<and> n \<in> ev_name ` set live)
   \<and> (\<forall>e\<in>set live. pf_executorBridgeMode pf = BridgeValidatedAdapterMode
       \<and> ev_detail e = ''proof.issue_commands.command.'' @ ev_name e @ ''=passed''
       \<and> own_snapshot files ready sp kind (ev_name e))"
proof (intro conjI)
  show "map ev_name merged = map ev_name target" using assms(4) by simp
  have "distinct (map ev_name live)" using readProofBacked_distinct assms(3) by simp
  note find = merge_find [OF this, of n target]
  have live: "e \<in> set live \<Longrightarrow> ev_status e = LiveProven" for e
    using readProofBacked_sound(1) assms(3) by blast
  have old: "e \<in> set target \<Longrightarrow> ev_status e \<noteq> LiveProven" for e
    using assms(1) by (auto simp: list_all_iff)
  have mem: "n \<in> ev_name ` set xs \<longleftrightarrow> List.find (\<lambda>x. ev_name x = n) xs \<noteq> None"
    for xs :: "command_evidence list"
    by (auto simp: find_None_iff)
  show "(commandEvidenceStatusFor merged n = LiveProven)
       = (n \<in> ev_name ` set target \<and> n \<in> ev_name ` set live)"
    unfolding mem
    by (auto simp: commandEvidenceStatusFor_def assms(4) find live old
        dest!: find_Some_mem split: option.splits)
  show "\<forall>e\<in>set live. pf_executorBridgeMode pf = BridgeValidatedAdapterMode
       \<and> ev_detail e = ''proof.issue_commands.command.'' @ ev_name e @ ''=passed''
       \<and> own_snapshot files ready sp kind (ev_name e)"
  proof
    fix e
    assume "e \<in> set live"
    then have e: "e \<in> set (readProofBackedLiveCommandEvidence files ready keyPrefix names kind env pf sp)"
      by (simp only: assms(3))
    from proven_own_snapshot [OF readProofBacked_sound(3) [OF e] live_named [OF e] assms(2)]
    show "pf_executorBridgeMode pf = BridgeValidatedAdapterMode
       \<and> ev_detail e = ''proof.issue_commands.command.'' @ ev_name e @ ''=passed''
       \<and> own_snapshot files ready sp kind (ev_name e)"
      by blast
  qed
qed

lemma demo_live_rows:
  "readProofBackedLiveCommandEvidence demo_files demo_ready unitPrefix unitCommandNames
     ''unit-command'' demo_environment demo_preflight demo_state_proof = [live_evidence ''Stop'']"
proof -
  have "evidence_rows unitPrefix (getlines demo_ready)
      = Some (map (live_evidence \<circ> is_commandName) [refreshed demo_proof])"
    unfolding demo_getlines by code_simp
  moreover have "\<forall>p\<in>set [refreshed demo_proof].
      is_commandKind p = ''unit-command'' \<and> is_commandName p \<in> set unitCommandNames"
    using survivors_in_surface(1) [of "[]" "refreshed demo_proof" "\<lambda>_. True" "demo_context 5" demo_directory]
      demo_survivors by simp
  ultimately show ?thesis
    using promoted_rows [OF _ demo_directory_ok demo_reads, of unitPrefix "[refreshed demo_proof]"]
      demo_survivors(1) demo_accepts
    by simp (simp add: demo_proof_def)
qed

definition demo_target :: "command_evidence list" where
  "demo_target = [makeEvidence ''Move'' MockTested ''encoder'', makeEvidence ''Stop'' MockTested ''encoder'']"

theorem promotion_needs_own_snapshot_witness:
  "commandEvidenceStatusFor (mergeLiveCommandEvidence demo_target
       (readProofBackedLiveCommandEvidence demo_files demo_ready unitPrefix unitCommandNames
         ''unit-command'' demo_environment demo_preflight demo_state_proof)) ''Stop'' = LiveProven
   \<and> commandEvidenceStatusFor (mergeLiveCommandEvidence demo_target
       (readProofBackedLiveCommandEvidence demo_files demo_ready unitPrefix unitCommandNames
         ''unit-command'' demo_environment demo_preflight demo_state_proof)) ''Move'' \<noteq> LiveProven
   \<and> own_snapshot demo_files demo_ready demo_state_proof ''unit-command'' ''Stop''"
proof -
  have "list_all (\<lambda>e. ev_status e \<noteq> LiveProven) demo_target"
    by (simp add: demo_target_def makeEvidence_def)
  note merged = promotion_needs_own_snapshot [OF this _ refl refl, where files = demo_files
      and ready = demo_ready and keyPrefix = unitPrefix and names = unitCommandNames
      and kind = "''unit-command''" and env = demo_environment and pf = demo_preflight
      and sp = demo_state_proof, unfolded demo_live_rows]
  have "ev_name ` set demo_target = {''Move'', ''Stop''}"
    "ev_name ` set [live_evidence ''Stop''] = {''Stop''}"
    by (simp_all add: demo_target_def makeEvidence_def live_evidence_def)
  then show ?thesis
    using merged [of "''Stop''"] merged [of "''Move''"] unfolding demo_live_rows by simp
qed

end
