(* ===== verification/Resident_Bridge.thy ===== *)
theory Resident_Bridge
  imports Live_Evidence Command_Submission Backends
begin

text \<open>
  The ready file of the resident adapter as \<open>RuntimeResidentBridge.cpp\<close> validates it: the identity
  lines, the metadata of the three queues, and the state proofs with their live re-reading of the
  process. \<open>bridge_world\<close> holds what the operating system answers during one call; a file is read
  as the same text each time it is opened within the call.
\<close>

section \<open>The surroundings of a call\<close>

datatype path_status = PathMissing | PathPresent | PathError string

text \<open>
  \<open>w_files\<close> and \<open>w_bytes\<close> are the files below the bridge directory by relative path, times are
  nanoseconds of the file clock, \<open>w_read\<close> reads the memory of a process and \<open>w_resample\<close> gives the
  results of the four-byte reads made every 50 ms until the deadline of 750 ms.
\<close>

record bridge_world =
  w_ready :: "string option"
  w_readyModified :: "int option"
  w_now :: int
  w_files :: bridge_files
  w_bytes :: "string \<Rightarrow> queue_file"
  w_bridgeExists :: bool
  w_bridgeIsDirectory :: bool
  w_processExists :: "int \<Rightarrow> bool"
  w_process :: process_open_result
  w_memoryAccess :: "bool \<times> string"
  w_read :: "int \<Rightarrow> u64 \<Rightarrow> nat \<Rightarrow> memory_read"
  w_resample :: "int \<Rightarrow> u64 \<Rightarrow> memory_read list"
  w_normalizePath :: "string \<Rightarrow> string"
  w_executable :: path_status
  w_manifest :: "string option"

text \<open>The text of the ready file; a stream on a missing file yields no line.\<close>

definition ready_text :: "bridge_world \<Rightarrow> string" where
  "ready_text w = (case w_ready w of None \<Rightarrow> [] | Some t \<Rightarrow> t)"

section \<open>Values\<close>

definition readyKeyCount :: "string \<Rightarrow> string \<Rightarrow> nat" where
  "readyKeyCount ready key =
     length (filter (\<lambda>line. starts_with line (key @ ''='')) (getlines ready))"

definition parseUnsigned :: "string \<Rightarrow> nat option" where
  "parseUnsigned value =
     (case stoull value of
        None \<Rightarrow> None
      | Some (number, consumed) \<Rightarrow> if consumed \<noteq> length value then None else Some number)"

text \<open>The stored \<open>int\<close> of a \<open>long\<close>, truncated, and whether it is the same number.\<close>

definition to_int32 :: "int \<Rightarrow> int" where
  "to_int32 n = (n + 2 ^ 31) mod 2 ^ 32 - 2 ^ 31"

definition parseSignedInt :: "string \<Rightarrow> int \<Rightarrow> bool \<times> int" where
  "parseSignedInt value parsed =
     (case stol value of
        None \<Rightarrow> (False, parsed)
      | Some (number, consumed) \<Rightarrow>
          if consumed \<noteq> length value then (False, parsed)
          else (to_int32 number = number, to_int32 number))"

definition parseAddress :: "string \<Rightarrow> nat option" where
  "parseAddress value =
     (case parseUnsigned value of
        None \<Rightarrow> None
      | Some number \<Rightarrow> if number = 0 then None else Some number)"

definition readLittleU32 :: "u8 list \<Rightarrow> u32" where
  "readLittleU32 bytes = (if length bytes < 4 then 0 else readU32LE bytes)"

text \<open>The list parsed so far is kept when an item is malformed.\<close>

fun parseItems :: "string list \<Rightarrow> nat list \<Rightarrow> bool \<times> nat list" where
  "parseItems [] parsed = (parsed \<noteq> [], parsed)"
| "parseItems (item # items) parsed =
     (case parseUnsigned item of
        None \<Rightarrow> (False, parsed)
      | Some number \<Rightarrow> parseItems items (parsed @ [number]))"

definition parseUnsignedList :: "string \<Rightarrow> bool \<times> nat list" where
  "parseUnsignedList value =
     (if value = [] then (False, []) else parseItems (getlines_by (CHR '','') value) [])"

fun strictlyIncreasing :: "nat list \<Rightarrow> bool" where
  "strictlyIncreasing (a # b # ns) = (if b \<le> a then False else strictlyIncreasing (b # ns))"
| "strictlyIncreasing _ = True"

section \<open>Keys given twice\<close>

definition line_key :: "string \<Rightarrow> string option" where
  "line_key line = map_option fst (split_at (CHR ''='') line)"

text \<open>The first key selected by \<open>P\<close> that an earlier line has too.\<close>

fun duplicate_key :: "(string \<Rightarrow> bool) \<Rightarrow> string list \<Rightarrow> string list \<Rightarrow> string option" where
  "duplicate_key P seen [] = None"
| "duplicate_key P seen (line # ls) =
     (case line_key line of
        None \<Rightarrow> duplicate_key P seen ls
      | Some key \<Rightarrow>
          if \<not> P key then duplicate_key P seen ls
          else if key \<in> set seen then Some key
          else duplicate_key P (key # seen) ls)"

definition hasDuplicateReadyKeyWithPrefix :: "string \<Rightarrow> string \<Rightarrow> string option" where
  "hasDuplicateReadyKeyWithPrefix ready prefix =
     duplicate_key (\<lambda>key. starts_with key prefix) [] (getlines ready)"

definition hasDuplicateResidentStateProofKey :: "string \<Rightarrow> string option" where
  "hasDuplicateResidentStateProofKey ready =
     (case List.find (\<lambda>key. readyKeyCount ready key > 1)
         [''proof.read_game_state'', ''proof.active_match_state''] of
        Some key \<Rightarrow> Some key
      | None \<Rightarrow>
          (case hasDuplicateReadyKeyWithPrefix ready ''resident.proof.'' of
             Some key \<Rightarrow> Some key
           | None \<Rightarrow>
               (case hasDuplicateReadyKeyWithPrefix ready ''proof.read_game_state.'' of
                  Some key \<Rightarrow> Some key
                | None \<Rightarrow> hasDuplicateReadyKeyWithPrefix ready ''proof.active_match_state.'')))"

section \<open>Queue metadata\<close>

definition path_text :: "string list \<Rightarrow> string" where
  "path_text ps = concat (map (\<lambda>p. CHR ''/'' # p) ps)"

text \<open>The text of the canonical path inside the bridge directory.\<close>

definition resolveContainedReadyRelativePath :: "bridge_files \<Rightarrow> string \<Rightarrow> string option" where
  "resolveContainedReadyRelativePath files value =
     (if value = [] \<or> is_absolute value then None
      else case bf_directory files of
        None \<Rightarrow> None
      | Some bridgeDirectory \<Rightarrow>
          (case bf_canonical files value of
             None \<Rightarrow> None
           | Some canonicalResolved \<Rightarrow>
               if \<not> pathIsWithinDirectory bridgeDirectory canonicalResolved then None
               else Some (path_text canonicalResolved)))"

definition queue_fields :: "queue_header \<Rightarrow> (string \<times> nat) list" where
  "queue_fields header =
     [(''record_bytes'', unat (qh_recordBytes header)),
      (''capacity_records'', unat (qh_capacityRecords header)),
      (''write_sequence'', unat (qh_writeSequence header)),
      (''read_sequence'', unat (qh_readSequence header))]"

definition field_errors :: "string \<Rightarrow> queue_kind \<Rightarrow> string \<Rightarrow> string \<times> nat \<Rightarrow> string list" where
  "field_errors ready kind label field =
     (let key = residentQueueReadyKey kind (fst field); raw = readReadyValue ready key in
      error_if (raw \<noteq> [] \<and> parseUnsigned raw \<noteq> Some (snd field))
        (''resident '' @ label @ '' queue ready metadata does not match queue header: '' @ key))"

definition heartbeat_errors :: "string \<Rightarrow> queue_kind \<Rightarrow> string \<Rightarrow> queue_header \<Rightarrow> string list" where
  "heartbeat_errors ready kind label header =
     (let key = residentQueueReadyKey kind ''heartbeat''; raw = readReadyValue ready key in
      if raw = [] then []
      else case parseUnsigned raw of
        None \<Rightarrow>
          [''resident '' @ label @ '' queue ready metadata does not match queue header: '' @ key]
      | Some readyHeartbeat \<Rightarrow>
          error_if (unat (qh_heartbeat header) < readyHeartbeat)
            (''resident '' @ label @ '' queue header heartbeat is older than ready metadata: '' @ key))"

definition queue_suffixes :: "string list" where
  "queue_suffixes =
     [''path'', ''record_bytes'', ''capacity_records'', ''write_sequence'', ''read_sequence'',
      ''heartbeat'']"

definition validateOptionalResidentQueue ::
  "bridge_world \<Rightarrow> queue_kind \<Rightarrow> string \<Rightarrow> bridge_options \<Rightarrow> string list" where
  "validateOptionalResidentQueue w kind label options =
     (let ready = ready_text w;
          queuePathValue = readReadyValue ready (residentQueueReadyKey kind ''path'') in
      if queuePathValue = [] then []
      else concat (map (\<lambda>suffix. let key = residentQueueReadyKey kind suffix in
              error_if (readyKeyCount ready key > 1)
                (''resident adapter ready file has duplicate key: '' @ key)) queue_suffixes)
        @ (case resolveContainedReadyRelativePath (w_files w) queuePathValue of
             None \<Rightarrow>
               [''resident '' @ label @ '' queue path must be relative and inside the bridge directory'']
           | Some queuePath \<Rightarrow>
               (case readResidentQueueHeaderFile queuePath (w_bytes w queuePathValue) of
                  Inl e \<Rightarrow> [e]
                | Inr header \<Rightarrow>
                    map (\<lambda>queueError. ''resident '' @ label @ '' queue invalid: '' @ queueError)
                      (qv_errors (validateRuntimeResidentQueueHeader header (kind_code kind) options))
                    @ concat (map (field_errors ready kind label) (queue_fields header))
                    @ heartbeat_errors ready kind label header)))"

section \<open>The adapter's identity\<close>

record bridge_validation =
  bv_valid :: bool
  bv_present :: bool
  bv_active :: bool
  bv_abi :: string
  bv_heartbeat :: nat
  bv_processId :: int
  bv_errors :: "string list"
  bv_warnings :: "string list"

definition default_bridge_validation :: bridge_validation where
  "default_bridge_validation =
     \<lparr>bv_valid = False, bv_present = False, bv_active = False, bv_abi = [], bv_heartbeat = 0,
      bv_processId = 0, bv_errors = [], bv_warnings = []\<rparr>"

definition ResidentAdapterAbi :: string where
  "ResidentAdapterAbi = ''starcraft-api-resident-adapter-v1''"

definition validateReadyFileFreshness :: "bridge_world \<Rightarrow> bridge_options \<Rightarrow> string list" where
  "validateReadyFileFreshness w options =
     (if bo_maximumReadyFileAgeMs options = 0 then []
      else case w_readyModified w of
        None \<Rightarrow> [''resident adapter ready file timestamp is unavailable'']
      | Some modified \<Rightarrow>
          error_if (modified + uint (bo_maximumReadyFileAgeMs options) * 1000000 < w_now w)
            ''resident adapter heartbeat file is stale'')"

definition identityKeys :: "string list" where
  "identityKeys =
     [''resident.adapter'', ''resident.adapter.abi'', ''resident.adapter.heartbeat'',
      ''resident.adapter.process_id'', ''product'', ''version'', ''process_id'', ''executable'']"

definition heartbeat_line_errors :: "string \<Rightarrow> bridge_options \<Rightarrow> string list" where
  "heartbeat_line_errors heartbeat options =
     (case parseUnsigned heartbeat of
        None \<Rightarrow> [''resident adapter heartbeat is missing or malformed'']
      | Some n \<Rightarrow> error_if (n < unat (bo_minimumHeartbeat options)) ''resident adapter heartbeat is stale'')"

definition process_line_errors :: "bridge_world \<Rightarrow> runtime_environment \<Rightarrow> bool \<times> int \<Rightarrow> string list" where
  "process_line_errors w environment parsed =
     (if \<not> fst parsed \<or> snd parsed \<le> 0
      then [''resident adapter process_id is missing or malformed'']
      else if env_processId environment > 0 \<and> snd parsed \<noteq> env_processId environment
      then [''resident adapter process_id does not match the selected runtime'']
      else error_if (\<not> w_processExists w (snd parsed))
             ''resident adapter process_id is not a live runtime process'')"

definition executable_line_errors :: "bridge_world \<Rightarrow> runtime_environment \<Rightarrow> string list" where
  "executable_line_errors w environment =
     (if env_executablePath environment = [] then []
      else let executable = readReadyValue (ready_text w) ''executable'' in
        error_if (executable = []
            \<or> w_normalizePath w executable \<noteq> w_normalizePath w (env_executablePath environment))
          ''resident adapter executable does not match the selected runtime'')"

definition validateRuntimeResidentBridgeReadyFile ::
  "bridge_world \<Rightarrow> runtime_environment \<Rightarrow> bridge_options \<Rightarrow> bridge_validation" where
  "validateRuntimeResidentBridgeReadyFile w environment options =
     (let ready = ready_text w; result = default_bridge_validation in
      if w_ready w = None
      then result\<lparr>bv_errors := [''resident adapter ready file does not exist'']\<rparr>
      else
        let state = readReadyValue ready ''resident.adapter'' in
        if state = []
        then result\<lparr>bv_valid := True, bv_active := False,
               bv_warnings := [''resident adapter lines are not present'']\<rparr>
        else
          let abi = readReadyValue ready ''resident.adapter.abi'';
              heartbeat = readReadyValue ready ''resident.adapter.heartbeat'';
              pid = parseSignedInt (readReadyValue ready ''resident.adapter.process_id'') 0;
              errors =
                concat (map (\<lambda>key. error_if (readyKeyCount ready key > 1)
                    (''resident adapter ready file has duplicate key: '' @ key)) identityKeys)
                @ validateReadyFileFreshness w options
                @ error_if (state \<noteq> ''active'') ''resident adapter state is not active''
                @ error_if (abi \<noteq> ResidentAdapterAbi) ''resident adapter ABI is unsupported''
                @ heartbeat_line_errors heartbeat options
                @ process_line_errors w environment pid
                @ error_if (readReadyValue ready ''product''
                      \<noteq> product_toString (env_product environment))
                    ''resident adapter product does not match the selected runtime''
                @ error_if (env_version environment \<noteq> []
                      \<and> readReadyValue ready ''version'' \<noteq> env_version environment)
                    ''resident adapter version does not match the selected runtime''
                @ executable_line_errors w environment
                @ validateOptionalResidentQueue w QCommand ''command'' options
                @ validateOptionalResidentQueue w QOverlay ''overlay'' options
                @ validateOptionalResidentQueue w QProof ''proof'' options
          in \<lparr>bv_valid = (errors = []), bv_present = True, bv_active = (state = ''active''),
              bv_abi = abi,
              bv_heartbeat = (case parseUnsigned heartbeat of None \<Rightarrow> 0 | Some n \<Rightarrow> n),
              bv_processId = snd pid, bv_errors = errors, bv_warnings = []\<rparr>)"

end
