(* ===== verification/Resident_State.thy ===== *)
theory Resident_State
  imports Resident_Bridge
begin

text \<open>
  The state proofs of \<open>RuntimeResidentBridge.cpp\<close>: samples of the frame counter and of the tick
  counter, the unit activity of an active match, each re-read in the memory of the live process;
  and the ready lines the library writes for them.
\<close>

section \<open>Frame samples\<close>

text \<open>The errors of a check and whether it passed.\<close>

type_synonym check = "bool \<times> string list"

definition pass :: check where "pass = (True, [])"
definition refuse :: "string \<Rightarrow> check" where "refuse e = (False, [e])"

definition parseProofProcessAndHeartbeat ::
  "string \<Rightarrow> string \<Rightarrow> bridge_validation \<Rightarrow> nat \<Rightarrow> check" where
  "parseProofProcessAndHeartbeat ready prefix resident maximumHeartbeatLag =
     (let pid = parseSignedInt (readReadyValue ready (prefix @ ''.process_id'')) 0;
          errors =
            (if \<not> fst pid \<or> snd pid \<le> 0 then [prefix @ '' process_id is missing or malformed'']
             else error_if (snd pid \<noteq> bv_processId resident)
                    (prefix @ '' process_id does not match the resident adapter''))
            @ (case parseUnsigned (readReadyValue ready (prefix @ ''.heartbeat'')) of
                 None \<Rightarrow> [prefix @ '' heartbeat is missing or malformed'']
               | Some heartbeat \<Rightarrow>
                   if heartbeat > (bv_heartbeat resident + 2) mod 2 ^ 64
                   then [prefix @ '' heartbeat is newer than the current resident adapter heartbeat'']
                   else error_if (heartbeat \<le> bv_heartbeat resident
                         \<and> bv_heartbeat resident - heartbeat > maximumHeartbeatLag)
                       (prefix @ '' heartbeat is too old for the current resident adapter heartbeat''))
      in (errors = [], errors))"

text \<open>The re-sampling loop: whether the counter advanced, and the last read.\<close>

definition full_read :: "memory_read \<Rightarrow> nat \<Rightarrow> bool" where
  "full_read r n \<longleftrightarrow> mr_success r \<and> mr_bytesRead r = n"

fun resample :: "u32 \<Rightarrow> memory_read list \<Rightarrow> memory_read \<Rightarrow> bool \<times> memory_read" where
  "resample currentFrame [] nextRead = (False, nextRead)"
| "resample currentFrame (r # rs) nextRead =
     (if \<not> full_read r 4 then (False, r)
      else if readLittleU32 (mr_bytes r) > currentFrame then (True, r)
      else resample currentFrame rs r)"

definition frames_in_range :: "nat list \<Rightarrow> bool" where
  "frames_in_range frames \<longleftrightarrow> frames \<noteq> [] \<and> last frames < 2 ^ 32"

definition validateReadGameStateLiveMemoryProof ::
  "bridge_world \<Rightarrow> int \<Rightarrow> nat list \<Rightarrow> check" where
  "validateReadGameStateLiveMemoryProof w processId frames =
     (case parseAddress (readReadyValue (ready_text w) ''proof.read_game_state.address'') of
        None \<Rightarrow> refuse ''resident read_game_state proof address is missing or malformed''
      | Some address \<Rightarrow>
          if \<not> frames_in_range frames
          then refuse ''resident read_game_state frame sample is outside u32 counter range''
          else let r = w_read w processId (word_of_nat address) 4 in
            if \<not> full_read r 4
            then refuse (if mr_reason r = []
              then ''resident read_game_state proof address could not be read from the selected process''
              else ''resident read_game_state proof address could not be read: '' @ mr_reason r)
            else let currentFrame = readLittleU32 (mr_bytes r) in
              if currentFrame < word_of_nat (last frames)
              then refuse ''resident read_game_state proof address no longer contains the sampled frame counter''
              else
                let (advanced, nextRead) =
                  resample currentFrame (w_resample w processId (word_of_nat address)) (read_failure [])
                in if advanced then pass
                   else if \<not> full_read nextRead 4
                   then refuse (if mr_reason nextRead = []
                     then ''resident read_game_state proof address could not be re-sampled from the selected process''
                     else ''resident read_game_state proof address could not be re-sampled: '' @ mr_reason nextRead)
                   else refuse ''resident read_game_state proof address did not advance during live re-sampling'')"

definition validateReadGameStateResidentSelfReadProof ::
  "bridge_world \<Rightarrow> int \<Rightarrow> nat list \<Rightarrow> check" where
  "validateReadGameStateResidentSelfReadProof w processId frames =
     (let ready = ready_text w in
      if readReadyValue ready ''resident.proof.read_game_state.validation'' \<noteq> ''resident-self-read-v1''
      then (False, [])
      else if parseAddress (readReadyValue ready ''proof.read_game_state.address'') = None
      then refuse ''resident read_game_state self-read proof address is missing or malformed''
      else if \<not> frames_in_range frames
      then refuse ''resident read_game_state self-read frame sample is outside u32 counter range''
      else if readReadyValue ready ''resident.proof.read_game_state.address_read'' \<noteq> ''resident-self''
      then refuse ''resident read_game_state self-read proof did not report resident-self address read''
      else if readReadyValue ready ''resident.proof.read_game_state.counter_bytes'' \<noteq> ''4''
      then refuse ''resident read_game_state self-read proof must report a 32-bit frame counter''
      else if readReadyValue ready ''proof.read_game_state.confidence'' \<noteq> ''frame-like''
      then refuse ''resident read_game_state self-read proof confidence is not frame-like''
      else validateReadGameStateLiveMemoryProof w processId frames)"

section \<open>Unit activity\<close>

definition validateLiveReadableEvidenceAddress ::
  "bridge_world \<Rightarrow> int \<Rightarrow> nat \<Rightarrow> nat \<Rightarrow> string \<Rightarrow> bool \<Rightarrow> check" where
  "validateLiveReadableEvidenceAddress w processId address n description requireNonZeroPayload =
     (let r = w_read w processId (word_of_nat address) n in
      if \<not> full_read r n
      then refuse (if mr_reason r = []
        then description @ '' could not be read from the selected process''
        else description @ '' could not be read: '' @ mr_reason r)
      else if requireNonZeroPayload \<and> list_all (\<lambda>byte. byte = 0) (mr_bytes r)
      then refuse (description @ '' contains only zero bytes'')
      else pass)"

definition unitArrayEvidence :: "bridge_world \<Rightarrow> int \<Rightarrow> nat \<Rightarrow> nat \<Rightarrow> check" where
  "unitArrayEvidence w processId readUnitsAddress readStateAddress =
     (case parseAddress (readReadyValue (ready_text w) ''proof.active_match_state.unit_array_address'') of
        None \<Rightarrow> refuse ''resident active_match proof is missing unit array address evidence''
      | Some address \<Rightarrow>
          if address \<noteq> readUnitsAddress
          then refuse ''resident active_match unit array evidence does not match read_units address''
          else if address = readStateAddress
          then refuse ''resident active_match unit array evidence reuses the read_game_state counter address''
          else validateLiveReadableEvidenceAddress w processId address 64
                 ''resident active_match unit array evidence address'' True)"

definition unitNodeEvidence :: "bridge_world \<Rightarrow> int \<Rightarrow> nat \<Rightarrow> nat \<Rightarrow> nat \<Rightarrow> check" where
  "unitNodeEvidence w processId readUnitsAddress readUnitsRecordSize readStateAddress =
     (case parseAddress (readReadyValue (ready_text w) ''proof.active_match_state.unit_node_address'') of
        None \<Rightarrow> refuse ''resident active_match proof is missing unit-node address evidence''
      | Some address \<Rightarrow>
          if address = readStateAddress
          then refuse ''resident active_match unit-node evidence reuses the read_game_state counter address''
          else case parseUnsigned
              (readReadyValue (ready_text w) ''proof.active_match_state.unit_node_record_size'') of
            None \<Rightarrow> refuse ''resident active_match proof is missing unit-node record size evidence''
          | Some recordSize \<Rightarrow>
              if recordSize < 16
              then refuse ''resident active_match proof is missing unit-node record size evidence''
              else if address \<noteq> readUnitsAddress \<or> recordSize \<noteq> readUnitsRecordSize
              then refuse ''resident active_match unit-node evidence does not match read_units proof''
              else validateLiveReadableEvidenceAddress w processId address
                     (if recordSize < 64 then recordSize else 64)
                     ''resident active_match unit-node evidence address'' True)"

definition validateActiveMatchLiveUnitEvidence ::
  "bridge_world \<Rightarrow> int \<Rightarrow> nat \<Rightarrow> check" where
  "validateActiveMatchLiveUnitEvidence w processId activeUnitCount =
     (let ready = ready_text w;
          evidence = readReadyValue ready ''proof.active_match_state.evidence'' in
      case parseUnsigned (readReadyValue ready ''proof.active_match_state.active_records'') of
        None \<Rightarrow> refuse ''resident active_match proof is missing matching active unit record evidence''
      | Some activeRecords \<Rightarrow>
          if activeRecords < activeUnitCount
          then refuse ''resident active_match proof is missing matching active unit record evidence''
          else if evidence \<noteq> ''active-unit-records'' \<and> evidence \<noteq> ''active-unit-node-snapshot''
          then refuse ''resident active_match proof is missing supported active unit evidence details''
          else if readReadyValue ready ''proof.read_units'' \<noteq> ''passed''
          then refuse ''resident active_match proof requires validated read_units proof''
          else if parseUnsigned (readReadyValue ready ''proof.read_units.active_records'')
                \<noteq> Some activeRecords
          then refuse ''resident active_match proof active record count does not match read_units proof''
          else case parseAddress (readReadyValue ready ''proof.read_units.address'') of
            None \<Rightarrow> refuse ''resident active_match proof requires read_units address evidence''
          | Some readUnitsAddress \<Rightarrow>
              (case parseUnsigned (readReadyValue ready ''proof.read_units.record_size'') of
                 None \<Rightarrow> refuse ''resident active_match proof requires read_units record-size evidence''
               | Some readUnitsRecordSize \<Rightarrow>
                   if readUnitsRecordSize < 16
                   then refuse ''resident active_match proof requires read_units record-size evidence''
                   else
                     let readStateAddress =
                       (case parseAddress (readReadyValue ready ''proof.read_game_state.address'') of
                          None \<Rightarrow> 0 | Some a \<Rightarrow> a)
                     in if evidence = ''active-unit-records''
                        then unitArrayEvidence w processId readUnitsAddress readStateAddress
                        else unitNodeEvidence w processId readUnitsAddress readUnitsRecordSize
                               readStateAddress))"

section \<open>The two state proofs\<close>

definition default_state_proof :: state_proof where
  "default_state_proof =
     \<lparr>sp_readGameStateProofPresent = False, sp_activeMatchProofPresent = False,
      sp_readGameStateValid = False, sp_activeMatchValid = False, sp_samples = [],
      sp_activeUnitCount = 0, sp_activeMatchMode = [], sp_errors = []\<rparr>"

definition gameStateProof :: string where "gameStateProof = ''resident.proof.read_game_state''"
definition activeMatchProof :: string where "activeMatchProof = ''resident.proof.active_match''"

text \<open>The errors of the sampled numbers, in the order of the checks.\<close>

definition sample_errors :: "nat option \<Rightarrow> bool \<times> nat list \<Rightarrow> bool \<times> nat list \<Rightarrow> string list" where
  "sample_errors sampleCount frames ticks =
     (let n = (case sampleCount of None \<Rightarrow> 0 | Some n \<Rightarrow> n) in
      error_if (n < 3) ''resident read_game_state proof must contain at least three samples''
      @ error_if (\<not> fst frames \<or> length (snd frames) < 3 \<or> \<not> strictlyIncreasing (snd frames))
          ''resident read_game_state frame samples must be strictly increasing''
      @ error_if (\<not> fst ticks \<or> length (snd ticks) < 3 \<or> \<not> strictlyIncreasing (snd ticks))
          ''resident read_game_state tick samples must be strictly increasing''
      @ error_if (snd frames \<noteq> [] \<and> snd ticks \<noteq> [] \<and> length (snd frames) \<noteq> length (snd ticks))
          ''resident read_game_state frame/tick sample counts differ''
      @ error_if (n > 0 \<and> ((snd frames \<noteq> [] \<and> length (snd frames) \<noteq> n)
            \<or> (snd ticks \<noteq> [] \<and> length (snd ticks) \<noteq> n)))
          ''resident read_game_state sample_count does not match samples'')"

definition readGameStateChecks ::
  "bridge_world \<Rightarrow> bridge_validation \<Rightarrow> state_proof \<Rightarrow> state_proof" where
  "readGameStateChecks w resident result =
     (let ready = ready_text w;
          frames = parseUnsignedList (readReadyValue ready (gameStateProof @ ''.frame_samples''));
          ticks = parseUnsignedList (readReadyValue ready (gameStateProof @ ''.tick_samples''));
          errors = error_if (readReadyValue ready (gameStateProof @ ''.source'') \<noteq> ''resident'')
                ''resident read_game_state proof source is not resident''
            @ snd (parseProofProcessAndHeartbeat ready gameStateProof resident 0)
            @ sample_errors (parseUnsigned (readReadyValue ready (gameStateProof @ ''.sample_count'')))
                frames ticks;
          live = (if errors \<noteq> [] then (False, [])
            else if readReadyValue ready ''resident.proof.read_game_state.validation''
                    = ''resident-self-read-v1''
            then validateReadGameStateResidentSelfReadProof w (bv_processId resident) (snd frames)
            else validateReadGameStateLiveMemoryProof w (bv_processId resident) (snd frames));
          result = result\<lparr>sp_errors := sp_errors result @ errors @ snd live\<rparr>
      in if fst live
         then result\<lparr>sp_samples := map (\<lambda>(f, t). \<lparr>ss_frame = f, ss_tick = t\<rparr>)
                  (zip (snd frames) (snd ticks)),
                sp_readGameStateValid := True\<rparr>
         else result)"

definition activeMatchChecks ::
  "bridge_world \<Rightarrow> bridge_validation \<Rightarrow> state_proof \<Rightarrow> state_proof" where
  "activeMatchChecks w resident result =
     (let ready = ready_text w;
          mode = readReadyValue ready (activeMatchProof @ ''.mode'');
          activity = (case parseUnsigned
              (readReadyValue ready (activeMatchProof @ ''.unit_activity_count'')) of
            None \<Rightarrow> 0 | Some n \<Rightarrow> n);
          errors = error_if (readReadyValue ready (activeMatchProof @ ''.source'') \<noteq> ''resident'')
                ''resident active_match proof source must be resident''
            @ snd (parseProofProcessAndHeartbeat ready activeMatchProof resident 120)
            @ error_if (mode \<noteq> ''match'') ''resident active_match proof mode must be match''
            @ error_if (activity = 0)
                ''resident active_match proof requires live unit/activity evidence''
            @ error_if (readReadyValue ready (activeMatchProof @ ''.evidence'')
                  \<noteq> ''resident-frame-unit-activity'')
                ''resident active_match proof evidence must be resident-frame-unit-activity'';
          live = (if errors \<noteq> [] then (False, [])
            else validateActiveMatchLiveUnitEvidence w (bv_processId resident) activity);
          late = error_if (\<not> sp_readGameStateValid result)
            ''resident active_match proof requires valid resident frame/tick progression''
      in result\<lparr>sp_errors := sp_errors result @ errors @ snd live @ late,
           sp_activeMatchMode := mode, sp_activeUnitCount := activity,
           sp_activeMatchValid := (fst live \<and> late = [])\<rparr>)"

definition validateRuntimeResidentStateProofs ::
  "bridge_world \<Rightarrow> bridge_validation \<Rightarrow> state_proof" where
  "validateRuntimeResidentStateProofs w resident =
     (let ready = ready_text w;
          game = readReadyValue ready ''proof.read_game_state'' = ''passed'';
          match = readReadyValue ready ''proof.active_match_state'' = ''passed'';
          result = default_state_proof\<lparr>sp_readGameStateProofPresent := game,
            sp_activeMatchProofPresent := match\<rparr>
      in if \<not> game \<and> \<not> match then result
         else case hasDuplicateResidentStateProofKey ready of
           Some duplicateKey \<Rightarrow> result\<lparr>sp_errors :=
               [''resident state proof ready file has duplicate key: '' @ duplicateKey]\<rparr>
         | None \<Rightarrow>
             if \<not> bv_present resident \<or> \<not> bv_valid resident
             then result\<lparr>sp_errors :=
               [''resident state proof requires active resident adapter metadata'']\<rparr>
             else
               let result = (if game then readGameStateChecks w resident result else result)
               in if match then activeMatchChecks w resident result else result)"

section \<open>The ready lines\<close>

definition makeRuntimeResidentAdapterReadyLines :: "runtime_environment \<Rightarrow> nat \<Rightarrow> string list" where
  "makeRuntimeResidentAdapterReadyLines environment heartbeat =
     [''resident.adapter=active'',
      ''resident.adapter.abi='' @ ResidentAdapterAbi,
      ''resident.adapter.process_id='' @ int_to_dec (env_processId environment),
      ''resident.adapter.heartbeat='' @ nat_to_dec heartbeat]"

definition joinUnsignedSamples :: "state_sample list \<Rightarrow> bool \<Rightarrow> string" where
  "joinUnsignedSamples samples ticks =
     join_on (CHR '','')
       (map (\<lambda>s. nat_to_dec (if ticks then ss_tick s else ss_frame s)) samples)"

definition makeRuntimeResidentReadGameStateProofReadyLines ::
  "runtime_environment \<Rightarrow> nat \<Rightarrow> state_sample list \<Rightarrow> string list" where
  "makeRuntimeResidentReadGameStateProofReadyLines environment heartbeat samples =
     [''proof.read_game_state=passed'',
      ''resident.proof.read_game_state.source=resident'',
      ''resident.proof.read_game_state.process_id='' @ int_to_dec (env_processId environment),
      ''resident.proof.read_game_state.heartbeat='' @ nat_to_dec heartbeat,
      ''resident.proof.read_game_state.sample_count='' @ nat_to_dec (length samples),
      ''resident.proof.read_game_state.frame_samples='' @ joinUnsignedSamples samples False,
      ''resident.proof.read_game_state.tick_samples='' @ joinUnsignedSamples samples True]"

definition makeRuntimeResidentActiveMatchProofReadyLines ::
  "runtime_environment \<Rightarrow> nat \<Rightarrow> nat \<Rightarrow> string \<Rightarrow> string list" where
  "makeRuntimeResidentActiveMatchProofReadyLines environment heartbeat activeUnitCount mode =
     [''proof.active_match_state=passed'',
      ''resident.proof.active_match.source=resident'',
      ''resident.proof.active_match.process_id='' @ int_to_dec (env_processId environment),
      ''resident.proof.active_match.heartbeat='' @ nat_to_dec heartbeat,
      ''resident.proof.active_match.mode='' @ mode,
      ''resident.proof.active_match.unit_activity_count='' @ nat_to_dec activeUnitCount,
      ''resident.proof.active_match.evidence=resident-frame-unit-activity'']"

end
