(* ===== verification/Executor_Proofs.thy ===== *)
theory Executor_Proofs
  imports Resident_State
begin

text \<open>
  The behaviour proofs of a validated bridge as \<open>RuntimeExecutor.cpp\<close> checks them: which metadata
  and which snapshots stand behind each \<open>proof.*=passed\<close> line, which evidence may resolve which part
  of a contract, and where commands go. The file helpers of that source are those of \<open>Ready_Files\<close>
  and \<open>Resident_Bridge\<close>. A \<open>state_proof option\<close> is the pointer to the state proofs, \<open>None\<close> for a
  null pointer.
\<close>

section \<open>Ready values\<close>

definition readyValueIsNonZeroUnsigned :: "string \<Rightarrow> string \<Rightarrow> bool" where
  "readyValueIsNonZeroUnsigned ready key =
     number_is (\<lambda>value. value \<noteq> 0) (parseUnsignedReadyValue ready key)"

definition readyValueIsTrue :: "string \<Rightarrow> string \<Rightarrow> bool" where
  "readyValueIsTrue ready key \<longleftrightarrow> readReadyValue ready key = ''true''"

definition readySnapshotExists :: "bridge_files \<Rightarrow> string \<Rightarrow> string \<Rightarrow> bool" where
  "readySnapshotExists files ready key \<longleftrightarrow> readySnapshot files ready key \<noteq> None"

section \<open>Snapshot tables\<close>

record snapshot_table =
  rt_header :: "string list"
  rt_rows :: "string list list"

fun readTableLines :: "string list \<Rightarrow> snapshot_table \<Rightarrow> snapshot_table" where
  "readTableLines [] t = t"
| "readTableLines (line # ls) t =
     (if line = [] \<or> hd line = CHR ''#'' then readTableLines ls t
      else if rt_header t = [] then readTableLines ls (t\<lparr>rt_header := splitTabs line\<rparr>)
      else readTableLines ls (t\<lparr>rt_rows := rt_rows t @ [splitTabs line]\<rparr>))"

definition readResidentSnapshotTable :: "string \<Rightarrow> snapshot_table" where
  "readResidentSnapshotTable snapshot =
     readTableLines (getlines snapshot) \<lparr>rt_header = [], rt_rows = []\<rparr>"

definition snapshotTableHasColumns :: "snapshot_table \<Rightarrow> string list \<Rightarrow> bool" where
  "snapshotTableHasColumns t columns \<longleftrightarrow>
     rt_header t \<noteq> [] \<and> list_all (\<lambda>column. column \<in> set (rt_header t)) columns"

definition snapshotTableHeaderEquals :: "snapshot_table \<Rightarrow> string list \<Rightarrow> bool" where
  "snapshotTableHeaderEquals t columns \<longleftrightarrow> rt_header t = columns"

definition snapshotTableRowsMatchHeader :: "snapshot_table \<Rightarrow> bool" where
  "snapshotTableRowsMatchHeader t \<longleftrightarrow>
     rt_rows t \<noteq> [] \<and> list_all (\<lambda>row. length row \<ge> length (rt_header t)) (rt_rows t)"

definition snapshotTableRowCountAtLeastReadyValue :: "snapshot_table \<Rightarrow> string \<Rightarrow> string \<Rightarrow> bool" where
  "snapshotTableRowCountAtLeastReadyValue t ready key =
     number_is (\<lambda>expected. expected > 0 \<and> length (rt_rows t) \<ge> expected)
       (parseUnsignedReadyValue ready key)"

definition snapshotTableRowCountMatchesReadyValue :: "snapshot_table \<Rightarrow> string \<Rightarrow> string \<Rightarrow> bool" where
  "snapshotTableRowCountMatchesReadyValue t ready key =
     number_is (\<lambda>expected. expected > 0 \<and> length (rt_rows t) = expected)
       (parseUnsignedReadyValue ready key)"

text \<open>\<open>std::stoll\<close> on 64 bits is \<open>std::stol\<close> on a 64-bit \<open>long\<close>.\<close>

definition parseSignedString :: "string \<Rightarrow> int option" where
  "parseSignedString text =
     (if text = [] then None
      else case stol text of
        None \<Rightarrow> None
      | Some (parsed, consumed) \<Rightarrow> if consumed \<noteq> length text then None else Some parsed)"

fun index_of :: "'a \<Rightarrow> 'a list \<Rightarrow> nat option" where
  "index_of x [] = None"
| "index_of x (y # ys) = (if x = y then Some 0 else map_option Suc (index_of x ys))"

definition snapshotTableColumnUnsignedMatchesReadyValue ::
  "snapshot_table \<Rightarrow> string \<Rightarrow> string \<Rightarrow> string \<Rightarrow> bool" where
  "snapshotTableColumnUnsignedMatchesReadyValue t column ready key =
     (case rt_rows t of
        [row] \<Rightarrow>
          (case index_of column (rt_header t) of
             None \<Rightarrow> False
           | Some columnIndex \<Rightarrow>
               if length row \<le> columnIndex then False
               else number_is (\<lambda>expected. number_is (\<lambda>actual. expected = actual)
                      (parseUnsignedString (row ! columnIndex)))
                    (parseUnsignedReadyValue ready key))
      | _ \<Rightarrow> False)"

section \<open>The payload of a resident snapshot\<close>

definition int_is :: "(int \<Rightarrow> bool) \<Rightarrow> int option \<Rightarrow> bool" where
  "int_is P v = (case v of None \<Rightarrow> False | Some n \<Rightarrow> P n)"

definition bulletRowIsValid :: "nat \<Rightarrow> string list \<Rightarrow> bool" where
  "bulletRowIsValid rowIndex row \<longleftrightarrow>
     number_is (\<lambda>index. index = rowIndex) (parseUnsignedString (row ! 0))
   \<and> number_is (\<lambda>address. address \<noteq> 0) (parseUnsignedString (row ! 1))
   \<and> number_is (\<lambda>sprite. sprite \<noteq> 0) (parseUnsignedString (row ! 2))
   \<and> number_is (\<lambda>_. True) (parseUnsignedString (row ! 3))
   \<and> number_is (\<lambda>_. True) (parseUnsignedString (row ! 4))
   \<and> number_is (\<lambda>type. type \<noteq> 0) (parseUnsignedString (row ! 5))
   \<and> list_all (\<lambda>i. int_is (\<lambda>_. True) (parseSignedString (row ! i))) [6, 7, 8, 9]
   \<and> int_is (\<lambda>player. - 1 \<le> player \<and> player \<le> 11) (parseSignedString (row ! 10))
   \<and> number_is (\<lambda>removeTimer. removeTimer \<le> 255) (parseUnsignedString (row ! 11))"

fun bulletRowsAreValid :: "nat \<Rightarrow> nat \<Rightarrow> string list list \<Rightarrow> bool" where
  "bulletRowsAreValid columns rowIndex [] = True"
| "bulletRowsAreValid columns rowIndex (row # rows) =
     (if length row \<noteq> columns then False
      else if \<not> bulletRowIsValid rowIndex row then False
      else bulletRowsAreValid columns (Suc rowIndex) rows)"

definition bulletSnapshotRowsAreValid :: "snapshot_table \<Rightarrow> bool" where
  "bulletSnapshotRowsAreValid t = bulletRowsAreValid (length (rt_header t)) 0 (rt_rows t)"

definition validatedResidentSnapshotPayload :: "string \<Rightarrow> string \<Rightarrow> string \<Rightarrow> bool" where
  "validatedResidentSnapshotPayload snapshot ready proof =
     (let t = readResidentSnapshotTable snapshot in
      if \<not> snapshotTableRowsMatchHeader t then False
      else if proof = ''read_units''
      then snapshotTableHasColumns t
             [''index'', ''node'', ''secondary'', ''sprite'', ''id'', ''x'', ''y'', ''target_x'',
              ''target_y'', ''order'', ''state'', ''player'', ''type_hint'', ''hit_points'']
         \<and> snapshotTableRowCountAtLeastReadyValue t ready ''proof.read_units.active_records''
      else if proof = ''read_player_data''
      then snapshotTableHasColumns t
             [''player'', ''storm_id'', ''race'', ''race_inferred'', ''observed_unit_count'',
              ''minerals'', ''gas'', ''supply_used'', ''supply_total'', ''alliance_mask'']
         \<and> snapshotTableRowCountAtLeastReadyValue t ready ''proof.read_player_data.player_count''
      else if proof = ''read_map_data''
      then snapshotTableHasColumns t
             [''map_name'', ''map_name_address'', ''map_tile_array_address'', ''tile_count'',
              ''map_path'', ''map_file_size'', ''source'', ''replay_path'', ''replay_file_size'']
         \<and> snapshotTableColumnUnsignedMatchesReadyValue t ''tile_count'' ready
             ''proof.read_map_data.tile_count''
      else if proof = ''read_bullet_data''
      then snapshotTableHeaderEquals t
             [''index'', ''address'', ''sprite'', ''source_unit'', ''target_unit'', ''type'', ''x'',
              ''y'', ''velocity_x'', ''velocity_y'', ''player'', ''remove_timer'']
         \<and> snapshotTableRowCountMatchesReadyValue t ready ''proof.read_bullet_data.active_records''
         \<and> bulletSnapshotRowsAreValid t
      else if proof = ''read_region_data''
      then snapshotTableHasColumns t
             [''id'', ''center_x'', ''center_y'', ''left'', ''top'', ''right'', ''bottom'',
              ''observed_units'', ''accessible'']
         \<and> snapshotTableRowCountAtLeastReadyValue t ready ''proof.read_region_data.region_count''
      else if proof = ''replay_analysis''
      then snapshotTableHasColumns t
             [''source'', ''current_process_replay'', ''active_match_metadata'', ''map_name'',
              ''first_frame'', ''last_frame'', ''observed_player_count'']
         \<and> snapshotTableColumnUnsignedMatchesReadyValue t ''last_frame'' ready
             ''proof.replay_analysis.last_frame''
         \<and> snapshotTableColumnUnsignedMatchesReadyValue t ''observed_player_count'' ready
             ''proof.replay_analysis.player_count''
      else False)"

text \<open>The metadata value that a ready value repeats, both non-zero.\<close>

definition metadata_matches :: "snapshot_metadata \<Rightarrow> string \<Rightarrow> string \<Rightarrow> string \<Rightarrow> bool" where
  "metadata_matches metadata field ready key =
     number_is (\<lambda>v. number_is (\<lambda>r. v \<noteq> 0 \<and> v = r) (parseUnsignedReadyValue ready key))
       (parseUnsignedMetadataValue metadata field)"

definition frame_in_samples :: "state_proof \<Rightarrow> nat \<Rightarrow> bool" where
  "frame_in_samples sp frameId \<longleftrightarrow>
     ss_frame (hd (sp_samples sp)) \<le> frameId \<and> frameId \<le> ss_frame (last (sp_samples sp))"

definition validatedResidentSnapshot ::
  "bridge_files \<Rightarrow> string \<Rightarrow> string \<Rightarrow> string \<Rightarrow> state_proof option \<Rightarrow> bool \<Rightarrow> bool" where
  "validatedResidentSnapshot files ready key proof residentStateProof requireActiveMatchCorrelation =
     (case readySnapshot files ready key of
        None \<Rightarrow> False
      | Some snapshot \<Rightarrow>
          let metadata = readSnapshotMetadata snapshot in
          if snapshotMetadataValue metadata ''schema'' \<noteq> ''starcraft-api.resident-snapshot.v1'' then False
          else if sm_hasDuplicateKey metadata then False
          else if snapshotMetadataValue metadata ''proof'' \<noteq> proof then False
          else if snapshotMetadataValue metadata ''source_identity'' \<noteq> ''resident-adapter'' then False
          else if requireActiveMatchCorrelation
               \<and> snapshotMetadataValue metadata ''active_match_correlated'' \<noteq> ''true''
          then False
          else if \<not> metadata_matches metadata ''process_id'' ready ''resident.adapter.process_id'' then False
          else if \<not> metadata_matches metadata ''heartbeat'' ready ''resident.adapter.heartbeat'' then False
          else case parseUnsignedMetadataValue metadata ''frame_id'' of
            None \<Rightarrow> False
          | Some frameId \<Rightarrow>
              if frameId = 0 then False
              else if (case residentStateProof of None \<Rightarrow> False
                  | Some sp \<Rightarrow> sp_samples sp \<noteq> [] \<and> \<not> frame_in_samples sp frameId)
              then False
              else validatedResidentSnapshotPayload snapshot ready proof)"

section \<open>The proofs\<close>

definition active_match :: "state_proof option \<Rightarrow> bool" where
  "active_match residentStateProof =
     (case residentStateProof of None \<Rightarrow> False | Some sp \<Rightarrow> sp_activeMatchValid sp)"

definition validatedReadUnitsProof :: "bridge_files \<Rightarrow> string \<Rightarrow> state_proof option \<Rightarrow> bool" where
  "validatedReadUnitsProof files ready sp \<longleftrightarrow>
     active_match sp
   \<and> readyValueIsNonZeroUnsigned ready ''proof.read_units.address''
   \<and> readyValueIsNonZeroUnsigned ready ''proof.read_units.record_size''
   \<and> readyValueIsNonZeroUnsigned ready ''proof.read_units.active_records''
   \<and> validatedResidentSnapshot files ready ''proof.read_units.snapshot'' ''read_units'' sp True"

definition validatedReadPlayerDataProof :: "bridge_files \<Rightarrow> string \<Rightarrow> state_proof option \<Rightarrow> bool" where
  "validatedReadPlayerDataProof files ready sp \<longleftrightarrow>
     active_match sp
   \<and> (let nativePlayerTable =
            readReadyValue ready ''proof.read_player_data.source'' = ''live-sc-r-player-table''
          \<and> readyValueIsNonZeroUnsigned ready ''proof.read_player_data.players_address''
          \<and> readyValueIsTrue ready ''proof.read_player_data.resources_resolved''
          \<and> readyValueIsTrue ready ''proof.read_player_data.supply_resolved'';
          residentProjection =
            readReadyValue ready ''proof.read_player_data.projection_source''
              = ''compat-player-projection-v1:unit-snapshot-derived''
          \<and> readyValueIsNonZeroUnsigned ready ''proof.read_player_data.player_count''
          \<and> readyValueIsNonZeroUnsigned ready ''proof.read_player_data.observed_units''
          \<and> readyValueIsTrue ready ''proof.read_player_data.player_info_projection''
          \<and> readyValueIsTrue ready ''proof.read_player_data.alliance_projection''
      in (nativePlayerTable \<or> residentProjection)
       \<and> readyValueIsNonZeroUnsigned ready ''proof.read_player_data.player_info_record_size''
       \<and> validatedResidentSnapshot files ready ''proof.read_player_data.snapshot''
           ''read_player_data'' sp True)"

definition validatedReadMapDataProof :: "bridge_files \<Rightarrow> string \<Rightarrow> state_proof option \<Rightarrow> bool" where
  "validatedReadMapDataProof files ready sp \<longleftrightarrow>
     active_match sp
   \<and> readReadyValue ready ''proof.read_map_data.source''
       \<in> {''live-sc-r-map-tile-array'', ''live-sc-r-map-open-file+resident-tile-projection-v1''}
   \<and> readyValueIsNonZeroUnsigned ready ''proof.read_map_data.map_name_address''
   \<and> readyValueIsNonZeroUnsigned ready ''proof.read_map_data.map_tile_array_address''
   \<and> readyValueIsNonZeroUnsigned ready ''proof.read_map_data.tile_count''
   \<and> validatedResidentSnapshot files ready ''proof.read_map_data.snapshot'' ''read_map_data'' sp True"

definition validatedReadBulletDataProof :: "bridge_files \<Rightarrow> string \<Rightarrow> state_proof option \<Rightarrow> bool" where
  "validatedReadBulletDataProof files ready sp \<longleftrightarrow>
     active_match sp
   \<and> readReadyValue ready ''proof.read_bullet_data.source'' = ''live-sc-r-bullet-table''
   \<and> readyValueIsNonZeroUnsigned ready ''proof.read_bullet_data.address''
   \<and> readyValueIsNonZeroUnsigned ready ''proof.read_bullet_data.record_size''
   \<and> readyValueIsNonZeroUnsigned ready ''proof.read_bullet_data.active_records''
   \<and> readyValueIsNonZeroUnsigned ready ''proof.read_bullet_data.unit_correlated_records''
   \<and> validatedResidentSnapshot files ready ''proof.read_bullet_data.snapshot''
       ''read_bullet_data'' sp True"

definition validatedReadRegionDataProof :: "bridge_files \<Rightarrow> string \<Rightarrow> state_proof option \<Rightarrow> bool" where
  "validatedReadRegionDataProof files ready sp \<longleftrightarrow>
     active_match sp
   \<and> readReadyValue ready ''proof.read_region_data.source'' = ''live-bwapi-region-graph''
   \<and> readyValueIsNonZeroUnsigned ready ''proof.read_region_data.region_count''
   \<and> validatedResidentSnapshot files ready ''proof.read_region_data.snapshot''
       ''read_region_data'' sp True"

definition validatedDispatchEventsProof :: "bridge_files \<Rightarrow> string \<Rightarrow> state_proof option \<Rightarrow> bool" where
  "validatedDispatchEventsProof files ready sp \<longleftrightarrow>
     active_match sp
   \<and> readyValueIsNonZeroUnsigned ready ''proof.dispatch_events.frame_events''
   \<and> readyValueIsNonZeroUnsigned ready ''proof.dispatch_events.unit_discover_events''
   \<and> readyValueIsNonZeroUnsigned ready ''proof.dispatch_events.unit_update_events''
   \<and> readySnapshotExists files ready ''proof.dispatch_events.snapshot''"

definition validatedReplayAnalysisProof :: "bridge_files \<Rightarrow> string \<Rightarrow> state_proof option \<Rightarrow> bool" where
  "validatedReplayAnalysisProof files ready sp =
     (let source = readReadyValue ready ''proof.replay_analysis.source'';
          parsedReplay = source = ''parsed-replay-header''
            \<and> readyValueIsTrue ready ''proof.replay_analysis.current_process_replay'';
          activeMatchMetadata = source = ''active-match-live-metadata''
            \<and> readyValueIsTrue ready ''proof.replay_analysis.active_match_metadata'' in
      if activeMatchMetadata \<and> \<not> active_match sp then False
      else (parsedReplay \<or> activeMatchMetadata)
         \<and> readyValueIsNonZeroUnsigned ready ''proof.replay_analysis.last_frame''
         \<and> readyValueIsNonZeroUnsigned ready ''proof.replay_analysis.player_count''
         \<and> validatedResidentSnapshot files ready ''proof.replay_analysis.snapshot''
             ''replay_analysis'' sp activeMatchMetadata)"

definition ProofQueueFile :: string where "ProofQueueFile = ''resident-proof.queue''"

definition validatedAttachProof :: "bridge_world \<Rightarrow> bool" where
  "validatedAttachProof w =
     (let ready = ready_text w in
      case resolveContainedReadyRelativePath (w_files w) ProofQueueFile of
        None \<Rightarrow> False
      | Some canonicalProofQueue \<Rightarrow>
          readReadyValue ready ''proof.attach.source'' = ''resident-adapter''
        \<and> readReadyValue ready ''executor'' = ''starcraft-api-resident-adapter''
        \<and> readReadyValue ready ''resident.adapter'' = ''active''
        \<and> readReadyValue ready ''resident.adapter.abi'' = ResidentAdapterAbi
        \<and> readReadyValue ready ''proof.attach.queue'' = ProofQueueFile
        \<and> readReadyValue ready ''resident.queue.proof.path'' = ProofQueueFile
        \<and> number_is (\<lambda>readyProcessId. readyProcessId > 0
             \<and> number_is (\<lambda>residentProcessId. residentProcessId = readyProcessId)
                 (parseUnsignedReadyValue ready ''resident.adapter.process_id''))
            (parseUnsignedReadyValue ready ''process_id'')
        \<and> number_is (\<lambda>residentHeartbeat. residentHeartbeat > 0
             \<and> number_is (\<lambda>h. h = residentHeartbeat)
                 (parseUnsignedReadyValue ready ''resident.queue.proof.heartbeat'')
             \<and> qv_valid (validateRuntimeResidentQueueFile canonicalProofQueue QProof
                 (bridge_defaults\<lparr>bo_minimumHeartbeat := word_of_nat residentHeartbeat\<rparr>)
                 (w_bytes w ProofQueueFile)))
            (parseUnsignedReadyValue ready ''resident.adapter.heartbeat''))"

definition validatedIssueCommandsProof :: "string \<Rightarrow> state_proof option \<Rightarrow> bool" where
  "validatedIssueCommandsProof ready sp = False"

definition validatedDrawOverlaysProof :: "bridge_files \<Rightarrow> string \<Rightarrow> bool" where
  "validatedDrawOverlaysProof files ready \<longleftrightarrow>
     readReadyValue ready ''proof.draw_overlays.source'' = ''live-render-hook''
   \<and> readyValueIsNonZeroUnsigned ready ''proof.draw_overlays.hook_address''
   \<and> readySnapshotExists files ready ''proof.draw_overlays.snapshot''"

definition validatedMultiplayerSyncProof :: "bridge_files \<Rightarrow> string \<Rightarrow> bool" where
  "validatedMultiplayerSyncProof files ready \<longleftrightarrow>
     readReadyValue ready ''proof.multiplayer_sync.source'' = ''live-snet-turn-hooks''
   \<and> readyValueIsNonZeroUnsigned ready ''proof.multiplayer_sync.send_turn_address''
   \<and> readyValueIsNonZeroUnsigned ready ''proof.multiplayer_sync.receive_message_address''
   \<and> readySnapshotExists files ready ''proof.multiplayer_sync.snapshot''"

definition validatedBattleNetPolicyProof :: "string \<Rightarrow> bool" where
  "validatedBattleNetPolicyProof ready \<longleftrightarrow>
     readReadyValue ready ''proof.battle_net_policy.status'' = ''runtime-process-visible''
   \<and> number_is (\<lambda>n. n = 1)
       (parseUnsignedReadyValue ready ''proof.battle_net_policy.game_process_count'')
   \<and> number_is (\<lambda>n. n = 0)
       (parseUnsignedReadyValue ready ''proof.battle_net_policy.blocker_count'')"

definition validatedLoadAIModulesProof :: "bridge_files \<Rightarrow> string \<Rightarrow> bool" where
  "validatedLoadAIModulesProof files ready \<longleftrightarrow>
     readReadyValue ready ''proof.load_ai_modules.loader'' = ''dlopen''
   \<and> readReadyValue ready ''proof.load_ai_modules.self_process_smoke'' = ''false''
   \<and> readReadyValue ready ''proof.load_ai_modules.module_path'' \<noteq> []
   \<and> readySnapshotExists files ready ''proof.load_ai_modules.snapshot''"

definition state_valid :: "(state_proof \<Rightarrow> bool) \<Rightarrow> state_proof option \<Rightarrow> bool" where
  "state_valid P sp = (case sp of None \<Rightarrow> True | Some s \<Rightarrow> P s)"

definition readyFileHasValidatedProductionProof ::
  "bridge_world \<Rightarrow> string \<Rightarrow> state_proof option \<Rightarrow> bool" where
  "readyFileHasValidatedProductionProof w proofLine sp =
     (let ready = ready_text w; files = w_files w in
      if proofLine = ''proof.attach=passed'' then validatedAttachProof w
      else if proofLine = ''proof.read_game_state=passed'' then state_valid sp_readGameStateValid sp
      else if proofLine = ''proof.active_match_state=passed'' then state_valid sp_activeMatchValid sp
      else if proofLine = ''proof.read_units=passed'' then validatedReadUnitsProof files ready sp
      else if proofLine = ''proof.read_player_data=passed''
      then validatedReadPlayerDataProof files ready sp
      else if proofLine = ''proof.read_map_data=passed'' then validatedReadMapDataProof files ready sp
      else if proofLine = ''proof.read_bullet_data=passed''
      then validatedReadBulletDataProof files ready sp
      else if proofLine = ''proof.read_region_data=passed''
      then validatedReadRegionDataProof files ready sp
      else if proofLine = ''proof.issue_commands=passed'' then validatedIssueCommandsProof ready sp
      else if proofLine = ''proof.draw_overlays=passed'' then validatedDrawOverlaysProof files ready
      else if proofLine = ''proof.dispatch_events=passed''
      then validatedDispatchEventsProof files ready sp
      else if proofLine = ''proof.replay_analysis=passed''
      then validatedReplayAnalysisProof files ready sp
      else if proofLine = ''proof.multiplayer_sync=passed''
      then validatedMultiplayerSyncProof files ready
      else if proofLine = ''proof.battle_net_policy=passed'' then validatedBattleNetPolicyProof ready
      else if proofLine = ''proof.load_ai_modules=passed''
      then validatedLoadAIModulesProof files ready
      else False)"

end
