(* ===== verification/Executor_Evidence.thy ===== *)
theory Executor_Evidence
  imports Executor_Proofs
begin

text \<open>
  Which evidence of the ready file may resolve which binding, structure or field of a contract, and
  how \<open>applyRuntimeExecutorBridgeContractProofs\<close> applies it; the sinks commands can be written to.
\<close>

section \<open>Evidence that may be used\<close>

definition productionEvidenceAllowed :: "string \<Rightarrow> bool" where
  "productionEvidenceAllowed evidence =
     (if evidence = [] then False
      else if list_ex (starts_with evidence)
        [''fixture:'', ''unit-test:'', ''mock:'', ''self-fixture:'', ''diagnostic.'',
         ''static-anchor:'', ''scr-platform-anchor:'', ''static-layout:'']
      then False
      else starts_with evidence ''proof.'')"

definition evidence_line :: "string \<Rightarrow> string" where
  "evidence_line evidence =
     (if \<not> starts_with evidence ''proof.'' then []
      else case split_at (CHR '':'') evidence of
        None \<Rightarrow> evidence
      | Some (before, after) \<Rightarrow> before)"

definition readyFileContainsEvidenceProof ::
  "bridge_world \<Rightarrow> string \<Rightarrow> state_proof option \<Rightarrow> bool" where
  "readyFileContainsEvidenceProof w evidence sp =
     (let proofLine = evidence_line evidence in
      if proofLine = [] \<or> \<not> fileContainsLine (ready_text w) proofLine then False
      else readyFileHasValidatedProductionProof w proofLine sp)"

definition proofLineMatches :: "string \<Rightarrow> string \<Rightarrow> bool" where
  "proofLineMatches evidence expectedProofLine \<longleftrightarrow> evidence_line evidence = expectedProofLine"

fun bindingProofAllowed :: "string \<Rightarrow> binding_kind \<Rightarrow> string \<Rightarrow> bool" where
  "bindingProofAllowed name DataAddress evidence =
     (if name = ''BW::BWDATA::Game'' then proofLineMatches evidence ''proof.read_game_state=passed''
      else if name = ''BW::BWDATA::Players''
      then proofLineMatches evidence ''proof.read_player_data=passed''
      else if name = ''BW::BWDATA::UnitNodeTable''
      then proofLineMatches evidence ''proof.read_units=passed''
      else if name = ''BW::BWDATA::BulletNodeTable''
      then proofLineMatches evidence ''proof.read_bullet_data=passed''
      else if name = ''BW::BWDATA::MapTileArray''
      then proofLineMatches evidence ''proof.read_map_data=passed''
      else False)"
| "bindingProofAllowed name FunctionAddress evidence \<longleftrightarrow>
     name = ''BW::BWFXN_ExecuteGameTriggers''
   \<and> proofLineMatches evidence ''proof.dispatch_events=passed''"
| "bindingProofAllowed name ImportedFunction evidence \<longleftrightarrow>
     (name = ''Storm::SNetReceiveMessage'' \<or> name = ''Storm::SNetSendTurn'')
   \<and> proofLineMatches evidence ''proof.multiplayer_sync=passed''"
| "bindingProofAllowed name HookPoint evidence \<longleftrightarrow>
     name = ''draw-game-layer-hook'' \<and> proofLineMatches evidence ''proof.draw_overlays=passed''"
| "bindingProofAllowed name CommandQueueKind evidence \<longleftrightarrow>
     (name = ''BW::BWDATA::sgdwBytesInCmdQueue'' \<or> name = ''BW::BWDATA::TurnBuffer'')
   \<and> proofLineMatches evidence ''proof.issue_commands=passed''"
| "bindingProofAllowed name Transport evidence =
     (if name = ''ai-module-loader'' then proofLineMatches evidence ''proof.load_ai_modules=passed''
      else if name = ''shared-memory-client-transport''
      then proofLineMatches evidence ''proof.attach=passed''
      else False)"
| "bindingProofAllowed name StructureLayoutKind evidence = False"

definition productionEvidenceAllowedForBinding :: "string \<Rightarrow> binding_kind \<Rightarrow> string \<Rightarrow> bool" where
  "productionEvidenceAllowedForBinding name kind evidence =
     (if \<not> productionEvidenceAllowed evidence then False
      else bindingProofAllowed name kind evidence)"

definition productionEvidenceAllowedForStructure :: "string \<Rightarrow> string \<Rightarrow> bool" where
  "productionEvidenceAllowedForStructure name evidence =
     (if \<not> productionEvidenceAllowed evidence then False
      else if name = ''BW::BWGame'' then proofLineMatches evidence ''proof.read_game_state=passed''
      else if name = ''BW::CUnit'' then proofLineMatches evidence ''proof.read_units=passed''
      else if name = ''BW::CBullet'' then proofLineMatches evidence ''proof.read_bullet_data=passed''
      else if name = ''BW::PlayerInfo'' then proofLineMatches evidence ''proof.read_player_data=passed''
      else if name = ''BW::ReplayHeader'' then proofLineMatches evidence ''proof.replay_analysis=passed''
      else False)"

definition productionEvidenceAllowedForField :: "string \<Rightarrow> string \<Rightarrow> string \<Rightarrow> bool" where
  "productionEvidenceAllowedForField structureName fieldName evidence =
     (if \<not> productionEvidenceAllowed evidence then False
      else if structureName = ''BW::BWGame''
      then (if fieldName = ''players'' \<or> fieldName = ''alliance''
            then proofLineMatches evidence ''proof.read_player_data=passed''
            else if fieldName = ''elapsedFrames''
            then proofLineMatches evidence ''proof.read_game_state=passed''
            else False)
      else if structureName = ''BW::CUnit'' then proofLineMatches evidence ''proof.read_units=passed''
      else if structureName = ''BW::CBullet'' then proofLineMatches evidence ''proof.read_bullet_data=passed''
      else if structureName = ''BW::PlayerInfo''
      then proofLineMatches evidence ''proof.read_player_data=passed''
      else if structureName = ''BW::ReplayHeader''
      then proofLineMatches evidence ''proof.replay_analysis=passed''
      else False)"

section \<open>Sinks for commands\<close>

definition contractBindingReadyKey :: "string \<Rightarrow> string" where
  "contractBindingReadyKey name = ''contract.binding.'' @ name"

text \<open>The evidence of a binding of the kind in the ready file, where it is proven.\<close>

definition proofBackedEvidence ::
  "bridge_world \<Rightarrow> string \<Rightarrow> binding_kind \<Rightarrow> state_proof option \<Rightarrow> string option" where
  "proofBackedEvidence w name kind sp =
     (let value = readReadyValue (ready_text w) (contractBindingReadyKey name);
          prefix = binding_kind_toString kind @ ''|'' in
      if \<not> starts_with value prefix then None
      else let evidence = drop (length prefix) value in
        if productionEvidenceAllowedForBinding name kind evidence
           \<and> readyFileContainsEvidenceProof w evidence sp
        then Some evidence else None)"

definition readyFileHasProofBackedBinding ::
  "bridge_world \<Rightarrow> string \<Rightarrow> binding_kind \<Rightarrow> state_proof option \<Rightarrow> bool" where
  "readyFileHasProofBackedBinding w name kind sp \<longleftrightarrow> proofBackedEvidence w name kind sp \<noteq> None"

definition parseAddressValue :: "string \<Rightarrow> u64 option" where
  "parseAddressValue value =
     (case stoull value of
        None \<Rightarrow> None
      | Some (number, consumed) \<Rightarrow>
          if consumed \<noteq> length value \<or> number = 0 then None else Some (word_of_nat number))"

definition splitLastColon :: "string \<Rightarrow> (string \<times> string) option" where
  "splitLastColon s =
     (if CHR '':'' \<notin> set s then None
      else let after = rev (takeWhile (\<lambda>c. c \<noteq> CHR '':'') (rev s))
           in Some (take (length s - length after - 1) s, after))"

definition readCommandQueueBindingAddress ::
  "bridge_world \<Rightarrow> string \<Rightarrow> state_proof option \<Rightarrow> u64 option" where
  "readCommandQueueBindingAddress w name sp =
     (case proofBackedEvidence w name CommandQueueKind sp of
        None \<Rightarrow> None
      | Some evidence \<Rightarrow>
          (case splitLastColon evidence of
             None \<Rightarrow> None
           | Some (before, after) \<Rightarrow> if after = [] then None else parseAddressValue after))"

definition readDirectRuntimeCommandQueueSink ::
  "bridge_world \<Rightarrow> state_proof option \<Rightarrow> direct_sink option" where
  "readDirectRuntimeCommandQueueSink w sp =
     (case readCommandQueueBindingAddress w ''BW::BWDATA::sgdwBytesInCmdQueue'' sp of
        None \<Rightarrow> None
      | Some bytesInQueueAddress \<Rightarrow>
          (case readCommandQueueBindingAddress w ''BW::BWDATA::TurnBuffer'' sp of
             None \<Rightarrow> None
           | Some turnBufferAddress \<Rightarrow>
               Some \<lparr>ds_turnBufferAddress = turnBufferAddress,
                 ds_bytesInQueueAddress = bytesInQueueAddress, ds_capacityBytes = 512\<rparr>))"

definition readyFileHasDirectRuntimeCommandQueueSink :: "bridge_world \<Rightarrow> state_proof option \<Rightarrow> bool" where
  "readyFileHasDirectRuntimeCommandQueueSink w sp \<longleftrightarrow> readDirectRuntimeCommandQueueSink w sp \<noteq> None"

definition readyFileHasActiveRuntimeCommandQueueSink :: "bridge_world \<Rightarrow> state_proof option \<Rightarrow> bool" where
  "readyFileHasActiveRuntimeCommandQueueSink w sp \<longleftrightarrow>
     fileContainsLine (ready_text w) ''command.receiver=active''
   \<and> fileContainsLine (ready_text w) ''command.sink=runtime-command-queue-v1''
   \<and> readyFileHasProofBackedBinding w ''BW::BWDATA::sgdwBytesInCmdQueue'' CommandQueueKind sp
   \<and> readyFileHasProofBackedBinding w ''BW::BWDATA::TurnBuffer'' CommandQueueKind sp"

definition readyFileHasRuntimeCommandQueueSink :: "bridge_world \<Rightarrow> state_proof option \<Rightarrow> bool" where
  "readyFileHasRuntimeCommandQueueSink w sp \<longleftrightarrow>
     readyFileHasActiveRuntimeCommandQueueSink w sp \<or> readyFileHasDirectRuntimeCommandQueueSink w sp"

definition readyFileHasSharedMemoryClientTransportProof :: "bridge_world \<Rightarrow> bool" where
  "readyFileHasSharedMemoryClientTransportProof w \<longleftrightarrow>
     fileContainsLine (ready_text w) ''proof.attach=passed''
   \<and> readyFileHasProofBackedBinding w ''shared-memory-client-transport'' Transport None"

text \<open>
  The ring of the adapter: the relative path and the canonical one, or the errors (which the caller
  may drop).
\<close>

definition readResidentCommandQueueSink :: "bridge_world \<Rightarrow> string list + string \<times> string" where
  "readResidentCommandQueueSink w =
     (if \<not> fileContainsLine (ready_text w) ''proof.attach=passed'' then Inl []
      else let queuePathValue = readReadyValue (ready_text w) ''resident.queue.command.path'' in
        if queuePathValue = [] then Inl []
        else case resolveContainedReadyRelativePath (w_files w) queuePathValue of
          None \<Rightarrow> Inl [''resident command queue path must be relative and inside the bridge directory'']
        | Some queuePath \<Rightarrow>
            let queue = validateRuntimeResidentQueueFile queuePath QCommand bridge_defaults
                  (w_bytes w queuePathValue) in
            if \<not> qv_valid queue then Inl (qv_errors queue) else Inr (queuePathValue, queuePath))"

definition readyFileHasResidentCommandQueueSink :: "bridge_world \<Rightarrow> bool" where
  "readyFileHasResidentCommandQueueSink w =
     (case readResidentCommandQueueSink w of Inl _ \<Rightarrow> False | Inr _ \<Rightarrow> True)"

section \<open>Identity of the runtime\<close>

definition BridgeProtocol :: string where "BridgeProtocol = ''starcraft-api-file-bridge-v1''"

definition bridgeReadyFileMatchesRuntime :: "runtime_environment \<Rightarrow> string \<Rightarrow> bool" where
  "bridgeReadyFileMatchesRuntime environment ready =
     (if \<not> fileContainsLine ready (''protocol='' @ BridgeProtocol) then False
      else if \<not> fileContainsLine ready (''product='' @ product_toString (env_product environment))
      then False
      else if env_version environment \<noteq> []
           \<and> \<not> fileContainsLine ready (''version='' @ env_version environment)
      then False
      else readReadyValue ready ''mode'' = BridgeValidatedAdapterMode)"

text \<open>The empty text where the identity agrees.\<close>

definition validateBridgeRuntimeIdentity :: "bridge_world \<Rightarrow> runtime_environment \<Rightarrow> string" where
  "validateBridgeRuntimeIdentity w environment =
     (let ready = ready_text w; readyExecutable = readReadyValue ready ''executable'' in
      if env_processId environment > 0
         \<and> readReadyValue ready ''process_id'' \<noteq> int_to_dec (env_processId environment)
      then ''runtime executor bridge ready file process_id does not match the selected runtime''
      else if env_executablePath environment \<noteq> []
         \<and> (readyExecutable = []
            \<or> w_normalizePath w readyExecutable \<noteq> w_normalizePath w (env_executablePath environment))
      then ''runtime executor bridge ready file executable does not match the selected runtime''
      else [])"

definition bridgeReadyFileHasDuplicateIdentityKeys :: "string \<Rightarrow> string option" where
  "bridgeReadyFileHasDuplicateIdentityKeys ready =
     List.find (\<lambda>key. readyKeyCount ready key > 1)
       [''protocol'', ''product'', ''version'', ''mode'', ''process_id'', ''executable'']"

definition duplicateSensitiveReadyKey :: "string \<Rightarrow> bool" where
  "duplicateSensitiveReadyKey key \<longleftrightarrow>
     key \<in> set [''proof.attach'', ''proof.read_game_state'', ''proof.active_match_state'',
       ''proof.read_units'', ''proof.read_player_data'', ''proof.read_map_data'',
       ''proof.read_bullet_data'', ''proof.read_region_data'', ''proof.issue_commands'',
       ''proof.draw_overlays'', ''proof.dispatch_events'', ''proof.replay_analysis'',
       ''proof.multiplayer_sync'', ''proof.battle_net_policy'', ''proof.load_ai_modules'']
   \<or> list_ex (starts_with key)
      [''contract.binding.'', ''contract.structure.'', ''contract.field.'', ''proof.attach.'',
       ''proof.read_game_state.'', ''proof.active_match_state.'', ''proof.read_units.'',
       ''proof.read_player_data.'', ''proof.read_map_data.'', ''proof.read_bullet_data.'',
       ''proof.read_region_data.'', ''proof.issue_commands.'', ''proof.draw_overlays.'',
       ''proof.dispatch_events.'', ''proof.replay_analysis.'', ''proof.multiplayer_sync.'',
       ''proof.battle_net_policy.'', ''proof.load_ai_modules.'',
       ''command_surface.live_unit_command.'', ''command_surface.live_game_action.'',
       ''resident.proof.'', ''resident.queue.'']"

definition bridgeReadyFileHasDuplicateEvidenceKeys :: "string \<Rightarrow> string option" where
  "bridgeReadyFileHasDuplicateEvidenceKeys ready =
     duplicate_key duplicateSensitiveReadyKey [] (getlines ready)"

section \<open>Contract proofs\<close>

definition splitPipe :: "string \<Rightarrow> string list" where
  "splitPipe value = getlines_by (CHR ''|'') value"

definition parseSizeValue :: "string \<Rightarrow> nat option" where
  "parseSizeValue value =
     (case stoull value of
        None \<Rightarrow> None
      | Some (number, consumed) \<Rightarrow> if consumed \<noteq> length value then None else Some number)"

definition applyBindingProof ::
  "bridge_world \<Rightarrow> state_proof option \<Rightarrow> string \<Rightarrow> string \<Rightarrow> runtime_contract \<Rightarrow> runtime_contract" where
  "applyBindingProof w sp name value contract =
     (case splitPipe value of
        [kindText, evidence] \<Rightarrow>
          if evidence = [] then contract
          else (case parseBindingKind kindText of
            None \<Rightarrow> contract
          | Some kind \<Rightarrow>
              if \<not> productionEvidenceAllowedForBinding name kind evidence
                 \<or> \<not> readyFileContainsEvidenceProof w evidence sp
              then contract
              else contract\<lparr>c_bindings :=
                update_first (\<lambda>b. b_name b = name \<and> b_kind b = kind)
                  (\<lambda>b. b\<lparr>b_resolved := True, b_evidence := evidence\<rparr>) (c_bindings contract)\<rparr>)
      | _ \<Rightarrow> contract)"

definition applyStructureProof ::
  "bridge_world \<Rightarrow> state_proof option \<Rightarrow> string \<Rightarrow> string \<Rightarrow> runtime_contract \<Rightarrow> runtime_contract" where
  "applyStructureProof w sp name value contract =
     (case splitPipe value of
        [sizeText, evidence] \<Rightarrow>
          if evidence = [] then contract
          else if \<not> productionEvidenceAllowedForStructure name evidence
               \<or> \<not> readyFileContainsEvidenceProof w evidence sp
          then contract
          else (case parseSizeValue sizeText of
            None \<Rightarrow> contract
          | Some n \<Rightarrow>
              if n = 0 then contract
              else contract\<lparr>c_structures :=
                update_first (\<lambda>s. st_name s = name)
                  (\<lambda>s. s\<lparr>st_size := n, st_evidence := evidence\<rparr>) (c_structures contract)\<rparr>)
      | _ \<Rightarrow> contract)"

definition placeField :: "string \<Rightarrow> nat \<Rightarrow> nat \<Rightarrow> string \<Rightarrow> structure_layout \<Rightarrow> structure_layout" where
  "placeField fieldName offset n evidence s =
     s\<lparr>st_fields := update_first (\<lambda>f. f_name f = fieldName)
        (\<lambda>f. f\<lparr>f_resolved := True, f_offset := offset, f_size := n, f_evidence := evidence\<rparr>)
        (st_fields s)\<rparr>"

definition applyFieldProof ::
  "bridge_world \<Rightarrow> state_proof option \<Rightarrow> string \<Rightarrow> string \<Rightarrow> runtime_contract \<Rightarrow> runtime_contract" where
  "applyFieldProof w sp name value contract =
     (case splitLastDot name of
        None \<Rightarrow> contract
      | Some (structureName, fieldName) \<Rightarrow>
          if structureName = [] \<or> fieldName = [] then contract
          else (case splitPipe value of
            [offsetText, sizeText, evidence] \<Rightarrow>
              if evidence = [] then contract
              else if \<not> productionEvidenceAllowedForField structureName fieldName evidence
                   \<or> \<not> readyFileContainsEvidenceProof w evidence sp
              then contract
              else (case (parseSizeValue offsetText, parseSizeValue sizeText) of
                (Some offset, Some n) \<Rightarrow>
                  if n = 0 then contract
                  else contract\<lparr>c_structures :=
                    update_first (\<lambda>s. st_name s = structureName)
                      (placeField fieldName offset n evidence) (c_structures contract)\<rparr>
              | _ \<Rightarrow> contract)
          | _ \<Rightarrow> contract))"

definition bindingPrefix :: string where "bindingPrefix = ''contract.binding.''"
definition structurePrefix :: string where "structurePrefix = ''contract.structure.''"
definition fieldPrefix :: string where "fieldPrefix = ''contract.field.''"

definition applyContractLine ::
  "bridge_world \<Rightarrow> state_proof option \<Rightarrow> string \<Rightarrow> runtime_contract \<Rightarrow> runtime_contract" where
  "applyContractLine w sp line contract =
     (case split_at (CHR ''='') line of
        None \<Rightarrow> contract
      | Some (key, value) \<Rightarrow>
          if starts_with key bindingPrefix
          then applyBindingProof w sp (drop (length bindingPrefix) key) value contract
          else if starts_with key structurePrefix
          then applyStructureProof w sp (drop (length structurePrefix) key) value contract
          else if starts_with key fieldPrefix
          then applyFieldProof w sp (drop (length fieldPrefix) key) value contract
          else contract)"

definition applyRuntimeExecutorBridgeContractProofs ::
  "bridge_world \<Rightarrow> runtime_environment \<Rightarrow> runtime_contract \<Rightarrow> runtime_contract" where
  "applyRuntimeExecutorBridgeContractProofs w environment contract =
     (let ready = ready_text w in
      if env_executorBridgePath environment = [] then contract
      else if env_processId environment \<le> 0 then contract
      else if w_ready w = None then contract
      else if bridgeReadyFileHasDuplicateIdentityKeys ready \<noteq> None then contract
      else if bridgeReadyFileHasDuplicateEvidenceKeys ready \<noteq> None then contract
      else if \<not> bridgeReadyFileMatchesRuntime environment ready then contract
      else if validateBridgeRuntimeIdentity w environment \<noteq> [] then contract
      else if \<not> po_opened (w_process w) then contract
      else
        let resident = validateRuntimeResidentBridgeReadyFile w environment bridge_defaults;
            residentStateProof = validateRuntimeResidentStateProofs w resident
        in foldl (\<lambda>c line. applyContractLine w (Some residentStateProof) line c) contract
             (getlines ready))"

end
