(* ===== verification/Runtime_Executor.thy ===== *)
theory Runtime_Executor
  imports Executor_Evidence
begin

text \<open>
  The executor of \<open>RuntimeExecutor.cpp\<close>: the heartbeat state between calls, the preflight of a
  bridge, and \<open>submitRuntimeCommands\<close> with all its ways out.
\<close>

section \<open>Behaviour proofs\<close>

record behavior_proof =
  bp_id :: string
  bp_capability :: capability
  bp_readyFileLine :: string

definition behaviorProof :: "string \<Rightarrow> capability \<Rightarrow> string \<Rightarrow> behavior_proof" where
  "behaviorProof ident capability line =
     \<lparr>bp_id = ident, bp_capability = capability, bp_readyFileLine = line\<rparr>"

definition requiredRuntimeExecutorBehaviorProofs :: "behavior_proof list" where
  "requiredRuntimeExecutorBehaviorProofs =
     [behaviorProof ''attach'' SharedMemoryClient ''proof.attach=passed'',
      behaviorProof ''read-game-state'' ReadGameState ''proof.read_game_state=passed'',
      behaviorProof ''active-match-state'' ReadGameState ''proof.active_match_state=passed'',
      behaviorProof ''read-units'' ReadUnitData ''proof.read_units=passed'',
      behaviorProof ''read-region-data'' ReadRegionData ''proof.read_region_data=passed'',
      behaviorProof ''issue-commands'' IssueCommands ''proof.issue_commands=passed'',
      behaviorProof ''draw-overlays'' DrawOverlays ''proof.draw_overlays=passed'',
      behaviorProof ''dispatch-events'' DispatchEvents ''proof.dispatch_events=passed'',
      behaviorProof ''replay-analysis'' ReplayAnalysis ''proof.replay_analysis=passed'',
      behaviorProof ''multiplayer-sync'' MultiplayerSync ''proof.multiplayer_sync=passed'',
      behaviorProof ''battle-net-policy'' BattleNet ''proof.battle_net_policy=passed'',
      behaviorProof ''load-ai-modules'' LoadAIModules ''proof.load_ai_modules=passed'']"

definition add_capability :: "capability \<Rightarrow> capability list \<Rightarrow> capability list" where
  "add_capability capability capabilities =
     (if capability \<in> set capabilities then capabilities else capabilities @ [capability])"

section \<open>The heartbeat between calls\<close>

text \<open>The hidden state file of the bridge directory: its text, and whether it can be written.\<close>

record heartbeat_file =
  hf_text :: "string option"
  hf_writable :: bool

definition toward_zero :: "int \<Rightarrow> int \<Rightarrow> int" where
  "toward_zero n d = (if n < 0 then - ((- n) div d) else n div d)"

definition readyFileModifiedMs :: "bridge_world \<Rightarrow> int option" where
  "readyFileModifiedMs w = map_option (\<lambda>t. toward_zero t 1000000) (w_readyModified w)"

text \<open>
  \<open>std::stoi\<close>, \<open>std::stoull\<close> and \<open>std::stoll\<close> in base ten read a prefix of the value and ignore the
  rest; \<open>None\<close> where they throw.
\<close>

definition stoll10 :: "string \<Rightarrow> int option" where
  "stoll10 value =
     (case scan_decimal value of
        None \<Rightarrow> None
      | Some (neg, m, used) \<Rightarrow>
          let n = (if neg then - int m else int m) in
          if - (2 ^ 63) \<le> n \<and> n < 2 ^ 63 then Some n else None)"

definition stoi10 :: "string \<Rightarrow> int option" where
  "stoi10 value =
     (case stoll10 value of
        None \<Rightarrow> None
      | Some n \<Rightarrow> if int32_range n then Some n else None)"

definition stoull10 :: "string \<Rightarrow> nat option" where
  "stoull10 value =
     (case scan_decimal value of
        None \<Rightarrow> None
      | Some (neg, m, used) \<Rightarrow>
          if m \<ge> 2 ^ 64 then None else Some (if neg then (2 ^ 64 - m) mod 2 ^ 64 else m))"

record heartbeat_state =
  hs_processId :: int
  hs_heartbeat :: nat
  hs_readyModifiedMs :: int

definition no_heartbeat :: heartbeat_state where
  "no_heartbeat = \<lparr>hs_processId = 0, hs_heartbeat = 0, hs_readyModifiedMs = 0\<rparr>"

definition heartbeat_entry :: "string \<Rightarrow> string \<Rightarrow> heartbeat_state \<Rightarrow> heartbeat_state option" where
  "heartbeat_entry key value s =
     (if key = ''process_id'' then map_option (\<lambda>n. s\<lparr>hs_processId := n\<rparr>) (stoi10 value)
      else if key = ''heartbeat'' then map_option (\<lambda>n. s\<lparr>hs_heartbeat := n\<rparr>) (stoull10 value)
      else if key = ''ready_mtime_ms''
      then map_option (\<lambda>n. s\<lparr>hs_readyModifiedMs := n\<rparr>) (stoll10 value)
      else Some s)"

text \<open>Whether the state was read, and what of it reached the caller's variables.\<close>

fun heartbeat_lines :: "string list \<Rightarrow> heartbeat_state \<Rightarrow> bool \<times> heartbeat_state" where
  "heartbeat_lines [] s = (hs_processId s > 0 \<and> hs_heartbeat s > 0, s)"
| "heartbeat_lines (line # ls) s =
     (case split_at (CHR ''='') line of
        None \<Rightarrow> heartbeat_lines ls s
      | Some (key, value) \<Rightarrow>
          (case heartbeat_entry key value s of
             None \<Rightarrow> (False, s)
           | Some s' \<Rightarrow> heartbeat_lines ls s'))"

definition readResidentHeartbeatState :: "heartbeat_file \<Rightarrow> bool \<times> heartbeat_state" where
  "readResidentHeartbeatState file =
     (case hf_text file of
        None \<Rightarrow> (False, no_heartbeat)
      | Some text \<Rightarrow> heartbeat_lines (getlines text) no_heartbeat)"

definition writeResidentHeartbeatState ::
  "bridge_validation \<Rightarrow> int \<Rightarrow> heartbeat_file \<Rightarrow> heartbeat_file" where
  "writeResidentHeartbeatState resident readyModifiedMs file =
     (if \<not> hf_writable file then file
      else file\<lparr>hf_text := Some (text_of
        [''process_id='' @ int_to_dec (bv_processId resident),
         ''heartbeat='' @ nat_to_dec (bv_heartbeat resident),
         ''ready_mtime_ms='' @ int_to_dec readyModifiedMs])\<rparr>)"

definition staleHeartbeat :: string where
  "staleHeartbeat = ''resident adapter heartbeat did not advance after ready file update''"

text \<open>The error, if any, and the state file afterwards.\<close>

definition validateResidentHeartbeatProgression ::
  "bridge_world \<Rightarrow> bridge_validation \<Rightarrow> heartbeat_file \<Rightarrow> string option \<times> heartbeat_file" where
  "validateResidentHeartbeatProgression w resident file =
     (if \<not> bv_present resident \<or> \<not> bv_valid resident then (None, file)
      else case readyFileModifiedMs w of
        None \<Rightarrow> (None, file)
      | Some readyModifiedMs \<Rightarrow>
          let (known, previous) = readResidentHeartbeatState file in
          if known \<and> hs_processId previous = bv_processId resident
             \<and> readyModifiedMs > hs_readyModifiedMs previous
             \<and> bv_heartbeat resident \<le> hs_heartbeat previous
          then (Some staleHeartbeat, file)
          else if bv_heartbeat resident > hs_heartbeat previous
               \<or> readyModifiedMs > hs_readyModifiedMs previous
          then (None, writeResidentHeartbeatState resident readyModifiedMs file)
          else (None, file))"

section \<open>Preflight of a bridge\<close>

definition pf_error :: "string \<Rightarrow> preflight_result \<Rightarrow> preflight_result" where
  "pf_error e result = result\<lparr>pf_errors := pf_errors result @ [e]\<rparr>"

definition pf_missing :: "behavior_proof \<Rightarrow> preflight_result \<Rightarrow> preflight_result" where
  "pf_missing proof result =
     result\<lparr>pf_missingBehaviorProofs := pf_missingBehaviorProofs result @ [bp_readyFileLine proof]\<rparr>"

text \<open>The errors of the state proofs are reported once.\<close>

definition pf_state_errors :: "state_proof \<Rightarrow> preflight_result \<times> bool \<Rightarrow> preflight_result \<times> bool" where
  "pf_state_errors sp = (\<lambda>(result, reported).
     if reported then (result, True)
     else (result\<lparr>pf_errors := pf_errors result @ sp_errors sp\<rparr>, True))"

definition checkBehaviorProof ::
  "bridge_world \<Rightarrow> state_proof \<Rightarrow> behavior_proof \<Rightarrow> preflight_result \<times> bool \<Rightarrow> preflight_result \<times> bool" where
  "checkBehaviorProof w sp proof = (\<lambda>(result, reported).
     if \<not> fileContainsLine (ready_text w) (bp_readyFileLine proof)
     then (pf_missing proof result, reported)
     else if bp_id proof = ''read-game-state'' \<and> \<not> sp_readGameStateValid sp
     then pf_state_errors sp (pf_error
       ''runtime executor bridge read-game-state proof is missing valid resident frame/tick samples''
       (pf_missing proof result), reported)
     else if bp_id proof = ''active-match-state'' \<and> \<not> sp_activeMatchValid sp
     then pf_state_errors sp (pf_error
       ''runtime executor bridge active-match-state proof is missing valid resident match activity''
       (pf_missing proof result), reported)
     else if bp_id proof = ''issue-commands'' \<and> \<not> readyFileHasRuntimeCommandQueueSink w (Some sp)
     then (pf_error
       ''runtime executor bridge issue-commands proof is missing an active or direct runtime command queue sink''
       (pf_missing proof result), reported)
     else if \<not> readyFileHasValidatedProductionProof w (bp_readyFileLine proof) (Some sp)
     then (pf_error
       (''runtime executor bridge proof is missing validated production metadata: ''
        @ bp_readyFileLine proof) (pf_missing proof result), reported)
     else (result\<lparr>pf_provenCapabilities :=
             add_capability (bp_capability proof) (pf_provenCapabilities result)\<rparr>, reported))"

definition extraCapabilities :: "(string \<times> capability) list" where
  "extraCapabilities =
     [(''proof.read_map_data=passed'', ReadMapData),
      (''proof.read_player_data=passed'', ReadPlayerData),
      (''proof.read_bullet_data=passed'', ReadBulletData),
      (''proof.read_region_data=passed'', ReadRegionData),
      (''proof.load_ai_modules=passed'', LoadAIModules)]"

definition addExtraCapabilities ::
  "bridge_world \<Rightarrow> state_proof \<Rightarrow> preflight_result \<Rightarrow> preflight_result" where
  "addExtraCapabilities w sp result =
     foldl (\<lambda>result (line, capability).
         if readyFileHasValidatedProductionProof w line (Some sp)
         then result\<lparr>pf_provenCapabilities :=
                add_capability capability (pf_provenCapabilities result)\<rparr>
         else result) result extraCapabilities"

definition BridgeBootstrapMode :: string where
  "BridgeBootstrapMode = ''launch-attach-bootstrap''"

text \<open>Its last argument is \<open>requireBehaviorProofs\<close>.\<close>

definition validateProductionBridgeProof ::
  "bridge_world \<Rightarrow> state_proof \<Rightarrow> bool \<Rightarrow> preflight_result \<Rightarrow> bool \<times> preflight_result" where
  "validateProductionBridgeProof w sp requireBehaviorProofs result =
     (let mode = readReadyValue (ready_text w) ''mode'';
          result = result\<lparr>pf_executorBridgeMode := mode, pf_missingBehaviorProofs := [],
            pf_provenCapabilities := []\<rparr>;
          checked = foldl (\<lambda>s proof. checkBehaviorProof w sp proof s) (result, False)
            requiredRuntimeExecutorBehaviorProofs;
          result = addExtraCapabilities w sp (fst checked) in
      if mode = BridgeBootstrapMode
      then (False, pf_error ''runtime executor bridge is launch/attach bootstrap only; validated runtime adapter proof is required''
              (result\<lparr>pf_executorName := ''filesystem-bridge-bootstrap''\<rparr>))
      else if mode \<noteq> BridgeValidatedAdapterMode
      then (False, pf_error ''runtime executor bridge ready file is missing validated runtime adapter mode'' result)
      else
        let missing = pf_missingBehaviorProofs result;
            result = result\<lparr>pf_errors := pf_errors result @ map
              (\<lambda>proof. ''runtime executor bridge ready file is missing behavior proof: '' @ proof) missing\<rparr>
        in (if requireBehaviorProofs then missing = [] else True, result))"

definition addMissingBehaviorProofsIfEmpty :: "preflight_result \<Rightarrow> preflight_result" where
  "addMissingBehaviorProofsIfEmpty result =
     (if pf_missingBehaviorProofs result \<noteq> [] then result
      else result\<lparr>pf_missingBehaviorProofs :=
             map bp_readyFileLine requiredRuntimeExecutorBehaviorProofs\<rparr>)"

text \<open>The error that stops the preflight before the resident metadata is looked at.\<close>

definition readyFilePath :: "runtime_environment \<Rightarrow> string" where
  "readyFilePath environment = env_executorBridgePath environment @ ''/ready''"

definition bridgeRefusal :: "bridge_world \<Rightarrow> runtime_environment \<Rightarrow> string option" where
  "bridgeRefusal w environment =
     (let ready = ready_text w in
      if \<not> w_bridgeExists w
      then Some (''runtime executor bridge path does not exist: '' @ env_executorBridgePath environment)
      else if \<not> w_bridgeIsDirectory w
      then Some (''runtime executor bridge path is not a directory: '' @ env_executorBridgePath environment)
      else if w_ready w = None
      then Some (''runtime executor bridge ready file does not exist: '' @ readyFilePath environment)
      else if \<not> fileContainsLine ready (''protocol='' @ BridgeProtocol)
      then Some ''runtime executor bridge ready file has an unsupported protocol''
      else case bridgeReadyFileHasDuplicateIdentityKeys ready of
        Some duplicateKey \<Rightarrow>
          Some (''runtime executor bridge ready file has duplicate identity key: '' @ duplicateKey)
      | None \<Rightarrow>
          (case bridgeReadyFileHasDuplicateEvidenceKeys ready of
             Some duplicateKey \<Rightarrow>
               Some (''runtime executor bridge ready file has duplicate evidence key: '' @ duplicateKey)
           | None \<Rightarrow>
               if \<not> fileContainsLine ready (''product='' @ product_toString (env_product environment))
               then Some ''runtime executor bridge ready file product does not match the selected runtime''
               else if env_version environment \<noteq> []
                    \<and> \<not> fileContainsLine ready (''version='' @ env_version environment)
               then Some ''runtime executor bridge ready file version does not match the selected runtime''
               else let identityError = validateBridgeRuntimeIdentity w environment in
                 if identityError \<noteq> [] then Some identityError else None))"

definition preflightExecutorBridge ::
  "bridge_world \<Rightarrow> runtime_environment \<Rightarrow> bool \<Rightarrow> heartbeat_file \<Rightarrow> preflight_result
   \<Rightarrow> bool \<times> preflight_result \<times> heartbeat_file" where
  "preflightExecutorBridge w environment memoryRequired hf result =
     (if env_executorBridgePath environment = [] then (False, result, hf)
      else case bridgeRefusal w environment of
        Some e \<Rightarrow> (True, pf_error e result, hf)
      | None \<Rightarrow>
          let resident = validateRuntimeResidentBridgeReadyFile w environment bridge_defaults in
          if bv_present resident \<and> \<not> bv_valid resident
          then (True, result\<lparr>pf_errors := pf_errors result @ bv_errors resident\<rparr>, hf)
          else case validateResidentHeartbeatProgression w resident hf of
            (Some e, hf') \<Rightarrow> (True, pf_error e result, hf')
          | (None, hf') \<Rightarrow>
              let sp = validateRuntimeResidentStateProofs w resident;
                  (valid, result) = validateProductionBridgeProof w sp False result in
              if \<not> valid then (True, result, hf')
              else if \<not> pf_processIdentified result
              then (True, pf_error ''runtime executor bridge is stale because the selected runtime process is not visible'' result, hf')
              else
                let result = (if memoryRequired \<and> \<not> pf_memoryAccessible result
                       \<and> readyFileHasSharedMemoryClientTransportProof w
                     then result\<lparr>pf_memoryAccessible := True, pf_memoryAccessReason :=
                       ''validated runtime adapter bridge reported proof.attach=passed''\<rparr>
                     else result) in
                if memoryRequired \<and> \<not> pf_memoryAccessible result
                then (True, pf_error ''runtime executor bridge is unavailable because selected runtime memory access is denied'' result, hf')
                else (True, result\<lparr>pf_executorAvailable := True,
                        pf_executorName := ''filesystem-bridge-validated-runtime-adapter''\<rparr>, hf'))"

definition supportedExecutorPlatform :: "platform \<Rightarrow> bool" where
  "supportedExecutorPlatform p \<longleftrightarrow> p = MacOS \<or> p = Linux \<or> p = Windows"

definition supportedExecutorProduct :: "product \<Rightarrow> bool" where
  "supportedExecutorProduct p \<longleftrightarrow> p = StarCraftRemastered \<or> p = StarCraftBroodWar1161"

definition executableChecks :: "bridge_world \<Rightarrow> runtime_environment \<Rightarrow> preflight_result \<Rightarrow> preflight_result" where
  "executableChecks w environment result =
     (if env_executablePath environment = [] then pf_error ''runtime executable path is empty'' result
      else case w_executable w of
        PathPresent \<Rightarrow> result\<lparr>pf_targetLocated := True\<rparr>
      | PathMissing \<Rightarrow>
          pf_error (''runtime executable path does not exist: '' @ env_executablePath environment) result
      | PathError e \<Rightarrow> pf_error (''unable to inspect runtime executable path: '' @ e) result)"

definition processChecks ::
  "bridge_world \<Rightarrow> runtime_contract \<Rightarrow> preflight_result \<Rightarrow> preflight_result" where
  "processChecks w contract result =
     (let result = result\<lparr>pf_processIdentified := po_opened (w_process w)\<rparr> in
      if \<not> po_opened (w_process w) then pf_error (po_reason (w_process w)) result
      else if requiresCapability contract SharedMemoryClient
      then result\<lparr>pf_memoryAccessible := fst (w_memoryAccess w),
             pf_memoryAccessReason := snd (w_memoryAccess w)\<rparr>
      else result)"

definition preflightRuntimeExecutor ::
  "bridge_world \<Rightarrow> runtime_environment \<Rightarrow> runtime_contract \<Rightarrow> heartbeat_file
   \<Rightarrow> preflight_result \<times> heartbeat_file" where
  "preflightRuntimeExecutor w environment contract hf =
     (let proofBackedContract = applyRuntimeExecutorBridgeContractProofs w environment contract;
          validation = validateRuntimeContract proofBackedContract;
          result = default_preflight\<lparr>pf_contractValid := cv_valid validation,
            pf_errors := cv_errors validation, pf_warnings := cv_warnings validation\<rparr>;
          result = (if \<not> supportedExecutorPlatform (env_platform environment)
            then pf_error ''runtime platform is unsupported for process execution'' result else result);
          result = (if \<not> supportedExecutorProduct (env_product environment)
            then pf_error ''runtime product is unsupported for process execution'' result else result);
          result = processChecks w proofBackedContract (executableChecks w environment result);
          (handled, result, hf') = preflightExecutorBridge w environment
            (requiresCapability proofBackedContract SharedMemoryClient) hf result;
          result = (if \<not> handled
            then result\<lparr>pf_warnings := pf_warnings result
                   @ [''authorized runtime executor bridge is not configured'']\<rparr>
            else result);
          result = (if \<not> pf_executorAvailable result \<and> \<not> handled
            then addMissingBehaviorProofsIfEmpty result else result)
      in (result, hf'))"

end
