(* ===== verification/Executor_Submission.thy ===== *)
theory Executor_Submission
  imports Runtime_Executor
begin

text \<open>
  \<open>submitRuntimeCommands\<close>: admission, the manifest or the command surface, the bridge, the proofs of
  a submission, and the three places commands can go to.
\<close>

section \<open>Which commands are declared\<close>

definition undeclared :: "string \<Rightarrow> command_surface \<Rightarrow> command_request \<Rightarrow> string option" where
  "undeclared declarer surface command =
     (case rq_kind command of
        UnitCommand \<Rightarrow>
          if \<not> containsCommandSurfaceEntry (unitCommands surface) (rq_name command)
          then Some (declarer @ '' does not declare BWAPI unit command: '' @ rq_name command) else None
      | GameAction \<Rightarrow>
          if \<not> containsCommandSurfaceEntry (gameActions surface) (rq_name command)
          then Some (declarer @ '' does not declare BWAPI game action: '' @ rq_name command) else None)"

text \<open>The loop: the refusal of the first command that is not declared.\<close>

fun first_undeclared :: "string \<Rightarrow> command_surface \<Rightarrow> command_request list \<Rightarrow> string option" where
  "first_undeclared declarer surface [] = None"
| "first_undeclared declarer surface (command # commands) =
     (case undeclared declarer surface command of
        Some reason \<Rightarrow> Some reason
      | None \<Rightarrow> first_undeclared declarer surface commands)"

definition CommandSurfaceLine :: string where
  "CommandSurfaceLine = ''proof.command_surface=runtime-command-surface-v1''"

definition validateCommandsAgainstBridgeSurface ::
  "bridge_world \<Rightarrow> runtime_environment \<Rightarrow> command_request list \<Rightarrow> submit_result \<Rightarrow> bool \<times> submit_result" where
  "validateCommandsAgainstBridgeSurface w environment commands result =
     (let ready = ready_text w in
      if env_executorBridgePath environment = [] then (False, result)
      else if w_ready w = None then (False, result)
      else if \<not> bridgeReadyFileMatchesRuntime environment ready then (False, result)
      else if validateBridgeRuntimeIdentity w environment \<noteq> [] then (False, result)
      else if \<not> fileContainsLine ready CommandSurfaceLine then (False, result)
      else case first_undeclared ''runtime bridge command surface'' makeBWAPICommandSurface commands of
        Some reason \<Rightarrow> (False, rejectSubmit reason result)
      | None \<Rightarrow>
          (True, submit_warning ''runtime manifest was not provided; command was validated against the bridge-proven BWAPI command surface'' result))"

text \<open>The command tables of a manifest, seen as a surface.\<close>

definition manifest_surface :: "manifest \<Rightarrow> command_surface" where
  "manifest_surface m =
     makeBWAPICommandSurface\<lparr>unitCommands := m_unitCommands m, gameActions := m_gameActions m\<rparr>"

definition first_or :: "string \<Rightarrow> string \<Rightarrow> string list \<Rightarrow> string" where
  "first_or none some es = (case es of [] \<Rightarrow> none | e # _ \<Rightarrow> some @ e)"

definition validateCommandsAgainstManifest ::
  "bridge_world \<Rightarrow> runtime_environment \<Rightarrow> command_request list \<Rightarrow> submit_result \<Rightarrow> bool \<times> submit_result" where
  "validateCommandsAgainstManifest w environment commands result =
     (if env_product environment \<noteq> StarCraftRemastered \<and> env_manifestPath environment = []
      then (True, result)
      else if env_manifestPath environment = []
      then (let (valid, result) = validateCommandsAgainstBridgeSurface w environment commands result in
        if valid then (True, result)
        else (False, rejectSubmit ''runtime manifest or bridge-proven command surface is required for StarCraft Remastered command submission'' result))
      else
        let loaded = loadRuntimeManifestFile (env_manifestPath environment) (w_manifest w);
            contract = m_contract (lr_manifest loaded) in
        if \<not> lr_loaded loaded
        then (False, rejectSubmit (first_or ''runtime manifest failed to load''
               ''runtime manifest failed to load: '' (lr_errors loaded)) result)
        else if c_product contract \<noteq> env_product environment
        then (False, rejectSubmit ''runtime manifest product does not match the selected runtime'' result)
        else if env_version environment \<noteq> [] \<and> c_version contract \<noteq> env_version environment
        then (False, rejectSubmit ''runtime manifest version does not match the selected runtime'' result)
        else let validation = validateRuntimeContract contract in
          if \<not> cv_valid validation
          then (False, rejectSubmit (first_or ''runtime manifest contract is invalid''
                 ''runtime manifest contract is invalid: '' (cv_errors validation)) result)
          else case first_undeclared ''runtime manifest'' (manifest_surface (lr_manifest loaded)) commands of
            Some reason \<Rightarrow> (False, rejectSubmit reason result)
          | None \<Rightarrow> (True, result))"

section \<open>The proofs of a submission\<close>

definition missingProof :: string where
  "missingProof = ''runtime executor bridge is missing command submission proof: ''"

definition validateSubmissionBridgeProof ::
  "bridge_world \<Rightarrow> bridge_validation \<Rightarrow> state_proof \<Rightarrow> submit_result \<Rightarrow> bool \<times> submit_result" where
  "validateSubmissionBridgeProof w resident sp result =
     (let ready = ready_text w in
      if readReadyValue ready ''mode'' \<noteq> BridgeValidatedAdapterMode
      then (False, rejectSubmit ''runtime executor bridge is not a validated runtime adapter'' result)
      else if \<not> fileContainsLine ready ''proof.attach=passed''
           \<or> \<not> readyFileHasValidatedProductionProof w ''proof.attach=passed'' (Some sp)
      then (False, rejectSubmit (missingProof @ ''proof.attach=passed'') result)
      else
        let issueCommandsPresent = fileContainsLine ready ''proof.issue_commands=passed'';
            issueCommandsValidated = issueCommandsPresent
              \<and> readyFileHasValidatedProductionProof w ''proof.issue_commands=passed'' (Some sp) in
        if issueCommandsPresent \<and> \<not> issueCommandsValidated
        then (False, rejectSubmit ''runtime executor bridge issue-commands proof is missing validated production metadata'' result)
        else
          let residentIngressEligible = bv_present resident \<and> bv_valid resident \<and> bv_active resident
                \<and> sp_activeMatchValid sp;
              hasActiveRuntimeSink = readyFileHasActiveRuntimeCommandQueueSink w (Some sp);
              hasResidentIngressSink = residentIngressEligible \<and> readyFileHasResidentCommandQueueSink w;
              missing = (if issueCommandsValidated then [] else [''proof.issue_commands=passed''])
                @ (if \<not> hasActiveRuntimeSink \<and> \<not> hasResidentIngressSink
                   then [''active or direct runtime command queue sink''] else [])
          in if missing = []
                \<or> (missing = [''proof.issue_commands=passed''] \<and> \<not> issueCommandsPresent
                    \<and> hasResidentIngressSink)
             then (True, if missing \<noteq> []
               then submit_warning (''runtime commands can be enqueued to the resident command ingress, ''
                      @ ''but live SC:R command execution proof.issue_commands=passed is still missing'') result
               else result)
             else (False, result\<lparr>sr_reason := missingProof @ hd missing,
                     sr_errors := sr_errors result @ map (\<lambda>proof. missingProof @ proof) missing\<rparr>))"

section \<open>Submission\<close>

text \<open>What a submission can write: the rings, the process memory, the text files of the bridge.\<close>

record 'm executor_state =
  ex_queue :: "string \<Rightarrow> queue_file"
  ex_memory :: 'm
  ex_audit :: text_file
  ex_commandFile :: text_file
  ex_heartbeat :: heartbeat_file

text \<open>The loop that queues: the refusal of the first command, or all of them.\<close>

fun enqueueAll :: "command_request list \<Rightarrow> command_queue \<Rightarrow> string + command_queue" where
  "enqueueAll [] queue = Inr queue"
| "enqueueAll (command # commands) queue =
     (let (queued, queue') = enqueue command queue in
      if \<not> qr_accepted queued then Inl (qr_reason queued) else enqueueAll commands queue')"

definition submissionRefusal :: "bridge_world \<Rightarrow> runtime_environment \<Rightarrow> string option" where
  "submissionRefusal w environment =
     (let ready = ready_text w in
      if env_executorBridgePath environment = [] then Some ''runtime executor bridge path is empty''
      else if \<not> w_bridgeIsDirectory w
      then Some (''runtime executor bridge path is not available: '' @ env_executorBridgePath environment)
      else if \<not> fileContainsLine ready (''protocol='' @ BridgeProtocol)
      then Some ''runtime executor bridge ready file has an unsupported protocol''
      else case bridgeReadyFileHasDuplicateIdentityKeys ready of
        Some duplicateKey \<Rightarrow>
          Some (''runtime executor bridge ready file has duplicate identity key: '' @ duplicateKey)
      | None \<Rightarrow>
          (case bridgeReadyFileHasDuplicateEvidenceKeys ready of
             Some duplicateKey \<Rightarrow>
               Some (''runtime executor bridge ready file has duplicate evidence key: '' @ duplicateKey)
           | None \<Rightarrow>
               if \<not> fileContainsLine ready (''product='' @ product_toString (env_product environment))
               then Some ''runtime executor bridge ready file product does not match the selected runtime''
               else if env_version environment \<noteq> []
                    \<and> \<not> fileContainsLine ready (''version='' @ env_version environment)
               then Some ''runtime executor bridge ready file version does not match the selected runtime''
               else let identityError = validateBridgeRuntimeIdentity w environment in
                 if identityError \<noteq> [] then Some identityError
                 else if \<not> po_opened (w_process w)
                 then Some (if po_reason (w_process w) = []
                   then ''runtime process identity could not be verified before command submission''
                   else po_reason (w_process w))
                 else None))"

definition append_lines :: "string list \<Rightarrow> text_file \<Rightarrow> text_file" where
  "append_lines ls file =
     file\<lparr>tf_text := Some ((case tf_text file of None \<Rightarrow> [] | Some t \<Rightarrow> t) @ text_of ls)\<rparr>"

text \<open>The delivery of the drained commands: the turn buffer, the ring, or the command file.\<close>

definition deliverCommands ::
  "'m os_memory \<Rightarrow> bridge_world \<Rightarrow> runtime_environment \<Rightarrow> state_proof \<Rightarrow> command_request list
   \<Rightarrow> submit_result \<Rightarrow> 'm executor_state \<Rightarrow> submit_result \<times> 'm executor_state" where
  "deliverCommands os w environment sp drained result st =
     (case (if readyFileHasActiveRuntimeCommandQueueSink w (Some sp) then None
            else readDirectRuntimeCommandQueueSink w (Some sp)) of
        Some directSink \<Rightarrow>
          (let (result, memory, audit) = submitDirectRuntimeCommands os (env_processId environment) directSink drained
                 result (ex_memory st) (ex_audit st)
           in (result, st\<lparr>ex_memory := memory, ex_audit := audit\<rparr>))
      | None \<Rightarrow>
          (case readResidentCommandQueueSink w of
             Inr (relative, queuePath) \<Rightarrow>
               (let (result, q, audit) = submitResidentRuntimeCommands queuePath drained result
                      (ex_queue st relative) (ex_audit st)
                in (result, st\<lparr>ex_queue := (ex_queue st)(relative := q), ex_audit := audit\<rparr>))
           | Inl errors \<Rightarrow>
               (let result = result\<lparr>sr_errors := sr_errors result @ errors\<rparr> in
                if \<not> tf_opens (ex_commandFile st)
                then (rejectSubmit ''unable to open runtime executor command file'' result, st)
                else (result\<lparr>sr_submitted := True, sr_submittedCommands := length drained\<rparr>,
                      st\<lparr>ex_commandFile := append_lines (map serializeCommand drained)
                           (ex_commandFile st)\<rparr>))))"

definition submitRuntimeCommands ::
  "'m os_memory \<Rightarrow> bridge_world \<Rightarrow> runtime_environment \<Rightarrow> command_request list \<Rightarrow> 'm executor_state
   \<Rightarrow> submit_result \<times> 'm executor_state" where
  "submitRuntimeCommands os w environment commands st =
     (let result = default_submit_result in
      case enqueueAll commands new_command_queue of
        Inl reason \<Rightarrow> (rejectSubmit reason result, st)
      | Inr queue \<Rightarrow>
          let (declared, result) = validateCommandsAgainstManifest w environment commands result in
          if \<not> declared then (result, st)
          else case submissionRefusal w environment of
            Some reason \<Rightarrow> (rejectSubmit reason result, st)
          | None \<Rightarrow>
              let resident = validateRuntimeResidentBridgeReadyFile w environment bridge_defaults in
              if bv_present resident \<and> \<not> bv_valid resident
              then (result\<lparr>sr_reason := first_or ''runtime resident adapter metadata is invalid'' []
                        (bv_errors resident),
                      sr_errors := sr_errors result @ bv_errors resident\<rparr>, st)
              else case validateResidentHeartbeatProgression w resident (ex_heartbeat st) of
                (Some e, hf) \<Rightarrow>
                  (result\<lparr>sr_errors := sr_errors result @ [e],
                     sr_reason := hd (sr_errors result @ [e])\<rparr>, st\<lparr>ex_heartbeat := hf\<rparr>)
              | (None, hf) \<Rightarrow>
                  let st = st\<lparr>ex_heartbeat := hf\<rparr>;
                      sp = validateRuntimeResidentStateProofs w resident;
                      (proven, result) = validateSubmissionBridgeProof w resident sp result in
                  if \<not> proven then (result, st)
                  else deliverCommands os w environment sp (fst (drain queue)) result st)"

end
