(* ===== verification/Remastered_Backend.thy ===== *)
theory Remastered_Backend
  imports Executor_Submission
begin

text \<open>
  The Remastered backend (\<open>RemasteredRuntimeBackend.cpp\<close>): its probe over the manifest, the bridge and
  the process, and the sessions of the three backends. A probe runs the preflight of the executor,
  so it may write the heartbeat state of the bridge.
\<close>

section \<open>The contract in force\<close>

definition remastered_base :: "runtime_environment \<Rightarrow> runtime_contract" where
  "remastered_base environment =
     makeRemasteredParityContract
       (if env_version environment = [] then ''unknown'' else env_version environment)"

definition loaded_manifest :: "bridge_world \<Rightarrow> runtime_environment \<Rightarrow> manifest option" where
  "loaded_manifest w environment =
     (if env_manifestPath environment = [] then None
      else let loaded = loadRuntimeManifestFile (env_manifestPath environment) (w_manifest w) in
        if lr_loaded loaded then Some (lr_manifest loaded) else None)"

definition contract_in_force :: "bridge_world \<Rightarrow> runtime_environment \<Rightarrow> runtime_contract" where
  "contract_in_force w environment =
     applyRuntimeExecutorBridgeContractProofs w environment
       (case loaded_manifest w environment of
          None \<Rightarrow> remastered_base environment | Some m \<Rightarrow> m_contract m)"

definition unsupportedReason ::
  "bridge_world \<Rightarrow> runtime_environment \<Rightarrow> heartbeat_file \<Rightarrow> string \<times> heartbeat_file" where
  "unsupportedReason w environment hf =
     (let contract = contract_in_force w environment;
          validation = validateRuntimeContract contract;
          (preflight, hf') = preflightRuntimeExecutor w environment contract hf
      in (''StarCraft Remastered runtime backend is not production ready. ''
          @ ''The parity contract currently has '' @ nat_to_dec (length (cv_errors validation))
          @ '' unresolved production gate error(s). ''
          @ ''Executor preflight has '' @ nat_to_dec (length (pf_errors preflight))
          @ '' error(s) and '' @ nat_to_dec (length (pf_warnings preflight)) @ '' warning(s).''
          @ (if contractContainsFixtureEvidence contract
             then '' Runtime contract uses fixture validation evidence and cannot claim production support.''
             else [])
          @ (if env_manifestPath environment \<noteq> []
             then '' Runtime manifest: '' @ env_manifestPath environment @ ''.'' else []),
          hf'))"

section \<open>The probe\<close>

definition addBuiltInApiSurface :: "runtime_contract \<Rightarrow> probe_result \<Rightarrow> probe_result" where
  "addBuiltInApiSurface contract result =
     result\<lparr>pr_apiSurfaceMethods := c_requiredApiSurfaceMethods contract\<rparr>"

definition probe_capability :: "capability \<Rightarrow> probe_result \<Rightarrow> probe_result" where
  "probe_capability capability result =
     result\<lparr>pr_capabilities := add_capability capability (pr_capabilities result)\<rparr>"

definition addValidatedBridgeCapabilities :: "preflight_result \<Rightarrow> probe_result \<Rightarrow> probe_result" where
  "addValidatedBridgeCapabilities preflight result =
     (if pf_executorBridgeMode preflight \<noteq> BridgeValidatedAdapterMode then result
      else foldl (\<lambda>result capability. probe_capability capability result) result
             (pf_provenCapabilities preflight))"

definition probe_declared :: "bridge_world \<Rightarrow> runtime_environment \<Rightarrow> probe_result" where
  "probe_declared w environment =
     (case loaded_manifest w environment of
        None \<Rightarrow> addBuiltInCommandSurface
          (addBuiltInApiSurface (remastered_base environment) default_probe_result)
      | Some m \<Rightarrow> default_probe_result\<lparr>pr_capabilities := m_capabilities m,
          pr_unitCommands := m_unitCommands m, pr_gameActions := m_gameActions m,
          pr_unitCommandEvidence := staticManifestCommandEvidence (m_unitCommandEvidence m),
          pr_gameActionEvidence := staticManifestCommandEvidence (m_gameActionEvidence m),
          pr_apiSurfaceMethods := m_apiSurfaceMethods m,
          pr_commandSurfaceEntries := m_commandSurfaceEntries m\<rparr>)"

definition remasteredProbe ::
  "bridge_world \<Rightarrow> runtime_environment \<Rightarrow> heartbeat_file \<Rightarrow> probe_result \<times> heartbeat_file" where
  "remasteredProbe w environment hf =
     (let contract = contract_in_force w environment;
          result = probe_declared w environment;
          result = (if fst (w_memoryAccess w) then probe_capability SharedMemoryClient result
            else result);
          (preflight, hf1) = preflightRuntimeExecutor w environment contract hf;
          result = addValidatedBridgeCapabilities preflight result;
          resident = validateRuntimeResidentBridgeReadyFile w environment bridge_defaults;
          result = applyBridgeLiveCommandEvidence (w_files w) (w_ready w)
            (validateRuntimeResidentStateProofs w resident) environment preflight result;
          supported = canClaimProductionSupport (result\<lparr>pr_supported := True\<rparr>) contract
            \<and> pf_executorAvailable preflight
            \<and> (\<not> requiresCapability contract SharedMemoryClient \<or> pf_memoryAccessible preflight)
            \<and> pf_errors preflight = [];
          (reason, hf2) = (if supported then ([], hf1) else unsupportedReason w environment hf1)
      in (result\<lparr>pr_supported := supported, pr_reason := reason\<rparr>, hf2))"

section \<open>Sessions\<close>

text \<open>
  The surroundings of one call on a backend: the detected installation for the 1.16.1 backend, and
  the world of the bridge.
\<close>

record observation =
  ob_installation :: runtime_installation
  ob_world :: bridge_world

definition backend_probe ::
  "observation \<Rightarrow> backend \<Rightarrow> heartbeat_file \<Rightarrow> probe_result \<times> heartbeat_file" where
  "backend_probe ob b hf =
     (case be_kind b of
        LegacyBackend \<Rightarrow>
          (legacyProbe (be_environment b) (ob_installation ob) (w_process (ob_world ob)), hf)
      | RemasteredBackend \<Rightarrow> remasteredProbe (ob_world ob) (be_environment b) hf
      | UnsupportedBackend name reason \<Rightarrow> (unsupportedProbe reason, hf))"

definition failed_open :: "string \<Rightarrow> backend \<Rightarrow> open_result \<times> backend" where
  "failed_open reason b =
     (\<lparr>or_opened = False, or_state = SessionFailed, or_reason = reason\<rparr>, b\<lparr>be_state := SessionFailed\<rparr>)"

definition backend_open ::
  "observation \<Rightarrow> backend \<Rightarrow> heartbeat_file \<Rightarrow> open_result \<times> backend \<times> heartbeat_file" where
  "backend_open ob b hf =
     (let (probeResult, hf1) = backend_probe ob b hf in
      case be_kind b of
        RemasteredBackend \<Rightarrow>
          if \<not> pr_supported probeResult
          then (let (reason, hf2) = (if pr_reason probeResult = []
                       then unsupportedReason (ob_world ob) (be_environment b) hf1
                       else (pr_reason probeResult, hf1));
                    (opened, b') = failed_open reason b
                in (opened, b', hf2))
          else (\<lparr>or_opened = True, or_state = SessionOpen,
                 or_reason = ''StarCraft Remastered runtime backend opened''\<rparr>,
                b\<lparr>be_state := SessionOpen\<rparr>, hf1)
      | _ \<Rightarrow> (let (opened, b') = failed_open (pr_reason probeResult) b in (opened, b', hf1)))"

definition backend_close :: "backend \<Rightarrow> backend" where
  "backend_close b = b\<lparr>be_state := SessionClosed\<rparr>"

text \<open>The calls a client can make on a backend.\<close>

inductive session_step :: "backend \<times> heartbeat_file \<Rightarrow> backend \<times> heartbeat_file \<Rightarrow> bool" where
  session_probe: "session_step (b, hf) (b, snd (backend_probe ob b hf))"
| session_open: "backend_open ob b hf = (r, b', hf') \<Longrightarrow> session_step (b, hf) (b', hf')"
| session_close: "session_step (b, hf) (backend_close b, hf)"

end
