(* ===== verification/Executor_Properties.thy ===== *)
theory Executor_Properties
  imports Remastered_Backend
begin

text \<open>
  What the executor and the Remastered backend promise: the command-queue evidence that nothing
  validates, where submissions can go, that no backend opens, which parts of a contract a bridge can
  resolve, and the heartbeat between calls.
\<close>

section \<open>The proof of command delivery\<close>

lemma issue_commands_never [simp]:
  "\<not> readyFileHasValidatedProductionProof w ''proof.issue_commands=passed'' sp"
  by (simp add: readyFileHasValidatedProductionProof_def validatedIssueCommandsProof_def)

lemma no_queue_evidence [simp]: "proofBackedEvidence w name CommandQueueKind sp = None"
proof -
  have "\<not> readyFileContainsEvidenceProof w evidence sp"
    if "productionEvidenceAllowedForBinding name CommandQueueKind evidence" for evidence
    using that
    by (auto simp: productionEvidenceAllowedForBinding_def readyFileContainsEvidenceProof_def
        proofLineMatches_def Let_def split: if_splits)
  then show ?thesis by (auto simp: proofBackedEvidence_def Let_def)
qed

lemma no_sinks [simp]:
  "readDirectRuntimeCommandQueueSink w sp = None"
  "\<not> readyFileHasActiveRuntimeCommandQueueSink w sp"
  "\<not> readyFileHasRuntimeCommandQueueSink w sp"
  by (simp_all add: readDirectRuntimeCommandQueueSink_def readCommandQueueBindingAddress_def
      readyFileHasActiveRuntimeCommandQueueSink_def readyFileHasProofBackedBinding_def
      readyFileHasRuntimeCommandQueueSink_def readyFileHasDirectRuntimeCommandQueueSink_def)

section \<open>Preflight\<close>

abbreviation run_checks ::
  "bridge_world \<Rightarrow> state_proof \<Rightarrow> preflight_result \<times> bool \<Rightarrow> behavior_proof list \<Rightarrow> preflight_result \<times> bool" where
  "run_checks w sp s ps \<equiv> foldl (\<lambda>s bp. checkBehaviorProof w sp bp s) s ps"

lemma check_missing:
  "set (pf_missingBehaviorProofs (fst s))
     \<subseteq> set (pf_missingBehaviorProofs (fst (checkBehaviorProof w sp bp s)))"
  by (cases s) (auto simp: checkBehaviorProof_def pf_missing_def pf_error_def pf_state_errors_def)

lemma check_available [simp]:
  "pf_executorAvailable (fst (checkBehaviorProof w sp bp s)) = pf_executorAvailable (fst s)"
  by (cases s) (auto simp: checkBehaviorProof_def pf_missing_def pf_error_def pf_state_errors_def)

lemma checks_missing:
  "set (pf_missingBehaviorProofs (fst s)) \<subseteq> set (pf_missingBehaviorProofs (fst (run_checks w sp s ps)))"
proof (induction ps arbitrary: s)
  case Nil
  then show ?case by simp
next
  case (Cons bp ps)
  from check_missing [of s w sp bp] Cons [of "checkBehaviorProof w sp bp s"]
  show ?case by auto
qed

lemma checks_available [simp]:
  "pf_executorAvailable (fst (run_checks w sp s ps)) = pf_executorAvailable (fst s)"
  by (induction ps arbitrary: s) simp_all

lemma check_unvalidated:
  assumes "\<not> readyFileHasValidatedProductionProof w (bp_readyFileLine bp) (Some sp)"
  shows "bp_readyFileLine bp \<in> set (pf_missingBehaviorProofs (fst (checkBehaviorProof w sp bp s)))"
  using assms
  by (cases s) (auto simp: checkBehaviorProof_def pf_missing_def pf_error_def pf_state_errors_def)

lemma checks_unvalidated:
  assumes "bp \<in> set ps" "\<not> readyFileHasValidatedProductionProof w (bp_readyFileLine bp) (Some sp)"
  shows "bp_readyFileLine bp \<in> set (pf_missingBehaviorProofs (fst (run_checks w sp s ps)))"
  using assms(1)
proof (induction ps arbitrary: s)
  case Nil
  then show ?case by simp
next
  case (Cons q ps)
  then show ?case
    using check_unvalidated [OF assms(2), of s] checks_missing [of "checkBehaviorProof w sp bp s" w sp ps]
    by (cases "bp \<in> set ps") auto
qed

lemma extra_unchanged [simp]:
  "pf_missingBehaviorProofs (addExtraCapabilities w sp r) = pf_missingBehaviorProofs r"
  "pf_executorAvailable (addExtraCapabilities w sp r) = pf_executorAvailable r"
  by (simp_all add: addExtraCapabilities_def extraCapabilities_def)

definition missingIssueCommands :: string where
  "missingIssueCommands =
     ''runtime executor bridge ready file is missing behavior proof: '' @ ''proof.issue_commands=passed''"

lemma issue_commands_missing:
  "''proof.issue_commands=passed'' \<in> set (pf_missingBehaviorProofs
      (fst (run_checks w sp s requiredRuntimeExecutorBehaviorProofs)))"
proof -
  have "behaviorProof ''issue-commands'' IssueCommands ''proof.issue_commands=passed''
      \<in> set requiredRuntimeExecutorBehaviorProofs"
    by (simp add: requiredRuntimeExecutorBehaviorProofs_def)
  from checks_unvalidated [OF this] show ?thesis by (simp add: behaviorProof_def)
qed

lemma pf_error_unchanged [simp]:
  "pf_executorAvailable (pf_error e r) = pf_executorAvailable r"
  "pf_errors (pf_error e r) = pf_errors r @ [e]"
  "pf_processIdentified (pf_error e r) = pf_processIdentified r"
  by (simp_all add: pf_error_def)

lemma validated_bridge:
  assumes "validateProductionBridgeProof w sp rq r = (ok, r')"
  shows "pf_executorAvailable r' = pf_executorAvailable r"
    "ok \<Longrightarrow> missingIssueCommands \<in> set (pf_errors r')"
proof -
  let ?s = "(r\<lparr>pf_executorBridgeMode := readReadyValue (ready_text w) ''mode'',
      pf_missingBehaviorProofs := [], pf_provenCapabilities := []\<rparr>, False)"
  let ?c = "addExtraCapabilities w sp (fst (run_checks w sp ?s requiredRuntimeExecutorBehaviorProofs))"
  have result: "validateProductionBridgeProof w sp rq r =
     (if readReadyValue (ready_text w) ''mode'' = BridgeBootstrapMode
      then (False, pf_error ''runtime executor bridge is launch/attach bootstrap only; validated runtime adapter proof is required''
              (?c\<lparr>pf_executorName := ''filesystem-bridge-bootstrap''\<rparr>))
      else if readReadyValue (ready_text w) ''mode'' \<noteq> BridgeValidatedAdapterMode
      then (False, pf_error ''runtime executor bridge ready file is missing validated runtime adapter mode'' ?c)
      else (if rq then pf_missingBehaviorProofs ?c = [] else True,
        ?c\<lparr>pf_errors := pf_errors ?c @ map
              (\<lambda>proof. ''runtime executor bridge ready file is missing behavior proof: '' @ proof)
              (pf_missingBehaviorProofs ?c)\<rparr>))"
    unfolding validateProductionBridgeProof_def Let_def ..
  have c: "pf_executorAvailable ?c = pf_executorAvailable r" by simp
  have "''proof.issue_commands=passed'' \<in> set (pf_missingBehaviorProofs ?c)"
    using issue_commands_missing by simp
  then have m: "missingIssueCommands \<in> set (map
      (\<lambda>proof. ''runtime executor bridge ready file is missing behavior proof: '' @ proof)
      (pf_missingBehaviorProofs ?c))"
    unfolding missingIssueCommands_def set_map by (rule imageI)
  show "pf_executorAvailable r' = pf_executorAvailable r"
    using assms c unfolding result by (auto split: if_splits)
  show "missingIssueCommands \<in> set (pf_errors r')" if ok
    using assms m that unfolding result by (auto split: if_splits)
qed

lemma available_bridge_errs:
  assumes "preflightExecutorBridge w environment m hf r = (h, r', hf')"
    and "pf_executorAvailable r'" "\<not> pf_executorAvailable r"
  shows "missingIssueCommands \<in> set (pf_errors r')"
proof -
  let ?resident = "validateRuntimeResidentBridgeReadyFile w environment bridge_defaults"
  let ?sp = "validateRuntimeResidentStateProofs w ?resident"
  obtain ok r1 where v: "validateProductionBridgeProof w ?sp False r = (ok, r1)" by fastforce
  from assms have "ok \<and> pf_errors r' = pf_errors r1"
    using validated_bridge(1) [OF v]
    by (auto simp: preflightExecutorBridge_def v Let_def split: if_splits option.splits prod.splits)
  with validated_bridge(2) [OF v] show ?thesis by simp
qed

lemma processChecks_available [simp]:
  "pf_executorAvailable (processChecks w c r) = pf_executorAvailable r"
  by (simp add: processChecks_def Let_def)

lemma executableChecks_available [simp]:
  "pf_executorAvailable (executableChecks w e r) = pf_executorAvailable r"
  by (simp add: executableChecks_def split: path_status.split)

lemma available_preflight_errs:
  assumes "preflightRuntimeExecutor w environment contract hf = (r, hf')" "pf_executorAvailable r"
  shows "missingIssueCommands \<in> set (pf_errors r)"
proof -
  let ?c = "applyRuntimeExecutorBridgeContractProofs w environment contract"
  let ?r0 = "default_preflight\<lparr>pf_contractValid := cv_valid (validateRuntimeContract ?c),
    pf_errors := cv_errors (validateRuntimeContract ?c),
    pf_warnings := cv_warnings (validateRuntimeContract ?c)\<rparr>"
  let ?r1 = "if \<not> supportedExecutorPlatform (env_platform environment)
    then pf_error ''runtime platform is unsupported for process execution'' ?r0 else ?r0"
  let ?r2 = "if \<not> supportedExecutorProduct (env_product environment)
    then pf_error ''runtime product is unsupported for process execution'' ?r1 else ?r1"
  let ?r3 = "processChecks w ?c (executableChecks w environment ?r2)"
  obtain h r4 hf4 where b: "preflightExecutorBridge w environment
      (requiresCapability ?c SharedMemoryClient) hf ?r3 = (h, r4, hf4)"
    by (metis prod_cases3)
  let ?r5 = "if \<not> h then r4\<lparr>pf_warnings := pf_warnings r4
      @ [''authorized runtime executor bridge is not configured'']\<rparr> else r4"
  have "r = (if \<not> pf_executorAvailable ?r5 \<and> \<not> h then addMissingBehaviorProofsIfEmpty ?r5 else ?r5)"
    using assms(1) unfolding preflightRuntimeExecutor_def Let_def b by simp
  moreover have "pf_executorAvailable (addMissingBehaviorProofsIfEmpty x) = pf_executorAvailable x" for x
    by (simp add: addMissingBehaviorProofsIfEmpty_def)
  ultimately have "pf_executorAvailable r4" "pf_errors r = pf_errors r4"
    using assms(2) by (auto split: if_splits)
  moreover have "\<not> pf_executorAvailable ?r3" by (simp add: default_preflight_def)
  ultimately show ?thesis using available_bridge_errs [OF b] by simp
qed

section \<open>The Remastered backend\<close>

lemma remastered_unsupported: "\<not> pr_supported (fst (remasteredProbe w environment hf))"
proof -
  obtain r hf1 where p: "preflightRuntimeExecutor w environment (contract_in_force w environment) hf = (r, hf1)"
    by fastforce
  have "pf_executorAvailable r \<Longrightarrow> pf_errors r \<noteq> []"
    using available_preflight_errs [OF p] by auto
  then show ?thesis
    unfolding remasteredProbe_def Let_def p by (auto split: prod.split)
qed

lemma backend_unsupported: "\<not> pr_supported (fst (backend_probe ob b hf))"
  by (simp add: backend_probe_def legacyProbe_def unsupportedProbe_def remastered_unsupported Let_def
      split: backend_kind.split)

lemma open_fails:
  assumes "backend_open ob b hf = (r, b', hf')"
  shows "\<not> or_opened r" "or_state r = SessionFailed" "b' = b\<lparr>be_state := SessionFailed\<rparr>"
  using assms backend_unsupported [of ob b hf]
  by (auto simp: backend_open_def failed_open_def split: prod.splits backend_kind.splits if_splits)

inductive_cases session_stepE: "session_step s t"

lemma session_reach:
  assumes "session_step\<^sup>*\<^sup>* (createRuntimeBackend environment, hf) (b, hf')"
  shows "be_state b \<in> {SessionClosed, SessionFailed}
    \<and> be_kind b = be_kind (createRuntimeBackend environment) \<and> be_environment b = environment"
  using assms
proof (induction "(b, hf')" arbitrary: b hf' rule: rtranclp_induct)
  case base
  then show ?case by (simp add: createRuntimeBackend_def)
next
  case (step s)
  obtain b0 hf0 where s: "s = (b0, hf0)" by (cases s)
  from step.hyps(2) [unfolded s] step.hyps(3) [OF s] show ?case
    by (cases rule: session_stepE) (auto simp: backend_close_def dest: open_fails(3))
qed

text \<open>
  C4. No backend opens a session. Whatever the manifest, the files of the bridge, the process and its
  memory, no probe of any backend reports support, every \<open>open\<close> answers with a failed session, and a
  session is never open after any sequence of calls: the proof line of command delivery,
  which the preflight demands, is one that no metadata validates.
\<close>

theorem no_backend_opens:
  "\<not> pr_supported (fst (backend_probe ob b hf))
   \<and> \<not> or_opened (fst (backend_open ob b hf)) \<and> or_state (fst (backend_open ob b hf)) = SessionFailed
   \<and> \<not> session_step\<^sup>*\<^sup>* (createRuntimeBackend environment, hf0) (b'\<lparr>be_state := SessionOpen\<rparr>, hf1)"
proof (intro conjI notI)
  show False if "pr_supported (fst (backend_probe ob b hf))" using that backend_unsupported by blast
  obtain r b2 hf2 where "backend_open ob b hf = (r, b2, hf2)" by (metis prod_cases3)
  note opened = open_fails [OF this]
  show False if "or_opened (fst (backend_open ob b hf))" using that opened \<open>backend_open ob b hf = _\<close> by simp
  show "or_state (fst (backend_open ob b hf)) = SessionFailed" using opened \<open>backend_open ob b hf = _\<close> by simp
  show False
    if "session_step\<^sup>*\<^sup>* (createRuntimeBackend environment, hf0) (b'\<lparr>be_state := SessionOpen\<rparr>, hf1)"
    using session_reach [OF that] by simp
qed

end
