(* ===== verification/Executor_Routes.thy ===== *)
theory Executor_Routes
  imports Executor_Properties
begin

text \<open>
  Where \<open>submitRuntimeCommands\<close> can deliver: the admission of all commands, the proofs of a
  submission, and the one route that is left.
\<close>

lemma no_proof_backed_queue [simp]: "\<not> readyFileHasProofBackedBinding w name CommandQueueKind sp"
  by (simp add: readyFileHasProofBackedBinding_def)

lemma enqueueAll_exact:
  assumes "queue_inv q"
  shows "enqueueAll commands q = Inr q' \<longleftrightarrow>
      (\<forall>c\<in>set commands. admissible c) \<and> q' = q\<lparr>cq_pending := cq_pending q @ commands\<rparr>"
  using assms
proof (induction commands arbitrary: q)
  case Nil
  then show ?case by auto
next
  case (Cons c commands)
  from Cons.prems have inv: "queue_inv (snd (enqueue c q))" by (rule enqueue_inv)
  from enqueue_accepted [OF Cons.prems, of c] enqueue_state [OF Cons.prems, of c] Cons.IH [OF inv]
  show ?case by (auto simp: split_beta Let_def)
qed

lemma enqueueAll_new:
  "enqueueAll commands new_command_queue = Inr q \<longleftrightarrow>
     (\<forall>c\<in>set commands. admissible c) \<and> q = new_command_queue\<lparr>cq_pending := commands\<rparr>"
  using enqueueAll_exact [OF queue_inv_new, of commands q] by (simp add: new_command_queue_def)

lemma manifest_keeps_unsubmitted:
  assumes "validateCommandsAgainstManifest w environment commands r = (ok, r')" "\<not> sr_submitted r"
  shows "\<not> sr_submitted r'"
  using assms
  by (auto simp: validateCommandsAgainstManifest_def validateCommandsAgainstBridgeSurface_def
      rejectSubmit_def submit_warning_def Let_def split: if_splits option.splits prod.splits)

lemma sink_is_queue:
  "readyFileHasResidentCommandQueueSink w \<longleftrightarrow>
     (\<exists>relative queuePath. readResidentCommandQueueSink w = Inr (relative, queuePath))"
  by (auto simp: readyFileHasResidentCommandQueueSink_def split: sum.split)

lemma deliver_to_ring:
  assumes "readResidentCommandQueueSink w = Inr (relative, queuePath)"
    and "submitResidentRuntimeCommands queuePath drained r (ex_queue st relative) (ex_audit st) = (r', q, a)"
  shows "deliverCommands os w environment sp drained r st =
     (r', st\<lparr>ex_queue := (ex_queue st)(relative := q), ex_audit := a\<rparr>)"
  using assms by (simp add: deliverCommands_def)

text \<open>
  The conditions under which a submission reaches the ring: every guard of the call, from the queue
  to the heartbeat, the proofs of the bridge and the ring itself.
\<close>

definition ring_reached ::
  "bridge_world \<Rightarrow> runtime_environment \<Rightarrow> command_request list \<Rightarrow> heartbeat_file \<Rightarrow> bool" where
  "ring_reached w environment commands hf \<longleftrightarrow>
     (let resident = validateRuntimeResidentBridgeReadyFile w environment bridge_defaults;
          sp = validateRuntimeResidentStateProofs w resident in
      list_all admissible commands
    \<and> fst (validateCommandsAgainstManifest w environment commands default_submit_result)
    \<and> submissionRefusal w environment = None
    \<and> bv_present resident \<and> bv_valid resident \<and> bv_active resident
    \<and> fst (validateResidentHeartbeatProgression w resident hf) = None
    \<and> sp_activeMatchValid sp
    \<and> readReadyValue (ready_text w) ''mode'' = BridgeValidatedAdapterMode
    \<and> fileContainsLine (ready_text w) ''proof.attach=passed''
    \<and> readyFileHasValidatedProductionProof w ''proof.attach=passed'' (Some sp)
    \<and> \<not> fileContainsLine (ready_text w) ''proof.issue_commands=passed''
    \<and> readyFileHasResidentCommandQueueSink w)"

lemma submission_proof:
  assumes "validateSubmissionBridgeProof w resident sp r = (ok, r')"
  shows "sr_submitted r' = sr_submitted r"
    "ok \<longleftrightarrow> bv_present resident \<and> bv_valid resident \<and> bv_active resident \<and> sp_activeMatchValid sp
      \<and> readReadyValue (ready_text w) ''mode'' = BridgeValidatedAdapterMode
      \<and> fileContainsLine (ready_text w) ''proof.attach=passed''
      \<and> readyFileHasValidatedProductionProof w ''proof.attach=passed'' (Some sp)
      \<and> \<not> fileContainsLine (ready_text w) ''proof.issue_commands=passed''
      \<and> readyFileHasResidentCommandQueueSink w"
  using assms
  by (auto simp: validateSubmissionBridgeProof_def rejectSubmit_def submit_warning_def Let_def
      split: if_splits)

lemma submission_cases:
  assumes "submitRuntimeCommands os w environment commands st = (r, st')"
  shows "if ring_reached w environment commands (ex_heartbeat st)
     then (\<exists>relative queuePath r0 q a hf. readResidentCommandQueueSink w = Inr (relative, queuePath)
         \<and> \<not> sr_submitted r0
         \<and> submitResidentRuntimeCommands queuePath commands r0 (ex_queue st relative) (ex_audit st) = (r, q, a)
         \<and> st' = st\<lparr>ex_heartbeat := hf, ex_queue := (ex_queue st)(relative := q), ex_audit := a\<rparr>)
     else \<not> sr_submitted r \<and> (\<exists>hf. st' = st\<lparr>ex_heartbeat := hf\<rparr>)"
proof -
  let ?resident = "validateRuntimeResidentBridgeReadyFile w environment bridge_defaults"
  let ?sp = "validateRuntimeResidentStateProofs w ?resident"
  have same: "\<exists>hf. st = st\<lparr>ex_heartbeat := hf\<rparr>" by (rule exI [of _ "ex_heartbeat st"]) simp
  show ?thesis
  proof (cases "enqueueAll commands new_command_queue")
    case (Inl reason)
    then have "\<not> list_all admissible commands"
      using enqueueAll_new [of commands "new_command_queue\<lparr>cq_pending := commands\<rparr>"]
      by (auto simp: list_all_iff)
    with Inl assms same show ?thesis
      by (auto simp: submitRuntimeCommands_def rejectSubmit_def default_submit_result_def
          ring_reached_def Let_def)
  next
    case (Inr queue)
    then have adm: "list_all admissible commands" and drained: "fst (drain queue) = commands"
      by (auto simp: enqueueAll_new drain_def list_all_iff)
    obtain declared r0 where m:
      "validateCommandsAgainstManifest w environment commands default_submit_result = (declared, r0)"
      by fastforce
    have r0: "\<not> sr_submitted r0"
      using manifest_keeps_unsubmitted [OF m] by (simp add: default_submit_result_def)
    obtain e hf where hb: "validateResidentHeartbeatProgression w ?resident (ex_heartbeat st) = (e, hf)"
      by fastforce
    obtain proven r1 where p: "validateSubmissionBridgeProof w ?resident ?sp r0 = (proven, r1)"
      by fastforce
    note r1 = submission_proof [OF p]
    let ?open = "declared \<and> submissionRefusal w environment = None \<and> e = None \<and> proven
        \<and> (bv_present ?resident \<longrightarrow> bv_valid ?resident)"
    have reached: "ring_reached w environment commands (ex_heartbeat st) \<longleftrightarrow> ?open"
      using adm r1(2) by (auto simp: ring_reached_def Let_def m hb)
    show ?thesis
    proof (cases ?open)
      case False
      then have no: "\<not> ring_reached w environment commands (ex_heartbeat st)" using reached by blast
      from assms False r0 r1(1) same have "\<not> sr_submitted r \<and> (\<exists>hf. st' = st\<lparr>ex_heartbeat := hf\<rparr>)"
        unfolding submitRuntimeCommands_def Let_def
        by (auto simp: Inr m hb p rejectSubmit_def split: option.splits if_splits)
      with no show ?thesis by simp
    next
      case True
      with r1(2) obtain relative queuePath where sink:
        "readResidentCommandQueueSink w = Inr (relative, queuePath)"
        unfolding sink_is_queue by blast
      obtain r2 q a where s: "submitResidentRuntimeCommands queuePath commands r1 (ex_queue st relative)
          (ex_audit st) = (r2, q, a)" by (metis prod_cases3)
      have "deliverCommands os w environment ?sp commands r1 (st\<lparr>ex_heartbeat := hf\<rparr>) =
          (r2, st\<lparr>ex_heartbeat := hf, ex_queue := (ex_queue st)(relative := q), ex_audit := a\<rparr>)"
        using deliver_to_ring [OF sink, where st = "st\<lparr>ex_heartbeat := hf\<rparr>"] s by simp
      with assms True drained have "r = r2"
          "st' = st\<lparr>ex_heartbeat := hf, ex_queue := (ex_queue st)(relative := q), ex_audit := a\<rparr>"
        unfolding submitRuntimeCommands_def Let_def by (auto simp: Inr m hb p)
      then show ?thesis using s r1(1) r0 sink reached True by auto
    qed
  qed
qed

text \<open>
  C9. Where a submission goes. Whatever the bridge holds, \<open>submitRuntimeCommands\<close> writes neither the
  memory of the process nor the command file: it either stops at a guard, with nothing written but
  the heartbeat file, or hands all commands, in order, to the ring of the adapter and returns what
  the ring says. The guards are exactly those of \<open>ring_reached\<close>; one of them is that the ready file
  does NOT claim the proof of command delivery.
\<close>

theorem submission_only_through_ring:
  "case submitRuntimeCommands os w environment commands st of (r, st') \<Rightarrow>
     ex_memory st' = ex_memory st \<and> ex_commandFile st' = ex_commandFile st
   \<and> (if ring_reached w environment commands (ex_heartbeat st)
      then (\<exists>relative queuePath r0 q a. readResidentCommandQueueSink w = Inr (relative, queuePath)
          \<and> \<not> sr_submitted r0
          \<and> submitResidentRuntimeCommands queuePath commands r0 (ex_queue st relative) (ex_audit st) = (r, q, a)
          \<and> ex_queue st' = (ex_queue st)(relative := q) \<and> ex_audit st' = a)
      else \<not> sr_submitted r \<and> ex_queue st' = ex_queue st \<and> ex_audit st' = ex_audit st)"
proof -
  obtain r st' where "submitRuntimeCommands os w environment commands st = (r, st')" by fastforce
  with submission_cases [OF this] show ?thesis by (auto split: if_splits) blast
qed

end
