(* ===== verification/Bridge_Contract_Proofs.thy ===== *)
theory Bridge_Contract_Proofs
  imports Executor_Properties
begin

text \<open>
  What a bridge can change in a contract. The tables of permitted evidence of
  \<open>RuntimeExecutor.cpp\<close> and of expected evidence of \<open>RuntimeContract.cpp\<close> are two texts of the
  source; they are compared here, and every line of the ready file is followed through
  \<open>applyRuntimeExecutorBridgeContractProofs\<close>.
\<close>

section \<open>One table in two places\<close>

lemma evidence_line_proofLine: "evidence_line evidence = evidenceProofLine evidence"
  by (auto simp: evidence_line_def evidenceProofLine_def isProductionEvidence_def split_at_def)

lemma allowed_production:
  "evidence_line evidence = expected \<Longrightarrow> expected \<noteq> [] \<Longrightarrow> productionEvidenceAllowed evidence"
  by (auto simp: evidence_line_def productionEvidenceAllowed_def starts_with_iff split: if_splits)

lemma proves_iff:
  "evidence_proves evidence expected \<longleftrightarrow>
     productionEvidenceAllowed evidence \<and> expected \<noteq> [] \<and> proofLineMatches evidence expected"
  unfolding evidence_proves_def proofLineMatches_def evidence_line_proofLine [symmetric]
  using allowed_production by auto

lemma binding_allowed_iff:
  "productionEvidenceAllowedForBinding name kind evidence \<longleftrightarrow>
     evidence_proves evidence (expectedProductionProofForBinding name kind)"
  by (cases kind) (simp_all add: productionEvidenceAllowedForBinding_def proves_iff)

lemma structure_allowed_iff:
  "productionEvidenceAllowedForStructure name evidence \<longleftrightarrow>
     evidence_proves evidence (expectedProductionProofForStructure name)"
  by (simp add: productionEvidenceAllowedForStructure_def expectedProductionProofForStructure_def
      proves_iff)

lemma field_allowed_iff:
  "productionEvidenceAllowedForField structureName fieldName evidence \<longleftrightarrow>
     evidence_proves evidence (expectedProductionProofForField structureName fieldName)"
  by (simp add: productionEvidenceAllowedForField_def expectedProductionProofForField_def
      proves_iff)

text \<open>
  C35. The executor and the audit of contracts agree. The evidence the executor accepts from a ready
  file for a binding, a structure or a field is exactly the evidence the production audit of the
  contract accepts for it, although the two tables are written separately.
\<close>

theorem executor_and_audit_agree:
  "(productionEvidenceAllowedForBinding name kind evidence \<longleftrightarrow>
      addProductionEvidenceError [] subject evidence (expectedProductionProofForBinding name kind) = [])
   \<and> (productionEvidenceAllowedForStructure name evidence \<longleftrightarrow>
      addProductionEvidenceError [] subject evidence (expectedProductionProofForStructure name) = [])
   \<and> (productionEvidenceAllowedForField name fieldName evidence \<longleftrightarrow>
      addProductionEvidenceError [] subject evidence (expectedProductionProofForField name fieldName) = [])"
  by (simp add: addProductionEvidenceError_Nil_iff binding_allowed_iff structure_allowed_iff
      field_allowed_iff)

section \<open>What one line can do\<close>

text \<open>The evidence stands behind a line of the ready file whose metadata was validated.\<close>

definition validated_evidence :: "bridge_world \<Rightarrow> state_proof option \<Rightarrow> string \<Rightarrow> string \<Rightarrow> bool" where
  "validated_evidence w sp expected evidence \<longleftrightarrow>
     evidence_proves evidence expected \<and> expected \<in> set (getlines (ready_text w))
   \<and> readyFileHasValidatedProductionProof w expected sp"

lemma contained_validated:
  assumes "readyFileContainsEvidenceProof w evidence sp" "evidence_proves evidence expected"
  shows "validated_evidence w sp expected evidence"
  using assms
  by (auto simp: readyFileContainsEvidenceProof_def validated_evidence_def evidence_proves_def
      evidence_line_proofLine fileContainsLine_def Let_def split: if_splits)

definition binding_proven ::
  "bridge_world \<Rightarrow> state_proof option \<Rightarrow> runtime_binding \<Rightarrow> runtime_binding \<Rightarrow> bool" where
  "binding_proven w sp b b' \<longleftrightarrow> b' = b
     \<or> (b' = b\<lparr>b_resolved := True, b_evidence := b_evidence b'\<rparr>
        \<and> validated_evidence w sp (expectedProductionProofForBinding (b_name b) (b_kind b)) (b_evidence b'))"

definition field_proven ::
  "bridge_world \<Rightarrow> state_proof option \<Rightarrow> string \<Rightarrow> structure_field \<Rightarrow> structure_field \<Rightarrow> bool" where
  "field_proven w sp structureName f f' \<longleftrightarrow> f' = f
     \<or> (f_name f' = f_name f \<and> f_resolved f' \<and> 0 < f_size f'
        \<and> validated_evidence w sp (expectedProductionProofForField structureName (f_name f)) (f_evidence f'))"

definition structure_proven ::
  "bridge_world \<Rightarrow> state_proof option \<Rightarrow> structure_layout \<Rightarrow> structure_layout \<Rightarrow> bool" where
  "structure_proven w sp s s' \<longleftrightarrow> st_name s' = st_name s
     \<and> (st_size s' = st_size s \<and> st_evidence s' = st_evidence s
        \<or> 0 < st_size s'
          \<and> validated_evidence w sp (expectedProductionProofForStructure (st_name s)) (st_evidence s'))
     \<and> list_all2 (field_proven w sp (st_name s)) (st_fields s) (st_fields s')"

lemma list_all2_update_first:
  assumes "\<And>x. P x x" "\<And>x. p x \<Longrightarrow> P x (f x)"
  shows "list_all2 P xs (update_first p f xs)"
  by (induction xs) (use assms in \<open>auto simp: list_all2_same\<close>)

lemma list_all2_compose:
  assumes "list_all2 P xs ys" "list_all2 P ys zs" "\<And>x y z. P x y \<Longrightarrow> P y z \<Longrightarrow> P x z"
  shows "list_all2 P xs zs"
  using list_all2_trans [of P P P, OF assms(3) assms(1) assms(2)] .

lemma binding_proven_refl: "binding_proven w sp b b"
  by (simp add: binding_proven_def)

lemma binding_proven_trans:
  "binding_proven w sp a b \<Longrightarrow> binding_proven w sp b c \<Longrightarrow> binding_proven w sp a c"
  by (cases a; cases b; cases c) (auto simp: binding_proven_def)

lemma field_proven_refl: "field_proven w sp s f f"
  by (simp add: field_proven_def)

lemma field_proven_trans:
  "field_proven w sp s a b \<Longrightarrow> field_proven w sp s b c \<Longrightarrow> field_proven w sp s a c"
  by (auto simp: field_proven_def)

lemma structure_proven_refl: "structure_proven w sp s s"
  by (simp add: structure_proven_def field_proven_refl list_all2_same)

lemma structure_proven_trans:
  "structure_proven w sp a b \<Longrightarrow> structure_proven w sp b c \<Longrightarrow> structure_proven w sp a c"
  unfolding structure_proven_def
  by (auto intro: list_all2_compose field_proven_trans)

definition contract_proven ::
  "bridge_world \<Rightarrow> state_proof option \<Rightarrow> runtime_contract \<Rightarrow> runtime_contract \<Rightarrow> bool" where
  "contract_proven w sp c c' \<longleftrightarrow>
     c' = c\<lparr>c_bindings := c_bindings c', c_structures := c_structures c'\<rparr>
   \<and> list_all2 (binding_proven w sp) (c_bindings c) (c_bindings c')
   \<and> list_all2 (structure_proven w sp) (c_structures c) (c_structures c')"

lemma contract_proven_refl: "contract_proven w sp c c"
  by (simp add: contract_proven_def list_all2_same binding_proven_refl structure_proven_refl)

lemma contract_proven_trans:
  assumes "contract_proven w sp a b" "contract_proven w sp b c"
  shows "contract_proven w sp a c"
proof -
  note ab = assms(1) [unfolded contract_proven_def] and bc = assms(2) [unfolded contract_proven_def]
  have "list_all2 (binding_proven w sp) (c_bindings a) (c_bindings c)"
    by (rule list_all2_compose) (use ab bc in \<open>auto intro: binding_proven_trans\<close>)
  moreover have "list_all2 (structure_proven w sp) (c_structures a) (c_structures c)"
    by (rule list_all2_compose) (use ab bc in \<open>auto intro: structure_proven_trans\<close>)
  moreover have "c = a\<lparr>c_bindings := c_bindings c, c_structures := c_structures c\<rparr>"
    using ab bc by (cases a; cases b; cases c) auto
  ultimately show ?thesis by (simp add: contract_proven_def)
qed

lemma applyBindingProof_proven: "contract_proven w sp c (applyBindingProof w sp name value c)"
proof -
  have "list_all2 (binding_proven w sp) bs
      (update_first (\<lambda>b. b_name b = name \<and> b_kind b = kind)
        (\<lambda>b. b\<lparr>b_resolved := True, b_evidence := evidence\<rparr>) bs)"
    if "productionEvidenceAllowedForBinding name kind evidence" "readyFileContainsEvidenceProof w evidence sp"
    for bs kind evidence
    using that contained_validated [OF that(2)]
    by (intro list_all2_update_first) (auto simp: binding_proven_def binding_allowed_iff)
  then show ?thesis
    by (auto simp: applyBindingProof_def contract_proven_refl contract_proven_def list_all2_same
        structure_proven_refl binding_proven_refl split: list.split option.split)
qed

lemma applyStructureProof_proven: "contract_proven w sp c (applyStructureProof w sp name value c)"
proof -
  have "list_all2 (structure_proven w sp) ss
      (update_first (\<lambda>s. st_name s = name) (\<lambda>s. s\<lparr>st_size := n, st_evidence := evidence\<rparr>) ss)"
    if "productionEvidenceAllowedForStructure name evidence" "readyFileContainsEvidenceProof w evidence sp"
      "0 < n" for ss n evidence
    using that contained_validated [OF that(2)]
    by (intro list_all2_update_first)
      (auto simp: structure_proven_def structure_allowed_iff list_all2_same field_proven_refl)
  then show ?thesis
    by (auto simp: applyStructureProof_def contract_proven_refl contract_proven_def list_all2_same
        structure_proven_refl binding_proven_refl split: list.split option.split)
qed

lemma placeField_proven:
  assumes "productionEvidenceAllowedForField (st_name s) fieldName evidence"
    "readyFileContainsEvidenceProof w evidence sp" "0 < n"
  shows "structure_proven w sp s (placeField fieldName offset n evidence s)"
  using assms contained_validated [OF assms(2)]
  by (auto simp: structure_proven_def placeField_def field_allowed_iff field_proven_def
      intro!: list_all2_update_first)

lemma applyFieldProof_proven: "contract_proven w sp c (applyFieldProof w sp name value c)"
proof -
  have "list_all2 (structure_proven w sp) ss
      (update_first (\<lambda>s. st_name s = structureName) (placeField fieldName offset n evidence) ss)"
    if "productionEvidenceAllowedForField structureName fieldName evidence"
      "readyFileContainsEvidenceProof w evidence sp" "0 < n"
    for ss structureName fieldName offset n evidence
    using that by (intro list_all2_update_first) (auto simp: structure_proven_refl placeField_proven)
  then show ?thesis
    by (auto simp: applyFieldProof_def contract_proven_refl contract_proven_def list_all2_same
        structure_proven_refl binding_proven_refl split: list.split option.split)
qed

lemma applyContractLine_proven: "contract_proven w sp c (applyContractLine w sp line c)"
  by (auto simp: applyContractLine_def contract_proven_refl applyBindingProof_proven
      applyStructureProof_proven applyFieldProof_proven split: option.split)

lemma contract_lines_proven:
  "contract_proven w sp c (foldl (\<lambda>c line. applyContractLine w sp line c) c ls)"
proof (induction ls arbitrary: c)
  case Nil
  then show ?case by (simp add: contract_proven_refl)
next
  case (Cons line ls)
  from contract_proven_trans [OF applyContractLine_proven Cons.IH] show ?case by simp
qed

section \<open>All lines of a bridge\<close>

text \<open>The state proofs an application reads, or any where it stops before.\<close>

abbreviation resident_state :: "bridge_world \<Rightarrow> runtime_environment \<Rightarrow> state_proof" where
  "resident_state w environment \<equiv> validateRuntimeResidentStateProofs w
     (validateRuntimeResidentBridgeReadyFile w environment bridge_defaults)"

lemma bridge_contract_proven:
  "contract_proven w (Some (resident_state w environment)) contract
     (applyRuntimeExecutorBridgeContractProofs w environment contract)"
  unfolding applyRuntimeExecutorBridgeContractProofs_def Let_def
  by (auto simp: contract_proven_refl contract_lines_proven)

lemma proven_audited:
  assumes "contract_proven w sp c c'" "audited_contract c"
  shows "audited_contract c'"
proof -
  note proven = assms(1) [unfolded contract_proven_def]
  have b: "audited_binding y" if "binding_proven w sp x y" "audited_binding x" for x y
    using that by (cases x; cases y) (auto simp: binding_proven_def audited_binding_def validated_evidence_def)
  have f: "audited_field n y" if "field_proven w sp n x y" "audited_field n x" for n x y
    using that by (auto simp: field_proven_def audited_field_def validated_evidence_def)
  have "audited_structure y" if "structure_proven w sp x y" "audited_structure x" for x y
    using that f
    by (fastforce simp: structure_proven_def audited_structure_def validated_evidence_def
        list_all2_conv_all_nth in_set_conv_nth)
  with b assms(2) proven show ?thesis
    by (fastforce simp: audited_contract_def list_all2_conv_all_nth in_set_conv_nth)
qed

lemma queue_binding_unproven:
  "binding_proven w sp b b' \<Longrightarrow> b_kind b = CommandQueueKind \<Longrightarrow> b' = b"
  by (auto simp: binding_proven_def validated_evidence_def evidence_proves_def split: if_splits)

lemma queue_bindings_kept:
  "list_all2 (binding_proven w sp) bs bs' \<Longrightarrow>
   [b \<leftarrow> bs'. b_kind b = CommandQueueKind] = [b \<leftarrow> bs. b_kind b = CommandQueueKind]"
proof (induction rule: list_all2_induct)
  case Nil
  then show ?case by simp
next
  case (Cons b bs b' bs')
  then have "b_kind b' = b_kind b" by (cases b; cases b') (auto simp: binding_proven_def)
  with Cons queue_binding_unproven [OF Cons.hyps(1)] show ?case by auto
qed

text \<open>
  C10. What a bridge can resolve. Applied to any contract, the lines of a bridge leave everything but
  the resolution of bindings, structures and fields as it was, entry by entry in the same order; an
  entry that changed carries the one evidence the audit accepts for it, and the proof line behind
  that evidence is in the ready file with validated metadata. The bindings of the command queue never
  change. A contract without audit errors has none afterwards.
\<close>

theorem bridge_resolves_only_validated:
  "let after = applyRuntimeExecutorBridgeContractProofs w environment contract in
     contract_proven w (Some (resident_state w environment)) contract after
   \<and> [b \<leftarrow> c_bindings after. b_kind b = CommandQueueKind]
       = [b \<leftarrow> c_bindings contract. b_kind b = CommandQueueKind]
   \<and> (contractProductionEvidenceErrors contract = [] \<longrightarrow> contractProductionEvidenceErrors after = [])"
proof -
  let ?after = "applyRuntimeExecutorBridgeContractProofs w environment contract"
  note after = bridge_contract_proven [of w environment contract]
  have "list_all2 (binding_proven w (Some (resident_state w environment)))
      (c_bindings contract) (c_bindings ?after)"
    using after by (simp add: contract_proven_def)
  from queue_bindings_kept [OF this] after proven_audited [OF after]
  show ?thesis by (simp add: evidence_errors_Nil_iff)
qed

section \<open>A bridge that resolves a binding\<close>

definition module_environment :: runtime_environment where
  "module_environment =
     \<lparr>env_platform = MacOS, env_product = StarCraftRemastered, env_version = [], env_processId = 7,
      env_executablePath = [], env_manifestPath = [], env_executorBridgePath = ''b''\<rparr>"

definition module_ready :: string where
  "module_ready = text_of
     [''protocol=starcraft-api-file-bridge-v1'',
      ''product='' @ product_toString StarCraftRemastered,
      ''mode='' @ BridgeValidatedAdapterMode,
      ''process_id=7'',
      ''proof.load_ai_modules.loader=dlopen'',
      ''proof.load_ai_modules.self_process_smoke=false'',
      ''proof.load_ai_modules.module_path=m'',
      ''proof.load_ai_modules.snapshot=s'',
      ''contract.binding.ai-module-loader=transport|proof.load_ai_modules=passed'',
      ''proof.load_ai_modules=passed'']"

definition module_world :: bridge_world where
  "module_world =
     \<lparr>w_ready = Some module_ready, w_readyModified = None, w_now = 0,
      w_files = \<lparr>bf_regular = (\<lambda>_. Some ''m''), bf_canonical = (\<lambda>n. Some [''b'', n]),
        bf_directory = Some [''b'']\<rparr>,
      w_bytes = (\<lambda>_. None), w_bridgeExists = True, w_bridgeIsDirectory = True,
      w_processExists = (\<lambda>_. True),
      w_process = \<lparr>po_opened = True, po_processId = 7, po_executablePath = [], po_reason = []\<rparr>,
      w_memoryAccess = (True, []), w_read = (\<lambda>_ _ _. \<lparr>mr_success = False, mr_bytesRead = 0, mr_bytes = [],
        mr_reason = []\<rparr>),
      w_resample = (\<lambda>_ _. []), w_normalizePath = (\<lambda>p. p), w_executable = PathMissing,
      w_manifest = None\<rparr>"

definition module_binding :: runtime_binding where
  "module_binding = requiredBinding ''ai-module-loader'' Transport"

definition module_contract :: runtime_contract where
  "module_contract = empty_contract\<lparr>c_bindings := [module_binding]\<rparr>"

lemma module_resolves:
  "c_bindings (applyRuntimeExecutorBridgeContractProofs module_world module_environment module_contract)
   = [module_binding\<lparr>b_resolved := True, b_evidence := ''proof.load_ai_modules=passed''\<rparr>]"
  by code_simp

lemma bridge_resolves_only_validated_witness:
  "contractProductionEvidenceErrors module_contract = []
   \<and> contractProductionEvidenceErrors
       (applyRuntimeExecutorBridgeContractProofs module_world module_environment module_contract) = []
   \<and> c_bindings (applyRuntimeExecutorBridgeContractProofs module_world module_environment module_contract)
     = [module_binding\<lparr>b_resolved := True, b_evidence := ''proof.load_ai_modules=passed''\<rparr>]"
proof -
  have "contractProductionEvidenceErrors module_contract = []" by code_simp
  then show ?thesis
    using bridge_resolves_only_validated [of module_world module_environment module_contract]
    by (simp add: Let_def module_resolves)
qed

end
