(* ===== verification/Heartbeat_Properties.thy ===== *)
theory Heartbeat_Properties
  imports Executor_Properties
begin

text \<open>
  The heartbeat between calls: the hidden state file reads back as it was written, and over any
  sequence of calls for one process the recorded heartbeat never goes back.
\<close>

section \<open>The state file\<close>

lemma stoll10_int:
  assumes "- (2 ^ 63) \<le> n" "n < 2 ^ 63"
  shows "stoll10 (int_to_dec n) = Some n"
  using assms by (simp add: stoll10_def scan_decimal_int)

lemma stoi10_int: "int32_range n \<Longrightarrow> stoi10 (int_to_dec n) = Some n"
  by (subst stoi10_def, subst stoll10_int) (auto simp: int32_range_def)

lemma stoull10_nat: "n < 2 ^ 64 \<Longrightarrow> stoull10 (nat_to_dec n) = Some n"
  by (simp add: stoull10_def)

text \<open>What a file holds that a call has written.\<close>

definition recorded :: "int \<Rightarrow> nat \<Rightarrow> int \<Rightarrow> heartbeat_file \<Rightarrow> bool" where
  "recorded p h t file \<longleftrightarrow> readResidentHeartbeatState file
     = (True, \<lparr>hs_processId = p, hs_heartbeat = h, hs_readyModifiedMs = t\<rparr>)"

definition int64_range :: "int \<Rightarrow> bool" where
  "int64_range n \<longleftrightarrow> - (2 ^ 63) \<le> n \<and> n < 2 ^ 63"

lemma split_key: "CHR ''='' \<notin> set k \<Longrightarrow> split_at (CHR ''='') (k @ ''='' @ v) = Some (k, v)"
  by simp

lemma written_reads_back:
  assumes "hf_writable file" "int32_range (bv_processId r)" "0 < bv_processId r"
    "0 < bv_heartbeat r" "bv_heartbeat r < 2 ^ 64" "int64_range t"
  shows "recorded (bv_processId r) (bv_heartbeat r) t (writeResidentHeartbeatState r t file)"
  using assms split_key [of "''process_id''"] split_key [of "''heartbeat''"] split_key [of "''ready_mtime_ms''"]
  by (simp add: recorded_def readResidentHeartbeatState_def writeResidentHeartbeatState_def
      heartbeat_entry_def stoi10_int stoull10_nat stoll10_int int64_range_def no_heartbeat_def)

lemma toward_zero_64: "int64_range n \<Longrightarrow> int64_range (toward_zero n 1000000)"
  by (auto simp: int64_range_def toward_zero_def) 

section \<open>One call\<close>

text \<open>The metadata a call works with.\<close>

abbreviation call_metadata :: "bridge_world \<Rightarrow> runtime_environment \<Rightarrow> bridge_validation" where
  "call_metadata w environment \<equiv> validateRuntimeResidentBridgeReadyFile w environment bridge_defaults"

lemma parseSignedInt_range:
  assumes "fst (parseSignedInt value d)"
  shows "int32_range (snd (parseSignedInt value d))"
proof -
  have "int32_range (to_int32 n)" for n
    unfolding to_int32_def int32_range_def
    using pos_mod_bound [of "2 ^ 32" "n + 2 ^ 31"] pos_mod_sign [of "2 ^ 32" "n + 2 ^ 31"] by simp
  with assms show ?thesis by (auto simp: parseSignedInt_def split: option.splits prod.splits if_splits)
qed

lemma parseUnsigned_64: "parseUnsigned value = Some n \<Longrightarrow> n < 2 ^ 64"
  by (auto simp: parseUnsigned_def stoull_def split: option.splits prod.splits if_splits)

lemma valid_metadata:
  assumes "bv_present (call_metadata w environment)" "bv_valid (call_metadata w environment)"
  shows "int32_range (bv_processId (call_metadata w environment))"
    "0 < bv_processId (call_metadata w environment)"
    "2 \<le> bv_heartbeat (call_metadata w environment)"
    "bv_heartbeat (call_metadata w environment) < 2 ^ 64"
proof -
  let ?r = "call_metadata w environment"
  let ?hb = "readReadyValue (ready_text w) ''resident.adapter.heartbeat''"
  let ?pid = "parseSignedInt (readReadyValue (ready_text w) ''resident.adapter.process_id'') 0"
  have h: "heartbeat_line_errors ?hb bridge_defaults = []"
    and p: "process_line_errors w environment ?pid = []"
    and vals: "bv_processId ?r = snd ?pid"
      "bv_heartbeat ?r = (case parseUnsigned ?hb of None \<Rightarrow> 0 | Some n \<Rightarrow> n)"
    using assms
    by (auto simp: validateRuntimeResidentBridgeReadyFile_def Let_def default_bridge_validation_def
        split: if_splits)
  have pid: "fst ?pid \<and> 0 < snd ?pid"
    using p by (auto simp: process_line_errors_def split: if_splits)
  then show "int32_range (bv_processId ?r)" "0 < bv_processId ?r"
    using vals parseSignedInt_range by auto
  obtain n where n: "parseUnsigned ?hb = Some n" "2 \<le> n"
    using h by (auto simp: heartbeat_line_errors_def bridge_defaults_def error_if_def split: option.splits if_splits)
  then show "2 \<le> bv_heartbeat ?r" "bv_heartbeat ?r < 2 ^ 64"
    using vals parseUnsigned_64 [OF n(1)] by auto
qed

lemma one_call:
  assumes "recorded p h t file" "hf_writable file"
    and r: "bv_present (call_metadata w environment)" "bv_valid (call_metadata w environment)"
      "bv_processId (call_metadata w environment) = p"
    and m: "readyFileModifiedMs w = Some m" "int64_range m"
  shows "validateResidentHeartbeatProgression w (call_metadata w environment) file =
     (if m > t \<and> bv_heartbeat (call_metadata w environment) \<le> h then (Some staleHeartbeat, file)
      else if h < bv_heartbeat (call_metadata w environment)
      then (None, writeResidentHeartbeatState (call_metadata w environment) m file)
      else (None, file))"
    "h < bv_heartbeat (call_metadata w environment) \<Longrightarrow>
     recorded p (bv_heartbeat (call_metadata w environment)) m
       (writeResidentHeartbeatState (call_metadata w environment) m file)"
  using assms valid_metadata [OF r(1,2)] written_reads_back [OF assms(2), of "call_metadata w environment" m]
  by (auto simp: validateResidentHeartbeatProgression_def recorded_def)

lemma write_keeps_writable [simp]: "hf_writable (writeResidentHeartbeatState r t file) = hf_writable file"
  by (simp add: writeResidentHeartbeatState_def)

lemma progression_keeps_writable [simp]:
  "hf_writable (snd (validateResidentHeartbeatProgression w r file)) = hf_writable file"
  by (simp add: validateResidentHeartbeatProgression_def split: option.split prod.split)

section \<open>Sequences of calls\<close>

text \<open>
  Calls whose ready file names the process \<open>p\<close>, or has no valid metadata; the time of a file is a
  64-bit number.
\<close>

definition names_process :: "int \<Rightarrow> runtime_environment \<Rightarrow> bridge_world \<Rightarrow> bool" where
  "names_process p environment w \<longleftrightarrow>
     (bv_present (call_metadata w environment) \<and> bv_valid (call_metadata w environment)
        \<longrightarrow> bv_processId (call_metadata w environment) = p)
   \<and> (case w_readyModified w of None \<Rightarrow> True | Some n \<Rightarrow> int64_range n)"

inductive heartbeat_calls ::
  "int \<Rightarrow> runtime_environment \<Rightarrow> heartbeat_file \<Rightarrow> heartbeat_file \<Rightarrow> bool" for p environment where
  no_call: "heartbeat_calls p environment f f"
| call: "heartbeat_calls p environment f g \<Longrightarrow> names_process p environment w \<Longrightarrow>
    heartbeat_calls p environment f
      (snd (validateResidentHeartbeatProgression w (call_metadata w environment) g))"

lemma modified_64: "names_process p environment w \<Longrightarrow> readyFileModifiedMs w = Some m \<Longrightarrow> int64_range m"
  using toward_zero_64 by (auto simp: names_process_def readyFileModifiedMs_def split: option.splits)

lemma call_advances:
  assumes "recorded p h t g" "hf_writable g" "names_process p environment w"
  shows "\<exists>h' t'. recorded p h' t' (snd (validateResidentHeartbeatProgression w (call_metadata w environment) g))
     \<and> (snd (validateResidentHeartbeatProgression w (call_metadata w environment) g) = g \<and> h' = h \<or> h < h')"
proof (cases "bv_present (call_metadata w environment) \<and> bv_valid (call_metadata w environment)
    \<and> readyFileModifiedMs w \<noteq> None")
  case False
  with assms(1) show ?thesis
    by (auto simp: validateResidentHeartbeatProgression_def)
next
  case True
  then obtain m where m: "readyFileModifiedMs w = Some m" by blast
  from True assms(3) have p: "bv_processId (call_metadata w environment) = p"
    by (simp add: names_process_def)
  from one_call [OF assms(1,2) _ _ p m modified_64 [OF assms(3) m]] True assms(1)
  show ?thesis by auto
qed

lemma calls_advance:
  assumes "heartbeat_calls p environment f g" "recorded p h t f" "hf_writable f"
  shows "hf_writable g \<and> (\<exists>h' t'. recorded p h' t' g \<and> (g = f \<and> h' = h \<or> h < h'))"
  using assms
proof (induction rule: heartbeat_calls.induct)
  case (no_call f)
  then show ?case by blast
next
  case (call f g w)
  then obtain h1 t1 where "recorded p h1 t1 g" "g = f \<and> h1 = h \<or> h < h1" "hf_writable g" by blast
  with call_advances [OF \<open>recorded p h1 t1 g\<close> _ call.hyps(2)] show ?case
    by (auto intro: less_trans) 
qed

text \<open>
  C36. The heartbeat never regresses. Take a writable state file that records a process, a heartbeat
  and a time, and any sequence of calls whose ready files name that process. The file then records
  the same process again, and either it is unchanged or the heartbeat it records is strictly larger.
  A further call with valid metadata is refused as stale exactly when the ready file is newer than
  the recorded time and its heartbeat is not above the recorded one.
\<close>

theorem heartbeat_never_regresses:
  assumes "heartbeat_calls p environment f g" "recorded p h t f" "hf_writable f"
    and "bv_present (call_metadata w environment)" "bv_valid (call_metadata w environment)"
    and "names_process p environment w" "readyFileModifiedMs w = Some m"
  shows "\<exists>h' t'. recorded p h' t' g \<and> (g = f \<and> h' = h \<or> h < h')
     \<and> (fst (validateResidentHeartbeatProgression w (call_metadata w environment) g) = Some staleHeartbeat
        \<longleftrightarrow> t' < m \<and> bv_heartbeat (call_metadata w environment) \<le> h')"
proof -
  obtain h' t' where g: "recorded p h' t' g" "hf_writable g" "g = f \<and> h' = h \<or> h < h'"
    using calls_advance [OF assms(1-3)] by blast
  have "bv_processId (call_metadata w environment) = p"
    using assms(4-6) by (simp add: names_process_def)
  from one_call(1) [OF g(1,2) assms(4,5) this assms(7) modified_64 [OF assms(6,7)]]
  have "fst (validateResidentHeartbeatProgression w (call_metadata w environment) g) = Some staleHeartbeat
      \<longleftrightarrow> t' < m \<and> bv_heartbeat (call_metadata w environment) \<le> h'"
    by simp
  with g show ?thesis by blast
qed

section \<open>A heartbeat that advances and one that does not\<close>

definition beat_environment :: runtime_environment where
  "beat_environment =
     \<lparr>env_platform = MacOS, env_product = StarCraftRemastered, env_version = [], env_processId = 7,
      env_executablePath = [], env_manifestPath = [], env_executorBridgePath = ''b''\<rparr>"

definition beat_world :: "string \<Rightarrow> int \<Rightarrow> bridge_world" where
  "beat_world heartbeat modified =
     \<lparr>w_ready = Some (text_of
        [''product='' @ product_toString StarCraftRemastered, ''resident.adapter=active'',
         ''resident.adapter.abi='' @ ResidentAdapterAbi, ''resident.adapter.process_id=7'',
         ''resident.adapter.heartbeat='' @ heartbeat]),
      w_readyModified = Some modified, w_now = modified,
      w_files = \<lparr>bf_regular = (\<lambda>_. None), bf_canonical = (\<lambda>_. None), bf_directory = None\<rparr>,
      w_bytes = (\<lambda>_. None), w_bridgeExists = True, w_bridgeIsDirectory = True,
      w_processExists = (\<lambda>_. True),
      w_process = \<lparr>po_opened = True, po_processId = 7, po_executablePath = [], po_reason = []\<rparr>,
      w_memoryAccess = (True, []), w_read = (\<lambda>_ _ _. \<lparr>mr_success = False, mr_bytesRead = 0, mr_bytes = [],
        mr_reason = []\<rparr>),
      w_resample = (\<lambda>_ _. []), w_normalizePath = (\<lambda>p. p), w_executable = PathMissing,
      w_manifest = None\<rparr>"

definition beat_file :: heartbeat_file where
  "beat_file = writeResidentHeartbeatState (default_bridge_validation\<lparr>bv_processId := 7, bv_heartbeat := 3\<rparr>) 1
     \<lparr>hf_text = None, hf_writable = True\<rparr>"

lemma beat_metadata:
  "call_metadata (beat_world ''5'' 2000000) beat_environment
   = default_bridge_validation\<lparr>bv_valid := True, bv_present := True, bv_active := True,
       bv_abi := ResidentAdapterAbi, bv_heartbeat := 5, bv_processId := 7\<rparr>"
  "call_metadata (beat_world ''4'' 3000000) beat_environment
   = default_bridge_validation\<lparr>bv_valid := True, bv_present := True, bv_active := True,
       bv_abi := ResidentAdapterAbi, bv_heartbeat := 4, bv_processId := 7\<rparr>"
  by code_simp+

lemma beat_recorded: "recorded 7 3 1 beat_file"
  using written_reads_back [of "\<lparr>hf_text = None, hf_writable = True\<rparr>"
      "default_bridge_validation\<lparr>bv_processId := 7, bv_heartbeat := 3\<rparr>" 1]
  by (simp add: beat_file_def int32_range_def int64_range_def)

lemma beat_modified [simp]: "w_readyModified (beat_world heartbeat modified) = Some modified"
  by (simp add: beat_world_def)

lemma beat_process:
  "names_process 7 beat_environment (beat_world ''5'' 2000000)"
  "names_process 7 beat_environment (beat_world ''4'' 3000000)"
  "readyFileModifiedMs (beat_world ''5'' 2000000) = Some 2"
  "readyFileModifiedMs (beat_world ''4'' 3000000) = Some 3"
  by (simp_all add: names_process_def beat_metadata readyFileModifiedMs_def toward_zero_def
      int64_range_def)

text \<open>The file after a call with heartbeat 5, and a later call with heartbeat 4.\<close>

definition beat_after :: heartbeat_file where
  "beat_after = snd (validateResidentHeartbeatProgression (beat_world ''5'' 2000000)
     (call_metadata (beat_world ''5'' 2000000) beat_environment) beat_file)"

lemma beat_writable: "hf_writable beat_file"
  by (simp add: beat_file_def)

lemma beat_after_recorded: "recorded 7 5 2 beat_after"
  using one_call [OF beat_recorded beat_writable _ _ _ beat_process(3), of beat_environment]
  by (simp add: beat_after_def beat_metadata int64_range_def)

lemma heartbeat_never_regresses_witness:
  "heartbeat_calls 7 beat_environment beat_file beat_after \<and> recorded 7 5 2 beat_after
   \<and> fst (validateResidentHeartbeatProgression (beat_world ''4'' 3000000)
       (call_metadata (beat_world ''4'' 3000000) beat_environment) beat_after) = Some staleHeartbeat"
proof -
  have calls: "heartbeat_calls 7 beat_environment beat_file beat_after"
    unfolding beat_after_def by (rule heartbeat_calls.call [OF heartbeat_calls.no_call beat_process(1)])
  from heartbeat_never_regresses [OF calls beat_recorded beat_writable _ _ beat_process(2,4)]
    beat_after_recorded calls
  show ?thesis by (auto simp: beat_metadata recorded_def)
qed

end
