(* ===== verification/Unit_Types.thy ===== *)
theory Unit_Types
  imports Unit_Command
begin

text \<open>
  The unit types of the client library (\<open>BWAPILIB/Source/UnitType.cpp\<close>): its tables, one list
  per array with one entry per identifier, and the accessors of \<open>UnitType\<close> that read them.
  A type identifier is an integer between 0 and \<open>UnitType_Unknown\<close>, as \<open>Type\<close> guarantees; the
  flags, the races and \<open>isBuilding\<close>, \<open>isAddon\<close> come from the command theory.
\<close>

section \<open>Identifiers\<close>

text \<open>\<open>UnitTypes::Enum\<close>, \<open>UpgradeTypes::Enum\<close>, \<open>TechTypes::Enum\<close>, \<open>WeaponTypes::Enum\<close>, \<open>Races::Enum\<close>.\<close>

abbreviation (input) Terran_Marine :: int where "Terran_Marine \<equiv> 0"
abbreviation (input) Terran_Ghost :: int where "Terran_Ghost \<equiv> 1"
abbreviation (input) Terran_Vulture :: int where "Terran_Vulture \<equiv> 2"
abbreviation (input) Terran_Goliath :: int where "Terran_Goliath \<equiv> 3"
abbreviation (input) Terran_Goliath_Turret :: int where "Terran_Goliath_Turret \<equiv> 4"
abbreviation (input) Terran_Siege_Tank_Tank_Mode :: int where "Terran_Siege_Tank_Tank_Mode \<equiv> 5"
abbreviation (input) Terran_Siege_Tank_Tank_Mode_Turret :: int where "Terran_Siege_Tank_Tank_Mode_Turret \<equiv> 6"
abbreviation (input) Terran_SCV :: int where "Terran_SCV \<equiv> 7"
abbreviation (input) Terran_Wraith :: int where "Terran_Wraith \<equiv> 8"
abbreviation (input) Terran_Science_Vessel :: int where "Terran_Science_Vessel \<equiv> 9"
abbreviation (input) Hero_Gui_Montag :: int where "Hero_Gui_Montag \<equiv> 10"
abbreviation (input) Terran_Battlecruiser :: int where "Terran_Battlecruiser \<equiv> 12"
abbreviation (input) Terran_Vulture_Spider_Mine :: int where "Terran_Vulture_Spider_Mine \<equiv> 13"
abbreviation (input) Terran_Nuclear_Missile :: int where "Terran_Nuclear_Missile \<equiv> 14"
abbreviation (input) Terran_Civilian :: int where "Terran_Civilian \<equiv> 15"
abbreviation (input) Hero_Sarah_Kerrigan :: int where "Hero_Sarah_Kerrigan \<equiv> 16"
abbreviation (input) Hero_Alan_Schezar :: int where "Hero_Alan_Schezar \<equiv> 17"
abbreviation (input) Hero_Alan_Schezar_Turret :: int where "Hero_Alan_Schezar_Turret \<equiv> 18"
abbreviation (input) Hero_Jim_Raynor_Vulture :: int where "Hero_Jim_Raynor_Vulture \<equiv> 19"
abbreviation (input) Hero_Jim_Raynor_Marine :: int where "Hero_Jim_Raynor_Marine \<equiv> 20"
abbreviation (input) Hero_Tom_Kazansky :: int where "Hero_Tom_Kazansky \<equiv> 21"
abbreviation (input) Hero_Magellan :: int where "Hero_Magellan \<equiv> 22"
abbreviation (input) Hero_Edmund_Duke_Tank_Mode :: int where "Hero_Edmund_Duke_Tank_Mode \<equiv> 23"
abbreviation (input) Hero_Edmund_Duke_Tank_Mode_Turret :: int where "Hero_Edmund_Duke_Tank_Mode_Turret \<equiv> 24"
abbreviation (input) Hero_Edmund_Duke_Siege_Mode :: int where "Hero_Edmund_Duke_Siege_Mode \<equiv> 25"
abbreviation (input) Hero_Edmund_Duke_Siege_Mode_Turret :: int where "Hero_Edmund_Duke_Siege_Mode_Turret \<equiv> 26"
abbreviation (input) Hero_Arcturus_Mengsk :: int where "Hero_Arcturus_Mengsk \<equiv> 27"
abbreviation (input) Hero_Hyperion :: int where "Hero_Hyperion \<equiv> 28"
abbreviation (input) Hero_Norad_II :: int where "Hero_Norad_II \<equiv> 29"
abbreviation (input) Terran_Siege_Tank_Siege_Mode :: int where "Terran_Siege_Tank_Siege_Mode \<equiv> 30"
abbreviation (input) Terran_Siege_Tank_Siege_Mode_Turret :: int where "Terran_Siege_Tank_Siege_Mode_Turret \<equiv> 31"
abbreviation (input) Terran_Firebat :: int where "Terran_Firebat \<equiv> 32"
abbreviation (input) Spell_Scanner_Sweep :: int where "Spell_Scanner_Sweep \<equiv> 33"
abbreviation (input) Terran_Medic :: int where "Terran_Medic \<equiv> 34"
abbreviation (input) Zerg_Egg :: int where "Zerg_Egg \<equiv> 36"
abbreviation (input) Zerg_Zergling :: int where "Zerg_Zergling \<equiv> 37"
abbreviation (input) Zerg_Ultralisk :: int where "Zerg_Ultralisk \<equiv> 39"
abbreviation (input) Zerg_Broodling :: int where "Zerg_Broodling \<equiv> 40"
abbreviation (input) Zerg_Drone :: int where "Zerg_Drone \<equiv> 41"
abbreviation (input) Zerg_Guardian :: int where "Zerg_Guardian \<equiv> 44"
abbreviation (input) Zerg_Queen :: int where "Zerg_Queen \<equiv> 45"
abbreviation (input) Zerg_Defiler :: int where "Zerg_Defiler \<equiv> 46"
abbreviation (input) Zerg_Scourge :: int where "Zerg_Scourge \<equiv> 47"
abbreviation (input) Hero_Torrasque :: int where "Hero_Torrasque \<equiv> 48"
abbreviation (input) Hero_Matriarch :: int where "Hero_Matriarch \<equiv> 49"
abbreviation (input) Hero_Infested_Kerrigan :: int where "Hero_Infested_Kerrigan \<equiv> 51"
abbreviation (input) Hero_Unclean_One :: int where "Hero_Unclean_One \<equiv> 52"
abbreviation (input) Hero_Hunter_Killer :: int where "Hero_Hunter_Killer \<equiv> 53"
abbreviation (input) Hero_Devouring_One :: int where "Hero_Devouring_One \<equiv> 54"
abbreviation (input) Hero_Kukulza_Mutalisk :: int where "Hero_Kukulza_Mutalisk \<equiv> 55"
abbreviation (input) Hero_Kukulza_Guardian :: int where "Hero_Kukulza_Guardian \<equiv> 56"
abbreviation (input) Terran_Valkyrie :: int where "Terran_Valkyrie \<equiv> 58"
abbreviation (input) Zerg_Cocoon :: int where "Zerg_Cocoon \<equiv> 59"
abbreviation (input) Protoss_Corsair :: int where "Protoss_Corsair \<equiv> 60"
abbreviation (input) Protoss_Dark_Templar :: int where "Protoss_Dark_Templar \<equiv> 61"
abbreviation (input) Zerg_Devourer :: int where "Zerg_Devourer \<equiv> 62"
abbreviation (input) Protoss_Dark_Archon :: int where "Protoss_Dark_Archon \<equiv> 63"
abbreviation (input) Protoss_Probe :: int where "Protoss_Probe \<equiv> 64"
abbreviation (input) Protoss_Zealot :: int where "Protoss_Zealot \<equiv> 65"
abbreviation (input) Protoss_Dragoon :: int where "Protoss_Dragoon \<equiv> 66"
abbreviation (input) Protoss_High_Templar :: int where "Protoss_High_Templar \<equiv> 67"
abbreviation (input) Protoss_Archon :: int where "Protoss_Archon \<equiv> 68"
abbreviation (input) Protoss_Scout :: int where "Protoss_Scout \<equiv> 70"
abbreviation (input) Protoss_Arbiter :: int where "Protoss_Arbiter \<equiv> 71"
abbreviation (input) Protoss_Interceptor :: int where "Protoss_Interceptor \<equiv> 73"
abbreviation (input) Hero_Dark_Templar :: int where "Hero_Dark_Templar \<equiv> 74"
abbreviation (input) Hero_Zeratul :: int where "Hero_Zeratul \<equiv> 75"
abbreviation (input) Hero_Tassadar_Zeratul_Archon :: int where "Hero_Tassadar_Zeratul_Archon \<equiv> 76"
abbreviation (input) Hero_Fenix_Zealot :: int where "Hero_Fenix_Zealot \<equiv> 77"
abbreviation (input) Hero_Fenix_Dragoon :: int where "Hero_Fenix_Dragoon \<equiv> 78"
abbreviation (input) Hero_Tassadar :: int where "Hero_Tassadar \<equiv> 79"
abbreviation (input) Hero_Mojo :: int where "Hero_Mojo \<equiv> 80"
abbreviation (input) Protoss_Observer :: int where "Protoss_Observer \<equiv> 84"
abbreviation (input) Protoss_Scarab :: int where "Protoss_Scarab \<equiv> 85"
abbreviation (input) Hero_Danimoth :: int where "Hero_Danimoth \<equiv> 86"
abbreviation (input) Hero_Aldaris :: int where "Hero_Aldaris \<equiv> 87"
abbreviation (input) Hero_Artanis :: int where "Hero_Artanis \<equiv> 88"
abbreviation (input) Critter_Rhynadon :: int where "Critter_Rhynadon \<equiv> 89"
abbreviation (input) Critter_Bengalaas :: int where "Critter_Bengalaas \<equiv> 90"
abbreviation (input) Special_Cargo_Ship :: int where "Special_Cargo_Ship \<equiv> 91"
abbreviation (input) Special_Mercenary_Gunship :: int where "Special_Mercenary_Gunship \<equiv> 92"
abbreviation (input) Critter_Scantid :: int where "Critter_Scantid \<equiv> 93"
abbreviation (input) Critter_Kakaru :: int where "Critter_Kakaru \<equiv> 94"
abbreviation (input) Critter_Ragnasaur :: int where "Critter_Ragnasaur \<equiv> 95"
abbreviation (input) Critter_Ursadon :: int where "Critter_Ursadon \<equiv> 96"
abbreviation (input) Zerg_Lurker_Egg :: int where "Zerg_Lurker_Egg \<equiv> 97"
abbreviation (input) Hero_Raszagal :: int where "Hero_Raszagal \<equiv> 98"
abbreviation (input) Hero_Samir_Duran :: int where "Hero_Samir_Duran \<equiv> 99"
abbreviation (input) Hero_Alexei_Stukov :: int where "Hero_Alexei_Stukov \<equiv> 100"
abbreviation (input) Special_Map_Revealer :: int where "Special_Map_Revealer \<equiv> 101"
abbreviation (input) Hero_Gerard_DuGalle :: int where "Hero_Gerard_DuGalle \<equiv> 102"
abbreviation (input) Zerg_Lurker :: int where "Zerg_Lurker \<equiv> 103"
abbreviation (input) Hero_Infested_Duran :: int where "Hero_Infested_Duran \<equiv> 104"
abbreviation (input) Spell_Disruption_Web :: int where "Spell_Disruption_Web \<equiv> 105"
abbreviation (input) Terran_Command_Center :: int where "Terran_Command_Center \<equiv> 106"
abbreviation (input) Terran_Comsat_Station :: int where "Terran_Comsat_Station \<equiv> 107"
abbreviation (input) Terran_Nuclear_Silo :: int where "Terran_Nuclear_Silo \<equiv> 108"
abbreviation (input) Terran_Supply_Depot :: int where "Terran_Supply_Depot \<equiv> 109"
abbreviation (input) Terran_Refinery :: int where "Terran_Refinery \<equiv> 110"
abbreviation (input) Terran_Barracks :: int where "Terran_Barracks \<equiv> 111"
abbreviation (input) Terran_Academy :: int where "Terran_Academy \<equiv> 112"
abbreviation (input) Terran_Factory :: int where "Terran_Factory \<equiv> 113"
abbreviation (input) Terran_Starport :: int where "Terran_Starport \<equiv> 114"
abbreviation (input) Terran_Control_Tower :: int where "Terran_Control_Tower \<equiv> 115"
abbreviation (input) Terran_Science_Facility :: int where "Terran_Science_Facility \<equiv> 116"
abbreviation (input) Terran_Covert_Ops :: int where "Terran_Covert_Ops \<equiv> 117"
abbreviation (input) Terran_Physics_Lab :: int where "Terran_Physics_Lab \<equiv> 118"
abbreviation (input) Unused_Terran1 :: int where "Unused_Terran1 \<equiv> 119"
abbreviation (input) Terran_Machine_Shop :: int where "Terran_Machine_Shop \<equiv> 120"
abbreviation (input) Unused_Terran2 :: int where "Unused_Terran2 \<equiv> 121"
abbreviation (input) Terran_Engineering_Bay :: int where "Terran_Engineering_Bay \<equiv> 122"
abbreviation (input) Terran_Armory :: int where "Terran_Armory \<equiv> 123"
abbreviation (input) Terran_Missile_Turret :: int where "Terran_Missile_Turret \<equiv> 124"
abbreviation (input) Special_Crashed_Norad_II :: int where "Special_Crashed_Norad_II \<equiv> 126"
abbreviation (input) Special_Ion_Cannon :: int where "Special_Ion_Cannon \<equiv> 127"
abbreviation (input) Powerup_Uraj_Crystal :: int where "Powerup_Uraj_Crystal \<equiv> 128"
abbreviation (input) Powerup_Khalis_Crystal :: int where "Powerup_Khalis_Crystal \<equiv> 129"
abbreviation (input) Zerg_Infested_Command_Center :: int where "Zerg_Infested_Command_Center \<equiv> 130"
abbreviation (input) Zerg_Hive :: int where "Zerg_Hive \<equiv> 133"
abbreviation (input) Zerg_Hydralisk_Den :: int where "Zerg_Hydralisk_Den \<equiv> 135"
abbreviation (input) Zerg_Defiler_Mound :: int where "Zerg_Defiler_Mound \<equiv> 136"
abbreviation (input) Zerg_Greater_Spire :: int where "Zerg_Greater_Spire \<equiv> 137"
abbreviation (input) Zerg_Queens_Nest :: int where "Zerg_Queens_Nest \<equiv> 138"
abbreviation (input) Zerg_Evolution_Chamber :: int where "Zerg_Evolution_Chamber \<equiv> 139"
abbreviation (input) Zerg_Ultralisk_Cavern :: int where "Zerg_Ultralisk_Cavern \<equiv> 140"
abbreviation (input) Zerg_Spawning_Pool :: int where "Zerg_Spawning_Pool \<equiv> 142"
abbreviation (input) Zerg_Spore_Colony :: int where "Zerg_Spore_Colony \<equiv> 144"
abbreviation (input) Unused_Zerg1 :: int where "Unused_Zerg1 \<equiv> 145"
abbreviation (input) Zerg_Sunken_Colony :: int where "Zerg_Sunken_Colony \<equiv> 146"
abbreviation (input) Special_Overmind_With_Shell :: int where "Special_Overmind_With_Shell \<equiv> 147"
abbreviation (input) Special_Overmind :: int where "Special_Overmind \<equiv> 148"
abbreviation (input) Zerg_Extractor :: int where "Zerg_Extractor \<equiv> 149"
abbreviation (input) Special_Mature_Chrysalis :: int where "Special_Mature_Chrysalis \<equiv> 150"
abbreviation (input) Special_Cerebrate :: int where "Special_Cerebrate \<equiv> 151"
abbreviation (input) Special_Cerebrate_Daggoth :: int where "Special_Cerebrate_Daggoth \<equiv> 152"
abbreviation (input) Unused_Zerg2 :: int where "Unused_Zerg2 \<equiv> 153"
abbreviation (input) Protoss_Nexus :: int where "Protoss_Nexus \<equiv> 154"
abbreviation (input) Protoss_Robotics_Facility :: int where "Protoss_Robotics_Facility \<equiv> 155"
abbreviation (input) Protoss_Pylon :: int where "Protoss_Pylon \<equiv> 156"
abbreviation (input) Protoss_Assimilator :: int where "Protoss_Assimilator \<equiv> 157"
abbreviation (input) Unused_Protoss1 :: int where "Unused_Protoss1 \<equiv> 158"
abbreviation (input) Protoss_Observatory :: int where "Protoss_Observatory \<equiv> 159"
abbreviation (input) Protoss_Gateway :: int where "Protoss_Gateway \<equiv> 160"
abbreviation (input) Unused_Protoss2 :: int where "Unused_Protoss2 \<equiv> 161"
abbreviation (input) Protoss_Photon_Cannon :: int where "Protoss_Photon_Cannon \<equiv> 162"
abbreviation (input) Protoss_Citadel_of_Adun :: int where "Protoss_Citadel_of_Adun \<equiv> 163"
abbreviation (input) Protoss_Cybernetics_Core :: int where "Protoss_Cybernetics_Core \<equiv> 164"
abbreviation (input) Protoss_Templar_Archives :: int where "Protoss_Templar_Archives \<equiv> 165"
abbreviation (input) Protoss_Forge :: int where "Protoss_Forge \<equiv> 166"
abbreviation (input) Protoss_Stargate :: int where "Protoss_Stargate \<equiv> 167"
abbreviation (input) Special_Stasis_Cell_Prison :: int where "Special_Stasis_Cell_Prison \<equiv> 168"
abbreviation (input) Protoss_Fleet_Beacon :: int where "Protoss_Fleet_Beacon \<equiv> 169"
abbreviation (input) Protoss_Arbiter_Tribunal :: int where "Protoss_Arbiter_Tribunal \<equiv> 170"
abbreviation (input) Protoss_Robotics_Support_Bay :: int where "Protoss_Robotics_Support_Bay \<equiv> 171"
abbreviation (input) Protoss_Shield_Battery :: int where "Protoss_Shield_Battery \<equiv> 172"
abbreviation (input) Special_Khaydarin_Crystal_Form :: int where "Special_Khaydarin_Crystal_Form \<equiv> 173"
abbreviation (input) Special_Protoss_Temple :: int where "Special_Protoss_Temple \<equiv> 174"
abbreviation (input) Special_XelNaga_Temple :: int where "Special_XelNaga_Temple \<equiv> 175"
abbreviation (input) Resource_Mineral_Field :: int where "Resource_Mineral_Field \<equiv> 176"
abbreviation (input) Resource_Mineral_Field_Type_2 :: int where "Resource_Mineral_Field_Type_2 \<equiv> 177"
abbreviation (input) Resource_Mineral_Field_Type_3 :: int where "Resource_Mineral_Field_Type_3 \<equiv> 178"
abbreviation (input) Unused_Cave :: int where "Unused_Cave \<equiv> 179"
abbreviation (input) Unused_Cave_In :: int where "Unused_Cave_In \<equiv> 180"
abbreviation (input) Unused_Cantina :: int where "Unused_Cantina \<equiv> 181"
abbreviation (input) Unused_Mining_Platform :: int where "Unused_Mining_Platform \<equiv> 182"
abbreviation (input) Unused_Independant_Command_Center :: int where "Unused_Independant_Command_Center \<equiv> 183"
abbreviation (input) Special_Independant_Starport :: int where "Special_Independant_Starport \<equiv> 184"
abbreviation (input) Unused_Independant_Jump_Gate :: int where "Unused_Independant_Jump_Gate \<equiv> 185"
abbreviation (input) Unused_Ruins :: int where "Unused_Ruins \<equiv> 186"
abbreviation (input) Unused_Khaydarin_Crystal_Formation :: int where "Unused_Khaydarin_Crystal_Formation \<equiv> 187"
abbreviation (input) Resource_Vespene_Geyser :: int where "Resource_Vespene_Geyser \<equiv> 188"
abbreviation (input) Special_Warp_Gate :: int where "Special_Warp_Gate \<equiv> 189"
abbreviation (input) Special_Psi_Disrupter :: int where "Special_Psi_Disrupter \<equiv> 190"
abbreviation (input) Unused_Zerg_Marker :: int where "Unused_Zerg_Marker \<equiv> 191"
abbreviation (input) Unused_Terran_Marker :: int where "Unused_Terran_Marker \<equiv> 192"
abbreviation (input) Unused_Protoss_Marker :: int where "Unused_Protoss_Marker \<equiv> 193"
abbreviation (input) Special_Zerg_Beacon :: int where "Special_Zerg_Beacon \<equiv> 194"
abbreviation (input) Special_Terran_Beacon :: int where "Special_Terran_Beacon \<equiv> 195"
abbreviation (input) Special_Protoss_Beacon :: int where "Special_Protoss_Beacon \<equiv> 196"
abbreviation (input) Special_Zerg_Flag_Beacon :: int where "Special_Zerg_Flag_Beacon \<equiv> 197"
abbreviation (input) Special_Terran_Flag_Beacon :: int where "Special_Terran_Flag_Beacon \<equiv> 198"
abbreviation (input) Special_Protoss_Flag_Beacon :: int where "Special_Protoss_Flag_Beacon \<equiv> 199"
abbreviation (input) Special_Power_Generator :: int where "Special_Power_Generator \<equiv> 200"
abbreviation (input) Special_Overmind_Cocoon :: int where "Special_Overmind_Cocoon \<equiv> 201"
abbreviation (input) Spell_Dark_Swarm :: int where "Spell_Dark_Swarm \<equiv> 202"
abbreviation (input) Special_Floor_Missile_Trap :: int where "Special_Floor_Missile_Trap \<equiv> 203"
abbreviation (input) Special_Floor_Hatch :: int where "Special_Floor_Hatch \<equiv> 204"
abbreviation (input) Special_Upper_Level_Door :: int where "Special_Upper_Level_Door \<equiv> 205"
abbreviation (input) Special_Right_Upper_Level_Door :: int where "Special_Right_Upper_Level_Door \<equiv> 206"
abbreviation (input) Special_Pit_Door :: int where "Special_Pit_Door \<equiv> 207"
abbreviation (input) Special_Right_Pit_Door :: int where "Special_Right_Pit_Door \<equiv> 208"
abbreviation (input) Special_Floor_Gun_Trap :: int where "Special_Floor_Gun_Trap \<equiv> 209"
abbreviation (input) Special_Wall_Missile_Trap :: int where "Special_Wall_Missile_Trap \<equiv> 210"
abbreviation (input) Special_Wall_Flame_Trap :: int where "Special_Wall_Flame_Trap \<equiv> 211"
abbreviation (input) Special_Right_Wall_Missile_Trap :: int where "Special_Right_Wall_Missile_Trap \<equiv> 212"
abbreviation (input) Special_Right_Wall_Flame_Trap :: int where "Special_Right_Wall_Flame_Trap \<equiv> 213"
abbreviation (input) Special_Start_Location :: int where "Special_Start_Location \<equiv> 214"
abbreviation (input) Powerup_Flag :: int where "Powerup_Flag \<equiv> 215"
abbreviation (input) Powerup_Young_Chrysalis :: int where "Powerup_Young_Chrysalis \<equiv> 216"
abbreviation (input) Powerup_Psi_Emitter :: int where "Powerup_Psi_Emitter \<equiv> 217"
abbreviation (input) Powerup_Data_Disk :: int where "Powerup_Data_Disk \<equiv> 218"
abbreviation (input) Powerup_Khaydarin_Crystal :: int where "Powerup_Khaydarin_Crystal \<equiv> 219"
abbreviation (input) Powerup_Mineral_Cluster_Type_1 :: int where "Powerup_Mineral_Cluster_Type_1 \<equiv> 220"
abbreviation (input) Powerup_Mineral_Cluster_Type_2 :: int where "Powerup_Mineral_Cluster_Type_2 \<equiv> 221"
abbreviation (input) Powerup_Protoss_Gas_Orb_Type_1 :: int where "Powerup_Protoss_Gas_Orb_Type_1 \<equiv> 222"
abbreviation (input) Powerup_Protoss_Gas_Orb_Type_2 :: int where "Powerup_Protoss_Gas_Orb_Type_2 \<equiv> 223"
abbreviation (input) Powerup_Zerg_Gas_Sac_Type_1 :: int where "Powerup_Zerg_Gas_Sac_Type_1 \<equiv> 224"
abbreviation (input) Powerup_Zerg_Gas_Sac_Type_2 :: int where "Powerup_Zerg_Gas_Sac_Type_2 \<equiv> 225"
abbreviation (input) Powerup_Terran_Gas_Tank_Type_1 :: int where "Powerup_Terran_Gas_Tank_Type_1 \<equiv> 226"
abbreviation (input) Powerup_Terran_Gas_Tank_Type_2 :: int where "Powerup_Terran_Gas_Tank_Type_2 \<equiv> 227"
abbreviation (input) AllUnits :: int where "AllUnits \<equiv> 229"
abbreviation (input) Men :: int where "Men \<equiv> 230"
abbreviation (input) Buildings :: int where "Buildings \<equiv> 231"
abbreviation (input) Factories :: int where "Factories \<equiv> 232"

abbreviation (input) Upg_Terran_Infantry_Armor :: int where "Upg_Terran_Infantry_Armor \<equiv> 0"
abbreviation (input) Upg_Terran_Vehicle_Plating :: int where "Upg_Terran_Vehicle_Plating \<equiv> 1"
abbreviation (input) Upg_Terran_Ship_Plating :: int where "Upg_Terran_Ship_Plating \<equiv> 2"
abbreviation (input) Upg_Zerg_Carapace :: int where "Upg_Zerg_Carapace \<equiv> 3"
abbreviation (input) Upg_Zerg_Flyer_Carapace :: int where "Upg_Zerg_Flyer_Carapace \<equiv> 4"
abbreviation (input) Upg_Protoss_Ground_Armor :: int where "Upg_Protoss_Ground_Armor \<equiv> 5"
abbreviation (input) Upg_Protoss_Air_Armor :: int where "Upg_Protoss_Air_Armor \<equiv> 6"
abbreviation (input) Upg_Terran_Infantry_Weapons :: int where "Upg_Terran_Infantry_Weapons \<equiv> 7"
abbreviation (input) Upg_Terran_Vehicle_Weapons :: int where "Upg_Terran_Vehicle_Weapons \<equiv> 8"
abbreviation (input) Upg_Terran_Ship_Weapons :: int where "Upg_Terran_Ship_Weapons \<equiv> 9"
abbreviation (input) Upg_Zerg_Melee_Attacks :: int where "Upg_Zerg_Melee_Attacks \<equiv> 10"
abbreviation (input) Upg_Zerg_Missile_Attacks :: int where "Upg_Zerg_Missile_Attacks \<equiv> 11"
abbreviation (input) Upg_Zerg_Flyer_Attacks :: int where "Upg_Zerg_Flyer_Attacks \<equiv> 12"
abbreviation (input) Upg_Protoss_Ground_Weapons :: int where "Upg_Protoss_Ground_Weapons \<equiv> 13"
abbreviation (input) Upg_Protoss_Air_Weapons :: int where "Upg_Protoss_Air_Weapons \<equiv> 14"
abbreviation (input) Upg_Protoss_Plasma_Shields :: int where "Upg_Protoss_Plasma_Shields \<equiv> 15"
abbreviation (input) Upg_U_238_Shells :: int where "Upg_U_238_Shells \<equiv> 16"
abbreviation (input) Upg_Ion_Thrusters :: int where "Upg_Ion_Thrusters \<equiv> 17"
abbreviation (input) Upg_Titan_Reactor :: int where "Upg_Titan_Reactor \<equiv> 19"
abbreviation (input) Upg_Ocular_Implants :: int where "Upg_Ocular_Implants \<equiv> 20"
abbreviation (input) Upg_Moebius_Reactor :: int where "Upg_Moebius_Reactor \<equiv> 21"
abbreviation (input) Upg_Apollo_Reactor :: int where "Upg_Apollo_Reactor \<equiv> 22"
abbreviation (input) Upg_Colossus_Reactor :: int where "Upg_Colossus_Reactor \<equiv> 23"
abbreviation (input) Upg_Ventral_Sacs :: int where "Upg_Ventral_Sacs \<equiv> 24"
abbreviation (input) Upg_Antennae :: int where "Upg_Antennae \<equiv> 25"
abbreviation (input) Upg_Pneumatized_Carapace :: int where "Upg_Pneumatized_Carapace \<equiv> 26"
abbreviation (input) Upg_Metabolic_Boost :: int where "Upg_Metabolic_Boost \<equiv> 27"
abbreviation (input) Upg_Adrenal_Glands :: int where "Upg_Adrenal_Glands \<equiv> 28"
abbreviation (input) Upg_Muscular_Augments :: int where "Upg_Muscular_Augments \<equiv> 29"
abbreviation (input) Upg_Grooved_Spines :: int where "Upg_Grooved_Spines \<equiv> 30"
abbreviation (input) Upg_Gamete_Meiosis :: int where "Upg_Gamete_Meiosis \<equiv> 31"
abbreviation (input) Upg_Metasynaptic_Node :: int where "Upg_Metasynaptic_Node \<equiv> 32"
abbreviation (input) Upg_Singularity_Charge :: int where "Upg_Singularity_Charge \<equiv> 33"
abbreviation (input) Upg_Leg_Enhancements :: int where "Upg_Leg_Enhancements \<equiv> 34"
abbreviation (input) Upg_Scarab_Damage :: int where "Upg_Scarab_Damage \<equiv> 35"
abbreviation (input) Upg_Reaver_Capacity :: int where "Upg_Reaver_Capacity \<equiv> 36"
abbreviation (input) Upg_Gravitic_Drive :: int where "Upg_Gravitic_Drive \<equiv> 37"
abbreviation (input) Upg_Sensor_Array :: int where "Upg_Sensor_Array \<equiv> 38"
abbreviation (input) Upg_Gravitic_Boosters :: int where "Upg_Gravitic_Boosters \<equiv> 39"
abbreviation (input) Upg_Khaydarin_Amulet :: int where "Upg_Khaydarin_Amulet \<equiv> 40"
abbreviation (input) Upg_Apial_Sensors :: int where "Upg_Apial_Sensors \<equiv> 41"
abbreviation (input) Upg_Gravitic_Thrusters :: int where "Upg_Gravitic_Thrusters \<equiv> 42"
abbreviation (input) Upg_Carrier_Capacity :: int where "Upg_Carrier_Capacity \<equiv> 43"
abbreviation (input) Upg_Khaydarin_Core :: int where "Upg_Khaydarin_Core \<equiv> 44"
abbreviation (input) Upg_Argus_Jewel :: int where "Upg_Argus_Jewel \<equiv> 47"
abbreviation (input) Upg_Argus_Talisman :: int where "Upg_Argus_Talisman \<equiv> 49"
abbreviation (input) Upg_Caduceus_Reactor :: int where "Upg_Caduceus_Reactor \<equiv> 51"
abbreviation (input) Upg_Chitinous_Plating :: int where "Upg_Chitinous_Plating \<equiv> 52"
abbreviation (input) Upg_Anabolic_Synthesis :: int where "Upg_Anabolic_Synthesis \<equiv> 53"
abbreviation (input) Upg_Charon_Boosters :: int where "Upg_Charon_Boosters \<equiv> 54"
abbreviation (input) Upg_Upgrade_60 :: int where "Upg_Upgrade_60 \<equiv> 60"

abbreviation (input) Tech_Stim_Packs :: int where "Tech_Stim_Packs \<equiv> 0"
abbreviation (input) Tech_Lockdown :: int where "Tech_Lockdown \<equiv> 1"
abbreviation (input) Tech_EMP_Shockwave :: int where "Tech_EMP_Shockwave \<equiv> 2"
abbreviation (input) Tech_Spider_Mines :: int where "Tech_Spider_Mines \<equiv> 3"
abbreviation (input) Tech_Scanner_Sweep :: int where "Tech_Scanner_Sweep \<equiv> 4"
abbreviation (input) Tech_Tank_Siege_Mode :: int where "Tech_Tank_Siege_Mode \<equiv> 5"
abbreviation (input) Tech_Defensive_Matrix :: int where "Tech_Defensive_Matrix \<equiv> 6"
abbreviation (input) Tech_Irradiate :: int where "Tech_Irradiate \<equiv> 7"
abbreviation (input) Tech_Yamato_Gun :: int where "Tech_Yamato_Gun \<equiv> 8"
abbreviation (input) Tech_Cloaking_Field :: int where "Tech_Cloaking_Field \<equiv> 9"
abbreviation (input) Tech_Personnel_Cloaking :: int where "Tech_Personnel_Cloaking \<equiv> 10"
abbreviation (input) Tech_Burrowing :: int where "Tech_Burrowing \<equiv> 11"
abbreviation (input) Tech_Infestation :: int where "Tech_Infestation \<equiv> 12"
abbreviation (input) Tech_Spawn_Broodlings :: int where "Tech_Spawn_Broodlings \<equiv> 13"
abbreviation (input) Tech_Dark_Swarm :: int where "Tech_Dark_Swarm \<equiv> 14"
abbreviation (input) Tech_Plague :: int where "Tech_Plague \<equiv> 15"
abbreviation (input) Tech_Consume :: int where "Tech_Consume \<equiv> 16"
abbreviation (input) Tech_Ensnare :: int where "Tech_Ensnare \<equiv> 17"
abbreviation (input) Tech_Parasite :: int where "Tech_Parasite \<equiv> 18"
abbreviation (input) Tech_Psionic_Storm :: int where "Tech_Psionic_Storm \<equiv> 19"
abbreviation (input) Tech_Hallucination :: int where "Tech_Hallucination \<equiv> 20"
abbreviation (input) Tech_Recall :: int where "Tech_Recall \<equiv> 21"
abbreviation (input) Tech_Stasis_Field :: int where "Tech_Stasis_Field \<equiv> 22"
abbreviation (input) Tech_Archon_Warp :: int where "Tech_Archon_Warp \<equiv> 23"
abbreviation (input) Tech_Restoration :: int where "Tech_Restoration \<equiv> 24"
abbreviation (input) Tech_Disruption_Web :: int where "Tech_Disruption_Web \<equiv> 25"
abbreviation (input) Tech_Unused_26 :: int where "Tech_Unused_26 \<equiv> 26"
abbreviation (input) Tech_Mind_Control :: int where "Tech_Mind_Control \<equiv> 27"
abbreviation (input) Tech_Dark_Archon_Meld :: int where "Tech_Dark_Archon_Meld \<equiv> 28"
abbreviation (input) Tech_Feedback :: int where "Tech_Feedback \<equiv> 29"
abbreviation (input) Tech_Optical_Flare :: int where "Tech_Optical_Flare \<equiv> 30"
abbreviation (input) Tech_Maelstrom :: int where "Tech_Maelstrom \<equiv> 31"
abbreviation (input) Tech_Lurker_Aspect :: int where "Tech_Lurker_Aspect \<equiv> 32"
abbreviation (input) Tech_Unused_33 :: int where "Tech_Unused_33 \<equiv> 33"
abbreviation (input) Tech_Healing :: int where "Tech_Healing \<equiv> 34"
abbreviation (input) Tech_Nuclear_Strike :: int where "Tech_Nuclear_Strike \<equiv> 45"

abbreviation (input) Wpn_Gauss_Rifle :: int where "Wpn_Gauss_Rifle \<equiv> 0"
abbreviation (input) Wpn_Gauss_Rifle_Jim_Raynor :: int where "Wpn_Gauss_Rifle_Jim_Raynor \<equiv> 1"
abbreviation (input) Wpn_C_10_Canister_Rifle :: int where "Wpn_C_10_Canister_Rifle \<equiv> 2"
abbreviation (input) Wpn_C_10_Canister_Rifle_Sarah_Kerrigan :: int where "Wpn_C_10_Canister_Rifle_Sarah_Kerrigan \<equiv> 3"
abbreviation (input) Wpn_Fragmentation_Grenade :: int where "Wpn_Fragmentation_Grenade \<equiv> 4"
abbreviation (input) Wpn_Fragmentation_Grenade_Jim_Raynor :: int where "Wpn_Fragmentation_Grenade_Jim_Raynor \<equiv> 5"
abbreviation (input) Wpn_Spider_Mines :: int where "Wpn_Spider_Mines \<equiv> 6"
abbreviation (input) Wpn_Twin_Autocannons :: int where "Wpn_Twin_Autocannons \<equiv> 7"
abbreviation (input) Wpn_Hellfire_Missile_Pack :: int where "Wpn_Hellfire_Missile_Pack \<equiv> 8"
abbreviation (input) Wpn_Twin_Autocannons_Alan_Schezar :: int where "Wpn_Twin_Autocannons_Alan_Schezar \<equiv> 9"
abbreviation (input) Wpn_Hellfire_Missile_Pack_Alan_Schezar :: int where "Wpn_Hellfire_Missile_Pack_Alan_Schezar \<equiv> 10"
abbreviation (input) Wpn_Arclite_Cannon :: int where "Wpn_Arclite_Cannon \<equiv> 11"
abbreviation (input) Wpn_Arclite_Cannon_Edmund_Duke :: int where "Wpn_Arclite_Cannon_Edmund_Duke \<equiv> 12"
abbreviation (input) Wpn_Fusion_Cutter :: int where "Wpn_Fusion_Cutter \<equiv> 13"
abbreviation (input) Wpn_Gemini_Missiles :: int where "Wpn_Gemini_Missiles \<equiv> 15"
abbreviation (input) Wpn_Burst_Lasers :: int where "Wpn_Burst_Lasers \<equiv> 16"
abbreviation (input) Wpn_Gemini_Missiles_Tom_Kazansky :: int where "Wpn_Gemini_Missiles_Tom_Kazansky \<equiv> 17"
abbreviation (input) Wpn_Burst_Lasers_Tom_Kazansky :: int where "Wpn_Burst_Lasers_Tom_Kazansky \<equiv> 18"
abbreviation (input) Wpn_ATS_Laser_Battery :: int where "Wpn_ATS_Laser_Battery \<equiv> 19"
abbreviation (input) Wpn_ATA_Laser_Battery :: int where "Wpn_ATA_Laser_Battery \<equiv> 20"
abbreviation (input) Wpn_ATS_Laser_Battery_Hero :: int where "Wpn_ATS_Laser_Battery_Hero \<equiv> 21"
abbreviation (input) Wpn_ATA_Laser_Battery_Hero :: int where "Wpn_ATA_Laser_Battery_Hero \<equiv> 22"
abbreviation (input) Wpn_ATS_Laser_Battery_Hyperion :: int where "Wpn_ATS_Laser_Battery_Hyperion \<equiv> 23"
abbreviation (input) Wpn_ATA_Laser_Battery_Hyperion :: int where "Wpn_ATA_Laser_Battery_Hyperion \<equiv> 24"
abbreviation (input) Wpn_Flame_Thrower :: int where "Wpn_Flame_Thrower \<equiv> 25"
abbreviation (input) Wpn_Flame_Thrower_Gui_Montag :: int where "Wpn_Flame_Thrower_Gui_Montag \<equiv> 26"
abbreviation (input) Wpn_Arclite_Shock_Cannon :: int where "Wpn_Arclite_Shock_Cannon \<equiv> 27"
abbreviation (input) Wpn_Arclite_Shock_Cannon_Edmund_Duke :: int where "Wpn_Arclite_Shock_Cannon_Edmund_Duke \<equiv> 28"
abbreviation (input) Wpn_Longbolt_Missile :: int where "Wpn_Longbolt_Missile \<equiv> 29"
abbreviation (input) Wpn_Yamato_Gun :: int where "Wpn_Yamato_Gun \<equiv> 30"
abbreviation (input) Wpn_Nuclear_Strike :: int where "Wpn_Nuclear_Strike \<equiv> 31"
abbreviation (input) Wpn_Lockdown :: int where "Wpn_Lockdown \<equiv> 32"
abbreviation (input) Wpn_EMP_Shockwave :: int where "Wpn_EMP_Shockwave \<equiv> 33"
abbreviation (input) Wpn_Irradiate :: int where "Wpn_Irradiate \<equiv> 34"
abbreviation (input) Wpn_Claws :: int where "Wpn_Claws \<equiv> 35"
abbreviation (input) Wpn_Claws_Devouring_One :: int where "Wpn_Claws_Devouring_One \<equiv> 36"
abbreviation (input) Wpn_Claws_Infested_Kerrigan :: int where "Wpn_Claws_Infested_Kerrigan \<equiv> 37"
abbreviation (input) Wpn_Needle_Spines :: int where "Wpn_Needle_Spines \<equiv> 38"
abbreviation (input) Wpn_Needle_Spines_Hunter_Killer :: int where "Wpn_Needle_Spines_Hunter_Killer \<equiv> 39"
abbreviation (input) Wpn_Kaiser_Blades :: int where "Wpn_Kaiser_Blades \<equiv> 40"
abbreviation (input) Wpn_Kaiser_Blades_Torrasque :: int where "Wpn_Kaiser_Blades_Torrasque \<equiv> 41"
abbreviation (input) Wpn_Toxic_Spores :: int where "Wpn_Toxic_Spores \<equiv> 42"
abbreviation (input) Wpn_Spines :: int where "Wpn_Spines \<equiv> 43"
abbreviation (input) Wpn_Acid_Spore :: int where "Wpn_Acid_Spore \<equiv> 46"
abbreviation (input) Wpn_Acid_Spore_Kukulza :: int where "Wpn_Acid_Spore_Kukulza \<equiv> 47"
abbreviation (input) Wpn_Glave_Wurm :: int where "Wpn_Glave_Wurm \<equiv> 48"
abbreviation (input) Wpn_Glave_Wurm_Kukulza :: int where "Wpn_Glave_Wurm_Kukulza \<equiv> 49"
abbreviation (input) Wpn_Seeker_Spores :: int where "Wpn_Seeker_Spores \<equiv> 52"
abbreviation (input) Wpn_Subterranean_Tentacle :: int where "Wpn_Subterranean_Tentacle \<equiv> 53"
abbreviation (input) Wpn_Suicide_Infested_Terran :: int where "Wpn_Suicide_Infested_Terran \<equiv> 54"
abbreviation (input) Wpn_Suicide_Scourge :: int where "Wpn_Suicide_Scourge \<equiv> 55"
abbreviation (input) Wpn_Parasite :: int where "Wpn_Parasite \<equiv> 56"
abbreviation (input) Wpn_Spawn_Broodlings :: int where "Wpn_Spawn_Broodlings \<equiv> 57"
abbreviation (input) Wpn_Ensnare :: int where "Wpn_Ensnare \<equiv> 58"
abbreviation (input) Wpn_Dark_Swarm :: int where "Wpn_Dark_Swarm \<equiv> 59"
abbreviation (input) Wpn_Plague :: int where "Wpn_Plague \<equiv> 60"
abbreviation (input) Wpn_Consume :: int where "Wpn_Consume \<equiv> 61"
abbreviation (input) Wpn_Particle_Beam :: int where "Wpn_Particle_Beam \<equiv> 62"
abbreviation (input) Wpn_Psi_Blades :: int where "Wpn_Psi_Blades \<equiv> 64"
abbreviation (input) Wpn_Psi_Blades_Fenix :: int where "Wpn_Psi_Blades_Fenix \<equiv> 65"
abbreviation (input) Wpn_Phase_Disruptor :: int where "Wpn_Phase_Disruptor \<equiv> 66"
abbreviation (input) Wpn_Phase_Disruptor_Fenix :: int where "Wpn_Phase_Disruptor_Fenix \<equiv> 67"
abbreviation (input) Wpn_Psi_Assault :: int where "Wpn_Psi_Assault \<equiv> 69"
abbreviation (input) Wpn_Psionic_Shockwave :: int where "Wpn_Psionic_Shockwave \<equiv> 70"
abbreviation (input) Wpn_Psionic_Shockwave_TZ_Archon :: int where "Wpn_Psionic_Shockwave_TZ_Archon \<equiv> 71"
abbreviation (input) Wpn_Dual_Photon_Blasters :: int where "Wpn_Dual_Photon_Blasters \<equiv> 73"
abbreviation (input) Wpn_Anti_Matter_Missiles :: int where "Wpn_Anti_Matter_Missiles \<equiv> 74"
abbreviation (input) Wpn_Dual_Photon_Blasters_Mojo :: int where "Wpn_Dual_Photon_Blasters_Mojo \<equiv> 75"
abbreviation (input) Wpn_Anti_Matter_Missiles_Mojo :: int where "Wpn_Anti_Matter_Missiles_Mojo \<equiv> 76"
abbreviation (input) Wpn_Phase_Disruptor_Cannon :: int where "Wpn_Phase_Disruptor_Cannon \<equiv> 77"
abbreviation (input) Wpn_Phase_Disruptor_Cannon_Danimoth :: int where "Wpn_Phase_Disruptor_Cannon_Danimoth \<equiv> 78"
abbreviation (input) Wpn_Pulse_Cannon :: int where "Wpn_Pulse_Cannon \<equiv> 79"
abbreviation (input) Wpn_STS_Photon_Cannon :: int where "Wpn_STS_Photon_Cannon \<equiv> 80"
abbreviation (input) Wpn_STA_Photon_Cannon :: int where "Wpn_STA_Photon_Cannon \<equiv> 81"
abbreviation (input) Wpn_Scarab :: int where "Wpn_Scarab \<equiv> 82"
abbreviation (input) Wpn_Stasis_Field :: int where "Wpn_Stasis_Field \<equiv> 83"
abbreviation (input) Wpn_Psionic_Storm :: int where "Wpn_Psionic_Storm \<equiv> 84"
abbreviation (input) Wpn_Warp_Blades_Zeratul :: int where "Wpn_Warp_Blades_Zeratul \<equiv> 85"
abbreviation (input) Wpn_Warp_Blades_Hero :: int where "Wpn_Warp_Blades_Hero \<equiv> 86"
abbreviation (input) Wpn_Platform_Laser_Battery :: int where "Wpn_Platform_Laser_Battery \<equiv> 92"
abbreviation (input) Wpn_Independant_Laser_Battery :: int where "Wpn_Independant_Laser_Battery \<equiv> 93"
abbreviation (input) Wpn_Twin_Autocannons_Floor_Trap :: int where "Wpn_Twin_Autocannons_Floor_Trap \<equiv> 96"
abbreviation (input) Wpn_Hellfire_Missile_Pack_Wall_Trap :: int where "Wpn_Hellfire_Missile_Pack_Wall_Trap \<equiv> 97"
abbreviation (input) Wpn_Flame_Thrower_Wall_Trap :: int where "Wpn_Flame_Thrower_Wall_Trap \<equiv> 98"
abbreviation (input) Wpn_Hellfire_Missile_Pack_Floor_Trap :: int where "Wpn_Hellfire_Missile_Pack_Floor_Trap \<equiv> 99"
abbreviation (input) Wpn_Neutron_Flare :: int where "Wpn_Neutron_Flare \<equiv> 100"
abbreviation (input) Wpn_Disruption_Web :: int where "Wpn_Disruption_Web \<equiv> 101"
abbreviation (input) Wpn_Restoration :: int where "Wpn_Restoration \<equiv> 102"
abbreviation (input) Wpn_Halo_Rockets :: int where "Wpn_Halo_Rockets \<equiv> 103"
abbreviation (input) Wpn_Corrosive_Acid :: int where "Wpn_Corrosive_Acid \<equiv> 104"
abbreviation (input) Wpn_Mind_Control :: int where "Wpn_Mind_Control \<equiv> 105"
abbreviation (input) Wpn_Feedback :: int where "Wpn_Feedback \<equiv> 106"
abbreviation (input) Wpn_Optical_Flare :: int where "Wpn_Optical_Flare \<equiv> 107"
abbreviation (input) Wpn_Maelstrom :: int where "Wpn_Maelstrom \<equiv> 108"
abbreviation (input) Wpn_Subterranean_Spines :: int where "Wpn_Subterranean_Spines \<equiv> 109"
abbreviation (input) Wpn_Warp_Blades :: int where "Wpn_Warp_Blades \<equiv> 111"
abbreviation (input) Wpn_C_10_Canister_Rifle_Samir_Duran :: int where "Wpn_C_10_Canister_Rifle_Samir_Duran \<equiv> 112"
abbreviation (input) Wpn_C_10_Canister_Rifle_Infested_Duran :: int where "Wpn_C_10_Canister_Rifle_Infested_Duran \<equiv> 113"
abbreviation (input) Wpn_Dual_Photon_Blasters_Artanis :: int where "Wpn_Dual_Photon_Blasters_Artanis \<equiv> 114"
abbreviation (input) Wpn_Anti_Matter_Missiles_Artanis :: int where "Wpn_Anti_Matter_Missiles_Artanis \<equiv> 115"
abbreviation (input) Wpn_C_10_Canister_Rifle_Alexei_Stukov :: int where "Wpn_C_10_Canister_Rifle_Alexei_Stukov \<equiv> 116"
abbreviation (input) WeaponType_None :: int where "WeaponType_None \<equiv> 130"
abbreviation (input) WeaponType_Unknown :: int where "WeaponType_Unknown \<equiv> 131"

abbreviation (input) Race_Zerg :: int where "Race_Zerg \<equiv> 0"
abbreviation (input) Race_Terran :: int where "Race_Terran \<equiv> 1"
abbreviation (input) Race_Protoss :: int where "Race_Protoss \<equiv> 2"
abbreviation (input) Race_Other :: int where "Race_Other \<equiv> 3"
abbreviation (input) Race_Unused :: int where "Race_Unused \<equiv> 4"
abbreviation (input) Race_Select :: int where "Race_Select \<equiv> 5"
abbreviation (input) Race_Random :: int where "Race_Random \<equiv> 6"
abbreviation (input) Race_None :: int where "Race_None \<equiv> 7"
abbreviation (input) Race_Unknown :: int where "Race_Unknown \<equiv> 8"

section \<open>Tables\<close>

definition unitRaces :: "int list" where
  "unitRaces =
     [
      Race_Terran, Race_Terran, Race_Terran, Race_Terran, Race_Terran, Race_Terran, Race_Terran,
      Race_Terran, Race_Terran, Race_Terran, Race_Terran, Race_Terran, Race_Terran, Race_Terran,
      Race_Terran, Race_Terran, Race_Terran, Race_Terran, Race_Terran, Race_Terran, Race_Terran,
      Race_Terran, Race_Terran, Race_Terran, Race_Terran, Race_Terran, Race_Terran, Race_Terran,
      Race_Terran, Race_Terran, Race_Terran, Race_Terran, Race_Terran, Race_Terran, Race_Terran,
      Race_Zerg, Race_Zerg, Race_Zerg, Race_Zerg, Race_Zerg, Race_Zerg, Race_Zerg, Race_Zerg,
      Race_Zerg, Race_Zerg, Race_Zerg, Race_Zerg, Race_Zerg, Race_Zerg, Race_Zerg, Race_Zerg,
      Race_Zerg, Race_Zerg, Race_Zerg, Race_Zerg, Race_Zerg, Race_Zerg, Race_Zerg, Race_Terran,
      Race_Zerg, Race_Protoss, Race_Protoss, Race_Zerg, Race_Protoss, Race_Protoss, Race_Protoss,
      Race_Protoss, Race_Protoss, Race_Protoss, Race_Protoss, Race_Protoss, Race_Protoss,
      Race_Protoss, Race_Protoss, Race_Protoss, Race_Protoss, Race_Protoss, Race_Protoss,
      Race_Protoss, Race_Protoss, Race_Protoss, Race_Protoss, Race_Protoss, Race_Protoss,
      Race_Protoss, Race_Protoss, Race_Protoss, Race_Protoss, Race_Protoss, Race_None, Race_None,
      Race_Zerg, Race_Zerg, Race_None, Race_None, Race_None, Race_None, Race_Zerg, Race_Protoss,
      Race_Terran, Race_Terran, Race_None, Race_Terran, Race_Zerg, Race_Zerg, Race_None,
      Race_Terran, Race_Terran, Race_Terran, Race_Terran, Race_Terran, Race_Terran, Race_Terran,
      Race_Terran, Race_Terran, Race_Terran, Race_Terran, Race_Terran, Race_Terran, Race_Terran,
      Race_Terran, Race_Terran, Race_Terran, Race_Terran, Race_Terran, Race_Terran, Race_Terran,
      Race_Terran, Race_None, Race_None, Race_Zerg, Race_Zerg, Race_Zerg, Race_Zerg, Race_Zerg,
      Race_Zerg, Race_Zerg, Race_Zerg, Race_Zerg, Race_Zerg, Race_Zerg, Race_Zerg, Race_Zerg,
      Race_Zerg, Race_Zerg, Race_Zerg, Race_Zerg, Race_Zerg, Race_Zerg, Race_Zerg, Race_Zerg,
      Race_Zerg, Race_Zerg, Race_Zerg, Race_Protoss, Race_Protoss, Race_Protoss, Race_Protoss,
      Race_Protoss, Race_Protoss, Race_Protoss, Race_Protoss, Race_Protoss, Race_Protoss,
      Race_Protoss, Race_Protoss, Race_Protoss, Race_Protoss, Race_Protoss, Race_Protoss,
      Race_Protoss, Race_Protoss, Race_Protoss, Race_Protoss, Race_Protoss, Race_Protoss,
      Race_None, Race_None, Race_None, Race_None, Race_None, Race_None, Race_None, Race_None,
      Race_None, Race_None, Race_None, Race_None, Race_None, Race_Protoss, Race_Terran, Race_Zerg,
      Race_Terran, Race_Protoss, Race_Zerg, Race_Terran, Race_Protoss, Race_Zerg, Race_Terran,
      Race_Protoss, Race_Terran, Race_Zerg, Race_None, Race_None, Race_None, Race_None, Race_None,
      Race_None, Race_None, Race_None, Race_None, Race_None, Race_None, Race_None, Race_None,
      Race_None, Race_None, Race_None, Race_None, Race_None, Race_None, Race_None, Race_None,
      Race_None, Race_None, Race_None, Race_None, Race_None, Race_None, Race_None, Race_None,
      Race_None, Race_None, Race_Unknown]"

definition armorUpgrades :: "int list" where
  "armorUpgrades =
     [
      Upg_Terran_Infantry_Armor, Upg_Terran_Infantry_Armor, Upg_Terran_Vehicle_Plating,
      Upg_Terran_Vehicle_Plating, Upg_Terran_Vehicle_Plating, Upg_Terran_Vehicle_Plating,
      Upg_Terran_Vehicle_Plating, Upg_Terran_Infantry_Armor, Upg_Terran_Ship_Plating,
      Upg_Terran_Ship_Plating, Upg_Terran_Infantry_Armor, Upg_Terran_Ship_Plating,
      Upg_Terran_Ship_Plating, Upg_Upgrade_60, Upg_Upgrade_60, Upg_Terran_Infantry_Armor,
      Upg_Terran_Infantry_Armor, Upg_Terran_Vehicle_Plating, Upg_Terran_Vehicle_Plating,
      Upg_Terran_Vehicle_Plating, Upg_Terran_Infantry_Armor, Upg_Terran_Ship_Plating,
      Upg_Terran_Ship_Plating, Upg_Terran_Vehicle_Plating, Upg_Terran_Vehicle_Plating,
      Upg_Terran_Vehicle_Plating, Upg_Terran_Vehicle_Plating, Upg_Terran_Ship_Plating,
      Upg_Terran_Ship_Plating, Upg_Terran_Ship_Plating, Upg_Terran_Vehicle_Plating,
      Upg_Terran_Vehicle_Plating, Upg_Terran_Infantry_Armor, Upg_Upgrade_60,
      Upg_Terran_Infantry_Armor, Upg_Zerg_Carapace, Upg_Zerg_Carapace, Upg_Zerg_Carapace,
      Upg_Zerg_Carapace, Upg_Zerg_Carapace, Upg_Zerg_Carapace, Upg_Zerg_Carapace,
      Upg_Zerg_Flyer_Carapace, Upg_Zerg_Flyer_Carapace, Upg_Zerg_Flyer_Carapace,
      Upg_Zerg_Flyer_Carapace, Upg_Zerg_Carapace, Upg_Zerg_Flyer_Carapace, Upg_Zerg_Carapace,
      Upg_Zerg_Flyer_Carapace, Upg_Zerg_Carapace, Upg_Zerg_Carapace, Upg_Zerg_Carapace,
      Upg_Zerg_Carapace, Upg_Zerg_Carapace, Upg_Zerg_Flyer_Carapace, Upg_Zerg_Flyer_Carapace,
      Upg_Zerg_Flyer_Carapace, Upg_Terran_Ship_Plating, Upg_Zerg_Carapace, Upg_Protoss_Air_Armor,
      Upg_Protoss_Ground_Armor, Upg_Zerg_Flyer_Carapace, Upg_Protoss_Ground_Armor,
      Upg_Protoss_Ground_Armor, Upg_Protoss_Ground_Armor, Upg_Protoss_Ground_Armor,
      Upg_Protoss_Ground_Armor, Upg_Protoss_Ground_Armor, Upg_Protoss_Air_Armor,
      Upg_Protoss_Air_Armor, Upg_Protoss_Air_Armor, Upg_Protoss_Air_Armor, Upg_Protoss_Air_Armor,
      Upg_Protoss_Ground_Armor, Upg_Protoss_Ground_Armor, Upg_Protoss_Ground_Armor,
      Upg_Protoss_Ground_Armor, Upg_Protoss_Ground_Armor, Upg_Protoss_Ground_Armor,
      Upg_Protoss_Air_Armor, Upg_Protoss_Ground_Armor, Upg_Protoss_Air_Armor,
      Upg_Protoss_Ground_Armor, Upg_Protoss_Air_Armor, Upg_Protoss_Ground_Armor,
      Upg_Protoss_Air_Armor, Upg_Protoss_Ground_Armor, Upg_Protoss_Air_Armor, Upg_Upgrade_60,
      Upg_Upgrade_60, Upg_Upgrade_60, Upg_Upgrade_60, Upg_Upgrade_60, Upg_Upgrade_60,
      Upg_Upgrade_60, Upg_Upgrade_60, Upg_Zerg_Carapace, Upg_Protoss_Air_Armor,
      Upg_Terran_Infantry_Armor, Upg_Terran_Infantry_Armor, Upg_Upgrade_60,
      Upg_Terran_Ship_Plating, Upg_Zerg_Carapace, Upg_Zerg_Carapace, Upg_Upgrade_60,
      Upg_Upgrade_60, Upg_Upgrade_60, Upg_Upgrade_60, Upg_Upgrade_60, Upg_Upgrade_60,
      Upg_Upgrade_60, Upg_Upgrade_60, Upg_Upgrade_60, Upg_Upgrade_60, Upg_Upgrade_60,
      Upg_Upgrade_60, Upg_Upgrade_60, Upg_Upgrade_60, Upg_Upgrade_60, Upg_Upgrade_60,
      Upg_Upgrade_60, Upg_Upgrade_60, Upg_Upgrade_60, Upg_Upgrade_60, Upg_Upgrade_60,
      Upg_Upgrade_60, Upg_Upgrade_60, Upg_Upgrade_60, Upg_Upgrade_60, Upg_Upgrade_60,
      Upg_Upgrade_60, Upg_Upgrade_60, Upg_Upgrade_60, Upg_Upgrade_60, Upg_Upgrade_60,
      Upg_Upgrade_60, Upg_Upgrade_60, Upg_Upgrade_60, Upg_Upgrade_60, Upg_Upgrade_60,
      Upg_Upgrade_60, Upg_Upgrade_60, Upg_Upgrade_60, Upg_Upgrade_60, Upg_Upgrade_60,
      Upg_Upgrade_60, Upg_Upgrade_60, Upg_Upgrade_60, Upg_Upgrade_60, Upg_Upgrade_60,
      Upg_Upgrade_60, Upg_Upgrade_60, Upg_Upgrade_60, Upg_Upgrade_60, Upg_Upgrade_60,
      Upg_Upgrade_60, Upg_Upgrade_60, Upg_Upgrade_60, Upg_Upgrade_60, Upg_Upgrade_60,
      Upg_Upgrade_60, Upg_Upgrade_60, Upg_Upgrade_60, Upg_Upgrade_60, Upg_Upgrade_60,
      Upg_Upgrade_60, Upg_Upgrade_60, Upg_Upgrade_60, Upg_Upgrade_60, Upg_Upgrade_60,
      Upg_Upgrade_60, Upg_Upgrade_60, Upg_Upgrade_60, Upg_Upgrade_60, Upg_Upgrade_60,
      Upg_Upgrade_60, Upg_Upgrade_60, Upg_Upgrade_60, Upg_Upgrade_60, Upg_Upgrade_60,
      Upg_Upgrade_60, Upg_Upgrade_60, Upg_Upgrade_60, Upg_Upgrade_60, Upg_Upgrade_60,
      Upg_Upgrade_60, Upg_Upgrade_60, Upg_Upgrade_60, Upg_Upgrade_60, Upg_Upgrade_60,
      Upg_Upgrade_60, Upg_Upgrade_60, Upg_Upgrade_60, Upg_Upgrade_60, Upg_Upgrade_60,
      Upg_Upgrade_60, Upg_Upgrade_60, Upg_Upgrade_60, Upg_Upgrade_60, Upg_Upgrade_60,
      Upg_Upgrade_60, Upg_Upgrade_60, Upg_Upgrade_60, Upg_Upgrade_60, Upg_Upgrade_60,
      Upg_Upgrade_60, Upg_Upgrade_60, Upg_Upgrade_60, Upg_Upgrade_60, Upg_Upgrade_60,
      Upg_Upgrade_60, Upg_Upgrade_60, Upg_Upgrade_60, Upg_Upgrade_60, Upg_Upgrade_60,
      Upg_Upgrade_60, Upg_Upgrade_60, Upg_Upgrade_60, Upg_Upgrade_60, Upg_Upgrade_60,
      Upg_Upgrade_60, Upg_Upgrade_60, Upg_Upgrade_60, Upg_Upgrade_60, Upg_Upgrade_60,
      Upg_Upgrade_60, Upg_Upgrade_60, UpgradeType_None, UpgradeType_None, UpgradeType_None,
      UpgradeType_None, UpgradeType_None, UpgradeType_Unknown]"

definition defaultMaxHP :: "int list" where
  "defaultMaxHP =
     [
      40, 45, 80, 125, 0, 150, 0, 60, 120, 200, 160, 150, 500, 20, 100, 40, 250, 300, 0, 300, 200,
      500, 800, 400, 0, 400, 0, 1000, 850, 700, 150, 0, 50, 0, 60, 25, 200, 35, 80, 400, 30, 40,
      200, 120, 150, 120, 80, 25, 800, 300, 60, 400, 250, 160, 120, 300, 400, 1000, 200, 200, 100,
      80, 250, 25, 20, 100, 100, 40, 10, 80, 150, 200, 300, 40, 40, 60, 100, 240, 240, 80, 400,
      200, 800, 100, 40, 20, 600, 80, 250, 60, 60, 125, 125, 60, 60, 60, 60, 200, 100, 200, 250,
      1, 700, 125, 300, 800, 1500, 500, 600, 500, 750, 1000, 600, 1250, 1300, 500, 850, 750, 600,
      0, 750, 0, 850, 750, 200, 350, 700, 2000, 10000, 10000, 1500, 1250, 1800, 2500, 250, 850,
      850, 1000, 850, 750, 600, 600, 750, 400, 400, 0, 300, 5000, 2500, 750, 250, 1500, 1500, 0,
      750, 500, 300, 450, 300, 250, 500, 0, 100, 450, 500, 500, 550, 600, 2000, 500, 500, 450,
      200, 100000, 1500, 5000, 100000, 100000, 100000, 800, 800, 800, 800, 800, 800, 800, 800,
      800, 100000, 700, 2000, 100000, 100000, 100000, 100000, 100000, 100000, 100000, 100000,
      100000, 800, 2500, 800, 50, 100000, 100000, 100000, 100000, 100000, 50, 50, 50, 50, 50, 800,
      100000, 800, 800, 800, 800, 800, 800, 800, 800, 800, 800, 800, 800, 0, 0, 0, 0, 0, 0]"

definition defaultMaxSP :: "int list" where
  "defaultMaxSP =
     [
      0, 0, 0, 0, 0, 0, 0, 0, 0, 0, 0, 0, 0, 0, 0, 0, 0, 0, 0, 0, 0, 0, 0, 0, 0, 0, 0, 0, 0, 0, 0,
      0, 0, 0, 0, 0, 0, 0, 0, 0, 0, 0, 0, 0, 0, 0, 0, 0, 0, 0, 0, 0, 0, 0, 0, 0, 0, 0, 0, 0, 80,
      40, 0, 200, 20, 60, 80, 40, 350, 60, 100, 150, 150, 40, 80, 400, 800, 240, 240, 300, 400,
      400, 500, 80, 20, 10, 500, 300, 250, 0, 0, 0, 0, 0, 0, 0, 0, 0, 60, 0, 0, 0, 0, 0, 0, 0, 0,
      0, 0, 0, 0, 0, 0, 0, 0, 0, 0, 0, 0, 0, 0, 0, 0, 0, 0, 0, 0, 0, 0, 0, 0, 0, 0, 0, 0, 0, 0, 0,
      0, 0, 0, 0, 0, 0, 0, 0, 0, 0, 0, 0, 0, 0, 0, 0, 750, 500, 300, 450, 300, 250, 500, 1, 100,
      450, 500, 500, 550, 600, 0, 500, 500, 450, 200, 0, 0, 0, 0, 0, 0, 0, 0, 0, 0, 0, 0, 0, 0, 0,
      0, 0, 0, 0, 0, 0, 0, 0, 0, 0, 0, 0, 0, 0, 0, 0, 0, 0, 0, 0, 0, 0, 0, 0, 0, 0, 0, 0, 0, 0, 0,
      0, 0, 0, 0, 0, 0, 0, 0, 0, 0, 0, 0, 0, 0, 0]"

definition defaultArmorAmount :: "int list" where
  "defaultArmorAmount =
     [
      0, 0, 0, 1, 0, 1, 0, 0, 0, 1, 3, 1, 3, 0, 0, 0, 3, 3, 0, 3, 3, 4, 4, 3, 0, 3, 0, 4, 4, 4, 1,
      0, 1, 0, 1, 10, 10, 0, 0, 1, 0, 0, 0, 0, 2, 0, 1, 0, 4, 3, 0, 2, 3, 2, 3, 3, 4, 4, 2, 0, 1,
      1, 2, 1, 0, 1, 1, 0, 0, 1, 0, 1, 4, 0, 0, 0, 3, 2, 3, 2, 3, 3, 4, 0, 0, 0, 3, 2, 3, 0, 0, 1,
      1, 0, 0, 0, 0, 10, 0, 2, 3, 0, 4, 1, 3, 0, 1, 1, 1, 1, 1, 1, 1, 1, 1, 1, 1, 1, 1, 1, 1, 1,
      1, 1, 0, 1, 1, 1, 0, 0, 1, 1, 1, 1, 1, 1, 1, 1, 1, 1, 1, 1, 1, 0, 0, 1, 2, 1, 1, 1, 1, 1, 1,
      1, 1, 1, 0, 1, 1, 1, 1, 1, 0, 1, 1, 1, 1, 1, 1, 1, 1, 1, 1, 1, 1, 1, 0, 0, 0, 0, 0, 0, 0, 0,
      0, 0, 0, 0, 0, 1, 1, 0, 0, 0, 0, 0, 0, 0, 0, 0, 1, 1, 0, 0, 0, 0, 0, 0, 0, 0, 0, 0, 0, 0, 0,
      0, 0, 0, 0, 0, 0, 0, 0, 0, 0, 0, 0, 0, 0, 0, 0, 0, 0, 0]"

definition defaultOreCost :: "int list" where
  "defaultOreCost =
     [
      50, 25, 75, 100, 1, 150, 1, 50, 150, 100, 100, 100, 400, 1, 200, 0, 50, 200, 1, 150, 50,
      400, 50, 300, 1, 300, 1, 800, 800, 800, 150, 1, 50, 0, 50, 1, 1, 50, 75, 200, 1, 50, 100,
      100, 50, 100, 50, 25, 400, 200, 100, 200, 50, 150, 100, 200, 100, 200, 250, 1, 150, 125,
      150, 0, 50, 100, 125, 50, 0, 200, 275, 100, 350, 25, 150, 100, 0, 200, 300, 100, 600, 400,
      700, 200, 25, 15, 50, 100, 600, 1, 1, 100, 100, 1, 1, 1, 1, 1, 150, 200, 200, 0, 800, 50,
      200, 250, 400, 50, 100, 100, 100, 150, 150, 200, 150, 50, 100, 50, 50, 1, 50, 1, 125, 100,
      75, 100, 800, 200, 1, 1, 1, 300, 150, 200, 150, 100, 100, 100, 150, 75, 150, 200, 200, 75,
      50, 1, 50, 1, 1, 50, 0, 0, 0, 1, 400, 200, 100, 100, 1, 50, 150, 1, 150, 150, 200, 150, 150,
      150, 150, 300, 200, 150, 100, 250, 250, 1500, 1, 1, 1, 1, 1, 1, 1, 1, 1, 1, 1, 1, 1, 600,
      1000, 250, 50, 100, 250, 50, 100, 250, 50, 100, 200, 1000, 250, 1, 1, 1, 1, 1, 1, 1, 1, 1,
      1, 1, 0, 1, 1, 1, 1, 1, 1, 1, 1, 1, 1, 1, 1, 1, 0, 0, 0, 0, 0, 0]"

definition defaultGasCost :: "int list" where
  "defaultGasCost =
     [
      0, 75, 0, 50, 1, 100, 1, 0, 100, 225, 50, 100, 300, 0, 200, 0, 150, 100, 1, 0, 0, 200, 600,
      200, 1, 200, 1, 600, 600, 600, 100, 1, 25, 0, 25, 1, 1, 0, 25, 200, 1, 0, 0, 100, 100, 100,
      150, 75, 400, 300, 50, 300, 200, 50, 0, 200, 200, 0, 125, 1, 100, 100, 50, 0, 0, 0, 50, 150,
      0, 0, 125, 350, 250, 0, 150, 300, 0, 0, 100, 300, 300, 200, 600, 100, 75, 0, 1000, 300, 300,
      1, 1, 100, 100, 1, 1, 1, 1, 1, 100, 75, 75, 0, 600, 100, 75, 250, 0, 50, 100, 0, 0, 0, 0,
      100, 100, 50, 150, 50, 50, 1, 50, 1, 0, 50, 0, 0, 600, 0, 1, 1, 1, 0, 100, 150, 0, 50, 100,
      150, 100, 0, 200, 150, 0, 0, 0, 1, 0, 1, 1, 0, 0, 0, 0, 1, 0, 200, 0, 0, 1, 100, 0, 1, 0,
      100, 0, 200, 0, 150, 0, 200, 150, 100, 0, 0, 0, 500, 1, 1, 1, 1, 1, 1, 1, 1, 1, 1, 1, 1, 1,
      200, 400, 0, 50, 100, 0, 50, 100, 0, 50, 100, 50, 500, 200, 1, 1, 1, 1, 1, 1, 1, 1, 1, 1, 1,
      0, 1, 1, 1, 1, 1, 1, 1, 1, 1, 1, 1, 1, 1, 0, 0, 0, 0, 0, 0]"

definition defaultTimeCost :: "int list" where
  "defaultTimeCost =
     [
      360, 750, 450, 600, 1, 750, 1, 300, 900, 1200, 720, 750, 2000, 1, 1500, 1, 1500, 1200, 1,
      900, 1, 1800, 2400, 1500, 1, 1500, 1, 4800, 2400, 4800, 750, 1, 360, 1, 450, 1, 1, 420, 420,
      900, 1, 300, 600, 600, 600, 750, 750, 450, 1800, 1500, 600, 1500, 1500, 780, 840, 1200,
      1200, 1200, 750, 1, 600, 750, 600, 300, 300, 600, 750, 750, 300, 900, 1200, 2400, 2100, 300,
      750, 1500, 600, 1200, 1500, 1500, 2400, 1800, 4200, 1050, 600, 105, 4800, 1500, 2400, 1, 1,
      600, 600, 1, 1, 1, 1, 1, 750, 1500, 1500, 1, 4800, 600, 1500, 2400, 1800, 600, 1200, 600,
      600, 1200, 1200, 1200, 1050, 600, 900, 600, 600, 1, 600, 1, 900, 1200, 450, 450, 4800, 900,
      1, 1, 1800, 1800, 1500, 1800, 600, 600, 900, 1800, 900, 600, 1200, 1800, 1200, 300, 300, 1,
      300, 1, 1, 600, 0, 0, 0, 1, 1800, 1200, 450, 600, 1, 450, 900, 1, 750, 900, 900, 900, 600,
      1050, 1, 900, 900, 450, 450, 1, 1, 4800, 1, 1, 1, 1, 1, 1, 1, 1, 1, 1, 1, 1, 1, 2400, 4800,
      1, 1, 1, 1, 1, 1, 1, 1, 1, 2400, 2400, 2400, 1, 1, 1, 1, 1, 1, 1, 1, 1, 1, 1, 0, 1, 1, 1, 1,
      1, 1, 1, 1, 1, 1, 1, 1, 1, 0, 0, 0, 0, 0, 0]"

definition unitSupplyProvided :: "int list" where
  "unitSupplyProvided =
     [
      0, 0, 0, 0, 0, 0, 0, 0, 0, 0, 0, 0, 0, 0, 0, 0, 0, 0, 0, 0, 0, 0, 0, 0, 0, 0, 0, 0, 0, 0, 0,
      0, 0, 0, 0, 0, 0, 0, 0, 0, 0, 0, 16, 0, 0, 0, 0, 0, 0, 0, 0, 0, 0, 0, 0, 0, 0, 60, 0, 0, 0,
      0, 0, 0, 0, 0, 0, 0, 0, 0, 0, 0, 0, 0, 0, 0, 0, 0, 0, 0, 0, 0, 0, 0, 0, 0, 0, 0, 0, 0, 0, 0,
      0, 0, 0, 0, 0, 0, 0, 0, 0, 0, 0, 0, 0, 0, 20, 0, 0, 16, 0, 0, 0, 0, 0, 0, 0, 0, 0, 0, 0, 0,
      0, 0, 0, 0, 0, 0, 0, 0, 0, 2, 2, 2, 0, 0, 0, 0, 0, 0, 0, 0, 0, 0, 0, 0, 0, 0, 0, 0, 0, 0, 0,
      0, 18, 0, 16, 0, 0, 0, 0, 0, 0, 0, 0, 0, 0, 0, 0, 0, 0, 0, 0, 0, 0, 0, 0, 0, 0, 0, 0, 0, 0,
      0, 0, 0, 0, 0, 0, 0, 0, 0, 0, 0, 0, 0, 0, 0, 0, 0, 0, 0, 0, 0, 0, 0, 0, 0, 0, 0, 0, 0, 0, 0,
      0, 0, 0, 0, 0, 0, 0, 0, 0, 0, 0, 0, 0, 0, 0, 0, 0, 0, 0, 0]"

definition unitSupplyRequired :: "int list" where
  "unitSupplyRequired =
     [
      2, 2, 4, 4, 0, 4, 0, 2, 4, 4, 0, 4, 12, 0, 16, 0, 0, 0, 0, 0, 0, 0, 0, 0, 0, 0, 0, 0, 0, 0,
      4, 0, 2, 0, 2, 0, 0, 1, 2, 8, 0, 2, 0, 4, 4, 4, 4, 1, 0, 0, 2, 0, 0, 0, 0, 0, 0, 0, 6, 0, 4,
      4, 4, 8, 2, 4, 4, 4, 8, 4, 6, 8, 12, 0, 2, 0, 0, 0, 0, 0, 0, 0, 0, 8, 2, 0, 0, 0, 0, 0, 0,
      0, 0, 0, 0, 0, 0, 0, 0, 0, 0, 0, 0, 4, 0, 0, 0, 0, 0, 0, 0, 0, 0, 0, 0, 0, 0, 0, 0, 0, 0, 0,
      0, 0, 0, 0, 0, 0, 0, 0, 0, 0, 0, 0, 0, 0, 0, 0, 0, 0, 0, 0, 0, 0, 0, 0, 0, 0, 0, 0, 0, 0, 0,
      0, 0, 0, 0, 0, 0, 0, 0, 0, 0, 0, 0, 0, 0, 0, 0, 0, 0, 0, 0, 0, 0, 0, 0, 0, 0, 0, 0, 0, 0, 0,
      0, 0, 0, 0, 0, 0, 0, 0, 0, 0, 0, 0, 0, 0, 0, 0, 0, 0, 0, 0, 0, 0, 0, 0, 0, 0, 0, 0, 0, 0, 0,
      0, 0, 0, 0, 0, 0, 0, 0, 0, 0, 0, 0, 0, 0, 0, 0, 0, 0, 0]"

definition unitSpaceRequired :: "int list" where
  "unitSpaceRequired =
     [
      1, 1, 2, 2, 255, 4, 255, 1, 255, 255, 1, 255, 255, 255, 255, 1, 1, 2, 255, 2, 1, 255, 255,
      4, 255, 255, 255, 255, 255, 255, 255, 255, 1, 255, 1, 255, 255, 1, 2, 4, 1, 1, 255, 255,
      255, 255, 2, 255, 4, 255, 1, 1, 2, 2, 1, 255, 255, 255, 255, 255, 255, 2, 255, 4, 1, 2, 4,
      2, 4, 255, 255, 255, 255, 255, 2, 2, 4, 2, 4, 2, 255, 4, 255, 4, 255, 255, 255, 2, 255, 255,
      255, 255, 255, 255, 255, 255, 255, 255, 255, 1, 1, 255, 255, 4, 1, 255, 255, 255, 255, 255,
      255, 255, 255, 255, 255, 255, 255, 255, 255, 255, 255, 255, 255, 255, 255, 255, 255, 255,
      255, 255, 255, 255, 255, 255, 255, 255, 255, 255, 255, 255, 255, 255, 255, 255, 255, 255,
      255, 255, 255, 255, 255, 255, 255, 255, 255, 255, 255, 255, 255, 255, 255, 255, 255, 255,
      255, 255, 255, 255, 255, 255, 255, 255, 255, 255, 255, 255, 255, 255, 255, 255, 255, 255,
      255, 255, 255, 255, 255, 255, 255, 255, 255, 255, 255, 255, 255, 255, 255, 255, 255, 255,
      255, 255, 255, 255, 255, 255, 255, 255, 255, 255, 255, 255, 255, 255, 255, 255, 255, 255,
      255, 255, 255, 255, 255, 255, 255, 255, 255, 255, 0, 0, 0, 0, 0, 0]"

definition unitSpaceProvided :: "int list" where
  "unitSpaceProvided =
     [
      0, 0, 0, 0, 0, 0, 0, 0, 0, 0, 0, 8, 0, 0, 0, 0, 0, 0, 0, 0, 0, 0, 0, 0, 0, 0, 0, 0, 0, 0, 0,
      0, 0, 0, 0, 0, 0, 0, 0, 0, 0, 0, 8, 0, 0, 0, 0, 0, 0, 0, 0, 0, 0, 0, 0, 0, 0, 8, 0, 0, 0, 0,
      0, 0, 0, 0, 0, 0, 0, 8, 0, 0, 0, 0, 0, 0, 0, 0, 0, 0, 0, 0, 0, 0, 0, 0, 0, 0, 0, 0, 0, 0, 0,
      0, 0, 0, 0, 0, 0, 0, 0, 0, 0, 0, 0, 0, 0, 0, 0, 0, 0, 0, 0, 0, 0, 0, 0, 0, 0, 0, 0, 0, 0, 0,
      0, 4, 0, 0, 0, 0, 0, 0, 0, 0, 0, 0, 0, 0, 0, 0, 0, 0, 0, 0, 0, 0, 0, 0, 0, 0, 0, 0, 0, 0, 0,
      0, 0, 0, 0, 0, 0, 0, 0, 0, 0, 0, 0, 0, 0, 0, 0, 0, 0, 0, 0, 0, 0, 0, 0, 0, 0, 0, 0, 0, 0, 0,
      0, 0, 0, 0, 0, 0, 0, 0, 0, 0, 0, 0, 0, 0, 0, 0, 0, 0, 0, 0, 0, 0, 0, 0, 0, 0, 0, 0, 0, 0, 0,
      0, 0, 0, 0, 0, 0, 0, 0, 0, 0, 0, 0, 0, 0, 0, 0, 0]"

definition unitBuildScore :: "int list" where
  "unitBuildScore =
     [
      50, 175, 75, 200, 0, 350, 0, 50, 400, 625, 0, 300, 1200, 0, 800, 0, 0, 0, 0, 0, 0, 0, 0, 0,
      0, 0, 0, 0, 0, 0, 0, 0, 100, 0, 125, 0, 0, 25, 125, 650, 0, 50, 100, 300, 550, 400, 225,
      100, 0, 0, 200, 0, 0, 0, 0, 0, 0, 0, 400, 0, 350, 325, 550, 650, 50, 100, 250, 350, 700,
      200, 650, 1025, 950, 30, 0, 0, 0, 0, 0, 0, 0, 0, 0, 400, 225, 0, 0, 0, 0, 0, 0, 0, 0, 0, 0,
      0, 0, 0, 0, 0, 0, 0, 0, 250, 0, 0, 400, 75, 75, 50, 50, 75, 100, 200, 200, 100, 275, 75, 75,
      0, 75, 0, 65, 100, 50, 50, 0, 0, 0, 0, 300, 300, 100, 100, 75, 100, 150, 200, 175, 40, 275,
      250, 75, 40, 25, 10, 40, 0, 0, 25, 0, 0, 0, 10, 400, 300, 50, 50, 10, 175, 75, 0, 100, 200,
      100, 250, 100, 300, 0, 350, 450, 125, 50, 0, 0, 0, 10, 10, 10, 10, 10, 10, 10, 10, 10, 10,
      10, 10, 10, 0, 0, 0, 0, 0, 0, 0, 0, 0, 0, 0, 0, 0, 0, 0, 0, 0, 0, 0, 0, 0, 0, 0, 0, 0, 0, 0,
      0, 0, 0, 0, 0, 0, 0, 0, 0, 0, 0, 0, 0, 0, 0, 0, 0, 0]"

definition unitDestroyScore :: "int list" where
  "unitDestroyScore =
     [
      100, 350, 150, 400, 0, 700, 0, 100, 800, 1250, 400, 600, 2400, 25, 0, 10, 700, 800, 0, 300,
      200, 1600, 2500, 1400, 0, 1400, 0, 4800, 4800, 4800, 700, 0, 200, 0, 250, 10, 25, 50, 350,
      1300, 25, 100, 200, 600, 1100, 800, 450, 200, 2600, 1600, 400, 4000, 900, 500, 100, 1200,
      2200, 400, 800, 1100, 700, 650, 1100, 1300, 100, 200, 500, 700, 1400, 400, 1300, 2050, 1900,
      60, 400, 800, 2800, 400, 1000, 1400, 2600, 1600, 3800, 800, 450, 0, 4100, 1400, 2400, 10,
      10, 0, 0, 10, 10, 10, 10, 500, 1300, 700, 700, 0, 4800, 500, 700, 0, 1200, 225, 225, 150,
      150, 225, 300, 600, 600, 300, 825, 225, 225, 0, 225, 0, 195, 300, 150, 150, 5000, 5000, 0,
      0, 900, 900, 1200, 1500, 225, 300, 450, 1350, 525, 120, 825, 750, 225, 120, 195, 10, 240,
      10000, 10000, 75, 5000, 2500, 2500, 10, 1200, 900, 150, 150, 10, 525, 225, 0, 300, 600, 300,
      750, 300, 900, 5000, 1050, 1350, 375, 150, 2500, 5000, 5000, 10, 10, 10, 10, 10, 10, 10, 10,
      10, 10, 10, 10, 10, 2000, 3600, 0, 0, 0, 0, 0, 0, 0, 0, 0, 600, 4000, 0, 100, 10, 10, 10,
      10, 10, 100, 100, 100, 100, 100, 0, 0, 0, 0, 0, 0, 0, 0, 0, 0, 0, 0, 0, 0, 0, 0, 0, 0]"

definition seekRangeTiles :: "int list" where
  "seekRangeTiles =
     [
      0, 0, 0, 5, 0, 8, 8, 1, 0, 0, 3, 0, 0, 3, 0, 0, 0, 5, 0, 0, 0, 0, 0, 8, 0, 0, 12, 0, 0, 0,
      0, 12, 3, 0, 9, 0, 0, 3, 0, 3, 3, 0, 0, 3, 0, 8, 0, 3, 3, 8, 3, 3, 0, 0, 3, 3, 0, 0, 0, 0,
      9, 3, 7, 7, 0, 3, 0, 3, 3, 0, 0, 0, 8, 0, 3, 3, 3, 3, 0, 3, 0, 8, 8, 8, 0, 3, 0, 3, 0, 0, 0,
      8, 4, 0, 0, 0, 0, 0, 9, 0, 0, 0, 0, 6, 0, 0, 0, 0, 0, 0, 0, 0, 0, 0, 0, 0, 0, 0, 0, 0, 0, 0,
      0, 0, 0, 0, 0, 0, 0, 0, 0, 0, 0, 0, 0, 0, 0, 0, 0, 0, 0, 0, 0, 0, 0, 0, 0, 0, 0, 0, 0, 0, 0,
      0, 0, 0, 0, 0, 0, 0, 0, 0, 0, 0, 0, 0, 0, 0, 0, 0, 0, 0, 0, 0, 0, 0, 0, 0, 0, 0, 0, 0, 0, 0,
      0, 0, 0, 0, 0, 0, 0, 0, 0, 0, 0, 0, 0, 0, 0, 0, 0, 0, 0, 5, 0, 0, 0, 0, 0, 5, 5, 2, 5, 2, 0,
      0, 0, 0, 0, 0, 0, 0, 0, 0, 0, 0, 0, 0, 0, 0, 0, 0, 0, 0]"

definition sightRangeTiles :: "int list" where
  "sightRangeTiles =
     [
      7, 9, 8, 8, 8, 10, 10, 7, 7, 10, 7, 8, 11, 3, 3, 7, 11, 8, 8, 8, 7, 7, 10, 10, 10, 10, 10,
      8, 11, 11, 10, 10, 7, 10, 9, 4, 4, 5, 6, 7, 5, 7, 9, 7, 11, 10, 10, 5, 7, 10, 5, 9, 10, 8,
      5, 7, 11, 11, 8, 4, 9, 7, 10, 10, 8, 7, 8, 7, 8, 8, 8, 9, 11, 6, 7, 7, 8, 7, 8, 7, 10, 10,
      9, 10, 9, 5, 9, 7, 10, 7, 7, 8, 7, 7, 7, 7, 7, 4, 9, 10, 11, 10, 11, 8, 11, 8, 10, 10, 8, 8,
      8, 8, 8, 8, 10, 8, 10, 8, 8, 8, 8, 8, 8, 8, 11, 10, 10, 8, 5, 5, 10, 9, 10, 11, 8, 8, 8, 8,
      8, 8, 8, 8, 8, 10, 10, 7, 10, 8, 8, 7, 8, 8, 8, 7, 11, 10, 8, 10, 7, 10, 10, 10, 11, 10, 10,
      10, 10, 10, 8, 10, 10, 10, 10, 10, 10, 10, 9, 9, 9, 9, 9, 9, 9, 9, 9, 9, 9, 9, 9, 8, 10, 8,
      8, 8, 8, 8, 8, 8, 8, 8, 8, 10, 8, 6, 7, 1, 1, 1, 1, 6, 6, 3, 6, 3, 1, 5, 5, 5, 5, 5, 5, 5,
      5, 5, 5, 5, 5, 5, 0, 0, 0, 0, 0, 0]"

definition groundWeaponHits :: "int list" where
  "groundWeaponHits =
     [
      1, 1, 1, 1, 1, 1, 1, 1, 1, 0, 3, 0, 1, 1, 0, 0, 1, 1, 1, 1, 1, 1, 0, 1, 1, 1, 1, 1, 1, 1, 1,
      1, 3, 0, 0, 0, 0, 1, 1, 1, 1, 1, 0, 1, 1, 0, 0, 0, 1, 0, 1, 1, 0, 1, 1, 1, 1, 0, 0, 0, 0, 1,
      0, 0, 1, 2, 1, 0, 1, 0, 1, 1, 0, 1, 1, 1, 1, 2, 1, 1, 1, 0, 0, 0, 0, 1, 1, 1, 1, 0, 0, 0, 0,
      0, 0, 0, 0, 0, 0, 1, 1, 0, 1, 1, 1, 0, 0, 0, 0, 0, 0, 0, 0, 0, 0, 0, 0, 0, 0, 0, 0, 0, 0, 0,
      0, 0, 0, 0, 0, 0, 0, 0, 0, 0, 0, 0, 0, 0, 0, 0, 0, 0, 0, 0, 0, 0, 1, 0, 0, 0, 0, 0, 0, 0, 0,
      0, 0, 0, 0, 0, 0, 0, 1, 0, 0, 0, 0, 0, 0, 0, 0, 0, 0, 0, 0, 0, 0, 0, 0, 0, 0, 0, 1, 0, 1, 0,
      0, 0, 0, 0, 0, 0, 0, 0, 0, 0, 0, 0, 0, 0, 0, 0, 0, 1, 0, 0, 0, 0, 0, 1, 1, 1, 1, 1, 0, 0, 0,
      0, 0, 0, 0, 0, 0, 0, 0, 0, 0, 0, 0, 0, 0, 0, 0, 0]"

definition airWeaponHits :: "int list" where
  "airWeaponHits =
     [
      1, 1, 0, 1, 1, 0, 0, 0, 1, 0, 0, 0, 1, 0, 0, 0, 1, 1, 1, 0, 1, 1, 0, 0, 0, 0, 0, 1, 1, 1, 0,
      0, 0, 0, 0, 0, 0, 0, 1, 0, 0, 0, 0, 1, 0, 0, 0, 1, 0, 0, 0, 0, 0, 1, 0, 1, 0, 0, 4, 0, 1, 0,
      1, 0, 0, 0, 1, 0, 1, 0, 1, 1, 0, 1, 0, 0, 1, 0, 1, 0, 1, 0, 0, 0, 0, 0, 1, 0, 1, 0, 0, 0, 0,
      0, 0, 0, 0, 0, 1, 1, 1, 0, 1, 0, 1, 0, 0, 0, 0, 0, 0, 0, 0, 0, 0, 0, 0, 0, 0, 0, 0, 0, 0, 0,
      1, 0, 0, 0, 0, 0, 0, 0, 0, 0, 0, 0, 0, 0, 0, 0, 0, 0, 0, 0, 1, 0, 0, 0, 0, 0, 0, 0, 0, 0, 0,
      0, 0, 0, 0, 0, 0, 0, 1, 0, 0, 0, 0, 0, 0, 0, 0, 0, 0, 0, 0, 0, 0, 0, 0, 0, 0, 0, 0, 0, 0, 0,
      0, 0, 0, 0, 0, 0, 0, 0, 0, 0, 0, 0, 0, 0, 0, 0, 0, 0, 0, 0, 0, 0, 0, 0, 0, 0, 0, 0, 0, 0, 0,
      0, 0, 0, 0, 0, 0, 0, 0, 0, 0, 0, 0, 0, 0, 0, 0, 0]"

definition unitAcceleration :: "int list" where
  "unitAcceleration =
     [
      1, 1, 100, 1, 0, 1, 0, 67, 67, 50, 1, 17, 27, 1, 33, 1, 1, 1, 0, 100, 1, 67, 50, 1, 0, 1, 0,
      27, 27, 27, 1, 0, 1, 0, 1, 1, 0, 1, 1, 1, 1, 67, 27, 67, 27, 67, 1, 107, 1, 67, 1, 1, 1, 1,
      1, 67, 27, 27, 65, 0, 67, 27, 48, 160, 67, 1, 1, 27, 160, 17, 48, 33, 27, 427, 27, 27, 160,
      1, 1, 27, 48, 1, 27, 1, 27, 1, 33, 27, 48, 1, 1, 0, 0, 1, 16, 1, 1, 0, 67, 1, 1, 0, 27, 1,
      1, 0, 33, 0, 0, 0, 33, 33, 0, 33, 33, 0, 33, 0, 0, 0, 0, 0, 33, 0, 0, 33, 0, 0, 0, 0, 33, 0,
      0, 0, 0, 0, 0, 0, 0, 0, 0, 0, 0, 0, 0, 0, 0, 0, 0, 0, 0, 0, 0, 0, 0, 0, 0, 0, 0, 0, 0, 0, 0,
      0, 0, 0, 0, 0, 0, 0, 0, 0, 0, 0, 0, 0, 0, 0, 0, 0, 0, 0, 0, 0, 0, 0, 0, 0, 0, 0, 0, 0, 0, 0,
      0, 0, 0, 0, 0, 0, 0, 0, 0, 0, 0, 0, 0, 0, 0, 0, 0, 0, 0, 0, 0, 0, 0, 0, 0, 0, 0, 0, 0, 0, 0,
      0, 0, 0, 0, 0, 0, 0, 0, 0]"

definition unitHaltDistance :: "int list" where
  "unitHaltDistance =
     [
      1, 1, 14569, 1, 0, 1, 0, 12227, 21745, 5120, 1, 37756, 7585, 1, 1103213, 1, 1, 1, 0, 14569,
      1, 21745, 5120, 1, 0, 1, 0, 7585, 7585, 7585, 1, 0, 1, 0, 1, 1, 0, 1, 1, 1, 1, 12227, 840,
      21745, 7585, 21745, 1, 13616, 1, 21745, 1, 1, 1, 1, 1, 21745, 7585, 840, 21901, 0, 17067,
      13474, 17067, 5120, 12227, 1, 1, 13474, 5120, 37756, 17067, 24824, 13474, 13640, 13474,
      13474, 5120, 1, 1, 13474, 17067, 1, 13474, 1, 13474, 1, 24824, 13474, 17067, 1, 1, 0, 0, 1,
      51200, 1, 1, 0, 17067, 1, 1, 0, 7585, 1, 1, 0, 2763, 0, 0, 0, 2763, 2763, 0, 2763, 2763, 0,
      2763, 0, 0, 0, 0, 0, 2763, 0, 0, 2763, 0, 0, 0, 0, 2763, 0, 0, 0, 0, 0, 0, 0, 0, 0, 0, 0, 0,
      0, 0, 0, 0, 0, 0, 0, 0, 0, 0, 0, 0, 0, 0, 0, 0, 0, 0, 0, 0, 0, 0, 0, 0, 0, 0, 0, 0, 0, 0, 0,
      0, 0, 0, 0, 0, 0, 0, 0, 0, 0, 0, 0, 0, 0, 0, 0, 0, 0, 0, 0, 0, 0, 0, 0, 0, 0, 0, 0, 0, 0, 0,
      0, 0, 0, 0, 0, 0, 0, 0, 0, 0, 0, 0, 0, 0, 0, 0, 0, 0, 0, 0, 0, 0, 0, 0, 0, 0, 0, 0, 0]"

definition unitTurnRadius :: "int list" where
  "unitTurnRadius =
     [
      40, 40, 40, 17, 0, 13, 0, 40, 40, 40, 40, 20, 20, 127, 127, 40, 40, 17, 0, 40, 40, 40, 40,
      13, 0, 40, 0, 20, 20, 20, 40, 0, 40, 0, 40, 20, 0, 27, 27, 40, 27, 40, 20, 40, 20, 40, 27,
      40, 40, 40, 40, 40, 27, 27, 27, 40, 20, 20, 30, 0, 30, 40, 30, 40, 40, 40, 40, 40, 40, 20,
      30, 40, 20, 40, 40, 40, 40, 40, 40, 40, 30, 20, 20, 20, 20, 27, 40, 40, 30, 27, 27, 0, 0,
      27, 14, 27, 27, 0, 30, 40, 40, 0, 20, 40, 40, 0, 27, 0, 0, 0, 27, 27, 0, 27, 27, 0, 27, 0,
      0, 0, 0, 0, 27, 0, 40, 27, 0, 0, 0, 0, 27, 0, 0, 0, 0, 0, 0, 0, 0, 0, 0, 0, 0, 0, 0, 0, 0,
      0, 0, 0, 0, 0, 0, 0, 0, 0, 0, 0, 0, 0, 0, 0, 0, 0, 0, 0, 0, 0, 0, 0, 0, 0, 0, 0, 0, 0, 0, 0,
      0, 0, 0, 0, 0, 0, 0, 0, 0, 0, 0, 0, 0, 0, 0, 0, 0, 0, 0, 0, 0, 0, 0, 0, 0, 20, 0, 0, 0, 0,
      0, 127, 0, 0, 0, 0, 0, 0, 0, 0, 0, 0, 0, 0, 0, 0, 0, 0, 0, 0, 0, 0, 0, 0, 0, 0]"

text \<open>\<open>tileWidth\<close>, \<open>tileHeight\<close>, \<open>left\<close>, \<open>up\<close>, \<open>right\<close>, \<open>down\<close> of each type.\<close>

definition unitDimensions :: "(int \<times> int \<times> int \<times> int \<times> int \<times> int) list" where
  "unitDimensions =
     [
      (1, 1, 8, 9, 8, 10), (1, 1, 7, 10, 7, 11), (1, 1, 16, 16, 15, 15), (1, 1, 16, 16, 15, 15),
      (1, 1, 1, 1, 1, 1), (1, 1, 16, 16, 15, 15), (1, 1, 1, 1, 1, 1), (1, 1, 11, 11, 11, 11),
      (1, 1, 19, 15, 18, 14), (2, 2, 32, 33, 32, 16), (1, 1, 11, 7, 11, 14),
      (2, 2, 24, 16, 24, 20), (2, 2, 37, 29, 37, 29), (1, 1, 7, 7, 7, 7), (1, 1, 7, 14, 7, 14),
      (1, 1, 8, 9, 8, 10), (1, 1, 7, 10, 7, 11), (1, 1, 16, 16, 15, 15), (1, 1, 1, 1, 1, 1),
      (1, 1, 16, 16, 15, 15), (1, 1, 8, 9, 8, 10), (1, 1, 19, 15, 18, 14), (2, 2, 32, 33, 32, 16),
      (1, 1, 16, 16, 15, 15), (1, 1, 1, 1, 1, 1), (1, 1, 16, 16, 15, 15), (1, 1, 1, 1, 1, 1),
      (2, 2, 37, 29, 37, 29), (2, 2, 37, 29, 37, 29), (2, 2, 37, 29, 37, 29),
      (1, 1, 16, 16, 15, 15), (1, 1, 1, 1, 1, 1), (1, 1, 11, 7, 11, 14), (1, 1, 13, 13, 13, 17),
      (1, 1, 8, 9, 8, 10), (1, 1, 8, 8, 7, 7), (1, 1, 16, 16, 15, 15), (1, 1, 8, 4, 7, 11),
      (1, 1, 10, 10, 10, 12), (2, 2, 19, 16, 18, 15), (1, 1, 9, 9, 9, 9), (1, 1, 11, 11, 11, 11),
      (2, 2, 25, 25, 24, 24), (2, 2, 22, 22, 21, 21), (2, 2, 22, 22, 21, 21),
      (2, 2, 24, 24, 23, 23), (1, 1, 13, 12, 13, 12), (1, 1, 12, 12, 11, 11),
      (2, 2, 19, 16, 18, 15), (2, 2, 24, 24, 23, 23), (1, 1, 8, 9, 8, 10), (1, 1, 7, 10, 7, 11),
      (1, 1, 13, 12, 13, 12), (1, 1, 10, 10, 10, 12), (1, 1, 8, 4, 7, 11), (2, 2, 22, 22, 21, 21),
      (2, 2, 22, 22, 21, 21), (2, 2, 25, 25, 24, 24), (2, 2, 24, 16, 24, 20),
      (1, 1, 16, 16, 15, 15), (1, 1, 18, 16, 17, 15), (1, 1, 12, 6, 11, 19),
      (2, 2, 22, 22, 21, 21), (1, 1, 16, 16, 15, 15), (1, 1, 11, 11, 11, 11),
      (1, 1, 11, 5, 11, 13), (1, 1, 15, 15, 16, 16), (1, 1, 12, 10, 11, 13),
      (1, 1, 16, 16, 15, 15), (2, 1, 20, 16, 19, 15), (2, 1, 18, 16, 17, 15),
      (2, 2, 22, 22, 21, 21), (2, 2, 32, 32, 31, 31), (1, 1, 8, 8, 7, 7), (1, 1, 12, 6, 11, 19),
      (1, 1, 12, 6, 11, 19), (1, 1, 16, 16, 15, 15), (1, 1, 11, 5, 11, 13),
      (1, 1, 15, 15, 16, 16), (1, 1, 12, 10, 11, 13), (2, 1, 18, 16, 17, 15),
      (1, 1, 16, 16, 15, 15), (2, 2, 32, 32, 31, 31), (1, 1, 16, 16, 15, 15),
      (1, 1, 16, 16, 15, 15), (1, 1, 2, 2, 2, 2), (2, 2, 22, 22, 21, 21), (1, 1, 12, 10, 11, 13),
      (2, 1, 18, 16, 17, 15), (1, 1, 16, 16, 15, 15), (1, 1, 16, 16, 15, 15),
      (1, 1, 15, 15, 16, 16), (1, 1, 15, 15, 16, 16), (1, 1, 16, 16, 15, 15),
      (1, 1, 16, 16, 15, 15), (1, 1, 16, 16, 15, 15), (1, 1, 16, 16, 15, 15),
      (1, 1, 16, 16, 15, 15), (1, 1, 18, 16, 17, 15), (1, 1, 7, 10, 7, 11), (1, 1, 7, 10, 7, 11),
      (1, 1, 13, 13, 13, 17), (2, 2, 37, 29, 37, 29), (1, 1, 15, 15, 16, 16),
      (1, 1, 7, 10, 7, 11), (4, 3, 60, 40, 59, 39), (4, 3, 58, 41, 58, 41),
      (2, 2, 37, 16, 31, 25), (2, 2, 37, 16, 31, 25), (3, 2, 38, 22, 38, 26),
      (4, 2, 56, 32, 56, 31), (4, 3, 48, 40, 56, 32), (3, 2, 40, 32, 44, 24),
      (4, 3, 56, 40, 56, 40), (4, 3, 48, 40, 48, 38), (2, 2, 47, 24, 28, 22),
      (4, 3, 48, 38, 48, 38), (2, 2, 47, 24, 28, 22), (2, 2, 47, 24, 28, 22),
      (3, 2, 48, 32, 47, 31), (2, 2, 39, 24, 31, 24), (3, 3, 48, 48, 47, 47),
      (4, 3, 48, 32, 48, 28), (3, 2, 48, 32, 47, 22), (2, 2, 16, 32, 16, 16),
      (3, 2, 32, 24, 32, 16), (3, 2, 48, 32, 47, 31), (3, 2, 48, 32, 47, 31),
      (1, 1, 16, 16, 15, 15), (1, 1, 16, 16, 15, 15), (4, 3, 58, 41, 58, 41),
      (4, 3, 49, 32, 49, 32), (4, 3, 49, 32, 49, 32), (4, 3, 49, 32, 49, 32),
      (2, 2, 32, 32, 31, 31), (3, 2, 40, 32, 40, 24), (4, 2, 48, 32, 48, 4),
      (2, 2, 28, 32, 28, 24), (3, 2, 38, 28, 32, 28), (3, 2, 44, 32, 32, 20),
      (3, 2, 40, 32, 32, 31), (2, 2, 28, 32, 28, 24), (3, 2, 36, 28, 40, 18),
      (2, 2, 24, 24, 23, 23), (2, 2, 24, 24, 23, 23), (3, 3, 48, 48, 47, 47),
      (2, 2, 24, 24, 23, 23), (5, 3, 80, 32, 79, 40), (5, 3, 80, 32, 79, 40),
      (4, 2, 64, 32, 63, 31), (2, 2, 32, 32, 31, 31), (3, 2, 40, 32, 32, 31),
      (3, 2, 40, 32, 32, 31), (1, 1, 16, 16, 15, 15), (4, 3, 56, 39, 56, 39),
      (3, 2, 36, 16, 40, 20), (2, 2, 16, 12, 16, 20), (4, 2, 48, 32, 48, 24),
      (4, 3, 64, 48, 63, 47), (3, 2, 44, 16, 44, 28), (4, 3, 48, 32, 48, 40),
      (3, 3, 48, 48, 47, 47), (2, 2, 20, 16, 20, 16), (3, 2, 24, 24, 40, 24),
      (3, 2, 40, 24, 40, 24), (3, 2, 32, 24, 32, 24), (3, 2, 36, 24, 36, 20),
      (4, 3, 48, 40, 48, 32), (4, 3, 64, 48, 63, 47), (3, 2, 40, 32, 47, 24),
      (3, 2, 44, 28, 44, 28), (3, 2, 32, 32, 32, 20), (3, 2, 32, 16, 32, 16),
      (4, 3, 64, 48, 63, 47), (7, 3, 112, 48, 111, 47), (5, 4, 80, 34, 79, 63),
      (2, 1, 32, 16, 31, 15), (2, 1, 32, 16, 31, 15), (2, 1, 32, 16, 31, 15),
      (2, 2, 32, 32, 31, 31), (2, 2, 32, 32, 31, 31), (2, 2, 32, 32, 31, 31),
      (1, 1, 16, 16, 15, 15), (1, 1, 16, 16, 15, 15), (2, 2, 32, 32, 31, 31),
      (1, 1, 16, 16, 15, 15), (1, 1, 16, 16, 15, 15), (1, 1, 16, 16, 15, 15),
      (4, 2, 64, 32, 63, 31), (3, 2, 48, 32, 47, 31), (5, 3, 80, 38, 69, 47),
      (3, 2, 48, 32, 47, 31), (3, 2, 48, 32, 47, 31), (3, 2, 48, 32, 47, 31),
      (3, 2, 48, 32, 47, 31), (3, 2, 48, 32, 47, 31), (3, 2, 48, 32, 47, 31),
      (3, 2, 48, 32, 47, 31), (3, 2, 48, 32, 47, 31), (3, 2, 48, 32, 47, 31),
      (4, 3, 56, 28, 63, 43), (3, 2, 48, 32, 47, 31), (5, 5, 80, 80, 79, 79),
      (2, 2, 32, 32, 31, 31), (8, 4, 128, 64, 127, 63), (3, 2, 25, 17, 44, 20),
      (3, 2, 44, 17, 25, 20), (3, 2, 41, 17, 28, 20), (3, 2, 28, 17, 41, 20),
      (2, 2, 32, 32, 31, 31), (1, 1, 16, 16, 15, 15), (1, 1, 16, 16, 15, 15),
      (1, 1, 16, 16, 15, 15), (1, 1, 16, 16, 15, 15), (4, 3, 48, 32, 48, 32),
      (1, 1, 16, 16, 15, 15), (1, 1, 16, 16, 15, 15), (1, 1, 16, 16, 15, 15),
      (1, 1, 16, 16, 15, 15), (1, 1, 16, 16, 15, 15), (1, 1, 16, 16, 15, 15),
      (1, 1, 16, 16, 15, 15), (1, 1, 16, 16, 15, 15), (1, 1, 16, 16, 15, 15),
      (1, 1, 16, 16, 15, 15), (1, 1, 16, 16, 15, 15), (1, 1, 16, 16, 15, 15),
      (1, 1, 16, 16, 15, 15), (0, 0, 0, 0, 0, 0), (0, 0, 0, 0, 0, 0), (0, 0, 0, 0, 0, 0),
      (0, 0, 0, 0, 0, 0), (0, 0, 0, 0, 0, 0), (0, 0, 0, 0, 0, 0)]"

definition whatBuilds_table :: "int list" where
  "whatBuilds_table =
     [
      Terran_Barracks, Terran_Barracks, Terran_Factory, Terran_Factory, UnitType_None,
      Terran_Factory, UnitType_None, Terran_Command_Center, Terran_Starport, Terran_Starport,
      UnitType_None, Terran_Starport, Terran_Starport, UnitType_None, Terran_Nuclear_Silo,
      UnitType_None, UnitType_None, UnitType_None, UnitType_None, UnitType_None, UnitType_None,
      UnitType_None, UnitType_None, UnitType_None, UnitType_None, UnitType_None, UnitType_None,
      UnitType_None, UnitType_None, UnitType_None, Terran_Factory, UnitType_None, Terran_Barracks,
      UnitType_None, Terran_Barracks, Zerg_Hatchery, Zerg_Larva, Zerg_Larva, Zerg_Larva,
      Zerg_Larva, UnitType_None, Zerg_Larva, Zerg_Larva, Zerg_Larva, Zerg_Mutalisk, Zerg_Larva,
      Zerg_Larva, Zerg_Larva, UnitType_None, UnitType_None, Zerg_Infested_Command_Center,
      UnitType_None, UnitType_None, UnitType_None, UnitType_None, UnitType_None, UnitType_None,
      UnitType_None, Terran_Starport, Zerg_Mutalisk, Protoss_Stargate, Protoss_Gateway,
      Zerg_Mutalisk, Protoss_Dark_Templar, Protoss_Nexus, Protoss_Gateway, Protoss_Gateway,
      Protoss_Gateway, Protoss_High_Templar, Protoss_Robotics_Facility, Protoss_Stargate,
      Protoss_Stargate, Protoss_Stargate, Protoss_Carrier, UnitType_None, UnitType_None,
      UnitType_None, UnitType_None, UnitType_None, UnitType_None, UnitType_None, UnitType_None,
      UnitType_None, Protoss_Robotics_Facility, Protoss_Robotics_Facility, Protoss_Reaver,
      UnitType_None, UnitType_None, UnitType_None, UnitType_None, UnitType_None, UnitType_None,
      UnitType_None, UnitType_None, UnitType_None, UnitType_None, UnitType_None, Zerg_Hydralisk,
      UnitType_None, UnitType_None, UnitType_None, UnitType_None, UnitType_None, Zerg_Hydralisk,
      UnitType_None, UnitType_None, Terran_SCV, Terran_Command_Center, Terran_Command_Center,
      Terran_SCV, Terran_SCV, Terran_SCV, Terran_SCV, Terran_SCV, Terran_SCV, Terran_Starport,
      Terran_SCV, Terran_Science_Facility, Terran_Science_Facility, UnitType_None, Terran_Factory,
      UnitType_None, Terran_SCV, Terran_SCV, Terran_SCV, Terran_SCV, UnitType_None, UnitType_None,
      UnitType_None, UnitType_None, UnitType_None, Zerg_Drone, Zerg_Hatchery, Zerg_Lair,
      Zerg_Drone, Zerg_Drone, Zerg_Drone, Zerg_Spire, Zerg_Drone, Zerg_Drone, Zerg_Drone,
      Zerg_Drone, Zerg_Drone, Zerg_Drone, Zerg_Creep_Colony, UnitType_None, Zerg_Creep_Colony,
      UnitType_None, UnitType_None, Zerg_Drone, UnitType_None, UnitType_None, UnitType_None,
      UnitType_None, Protoss_Probe, Protoss_Probe, Protoss_Probe, Protoss_Probe, UnitType_None,
      Protoss_Probe, Protoss_Probe, UnitType_None, Protoss_Probe, Protoss_Probe, Protoss_Probe,
      Protoss_Probe, Protoss_Probe, Protoss_Probe, UnitType_None, Protoss_Probe, Protoss_Probe,
      Protoss_Probe, Protoss_Probe, UnitType_None, UnitType_None, UnitType_None, UnitType_None,
      UnitType_None, UnitType_None, UnitType_None, UnitType_None, UnitType_None, UnitType_None,
      UnitType_None, UnitType_None, UnitType_None, UnitType_None, UnitType_None, UnitType_None,
      UnitType_None, UnitType_None, UnitType_None, UnitType_None, UnitType_None, UnitType_None,
      UnitType_None, UnitType_None, UnitType_None, UnitType_None, UnitType_None, UnitType_None,
      UnitType_None, UnitType_None, UnitType_None, UnitType_None, UnitType_None, UnitType_None,
      UnitType_None, UnitType_None, UnitType_None, UnitType_None, UnitType_None, UnitType_None,
      UnitType_None, UnitType_None, UnitType_None, UnitType_None, UnitType_None, UnitType_None,
      UnitType_None, UnitType_None, UnitType_None, UnitType_None, UnitType_None, UnitType_None,
      UnitType_None, UnitType_None, UnitType_None, UnitType_None, UnitType_None, UnitType_None,
      UnitType_None, UnitType_None, UnitType_Unknown]"

definition buildsWhat_table :: "int list list" where
  "buildsWhat_table =
     [
      [], [], [], [], [], [], [],
      [Terran_Academy, Terran_Armory, Terran_Barracks, Terran_Bunker, Terran_Command_Center, Terran_Engineering_Bay, Terran_Factory, Terran_Missile_Turret, Terran_Refinery, Terran_Science_Facility, Terran_Starport, Terran_Supply_Depot],
      [], [], [], [], [], [], [], [], [], [], [], [], [], [], [], [], [], [], [], [], [], [], [],
      [], [], [], [],
      [Zerg_Defiler, Zerg_Drone, Zerg_Hydralisk, Zerg_Mutalisk, Zerg_Overlord, Zerg_Queen, Zerg_Scourge, Zerg_Ultralisk, Zerg_Zergling],
      [], [], [Zerg_Lurker], [], [],
      [Zerg_Creep_Colony, Zerg_Defiler_Mound, Zerg_Evolution_Chamber, Zerg_Extractor, Zerg_Hatchery, Zerg_Hydralisk_Den, Zerg_Nydus_Canal, Zerg_Queens_Nest, Zerg_Spawning_Pool, Zerg_Spire, Zerg_Ultralisk_Cavern],
      [], [Zerg_Guardian, Zerg_Devourer], [], [], [], [], [], [], [], [], [], [], [], [], [], [],
      [], [], [], [Protoss_Dark_Archon], [], [],
      [Protoss_Arbiter_Tribunal, Protoss_Assimilator, Protoss_Citadel_of_Adun, Protoss_Cybernetics_Core, Protoss_Fleet_Beacon, Protoss_Forge, Protoss_Gateway, Protoss_Nexus, Protoss_Observatory, Protoss_Photon_Cannon, Protoss_Pylon, Protoss_Robotics_Facility, Protoss_Robotics_Support_Bay, Protoss_Shield_Battery, Protoss_Stargate, Protoss_Templar_Archives],
      [], [], [Protoss_Archon], [], [], [], [], [Protoss_Interceptor], [], [], [], [], [], [], [],
      [], [], [], [Protoss_Scarab], [], [], [], [], [], [], [], [], [], [], [], [], [], [], [],
      [], [], [], [], [], [], [], [Terran_SCV, Terran_Comsat_Station, Terran_Nuclear_Silo], [],
      [Terran_Nuclear_Missile], [], [],
      [Terran_Marine, Terran_Medic, Terran_Firebat, Terran_Ghost], [],
      [Terran_Vulture, Terran_Siege_Tank_Tank_Mode, Terran_Goliath, Terran_Machine_Shop],
      [Terran_Wraith, Terran_Dropship, Terran_Science_Vessel, Terran_Battlecruiser, Terran_Valkyrie, Terran_Control_Tower],
      [], [Terran_Covert_Ops, Terran_Physics_Lab], [], [], [], [], [], [], [], [], [], [], [], [],
      [], [Zerg_Infested_Terran], [Zerg_Lair], [Zerg_Hive], [], [], [], [], [], [], [], [],
      [Zerg_Greater_Spire], [], [Zerg_Sunken_Colony, Zerg_Spore_Colony], [], [], [], [], [], [],
      [], [], [], [], [Protoss_Probe], [Protoss_Observer, Protoss_Reaver, Protoss_Shuttle], [],
      [], [], [], [Protoss_Zealot, Protoss_Dragoon, Protoss_High_Templar, Protoss_Dark_Templar],
      [], [], [], [], [], [], [Protoss_Scout, Protoss_Carrier, Protoss_Arbiter, Protoss_Corsair],
      [], [], [], [], [], [], [], [], [], [], [], [], [], [], [], [], [], [], [], [], [], [], [],
      [], [], [], [], [], [], [], [], [], [], [], [], [], [], [], [], [], [], [], [], [], [], [],
      [], [], [], [], [], [], [], [], [], [], [], [], [], [], [], [], [], [], [], []]"

definition groundWeapons :: "int list" where
  "groundWeapons =
     [
      Wpn_Gauss_Rifle, Wpn_C_10_Canister_Rifle, Wpn_Fragmentation_Grenade, Wpn_Twin_Autocannons,
      Wpn_Twin_Autocannons, Wpn_Arclite_Cannon, Wpn_Arclite_Cannon, Wpn_Fusion_Cutter,
      Wpn_Burst_Lasers, WeaponType_None, Wpn_Flame_Thrower_Gui_Montag, WeaponType_None,
      Wpn_ATS_Laser_Battery, Wpn_Spider_Mines, WeaponType_None, WeaponType_None,
      Wpn_C_10_Canister_Rifle_Sarah_Kerrigan, Wpn_Twin_Autocannons_Alan_Schezar,
      Wpn_Twin_Autocannons_Alan_Schezar, Wpn_Fragmentation_Grenade_Jim_Raynor,
      Wpn_Gauss_Rifle_Jim_Raynor, Wpn_Burst_Lasers_Tom_Kazansky, WeaponType_None,
      Wpn_Arclite_Cannon_Edmund_Duke, Wpn_Arclite_Cannon_Edmund_Duke,
      Wpn_Arclite_Shock_Cannon_Edmund_Duke, Wpn_Arclite_Shock_Cannon_Edmund_Duke,
      Wpn_ATS_Laser_Battery_Hero, Wpn_ATS_Laser_Battery_Hyperion, Wpn_ATS_Laser_Battery_Hero,
      Wpn_Arclite_Shock_Cannon, Wpn_Arclite_Shock_Cannon, Wpn_Flame_Thrower, WeaponType_None,
      WeaponType_None, WeaponType_None, WeaponType_None, Wpn_Claws, Wpn_Needle_Spines,
      Wpn_Kaiser_Blades, Wpn_Toxic_Spores, Wpn_Spines, WeaponType_None, Wpn_Glave_Wurm,
      Wpn_Acid_Spore, WeaponType_None, WeaponType_None, WeaponType_None,
      Wpn_Kaiser_Blades_Torrasque, WeaponType_None, Wpn_Suicide_Infested_Terran,
      Wpn_Claws_Infested_Kerrigan, WeaponType_None, Wpn_Needle_Spines_Hunter_Killer,
      Wpn_Claws_Devouring_One, Wpn_Glave_Wurm_Kukulza, Wpn_Acid_Spore_Kukulza, WeaponType_None,
      WeaponType_None, WeaponType_None, WeaponType_None, Wpn_Warp_Blades, WeaponType_None,
      WeaponType_None, Wpn_Particle_Beam, Wpn_Psi_Blades, Wpn_Phase_Disruptor, WeaponType_None,
      Wpn_Psionic_Shockwave, WeaponType_None, Wpn_Dual_Photon_Blasters,
      Wpn_Phase_Disruptor_Cannon, WeaponType_None, Wpn_Pulse_Cannon, Wpn_Warp_Blades_Hero,
      Wpn_Warp_Blades_Zeratul, Wpn_Psionic_Shockwave_TZ_Archon, Wpn_Psi_Blades_Fenix,
      Wpn_Phase_Disruptor_Fenix, Wpn_Psi_Assault, Wpn_Dual_Photon_Blasters_Mojo, WeaponType_None,
      WeaponType_None, WeaponType_None, WeaponType_None, Wpn_Scarab,
      Wpn_Phase_Disruptor_Cannon_Danimoth, Wpn_Psi_Assault, Wpn_Dual_Photon_Blasters_Artanis,
      WeaponType_None, WeaponType_None, WeaponType_None, WeaponType_None, WeaponType_None,
      WeaponType_None, WeaponType_None, WeaponType_None, WeaponType_None, WeaponType_None,
      Wpn_C_10_Canister_Rifle_Samir_Duran, Wpn_C_10_Canister_Rifle_Alexei_Stukov, WeaponType_None,
      Wpn_ATS_Laser_Battery_Hero, Wpn_Subterranean_Spines, Wpn_C_10_Canister_Rifle_Infested_Duran,
      WeaponType_None, WeaponType_None, WeaponType_None, WeaponType_None, WeaponType_None,
      WeaponType_None, WeaponType_None, WeaponType_None, WeaponType_None, WeaponType_None,
      WeaponType_None, WeaponType_None, WeaponType_None, WeaponType_None, WeaponType_None,
      WeaponType_None, WeaponType_None, WeaponType_None, WeaponType_None, WeaponType_None,
      WeaponType_None, WeaponType_None, WeaponType_None, WeaponType_None, WeaponType_None,
      WeaponType_None, WeaponType_None, WeaponType_None, WeaponType_None, WeaponType_None,
      WeaponType_None, WeaponType_None, WeaponType_None, WeaponType_None, WeaponType_None,
      WeaponType_None, WeaponType_None, WeaponType_None, WeaponType_None, WeaponType_None,
      WeaponType_None, Wpn_Subterranean_Tentacle, WeaponType_None, WeaponType_None,
      WeaponType_None, WeaponType_None, WeaponType_None, WeaponType_None, WeaponType_None,
      WeaponType_None, WeaponType_None, WeaponType_None, WeaponType_None, WeaponType_None,
      WeaponType_None, WeaponType_None, WeaponType_None, Wpn_STS_Photon_Cannon, WeaponType_None,
      WeaponType_None, WeaponType_None, WeaponType_None, WeaponType_None, WeaponType_None,
      WeaponType_None, WeaponType_None, WeaponType_None, WeaponType_None, WeaponType_None,
      WeaponType_None, WeaponType_None, WeaponType_None, WeaponType_None, WeaponType_None,
      WeaponType_None, WeaponType_None, WeaponType_None, Wpn_Platform_Laser_Battery,
      WeaponType_None, Wpn_Independant_Laser_Battery, WeaponType_None, WeaponType_None,
      WeaponType_None, WeaponType_None, WeaponType_None, WeaponType_None, WeaponType_None,
      WeaponType_None, WeaponType_None, WeaponType_None, WeaponType_None, WeaponType_None,
      WeaponType_None, WeaponType_None, WeaponType_None, WeaponType_None, WeaponType_None,
      WeaponType_None, Wpn_Hellfire_Missile_Pack_Floor_Trap, WeaponType_None, WeaponType_None,
      WeaponType_None, WeaponType_None, WeaponType_None, Wpn_Twin_Autocannons_Floor_Trap,
      Wpn_Hellfire_Missile_Pack_Wall_Trap, Wpn_Flame_Thrower_Wall_Trap,
      Wpn_Hellfire_Missile_Pack_Wall_Trap, Wpn_Flame_Thrower_Wall_Trap, WeaponType_None,
      WeaponType_None, WeaponType_None, WeaponType_None, WeaponType_None, WeaponType_None,
      WeaponType_None, WeaponType_None, WeaponType_None, WeaponType_None, WeaponType_None,
      WeaponType_None, WeaponType_None, WeaponType_None, WeaponType_None, WeaponType_None,
      WeaponType_None, WeaponType_None, WeaponType_None, WeaponType_Unknown]"

definition airWeapons :: "int list" where
  "airWeapons =
     [
      Wpn_Gauss_Rifle, Wpn_C_10_Canister_Rifle, WeaponType_None, Wpn_Hellfire_Missile_Pack,
      Wpn_Hellfire_Missile_Pack, WeaponType_None, WeaponType_None, WeaponType_None,
      Wpn_Gemini_Missiles, WeaponType_None, WeaponType_None, WeaponType_None,
      Wpn_ATA_Laser_Battery, WeaponType_None, WeaponType_None, WeaponType_None,
      Wpn_C_10_Canister_Rifle_Sarah_Kerrigan, Wpn_Hellfire_Missile_Pack_Alan_Schezar,
      Wpn_Hellfire_Missile_Pack_Alan_Schezar, WeaponType_None, Wpn_Gauss_Rifle_Jim_Raynor,
      Wpn_Gemini_Missiles_Tom_Kazansky, WeaponType_None, WeaponType_None, WeaponType_None,
      WeaponType_None, WeaponType_None, Wpn_ATA_Laser_Battery_Hero,
      Wpn_ATA_Laser_Battery_Hyperion, Wpn_ATA_Laser_Battery_Hero, WeaponType_None,
      WeaponType_None, WeaponType_None, WeaponType_None, WeaponType_None, WeaponType_None,
      WeaponType_None, WeaponType_None, Wpn_Needle_Spines, WeaponType_None, WeaponType_None,
      WeaponType_None, WeaponType_None, Wpn_Glave_Wurm, WeaponType_None, WeaponType_None,
      WeaponType_None, Wpn_Suicide_Scourge, WeaponType_None, WeaponType_None, WeaponType_None,
      WeaponType_None, WeaponType_None, Wpn_Needle_Spines_Hunter_Killer, WeaponType_None,
      Wpn_Glave_Wurm_Kukulza, WeaponType_None, WeaponType_None, Wpn_Halo_Rockets, WeaponType_None,
      Wpn_Neutron_Flare, WeaponType_None, Wpn_Corrosive_Acid, WeaponType_None, WeaponType_None,
      WeaponType_None, Wpn_Phase_Disruptor, WeaponType_None, Wpn_Psionic_Shockwave,
      WeaponType_None, Wpn_Anti_Matter_Missiles, Wpn_Phase_Disruptor_Cannon, WeaponType_None,
      Wpn_Pulse_Cannon, WeaponType_None, WeaponType_None, Wpn_Psionic_Shockwave_TZ_Archon,
      WeaponType_None, Wpn_Phase_Disruptor_Fenix, WeaponType_None, Wpn_Anti_Matter_Missiles_Mojo,
      WeaponType_None, WeaponType_None, WeaponType_None, WeaponType_None, WeaponType_None,
      Wpn_Phase_Disruptor_Cannon_Danimoth, WeaponType_None, Wpn_Anti_Matter_Missiles_Artanis,
      WeaponType_None, WeaponType_None, WeaponType_None, WeaponType_None, WeaponType_None,
      WeaponType_None, WeaponType_None, WeaponType_None, WeaponType_None, Wpn_Neutron_Flare,
      Wpn_C_10_Canister_Rifle_Samir_Duran, Wpn_C_10_Canister_Rifle_Alexei_Stukov, WeaponType_None,
      Wpn_ATA_Laser_Battery_Hero, WeaponType_None, Wpn_C_10_Canister_Rifle_Infested_Duran,
      WeaponType_None, WeaponType_None, WeaponType_None, WeaponType_None, WeaponType_None,
      WeaponType_None, WeaponType_None, WeaponType_None, WeaponType_None, WeaponType_None,
      WeaponType_None, WeaponType_None, WeaponType_None, WeaponType_None, WeaponType_None,
      WeaponType_None, WeaponType_None, WeaponType_None, WeaponType_None, Wpn_Longbolt_Missile,
      WeaponType_None, WeaponType_None, WeaponType_None, WeaponType_None, WeaponType_None,
      WeaponType_None, WeaponType_None, WeaponType_None, WeaponType_None, WeaponType_None,
      WeaponType_None, WeaponType_None, WeaponType_None, WeaponType_None, WeaponType_None,
      WeaponType_None, WeaponType_None, WeaponType_None, WeaponType_None, Wpn_Seeker_Spores,
      WeaponType_None, WeaponType_None, WeaponType_None, WeaponType_None, WeaponType_None,
      WeaponType_None, WeaponType_None, WeaponType_None, WeaponType_None, WeaponType_None,
      WeaponType_None, WeaponType_None, WeaponType_None, WeaponType_None, WeaponType_None,
      WeaponType_None, WeaponType_None, Wpn_STA_Photon_Cannon, WeaponType_None, WeaponType_None,
      WeaponType_None, WeaponType_None, WeaponType_None, WeaponType_None, WeaponType_None,
      WeaponType_None, WeaponType_None, WeaponType_None, WeaponType_None, WeaponType_None,
      WeaponType_None, WeaponType_None, WeaponType_None, WeaponType_None, WeaponType_None,
      WeaponType_None, WeaponType_None, WeaponType_None, WeaponType_None, WeaponType_None,
      WeaponType_None, WeaponType_None, WeaponType_None, WeaponType_None, WeaponType_None,
      WeaponType_None, WeaponType_None, WeaponType_None, WeaponType_None, WeaponType_None,
      WeaponType_None, WeaponType_None, WeaponType_None, WeaponType_None, WeaponType_None,
      WeaponType_None, WeaponType_None, WeaponType_None, WeaponType_None, WeaponType_None,
      WeaponType_None, WeaponType_None, WeaponType_None, WeaponType_None, WeaponType_None,
      WeaponType_None, WeaponType_None, WeaponType_None, WeaponType_None, WeaponType_None,
      WeaponType_None, WeaponType_None, WeaponType_None, WeaponType_None, WeaponType_None,
      WeaponType_None, WeaponType_None, WeaponType_None, WeaponType_None, WeaponType_None,
      WeaponType_None, WeaponType_None, WeaponType_None, WeaponType_None, WeaponType_None,
      WeaponType_None, WeaponType_None, WeaponType_None, WeaponType_Unknown]"

text \<open>\<open>UnitSizeTypes::Enum\<close>: 0 Independent, 1 Small, 2 Medium, 3 Large, 4 None, 5 Unknown.\<close>

definition unitSizes :: "int list" where
  "unitSizes =
     [
      1, 1, 2, 3, 0, 3, 0, 1, 3, 3, 1, 3, 3, 1, 0, 1, 1, 3, 0, 2, 1, 3, 3, 3, 0, 3, 0, 3, 3, 3, 3,
      0, 1, 0, 1, 1, 2, 1, 2, 3, 1, 1, 3, 1, 3, 2, 2, 1, 3, 2, 1, 1, 2, 2, 1, 1, 3, 3, 3, 3, 2, 1,
      3, 3, 1, 1, 3, 1, 3, 3, 3, 3, 3, 1, 1, 1, 3, 1, 3, 1, 3, 3, 3, 3, 1, 1, 3, 1, 3, 1, 1, 2, 2,
      1, 1, 1, 1, 2, 2, 1, 1, 0, 3, 2, 1, 0, 3, 3, 3, 3, 3, 3, 3, 3, 3, 3, 3, 3, 3, 0, 3, 3, 3, 3,
      3, 3, 3, 3, 0, 0, 3, 3, 3, 3, 3, 3, 3, 3, 3, 3, 3, 3, 3, 3, 3, 0, 3, 3, 3, 3, 3, 3, 3, 0, 3,
      3, 3, 3, 0, 3, 3, 3, 3, 3, 3, 3, 3, 3, 3, 3, 3, 3, 3, 3, 3, 3, 0, 0, 0, 0, 0, 0, 0, 0, 0, 0,
      0, 0, 0, 3, 3, 0, 0, 0, 0, 0, 0, 0, 0, 0, 3, 3, 0, 3, 0, 0, 0, 0, 0, 3, 3, 3, 3, 3, 0, 0, 0,
      0, 0, 0, 0, 0, 0, 0, 0, 0, 0, 0, 4, 4, 4, 4, 4, 5]"

definition upgrades_table :: "int list list" where
  "upgrades_table =
     [
      [Upg_Terran_Infantry_Armor, Upg_Terran_Infantry_Weapons, Upg_U_238_Shells],
      [Upg_Terran_Infantry_Armor, Upg_Terran_Infantry_Weapons, Upg_Ocular_Implants, Upg_Moebius_Reactor],
      [Upg_Terran_Vehicle_Plating, Upg_Terran_Vehicle_Weapons, Upg_Ion_Thrusters],
      [Upg_Terran_Vehicle_Plating, Upg_Terran_Vehicle_Weapons, Upg_Charon_Boosters],
      [Upg_Terran_Vehicle_Plating, Upg_Terran_Vehicle_Weapons, Upg_Charon_Boosters],
      [Upg_Terran_Vehicle_Plating, Upg_Terran_Vehicle_Weapons],
      [Upg_Terran_Vehicle_Plating, Upg_Terran_Vehicle_Weapons], [Upg_Terran_Infantry_Armor],
      [Upg_Terran_Ship_Plating, Upg_Terran_Ship_Weapons, Upg_Apollo_Reactor],
      [Upg_Terran_Ship_Plating, Upg_Titan_Reactor],
      [Upg_Terran_Infantry_Armor, Upg_Terran_Infantry_Weapons], [Upg_Terran_Ship_Plating],
      [Upg_Terran_Ship_Plating, Upg_Terran_Ship_Weapons, Upg_Colossus_Reactor], [], [],
      [Upg_Terran_Infantry_Armor], [Upg_Terran_Infantry_Armor, Upg_Terran_Infantry_Weapons],
      [Upg_Terran_Vehicle_Plating, Upg_Terran_Vehicle_Weapons],
      [Upg_Terran_Vehicle_Plating, Upg_Terran_Vehicle_Weapons],
      [Upg_Terran_Vehicle_Plating, Upg_Terran_Vehicle_Weapons],
      [Upg_Terran_Infantry_Armor, Upg_Terran_Infantry_Weapons],
      [Upg_Terran_Ship_Plating, Upg_Terran_Ship_Weapons], [Upg_Terran_Ship_Plating],
      [Upg_Terran_Vehicle_Plating, Upg_Terran_Vehicle_Weapons],
      [Upg_Terran_Vehicle_Plating, Upg_Terran_Vehicle_Weapons],
      [Upg_Terran_Vehicle_Plating, Upg_Terran_Vehicle_Weapons],
      [Upg_Terran_Vehicle_Plating, Upg_Terran_Vehicle_Weapons],
      [Upg_Terran_Ship_Plating, Upg_Terran_Ship_Weapons],
      [Upg_Terran_Ship_Plating, Upg_Terran_Ship_Weapons],
      [Upg_Terran_Ship_Plating, Upg_Terran_Ship_Weapons],
      [Upg_Terran_Vehicle_Plating, Upg_Terran_Vehicle_Weapons],
      [Upg_Terran_Vehicle_Plating, Upg_Terran_Vehicle_Weapons],
      [Upg_Terran_Infantry_Armor, Upg_Terran_Infantry_Weapons], [],
      [Upg_Terran_Infantry_Armor, Upg_Caduceus_Reactor], [Upg_Zerg_Carapace], [Upg_Zerg_Carapace],
      [Upg_Zerg_Carapace, Upg_Zerg_Melee_Attacks, Upg_Metabolic_Boost, Upg_Adrenal_Glands],
      [Upg_Zerg_Carapace, Upg_Zerg_Missile_Attacks, Upg_Muscular_Augments, Upg_Grooved_Spines],
      [Upg_Zerg_Carapace, Upg_Zerg_Melee_Attacks, Upg_Chitinous_Plating, Upg_Anabolic_Synthesis],
      [Upg_Zerg_Carapace, Upg_Zerg_Melee_Attacks], [Upg_Zerg_Carapace],
      [Upg_Zerg_Flyer_Carapace, Upg_Ventral_Sacs, Upg_Antennae, Upg_Pneumatized_Carapace],
      [Upg_Zerg_Flyer_Carapace, Upg_Zerg_Flyer_Attacks],
      [Upg_Zerg_Flyer_Carapace, Upg_Zerg_Flyer_Attacks],
      [Upg_Zerg_Flyer_Carapace, Upg_Gamete_Meiosis], [Upg_Zerg_Carapace, Upg_Metasynaptic_Node],
      [Upg_Zerg_Flyer_Carapace], [Upg_Zerg_Carapace, Upg_Zerg_Melee_Attacks],
      [Upg_Zerg_Flyer_Carapace], [Upg_Zerg_Carapace], [Upg_Zerg_Carapace, Upg_Zerg_Melee_Attacks],
      [Upg_Zerg_Carapace], [Upg_Zerg_Carapace, Upg_Zerg_Missile_Attacks],
      [Upg_Zerg_Carapace, Upg_Zerg_Melee_Attacks],
      [Upg_Zerg_Flyer_Carapace, Upg_Zerg_Flyer_Attacks],
      [Upg_Zerg_Flyer_Carapace, Upg_Zerg_Flyer_Attacks], [Upg_Zerg_Flyer_Carapace],
      [Upg_Terran_Ship_Plating, Upg_Terran_Ship_Weapons], [Upg_Zerg_Carapace],
      [Upg_Protoss_Plasma_Shields, Upg_Protoss_Air_Armor, Upg_Protoss_Air_Weapons, Upg_Argus_Jewel],
      [Upg_Protoss_Plasma_Shields, Upg_Protoss_Ground_Armor, Upg_Protoss_Ground_Weapons],
      [Upg_Zerg_Flyer_Carapace, Upg_Zerg_Flyer_Attacks],
      [Upg_Protoss_Plasma_Shields, Upg_Protoss_Air_Armor, Upg_Protoss_Air_Weapons, Upg_Argus_Talisman],
      [Upg_Protoss_Plasma_Shields, Upg_Protoss_Ground_Armor],
      [Upg_Protoss_Plasma_Shields, Upg_Protoss_Ground_Armor, Upg_Protoss_Ground_Weapons, Upg_Leg_Enhancements],
      [Upg_Protoss_Plasma_Shields, Upg_Protoss_Ground_Armor, Upg_Protoss_Ground_Weapons, Upg_Singularity_Charge],
      [Upg_Protoss_Plasma_Shields, Upg_Protoss_Ground_Armor, Upg_Khaydarin_Amulet],
      [Upg_Protoss_Plasma_Shields, Upg_Protoss_Ground_Armor, Upg_Protoss_Ground_Weapons],
      [Upg_Protoss_Plasma_Shields, Upg_Protoss_Air_Armor, Upg_Gravitic_Drive],
      [Upg_Protoss_Plasma_Shields, Upg_Protoss_Air_Armor, Upg_Protoss_Air_Weapons, Upg_Apial_Sensors, Upg_Gravitic_Thrusters],
      [Upg_Protoss_Plasma_Shields, Upg_Protoss_Air_Armor, Upg_Protoss_Air_Weapons, Upg_Khaydarin_Core],
      [Upg_Protoss_Plasma_Shields, Upg_Protoss_Air_Armor, Upg_Protoss_Air_Weapons, Upg_Carrier_Capacity],
      [Upg_Protoss_Plasma_Shields, Upg_Protoss_Air_Armor, Upg_Protoss_Air_Weapons],
      [Upg_Protoss_Plasma_Shields, Upg_Protoss_Ground_Armor, Upg_Protoss_Ground_Weapons],
      [Upg_Protoss_Plasma_Shields, Upg_Protoss_Ground_Armor, Upg_Protoss_Ground_Weapons],
      [Upg_Protoss_Plasma_Shields, Upg_Protoss_Ground_Armor, Upg_Protoss_Ground_Weapons],
      [Upg_Protoss_Plasma_Shields, Upg_Protoss_Ground_Armor, Upg_Protoss_Ground_Weapons],
      [Upg_Protoss_Plasma_Shields, Upg_Protoss_Ground_Armor, Upg_Protoss_Ground_Weapons],
      [Upg_Protoss_Plasma_Shields, Upg_Protoss_Ground_Armor, Upg_Protoss_Ground_Weapons],
      [Upg_Protoss_Plasma_Shields, Upg_Protoss_Air_Armor, Upg_Protoss_Air_Weapons],
      [Upg_Protoss_Plasma_Shields, Upg_Protoss_Ground_Armor, Upg_Protoss_Ground_Weapons, Upg_Scarab_Damage, Upg_Reaver_Capacity],
      [Upg_Protoss_Plasma_Shields, Upg_Protoss_Air_Armor, Upg_Protoss_Air_Weapons],
      [Upg_Protoss_Plasma_Shields, Upg_Protoss_Ground_Armor, Upg_Protoss_Ground_Weapons, Upg_Scarab_Damage, Upg_Reaver_Capacity],
      [Upg_Protoss_Plasma_Shields, Upg_Protoss_Air_Armor, Upg_Sensor_Array, Upg_Gravitic_Boosters],
      [Upg_Protoss_Plasma_Shields, Upg_Protoss_Ground_Armor, Upg_Protoss_Ground_Weapons],
      [Upg_Protoss_Plasma_Shields, Upg_Protoss_Air_Armor, Upg_Protoss_Air_Weapons],
      [Upg_Protoss_Plasma_Shields, Upg_Protoss_Ground_Armor, Upg_Protoss_Ground_Weapons],
      [Upg_Protoss_Plasma_Shields, Upg_Protoss_Air_Armor, Upg_Protoss_Air_Weapons], [], [], [],
      [], [], [], [], [], [Upg_Zerg_Carapace],
      [Upg_Protoss_Plasma_Shields, Upg_Protoss_Air_Armor, Upg_Protoss_Air_Weapons],
      [Upg_Terran_Infantry_Armor, Upg_Terran_Infantry_Weapons],
      [Upg_Terran_Infantry_Armor, Upg_Terran_Infantry_Weapons], [],
      [Upg_Terran_Ship_Plating, Upg_Terran_Ship_Weapons],
      [Upg_Zerg_Carapace, Upg_Zerg_Missile_Attacks],
      [Upg_Zerg_Carapace, Upg_Terran_Infantry_Weapons], [], [], [], [], [], [], [], [], [], [],
      [], [], [], [], [], [], [], [], [], [], [], [], [], [], [], [], [], [], [], [], [], [], [],
      [], [], [], [], [], [], [], [], [], [], [], [], [], [], [], [],
      [Upg_Protoss_Plasma_Shields], [Upg_Protoss_Plasma_Shields], [Upg_Protoss_Plasma_Shields],
      [Upg_Protoss_Plasma_Shields], [Upg_Protoss_Plasma_Shields], [Upg_Protoss_Plasma_Shields],
      [Upg_Protoss_Plasma_Shields], [Upg_Protoss_Plasma_Shields], [Upg_Protoss_Plasma_Shields],
      [Upg_Protoss_Plasma_Shields], [Upg_Protoss_Plasma_Shields], [Upg_Protoss_Plasma_Shields],
      [Upg_Protoss_Plasma_Shields], [Upg_Protoss_Plasma_Shields], [],
      [Upg_Protoss_Plasma_Shields], [Upg_Protoss_Plasma_Shields], [Upg_Protoss_Plasma_Shields],
      [Upg_Protoss_Plasma_Shields], [], [], [], [], [], [], [], [], [], [], [], [], [], [], [],
      [], [], [], [], [], [], [], [], [], [], [], [], [], [], [], [Upg_Terran_Vehicle_Weapons],
      [], [], [], [], [], [Upg_Terran_Vehicle_Weapons], [Upg_Terran_Vehicle_Weapons],
      [Upg_Terran_Infantry_Weapons], [Upg_Terran_Vehicle_Weapons], [Upg_Terran_Infantry_Weapons],
      [], [], [], [], [], [], [], [], [], [], [], [], [], [], [], [], [], [], [], []]"

definition upgradesWhat_table :: "int list list" where
  "upgradesWhat_table =
     [
      [], [], [], [], [], [], [], [], [], [], [], [], [], [], [], [], [], [], [], [], [], [], [],
      [], [], [], [], [], [], [], [], [], [], [], [], [], [], [], [], [], [], [], [], [], [], [],
      [], [], [], [], [], [], [], [], [], [], [], [], [], [], [], [], [], [], [], [], [], [], [],
      [], [], [], [], [], [], [], [], [], [], [], [], [], [], [], [], [], [], [], [], [], [], [],
      [], [], [], [], [], [], [], [], [], [], [], [], [], [], [], [], [], [], [], [],
      [Upg_U_238_Shells, Upg_Caduceus_Reactor], [], [], [Upg_Apollo_Reactor], [Upg_Titan_Reactor],
      [Upg_Ocular_Implants, Upg_Moebius_Reactor], [Upg_Colossus_Reactor], [],
      [Upg_Ion_Thrusters, Upg_Charon_Boosters], [],
      [Upg_Terran_Infantry_Armor, Upg_Terran_Infantry_Weapons],
      [Upg_Terran_Vehicle_Plating, Upg_Terran_Vehicle_Weapons, Upg_Terran_Ship_Plating, Upg_Terran_Ship_Weapons],
      [], [], [], [], [], [], [], [], [Upg_Ventral_Sacs, Upg_Antennae, Upg_Pneumatized_Carapace],
      [Upg_Ventral_Sacs, Upg_Antennae, Upg_Pneumatized_Carapace], [],
      [Upg_Muscular_Augments, Upg_Grooved_Spines], [Upg_Metasynaptic_Node],
      [Upg_Zerg_Flyer_Attacks, Upg_Zerg_Flyer_Carapace], [Upg_Gamete_Meiosis],
      [Upg_Zerg_Melee_Attacks, Upg_Zerg_Missile_Attacks, Upg_Zerg_Carapace],
      [Upg_Anabolic_Synthesis, Upg_Chitinous_Plating],
      [Upg_Zerg_Flyer_Attacks, Upg_Zerg_Flyer_Carapace],
      [Upg_Metabolic_Boost, Upg_Adrenal_Glands], [], [], [], [], [], [], [], [], [], [], [], [],
      [], [], [], [], [Upg_Sensor_Array, Upg_Gravitic_Boosters], [], [], [],
      [Upg_Leg_Enhancements],
      [Upg_Protoss_Air_Armor, Upg_Protoss_Air_Weapons, Upg_Singularity_Charge],
      [Upg_Khaydarin_Amulet, Upg_Argus_Talisman],
      [Upg_Protoss_Ground_Armor, Upg_Protoss_Ground_Weapons, Upg_Protoss_Plasma_Shields], [], [],
      [Upg_Carrier_Capacity, Upg_Apial_Sensors, Upg_Gravitic_Thrusters, Upg_Argus_Jewel],
      [Upg_Khaydarin_Core], [Upg_Scarab_Damage, Upg_Reaver_Capacity, Upg_Gravitic_Drive], [], [],
      [], [], [], [], [], [], [], [], [], [], [], [], [], [], [], [], [], [], [], [], [], [], [],
      [], [], [], [], [], [], [], [], [], [], [], [], [], [], [], [], [], [], [], [], [], [], [],
      [], [], [], [], [], [], [], [], [], [], [], [], [], []]"

definition unitTechs :: "int list list" where
  "unitTechs =
     [
      [Tech_Stim_Packs], [Tech_Lockdown, Tech_Personnel_Cloaking, Tech_Nuclear_Strike],
      [Tech_Spider_Mines], [], [], [Tech_Tank_Siege_Mode], [], [], [Tech_Cloaking_Field],
      [Tech_EMP_Shockwave, Tech_Defensive_Matrix, Tech_Irradiate], [Tech_Stim_Packs], [],
      [Tech_Yamato_Gun], [], [], [], [Tech_Lockdown, Tech_Personnel_Cloaking], [], [],
      [Tech_Spider_Mines], [Tech_Stim_Packs], [Tech_Cloaking_Field],
      [Tech_EMP_Shockwave, Tech_Defensive_Matrix, Tech_Irradiate], [Tech_Tank_Siege_Mode], [],
      [Tech_Tank_Siege_Mode], [], [], [Tech_Yamato_Gun], [Tech_Yamato_Gun],
      [Tech_Tank_Siege_Mode], [], [Tech_Stim_Packs], [],
      [Tech_Restoration, Tech_Optical_Flare, Tech_Healing], [], [], [Tech_Burrowing],
      [Tech_Burrowing], [], [], [Tech_Burrowing], [], [], [],
      [Tech_Infestation, Tech_Spawn_Broodlings, Tech_Ensnare, Tech_Parasite],
      [Tech_Burrowing, Tech_Dark_Swarm, Tech_Plague, Tech_Consume], [], [],
      [Tech_Infestation, Tech_Spawn_Broodlings, Tech_Ensnare, Tech_Parasite], [Tech_Burrowing],
      [Tech_Personnel_Cloaking, Tech_Ensnare, Tech_Psionic_Storm, Tech_Consume],
      [Tech_Burrowing, Tech_Dark_Swarm, Tech_Plague, Tech_Consume], [Tech_Burrowing],
      [Tech_Burrowing], [], [], [], [], [], [Tech_Disruption_Web], [Tech_Dark_Archon_Meld], [],
      [Tech_Mind_Control, Tech_Feedback, Tech_Maelstrom], [], [], [],
      [Tech_Psionic_Storm, Tech_Hallucination, Tech_Archon_Warp], [], [], [],
      [Tech_Recall, Tech_Stasis_Field], [], [], [], [], [], [], [],
      [Tech_Psionic_Storm, Tech_Hallucination], [], [], [], [], [], [],
      [Tech_Recall, Tech_Stasis_Field], [], [], [], [], [], [], [], [], [], [], [],
      [Tech_Disruption_Web], [Tech_Lockdown, Tech_Personnel_Cloaking],
      [Tech_Lockdown, Tech_Personnel_Cloaking], [], [Tech_Yamato_Gun], [Tech_Burrowing],
      [Tech_Lockdown, Tech_Personnel_Cloaking, Tech_Consume], [], [], [Tech_Scanner_Sweep], [],
      [], [], [], [], [], [], [], [], [], [], [], [], [], [], [], [], [], [], [], [], [], [], [],
      [], [], [], [], [], [], [], [], [], [], [], [], [], [], [], [], [], [], [], [], [], [], [],
      [], [], [], [], [], [], [], [], [], [], [], [], [], [], [], [], [], [], [], [], [], [], [],
      [], [], [], [], [], [], [], [], [], [], [], [], [], [], [], [], [], [], [], [], [], [], [],
      [], [], [], [], [], [], [], [], [], [], [], [], [], [], [], [], [], [], [], [], [], [], [],
      [], [], [], [], [], [], [], [], [], []]"

definition researchesWhat_table :: "int list list" where
  "researchesWhat_table =
     [
      [], [], [], [], [], [], [], [], [], [], [], [], [], [], [], [], [], [], [], [], [], [], [],
      [], [], [], [], [], [], [], [], [], [], [], [], [], [], [], [], [], [], [], [], [], [], [],
      [], [], [], [], [], [], [], [], [], [], [], [], [], [], [], [], [], [], [], [], [], [], [],
      [], [], [], [], [], [], [], [], [], [], [], [], [], [], [], [], [], [], [], [], [], [], [],
      [], [], [], [], [], [], [], [], [], [], [], [], [], [], [], [], [], [], [], [],
      [Tech_Stim_Packs, Tech_Restoration, Tech_Optical_Flare], [], [], [Tech_Cloaking_Field],
      [Tech_EMP_Shockwave, Tech_Irradiate], [Tech_Personnel_Cloaking, Tech_Lockdown],
      [Tech_Yamato_Gun], [], [Tech_Tank_Siege_Mode, Tech_Spider_Mines], [], [], [], [], [], [],
      [], [], [], [], [Tech_Burrowing], [Tech_Burrowing], [Tech_Burrowing], [],
      [Tech_Lurker_Aspect], [Tech_Consume, Tech_Plague], [],
      [Tech_Ensnare, Tech_Spawn_Broodlings], [], [], [], [], [], [], [], [], [], [], [], [], [],
      [], [], [], [], [], [], [], [], [], [], [], [], [],
      [Tech_Psionic_Storm, Tech_Hallucination, Tech_Maelstrom, Tech_Mind_Control], [], [], [],
      [Tech_Disruption_Web], [Tech_Stasis_Field, Tech_Recall], [], [], [], [], [], [], [], [], [],
      [], [], [], [], [], [], [], [], [], [], [], [], [], [], [], [], [], [], [], [], [], [], [],
      [], [], [], [], [], [], [], [], [], [], [], [], [], [], [], [], [], [], [], [], [], [], [],
      [], [], [], [], [], [], [], []]"

section \<open>Accessors\<close>

definition getRaceType :: "int \<Rightarrow> int" where
  "getRaceType t = unitRaces ! nat t"

definition whatBuilds :: "int \<Rightarrow> int \<times> int" where
  "whatBuilds t = 
     (let type = whatBuilds_table ! nat t;
          count = (if type = UnitType_None then 0
                   else if t = Protoss_Archon \<or> t = Protoss_Dark_Archon then 2 else 1)
      in (type, count))"

text \<open>The assignments \<open>req[t][r] = n\<close> of \<open>reqUnitsInit\<close>, in order.\<close>

definition reqUnitsInit_entries :: "(int \<times> int \<times> int) list" where
  "reqUnitsInit_entries =
     [
      (Terran_Ghost, Terran_Academy, 1), (Terran_Ghost, Terran_Covert_Ops, 1),
      (Terran_Goliath, Terran_Armory, 1), (Terran_Siege_Tank_Tank_Mode, Terran_Machine_Shop, 1),
      (Terran_Science_Vessel, Terran_Control_Tower, 1),
      (Terran_Science_Vessel, Terran_Science_Facility, 1),
      (Terran_Dropship, Terran_Control_Tower, 1), (Terran_Battlecruiser, Terran_Control_Tower, 1),
      (Terran_Battlecruiser, Terran_Physics_Lab, 1),
      (Terran_Siege_Tank_Siege_Mode, Terran_Machine_Shop, 1), (Terran_Firebat, Terran_Academy, 1),
      (Terran_Medic, Terran_Academy, 1), (Zerg_Zergling, Zerg_Spawning_Pool, 1),
      (Zerg_Hydralisk, Zerg_Hydralisk_Den, 1), (Zerg_Ultralisk, Zerg_Ultralisk_Cavern, 1),
      (Zerg_Mutalisk, Zerg_Spire, 1), (Zerg_Guardian, Zerg_Greater_Spire, 1),
      (Zerg_Queen, Zerg_Queens_Nest, 1), (Zerg_Defiler, Zerg_Defiler_Mound, 1),
      (Zerg_Scourge, Zerg_Spire, 1), (Terran_Valkyrie, Terran_Control_Tower, 1),
      (Terran_Valkyrie, Terran_Armory, 1), (Zerg_Cocoon, Zerg_Greater_Spire, 1),
      (Protoss_Dark_Templar, Protoss_Templar_Archives, 1), (Zerg_Devourer, Zerg_Greater_Spire, 1),
      (Protoss_Dragoon, Protoss_Cybernetics_Core, 1),
      (Protoss_High_Templar, Protoss_Templar_Archives, 1),
      (Protoss_Arbiter, Protoss_Arbiter_Tribunal, 1), (Protoss_Carrier, Protoss_Fleet_Beacon, 1),
      (Protoss_Reaver, Protoss_Robotics_Support_Bay, 1),
      (Protoss_Observer, Protoss_Observatory, 1), (Terran_Comsat_Station, Terran_Academy, 1),
      (Terran_Nuclear_Silo, Terran_Science_Facility, 1),
      (Terran_Nuclear_Silo, Terran_Covert_Ops, 1), (Terran_Barracks, Terran_Command_Center, 1),
      (Terran_Academy, Terran_Barracks, 1), (Terran_Factory, Terran_Barracks, 1),
      (Terran_Starport, Terran_Factory, 1), (Terran_Science_Facility, Terran_Starport, 1),
      (Terran_Engineering_Bay, Terran_Command_Center, 1), (Terran_Armory, Terran_Factory, 1),
      (Terran_Missile_Turret, Terran_Engineering_Bay, 1), (Terran_Bunker, Terran_Barracks, 1),
      (Zerg_Lair, Zerg_Spawning_Pool, 1), (Zerg_Hive, Zerg_Queens_Nest, 1),
      (Zerg_Nydus_Canal, Zerg_Hive, 1), (Zerg_Hydralisk_Den, Zerg_Spawning_Pool, 1),
      (Zerg_Defiler_Mound, Zerg_Hive, 1), (Zerg_Queens_Nest, Zerg_Lair, 1),
      (Zerg_Evolution_Chamber, Zerg_Hatchery, 1), (Zerg_Ultralisk_Cavern, Zerg_Hive, 1),
      (Zerg_Spire, Zerg_Lair, 1), (Zerg_Greater_Spire, Zerg_Hive, 1),
      (Zerg_Spawning_Pool, Zerg_Hatchery, 1), (Zerg_Spore_Colony, Zerg_Evolution_Chamber, 1),
      (Zerg_Sunken_Colony, Zerg_Spawning_Pool, 1),
      (Protoss_Robotics_Facility, Protoss_Cybernetics_Core, 1),
      (Protoss_Observatory, Protoss_Robotics_Facility, 1), (Protoss_Gateway, Protoss_Nexus, 1),
      (Protoss_Photon_Cannon, Protoss_Forge, 1),
      (Protoss_Citadel_of_Adun, Protoss_Cybernetics_Core, 1),
      (Protoss_Cybernetics_Core, Protoss_Gateway, 1),
      (Protoss_Templar_Archives, Protoss_Citadel_of_Adun, 1), (Protoss_Forge, Protoss_Nexus, 1),
      (Protoss_Stargate, Protoss_Cybernetics_Core, 1),
      (Protoss_Fleet_Beacon, Protoss_Stargate, 1),
      (Protoss_Arbiter_Tribunal, Protoss_Templar_Archives, 1),
      (Protoss_Arbiter_Tribunal, Protoss_Stargate, 1),
      (Protoss_Robotics_Support_Bay, Protoss_Robotics_Facility, 1),
      (Protoss_Shield_Battery, Protoss_Gateway, 1)]"

definition allUnitTypes :: "int list" where
  "allUnitTypes =
     [
      Terran_Marine, Terran_Ghost, Terran_Vulture, Terran_Goliath, Terran_Siege_Tank_Tank_Mode,
      Terran_SCV, Terran_Wraith, Terran_Science_Vessel, Hero_Gui_Montag, Terran_Dropship,
      Terran_Battlecruiser, Terran_Vulture_Spider_Mine, Terran_Nuclear_Missile, Terran_Civilian,
      Hero_Sarah_Kerrigan, Hero_Alan_Schezar, Hero_Jim_Raynor_Vulture, Hero_Jim_Raynor_Marine,
      Hero_Tom_Kazansky, Hero_Magellan, Hero_Edmund_Duke_Tank_Mode, Hero_Edmund_Duke_Siege_Mode,
      Hero_Arcturus_Mengsk, Hero_Hyperion, Hero_Norad_II, Terran_Siege_Tank_Siege_Mode,
      Terran_Firebat, Spell_Scanner_Sweep, Terran_Medic, Zerg_Larva, Zerg_Egg, Zerg_Zergling,
      Zerg_Hydralisk, Zerg_Ultralisk, Zerg_Broodling, Zerg_Drone, Zerg_Overlord, Zerg_Mutalisk,
      Zerg_Guardian, Zerg_Queen, Zerg_Defiler, Zerg_Scourge, Hero_Torrasque, Hero_Matriarch,
      Zerg_Infested_Terran, Hero_Infested_Kerrigan, Hero_Unclean_One, Hero_Hunter_Killer,
      Hero_Devouring_One, Hero_Kukulza_Mutalisk, Hero_Kukulza_Guardian, Hero_Yggdrasill,
      Terran_Valkyrie, Zerg_Cocoon, Protoss_Corsair, Protoss_Dark_Templar, Zerg_Devourer,
      Protoss_Dark_Archon, Protoss_Probe, Protoss_Zealot, Protoss_Dragoon, Protoss_High_Templar,
      Protoss_Archon, Protoss_Shuttle, Protoss_Scout, Protoss_Arbiter, Protoss_Carrier,
      Protoss_Interceptor, Hero_Dark_Templar, Hero_Zeratul, Hero_Tassadar_Zeratul_Archon,
      Hero_Fenix_Zealot, Hero_Fenix_Dragoon, Hero_Tassadar, Hero_Mojo, Hero_Warbringer,
      Hero_Gantrithor, Protoss_Reaver, Protoss_Observer, Protoss_Scarab, Hero_Danimoth,
      Hero_Aldaris, Hero_Artanis, Critter_Rhynadon, Critter_Bengalaas, Special_Cargo_Ship,
      Special_Mercenary_Gunship, Critter_Scantid, Critter_Kakaru, Critter_Ragnasaur,
      Critter_Ursadon, Zerg_Lurker_Egg, Hero_Raszagal, Hero_Samir_Duran, Hero_Alexei_Stukov,
      Special_Map_Revealer, Hero_Gerard_DuGalle, Zerg_Lurker, Hero_Infested_Duran,
      Spell_Disruption_Web, Terran_Command_Center, Terran_Comsat_Station, Terran_Nuclear_Silo,
      Terran_Supply_Depot, Terran_Refinery, Terran_Barracks, Terran_Academy, Terran_Factory,
      Terran_Starport, Terran_Control_Tower, Terran_Science_Facility, Terran_Covert_Ops,
      Terran_Physics_Lab, Terran_Machine_Shop, Terran_Engineering_Bay, Terran_Armory,
      Terran_Missile_Turret, Terran_Bunker, Special_Crashed_Norad_II, Special_Ion_Cannon,
      Powerup_Uraj_Crystal, Powerup_Khalis_Crystal, Zerg_Infested_Command_Center, Zerg_Hatchery,
      Zerg_Lair, Zerg_Hive, Zerg_Nydus_Canal, Zerg_Hydralisk_Den, Zerg_Defiler_Mound,
      Zerg_Greater_Spire, Zerg_Queens_Nest, Zerg_Evolution_Chamber, Zerg_Ultralisk_Cavern,
      Zerg_Spire, Zerg_Spawning_Pool, Zerg_Creep_Colony, Zerg_Spore_Colony, Zerg_Sunken_Colony,
      Special_Overmind_With_Shell, Special_Overmind, Zerg_Extractor, Special_Mature_Chrysalis,
      Special_Cerebrate, Special_Cerebrate_Daggoth, Protoss_Nexus, Protoss_Robotics_Facility,
      Protoss_Pylon, Protoss_Assimilator, Protoss_Observatory, Protoss_Gateway,
      Protoss_Photon_Cannon, Protoss_Citadel_of_Adun, Protoss_Cybernetics_Core,
      Protoss_Templar_Archives, Protoss_Forge, Protoss_Stargate, Special_Stasis_Cell_Prison,
      Protoss_Fleet_Beacon, Protoss_Arbiter_Tribunal, Protoss_Robotics_Support_Bay,
      Protoss_Shield_Battery, Special_Khaydarin_Crystal_Form, Special_Protoss_Temple,
      Special_XelNaga_Temple, Resource_Mineral_Field, Resource_Mineral_Field_Type_2,
      Resource_Mineral_Field_Type_3, Special_Independant_Starport, Resource_Vespene_Geyser,
      Special_Warp_Gate, Special_Psi_Disrupter, Special_Zerg_Beacon, Special_Terran_Beacon,
      Special_Protoss_Beacon, Special_Zerg_Flag_Beacon, Special_Terran_Flag_Beacon,
      Special_Protoss_Flag_Beacon, Special_Power_Generator, Special_Overmind_Cocoon,
      Spell_Dark_Swarm, Special_Floor_Missile_Trap, Special_Floor_Hatch, Special_Upper_Level_Door,
      Special_Right_Upper_Level_Door, Special_Pit_Door, Special_Right_Pit_Door,
      Special_Floor_Gun_Trap, Special_Wall_Missile_Trap, Special_Wall_Flame_Trap,
      Special_Right_Wall_Missile_Trap, Special_Right_Wall_Flame_Trap, Special_Start_Location,
      Powerup_Flag, Powerup_Young_Chrysalis, Powerup_Psi_Emitter, Powerup_Data_Disk,
      Powerup_Khaydarin_Crystal, Powerup_Mineral_Cluster_Type_1, Powerup_Mineral_Cluster_Type_2,
      Powerup_Protoss_Gas_Orb_Type_1, Powerup_Protoss_Gas_Orb_Type_2, Powerup_Zerg_Gas_Sac_Type_1,
      Powerup_Zerg_Gas_Sac_Type_2, Powerup_Terran_Gas_Tank_Type_1, Powerup_Terran_Gas_Tank_Type_2,
      UnitType_None, UnitType_Unknown]"

text \<open>
  A \<open>std::map<UnitType,int>\<close> as the list of its pairs in ascending order of the key:
  \<open>operator[]\<close> assigns, \<open>insert\<close> keeps an existing key.
\<close>

fun map_assign :: "int \<Rightarrow> int \<Rightarrow> (int \<times> int) list \<Rightarrow> (int \<times> int) list" where
  "map_assign k v [] = [(k, v)]"
| "map_assign k v ((a, b) # m) =
     (if k < a then (k, v) # (a, b) # m else if k = a then (a, v) # m
      else (a, b) # map_assign k v m)"

fun map_insert :: "int \<Rightarrow> int \<Rightarrow> (int \<times> int) list \<Rightarrow> (int \<times> int) list" where
  "map_insert k v [] = [(k, v)]"
| "map_insert k v ((a, b) # m) =
     (if k < a then (k, v) # (a, b) # m else if k = a then (a, b) # m
      else (a, b) # map_insert k v m)"

text \<open>
  Row \<open>t\<close> of \<open>reqUnitsInit\<close>: first the producer, inserted for every type of \<open>allUnitTypes\<close> that
  has one, then the assignments to the row.
\<close>

definition requiredUnits :: "int \<Rightarrow> (int \<times> int) list" where
  "requiredUnits t =
     fold (\<lambda>(u, r, n) m. map_assign r n m)
       (filter (\<lambda>(u, r, n). u = t) reqUnitsInit_entries)
       (if t \<in> set allUnitTypes \<and> fst (whatBuilds t) \<noteq> UnitType_None
        then map_insert (fst (whatBuilds t)) (snd (whatBuilds t)) [] else [])"

definition requiredTech :: "int \<Rightarrow> int" where
  "requiredTech t = (if t = Zerg_Lurker \<or> t = Zerg_Lurker_Egg then Tech_Lurker_Aspect else TechType_None)"

definition cloakingTech :: "int \<Rightarrow> int" where
  "cloakingTech t = 
     (if t \<in> {Terran_Ghost, Hero_Alexei_Stukov, Hero_Infested_Duran, Hero_Infested_Kerrigan,
             Hero_Sarah_Kerrigan, Hero_Samir_Duran} then Tech_Personnel_Cloaking
      else if t \<in> {Terran_Wraith, Hero_Tom_Kazansky} then Tech_Cloaking_Field
      else TechType_None)"

definition abilities :: "int \<Rightarrow> int list" where
  "abilities t = unitTechs ! nat t"

definition upgrades :: "int \<Rightarrow> int list" where
  "upgrades t = upgrades_table ! nat t"

definition armorUpgrade :: "int \<Rightarrow> int" where
  "armorUpgrade t = armorUpgrades ! nat t"

definition Flyer_flag :: u32 where "Flyer_flag = 0x00000004"
definition Worker_flag :: u32 where "Worker_flag = 0x00000008"
definition Subunit_flag :: u32 where "Subunit_flag = 0x00000010"
definition FlyingBuilding_flag :: u32 where "FlyingBuilding_flag = 0x00000020"
definition Hero_flag :: u32 where "Hero_flag = 0x00000040"
definition RegeneratesHP_flag :: u32 where "RegeneratesHP_flag = 0x00000080"
definition AnimatedIdle_flag :: u32 where "AnimatedIdle_flag = 0x00000100"
definition Cloakable_flag :: u32 where "Cloakable_flag = 0x00000200"
definition TwoUnitsIn1Egg_flag :: u32 where "TwoUnitsIn1Egg_flag = 0x00000400"
definition NeutralAccessories_flag :: u32 where "NeutralAccessories_flag = 0x00000800"
definition ResourceDepot_flag :: u32 where "ResourceDepot_flag = 0x00001000"
definition ResourceContainer_flag :: u32 where "ResourceContainer_flag = 0x00002000"
definition RoboticUnit_flag :: u32 where "RoboticUnit_flag = 0x00004000"
definition Detector_flag :: u32 where "Detector_flag = 0x00008000"
definition OrganicUnit_flag :: u32 where "OrganicUnit_flag = 0x00010000"
definition CreepBuilding_flag :: u32 where "CreepBuilding_flag = 0x00020000"
definition Unused_flag :: u32 where "Unused_flag = 0x00040000"
definition RequiresPsi_flag :: u32 where "RequiresPsi_flag = 0x00080000"
definition Burrowable_flag :: u32 where "Burrowable_flag = 0x00100000"
definition Spellcaster_flag :: u32 where "Spellcaster_flag = 0x00200000"
definition PermanentCloak_flag :: u32 where "PermanentCloak_flag = 0x00400000"
definition NPCOrAccessories_flag :: u32 where "NPCOrAccessories_flag = 0x00800000"
definition MorphFromOtherUnit_flag :: u32 where "MorphFromOtherUnit_flag = 0x01000000"
definition LargeUnit_flag :: u32 where "LargeUnit_flag = 0x02000000"
definition HugeUnit_flag :: u32 where "HugeUnit_flag = 0x04000000"
definition AutoAttackAndMove_flag :: u32 where "AutoAttackAndMove_flag = 0x08000000"
definition Attack_flag :: u32 where "Attack_flag = 0x10000000"
definition Invincible_flag :: u32 where "Invincible_flag = 0x20000000"
definition Mechanical_flag :: u32 where "Mechanical_flag = 0x40000000"
definition ProducesUnits_flag :: u32 where "ProducesUnits_flag = 0x80000000"

definition hasFlag :: "int \<Rightarrow> u32 \<Rightarrow> bool" where
  "hasFlag t f \<longleftrightarrow> unitFlags ! nat t AND f \<noteq> 0"

definition canProduce :: "int \<Rightarrow> bool" where
  "canProduce t \<longleftrightarrow> hasFlag t ProducesUnits_flag"

definition type_canMove :: "int \<Rightarrow> bool" where
  "type_canMove t \<longleftrightarrow> hasFlag t AutoAttackAndMove_flag"

definition isFlyer :: "int \<Rightarrow> bool" where
  "isFlyer t \<longleftrightarrow> hasFlag t Flyer_flag"

definition regeneratesHP :: "int \<Rightarrow> bool" where
  "regeneratesHP t \<longleftrightarrow> hasFlag t RegeneratesHP_flag"

definition isSpellcaster :: "int \<Rightarrow> bool" where
  "isSpellcaster t \<longleftrightarrow> hasFlag t Spellcaster_flag"

definition hasPermanentCloak :: "int \<Rightarrow> bool" where
  "hasPermanentCloak t \<longleftrightarrow> hasFlag t PermanentCloak_flag"

definition type_isInvincible :: "int \<Rightarrow> bool" where
  "type_isInvincible t \<longleftrightarrow> hasFlag t Invincible_flag"

definition isOrganic :: "int \<Rightarrow> bool" where
  "isOrganic t \<longleftrightarrow> hasFlag t OrganicUnit_flag"

definition isMechanical :: "int \<Rightarrow> bool" where
  "isMechanical t \<longleftrightarrow> hasFlag t Mechanical_flag"

definition isRobotic :: "int \<Rightarrow> bool" where
  "isRobotic t \<longleftrightarrow> hasFlag t RoboticUnit_flag"

definition isDetector :: "int \<Rightarrow> bool" where
  "isDetector t \<longleftrightarrow> hasFlag t Detector_flag"

definition isResourceContainer :: "int \<Rightarrow> bool" where
  "isResourceContainer t \<longleftrightarrow> hasFlag t ResourceContainer_flag"

definition isResourceDepot :: "int \<Rightarrow> bool" where
  "isResourceDepot t \<longleftrightarrow> hasFlag t ResourceDepot_flag"

definition isWorker :: "int \<Rightarrow> bool" where
  "isWorker t \<longleftrightarrow> hasFlag t Worker_flag"

definition requiresPsi :: "int \<Rightarrow> bool" where
  "requiresPsi t \<longleftrightarrow> hasFlag t RequiresPsi_flag"

definition requiresCreep :: "int \<Rightarrow> bool" where
  "requiresCreep t \<longleftrightarrow> hasFlag t CreepBuilding_flag"

definition isTwoUnitsInOneEgg :: "int \<Rightarrow> bool" where
  "isTwoUnitsInOneEgg t \<longleftrightarrow> hasFlag t TwoUnitsIn1Egg_flag"

definition isBurrowable :: "int \<Rightarrow> bool" where
  "isBurrowable t \<longleftrightarrow> hasFlag t Burrowable_flag"

definition isCloakable :: "int \<Rightarrow> bool" where
  "isCloakable t \<longleftrightarrow> hasFlag t Cloakable_flag"

definition isFlyingBuilding :: "int \<Rightarrow> bool" where
  "isFlyingBuilding t \<longleftrightarrow> hasFlag t FlyingBuilding_flag"

definition maxHitPoints :: "int \<Rightarrow> int" where
  "maxHitPoints t = defaultMaxHP ! nat t"

definition maxShields :: "int \<Rightarrow> int" where
  "maxShields t = defaultMaxSP ! nat t"

definition armor :: "int \<Rightarrow> int" where
  "armor t = defaultArmorAmount ! nat t"

definition mineralPrice :: "int \<Rightarrow> int" where
  "mineralPrice t = defaultOreCost ! nat t"

definition gasPrice :: "int \<Rightarrow> int" where
  "gasPrice t = defaultGasCost ! nat t"

definition buildTime :: "int \<Rightarrow> int" where
  "buildTime t = defaultTimeCost ! nat t"

definition supplyRequired :: "int \<Rightarrow> int" where
  "supplyRequired t = unitSupplyRequired ! nat t"

definition supplyProvided :: "int \<Rightarrow> int" where
  "supplyProvided t = unitSupplyProvided ! nat t"

definition spaceRequired :: "int \<Rightarrow> int" where
  "spaceRequired t = unitSpaceRequired ! nat t"

definition spaceProvided :: "int \<Rightarrow> int" where
  "spaceProvided t = unitSpaceProvided ! nat t"

definition buildScore :: "int \<Rightarrow> int" where
  "buildScore t = unitBuildScore ! nat t"

definition destroyScore :: "int \<Rightarrow> int" where
  "destroyScore t = unitDestroyScore ! nat t"

definition groundWeapon :: "int \<Rightarrow> int" where
  "groundWeapon t = groundWeapons ! nat t"

definition airWeapon :: "int \<Rightarrow> int" where
  "airWeapon t = airWeapons ! nat t"

definition maxGroundHits :: "int \<Rightarrow> int" where
  "maxGroundHits t = groundWeaponHits ! nat t"

definition maxAirHits :: "int \<Rightarrow> int" where
  "maxAirHits t = airWeaponHits ! nat t"

definition acceleration :: "int \<Rightarrow> int" where
  "acceleration t = unitAcceleration ! nat t"

definition haltDistance :: "int \<Rightarrow> int" where
  "haltDistance t = unitHaltDistance ! nat t"

definition turnRadius :: "int \<Rightarrow> int" where
  "turnRadius t = unitTurnRadius ! nat t"

definition sizeType :: "int \<Rightarrow> int" where
  "sizeType t = unitSizes ! nat t"

definition isHero :: "int \<Rightarrow> bool" where
  "isHero t \<longleftrightarrow> hasFlag t Hero_flag \<or> t = Hero_Dark_Templar \<or> t = Terran_Civilian"

definition maxEnergy :: "int \<Rightarrow> int" where
  "maxEnergy t = (if isSpellcaster t then if isHero t then 250 else 200 else 0)"

definition tileWidth :: "int \<Rightarrow> int" where
  "tileWidth t = fst (unitDimensions ! nat t)"

definition tileHeight :: "int \<Rightarrow> int" where
  "tileHeight t = (fst \<circ> snd) (unitDimensions ! nat t)"

definition tileSize :: "int \<Rightarrow> int \<times> int" where
  "tileSize t = (tileWidth t, tileHeight t)"

definition dimensionLeft :: "int \<Rightarrow> int" where
  "dimensionLeft t = (fst \<circ> snd \<circ> snd) (unitDimensions ! nat t)"

definition dimensionUp :: "int \<Rightarrow> int" where
  "dimensionUp t = (fst \<circ> snd \<circ> snd \<circ> snd) (unitDimensions ! nat t)"

definition dimensionRight :: "int \<Rightarrow> int" where
  "dimensionRight t = (fst \<circ> snd \<circ> snd \<circ> snd \<circ> snd) (unitDimensions ! nat t)"

definition dimensionDown :: "int \<Rightarrow> int" where
  "dimensionDown t = (snd \<circ> snd \<circ> snd \<circ> snd \<circ> snd) (unitDimensions ! nat t)"

definition unitWidth :: "int \<Rightarrow> int" where
  "unitWidth t = dimensionLeft t + 1 + dimensionRight t"

definition unitHeight :: "int \<Rightarrow> int" where
  "unitHeight t = dimensionUp t + 1 + dimensionDown t"

definition seekRange :: "int \<Rightarrow> int" where
  "seekRange t = seekRangeTiles ! nat t * 32"

definition sightRange :: "int \<Rightarrow> int" where
  "sightRange t = sightRangeTiles ! nat t * 32"

definition type_canAttack :: "int \<Rightarrow> bool" where
  "type_canAttack t \<longleftrightarrow> 
     (if t \<in> {Protoss_Carrier, Hero_Gantrithor, Protoss_Reaver, Hero_Warbringer, Terran_Nuclear_Missile}
      then True
      else if t = Special_Independant_Starport then False
      else airWeapon t \<noteq> WeaponType_None \<or> groundWeapon t \<noteq> WeaponType_None)"

definition isRefinery :: "int \<Rightarrow> bool" where
  "isRefinery t \<longleftrightarrow> t \<in> {Terran_Refinery, Zerg_Extractor, Protoss_Assimilator}"

definition isPowerup :: "int \<Rightarrow> bool" where
  "isPowerup t \<longleftrightarrow> t = Powerup_Uraj_Crystal \<or> t = Powerup_Khalis_Crystal
     \<or> (t \<ge> Powerup_Flag \<and> t < UnitType_None)"

definition isBeacon :: "int \<Rightarrow> bool" where
  "isBeacon t \<longleftrightarrow> t \<in> {Special_Zerg_Beacon, Special_Terran_Beacon, Special_Protoss_Beacon}"

definition isFlagBeacon :: "int \<Rightarrow> bool" where
  "isFlagBeacon t \<longleftrightarrow> 
     t \<in> {Special_Zerg_Flag_Beacon, Special_Terran_Flag_Beacon, Special_Protoss_Flag_Beacon}"

definition isSpecialBuilding :: "int \<Rightarrow> bool" where
  "isSpecialBuilding t \<longleftrightarrow> isBuilding t \<and> snd (whatBuilds t) = 0 \<and> t \<noteq> Zerg_Infested_Command_Center"

definition isSpell :: "int \<Rightarrow> bool" where
  "isSpell t \<longleftrightarrow> t \<in> {Spell_Dark_Swarm, Spell_Disruption_Web, Spell_Scanner_Sweep}"

definition producesLarva :: "int \<Rightarrow> bool" where
  "producesLarva t \<longleftrightarrow> t \<in> {Zerg_Hatchery, Zerg_Lair, Zerg_Hive}"

definition producesCreep :: "int \<Rightarrow> bool" where
  "producesCreep t \<longleftrightarrow> producesLarva t \<or> t \<in> {Zerg_Creep_Colony, Zerg_Spore_Colony, Zerg_Sunken_Colony}"

definition isMineralField :: "int \<Rightarrow> bool" where
  "isMineralField t \<longleftrightarrow> 
     t \<in> {Resource_Mineral_Field, Resource_Mineral_Field_Type_2, Resource_Mineral_Field_Type_3}"

definition isCritter :: "int \<Rightarrow> bool" where
  "isCritter t \<longleftrightarrow> 
     t \<in> {Critter_Bengalaas, Critter_Kakaru, Critter_Ragnasaur, Critter_Rhynadon, Critter_Scantid,
          Critter_Ursadon}"

definition type_isNeutral :: "int \<Rightarrow> bool" where
  "type_isNeutral t \<longleftrightarrow> getRaceType t = Race_None \<and> (isCritter t \<or> isResourceContainer t \<or> isSpell t)"

definition type_canBuildAddon :: "int \<Rightarrow> bool" where
  "type_canBuildAddon t \<longleftrightarrow> t \<in> {Terran_Command_Center, Terran_Factory, Terran_Starport, Terran_Science_Facility}"

definition buildsWhat :: "int \<Rightarrow> int list" where
  "buildsWhat t = buildsWhat_table ! nat t"

definition researchesWhat :: "int \<Rightarrow> int list" where
  "researchesWhat t = researchesWhat_table ! nat t"

definition upgradesWhat :: "int \<Rightarrow> int list" where
  "upgradesWhat t = upgradesWhat_table ! nat t"

definition maxUnitWidth :: int where
  "maxUnitWidth = Max (unitWidth ` set allUnitTypes)"

definition maxUnitHeight :: int where
  "maxUnitHeight = Max (unitHeight ` set allUnitTypes)"

definition isSuccessorOf :: "int \<Rightarrow> int \<Rightarrow> bool" where
  "isSuccessorOf t type \<longleftrightarrow>
     (if t = type then True
      else if type = Zerg_Hatchery then t = Zerg_Lair \<or> t = Zerg_Hive
      else if type = Zerg_Lair then t = Zerg_Hive
      else if type = Zerg_Spire then t = Zerg_Greater_Spire
      else False)"

end
