(* ===== verification/Tech_Types.thy ===== *)
theory Tech_Types
  imports Unit_Types
begin

text \<open>
  The technologies, upgrades and weapons of the client library (\<open>TechType.cpp\<close>,
  \<open>UpgradeType.cpp\<close>, \<open>WeaponType.cpp\<close>): their tables and accessors. An array with fewer
  initializers than entries is filled up with zeros, as in C++.
\<close>

section \<open>Technologies\<close>

definition tech_defaultOreCost :: "int list" where
  "tech_defaultOreCost =
     [
      100, 200, 200, 100, 0, 150, 0, 200, 100, 150, 100, 100, 0, 100, 0, 200, 100, 100, 0, 200,
      150, 150, 150, 0, 100, 200, 0, 200, 0, 100, 100, 100, 200, 0, 0, 0, 0, 0, 0, 0, 0, 0, 0, 0,
      0, 0, 0]"

definition tech_defaultTimeCost :: "int list" where
  "tech_defaultTimeCost =
     [
      1200, 1500, 1800, 1200, 0, 1200, 0, 1200, 1800, 1500, 1200, 1200, 0, 1200, 0, 1500, 1500,
      1200, 0, 1800, 1200, 1800, 1500, 0, 1200, 1200, 0, 1800, 0, 1800, 1800, 1500, 1800, 0, 0, 0,
      0, 0, 0, 0, 0, 0, 0, 0, 0, 0, 0]"

definition tech_defaultEnergyCost :: "int list" where
  "tech_defaultEnergyCost =
     [
      0, 100, 100, 0, 50, 0, 100, 75, 150, 25, 25, 0, 0, 150, 100, 150, 0, 75, 75, 75, 100, 150,
      100, 0, 50, 125, 0, 150, 0, 50, 75, 100, 0, 0, 1, 0, 0, 0, 0, 0, 0, 0, 0, 0, 0, 0, 0]"

definition tech_whatResearches :: "int list" where
  "tech_whatResearches =
     [
      Terran_Academy, Terran_Covert_Ops, Terran_Science_Facility, Terran_Machine_Shop,
      UnitType_None, Terran_Machine_Shop, UnitType_None, Terran_Science_Facility,
      Terran_Physics_Lab, Terran_Control_Tower, Terran_Covert_Ops, Zerg_Hatchery, UnitType_None,
      Zerg_Queens_Nest, UnitType_None, Zerg_Defiler_Mound, Zerg_Defiler_Mound, Zerg_Queens_Nest,
      UnitType_None, Protoss_Templar_Archives, Protoss_Templar_Archives, Protoss_Arbiter_Tribunal,
      Protoss_Arbiter_Tribunal, UnitType_None, Terran_Academy, Protoss_Fleet_Beacon,
      UnitType_None, Protoss_Templar_Archives, UnitType_None, UnitType_None, Terran_Academy,
      Protoss_Templar_Archives, Zerg_Hydralisk_Den, UnitType_None, UnitType_None, UnitType_None,
      UnitType_None, UnitType_None, UnitType_None, UnitType_None, UnitType_None, UnitType_None,
      UnitType_None, UnitType_None, UnitType_None, UnitType_None, UnitType_Unknown]"

definition techRaces :: "int list" where
  "techRaces =
     [
      Race_Terran, Race_Terran, Race_Terran, Race_Terran, Race_Terran, Race_Terran, Race_Terran,
      Race_Terran, Race_Terran, Race_Terran, Race_Terran, Race_Zerg, Race_Zerg, Race_Zerg,
      Race_Zerg, Race_Zerg, Race_Zerg, Race_Zerg, Race_Zerg, Race_Protoss, Race_Protoss,
      Race_Protoss, Race_Protoss, Race_Protoss, Race_Terran, Race_Protoss, Race_None,
      Race_Protoss, Race_Protoss, Race_Protoss, Race_Terran, Race_Protoss, Race_Zerg, Race_None,
      Race_Terran, Race_None, Race_None, Race_None, Race_None, Race_None, Race_None, Race_None,
      Race_None, Race_None, Race_None, Race_Terran, Race_Unknown]"

definition techWeapons :: "int list" where
  "techWeapons =
     [
      WeaponType_None, Wpn_Lockdown, Wpn_EMP_Shockwave, Wpn_Spider_Mines, WeaponType_None,
      WeaponType_None, WeaponType_None, Wpn_Irradiate, Wpn_Yamato_Gun, WeaponType_None,
      WeaponType_None, WeaponType_None, WeaponType_None, Wpn_Spawn_Broodlings, Wpn_Dark_Swarm,
      Wpn_Plague, Wpn_Consume, Wpn_Ensnare, Wpn_Parasite, Wpn_Psionic_Storm, WeaponType_None,
      WeaponType_None, Wpn_Stasis_Field, WeaponType_None, Wpn_Restoration, Wpn_Disruption_Web,
      WeaponType_None, Wpn_Mind_Control, WeaponType_None, Wpn_Feedback, Wpn_Optical_Flare,
      Wpn_Maelstrom, WeaponType_None, WeaponType_None, WeaponType_None, WeaponType_None,
      WeaponType_None, WeaponType_None, WeaponType_None, WeaponType_None, WeaponType_None,
      WeaponType_None, WeaponType_None, WeaponType_None, WeaponType_None, Wpn_Nuclear_Strike,
      WeaponType_Unknown]"

text \<open>\<open>TARG_UNIT\<close> is 1, \<open>TARG_POS\<close> is 2, \<open>TARG_BOTH\<close> is 3.\<close>

definition techTypeFlags :: "u32 list" where
  "techTypeFlags =
     [
      0, 1, 3, 2, 3, 0, 1, 1, 1, 0, 0, 0, 1, 1, 3, 3, 1, 3, 1, 3, 1, 3, 3, 1, 1, 3, 0, 1, 1, 1, 1,
      3, 0, 0, 3, 0, 0, 0, 0, 0, 0, 0, 0, 0, 0, 3, 0]"

definition techWhatUses :: "int list list" where
  "techWhatUses =
     [
      [Terran_Marine, Terran_Firebat, Hero_Jim_Raynor_Marine, Hero_Gui_Montag],
      [Terran_Ghost, Hero_Alexei_Stukov, Hero_Infested_Duran, Hero_Samir_Duran, Hero_Sarah_Kerrigan],
      [Terran_Science_Vessel, Hero_Magellan], [Terran_Vulture, Hero_Jim_Raynor_Vulture],
      [Terran_Comsat_Station],
      [Terran_Siege_Tank_Tank_Mode, Terran_Siege_Tank_Siege_Mode, Hero_Edmund_Duke_Tank_Mode, Hero_Edmund_Duke_Siege_Mode],
      [Terran_Science_Vessel, Hero_Magellan], [Terran_Science_Vessel, Hero_Magellan],
      [Terran_Battlecruiser, Hero_Gerard_DuGalle, Hero_Hyperion, Hero_Norad_II],
      [Terran_Wraith, Hero_Tom_Kazansky],
      [Terran_Ghost, Hero_Alexei_Stukov, Hero_Infested_Duran, Hero_Samir_Duran, Hero_Sarah_Kerrigan, Hero_Infested_Kerrigan],
      [Zerg_Zergling, Zerg_Hydralisk, Zerg_Drone, Zerg_Defiler, Zerg_Infested_Terran, Hero_Unclean_One, Hero_Hunter_Killer, Hero_Devouring_One, Zerg_Lurker],
      [Zerg_Queen, Hero_Matriarch], [Zerg_Queen, Hero_Matriarch],
      [Zerg_Defiler, Hero_Unclean_One], [Zerg_Defiler, Hero_Unclean_One],
      [Zerg_Defiler, Hero_Unclean_One, Hero_Infested_Kerrigan, Hero_Infested_Duran],
      [Zerg_Queen, Hero_Matriarch, Hero_Infested_Kerrigan], [Zerg_Queen, Hero_Matriarch],
      [Protoss_High_Templar, Hero_Tassadar, Hero_Infested_Kerrigan],
      [Protoss_High_Templar, Hero_Tassadar], [Protoss_Arbiter, Hero_Danimoth],
      [Protoss_Arbiter, Hero_Danimoth], [Protoss_High_Templar], [Terran_Medic],
      [Protoss_Corsair, Hero_Raszagal], [], [Protoss_Dark_Archon], [Protoss_Dark_Templar],
      [Protoss_Dark_Archon], [Terran_Medic], [Protoss_Dark_Archon], [Zerg_Hydralisk], [],
      [Terran_Medic], [], [], [], [], [], [], [], [], [], [], [Terran_Ghost], []]"

definition tech_race :: "int \<Rightarrow> int" where
  "tech_race t = techRaces ! nat t"

definition tech_mineralPrice :: "int \<Rightarrow> int" where
  "tech_mineralPrice t = tech_defaultOreCost ! nat t"

definition tech_gasPrice :: "int \<Rightarrow> int" where
  "tech_gasPrice t = tech_mineralPrice t"

definition researchTime :: "int \<Rightarrow> int" where
  "researchTime t = tech_defaultTimeCost ! nat t"

definition energyCost :: "int \<Rightarrow> int" where
  "energyCost t = tech_defaultEnergyCost ! nat t"

definition whatResearches :: "int \<Rightarrow> int" where
  "whatResearches t = tech_whatResearches ! nat t"

definition tech_weapon :: "int \<Rightarrow> int" where
  "tech_weapon t = techWeapons ! nat t"

definition targetsUnit :: "int \<Rightarrow> bool" where
  "targetsUnit t \<longleftrightarrow> techTypeFlags ! nat t AND 1 \<noteq> 0"

definition targetsPosition :: "int \<Rightarrow> bool" where
  "targetsPosition t \<longleftrightarrow> techTypeFlags ! nat t AND 2 \<noteq> 0"

definition tech_whatUses :: "int \<Rightarrow> int list" where
  "tech_whatUses t = techWhatUses ! nat t"

definition tech_requiredUnit :: "int \<Rightarrow> int" where
  "tech_requiredUnit t = (if t = Tech_Lurker_Aspect then Zerg_Lair else UnitType_None)"

section \<open>Upgrades\<close>

definition upgrade_defaultOreCostBase :: "int list" where
  "upgrade_defaultOreCostBase =
     [
      100, 100, 150, 150, 150, 100, 150, 100, 100, 100, 100, 100, 100, 100, 100, 200, 150, 100,
      200, 150, 100, 150, 200, 150, 200, 150, 150, 100, 200, 150, 150, 150, 150, 150, 150, 200,
      200, 200, 150, 150, 150, 100, 200, 100, 150, 0, 0, 100, 100, 150, 150, 150, 150, 200, 100,
      0, 0, 0, 0, 0, 0, 0, 0]"

definition upgrade_defaultOreCostFactor :: "int list" where
  "upgrade_defaultOreCostFactor =
     [
      75, 75, 75, 75, 75, 75, 75, 75, 75, 50, 50, 50, 75, 50, 75, 100, 0, 0, 0, 0, 0, 0, 0, 0, 0,
      0, 0, 0, 0, 0, 0, 0, 0, 0, 0, 0, 0, 0, 0, 0, 0, 0, 0, 0, 0, 0, 0, 0, 0, 0, 0, 0, 0, 0, 0, 0,
      0, 0, 0, 0, 0, 0, 0]"

definition upgrade_defaultTimeCostBase :: "int list" where
  "upgrade_defaultTimeCostBase =
     [
      4000, 4000, 4000, 4000, 4000, 4000, 4000, 4000, 4000, 4000, 4000, 4000, 4000, 4000, 4000,
      4000, 1500, 1500, 0, 2500, 2500, 2500, 2500, 2500, 2400, 2000, 2000, 1500, 1500, 1500, 1500,
      2500, 2500, 2500, 2000, 2500, 2500, 2500, 2000, 2000, 2500, 2500, 2500, 1500, 2500, 0, 0,
      2500, 2500, 2500, 2500, 2500, 2000, 2000, 2000, 0, 0, 0, 0, 0, 0, 0, 0]"

definition upgrade_defaultTimeCostFactor :: "int list" where
  "upgrade_defaultTimeCostFactor =
     [
      480, 480, 480, 480, 480, 480, 480, 480, 480, 480, 480, 480, 480, 480, 480, 480, 0, 0, 0, 0,
      0, 0, 0, 0, 0, 0, 0, 0, 0, 0, 0, 0, 0, 0, 0, 0, 0, 0, 0, 0, 0, 0, 0, 0, 0, 0, 0, 0, 0, 0, 0,
      0, 0, 0, 0, 0, 0, 0, 0, 0, 0, 0, 0]"

definition upgrade_defaultMaxRepeats :: "int list" where
  "upgrade_defaultMaxRepeats =
     [
      3, 3, 3, 3, 3, 3, 3, 3, 3, 3, 3, 3, 3, 3, 3, 3, 1, 1, 0, 1, 1, 1, 1, 1, 1, 1, 1, 1, 1, 1, 1,
      1, 1, 1, 1, 1, 1, 1, 1, 1, 1, 1, 1, 1, 1, 0, 0, 1, 0, 1, 0, 1, 1, 1, 1, 0, 0, 0, 0, 0, 0, 0,
      0]"

definition upgrade_whatUpgrades :: "int list" where
  "upgrade_whatUpgrades =
     [
      Terran_Engineering_Bay, Terran_Armory, Terran_Armory, Zerg_Evolution_Chamber, Zerg_Spire,
      Protoss_Forge, Protoss_Cybernetics_Core, Terran_Engineering_Bay, Terran_Armory,
      Terran_Armory, Zerg_Evolution_Chamber, Zerg_Evolution_Chamber, Zerg_Spire, Protoss_Forge,
      Protoss_Cybernetics_Core, Protoss_Forge, Terran_Academy, Terran_Machine_Shop, UnitType_None,
      Terran_Science_Facility, Terran_Covert_Ops, Terran_Covert_Ops, Terran_Control_Tower,
      Terran_Physics_Lab, Zerg_Lair, Zerg_Lair, Zerg_Lair, Zerg_Spawning_Pool, Zerg_Spawning_Pool,
      Zerg_Hydralisk_Den, Zerg_Hydralisk_Den, Zerg_Queens_Nest, Zerg_Defiler_Mound,
      Protoss_Cybernetics_Core, Protoss_Citadel_of_Adun, Protoss_Robotics_Support_Bay,
      Protoss_Robotics_Support_Bay, Protoss_Robotics_Support_Bay, Protoss_Observatory,
      Protoss_Observatory, Protoss_Templar_Archives, Protoss_Fleet_Beacon, Protoss_Fleet_Beacon,
      Protoss_Fleet_Beacon, Protoss_Arbiter_Tribunal, UnitType_None, UnitType_None,
      Protoss_Fleet_Beacon, UnitType_None, Protoss_Templar_Archives, UnitType_None,
      Terran_Academy, Zerg_Ultralisk_Cavern, Zerg_Ultralisk_Cavern, Terran_Machine_Shop,
      UnitType_None, UnitType_None, UnitType_None, UnitType_None, UnitType_None, UnitType_None,
      UnitType_None, UnitType_None]"

definition upgrade_requirements_1 :: "int list" where
  "upgrade_requirements_1 =
     [
      UnitType_None, UnitType_None, UnitType_None, UnitType_None, UnitType_None, UnitType_None,
      UnitType_None, UnitType_None, UnitType_None, UnitType_None, UnitType_None, UnitType_None,
      UnitType_None, UnitType_None, UnitType_None, UnitType_None, UnitType_None, UnitType_None,
      UnitType_None, UnitType_None, UnitType_None, UnitType_None, UnitType_None, UnitType_None,
      UnitType_None, UnitType_None, UnitType_None, UnitType_None, Zerg_Hive, UnitType_None,
      UnitType_None, UnitType_None, UnitType_None, UnitType_None, UnitType_None, UnitType_None,
      UnitType_None, UnitType_None, UnitType_None, UnitType_None, UnitType_None, UnitType_None,
      UnitType_None, UnitType_None, UnitType_None, UnitType_None, UnitType_None, UnitType_None,
      UnitType_None, UnitType_None, UnitType_None, UnitType_None, UnitType_None, UnitType_None,
      Terran_Armory, UnitType_None, UnitType_None, UnitType_None, UnitType_None, UnitType_None,
      UnitType_None, UnitType_None, UnitType_None]"

definition upgrade_requirements_2 :: "int list" where
  "upgrade_requirements_2 =
     [
      Terran_Science_Facility, Terran_Science_Facility, Terran_Science_Facility, Zerg_Lair,
      Zerg_Lair, Protoss_Templar_Archives, Protoss_Fleet_Beacon, Terran_Science_Facility,
      Terran_Science_Facility, Terran_Science_Facility, Zerg_Lair, Zerg_Lair, Zerg_Lair,
      Protoss_Templar_Archives, Protoss_Fleet_Beacon, Protoss_Cybernetics_Core, UnitType_None,
      UnitType_None, UnitType_None, UnitType_None, UnitType_None, UnitType_None, UnitType_None,
      UnitType_None, UnitType_None, UnitType_None, UnitType_None, UnitType_None, UnitType_None,
      UnitType_None, UnitType_None, UnitType_None, UnitType_None, UnitType_None, UnitType_None,
      UnitType_None, UnitType_None, UnitType_None, UnitType_None, UnitType_None, UnitType_None,
      UnitType_None, UnitType_None, UnitType_None, UnitType_None, UnitType_None, UnitType_None,
      UnitType_None, UnitType_None, UnitType_None, UnitType_None, UnitType_None, UnitType_None,
      UnitType_None, UnitType_None, UnitType_None, UnitType_None, UnitType_None, UnitType_None,
      UnitType_None, UnitType_None, UnitType_None, UnitType_None]"

definition upgrade_requirements_3 :: "int list" where
  "upgrade_requirements_3 =
     [
      Terran_Science_Facility, Terran_Science_Facility, Terran_Science_Facility, Zerg_Hive,
      Zerg_Hive, Protoss_Templar_Archives, Protoss_Fleet_Beacon, Terran_Science_Facility,
      Terran_Science_Facility, Terran_Science_Facility, Zerg_Hive, Zerg_Hive, Zerg_Hive,
      Protoss_Templar_Archives, Protoss_Fleet_Beacon, Protoss_Cybernetics_Core, UnitType_None,
      UnitType_None, UnitType_None, UnitType_None, UnitType_None, UnitType_None, UnitType_None,
      UnitType_None, UnitType_None, UnitType_None, UnitType_None, UnitType_None, UnitType_None,
      UnitType_None, UnitType_None, UnitType_None, UnitType_None, UnitType_None, UnitType_None,
      UnitType_None, UnitType_None, UnitType_None, UnitType_None, UnitType_None, UnitType_None,
      UnitType_None, UnitType_None, UnitType_None, UnitType_None, UnitType_None, UnitType_None,
      UnitType_None, UnitType_None, UnitType_None, UnitType_None, UnitType_None, UnitType_None,
      UnitType_None, UnitType_None, UnitType_None, UnitType_None, UnitType_None, UnitType_None,
      UnitType_None, UnitType_None, UnitType_None, UnitType_None]"

definition upgrade_requirements :: "int list list" where
  "upgrade_requirements = [upgrade_requirements_1, upgrade_requirements_2, upgrade_requirements_3]"

definition uses_Infantry_Armor :: "int list" where
  "uses_Infantry_Armor =
     [
      Terran_Marine, Terran_Ghost, Terran_SCV, Hero_Gui_Montag, Terran_Civilian,
      Hero_Sarah_Kerrigan, Hero_Jim_Raynor_Marine, Terran_Firebat, Terran_Medic, Hero_Samir_Duran,
      Hero_Alexei_Stukov]"

definition uses_Vehicle_Plating :: "int list" where
  "uses_Vehicle_Plating =
     [
      Terran_Vulture, Terran_Goliath, Terran_Siege_Tank_Tank_Mode, Hero_Alan_Schezar,
      Hero_Jim_Raynor_Vulture, Hero_Edmund_Duke_Tank_Mode, Hero_Edmund_Duke_Siege_Mode,
      Terran_Siege_Tank_Siege_Mode]"

definition uses_Ship_Plating :: "int list" where
  "uses_Ship_Plating =
     [
      Terran_Wraith, Terran_Science_Vessel, Terran_Dropship, Terran_Battlecruiser,
      Hero_Tom_Kazansky, Hero_Magellan, Hero_Arcturus_Mengsk, Hero_Hyperion, Hero_Norad_II,
      Terran_Valkyrie, Hero_Gerard_DuGalle]"

definition uses_Carapace :: "int list" where
  "uses_Carapace =
     [
      Zerg_Larva, Zerg_Egg, Zerg_Zergling, Zerg_Hydralisk, Zerg_Ultralisk, Zerg_Broodling,
      Zerg_Drone, Zerg_Defiler, Hero_Torrasque, Zerg_Infested_Terran, Hero_Infested_Kerrigan,
      Hero_Unclean_One, Hero_Hunter_Killer, Hero_Devouring_One, Zerg_Cocoon, Zerg_Lurker_Egg,
      Zerg_Lurker, Hero_Infested_Duran]"

definition uses_Flyer_Carapace :: "int list" where
  "uses_Flyer_Carapace =
     [
      Zerg_Overlord, Zerg_Mutalisk, Zerg_Guardian, Zerg_Queen, Zerg_Scourge, Hero_Matriarch,
      Hero_Kukulza_Mutalisk, Hero_Kukulza_Guardian, Hero_Yggdrasill, Zerg_Devourer]"

definition uses_Protoss_Armor :: "int list" where
  "uses_Protoss_Armor =
     [
      Protoss_Dark_Templar, Protoss_Dark_Archon, Protoss_Probe, Protoss_Zealot, Protoss_Dragoon,
      Protoss_High_Templar, Protoss_Archon, Hero_Dark_Templar, Hero_Zeratul,
      Hero_Tassadar_Zeratul_Archon, Hero_Fenix_Zealot, Hero_Fenix_Dragoon, Hero_Tassadar,
      Hero_Warbringer, Protoss_Reaver, Hero_Aldaris]"

definition uses_Protoss_Plating :: "int list" where
  "uses_Protoss_Plating =
     [
      Protoss_Corsair, Protoss_Shuttle, Protoss_Scout, Protoss_Arbiter, Protoss_Carrier,
      Protoss_Interceptor, Hero_Mojo, Hero_Gantrithor, Protoss_Observer, Hero_Danimoth,
      Hero_Artanis, Hero_Raszagal]"

definition uses_Infantry_Weapons :: "int list" where
  "uses_Infantry_Weapons =
     [
      Terran_Marine, Hero_Jim_Raynor_Marine, Terran_Ghost, Hero_Sarah_Kerrigan, Terran_Firebat,
      Hero_Gui_Montag, Special_Wall_Flame_Trap, Special_Right_Wall_Flame_Trap, Hero_Samir_Duran,
      Hero_Alexei_Stukov, Hero_Infested_Duran]"

definition uses_Vehicle_Weapons :: "int list" where
  "uses_Vehicle_Weapons =
     [
      Terran_Vulture, Hero_Jim_Raynor_Vulture, Terran_Goliath, Hero_Alan_Schezar,
      Terran_Siege_Tank_Tank_Mode, Terran_Siege_Tank_Siege_Mode, Hero_Edmund_Duke_Tank_Mode,
      Hero_Edmund_Duke_Siege_Mode, Special_Floor_Missile_Trap, Special_Floor_Gun_Trap,
      Special_Wall_Missile_Trap, Special_Right_Wall_Missile_Trap]"

definition uses_Ship_Weapons :: "int list" where
  "uses_Ship_Weapons =
     [
      Terran_Wraith, Hero_Tom_Kazansky, Terran_Battlecruiser, Hero_Hyperion, Hero_Norad_II,
      Hero_Arcturus_Mengsk, Hero_Gerard_DuGalle, Terran_Valkyrie]"

definition uses_Zerg_MeleeAtk :: "int list" where
  "uses_Zerg_MeleeAtk =
     [
      Zerg_Zergling, Hero_Devouring_One, Hero_Infested_Kerrigan, Zerg_Ultralisk, Hero_Torrasque,
      Zerg_Broodling]"

definition uses_Zerg_RangeAtk :: "int list" where
  "uses_Zerg_RangeAtk =
     [
      Zerg_Hydralisk, Hero_Hunter_Killer, Zerg_Lurker]"

definition uses_Zerg_FlyerAtk :: "int list" where
  "uses_Zerg_FlyerAtk =
     [
      Zerg_Mutalisk, Hero_Kukulza_Mutalisk, Hero_Kukulza_Guardian, Zerg_Guardian, Zerg_Devourer]"

definition uses_Protoss_GrndWpn :: "int list" where
  "uses_Protoss_GrndWpn =
     [
      Protoss_Zealot, Hero_Fenix_Zealot, Protoss_Dragoon, Hero_Fenix_Dragoon, Hero_Tassadar,
      Hero_Aldaris, Protoss_Archon, Hero_Tassadar_Zeratul_Archon, Hero_Dark_Templar, Hero_Zeratul,
      Protoss_Dark_Templar]"

definition uses_Protoss_AirWpn :: "int list" where
  "uses_Protoss_AirWpn =
     [
      Protoss_Scout, Hero_Mojo, Protoss_Arbiter, Hero_Danimoth, Protoss_Interceptor,
      Protoss_Carrier, Protoss_Corsair, Hero_Artanis]"

definition uses_Shields :: "int list" where
  "uses_Shields =
     [
      Protoss_Corsair, Protoss_Dark_Templar, Protoss_Dark_Archon, Protoss_Probe, Protoss_Zealot,
      Protoss_Dragoon, Protoss_High_Templar, Protoss_Archon, Protoss_Shuttle, Protoss_Scout,
      Protoss_Arbiter, Protoss_Carrier, Protoss_Interceptor, Hero_Dark_Templar, Hero_Zeratul,
      Hero_Tassadar_Zeratul_Archon, Hero_Fenix_Zealot, Hero_Fenix_Dragoon, Hero_Tassadar,
      Hero_Mojo, Hero_Warbringer, Hero_Gantrithor, Protoss_Reaver, Protoss_Observer,
      Hero_Danimoth, Hero_Aldaris, Hero_Artanis, Hero_Raszagal]"

definition uses_Shells :: "int list" where
  "uses_Shells =
     [
      Terran_Marine]"

definition uses_Ion_Thrusters :: "int list" where
  "uses_Ion_Thrusters =
     [
      Terran_Vulture]"

definition uses_Titan_Reactor :: "int list" where
  "uses_Titan_Reactor =
     [
      Terran_Science_Vessel]"

definition uses_Ghost_Upgrades :: "int list" where
  "uses_Ghost_Upgrades =
     [
      Terran_Ghost]"

definition uses_Apollo_Reactor :: "int list" where
  "uses_Apollo_Reactor =
     [
      Terran_Wraith]"

definition uses_Colossus_Reactor :: "int list" where
  "uses_Colossus_Reactor =
     [
      Terran_Battlecruiser]"

definition uses_Overlord_Upgrades :: "int list" where
  "uses_Overlord_Upgrades =
     [
      Zerg_Overlord]"

definition uses_Zergling_Upgrades :: "int list" where
  "uses_Zergling_Upgrades =
     [
      Zerg_Zergling]"

definition uses_Hydralisk_Upgrades :: "int list" where
  "uses_Hydralisk_Upgrades =
     [
      Zerg_Hydralisk]"

definition uses_Gamete_Meiosis :: "int list" where
  "uses_Gamete_Meiosis =
     [
      Zerg_Queen]"

definition uses_Metasynaptic_Node :: "int list" where
  "uses_Metasynaptic_Node =
     [
      Zerg_Defiler]"

definition uses_Singularity_Charge :: "int list" where
  "uses_Singularity_Charge =
     [
      Protoss_Dragoon]"

definition uses_Leg_Enhancements :: "int list" where
  "uses_Leg_Enhancements =
     [
      Protoss_Zealot]"

definition uses_Reaver_Upgrades :: "int list" where
  "uses_Reaver_Upgrades =
     [
      Protoss_Reaver]"

definition uses_Gravitic_Drive :: "int list" where
  "uses_Gravitic_Drive =
     [
      Protoss_Shuttle]"

definition uses_Observer_Upgrades :: "int list" where
  "uses_Observer_Upgrades =
     [
      Protoss_Observer]"

definition uses_Khaydarin_Amulet :: "int list" where
  "uses_Khaydarin_Amulet =
     [
      Protoss_High_Templar]"

definition uses_Scout_Upgrades :: "int list" where
  "uses_Scout_Upgrades =
     [
      Protoss_Scout]"

definition uses_Carrier_Capacity :: "int list" where
  "uses_Carrier_Capacity =
     [
      Protoss_Carrier]"

definition uses_Khaydarin_Core :: "int list" where
  "uses_Khaydarin_Core =
     [
      Protoss_Arbiter]"

definition uses_Argus_Jewel :: "int list" where
  "uses_Argus_Jewel =
     [
      Protoss_Corsair]"

definition uses_Argus_Talisman :: "int list" where
  "uses_Argus_Talisman =
     [
      Protoss_Dark_Archon]"

definition uses_Caduceus_Reactor :: "int list" where
  "uses_Caduceus_Reactor =
     [
      Terran_Medic]"

definition uses_Ultralisk_Upgrades :: "int list" where
  "uses_Ultralisk_Upgrades =
     [
      Zerg_Ultralisk]"

definition uses_Charon_Boosters :: "int list" where
  "uses_Charon_Boosters =
     [
      Terran_Goliath]"

definition uses_Upgrade60 :: "int list" where
  "uses_Upgrade60 =
     [
      Terran_Vulture_Spider_Mine, Critter_Ursadon, Critter_Scantid, Critter_Rhynadon,
      Critter_Ragnasaur, Critter_Kakaru, Critter_Bengalaas, Special_Cargo_Ship,
      Special_Mercenary_Gunship, Terran_SCV, Protoss_Probe, Zerg_Drone, Zerg_Infested_Terran,
      Zerg_Scourge]"

definition upgradeWhatUses :: "int list list" where
  "upgradeWhatUses =
     [
      uses_Infantry_Armor, uses_Vehicle_Plating, uses_Ship_Plating, uses_Carapace,
      uses_Flyer_Carapace, uses_Protoss_Armor, uses_Protoss_Plating, uses_Infantry_Weapons,
      uses_Vehicle_Weapons, uses_Ship_Weapons, uses_Zerg_MeleeAtk, uses_Zerg_RangeAtk,
      uses_Zerg_FlyerAtk, uses_Protoss_GrndWpn, uses_Protoss_AirWpn, uses_Shields, uses_Shells,
      uses_Ion_Thrusters, [], uses_Titan_Reactor, uses_Ghost_Upgrades, uses_Ghost_Upgrades,
      uses_Apollo_Reactor, uses_Colossus_Reactor, uses_Overlord_Upgrades, uses_Overlord_Upgrades,
      uses_Overlord_Upgrades, uses_Zergling_Upgrades, uses_Zergling_Upgrades,
      uses_Hydralisk_Upgrades, uses_Hydralisk_Upgrades, uses_Gamete_Meiosis,
      uses_Metasynaptic_Node, uses_Singularity_Charge, uses_Leg_Enhancements,
      uses_Reaver_Upgrades, uses_Reaver_Upgrades, uses_Gravitic_Drive, uses_Observer_Upgrades,
      uses_Observer_Upgrades, uses_Khaydarin_Amulet, uses_Scout_Upgrades, uses_Scout_Upgrades,
      uses_Carrier_Capacity, uses_Khaydarin_Core, [], [], uses_Argus_Jewel, [],
      uses_Argus_Talisman, [], uses_Caduceus_Reactor, uses_Ultralisk_Upgrades,
      uses_Ultralisk_Upgrades, uses_Charon_Boosters, [], [], [], [], [], uses_Upgrade60, [], []]"

definition upgradeRaces :: "int list" where
  "upgradeRaces =
     [
      Race_Terran, Race_Terran, Race_Terran, Race_Zerg, Race_Zerg, Race_Protoss, Race_Protoss,
      Race_Terran, Race_Terran, Race_Terran, Race_Zerg, Race_Zerg, Race_Zerg, Race_Protoss,
      Race_Protoss, Race_Protoss, Race_Terran, Race_Terran, Race_Terran, Race_Terran, Race_Terran,
      Race_Terran, Race_Terran, Race_Terran, Race_Zerg, Race_Zerg, Race_Zerg, Race_Zerg,
      Race_Zerg, Race_Zerg, Race_Zerg, Race_Zerg, Race_Zerg, Race_Protoss, Race_Protoss,
      Race_Protoss, Race_Protoss, Race_Protoss, Race_Protoss, Race_Protoss, Race_Protoss,
      Race_Protoss, Race_Protoss, Race_Protoss, Race_Protoss, Race_None, Race_None, Race_Protoss,
      Race_None, Race_Protoss, Race_None, Race_Terran, Race_Zerg, Race_Zerg, Race_Terran,
      Race_None, Race_None, Race_None, Race_None, Race_None, Race_None, Race_None, Race_Unknown]"

definition upgrade_race :: "int \<Rightarrow> int" where
  "upgrade_race t = upgradeRaces ! nat t"

definition upgrade_mineralPriceFactor :: "int \<Rightarrow> int" where
  "upgrade_mineralPriceFactor t = upgrade_defaultOreCostFactor ! nat t"

definition upgrade_mineralPrice :: "int \<Rightarrow> int \<Rightarrow> int" where
  "upgrade_mineralPrice t level = 
     upgrade_defaultOreCostBase ! nat t + max 0 (level - 1) * upgrade_mineralPriceFactor t"

definition upgrade_gasPrice :: "int \<Rightarrow> int \<Rightarrow> int" where
  "upgrade_gasPrice t level = upgrade_mineralPrice t level"

definition upgrade_gasPriceFactor :: "int \<Rightarrow> int" where
  "upgrade_gasPriceFactor t = upgrade_mineralPriceFactor t"

definition upgradeTimeFactor :: "int \<Rightarrow> int" where
  "upgradeTimeFactor t = upgrade_defaultTimeCostFactor ! nat t"

definition upgradeTime :: "int \<Rightarrow> int \<Rightarrow> int" where
  "upgradeTime t level = upgrade_defaultTimeCostBase ! nat t + max 0 (level - 1) * upgradeTimeFactor t"

definition whatUpgrades :: "int \<Rightarrow> int" where
  "whatUpgrades t = upgrade_whatUpgrades ! nat t"

definition upgrade_whatUses :: "int \<Rightarrow> int list" where
  "upgrade_whatUses t = upgradeWhatUses ! nat t"

definition maxRepeats :: "int \<Rightarrow> int" where
  "maxRepeats t = upgrade_defaultMaxRepeats ! nat t"

definition whatsRequired :: "int \<Rightarrow> int \<Rightarrow> int" where
  "whatsRequired t level = 
     (if 1 \<le> level \<and> level \<le> 3 then upgrade_requirements ! nat (level - 1) ! nat t
      else UnitType_None)"

section \<open>Weapons\<close>

definition defaultWpnDamageAmt :: "int list" where
  "defaultWpnDamageAmt =
     [
      6, 18, 10, 30, 20, 30, 125, 12, 10, 24, 20, 30, 70, 5, 0, 20, 8, 40, 16, 25, 25, 50, 50, 30,
      30, 8, 16, 70, 150, 20, 260, 600, 0, 0, 250, 5, 10, 50, 10, 20, 20, 50, 4, 5, 0, 30, 20, 40,
      9, 18, 5, 10, 15, 40, 500, 110, 0, 0, 0, 0, 300, 0, 5, 0, 8, 20, 20, 45, 5, 20, 30, 60, 4,
      8, 14, 20, 28, 10, 20, 6, 20, 20, 100, 0, 14, 100, 45, 7, 7, 7, 7, 7, 7, 7, 4, 30, 10, 10,
      8, 10, 5, 0, 20, 6, 25, 8, 8, 8, 0, 20, 6, 40, 25, 25, 20, 28, 30, 6, 6, 6, 6, 6, 6, 6, 6,
      6, 6, 6, 6, 6, 0, 0]"

definition defaultWpnDamageBonus :: "int list" where
  "defaultWpnDamageBonus =
     [
      1, 1, 1, 1, 2, 2, 0, 1, 2, 1, 1, 3, 3, 1, 0, 2, 1, 2, 1, 3, 3, 3, 3, 3, 3, 1, 1, 5, 5, 0, 0,
      0, 0, 0, 0, 1, 1, 1, 1, 1, 3, 3, 1, 0, 0, 1, 2, 2, 1, 1, 1, 1, 0, 0, 0, 0, 0, 0, 0, 0, 0, 0,
      0, 0, 1, 1, 2, 2, 1, 1, 3, 3, 0, 1, 1, 1, 1, 1, 1, 1, 0, 0, 25, 1, 1, 1, 1, 1, 1, 1, 1, 1,
      1, 1, 1, 1, 1, 1, 1, 1, 1, 0, 0, 1, 2, 1, 1, 1, 1, 2, 1, 3, 1, 1, 1, 1, 1, 1, 1, 1, 1, 1, 1,
      1, 1, 1, 1, 1, 1, 1, 0, 0]"

definition wpnDamageCooldowns :: "int list" where
  "wpnDamageCooldowns =
     [
      15, 15, 22, 22, 30, 22, 22, 22, 22, 22, 22, 37, 37, 15, 15, 22, 30, 22, 30, 30, 30, 30, 30,
      22, 22, 22, 22, 75, 75, 15, 15, 1, 1, 1, 75, 8, 8, 15, 15, 15, 15, 15, 15, 22, 22, 22, 30,
      30, 30, 30, 22, 22, 15, 32, 1, 1, 1, 1, 1, 1, 1, 1, 22, 22, 22, 22, 30, 22, 30, 22, 20, 20,
      22, 30, 22, 30, 22, 45, 45, 1, 22, 22, 1, 1, 45, 22, 30, 22, 22, 22, 22, 22, 22, 22, 9, 22,
      22, 22, 22, 22, 8, 22, 22, 64, 100, 22, 22, 22, 1, 37, 15, 30, 22, 22, 30, 22, 22, 15, 15,
      15, 15, 15, 15, 15, 15, 15, 15, 15, 15, 15, 0, 0]"

definition wpnDamageFactor :: "int list" where
  "wpnDamageFactor =
     [
      1, 1, 1, 1, 1, 1, 1, 1, 2, 1, 2, 1, 1, 1, 1, 1, 1, 1, 1, 1, 1, 1, 1, 1, 1, 1, 1, 1, 1, 1, 1,
      1, 1, 1, 1, 1, 1, 1, 1, 1, 1, 1, 1, 1, 1, 1, 1, 1, 1, 1, 1, 1, 1, 1, 1, 1, 1, 1, 1, 1, 1, 1,
      1, 1, 1, 1, 1, 1, 1, 1, 1, 1, 1, 1, 2, 1, 2, 1, 1, 1, 1, 1, 1, 1, 1, 1, 1, 1, 1, 1, 1, 1, 1,
      1, 1, 1, 1, 2, 1, 2, 1, 1, 1, 2, 1, 1, 1, 1, 1, 1, 1, 1, 1, 1, 1, 2, 1, 1, 1, 1, 1, 1, 1, 1,
      1, 1, 1, 1, 1, 1, 0, 0]"

definition wpnMinRange :: "int list" where
  "wpnMinRange =
     [
      0, 0, 0, 0, 0, 0, 0, 0, 0, 0, 0, 0, 0, 0, 0, 0, 0, 0, 0, 0, 0, 0, 0, 0, 0, 0, 0, 64, 64, 0,
      0, 0, 0, 0, 0, 0, 0, 0, 0, 0, 0, 0, 0, 0, 0, 0, 0, 0, 0, 0, 0, 0, 0, 0, 0, 0, 0, 0, 0, 0, 0,
      0, 0, 0, 0, 0, 0, 0, 0, 0, 0, 0, 0, 0, 0, 0, 0, 0, 0, 0, 0, 0, 0, 0, 0, 0, 0, 0, 0, 0, 0, 0,
      0, 0, 0, 0, 0, 0, 0, 0, 0, 0, 0, 0, 0, 0, 0, 0, 0, 0, 0, 0, 0, 0, 0, 0, 0, 0, 0, 0, 0, 0, 0,
      0, 0, 0, 0, 0, 0, 0, 0, 0]"

definition wpnMaxRange :: "int list" where
  "wpnMaxRange =
     [
      128, 160, 224, 192, 160, 160, 10, 192, 160, 160, 160, 224, 224, 10, 10, 160, 160, 160, 160,
      192, 192, 192, 192, 192, 192, 32, 32, 384, 384, 224, 320, 3, 256, 256, 288, 15, 15, 15, 128,
      160, 25, 25, 2, 32, 128, 64, 256, 256, 96, 96, 128, 128, 224, 224, 3, 3, 384, 288, 288, 288,
      288, 16, 32, 10, 15, 15, 128, 128, 96, 96, 64, 64, 32, 128, 128, 128, 128, 160, 160, 128,
      224, 224, 128, 288, 288, 15, 15, 128, 128, 32, 128, 224, 224, 128, 160, 192, 160, 160, 64,
      160, 160, 288, 192, 192, 192, 256, 320, 288, 320, 192, 128, 15, 192, 192, 128, 128, 192,
      128, 128, 128, 128, 128, 128, 128, 128, 128, 128, 128, 128, 128, 0, 0]"

definition wpnSplashRangeInner :: "int list" where
  "wpnSplashRangeInner =
     [
      0, 0, 0, 0, 0, 0, 50, 0, 0, 0, 0, 0, 0, 0, 0, 0, 0, 0, 0, 0, 0, 0, 0, 0, 0, 15, 15, 10, 10,
      0, 0, 128, 0, 64, 0, 0, 0, 0, 0, 0, 0, 0, 0, 0, 0, 0, 0, 0, 0, 0, 10, 10, 0, 0, 20, 0, 0, 0,
      0, 0, 0, 0, 0, 0, 0, 0, 0, 0, 0, 0, 3, 3, 0, 0, 0, 0, 0, 0, 0, 0, 0, 0, 20, 0, 48, 0, 0, 0,
      0, 0, 0, 0, 0, 0, 0, 0, 0, 0, 15, 0, 5, 0, 0, 5, 0, 0, 0, 0, 0, 20, 0, 0, 0, 0, 0, 0, 0, 0,
      0, 0, 0, 0, 0, 0, 0, 0, 0, 0, 0, 0, 0, 0]"

definition wpnSplashRangeMid :: "int list" where
  "wpnSplashRangeMid =
     [
      0, 0, 0, 0, 0, 0, 75, 0, 0, 0, 0, 0, 0, 0, 0, 0, 0, 0, 0, 0, 0, 0, 0, 0, 0, 20, 20, 25, 25,
      0, 0, 192, 0, 64, 0, 0, 0, 0, 0, 0, 0, 0, 0, 0, 0, 0, 0, 0, 0, 0, 20, 20, 0, 0, 40, 0, 0, 0,
      0, 0, 0, 0, 0, 0, 0, 0, 0, 0, 0, 0, 15, 15, 0, 0, 0, 0, 0, 0, 0, 0, 0, 0, 40, 0, 48, 0, 0,
      0, 0, 0, 0, 0, 0, 0, 0, 0, 0, 0, 20, 0, 50, 0, 0, 50, 0, 0, 0, 0, 0, 20, 0, 0, 0, 0, 0, 0,
      0, 0, 0, 0, 0, 0, 0, 0, 0, 0, 0, 0, 0, 0, 0, 0]"

definition wpnSplashRangeOuter :: "int list" where
  "wpnSplashRangeOuter =
     [
      0, 0, 0, 0, 0, 0, 100, 0, 0, 0, 0, 0, 0, 0, 0, 0, 0, 0, 0, 0, 0, 0, 0, 0, 0, 25, 25, 40, 40,
      0, 0, 256, 0, 64, 0, 0, 0, 0, 0, 0, 0, 0, 0, 0, 0, 0, 0, 0, 0, 0, 30, 30, 0, 0, 60, 0, 0, 0,
      0, 0, 0, 0, 0, 0, 0, 0, 0, 0, 0, 0, 30, 30, 0, 0, 0, 0, 0, 0, 0, 0, 0, 0, 60, 0, 48, 0, 0,
      0, 0, 0, 0, 0, 0, 0, 0, 0, 0, 0, 25, 0, 100, 0, 0, 100, 0, 0, 0, 0, 0, 20, 0, 0, 0, 0, 0, 0,
      0, 0, 0, 0, 0, 0, 0, 0, 0, 0, 0, 0, 0, 0, 0, 0]"

definition TARG_AIR :: u32 where "TARG_AIR = 0x1"
definition TARG_GROUND :: u32 where "TARG_GROUND = 0x2"
definition TARG_MECH :: u32 where "TARG_MECH = 0x4"
definition TARG_ORGANIC :: u32 where "TARG_ORGANIC = 0x8"
definition TARG_NOBUILD :: u32 where "TARG_NOBUILD = 0x10"
definition TARG_NOROBOT :: u32 where "TARG_NOROBOT = 0x20"
definition TARG_TERRAIN :: u32 where "TARG_TERRAIN = 0x40"
definition TARG_ORGMECH :: u32 where "TARG_ORGMECH = 0x80"
definition TARG_OWN :: u32 where "TARG_OWN = 0x100"

text \<open>\<open>wpnFlags\<close>, each entry the disjunction of its flags.\<close>

definition wpnFlags :: "u32 list" where
  "wpnFlags =
     [
      0x3, 0x3, 0x3, 0x3, 0x2, 0x2, 0x12, 0x2, 0x1, 0x2, 0x1, 0x2, 0x2, 0x2, 0x2, 0x1, 0x2, 0x1,
      0x2, 0x2, 0x1, 0x2, 0x1, 0x2, 0x1, 0x2, 0x2, 0x2, 0x2, 0x1, 0x3, 0x3, 0x17, 0x43, 0x43, 0x2,
      0x2, 0x2, 0x3, 0x3, 0x2, 0x2, 0x2, 0x2, 0x2, 0x3, 0x2, 0x2, 0x3, 0x3, 0x2, 0x2, 0x1, 0x2,
      0x2, 0x1, 0x13, 0xb2, 0x43, 0x3, 0x43, 0x11b, 0x2, 0x2, 0x2, 0x2, 0x3, 0x3, 0x2, 0x2, 0x3,
      0x3, 0x1, 0x2, 0x1, 0x2, 0x1, 0x3, 0x3, 0x3, 0x2, 0x1, 0x2, 0x43, 0x53, 0x2, 0x2, 0x1, 0x1,
      0x1, 0x2, 0x1, 0x1, 0x1, 0x1, 0x2, 0x2, 0x2, 0x2, 0x2, 0x1, 0x2, 0x43, 0x1, 0x1, 0x43, 0x43,
      0x2, 0x43, 0x2, 0x3, 0x2, 0x3, 0x3, 0x2, 0x1, 0x3, 0x3, 0x3, 0x3, 0x3, 0x3, 0x3, 0x3, 0x3,
      0x3, 0x3, 0x3, 0x3, 0x3, 0, 0]"

definition weapon_upgrades :: "int list" where
  "weapon_upgrades =
     [
      Upg_Terran_Infantry_Weapons, Upg_Terran_Infantry_Weapons, Upg_Terran_Infantry_Weapons,
      Upg_Terran_Infantry_Weapons, Upg_Terran_Vehicle_Weapons, Upg_Terran_Vehicle_Weapons,
      Upg_Upgrade_60, Upg_Terran_Vehicle_Weapons, Upg_Terran_Vehicle_Weapons,
      Upg_Terran_Vehicle_Weapons, Upg_Terran_Vehicle_Weapons, Upg_Terran_Vehicle_Weapons,
      Upg_Terran_Vehicle_Weapons, Upg_Upgrade_60, Upg_Upgrade_60, Upg_Terran_Ship_Weapons,
      Upg_Terran_Ship_Weapons, Upg_Terran_Ship_Weapons, Upg_Terran_Ship_Weapons,
      Upg_Terran_Ship_Weapons, Upg_Terran_Ship_Weapons, Upg_Terran_Ship_Weapons,
      Upg_Terran_Ship_Weapons, Upg_Terran_Ship_Weapons, Upg_Terran_Ship_Weapons,
      Upg_Terran_Infantry_Weapons, Upg_Terran_Infantry_Weapons, Upg_Terran_Vehicle_Weapons,
      Upg_Terran_Vehicle_Weapons, Upg_Upgrade_60, Upg_Upgrade_60, Upg_Upgrade_60, Upg_Upgrade_60,
      Upg_Upgrade_60, Upg_Upgrade_60, Upg_Zerg_Melee_Attacks, Upg_Zerg_Melee_Attacks,
      Upg_Zerg_Melee_Attacks, Upg_Zerg_Missile_Attacks, Upg_Zerg_Missile_Attacks,
      Upg_Zerg_Melee_Attacks, Upg_Zerg_Melee_Attacks, Upg_Zerg_Melee_Attacks, Upg_Upgrade_60,
      Upg_Upgrade_60, Upg_Zerg_Flyer_Attacks, Upg_Zerg_Flyer_Attacks, Upg_Zerg_Flyer_Attacks,
      Upg_Zerg_Flyer_Attacks, Upg_Zerg_Flyer_Attacks, Upg_Zerg_Missile_Attacks,
      Upg_Zerg_Missile_Attacks, Upg_Upgrade_60, Upg_Upgrade_60, Upg_Upgrade_60, Upg_Upgrade_60,
      Upg_Upgrade_60, Upg_Upgrade_60, Upg_Upgrade_60, Upg_Upgrade_60, Upg_Upgrade_60,
      Upg_Upgrade_60, Upg_Upgrade_60, Upg_Upgrade_60, Upg_Protoss_Ground_Weapons,
      Upg_Protoss_Ground_Weapons, Upg_Protoss_Ground_Weapons, Upg_Protoss_Ground_Weapons,
      Upg_Protoss_Ground_Weapons, Upg_Protoss_Ground_Weapons, Upg_Protoss_Ground_Weapons,
      Upg_Protoss_Ground_Weapons, Upg_Protoss_Air_Weapons, Upg_Protoss_Air_Weapons,
      Upg_Protoss_Air_Weapons, Upg_Protoss_Air_Weapons, Upg_Protoss_Air_Weapons,
      Upg_Protoss_Air_Weapons, Upg_Protoss_Air_Weapons, Upg_Protoss_Air_Weapons, Upg_Upgrade_60,
      Upg_Upgrade_60, Upg_Scarab_Damage, Upg_Upgrade_60, Upg_Upgrade_60,
      Upg_Protoss_Ground_Weapons, Upg_Protoss_Ground_Weapons, Upg_Upgrade_60, Upg_Upgrade_60,
      Upg_Upgrade_60, Upg_Upgrade_60, Upg_Upgrade_60, Upg_Upgrade_60, Upg_Upgrade_60,
      Upg_Upgrade_60, Upg_Upgrade_60, Upg_Terran_Vehicle_Weapons, Upg_Terran_Vehicle_Weapons,
      Upg_Terran_Infantry_Weapons, Upg_Terran_Vehicle_Weapons, Upg_Protoss_Air_Weapons,
      Upg_Upgrade_60, Upg_Upgrade_60, Upg_Terran_Ship_Weapons, Upg_Zerg_Flyer_Attacks,
      Upg_Upgrade_60, Upg_Upgrade_60, Upg_Upgrade_60, Upg_Upgrade_60, Upg_Zerg_Missile_Attacks,
      Upg_Terran_Infantry_Weapons, Upg_Protoss_Ground_Weapons, Upg_Terran_Infantry_Weapons,
      Upg_Terran_Infantry_Weapons, Upg_Protoss_Air_Weapons, Upg_Protoss_Air_Weapons,
      Upg_Terran_Infantry_Weapons, Upg_Terran_Infantry_Weapons, Upg_Terran_Infantry_Weapons,
      Upg_Terran_Infantry_Weapons, Upg_Terran_Infantry_Weapons, Upg_Terran_Infantry_Weapons,
      Upg_Terran_Infantry_Weapons, Upg_Terran_Infantry_Weapons, Upg_Terran_Infantry_Weapons,
      Upg_Terran_Infantry_Weapons, Upg_Terran_Infantry_Weapons, Upg_Terran_Infantry_Weapons,
      Upg_Terran_Infantry_Weapons, Upg_Terran_Infantry_Weapons, UpgradeType_None,
      UpgradeType_Unknown]"

text \<open>\<open>DamageTypes::Enum\<close>: 0 Independent, 1 Explosive, 2 Concussive, 3 Normal, 4 Ignore_Armor, 5 None, 6 Unknown;
  \<open>ExplosionTypes::Enum\<close>: 0 None, 1 Normal, 2 Radial_Splash, 3 Enemy_Splash, 4 Lockdown, 5 Nuclear_Missile, 6 Parasite, 7 Broodlings, 8 EMP_Shockwave, 9 Irradiate, 10 Ensnare, 11 Plague, 12 Stasis_Field, 13 Dark_Swarm, 14 Consume, 15 Yamato_Gun, 16 Restoration, 17 Disruption_Web, 18 Corrosive_Acid, 19 Mind_Control, 20 Feedback, 21 Optical_Flare, 22 Maelstrom, 23 Unused, 24 Air_Splash, 25 Unknown.\<close>

definition weapon_damageTypes :: "int list" where
  "weapon_damageTypes =
     [
      3, 3, 2, 2, 2, 2, 1, 3, 1, 3, 1, 1, 1, 3, 3, 1, 3, 1, 3, 3, 3, 3, 3, 3, 3, 2, 2, 1, 1, 1, 1,
      1, 2, 2, 4, 3, 3, 3, 1, 1, 3, 3, 3, 3, 3, 1, 3, 3, 3, 3, 2, 2, 3, 1, 1, 3, 0, 0, 0, 0, 0, 0,
      3, 3, 3, 3, 1, 1, 3, 3, 3, 3, 1, 3, 1, 3, 1, 1, 1, 3, 3, 3, 3, 0, 4, 3, 3, 1, 3, 1, 1, 3, 3,
      3, 3, 3, 3, 1, 2, 1, 1, 4, 4, 1, 1, 3, 4, 0, 0, 3, 3, 3, 2, 2, 3, 1, 2, 3, 3, 3, 3, 3, 3, 3,
      3, 3, 3, 3, 3, 3, 5, 6]"

definition weapon_explosionTypes :: "int list" where
  "weapon_explosionTypes =
     [
      1, 1, 1, 1, 1, 1, 2, 1, 1, 1, 1, 1, 1, 1, 0, 1, 1, 1, 1, 1, 1, 1, 1, 1, 1, 3, 3, 2, 2, 1,
      15, 5, 4, 8, 9, 1, 1, 1, 1, 1, 1, 1, 1, 1, 1, 1, 1, 1, 1, 1, 2, 2, 1, 1, 2, 1, 6, 7, 10, 13,
      11, 14, 1, 0, 1, 1, 1, 1, 1, 1, 3, 3, 1, 1, 1, 1, 1, 1, 1, 1, 1, 1, 3, 12, 2, 1, 1, 1, 1, 1,
      1, 1, 1, 1, 1, 1, 1, 1, 3, 1, 24, 17, 16, 24, 18, 19, 20, 21, 22, 3, 1, 1, 1, 1, 1, 1, 1, 1,
      1, 1, 1, 1, 1, 1, 1, 1, 1, 1, 1, 1, 0, 25]"

definition weapon_whatUses_table :: "int list" where
  "weapon_whatUses_table =
     [
      Terran_Marine, Hero_Jim_Raynor_Marine, Terran_Ghost, Hero_Sarah_Kerrigan, Terran_Vulture,
      Hero_Jim_Raynor_Vulture, Terran_Vulture_Spider_Mine, Terran_Goliath, Terran_Goliath,
      Hero_Alan_Schezar, Hero_Alan_Schezar, Terran_Siege_Tank_Tank_Mode,
      Hero_Edmund_Duke_Tank_Mode, Terran_SCV, Terran_SCV, Terran_Wraith, Terran_Wraith,
      Hero_Tom_Kazansky, Hero_Tom_Kazansky, Terran_Battlecruiser, Terran_Battlecruiser,
      Hero_Norad_II, Hero_Norad_II, Hero_Hyperion, Hero_Hyperion, Terran_Firebat, Hero_Gui_Montag,
      Terran_Siege_Tank_Siege_Mode, Hero_Edmund_Duke_Siege_Mode, Terran_Missile_Turret,
      Terran_Battlecruiser, Terran_Ghost, Terran_Ghost, Terran_Science_Vessel,
      Terran_Science_Vessel, Zerg_Zergling, Hero_Devouring_One, Hero_Infested_Kerrigan,
      Zerg_Hydralisk, Hero_Hunter_Killer, Zerg_Ultralisk, Hero_Torrasque, Zerg_Broodling,
      Zerg_Drone, Zerg_Drone, UnitType_None, Zerg_Guardian, Hero_Kukulza_Guardian, Zerg_Mutalisk,
      Hero_Kukulza_Mutalisk, UnitType_None, UnitType_None, Zerg_Spore_Colony, Zerg_Sunken_Colony,
      Zerg_Infested_Terran, Zerg_Scourge, Zerg_Queen, Zerg_Queen, Zerg_Queen, Zerg_Defiler,
      Zerg_Defiler, Zerg_Defiler, Protoss_Probe, Protoss_Probe, Protoss_Zealot, Hero_Fenix_Zealot,
      Protoss_Dragoon, Hero_Fenix_Dragoon, UnitType_None, Hero_Tassadar, Protoss_Archon,
      Hero_Tassadar_Zeratul_Archon, UnitType_None, Protoss_Scout, Protoss_Scout, Hero_Mojo,
      Hero_Mojo, Protoss_Arbiter, Hero_Danimoth, Protoss_Interceptor, Protoss_Photon_Cannon,
      Protoss_Photon_Cannon, Protoss_Scarab, Protoss_Arbiter, Protoss_High_Templar, Hero_Zeratul,
      Hero_Dark_Templar, UnitType_None, UnitType_None, UnitType_None, UnitType_None,
      UnitType_None, UnitType_None, Special_Independant_Starport, UnitType_None, UnitType_None,
      Special_Floor_Gun_Trap, Special_Wall_Missile_Trap, Special_Wall_Flame_Trap,
      Special_Floor_Missile_Trap, Protoss_Corsair, Protoss_Corsair, Terran_Medic, Terran_Valkyrie,
      Zerg_Devourer, Protoss_Dark_Archon, Protoss_Dark_Archon, Terran_Medic, Protoss_Dark_Archon,
      Zerg_Lurker, UnitType_None, Protoss_Dark_Templar, Hero_Samir_Duran, Hero_Infested_Duran,
      Hero_Artanis, Hero_Artanis, Hero_Alexei_Stukov, UnitType_None, UnitType_None, UnitType_None,
      UnitType_None, UnitType_None, UnitType_None, UnitType_None, UnitType_None, UnitType_None,
      UnitType_None, UnitType_None, UnitType_None, UnitType_None, UnitType_None, UnitType_Unknown]"

definition attachedTech :: "int list" where
  "attachedTech =
     [
      TechType_None, TechType_None, TechType_None, TechType_None, TechType_None, TechType_None,
      Tech_Spider_Mines, TechType_None, TechType_None, TechType_None, TechType_None,
      TechType_None, TechType_None, TechType_None, TechType_None, TechType_None, TechType_None,
      TechType_None, TechType_None, TechType_None, TechType_None, TechType_None, TechType_None,
      TechType_None, TechType_None, TechType_None, TechType_None, TechType_None, TechType_None,
      TechType_None, Tech_Yamato_Gun, Tech_Nuclear_Strike, Tech_Lockdown, Tech_EMP_Shockwave,
      Tech_Irradiate, TechType_None, TechType_None, TechType_None, TechType_None, TechType_None,
      TechType_None, TechType_None, TechType_None, TechType_None, TechType_None, TechType_None,
      TechType_None, TechType_None, TechType_None, TechType_None, TechType_None, TechType_None,
      TechType_None, TechType_None, TechType_None, TechType_None, Tech_Parasite,
      Tech_Spawn_Broodlings, Tech_Ensnare, Tech_Dark_Swarm, Tech_Plague, Tech_Consume,
      TechType_None, TechType_None, TechType_None, TechType_None, TechType_None, TechType_None,
      TechType_None, TechType_None, TechType_None, TechType_None, TechType_None, TechType_None,
      TechType_None, TechType_None, TechType_None, TechType_None, TechType_None, TechType_None,
      TechType_None, TechType_None, TechType_None, Tech_Stasis_Field, Tech_Psionic_Storm,
      TechType_None, TechType_None, TechType_None, TechType_None, TechType_None, TechType_None,
      TechType_None, TechType_None, TechType_None, TechType_None, TechType_None, TechType_None,
      TechType_None, TechType_None, TechType_None, TechType_None, Tech_Disruption_Web,
      Tech_Restoration, TechType_None, TechType_None, Tech_Mind_Control, Tech_Feedback,
      Tech_Optical_Flare, Tech_Maelstrom, TechType_None, TechType_None, TechType_None,
      TechType_None, TechType_None, TechType_None, TechType_None, TechType_None, TechType_None,
      TechType_None, TechType_None, TechType_None, TechType_None, TechType_None, TechType_None,
      TechType_None, TechType_None, TechType_None, TechType_None, TechType_None, TechType_None,
      TechType_None, TechType_None]"

definition weapon_tech :: "int \<Rightarrow> int" where
  "weapon_tech t = attachedTech ! nat t"

definition weapon_whatUses :: "int \<Rightarrow> int" where
  "weapon_whatUses t = weapon_whatUses_table ! nat t"

definition damageAmount :: "int \<Rightarrow> int" where
  "damageAmount t = defaultWpnDamageAmt ! nat t"

definition damageBonus :: "int \<Rightarrow> int" where
  "damageBonus t = defaultWpnDamageBonus ! nat t"

definition damageCooldown :: "int \<Rightarrow> int" where
  "damageCooldown t = wpnDamageCooldowns ! nat t"

definition damageFactor :: "int \<Rightarrow> int" where
  "damageFactor t = wpnDamageFactor ! nat t"

definition weapon_upgradeType :: "int \<Rightarrow> int" where
  "weapon_upgradeType t = weapon_upgrades ! nat t"

definition damageType :: "int \<Rightarrow> int" where
  "damageType t = weapon_damageTypes ! nat t"

definition explosionType :: "int \<Rightarrow> int" where
  "explosionType t = weapon_explosionTypes ! nat t"

definition minRange :: "int \<Rightarrow> int" where
  "minRange t = wpnMinRange ! nat t"

definition maxRange :: "int \<Rightarrow> int" where
  "maxRange t = wpnMaxRange ! nat t"

definition innerSplashRadius :: "int \<Rightarrow> int" where
  "innerSplashRadius t = wpnSplashRangeInner ! nat t"

definition medianSplashRadius :: "int \<Rightarrow> int" where
  "medianSplashRadius t = wpnSplashRangeMid ! nat t"

definition outerSplashRadius :: "int \<Rightarrow> int" where
  "outerSplashRadius t = wpnSplashRangeOuter ! nat t"

definition targetsAir :: "int \<Rightarrow> bool" where
  "targetsAir t \<longleftrightarrow> wpnFlags ! nat t AND TARG_AIR \<noteq> 0"

definition targetsGround :: "int \<Rightarrow> bool" where
  "targetsGround t \<longleftrightarrow> wpnFlags ! nat t AND TARG_GROUND \<noteq> 0"

definition targetsMechanical :: "int \<Rightarrow> bool" where
  "targetsMechanical t \<longleftrightarrow> wpnFlags ! nat t AND TARG_MECH \<noteq> 0"

definition targetsOrganic :: "int \<Rightarrow> bool" where
  "targetsOrganic t \<longleftrightarrow> wpnFlags ! nat t AND TARG_ORGANIC \<noteq> 0"

definition targetsNonBuilding :: "int \<Rightarrow> bool" where
  "targetsNonBuilding t \<longleftrightarrow> wpnFlags ! nat t AND TARG_NOBUILD \<noteq> 0"

definition targetsNonRobotic :: "int \<Rightarrow> bool" where
  "targetsNonRobotic t \<longleftrightarrow> wpnFlags ! nat t AND TARG_NOROBOT \<noteq> 0"

definition targetsTerrain :: "int \<Rightarrow> bool" where
  "targetsTerrain t \<longleftrightarrow> wpnFlags ! nat t AND TARG_TERRAIN \<noteq> 0"

definition targetsOrgOrMech :: "int \<Rightarrow> bool" where
  "targetsOrgOrMech t \<longleftrightarrow> wpnFlags ! nat t AND TARG_ORGMECH \<noteq> 0"

definition targetsOwn :: "int \<Rightarrow> bool" where
  "targetsOwn t \<longleftrightarrow> wpnFlags ! nat t AND TARG_OWN \<noteq> 0"

end
