(* ===== verification/Type_Tables.thy ===== *)
theory Type_Tables
  imports Tech_Types
begin

text \<open>
  How the type tables of the client library fit together: who builds, researches and upgrades
  what, which weapons a unit carries, and what the technology tree makes reachable.
\<close>

section \<open>Reading a table by its index\<close>

lemma row_of:
  assumes "list_all2 P (map int [0..<n]) xs" "0 \<le> t" "t < int n"
  shows "P t (xs ! nat t)"
proof -
  have "nat t < n" using assms(2,3) by linarith
  then have "P (map int [0..<n] ! nat t) (xs ! nat t)"
    by (intro list_all2_nthD [OF assms(1)]) simp
  then show ?thesis using assms(2) \<open>nat t < n\<close> by simp
qed

lemma row_of_take:
  assumes "list_all2 P (map int [0..<n]) (take n xs)" "0 \<le> t" "t < int n"
  shows "P t (xs ! nat t)"
  using row_of [OF assms] assms(2,3) by (simp add: nat_less_iff)

section \<open>Who makes what\<close>

definition morph_stages :: "int list" where
  "morph_stages =
     [Zerg_Egg, Zerg_Lurker_Egg, Zerg_Cocoon, Terran_Siege_Tank_Siege_Mode, Zerg_Larva]"

lemma buildsWhat_rows:
  "list_all2 (\<lambda>t row. list_all (\<lambda>u. whatBuilds_table ! nat u = t) row)
     (map int [0..<233]) (take 233 buildsWhat_table)"
  by code_simp

lemma whatBuilds_rows:
  "list_all2 (\<lambda>u t. u \<in> set morph_stages \<or> t = UnitType_None \<or> u \<in> set (buildsWhat_table ! nat t))
     (map int [0..<233]) (take 233 whatBuilds_table)"
  by code_simp

lemma buildsWhat_none: "buildsWhat_table ! 228 = []" "list_all (\<lambda>row. list_all (\<lambda>u. u \<notin> set morph_stages) row) buildsWhat_table"
  by code_simp+

lemma upgradesWhat_rows:
  "list_all2 (\<lambda>t row. list_all2 (\<lambda>a w. a \<in> set row \<longleftrightarrow> isSuccessorOf t w \<and> w \<noteq> UnitType_None)
       (map int [0..<61]) (take 61 upgrade_whatUpgrades))
     (map int [0..<233]) (take 233 upgradesWhat_table)"
  by code_simp

lemma researchesWhat_rows:
  "list_all2 (\<lambda>t row. list_all2 (\<lambda>a w. a \<in> set row \<longleftrightarrow> isSuccessorOf t w \<and> w \<noteq> UnitType_None)
       (map int [0..<44]) (take 44 tech_whatResearches))
     (map int [0..<233]) (take 233 researchesWhat_table)"
  by code_simp

lemma abilities_rows:
  "list_all2 (\<lambda>t row. list_all2 (\<lambda>a us. a \<in> set row \<longleftrightarrow> t \<in> set us \<and> a \<noteq> Tech_Lurker_Aspect)
       (map int [0..<47]) techWhatUses)
     (map int [0..<233]) (take 233 unitTechs)"
  by code_simp

lemma weapon_rows:
  "list_all2 (\<lambda>t w. w = WeaponType_None \<or> t = Unused_Mining_Platform \<or> t = Special_Independant_Starport
       \<or> targetsGround w)
     (map int [0..<233]) (take 233 groundWeapons)"
  "list_all2 (\<lambda>t w. w = WeaponType_None \<or> targetsAir w)
     (map int [0..<233]) (take 233 airWeapons)"
  by code_simp+

lemma tech_weapon_rows:
  "list_all2 (\<lambda>a w. w = WeaponType_None \<or> attachedTech ! nat w = a) (map int [0..<46]) (take 46 techWeapons)"
  "list_all2 (\<lambda>w a. a = TechType_None \<or> techWeapons ! nat a = w) (map int [0..<131]) (take 131 attachedTech)"
  by code_simp+

lemma armour_rows:
  "list_all2 (\<lambda>t a. a = UpgradeType_None \<or> a = Upg_Upgrade_60 \<or> t = Protoss_Dark_Archon
       \<or> a \<in> set (upgrades_table ! nat t))
     (map int [0..<233]) (take 233 armorUpgrades)"
  by code_simp

lemma dark_archon_rows:
  "upgrades_table ! 63 =
     [Upg_Protoss_Plasma_Shields, Upg_Protoss_Air_Armor, Upg_Protoss_Air_Weapons, Upg_Argus_Talisman]"
  "armorUpgrades ! 63 = Upg_Protoss_Ground_Armor"
  by code_simp+

lemma whatBuilds_length: "length whatBuilds_table = 234"
  by (simp add: whatBuilds_table_def)

lemma users_rows:
  "list_all2 (\<lambda>u row. list_all2 (\<lambda>a us. u \<notin> set us \<or> a \<in> set row \<or> a = Upg_Upgrade_60
         \<or> (a = Upg_Protoss_Ground_Armor \<and> u = Protoss_Dark_Archon))
       (map int [0..<63]) upgradeWhatUses)
     (map int [0..<233]) (take 233 upgrades_table)"
  by code_simp

section \<open>The technology tree\<close>

definition starting_units :: "int list" where
  "starting_units =
     [Terran_Command_Center, Terran_SCV, Zerg_Hatchery, Zerg_Larva, Zerg_Drone, Zerg_Overlord,
      Protoss_Nexus, Protoss_Probe]"

inductive obtainable :: "int \<Rightarrow> bool" where
  obtainable_start: "t \<in> set starting_units \<Longrightarrow> obtainable t"
| obtainable_make:
    "requiredUnits t \<noteq> [] \<Longrightarrow> (\<And>r. r \<in> fst ` set (requiredUnits t) \<Longrightarrow> obtainable r) \<Longrightarrow> obtainable t"

text \<open>
  An order in which a player who owns the starting units can make everything else, each type with
  the types it requires.
\<close>

definition build_order :: "(int \<times> int list) list" where
  "build_order =
     [
      (Zerg_Egg, [Zerg_Larva]), (Terran_Supply_Depot, [Terran_SCV]),
      (Terran_Refinery, [Terran_SCV]), (Terran_Barracks, [Terran_SCV, Terran_Command_Center]),
      (Terran_Academy, [Terran_SCV, Terran_Barracks]),
      (Terran_Factory, [Terran_SCV, Terran_Barracks]),
      (Terran_Starport, [Terran_SCV, Terran_Factory]), (Terran_Control_Tower, [Terran_Starport]),
      (Terran_Science_Facility, [Terran_SCV, Terran_Starport]),
      (Terran_Covert_Ops, [Terran_Science_Facility]),
      (Terran_Physics_Lab, [Terran_Science_Facility]), (Terran_Machine_Shop, [Terran_Factory]),
      (Terran_Engineering_Bay, [Terran_SCV, Terran_Command_Center]),
      (Terran_Armory, [Terran_SCV, Terran_Factory]),
      (Terran_Missile_Turret, [Terran_SCV, Terran_Engineering_Bay]),
      (Terran_Bunker, [Terran_SCV, Terran_Barracks]),
      (Zerg_Evolution_Chamber, [Zerg_Drone, Zerg_Hatchery]),
      (Zerg_Spawning_Pool, [Zerg_Drone, Zerg_Hatchery]), (Zerg_Creep_Colony, [Zerg_Drone]),
      (Zerg_Spore_Colony, [Zerg_Evolution_Chamber, Zerg_Creep_Colony]),
      (Zerg_Sunken_Colony, [Zerg_Spawning_Pool, Zerg_Creep_Colony]),
      (Zerg_Extractor, [Zerg_Drone]), (Protoss_Pylon, [Protoss_Probe]),
      (Protoss_Assimilator, [Protoss_Probe]), (Protoss_Gateway, [Protoss_Probe, Protoss_Nexus]),
      (Protoss_Cybernetics_Core, [Protoss_Probe, Protoss_Gateway]),
      (Protoss_Forge, [Protoss_Probe, Protoss_Nexus]),
      (Protoss_Stargate, [Protoss_Probe, Protoss_Cybernetics_Core]),
      (Protoss_Fleet_Beacon, [Protoss_Probe, Protoss_Stargate]),
      (Protoss_Shield_Battery, [Protoss_Probe, Protoss_Gateway]),
      (Terran_Marine, [Terran_Barracks]),
      (Terran_Ghost, [Terran_Barracks, Terran_Academy, Terran_Covert_Ops]),
      (Terran_Vulture, [Terran_Factory]), (Terran_Goliath, [Terran_Factory, Terran_Armory]),
      (Terran_Siege_Tank_Tank_Mode, [Terran_Factory, Terran_Machine_Shop]),
      (Terran_Wraith, [Terran_Starport]),
      (Terran_Science_Vessel, [Terran_Starport, Terran_Control_Tower, Terran_Science_Facility]),
      (Terran_Dropship, [Terran_Starport, Terran_Control_Tower]),
      (Terran_Battlecruiser, [Terran_Starport, Terran_Control_Tower, Terran_Physics_Lab]),
      (Terran_Siege_Tank_Siege_Mode, [Terran_Factory, Terran_Machine_Shop]),
      (Terran_Firebat, [Terran_Barracks, Terran_Academy]),
      (Terran_Medic, [Terran_Barracks, Terran_Academy]),
      (Zerg_Zergling, [Zerg_Larva, Zerg_Spawning_Pool]),
      (Terran_Valkyrie, [Terran_Starport, Terran_Control_Tower, Terran_Armory]),
      (Protoss_Corsair, [Protoss_Stargate]), (Protoss_Zealot, [Protoss_Gateway]),
      (Protoss_Dragoon, [Protoss_Gateway, Protoss_Cybernetics_Core]),
      (Protoss_Scout, [Protoss_Stargate]),
      (Protoss_Carrier, [Protoss_Stargate, Protoss_Fleet_Beacon]),
      (Protoss_Interceptor, [Protoss_Carrier]),
      (Terran_Comsat_Station, [Terran_Command_Center, Terran_Academy]),
      (Terran_Nuclear_Silo, [Terran_Command_Center, Terran_Science_Facility, Terran_Covert_Ops]),
      (Zerg_Lair, [Zerg_Hatchery, Zerg_Spawning_Pool]),
      (Zerg_Hydralisk_Den, [Zerg_Drone, Zerg_Spawning_Pool]),
      (Zerg_Queens_Nest, [Zerg_Drone, Zerg_Lair]), (Zerg_Spire, [Zerg_Drone, Zerg_Lair]),
      (Protoss_Robotics_Facility, [Protoss_Probe, Protoss_Cybernetics_Core]),
      (Protoss_Observatory, [Protoss_Probe, Protoss_Robotics_Facility]),
      (Protoss_Photon_Cannon, [Protoss_Probe, Protoss_Forge]),
      (Protoss_Citadel_of_Adun, [Protoss_Probe, Protoss_Cybernetics_Core]),
      (Protoss_Templar_Archives, [Protoss_Probe, Protoss_Citadel_of_Adun]),
      (Protoss_Arbiter_Tribunal, [Protoss_Probe, Protoss_Templar_Archives, Protoss_Stargate]),
      (Protoss_Robotics_Support_Bay, [Protoss_Probe, Protoss_Robotics_Facility]),
      (Terran_Nuclear_Missile, [Terran_Nuclear_Silo]),
      (Zerg_Hydralisk, [Zerg_Larva, Zerg_Hydralisk_Den]),
      (Zerg_Mutalisk, [Zerg_Larva, Zerg_Spire]), (Zerg_Queen, [Zerg_Larva, Zerg_Queens_Nest]),
      (Zerg_Scourge, [Zerg_Larva, Zerg_Spire]),
      (Protoss_Dark_Templar, [Protoss_Gateway, Protoss_Templar_Archives]),
      (Protoss_Dark_Archon, [Protoss_Dark_Templar]),
      (Protoss_High_Templar, [Protoss_Gateway, Protoss_Templar_Archives]),
      (Protoss_Archon, [Protoss_High_Templar]), (Protoss_Shuttle, [Protoss_Robotics_Facility]),
      (Protoss_Arbiter, [Protoss_Stargate, Protoss_Arbiter_Tribunal]),
      (Protoss_Reaver, [Protoss_Robotics_Facility, Protoss_Robotics_Support_Bay]),
      (Protoss_Observer, [Protoss_Robotics_Facility, Protoss_Observatory]),
      (Protoss_Scarab, [Protoss_Reaver]), (Zerg_Lurker_Egg, [Zerg_Hydralisk]),
      (Zerg_Lurker, [Zerg_Hydralisk]), (Zerg_Hive, [Zerg_Lair, Zerg_Queens_Nest]),
      (Zerg_Nydus_Canal, [Zerg_Drone, Zerg_Hive]), (Zerg_Defiler_Mound, [Zerg_Drone, Zerg_Hive]),
      (Zerg_Greater_Spire, [Zerg_Hive, Zerg_Spire]),
      (Zerg_Ultralisk_Cavern, [Zerg_Drone, Zerg_Hive]),
      (Zerg_Ultralisk, [Zerg_Larva, Zerg_Ultralisk_Cavern]),
      (Zerg_Guardian, [Zerg_Mutalisk, Zerg_Greater_Spire]),
      (Zerg_Defiler, [Zerg_Larva, Zerg_Defiler_Mound]),
      (Zerg_Cocoon, [Zerg_Mutalisk, Zerg_Greater_Spire]),
      (Zerg_Devourer, [Zerg_Mutalisk, Zerg_Greater_Spire])]"

fun in_order :: "int list \<Rightarrow> (int \<times> int list) list \<Rightarrow> bool" where
  "in_order own [] \<longleftrightarrow> True"
| "in_order own ((t, rs) # rows) \<longleftrightarrow> list_all (\<lambda>r. r \<in> set own) rs \<and> in_order (t # own) rows"

lemma build_order_rows:
  "list_all (\<lambda>(t, rs). rs \<noteq> [] \<and> rs = map fst (requiredUnits t)) build_order"
  by code_simp

lemma build_order_works: "in_order starting_units build_order"
  by code_simp

fun all_among :: "int list \<Rightarrow> int list \<Rightarrow> bool" where
  "all_among ids [] \<longleftrightarrow> True"
| "all_among ids (t # ts) \<longleftrightarrow> t \<in> set ids \<and> all_among ids ts"

lemma all_among_iff: "all_among ids ts \<longleftrightarrow> set ts \<subseteq> set ids"
  by (induction ts) auto

lemma requiredUnits_source:
  assumes "requiredUnits t \<noteq> []"
  shows "fst (whatBuilds t) \<noteq> UnitType_None \<or> t \<in> set (map fst reqUnitsInit_entries)"
proof (rule ccontr)
  assume "\<not> ?thesis"
  then have "filter (\<lambda>(u, r, n). u = t) reqUnitsInit_entries = []" "fst (whatBuilds t) = UnitType_None"
    by (force simp: filter_empty_conv)+
  with assms show False by (simp add: requiredUnits_def)
qed

lemma build_order_covers_entries:
  "all_among (starting_units @ map fst build_order) (map fst reqUnitsInit_entries)"
  by code_simp

lemma build_order_covers_made:
  "all_among (Zerg_Infested_Terran # starting_units @ map fst build_order)
     (map fst (filter (\<lambda>(t, w). w \<noteq> UnitType_None) (zip (map int [0..<233]) (take 233 whatBuilds_table))))"
  by code_simp

lemma in_order_obtainable:
  "in_order own rows \<Longrightarrow> \<forall>r \<in> set own. obtainable r \<Longrightarrow>
   list_all (\<lambda>(t, rs). rs \<noteq> [] \<and> rs = map fst (requiredUnits t)) rows \<Longrightarrow>
   \<forall>t \<in> fst ` set rows. obtainable t"
proof (induction own rows rule: in_order.induct)
  case (2 own t rs rows)
  have "obtainable t"
  proof (rule obtainable_make)
    show "requiredUnits t \<noteq> []" using "2.prems"(3) by (cases "requiredUnits t") simp_all
    show "obtainable r" if "r \<in> fst ` set (requiredUnits t)" for r
      using that "2.prems" by (auto simp: list_all_iff)
  qed
  then show ?case using "2.IH" "2.prems" by simp
qed simp

lemma build_order_obtainable: "t \<in> fst ` set build_order \<Longrightarrow> obtainable t"
  using in_order_obtainable [OF build_order_works _ build_order_rows] obtainable_start by blast

section \<open>Properties\<close>

lemma buildsWhat_iff:
  assumes "0 \<le> t" "t < UnitType_Unknown" "t \<noteq> UnitType_None" "0 \<le> u" "u < UnitType_Unknown"
    and "u \<notin> set morph_stages"
  shows "u \<in> set (buildsWhat t) \<longleftrightarrow> fst (whatBuilds u) = t"
  using row_of_take [OF buildsWhat_rows, of t] row_of_take [OF whatBuilds_rows, of u] assms
  by (auto simp: buildsWhat_def whatBuilds_def Let_def list_all_iff)

lemma upgradesWhat_iff:
  assumes "0 \<le> t" "t < UnitType_Unknown" "0 \<le> a" "a < UpgradeType_None"
  shows "a \<in> set (upgradesWhat t) \<longleftrightarrow>
    isSuccessorOf t (whatUpgrades a) \<and> whatUpgrades a \<noteq> UnitType_None"
  using row_of_take [OF row_of_take [OF upgradesWhat_rows, of t], of a] assms
  by (simp add: upgradesWhat_def whatUpgrades_def)

lemma researchesWhat_iff:
  assumes "0 \<le> t" "t < UnitType_Unknown" "0 \<le> b" "b < TechType_None"
  shows "b \<in> set (researchesWhat t) \<longleftrightarrow>
    isSuccessorOf t (whatResearches b) \<and> whatResearches b \<noteq> UnitType_None"
  using row_of_take [OF row_of_take [OF researchesWhat_rows, of t], of b] assms
  by (simp add: researchesWhat_def whatResearches_def)

lemma abilities_iff:
  assumes "0 \<le> t" "t < UnitType_Unknown" "0 \<le> b" "b \<le> TechType_Unknown"
  shows "b \<in> set (abilities t) \<longleftrightarrow> t \<in> set (tech_whatUses b) \<and> b \<noteq> Tech_Lurker_Aspect"
  using row_of [OF row_of_take [OF abilities_rows, of t], of b] assms
  by (simp add: abilities_def tech_whatUses_def)

text \<open>
  The tables that say what a type makes and the tables that say what makes a type agree.
  Outside the five stages that no producer lists (eggs, cocoon, larva, sieged tank), type \<open>t\<close>
  lists \<open>u\<close> among what it builds exactly when \<open>u\<close> names \<open>t\<close> as its producer. A building lists
  exactly the upgrades and technologies whose home building it is or succeeds, which is the test
  the permission checks make. A type lists exactly the abilities whose users include it, but for
  the Lurker Aspect.
\<close>

theorem makers_agree:
  assumes "0 \<le> t" "t < UnitType_Unknown" "t \<noteq> UnitType_None" "0 \<le> u" "u < UnitType_Unknown"
    and "u \<notin> set morph_stages" "0 \<le> a" "a < UpgradeType_None" "0 \<le> b" "b < TechType_None"
  shows "(u \<in> set (buildsWhat t) \<longleftrightarrow> fst (whatBuilds u) = t)
    \<and> (a \<in> set (upgradesWhat t) \<longleftrightarrow> isSuccessorOf t (whatUpgrades a) \<and> whatUpgrades a \<noteq> UnitType_None)
    \<and> (b \<in> set (researchesWhat t) \<longleftrightarrow> isSuccessorOf t (whatResearches b) \<and> whatResearches b \<noteq> UnitType_None)
    \<and> (b \<in> set (abilities t) \<longleftrightarrow> t \<in> set (tech_whatUses b) \<and> b \<noteq> Tech_Lurker_Aspect)"
  using buildsWhat_iff upgradesWhat_iff researchesWhat_iff abilities_iff assms by simp

theorem makers_agree_witness:
  "(Zerg_Lurker \<in> set (buildsWhat Zerg_Hive) \<longleftrightarrow> fst (whatBuilds Zerg_Lurker) = Zerg_Hive)
    \<and> (Upg_Ventral_Sacs \<in> set (upgradesWhat Zerg_Hive) \<longleftrightarrow>
        isSuccessorOf Zerg_Hive (whatUpgrades Upg_Ventral_Sacs) \<and> whatUpgrades Upg_Ventral_Sacs \<noteq> UnitType_None)
    \<and> (Tech_Burrowing \<in> set (researchesWhat Zerg_Hive) \<longleftrightarrow>
        isSuccessorOf Zerg_Hive (whatResearches Tech_Burrowing) \<and> whatResearches Tech_Burrowing \<noteq> UnitType_None)
    \<and> (Tech_Burrowing \<in> set (abilities Zerg_Hive) \<longleftrightarrow>
        Zerg_Hive \<in> set (tech_whatUses Tech_Burrowing) \<and> Tech_Burrowing \<noteq> Tech_Lurker_Aspect)"
  by (rule makers_agree) (simp_all add: morph_stages_def)

text \<open>
  The technology tree has no dead end. From a command centre and an SCV, a hatchery with a
  larva, a drone and an overlord, and a nexus and a probe, every type that has requirements can be
  reached by making, one after the other, types whose required types are all there: all but the
  infested terran, whose infested command centre nothing produces.
\<close>

theorem tech_tree_reachable:
  assumes "0 \<le> t" "t < UnitType_Unknown" "requiredUnits t \<noteq> []" "t \<noteq> Zerg_Infested_Terran"
  shows "obtainable t"
proof -
  have "t \<in> set starting_units \<or> t \<in> fst ` set build_order"
  proof (cases "t \<in> set (map fst reqUnitsInit_entries)")
    case True
    then show ?thesis using build_order_covers_entries by (auto simp: all_among_iff)
  next
    case False
    then have "whatBuilds_table ! nat t \<noteq> UnitType_None"
      using requiredUnits_source [OF assms(3)] by (simp add: whatBuilds_def Let_def)
    moreover have "(t, whatBuilds_table ! nat t) \<in> set (zip (map int [0..<233]) (take 233 whatBuilds_table))"
      using assms(1,2) whatBuilds_length
      by (auto simp: in_set_zip intro!: exI [of _ "nat t"])
    ultimately show ?thesis
      using build_order_covers_made assms(4) by (force simp: all_among_iff)
  qed
  then show ?thesis using obtainable_start build_order_obtainable by blast
qed

theorem tech_tree_reachable_witness: "obtainable Protoss_Arbiter"
  by (rule tech_tree_reachable) (simp_all, code_simp)

text \<open>
  What a unit type lists as its upgrades is complete: the upgrade of its armour and every
  upgrade whose users include the type are listed (the placeholder \<open>Upgrade_60\<close> aside), with one
  exception. The dark archon, a ground unit, lists the air armour and the air weapons and not its
  own \<open>Protoss_Ground_Armor\<close>.
\<close>

theorem own_upgrades_listed:
  assumes "0 \<le> t" "t < UnitType_Unknown" "0 \<le> a" "a < UpgradeType_None" "a \<noteq> Upg_Upgrade_60"
    and "armorUpgrade t = a \<or> t \<in> set (upgrade_whatUses a)"
  shows "a \<in> set (upgrades t) \<longleftrightarrow> \<not> (t = Protoss_Dark_Archon \<and> a = Upg_Protoss_Ground_Armor)"
  using row_of_take [OF armour_rows, of t] row_of [OF row_of_take [OF users_rows, of t], of a] assms
    dark_archon_rows
  by (auto simp: armorUpgrade_def upgrade_whatUses_def upgrades_def)

theorem own_upgrades_listed_witness:
  "Upg_Protoss_Ground_Armor \<in> set (upgrades Protoss_Dark_Archon) \<longleftrightarrow>
   \<not> (Protoss_Dark_Archon = Protoss_Dark_Archon \<and> Upg_Protoss_Ground_Armor = Upg_Protoss_Ground_Armor)"
  by (rule own_upgrades_listed) (simp_all, code_simp)

end
