(* ===== verification/Game_State.thy ===== *)
theory Game_State
  imports Tech_Types
begin

text \<open>
  The game state the client library's permission checks read: the mirrored unit and player data
  (\<open>Client/UnitData.h\<close>, \<open>Client/PlayerData.h\<close>), the map, and the accessors over them
  (\<open>UnitShared.cpp\<close>, \<open>PlayerShared.cpp\<close>, \<open>BWAPILIB/Unit.cpp\<close>, \<open>GameImpl.cpp\<close>); and the checks
  themselves, functions from the last error to an answer and a last error, which have no result
  where the code dereferences a null pointer.

  A unit pointer is its place in the module's unit array (\<open>u_index\<close>), a player pointer a number;
  identifiers are turned into pointers by the vectors of the server. Positions are mathematical
  integers. \<open>Map::\<close> lookups, the region a position lies in and the finders that Brood War keeps
  are fields of the state.
\<close>

section \<open>State\<close>

text \<open>\<open>Errors::Enum\<close>; its \<open>None\<close> and \<open>Unknown\<close> are \<open>No_Error\<close> and \<open>Unknown_Error\<close>.\<close>

datatype err =
    Unit_Does_Not_Exist | Unit_Not_Visible | Unit_Not_Owned | Unit_Busy | Incompatible_UnitType
  | Incompatible_TechType | Incompatible_State | Already_Researched | Fully_Upgraded
  | Currently_Researching | Currently_Upgrading | Insufficient_Minerals | Insufficient_Gas
  | Insufficient_Supply | Insufficient_Energy | Insufficient_Tech | Insufficient_Ammo
  | Insufficient_Space | Invalid_Tile_Position | Unbuildable_Location | Unreachable_Location
  | Out_Of_Range | Unable_To_Hit | Access_Denied | File_Not_Found | Invalid_Parameter
  | No_Error | Unknown_Error

text \<open>
  The fields of \<open>UnitData\<close> the checks read or the latency compensation changes, and the lists
  \<open>UnitImpl\<close> keeps beside them.
\<close>

record unit_data =
  ud_id :: int
  ud_player :: int
  ud_type :: int
  ud_positionX :: int
  ud_positionY :: int
  ud_hitPoints :: int
  ud_energy :: int
  ud_scarabCount :: int
  ud_interceptorCount :: int
  ud_spiderMineCount :: int
  ud_lockdownTimer :: int
  ud_maelstromTimer :: int
  ud_stasisTimer :: int
  ud_stimTimer :: int
  ud_buildType :: int
  ud_trainingQueueCount :: int
  ud_trainingQueue :: "int list"
  ud_tech :: int
  ud_upgrade :: int
  ud_remainingBuildTime :: int
  ud_remainingTrainTime :: int
  ud_remainingResearchTime :: int
  ud_remainingUpgradeTime :: int
  ud_buildUnit :: int
  ud_target :: int
  ud_targetPositionX :: int
  ud_targetPositionY :: int
  ud_order :: int
  ud_orderTarget :: int
  ud_orderTargetPositionX :: int
  ud_orderTargetPositionY :: int
  ud_secondaryOrder :: int
  ud_rallyPositionX :: int
  ud_rallyPositionY :: int
  ud_rallyUnit :: int
  ud_addon :: int
  ud_nydusExit :: int
  ud_powerUp :: int
  ud_transport :: int
  ud_exists :: bool
  ud_isBurrowed :: bool
  ud_carryResourceType :: int
  ud_isCompleted :: bool
  ud_isConstructing :: bool
  ud_isGathering :: bool
  ud_isHallucination :: bool
  ud_isIdle :: bool
  ud_isInterruptible :: bool
  ud_isInvincible :: bool
  ud_isLifted :: bool
  ud_isMorphing :: bool
  ud_isMoving :: bool
  ud_isTraining :: bool
  ud_isPowered :: bool
  ud_isVisible :: "bool list"
  ud_buttonset :: int
  ud_initialType :: int
  ud_initialPosition :: "int \<times> int"
  ud_connectedUnits :: "nat list"
  ud_loadedUnits :: "nat list"

text \<open>The fields of \<open>PlayerData\<close> the checks read; \<open>id\<close> and \<open>index\<close> are the player's own.\<close>

record player_data =
  pd_id :: int
  pd_index :: int
  pd_raceType :: int
  pd_isParticipating :: bool
  pd_minerals :: int
  pd_gas :: int
  pd_supplyTotal :: "int list"
  pd_supplyUsed :: "int list"
  pd_allUnitCount :: "nat \<Rightarrow> int"
  pd_completedUnitCount :: "nat \<Rightarrow> int"
  pd_upgradeLevel :: "nat \<Rightarrow> int"
  pd_hasResearched :: "nat \<Rightarrow> bool"
  pd_isResearching :: "nat \<Rightarrow> bool"
  pd_isUpgrading :: "nat \<Rightarrow> bool"
  pd_maxUpgradeLevel :: "nat \<Rightarrow> int"
  pd_isResearchAvailable :: "nat \<Rightarrow> bool"
  pd_isUnitAvailable :: "nat \<Rightarrow> bool"

text \<open>A finder entry is the unit's number (its array place plus one) and an edge coordinate.\<close>

record game =
  g_unit :: "nat \<Rightarrow> unit_data"
  g_unitVector :: "nat list"
  g_player :: "nat \<Rightarrow> player_data"
  g_playerVector :: "nat list"
  g_self :: "nat option"
  g_playerAlliances :: "int \<Rightarrow> int \<Rightarrow> int"
  g_flags :: "bool list"
  g_calledMatchEnd :: bool
  g_mapSize :: "int \<times> int"
  g_buildable :: "int \<Rightarrow> int \<Rightarrow> bool"
  g_explored :: "int \<Rightarrow> int \<Rightarrow> bool"
  g_visible :: "int \<Rightarrow> int \<Rightarrow> bool"
  g_creep :: "int \<Rightarrow> int \<Rightarrow> bool"
  g_walkable :: "int \<Rightarrow> int \<Rightarrow> bool"
  g_regionGroup :: "int \<times> int \<Rightarrow> int option"
  g_finderX :: "(nat \<times> int) list"
  g_finderY :: "(nat \<times> int) list"
  g_pylons :: "nat list"
  g_geysers :: "nat list"
  g_staticMinerals :: "nat list"
  g_staticGeysers :: "nat list"

text \<open>Division of \<open>int\<close>s truncates towards zero.\<close>

definition cdiv :: "int \<Rightarrow> int \<Rightarrow> int" where
  "cdiv a b = sgn a * (\<bar>a\<bar> div b)"

text \<open>\<open>Orders::Enum\<close>, the members the checks name.\<close>

abbreviation (input) Order_ConstructingBuilding :: int where "Order_ConstructingBuilding \<equiv> 33"
abbreviation (input) Order_ZergBirth :: int where "Order_ZergBirth \<equiv> 41"
abbreviation (input) Order_ResearchTech :: int where "Order_ResearchTech \<equiv> 75"
abbreviation (input) Order_Upgrade :: int where "Order_Upgrade \<equiv> 76"
abbreviation (input) Order_Sieging :: int where "Order_Sieging \<equiv> 98"
abbreviation (input) Order_Unsieging :: int where "Order_Unsieging \<equiv> 99"
abbreviation (input) Order_Cloak :: int where "Order_Cloak \<equiv> 109"
abbreviation (input) Order_Burrowing :: int where "Order_Burrowing \<equiv> 116"
abbreviation (input) Order_Unburrowing :: int where "Order_Unburrowing \<equiv> 118"
abbreviation (input) Order_CTFCOPInit :: int where "Order_CTFCOPInit \<equiv> 153"
abbreviation (input) Order_Unknown :: int where "Order_Unknown \<equiv> 190"


section \<open>Lookups\<close>

definition getUnit :: "game \<Rightarrow> int \<Rightarrow> nat option" where
  "getUnit g i = (if i < 0 \<or> length (g_unitVector g) \<le> nat i then None else Some (g_unitVector g ! nat i))"

definition getPlayerById :: "game \<Rightarrow> int \<Rightarrow> nat option" where
  "getPlayerById g i = 
     (if i < 0 \<or> length (g_playerVector g) \<le> nat i then None else Some (g_playerVector g ! nat i))"

definition isFlagEnabled :: "game \<Rightarrow> nat \<Rightarrow> bool" where
  "isFlagEnabled g flag \<longleftrightarrow> 
     (if flag \<ge> 2 then False else if flag = 0 \<and> g_calledMatchEnd g then True else g_flags g ! flag)"

definition isBuildable :: "game \<Rightarrow> int \<Rightarrow> int \<Rightarrow> bool" where
  "isBuildable g x y \<longleftrightarrow> g_buildable g x y"

definition isExplored :: "game \<Rightarrow> int \<Rightarrow> int \<Rightarrow> bool" where
  "isExplored g x y \<longleftrightarrow> g_explored g x y"

definition isWalkable :: "game \<Rightarrow> int \<Rightarrow> int \<Rightarrow> bool" where
  "isWalkable g x y \<longleftrightarrow> g_walkable g x y"

definition tileVisible :: "game \<Rightarrow> int \<Rightarrow> int \<Rightarrow> bool" where
  "tileVisible g x y \<longleftrightarrow> g_visible g x y"

definition hasCreep :: "game \<Rightarrow> int \<Rightarrow> int \<Rightarrow> bool" where
  "hasCreep g x y \<longleftrightarrow> 
     (if \<not> isFlagEnabled g 0 \<and> \<not> tileVisible g x y then False else g_creep g x y)"

section \<open>The unit accessors\<close>

definition getPlayer :: "game \<Rightarrow> nat \<Rightarrow> nat option" where
  "getPlayer g u = getPlayerById g (ud_player (g_unit g u))"

definition getType :: "game \<Rightarrow> nat \<Rightarrow> int" where
  "getType g u = mkType UnitType_Unknown (ud_type (g_unit g u))"

definition getPosition :: "game \<Rightarrow> nat \<Rightarrow> int \<times> int" where
  "getPosition g u = (ud_positionX (g_unit g u), ud_positionY (g_unit g u))"

definition getHitPoints :: "game \<Rightarrow> nat \<Rightarrow> int" where
  "getHitPoints g u = ud_hitPoints (g_unit g u)"

definition getEnergy :: "game \<Rightarrow> nat \<Rightarrow> int" where
  "getEnergy g u = ud_energy (g_unit g u)"

definition getScarabCount :: "game \<Rightarrow> nat \<Rightarrow> int" where
  "getScarabCount g u = ud_scarabCount (g_unit g u)"

definition getInterceptorCount :: "game \<Rightarrow> nat \<Rightarrow> int" where
  "getInterceptorCount g u = ud_interceptorCount (g_unit g u)"

definition getSpiderMineCount :: "game \<Rightarrow> nat \<Rightarrow> int" where
  "getSpiderMineCount g u = ud_spiderMineCount (g_unit g u)"

definition getLockdownTimer :: "game \<Rightarrow> nat \<Rightarrow> int" where
  "getLockdownTimer g u = ud_lockdownTimer (g_unit g u)"

definition getMaelstromTimer :: "game \<Rightarrow> nat \<Rightarrow> int" where
  "getMaelstromTimer g u = ud_maelstromTimer (g_unit g u)"

definition getStasisTimer :: "game \<Rightarrow> nat \<Rightarrow> int" where
  "getStasisTimer g u = ud_stasisTimer (g_unit g u)"

definition getTrainingQueue :: "game \<Rightarrow> nat \<Rightarrow> int list" where
  "getTrainingQueue g u = take (nat (ud_trainingQueueCount (g_unit g u))) (ud_trainingQueue (g_unit g u))"

definition getOrder :: "game \<Rightarrow> nat \<Rightarrow> int" where
  "getOrder g u = mkType Order_Unknown (ud_order (g_unit g u))"

definition getSecondaryOrder :: "game \<Rightarrow> nat \<Rightarrow> int" where
  "getSecondaryOrder g u = mkType Order_Unknown (ud_secondaryOrder (g_unit g u))"

definition getBuildUnit :: "game \<Rightarrow> nat \<Rightarrow> nat option" where
  "getBuildUnit g u = getUnit g (ud_buildUnit (g_unit g u))"

definition getTarget :: "game \<Rightarrow> nat \<Rightarrow> nat option" where
  "getTarget g u = getUnit g (ud_target (g_unit g u))"

definition getOrderTarget :: "game \<Rightarrow> nat \<Rightarrow> nat option" where
  "getOrderTarget g u = getUnit g (ud_orderTarget (g_unit g u))"

definition getAddon :: "game \<Rightarrow> nat \<Rightarrow> nat option" where
  "getAddon g u = getUnit g (ud_addon (g_unit g u))"

definition getNydusExit :: "game \<Rightarrow> nat \<Rightarrow> nat option" where
  "getNydusExit g u = getUnit g (ud_nydusExit (g_unit g u))"

definition getPowerUp :: "game \<Rightarrow> nat \<Rightarrow> nat option" where
  "getPowerUp g u = getUnit g (ud_powerUp (g_unit g u))"

definition getTransport :: "game \<Rightarrow> nat \<Rightarrow> nat option" where
  "getTransport g u = getUnit g (ud_transport (g_unit g u))"

definition getLoadedUnits :: "game \<Rightarrow> nat \<Rightarrow> nat list" where
  "getLoadedUnits g u = ud_loadedUnits (g_unit g u)"

definition getInterceptors :: "game \<Rightarrow> nat \<Rightarrow> nat list" where
  "getInterceptors g u = 
     (if getType g u \<noteq> Protoss_Carrier \<and> getType g u \<noteq> Hero_Gantrithor then []
      else ud_connectedUnits (g_unit g u))"

definition getLarva :: "game \<Rightarrow> nat \<Rightarrow> nat list" where
  "getLarva g u = 
     (if \<not> producesLarva (getType g u) then [] else ud_connectedUnits (g_unit g u))"

definition getInitialTilePosition :: "game \<Rightarrow> nat \<Rightarrow> int \<times> int" where
  "getInitialTilePosition g u = 
     (if ud_initialPosition (g_unit g u) = (32000, 32032) then (1000, 1001)
      else (let (w, h) = tileSize (ud_initialType (g_unit g u)); (x, y) = ud_initialPosition (g_unit g u)
            in (cdiv (x - w * 16) 32, cdiv (y - h * 16) 32)))"

definition unit_exists :: "game \<Rightarrow> nat \<Rightarrow> bool" where
  "unit_exists g u \<longleftrightarrow> ud_exists (g_unit g u)"

definition isBurrowed :: "game \<Rightarrow> nat \<Rightarrow> bool" where
  "isBurrowed g u \<longleftrightarrow> ud_isBurrowed (g_unit g u)"

definition isCarryingGas :: "game \<Rightarrow> nat \<Rightarrow> bool" where
  "isCarryingGas g u \<longleftrightarrow> ud_carryResourceType (g_unit g u) = 1"

definition isCarryingMinerals :: "game \<Rightarrow> nat \<Rightarrow> bool" where
  "isCarryingMinerals g u \<longleftrightarrow> ud_carryResourceType (g_unit g u) = 2"

definition isCompleted :: "game \<Rightarrow> nat \<Rightarrow> bool" where
  "isCompleted g u \<longleftrightarrow> ud_isCompleted (g_unit g u)"

definition isConstructing :: "game \<Rightarrow> nat \<Rightarrow> bool" where
  "isConstructing g u \<longleftrightarrow> ud_isConstructing (g_unit g u)"

definition isHallucination :: "game \<Rightarrow> nat \<Rightarrow> bool" where
  "isHallucination g u \<longleftrightarrow> ud_isHallucination (g_unit g u)"

definition isIdle :: "game \<Rightarrow> nat \<Rightarrow> bool" where
  "isIdle g u \<longleftrightarrow> ud_isIdle (g_unit g u)"

definition isInterruptible :: "game \<Rightarrow> nat \<Rightarrow> bool" where
  "isInterruptible g u \<longleftrightarrow> ud_isInterruptible (g_unit g u)"

definition isInvincible :: "game \<Rightarrow> nat \<Rightarrow> bool" where
  "isInvincible g u \<longleftrightarrow> ud_isInvincible (g_unit g u)"

definition isLifted :: "game \<Rightarrow> nat \<Rightarrow> bool" where
  "isLifted g u \<longleftrightarrow> ud_isLifted (g_unit g u)"

definition isMorphing :: "game \<Rightarrow> nat \<Rightarrow> bool" where
  "isMorphing g u \<longleftrightarrow> ud_isMorphing (g_unit g u)"

definition isTraining :: "game \<Rightarrow> nat \<Rightarrow> bool" where
  "isTraining g u \<longleftrightarrow> ud_isTraining (g_unit g u)"

definition isPowered :: "game \<Rightarrow> nat \<Rightarrow> bool" where
  "isPowered g u \<longleftrightarrow> ud_isPowered (g_unit g u)"

definition isVisible :: "game \<Rightarrow> nat \<Rightarrow> bool" where
  "isVisible g u \<longleftrightarrow> 
     (case g_self g of
        Some p \<Rightarrow> ud_isVisible (g_unit g u) ! nat (pd_id (g_player g p))
      | None \<Rightarrow> list_ex (\<lambda>i. ud_isVisible (g_unit g u) ! i) [0..<9])"

text \<open>The derived accessors of \<open>UnitInterface\<close>.\<close>

definition isFlying :: "game \<Rightarrow> nat \<Rightarrow> bool" where
  "isFlying g u \<longleftrightarrow> isFlyer (getType g u) \<or> isLifted g u"

definition isLoaded :: "game \<Rightarrow> nat \<Rightarrow> bool" where
  "isLoaded g u \<longleftrightarrow> getTransport g u \<noteq> None"

definition isLockedDown :: "game \<Rightarrow> nat \<Rightarrow> bool" where
  "isLockedDown g u \<longleftrightarrow> getLockdownTimer g u \<noteq> 0"

definition isMaelstrommed :: "game \<Rightarrow> nat \<Rightarrow> bool" where
  "isMaelstrommed g u \<longleftrightarrow> getMaelstromTimer g u \<noteq> 0"

definition isStasised :: "game \<Rightarrow> nat \<Rightarrow> bool" where
  "isStasised g u \<longleftrightarrow> getStasisTimer g u \<noteq> 0"

definition isSieged :: "game \<Rightarrow> nat \<Rightarrow> bool" where
  "isSieged g u \<longleftrightarrow> 
     getType g u = Terran_Siege_Tank_Siege_Mode \<or> getType g u = Hero_Edmund_Duke_Siege_Mode"

definition isBeingConstructed :: "game \<Rightarrow> nat \<Rightarrow> bool" where
  "isBeingConstructed g u \<longleftrightarrow> 
     (if isMorphing g u then True else if isCompleted g u then False
      else if getRaceType (getType g u) \<noteq> Race_Terran then True else getBuildUnit g u \<noteq> None)"

definition getTilePosition :: "game \<Rightarrow> nat \<Rightarrow> int \<times> int" where
  "getTilePosition g u = 
     (cdiv \<bar>fst (getPosition g u) - cdiv (tileWidth (getType g u) * 32) 2\<bar> 32,
      cdiv \<bar>snd (getPosition g u) - cdiv (tileHeight (getType g u) * 32) 2\<bar> 32)"

definition getLeft :: "game \<Rightarrow> nat \<Rightarrow> int" where
  "getLeft g u = fst (getPosition g u) - dimensionLeft (getType g u)"

definition getTop :: "game \<Rightarrow> nat \<Rightarrow> int" where
  "getTop g u = snd (getPosition g u) - dimensionUp (getType g u)"

definition getRight :: "game \<Rightarrow> nat \<Rightarrow> int" where
  "getRight g u = fst (getPosition g u) + dimensionRight (getType g u)"

definition getBottom :: "game \<Rightarrow> nat \<Rightarrow> int" where
  "getBottom g u = snd (getPosition g u) + dimensionDown (getType g u)"

text \<open>\<open>getApproxDistance\<close> from the origin, on the unsigned values of the two distances.\<close>

definition getApproxDistance :: "int \<times> int \<Rightarrow> int" where
  "getApproxDistance p = 
     (let mx = max \<bar>fst p\<bar> \<bar>snd p\<bar>; mn = min \<bar>fst p\<bar> \<bar>snd p\<bar> in
      if mn \<le> mx div 4 then mx
      else (let minCalc = 3 * mn div 8 in minCalc div 32 + minCalc + mx - mx div 16 - mx div 64))"

definition axis_gap :: "int \<Rightarrow> int \<Rightarrow> int \<Rightarrow> int \<Rightarrow> int" where
  "axis_gap lo1 hi1 lo2 hi2 =
     (if lo1 - hi2 < 0 then (if lo2 - hi1 < 0 then 0 else lo2 - hi1) else lo1 - hi2)"

definition getDistance :: "game \<Rightarrow> nat \<Rightarrow> nat \<Rightarrow> int" where
  "getDistance g u t =
     (if \<not> unit_exists g u \<or> \<not> unit_exists g t then 2 ^ 31 - 1
      else if u = t then 0
      else getApproxDistance
        (axis_gap (getLeft g u) (getRight g u) (getLeft g t - 1) (getRight g t + 1),
         axis_gap (getTop g u) (getBottom g u) (getTop g t - 1) (getBottom g t + 1)))"

section \<open>The player accessors\<close>

definition minerals :: "game \<Rightarrow> nat \<Rightarrow> int" where
  "minerals g p = pd_minerals (g_player g p)"

definition gas :: "game \<Rightarrow> nat \<Rightarrow> int" where
  "gas g p = pd_gas (g_player g p)"

definition supplyTotal :: "game \<Rightarrow> nat \<Rightarrow> int \<Rightarrow> int" where
  "supplyTotal g p r = 
     (let race = (if r = Race_None then pd_raceType (g_player g p) else r) in
      if 0 \<le> race \<and> race < 3 then pd_supplyTotal (g_player g p) ! nat race else 0)"

definition supplyUsed :: "game \<Rightarrow> nat \<Rightarrow> int \<Rightarrow> int" where
  "supplyUsed g p r = 
     (let race = (if r = Race_None then pd_raceType (g_player g p) else r) in
      if 0 \<le> race \<and> race < 3 then pd_supplyUsed (g_player g p) ! nat race else 0)"

definition allUnitCount :: "game \<Rightarrow> nat \<Rightarrow> int \<Rightarrow> int" where
  "allUnitCount g p t = (if 0 \<le> t \<and> t < 234 then pd_allUnitCount (g_player g p) (nat t) else 0)"

definition completedUnitCount :: "game \<Rightarrow> nat \<Rightarrow> int \<Rightarrow> int" where
  "completedUnitCount g p t = (if 0 \<le> t \<and> t < 234 then pd_completedUnitCount (g_player g p) (nat t) else 0)"

text \<open>\<open>Type::isValid\<close>.\<close>

definition valid_id :: "int \<Rightarrow> int \<Rightarrow> bool" where
  "valid_id unknown t \<longleftrightarrow> 0 \<le> t \<and> t \<le> unknown"

definition getUpgradeLevel :: "game \<Rightarrow> nat \<Rightarrow> int \<Rightarrow> int" where
  "getUpgradeLevel g p t = (if valid_id UpgradeType_Unknown t then pd_upgradeLevel (g_player g p) (nat t) else 0)"

definition getMaxUpgradeLevel :: "game \<Rightarrow> nat \<Rightarrow> int \<Rightarrow> int" where
  "getMaxUpgradeLevel g p t = (if valid_id UpgradeType_Unknown t then pd_maxUpgradeLevel (g_player g p) (nat t) else 0)"

definition hasResearched :: "game \<Rightarrow> nat \<Rightarrow> int \<Rightarrow> bool" where
  "hasResearched g p t \<longleftrightarrow> 
     (if valid_id TechType_Unknown t then pd_hasResearched (g_player g p) (nat t) else False)"

definition isResearching :: "game \<Rightarrow> nat \<Rightarrow> int \<Rightarrow> bool" where
  "isResearching g p t \<longleftrightarrow> 
     (if valid_id TechType_Unknown t then pd_isResearching (g_player g p) (nat t) else False)"

definition isUpgrading :: "game \<Rightarrow> nat \<Rightarrow> int \<Rightarrow> bool" where
  "isUpgrading g p t \<longleftrightarrow> 
     (if valid_id UpgradeType_Unknown t then pd_isUpgrading (g_player g p) (nat t) else False)"

definition isResearchAvailable :: "game \<Rightarrow> nat \<Rightarrow> int \<Rightarrow> bool" where
  "isResearchAvailable g p t \<longleftrightarrow> 
     (if valid_id TechType_Unknown t then pd_isResearchAvailable (g_player g p) (nat t) else False)"

definition isUnitAvailable :: "game \<Rightarrow> nat \<Rightarrow> int \<Rightarrow> bool" where
  "isUnitAvailable g p t \<longleftrightarrow> 
     (if valid_id UnitType_Unknown t then pd_isUnitAvailable (g_player g p) (nat t) else False)"

definition player_isObserver :: "game \<Rightarrow> nat \<Rightarrow> bool" where
  "player_isObserver g p \<longleftrightarrow> \<not> pd_isParticipating (g_player g p)"

definition player_isNeutral :: "game \<Rightarrow> nat \<Rightarrow> bool" where
  "player_isNeutral g p \<longleftrightarrow> pd_index (g_player g p) = 11"

definition isEnemy :: "game \<Rightarrow> nat \<Rightarrow> nat option \<Rightarrow> bool" where
  "isEnemy g p q \<longleftrightarrow> 
     (case q of None \<Rightarrow> False
      | Some r \<Rightarrow>
          if player_isNeutral g p \<or> player_isNeutral g r \<or> player_isObserver g p \<or> player_isObserver g r
          then False
          else g_playerAlliances g (pd_index (g_player g p)) (pd_index (g_player g r)) = 0)"

definition hasUnitTypeRequirement :: "game \<Rightarrow> nat \<Rightarrow> int \<Rightarrow> int \<Rightarrow> bool" where
  "hasUnitTypeRequirement g p t amount \<longleftrightarrow> 
     (if t = UnitType_None then True
      else if t = Zerg_Hatchery
      then completedUnitCount g p Zerg_Hatchery + allUnitCount g p Zerg_Lair + allUnitCount g p Zerg_Hive \<ge> amount
      else if t = Zerg_Lair then completedUnitCount g p Zerg_Lair + allUnitCount g p Zerg_Hive \<ge> amount
      else if t = Zerg_Spire
      then completedUnitCount g p Zerg_Spire + allUnitCount g p Zerg_Greater_Spire \<ge> amount
      else completedUnitCount g p t \<ge> amount)"

definition weaponMaxRange :: "game \<Rightarrow> nat \<Rightarrow> int \<Rightarrow> int" where
  "weaponMaxRange g p w = 
     maxRange w
     + (if (w = Wpn_Gauss_Rifle \<and> getUpgradeLevel g p Upg_U_238_Shells > 0)
           \<or> (w = Wpn_Needle_Spines \<and> getUpgradeLevel g p Upg_Grooved_Spines > 0) then 1 * 32
        else if w = Wpn_Phase_Disruptor \<and> getUpgradeLevel g p Upg_Singularity_Charge > 0 then 2 * 32
        else if w = Wpn_Hellfire_Missile_Pack \<and> getUpgradeLevel g p Upg_Charon_Boosters > 0 then 3 * 32
        else 0)"

section \<open>Checks\<close>

text \<open>
  A check runs on the last error and returns its answer with the last error it leaves, or nothing
  when it dereferences null (or, for the one recursive check, never returns).
\<close>

type_synonym check = "err \<Rightarrow> (bool \<times> err) option"

definition give :: "bool \<Rightarrow> check" where
  "give b = (\<lambda>e. Some (b, e))"

definition setLastError :: "err \<Rightarrow> check" where
  "setLastError x = (\<lambda>e. Some (x = No_Error, x))"

definition ask :: "check \<Rightarrow> check \<Rightarrow> check \<Rightarrow> check" where
  "ask c yes no = (\<lambda>e. case c e of None \<Rightarrow> None | Some (b, e') \<Rightarrow> if b then yes e' else no e')"

definition crash :: check where
  "crash = (\<lambda>e. None)"

definition deref :: "nat option \<Rightarrow> (nat \<Rightarrow> check) \<Rightarrow> check" where
  "deref p k = (case p of None \<Rightarrow> crash | Some x \<Rightarrow> k x)"

text \<open>\<open>setLastError(x); rest\<close>, the operators, and \<open>if (!c) return false;\<close>.\<close>

definition after_error :: "err \<Rightarrow> check \<Rightarrow> check" where
  "after_error x k = ask (setLastError x) k k"

definition bnot :: "check \<Rightarrow> check" where
  "bnot c = ask c (give False) (give True)"

definition band :: "check \<Rightarrow> check \<Rightarrow> check" where
  "band a b = ask a b (give False)"

definition bor :: "check \<Rightarrow> check \<Rightarrow> check" where
  "bor a b = ask a (give True) b"

definition ensure :: "check \<Rightarrow> check \<Rightarrow> check" where
  "ensure c k = ask c k (give False)"

definition ensure_if :: "bool \<Rightarrow> check \<Rightarrow> check \<Rightarrow> check" where
  "ensure_if flag c k = (if flag then ensure c k else k)"

text \<open>A loop that stops with an answer: the body returns \<open>True\<close> to stop.\<close>

fun any_unit :: "nat list \<Rightarrow> (nat \<Rightarrow> check) \<Rightarrow> check" where
  "any_unit [] c = give False"
| "any_unit (u # us) c = ask (c u) (give True) (any_unit us c)"

section \<open>Paths and ranges\<close>

definition map_size_of :: "game \<Rightarrow> map_size" where
  "map_size_of g = Some (g_mapSize g)"

abbreviation validPosition :: "game \<Rightarrow> int \<times> int \<Rightarrow> bool" where
  "validPosition g \<equiv> pointIsValid 1 (map_size_of g)"

abbreviation validWalkPosition :: "game \<Rightarrow> int \<times> int \<Rightarrow> bool" where
  "validWalkPosition g \<equiv> pointIsValid 8 (map_size_of g)"

abbreviation validTile :: "game \<Rightarrow> int \<times> int \<Rightarrow> bool" where
  "validTile g \<equiv> pointIsValid 32 (map_size_of g)"

definition game_hasPath :: "game \<Rightarrow> int \<times> int \<Rightarrow> int \<times> int \<Rightarrow> check" where
  "game_hasPath g source destination =
     (if validPosition g source \<and> validPosition g destination
         \<and> g_regionGroup g source \<noteq> None \<and> g_regionGroup g destination \<noteq> None
         \<and> g_regionGroup g source = g_regionGroup g destination
      then setLastError No_Error else setLastError Unreachable_Location)"

definition hasPath :: "game \<Rightarrow> nat \<Rightarrow> int \<times> int \<Rightarrow> check" where
  "hasPath g u target =
     after_error No_Error (
     if \<not> validPosition g target then setLastError Invalid_Parameter
     else if isFlying g u then give True
     else if \<not> unit_exists g u then setLastError Unit_Not_Visible
     else
       ask (game_hasPath g (getPosition g u) target) (give True) (
       ask (game_hasPath g (getLeft g u, getTop g u) target) (give True) (
       ask (game_hasPath g (getRight g u, getTop g u) target) (give True) (
       ask (game_hasPath g (getLeft g u, getBottom g u) target) (give True) (
       game_hasPath g (getRight g u, getBottom g u) target)))))"

text \<open>The owner is dereferenced for the range of the weapon.\<close>

definition isInWeaponRange :: "game \<Rightarrow> nat \<Rightarrow> nat \<Rightarrow> check" where
  "isInWeaponRange g u target =
     (if \<not> unit_exists g u \<or> \<not> unit_exists g target \<or> u = target then give False
      else (let wpn = (if isFlying g target then airWeapon (getType g u) else groundWeapon (getType g u)) in
        if wpn = WeaponType_None \<or> wpn = WeaponType_Unknown then give False
        else deref (getPlayer g u) (\<lambda>p.
          let distance = getDistance g u target in
          give ((if minRange wpn \<noteq> 0 then minRange wpn < distance else True)
                \<and> distance \<le> weaponMaxRange g p wpn))))"

end
