(* ===== verification/Command_Optimizer.thy ===== *)
theory Command_Optimizer
  imports Game_Commands Game_State "HOL-Library.Multiset"
begin

text \<open>
  The command optimizer of the injected client (\<open>BWAPI/Source/BWAPI/CommandOptimizer.cpp\<close>): \<open>add\<close>
  rewrites a command to a form that groups better and takes it over when the level allows it;
  \<open>flush\<close> sends what it holds, the same order to up to twelve units at a time.

  A queued command holds its units as pointers, so \<open>flush\<close> reads them as they are then: the commands
  it is given are refreshed first.
\<close>

section \<open>Adding a command\<close>

record optimizer =
  opt_level :: int
  opt_queue :: "int \<Rightarrow> unit_command list"

definition targets_enemy :: "game \<Rightarrow> unit_ref \<Rightarrow> bool" where
  "targets_enemy g t \<longleftrightarrow>
     (case t of None \<Rightarrow> False
      | Some v \<Rightarrow>
          (case g_self g of None \<Rightarrow> False | Some p \<Rightarrow> isEnemy g p (getPlayer g (u_index v))))"

definition carrier_like :: "int \<Rightarrow> bool" where
  "carrier_like t \<longleftrightarrow> t = Protoss_Carrier \<or> t = Hero_Gantrithor \<or> t = Protoss_Reaver \<or> t = Hero_Warbringer"

definition merge_tech :: "int \<Rightarrow> bool" where
  "merge_tech t \<longleftrightarrow> t = Tech_Archon_Warp \<or> t = Tech_Dark_Archon_Meld"

definition position_command :: "int \<Rightarrow> bool" where
  "position_command t \<longleftrightarrow> t = Attack_Move \<or> t = Move \<or> t = Patrol \<or> t = Right_Click_Position
     \<or> t = Set_Rally_Position \<or> t = Unload_All_Position \<or> t = Use_Tech_Position"

definition simplify_tech :: "unit_command \<Rightarrow> unit_command" where
  "simplify_tech c =
     (let u = uc_unit c; now = (\<lambda>active. case u of None \<Rightarrow> False | Some v \<Rightarrow> active v) in
      if getTechType c = Tech_Tank_Siege_Mode
      then (if now lu_isSieged then uc_unsiege u else uc_siege u)
      else if getTechType c = Tech_Personnel_Cloaking \<or> getTechType c = Tech_Cloaking_Field
      then (if now lu_isCloaked then uc_decloak u else uc_cloak u)
      else if getTechType c = Tech_Burrowing
      then (if now lu_isBurrowed then uc_unburrow u else uc_burrow u)
      else c)"

definition simplify_command :: "game \<Rightarrow> map_size \<Rightarrow> unit_command \<Rightarrow> unit_command" where
  "simplify_command g ms c =
     (let uct = uc_type c; utarg = uc_target c; targType = unitTypeOr utarg;
          uthis = uc_unit c; thisType = unitTypeOr uthis;
          click = uc_rightClick_pos ms uthis (fst (getTargetPosition c)) (snd (getTargetPosition c)) False
      in
      if uct = Attack_Unit
      then (if type_canAttack thisType \<and> targets_enemy g utarg then c\<lparr>uc_type := Right_Click_Unit\<rparr> else c)
      else if uct = Move then click
      else if uct = Gather
      then (if isResourceContainer targType then uc_rightClick_unit uthis utarg False else c)
      else if uct = Set_Rally_Position
      then (if canProduce thisType \<and> \<not> carrier_like thisType then click else c)
      else if uct = Set_Rally_Unit
      then (if canProduce thisType \<and> \<not> carrier_like thisType
            then uc_rightClick_unit uthis utarg False else c)
      else if uct = Use_Tech_Unit
      then (if getTechType c = Tech_Infestation
               \<and> (thisType = Zerg_Queen \<or> thisType = Hero_Matriarch)
               \<and> targType = Terran_Command_Center
            then uc_rightClick_unit uthis utarg False else c)
      else if uct = Train
      then (if carrier_like thisType then uc_train uthis Protoss_Interceptor else c)
      else if uct = Use_Tech then simplify_tech c
      else c)"

text \<open>The low five bits of a coordinate are cleared.\<close>

definition align :: "int \<Rightarrow> int" where
  "align x = x - x mod 32"

text \<open>At level four the command is built again from the type it had before it was simplified.\<close>

definition align_command :: "map_size \<Rightarrow> int \<Rightarrow> unit_ref \<Rightarrow> unit_ref \<Rightarrow> unit_command \<Rightarrow> unit_command" where
  "align_command ms uct uthis utarg c =
     (let c1 = (case utarg of
                  None \<Rightarrow> c
                | Some t \<Rightarrow>
                    if uct = Use_Tech_Unit \<and> targetsPosition (getTechType c)
                    then uc_useTech_pos ms uthis (getTechType c) (fst (lu_position t)) (snd (lu_position t))
                    else c)
      in
      if position_command uct
      then \<lparr>uc_unit = uthis, uc_type = uct, uc_target = utarg, uc_x = align (uc_x c1),
            uc_y = align (uc_y c1), uc_extra = uc_extra c1\<rparr>
      else if uct = Use_Tech_Unit \<and> merge_tech (getTechType c1)
      then uc_useTech_unit uthis (getTechType c1) None
      else c1)"

text \<open>The command as it was taken over, or nothing when it is left to the caller.\<close>

definition add :: "game \<Rightarrow> map_size \<Rightarrow> unit_command \<Rightarrow> optimizer \<Rightarrow> unit_command option \<times> optimizer" where
  "add g ms command opt =
     (let level = opt_level opt; uct = uc_type command; uthis = uc_unit command;
          utarg = uc_target command; thisType = unitTypeOr uthis in
      if level = 0 \<or> isQueued command \<or> uct \<ge> Uc_None then (None, opt)
      else if uct = Build_Addon \<or> uct = Land \<or> uct = Build \<or> uct = Place_COP \<or> uct = Research
        \<or> uct = Upgrade \<or> (level < 4 \<and> uct = Use_Tech_Unit \<and> merge_tech (getTechType command))
      then (None, opt)
      else
        let c = simplify_command g ms command in
        if level \<le> 1 \<and> thisType < UnitType_None \<and> isBuilding thisType then (None, opt)
        else if level \<le> 2 \<and> position_command uct then (None, opt)
        else
          let c' = (if level \<ge> 4 then align_command ms uct uthis utarg c else c) in
          (Some c', opt\<lparr>opt_queue := (opt_queue opt)(uc_type c' := c' # opt_queue opt (uc_type c'))\<rparr>))"

definition clear :: "optimizer \<Rightarrow> optimizer" where
  "clear opt = opt\<lparr>opt_queue := (\<lambda>i. if 0 \<le> i \<and> i < Uc_None then [] else opt_queue opt i)\<rparr>"

definition init :: "optimizer \<Rightarrow> optimizer" where
  "init opt = (clear opt)\<lparr>opt_level := 0\<rparr>"

section \<open>Flushing\<close>

definition group_flag :: "int \<Rightarrow> unit_command \<Rightarrow> bool" where
  "group_flag i c \<longleftrightarrow>
     (if i = Attack_Unit \<or> i = Unload_All \<or> i = Load \<or> i = Cancel_Morph
      then isBuilding (unitTypeOr (uc_unit c))
      else if i = Use_Tech
      then (case uc_unit c of None \<Rightarrow> False
            | Some u \<Rightarrow> lu_isSieged u \<or> lu_isCloaked u \<or> lu_isBurrowed u)
      else False)"

record order_group =
  og_units :: "unit_ref list"
  og_extra :: int
  og_target :: unit_ref
  og_pos :: "int \<times> int"
  og_flag :: bool

definition start_group :: "int \<Rightarrow> unit_command \<Rightarrow> order_group" where
  "start_group i c =
     \<lparr>og_units = [uc_unit c], og_extra = uc_extra c, og_target = uc_target c,
      og_pos = getTargetPosition c, og_flag = group_flag i c\<rparr>"

definition unit_id :: "unit_ref \<Rightarrow> nat option" where
  "unit_id u = map_option u_index u"

definition joins :: "int \<Rightarrow> unit_command \<Rightarrow> order_group \<Rightarrow> bool" where
  "joins i c og \<longleftrightarrow> og_extra og = uc_extra c \<and> unit_id (og_target og) = unit_id (uc_target c)
     \<and> og_pos og = getTargetPosition c \<and> og_flag og = group_flag i c"

definition names_leader :: "int \<Rightarrow> bool" where
  "names_leader i \<longleftrightarrow> i = Load \<or> i = Attack_Unit \<or> i = Train \<or> i = Unload_All \<or> i = Cancel_Morph \<or> i = Use_Tech"

text \<open>A batch: the units that are selected, and the command that is executed for them.\<close>

type_synonym batch = "unit_ref list \<times> unit_command"

definition batch_of :: "int \<Rightarrow> order_group \<Rightarrow> batch" where
  "batch_of i og =
     (og_units og,
      \<lparr>uc_unit = (if names_leader i then hd (og_units og) else None), uc_type = i,
       uc_target = og_target og, uc_x = fst (og_pos og), uc_y = snd (og_pos og),
       uc_extra = og_extra og\<rparr>)"

text \<open>
  One walk over the list of a type (the inner loop): the commands left in the list, and the batches
  sent on the way. No group is open when \<open>og_units\<close> is empty; one that has twelve units is sent at
  once, one left over at the end of the walk.
\<close>

fun scan :: "int \<Rightarrow> order_group \<Rightarrow> unit_command list \<Rightarrow> unit_command list \<times> batch list" where
  "scan i og [] = ([], if og_units og = [] then [] else [batch_of i og])"
| "scan i og (c # cs) =
     (if og_units og = [] then scan i (start_group i c) cs
      else if joins i c og
      then (let og' = og\<lparr>og_units := og_units og @ [uc_unit c]\<rparr> in
            if length (og_units og') = 12
            then (let (kept, sent) = scan i (og'\<lparr>og_units := []\<rparr>) cs in (kept, batch_of i og' # sent))
            else scan i og' cs)
      else (let (kept, sent) = scan i og cs in (c # kept, sent)))"

definition no_group :: order_group where
  "no_group = \<lparr>og_units = [], og_extra = 0, og_target = None, og_pos = (32000, 32032), og_flag = False\<rparr>"

lemma scan_kept: "length (fst (scan i og cs)) \<le> length cs"
  by (induction i og cs rule: scan.induct)
    (auto simp: Let_def split: prod.split intro: le_SucI dest: sym)

text \<open>
  The walks over the list, until nothing is left (the outer loop): what the list holds after them, and
  the batches sent.
\<close>

function drain_list :: "int \<Rightarrow> unit_command list \<Rightarrow> unit_command list \<times> batch list" where
  "drain_list i q =
     (if q = [] then (q, [])
      else (let (kept, sent) = scan i no_group q; (left, rest) = drain_list i kept in (left, sent @ rest)))"
  by pat_completeness auto
termination
proof (relation "measure (\<lambda>(i, q). length q)")
  show "wf (measure (\<lambda>(i, q). length q))" by simp
next
  fix i q x kept sent
  assume q: "q \<noteq> []" and x: "x = scan i no_group q" and k: "(kept, sent) = x"
  then obtain c cs where cs: "q = c # cs" by (cases q) auto
  then have "scan i no_group q = scan i (start_group i c) cs" by (simp add: no_group_def)
  then have "length kept \<le> length cs"
    using scan_kept [of i "start_group i c" cs] x k by (metis fst_conv)
  then show "((i, kept), (i, q)) \<in> measure (\<lambda>(i, q). length q)" using cs by simp
qed

declare drain_list.simps [simp del]

definition refresh :: "(nat \<Rightarrow> live_unit) \<Rightarrow> unit_command \<Rightarrow> unit_command" where
  "refresh now c =
     c\<lparr>uc_unit := map_option (\<lambda>u. now (u_index u)) (uc_unit c),
       uc_target := map_option (\<lambda>u. now (u_index u)) (uc_target c)\<rparr>"

definition batch_orders :: "map_size \<Rightarrow> batch \<Rightarrow> exec_result list" where
  "batch_orders ms b = [Queued (Select_units (map (map_option bwu) (fst b))), executeCommand ms (snd b)]"

text \<open>One turn of the loop over the types, and the loop.\<close>

definition flush_type :: "map_size \<Rightarrow> (nat \<Rightarrow> live_unit) \<Rightarrow> int \<Rightarrow> optimizer \<Rightarrow> exec_result list \<times> optimizer" where
  "flush_type ms now i opt =
     (let (left, batches) = drain_list i (map (refresh now) (opt_queue opt i))
      in (concat (map (batch_orders ms) batches), opt\<lparr>opt_queue := (opt_queue opt)(i := left)\<rparr>))"

fun flush_types :: "map_size \<Rightarrow> (nat \<Rightarrow> live_unit) \<Rightarrow> int list \<Rightarrow> optimizer \<Rightarrow> exec_result list \<times> optimizer" where
  "flush_types ms now [] opt = ([], opt)"
| "flush_types ms now (i # is) opt =
     (let (sent, opt) = flush_type ms now i opt; (rest, opt) = flush_types ms now is opt
      in (sent @ rest, opt))"

definition opt_flush :: "map_size \<Rightarrow> (nat \<Rightarrow> live_unit) \<Rightarrow> optimizer \<Rightarrow> exec_result list \<times> optimizer" where
  "opt_flush ms now opt = flush_types ms now [0..Uc_None - 1] opt"

section \<open>What a flush sends\<close>

text \<open>A queued command as the game sees it: the unit, its argument, its target and its place.\<close>

definition errand :: "unit_command \<Rightarrow> nat option \<times> int \<times> nat option \<times> int \<times> int" where
  "errand c = (unit_id (uc_unit c), uc_extra c, unit_id (uc_target c), getTargetPosition c)"

definition errands :: "batch \<Rightarrow> (nat option \<times> int \<times> nat option \<times> int \<times> int) list" where
  "errands b = map (\<lambda>u. (unit_id u, uc_extra (snd b), unit_id (uc_target (snd b)), uc_x (snd b), uc_y (snd b))) (fst b)"

definition group_errands :: "order_group \<Rightarrow> (nat option \<times> int \<times> nat option \<times> int \<times> int) list" where
  "group_errands og = map (\<lambda>u. (unit_id u, og_extra og, unit_id (og_target og), og_pos og)) (og_units og)"

lemma errands_batch_of: "errands (batch_of i og) = group_errands og"
  by (simp add: errands_def batch_of_def group_errands_def)

lemma errand_joins: "joins i c og \<Longrightarrow>
    group_errands (og\<lparr>og_units := og_units og @ [uc_unit c]\<rparr>) = group_errands og @ [errand c]"
  by (simp add: joins_def group_errands_def errand_def)

lemma errand_starts: "group_errands (start_group i c) = [errand c]"
  by (simp add: group_errands_def start_group_def errand_def)

lemma scan_errands:
  "mset (group_errands og) + mset (map errand cs) =
     mset (map errand (fst (scan i og cs))) + mset (concat (map errands (snd (scan i og cs))))"
proof (induction i og cs rule: scan.induct)
  case (1 i og)
  then show ?case by (simp add: errands_batch_of) (simp add: group_errands_def)
next
  case (2 i og c cs)
  consider (start) "og_units og = []" | (join) "og_units og \<noteq> []" "joins i c og"
    | (skip) "og_units og \<noteq> []" "\<not> joins i c og" by blast
  then show ?case
  proof cases
    case start
    then show ?thesis
      using 2(1) by (simp add: errand_starts) (simp add: group_errands_def)
  next
    case join
    let ?og = "og\<lparr>og_units := og_units og @ [uc_unit c]\<rparr>"
    show ?thesis
    proof (cases "length (og_units ?og) = 12")
      case True
      then show ?thesis
        using 2(2) [OF join refl True] join errand_joins [OF join(2)]
        by (simp add: case_prod_beta errands_batch_of group_errands_def)
    next
      case False
      then show ?thesis
        using 2(3) [OF join refl False] join errand_joins [OF join(2)] by (simp add: case_prod_beta Let_def)
    qed
  next
    case skip
    then show ?thesis using 2(4) by (simp add: case_prod_beta)
  qed
qed

lemma drain_list_errands: "mset (concat (map errands (snd (drain_list i q)))) = mset (map errand q)"
proof (induction i q rule: drain_list.induct)
  case (1 i q)
  show ?case
  proof (cases "q = []")
    case False
    have "mset (map errand q) = mset (map errand (fst (scan i no_group q)))
        + mset (concat (map errands (snd (scan i no_group q))))"
      using scan_errands [of no_group q i] by (simp add: group_errands_def no_group_def)
    moreover have "mset (concat (map errands (snd (drain_list i (fst (scan i no_group q)))))) =
        mset (map errand (fst (scan i no_group q)))"
      using 1 [OF False refl, of "fst (scan i no_group q)" "snd (scan i no_group q)"] by simp
    ultimately show ?thesis
      using False by (subst drain_list.simps) (simp add: case_prod_beta)
  qed (simp add: drain_list.simps)
qed

lemma drain_list_left: "fst (drain_list i q) = []"
proof (induction i q rule: drain_list.induct)
  case (1 i q)
  then show ?case by (subst drain_list.simps) (simp add: case_prod_beta prod_eq_iff)
qed

lemma scan_batches:
  assumes "length (og_units og) < 12"
  shows "\<forall>b \<in> set (snd (scan i og cs)). uc_type (snd b) = i \<and> fst b \<noteq> [] \<and> length (fst b) \<le> 12"
  using assms
  by (induction i og cs rule: scan.induct)
    (auto simp: Let_def batch_of_def start_group_def case_prod_beta)

lemma drain_list_batches: "b \<in> set (snd (drain_list i q)) \<Longrightarrow> uc_type (snd b) = i \<and> fst b \<noteq> [] \<and> length (fst b) \<le> 12"
proof (induction i q rule: drain_list.induct)
  case (1 i q)
  have "length (og_units no_group) < 12" by (simp add: no_group_def)
  note scanned = scan_batches [OF this, of i q]
  show ?case
  proof (cases "b \<in> set (snd (scan i no_group q))")
    case True
    then show ?thesis using scanned by blast
  next
    case False
    then have "q \<noteq> []" and "b \<in> set (snd (drain_list i (fst (scan i no_group q))))"
      using 1(2) by (subst (asm) drain_list.simps, simp add: case_prod_beta split: if_splits)+
    then show ?thesis using 1(1) [OF _ refl] by (metis prod.collapse)
  qed
qed

text \<open>The batches of all types, from the queues as they are before the flush.\<close>

definition batches_of :: "int list \<Rightarrow> (int \<Rightarrow> unit_command list) \<Rightarrow> batch list" where
  "batches_of js queue = concat (map (\<lambda>j. snd (drain_list j (queue j))) js)"

lemma batches_by_type:
  assumes "distinct js" "i \<in> set js"
  shows "filter (\<lambda>b. uc_type (snd b) = i) (batches_of js queue) = snd (drain_list i (queue i))"
proof -
  have mine: "filter (\<lambda>b. uc_type (snd b) = i) (snd (drain_list j (queue j))) = (if j = i then snd (drain_list i (queue i)) else [])" for j
    using drain_list_batches [of _ j "queue j"] by (auto simp: filter_id_conv filter_empty_conv)
  have none: "concat (map (\<lambda>j. if j = i then xs else []) ks) = []" if "i \<notin> set ks" for ks and xs :: "batch list"
    using that by (induction ks) auto
  have "filter (\<lambda>b. uc_type (snd b) = i) (batches_of js queue) =
      concat (map (\<lambda>j. if j = i then snd (drain_list i (queue i)) else []) js)"
    by (simp add: batches_of_def filter_concat o_def mine)
  also have "\<dots> = snd (drain_list i (queue i))"
    using assms by (induction js) (auto simp: none)
  finally show ?thesis .
qed

lemma flush_types_result:
  "distinct is \<Longrightarrow>
   fst (flush_types ms now is opt) =
     concat (map (batch_orders ms) (batches_of is (\<lambda>i. map (refresh now) (opt_queue opt i))))
   \<and> opt_level (snd (flush_types ms now is opt)) = opt_level opt
   \<and> (\<forall>j. opt_queue (snd (flush_types ms now is opt)) j = (if j \<in> set is then [] else opt_queue opt j))"
proof (induction "is" arbitrary: opt)
  case Nil
  then show ?case by (simp add: batches_of_def)
next
  case (Cons i "is")
  let ?opt = "opt\<lparr>opt_queue := (opt_queue opt)(i := [])\<rparr>"
  have step: "flush_type ms now i opt
      = (concat (map (batch_orders ms) (snd (drain_list i (map (refresh now) (opt_queue opt i))))), ?opt)"
    using drain_list_left [of i "map (refresh now) (opt_queue opt i)"]
    by (simp add: flush_type_def case_prod_beta)
  have "batches_of is (\<lambda>j. map (refresh now) (opt_queue ?opt j)) = batches_of is (\<lambda>j. map (refresh now) (opt_queue opt j))"
    using Cons.prems by (auto simp: batches_of_def intro!: arg_cong [where f = concat])
  then show ?case
    using Cons.IH [of ?opt] Cons.prems
    by (simp add: step case_prod_beta) (simp add: batches_of_def)
qed

lemma flush_result:
  "fst (opt_flush ms now opt) =
     concat (map (batch_orders ms) (batches_of [0..Uc_None - 1] (\<lambda>i. map (refresh now) (opt_queue opt i))))"
  "opt_level (snd (opt_flush ms now opt)) = opt_level opt"
  "opt_queue (snd (opt_flush ms now opt)) i = (if i \<in> set [0..Uc_None - 1] then [] else opt_queue opt i)"
  using flush_types_result [OF distinct_upto, of ms now 0 "Uc_None - 1" opt] unfolding opt_flush_def by blast+

end
