(* ===== verification/Unit_Finder.thy ===== *)
theory Unit_Finder
  imports Game_State
begin

text \<open>
  The rectangle search over Brood War's unit finder (\<open>iterateUnitFinder\<close> of \<open>Shared/Templates.h\<close>,
  \<open>GameImpl::getUnitsInRectangle\<close>). Each live unit has two entries in each finder, its two edges
  on that axis, and a finder is sorted by the edge. The search marks units by their x edges, then
  by their y edges, and calls back what carries both marks.
\<close>

section \<open>The search\<close>

text \<open>\<open>std::lower_bound\<close> and \<open>std::upper_bound\<close> on a sorted range, as positions.\<close>

definition lower_bound :: "(nat \<times> int) list \<Rightarrow> int \<Rightarrow> nat" where
  "lower_bound xs v = length (takeWhile (\<lambda>p. snd p < v) xs)"

definition upper_bound :: "(nat \<times> int) list \<Rightarrow> nat \<Rightarrow> int \<Rightarrow> nat" where
  "upper_bound xs start v = start + length (takeWhile (\<lambda>p. \<not> v < snd p) (drop start xs))"

definition entries :: "(nat \<times> int) list \<Rightarrow> int \<Rightarrow> int \<Rightarrow> (nat \<times> int) list" where
  "entries xs lo hi =
     (let b = lower_bound xs lo; e = upper_bound xs b (hi + 1) in take (e - b) (drop b xs))"

definition unitFromIndex :: "nat \<Rightarrow> nat" where
  "unitFromIndex i = i - 1"

fun mark_x :: "game \<Rightarrow> bool \<Rightarrow> int \<Rightarrow> (nat \<times> int) list \<Rightarrow> (nat \<Rightarrow> nat) \<Rightarrow> nat \<Rightarrow> nat" where
  "mark_x g extended right [] flags = flags"
| "mark_x g extended right ((i, v) # px) flags =
     mark_x g extended right px
       (if flags i = 0 \<and> (extended \<longrightarrow> getLeft g (unitFromIndex i) \<le> right)
        then flags(i := 1) else flags)"

fun mark_y :: "game \<Rightarrow> bool \<Rightarrow> int \<Rightarrow> (nat \<times> int) list \<Rightarrow> (nat \<Rightarrow> nat) \<Rightarrow> nat \<Rightarrow> nat" where
  "mark_y g extended bottom [] flags = flags"
| "mark_y g extended bottom ((i, v) # py) flags =
     mark_y g extended bottom py
       (if flags i = 1 \<and> (extended \<longrightarrow> getTop g (unitFromIndex i) \<le> bottom)
        then flags(i := 2) else flags)"

fun call_back :: "game \<Rightarrow> (nat \<times> int) list \<Rightarrow> (nat \<Rightarrow> nat) \<Rightarrow> nat list" where
  "call_back g [] flags = []"
| "call_back g ((i, v) # px) flags =
     (if flags i = 2 \<and> unit_exists g (unitFromIndex i) then [unitFromIndex i] else [])
     @ call_back g px (flags(i := 0))"

definition iterateUnitFinder :: "game \<Rightarrow> int \<Rightarrow> int \<Rightarrow> int \<Rightarrow> int \<Rightarrow> nat list" where
  "iterateUnitFinder g left upper right bottom =
     (let isWidthExtended = right - left + 1 < maxUnitWidth;
          isHeightExtended = upper - bottom + 1 < maxUnitHeight;
          r = (if isWidthExtended then right + maxUnitWidth else right);
          b = (if isHeightExtended then bottom + maxUnitHeight else bottom);
          px = entries (g_finderX g) left r;
          py = entries (g_finderY g) upper b
      in call_back g px
           (mark_y g isHeightExtended bottom py
             (mark_x g isWidthExtended right px (\<lambda>_. 0))))"

definition getUnitsInRectangle ::
    "game \<Rightarrow> int \<Rightarrow> int \<Rightarrow> int \<Rightarrow> int \<Rightarrow> (nat \<Rightarrow> bool) \<Rightarrow> nat list" where
  "getUnitsInRectangle g left upper right bottom pred =
     filter pred (iterateUnitFinder g left upper right bottom)"

section \<open>The sorted range\<close>

lemma dropWhile_sorted:
  "sorted (map snd xs) \<Longrightarrow> set (dropWhile (\<lambda>p. snd p < lo) xs) = {p \<in> set xs. lo \<le> snd p}"
  for lo :: int
  by (induction xs) (auto simp: not_less)

lemma takeWhile_sorted:
  "sorted (map snd xs) \<Longrightarrow> set (takeWhile (\<lambda>p. \<not> hi < snd p) xs) = {p \<in> set xs. snd p \<le> hi}"
  for hi :: int
  by (induction xs) (auto simp: not_less)

lemma entries_iff:
  assumes "sorted (map snd xs)"
  shows "p \<in> set (entries xs lo hi) \<longleftrightarrow> p \<in> set xs \<and> lo \<le> snd p \<and> snd p \<le> hi + 1"
proof -
  let ?ys = "drop (lower_bound xs lo) xs"
  have ys: "?ys = dropWhile (\<lambda>p. snd p < lo) xs"
    by (simp add: lower_bound_def dropWhile_eq_drop [symmetric])
  have ent: "entries xs lo hi = takeWhile (\<lambda>p. \<not> hi + 1 < snd p) ?ys"
    by (simp add: entries_def upper_bound_def Let_def takeWhile_eq_take [symmetric])
  have low: "set ?ys = {p \<in> set xs. lo \<le> snd p}"
    unfolding ys using assms by (rule dropWhile_sorted)
  have "sorted (map snd ?ys)" unfolding drop_map [symmetric] using assms by (rule sorted_wrt_drop)
  then have "set (takeWhile (\<lambda>p. \<not> hi + 1 < snd p) ?ys) = {p \<in> set ?ys. snd p \<le> hi + 1}"
    by (rule takeWhile_sorted)
  then show ?thesis unfolding ent low by auto
qed

section \<open>The marks\<close>

abbreviation listed :: "(nat \<times> int) list \<Rightarrow> nat set" where
  "listed px \<equiv> set (map fst px)"

lemma mark_x_at:
  "mark_x g ext right px flags i =
    (if flags i = 0 \<and> i \<in> listed px \<and> (ext \<longrightarrow> getLeft g (unitFromIndex i) \<le> right)
     then 1 else flags i)"
proof (induction g ext right px flags rule: mark_x.induct)
  case (2 g ext right j v px flags)
  show ?case unfolding mark_x.simps "2.IH" by (cases "i = j") auto
qed simp

lemma mark_y_at:
  "mark_y g ext bottom py flags i =
    (if flags i = 1 \<and> i \<in> listed py \<and> (ext \<longrightarrow> getTop g (unitFromIndex i) \<le> bottom)
     then 2 else flags i)"
proof (induction g ext bottom py flags rule: mark_y.induct)
  case (2 g ext bottom j v py flags)
  show ?case unfolding mark_y.simps "2.IH" by (cases "i = j") auto
qed simp

lemma call_back_set:
  "u \<in> set (call_back g px flags) \<longleftrightarrow>
    unit_exists g u \<and> (\<exists>i \<in> listed px. flags i = 2 \<and> u = unitFromIndex i)"
proof (induction g px flags rule: call_back.induct)
  case (2 g j v px flags)
  have "u \<in> set (call_back g ((j, v) # px) flags) \<longleftrightarrow>
      (flags j = 2 \<and> unit_exists g (unitFromIndex j) \<and> u = unitFromIndex j)
      \<or> (unit_exists g u \<and> (\<exists>i \<in> listed px. (flags(j := 0)) i = 2 \<and> u = unitFromIndex i))"
    unfolding call_back.simps set_append Un_iff "2.IH" by (auto simp del: set_map)
  also have "\<dots> \<longleftrightarrow> unit_exists g u \<and> (\<exists>i \<in> insert j (listed px). flags i = 2 \<and> u = unitFromIndex i)"
    by (auto simp del: set_map)
  finally show ?case by simp
qed simp

lemma call_back_distinct:
  assumes "0 \<notin> listed px" "\<And>i. flags i = 2 \<Longrightarrow> i \<noteq> 0"
  shows "distinct (call_back g px flags)"
  using assms
proof (induction g px flags rule: call_back.induct)
  case (2 g j v px flags)
  have "distinct (call_back g px (flags(j := 0)))"
    using "2.prems" by (intro "2.IH") (auto split: if_splits)
  moreover have "unitFromIndex j \<notin> set (call_back g px (flags(j := 0)))" if "flags j = 2"
  proof
    assume "unitFromIndex j \<in> set (call_back g px (flags(j := 0)))"
    then obtain i where "i \<noteq> j" "flags i = 2" "unitFromIndex i = unitFromIndex j"
      by (auto simp: call_back_set split: if_splits)
    with "2.prems"(2) [of i] "2.prems"(2) [OF that] show False
      by (simp add: unitFromIndex_def)
  qed
  ultimately show ?case by auto
qed simp

section \<open>What the search finds\<close>

text \<open>
  The finders of a state list the units \<open>live\<close>: both edges of each on both axes, in order; and no
  unit is wider or higher than the widest and highest type.
\<close>

definition edges :: "(nat \<Rightarrow> int) \<Rightarrow> (nat \<Rightarrow> int) \<Rightarrow> nat set \<Rightarrow> (nat \<times> int) set" where
  "edges lo hi live = (\<lambda>u. (u + 1, lo u)) ` live \<union> (\<lambda>u. (u + 1, hi u)) ` live"

definition finders_ok :: "game \<Rightarrow> nat set \<Rightarrow> bool" where
  "finders_ok g live \<longleftrightarrow>
     sorted (map snd (g_finderX g)) \<and> sorted (map snd (g_finderY g))
     \<and> set (g_finderX g) = edges (getLeft g) (getRight g) live
     \<and> set (g_finderY g) = edges (getTop g) (getBottom g) live
     \<and> (\<forall>u \<in> live. getType g u \<in> set allUnitTypes)"

lemma entries_listed:
  assumes "sorted (map snd xs)" "set xs = edges a b live"
  shows "i \<in> listed (entries xs lo hi) \<longleftrightarrow>
    (\<exists>u \<in> live. i = u + 1 \<and> (lo \<le> a u \<and> a u \<le> hi + 1 \<or> lo \<le> b u \<and> b u \<le> hi + 1))"
proof -
  have "i \<in> listed (entries xs lo hi) \<longleftrightarrow> (\<exists>v. (i, v) \<in> set (entries xs lo hi))"
    by (force simp: image_iff)
  also have "\<dots> \<longleftrightarrow> (\<exists>v. (i, v) \<in> edges a b live \<and> lo \<le> v \<and> v \<le> hi + 1)"
    by (simp add: entries_iff [OF assms(1)] assms(2))
  also have "\<dots> \<longleftrightarrow> (\<exists>u \<in> live. i = u + 1 \<and> (lo \<le> a u \<and> a u \<le> hi + 1 \<or> lo \<le> b u \<and> b u \<le> hi + 1))"
    by (auto simp: edges_def)
  finally show ?thesis .
qed

lemma width_bound:
  assumes "getType g u \<in> set allUnitTypes"
  shows "getRight g u - getLeft g u < maxUnitWidth" "getBottom g u - getTop g u < maxUnitHeight"
proof -
  have "unitWidth (getType g u) \<le> maxUnitWidth" "unitHeight (getType g u) \<le> maxUnitHeight"
    unfolding maxUnitWidth_def maxUnitHeight_def using assms by (auto intro: Max_ge)
  then show "getRight g u - getLeft g u < maxUnitWidth" "getBottom g u - getTop g u < maxUnitHeight"
    by (simp_all add: getRight_def getLeft_def getTop_def getBottom_def unitWidth_def unitHeight_def)
qed

lemma type_sizes: "list_all (\<lambda>t. 1 \<le> unitWidth t \<and> 1 \<le> unitHeight t) allUnitTypes"
  by code_simp

lemma maxUnitHeight_value: "maxUnitHeight = 160" and maxUnitWidth_value: "maxUnitWidth = 256"
  by code_simp+

lemma edge_order:
  assumes "getType g u \<in> set allUnitTypes"
  shows "getLeft g u \<le> getRight g u" "getTop g u \<le> getBottom g u"
  using assms type_sizes
  by (auto simp: list_all_iff getRight_def getLeft_def getTop_def getBottom_def unitWidth_def unitHeight_def)

text \<open>
  A unit meets the rectangle; for a rectangle at least as wide as the widest type the test on the
  right edge is off by one pixel.
\<close>

definition meets :: "game \<Rightarrow> int \<Rightarrow> int \<Rightarrow> int \<Rightarrow> int \<Rightarrow> nat \<Rightarrow> bool" where
  "meets g left upper right bottom u \<longleftrightarrow>
     left \<le> getRight g u
     \<and> getLeft g u \<le> (if right - left + 1 < maxUnitWidth then right else right + 1)
     \<and> upper \<le> getBottom g u \<and> getTop g u \<le> bottom"

lemma marked_iff:
  assumes "mark_y g ey b py (mark_x g ex r px (\<lambda>_. 0)) i = 2"
  shows "i \<in> listed px \<and> (ex \<longrightarrow> getLeft g (unitFromIndex i) \<le> r)
    \<and> i \<in> listed py \<and> (ey \<longrightarrow> getTop g (unitFromIndex i) \<le> b)"
  using assms unfolding mark_y_at mark_x_at by (auto simp del: set_map split: if_splits)

lemma marked:
  "mark_y g ey b py (mark_x g ex r px (\<lambda>_. 0)) i = 2 \<longleftrightarrow>
    i \<in> listed px \<and> (ex \<longrightarrow> getLeft g (unitFromIndex i) \<le> r)
    \<and> i \<in> listed py \<and> (ey \<longrightarrow> getTop g (unitFromIndex i) \<le> b)"
  using marked_iff by (auto simp: mark_y_at mark_x_at simp del: set_map)

lemma finder_members:
  assumes ok: "finders_ok g live" and rect: "left \<le> right" "upper \<le> bottom"
  shows "u \<in> set (iterateUnitFinder g left upper right bottom) \<longleftrightarrow>
    u \<in> live \<and> unit_exists g u \<and> meets g left upper right bottom u"
proof -
  let ?ex = "right - left + 1 < maxUnitWidth"
  let ?r = "if ?ex then right + maxUnitWidth else right"
  let ?px = "entries (g_finderX g) left ?r"
  let ?py = "entries (g_finderY g) upper (bottom + maxUnitHeight)"
  have ey: "upper - bottom + 1 < maxUnitHeight" using rect by (simp add: maxUnitHeight_value)
  have sx: "sorted (map snd (g_finderX g))" "set (g_finderX g) = edges (getLeft g) (getRight g) live"
    and sy: "sorted (map snd (g_finderY g))" "set (g_finderY g) = edges (getTop g) (getBottom g) live"
    and ty: "\<And>u. u \<in> live \<Longrightarrow> getType g u \<in> set allUnitTypes"
    using ok by (simp_all add: finders_ok_def)
  have "u \<in> set (iterateUnitFinder g left upper right bottom) \<longleftrightarrow>
      unit_exists g u \<and> (\<exists>i \<in> listed ?px. u = unitFromIndex i \<and> (?ex \<longrightarrow> getLeft g u \<le> right)
        \<and> i \<in> listed ?py \<and> getTop g u \<le> bottom)"
    unfolding iterateUnitFinder_def Let_def call_back_set marked if_P [OF ey]
    using ey by (auto simp del: set_map)
  also have "\<dots> \<longleftrightarrow> unit_exists g u \<and> u \<in> live \<and> (?ex \<longrightarrow> getLeft g u \<le> right) \<and> getTop g u \<le> bottom
      \<and> (left \<le> getLeft g u \<and> getLeft g u \<le> ?r + 1 \<or> left \<le> getRight g u \<and> getRight g u \<le> ?r + 1)
      \<and> (upper \<le> getTop g u \<and> getTop g u \<le> bottom + maxUnitHeight + 1
         \<or> upper \<le> getBottom g u \<and> getBottom g u \<le> bottom + maxUnitHeight + 1)"
    unfolding Bex_def entries_listed [OF sx] entries_listed [OF sy]
    by (auto simp: unitFromIndex_def)
  also have "\<dots> \<longleftrightarrow> u \<in> live \<and> unit_exists g u \<and> meets g left upper right bottom u"
  proof (cases "u \<in> live")
    case True
    note b = width_bound [OF ty [OF True]] edge_order [OF ty [OF True]]
    show ?thesis using b rect True unfolding meets_def by (auto split: if_splits)
  qed simp
  finally show ?thesis .
qed

lemma entries_positive:
  assumes "sorted (map snd xs)" "set xs = edges a b live"
  shows "0 \<notin> listed (entries xs lo hi)"
  unfolding entries_listed [OF assms] by simp

lemma finder_distinct:
  assumes ok: "finders_ok g live"
  shows "distinct (iterateUnitFinder g left upper right bottom)"
proof -
  have "0 \<notin> listed (entries (g_finderX g) lo hi)" for lo hi
    using ok entries_positive unfolding finders_ok_def by blast
  then show ?thesis
    unfolding iterateUnitFinder_def Let_def
    by (intro call_back_distinct) (metis marked_iff)+
qed

end
