(* ===== verification/Build_Checks.thy ===== *)
theory Build_Checks
  imports Unit_Finder
begin

text \<open>
  Where and what can be built (\<open>hasPower\<close>, \<open>canBuildHere\<close>, \<open>canMake\<close> of \<open>Shared/Templates.h\<close>).
\<close>

section \<open>Power\<close>

definition bPsiFieldMask :: "nat list list" where
  "bPsiFieldMask =
     [[0, 0, 0, 0, 0, 1, 1, 1, 1, 1, 1, 0, 0, 0, 0, 0],
      [0, 0, 1, 1, 1, 1, 1, 1, 1, 1, 1, 1, 1, 1, 0, 0],
      [0, 1, 1, 1, 1, 1, 1, 1, 1, 1, 1, 1, 1, 1, 1, 0],
      [1, 1, 1, 1, 1, 1, 1, 1, 1, 1, 1, 1, 1, 1, 1, 1],
      [1, 1, 1, 1, 1, 1, 1, 1, 1, 1, 1, 1, 1, 1, 1, 1],
      [1, 1, 1, 1, 1, 1, 1, 1, 1, 1, 1, 1, 1, 1, 1, 1],
      [1, 1, 1, 1, 1, 1, 1, 1, 1, 1, 1, 1, 1, 1, 1, 1],
      [0, 1, 1, 1, 1, 1, 1, 1, 1, 1, 1, 1, 1, 1, 1, 0],
      [0, 0, 1, 1, 1, 1, 1, 1, 1, 1, 1, 1, 1, 1, 0, 0],
      [0, 0, 0, 0, 0, 1, 1, 1, 1, 1, 1, 0, 0, 0, 0, 0]]"

definition pylon_powers :: "game \<Rightarrow> int \<Rightarrow> int \<Rightarrow> nat \<Rightarrow> bool" where
  "pylon_powers g x y i \<longleftrightarrow>
     (if \<not> unit_exists g i \<or> \<not> isCompleted g i then False
      else (let p = getPosition g i in
        if \<bar>fst p - x\<bar> \<ge> 256 then False
        else if \<bar>snd p - y\<bar> \<ge> 160 then False
        else bPsiFieldMask ! nat (cdiv (y - snd p + 160) 32) ! nat (cdiv (x - fst p + 256) 32) \<noteq> 0))"

definition hasPowerAt :: "game \<Rightarrow> int \<Rightarrow> int \<Rightarrow> int \<Rightarrow> nat list \<Rightarrow> bool" where
  "hasPowerAt g x y unitType pylons \<longleftrightarrow>
     (if 0 \<le> unitType \<and> unitType < UnitType_None \<and> (\<not> requiresPsi unitType \<or> \<not> isBuilding unitType)
      then True
      else list_ex (pylon_powers g x y) pylons)"

definition hasPowerPrecise :: "game \<Rightarrow> int \<Rightarrow> int \<Rightarrow> int \<Rightarrow> bool" where
  "hasPowerPrecise g x y unitType \<longleftrightarrow> hasPowerAt g x y unitType (g_pylons g)"

definition hasPower :: "game \<Rightarrow> int \<times> int \<Rightarrow> int \<Rightarrow> bool" where
  "hasPower g tile unitType \<longleftrightarrow>
     (if valid_id UnitType_Unknown unitType \<and> unitType < UnitType_None
      then hasPowerPrecise g (fst tile * 32 + tileWidth unitType * 16)
             (snd tile * 32 + tileHeight unitType * 16) unitType
      else hasPowerPrecise g (fst tile * 32) (snd tile * 32) UnitType_None)"

section \<open>Building sites\<close>

definition refinery_site :: "game \<Rightarrow> int \<times> int \<Rightarrow> check" where
  "refinery_site g position =
     (case find (\<lambda>v. getTilePosition g v = position) (g_geysers g) of
        None \<Rightarrow> give False
      | Some v \<Rightarrow>
          if isVisible g v \<and> getType g v \<noteq> Resource_Vespene_Geyser then give False
          else setLastError No_Error)"

definition all_tiles :: "int \<times> int \<Rightarrow> int \<times> int \<Rightarrow> (int \<Rightarrow> int \<Rightarrow> bool) \<Rightarrow> bool" where
  "all_tiles lt rb ok \<longleftrightarrow>
     list_all (\<lambda>x. list_all (\<lambda>y. ok x y) [snd lt..snd rb - 1]) [fst lt..fst rb - 1]"

definition units_on_site :: "game \<Rightarrow> nat option \<Rightarrow> int \<times> int \<Rightarrow> int \<times> int \<Rightarrow> int \<Rightarrow> nat list" where
  "units_on_site g builder lt rb type =
     (let tx = fst lt * 32 + cdiv (tileWidth type * 32) 2;
          ty = snd lt * 32 + cdiv (tileHeight type * 32) 2
      in getUnitsInRectangle g (fst lt * 32) (snd lt * 32) (fst rb * 32) (snd rb * 32)
           (\<lambda>u. \<not> isFlying g u \<and> \<not> isLoaded g u
              \<and> (Some u \<noteq> builder \<or> type = Zerg_Nydus_Canal)
              \<and> getLeft g u \<le> tx + dimensionRight type \<and> getTop g u \<le> ty + dimensionDown type
              \<and> getRight g u \<ge> tx - dimensionLeft type \<and> getBottom g u \<ge> ty - dimensionUp type))"

definition mineral_too_near :: "game \<Rightarrow> int \<times> int \<Rightarrow> nat \<Rightarrow> bool" where
  "mineral_too_near g lt m \<longleftrightarrow>
     (let tp = getInitialTilePosition g m in
      if (tileVisible g (fst tp) (snd tp) \<or> tileVisible g (fst tp + 1) (snd tp)) \<and> \<not> unit_exists g m
      then False
      else fst tp > fst lt - 5 \<and> snd tp > snd lt - 4 \<and> fst tp < fst lt + 7 \<and> snd tp < snd lt + 6)"

definition geyser_too_near :: "game \<Rightarrow> int \<times> int \<Rightarrow> nat \<Rightarrow> bool" where
  "geyser_too_near g lt v \<longleftrightarrow>
     (let tp = getInitialTilePosition g v in
      fst tp > fst lt - 7 \<and> snd tp > snd lt - 5 \<and> fst tp < fst lt + 7 \<and> snd tp < snd lt + 6)"

text \<open>
  The loops and blocks of \<open>canBuildHere\<close> up to the recursive call: the checks of the site itself,
  with the path of the builder in between, then whatever follows.
\<close>

definition site_free :: "game \<Rightarrow> nat option \<Rightarrow> int \<times> int \<Rightarrow> int \<times> int \<Rightarrow> int \<Rightarrow> bool" where
  "site_free g builder lt rb type \<longleftrightarrow>
     (if type \<noteq> Special_Start_Location
      then list_all (\<lambda>u. isAddon type \<and> type_canMove (getType g u)) (units_on_site g builder lt rb type)
           \<and> (getRaceType type \<noteq> Race_Zerg \<or> requiresCreep type \<longrightarrow>
                all_tiles lt rb (\<lambda>x y. requiresCreep type = hasCreep g x y))
           \<and> \<not> (requiresPsi type \<and> \<not> hasPower g lt type)
      else True)
     \<and> (isResourceDepot type \<longrightarrow>
          \<not> list_ex (mineral_too_near g lt) (g_staticMinerals g)
          \<and> \<not> list_ex (geyser_too_near g lt) (g_staticGeysers g))"

function canBuildHere :: "game \<Rightarrow> nat option \<Rightarrow> int \<times> int \<Rightarrow> int \<Rightarrow> bool \<Rightarrow> check" where
  "canBuildHere g builder position type checkExplored =
     after_error Unbuildable_Location (
     let lt = (if builder \<noteq> None \<and> isAddon type then (fst position + 4, snd position + 1) else position);
         rb = (fst lt + tileWidth type, snd lt + tileHeight type)
     in
     if \<not> validTile g lt \<or> \<not> validPosition g (fst rb * 32 - 1, snd rb * 32 - 1) then give False
     else if isRefinery type then refinery_site g lt
     else if \<not> all_tiles lt rb (\<lambda>x y. isBuildable g x y \<and> (checkExplored \<longrightarrow> isExplored g x y))
     then give False
     else
       let rest =
         (if \<not> site_free g builder lt rb type then give False
          else case builder of
            None \<Rightarrow> setLastError No_Error
          | Some b \<Rightarrow>
              if \<not> isAddon (getType g b) \<and> isAddon type
              then ensure (canBuildHere g (Some b) (fst lt - 4, snd lt - 1) (getType g b) checkExplored)
                     (setLastError No_Error)
              else setLastError No_Error)
       in case builder of
            None \<Rightarrow> rest
          | Some b \<Rightarrow>
              if \<not> isBuilding (getType g b)
              then ensure (hasPath g b (fst lt * 32 + cdiv (tileWidth type * 32) 2,
                                        snd lt * 32 + cdiv (tileHeight type * 32) 2)) rest
              else if \<not> isFlyingBuilding (getType g b) \<and> type \<noteq> Zerg_Nydus_Canal \<and> \<not> isFlagBeacon type
              then give False
              else rest)"
  by pat_completeness auto
termination
  by (relation "measure (\<lambda>(g, builder, position, type, checkExplored). if isAddon type then 1 else 0)")
    auto

declare canBuildHere.simps [simp del]

section \<open>What a player can make\<close>

definition canMake_builder :: "game \<Rightarrow> nat \<Rightarrow> nat \<Rightarrow> int \<Rightarrow> int \<Rightarrow> check \<Rightarrow> check" where
  "canMake_builder g pSelf b type requiredType rest =
     (if getPlayer g b \<noteq> Some pSelf then setLastError Unit_Not_Owned
      else let builderType = getType g b in
      if type = Zerg_Nydus_Canal \<and> builderType = Zerg_Nydus_Canal
      then (if \<not> isCompleted g b then setLastError Unit_Busy
            else if getNydusExit g b \<noteq> None then setLastError Unknown_Error
            else give True)
      else if requiredType = Zerg_Larva \<and> producesLarva builderType \<and> getLarva g b = []
      then setLastError Unit_Does_Not_Exist
      else if \<not> (requiredType = Zerg_Larva \<and> producesLarva builderType) \<and> builderType \<noteq> requiredType
      then setLastError Incompatible_UnitType
      else if builderType = Protoss_Carrier \<or> builderType = Hero_Gantrithor
      then (let max_amt = 4 + (if getUpgradeLevel g pSelf Upg_Carrier_Capacity > 0
                                  \<or> builderType = Hero_Gantrithor then 4 else 0) in
            if getInterceptorCount g b + int (length (getTrainingQueue g b)) \<ge> max_amt
            then setLastError Insufficient_Space else rest)
      else if builderType = Protoss_Reaver \<or> builderType = Hero_Warbringer
      then (let max_amt = 5 + (if getUpgradeLevel g pSelf Upg_Reaver_Capacity > 0
                                  \<or> builderType = Hero_Warbringer then 5 else 0) in
            if getScarabCount g b + int (length (getTrainingQueue g b)) \<ge> max_amt
            then setLastError Insufficient_Space else rest)
      else rest)"

definition canMake_player :: "game \<Rightarrow> nat \<Rightarrow> nat option \<Rightarrow> int \<Rightarrow> int \<Rightarrow> check" where
  "canMake_player g pSelf builder type requiredType =
     (let typeRace = getRaceType type;
          supply = supplyRequired type * (if isTwoUnitsInOneEgg type then 2 else 1);
          addon = fold (\<lambda>(r, n) a. if isAddon r then r else a) (requiredUnits type) UnitType_None
      in
      if minerals g pSelf < mineralPrice type then setLastError Insufficient_Minerals
      else if gas g pSelf < gasPrice type then setLastError Insufficient_Gas
      else if supply > 0 \<and> supplyTotal g pSelf typeRace
                < supplyUsed g pSelf typeRace + supply
                  - (if getRaceType requiredType = typeRace then supplyRequired requiredType else 0)
      then setLastError Insufficient_Supply
      else if \<not> list_all (\<lambda>(r, n). hasUnitTypeRequirement g pSelf r n) (requiredUnits type)
      then setLastError Insufficient_Tech
      else if requiredTech type \<noteq> TechType_None \<and> \<not> hasResearched g pSelf (requiredTech type)
      then setLastError Insufficient_Tech
      else case builder of
        None \<Rightarrow> give True
      | Some b \<Rightarrow>
          if addon \<noteq> UnitType_None \<and> fst (whatBuilds addon) = fst (whatBuilds type)
             \<and> (case getAddon g b of None \<Rightarrow> True | Some a \<Rightarrow> getType g a \<noteq> addon)
          then setLastError Insufficient_Tech
          else give True)"

definition canMake :: "game \<Rightarrow> nat option \<Rightarrow> int \<Rightarrow> check" where
  "canMake g builder type =
     after_error No_Error (
     case g_self g of
       None \<Rightarrow> setLastError Unit_Not_Owned
     | Some pSelf \<Rightarrow>
         if \<not> isUnitAvailable g pSelf type then setLastError Access_Denied
         else let requiredType = fst (whatBuilds type);
                  rest = canMake_player g pSelf builder type requiredType in
         case builder of
           None \<Rightarrow> rest
         | Some b \<Rightarrow> canMake_builder g pSelf b type requiredType rest)"

end
