(* ===== verification/Command_Checks.thy ===== *)
theory Command_Checks
  imports Build_Checks
begin

text \<open>
  Which commands a unit may be given (\<open>Shared/Templates.h\<close>): one definition per check, with the
  source's parameters and order of tests. An overload that takes a further argument is named after
  it (\<open>canLoad_unit\<close>, \<open>canTrain_type\<close>, \<open>canBuild_at\<close>, \<open>canLand_tile\<close>). A target may be null; it is
  dereferenced where the code first does so.
\<close>

section \<open>Monotone combinators\<close>

text \<open>\<open>canCommand\<close> calls itself for the larvae of a unit, so it may not return.\<close>

lemma ask_bind: "ask c yes no e = Option.bind (c e) (\<lambda>(b, e'). if b then yes e' else no e')"
  by (cases "c e") (auto simp: ask_def)

lemma ask_mono [partial_function_mono]:
  assumes "\<And>e. mono_option (\<lambda>f. C f e)" "\<And>e. mono_option (\<lambda>f. Y f e)" "\<And>e. mono_option (\<lambda>f. N f e)"
  shows "mono_option (\<lambda>f. ask (C f) (Y f) (N f) e)"
  unfolding ask_bind
  by (intro bind_mono assms) (case_tac y, case_tac a, simp_all add: assms)

lemma if_check_mono [partial_function_mono]:
  assumes "mono_option (\<lambda>f. Y f e)" "mono_option (\<lambda>f. N f e)"
  shows "mono_option (\<lambda>f. (if b then Y f else N f) e)"
  using assms by (cases b) simp_all

lemma after_error_mono [partial_function_mono]:
  assumes "\<And>e. mono_option (\<lambda>f. K f e)"
  shows "mono_option (\<lambda>f. after_error x (K f) e)"
  unfolding after_error_def by (intro ask_mono assms option.const_mono)

lemma any_unit_mono [partial_function_mono]:
  assumes "\<And>u e. mono_option (\<lambda>f. C f u e)"
  shows "mono_option (\<lambda>f. any_unit us (C f) e)"
proof (induction us arbitrary: e)
  case Nil
  then show ?case by (simp add: option.const_mono)
next
  case (Cons u us)
  then show ?case by (simp, intro ask_mono assms option.const_mono)
qed

section \<open>The checks\<close>

partial_function (option) canCommand :: "game \<Rightarrow> nat \<Rightarrow> err \<Rightarrow> (bool \<times> err) option" where
  "canCommand g thisUnit e =
     after_error No_Error (
     if getPlayer g thisUnit \<noteq> g_self g then setLastError Unit_Not_Owned
     else if \<not> unit_exists g thisUnit then setLastError Unit_Does_Not_Exist
     else if isLockedDown g thisUnit \<or> isMaelstrommed g thisUnit \<or> isStasised g thisUnit
       \<or> \<not> isPowered g thisUnit \<or> getOrder g thisUnit = Order_ZergBirth \<or> isLoaded g thisUnit
     then
       if \<not> producesLarva (getType g thisUnit) then setLastError Unit_Busy
       else ask (any_unit (getLarva g thisUnit) (\<lambda>larva e'. canCommand g larva e'))
              (setLastError No_Error) (setLastError Unit_Busy)
     else if getType g thisUnit = Protoss_Interceptor
       \<or> getType g thisUnit = Terran_Vulture_Spider_Mine
       \<or> getType g thisUnit = Spell_Scanner_Sweep
       \<or> getType g thisUnit = Special_Map_Revealer
     then setLastError Incompatible_UnitType
     else if isCompleted g thisUnit
       \<and> (getType g thisUnit = Protoss_Pylon
          \<or> getType g thisUnit = Terran_Supply_Depot
          \<or> isResourceContainer (getType g thisUnit)
          \<or> getType g thisUnit = Protoss_Shield_Battery
          \<or> getType g thisUnit = Terran_Nuclear_Missile
          \<or> isPowerup (getType g thisUnit)
          \<or> (isSpecialBuilding (getType g thisUnit) \<and> \<not> isFlagBeacon (getType g thisUnit)))
     then setLastError Incompatible_State
     else if \<not> isCompleted g thisUnit \<and> \<not> isBuilding (getType g thisUnit) \<and> \<not> isMorphing g thisUnit
     then setLastError Incompatible_State
     else setLastError No_Error) e"

text \<open>
  The header of nearly every check: without \<open>checkCommandibility\<close> only the last error is cleared,
  with it the unit must be commandable. The second header is that of the \<open>Grouped\<close> variants.
\<close>

definition guard_command :: "game \<Rightarrow> nat \<Rightarrow> bool \<Rightarrow> check \<Rightarrow> check" where
  "guard_command g thisUnit checkCommandibility rest =
     (if \<not> checkCommandibility then after_error No_Error rest
      else ensure (canCommand g thisUnit) rest)"

declare canCommand.simps [code]

definition canCommandGrouped :: "game \<Rightarrow> nat \<Rightarrow> bool \<Rightarrow> check" where
  "canCommandGrouped g thisUnit checkCommandibility =
     guard_command g thisUnit checkCommandibility (
     if isBuilding (getType g thisUnit) \<or> isCritter (getType g thisUnit)
     then setLastError Incompatible_UnitType
     else give True)"

definition guard_grouped :: "game \<Rightarrow> nat \<Rightarrow> bool \<Rightarrow> check \<Rightarrow> check" where
  "guard_grouped g thisUnit checkCommandibilityGrouped rest =
     ensure_if checkCommandibilityGrouped (canCommandGrouped g thisUnit False) rest"

definition canTargetUnit :: "game \<Rightarrow> nat option \<Rightarrow> check" where
  "canTargetUnit g targetUnit =
     (case targetUnit of
        None \<Rightarrow> setLastError Unit_Does_Not_Exist
      | Some tgt \<Rightarrow>
          if \<not> unit_exists g tgt then setLastError Unit_Does_Not_Exist
          else if \<not> isVisible g tgt \<and> \<not> isFlagEnabled g 0 then give False
          else if \<not> isCompleted g tgt \<and> \<not> isBuilding (getType g tgt) \<and> \<not> isMorphing g tgt
            \<and> getType g tgt \<noteq> Protoss_Archon \<and> getType g tgt \<noteq> Protoss_Dark_Archon
          then setLastError Incompatible_State
          else if getType g tgt = Spell_Scanner_Sweep \<or> getType g tgt = Spell_Dark_Swarm
            \<or> getType g tgt = Spell_Disruption_Web \<or> getType g tgt = Special_Map_Revealer
          then setLastError Incompatible_UnitType
          else give True)"

definition canTargetUnit_unit ::
    "game \<Rightarrow> nat \<Rightarrow> nat option \<Rightarrow> bool \<Rightarrow> check" where
  "canTargetUnit_unit g thisUnit targetUnit checkCommandibility =
     guard_command g thisUnit checkCommandibility (
     ensure (canTargetUnit g targetUnit) (
     give True))"

definition canAttackUnit :: "game \<Rightarrow> nat \<Rightarrow> bool \<Rightarrow> check" where
  "canAttackUnit g thisUnit checkCommandibility =
     guard_command g thisUnit checkCommandibility (
     if \<not> isBuilding (getType g thisUnit) \<and> \<not> isInterruptible g thisUnit
     then setLastError Unit_Busy
     else let rest =
       (let rest =
         (if \<not> isCompleted g thisUnit
         then setLastError Incompatible_State
         else if getOrder g thisUnit = Order_ConstructingBuilding
         then setLastError Unit_Busy
         else give True)
       in
       if getType g thisUnit = Zerg_Lurker
       then (if \<not> isBurrowed g thisUnit
         then setLastError Unable_To_Hit
         else rest)
       else if isBurrowed g thisUnit
       then setLastError Unable_To_Hit
       else rest)
     in
     if groundWeapon (getType g thisUnit) = WeaponType_None \<and> airWeapon (getType g thisUnit) = WeaponType_None
     then (if getType g thisUnit = Protoss_Carrier \<or> getType g thisUnit = Hero_Gantrithor
       then (if getInterceptorCount g thisUnit \<le> 0
         then setLastError Unable_To_Hit
         else rest)
       else if getType g thisUnit = Protoss_Reaver \<or> getType g thisUnit = Hero_Warbringer
       then (if getScarabCount g thisUnit \<le> 0
         then setLastError Unable_To_Hit
         else rest)
       else setLastError Unable_To_Hit)
     else rest)"

definition canMove :: "game \<Rightarrow> nat \<Rightarrow> bool \<Rightarrow> check" where
  "canMove g thisUnit checkCommandibility =
     guard_command g thisUnit checkCommandibility (
     let rest =
       (if \<not> isCompleted g thisUnit
       then setLastError Incompatible_State
       else give True)
     in
     if \<not> isBuilding (getType g thisUnit)
     then (if \<not> isInterruptible g thisUnit
       then setLastError Unit_Busy
       else if \<not> type_canMove (getType g thisUnit)
       then setLastError Incompatible_UnitType
       else if isBurrowed g thisUnit
       then setLastError Incompatible_State
       else if getOrder g thisUnit = Order_ConstructingBuilding
       then setLastError Unit_Busy
       else if getType g thisUnit = Zerg_Larva
       then setLastError Incompatible_UnitType
       else rest)
     else if \<not> isFlyingBuilding (getType g thisUnit)
     then setLastError Incompatible_UnitType
     else if \<not> isLifted g thisUnit
     then setLastError Incompatible_State
     else rest)"

definition canAttackMove :: "game \<Rightarrow> nat \<Rightarrow> bool \<Rightarrow> check" where
  "canAttackMove g thisUnit checkCommandibility =
     guard_command g thisUnit checkCommandibility (
     ask (bor (band (give (getType g thisUnit \<noteq> Terran_Medic)) (bnot (canAttackUnit g thisUnit False))) (bnot (canMove g thisUnit False)))
       (give False) (
     give True))"

definition canAttack :: "game \<Rightarrow> nat \<Rightarrow> bool \<Rightarrow> check" where
  "canAttack g thisUnit checkCommandibility =
     guard_command g thisUnit checkCommandibility (
     ask (band (bnot (canAttackMove g thisUnit False)) (bnot (canAttackUnit g thisUnit False)))
       (give False) (
     give True))"

definition canAttack_pos ::
    "game \<Rightarrow> nat \<Rightarrow> int \<times> int \<Rightarrow> bool \<Rightarrow> bool \<Rightarrow> bool \<Rightarrow> check" where
  "canAttack_pos g thisUnit target checkCanTargetUnit checkCanIssueCommandType checkCommandibility =
     guard_command g thisUnit checkCommandibility (
     ensure (canAttackMove g thisUnit False) (
     give True))"

text \<open>
  For a reaver whose target flies the code sets \<open>Unable_To_Hit\<close> and goes on: the \<open>return\<close> is
  missing in that branch of the \<open>switch\<close>.
\<close>

definition canAttackUnit_unit ::
    "game \<Rightarrow> nat \<Rightarrow> nat option \<Rightarrow> bool \<Rightarrow> bool \<Rightarrow> bool \<Rightarrow> check" where
  "canAttackUnit_unit g thisUnit targetUnit checkCanTargetUnit checkCanIssueCommandType checkCommandibility =
     guard_command g thisUnit checkCommandibility (
     ensure_if checkCanIssueCommandType (canAttackUnit g thisUnit False) (
     ensure_if checkCanTargetUnit (canTargetUnit_unit g thisUnit targetUnit False) (
     deref targetUnit (\<lambda>tgt.
     if isInvincible g tgt then setLastError Unable_To_Hit
     else
     let type = getType g thisUnit;
         targetInAir = isFlying g tgt;
         weapon = (if targetInAir then airWeapon type else groundWeapon type);
         rest =
           (ask (band (give (\<not> type_canMove type)) (bnot (isInWeaponRange g thisUnit tgt)))
              (setLastError Out_Of_Range) (
            ask (band (give (type = Zerg_Lurker)) (bnot (isInWeaponRange g thisUnit tgt)))
              (setLastError Out_Of_Range) (
            if targetUnit = Some thisUnit then setLastError Invalid_Parameter
            else give True)))
     in
     if weapon = WeaponType_None
     then if type = Protoss_Carrier \<or> type = Hero_Gantrithor then rest
          else if type = Protoss_Reaver \<or> type = Hero_Warbringer
          then if targetInAir then after_error Unable_To_Hit rest else rest
          else setLastError Unable_To_Hit
     else rest))))"

definition canAttack_unit ::
    "game \<Rightarrow> nat \<Rightarrow> nat option \<Rightarrow> bool \<Rightarrow> bool \<Rightarrow> bool \<Rightarrow> check" where
  "canAttack_unit g thisUnit target checkCanTargetUnit checkCanIssueCommandType checkCommandibility =
     guard_command g thisUnit checkCommandibility (
     if target = None
     then setLastError Invalid_Parameter
     else ensure (canAttackUnit_unit g thisUnit target checkCanTargetUnit checkCanIssueCommandType False) (
     give True))"

definition canAttackMoveGrouped ::
    "game \<Rightarrow> nat \<Rightarrow> bool \<Rightarrow> bool \<Rightarrow> check" where
  "canAttackMoveGrouped g thisUnit checkCommandibilityGrouped checkCommandibility =
     guard_command g thisUnit checkCommandibility (
     guard_grouped g thisUnit checkCommandibilityGrouped (
     if \<not> type_canMove (getType g thisUnit) \<and> getType g thisUnit \<noteq> Terran_Siege_Tank_Siege_Mode \<and> getType g thisUnit \<noteq> Zerg_Cocoon \<and> getType g thisUnit \<noteq> Zerg_Lurker_Egg
     then setLastError Incompatible_UnitType
     else give True))"

definition canAttackUnitGrouped ::
    "game \<Rightarrow> nat \<Rightarrow> bool \<Rightarrow> bool \<Rightarrow> check" where
  "canAttackUnitGrouped g thisUnit checkCommandibilityGrouped checkCommandibility =
     guard_command g thisUnit checkCommandibility (
     guard_grouped g thisUnit checkCommandibilityGrouped (
     if \<not> isInterruptible g thisUnit
     then setLastError Unit_Busy
     else if \<not> type_canMove (getType g thisUnit) \<and> getType g thisUnit \<noteq> Terran_Siege_Tank_Siege_Mode
     then setLastError Incompatible_UnitType
     else if \<not> isCompleted g thisUnit
     then setLastError Incompatible_State
     else let rest =
       (if getOrder g thisUnit = Order_ConstructingBuilding
       then setLastError Unit_Busy
       else give True)
     in
     if getType g thisUnit = Zerg_Lurker
     then (if \<not> isBurrowed g thisUnit
       then setLastError Unable_To_Hit
       else rest)
     else if isBurrowed g thisUnit
     then setLastError Unable_To_Hit
     else rest))"

definition canAttackGrouped ::
    "game \<Rightarrow> nat \<Rightarrow> bool \<Rightarrow> bool \<Rightarrow> check" where
  "canAttackGrouped g thisUnit checkCommandibilityGrouped checkCommandibility =
     guard_command g thisUnit checkCommandibility (
     guard_grouped g thisUnit checkCommandibilityGrouped (
     ask (band (bnot (canAttackMoveGrouped g thisUnit False False)) (bnot (canAttackUnitGrouped g thisUnit False False)))
       (give False) (
     give True)))"

definition canAttackGrouped_pos ::
    "game \<Rightarrow> nat \<Rightarrow> int \<times> int \<Rightarrow> bool \<Rightarrow> bool \<Rightarrow> bool \<Rightarrow> bool \<Rightarrow> check" where
  "canAttackGrouped_pos g thisUnit target checkCanTargetUnit checkCanIssueCommandTypeGrouped checkCommandibilityGrouped checkCommandibility =
     guard_command g thisUnit checkCommandibility (
     guard_grouped g thisUnit checkCommandibilityGrouped (
     ensure (canAttackMoveGrouped g thisUnit False False) (
     give True)))"

definition canAttackUnitGrouped_unit ::
    "game \<Rightarrow> nat \<Rightarrow> nat option \<Rightarrow> bool \<Rightarrow> bool \<Rightarrow> bool \<Rightarrow> bool \<Rightarrow> check" where
  "canAttackUnitGrouped_unit g thisUnit targetUnit checkCanTargetUnit checkCanIssueCommandTypeGrouped checkCommandibilityGrouped checkCommandibility =
     guard_command g thisUnit checkCommandibility (
     guard_grouped g thisUnit checkCommandibilityGrouped (
     ensure_if checkCanIssueCommandTypeGrouped (canAttackUnitGrouped g thisUnit False False) (
     ensure_if checkCanTargetUnit (canTargetUnit_unit g thisUnit targetUnit False) (
     deref targetUnit (\<lambda>tgt.
     if isInvincible g tgt
     then setLastError Unable_To_Hit
     else ask (band (give (getType g thisUnit = Zerg_Lurker)) (bnot (isInWeaponRange g thisUnit tgt)))
       (setLastError Out_Of_Range) (
     if getType g thisUnit = Zerg_Queen \<and> (getType g tgt \<noteq> Terran_Command_Center \<or> getHitPoints g tgt \<ge> 750 \<or> getHitPoints g tgt \<le> 0)
     then setLastError Invalid_Parameter
     else if targetUnit = Some thisUnit
     then setLastError Invalid_Parameter
     else give True))))))"

definition canAttackGrouped_unit ::
    "game \<Rightarrow> nat \<Rightarrow> nat option \<Rightarrow> bool \<Rightarrow> bool \<Rightarrow> bool \<Rightarrow> bool \<Rightarrow> check" where
  "canAttackGrouped_unit g thisUnit target checkCanTargetUnit checkCanIssueCommandTypeGrouped checkCommandibilityGrouped checkCommandibility =
     guard_command g thisUnit checkCommandibility (
     guard_grouped g thisUnit checkCommandibilityGrouped (
     if target = None
     then setLastError Invalid_Parameter
     else ensure (canAttackUnitGrouped_unit g thisUnit target checkCanTargetUnit checkCanIssueCommandTypeGrouped False False) (
     give True)))"

definition canBuild :: "game \<Rightarrow> nat \<Rightarrow> bool \<Rightarrow> check" where
  "canBuild g thisUnit checkCommandibility =
     guard_command g thisUnit checkCommandibility (
     if \<not> isBuilding (getType g thisUnit) \<and> \<not> isInterruptible g thisUnit
     then setLastError Unit_Busy
     else if isConstructing g thisUnit \<or> \<not> isCompleted g thisUnit \<or> (isBuilding (getType g thisUnit) \<and> \<not> isIdle g thisUnit)
     then setLastError Unit_Busy
     else if isHallucination g thisUnit
     then setLastError Incompatible_UnitType
     else give True)"

definition canBuild_type ::
    "game \<Rightarrow> nat \<Rightarrow> int \<Rightarrow> bool \<Rightarrow> bool \<Rightarrow> check" where
  "canBuild_type g thisUnit uType checkCanIssueCommandType checkCommandibility =
     guard_command g thisUnit checkCommandibility (
     ensure_if checkCanIssueCommandType (canBuild g thisUnit False) (
     ensure (canMake g (Some thisUnit) uType) (
     if \<not> isBuilding uType
     then setLastError Incompatible_UnitType
     else if getAddon g thisUnit \<noteq> None
     then setLastError Incompatible_State
     else give True)))"

definition canBuild_at ::
    "game \<Rightarrow> nat \<Rightarrow> int \<Rightarrow> int \<times> int \<Rightarrow> bool \<Rightarrow> bool \<Rightarrow> bool \<Rightarrow> check" where
  "canBuild_at g thisUnit uType tilePos checkTargetUnitType checkCanIssueCommandType checkCommandibility =
     guard_command g thisUnit checkCommandibility (
     ensure_if checkCanIssueCommandType (canBuild g thisUnit False) (
     ensure_if checkTargetUnitType (canBuild_type g thisUnit uType False False) (
     if \<not> validTile g tilePos
     then setLastError Invalid_Tile_Position
     else ensure (canBuildHere g (Some thisUnit) tilePos uType True) (
     give True))))"

definition canBuildAddon :: "game \<Rightarrow> nat \<Rightarrow> bool \<Rightarrow> check" where
  "canBuildAddon g thisUnit checkCommandibility =
     guard_command g thisUnit checkCommandibility (
     if isConstructing g thisUnit \<or> \<not> isCompleted g thisUnit \<or> isLifted g thisUnit \<or> (isBuilding (getType g thisUnit) \<and> \<not> isIdle g thisUnit)
     then setLastError Unit_Busy
     else if getAddon g thisUnit \<noteq> None
     then setLastError Incompatible_State
     else if \<not> type_canBuildAddon (getType g thisUnit)
     then setLastError Incompatible_UnitType
     else give True)"

definition canBuildAddon_type ::
    "game \<Rightarrow> nat \<Rightarrow> int \<Rightarrow> bool \<Rightarrow> bool \<Rightarrow> check" where
  "canBuildAddon_type g thisUnit uType checkCanIssueCommandType checkCommandibility =
     guard_command g thisUnit checkCommandibility (
     ensure_if checkCanIssueCommandType (canBuildAddon g thisUnit False) (
     ensure (canMake g (Some thisUnit) uType) (
     if \<not> isAddon uType
     then setLastError Incompatible_UnitType
     else ensure (canBuildHere g (Some thisUnit) (getTilePosition g thisUnit) uType False) (
     give True))))"

text \<open>The test on a larva in the loops of \<open>canTrain\<close> and \<open>canMorph\<close>.\<close>

definition commandable_larva :: "game \<Rightarrow> nat \<Rightarrow> check" where
  "commandable_larva g larva =
     (if \<not> isConstructing g larva \<and> isCompleted g larva then canCommand g larva else give False)"

definition canTrain :: "game \<Rightarrow> nat \<Rightarrow> bool \<Rightarrow> check" where
  "canTrain g thisUnit checkCommandibility =
     guard_command g thisUnit checkCommandibility (
     if producesLarva (getType g thisUnit)
     then
       if \<not> isConstructing g thisUnit \<and> isCompleted g thisUnit
       then setLastError No_Error
       else ask (any_unit (getLarva g thisUnit) (commandable_larva g))
              (setLastError No_Error) (setLastError Unit_Busy)
     else if isConstructing g thisUnit \<or> \<not> isCompleted g thisUnit \<or> isLifted g thisUnit
     then setLastError Unit_Busy
     else if \<not> canProduce (getType g thisUnit)
       \<and> getType g thisUnit \<noteq> Terran_Nuclear_Silo \<and> getType g thisUnit \<noteq> Zerg_Hydralisk
       \<and> getType g thisUnit \<noteq> Zerg_Mutalisk \<and> getType g thisUnit \<noteq> Zerg_Creep_Colony
       \<and> getType g thisUnit \<noteq> Zerg_Spire \<and> getType g thisUnit \<noteq> Zerg_Larva
     then setLastError Incompatible_UnitType
     else if isHallucination g thisUnit
     then setLastError Incompatible_UnitType
     else give True)"

text \<open>The loop that replaces the unit by its first suitable larva and breaks.\<close>

fun first_unit :: "nat list \<Rightarrow> (nat \<Rightarrow> check) \<Rightarrow> (nat \<Rightarrow> check) \<Rightarrow> check \<Rightarrow> check" where
  "first_unit [] ok found none = none"
| "first_unit (u # us) ok found none = ask (ok u) (found u) (first_unit us ok found none)"

definition canTrain_type :: "game \<Rightarrow> nat \<Rightarrow> int \<Rightarrow> bool \<Rightarrow> bool \<Rightarrow> check" where
  "canTrain_type g thisUnit uType checkCanIssueCommandType checkCommandibility =
     guard_command g thisUnit checkCommandibility (
     ensure_if checkCanIssueCommandType (canTrain g thisUnit False) (
     let rest =
       (\<lambda>maker.
         ensure (canMake g (Some maker) uType) (
         if isAddon uType \<or> (isBuilding uType \<and> \<not> isBuilding (getType g maker))
         then setLastError Incompatible_UnitType
         else if uType = Zerg_Larva \<or> uType = Zerg_Egg \<or> uType = Zerg_Cocoon
         then setLastError Incompatible_UnitType
         else give True))
     in
     if producesLarva (getType g thisUnit)
     then
       if fst (whatBuilds uType) = Zerg_Larva
       then first_unit (getLarva g thisUnit) (\<lambda>larva. canTrain g larva True) rest
              (setLastError Unit_Does_Not_Exist)
       else if isConstructing g thisUnit \<or> \<not> isCompleted g thisUnit
       then setLastError Unit_Busy
       else rest thisUnit
     else rest thisUnit))"

definition canMorph :: "game \<Rightarrow> nat \<Rightarrow> bool \<Rightarrow> check" where
  "canMorph g thisUnit checkCommandibility =
     guard_command g thisUnit checkCommandibility (
     if producesLarva (getType g thisUnit)
     then
       if \<not> isConstructing g thisUnit \<and> isCompleted g thisUnit \<and> (\<not> isBuilding (getType g thisUnit) \<or> isIdle g thisUnit)
       then setLastError No_Error
       else ask (any_unit (getLarva g thisUnit) (commandable_larva g))
              (setLastError No_Error) (setLastError Unit_Busy)
     else if isConstructing g thisUnit \<or> \<not> isCompleted g thisUnit
       \<or> (isBuilding (getType g thisUnit) \<and> \<not> isIdle g thisUnit)
     then setLastError Unit_Busy
     else if getType g thisUnit \<noteq> Zerg_Hydralisk \<and> getType g thisUnit \<noteq> Zerg_Mutalisk
       \<and> getType g thisUnit \<noteq> Zerg_Creep_Colony \<and> getType g thisUnit \<noteq> Zerg_Spire
       \<and> getType g thisUnit \<noteq> Zerg_Hatchery \<and> getType g thisUnit \<noteq> Zerg_Lair
       \<and> getType g thisUnit \<noteq> Zerg_Hive \<and> getType g thisUnit \<noteq> Zerg_Larva
     then setLastError Incompatible_UnitType
     else if isHallucination g thisUnit
     then setLastError Incompatible_UnitType
     else give True)"

definition canMorph_type :: "game \<Rightarrow> nat \<Rightarrow> int \<Rightarrow> bool \<Rightarrow> bool \<Rightarrow> check" where
  "canMorph_type g thisUnit uType checkCanIssueCommandType checkCommandibility =
     guard_command g thisUnit checkCommandibility (
     ensure_if checkCanIssueCommandType (canMorph g thisUnit False) (
     let rest =
       (\<lambda>maker.
         ensure (canMake g (Some maker) uType) (
         if uType = Zerg_Larva \<or> uType = Zerg_Egg \<or> uType = Zerg_Cocoon
         then setLastError Incompatible_UnitType
         else give True))
     in
     if producesLarva (getType g thisUnit)
     then
       if fst (whatBuilds uType) = Zerg_Larva
       then first_unit (getLarva g thisUnit) (\<lambda>larva. canMorph g larva True) rest
              (setLastError Unit_Does_Not_Exist)
       else if isConstructing g thisUnit \<or> \<not> isCompleted g thisUnit
         \<or> (isBuilding (getType g thisUnit) \<and> \<not> isIdle g thisUnit)
       then setLastError Unit_Busy
       else rest thisUnit
     else rest thisUnit))"

definition canResearch :: "game \<Rightarrow> nat \<Rightarrow> bool \<Rightarrow> check" where
  "canResearch g thisUnit checkCommandibility =
     guard_command g thisUnit checkCommandibility (
     if isLifted g thisUnit \<or> \<not> isIdle g thisUnit \<or> \<not> isCompleted g thisUnit
     then setLastError Unit_Busy
     else give True)"

definition canResearch_tech :: "game \<Rightarrow> nat option \<Rightarrow> int \<Rightarrow> bool \<Rightarrow> check" where
  "canResearch_tech g thisUnit type checkCanIssueCommandType =
     (case g_self g of
        None \<Rightarrow> setLastError Unit_Not_Owned
      | Some self \<Rightarrow>
          let rest =
            (if isResearching g self type then setLastError Currently_Researching
             else if hasResearched g self type then setLastError Already_Researched
             else if \<not> isResearchAvailable g self type then setLastError Access_Denied
             else if minerals g self < tech_mineralPrice type then setLastError Insufficient_Minerals
             else if gas g self < tech_gasPrice type then setLastError Insufficient_Gas
             else if \<not> hasUnitTypeRequirement g self (tech_requiredUnit type) 1
             then setLastError Insufficient_Tech
             else setLastError No_Error)
          in
          case thisUnit of
            None \<Rightarrow> rest
          | Some u \<Rightarrow>
              if getPlayer g u \<noteq> g_self g then setLastError Unit_Not_Owned
              else if \<not> isSuccessorOf (getType g u) (whatResearches type)
              then setLastError Incompatible_UnitType
              else if checkCanIssueCommandType
                \<and> (isLifted g u \<or> \<not> isIdle g u \<or> \<not> isCompleted g u)
              then setLastError Unit_Busy
              else rest)"

definition canUpgrade :: "game \<Rightarrow> nat \<Rightarrow> bool \<Rightarrow> check" where
  "canUpgrade g thisUnit checkCommandibility =
     guard_command g thisUnit checkCommandibility (
     if isLifted g thisUnit \<or> \<not> isIdle g thisUnit \<or> \<not> isCompleted g thisUnit
     then setLastError Unit_Busy
     else give True)"

definition canUpgrade_upgrade :: "game \<Rightarrow> nat option \<Rightarrow> int \<Rightarrow> bool \<Rightarrow> check" where
  "canUpgrade_upgrade g thisUnit type checkCanIssueCommandType =
     (case g_self g of
        None \<Rightarrow> setLastError Unit_Not_Owned
      | Some self \<Rightarrow>
          let nextLvl = getUpgradeLevel g self type + 1;
              rest =
            (if \<not> hasUnitTypeRequirement g self (whatUpgrades type) 1
             then setLastError Unit_Does_Not_Exist
             else if \<not> hasUnitTypeRequirement g self (whatsRequired type nextLvl) 1
             then setLastError Insufficient_Tech
             else if isUpgrading g self type then setLastError Currently_Upgrading
             else if getUpgradeLevel g self type \<ge> getMaxUpgradeLevel g self type
             then setLastError Fully_Upgraded
             else if minerals g self < upgrade_mineralPrice type nextLvl
             then setLastError Insufficient_Minerals
             else if gas g self < upgrade_gasPrice type nextLvl then setLastError Insufficient_Gas
             else setLastError No_Error)
          in
          case thisUnit of
            None \<Rightarrow> rest
          | Some u \<Rightarrow>
              if getPlayer g u \<noteq> Some self then setLastError Unit_Not_Owned
              else if \<not> isSuccessorOf (getType g u) (whatUpgrades type)
              then setLastError Incompatible_UnitType
              else if checkCanIssueCommandType
                \<and> (isLifted g u \<or> \<not> isIdle g u \<or> \<not> isCompleted g u)
              then setLastError Unit_Busy
              else rest)"

definition canSetRallyPosition :: "game \<Rightarrow> nat \<Rightarrow> bool \<Rightarrow> check" where
  "canSetRallyPosition g thisUnit checkCommandibility =
     guard_command g thisUnit checkCommandibility (
     if \<not> canProduce (getType g thisUnit) \<or> \<not> isBuilding (getType g thisUnit)
     then setLastError Incompatible_UnitType
     else if isLifted g thisUnit
     then setLastError Incompatible_State
     else give True)"

definition canSetRallyUnit :: "game \<Rightarrow> nat \<Rightarrow> bool \<Rightarrow> check" where
  "canSetRallyUnit g thisUnit checkCommandibility =
     guard_command g thisUnit checkCommandibility (
     if \<not> canProduce (getType g thisUnit) \<or> \<not> isBuilding (getType g thisUnit)
     then setLastError Incompatible_UnitType
     else if isLifted g thisUnit
     then setLastError Incompatible_State
     else give True)"

definition canSetRallyPoint :: "game \<Rightarrow> nat \<Rightarrow> bool \<Rightarrow> check" where
  "canSetRallyPoint g thisUnit checkCommandibility =
     guard_command g thisUnit checkCommandibility (
     ask (band (bnot (canSetRallyPosition g thisUnit False)) (bnot (canSetRallyUnit g thisUnit False)))
       (give False) (
     give True))"

definition canSetRallyUnit_unit ::
    "game \<Rightarrow> nat \<Rightarrow> nat option \<Rightarrow> bool \<Rightarrow> bool \<Rightarrow> bool \<Rightarrow> check" where
  "canSetRallyUnit_unit g thisUnit targetUnit checkCanTargetUnit checkCanIssueCommandType checkCommandibility =
     guard_command g thisUnit checkCommandibility (
     ensure_if checkCanIssueCommandType (canSetRallyUnit g thisUnit False) (
     ensure_if checkCanTargetUnit (canTargetUnit_unit g thisUnit targetUnit False) (
     give True)))"

definition canSetRallyPoint_unit ::
    "game \<Rightarrow> nat \<Rightarrow> nat option \<Rightarrow> bool \<Rightarrow> bool \<Rightarrow> bool \<Rightarrow> check" where
  "canSetRallyPoint_unit g thisUnit target checkCanTargetUnit checkCanIssueCommandType checkCommandibility =
     guard_command g thisUnit checkCommandibility (
     if target = None
     then setLastError Invalid_Parameter
     else ensure (canSetRallyUnit_unit g thisUnit target checkCanTargetUnit checkCanIssueCommandType False) (
     give True))"

definition canSetRallyPoint_pos ::
    "game \<Rightarrow> nat \<Rightarrow> int \<times> int \<Rightarrow> bool \<Rightarrow> bool \<Rightarrow> bool \<Rightarrow> check" where
  "canSetRallyPoint_pos g thisUnit target checkCanTargetUnit checkCanIssueCommandType checkCommandibility =
     guard_command g thisUnit checkCommandibility (
     ensure (canSetRallyPosition g thisUnit False) (
     give True))"

definition canMoveGrouped ::
    "game \<Rightarrow> nat \<Rightarrow> bool \<Rightarrow> bool \<Rightarrow> check" where
  "canMoveGrouped g thisUnit checkCommandibilityGrouped checkCommandibility =
     guard_command g thisUnit checkCommandibility (
     guard_grouped g thisUnit checkCommandibilityGrouped (
     if \<not> type_canMove (getType g thisUnit)
     then setLastError Incompatible_UnitType
     else if \<not> isCompleted g thisUnit \<and> \<not> isMorphing g thisUnit
     then setLastError Incompatible_State
     else give True))"

definition canPatrol :: "game \<Rightarrow> nat \<Rightarrow> bool \<Rightarrow> check" where
  "canPatrol g thisUnit checkCommandibility =
     guard_command g thisUnit checkCommandibility (
     ensure (canMove g thisUnit False) (
     give True))"

definition canPatrolGrouped ::
    "game \<Rightarrow> nat \<Rightarrow> bool \<Rightarrow> bool \<Rightarrow> check" where
  "canPatrolGrouped g thisUnit checkCommandibilityGrouped checkCommandibility =
     guard_command g thisUnit checkCommandibility (
     guard_grouped g thisUnit checkCommandibilityGrouped (
     ensure (canMoveGrouped g thisUnit False False) (
     give True)))"

definition canFollow :: "game \<Rightarrow> nat \<Rightarrow> bool \<Rightarrow> check" where
  "canFollow g thisUnit checkCommandibility =
     guard_command g thisUnit checkCommandibility (
     ensure (canMove g thisUnit False) (
     give True))"

definition canFollow_unit ::
    "game \<Rightarrow> nat \<Rightarrow> nat option \<Rightarrow> bool \<Rightarrow> bool \<Rightarrow> bool \<Rightarrow> check" where
  "canFollow_unit g thisUnit targetUnit checkCanTargetUnit checkCanIssueCommandType checkCommandibility =
     guard_command g thisUnit checkCommandibility (
     ensure_if checkCanIssueCommandType (canFollow g thisUnit False) (
     ensure_if checkCanTargetUnit (canTargetUnit_unit g thisUnit targetUnit False) (
     if targetUnit = Some thisUnit
     then setLastError Invalid_Parameter
     else give True)))"

definition canGather :: "game \<Rightarrow> nat \<Rightarrow> bool \<Rightarrow> check" where
  "canGather g thisUnit checkCommandibility =
     guard_command g thisUnit checkCommandibility (
     if \<not> isBuilding (getType g thisUnit) \<and> \<not> isInterruptible g thisUnit
     then setLastError Unit_Busy
     else if \<not> isWorker (getType g thisUnit)
     then setLastError Incompatible_UnitType
     else if getPowerUp g thisUnit \<noteq> None
     then setLastError Unit_Busy
     else if isHallucination g thisUnit
     then setLastError Incompatible_UnitType
     else if isBurrowed g thisUnit
     then setLastError Incompatible_State
     else if \<not> isCompleted g thisUnit
     then setLastError Incompatible_State
     else if getOrder g thisUnit = Order_ConstructingBuilding
     then setLastError Unit_Busy
     else give True)"

definition canGather_unit ::
    "game \<Rightarrow> nat \<Rightarrow> nat option \<Rightarrow> bool \<Rightarrow> bool \<Rightarrow> bool \<Rightarrow> check" where
  "canGather_unit g thisUnit targetUnit checkCanTargetUnit checkCanIssueCommandType checkCommandibility =
     guard_command g thisUnit checkCommandibility (
     ensure_if checkCanIssueCommandType (canGather g thisUnit False) (
     ensure_if checkCanTargetUnit (canTargetUnit_unit g thisUnit targetUnit False) (
     deref targetUnit (\<lambda>tgt.
     let uType = getType g tgt in
     if \<not> isResourceContainer uType \<or> uType = Resource_Vespene_Geyser
     then setLastError Incompatible_UnitType
     else if \<not> isCompleted g tgt
     then setLastError Unit_Busy
     else ask (bnot (hasPath g thisUnit (getPosition g tgt)))
       (setLastError Unreachable_Location) (
     if isRefinery uType \<and> getPlayer g tgt \<noteq> g_self g
     then setLastError Unit_Not_Owned
     else give True)))))"

definition canReturnCargo :: "game \<Rightarrow> nat \<Rightarrow> bool \<Rightarrow> check" where
  "canReturnCargo g thisUnit checkCommandibility =
     guard_command g thisUnit checkCommandibility (
     if \<not> isBuilding (getType g thisUnit) \<and> \<not> isInterruptible g thisUnit
     then setLastError Unit_Busy
     else if \<not> isWorker (getType g thisUnit)
     then setLastError Incompatible_UnitType
     else if \<not> isCarryingGas g thisUnit \<and> \<not> isCarryingMinerals g thisUnit
     then setLastError Insufficient_Ammo
     else if isBurrowed g thisUnit
     then setLastError Incompatible_State
     else if getOrder g thisUnit = Order_ConstructingBuilding
     then setLastError Unit_Busy
     else give True)"

definition canHoldPosition :: "game \<Rightarrow> nat \<Rightarrow> bool \<Rightarrow> check" where
  "canHoldPosition g thisUnit checkCommandibility =
     guard_command g thisUnit checkCommandibility (
     let rest =
       (if \<not> isCompleted g thisUnit
       then setLastError Incompatible_State
       else give True)
     in
     if \<not> isBuilding (getType g thisUnit)
     then (if \<not> type_canMove (getType g thisUnit)
       then setLastError Incompatible_UnitType
       else if isBurrowed g thisUnit \<and> getType g thisUnit \<noteq> Zerg_Lurker
       then setLastError Incompatible_State
       else if getOrder g thisUnit = Order_ConstructingBuilding
       then setLastError Unit_Busy
       else if getType g thisUnit = Zerg_Larva
       then setLastError Incompatible_UnitType
       else rest)
     else if \<not> isFlyingBuilding (getType g thisUnit)
     then setLastError Incompatible_UnitType
     else if \<not> isLifted g thisUnit
     then setLastError Incompatible_State
     else rest)"

definition canStop :: "game \<Rightarrow> nat \<Rightarrow> bool \<Rightarrow> check" where
  "canStop g thisUnit checkCommandibility =
     guard_command g thisUnit checkCommandibility (
     if \<not> isCompleted g thisUnit
     then setLastError Incompatible_State
     else if isBurrowed g thisUnit \<and> getType g thisUnit \<noteq> Zerg_Lurker
     then setLastError Incompatible_State
     else if isBuilding (getType g thisUnit) \<and> \<not> isLifted g thisUnit \<and> getType g thisUnit \<noteq> Protoss_Photon_Cannon \<and> getType g thisUnit \<noteq> Zerg_Sunken_Colony \<and> getType g thisUnit \<noteq> Zerg_Spore_Colony \<and> getType g thisUnit \<noteq> Terran_Missile_Turret
     then setLastError Incompatible_State
     else give True)"

definition canRepair :: "game \<Rightarrow> nat \<Rightarrow> bool \<Rightarrow> check" where
  "canRepair g thisUnit checkCommandibility =
     guard_command g thisUnit checkCommandibility (
     if \<not> isInterruptible g thisUnit
     then setLastError Unit_Busy
     else if getType g thisUnit \<noteq> Terran_SCV
     then setLastError Incompatible_UnitType
     else if \<not> isCompleted g thisUnit
     then setLastError Incompatible_State
     else if isHallucination g thisUnit
     then setLastError Incompatible_UnitType
     else if getOrder g thisUnit = Order_ConstructingBuilding
     then setLastError Unit_Busy
     else give True)"

definition canRepair_unit ::
    "game \<Rightarrow> nat \<Rightarrow> nat option \<Rightarrow> bool \<Rightarrow> bool \<Rightarrow> bool \<Rightarrow> check" where
  "canRepair_unit g thisUnit targetUnit checkCanTargetUnit checkCanIssueCommandType checkCommandibility =
     guard_command g thisUnit checkCommandibility (
     ensure_if checkCanIssueCommandType (canRepair g thisUnit False) (
     ensure_if checkCanTargetUnit (canTargetUnit_unit g thisUnit targetUnit False) (
     deref targetUnit (\<lambda>tgt.
     let targType = getType g tgt in
     if getRaceType targType \<noteq> Race_Terran \<or> \<not> isMechanical targType
     then setLastError Incompatible_UnitType
     else if getHitPoints g tgt = maxHitPoints targType
     then setLastError Incompatible_State
     else if \<not> isCompleted g tgt
     then setLastError Incompatible_State
     else if targetUnit = Some thisUnit
     then setLastError Invalid_Parameter
     else give True))))"

definition canLift :: "game \<Rightarrow> nat \<Rightarrow> bool \<Rightarrow> check" where
  "canLift g thisUnit checkCommandibility =
     guard_command g thisUnit checkCommandibility (
     if \<not> isFlyingBuilding (getType g thisUnit)
     then setLastError Incompatible_UnitType
     else if isLifted g thisUnit
     then setLastError Incompatible_State
     else if \<not> isCompleted g thisUnit
     then setLastError Incompatible_State
     else if \<not> isIdle g thisUnit
     then setLastError Unit_Busy
     else give True)"

definition canLand :: "game \<Rightarrow> nat \<Rightarrow> bool \<Rightarrow> check" where
  "canLand g thisUnit checkCommandibility =
     guard_command g thisUnit checkCommandibility (
     if \<not> isFlyingBuilding (getType g thisUnit)
     then setLastError Incompatible_UnitType
     else if \<not> isLifted g thisUnit
     then setLastError Incompatible_State
     else give True)"

definition canLand_tile ::
    "game \<Rightarrow> nat \<Rightarrow> int \<times> int \<Rightarrow> bool \<Rightarrow> bool \<Rightarrow> check" where
  "canLand_tile g thisUnit target checkCanIssueCommandType checkCommandibility =
     guard_command g thisUnit checkCommandibility (
     ensure_if checkCanIssueCommandType (canLand g thisUnit checkCommandibility) (
     ensure (canBuildHere g None target (getType g thisUnit) True) (
     give True)))"

definition canLoad :: "game \<Rightarrow> nat \<Rightarrow> bool \<Rightarrow> check" where
  "canLoad g thisUnit checkCommandibility =
     guard_command g thisUnit checkCommandibility (
     if \<not> isBuilding (getType g thisUnit) \<and> \<not> isInterruptible g thisUnit
     then setLastError Unit_Busy
     else if \<not> isCompleted g thisUnit
     then setLastError Unit_Busy
     else ask (band (give (getType g thisUnit = Zerg_Overlord)) (deref (g_self g) (\<lambda>p. give (getUpgradeLevel g p Upg_Ventral_Sacs = 0))))
       (setLastError Insufficient_Tech) (
     if isBurrowed g thisUnit
     then setLastError Incompatible_State
     else if getOrder g thisUnit = Order_ConstructingBuilding
     then setLastError Unit_Busy
     else if getType g thisUnit = Zerg_Larva
     then setLastError Incompatible_UnitType
     else give True))"

definition canLoad_unit ::
    "game \<Rightarrow> nat \<Rightarrow> nat option \<Rightarrow> bool \<Rightarrow> bool \<Rightarrow> bool \<Rightarrow> check" where
  "canLoad_unit g thisUnit targetUnit checkCanTargetUnit checkCanIssueCommandType checkCommandibility =
     guard_command g thisUnit checkCommandibility (
     ensure_if checkCanIssueCommandType (canLoad g thisUnit False) (
     ensure_if checkCanTargetUnit (canTargetUnit_unit g thisUnit targetUnit False) (
     deref targetUnit (\<lambda>tgt.
     if getPlayer g tgt \<noteq> g_self g then setLastError Unit_Not_Owned
     else if isLoaded g tgt \<or> \<not> isCompleted g tgt then setLastError Unit_Busy
     else ask (band (give (getType g tgt = Zerg_Overlord))
                 (deref (g_self g) (\<lambda>p. give (getUpgradeLevel g p Upg_Ventral_Sacs = 0))))
       (setLastError Insufficient_Tech) (
     let thisUnitSpaceProvided = spaceProvided (getType g thisUnit);
         targetSpaceProvided = spaceProvided (getType g tgt)
     in
     if thisUnitSpaceProvided \<le> 0 \<and> targetSpaceProvided \<le> 0
     then setLastError Incompatible_UnitType
     else
     let unitToBeLoaded = (if thisUnitSpaceProvided > 0 then tgt else thisUnit);
         unitThatLoads = (if thisUnitSpaceProvided > 0 then thisUnit else tgt);
         freeSpace =
           fold (\<lambda>u space. let requiredSpace = spaceRequired (getType g u) in
                    if requiredSpace > 0 \<and> requiredSpace < 8 then space - requiredSpace else space)
             (getLoadedUnits g unitThatLoads)
             (if thisUnitSpaceProvided > 0 then thisUnitSpaceProvided else targetSpaceProvided);
         rest =
           (if spaceRequired (getType g unitToBeLoaded) > freeSpace then setLastError Insufficient_Space
            else give True)
     in
     if \<not> type_canMove (getType g unitToBeLoaded) \<or> isFlyer (getType g unitToBeLoaded)
       \<or> spaceRequired (getType g unitToBeLoaded) > 8
     then setLastError Incompatible_UnitType
     else if \<not> isCompleted g unitToBeLoaded then setLastError Incompatible_State
     else if isBurrowed g unitToBeLoaded then setLastError Incompatible_State
     else if isHallucination g unitThatLoads then setLastError Incompatible_UnitType
     else if getType g unitThatLoads = Terran_Bunker
     then
       if \<not> isOrganic (getType g unitToBeLoaded) \<or> getRaceType (getType g unitToBeLoaded) \<noteq> Race_Terran
       then setLastError Incompatible_UnitType
       else ask (bnot (hasPath g unitToBeLoaded (getPosition g unitThatLoads)))
         (setLastError Unreachable_Location) rest
     else rest)))))"

definition canUnloadWithOrWithoutTarget :: "game \<Rightarrow> nat \<Rightarrow> bool \<Rightarrow> check" where
  "canUnloadWithOrWithoutTarget g thisUnit checkCommandibility =
     guard_command g thisUnit checkCommandibility (
     if \<not> isBuilding (getType g thisUnit) \<and> \<not> isInterruptible g thisUnit
     then setLastError Unit_Busy
     else if int (length (getLoadedUnits g thisUnit)) = 0
     then setLastError Unit_Does_Not_Exist
     else ask (band (give (getType g thisUnit = Zerg_Overlord)) (deref (g_self g) (\<lambda>p. give (getUpgradeLevel g p Upg_Ventral_Sacs = 0))))
       (setLastError Insufficient_Tech) (
     if spaceProvided (getType g thisUnit) \<le> 0
     then setLastError Incompatible_UnitType
     else give True))"

definition canUnloadAtPosition ::
    "game \<Rightarrow> nat \<Rightarrow> int \<times> int \<Rightarrow> bool \<Rightarrow> bool \<Rightarrow> check" where
  "canUnloadAtPosition g thisUnit targDropPos checkCanIssueCommandType checkCommandibility =
     guard_command g thisUnit checkCommandibility (
     ensure_if checkCanIssueCommandType (canUnloadWithOrWithoutTarget g thisUnit False) (
     if getType g thisUnit \<noteq> Terran_Bunker
     then
       let walk = (cdiv (fst targDropPos) 8, cdiv (snd targDropPos) 8) in
       if \<not> validWalkPosition g walk then setLastError Invalid_Tile_Position
       else if \<not> isWalkable g (fst walk) (snd walk) then setLastError Unreachable_Location
       else give True
     else give True))"

definition canUnload :: "game \<Rightarrow> nat \<Rightarrow> bool \<Rightarrow> check" where
  "canUnload g thisUnit checkCommandibility =
     canUnloadAtPosition g thisUnit (getPosition g thisUnit) True checkCommandibility"

definition canUnload_unit ::
    "game \<Rightarrow> nat \<Rightarrow> nat option \<Rightarrow> bool \<Rightarrow> bool \<Rightarrow> bool \<Rightarrow> bool \<Rightarrow> check" where
  "canUnload_unit g thisUnit targetUnit checkCanTargetUnit checkPosition checkCanIssueCommandType checkCommandibility =
     guard_command g thisUnit checkCommandibility (
     ensure_if checkCanIssueCommandType (canUnloadWithOrWithoutTarget g thisUnit False) (
     ensure_if checkPosition (canUnloadAtPosition g thisUnit (getPosition g thisUnit) False False) (
     ensure_if checkCanTargetUnit (canTargetUnit_unit g thisUnit targetUnit False) (
     deref targetUnit (\<lambda>tgt.
     if \<not> isLoaded g tgt
     then setLastError Incompatible_State
     else if getTransport g tgt \<noteq> Some thisUnit
     then setLastError Invalid_Parameter
     else give True)))))"

definition canUnloadAll :: "game \<Rightarrow> nat \<Rightarrow> bool \<Rightarrow> check" where
  "canUnloadAll g thisUnit checkCommandibility =
     canUnloadAtPosition g thisUnit (getPosition g thisUnit) True checkCommandibility"

definition canUnloadAllPosition :: "game \<Rightarrow> nat \<Rightarrow> bool \<Rightarrow> check" where
  "canUnloadAllPosition g thisUnit checkCommandibility =
     guard_command g thisUnit checkCommandibility (
     ensure (canUnloadWithOrWithoutTarget g thisUnit False) (
     if getType g thisUnit = Terran_Bunker
     then setLastError Incompatible_UnitType
     else give True))"

definition canUnloadAllPosition_pos ::
    "game \<Rightarrow> nat \<Rightarrow> int \<times> int \<Rightarrow> bool \<Rightarrow> bool \<Rightarrow> check" where
  "canUnloadAllPosition_pos g thisUnit targDropPos checkCanIssueCommandType checkCommandibility =
     guard_command g thisUnit checkCommandibility (
     ensure_if checkCanIssueCommandType (canUnloadAllPosition g thisUnit False) (
     ensure (canUnloadAtPosition g thisUnit targDropPos False False) (
     give True)))"

definition canRightClickPosition :: "game \<Rightarrow> nat \<Rightarrow> bool \<Rightarrow> check" where
  "canRightClickPosition g thisUnit checkCommandibility =
     guard_command g thisUnit checkCommandibility (
     if \<not> isBuilding (getType g thisUnit) \<and> \<not> isInterruptible g thisUnit
     then setLastError Unit_Busy
     else ask (band (bnot (canMove g thisUnit False)) (bnot (canSetRallyPosition g thisUnit False)))
       (setLastError Incompatible_State) (
     give True))"

definition canRightClickUnit :: "game \<Rightarrow> nat \<Rightarrow> bool \<Rightarrow> check" where
  "canRightClickUnit g thisUnit checkCommandibility =
     guard_command g thisUnit checkCommandibility (
     if \<not> isBuilding (getType g thisUnit) \<and> \<not> isInterruptible g thisUnit
     then setLastError Unit_Busy
     else ask (band (band (band (bnot (canFollow g thisUnit False)) (bnot (canAttackUnit g thisUnit False))) (bnot (canLoad g thisUnit False))) (bnot (canSetRallyUnit g thisUnit False)))
       (setLastError Incompatible_State) (
     give True))"

definition canRightClick :: "game \<Rightarrow> nat \<Rightarrow> bool \<Rightarrow> check" where
  "canRightClick g thisUnit checkCommandibility =
     guard_command g thisUnit checkCommandibility (
     ask (band (bnot (canRightClickPosition g thisUnit False)) (bnot (canRightClickUnit g thisUnit False)))
       (give False) (
     give True))"

definition canRightClick_pos ::
    "game \<Rightarrow> nat \<Rightarrow> int \<times> int \<Rightarrow> bool \<Rightarrow> bool \<Rightarrow> bool \<Rightarrow> check" where
  "canRightClick_pos g thisUnit target checkCanTargetUnit checkCanIssueCommandType checkCommandibility =
     guard_command g thisUnit checkCommandibility (
     ensure (canRightClickPosition g thisUnit False) (
     give True))"

text \<open>\<open>!targetUnit->getPlayer()->isNeutral() && thisUnit->getPlayer()->isEnemy(targetUnit->getPlayer())\<close>.\<close>

definition hostile :: "game \<Rightarrow> nat \<Rightarrow> nat \<Rightarrow> check" where
  "hostile g thisUnit tgt =
     deref (getPlayer g tgt) (\<lambda>q.
     if player_isNeutral g q then give False
     else deref (getPlayer g thisUnit) (\<lambda>p. give (isEnemy g p (getPlayer g tgt))))"

definition canRightClickUnit_unit ::
    "game \<Rightarrow> nat \<Rightarrow> nat option \<Rightarrow> bool \<Rightarrow> bool \<Rightarrow> bool \<Rightarrow> check" where
  "canRightClickUnit_unit g thisUnit targetUnit checkCanTargetUnit checkCanIssueCommandType checkCommandibility =
     guard_command g thisUnit checkCommandibility (
     ensure_if checkCanIssueCommandType (canRightClickUnit g thisUnit False) (
     ensure_if checkCanTargetUnit (canTargetUnit_unit g thisUnit targetUnit False) (
     deref targetUnit (\<lambda>tgt.
     ask (band (hostile g thisUnit tgt) (bnot (canAttackUnit_unit g thisUnit targetUnit False True False)))
       (give False) (
     ask (band (bnot (canFollow_unit g thisUnit targetUnit False True False))
            (band (bnot (canLoad_unit g thisUnit targetUnit False True False))
               (bnot (canSetRallyUnit_unit g thisUnit targetUnit False True False))))
       (setLastError Incompatible_State) (
     give True))))))"

definition canRightClick_unit ::
    "game \<Rightarrow> nat \<Rightarrow> nat option \<Rightarrow> bool \<Rightarrow> bool \<Rightarrow> bool \<Rightarrow> check" where
  "canRightClick_unit g thisUnit target checkCanTargetUnit checkCanIssueCommandType checkCommandibility =
     guard_command g thisUnit checkCommandibility (
     if target = None
     then setLastError Invalid_Parameter
     else ensure (canRightClickUnit_unit g thisUnit target checkCanTargetUnit checkCanIssueCommandType False) (
     give True))"

definition canRightClickPositionGrouped ::
    "game \<Rightarrow> nat \<Rightarrow> bool \<Rightarrow> bool \<Rightarrow> check" where
  "canRightClickPositionGrouped g thisUnit checkCommandibilityGrouped checkCommandibility =
     guard_command g thisUnit checkCommandibility (
     guard_grouped g thisUnit checkCommandibilityGrouped (
     if \<not> isInterruptible g thisUnit
     then setLastError Unit_Busy
     else ask (bnot (canMoveGrouped g thisUnit False False))
       (setLastError Incompatible_State) (
     give True)))"

definition canRightClickUnitGrouped ::
    "game \<Rightarrow> nat \<Rightarrow> bool \<Rightarrow> bool \<Rightarrow> check" where
  "canRightClickUnitGrouped g thisUnit checkCommandibilityGrouped checkCommandibility =
     guard_command g thisUnit checkCommandibility (
     guard_grouped g thisUnit checkCommandibilityGrouped (
     if \<not> isInterruptible g thisUnit
     then setLastError Unit_Busy
     else ask (band (band (bnot (canFollow g thisUnit False)) (bnot (canAttackUnitGrouped g thisUnit False False))) (bnot (canLoad g thisUnit False)))
       (setLastError Incompatible_State) (
     give True)))"

definition canRightClickGrouped ::
    "game \<Rightarrow> nat \<Rightarrow> bool \<Rightarrow> bool \<Rightarrow> check" where
  "canRightClickGrouped g thisUnit checkCommandibilityGrouped checkCommandibility =
     guard_command g thisUnit checkCommandibility (
     guard_grouped g thisUnit checkCommandibilityGrouped (
     ask (band (bnot (canRightClickPositionGrouped g thisUnit False False)) (bnot (canRightClickUnitGrouped g thisUnit False False)))
       (give False) (
     give True)))"

definition canRightClickGrouped_pos ::
    "game \<Rightarrow> nat \<Rightarrow> int \<times> int \<Rightarrow> bool \<Rightarrow> bool \<Rightarrow> bool \<Rightarrow> bool \<Rightarrow> check" where
  "canRightClickGrouped_pos g thisUnit target checkCanTargetUnit checkCanIssueCommandTypeGrouped checkCommandibilityGrouped checkCommandibility =
     guard_command g thisUnit checkCommandibility (
     guard_grouped g thisUnit checkCommandibilityGrouped (
     ensure (canRightClickPositionGrouped g thisUnit False False) (
     give True)))"

definition canRightClickUnitGrouped_unit ::
    "game \<Rightarrow> nat \<Rightarrow> nat option \<Rightarrow> bool \<Rightarrow> bool \<Rightarrow> bool \<Rightarrow> bool \<Rightarrow> check" where
  "canRightClickUnitGrouped_unit g thisUnit targetUnit checkCanTargetUnit checkCanIssueCommandType
      checkCommandibilityGrouped checkCommandibility =
     guard_command g thisUnit checkCommandibility (
     guard_grouped g thisUnit checkCommandibilityGrouped (
     ensure_if checkCanIssueCommandType (canRightClickUnitGrouped g thisUnit False False) (
     ensure_if checkCanTargetUnit (canTargetUnit_unit g thisUnit targetUnit False) (
     deref targetUnit (\<lambda>tgt.
     ask (band (hostile g thisUnit tgt)
            (bnot (canAttackUnitGrouped_unit g thisUnit targetUnit False True False False)))
       (give False) (
     ask (band (bnot (canFollow_unit g thisUnit targetUnit False True False))
            (bnot (canLoad_unit g thisUnit targetUnit False True False)))
       (setLastError Incompatible_State) (
     give True)))))))"

definition canRightClickGrouped_unit ::
    "game \<Rightarrow> nat \<Rightarrow> nat option \<Rightarrow> bool \<Rightarrow> bool \<Rightarrow> bool \<Rightarrow> bool \<Rightarrow> check" where
  "canRightClickGrouped_unit g thisUnit target checkCanTargetUnit checkCanIssueCommandTypeGrouped checkCommandibilityGrouped checkCommandibility =
     guard_command g thisUnit checkCommandibility (
     guard_grouped g thisUnit checkCommandibilityGrouped (
     if target = None
     then setLastError Invalid_Parameter
     else ensure (canRightClickUnitGrouped_unit g thisUnit target checkCanTargetUnit checkCanIssueCommandTypeGrouped False False) (
     give True)))"

definition canHaltConstruction :: "game \<Rightarrow> nat \<Rightarrow> bool \<Rightarrow> check" where
  "canHaltConstruction g thisUnit checkCommandibility =
     guard_command g thisUnit checkCommandibility (
     if getOrder g thisUnit \<noteq> Order_ConstructingBuilding
     then setLastError Incompatible_State
     else give True)"

definition canCancelConstruction :: "game \<Rightarrow> nat \<Rightarrow> bool \<Rightarrow> check" where
  "canCancelConstruction g thisUnit checkCommandibility =
     guard_command g thisUnit checkCommandibility (
     if \<not> isBuilding (getType g thisUnit)
     then setLastError Incompatible_UnitType
     else if isCompleted g thisUnit \<or> (getType g thisUnit = Zerg_Nydus_Canal \<and> getNydusExit g thisUnit \<noteq> None)
     then setLastError Incompatible_State
     else give True)"

definition canCancelAddon :: "game \<Rightarrow> nat \<Rightarrow> bool \<Rightarrow> check" where
  "canCancelAddon g thisUnit checkCommandibility =
     guard_command g thisUnit checkCommandibility (
     case getAddon g thisUnit of
       None \<Rightarrow> setLastError Incompatible_UnitType
     | Some addon \<Rightarrow> if isCompleted g addon then setLastError Incompatible_UnitType else give True)"

definition canCancelTrain :: "game \<Rightarrow> nat \<Rightarrow> bool \<Rightarrow> check" where
  "canCancelTrain g thisUnit checkCommandibility =
     guard_command g thisUnit checkCommandibility (
     if \<not> isTraining g thisUnit
     then setLastError Incompatible_State
     else give True)"

definition canCancelTrainSlot :: "game \<Rightarrow> nat \<Rightarrow> bool \<Rightarrow> check" where
  "canCancelTrainSlot g thisUnit checkCommandibility =
     canCancelTrain g thisUnit checkCommandibility"

text \<open>The slot is compared with the queue's length as an \<open>unsigned int\<close>.\<close>

definition canCancelTrainSlot_slot :: "game \<Rightarrow> nat \<Rightarrow> int \<Rightarrow> bool \<Rightarrow> bool \<Rightarrow> check" where
  "canCancelTrainSlot_slot g thisUnit slot checkCanIssueCommandType checkCommandibility =
     guard_command g thisUnit checkCommandibility (
     ensure_if checkCanIssueCommandType (canCancelTrainSlot g thisUnit False) (
     if \<not> isTraining g thisUnit
       \<or> (int (length (getTrainingQueue g thisUnit)) \<le> slot mod 2 ^ 32 \<and> slot \<ge> 0)
     then setLastError Incompatible_State
     else give True))"

definition canCancelMorph :: "game \<Rightarrow> nat \<Rightarrow> bool \<Rightarrow> check" where
  "canCancelMorph g thisUnit checkCommandibility =
     guard_command g thisUnit checkCommandibility (
     if \<not> isMorphing g thisUnit \<or> (\<not> isCompleted g thisUnit \<and> getType g thisUnit = Zerg_Nydus_Canal \<and> getNydusExit g thisUnit \<noteq> None)
     then setLastError Incompatible_State
     else if isHallucination g thisUnit
     then setLastError Incompatible_UnitType
     else give True)"

definition canCancelResearch :: "game \<Rightarrow> nat \<Rightarrow> bool \<Rightarrow> check" where
  "canCancelResearch g thisUnit checkCommandibility =
     guard_command g thisUnit checkCommandibility (
     if getOrder g thisUnit \<noteq> Order_ResearchTech
     then setLastError Incompatible_State
     else give True)"

definition canCancelUpgrade :: "game \<Rightarrow> nat \<Rightarrow> bool \<Rightarrow> check" where
  "canCancelUpgrade g thisUnit checkCommandibility =
     guard_command g thisUnit checkCommandibility (
     if getOrder g thisUnit \<noteq> Order_Upgrade
     then setLastError Incompatible_State
     else give True)"

definition canPlaceCOP :: "game \<Rightarrow> nat \<Rightarrow> bool \<Rightarrow> check" where
  "canPlaceCOP g thisUnit checkCommandibility =
     guard_command g thisUnit checkCommandibility (
     if \<not> isFlagBeacon (getType g thisUnit) then setLastError Incompatible_UnitType
     else if ud_buttonset (g_unit g thisUnit) = 228 \<or> getOrder g thisUnit \<noteq> Order_CTFCOPInit
     then setLastError Incompatible_State
     else give True)"

definition canPlaceCOP_tile ::
    "game \<Rightarrow> nat \<Rightarrow> int \<times> int \<Rightarrow> bool \<Rightarrow> bool \<Rightarrow> check" where
  "canPlaceCOP_tile g thisUnit target checkCanIssueCommandType checkCommandibility =
     guard_command g thisUnit checkCommandibility (
     ensure_if checkCanIssueCommandType (canPlaceCOP g thisUnit checkCommandibility) (
     ensure (canBuildHere g (Some thisUnit) target (getType g thisUnit) True) (
     give True)))"

end
