(* ===== verification/Issue_Checks.thy ===== *)
theory Issue_Checks
  imports Command_Checks
begin

text \<open>
  The checks of technologies and the dispatch over all kinds of command (\<open>canUseTech...\<close>,
  \<open>canIssueCommandType\<close>, \<open>canIssueCommand\<close> and their \<open>Grouped\<close> forms of \<open>Shared/Templates.h\<close>).
\<close>

section \<open>Technologies\<close>

definition canUseTechWithOrWithoutTarget :: "game \<Rightarrow> nat \<Rightarrow> bool \<Rightarrow> check" where
  "canUseTechWithOrWithoutTarget g thisUnit checkCommandibility =
     guard_command g thisUnit checkCommandibility (
     if \<not> isBuilding (getType g thisUnit) \<and> \<not> isInterruptible g thisUnit
     then setLastError Unit_Busy
     else if \<not> isCompleted g thisUnit
     then setLastError Incompatible_State
     else if isHallucination g thisUnit
     then setLastError Incompatible_UnitType
     else give True)"

definition canUseTechWithOrWithoutTarget_tech :: "game \<Rightarrow> nat \<Rightarrow> int \<Rightarrow> bool \<Rightarrow> bool \<Rightarrow> check" where
  "canUseTechWithOrWithoutTarget_tech g thisUnit tech checkCanIssueCommandType checkCommandibility =
     guard_command g thisUnit checkCommandibility (
     ensure_if checkCanIssueCommandType (canUseTechWithOrWithoutTarget g thisUnit False) (
     ask (band (give (\<not> isHero (getType g thisUnit)))
            (band (bnot (deref (g_self g) (\<lambda>p. give (hasResearched g p tech))))
               (give (getType g thisUnit \<noteq> Zerg_Lurker))))
       (setLastError Insufficient_Tech) (
     if getEnergy g thisUnit < energyCost tech then setLastError Insufficient_Energy
     else if tech \<noteq> Tech_Burrowing \<and> getType g thisUnit \<notin> set (tech_whatUses tech)
     then setLastError Incompatible_UnitType
     else if tech = Tech_Spider_Mines
     then (if getSpiderMineCount g thisUnit \<le> 0 then setLastError Insufficient_Ammo else give True)
     else if tech = Tech_Tank_Siege_Mode
     then (if isSieged g thisUnit then setLastError Incompatible_State
           else if getOrder g thisUnit = Order_Sieging \<or> getOrder g thisUnit = Order_Unsieging
           then setLastError Unit_Busy else give True)
     else if tech = Tech_Cloaking_Field \<or> tech = Tech_Personnel_Cloaking
     then (if getSecondaryOrder g thisUnit = Order_Cloak then setLastError Incompatible_State
           else give True)
     else if tech = Tech_Burrowing
     then (if \<not> isBurrowable (getType g thisUnit) then setLastError Incompatible_UnitType
           else if isBurrowed g thisUnit \<or> getOrder g thisUnit = Order_Burrowing
             \<or> getOrder g thisUnit = Order_Unburrowing
           then setLastError Incompatible_State else give True)
     else if tech = TechType_None then setLastError Incompatible_TechType
     else if tech = Tech_Nuclear_Strike
     then deref (getPlayer g thisUnit) (\<lambda>p.
       if completedUnitCount g p Terran_Nuclear_Missile = 0 then setLastError Insufficient_Ammo
       else give True)
     else if tech = TechType_Unknown then setLastError Incompatible_TechType
     else give True)))"

definition canUseTechWithoutTarget ::
    "game \<Rightarrow> nat \<Rightarrow> int \<Rightarrow> bool \<Rightarrow> bool \<Rightarrow> check" where
  "canUseTechWithoutTarget g thisUnit tech checkCanIssueCommandType checkCommandibility =
     guard_command g thisUnit checkCommandibility (
     ensure_if checkCanIssueCommandType (canUseTechWithOrWithoutTarget g thisUnit False) (
     ensure (canUseTechWithOrWithoutTarget_tech g thisUnit tech False False) (
     if targetsUnit tech \<or> targetsPosition tech \<or> tech = TechType_None \<or> tech = TechType_Unknown \<or> tech = Tech_Lurker_Aspect
     then setLastError Incompatible_TechType
     else give True)))"

definition canBurrow :: "game \<Rightarrow> nat \<Rightarrow> bool \<Rightarrow> check" where
  "canBurrow g thisUnit checkCommandibility =
     guard_command g thisUnit checkCommandibility (
     ensure (canUseTechWithoutTarget g thisUnit Tech_Burrowing True False) (
     give True))"

definition canUnburrow :: "game \<Rightarrow> nat \<Rightarrow> bool \<Rightarrow> check" where
  "canUnburrow g thisUnit checkCommandibility =
     guard_command g thisUnit checkCommandibility (
     if \<not> isBurrowable (getType g thisUnit)
     then setLastError Incompatible_UnitType
     else if \<not> isBurrowed g thisUnit \<or> getOrder g thisUnit = Order_Unburrowing
     then setLastError Incompatible_State
     else give True)"

definition canCloak :: "game \<Rightarrow> nat \<Rightarrow> bool \<Rightarrow> check" where
  "canCloak g thisUnit checkCommandibility =
     guard_command g thisUnit checkCommandibility (
     ensure (canUseTechWithoutTarget g thisUnit (cloakingTech (getType g thisUnit)) True False) (
     give True))"

definition canDecloak :: "game \<Rightarrow> nat \<Rightarrow> bool \<Rightarrow> check" where
  "canDecloak g thisUnit checkCommandibility =
     guard_command g thisUnit checkCommandibility (
     if cloakingTech (getType g thisUnit) = TechType_None
     then setLastError Incompatible_UnitType
     else if getSecondaryOrder g thisUnit \<noteq> Order_Cloak
     then setLastError Incompatible_State
     else give True)"

definition canSiege :: "game \<Rightarrow> nat \<Rightarrow> bool \<Rightarrow> check" where
  "canSiege g thisUnit checkCommandibility =
     guard_command g thisUnit checkCommandibility (
     ensure (canUseTechWithoutTarget g thisUnit Tech_Tank_Siege_Mode True False) (
     give True))"

definition canUnsiege :: "game \<Rightarrow> nat \<Rightarrow> bool \<Rightarrow> check" where
  "canUnsiege g thisUnit checkCommandibility =
     guard_command g thisUnit checkCommandibility (
     if \<not> isSieged g thisUnit
     then setLastError Incompatible_State
     else if getOrder g thisUnit = Order_Sieging \<or> getOrder g thisUnit = Order_Unsieging
     then setLastError Unit_Busy
     else if isHallucination g thisUnit
     then setLastError Incompatible_UnitType
     else give True)"

definition canUseTechPosition_tech ::
    "game \<Rightarrow> nat \<Rightarrow> int \<Rightarrow> bool \<Rightarrow> bool \<Rightarrow> check" where
  "canUseTechPosition_tech g thisUnit tech checkCanIssueCommandType checkCommandibility =
     guard_command g thisUnit checkCommandibility (
     ensure_if checkCanIssueCommandType (canUseTechWithOrWithoutTarget g thisUnit False) (
     ensure (canUseTechWithOrWithoutTarget_tech g thisUnit tech False False) (
     if \<not> targetsPosition tech
     then setLastError Incompatible_TechType
     else give True)))"

definition canUseTechPosition_target ::
    "game \<Rightarrow> nat \<Rightarrow> int \<Rightarrow> int \<times> int \<Rightarrow> bool \<Rightarrow> bool \<Rightarrow> bool \<Rightarrow> check" where
  "canUseTechPosition_target g thisUnit tech target checkTargetsPositions checkCanIssueCommandType checkCommandibility =
     guard_command g thisUnit checkCommandibility (
     ensure_if checkCanIssueCommandType (canUseTechWithOrWithoutTarget g thisUnit False) (
     ensure_if checkTargetsPositions (canUseTechPosition_tech g thisUnit tech False False) (
     ask (band (give (tech = Tech_Spider_Mines)) (bnot (hasPath g thisUnit target)))
       (setLastError Unreachable_Location) (
     give True))))"

definition canUseTech_tech_pos ::
    "game \<Rightarrow> nat \<Rightarrow> int \<Rightarrow> int \<times> int \<Rightarrow> bool \<Rightarrow> bool \<Rightarrow> bool \<Rightarrow> bool \<Rightarrow> check" where
  "canUseTech_tech_pos g thisUnit tech target checkCanTargetUnit checkTargetsType checkCanIssueCommandType checkCommandibility =
     guard_command g thisUnit checkCommandibility (
     ensure (canUseTechPosition_target g thisUnit tech target checkTargetsType checkCanIssueCommandType False) (
     give True))"

definition canUseTechUnit_tech ::
    "game \<Rightarrow> nat \<Rightarrow> int \<Rightarrow> bool \<Rightarrow> bool \<Rightarrow> check" where
  "canUseTechUnit_tech g thisUnit tech checkCanIssueCommandType checkCommandibility =
     guard_command g thisUnit checkCommandibility (
     ensure_if checkCanIssueCommandType (canUseTechWithOrWithoutTarget g thisUnit False) (
     ensure (canUseTechWithOrWithoutTarget_tech g thisUnit tech False False) (
     if \<not> targetsUnit tech
     then setLastError Incompatible_TechType
     else give True)))"

text \<open>The three \<open>switch\<close> statements of \<open>canUseTechUnit\<close>, each followed by the next; cases fall through.\<close>

definition tech_target_kind :: "game \<Rightarrow> nat \<Rightarrow> int \<Rightarrow> nat \<Rightarrow> check \<Rightarrow> check" where
  "tech_target_kind g thisUnit tech tgt rest =
     (let targetType = getType g tgt in
     if tech = Tech_Archon_Warp
     then (if targetType \<noteq> Protoss_High_Templar then setLastError Incompatible_UnitType
           else if getPlayer g tgt \<noteq> getPlayer g thisUnit then setLastError Unit_Not_Owned else rest)
     else if tech = Tech_Dark_Archon_Meld
     then (if targetType \<noteq> Protoss_Dark_Templar then setLastError Incompatible_UnitType
           else if getPlayer g tgt \<noteq> getPlayer g thisUnit then setLastError Unit_Not_Owned else rest)
     else if tech = Tech_Consume
     then (if getPlayer g tgt \<noteq> getPlayer g thisUnit then setLastError Unit_Not_Owned
           else if getRaceType targetType \<noteq> Race_Zerg \<or> targetType = Zerg_Larva
           then setLastError Incompatible_UnitType else rest)
     else if tech = Tech_Spawn_Broodlings
     then (if (\<not> isOrganic targetType \<and> \<not> isMechanical targetType) \<or> isRobotic targetType
             \<or> isFlyer targetType
           then setLastError Incompatible_UnitType else rest)
     else if tech = Tech_Lockdown
     then (if \<not> isMechanical targetType then setLastError Incompatible_UnitType else rest)
     else if tech = Tech_Healing
     then (if getHitPoints g tgt = maxHitPoints targetType then setLastError Incompatible_State
           else if \<not> isOrganic targetType \<or> isFlyer targetType then setLastError Incompatible_UnitType
           else ask (hostile g thisUnit tgt) (setLastError Invalid_Parameter) rest)
     else if tech = Tech_Mind_Control
     then (if getPlayer g tgt = getPlayer g thisUnit then setLastError Invalid_Parameter
           else if targetType = Protoss_Interceptor \<or> targetType = Terran_Vulture_Spider_Mine
             \<or> targetType = Zerg_Lurker_Egg \<or> targetType = Zerg_Cocoon \<or> targetType = Zerg_Larva
             \<or> targetType = Zerg_Egg
           then setLastError Incompatible_UnitType else rest)
     else if tech = Tech_Feedback
     then (if \<not> isSpellcaster targetType then setLastError Incompatible_UnitType else rest)
     else if tech = Tech_Infestation
     then (if targetType \<noteq> Terran_Command_Center \<or> getHitPoints g tgt \<ge> 750 \<or> getHitPoints g tgt \<le> 0
           then setLastError Invalid_Parameter else rest)
     else rest)"

definition tech_target_state :: "game \<Rightarrow> nat \<Rightarrow> int \<Rightarrow> nat \<Rightarrow> check \<Rightarrow> check" where
  "tech_target_state g thisUnit tech tgt rest =
     (let stasis = (if isStasised g tgt then setLastError Incompatible_State else rest) in
     if tech = Tech_Archon_Warp \<or> tech = Tech_Dark_Archon_Meld
     then ask (bnot (hasPath g thisUnit (getPosition g tgt))) (setLastError Unreachable_Location) (
          if isHallucination g tgt then setLastError Invalid_Parameter
          else if isMaelstrommed g tgt then setLastError Incompatible_State
          else stasis)
     else if tech \<in> {Tech_Parasite, Tech_Irradiate, Tech_Optical_Flare, Tech_Spawn_Broodlings,
         Tech_Lockdown, Tech_Defensive_Matrix, Tech_Hallucination, Tech_Healing, Tech_Restoration,
         Tech_Mind_Control, Tech_Consume, Tech_Feedback, Tech_Yamato_Gun}
     then stasis
     else rest)"

definition tech_target_protection :: "game \<Rightarrow> int \<Rightarrow> nat \<Rightarrow> check \<Rightarrow> check" where
  "tech_target_protection g tech tgt rest =
     (let building = (if isBuilding (getType g tgt) then setLastError Incompatible_UnitType else rest) in
     if tech = Tech_Yamato_Gun
     then (if isInvincible g tgt then setLastError Invalid_Parameter else rest)
     else if tech \<in> {Tech_Parasite, Tech_Irradiate, Tech_Optical_Flare, Tech_Spawn_Broodlings,
         Tech_Lockdown, Tech_Defensive_Matrix, Tech_Hallucination, Tech_Healing, Tech_Restoration,
         Tech_Mind_Control}
     then (if isInvincible g tgt then setLastError Invalid_Parameter else building)
     else if tech = Tech_Consume \<or> tech = Tech_Feedback then building
     else rest)"

definition canUseTechUnit_target ::
    "game \<Rightarrow> nat \<Rightarrow> int \<Rightarrow> nat option \<Rightarrow> bool \<Rightarrow> bool \<Rightarrow> bool \<Rightarrow> bool \<Rightarrow> check" where
  "canUseTechUnit_target g thisUnit tech targetUnit checkCanTargetUnit checkTargetsUnits
      checkCanIssueCommandType checkCommandibility =
     guard_command g thisUnit checkCommandibility (
     ensure_if checkCanIssueCommandType (canUseTechWithOrWithoutTarget g thisUnit False) (
     ensure_if checkTargetsUnits (canUseTechUnit_tech g thisUnit tech False False) (
     ensure_if checkCanTargetUnit (canTargetUnit_unit g thisUnit targetUnit False) (
     deref targetUnit (\<lambda>tgt.
     tech_target_kind g thisUnit tech tgt (
     tech_target_state g thisUnit tech tgt (
     tech_target_protection g tech tgt (
     if targetUnit = Some thisUnit then setLastError Invalid_Parameter
     else give True))))))))"

definition canUseTech_tech_unit ::
    "game \<Rightarrow> nat \<Rightarrow> int \<Rightarrow> nat option \<Rightarrow> bool \<Rightarrow> bool \<Rightarrow> bool \<Rightarrow> bool \<Rightarrow> check" where
  "canUseTech_tech_unit g thisUnit tech target checkCanTargetUnit checkTargetsType checkCanIssueCommandType checkCommandibility =
     guard_command g thisUnit checkCommandibility (
     if target = None
     then (ensure (canUseTechWithoutTarget g thisUnit tech checkCanIssueCommandType False) (
       give True))
     else ensure (canUseTechUnit_target g thisUnit tech target checkCanTargetUnit checkTargetsType checkCanIssueCommandType False) (
     give True))"

section \<open>Commands\<close>

text \<open>The target pointer of a command.\<close>

definition command_target :: "unit_command \<Rightarrow> nat option" where
  "command_target c = map_option u_index (uc_target c)"

definition canIssueCommandType ::
    "game \<Rightarrow> nat \<Rightarrow> int \<Rightarrow> bool \<Rightarrow> check" where
  "canIssueCommandType g thisUnit ct checkCommandibility =
     (guard_command g thisUnit checkCommandibility (
     if ct = Attack_Move then canAttackMove g thisUnit False
     else if ct = Attack_Unit then canAttackUnit g thisUnit False
     else if ct = Build then canBuild g thisUnit False
     else if ct = Build_Addon then canBuildAddon g thisUnit False
     else if ct = Train then canTrain g thisUnit False
     else if ct = Morph then canMorph g thisUnit False
     else if ct = Research then canResearch g thisUnit False
     else if ct = Upgrade then canUpgrade g thisUnit False
     else if ct = Set_Rally_Position then canSetRallyPosition g thisUnit False
     else if ct = Set_Rally_Unit then canSetRallyUnit g thisUnit False
     else if ct = Move then canMove g thisUnit False
     else if ct = Patrol then canPatrol g thisUnit False
     else if ct = Hold_Position then canHoldPosition g thisUnit False
     else if ct = Stop then canStop g thisUnit False
     else if ct = Follow then canFollow g thisUnit False
     else if ct = Gather then canGather g thisUnit False
     else if ct = Return_Cargo then canReturnCargo g thisUnit False
     else if ct = Repair then canRepair g thisUnit False
     else if ct = Burrow then canBurrow g thisUnit False
     else if ct = Unburrow then canUnburrow g thisUnit False
     else if ct = Cloak then canCloak g thisUnit False
     else if ct = Decloak then canDecloak g thisUnit False
     else if ct = Siege then canSiege g thisUnit False
     else if ct = Unsiege then canUnsiege g thisUnit False
     else if ct = Lift then canLift g thisUnit False
     else if ct = Land then canLand g thisUnit False
     else if ct = Load then canLoad g thisUnit False
     else if ct = Unload then canUnload g thisUnit False
     else if ct = Unload_All then canUnloadAll g thisUnit False
     else if ct = Unload_All_Position then canUnloadAllPosition g thisUnit False
     else if ct = Right_Click_Position then canRightClickPosition g thisUnit False
     else if ct = Right_Click_Unit then canRightClickUnit g thisUnit False
     else if ct = Halt_Construction then canHaltConstruction g thisUnit False
     else if ct = Cancel_Construction then canCancelConstruction g thisUnit False
     else if ct = Cancel_Addon then canCancelAddon g thisUnit False
     else if ct = Cancel_Train then canCancelTrain g thisUnit False
     else if ct = Cancel_Train_Slot then canCancelTrainSlot g thisUnit False
     else if ct = Cancel_Morph then canCancelMorph g thisUnit False
     else if ct = Cancel_Research then canCancelResearch g thisUnit False
     else if ct = Cancel_Upgrade then canCancelUpgrade g thisUnit False
     else if ct = Use_Tech \<or> ct = Use_Tech_Unit \<or> ct = Use_Tech_Position then canUseTechWithOrWithoutTarget g thisUnit False
     else if ct = Place_COP then canPlaceCOP g thisUnit False
     else give True))"

definition canIssueCommandTypeGrouped ::
    "game \<Rightarrow> nat \<Rightarrow> int \<Rightarrow> bool \<Rightarrow> bool \<Rightarrow> check" where
  "canIssueCommandTypeGrouped g thisUnit ct checkCommandibilityGrouped checkCommandibility =
     (guard_command g thisUnit checkCommandibility (
     guard_grouped g thisUnit checkCommandibilityGrouped (
     if ct = Attack_Move then canAttackMoveGrouped g thisUnit False False
     else if ct = Attack_Unit then canAttackUnitGrouped g thisUnit False False
     else if ct = Build then give False
     else if ct = Build_Addon then give False
     else if ct = Train then canTrain g thisUnit False
     else if ct = Morph then canMorph g thisUnit False
     else if ct = Research then give False
     else if ct = Upgrade then give False
     else if ct = Set_Rally_Position then give False
     else if ct = Set_Rally_Unit then give False
     else if ct = Move then canMoveGrouped g thisUnit False False
     else if ct = Patrol then canPatrolGrouped g thisUnit False False
     else if ct = Hold_Position then canHoldPosition g thisUnit False
     else if ct = Stop then canStop g thisUnit False
     else if ct = Follow then canFollow g thisUnit False
     else if ct = Gather then canGather g thisUnit False
     else if ct = Return_Cargo then canReturnCargo g thisUnit False
     else if ct = Repair then canRepair g thisUnit False
     else if ct = Burrow then canBurrow g thisUnit False
     else if ct = Unburrow then canUnburrow g thisUnit False
     else if ct = Cloak then canCloak g thisUnit False
     else if ct = Decloak then canDecloak g thisUnit False
     else if ct = Siege then canSiege g thisUnit False
     else if ct = Unsiege then canUnsiege g thisUnit False
     else if ct = Lift then give False
     else if ct = Land then give False
     else if ct = Load then canLoad g thisUnit False
     else if ct = Unload then give False
     else if ct = Unload_All then give False
     else if ct = Unload_All_Position then canUnloadAllPosition g thisUnit False
     else if ct = Right_Click_Position then canRightClickPositionGrouped g thisUnit False False
     else if ct = Right_Click_Unit then canRightClickUnitGrouped g thisUnit False False
     else if ct = Halt_Construction then canHaltConstruction g thisUnit False
     else if ct = Cancel_Construction then give False
     else if ct = Cancel_Addon then give False
     else if ct = Cancel_Train then give False
     else if ct = Cancel_Train_Slot then give False
     else if ct = Cancel_Morph then canCancelMorph g thisUnit False
     else if ct = Cancel_Research then give False
     else if ct = Cancel_Upgrade then give False
     else if ct = Use_Tech \<or> ct = Use_Tech_Unit \<or> ct = Use_Tech_Position then canUseTechWithOrWithoutTarget g thisUnit False
     else if ct = Place_COP then give False
     else give True)))"

definition canIssueCommand ::
    "game \<Rightarrow> nat \<Rightarrow> unit_command \<Rightarrow> bool \<Rightarrow> bool \<Rightarrow> bool \<Rightarrow> bool \<Rightarrow> bool \<Rightarrow> bool \<Rightarrow> check" where
  "canIssueCommand g thisUnit c checkCanUseTechPositionOnPositions
      checkCanUseTechUnitOnUnits checkCanBuildUnitType checkCanTargetUnit checkCanIssueCommandType checkCommandibility =
     (let ct = uc_type c in
     guard_command g thisUnit checkCommandibility (
     ensure_if checkCanIssueCommandType (canIssueCommandType g thisUnit ct False) (
     if ct = Attack_Move then give True
     else if ct = Attack_Unit then canAttackUnit_unit g thisUnit (command_target c) checkCanTargetUnit False False
     else if ct = Build then canBuild_at g thisUnit (getUnitType c) (uc_x c, uc_y c) checkCanBuildUnitType False False
     else if ct = Build_Addon then canBuildAddon_type g thisUnit (getUnitType c) False False
     else if ct = Train then canTrain_type g thisUnit (getUnitType c) False False
     else if ct = Morph then canMorph_type g thisUnit (getUnitType c) False False
     else if ct = Research then canResearch_tech g (Some thisUnit) (getTechType c) False
     else if ct = Upgrade then canUpgrade_upgrade g (Some thisUnit) (getUpgradeType c) False
     else if ct = Set_Rally_Position then give True
     else if ct = Set_Rally_Unit then canSetRallyUnit_unit g thisUnit (command_target c) checkCanTargetUnit False False
     else if ct = Move then give True
     else if ct = Patrol then give True
     else if ct = Hold_Position then give True
     else if ct = Stop then give True
     else if ct = Follow then canFollow_unit g thisUnit (command_target c) checkCanTargetUnit False False
     else if ct = Gather then canGather_unit g thisUnit (command_target c) checkCanTargetUnit False False
     else if ct = Return_Cargo then give True
     else if ct = Repair then canRepair_unit g thisUnit (command_target c) checkCanTargetUnit False False
     else if ct = Burrow then give True
     else if ct = Unburrow then give True
     else if ct = Cloak then give True
     else if ct = Decloak then give True
     else if ct = Siege then give True
     else if ct = Unsiege then give True
     else if ct = Lift then give True
     else if ct = Land then canLand_tile g thisUnit (uc_x c, uc_y c) False False
     else if ct = Load then canLoad_unit g thisUnit (command_target c) checkCanTargetUnit False False
     else if ct = Unload then canUnload_unit g thisUnit (command_target c) checkCanTargetUnit False False False
     else if ct = Unload_All then give True
     else if ct = Unload_All_Position then canUnloadAllPosition_pos g thisUnit (getTargetPosition c) False False
     else if ct = Right_Click_Position then give True
     else if ct = Right_Click_Unit then canRightClickUnit_unit g thisUnit (command_target c) checkCanTargetUnit False False
     else if ct = Halt_Construction then give True
     else if ct = Cancel_Construction then give True
     else if ct = Cancel_Addon then give True
     else if ct = Cancel_Train then give True
     else if ct = Cancel_Train_Slot then canCancelTrainSlot_slot g thisUnit (uc_extra c) False False
     else if ct = Cancel_Morph then give True
     else if ct = Cancel_Research then give True
     else if ct = Cancel_Upgrade then give True
     else if ct = Use_Tech then canUseTechWithoutTarget g thisUnit (mkType TechType_Unknown (uc_extra c)) False False
     else if ct = Use_Tech_Unit then canUseTechUnit_target g thisUnit (mkType TechType_Unknown (uc_extra c)) (command_target c) checkCanTargetUnit checkCanUseTechUnitOnUnits False False
     else if ct = Use_Tech_Position then canUseTechPosition_target g thisUnit (mkType TechType_Unknown (uc_extra c)) (getTargetPosition c) checkCanUseTechPositionOnPositions False False
     else if ct = Place_COP then canPlaceCOP_tile g thisUnit (uc_x c, uc_y c) False False
     else give True)))"

definition canIssueCommandGrouped ::
    "game \<Rightarrow> nat \<Rightarrow> unit_command \<Rightarrow> bool \<Rightarrow> bool \<Rightarrow> bool \<Rightarrow> bool \<Rightarrow> bool \<Rightarrow> bool \<Rightarrow> check" where
  "canIssueCommandGrouped g thisUnit c checkCanUseTechPositionOnPositions
      checkCanUseTechUnitOnUnits checkCanTargetUnit checkCanIssueCommandType checkCommandibilityGrouped checkCommandibility =
     (let ct = uc_type c in
     guard_command g thisUnit checkCommandibility (
     guard_grouped g thisUnit checkCommandibilityGrouped (
     ensure_if checkCanIssueCommandType (canIssueCommandTypeGrouped g thisUnit ct False False) (
     if ct = Attack_Move then give True
     else if ct = Attack_Unit then canAttackUnitGrouped_unit g thisUnit (command_target c) checkCanTargetUnit False False False
     else if ct = Build then give False
     else if ct = Build_Addon then give False
     else if ct = Train then canTrain_type g thisUnit (getUnitType c) False False
     else if ct = Morph then canMorph_type g thisUnit (getUnitType c) False False
     else if ct = Research then give False
     else if ct = Upgrade then give False
     else if ct = Set_Rally_Position then give False
     else if ct = Set_Rally_Unit then give False
     else if ct = Move then give True
     else if ct = Patrol then give True
     else if ct = Hold_Position then give True
     else if ct = Stop then give True
     else if ct = Follow then canFollow_unit g thisUnit (command_target c) checkCanTargetUnit False False
     else if ct = Gather then canGather_unit g thisUnit (command_target c) checkCanTargetUnit False False
     else if ct = Return_Cargo then give True
     else if ct = Repair then canRepair_unit g thisUnit (command_target c) checkCanTargetUnit False False
     else if ct = Burrow then give True
     else if ct = Unburrow then give True
     else if ct = Cloak then give True
     else if ct = Decloak then give True
     else if ct = Siege then give True
     else if ct = Unsiege then give True
     else if ct = Lift then give False
     else if ct = Land then give False
     else if ct = Load then canLoad_unit g thisUnit (command_target c) checkCanTargetUnit False False
     else if ct = Unload then give False
     else if ct = Unload_All then give False
     else if ct = Unload_All_Position then canUnloadAllPosition_pos g thisUnit (getTargetPosition c) False False
     else if ct = Right_Click_Position then give True
     else if ct = Right_Click_Unit then canRightClickUnitGrouped_unit g thisUnit (command_target c) checkCanTargetUnit False False False
     else if ct = Halt_Construction then give True
     else if ct = Cancel_Construction then give False
     else if ct = Cancel_Addon then give False
     else if ct = Cancel_Train then give False
     else if ct = Cancel_Train_Slot then give False
     else if ct = Cancel_Morph then give True
     else if ct = Cancel_Research then give False
     else if ct = Cancel_Upgrade then give False
     else if ct = Use_Tech then canUseTechWithoutTarget g thisUnit (mkType TechType_Unknown (uc_extra c)) False False
     else if ct = Use_Tech_Unit then canUseTechUnit_target g thisUnit (mkType TechType_Unknown (uc_extra c)) (command_target c) checkCanTargetUnit checkCanUseTechUnitOnUnits False False
     else if ct = Use_Tech_Position then canUseTechPosition_target g thisUnit (mkType TechType_Unknown (uc_extra c)) (getTargetPosition c) checkCanUseTechPositionOnPositions False False
     else if ct = Place_COP then give False
     else give True))))"

end
