(* ===== verification/Command_Issue.thy ===== *)
theory Command_Issue
  imports Command_Optimizer Issue_Checks
begin

text \<open>
  How the injected client issues a command: \<open>UnitImpl::issueCommand\<close> and \<open>prepareIssueCommand\<close>
  (\<open>BWAPI/Source/BWAPI/UnitImpl.cpp\<close>) for one unit, \<open>GameImpl::issueCommand\<close> (\<open>GameImpl.cpp\<close>) for a
  set of units. \<open>live\<close> gives the command code's view of a unit. Nothing here changes the mirrored
  game, so \<open>g\<close> is fixed; the module's own state is threaded through. A set of units is walked in the
  order of a list, since that of \<open>Unitset\<close> is not fixed by the code.
\<close>

section \<open>State\<close>

record client_module =
  cm_error :: err
  cm_frame :: int
  cm_lastCommand :: "nat \<Rightarrow> (unit_command \<times> int) option"
  cm_lastImmediate :: "nat \<Rightarrow> (unit_command \<times> int) option"
  cm_buffer :: "unit_command list"
  cm_optimizer :: optimizer
  cm_orders :: "exec_result list"

definition setCommandOptimizationLevel :: "int \<Rightarrow> client_module \<Rightarrow> client_module" where
  "setCommandOptimizationLevel level st =
     st\<lparr>cm_optimizer := (cm_optimizer st)\<lparr>opt_level := max 0 (min level 4)\<rparr>\<rparr>"

definition queueOrder :: "exec_result \<Rightarrow> client_module \<Rightarrow> client_module" where
  "queueOrder ord st = st\<lparr>cm_orders := cm_orders st @ [ord]\<rparr>"

section \<open>One unit\<close>

definition setLastImmediateCommand :: "unit_command \<Rightarrow> client_module \<Rightarrow> client_module" where
  "setLastImmediateCommand c st =
     (case uc_unit c of
        None \<Rightarrow> st
      | Some u \<Rightarrow>
          if uc_type c \<noteq> Cloak \<and> uc_type c \<noteq> Decloak \<and> uc_type c \<noteq> Unload \<and> \<not> isQueued c
          then st\<lparr>cm_lastImmediate := (cm_lastImmediate st)(u_index u := Some (c, cm_frame st))\<rparr>
          else st)"

definition note_command :: "unit_ref \<Rightarrow> unit_command \<Rightarrow> client_module \<Rightarrow> client_module" where
  "note_command u c st =
     (case u of
        None \<Rightarrow> st
      | Some v \<Rightarrow>
          setLastImmediateCommand c
            (st\<lparr>cm_lastCommand := (cm_lastCommand st)(u_index v := Some (c, cm_frame st))\<rparr>))"

definition merges :: "unit_command \<Rightarrow> bool" where
  "merges c \<longleftrightarrow> uc_type c = Use_Tech_Unit \<and> uc_target c \<noteq> None
     \<and> (uc_extra c = Tech_Archon_Warp \<or> uc_extra c = Tech_Dark_Archon_Meld)"

text \<open>The loop that looks for a larva to train; a test changes the last error.\<close>

fun first_larva :: "game \<Rightarrow> nat list \<Rightarrow> err \<Rightarrow> (nat option \<times> err) option" where
  "first_larva g [] e = Some (None, e)"
| "first_larva g (l # ls) e =
     (case commandable_larva g l e of
        None \<Rightarrow> None
      | Some (b, e') \<Rightarrow> if b then Some (Some l, e') else first_larva g ls e')"

definition needs_larva :: "game \<Rightarrow> nat \<Rightarrow> unit_command \<Rightarrow> bool" where
  "needs_larva g u c \<longleftrightarrow> (uc_type c = Train \<or> uc_type c = Morph) \<and> producesLarva (getType g u)
     \<and> fst (whatBuilds (getUnitType c)) = Zerg_Larva"

text \<open>The unit that gets the command: the first free larva, or none.\<close>

definition commanded_unit :: "game \<Rightarrow> nat \<Rightarrow> unit_command \<Rightarrow> err \<Rightarrow> (nat option \<times> err) option" where
  "commanded_unit g u c e =
     (if needs_larva g u c
      then (case first_larva g (getLarva g u) e of
              None \<Rightarrow> None
            | Some (l, e') \<Rightarrow> Some (if l = Some u then None else l, e'))
      else Some (Some u, e))"

definition prepareIssueCommand ::
    "game \<Rightarrow> (nat \<Rightarrow> live_unit) \<Rightarrow> nat \<Rightarrow> unit_command \<Rightarrow> client_module
     \<Rightarrow> (bool \<times> unit_command \<times> client_module) option" where
  "prepareIssueCommand g live u command st =
     (case commanded_unit g u command (cm_error st) of
        None \<Rightarrow> None
      | Some (None, e) \<Rightarrow> Some (False, command\<lparr>uc_unit := Some (live u)\<rparr>, st\<lparr>cm_error := e\<rparr>)
      | Some (Some v, e) \<Rightarrow>
          let c = command\<lparr>uc_unit := Some (live v)\<rparr>;
              st1 = note_command (uc_unit c) c (st\<lparr>cm_error := e\<rparr>);
              st2 = (if merges c then note_command (uc_target c) c st1 else st1);
              st3 = st2\<lparr>cm_buffer := cm_buffer st2 @ [c]\<rparr>
          in (case add g (map_size_of g) c (cm_optimizer st3) of
                (None, opt) \<Rightarrow> Some (False, c, st3\<lparr>cm_optimizer := opt\<rparr>)
              | (Some c', opt) \<Rightarrow>
                  Some (True, c, setLastImmediateCommand c' (st3\<lparr>cm_optimizer := opt\<rparr>))))"

definition orderSelect :: "unit_ref list \<Rightarrow> client_module \<Rightarrow> client_module" where
  "orderSelect us st = queueOrder (Queued (Select_units (map (map_option bwu) us))) st"

definition issueCommand ::
    "game \<Rightarrow> (nat \<Rightarrow> live_unit) \<Rightarrow> nat \<Rightarrow> unit_command \<Rightarrow> client_module
     \<Rightarrow> (bool \<times> client_module) option" where
  "issueCommand g live u command st =
     (case canIssueCommand g u command True True True True True True (cm_error st) of
        None \<Rightarrow> None
      | Some (False, e) \<Rightarrow> Some (False, st\<lparr>cm_error := e\<rparr>)
      | Some (True, e) \<Rightarrow>
          (case prepareIssueCommand g live u command (st\<lparr>cm_error := e\<rparr>) of
             None \<Rightarrow> None
           | Some (True, c, st1) \<Rightarrow> Some (True, st1)
           | Some (False, c, st1) \<Rightarrow>
               let st2 =
                 (if merges c then orderSelect [uc_unit c, uc_target c] st1
                  else if uc_type c \<noteq> Unload \<or> opt_level (cm_optimizer st1) < 2
                  then orderSelect [uc_unit c] st1
                  else st1)
               in Some (True, queueOrder (executeCommand (map_size_of g) c) st2)))"

section \<open>A set of units\<close>

text \<open>The first loop of \<open>GameImpl::issueCommand\<close>; \<open>prepareIssueCommand\<close> changes the command it is given.\<close>

fun gather_groups ::
    "game \<Rightarrow> (nat \<Rightarrow> live_unit) \<Rightarrow> nat list \<Rightarrow> unit_command \<Rightarrow> nat list \<Rightarrow> nat list list \<Rightarrow> client_module
     \<Rightarrow> (unit_command \<times> nat list list \<times> client_module) option" where
  "gather_groups g live [] c next groups st =
     Some (c, if next = [] then groups else groups @ [next], st)"
| "gather_groups g live (u # us) c next groups st =
     (if \<not> unit_exists g u then gather_groups g live us c next groups st
      else
        case canIssueCommandGrouped g u c True True True True True True (cm_error st) of
          None \<Rightarrow> None
        | Some (False, e) \<Rightarrow>
            (case issueCommand g live u c (st\<lparr>cm_error := e\<rparr>) of
               None \<Rightarrow> None
             | Some (b, st1) \<Rightarrow> gather_groups g live us c next groups st1)
        | Some (True, e) \<Rightarrow>
            (case prepareIssueCommand g live u c (st\<lparr>cm_error := e\<rparr>) of
               None \<Rightarrow> None
             | Some (True, c1, st1) \<Rightarrow> gather_groups g live us c1 next groups st1
             | Some (False, c1, st1) \<Rightarrow>
                 if length (next @ [u]) \<ge> 12
                 then gather_groups g live us c1 [] (groups @ [next @ [u]]) st1
                 else gather_groups g live us c1 (next @ [u]) groups st1))"

fun order_groups :: "game \<Rightarrow> (nat \<Rightarrow> live_unit) \<Rightarrow> unit_command \<Rightarrow> nat list list \<Rightarrow> client_module \<Rightarrow> client_module" where
  "order_groups g live c [] st = st"
| "order_groups g live c (v # vs) st =
     (let c1 = c\<lparr>uc_unit := Some (live (hd v))\<rparr>;
          st1 = (if uc_type c1 \<noteq> Unload \<or> opt_level (cm_optimizer st) < 2
                 then orderSelect (map (\<lambda>u. Some (live u)) v) st else st)
      in order_groups g live c1 vs (queueOrder (executeCommand (map_size_of g) c1) st1))"

definition issueCommand_units ::
    "game \<Rightarrow> (nat \<Rightarrow> live_unit) \<Rightarrow> nat list \<Rightarrow> unit_command \<Rightarrow> client_module
     \<Rightarrow> (bool \<times> client_module) option" where
  "issueCommand_units g live units command st =
     (case gather_groups g live units command [] [] st of
        None \<Rightarrow> None
      | Some (c, groups, st1) \<Rightarrow>
          if groups = [] then Some (False, st1)
          else Some (True, order_groups g live c groups st1))"

text \<open>The flush at the start of a frame.\<close>

definition flush_optimizer :: "game \<Rightarrow> (nat \<Rightarrow> live_unit) \<Rightarrow> client_module \<Rightarrow> client_module" where
  "flush_optimizer g live st =
     (let (orders, opt) = opt_flush (map_size_of g) live (cm_optimizer st)
      in st\<lparr>cm_orders := cm_orders st @ orders, cm_optimizer := opt\<rparr>)"

end
