(* ===== verification/Check_Rules.thy ===== *)
theory Check_Rules
  imports Issue_Checks
begin

text \<open>
  A calculus for the permission checks: \<open>yields c e Q\<close> says that the check \<open>c\<close>, started with the last
  error \<open>e\<close>, returns, and that its answer and the error it leaves satisfy \<open>Q\<close>. One equation per
  combinator reduces a check to the checks it calls; \<open>reports X Y c\<close> is the contract each check of
  the library is then shown to keep.
\<close>

section \<open>Total runs\<close>

definition yields :: "check \<Rightarrow> err \<Rightarrow> (bool \<Rightarrow> err \<Rightarrow> bool) \<Rightarrow> bool" where
  "yields c e Q \<longleftrightarrow> (case c e of None \<Rightarrow> False | Some (b, e') \<Rightarrow> Q b e')"

lemma yields_give: "yields (give b) e Q = Q b e"
  by (simp add: yields_def give_def)

lemma yields_error: "yields (setLastError x) e Q = Q (x = No_Error) x"
  by (simp add: yields_def setLastError_def)

lemma yields_ask:
  "yields (ask c y n) e Q = yields c e (\<lambda>b e'. if b then yields y e' Q else yields n e' Q)"
  by (auto simp: yields_def ask_def split: option.split)

lemma yields_after: "yields (after_error x k) e Q = yields k x Q"
  by (simp add: after_error_def yields_ask yields_error)

lemma yields_not: "yields (bnot c) e Q = yields c e (\<lambda>b. Q (\<not> b))"
  by (auto simp: bnot_def ask_def give_def yields_def split: option.split)

lemma yields_and:
  "yields (band a b) e Q = yields a e (\<lambda>x e'. if x then yields b e' Q else Q False e')"
  by (simp add: band_def yields_ask yields_give)

lemma yields_or:
  "yields (bor a b) e Q = yields a e (\<lambda>x e'. if x then Q True e' else yields b e' Q)"
  by (simp add: bor_def yields_ask yields_give)

lemma yields_ensure:
  "yields (ensure c k) e Q = yields c e (\<lambda>x e'. if x then yields k e' Q else Q False e')"
  by (simp add: ensure_def yields_ask yields_give)

lemma yields_ensure_if:
  "yields (ensure_if f c k) e Q = (if f then yields (ensure c k) e Q else yields k e Q)"
  by (simp add: ensure_if_def)

lemma yields_guard:
  "yields (guard_command g u f k) e Q =
     (if f then yields (ensure (canCommand g u) k) e Q else yields k No_Error Q)"
  by (simp add: guard_command_def yields_after)

text \<open>
  As rules of inference, one goal per way through the check. The tests of the code are dropped: no
  contract below depends on which branch is taken.
\<close>

lemma if_known:
  "A \<Longrightarrow> if True then A else B" "B \<Longrightarrow> if False then A else B"
  "B \<Longrightarrow> if \<not> True then A else B" "A \<Longrightarrow> if \<not> False then A else B"
  by simp_all

lemma if_either: "A \<Longrightarrow> B \<Longrightarrow> if P then A else B"
  by simp

lemma yields_if: "yields c e Q \<Longrightarrow> yields d e Q \<Longrightarrow> yields (if b then c else d) e Q"
  by simp

lemma yields_case_option:
  "yields c e Q \<Longrightarrow> (\<And>y. x = Some y \<Longrightarrow> yields (d y) e Q) \<Longrightarrow> yields (case x of None \<Rightarrow> c | Some y \<Rightarrow> d y) e Q"
  by (cases x) simp_all

lemma yields_set:
  "Q True No_Error \<Longrightarrow> yields (setLastError No_Error) e Q"
  "x \<noteq> No_Error \<Longrightarrow> Q False x \<Longrightarrow> yields (setLastError x) e Q"
  by (simp_all add: yields_error)

lemma yields_deref: "yields (k x) e Q \<Longrightarrow> yields (deref (Some x) k) e Q"
  by (simp add: deref_def)

lemmas runs = if_known if_either yields_if yields_case_option yields_deref
  yields_give [THEN iffD2] yields_set yields_ask [THEN iffD2] yields_after [THEN iffD2]
  yields_not [THEN iffD2] yields_and [THEN iffD2] yields_or [THEN iffD2] yields_ensure [THEN iffD2]
  yields_ensure_if [THEN iffD2] yields_guard [THEN iffD2]

lemma yields_mono: "yields c e Q \<Longrightarrow> (\<And>b e'. Q b e' \<Longrightarrow> R b e') \<Longrightarrow> yields c e R"
  by (auto simp: yields_def split: option.splits)

lemma yieldsD: "yields c e Q \<Longrightarrow> \<exists>b e'. c e = Some (b, e') \<and> Q b e'"
  by (auto simp: yields_def split: option.splits)

text \<open>
  The contract of a check: it returns; it answers \<open>True\<close> only with \<open>No_Error\<close> left, and \<open>False\<close> only
  with another error left. \<open>X\<close> excuses a refusal that leaves no error, \<open>Y\<close> an acceptance that leaves
  \<open>Unable_To_Hit\<close>.
\<close>

definition reports :: "bool \<Rightarrow> bool \<Rightarrow> check \<Rightarrow> bool" where
  "reports X Y c \<longleftrightarrow>
     (\<forall>e. yields c e (\<lambda>b e'. if b then e' = No_Error \<or> Y \<and> e' = Unable_To_Hit else e' \<noteq> No_Error \<or> X))"

lemma reports_run:
  assumes "reports X Y c"
    and "Q True No_Error" and "\<And>x. x \<noteq> No_Error \<Longrightarrow> Q False x"
    and "X \<Longrightarrow> Q False No_Error" and "Y \<Longrightarrow> Q True Unable_To_Hit"
  shows "yields c e Q"
proof -
  have "yields c e (\<lambda>b e'. if b then e' = No_Error \<or> Y \<and> e' = Unable_To_Hit else e' \<noteq> No_Error \<or> X)"
    using assms(1) by (simp add: reports_def)
  then show ?thesis
  proof (rule yields_mono)
    fix b e'
    assume "if b then e' = No_Error \<or> Y \<and> e' = Unable_To_Hit else e' \<noteq> No_Error \<or> X"
    then show "Q b e'"
      using assms(2-) by (cases "e' = No_Error") (auto split: if_splits)
  qed
qed

lemma reports_weaken: "reports X Y c \<Longrightarrow> (X \<Longrightarrow> X') \<Longrightarrow> (Y \<Longrightarrow> Y') \<Longrightarrow> reports X' Y' c"
  unfolding reports_def using yields_mono by (smt (verit))

lemma any_unit_yields:
  assumes "\<And>u. u \<in> set us \<Longrightarrow> reports X Y (c u)" and "\<And>b e'. Q b e'"
  shows "yields (any_unit us c) e Q"
  using assms
proof (induction us arbitrary: e)
  case Nil
  then show ?case by (simp add: yields_give)
next
  case (Cons u us)
  then have "\<And>e. yields (any_unit us c) e Q" by (metis list.set_intros(2))
  moreover have "reports X Y (c u)" using Cons.prems(1) by simp
  ultimately show ?case
    by (simp only: any_unit.simps, intro runs reports_run [of X Y "c u"])
      (assumption | rule Cons.prems(2))+
qed

section \<open>Well-formed states\<close>

text \<open>
  The states in which no check dereferences a null pointer or runs for ever: the AI has a player, every
  unit's owner is known, and what hatches from a larva source is not a larva source itself.
\<close>

definition sound_game :: "game \<Rightarrow> bool" where
  "sound_game g \<longleftrightarrow> g_self g \<noteq> None \<and> (\<forall>u. getPlayer g u \<noteq> None)
     \<and> (\<forall>u. \<forall>l\<in>set (getLarva g u). \<not> producesLarva (getType g l))"

lemma sound_self: "sound_game g \<Longrightarrow> \<exists>p. g_self g = Some p"
  by (auto simp: sound_game_def)

lemma sound_owner: "sound_game g \<Longrightarrow> \<exists>p. getPlayer g u = Some p"
  by (auto simp: sound_game_def)

lemma sound_larva: "sound_game g \<Longrightarrow> l \<in> set (getLarva g u) \<Longrightarrow> \<not> producesLarva (getType g l)"
  by (auto simp: sound_game_def)

lemma yields_self:
  assumes "sound_game g" and "\<And>p. g_self g = Some p \<Longrightarrow> yields (k p) e Q"
  shows "yields (deref (g_self g) k) e Q"
  using sound_self [OF assms(1)] assms(2) by (auto simp: deref_def)

lemma yields_owner:
  assumes "sound_game g" and "\<And>p. getPlayer g u = Some p \<Longrightarrow> yields (k p) e Q"
  shows "yields (deref (getPlayer g u) k) e Q"
  using sound_owner [OF assms(1), of u] assms(2) by (auto simp: deref_def)

named_theorems calls "contracts of the checks"

section \<open>The unit itself\<close>

lemma canCommand_plain:
  assumes "\<not> producesLarva (getType g u)"
  shows "reports False False (canCommand g u)"
  unfolding reports_def
proof
  fix e
  show "yields (canCommand g u) e
    (\<lambda>b e'. if b then e' = No_Error \<or> False \<and> e' = Unable_To_Hit else e' \<noteq> No_Error \<or> False)"
    unfolding yields_def using assms
    by (subst canCommand.simps) (simp add: after_error_def ask_def setLastError_def)
qed

lemma canCommand_over:
  assumes "\<And>l. l \<in> set (getLarva g u) \<Longrightarrow> \<not> producesLarva (getType g l)"
  shows "reports False False (canCommand g u)"
  unfolding reports_def
proof (rule allI)
  fix e
  let ?Q = "\<lambda>b e'. if b then e' = No_Error \<or> False \<and> e' = Unable_To_Hit else e' \<noteq> No_Error \<or> False"
  have larvae: "yields (any_unit (getLarva g u) (canCommand g)) x R" if "\<And>b e'. R b e'" for x R
    by (rule any_unit_yields [OF canCommand_plain [OF assms] that])
  show "yields (canCommand g u) e ?Q"
    unfolding yields_def
    by (subst canCommand.simps, fold yields_def, intro runs larvae) simp_all
qed

lemma canCommand_reports [calls]: "sound_game g \<Longrightarrow> reports False False (canCommand g u)"
  using canCommand_over sound_larva by blast

end
