(* ===== verification/Check_Contracts.thy ===== *)
theory Check_Contracts
  imports Check_Rules
begin

text \<open>
  Every check of \<open>Shared/Templates.h\<close> keeps the contract of \<open>Check_Rules\<close>: on a well-formed game it
  returns, and the last error tells how it answered. The groups follow the order in which the checks
  call each other.
\<close>

lemma hasPath_reports [calls]: "reports False False (hasPath g u p)"
  unfolding reports_def hasPath_def game_hasPath_def by (intro allI runs; simp)

lemma yields_hostile:
  assumes "sound_game g" and "Q True e" and "Q False e"
  shows "yields (hostile g u t) e Q"
  unfolding hostile_def
  by (rule yields_owner [OF assms(1)], rule yields_if, rule yields_give [THEN iffD2], rule assms(3),
      rule yields_owner [OF assms(1)], rule yields_give [THEN iffD2])
    (use assms(2,3) in \<open>metis (full_types)\<close>)

lemma yields_range:
  assumes "sound_game g" and "Q True e" and "Q False e"
  shows "yields (isInWeaponRange g u t) e Q"
proof -
  have pure: "yields (give b) e Q" for b
    unfolding yields_give using assms(2,3) by (cases b) simp_all
  show ?thesis
    unfolding isInWeaponRange_def Let_def by (intro yields_if pure yields_owner [OF assms(1)])
qed

lemmas walks = runs yields_self yields_owner yields_hostile yields_range

lemma unit_checks [calls]:
  assumes "sound_game g"
  shows "reports False False (canCommandGrouped g u f)"
  unfolding canCommandGrouped_def reports_def Let_def
  by (intro allI walks calls calls [THEN reports_run] assms | simp)+

lemma basic_checks [calls]:
  assumes "sound_game g"
  shows "reports False False (canAttackUnit g u f)"
    "reports False False (canMove g u f)"
    "reports False False (canBuild g u f)"
    "reports False False (canBuildAddon g u f)"
    "reports False False (canResearch g u f)"
    "reports False False (canUpgrade g u f)"
    "reports False False (canSetRallyPosition g u f)"
    "reports False False (canSetRallyUnit g u f)"
    "reports False False (canGather g u f)"
    "reports False False (canReturnCargo g u f)"
    "reports False False (canHoldPosition g u f)"
    "reports False False (canStop g u f)"
    "reports False False (canRepair g u f)"
    "reports False False (canLift g u f)"
    "reports False False (canLand g u f)"
    "reports False False (canLoad g u f)"
    "reports False False (canUnloadWithOrWithoutTarget g u f)"
    "reports False False (canHaltConstruction g u f)"
    "reports False False (canCancelConstruction g u f)"
    "reports False False (canCancelAddon g u f)"
    "reports False False (canCancelTrain g u f)"
    "reports False False (canCancelMorph g u f)"
    "reports False False (canCancelResearch g u f)"
    "reports False False (canCancelUpgrade g u f)"
    "reports False False (canPlaceCOP g u f)"
    "reports False False (canUseTechWithOrWithoutTarget g u f)"
    "reports False False (canUnburrow g u f)"
    "reports False False (canDecloak g u f)"
    "reports False False (canUnsiege g u f)"
  unfolding canAttackUnit_def canMove_def canBuild_def canBuildAddon_def canResearch_def canUpgrade_def canSetRallyPosition_def canSetRallyUnit_def canGather_def canReturnCargo_def canHoldPosition_def canStop_def canRepair_def canLift_def canLand_def canLoad_def canUnloadWithOrWithoutTarget_def canHaltConstruction_def canCancelConstruction_def canCancelAddon_def canCancelTrain_def canCancelMorph_def canCancelResearch_def canCancelUpgrade_def canPlaceCOP_def canUseTechWithOrWithoutTarget_def canUnburrow_def canDecloak_def canUnsiege_def reports_def Let_def
  by (intro allI walks calls calls [THEN reports_run] assms | simp)+

section \<open>Building sites and production\<close>

definition mobile :: "game \<Rightarrow> nat option \<Rightarrow> bool" where
  "mobile g builder \<longleftrightarrow> (\<exists>b. builder = Some b \<and> \<not> isBuilding (getType g b))"

lemma mobile_None [simp]: "\<not> mobile g None"
  by (simp add: mobile_def)

lemma site_step:
  assumes "\<And>b q. isAddon type \<Longrightarrow> \<not> isAddon (getType g b)
             \<Longrightarrow> reports (mobile g (Some b)) False (canBuildHere g (Some b) q (getType g b) ex)"
  shows "reports (mobile g builder) False (canBuildHere g builder position type ex)"
proof -
  have inner: "reports (mobile g (Some b)) False (canBuildHere g (Some b) q (getType g b) ex)"
    if "\<not> isAddon (getType g b) \<and> isAddon type" for b q
    using assms that by blast
  show ?thesis
  proof (cases builder)
    case None
    then show ?thesis
      unfolding reports_def Let_def
      by (subst canBuildHere.simps)
        (simp only: Let_def refinery_site_def option.case, intro allI runs; simp)
  next
    case (Some b)
    have rest: "yields (if \<not> isAddon (getType g b) \<and> isAddon type
         then ensure (canBuildHere g (Some b) q (getType g b) ex) (setLastError No_Error)
         else setLastError No_Error) e
       (\<lambda>b e'. if b then e' = No_Error else e' \<noteq> No_Error \<or> mobile g builder)" for q e
    proof (cases "\<not> isAddon (getType g b) \<and> isAddon type")
      case True
      show ?thesis
        unfolding if_P [OF True] by (intro runs inner [OF True, THEN reports_run]; simp add: Some)
    next
      case False
      show ?thesis
        unfolding if_not_P [OF False] by (simp add: yields_error)
    qed
    show ?thesis
    proof (cases "isBuilding (getType g b)")
      case True
      show ?thesis
        unfolding reports_def Some
        by (subst canBuildHere.simps)
          (simp only: Let_def refinery_site_def option.case True simp_thms if_True if_False,
           intro allI rest [unfolded Some] runs; simp)
    next
      case False
      then have "mobile g (Some b)" by (simp add: mobile_def)
      note accepted = this
      show ?thesis
        unfolding reports_def Some
        by (subst canBuildHere.simps)
          (simp only: Let_def refinery_site_def option.case False simp_thms if_True if_False,
           intro allI rest [unfolded Some] runs hasPath_reports [THEN reports_run]; simp add: accepted)
    qed
  qed
qed

lemma canBuildHere_reports [calls]:
  "reports (mobile g builder) False (canBuildHere g builder position type ex)"
  by (rule site_step, rule site_step) blast

lemma canMake_reports [calls]:
  assumes "sound_game g"
  shows "reports False False (canMake g builder type)"
  unfolding canMake_def canMake_builder_def canMake_player_def reports_def Let_def
  by (intro allI walks; simp)

lemma canMake_returns_player: "reports False False (canResearch_tech g u t f)" "reports False False (canUpgrade_upgrade g u t f)"
  unfolding canResearch_tech_def canUpgrade_upgrade_def reports_def Let_def
  by (intro allI walks; simp)+

lemmas order_checks [calls] = canMake_returns_player

lemma first_unit_yields:
  assumes "\<And>u. reports False False (ok u)" and "\<And>u. yields (found u) No_Error Q" and "\<And>e. yields none e Q"
  shows "yields (first_unit us ok found none) e Q"
proof (induction us arbitrary: e)
  case Nil
  then show ?case by (simp add: assms(3))
next
  case (Cons u us)
  show ?case
    unfolding first_unit.simps
    by (intro runs reports_run [OF assms(1)] assms(2) Cons.IH) simp_all
qed

lemma commandable_larva_reports:
  assumes "sound_game g"
  shows "reports True False (commandable_larva g l)"
  unfolding commandable_larva_def reports_def
  by (intro allI walks calls [THEN reports_run] assms; simp)

lemma any_larva_yields:
  assumes "sound_game g" and "\<And>b e'. Q b e'"
  shows "yields (any_unit us (commandable_larva g)) e Q"
  by (rule any_unit_yields [OF commandable_larva_reports [OF assms(1)] assms(2)])

lemma production_checks [calls]:
  assumes "sound_game g"
  shows "reports False False (canTrain g u f)"
    "reports False False (canMorph g u f)"
  unfolding canTrain_def canMorph_def reports_def Let_def
  by (intro allI walks calls calls [THEN reports_run] assms any_larva_yields | simp)+

lemma production_type_checks [calls]:
  assumes "sound_game g"
  shows "reports False False (canTrain_type g u t f2 f)"
    "reports False False (canMorph_type g u t f2 f)"
  unfolding canTrain_type_def canMorph_type_def reports_def Let_def
  by (intro allI walks calls calls [THEN reports_run] assms first_unit_yields | simp)+

lemma site_checks [calls]:
  assumes "sound_game g"
  shows "reports False False (canBuild_type g u t f2 f)"
    "reports (mobile g (Some u)) False (canBuildAddon_type g u t f2 f)"
    "reports False False (canLand_tile g u p f2 f)"
    "reports (mobile g (Some u)) False (canPlaceCOP_tile g u p f2 f)"
  unfolding canBuild_type_def canBuildAddon_type_def canLand_tile_def canPlaceCOP_tile_def reports_def Let_def
  by (intro allI walks calls calls [THEN reports_run] assms | simp)+

lemma build_at_checks [calls]:
  assumes "sound_game g"
  shows "reports (mobile g (Some u)) False (canBuild_at g u t p f3 f2 f)"
  unfolding canBuild_at_def reports_def Let_def
  by (intro allI walks calls calls [THEN reports_run] assms | simp)+

lemma movement_checks [calls]:
  assumes "sound_game g"
  shows "reports False False (canAttackMove g u f)"
    "reports False False (canPatrol g u f)"
    "reports False False (canFollow g u f)"
    "reports False False (canRightClickPosition g u f)"
    "reports False False (canCancelTrainSlot g u f)"
    "reports False False (canUnloadAllPosition g u f)"
  unfolding canAttackMove_def canPatrol_def canFollow_def canRightClickPosition_def canCancelTrainSlot_def canUnloadAllPosition_def reports_def Let_def
  by (intro allI walks calls calls [THEN reports_run] assms | simp)+

lemma drop_checks [calls]:
  assumes "sound_game g"
  shows "reports False False (canUnloadAtPosition g u p f2 f)"
  unfolding canUnloadAtPosition_def reports_def Let_def
  by (intro allI walks calls calls [THEN reports_run] assms | simp)+

lemma unload_checks [calls]:
  assumes "sound_game g"
  shows "reports False False (canUnload g u f)"
    "reports False False (canUnloadAll g u f)"
    "reports False False (canUnloadAllPosition_pos g u p f2 f)"
    "reports False False (canCancelTrainSlot_slot g u i f2 f)"
  unfolding canUnload_def canUnloadAll_def canUnloadAllPosition_pos_def canCancelTrainSlot_slot_def reports_def Let_def
  by (intro allI walks calls calls [THEN reports_run] assms | simp)+

lemma tech_checks [calls]:
  assumes "sound_game g"
  shows "reports False False (canUseTechWithOrWithoutTarget_tech g u t f2 f)"
  unfolding canUseTechWithOrWithoutTarget_tech_def reports_def Let_def
  by (intro allI walks calls calls [THEN reports_run] assms | simp)+

lemma tech_kind_checks [calls]:
  assumes "sound_game g"
  shows "reports False False (canUseTechWithoutTarget g u t f2 f)"
    "reports False False (canUseTechPosition_tech g u t f2 f)"
    "reports False False (canUseTechUnit_tech g u t f2 f)"
  unfolding canUseTechWithoutTarget_def canUseTechPosition_tech_def canUseTechUnit_tech_def reports_def Let_def
  by (intro allI walks calls calls [THEN reports_run] assms | simp)+

lemma tech_order_checks [calls]:
  assumes "sound_game g"
  shows "reports False False (canBurrow g u f)"
    "reports False False (canCloak g u f)"
    "reports False False (canSiege g u f)"
    "reports False False (canUseTechPosition_target g u t p f3 f2 f)"
  unfolding canBurrow_def canCloak_def canSiege_def canUseTechPosition_target_def reports_def Let_def
  by (intro allI walks calls calls [THEN reports_run] assms | simp)+

section \<open>Grouped commands\<close>

lemma yields_grouped:
  "yields (guard_grouped g u f k) e Q =
     (if f then yields (ensure (canCommandGrouped g u False) k) e Q else yields k e Q)"
  by (simp add: guard_grouped_def yields_ensure_if)

lemmas grouped = yields_grouped [THEN iffD2]

lemma grouped_checks [calls]:
  assumes "sound_game g"
  shows "reports False False (canAttackMoveGrouped g u f2 f)"
    "reports False False (canAttackUnitGrouped g u f2 f)"
    "reports False False (canMoveGrouped g u f2 f)"
  unfolding canAttackMoveGrouped_def canAttackUnitGrouped_def canMoveGrouped_def reports_def Let_def
  by (intro allI walks calls calls [THEN reports_run] assms grouped | simp)+

lemma right_click_checks [calls]:
  assumes "sound_game g"
  shows "reports False False (canRightClickUnit g u f)"
    "reports False False (canPatrolGrouped g u f2 f)"
    "reports False False (canRightClickPositionGrouped g u f2 f)"
    "reports False False (canRightClickUnitGrouped g u f2 f)"
  unfolding canRightClickUnit_def canPatrolGrouped_def canRightClickPositionGrouped_def canRightClickUnitGrouped_def reports_def Let_def
  by (intro allI walks calls calls [THEN reports_run] assms grouped | simp)+

section \<open>Targets\<close>

text \<open>
  A hidden target is refused without an error. A check that looks into its target after
  \<open>canTargetUnit\<close> is safe when the target is not null or that test was not skipped.
\<close>

definition hidden :: "game \<Rightarrow> nat option \<Rightarrow> bool" where
  "hidden g t \<longleftrightarrow> (\<exists>x. t = Some x \<and> \<not> isVisible g x \<and> \<not> isFlagEnabled g 0)"

lemma target_yields:
  assumes "\<And>x. t = Some x \<Longrightarrow> Q True No_Error" and "\<And>x. x \<noteq> No_Error \<Longrightarrow> Q False x"
    and "hidden g t \<Longrightarrow> Q False No_Error"
  shows "yields (canTargetUnit_unit g u t False) e Q"
proof (cases t)
  case None
  then show ?thesis
    unfolding canTargetUnit_unit_def canTargetUnit_def
    by (simp only: option.case) (intro runs assms(2); simp)
next
  case (Some x)
  show ?thesis
  proof (cases "hidden g t")
    case True
    show ?thesis
      unfolding canTargetUnit_unit_def canTargetUnit_def Some option.case
      by (intro runs assms(1) [OF Some] assms(2) assms(3) [OF True]; simp)
  next
    case False
    then have seen: "(\<not> isVisible g x \<and> \<not> isFlagEnabled g 0) = False"
      using Some by (auto simp: hidden_def)
    show ?thesis
      unfolding canTargetUnit_unit_def canTargetUnit_def Some option.case seen if_False
      by (intro runs assms(1) [OF Some] assms(2); simp)
  qed
qed

lemma target_rest:
  assumes "yields k No_Error Q" and "\<And>x. x \<noteq> No_Error \<Longrightarrow> Q False x"
    and "f \<Longrightarrow> hidden g t \<Longrightarrow> Q False No_Error"
  shows "yields (ensure_if f (canTargetUnit_unit g u t False) k) No_Error Q"
proof (cases f)
  case True
  show ?thesis
    unfolding ensure_if_def using True
    by (simp add: yields_ensure) (rule target_yields, simp_all add: assms)
qed (simp add: ensure_if_def assms(1))

lemma target_deref:
  assumes "t = None \<Longrightarrow> f" and "\<And>x. t = Some x \<Longrightarrow> yields (k x) No_Error Q"
    and "\<And>x. x \<noteq> No_Error \<Longrightarrow> Q False x" and "f \<Longrightarrow> hidden g t \<Longrightarrow> Q False No_Error"
  shows "yields (ensure_if f (canTargetUnit_unit g u t False) (deref t k)) No_Error Q"
proof (cases t)
  case None
  with assms(1) have f by simp
  then show ?thesis
    by (simp add: yields_ensure_if yields_ensure) (rule target_yields, simp_all add: None assms hidden_def)
next
  case (Some x)
  show ?thesis
    by (rule target_rest) (use assms(2-) Some in \<open>auto intro: yields_deref\<close>)
qed

lemmas targets = target_deref target_rest

lemma target_checks [calls]:
  assumes "sound_game g" and "t = None \<Longrightarrow> f3"
  shows "reports (f3 \<and> hidden g t) False (canFollow_unit g u t f3 f2 f)"
    "reports (f3 \<and> hidden g t) False (canSetRallyUnit_unit g u t f3 f2 f)"
    "reports (f3 \<and> hidden g t) False (canGather_unit g u t f3 f2 f)"
    "reports (f3 \<and> hidden g t) False (canRepair_unit g u t f3 f2 f)"
    "reports (f3 \<and> hidden g t) False (canLoad_unit g u t f3 f2 f)"
    "reports (f3 \<and> hidden g t) False (canUnload_unit g u t f3 f4 f2 f)"
  unfolding canFollow_unit_def canSetRallyUnit_unit_def canGather_unit_def canRepair_unit_def canLoad_unit_def canUnload_unit_def reports_def Let_def
  by (intro allI targets walks calls calls [THEN reports_run] assms | simp add: assms(2))+

text \<open>
  A reaver ordered to attack a flying unit is let through with \<open>Unable_To_Hit\<close> left as the last error.
\<close>

definition misfire :: "game \<Rightarrow> nat \<Rightarrow> nat option \<Rightarrow> bool" where
  "misfire g u t \<longleftrightarrow> (\<exists>x. t = Some x \<and> isFlying g x)
     \<and> (getType g u = Protoss_Reaver \<or> getType g u = Hero_Warbringer)"

lemma attack_check [calls]:
  assumes "sound_game g" and "t = None \<Longrightarrow> f3"
  shows "reports (f3 \<and> hidden g t) (misfire g u t) (canAttackUnit_unit g u t f3 f2 f)"
proof (cases "misfire g u t")
  case True
  have "reports (f3 \<and> hidden g t) True (canAttackUnit_unit g u t f3 f2 f)"
    unfolding canAttackUnit_unit_def reports_def Let_def
    by (intro allI targets walks calls calls [THEN reports_run] assms | simp add: assms(2))+
  with True show ?thesis by simp
next
  case False
  have step: "yields (if getType g u = Protoss_Reaver \<or> getType g u = Hero_Warbringer
      then if isFlying g x then after_error Unable_To_Hit k else k
      else setLastError Unable_To_Hit) No_Error Q"
    if "t = Some x" and "yields k No_Error Q" and "Q False Unable_To_Hit" for x k Q
    using False that by (auto simp: misfire_def yields_error)
  show ?thesis
    unfolding canAttackUnit_unit_def reports_def Let_def
    by (intro allI targets step walks calls calls [THEN reports_run] assms | simp add: assms(2))+
qed

lemma grouped_attack_check [calls]:
  assumes "sound_game g" and "t = None \<Longrightarrow> f3"
  shows "reports (f3 \<and> hidden g t) False (canAttackUnitGrouped_unit g u t f3 f2 f1 f)"
  unfolding canAttackUnitGrouped_unit_def reports_def Let_def
  by (intro allI targets walks grouped calls calls [THEN reports_run] assms | simp add: assms(2))+

lemma right_click_target_checks [calls]:
  assumes "sound_game g" and "t = None \<Longrightarrow> f3"
  shows "reports (f3 \<and> hidden g t) False (canRightClickUnit_unit g u t f3 f2 f)"
    "reports (f3 \<and> hidden g t) False (canRightClickUnitGrouped_unit g u t f3 f2 f1 f)"
  unfolding canRightClickUnit_unit_def canRightClickUnitGrouped_unit_def reports_def Let_def
  by (intro allI targets walks grouped calls calls [THEN reports_run] assms | simp add: assms(2))+

lemma tech_kind_rest:
  assumes "sound_game g" and "yields k No_Error Q" and "\<And>x. x \<noteq> No_Error \<Longrightarrow> Q False x"
  shows "yields (tech_target_kind g u tech x k) No_Error Q"
  unfolding tech_target_kind_def Let_def by (intro walks assms; simp)

lemma tech_state_rest:
  assumes "yields k No_Error Q" and "\<And>x. x \<noteq> No_Error \<Longrightarrow> Q False x"
  shows "yields (tech_target_state g u tech x k) No_Error Q"
  unfolding tech_target_state_def Let_def by (intro runs hasPath_reports [THEN reports_run] assms; simp)

lemma tech_protection_rest:
  assumes "yields k No_Error Q" and "\<And>x. x \<noteq> No_Error \<Longrightarrow> Q False x"
  shows "yields (tech_target_protection g tech x k) No_Error Q"
  unfolding tech_target_protection_def Let_def by (intro runs assms; simp)

lemma tech_target_check [calls]:
  assumes "sound_game g" and "t = None \<Longrightarrow> f3"
  shows "reports (f3 \<and> hidden g t) False (canUseTechUnit_target g u tech t f3 f4 f2 f)"
  unfolding canUseTechUnit_target_def reports_def
  by (intro allI targets tech_kind_rest tech_state_rest tech_protection_rest walks
      calls calls [THEN reports_run] assms | simp add: assms(2))+

section \<open>The overloads that choose between two checks\<close>

lemma choosing_checks [calls]:
  assumes "sound_game g"
  shows "reports False False (canAttack g u f)"
    "reports False False (canSetRallyPoint g u f)"
    "reports False False (canRightClick g u f)"
  unfolding canAttack_def canSetRallyPoint_def canRightClick_def reports_def Let_def
  by (intro allI walks calls calls [THEN reports_run] assms | simp)+

lemma choosing_grouped_checks [calls]:
  assumes "sound_game g"
  shows "reports False False (canAttackGrouped g u f2 f)"
    "reports False False (canRightClickGrouped g u f2 f)"
  unfolding canAttackGrouped_def canRightClickGrouped_def reports_def Let_def
  by (intro allI walks calls calls [THEN reports_run] assms grouped | simp)+

lemma choosing_position_checks [calls]:
  assumes "sound_game g"
  shows "reports False False (canAttack_pos g u p f3 f2 f)"
    "reports False False (canSetRallyPoint_pos g u p f3 f2 f)"
    "reports False False (canRightClick_pos g u p f3 f2 f)"
    "reports False False (canAttackGrouped_pos g u p f4 f3 f2 f)"
    "reports False False (canRightClickGrouped_pos g u p f4 f3 f2 f)"
    "reports False False (canUseTech_tech_pos g u t p f4 f3 f2 f)"
  unfolding canAttack_pos_def canSetRallyPoint_pos_def canRightClick_pos_def canAttackGrouped_pos_def canRightClickGrouped_pos_def canUseTech_tech_pos_def reports_def Let_def
  by (intro allI walks calls calls [THEN reports_run] assms grouped | simp)+

section \<open>The dispatchers\<close>

lemma yields_branch:
  "(b \<Longrightarrow> yields c e Q) \<Longrightarrow> yields d e Q \<Longrightarrow> yields (if b then c else d) e Q"
  by simp

text \<open>The command types a group of units is never given.\<close>

definition alone_only :: "int \<Rightarrow> bool" where
  "alone_only ct \<longleftrightarrow> ct \<in> {Build, Build_Addon, Research, Upgrade, Set_Rally_Position, Set_Rally_Unit,
     Lift, Land, Unload, Unload_All, Cancel_Construction, Cancel_Addon, Cancel_Train, Cancel_Train_Slot,
     Cancel_Research, Cancel_Upgrade, Place_COP}"

lemma alone_only_members:
  "alone_only Build" "alone_only Build_Addon" "alone_only Research" "alone_only Upgrade"
  "alone_only Set_Rally_Position" "alone_only Set_Rally_Unit" "alone_only Lift" "alone_only Land"
  "alone_only Unload" "alone_only Unload_All" "alone_only Cancel_Construction" "alone_only Cancel_Addon"
  "alone_only Cancel_Train" "alone_only Cancel_Train_Slot" "alone_only Cancel_Research"
  "alone_only Cancel_Upgrade" "alone_only Place_COP"
  by (simp_all add: alone_only_def)

lemma command_type_reports [calls]:
  assumes "sound_game g"
  shows "reports False False (canIssueCommandType g u ct f)"
  unfolding canIssueCommandType_def reports_def
  by (intro allI walks calls [THEN reports_run] assms) simp_all

lemma command_type_grouped_reports [calls]:
  assumes "sound_game g"
  shows "reports (alone_only ct) False (canIssueCommandTypeGrouped g u ct f2 f)"
  unfolding canIssueCommandTypeGrouped_def reports_def
  by (intro allI yields_branch grouped walks calls [THEN reports_run] assms)
    (simp_all add: alone_only_members)

lemma command_reports:
  assumes "sound_game g" and "command_target c = None \<Longrightarrow> f3"
  shows "reports (f3 \<and> hidden g (command_target c)
           \<or> mobile g (Some u) \<and> uc_type c \<in> {Build, Build_Addon, Place_COP})
         (misfire g u (command_target c) \<and> uc_type c = Attack_Unit)
         (canIssueCommand g u c f6 f5 f4 f3 f2 f)"
  unfolding canIssueCommand_def reports_def Let_def
  by (intro allI yields_branch walks calls [THEN reports_run] assms) (simp_all add: assms(2))

lemma command_grouped_reports:
  assumes "sound_game g" and "command_target c = None \<Longrightarrow> f3"
  shows "reports (f3 \<and> hidden g (command_target c) \<or> alone_only (uc_type c)) False
         (canIssueCommandGrouped g u c f6 f5 f3 f2 f1 f)"
  unfolding canIssueCommandGrouped_def reports_def Let_def
  by (intro allI yields_branch grouped walks calls [THEN reports_run] assms)
    (simp_all add: assms(2) alone_only_members)

end
