(* ===== verification/Demo_Game.thy ===== *)
theory Demo_Game
  imports Issue_Checks
begin

text \<open>A concrete game, with commands, in which the properties of the permission checks are exercised.\<close>

section \<open>State and units\<close>

text \<open>
  The state the witnesses are evaluated in: the player (0) owns a reaver (0), a hatchery (2) with one
  larva (3) and an SCV (4); a mutalisk (1) and every other unit belong to the enemy or do not matter.
\<close>

definition demo_base :: unit_data where
  "demo_base = \<lparr>ud_id = - 1, ud_player = 0, ud_type = Terran_SCV, ud_positionX = 512, ud_positionY = 512,
     ud_hitPoints = 60, ud_energy = 0, ud_scarabCount = 0, ud_interceptorCount = 0,
     ud_spiderMineCount = 0, ud_lockdownTimer = 0, ud_maelstromTimer = 0, ud_stasisTimer = 0,
     ud_stimTimer = 0, ud_buildType = UnitType_None, ud_trainingQueueCount = 0,
     ud_trainingQueue = replicate 5 UnitType_None, ud_tech = TechType_None,
     ud_upgrade = UpgradeType_None, ud_remainingBuildTime = 0, ud_remainingTrainTime = 0,
     ud_remainingResearchTime = 0, ud_remainingUpgradeTime = 0, ud_buildUnit = - 1, ud_target = - 1,
     ud_targetPositionX = 512, ud_targetPositionY = 512, ud_order = 3, ud_orderTarget = - 1,
     ud_orderTargetPositionX = 512, ud_orderTargetPositionY = 512, ud_secondaryOrder = 23,
     ud_rallyPositionX = 0, ud_rallyPositionY = 0, ud_rallyUnit = - 1, ud_addon = - 1, ud_nydusExit = - 1,
     ud_powerUp = - 1, ud_transport = - 1, ud_exists = True, ud_isBurrowed = False,
     ud_carryResourceType = 0, ud_isCompleted = True, ud_isConstructing = False, ud_isGathering = False,
     ud_isHallucination = False, ud_isIdle = True, ud_isInterruptible = True, ud_isInvincible = False,
     ud_isLifted = False, ud_isMorphing = False, ud_isMoving = False, ud_isTraining = False, ud_isPowered = True,
     ud_isVisible = replicate 9 True, ud_buttonset = 0, ud_initialType = Terran_SCV,
     ud_initialPosition = (512, 512), ud_connectedUnits = [], ud_loadedUnits = []\<rparr>"

definition demo_unit :: "nat \<Rightarrow> unit_data" where
  "demo_unit u =
     ((if u = 0 then demo_base\<lparr>ud_type := Protoss_Reaver, ud_scarabCount := 5\<rparr>
      else if u = 1 then demo_base\<lparr>ud_type := Zerg_Mutalisk, ud_player := 1\<rparr>
      else if u = 2 then demo_base\<lparr>ud_type := Zerg_Hatchery, ud_connectedUnits := [3]\<rparr>
      else if u = 3 then demo_base\<lparr>ud_type := Zerg_Larva\<rparr>
      else if u = 5 then demo_base\<lparr>ud_type := Resource_Mineral_Field, ud_player := 2,
        ud_initialType := Resource_Mineral_Field, ud_initialPosition := (640, 496)\<rparr>
      else demo_base)\<lparr>ud_id := int u\<rparr>)"

definition demo_player :: "nat \<Rightarrow> player_data" where
  "demo_player p = \<lparr>pd_id = int p, pd_index = (if p = 2 then 11 else int p), pd_raceType = 0, pd_isParticipating = True,
     pd_minerals = 1000, pd_gas = 1000, pd_supplyTotal = [200, 200, 200], pd_supplyUsed = [0, 0, 0],
     pd_allUnitCount = (\<lambda>t. 1), pd_completedUnitCount = (\<lambda>t. 1), pd_upgradeLevel = (\<lambda>t. 0),
     pd_hasResearched = (\<lambda>t. True), pd_isResearching = (\<lambda>t. False), pd_isUpgrading = (\<lambda>t. False),
     pd_maxUpgradeLevel = (\<lambda>t. 3), pd_isResearchAvailable = (\<lambda>t. True),
     pd_isUnitAvailable = (\<lambda>t. True)\<rparr>"

definition demo_game :: game where
  "demo_game = \<lparr>g_unit = demo_unit, g_unitVector = [0..<6], g_player = demo_player,
     g_playerVector = [0, 1, 2], g_self = Some 0, g_playerAlliances = (\<lambda>a b. if a = b then 1 else 0),
     g_flags = [False, False], g_calledMatchEnd = False, g_mapSize = (64, 64),
     g_buildable = (\<lambda>x y. True), g_explored = (\<lambda>x y. True), g_visible = (\<lambda>x y. True),
     g_creep = (\<lambda>x y. False), g_walkable = (\<lambda>x y. True), g_regionGroup = (\<lambda>p. Some 1),
     g_finderX = [], g_finderY = [], g_pylons = [], g_geysers = [], g_staticMinerals = [5],
     g_staticGeysers = []\<rparr>"

lemma demo_larva: "\<not> producesLarva (getType demo_game 3)"
  by code_simp

lemma demo_larvae: "getLarva demo_game u = (if u = 2 then [3] else [])"
proof -
  have "ud_connectedUnits (g_unit demo_game u) = (if u = 2 then [3] else [])"
    by (simp add: demo_game_def demo_unit_def demo_base_def)
  moreover have "producesLarva (getType demo_game 2)" by code_simp
  ultimately show ?thesis by (cases "u = 2") (simp_all add: getLarva_def)
qed

lemma demo_owner: "getPlayer demo_game u \<noteq> None"
  by (simp add: demo_game_def getPlayer_def getPlayerById_def demo_unit_def demo_base_def)

definition demo_live :: "nat \<Rightarrow> live_unit" where
  "demo_live u = \<lparr>u_index = u, u_uniquenessIdentifier = 1, u_positionX = 512, u_positionY = 512,
     lu_type = ud_type (demo_unit u), lu_position = (512, 512), lu_tile = (16, 16),
     lu_isSieged = False, lu_isCloaked = False, lu_isBurrowed = False\<rparr>"

definition demo_attack :: unit_command where
  "demo_attack = uc_attack_unit (Some (demo_live 0)) (Some (demo_live 1)) False"

definition demo_train :: unit_command where
  "demo_train = uc_train (Some (demo_live 2)) Zerg_Hydralisk"

definition demo_depot :: unit_command where
  "demo_depot = uc_build (Some (64, 64)) (Some (demo_live 4)) 16 16 Terran_Command_Center"

definition demo_stop :: unit_command where
  "demo_stop = uc_stop None False"

section \<open>Runs\<close>

lemma demo_attack_type: "canIssueCommandType demo_game 0 Attack_Unit True No_Error = Some (True, No_Error)"
  by code_simp

lemma demo_attack_runs:
  "canIssueCommand demo_game 0 demo_attack True True True True True True No_Error = Some (True, Unable_To_Hit)"
  by code_simp

lemma demo_train_runs:
  "canIssueCommand demo_game 2 demo_train True True True True True True No_Error = Some (True, No_Error)"
  by code_simp

lemma demo_depot_runs:
  "canIssueCommand demo_game 4 demo_depot True True True True True True No_Error = Some (False, No_Error)"
  by code_simp

lemma demo_stop_runs:
  "canIssueCommandGrouped demo_game 4 demo_stop True True True True True True No_Error = Some (True, No_Error)"
  by code_simp

end
