(* ===== verification/Check_Properties.thy ===== *)
theory Check_Properties
  imports Check_Contracts Demo_Game
begin

text \<open>
  What the permission checks promise: they answer, their answer and the last error agree, a check that
  was passed can be skipped, and only units of the AI's own are commanded.
\<close>

section \<open>Consequences of the contracts\<close>

lemma reportsD:
  assumes "reports X Y c"
  shows "\<exists>b x. c e = Some (b, x) \<and> (b \<longrightarrow> x = No_Error \<or> Y \<and> x = Unable_To_Hit) \<and> (\<not> b \<longrightarrow> x \<noteq> No_Error \<or> X)"
proof -
  obtain b x where "c e = Some (b, x)"
    and "if b then x = No_Error \<or> Y \<and> x = Unable_To_Hit else x \<noteq> No_Error \<or> X"
    using assms yieldsD unfolding reports_def by blast
  then show ?thesis by (auto split: if_splits)
qed

lemma guard_passed:
  assumes "guard_command g u True k e = Some (True, x)"
  shows "\<exists>y. canCommand g u e = Some (True, y) \<and> k y = Some (True, x)"
  using assms
  by (auto simp: guard_command_def ensure_def ask_def give_def split: option.splits if_splits)

lemma ensure_if_passed:
  assumes "ensure_if f c k e = Some (True, x)"
  shows "\<exists>y. (f \<longrightarrow> c e = Some (True, y)) \<and> (\<not> f \<longrightarrow> y = e) \<and> k y = Some (True, x)"
  using assms by (auto simp: ensure_if_def ensure_def ask_def give_def split: option.splits if_splits)

lemma guard_skipped: "guard_command g u False k e = k No_Error"
  by (simp add: guard_command_def after_error_def ask_def setLastError_def)

lemma guard_checked:
  "canCommand g u e = Some (True, No_Error) \<Longrightarrow> guard_command g u True k e = k No_Error"
  by (simp add: guard_command_def ensure_def ask_def)

lemma canCommand_no_memory: "canCommand g u e = canCommand g u e'"
  by (subst (1 2) canCommand.simps) (simp add: after_error_def ask_def setLastError_def)

lemma canCommand_passed:
  assumes "canCommand g u e = Some (True, x)"
  shows "getPlayer g u = g_self g \<and> unit_exists g u
    \<and> (\<not> producesLarva (getType g u) \<longrightarrow>
        \<not> isLockedDown g u \<and> \<not> isMaelstrommed g u \<and> \<not> isStasised g u \<and> isPowered g u \<and> \<not> isLoaded g u)"
proof (cases "getPlayer g u = g_self g \<and> unit_exists g u")
  case True
  then show ?thesis
    using assms
    by (subst (asm) canCommand.simps)
      (auto simp: after_error_def ask_def setLastError_def split: if_splits)
next
  case False
  then show ?thesis
    using assms
    by (subst (asm) canCommand.simps)
      (auto simp: after_error_def ask_def setLastError_def split: if_splits)
qed

lemma type_check_no_memory: "canIssueCommandType g u ct False e = canIssueCommandType g u ct False e'"
  by (simp only: canIssueCommandType_def guard_skipped)

lemma type_check_passed:
  assumes "sound_game g" and "canIssueCommandType g u ct f e = Some (True, x)"
  shows "x = No_Error"
  using reportsD [OF command_type_reports [OF assms(1)], of u ct f e] assms(2) by auto

lemma canCommand_accepts_clean:
  assumes "sound_game g" and "canCommand g u e = Some (True, x)"
  shows "x = No_Error"
  using reportsD [OF canCommand_reports [OF assms(1)], of u e] assms(2) by auto

lemma skipped_checks:
  assumes "sound_game g" and "canIssueCommandType g u (uc_type c) True e0 = Some (True, x)"
  shows "canIssueCommand g u c f6 f5 f4 f3 True True e = canIssueCommand g u c f6 f5 f4 f3 False False e'"
proof -
  obtain y where y: "canCommand g u e0 = Some (True, y)"
    using assms(2) unfolding canIssueCommandType_def by (auto dest: guard_passed)
  then have cmd: "canCommand g u e = Some (True, No_Error)"
    using canCommand_accepts_clean [OF assms(1)] canCommand_no_memory [of g u e e0] by metis
  have "canIssueCommandType g u (uc_type c) False e'' = Some (True, x)" for e''
    using assms(2) y canCommand_accepts_clean [OF assms(1) y]
    by (simp only: canIssueCommandType_def guard_skipped guard_checked)
  then have ty: "canIssueCommandType g u (uc_type c) False No_Error = Some (True, No_Error)"
    using type_check_passed [OF assms(1)] by metis
  show ?thesis
    unfolding canIssueCommand_def Let_def guard_checked [OF cmd] guard_skipped ensure_if_def
    by (simp add: ensure_def ask_def [of "canIssueCommandType g u (uc_type c) False"] ty)
qed

lemma canCommand_over_larvae:
  assumes "\<forall>l\<in>set (getLarva g u). \<not> producesLarva (getType g l)"
  shows "reports False False (canCommand g u)"
  by (rule canCommand_over) (use assms in blast)

lemma reaver_facts:
  "airWeapon Protoss_Reaver = WeaponType_None" "airWeapon Hero_Warbringer = WeaponType_None"
  "type_canMove Protoss_Reaver" "type_canMove Hero_Warbringer"
  by code_simp+

lemma demo_sound: "sound_game demo_game"
  by (simp add: sound_game_def demo_larvae demo_larva demo_owner) (simp add: demo_game_def)

section \<open>Properties\<close>

text \<open>
  C12. On a well-formed game \<open>canIssueCommand\<close> with its default flags always answers: no null pointer is
  dereferenced and the recursion over larvae ends, for every unit and every command, null target or not.
\<close>

theorem commands_always_answered:
  assumes "sound_game g"
  shows "\<exists>answer x. canIssueCommand g u c f6 f5 f4 True f2 f e = Some (answer, x)"
  using reportsD [OF command_reports [OF assms], of c True u f6 f5 f4 f2 f e] by auto

theorem commands_always_answered_witness:
  "\<exists>answer x. canIssueCommand demo_game 0 demo_attack True True True True True True No_Error = Some (answer, x)"
  by (rule commands_always_answered [OF demo_sound])

text \<open>
  When a command is accepted no error is left behind, except that a reaver told to attack a flying
  unit is accepted with \<open>Unable_To_Hit\<close>.
\<close>

theorem accepted_leaves_no_error:
  assumes "sound_game g" and "canIssueCommand g u c f6 f5 f4 True f2 f e = Some (True, x)"
    and "\<not> misfire g u (command_target c) \<or> uc_type c \<noteq> Attack_Unit"
  shows "x = No_Error"
  using reportsD [OF command_reports [OF assms(1)], of c True u f6 f5 f4 f2 f e] assms(2,3) by auto

theorem accepted_leaves_no_error_witness:
  "\<exists>x. canIssueCommand demo_game 2 demo_train True True True True True True No_Error = Some (True, x) \<and> x = No_Error"
  by (intro exI conjI, rule demo_train_runs, rule accepted_leaves_no_error [OF demo_sound demo_train_runs])
    (simp add: demo_train_def uc_train_def mk_command_def)

text \<open>
  When a command is refused the last error says why, unless the target is hidden from the player, or
  a unit that is not a building was to build.
\<close>

theorem refusal_names_error:
  assumes "sound_game g" and "canIssueCommand g u c f6 f5 f4 True f2 f e = Some (False, x)"
    and "\<not> hidden g (command_target c)"
    and "isBuilding (getType g u) \<or> uc_type c \<notin> {Build, Build_Addon, Place_COP}"
  shows "x \<noteq> No_Error"
  using reportsD [OF command_reports [OF assms(1)], of c True u f6 f5 f4 f2 f e] assms(2-)
  by (auto simp: mobile_def)

theorem refusal_names_error_witness:
  "\<exists>x. canIssueCommand demo_game 4 demo_train True True True True True True No_Error = Some (False, x) \<and> x \<noteq> No_Error"
proof -
  have run: "canIssueCommand demo_game 4 demo_train True True True True True True No_Error
    = Some (False, Incompatible_UnitType)"
    by code_simp
  show ?thesis
    by (intro exI conjI, rule run, rule refusal_names_error [OF demo_sound run])
      (simp_all add: demo_train_def uc_train_def mk_command_def hidden_def command_target_def)
qed

text \<open>
  The check of a command's type answers \<open>True\<close> exactly when it leaves no error.
\<close>

theorem type_check_reports_exactly:
  assumes "sound_game g"
  shows "\<exists>answer x. canIssueCommandType g u ct f e = Some (answer, x) \<and> (answer \<longleftrightarrow> x = No_Error)"
  using reportsD [OF command_type_reports [OF assms], of u ct f e] by auto

theorem type_check_reports_exactly_witness:
  "\<exists>answer x. canIssueCommandType demo_game 0 Attack_Unit True No_Error = Some (answer, x) \<and> (answer \<longleftrightarrow> x = No_Error)"
  by (rule type_check_reports_exactly [OF demo_sound])

text \<open>
  C20. A unit that passed the check of a command's type may be checked with the two flags off: the answer
  and the error left behind are those of the full check.
\<close>

theorem skipped_checks_agree:
  assumes "sound_game g" and "canIssueCommandType g u (uc_type c) True e0 = Some (True, x)"
  shows "canIssueCommand g u c f6 f5 f4 f3 True True e = canIssueCommand g u c f6 f5 f4 f3 False False e'"
  by (rule skipped_checks [OF assms])

theorem skipped_checks_agree_witness:
  "canIssueCommand demo_game 0 demo_attack True True True True True True Unit_Busy
   = canIssueCommand demo_game 0 demo_attack True True True True False False No_Error"
  by (rule skipped_checks_agree [OF demo_sound])
    (use demo_attack_type in \<open>simp add: demo_attack_def uc_attack_unit_def mk_command_def\<close>)

text \<open>
  C19. Only a unit the player owns and that exists is ever allowed a command, alone or in a group, and
  (unless it makes larvae) one that is not locked down, maelstrommed, in stasis, unpowered or loaded.
\<close>

theorem only_own_units_commanded:
  assumes "canIssueCommand g u c f6 f5 f4 f3 f2 True e = Some (True, x)
         \<or> canIssueCommandGrouped g u c f6 f5 f3 f2 f1 True e = Some (True, x)
         \<or> canIssueCommandType g u ct True e = Some (True, x)"
  shows "getPlayer g u = g_self g \<and> unit_exists g u
    \<and> (\<not> producesLarva (getType g u) \<longrightarrow>
        \<not> isLockedDown g u \<and> \<not> isMaelstrommed g u \<and> \<not> isStasised g u \<and> isPowered g u \<and> \<not> isLoaded g u)"
  using assms canCommand_passed
  unfolding canIssueCommand_def canIssueCommandGrouped_def canIssueCommandType_def Let_def
  by (blast dest: guard_passed)

theorem only_own_units_commanded_witness:
  "getPlayer demo_game 0 = g_self demo_game \<and> unit_exists demo_game 0
    \<and> \<not> isLockedDown demo_game 0 \<and> \<not> isMaelstrommed demo_game 0 \<and> \<not> isStasised demo_game 0
    \<and> isPowered demo_game 0 \<and> \<not> isLoaded demo_game 0"
proof -
  have "\<not> producesLarva (getType demo_game 0)" by code_simp
  then show ?thesis
    using only_own_units_commanded [OF disjI2 [OF disjI2 [OF demo_attack_type]]] by simp
qed

text \<open>
  A command given to a group goes to no building and no critter, and is of a kind a group can be
  given.
\<close>

theorem groups_of_mobile_units:
  assumes "canIssueCommandGrouped g u c f6 f5 f3 True True f e = Some (True, x)"
  shows "\<not> isBuilding (getType g u) \<and> \<not> isCritter (getType g u) \<and> \<not> alone_only (uc_type c)"
proof -
  obtain y z where "guard_grouped g u True (ensure_if True (canIssueCommandTypeGrouped g u (uc_type c) False False) y) z
      = Some (True, x)"
    using assms unfolding canIssueCommandGrouped_def Let_def
    by (cases f) (auto dest: guard_passed simp: guard_skipped)
  then obtain v w where unit: "canCommandGrouped g u False z = Some (True, v)"
    and kind: "canIssueCommandTypeGrouped g u (uc_type c) False False v = Some (True, w)"
    unfolding guard_grouped_def by (auto dest!: ensure_if_passed)
  from kind have "\<not> alone_only (uc_type c)"
    unfolding canIssueCommandTypeGrouped_def guard_skipped guard_grouped_def
    by (auto simp: ensure_if_def give_def alone_only_def)
  moreover from unit have "\<not> isBuilding (getType g u) \<and> \<not> isCritter (getType g u)"
    unfolding canCommandGrouped_def guard_skipped by (auto simp: setLastError_def split: if_splits)
  ultimately show ?thesis by simp
qed

theorem groups_of_mobile_units_witness:
  "\<not> isBuilding (getType demo_game 4) \<and> \<not> isCritter (getType demo_game 4) \<and> \<not> alone_only (uc_type demo_stop)"
  by (rule groups_of_mobile_units [OF demo_stop_runs])

text \<open>
  C40. \<open>canCommand\<close> returns for every unit none of whose larvae is itself a source of larvae.
\<close>

theorem canCommand_returns:
  assumes "\<forall>l\<in>set (getLarva g u). \<not> producesLarva (getType g l)"
  shows "\<exists>answer x. canCommand g u e = Some (answer, x) \<and> (answer \<longleftrightarrow> x = No_Error)"
  using reportsD [OF canCommand_over_larvae [of g u], of e] assms by auto

theorem canCommand_returns_witness:
  "\<exists>answer x. canCommand demo_game 2 No_Error = Some (answer, x) \<and> (answer \<longleftrightarrow> x = No_Error)"
  by (rule canCommand_returns) (simp add: demo_larvae demo_larva)

text \<open>
  A reaver with scarabs that may attack is told yes for a flying target it cannot hit, with
  \<open>Unable_To_Hit\<close> as the last error.
\<close>

theorem reaver_accepted_with_error:
  assumes "sound_game g" and "canIssueCommandType g u Attack_Unit True e0 = Some (True, x)"
    and "canTargetUnit g (Some t) No_Error = Some (True, No_Error)"
    and "uc_type c = Attack_Unit" and "command_target c = Some t" and "t \<noteq> u"
    and "\<not> isInvincible g t" and "isFlying g t" and "getType g u \<in> {Protoss_Reaver, Hero_Warbringer}"
  shows "canIssueCommand g u c f6 f5 f4 True True True e = Some (True, Unable_To_Hit)"
proof -
  let ?c = "c"
  have ty: "getType g u = Protoss_Reaver \<or> getType g u = Hero_Warbringer" using assms(9) by simp
  then have facts: "airWeapon (getType g u) = WeaponType_None" "type_canMove (getType g u)"
    "getType g u \<noteq> Zerg_Lurker" "getType g u \<noteq> Protoss_Carrier" "getType g u \<noteq> Hero_Gantrithor"
    using reaver_facts by auto
  have "canIssueCommand g u c f6 f5 f4 True True True e = canIssueCommand g u c f6 f5 f4 True False False e"
    using assms(1,2,4) by (intro skipped_checks) simp_all
  also have "\<dots> = canAttackUnit_unit g u (Some t) True False False No_Error"
    unfolding canIssueCommand_def Let_def guard_skipped using assms(4,5) by (simp add: ensure_if_def)
  also have "\<dots> = Some (True, Unable_To_Hit)"
    unfolding canAttackUnit_unit_def canTargetUnit_unit_def guard_skipped
    using assms(3,6-8) ty facts
    by (simp add: ensure_if_def ensure_def ask_def guard_skipped deref_def give_def band_def Let_def
        after_error_def setLastError_def)
  finally show ?thesis .
qed

theorem reaver_accepted_with_error_witness:
  "canIssueCommand demo_game 0 demo_attack True True True True True True No_Error = Some (True, Unable_To_Hit)"
  by (rule reaver_accepted_with_error [OF demo_sound demo_attack_type, of 1])
    (code_simp | simp add: demo_attack_def uc_attack_unit_def mk_command_def command_target_def demo_live_def)+

text \<open>
  A site that the map allows but that is taken is refused without an error to a builder that can
  walk there: the path search has cleared the \<open>Unbuildable_Location\<close> set at the start.
\<close>

theorem taken_site_refused_silently:
  assumes "\<not> isBuilding (getType g b)" and "\<not> isAddon type" and "\<not> isRefinery type"
    and "validTile g site" and "rb = (fst site + tileWidth type, snd site + tileHeight type)"
    and "validPosition g (fst rb * 32 - 1, snd rb * 32 - 1)"
    and "all_tiles site rb (\<lambda>x y. isBuildable g x y \<and> (ex \<longrightarrow> isExplored g x y))"
    and "hasPath g b (fst site * 32 + cdiv (tileWidth type * 32) 2, snd site * 32 + cdiv (tileHeight type * 32) 2)
           Unbuildable_Location = Some (True, No_Error)"
    and "\<not> site_free g (Some b) site rb type"
  shows "canBuildHere g (Some b) site type ex e = Some (False, No_Error)"
  using assms
  by (subst canBuildHere.simps)
    (simp add: Let_def after_error_def ask_def ensure_def setLastError_def give_def)

theorem taken_site_refused_silently_witness:
  "canBuildHere demo_game (Some 4) (16, 16) Terran_Command_Center True No_Error = Some (False, No_Error)"
  by (rule taken_site_refused_silently [OF _ _ _ _ refl]) code_simp+

section \<open>The unit finder\<close>

text \<open>
  When the finders hold both edges of every live unit in order, a search of a rectangle returns, each
  once, exactly the live existing units that meet it and satisfy the predicate; a rectangle at least
  as wide as the widest unit reaches one pixel further to the right.
\<close>

theorem finder_exact:
  assumes "finders_ok g live" and "left \<le> right" and "upper \<le> bottom"
  shows "distinct (getUnitsInRectangle g left upper right bottom pred)
    \<and> set (getUnitsInRectangle g left upper right bottom pred) =
        {u \<in> live. unit_exists g u \<and> pred u \<and> left \<le> getRight g u
           \<and> getLeft g u \<le> (if right - left + 1 < 256 then right else right + 1)
           \<and> upper \<le> getBottom g u \<and> getTop g u \<le> bottom}"
  using finder_distinct [OF assms(1)] finder_members [OF assms]
  by (auto simp: getUnitsInRectangle_def meets_def maxUnitWidth_value)

definition demo_field :: game where
  "demo_field = demo_game\<lparr>
     g_finderX := [(2, getLeft demo_game 1), (2, getRight demo_game 1)],
     g_finderY := [(2, getTop demo_game 1), (2, getBottom demo_game 1)]\<rparr>"

lemma demo_field_accessors: "g_unit demo_field = g_unit demo_game"
  by (simp add: demo_field_def)

lemma demo_field_finders: "finders_ok demo_field {1}"
proof -
  have "getLeft demo_game 1 \<le> getRight demo_game 1 \<and> getTop demo_game 1 \<le> getBottom demo_game 1"
    "getType demo_game 1 \<in> set allUnitTypes"
    by code_simp+
  then show ?thesis
    by (simp add: finders_ok_def edges_def getLeft_def getRight_def getTop_def getBottom_def
        getPosition_def getType_def demo_field_accessors) (auto simp: demo_field_def getLeft_def
        getRight_def getTop_def getBottom_def getPosition_def getType_def)
qed

theorem finder_exact_witness:
  "set (getUnitsInRectangle demo_field 0 0 600 600 (\<lambda>u. True)) =
     {u \<in> {1}. unit_exists demo_field u \<and> True \<and> 0 \<le> getRight demo_field u
        \<and> getLeft demo_field u \<le> (if 600 - 0 + 1 < (256::int) then 600 else 600 + 1)
        \<and> 0 \<le> getBottom demo_field u \<and> getTop demo_field u \<le> 600}"
  by (rule conjunct2 [OF finder_exact [OF demo_field_finders]]) simp_all

end
