(* ===== verification/Issue_Properties.thy ===== *)
theory Issue_Properties
  imports Command_Issue Check_Properties
begin

text \<open>
  What becomes of an issued command: the optimizer sends every order it holds exactly once, a command
  that passed the checks is sent or taken over and never both, an accepted train or morph order always
  finds its larva, and what the group form of the call answers.
\<close>

section \<open>The optimizer\<close>

text \<open>
  C18. What a flush sends is a sequence of batches, each a selection of one to twelve units followed by
  one command executed for them. For every type of command the batches carry exactly the orders queued
  under it: each queued unit is selected once with its own argument, target and place (units and
  targets as they are at the flush), so nothing is lost, doubled or sent to another target. No batch
  has a type without a queue, every queue ends up empty, and the level stays.
\<close>

theorem flush_sends_every_order_once:
  "\<exists>batches. fst (opt_flush ms now opt) =
      concat (map (\<lambda>(units, c). [Queued (Select_units (map (map_option bwu) units)), executeCommand ms c]) batches)
    \<and> (\<forall>i \<in> {0..<Uc_None}.
        mset (concat (map errands (filter (\<lambda>b. uc_type (snd b) = i) batches)))
          = mset (map (errand \<circ> refresh now) (opt_queue opt i))
        \<and> opt_queue (snd (opt_flush ms now opt)) i = [])
    \<and> (\<forall>(units, c) \<in> set batches. uc_type c \<in> {0..<Uc_None} \<and> units \<noteq> [] \<and> length units \<le> 12)
    \<and> opt_level (snd (opt_flush ms now opt)) = opt_level opt"
proof (intro exI conjI ballI)
  let ?batches = "batches_of [0..Uc_None - 1] (\<lambda>i. map (refresh now) (opt_queue opt i))"
  have orders: "batch_orders ms = (\<lambda>(units, c). [Queued (Select_units (map (map_option bwu) units)), executeCommand ms c])"
    by (rule ext) (simp add: batch_orders_def case_prod_beta)
  show "fst (opt_flush ms now opt) =
      concat (map (\<lambda>(units, c). [Queued (Select_units (map (map_option bwu) units)), executeCommand ms c]) ?batches)"
    by (simp only: flush_result(1) orders)
  show "opt_level (snd (opt_flush ms now opt)) = opt_level opt"
    by (rule flush_result(2))
  fix i assume "i \<in> {0..<Uc_None}"
  then have i: "i \<in> set [0..Uc_None - 1]" by simp
  show "mset (concat (map errands (filter (\<lambda>b. uc_type (snd b) = i) ?batches)))
      = mset (map (errand \<circ> refresh now) (opt_queue opt i))"
    unfolding batches_by_type [OF distinct_upto i] by (simp add: drain_list_errands)
  show "opt_queue (snd (opt_flush ms now opt)) i = []"
    using i by (simp only: flush_result(3) if_True)
next
  fix b assume "b \<in> set (batches_of [0..Uc_None - 1] (\<lambda>i. map (refresh now) (opt_queue opt i)))"
  then obtain j where "j \<in> set [0..Uc_None - 1]" "b \<in> set (snd (drain_list j (map (refresh now) (opt_queue opt j))))"
    unfolding batches_of_def by auto
  with drain_list_batches [OF this(2)]
  show "case b of (units, c) \<Rightarrow> uc_type c \<in> {0..<Uc_None} \<and> units \<noteq> [] \<and> length units \<le> 12"
    by (simp add: case_prod_beta)
qed

definition demo_queue :: "int \<Rightarrow> unit_command list" where
  "demo_queue i = (if i = Stop then map (\<lambda>u. uc_stop (Some (demo_live u)) False) [0..<14] else [])"

theorem flush_sends_every_order_once_witness:
  "\<exists>batches. fst (opt_flush None demo_live \<lparr>opt_level = 4, opt_queue = demo_queue\<rparr>) =
      concat (map (\<lambda>(units, c). [Queued (Select_units (map (map_option bwu) units)), executeCommand None c]) batches)
    \<and> mset (concat (map errands (filter (\<lambda>b. uc_type (snd b) = Stop) batches)))
      = mset (map (errand \<circ> refresh demo_live) (demo_queue Stop))"
  using flush_sends_every_order_once [of None demo_live "\<lparr>opt_level = 4, opt_queue = demo_queue\<rparr>"] by auto

lemma add_taken:
  assumes "add g ms c opt = (Some c', opt')"
  shows "uc_unit c' = uc_unit c \<and> \<not> isQueued c \<and> opt_level opt \<noteq> 0
    \<and> opt' = opt\<lparr>opt_queue := (opt_queue opt)(uc_type c' := c' # opt_queue opt (uc_type c'))\<rparr>"
proof -
  have simplified: "uc_unit (simplify_command g ms c) = uc_unit c"
    by (simp add: simplify_command_def simplify_tech_def uc_rightClick_pos_def uc_rightClick_unit_def
        uc_train_def uc_siege_def uc_unsiege_def uc_cloak_def uc_decloak_def uc_burrow_def uc_unburrow_def
        assignTarget_def mk_command_def Let_def)
  have aligned: "uc_unit (align_command ms t (uc_unit c) r d) = uc_unit c" if "uc_unit d = uc_unit c" for t r d
    using that by (simp add: align_command_def uc_useTech_pos_def uc_useTech_unit_def assignTarget_def
        mk_command_def Let_def split: option.split)
  show ?thesis
    using assms simplified aligned unfolding add_def Let_def
    by (auto split: if_splits)
qed

lemma add_left: "add g ms c opt = (None, opt') \<Longrightarrow> opt' = opt"
  unfolding add_def Let_def by (auto split: if_splits)

text \<open>
  Level four is documented to include what the lower levels do, but it restores the type a position
  command had: a move is grouped as a move, and as a right click at level three.
\<close>

lemma level_four_keeps_move:
  assumes "uc_type c = Move" and "\<not> isQueued c"
  shows "map_option uc_type (fst (add g ms c (opt\<lparr>opt_level := 4\<rparr>))) = Some Move"
    and "map_option uc_type (fst (add g ms c (opt\<lparr>opt_level := 3\<rparr>))) = Some Right_Click_Position"
  using assms
  by (simp_all add: add_def Let_def simplify_command_def align_command_def position_command_def
      uc_rightClick_pos_def assignTarget_def mk_command_def)

section \<open>One unit\<close>

lemma orders_of_notes [simp]:
  "cm_orders (setLastImmediateCommand c st) = cm_orders st"
  "cm_optimizer (setLastImmediateCommand c st) = cm_optimizer st"
  "cm_buffer (setLastImmediateCommand c st) = cm_buffer st"
  "cm_orders (note_command u c st) = cm_orders st"
  "cm_optimizer (note_command u c st) = cm_optimizer st"
  "cm_buffer (note_command u c st) = cm_buffer st"
  by (simp_all add: setLastImmediateCommand_def note_command_def split: option.split)

lemma orders_of_select [simp]:
  "cm_optimizer (orderSelect us st) = cm_optimizer st" "cm_buffer (orderSelect us st) = cm_buffer st"
  "cm_orders (orderSelect us st) = cm_orders st @ [Queued (Select_units (map (map_option bwu) us))]"
  by (simp_all add: orderSelect_def queueOrder_def)

lemma first_larva_finds:
  assumes "sound_game g" and "l \<in> set ls" and "\<And>e. \<exists>e'. commandable_larva g l e = Some (True, e')"
  shows "\<exists>l' e'. l' \<in> set ls \<and> first_larva g ls e = Some (Some l', e')"
  using assms(2)
proof (induction ls arbitrary: e)
  case (Cons a ls)
  obtain b x where a: "commandable_larva g a e = Some (b, x)"
    using reportsD [OF commandable_larva_reports [OF assms(1)]] by blast
  show ?case
  proof (cases b)
    case True
    then show ?thesis using a by auto
  next
    case False
    then have "l \<in> set ls" using a assms(3) [of e] Cons.prems by auto
    from Cons.IH [OF this, of x] show ?thesis using a False by auto
  qed
qed simp

lemma first_unit_found:
  "first_unit us ok found none e = Some (True, x) \<Longrightarrow> (\<And>e y. none e \<noteq> Some (True, y)) \<Longrightarrow>
    \<exists>u\<in>set us. \<exists>e' y. ok u e' = Some (True, y)"
proof (induction us arbitrary: e)
  case (Cons u us)
  obtain b y where run: "ok u e = Some (b, y)"
    using Cons.prems(1) by (auto simp: ask_def split: option.splits)
  show ?case
  proof (cases b)
    case True
    with run show ?thesis by auto
  next
    case False
    with run Cons.prems(1) have "first_unit us ok found none y = Some (True, x)" by (simp add: ask_def)
    from Cons.IH [OF this Cons.prems(2)] show ?thesis by simp
  qed
qed simp

lemma larva_passed:
  assumes "\<not> producesLarva (getType g l)"
    and "canTrain g l True e = Some (True, x) \<or> canMorph g l True e = Some (True, x)"
  shows "\<exists>e'. commandable_larva g l e'' = Some (True, e')"
proof -
  obtain y where "canCommand g l e = Some (True, y)" and "\<not> isConstructing g l \<and> isCompleted g l"
    using assms unfolding canTrain_def canMorph_def
    by (auto dest!: guard_passed simp: setLastError_def split: if_splits)
  then show ?thesis
    unfolding commandable_larva_def using canCommand_no_memory [of g l e'' e] by auto
qed

lemma order_finds_larva:
  assumes "sound_game g" and "canIssueCommand g u c f6 f5 f4 f3 f2 f e = Some (True, x)"
    and "needs_larva g u c"
  shows "\<exists>l e'. commanded_unit g u c e1 = Some (Some l, e') \<and> l \<in> set (getLarva g u) \<and> l \<noteq> u"
proof -
  have kind: "uc_type c = Train \<or> uc_type c = Morph" and source: "producesLarva (getType g u)"
    and product: "fst (whatBuilds (getUnitType c)) = Zerg_Larva"
    using assms(3) by (auto simp: needs_larva_def)
  have "\<exists>y. canTrain_type g u (getUnitType c) False False y = Some (True, x) \<or>
      canMorph_type g u (getUnitType c) False False y = Some (True, x)"
    using assms(2) kind unfolding canIssueCommand_def Let_def
    by (cases f) (fastforce dest!: guard_passed ensure_if_passed simp: guard_skipped)+
  then obtain l e' z where l: "l \<in> set (getLarva g u)"
    and free: "canTrain g l True e' = Some (True, z) \<or> canMorph g l True e' = Some (True, z)"
    using source product
    unfolding canTrain_type_def canMorph_type_def guard_skipped ensure_if_def Let_def
    by (auto dest!: first_unit_found simp: setLastError_def)
  have plain: "\<not> producesLarva (getType g l')" if "l' \<in> set (getLarva g u)" for l'
    using sound_larva [OF assms(1) that] .
  obtain l' e'' where "l' \<in> set (getLarva g u)" and found: "first_larva g (getLarva g u) e1 = Some (Some l', e'')"
    using first_larva_finds [OF assms(1) l] larva_passed [OF plain [OF l] free] by blast
  moreover from this(1) have "l' \<noteq> u" using plain source by blast
  ultimately show ?thesis using assms(3) by (simp add: commanded_unit_def)
qed

text \<open>
  When a train or morph order of a type that comes from a larva is accepted for a unit that makes
  larvae, the search for a larva in \<open>prepareIssueCommand\<close> succeeds, with one of the unit's own larvae and
  not the unit itself.
\<close>

theorem accepted_order_finds_larva:
  assumes "sound_game g" and "canIssueCommand g u c f6 f5 f4 f3 f2 f e = Some (True, x)"
    and "needs_larva g u c"
  shows "\<exists>l e'. commanded_unit g u c e1 = Some (Some l, e') \<and> l \<in> set (getLarva g u) \<and> l \<noteq> u"
  by (rule order_finds_larva [OF assms])

theorem accepted_order_finds_larva_witness:
  "\<exists>l e'. commanded_unit demo_game 2 demo_train No_Error = Some (Some l, e') \<and> l \<in> set (getLarva demo_game 2) \<and> l \<noteq> 2"
  by (rule accepted_order_finds_larva [OF demo_sound demo_train_runs]) code_simp

text \<open>The selection that goes before an order that is sent at once.\<close>

definition selection_for :: "unit_command \<Rightarrow> int \<Rightarrow> exec_result list" where
  "selection_for c level =
     (if merges c then [Queued (Select_units (map (map_option bwu) [uc_unit c, uc_target c]))]
      else if uc_type c \<noteq> Unload \<or> level < 2
      then [Queued (Select_units (map (map_option bwu) [uc_unit c]))]
      else [])"

lemma prepared:
  assumes "prepareIssueCommand g live u c st = Some (took, c', st')"
    and "commanded_unit g u c (cm_error st) = Some (Some v, e)"
  shows "c' = c\<lparr>uc_unit := Some (live v)\<rparr> \<and> cm_orders st' = cm_orders st \<and> cm_buffer st' = cm_buffer st @ [c']
    \<and> (if took
       then \<exists>taken. uc_unit taken = Some (live v) \<and> cm_optimizer st' = (cm_optimizer st)\<lparr>opt_queue :=
              (opt_queue (cm_optimizer st))(uc_type taken := taken # opt_queue (cm_optimizer st) (uc_type taken))\<rparr>
       else cm_optimizer st' = cm_optimizer st)"
proof -
  let ?c = "c\<lparr>uc_unit := Some (live v)\<rparr>"
  have kept: "cm_optimizer (if merges ?c then note_command a b s else s) = cm_optimizer s"
    "cm_orders (if merges ?c then note_command a b s else s) = cm_orders s"
    "cm_buffer (if merges ?c then note_command a b s else s) = cm_buffer s" for a b s
    by simp_all
  show ?thesis
    using assms unfolding prepareIssueCommand_def Let_def
    by (auto dest!: add_taken add_left simp: kept split: prod.splits option.splits)
qed

lemma prepare_returns:
  assumes "commanded_unit g u c (cm_error st) = Some (Some v, e)"
  shows "\<exists>took c' st'. prepareIssueCommand g live u c st = Some (took, c', st')"
  using assms unfolding prepareIssueCommand_def Let_def
  by (auto split: prod.split option.split)

lemma issued_at_once:
  assumes "prepareIssueCommand g live u c (st\<lparr>cm_error := e\<rparr>) = Some (False, c', st1)"
    and "canIssueCommand g u c True True True True True True (cm_error st) = Some (True, e)"
    and "cm_orders st1 = cm_orders st" and "cm_optimizer st1 = cm_optimizer st"
    and "issueCommand g live u c st = Some (answer, st')"
  shows "answer \<and> cm_buffer st' = cm_buffer st1 \<and> cm_optimizer st' = cm_optimizer st
    \<and> cm_orders st' = cm_orders st @ selection_for c' (opt_level (cm_optimizer st)) @ [executeCommand (map_size_of g) c']"
  using assms by (auto simp: issueCommand_def Let_def queueOrder_def selection_for_def)

text \<open>
  C13. An accepted command enters the latency buffer once, for the unit itself or for one of its larvae,
  and is then either sent at once (a selection, unless a higher level drops that of an unload, and the
  order \<open>executeCommand\<close> makes of it) or put at the head of one queue of the optimizer, never both. A
  refused command leaves buffer, orders and optimizer as they were.
\<close>

theorem issued_command_sent_or_taken:
  assumes "sound_game g" and "issueCommand g live u c st = Some (answer, st')"
  shows "if answer
    then \<exists>v \<in> {u} \<union> set (getLarva g u).
      cm_buffer st' = cm_buffer st @ [c\<lparr>uc_unit := Some (live v)\<rparr>] \<and>
      (cm_optimizer st' = cm_optimizer st \<and> cm_orders st' = cm_orders st
           @ selection_for (c\<lparr>uc_unit := Some (live v)\<rparr>) (opt_level (cm_optimizer st))
           @ [executeCommand (map_size_of g) (c\<lparr>uc_unit := Some (live v)\<rparr>)]
       \<or> cm_orders st' = cm_orders st \<and>
         (\<exists>taken. uc_unit taken = Some (live v) \<and> cm_optimizer st' = (cm_optimizer st)\<lparr>opt_queue :=
           (opt_queue (cm_optimizer st))(uc_type taken := taken # opt_queue (cm_optimizer st) (uc_type taken))\<rparr>))
    else cm_buffer st' = cm_buffer st \<and> cm_orders st' = cm_orders st \<and> cm_optimizer st' = cm_optimizer st"
proof -
  obtain b e where check: "canIssueCommand g u c True True True True True True (cm_error st) = Some (b, e)"
    using assms(2) unfolding issueCommand_def by (auto split: option.splits)
  show ?thesis
  proof (cases b)
    case False
    then show ?thesis using assms(2) check by (auto simp: issueCommand_def)
  next
    case True
    let ?st = "st\<lparr>cm_error := e\<rparr>"
    obtain v e' where v: "commanded_unit g u c e = Some (Some v, e')" "v \<in> {u} \<union> set (getLarva g u)"
    proof (cases "needs_larva g u c")
      case True
      from order_finds_larva [OF assms(1) check [unfolded \<open>b\<close> [THEN eqTrueI]] True, of e] that
      show ?thesis by blast
    qed (use that in \<open>simp add: commanded_unit_def\<close>)
    obtain took c' st1 where prep: "prepareIssueCommand g live u c ?st = Some (took, c', st1)"
      using assms(2) check True unfolding issueCommand_def by (auto split: option.splits)
    note done_by = prepared [OF prep, of v e'] v(1)
    show ?thesis
    proof (cases took)
      case True
      then have "answer \<and> st' = st1" using assms(2) check \<open>b\<close> prep by (simp add: issueCommand_def)
      then show ?thesis using done_by v(2) True by (auto intro!: bexI [of _ v])
    next
      case False
      then have prep': "prepareIssueCommand g live u c ?st = Some (False, c', st1)" using prep by simp
      have "answer \<and> cm_buffer st' = cm_buffer st1 \<and> cm_optimizer st' = cm_optimizer st
        \<and> cm_orders st' = cm_orders st @ selection_for c' (opt_level (cm_optimizer st)) @ [executeCommand (map_size_of g) c']"
        using done_by False \<open>b\<close> check by (intro issued_at_once [OF prep' _ _ _ assms(2)]) auto
      then show ?thesis using done_by v(2) False by (auto intro!: bexI [of _ v])
    qed
  qed
qed

definition demo_module :: client_module where
  "demo_module = \<lparr>cm_error = No_Error, cm_frame = 7, cm_lastCommand = (\<lambda>u. None), cm_lastImmediate = (\<lambda>u. None),
     cm_buffer = [], cm_optimizer = \<lparr>opt_level = 1, opt_queue = (\<lambda>i. [])\<rparr>, cm_orders = []\<rparr>"

lemma demo_issue: "\<exists>st'. issueCommand demo_game demo_live 0 demo_attack demo_module = Some (True, st')"
proof -
  obtain x where x: "canIssueCommand demo_game 0 demo_attack True True True True True True No_Error = Some (True, x)"
    using demo_attack_runs by blast
  have "commanded_unit demo_game 0 demo_attack e = Some (Some 0, e)" for e
    by (simp add: commanded_unit_def needs_larva_def demo_attack_def uc_attack_unit_def mk_command_def)
  then obtain took c' st' where "prepareIssueCommand demo_game demo_live 0 demo_attack (demo_module\<lparr>cm_error := x\<rparr>)
      = Some (took, c', st')"
    using prepare_returns by blast
  then show ?thesis
    using x by (cases took) (simp_all add: issueCommand_def demo_module_def)
qed

theorem issued_command_sent_or_taken_witness:
  "\<exists>st'. issueCommand demo_game demo_live 0 demo_attack demo_module = Some (True, st')
    \<and> (\<exists>v \<in> {0} \<union> set (getLarva demo_game 0). cm_buffer st' = [demo_attack\<lparr>uc_unit := Some (demo_live v)\<rparr>])"
proof -
  obtain st' where st': "issueCommand demo_game demo_live 0 demo_attack demo_module = Some (True, st')"
    using demo_issue by blast
  from issued_command_sent_or_taken [OF demo_sound this] show ?thesis
    using st' by (auto simp: demo_module_def)
qed

section \<open>A set of units\<close>

lemma grouped_no_memory:
  "canIssueCommandGrouped g u c f6 f5 f4 f3 f2 True e = canIssueCommandGrouped g u c f6 f5 f4 f3 f2 True e'"
  unfolding canIssueCommandGrouped_def Let_def guard_command_def
  by (simp add: ensure_def ask_def canCommand_no_memory [of g u e e'])

lemma grouped_check_ignores_unit:
  "canIssueCommandGrouped g u (c\<lparr>uc_unit := v\<rparr>) f6 f5 f4 f3 f2 f = canIssueCommandGrouped g u c f6 f5 f4 f3 f2 f"
proof -
  have same: "command_target (c\<lparr>uc_unit := v\<rparr>) = command_target c" "uc_type (c\<lparr>uc_unit := v\<rparr>) = uc_type c"
    "uc_extra (c\<lparr>uc_unit := v\<rparr>) = uc_extra c" "getUnitType (c\<lparr>uc_unit := v\<rparr>) = getUnitType c"
    "getTargetPosition (c\<lparr>uc_unit := v\<rparr>) = getTargetPosition c"
    by (simp_all add: command_target_def getUnitType_def getTargetPosition_def isTileCommand_def)
  show ?thesis unfolding canIssueCommandGrouped_def by (simp only: same)
qed

lemma stop_taken:
  assumes "uc_type c = Stop" and "uc_extra c = 0" and "0 < opt_level (cm_optimizer st)"
    and "lu_type (live u) = getType g u" and "\<not> isBuilding (getType g u)"
  shows "\<exists>st1. prepareIssueCommand g live u c st = Some (True, c\<lparr>uc_unit := Some (live u)\<rparr>, st1)
    \<and> opt_level (cm_optimizer st1) = opt_level (cm_optimizer st)
    \<and> length (opt_queue (cm_optimizer st1) Stop) = length (opt_queue (cm_optimizer st) Stop) + 1"
proof -
  let ?c = "c\<lparr>uc_unit := Some (live u)\<rparr>"
  have simple: "simplify_command g ms ?c = ?c" for ms
    using assms(1) by (simp add: simplify_command_def)
  have same: "align_command ms Stop (Some (live u)) t ?c = ?c" for ms t
    by (simp add: align_command_def position_command_def split: option.split)
  have "add g (map_size_of g) ?c opt = (Some ?c, opt\<lparr>opt_queue := (opt_queue opt)(Stop := ?c # opt_queue opt Stop)\<rparr>)"
    if "0 < opt_level opt" for opt
    using that assms simple same [of "map_size_of g" "uc_target c"]
    by (auto simp: add_def Let_def isQueued_def position_command_def unitTypeOr_def)
  then show ?thesis
    using assms(1,3)
    by (auto simp: prepareIssueCommand_def commanded_unit_def needs_larva_def merges_def Let_def)
qed

lemma all_taken:
  assumes "uc_type c = Stop" and "uc_extra c = 0" and "0 < opt_level (cm_optimizer st)"
    and "\<forall>u\<in>set us. unit_exists g u \<and> lu_type (live u) = getType g u \<and> \<not> isBuilding (getType g u)
      \<and> (\<forall>e. \<exists>x. canIssueCommandGrouped g u c True True True True True True e = Some (True, x))"
  shows "\<exists>c' st'. gather_groups g live us c [] [] st = Some (c', [], st')
    \<and> length (opt_queue (cm_optimizer st') Stop) = length (opt_queue (cm_optimizer st) Stop) + length us"
  using assms
proof (induction us arbitrary: c st)
  case (Cons u us)
  obtain x where pass: "canIssueCommandGrouped g u c True True True True True True (cm_error st) = Some (True, x)"
    using Cons.prems(4) by (metis list.set_intros(1))
  obtain st1 where st1: "prepareIssueCommand g live u c (st\<lparr>cm_error := x\<rparr>) = Some (True, c\<lparr>uc_unit := Some (live u)\<rparr>, st1)"
    "opt_level (cm_optimizer st1) = opt_level (cm_optimizer st)"
    "length (opt_queue (cm_optimizer st1) Stop) = length (opt_queue (cm_optimizer st) Stop) + 1"
    using stop_taken [of c "st\<lparr>cm_error := x\<rparr>" live u g] Cons.prems by auto
  have "\<exists>c' st'. gather_groups g live us (c\<lparr>uc_unit := Some (live u)\<rparr>) [] [] st1 = Some (c', [], st')
    \<and> length (opt_queue (cm_optimizer st') Stop) = length (opt_queue (cm_optimizer st1) Stop) + length us"
    by (rule Cons.IH) (use Cons.prems st1 in \<open>simp_all add: grouped_check_ignores_unit\<close>)
  then show ?case using Cons.prems(4) pass st1 by auto
qed simp

text \<open>
  With the optimizer on, a stop order that every unit of a set may carry out is queued for each of
  them, yet \<open>issueCommand\<close> of the set answers \<open>False\<close>, which is documented to mean that no unit could.
\<close>

theorem optimized_group_reports_failure:
  assumes "uc_type c = Stop" and "uc_extra c = 0" and "0 < opt_level (cm_optimizer st)"
    and "\<forall>u\<in>set us. unit_exists g u \<and> lu_type (live u) = getType g u \<and> \<not> isBuilding (getType g u)
      \<and> (\<forall>e. \<exists>x. canIssueCommandGrouped g u c True True True True True True e = Some (True, x))"
  shows "\<exists>st'. issueCommand_units g live us c st = Some (False, st')
    \<and> length (opt_queue (cm_optimizer st') Stop) = length (opt_queue (cm_optimizer st) Stop) + length us"
  using all_taken [OF assms] by (auto simp: issueCommand_units_def)

lemma demo_group_passes: "\<exists>x. canIssueCommandGrouped demo_game 4 demo_stop True True True True True True e = Some (True, x)"
  using demo_stop_runs grouped_no_memory by metis

theorem optimized_group_reports_failure_witness:
  "\<exists>st'. issueCommand_units demo_game demo_live [4, 4] demo_stop demo_module = Some (False, st')
    \<and> length (opt_queue (cm_optimizer st') Stop) = length (opt_queue (cm_optimizer demo_module) Stop) + length [4, 4::nat]"
proof (rule optimized_group_reports_failure)
  have "unit_exists demo_game 4 \<and> lu_type (demo_live 4) = getType demo_game 4 \<and> \<not> isBuilding (getType demo_game 4)"
    by code_simp
  then show "\<forall>u\<in>set [4, 4]. unit_exists demo_game u \<and> lu_type (demo_live u) = getType demo_game u
      \<and> \<not> isBuilding (getType demo_game u)
      \<and> (\<forall>e. \<exists>x. canIssueCommandGrouped demo_game u demo_stop True True True True True True e = Some (True, x))"
    using demo_group_passes by simp
qed (simp_all add: demo_stop_def uc_stop_def mk_command_def shift_extra_def demo_module_def)

end
