(* ===== verification/Latency_Effects.thy ===== *)
theory Latency_Effects
  imports Game_State "HOL-Library.Monad_Syntax"
begin

text \<open>
  The latency compensation of the client (\<open>include/BWAPI/Client/CommandTemp.h\<close>): the effect an
  issued command is predicted to have on the mirrored unit and player data, command by command, as
  \<open>CommandTemp::execute\<close> applies it. An effect has no result where the code dereferences a null
  pointer or leaves the bounds of an array. The counters are mathematical integers.
\<close>

section \<open>Orders\<close>

text \<open>\<open>Orders::Enum\<close>, the further members named here, and \<open>TechType::getOrder\<close>.\<close>

abbreviation (input) Order_Stop :: int where "Order_Stop \<equiv> 1"
abbreviation (input) Order_PlayerGuard :: int where "Order_PlayerGuard \<equiv> 3"
abbreviation (input) Order_Move :: int where "Order_Move \<equiv> 6"
abbreviation (input) Order_AttackUnit :: int where "Order_AttackUnit \<equiv> 10"
abbreviation (input) Order_AttackMove :: int where "Order_AttackMove \<equiv> 14"
abbreviation (input) Order_Nothing :: int where "Order_Nothing \<equiv> 23"
abbreviation (input) Order_CastInfestation :: int where "Order_CastInfestation \<equiv> 27"
abbreviation (input) Order_PlaceBuilding :: int where "Order_PlaceBuilding \<equiv> 30"
abbreviation (input) Order_Repair :: int where "Order_Repair \<equiv> 34"
abbreviation (input) Order_PlaceAddon :: int where "Order_PlaceAddon \<equiv> 36"
abbreviation (input) Order_BuildAddon :: int where "Order_BuildAddon \<equiv> 37"
abbreviation (input) Order_Train :: int where "Order_Train \<equiv> 38"
abbreviation (input) Order_RallyPointUnit :: int where "Order_RallyPointUnit \<equiv> 39"
abbreviation (input) Order_RallyPointTile :: int where "Order_RallyPointTile \<equiv> 40"
abbreviation (input) Order_ZergUnitMorph :: int where "Order_ZergUnitMorph \<equiv> 42"
abbreviation (input) Order_ZergBuildingMorph :: int where "Order_ZergBuildingMorph \<equiv> 43"
abbreviation (input) Order_IncompleteBuilding :: int where "Order_IncompleteBuilding \<equiv> 44"
abbreviation (input) Order_Follow :: int where "Order_Follow \<equiv> 49"
abbreviation (input) Order_BuildingLand :: int where "Order_BuildingLand \<equiv> 71"
abbreviation (input) Order_BuildingLiftOff :: int where "Order_BuildingLiftOff \<equiv> 72"
abbreviation (input) Order_SpawningLarva :: int where "Order_SpawningLarva \<equiv> 78"
abbreviation (input) Order_MoveToGas :: int where "Order_MoveToGas \<equiv> 81"
abbreviation (input) Order_ReturnGas :: int where "Order_ReturnGas \<equiv> 84"
abbreviation (input) Order_MoveToMinerals :: int where "Order_MoveToMinerals \<equiv> 85"
abbreviation (input) Order_ReturnMinerals :: int where "Order_ReturnMinerals \<equiv> 90"
abbreviation (input) Order_EnterTransport :: int where "Order_EnterTransport \<equiv> 92"
abbreviation (input) Order_PickupTransport :: int where "Order_PickupTransport \<equiv> 94"
abbreviation (input) Order_PickupBunker :: int where "Order_PickupBunker \<equiv> 95"
abbreviation (input) Order_InitCreepGrowth :: int where "Order_InitCreepGrowth \<equiv> 101"
abbreviation (input) Order_SpreadCreep :: int where "Order_SpreadCreep \<equiv> 102"
abbreviation (input) Order_HoldPosition :: int where "Order_HoldPosition \<equiv> 107"
abbreviation (input) Order_Decloak :: int where "Order_Decloak \<equiv> 110"
abbreviation (input) Order_Unload :: int where "Order_Unload \<equiv> 111"
abbreviation (input) Order_MoveUnload :: int where "Order_MoveUnload \<equiv> 112"
abbreviation (input) Order_FireYamatoGun :: int where "Order_FireYamatoGun \<equiv> 113"
abbreviation (input) Order_CastLockdown :: int where "Order_CastLockdown \<equiv> 115"
abbreviation (input) Order_CastDarkSwarm :: int where "Order_CastDarkSwarm \<equiv> 119"
abbreviation (input) Order_CastParasite :: int where "Order_CastParasite \<equiv> 120"
abbreviation (input) Order_CastSpawnBroodlings :: int where "Order_CastSpawnBroodlings \<equiv> 121"
abbreviation (input) Order_CastEMPShockwave :: int where "Order_CastEMPShockwave \<equiv> 122"
abbreviation (input) Order_NukePaint :: int where "Order_NukePaint \<equiv> 126"
abbreviation (input) Order_PlaceMine :: int where "Order_PlaceMine \<equiv> 132"
abbreviation (input) Order_CastRecall :: int where "Order_CastRecall \<equiv> 137"
abbreviation (input) Order_CastScannerSweep :: int where "Order_CastScannerSweep \<equiv> 139"
abbreviation (input) Order_CastDefensiveMatrix :: int where "Order_CastDefensiveMatrix \<equiv> 141"
abbreviation (input) Order_CastPsionicStorm :: int where "Order_CastPsionicStorm \<equiv> 142"
abbreviation (input) Order_CastIrradiate :: int where "Order_CastIrradiate \<equiv> 143"
abbreviation (input) Order_CastPlague :: int where "Order_CastPlague \<equiv> 144"
abbreviation (input) Order_CastConsume :: int where "Order_CastConsume \<equiv> 145"
abbreviation (input) Order_CastEnsnare :: int where "Order_CastEnsnare \<equiv> 146"
abbreviation (input) Order_CastStasisField :: int where "Order_CastStasisField \<equiv> 147"
abbreviation (input) Order_CastHallucination :: int where "Order_CastHallucination \<equiv> 148"
abbreviation (input) Order_ResetCollision :: int where "Order_ResetCollision \<equiv> 150"
abbreviation (input) Order_Patrol :: int where "Order_Patrol \<equiv> 152"
abbreviation (input) Order_MedicHeal :: int where "Order_MedicHeal \<equiv> 176"
abbreviation (input) Order_CastRestoration :: int where "Order_CastRestoration \<equiv> 180"
abbreviation (input) Order_CastDisruptionWeb :: int where "Order_CastDisruptionWeb \<equiv> 181"
abbreviation (input) Order_CastMindControl :: int where "Order_CastMindControl \<equiv> 182"
abbreviation (input) Order_CastFeedback :: int where "Order_CastFeedback \<equiv> 184"
abbreviation (input) Order_CastOpticalFlare :: int where "Order_CastOpticalFlare \<equiv> 185"
abbreviation (input) Order_CastMaelstrom :: int where "Order_CastMaelstrom \<equiv> 186"
abbreviation (input) Order_None :: int where "Order_None \<equiv> 189"

definition techOrders :: "int list" where
  "techOrders =
     [Order_None, Order_CastLockdown, Order_CastEMPShockwave, Order_PlaceMine,
      Order_CastScannerSweep, Order_None, Order_CastDefensiveMatrix, Order_CastIrradiate,
      Order_FireYamatoGun, Order_None, Order_None, Order_None, Order_CastInfestation,
      Order_CastSpawnBroodlings, Order_CastDarkSwarm, Order_CastPlague, Order_CastConsume,
      Order_CastEnsnare, Order_CastParasite, Order_CastPsionicStorm, Order_CastHallucination,
      Order_CastRecall, Order_CastStasisField, Order_None, Order_CastRestoration,
      Order_CastDisruptionWeb, Order_None, Order_CastMindControl, Order_None,
      Order_CastFeedback, Order_CastOpticalFlare, Order_CastMaelstrom, Order_None,
      Order_None, Order_MedicHeal, Order_None, Order_None, Order_None, Order_None,
      Order_None, Order_None, Order_None, Order_None, Order_None, Order_None,
      Order_NukePaint, Order_Unknown]"

definition techOrder :: "int \<Rightarrow> int" where
  "techOrder t = techOrders ! nat t"

section \<open>Events and single effects\<close>

text \<open>\<open>EventType\<close> and the members of \<open>CommandTemp\<close>; \<open>savedExtra\<close> and \<open>savedExtra2\<close> are never used.\<close>

datatype event_type = Order_Event | Resource_Event | Finish_Event

record lat_command =
  lc_command :: unit_command
  lc_event :: event_type
  lc_player :: "nat option"

definition new_command :: "unit_command \<Rightarrow> lat_command" where
  "new_command c = \<lparr>lc_command = c, lc_event = Resource_Event, lc_player = None\<rparr>"

type_synonym effect = "game \<Rightarrow> game option"

text \<open>Writes to \<open>unit->self\<close>; to \<open>player->self\<close>, which dereferences the player first.\<close>

definition set_unit :: "nat \<Rightarrow> (unit_data \<Rightarrow> unit_data) \<Rightarrow> effect" where
  "set_unit u f g = Some (g\<lparr>g_unit := (g_unit g)(u := f (g_unit g u))\<rparr>)"

definition set_player :: "nat option \<Rightarrow> (player_data \<Rightarrow> player_data) \<Rightarrow> effect" where
  "set_player p f g =
     (case p of None \<Rightarrow> None | Some q \<Rightarrow> Some (g\<lparr>g_player := (g_player g)(q := f (g_player g q))\<rparr>))"

text \<open>\<open>player->self->minerals += m; player->self->gas += v;\<close>\<close>

definition add_resources :: "nat option \<Rightarrow> int \<Rightarrow> int \<Rightarrow> effect" where
  "add_resources p m v = set_player p (\<lambda>d. d\<lparr>pd_minerals := pd_minerals d + m, pd_gas := pd_gas d + v\<rparr>)"

text \<open>\<open>player->self->supplyUsed[race] += n;\<close>\<close>

definition add_supply :: "nat option \<Rightarrow> int \<Rightarrow> int \<Rightarrow> effect" where
  "add_supply p race n g =
     (if 0 \<le> race \<and> race < 3
      then set_player p (\<lambda>d. d\<lparr>pd_supplyUsed :=
             (pd_supplyUsed d)[nat race := pd_supplyUsed d ! nat race + n]\<rparr>) g
      else None)"

text \<open>\<open>trainingQueue[i]\<close>, read and written.\<close>

definition in_queue :: "game \<Rightarrow> nat \<Rightarrow> int \<Rightarrow> bool" where
  "in_queue g u i \<longleftrightarrow> 0 \<le> i \<and> i < int (length (ud_trainingQueue (g_unit g u)))"

definition queue_at :: "game \<Rightarrow> nat \<Rightarrow> int \<Rightarrow> int option" where
  "queue_at g u i = (if in_queue g u i then Some (ud_trainingQueue (g_unit g u) ! nat i) else None)"

definition set_queue :: "nat \<Rightarrow> int \<Rightarrow> int \<Rightarrow> effect" where
  "set_queue u i t g =
     (if in_queue g u i
      then set_unit u (\<lambda>d. d\<lparr>ud_trainingQueue := (ud_trainingQueue d)[nat i := t]\<rparr>) g else None)"

text \<open>\<open>trainingQueue[trainingQueueCount++] = t;\<close>\<close>

definition push_queue :: "nat \<Rightarrow> int \<Rightarrow> effect" where
  "push_queue u t g = do {
     g \<leftarrow> set_queue u (ud_trainingQueueCount (g_unit g u)) t g;
     set_unit u (\<lambda>d. d\<lparr>ud_trainingQueueCount := ud_trainingQueueCount d + 1\<rparr>) g }"

text \<open>\<open>static_cast<int>(price * 0.75)\<close>.\<close>

definition three_quarters :: "int \<Rightarrow> int" where
  "three_quarters price = cdiv (price * 3) 4"

text \<open>\<open>getUnitID\<close>, of the target of a command; a target that is dereferenced.\<close>

definition getUnitID :: "game \<Rightarrow> nat option \<Rightarrow> int" where
  "getUnitID g u = (case u of None \<Rightarrow> - 1 | Some v \<Rightarrow> ud_id (g_unit g v))"

definition target_of :: "unit_command \<Rightarrow> nat option" where
  "target_of c = map_option u_index (uc_target c)"

definition own_race :: "game \<Rightarrow> nat \<Rightarrow> int" where
  "own_race g u = getRaceType (getType g u)"

section \<open>Orders to go somewhere\<close>

text \<open>The four coordinates most position orders set.\<close>

definition aim_at :: "int \<Rightarrow> int \<Rightarrow> unit_data \<Rightarrow> unit_data" where
  "aim_at x y d = d\<lparr>ud_targetPositionX := x, ud_targetPositionY := y,
     ud_orderTargetPositionX := x, ud_orderTargetPositionY := y\<rparr>"

definition lc_attack_move :: "unit_command \<Rightarrow> nat \<Rightarrow> effect" where
  "lc_attack_move c u = set_unit u (\<lambda>d. aim_at (uc_x c) (uc_y c) (d\<lparr>ud_order := Order_AttackMove\<rparr>))"

definition lc_attack_unit :: "unit_command \<Rightarrow> nat \<Rightarrow> effect" where
  "lc_attack_unit c u g =
     (case target_of c of
        None \<Rightarrow> Some g
      | Some t \<Rightarrow>
          if \<not> unit_exists g t \<or> \<not> type_canAttack (getType g u) then Some g
          else set_unit u (\<lambda>d. d\<lparr>ud_order := Order_AttackUnit, ud_target := getUnitID g (Some t)\<rparr>) g)"

definition lc_follow :: "unit_command \<Rightarrow> nat \<Rightarrow> effect" where
  "lc_follow c u g = set_unit u (\<lambda>d. d\<lparr>ud_order := Order_Follow, ud_target := getUnitID g (target_of c),
     ud_isIdle := False, ud_isMoving := True\<rparr>) g"

definition lc_hold_position :: "nat \<Rightarrow> effect" where
  "lc_hold_position u = set_unit u (\<lambda>d. d\<lparr>ud_isMoving := False, ud_isIdle := False, ud_order := Order_HoldPosition\<rparr>)"

definition lc_move :: "unit_command \<Rightarrow> nat \<Rightarrow> effect" where
  "lc_move c u = set_unit u (\<lambda>d. (aim_at (uc_x c) (uc_y c) (d\<lparr>ud_order := Order_Move\<rparr>))
     \<lparr>ud_isMoving := True, ud_isIdle := False\<rparr>)"

definition lc_patrol :: "unit_command \<Rightarrow> nat \<Rightarrow> effect" where
  "lc_patrol c u = set_unit u (\<lambda>d. aim_at (uc_x c) (uc_y c)
     (d\<lparr>ud_order := Order_Patrol, ud_isIdle := False, ud_isMoving := True\<rparr>))"

definition lc_stop :: "nat \<Rightarrow> effect" where
  "lc_stop u = set_unit u (\<lambda>d. d\<lparr>ud_order := Order_Stop, ud_isIdle := True\<rparr>)"

definition lc_right_click_position :: "unit_command \<Rightarrow> nat \<Rightarrow> effect" where
  "lc_right_click_position c u = set_unit u (\<lambda>d. (aim_at (uc_x c) (uc_y c) (d\<lparr>ud_order := Order_Move\<rparr>))
     \<lparr>ud_isMoving := True, ud_isIdle := False\<rparr>)"

definition follow_if_mobile :: "nat \<Rightarrow> effect" where
  "follow_if_mobile u g =
     (if type_canMove (getType g u) then set_unit u (\<lambda>d. d\<lparr>ud_order := Order_Follow\<rparr>) g else Some g)"

definition right_click_rest :: "unit_command \<Rightarrow> nat \<Rightarrow> effect" where
  "right_click_rest c u g =
     (if type_canAttack (getType g u) then do {
        t \<leftarrow> target_of c;
        if getPlayer g t \<noteq> getPlayer g u \<and> \<not> type_isNeutral (getType g t)
        then set_unit u (\<lambda>d. d\<lparr>ud_order := Order_AttackUnit\<rparr>) g else follow_if_mobile u g }
      else follow_if_mobile u g)"

text \<open>The branches read the types after the first three writes, which leave them as they were.\<close>

definition lc_right_click_unit :: "unit_command \<Rightarrow> nat \<Rightarrow> effect" where
  "lc_right_click_unit c u g = do {
     g \<leftarrow> set_unit u (\<lambda>d. d\<lparr>ud_target := getUnitID g (target_of c), ud_isIdle := False, ud_isMoving := True\<rparr>) g;
     if isWorker (getType g u) then do {
       t \<leftarrow> target_of c;
       if isMineralField (getType g t)
       then set_unit u (\<lambda>d. d\<lparr>ud_isGathering := True, ud_order := Order_MoveToMinerals\<rparr>) g
       else if isRefinery (getType g t)
       then set_unit u (\<lambda>d. d\<lparr>ud_isGathering := True, ud_order := Order_MoveToGas\<rparr>) g
       else if own_race g t = Race_Terran \<and> fst (whatBuilds (getType g t)) = getType g u \<and> \<not> isCompleted g t
       then do {
         g \<leftarrow> set_unit u (\<lambda>d. d\<lparr>ud_order := Order_ConstructingBuilding, ud_buildUnit := getUnitID g (Some t)\<rparr>) g;
         g \<leftarrow> set_unit t (\<lambda>d. d\<lparr>ud_buildUnit := getUnitID g (Some u)\<rparr>) g;
         g \<leftarrow> set_unit u (\<lambda>d. d\<lparr>ud_isConstructing := True\<rparr>) g;
         set_unit t (\<lambda>d. d\<lparr>ud_isConstructing := True\<rparr>) g }
       else right_click_rest c u g }
     else right_click_rest c u g }"

section \<open>Building, morphing and training\<close>

definition lc_build :: "unit_command \<Rightarrow> nat \<Rightarrow> effect" where
  "lc_build c u = set_unit u (\<lambda>d. d\<lparr>ud_order := Order_PlaceBuilding, ud_isConstructing := True,
     ud_isIdle := False, ud_buildType := uc_extra c\<rparr>)"

text \<open>\<open>cur\<close> is \<open>isCurrentFrame\<close>, \<open>p\<close> the player, \<open>ev\<close> the event.\<close>

definition lc_build_addon :: "bool \<Rightarrow> event_type \<Rightarrow> unit_command \<Rightarrow> nat option \<Rightarrow> nat \<Rightarrow> effect" where
  "lc_build_addon cur ev c p u g =
     (let addonType = mkType UnitType_Unknown (uc_extra c) in
      case ev of
        Resource_Event \<Rightarrow> do {
          g \<leftarrow> add_resources p (- mineralPrice addonType) (- gasPrice addonType) g;
          if \<not> cur then set_unit u (\<lambda>d. d\<lparr>ud_isIdle := False, ud_order := Order_PlaceAddon\<rparr>) g else Some g }
      | Order_Event \<Rightarrow> set_unit u (\<lambda>d. d\<lparr>ud_isConstructing := True, ud_order := Order_Nothing,
          ud_secondaryOrder := Order_BuildAddon, ud_buildType := uc_extra c\<rparr>) g
      | Finish_Event \<Rightarrow> Some g)"

definition egg_type :: "int \<Rightarrow> int" where
  "egg_type morphType =
     (if morphType = Zerg_Lurker_Egg then Zerg_Lurker_Egg
      else if morphType = Zerg_Devourer \<or> morphType = Zerg_Guardian then Zerg_Cocoon else Zerg_Egg)"

text \<open>The supply of what comes out of an egg.\<close>

definition egg_supply :: "int \<Rightarrow> int" where
  "egg_supply t = supplyRequired t * (1 + of_bool (isTwoUnitsInOneEgg t))"

definition lc_morph :: "bool \<Rightarrow> event_type \<Rightarrow> unit_command \<Rightarrow> nat option \<Rightarrow> nat \<Rightarrow> effect" where
  "lc_morph cur ev c p u g =
     (let morphType = mkType UnitType_Unknown (uc_extra c) in
      case ev of
        Resource_Event \<Rightarrow> do {
          g \<leftarrow> if \<not> cur then set_unit u (\<lambda>d. d\<lparr>ud_isCompleted := False, ud_isIdle := False,
                  ud_isConstructing := True, ud_isMorphing := True, ud_buildType := morphType\<rparr>) g
              else Some g;
          if isBuilding (getType g u) then do {
            g \<leftarrow> if \<not> cur then set_unit u (\<lambda>d. d\<lparr>ud_order := Order_ZergBuildingMorph, ud_type := morphType\<rparr>) g
                else Some g;
            add_resources p (- mineralPrice morphType) (- gasPrice morphType) g }
          else do {
            g \<leftarrow> add_supply p (getRaceType morphType)
                  (egg_supply morphType - supplyRequired (getType g u)) g;
            if \<not> cur then do {
              g \<leftarrow> set_unit u (\<lambda>d. d\<lparr>ud_order := Order_ZergUnitMorph\<rparr>) g;
              g \<leftarrow> add_resources p (- mineralPrice morphType) (- gasPrice morphType) g;
              g \<leftarrow> set_unit u (\<lambda>d. d\<lparr>ud_type := egg_type morphType\<rparr>) g;
              push_queue u morphType g }
            else Some g } }
      | Order_Event \<Rightarrow>
          if isBuilding (getType g u)
          then set_unit u (\<lambda>d. d\<lparr>ud_order := Order_IncompleteBuilding\<rparr>) g else Some g
      | Finish_Event \<Rightarrow> Some g)"

definition lc_train :: "bool \<Rightarrow> unit_command \<Rightarrow> nat option \<Rightarrow> nat \<Rightarrow> effect" where
  "lc_train cur c p u g =
     (let unitType = mkType UnitType_Unknown (uc_extra c) in do {
        g \<leftarrow> if \<not> cur then add_resources p (- mineralPrice unitType) (- gasPrice unitType) g else Some g;
        g \<leftarrow> push_queue u unitType g;
        g \<leftarrow> add_supply p (getRaceType unitType) (supplyRequired unitType) g;
        g \<leftarrow> set_unit u (\<lambda>d. d\<lparr>ud_isTraining := True, ud_isIdle := False,
              ud_remainingTrainTime := buildTime unitType\<rparr>) g;
        if unitType = Terran_Nuclear_Missile
        then set_unit u (\<lambda>d. d\<lparr>ud_secondaryOrder := Order_Train\<rparr>) g else Some g })"

definition lc_research :: "unit_command \<Rightarrow> nat option \<Rightarrow> nat \<Rightarrow> effect" where
  "lc_research c p u g =
     (let techType = mkType TechType_Unknown (uc_extra c) in do {
        g \<leftarrow> set_unit u (\<lambda>d. d\<lparr>ud_order := Order_ResearchTech, ud_tech := techType, ud_isIdle := False,
              ud_remainingResearchTime := researchTime techType\<rparr>) g;
        g \<leftarrow> add_resources p (- tech_mineralPrice techType) (- tech_gasPrice techType) g;
        set_player p (\<lambda>d. d\<lparr>pd_isResearching := (pd_isResearching d)(nat techType := True)\<rparr>) g })"

text \<open>The level is that of the unit's owner, the price is the player's.\<close>

definition lc_upgrade :: "unit_command \<Rightarrow> nat option \<Rightarrow> nat \<Rightarrow> effect" where
  "lc_upgrade c p u g =
     (let upgradeType = mkType UpgradeType_Unknown (uc_extra c) in do {
        g \<leftarrow> set_unit u (\<lambda>d. d\<lparr>ud_order := Order_Upgrade, ud_upgrade := upgradeType, ud_isIdle := False\<rparr>) g;
        owner \<leftarrow> getPlayer g u;
        let level = getUpgradeLevel g owner upgradeType;
        g \<leftarrow> set_unit u (\<lambda>d. d\<lparr>ud_remainingUpgradeTime := upgradeTime upgradeType (level + 1)\<rparr>) g;
        g \<leftarrow> add_resources p (- upgrade_mineralPrice upgradeType (level + 1))
              (- upgrade_gasPrice upgradeType (level + 1)) g;
        set_player p (\<lambda>d. d\<lparr>pd_isUpgrading := (pd_isUpgrading d)(nat upgradeType := True)\<rparr>) g })"

definition lc_set_rally_position :: "unit_command \<Rightarrow> nat \<Rightarrow> effect" where
  "lc_set_rally_position c u g =
     (if \<not> canProduce (getType g u) then Some g
      else set_unit u (\<lambda>d. d\<lparr>ud_order := Order_RallyPointTile, ud_rallyPositionX := uc_x c,
             ud_rallyPositionY := uc_y c, ud_rallyUnit := - 1\<rparr>) g)"

definition lc_set_rally_unit :: "unit_command \<Rightarrow> nat \<Rightarrow> effect" where
  "lc_set_rally_unit c u g =
     (if \<not> canProduce (getType g u) then Some g
      else case target_of c of
        None \<Rightarrow> Some g
      | Some t \<Rightarrow>
          if \<not> unit_exists g t then Some g
          else set_unit u (\<lambda>d. d\<lparr>ud_order := Order_RallyPointUnit, ud_rallyUnit := getUnitID g (Some t)\<rparr>) g)"

section \<open>Cancelling\<close>

definition lc_cancel_addon :: "event_type \<Rightarrow> nat option \<Rightarrow> nat \<Rightarrow> effect" where
  "lc_cancel_addon ev p u g =
     (case ev of
        Resource_Event \<Rightarrow>
          (let addonType = mkType UnitType_Unknown (ud_buildType (g_unit g u)) in do {
             g \<leftarrow> add_resources p (three_quarters (mineralPrice addonType)) (three_quarters (gasPrice addonType)) g;
             set_unit u (\<lambda>d. d\<lparr>ud_buildType := UnitType_None\<rparr>) g })
      | Order_Event \<Rightarrow> set_unit u (\<lambda>d. d\<lparr>ud_remainingBuildTime := 0, ud_isConstructing := False,
          ud_order := Order_Nothing, ud_isIdle := True, ud_buildUnit := - 1\<rparr>) g
      | Finish_Event \<Rightarrow> Some g)"

text \<open>The three parts of the case: the builder of a Terran building, the refund, the Zerg drone.\<close>

definition release_builder :: "event_type \<Rightarrow> nat \<Rightarrow> effect" where
  "release_builder ev u g =
     (if own_race g u \<noteq> Race_Terran then Some g
      else case getUnit g (ud_buildUnit (g_unit g u)) of
        None \<Rightarrow> Some g
      | Some b \<Rightarrow>
          if \<not> unit_exists g b then Some g
          else case ev of
            Resource_Event \<Rightarrow> set_unit b (\<lambda>d. d\<lparr>ud_buildType := UnitType_None\<rparr>) g
          | Order_Event \<Rightarrow> set_unit b (\<lambda>d. d\<lparr>ud_isConstructing := False, ud_order := Order_ResetCollision\<rparr>) g
          | Finish_Event \<Rightarrow> set_unit b (\<lambda>d. d\<lparr>ud_order := Order_PlayerGuard\<rparr>) g)"

definition refund_building :: "nat option \<Rightarrow> nat \<Rightarrow> effect" where
  "refund_building p u g = do {
     g \<leftarrow> set_unit u (\<lambda>d. d\<lparr>ud_buildUnit := - 1\<rparr>) g;
     g \<leftarrow> add_resources p (three_quarters (mineralPrice (getType g u))) (three_quarters (gasPrice (getType g u))) g;
     set_unit u (\<lambda>d. d\<lparr>ud_remainingBuildTime := 0\<rparr>) g }"

definition return_drone :: "event_type \<Rightarrow> nat option \<Rightarrow> nat \<Rightarrow> effect" where
  "return_drone ev p u g =
     (if own_race g u \<noteq> Race_Zerg then Some g
      else case ev of
        Resource_Event \<Rightarrow> do {
          g \<leftarrow> set_unit u (\<lambda>d. d\<lparr>ud_type := fst (whatBuilds (getType g u)), ud_buildType := UnitType_None,
                ud_isMorphing := False, ud_order := Order_ResetCollision, ud_isConstructing := False\<rparr>) g;
          add_supply p (own_race g u) (supplyRequired (getType g u)) g }
      | Order_Event \<Rightarrow> set_unit u (\<lambda>d. d\<lparr>ud_order := Order_PlayerGuard, ud_isIdle := True\<rparr>) g
      | Finish_Event \<Rightarrow> Some g)"

definition lc_cancel_construction :: "event_type \<Rightarrow> nat option \<Rightarrow> nat \<Rightarrow> effect" where
  "lc_cancel_construction ev p u g = do {
     g \<leftarrow> release_builder ev u g;
     g \<leftarrow> if ev = Resource_Event then refund_building p u g else Some g;
     return_drone ev p u g }"

text \<open>The type a cancelled morph goes back to.\<close>

definition morphed_from :: "game \<Rightarrow> nat \<Rightarrow> int" where
  "morphed_from g u = fst (whatBuilds (mkType UnitType_Unknown (ud_buildType (g_unit g u))))"

definition cancel_morph_resources :: "nat option \<Rightarrow> nat \<Rightarrow> effect" where
  "cancel_morph_resources p u g =
     (let builtType = mkType UnitType_Unknown (ud_buildType (g_unit g u)); newType = morphed_from g u in do {
        g \<leftarrow> if isBuilding newType
            then add_resources p (three_quarters (mineralPrice builtType)) (three_quarters (gasPrice builtType)) g
            else add_resources p (mineralPrice builtType) (gasPrice builtType) g;
        g \<leftarrow> if isBuilding newType \<and> producesCreep newType
            then set_unit u (\<lambda>d. d\<lparr>ud_order := Order_InitCreepGrowth\<rparr>) g else Some g;
        g \<leftarrow> if ud_type (g_unit g u) \<noteq> Zerg_Egg then set_unit u (\<lambda>d. d\<lparr>ud_type := newType\<rparr>) g else Some g;
        set_unit u (\<lambda>d. d\<lparr>ud_buildType := UnitType_None, ud_isConstructing := False, ud_isMorphing := False,
          ud_isCompleted := True, ud_remainingBuildTime := 0\<rparr>) g })"

definition hatchery_or_lair :: "game \<Rightarrow> nat \<Rightarrow> bool" where
  "hatchery_or_lair g u \<longleftrightarrow> ud_type (g_unit g u) = Zerg_Hatchery \<or> ud_type (g_unit g u) = Zerg_Lair"

definition cancel_morph_order :: "nat option \<Rightarrow> nat \<Rightarrow> effect" where
  "cancel_morph_order p u g =
     (if isBuilding (getType g u) then do {
        g \<leftarrow> set_unit u (\<lambda>d. d\<lparr>ud_isIdle := True, ud_order := Order_Nothing\<rparr>) g;
        if hatchery_or_lair g u
        then set_unit u (\<lambda>d. d\<lparr>ud_secondaryOrder := Order_SpreadCreep\<rparr>) g else Some g }
      else do {
        g \<leftarrow> add_supply p (own_race g u) (- egg_supply (getType g u)) g;
        add_supply p (own_race g u)
          (supplyRequired (fst (whatBuilds (getType g u))) * snd (whatBuilds (getType g u))) g })"

definition cancel_morph_finish :: "nat \<Rightarrow> effect" where
  "cancel_morph_finish u g =
     (if hatchery_or_lair g u then set_unit u (\<lambda>d. d\<lparr>ud_secondaryOrder := Order_SpawningLarva\<rparr>) g
      else if \<not> isBuilding (getType g u)
      then set_unit u (\<lambda>d. d\<lparr>ud_order := Order_PlayerGuard, ud_isCompleted := True,
             ud_isConstructing := False, ud_isIdle := True, ud_isMorphing := False\<rparr>) g
      else Some g)"

definition lc_cancel_morph :: "event_type \<Rightarrow> nat option \<Rightarrow> nat \<Rightarrow> effect" where
  "lc_cancel_morph ev p u g =
     (case ev of
        Resource_Event \<Rightarrow> cancel_morph_resources p u g
      | Order_Event \<Rightarrow> cancel_morph_order p u g
      | Finish_Event \<Rightarrow> cancel_morph_finish u g)"

definition lc_cancel_research :: "event_type \<Rightarrow> nat option \<Rightarrow> nat \<Rightarrow> effect" where
  "lc_cancel_research ev p u g =
     (case ev of
        Resource_Event \<Rightarrow>
          (let techType = mkType TechType_Unknown (ud_tech (g_unit g u)) in do {
             g \<leftarrow> add_resources p (tech_mineralPrice techType) (tech_gasPrice techType) g;
             set_unit u (\<lambda>d. d\<lparr>ud_remainingResearchTime := 0, ud_tech := TechType_None\<rparr>) g })
      | Order_Event \<Rightarrow> set_unit u (\<lambda>d. d\<lparr>ud_order := Order_Nothing, ud_isIdle := True\<rparr>) g
      | Finish_Event \<Rightarrow> Some g)"

text \<open>\<open>Cancel_Train\<close>: the last unit in the queue.\<close>

definition cancel_train_resources :: "nat option \<Rightarrow> nat \<Rightarrow> effect" where
  "cancel_train_resources p u g = do {
     t \<leftarrow> queue_at g u (ud_trainingQueueCount (g_unit g u) - 1);
     let unitType = mkType UnitType_Unknown t;
     g \<leftarrow> add_resources p (mineralPrice unitType) (gasPrice unitType) g;
     g \<leftarrow> set_unit u (\<lambda>d. d\<lparr>ud_buildUnit := - 1\<rparr>) g;
     if ud_trainingQueueCount (g_unit g u) = 1
     then set_unit u (\<lambda>d. d\<lparr>ud_isIdle := False, ud_isTraining := False\<rparr>) g else Some g }"

definition cancel_train_order :: "nat option \<Rightarrow> nat \<Rightarrow> effect" where
  "cancel_train_order p u g = do {
     g \<leftarrow> set_unit u (\<lambda>d. d\<lparr>ud_trainingQueueCount := ud_trainingQueueCount d - 1\<rparr>) g;
     t \<leftarrow> queue_at g u (ud_trainingQueueCount (g_unit g u));
     let unitType = mkType UnitType_Unknown t;
     g \<leftarrow> add_supply p (getRaceType unitType) (- supplyRequired unitType) g;
     if ud_trainingQueueCount (g_unit g u) = 0
     then set_unit u (\<lambda>d. d\<lparr>ud_buildType := UnitType_None\<rparr>) g
     else do {
       t \<leftarrow> queue_at g u (ud_trainingQueueCount (g_unit g u) - 1);
       set_unit u (\<lambda>d. d\<lparr>ud_remainingTrainTime := buildTime (mkType UnitType_Unknown t), ud_buildType := t\<rparr>) g } }"

definition lc_cancel_train :: "event_type \<Rightarrow> nat option \<Rightarrow> nat \<Rightarrow> effect" where
  "lc_cancel_train ev p u g =
     (case ev of
        Resource_Event \<Rightarrow> cancel_train_resources p u g
      | Order_Event \<Rightarrow> cancel_train_order p u g
      | Finish_Event \<Rightarrow>
          if ud_buildType (g_unit g u) = UnitType_None
          then set_unit u (\<lambda>d. d\<lparr>ud_order := Order_Nothing\<rparr>) g else Some g)"

text \<open>\<open>for (int i = slot; i < 4; ++i) trainingQueue[i] = trainingQueue[i + 1];\<close>\<close>

definition shift_queue :: "nat \<Rightarrow> int list \<Rightarrow> int list" where
  "shift_queue slot = fold (\<lambda>i q. q[i := q ! Suc i]) [slot..<4]"

definition lc_cancel_train_slot :: "event_type \<Rightarrow> unit_command \<Rightarrow> nat option \<Rightarrow> nat \<Rightarrow> effect" where
  "lc_cancel_train_slot ev c p u g =
     (if uc_extra c \<noteq> 0 then
        if ev = Resource_Event then do {
          t \<leftarrow> queue_at g u (uc_extra c);
          let unitType = mkType UnitType_Unknown t;
          g \<leftarrow> add_resources p (mineralPrice unitType) (gasPrice unitType) g;
          set_unit u (\<lambda>d. d\<lparr>ud_trainingQueue := shift_queue (nat (uc_extra c)) (ud_trainingQueue d),
            ud_trainingQueueCount := ud_trainingQueueCount d - 1\<rparr>) g }
        else Some g
      else lc_cancel_train ev p u g)"

definition lc_cancel_upgrade :: "event_type \<Rightarrow> nat option \<Rightarrow> nat \<Rightarrow> effect" where
  "lc_cancel_upgrade ev p u g =
     (case ev of
        Resource_Event \<Rightarrow>
          (let upgradeType = mkType UpgradeType_Unknown (ud_upgrade (g_unit g u)) in do {
             owner \<leftarrow> getPlayer g u;
             let nextLevel = getUpgradeLevel g owner upgradeType + 1;
             g \<leftarrow> add_resources p (upgrade_mineralPrice upgradeType nextLevel) (upgrade_gasPrice upgradeType nextLevel) g;
             set_unit u (\<lambda>d. d\<lparr>ud_upgrade := UpgradeType_None, ud_remainingUpgradeTime := 0\<rparr>) g })
      | Order_Event \<Rightarrow> set_unit u (\<lambda>d. d\<lparr>ud_order := Order_Nothing, ud_isIdle := True\<rparr>) g
      | Finish_Event \<Rightarrow> Some g)"

definition lc_halt_construction :: "event_type \<Rightarrow> nat \<Rightarrow> effect" where
  "lc_halt_construction ev u g =
     (case ev of
        Order_Event \<Rightarrow> do {
          g \<leftarrow> case getUnit g (ud_buildUnit (g_unit g u)) of
                 None \<Rightarrow> Some g | Some b \<Rightarrow> set_unit b (\<lambda>d. d\<lparr>ud_buildUnit := - 1\<rparr>) g;
          set_unit u (\<lambda>d. d\<lparr>ud_buildUnit := - 1, ud_order := Order_ResetCollision,
            ud_isConstructing := False, ud_buildType := UnitType_None\<rparr>) g }
      | Finish_Event \<Rightarrow> set_unit u (\<lambda>d. d\<lparr>ud_order := Order_PlayerGuard, ud_isIdle := True\<rparr>) g
      | Resource_Event \<Rightarrow> Some g)"

section \<open>Gathering, transports and abilities\<close>

definition lc_gather :: "unit_command \<Rightarrow> nat \<Rightarrow> effect" where
  "lc_gather c u g = do {
     g \<leftarrow> set_unit u (\<lambda>d. d\<lparr>ud_target := getUnitID g (target_of c), ud_isIdle := False,
           ud_isMoving := True, ud_isGathering := True\<rparr>) g;
     t \<leftarrow> target_of c;
     if isMineralField (getType g t) then set_unit u (\<lambda>d. d\<lparr>ud_order := Order_MoveToMinerals\<rparr>) g
     else if isRefinery (getType g t) then set_unit u (\<lambda>d. d\<lparr>ud_order := Order_MoveToGas\<rparr>) g
     else Some g }"

definition lc_return_cargo :: "nat \<Rightarrow> effect" where
  "lc_return_cargo u g =
     (if ud_carryResourceType (g_unit g u) = 0 then Some g
      else set_unit u (\<lambda>d. d\<lparr>ud_order := if isCarryingGas g u then Order_ReturnGas else Order_ReturnMinerals,
             ud_isGathering := True, ud_isIdle := False\<rparr>) g)"

definition lc_repair :: "unit_command \<Rightarrow> nat \<Rightarrow> effect" where
  "lc_repair c u g =
     (if getType g u \<noteq> Terran_SCV then Some g
      else set_unit u (\<lambda>d. d\<lparr>ud_order := Order_Repair, ud_target := getUnitID g (target_of c),
             ud_isIdle := False\<rparr>) g)"

definition lc_load :: "unit_command \<Rightarrow> nat \<Rightarrow> effect" where
  "lc_load c u g = do {
     g \<leftarrow> if getType g u = Terran_Bunker
         then set_unit u (\<lambda>d. d\<lparr>ud_order := Order_PickupBunker, ud_target := getUnitID g (target_of c)\<rparr>) g
         else if spaceProvided (getType g u) \<noteq> 0
         then set_unit u (\<lambda>d. d\<lparr>ud_order := Order_PickupTransport, ud_target := getUnitID g (target_of c)\<rparr>) g
         else do {
           t \<leftarrow> target_of c;
           if spaceProvided (getType g t) \<noteq> 0
           then set_unit u (\<lambda>d. d\<lparr>ud_order := Order_EnterTransport, ud_target := getUnitID g (Some t)\<rparr>) g
           else Some g };
     set_unit u (\<lambda>d. d\<lparr>ud_isIdle := False\<rparr>) g }"

definition lc_unload :: "unit_command \<Rightarrow> nat \<Rightarrow> effect" where
  "lc_unload c u g = set_unit u (\<lambda>d. d\<lparr>ud_order := Order_Unload, ud_target := getUnitID g (target_of c)\<rparr>) g"

definition lc_unload_all_position :: "unit_command \<Rightarrow> nat \<Rightarrow> effect" where
  "lc_unload_all_position c u =
     set_unit u (\<lambda>d. aim_at (uc_x c) (uc_y c) (d\<lparr>ud_order := Order_MoveUnload\<rparr>))"

definition lc_unload_all :: "unit_command \<Rightarrow> nat \<Rightarrow> effect" where
  "lc_unload_all c u g =
     (if getType g u = Terran_Bunker then set_unit u (\<lambda>d. d\<lparr>ud_order := Order_Unload\<rparr>) g
      else set_unit u (\<lambda>d. aim_at (uc_x c) (uc_y c) (d\<lparr>ud_order := Order_MoveUnload\<rparr>)) g)"

definition lc_lift :: "nat \<Rightarrow> effect" where
  "lc_lift u = set_unit u (\<lambda>d. d\<lparr>ud_order := Order_BuildingLiftOff, ud_isIdle := False\<rparr>)"

definition lc_land :: "nat \<Rightarrow> effect" where
  "lc_land u = set_unit u (\<lambda>d. d\<lparr>ud_order := Order_BuildingLand, ud_isIdle := False\<rparr>)"

text \<open>Burrow, Decloak, Siege, Unburrow and Unsiege only set the order.\<close>

definition lc_order :: "int \<Rightarrow> nat \<Rightarrow> effect" where
  "lc_order ord u = set_unit u (\<lambda>d. d\<lparr>ud_order := ord\<rparr>)"

definition lc_cloak :: "nat \<Rightarrow> effect" where
  "lc_cloak u g = set_unit u (\<lambda>d. d\<lparr>ud_order := Order_Cloak,
     ud_energy := ud_energy d - energyCost (cloakingTech (getType g u))\<rparr>) g"

definition lc_use_tech :: "unit_command \<Rightarrow> nat \<Rightarrow> effect" where
  "lc_use_tech c u g =
     (if mkType TechType_Unknown (uc_extra c) = Tech_Stim_Packs \<and> ud_hitPoints (g_unit g u) > 10
      then set_unit u (\<lambda>d. d\<lparr>ud_hitPoints := ud_hitPoints d - 10, ud_stimTimer := 17\<rparr>) g else Some g)"

definition lc_use_tech_position :: "unit_command \<Rightarrow> nat \<Rightarrow> effect" where
  "lc_use_tech_position c u g =
     (let techType = mkType TechType_Unknown (uc_extra c) in
      if \<not> targetsPosition techType then Some g
      else set_unit u (\<lambda>d. aim_at (uc_x c) (uc_y c) (d\<lparr>ud_order := techOrder techType\<rparr>)) g)"

definition lc_use_tech_unit :: "unit_command \<Rightarrow> nat \<Rightarrow> effect" where
  "lc_use_tech_unit c u g =
     (let techType = mkType TechType_Unknown (uc_extra c) in
      if \<not> targetsUnit techType then Some g
      else do {
        g \<leftarrow> set_unit u (\<lambda>d. d\<lparr>ud_order := techOrder techType, ud_orderTarget := getUnitID g (target_of c)\<rparr>) g;
        t \<leftarrow> target_of c;
        let (x, y) = getPosition g t;
        set_unit u (aim_at x y) g })"

section \<open>The command\<close>

text \<open>The switch over the type of the command.\<close>

definition apply_command :: "bool \<Rightarrow> lat_command \<Rightarrow> nat \<Rightarrow> effect" where
  "apply_command cur k u =
     (let c = lc_command k; ev = lc_event k; p = lc_player k; t = uc_type c in
      if t = Attack_Move then lc_attack_move c u
      else if t = Attack_Unit then lc_attack_unit c u
      else if t = Build then lc_build c u
      else if t = Build_Addon then lc_build_addon cur ev c p u
      else if t = Burrow then lc_order Order_Burrowing u
      else if t = Cancel_Addon then lc_cancel_addon ev p u
      else if t = Cancel_Construction then lc_cancel_construction ev p u
      else if t = Cancel_Morph then lc_cancel_morph ev p u
      else if t = Cancel_Research then lc_cancel_research ev p u
      else if t = Cancel_Train_Slot then lc_cancel_train_slot ev c p u
      else if t = Cancel_Train then lc_cancel_train ev p u
      else if t = Cancel_Upgrade then lc_cancel_upgrade ev p u
      else if t = Cloak then lc_cloak u
      else if t = Decloak then lc_order Order_Decloak u
      else if t = Follow then lc_follow c u
      else if t = Gather then lc_gather c u
      else if t = Halt_Construction then lc_halt_construction ev u
      else if t = Hold_Position then lc_hold_position u
      else if t = Land then lc_land u
      else if t = Lift then lc_lift u
      else if t = Load then lc_load c u
      else if t = Morph then lc_morph cur ev c p u
      else if t = Move then lc_move c u
      else if t = Patrol then lc_patrol c u
      else if t = Repair then lc_repair c u
      else if t = Research then lc_research c p u
      else if t = Return_Cargo then lc_return_cargo u
      else if t = Right_Click_Position then lc_right_click_position c u
      else if t = Right_Click_Unit then lc_right_click_unit c u
      else if t = Set_Rally_Position then lc_set_rally_position c u
      else if t = Set_Rally_Unit then lc_set_rally_unit c u
      else if t = Siege then lc_order Order_Sieging u
      else if t = Stop then lc_stop u
      else if t = Train then lc_train cur c p u
      else if t = Unburrow then lc_order Order_Unburrowing u
      else if t = Unload then lc_unload c u
      else if t = Unload_All then lc_unload_all c u
      else if t = Unload_All_Position then lc_unload_all_position c u
      else if t = Unsiege then lc_order Order_Unsieging u
      else if t = Upgrade then lc_upgrade c p u
      else if t = Use_Tech then lc_use_tech c u
      else if t = Use_Tech_Position then lc_use_tech_position c u
      else if t = Use_Tech_Unit then lc_use_tech_unit c u
      else Some)"

text \<open>The commands that act on the current frame, and those that need a unit that can move.\<close>

definition acts_now :: "lat_command \<Rightarrow> bool" where
  "acts_now k \<longleftrightarrow> uc_type (lc_command k) \<in> {Morph, Build_Addon, Train} \<and> lc_event k = Resource_Event"

definition needs_motion :: "int \<Rightarrow> bool" where
  "needs_motion t \<longleftrightarrow> t \<in> {Follow, Hold_Position, Move, Patrol, Right_Click_Position, Attack_Move}"

text \<open>\<open>if (!player) player = unit ? unit->getPlayer() : Broodwar->self();\<close>\<close>

definition claim_player :: "game \<Rightarrow> lat_command \<Rightarrow> lat_command" where
  "claim_player g k =
     (case lc_player k of
        Some p \<Rightarrow> k
      | None \<Rightarrow> k\<lparr>lc_player := (case uc_unit (lc_command k) of
                  Some v \<Rightarrow> getPlayer g (u_index v) | None \<Rightarrow> g_self g)\<rparr>)"

definition execute_at :: "bool \<Rightarrow> bool \<Rightarrow> lat_command \<Rightarrow> game \<Rightarrow> (lat_command \<times> game) option" where
  "execute_at latcom cur k g =
     (if \<not> latcom \<or> isQueued (lc_command k) then Some (k, g)
      else if cur \<and> \<not> acts_now k then Some (k, g)
      else
        let k = claim_player g k in
        case uc_unit (lc_command k) of
          None \<Rightarrow> None
        | Some v \<Rightarrow>
            let u = u_index v in
            if \<not> unit_exists g u then Some (k, g)
            else if needs_motion (uc_type (lc_command k)) \<and> \<not> type_canMove (getType g u) then Some (k, g)
            else map_option (Pair k) (apply_command cur k u g))"

end
