(* ===== verification/Latency_Buffer.thy ===== *)
theory Latency_Buffer
  imports Latency_Effects
begin

text \<open>
  The latency buffer: how an issued command is entered (\<open>CommandTemp::insertIntoCommandBuffer\<close>) and
  how the buffer is replayed over the mirror each frame (\<open>GameImpl::applyLatencyCompensation\<close>), with
  the number of frames a command still has to travel (\<open>getRemainingLatencyFrames\<close>). Slot \<open>i\<close> holds
  the events that have \<open>i + 1\<close> frames left. \<open>on\<close> is \<open>isLatComEnabled\<close>, \<open>rlf\<close> the remaining frames.
\<close>

section \<open>The clock\<close>

text \<open>
  What Brood War and Storm report: the frames of a turn at the current speed, the latency setting
  and, in a network game, the call delay of the provider.
\<close>

record latency_clock =
  lk_turnFrames :: int
  lk_latency :: int
  lk_netMode :: bool
  lk_callDelay :: int
  lk_frameCount :: int
  lk_lastTurnFrame :: int

definition getLatencyFrames :: "latency_clock \<Rightarrow> int" where
  "getLatencyFrames k =
     (let callDelay = (if lk_netMode k then max 2 (min 8 (lk_callDelay k)) else 1)
      in lk_turnFrames k * (lk_latency k + callDelay + 1))"

definition getRemainingLatencyFrames :: "latency_clock \<Rightarrow> int" where
  "getRemainingLatencyFrames k = getLatencyFrames k - (lk_frameCount k - lk_lastTurnFrame k)"

section \<open>Entering a command\<close>

type_synonym lat_buffer = "lat_command list list"

definition make_event :: "lat_command \<Rightarrow> event_type \<Rightarrow> lat_command" where
  "make_event k ev = (new_command (lc_command k))\<lparr>lc_event := ev\<rparr>"

definition grow :: "nat \<Rightarrow> lat_buffer \<Rightarrow> lat_buffer" where
  "grow n buf = buf @ replicate (n - length buf) []"

definition add_to_buffer ::
    "bool \<Rightarrow> lat_command \<Rightarrow> int \<Rightarrow> lat_buffer \<times> game \<Rightarrow> (lat_buffer \<times> game) option" where
  "add_to_buffer on k frames s = do {
     (k, g) \<leftarrow> execute_at on (frames = 0) k (snd s);
     let buf = grow (nat frames) (fst s);
     Some (if frames > 0 then buf[nat (frames - 1) := buf ! nat (frames - 1) @ [k]] else buf, g) }"

text \<open>Whether a cancelled morph is scheduled as that of a building: the type after the first event.\<close>

definition commands_building :: "lat_command \<Rightarrow> game \<Rightarrow> bool" where
  "commands_building k g \<longleftrightarrow>
     (case uc_unit (lc_command k) of None \<Rightarrow> False | Some v \<Rightarrow> isBuilding (getType g (u_index v)))"

definition insertIntoCommandBuffer ::
    "bool \<Rightarrow> int \<Rightarrow> lat_command \<Rightarrow> lat_buffer \<times> game \<Rightarrow> (lat_buffer \<times> game) option" where
  "insertIntoCommandBuffer on rlf k s =
     (let orderEvent = make_event k Order_Event; finishEvent = make_event k Finish_Event;
          t = uc_type (lc_command k) in
      if t = Cancel_Construction then do {
        s \<leftarrow> add_to_buffer on k rlf s;
        s \<leftarrow> add_to_buffer on orderEvent (rlf + 1) s;
        add_to_buffer on finishEvent (rlf + 2) s }
      else if t \<in> {Build_Addon, Cancel_Addon, Cancel_Research, Cancel_Upgrade, Morph} then do {
        s \<leftarrow> add_to_buffer on k rlf s;
        add_to_buffer on orderEvent (rlf + 1) s }
      else if t = Cancel_Morph then do {
        s \<leftarrow> add_to_buffer on k rlf s;
        if commands_building k (snd s) then do {
          s \<leftarrow> add_to_buffer on orderEvent (rlf + 1) s;
          add_to_buffer on finishEvent (rlf + 15) s }
        else add_to_buffer on finishEvent (rlf + 13) s }
      else if t \<in> {Cancel_Train, Cancel_Train_Slot} then do {
        s \<leftarrow> add_to_buffer on k rlf s;
        s \<leftarrow> add_to_buffer on orderEvent (rlf + 1) s;
        add_to_buffer on finishEvent (rlf + 3) s }
      else if t = Halt_Construction then do {
        s \<leftarrow> add_to_buffer on (k\<lparr>lc_event := Order_Event\<rparr>) rlf s;
        add_to_buffer on finishEvent (rlf + 1) s }
      else add_to_buffer on k rlf s)"

text \<open>\<open>GameImpl::addToCommandBuffer\<close>, from a unit command.\<close>

definition addToCommandBuffer ::
    "bool \<Rightarrow> int \<Rightarrow> unit_command \<Rightarrow> lat_buffer \<times> game \<Rightarrow> (lat_buffer \<times> game) option" where
  "addToCommandBuffer on rlf c = insertIntoCommandBuffer on rlf (new_command c)"

section \<open>Replaying the buffer\<close>

text \<open>\<open>execute()\<close>: it turns every event of \<open>Halt_Construction\<close> into the order event.\<close>

definition execute :: "bool \<Rightarrow> int \<Rightarrow> lat_command \<Rightarrow> game \<Rightarrow> (lat_command \<times> game) option" where
  "execute on rlf k =
     execute_at on (rlf = 0)
       (if uc_type (lc_command k) = Halt_Construction then k\<lparr>lc_event := Order_Event\<rparr> else k)"

text \<open>A loop over the commands of a slot, which the calls change, and over slots.\<close>

fun run_slot ::
    "(lat_command \<Rightarrow> game \<Rightarrow> (lat_command \<times> game) option) \<Rightarrow> lat_command list \<Rightarrow> game
     \<Rightarrow> (lat_command list \<times> game) option" where
  "run_slot f [] g = Some ([], g)"
| "run_slot f (k # ks) g = do {
     (k, g) \<leftarrow> f k g;
     (ks, g) \<leftarrow> run_slot f ks g;
     Some (k # ks, g) }"

fun run_slots ::
    "(lat_command \<Rightarrow> game \<Rightarrow> (lat_command \<times> game) option) \<Rightarrow> lat_buffer \<Rightarrow> game
     \<Rightarrow> (lat_buffer \<times> game) option" where
  "run_slots f [] g = Some ([], g)"
| "run_slots f (ks # kss) g = do {
     (ks, g) \<leftarrow> run_slot f ks g;
     (kss, g) \<leftarrow> run_slots f kss g;
     Some (ks # kss, g) }"

text \<open>
  The last resize compares and resizes with \<open>size_t\<close>; with a negative length it throws.
\<close>

definition applyLatencyCompensation ::
    "bool \<Rightarrow> int \<Rightarrow> lat_buffer \<times> game \<Rightarrow> (lat_buffer \<times> game) option" where
  "applyLatencyCompensation on rlf s = do {
     g \<leftarrow> if fst s = [] then Some (snd s)
         else map_option snd (run_slot (execute_at on True) (hd (fst s)) (snd s));
     (now, g) \<leftarrow> run_slots (execute on rlf) (take (nat rlf) (tl (fst s))) g;
     let buf = now @ drop (nat rlf) (tl (fst s));
     if rlf + 15 < 0 then None else Some (grow (nat (rlf + 15)) buf, g) }"

text \<open>
  The frames after a command: each starts from the mirror as it was read from the game, which
  \<open>updateUnits\<close> refreshes before the buffer is applied.
\<close>

fun latency_frames :: "bool \<Rightarrow> (int \<times> game) list \<Rightarrow> lat_buffer \<Rightarrow> lat_buffer option" where
  "latency_frames on [] buf = Some buf"
| "latency_frames on ((rlf, g) # fs) buf = do {
     s \<leftarrow> applyLatencyCompensation on rlf (buf, g);
     latency_frames on fs (fst s) }"

end
