(* ===== verification/Latency_Rules.thy ===== *)
theory Latency_Rules
  imports Latency_Buffer
begin

text \<open>
  Reasoning about effects: a reflexive and transitive relation between the mirror before and after
  is carried through the steps of an effect (\<open>state_relation\<close>). Its two instances are the units and
  players an effect may touch, and the shape of the data (\<open>mirror_ok\<close>).
\<close>

section \<open>Relations carried through an effect\<close>

locale state_relation =
  fixes R :: "game \<Rightarrow> game \<Rightarrow> bool"
  assumes stays: "R g g"
    and joins: "R g1 g2 \<Longrightarrow> R g2 g3 \<Longrightarrow> R g1 g3"
begin

definition reaches :: "game \<Rightarrow> game option \<Rightarrow> bool" where
  "reaches g x \<longleftrightarrow> (\<forall>g'. x = Some g' \<longrightarrow> R g g')"

lemma reachesD: "reaches g (Some g') \<Longrightarrow> R g g'"
  by (simp add: reaches_def)

lemma reaches_None: "reaches g None"
  by (simp add: reaches_def)

lemma reaches_Some: "reaches g (Some g)"
  by (simp add: reaches_def stays)

lemma reaches_bind:
  assumes "reaches g x" "\<And>g'. x = Some g' \<Longrightarrow> reaches g' (h g')"
  shows "reaches g (x \<bind> h)"
  using assms joins by (cases x) (auto simp: reaches_def)

lemma reaches_value: "(\<And>t :: nat. x = Some t \<Longrightarrow> reaches g (h t)) \<Longrightarrow> reaches g (x \<bind> h)"
  by (cases x) (simp_all add: reaches_None)

lemma reaches_entry: "(\<And>t :: int. x = Some t \<Longrightarrow> reaches g (h t)) \<Longrightarrow> reaches g (x \<bind> h)"
  by (cases x) (simp_all add: reaches_None)

lemma reaches_if: "(b \<Longrightarrow> reaches g x) \<Longrightarrow> (\<not> b \<Longrightarrow> reaches g y) \<Longrightarrow> reaches g (if b then x else y)"
  by simp

lemma reaches_option:
  "(x = None \<Longrightarrow> reaches g a) \<Longrightarrow> (\<And>t. x = Some t \<Longrightarrow> reaches g (b t)) \<Longrightarrow>
   reaches g (case x of None \<Rightarrow> a | Some t \<Rightarrow> b t)"
  by (cases x) simp_all

lemma reaches_event:
  "reaches g a \<Longrightarrow> reaches g b \<Longrightarrow> reaches g c \<Longrightarrow>
   reaches g (case ev of Order_Event \<Rightarrow> a | Resource_Event \<Rightarrow> b | Finish_Event \<Rightarrow> c)"
  by (cases ev) simp_all

lemma reaches_pair: "(\<And>x y. p = (x, y) \<Longrightarrow> reaches g (h x y)) \<Longrightarrow> reaches g (case p of (x, y) \<Rightarrow> h x y)"
  by (cases p) simp

lemma reaches_let: "(\<And>x. x = v \<Longrightarrow> reaches g (h x)) \<Longrightarrow> reaches g (let x = v in h x)"
  by simp

lemmas reaches_rules =
  reaches_bind reaches_value reaches_entry reaches_if reaches_option reaches_event reaches_pair
  reaches_let reaches_None reaches_Some

end

section \<open>What an effect may touch\<close>

text \<open>
  The mirror outside the units \<open>U\<close> and the players \<open>P\<close> is as it was, and no unit has moved, changed
  owner or identity, appeared or disappeared, or lost more than the ten hit points of a stim pack.
\<close>

definition same_body :: "unit_data \<Rightarrow> unit_data \<Rightarrow> bool" where
  "same_body d d' \<longleftrightarrow> ud_id d' = ud_id d \<and> ud_player d' = ud_player d \<and> ud_exists d' = ud_exists d
     \<and> ud_positionX d' = ud_positionX d \<and> ud_positionY d' = ud_positionY d
     \<and> ud_addon d' = ud_addon d \<and> ud_transport d' = ud_transport d
     \<and> ud_isBurrowed d' = ud_isBurrowed d \<and> ud_isLifted d' = ud_isLifted d
     \<and> ud_connectedUnits d' = ud_connectedUnits d \<and> ud_loadedUnits d' = ud_loadedUnits d"

definition touches :: "nat set \<Rightarrow> nat set \<Rightarrow> game \<Rightarrow> game \<Rightarrow> bool" where
  "touches U P g g' \<longleftrightarrow>
     g' = g\<lparr>g_unit := g_unit g', g_player := g_player g'\<rparr>
     \<and> (\<forall>v. same_body (g_unit g v) (g_unit g' v))
     \<and> (\<forall>v. v \<notin> U \<longrightarrow> g_unit g' v = g_unit g v)
     \<and> (\<forall>p. p \<notin> P \<longrightarrow> g_player g' p = g_player g p)"

lemma same_body_refl [simp]: "same_body d d"
  by (simp add: same_body_def)

lemma touches_refl: "touches U P g g"
  by (simp add: touches_def)

lemma touchesE:
  assumes "touches U P g g'"
  obtains fu fp where "g' = g\<lparr>g_unit := fu, g_player := fp\<rparr>"
    "\<And>v. same_body (g_unit g v) (fu v)" "\<And>v. v \<notin> U \<Longrightarrow> fu v = g_unit g v"
    "\<And>p. p \<notin> P \<Longrightarrow> fp p = g_player g p"
  using assms that [of "g_player g'" "g_unit g'"] unfolding touches_def by metis

lemma touchesI:
  assumes "\<And>v. same_body (g_unit g v) (fu v)" "\<And>v. v \<notin> U \<Longrightarrow> fu v = g_unit g v"
    "\<And>p. p \<notin> P \<Longrightarrow> fp p = g_player g p"
  shows "touches U P g (g\<lparr>g_unit := fu, g_player := fp\<rparr>)"
  using assms by (simp add: touches_def)

lemma same_body_trans: "same_body d1 d2 \<Longrightarrow> same_body d2 d3 \<Longrightarrow> same_body d1 d3"
  by (simp add: same_body_def)

lemma touches_trans:
  assumes "touches U P g1 g2" "touches U P g2 g3"
  shows "touches U P g1 g3"
proof -
  from assms(1) obtain fu fp where 2: "g2 = g1\<lparr>g_unit := fu, g_player := fp\<rparr>"
    "\<And>v. same_body (g_unit g1 v) (fu v)" "\<And>v. v \<notin> U \<Longrightarrow> fu v = g_unit g1 v"
    "\<And>p. p \<notin> P \<Longrightarrow> fp p = g_player g1 p" by (rule touchesE) blast
  from assms(2) obtain hu hp where 3: "g3 = g2\<lparr>g_unit := hu, g_player := hp\<rparr>"
    "\<And>v. same_body (g_unit g2 v) (hu v)" "\<And>v. v \<notin> U \<Longrightarrow> hu v = g_unit g2 v"
    "\<And>p. p \<notin> P \<Longrightarrow> hp p = g_player g2 p" by (rule touchesE) blast
  have "touches U P g1 (g1\<lparr>g_unit := hu, g_player := hp\<rparr>)"
  proof (rule touchesI)
    fix v show "same_body (g_unit g1 v) (hu v)"
      using 2(2) [of v] 3(2) [of v] by (simp add: 2(1)) (rule same_body_trans)
  qed (use 2 3 in simp_all)
  then show ?thesis by (simp add: 2(1) 3(1))
qed

interpretation touching: state_relation "touches U P" for U P
  by unfold_locales (rule touches_refl, rule touches_trans)

lemma touches_set_unit:
  assumes "u \<in> U" "same_body (g_unit g u) (f (g_unit g u))"
  shows "touching.reaches U P g (set_unit u f g)"
  using assms by (simp add: touching.reaches_def set_unit_def touches_def)

lemma touches_set_player:
  assumes "set_option p \<subseteq> P"
  shows "touching.reaches U P g (set_player p f g)"
  using assms by (cases p) (auto simp: touching.reaches_def set_player_def touches_def)

lemma touches_add_resources:
  assumes "set_option p \<subseteq> P"
  shows "touching.reaches U P g (add_resources p m v g)"
  unfolding add_resources_def by (rule touches_set_player [OF assms])

lemma touches_add_supply:
  assumes "set_option p \<subseteq> P"
  shows "touching.reaches U P g (add_supply p r n g)"
  unfolding add_supply_def
  by (rule touching.reaches_if, rule touches_set_player [OF assms], rule touching.reaches_None)

lemma touches_push_queue:
  assumes "u \<in> U"
  shows "touching.reaches U P g (push_queue u t g)"
  unfolding push_queue_def set_queue_def
  by (intro touching.reaches_bind touching.reaches_if touching.reaches_None touches_set_unit assms)
     (simp_all add: same_body_def)


lemmas touch_rules = touching.reaches_rules touches_set_unit touches_add_resources touches_add_supply
  touches_push_queue touches_set_player

lemmas move_defs = lc_attack_move_def lc_attack_unit_def lc_follow_def lc_hold_position_def lc_move_def
  lc_patrol_def lc_stop_def lc_right_click_position_def follow_if_mobile_def right_click_rest_def

lemma touches_moves:
  assumes "u \<in> U"
  shows "touching.reaches U P g (lc_attack_move c u g)" "touching.reaches U P g (lc_attack_unit c u g)"
    "touching.reaches U P g (lc_follow c u g)" "touching.reaches U P g (lc_hold_position u g)"
    "touching.reaches U P g (lc_move c u g)" "touching.reaches U P g (lc_patrol c u g)"
    "touching.reaches U P g (lc_stop u g)" "touching.reaches U P g (lc_right_click_position c u g)"
    "touching.reaches U P g (follow_if_mobile u g)" "touching.reaches U P g (right_click_rest c u g)"
  unfolding move_defs by (intro touch_rules; simp add: assms same_body_def aim_at_def)+

lemma touches_right_click_unit:
  assumes "u \<in> U" "set_option (target_of c) \<subseteq> U"
  shows "touching.reaches U P g (lc_right_click_unit c u g)"
  unfolding lc_right_click_unit_def using assms
  by (intro touch_rules touches_moves) (simp_all add: same_body_def)


lemmas make_defs = lc_build_def lc_build_addon_def lc_morph_def lc_train_def lc_research_def lc_upgrade_def
  lc_set_rally_position_def lc_set_rally_unit_def

lemma touches_makes:
  assumes "u \<in> U" "set_option p \<subseteq> P"
  shows "touching.reaches U P g (lc_build c u g)" "touching.reaches U P g (lc_build_addon cur ev c p u g)"
    "touching.reaches U P g (lc_morph cur ev c p u g)" "touching.reaches U P g (lc_train cur c p u g)"
    "touching.reaches U P g (lc_research c p u g)" "touching.reaches U P g (lc_upgrade c p u g)"
    "touching.reaches U P g (lc_set_rally_position c u g)" "touching.reaches U P g (lc_set_rally_unit c u g)"
  unfolding make_defs using assms by - ((intro touch_rules; simp_all add: same_body_def)[1])+

lemmas cancel_defs = lc_cancel_addon_def lc_cancel_morph_def cancel_morph_resources_def
  cancel_morph_order_def cancel_morph_finish_def lc_cancel_research_def cancel_train_resources_def
  cancel_train_order_def lc_cancel_train_def lc_cancel_train_slot_def lc_cancel_upgrade_def
  refund_building_def return_drone_def

lemma touches_cancels:
  assumes "u \<in> U" "set_option p \<subseteq> P"
  shows "touching.reaches U P g (lc_cancel_addon ev p u g)" "touching.reaches U P g (lc_cancel_morph ev p u g)"
    "touching.reaches U P g (lc_cancel_research ev p u g)"
    "touching.reaches U P g (lc_cancel_train ev p u g)"
    "touching.reaches U P g (lc_cancel_train_slot ev c p u g)"
    "touching.reaches U P g (lc_cancel_upgrade ev p u g)"
    "touching.reaches U P g (refund_building p u g)" "touching.reaches U P g (return_drone ev p u g)"
  unfolding cancel_defs using assms by - ((intro touch_rules; simp_all add: same_body_def)[1])+

lemma touches_ends:
  assumes "u \<in> U" "set_option p \<subseteq> P" "set_option (getUnit g (ud_buildUnit (g_unit g u))) \<subseteq> U"
  shows "touching.reaches U P g (lc_cancel_construction ev p u g)"
    "touching.reaches U P g (lc_halt_construction ev u g)"
  unfolding lc_cancel_construction_def lc_halt_construction_def release_builder_def using assms
  by - ((intro touch_rules touches_cancels; simp_all add: same_body_def)[1])+

lemmas ability_defs = lc_gather_def lc_return_cargo_def lc_repair_def lc_load_def lc_unload_def
  lc_unload_all_position_def lc_unload_all_def lc_lift_def lc_land_def lc_order_def lc_cloak_def
  lc_use_tech_def lc_use_tech_position_def lc_use_tech_unit_def

lemma touches_abilities:
  assumes "u \<in> U"
  shows "touching.reaches U P g (lc_gather c u g)" "touching.reaches U P g (lc_return_cargo u g)"
    "touching.reaches U P g (lc_repair c u g)" "touching.reaches U P g (lc_load c u g)"
    "touching.reaches U P g (lc_unload c u g)" "touching.reaches U P g (lc_unload_all_position c u g)"
    "touching.reaches U P g (lc_unload_all c u g)" "touching.reaches U P g (lc_lift u g)"
    "touching.reaches U P g (lc_land u g)" "touching.reaches U P g (lc_order ord u g)"
    "touching.reaches U P g (lc_cloak u g)" "touching.reaches U P g (lc_use_tech c u g)"
    "touching.reaches U P g (lc_use_tech_position c u g)" "touching.reaches U P g (lc_use_tech_unit c u g)"
  unfolding ability_defs using assms by - ((intro touch_rules; simp_all add: same_body_def aim_at_def)[1])+

lemma touches_apply:
  assumes "u \<in> U" "set_option (lc_player k) \<subseteq> P" "set_option (target_of (lc_command k)) \<subseteq> U"
    "set_option (getUnit g (ud_buildUnit (g_unit g u))) \<subseteq> U"
  shows "touching.reaches U P g (apply_command cur k u g)"
  unfolding apply_command_def Let_def if_distribR
  by (intro touching.reaches_if touching.reaches_Some touches_moves [OF assms(1)]
        touches_right_click_unit [OF assms(1,3)] touches_makes [OF assms(1,2)]
        touches_cancels [OF assms(1,2)] touches_ends [OF assms(1,2,4)] touches_abilities [OF assms(1)])


text \<open>The units and players a command may touch.\<close>

definition units_of :: "lat_command \<Rightarrow> game \<Rightarrow> nat set" where
  "units_of k g =
     (case uc_unit (lc_command k) of
        None \<Rightarrow> {}
      | Some v \<Rightarrow> {u_index v} \<union> set_option (target_of (lc_command k))
          \<union> set_option (getUnit g (ud_buildUnit (g_unit g (u_index v)))))"

definition players_of :: "lat_command \<Rightarrow> game \<Rightarrow> nat set" where
  "players_of k g = set_option (lc_player (claim_player g k))"

lemma claim_player_command [simp]:
  "lc_command (claim_player g k) = lc_command k" "lc_event (claim_player g k) = lc_event k"
  by (simp_all add: claim_player_def split: option.split)

lemma execute_at_cases:
  assumes "execute_at on cur k g = Some (k', g')"
  obtains "g' = g" "k' = k \<or> k' = claim_player g k"
  | v where "on" "\<not> isQueued (lc_command k)" "cur \<longrightarrow> acts_now k" "uc_unit (lc_command k) = Some v"
      "unit_exists g (u_index v)" "k' = claim_player g k"
      "apply_command cur (claim_player g k) (u_index v) g = Some g'"
  using assms unfolding execute_at_def
  by (auto simp: Let_def split: if_splits option.splits)

lemma touches_execute_at:
  assumes "execute_at on cur k g = Some (k', g')"
  shows "touches (units_of k g) (players_of k g) g g'"
  using assms
proof (cases rule: execute_at_cases)
  case 1
  then show ?thesis by (simp add: touches_refl)
next
  case (2 v)
  have "touching.reaches (units_of k g) (players_of k g) g (apply_command cur (claim_player g k) (u_index v) g)"
    by (rule touches_apply) (auto simp: units_of_def players_of_def 2(4))
  then show ?thesis using 2(7) by (simp add: touching.reaches_def)
qed

section \<open>The shape of the mirror\<close>

definition unit_ok :: "unit_data \<Rightarrow> bool" where
  "unit_ok d \<longleftrightarrow> length (ud_trainingQueue d) = 5
     \<and> 0 \<le> ud_trainingQueueCount d \<and> ud_trainingQueueCount d \<le> 5"

definition player_ok :: "player_data \<Rightarrow> bool" where
  "player_ok d \<longleftrightarrow> length (pd_supplyUsed d) = 3"

definition mirror_ok :: "game \<Rightarrow> bool" where
  "mirror_ok g \<longleftrightarrow> (\<forall>u. unit_ok (g_unit g u)) \<and> (\<forall>p. player_ok (g_player g p))"

definition keeps_shape :: "game \<Rightarrow> game \<Rightarrow> bool" where
  "keeps_shape g g' \<longleftrightarrow> (mirror_ok g \<longrightarrow> mirror_ok g')"

interpretation shaping: state_relation keeps_shape
  by unfold_locales (simp_all add: keeps_shape_def)

lemma shape_set_unit:
  assumes "unit_ok (g_unit g u) \<Longrightarrow> unit_ok (f (g_unit g u))"
  shows "shaping.reaches g (set_unit u f g)"
  using assms by (simp add: shaping.reaches_def keeps_shape_def set_unit_def mirror_ok_def)

lemma shape_set_player:
  assumes "\<And>q. player_ok (g_player g q) \<Longrightarrow> player_ok (f (g_player g q))"
  shows "shaping.reaches g (set_player p f g)"
  using assms by (cases p) (simp_all add: shaping.reaches_def keeps_shape_def set_player_def mirror_ok_def)

lemma shape_add_resources: "shaping.reaches g (add_resources p m v g)"
  unfolding add_resources_def by (rule shape_set_player) (simp add: player_ok_def)

lemma shape_add_supply: "shaping.reaches g (add_supply p r n g)"
  unfolding add_supply_def
  by (intro shaping.reaches_if shape_set_player shaping.reaches_None) (simp add: player_ok_def)

lemma shape_push_queue: "shaping.reaches g (push_queue u t g)"
  by (auto simp: shaping.reaches_def keeps_shape_def push_queue_def set_queue_def set_unit_def in_queue_def
      mirror_ok_def unit_ok_def split: if_splits)

lemma shape_cancel_train_order: "shaping.reaches g (cancel_train_order p u g)"
proof -
  define g1 where "g1 = g\<lparr>g_unit := (g_unit g)(u := (g_unit g u)\<lparr>ud_trainingQueueCount := ud_trainingQueueCount (g_unit g u) - 1\<rparr>)\<rparr>"
  have g1: "mirror_ok g1" if "mirror_ok g" "in_queue g1 u (ud_trainingQueueCount (g_unit g1 u))"
    using that by (auto simp: g1_def mirror_ok_def unit_ok_def in_queue_def)
  have rest: "shaping.reaches g1 (let unitType = mkType UnitType_Unknown t in do {
       g \<leftarrow> add_supply p (getRaceType unitType) (- supplyRequired unitType) g1;
       if ud_trainingQueueCount (g_unit g u) = 0
       then set_unit u (\<lambda>d. d\<lparr>ud_buildType := UnitType_None\<rparr>) g
       else do {
         t \<leftarrow> queue_at g u (ud_trainingQueueCount (g_unit g u) - 1);
         set_unit u (\<lambda>d. d\<lparr>ud_remainingTrainTime := buildTime (mkType UnitType_Unknown t), ud_buildType := t\<rparr>) g } })" for t
    by (intro shaping.reaches_rules shape_add_supply shape_set_unit) (simp_all add: unit_ok_def)
  show ?thesis
    using rest g1
    unfolding cancel_train_order_def set_unit_def [of _ _ g] shaping.reaches_def keeps_shape_def queue_at_def [of g1]
    by (auto simp: g1_def [symmetric] queue_at_def [of g1] split: if_splits)
qed

lemmas shape_rules = shaping.reaches_rules shape_set_unit shape_add_resources shape_add_supply
  shape_push_queue shape_set_player


lemma shape_moves:
  "shaping.reaches g (lc_attack_move c u g)" "shaping.reaches g (lc_attack_unit c u g)"
  "shaping.reaches g (lc_follow c u g)" "shaping.reaches g (lc_hold_position u g)"
  "shaping.reaches g (lc_move c u g)" "shaping.reaches g (lc_patrol c u g)"
  "shaping.reaches g (lc_stop u g)" "shaping.reaches g (lc_right_click_position c u g)"
  "shaping.reaches g (follow_if_mobile u g)" "shaping.reaches g (right_click_rest c u g)"
  unfolding move_defs by - ((intro shape_rules; simp add: unit_ok_def aim_at_def)[1])+

lemma shape_right_click_unit: "shaping.reaches g (lc_right_click_unit c u g)"
  unfolding lc_right_click_unit_def
  by (intro shape_rules shape_moves) (simp_all add: unit_ok_def)

lemma shape_makes:
  "shaping.reaches g (lc_build c u g)" "shaping.reaches g (lc_build_addon cur ev c p u g)"
  "shaping.reaches g (lc_morph cur ev c p u g)" "shaping.reaches g (lc_train cur c p u g)"
  "shaping.reaches g (lc_research c p u g)" "shaping.reaches g (lc_upgrade c p u g)"
  "shaping.reaches g (lc_set_rally_position c u g)" "shaping.reaches g (lc_set_rally_unit c u g)"
  unfolding make_defs by - ((intro shape_rules; simp_all add: unit_ok_def player_ok_def)[1])+

lemma length_shift_queue [simp]: "length (shift_queue n q) = length q"
proof -
  have "length (fold (\<lambda>i q. q[i := q ! Suc i]) xs q) = length q" for xs :: "nat list"
    by (induction xs arbitrary: q) simp_all
  then show ?thesis by (simp add: shift_queue_def)
qed

text \<open>A command that cancels a place further back in the queue names one that is in use.\<close>

definition slot_in_use :: "unit_command \<Rightarrow> nat \<Rightarrow> game \<Rightarrow> bool" where
  "slot_in_use c u g \<longleftrightarrow>
     (uc_type c = Cancel_Train_Slot \<longrightarrow> uc_extra c < ud_trainingQueueCount (g_unit g u))"

lemma shape_cancel_train: "shaping.reaches g (lc_cancel_train ev p u g)"
  unfolding lc_cancel_train_def cancel_train_resources_def
  by (intro shape_rules shape_cancel_train_order) (simp_all add: unit_ok_def)

lemma shape_cancel_train_slot:
  assumes "uc_extra c < ud_trainingQueueCount (g_unit g u)"
  shows "shaping.reaches g (lc_cancel_train_slot ev c p u g)"
proof -
  have "shaping.reaches g (do {
          t \<leftarrow> queue_at g u (uc_extra c);
          let unitType = mkType UnitType_Unknown t;
          g \<leftarrow> add_resources p (mineralPrice unitType) (gasPrice unitType) g;
          set_unit u (\<lambda>d. d\<lparr>ud_trainingQueue := shift_queue (nat (uc_extra c)) (ud_trainingQueue d),
            ud_trainingQueueCount := ud_trainingQueueCount d - 1\<rparr>) g })"
  proof (intro shape_rules)
    fix t unitType g'
    assume *: "queue_at g u (uc_extra c) = Some t"
      and "add_resources p (mineralPrice unitType) (gasPrice unitType) g = Some g'"
    then have "g_unit g' = g_unit g"
      by (auto simp: add_resources_def set_player_def split: option.splits)
    moreover assume "unit_ok (g_unit g' u)"
    ultimately show "unit_ok ((g_unit g' u)\<lparr>ud_trainingQueue := shift_queue (nat (uc_extra c)) (ud_trainingQueue (g_unit g' u)),
            ud_trainingQueueCount := ud_trainingQueueCount (g_unit g' u) - 1\<rparr>)"
      using assms * by (simp add: unit_ok_def queue_at_def in_queue_def split: if_splits)
  qed
  then show ?thesis
    unfolding lc_cancel_train_slot_def by (intro shaping.reaches_if shape_cancel_train shaping.reaches_Some)
qed

lemma shape_cancels:
  "shaping.reaches g (lc_cancel_addon ev p u g)" "shaping.reaches g (lc_cancel_morph ev p u g)"
  "shaping.reaches g (lc_cancel_research ev p u g)" "shaping.reaches g (lc_cancel_upgrade ev p u g)"
  "shaping.reaches g (refund_building p u g)" "shaping.reaches g (return_drone ev p u g)"
  unfolding lc_cancel_addon_def lc_cancel_morph_def cancel_morph_resources_def cancel_morph_order_def
    cancel_morph_finish_def lc_cancel_research_def lc_cancel_upgrade_def refund_building_def return_drone_def
  by - ((intro shape_rules; simp_all add: unit_ok_def)[1])+

lemma shape_ends:
  "shaping.reaches g (lc_cancel_construction ev p u g)" "shaping.reaches g (lc_halt_construction ev u g)"
  unfolding lc_cancel_construction_def lc_halt_construction_def release_builder_def
  by - ((intro shape_rules shape_cancels; simp_all add: unit_ok_def)[1])+

lemma shape_abilities:
  "shaping.reaches g (lc_gather c u g)" "shaping.reaches g (lc_return_cargo u g)"
  "shaping.reaches g (lc_repair c u g)" "shaping.reaches g (lc_load c u g)"
  "shaping.reaches g (lc_unload c u g)" "shaping.reaches g (lc_unload_all_position c u g)"
  "shaping.reaches g (lc_unload_all c u g)" "shaping.reaches g (lc_lift u g)"
  "shaping.reaches g (lc_land u g)" "shaping.reaches g (lc_order ord u g)"
  "shaping.reaches g (lc_cloak u g)" "shaping.reaches g (lc_use_tech c u g)"
  "shaping.reaches g (lc_use_tech_position c u g)" "shaping.reaches g (lc_use_tech_unit c u g)"
  unfolding ability_defs by - ((intro shape_rules; simp_all add: unit_ok_def aim_at_def)[1])+

lemma shape_apply:
  assumes "slot_in_use (lc_command k) u g"
  shows "shaping.reaches g (apply_command cur k u g)"
proof (cases "uc_type (lc_command k) = Cancel_Train_Slot")
  case True
  then show ?thesis
    using assms by (simp add: apply_command_def Let_def slot_in_use_def shape_cancel_train_slot)
next
  case False
  then show ?thesis
    unfolding apply_command_def Let_def if_distribR
    by (intro shaping.reaches_if shaping.reaches_Some shape_moves shape_right_click_unit shape_makes
          shape_cancel_train shape_cancels shape_ends shape_abilities) simp_all
qed

end
