(* ===== verification/Latency_Accounts.thy ===== *)
theory Latency_Accounts
  imports Latency_Rules
begin

text \<open>
  What the predicted effects cost: which commands move minerals and gas, of which player and by how
  much (\<open>bill\<close>), and how the events of a cancellation undo those of the order.
\<close>

section \<open>Minerals and gas\<close>

definition purse :: "game \<Rightarrow> nat \<Rightarrow> int \<times> int" where
  "purse g q = (pd_minerals (g_player g q), pd_gas (g_player g q))"

definition same_purses :: "game \<Rightarrow> game \<Rightarrow> bool" where
  "same_purses g g' \<longleftrightarrow> (\<forall>q. purse g' q = purse g q)"

interpretation saving: state_relation same_purses
  by unfold_locales (simp_all add: same_purses_def)

lemma save_set_unit: "saving.reaches g (set_unit u f g)"
  by (simp add: saving.reaches_def same_purses_def set_unit_def purse_def)

lemma save_add_supply: "saving.reaches g (add_supply p r n g)"
  by (auto simp: saving.reaches_def same_purses_def add_supply_def set_player_def purse_def
      split: option.splits)

lemma save_push_queue: "saving.reaches g (push_queue u t g)"
  unfolding push_queue_def set_queue_def
  by (intro saving.reaches_bind saving.reaches_if saving.reaches_None save_set_unit)

lemmas save_rules = saving.reaches_rules save_set_unit save_add_supply save_push_queue

lemma save_moves:
  "saving.reaches g (lc_attack_move c u g)" "saving.reaches g (lc_attack_unit c u g)"
  "saving.reaches g (lc_follow c u g)" "saving.reaches g (lc_hold_position u g)"
  "saving.reaches g (lc_move c u g)" "saving.reaches g (lc_patrol c u g)"
  "saving.reaches g (lc_stop u g)" "saving.reaches g (lc_right_click_position c u g)"
  "saving.reaches g (follow_if_mobile u g)" "saving.reaches g (right_click_rest c u g)"
  unfolding move_defs by - ((intro save_rules)[1])+

lemma save_right_click_unit: "saving.reaches g (lc_right_click_unit c u g)"
  unfolding lc_right_click_unit_def by (intro save_rules save_moves)

lemma save_makes:
  "saving.reaches g (lc_build c u g)" "saving.reaches g (lc_set_rally_position c u g)"
  "saving.reaches g (lc_set_rally_unit c u g)"
  unfolding make_defs by - ((intro save_rules)[1])+

lemma save_cancels:
  "saving.reaches g (cancel_morph_order p u g)" "saving.reaches g (cancel_morph_finish u g)"
  "saving.reaches g (cancel_train_order p u g)" "saving.reaches g (return_drone ev p u g)"
  "saving.reaches g (release_builder ev u g)" "saving.reaches g (lc_halt_construction ev u g)"
  unfolding cancel_defs release_builder_def lc_halt_construction_def Let_def by - ((intro save_rules)[1])+

lemma save_abilities:
  "saving.reaches g (lc_gather c u g)" "saving.reaches g (lc_return_cargo u g)"
  "saving.reaches g (lc_repair c u g)" "saving.reaches g (lc_load c u g)"
  "saving.reaches g (lc_unload c u g)" "saving.reaches g (lc_unload_all_position c u g)"
  "saving.reaches g (lc_unload_all c u g)" "saving.reaches g (lc_lift u g)"
  "saving.reaches g (lc_land u g)" "saving.reaches g (lc_order ord u g)"
  "saving.reaches g (lc_cloak u g)" "saving.reaches g (lc_use_tech c u g)"
  "saving.reaches g (lc_use_tech_position c u g)" "saving.reaches g (lc_use_tech_unit c u g)"
  unfolding ability_defs by - ((intro save_rules)[1])+

section \<open>The bill\<close>

text \<open>The prices a command is charged or credited; \<open>g\<close> is the mirror before the event.\<close>

definition unit_price :: "int \<Rightarrow> int \<times> int" where
  "unit_price t = (mineralPrice (mkType UnitType_Unknown t), gasPrice (mkType UnitType_Unknown t))"

definition tech_price :: "int \<Rightarrow> int \<times> int" where
  "tech_price t = (tech_mineralPrice (mkType TechType_Unknown t), tech_gasPrice (mkType TechType_Unknown t))"

text \<open>The price of the next level of an upgrade, for the owner of the unit.\<close>

definition next_level_price :: "game \<Rightarrow> nat \<Rightarrow> int \<Rightarrow> int \<times> int" where
  "next_level_price g u t =
     (let up = mkType UpgradeType_Unknown t; level = getUpgradeLevel g (the (getPlayer g u)) up + 1
      in (upgrade_mineralPrice up level, upgrade_gasPrice up level))"

definition queued_price :: "game \<Rightarrow> nat \<Rightarrow> int \<Rightarrow> int \<times> int" where
  "queued_price g u i = unit_price (ud_trainingQueue (g_unit g u) ! nat i)"

definition minus_price :: "int \<times> int \<Rightarrow> int \<times> int" where
  "minus_price a = (- fst a, - snd a)"

definition most_of :: "int \<times> int \<Rightarrow> int \<times> int" where
  "most_of a = (three_quarters (fst a), three_quarters (snd a))"

definition first_event_bill :: "bool \<Rightarrow> unit_command \<Rightarrow> nat \<Rightarrow> game \<Rightarrow> int \<times> int" where
  "first_event_bill cur c u g =
     (let t = uc_type c; d = g_unit g u in
      if t = Build_Addon \<or> t = Morph \<and> (isBuilding (getType g u) \<or> \<not> cur)
      then minus_price (unit_price (uc_extra c))
      else if t = Cancel_Addon then most_of (unit_price (ud_buildType d))
      else if t = Cancel_Construction then most_of (mineralPrice (getType g u), gasPrice (getType g u))
      else if t = Cancel_Morph
      then (if isBuilding (morphed_from g u) then most_of (unit_price (ud_buildType d))
            else unit_price (ud_buildType d))
      else if t = Cancel_Research then tech_price (ud_tech d)
      else if t = Cancel_Train_Slot \<and> uc_extra c \<noteq> 0 then queued_price g u (uc_extra c)
      else if t = Cancel_Train \<or> t = Cancel_Train_Slot then queued_price g u (ud_trainingQueueCount d - 1)
      else if t = Cancel_Upgrade then next_level_price g u (ud_upgrade d)
      else (0, 0))"

definition bill :: "bool \<Rightarrow> lat_command \<Rightarrow> nat \<Rightarrow> game \<Rightarrow> int \<times> int" where
  "bill cur k u g =
     (let c = lc_command k; t = uc_type c in
      if t = Train \<and> \<not> cur then minus_price (unit_price (uc_extra c))
      else if t = Research then minus_price (tech_price (uc_extra c))
      else if t = Upgrade then minus_price (next_level_price g u (uc_extra c))
      else if lc_event k = Resource_Event then first_event_bill cur c u g
      else (0, 0))"

text \<open>Player \<open>p\<close> pays or gets the amount, nobody else does.\<close>

definition settles :: "nat option \<Rightarrow> int \<times> int \<Rightarrow> game \<Rightarrow> game \<Rightarrow> bool" where
  "settles p b g g' \<longleftrightarrow>
     (\<forall>q. purse g' q = (if p = Some q then (fst (purse g q) + fst b, snd (purse g q) + snd b) else purse g q))"

lemma settles_none: "settles p (0, 0) g g' \<longleftrightarrow> same_purses g g'"
  by (auto simp: settles_def same_purses_def)

lemma settles_between:
  assumes "same_purses g g1" "add_resources p m v g1 = Some g2" "same_purses g2 g3"
  shows "settles p (m, v) g g3"
  using assms by (auto simp: settles_def same_purses_def add_resources_def set_player_def purse_def
      split: option.splits)


definition bills :: "nat option \<Rightarrow> int \<times> int \<Rightarrow> game \<Rightarrow> game option \<Rightarrow> bool" where
  "bills p b g x \<longleftrightarrow> (\<forall>g'. x = Some g' \<longrightarrow> settles p b g g')"

lemma bills_free: "saving.reaches g x \<Longrightarrow> bills p (0, 0) g x"
  by (simp add: bills_def saving.reaches_def settles_none)

lemma bills_set_unit:
  assumes "bills p b (g\<lparr>g_unit := (g_unit g)(u := f (g_unit g u))\<rparr>)
             (h (g\<lparr>g_unit := (g_unit g)(u := f (g_unit g u))\<rparr>))"
  shows "bills p b g (set_unit u f g \<bind> h)"
  using assms by (simp add: bills_def settles_def set_unit_def purse_def)

lemma bills_then:
  assumes "saving.reaches g x" "\<And>g'. x = Some g' \<Longrightarrow> bills p b g' (h g')"
  shows "bills p b g (x \<bind> h)"
  using assms
  by (cases x) (auto simp: bills_def settles_def saving.reaches_def same_purses_def)

lemma bills_pay:
  assumes "\<And>g'. add_resources p m v g = Some g' \<Longrightarrow> saving.reaches g' (h g')"
  shows "bills p (m, v) g (add_resources p m v g \<bind> h)"
  unfolding bills_def
proof (intro allI impI)
  fix g' assume "add_resources p m v g \<bind> h = Some g'"
  then obtain g1 where "add_resources p m v g = Some g1" "h g1 = Some g'"
    by (auto simp: Option.bind_eq_Some_conv)
  then show "settles p (m, v) g g'"
    using assms [of g1] by (intro settles_between) (auto simp: saving.reaches_def same_purses_def)
qed

lemma bills_last: "bills p (m, v) g (add_resources p m v g)"
  using bills_pay [of p m v g Some] by (simp add: saving.reaches_Some)

lemma bills_if: "(c \<Longrightarrow> bills p b g x) \<Longrightarrow> (\<not> c \<Longrightarrow> bills p b g y) \<Longrightarrow> bills p b g (if c then x else y)"
  by simp

lemma bills_value: "(\<And>t :: nat. x = Some t \<Longrightarrow> bills p b g (h t)) \<Longrightarrow> bills p b g (x \<bind> h)"
  by (cases x) (simp_all add: bills_def)

lemma bills_entry: "(\<And>t :: int. x = Some t \<Longrightarrow> bills p b g (h t)) \<Longrightarrow> bills p b g (x \<bind> h)"
  by (cases x) (simp_all add: bills_def)

lemmas price_defs = unit_price_def tech_price_def next_level_price_def queued_price_def minus_price_def
  most_of_def

section \<open>Each paying effect\<close>

lemma bill_train: "bills p (if cur then (0, 0) else minus_price (unit_price (uc_extra c))) g (lc_train cur c p u g)"
  unfolding lc_train_def Let_def minus_price_def unit_price_def
  by (cases cur)
    (simp_all, (intro bills_free save_rules bills_pay)+)

lemma bill_research: "bills p (minus_price (tech_price (uc_extra c))) g (lc_research c p u g)"
  unfolding lc_research_def Let_def minus_price_def tech_price_def
  by (rule bills_set_unit, simp, rule bills_pay)
    (auto simp: saving.reaches_def same_purses_def set_player_def purse_def split: option.splits)


lemma bill_upgrade: "bills p (minus_price (next_level_price g u (uc_extra c))) g (lc_upgrade c p u g)"
  unfolding lc_upgrade_def Let_def
proof (rule bills_set_unit, rule bills_value, rule bills_set_unit)
  fix owner
  let ?up = "mkType UpgradeType_Unknown (uc_extra c)"
  let ?g = "g\<lparr>g_unit := (g_unit g)(u := (g_unit g u)\<lparr>ud_order := Order_Upgrade, ud_upgrade := ?up, ud_isIdle := False\<rparr>)\<rparr>"
  let ?level = "getUpgradeLevel ?g owner ?up"
  let ?g1 = "?g\<lparr>g_unit := (g_unit ?g)(u := (g_unit ?g u)\<lparr>ud_remainingUpgradeTime := upgradeTime ?up (?level + 1)\<rparr>)\<rparr>"
  assume "getPlayer ?g u = Some owner"
  then have price: "minus_price (next_level_price g u (uc_extra c))
      = (- upgrade_mineralPrice ?up (?level + 1), - upgrade_gasPrice ?up (?level + 1))"
    by (simp add: price_defs getPlayer_def getPlayerById_def getUpgradeLevel_def Let_def split: if_splits)
  show "bills p (minus_price (next_level_price g u (uc_extra c))) ?g1
     (add_resources p (- upgrade_mineralPrice ?up (?level + 1)) (- upgrade_gasPrice ?up (?level + 1)) ?g1 \<bind>
      set_player p (\<lambda>d. d\<lparr>pd_isUpgrading := (pd_isUpgrading d)(nat ?up := True)\<rparr>))"
    unfolding price
    by (rule bills_pay)
      (auto simp: saving.reaches_def same_purses_def set_player_def purse_def split: option.splits)
qed

lemma bill_build_addon:
  "bills p (if ev = Resource_Event then minus_price (unit_price (uc_extra c)) else (0, 0)) g
     (lc_build_addon cur ev c p u g)"
  unfolding lc_build_addon_def Let_def minus_price_def unit_price_def
  by (cases ev) (simp_all, (intro bills_free save_rules bills_pay)+)

lemma getType_set [simp]:
  "getType (g\<lparr>g_unit := (g_unit g)(u := d)\<rparr>) v = (if v = u then mkType UnitType_Unknown (ud_type d) else getType g v)"
  by (simp add: getType_def)

lemma bill_morph_egg:
  "bills p (if cur then (0, 0) else (m, v)) g1 (do {
     g \<leftarrow> add_supply p r n g1;
     if \<not> cur then do {
       g \<leftarrow> set_unit u f g;
       g \<leftarrow> add_resources p m v g;
       g \<leftarrow> set_unit u f' g;
       push_queue u t g }
     else Some g })"
  by (cases cur) (simp_all, (intro bills_free save_rules bills_then [OF save_add_supply] bills_set_unit bills_pay)+)

lemma bill_morph:
  "bills p (if ev = Resource_Event \<and> (isBuilding (getType g u) \<or> \<not> cur)
            then minus_price (unit_price (uc_extra c)) else (0, 0)) g
     (lc_morph cur ev c p u g)"
proof (cases ev)
  case Resource_Event
  note egg = bill_morph_egg [of p True, simplified] bill_morph_egg [of p False, simplified]
  show ?thesis
  proof (cases cur)
    case True
    then show ?thesis
      by (simp add: Resource_Event lc_morph_def Let_def minus_price_def unit_price_def egg bills_last)
  next
    case False
    then show ?thesis
      by (cases "isBuilding (getType g u)")
        (simp_all add: Resource_Event lc_morph_def Let_def minus_price_def unit_price_def,
         (rule bills_set_unit, simp add: getType_def [symmetric] egg,
          (rule bills_set_unit, simp add: bills_last)?)+)
  qed
qed (simp_all add: lc_morph_def, (intro conjI impI bills_free save_rules)+)


text \<open>The cancellations.\<close>

lemma bill_cancel_addon:
  "bills p (if ev = Resource_Event then most_of (unit_price (ud_buildType (g_unit g u))) else (0, 0)) g
     (lc_cancel_addon ev p u g)"
  unfolding lc_cancel_addon_def Let_def most_of_def unit_price_def
  by (cases ev) (simp_all, (intro bills_free save_rules bills_pay)+)

lemma bill_cancel_research:
  "bills p (if ev = Resource_Event then tech_price (ud_tech (g_unit g u)) else (0, 0)) g
     (lc_cancel_research ev p u g)"
  unfolding lc_cancel_research_def Let_def tech_price_def
  by (cases ev) (simp_all, (intro bills_free save_rules bills_pay)+)

lemma bill_cancel_upgrade:
  "bills p (if ev = Resource_Event then next_level_price g u (ud_upgrade (g_unit g u)) else (0, 0)) g
     (lc_cancel_upgrade ev p u g)"
proof (cases ev)
  case Resource_Event
  have "bills p (next_level_price g u (ud_upgrade (g_unit g u))) g
    (getPlayer g u \<bind> (\<lambda>owner.
       let nextLevel = getUpgradeLevel g owner (mkType UpgradeType_Unknown (ud_upgrade (g_unit g u))) + 1 in do {
         g \<leftarrow> add_resources p (upgrade_mineralPrice (mkType UpgradeType_Unknown (ud_upgrade (g_unit g u))) nextLevel)
               (upgrade_gasPrice (mkType UpgradeType_Unknown (ud_upgrade (g_unit g u))) nextLevel) g;
         set_unit u (\<lambda>d. d\<lparr>ud_upgrade := UpgradeType_None, ud_remainingUpgradeTime := 0\<rparr>) g }))"
    by (rule bills_value) (simp add: next_level_price_def Let_def bills_pay save_set_unit)
  then show ?thesis by (simp add: Resource_Event lc_cancel_upgrade_def Let_def)
qed (simp_all add: lc_cancel_upgrade_def, (intro bills_free save_rules)+)

lemma queue_at_price:
  "queue_at g u i = Some t \<Longrightarrow> unit_price t = queued_price g u i"
  by (simp add: queue_at_def queued_price_def split: if_splits)

lemma bill_cancel_train:
  "bills p (if ev = Resource_Event then queued_price g u (ud_trainingQueueCount (g_unit g u) - 1) else (0, 0)) g
     (lc_cancel_train ev p u g)"
proof (cases ev)
  case Resource_Event
  have "bills p (queued_price g u (ud_trainingQueueCount (g_unit g u) - 1)) g (cancel_train_resources p u g)"
    unfolding cancel_train_resources_def Let_def
    by (rule bills_entry) (simp flip: queue_at_price add: unit_price_def, intro bills_pay save_rules)
  then show ?thesis by (simp add: Resource_Event lc_cancel_train_def)
qed (simp_all add: lc_cancel_train_def, (intro conjI impI bills_free save_rules save_cancels)+)

lemma bill_cancel_train_slot:
  "bills p (if ev = Resource_Event
            then queued_price g u (if uc_extra c \<noteq> 0 then uc_extra c else ud_trainingQueueCount (g_unit g u) - 1)
            else (0, 0)) g
     (lc_cancel_train_slot ev c p u g)"
proof (cases "uc_extra c = 0")
  case True
  then show ?thesis using bill_cancel_train [of p ev g u] by (cases ev) (simp_all add: lc_cancel_train_slot_def)
next
  case False
  have "bills p (queued_price g u (uc_extra c)) g (do {
          t \<leftarrow> queue_at g u (uc_extra c);
          let unitType = mkType UnitType_Unknown t;
          g \<leftarrow> add_resources p (mineralPrice unitType) (gasPrice unitType) g;
          set_unit u (\<lambda>d. d\<lparr>ud_trainingQueue := shift_queue (nat (uc_extra c)) (ud_trainingQueue d),
            ud_trainingQueueCount := ud_trainingQueueCount d - 1\<rparr>) g })"
    unfolding Let_def
    by (rule bills_entry) (simp flip: queue_at_price add: unit_price_def, intro bills_pay save_rules)
  then show ?thesis using False by (simp add: lc_cancel_train_slot_def bills_free saving.reaches_Some)
qed

lemma bill_refund_building:
  "bills p (most_of (mineralPrice (getType g u), gasPrice (getType g u))) g (refund_building p u g)"
  unfolding refund_building_def most_of_def
  by (rule bills_set_unit, simp add: getType_def [symmetric], intro bills_pay save_rules)

lemma bills_before:
  assumes "bills p b g x" "\<And>g'. x = Some g' \<Longrightarrow> saving.reaches g' (h g')"
  shows "bills p b g (x \<bind> h)"
  using assms by (cases x) (auto simp: bills_def settles_def saving.reaches_def same_purses_def)


lemma bill_cancel_construction:
  "bills p (if ev = Resource_Event then most_of (mineralPrice (getType g u), gasPrice (getType g u)) else (0, 0)) g
     (lc_cancel_construction ev p u g)"
proof (cases "ev = Resource_Event")
  case True
  have "bills p (most_of (mineralPrice (getType g u), gasPrice (getType g u))) g
      (release_builder Resource_Event u g \<bind> (\<lambda>g. refund_building p u g \<bind> return_drone Resource_Event p u))"
  proof (rule bills_then [OF save_cancels(5)])
    fix g1 assume "release_builder Resource_Event u g = Some g1"
    then have "getType g1 u = getType g u"
      by (auto simp: release_builder_def set_unit_def getType_def split: if_splits option.splits)
    then show "bills p (most_of (mineralPrice (getType g u), gasPrice (getType g u))) g1
        (refund_building p u g1 \<bind> return_drone Resource_Event p u)"
      using bills_before [OF bill_refund_building [of p g1 u], of "return_drone Resource_Event p u"]
        save_cancels(4) by simp
  qed
  then show ?thesis by (simp add: True lc_cancel_construction_def)
next
  case False
  have "saving.reaches g (lc_cancel_construction ev p u g)"
    unfolding lc_cancel_construction_def using False
    by (simp, intro saving.reaches_bind save_cancels)
  then show ?thesis by (simp add: False bills_free)
qed

lemma bill_cancel_morph:
  "bills p (if ev = Resource_Event
            then (if isBuilding (morphed_from g u) then most_of (unit_price (ud_buildType (g_unit g u)))
                  else unit_price (ud_buildType (g_unit g u)))
            else (0, 0)) g
     (lc_cancel_morph ev p u g)"
proof (cases ev)
  case Resource_Event
  have "bills p (if isBuilding (morphed_from g u) then most_of (unit_price (ud_buildType (g_unit g u)))
                  else unit_price (ud_buildType (g_unit g u))) g (cancel_morph_resources p u g)"
    unfolding cancel_morph_resources_def Let_def most_of_def unit_price_def
    by (rule bills_before) (simp add: bills_last, intro save_rules)
  then show ?thesis by (simp add: Resource_Event lc_cancel_morph_def)
qed (simp_all add: lc_cancel_morph_def, (intro bills_free save_cancels)+)

section \<open>Every command\<close>

lemma bill_free_commands:
  assumes "t = uc_type c"
    "t \<notin> {Train, Research, Upgrade, Build_Addon, Morph, Cancel_Addon, Cancel_Construction, Cancel_Morph,
        Cancel_Research, Cancel_Train_Slot, Cancel_Train, Cancel_Upgrade}"
  shows "bill cur \<lparr>lc_command = c, lc_event = ev, lc_player = p\<rparr> u g = (0, 0)"
  using assms by (simp add: bill_def first_event_bill_def Let_def)

lemma bill_apply: "bills (lc_player k) (bill cur k u g) g (apply_command cur k u g)"
proof -
  obtain c ev p where k: "k = \<lparr>lc_command = c, lc_event = ev, lc_player = p\<rparr>"
    by (cases k) auto
  show ?thesis
  proof (cases "uc_type c \<in> {Train, Research, Upgrade, Build_Addon, Morph, Cancel_Addon, Cancel_Construction,
      Cancel_Morph, Cancel_Research, Cancel_Train_Slot, Cancel_Train, Cancel_Upgrade}")
    case True
    then consider "uc_type c = Train" | "uc_type c = Research" | "uc_type c = Upgrade"
      | "uc_type c = Build_Addon" | "uc_type c = Morph" | "uc_type c = Cancel_Addon"
      | "uc_type c = Cancel_Construction" | "uc_type c = Cancel_Morph" | "uc_type c = Cancel_Research"
      | "uc_type c = Cancel_Train_Slot" | "uc_type c = Cancel_Train" | "uc_type c = Cancel_Upgrade"
      by auto
    then show ?thesis
    proof cases
      case 1 show ?thesis using bill_train [of p cur c g u] 1 
        by (simp add: k apply_command_def bill_def first_event_bill_def split: if_splits)
    next case 2 show ?thesis using bill_research [of p c g u] 2
        by (simp add: k apply_command_def bill_def)
    next case 3 show ?thesis using bill_upgrade [of p g u c] 3
        by (simp add: k apply_command_def bill_def)
    next case 4 show ?thesis using bill_build_addon [of p ev c g cur u] 4
        by (simp add: k apply_command_def bill_def first_event_bill_def split: if_splits)
    next case 5 show ?thesis using bill_morph [of p ev g u cur c] 5
        by (cases ev; cases cur) (simp_all add: k apply_command_def bill_def first_event_bill_def Let_def split: if_splits)
    next case 6 show ?thesis using bill_cancel_addon [of p ev g u] 6
        by (simp add: k apply_command_def bill_def first_event_bill_def split: if_splits)
    next case 7 show ?thesis using bill_cancel_construction [of p ev g u] 7
        by (simp add: k apply_command_def bill_def first_event_bill_def split: if_splits)
    next case 8 show ?thesis using bill_cancel_morph [of p ev g u] 8
        by (simp add: k apply_command_def bill_def first_event_bill_def split: if_splits)
    next case 9 show ?thesis using bill_cancel_research [of p ev g u] 9
        by (simp add: k apply_command_def bill_def first_event_bill_def split: if_splits)
    next case 10 show ?thesis using bill_cancel_train_slot [of p ev g u c] 10
        by (simp add: k apply_command_def bill_def first_event_bill_def split: if_splits)
    next case 11 show ?thesis using bill_cancel_train [of p ev g u] 11
        by (simp add: k apply_command_def bill_def first_event_bill_def split: if_splits)
    next case 12 show ?thesis using bill_cancel_upgrade [of p ev g u] 12
        by (simp add: k apply_command_def bill_def first_event_bill_def split: if_splits)
    qed
  next
    case False
    have "saving.reaches g (apply_command cur k u g)"
      unfolding apply_command_def Let_def if_distribR using False
      by (intro saving.reaches_if saving.reaches_Some save_moves save_right_click_unit save_makes
            save_cancels save_abilities) (simp_all add: k)
    then show ?thesis using bill_free_commands [OF refl False] by (simp add: k bills_free)
  qed
qed

end
