(* ===== verification/Latency_Schedule.thy ===== *)
theory Latency_Schedule
  imports Latency_Rules
begin

text \<open>
  How long the events of a command stay in the latency buffer: the events of each slot, as they
  enter, move up by one slot a frame, are replayed and leave.
\<close>

section \<open>The events in a slot\<close>

text \<open>An event is named by its command and its type; the player it charges is found when it runs.\<close>

definition slot_event :: "lat_command \<Rightarrow> unit_command \<times> event_type" where
  "slot_event k = (lc_command k, lc_event k)"

definition events_in :: "lat_buffer \<Rightarrow> nat \<Rightarrow> (unit_command \<times> event_type) list" where
  "events_in buf i = (if i < length buf then map slot_event (buf ! i) else [])"

text \<open>A replay turns every event of a halted construction into its order event.\<close>

definition replay_event :: "unit_command \<times> event_type \<Rightarrow> unit_command \<times> event_type" where
  "replay_event e = (if uc_type (fst e) = Halt_Construction then (fst e, Order_Event) else e)"

text \<open>
  Whether what ends in slot \<open>i\<close> after the frames \<open>fs\<close> was replayed in one of them: a frame replays the
  slots below its remaining latency, and each frame moves a slot forward by one.
\<close>

fun replayed :: "nat \<Rightarrow> (int \<times> game) list \<Rightarrow> bool" where
  "replayed i [] = False"
| "replayed i ((rlf, g) # fs) = (i + length fs < nat rlf \<or> replayed i fs)"

definition shown :: "bool \<Rightarrow> unit_command \<times> event_type \<Rightarrow> unit_command \<times> event_type" where
  "shown b = (if b then replay_event else id)"

lemma replay_event_again: "replay_event (replay_event e) = replay_event e"
  by (simp add: replay_event_def)

lemma shown_shown: "shown b (shown b' e) = shown (b' \<or> b) e"
  by (simp add: shown_def replay_event_again)

lemma execute_at_event:
  "execute_at on cur k g = Some (k', g') \<Longrightarrow> slot_event k' = slot_event k"
  by (erule execute_at_cases) (auto simp: slot_event_def)

lemma execute_event:
  "execute on rlf k g = Some (k', g') \<Longrightarrow> slot_event k' = replay_event (slot_event k)"
  unfolding execute_def
  by (drule execute_at_event) (simp add: slot_event_def replay_event_def split: if_splits)

lemma run_slot_events:
  assumes "run_slot f ks g = Some (ks', g')"
    "\<And>k g k' g'. f k g = Some (k', g') \<Longrightarrow> slot_event k' = h (slot_event k)"
  shows "map slot_event ks' = map h (map slot_event ks)"
  using assms(1)
  by (induction ks arbitrary: g ks' g') (auto simp: Option.bind_eq_Some_conv dest: assms(2))

lemma run_slots_events:
  assumes "run_slots f kss g = Some (kss', g')"
    "\<And>k g k' g'. f k g = Some (k', g') \<Longrightarrow> slot_event k' = h (slot_event k)"
  shows "map (map slot_event) kss' = map (map h) (map (map slot_event) kss)"
  using assms(1)
  by (induction kss arbitrary: g kss' g')
    (auto simp: Option.bind_eq_Some_conv dest!: run_slot_events [where h = h, OF _ assms(2)])

lemma events_in_map: "events_in buf i = (if i < length buf then map (map slot_event) buf ! i else [])"
  by (simp add: events_in_def)

lemma length_grow [simp]: "length (grow n buf) = max n (length buf)"
  by (simp add: grow_def)

lemma events_in_grow [simp]: "events_in (grow n buf) = events_in buf"
  by (rule ext) (simp add: events_in_def grow_def nth_append)

lemma events_in_tl: "events_in (tl buf) i = events_in buf (Suc i)"
  by (cases buf) (simp_all add: events_in_def)

lemma applied_events:
  assumes "applyLatencyCompensation on rlf s = Some s'"
  shows "events_in (fst s') i = map (shown (i < nat rlf)) (events_in (fst s) (Suc i))"
proof -
  let ?t = "tl (fst s)"
  from assms obtain g now g' where now:
      "run_slots (execute on rlf) (take (nat rlf) ?t) g = Some (now, g')"
    and s': "fst s' = grow (nat (rlf + 15)) (now @ drop (nat rlf) ?t)"
    unfolding applyLatencyCompensation_def Let_def
    by (auto simp: Option.bind_eq_Some_conv split: if_splits)
  have events: "map (map slot_event) now = map (map replay_event) (map (map slot_event) (take (nat rlf) ?t))"
    by (rule run_slots_events [where h = replay_event, OF now execute_event])
  then have len: "length now = min (nat rlf) (length ?t)"
    by (metis length_map length_take min.commute)
  have "events_in (now @ drop (nat rlf) ?t) i = map (shown (i < nat rlf)) (events_in ?t i)"
  proof (cases "i < length now")
    case True
    then have i: "i < nat rlf" "i < length ?t" unfolding len by simp_all
    have "map slot_event (now ! i) = map (map slot_event) now ! i" using True by simp
    also have "\<dots> = map replay_event (map slot_event (?t ! i))" unfolding events using i by simp
    finally show ?thesis using True i by (simp add: events_in_def shown_def nth_append)
  next
    case False
    then have "length ?t \<le> i \<or> nat rlf \<le> i" unfolding len by linarith
    then show ?thesis using False by (auto simp: shown_def events_in_def nth_append len min_def)
  qed
  then show ?thesis by (simp add: s' events_in_tl)
qed

lemma frames_events:
  assumes "latency_frames on fs buf = Some buf'"
  shows "events_in buf' i = map (shown (replayed i fs)) (events_in buf (i + length fs))"
  using assms
proof (induction on fs buf arbitrary: buf' rule: latency_frames.induct)
  case (1 on buf)
  then show ?case by (simp add: shown_def)
next
  case (2 on rlf g fs buf)
  then obtain s where s: "applyLatencyCompensation on rlf (buf, g) = Some s"
      "latency_frames on fs (fst s) = Some buf'"
    by (auto simp: Option.bind_eq_Some_conv)
  have "shown (replayed i fs) \<circ> shown (i + length fs < nat rlf) = shown (replayed i ((rlf, g) # fs))"
    by (rule ext) (simp add: shown_shown)
  then show ?case using 2(1) [OF s] applied_events [OF s(1), of "i + length fs"] by simp
qed

section \<open>The frames an event is scheduled for\<close>

text \<open>
  The events a command schedules, with the frames each has left, and those that start in slot \<open>i\<close>.
\<close>

definition schedule :: "int \<Rightarrow> int \<Rightarrow> bool \<Rightarrow> (int \<times> event_type) list" where
  "schedule rlf t building =
     (if t = Cancel_Construction then [(rlf, Resource_Event), (rlf + 1, Order_Event), (rlf + 2, Finish_Event)]
      else if t \<in> {Build_Addon, Cancel_Addon, Cancel_Research, Cancel_Upgrade, Morph}
      then [(rlf, Resource_Event), (rlf + 1, Order_Event)]
      else if t = Cancel_Morph
      then (if building then [(rlf, Resource_Event), (rlf + 1, Order_Event), (rlf + 15, Finish_Event)]
            else [(rlf, Resource_Event), (rlf + 13, Finish_Event)])
      else if t \<in> {Cancel_Train, Cancel_Train_Slot}
      then [(rlf, Resource_Event), (rlf + 1, Order_Event), (rlf + 3, Finish_Event)]
      else if t = Halt_Construction then [(rlf, Order_Event), (rlf + 1, Finish_Event)]
      else [(rlf, Resource_Event)])"

definition due :: "(int \<times> event_type) list \<Rightarrow> nat \<Rightarrow> event_type list" where
  "due events i = map snd (filter (\<lambda>e. fst e = int i + 1) events)"

lemma due_simps [simp]:
  "due [] i = []"
  "due ((f, ev) # es) i = (if f = int i + 1 then ev # due es i else due es i)"
  by (simp_all add: due_def)

text \<open>Whether the unit is a building once the first event of the command has been applied.\<close>

definition building_after :: "bool \<Rightarrow> int \<Rightarrow> unit_command \<Rightarrow> game \<Rightarrow> bool" where
  "building_after on rlf c g =
     (case execute_at on (rlf = 0) (new_command c) g of
        None \<Rightarrow> False | Some (k, g') \<Rightarrow> commands_building (new_command c) g')"

lemma new_command_simps [simp]:
  "lc_command (new_command c) = c" "lc_event (new_command c) = Resource_Event"
  "lc_player (new_command c) = None" "lc_command (make_event k ev) = lc_command k"
  "lc_event (make_event k ev) = ev" "lc_player (make_event k ev) = None"
  by (simp_all add: new_command_def make_event_def)

lemma added_event:
  assumes "add_to_buffer on k frames s = Some s'"
  shows "events_in (fst s') i
    = events_in (fst s) i @ map (Pair (lc_command k)) (due [(frames, lc_event k)] i)"
proof -
  from assms obtain k' g' where k': "execute_at on (frames = 0) k (snd s) = Some (k', g')"
    and s': "fst s' = (let buf = grow (nat frames) (fst s) in
      if frames > 0 then buf[nat (frames - 1) := buf ! nat (frames - 1) @ [k']] else buf)"
    by (auto simp: add_to_buffer_def Option.bind_eq_Some_conv Let_def)
  show ?thesis
  proof (cases "frames > 0")
    case False
    then show ?thesis by (simp add: s')
  next
    case True
    define b where "b = grow (nat frames) (fst s)"
    have len: "nat (frames - 1) < length b" using True by (simp add: b_def)
    have "events_in (fst s') i = events_in b i @ (if i = nat (frames - 1) then [slot_event k'] else [])"
      using True len by (auto simp: s' b_def [symmetric] events_in_def nth_list_update)
    moreover have "i = nat (frames - 1) \<longleftrightarrow> frames = int i + 1" using True by linarith
    ultimately show ?thesis
      by (simp add: b_def execute_at_event [OF k'] slot_event_def [of k])
  qed
qed

lemma add_to_buffer_snd:
  "add_to_buffer on k frames s = Some s' \<Longrightarrow>
   \<exists>k'. execute_at on (frames = 0) k (snd s) = Some (k', snd s')"
  by (auto simp: add_to_buffer_def Option.bind_eq_Some_conv Let_def)

lemma added_two:
  assumes "add_to_buffer on k1 f1 s = Some s1" "add_to_buffer on k2 f2 s1 = Some s2"
    and "lc_command k2 = lc_command k1"
  shows "events_in (fst s2) i = events_in (fst s) i
    @ map (Pair (lc_command k1)) (due [(f1, lc_event k1), (f2, lc_event k2)] i)"
  using added_event [OF assms(1), of i] added_event [OF assms(2), of i] assms(3) by simp

lemma added_three:
  assumes "add_to_buffer on k1 f1 s = Some s1" "add_to_buffer on k2 f2 s1 = Some s2"
    "add_to_buffer on k3 f3 s2 = Some s3"
    and "lc_command k2 = lc_command k1" "lc_command k3 = lc_command k1"
  shows "events_in (fst s3) i = events_in (fst s) i
    @ map (Pair (lc_command k1)) (due [(f1, lc_event k1), (f2, lc_event k2), (f3, lc_event k3)] i)"
  using added_two [OF assms(1,2,4), of i] added_event [OF assms(3), of i] assms(5) by simp

lemma entered_events:
  assumes "addToCommandBuffer on rlf c s = Some s'"
  shows "events_in (fst s') i = events_in (fst s) i
     @ map (Pair c) (due (schedule rlf (uc_type c) (building_after on rlf c (snd s))) i)"
proof -
  have building: "building_after on rlf c (snd s) = commands_building (new_command c) (snd s1)"
    if "add_to_buffer on (new_command c) rlf s = Some s1" for s1
    using add_to_buffer_snd [OF that] by (auto simp: building_after_def)
  note enters = assms [unfolded addToCommandBuffer_def insertIntoCommandBuffer_def Let_def new_command_simps]
  consider (construction) "uc_type c = Cancel_Construction"
    | (two) "uc_type c \<in> {Build_Addon, Cancel_Addon, Cancel_Research, Cancel_Upgrade, Morph}"
    | (morph) "uc_type c = Cancel_Morph"
    | (train) "uc_type c \<in> {Cancel_Train, Cancel_Train_Slot}"
    | (halt) "uc_type c = Halt_Construction"
    | (one) "uc_type c \<notin> {Cancel_Construction, Build_Addon, Cancel_Addon, Cancel_Research, Cancel_Upgrade,
        Morph, Cancel_Morph, Cancel_Train, Cancel_Train_Slot, Halt_Construction}"
    by blast
  then show ?thesis
  proof cases
    case construction
    then show ?thesis
      using enters added_three [of on "new_command c" rlf s _ "make_event (new_command c) Order_Event"
          "rlf + 1" _ "make_event (new_command c) Finish_Event" "rlf + 2" s' i]
      by (auto simp: Option.bind_eq_Some_conv schedule_def)
  next
    case two
    then have "schedule rlf (uc_type c) b = [(rlf, Resource_Event), (rlf + 1, Order_Event)]" for b
      by (auto simp: schedule_def)
    then show ?thesis
      using two enters added_two [of on "new_command c" rlf s _ "make_event (new_command c) Order_Event"
          "rlf + 1" s' i]
      by (auto simp: Option.bind_eq_Some_conv)
  next
    case morph
    then obtain a where a: "add_to_buffer on (new_command c) rlf s = Some a"
      and rest: "(if commands_building (new_command c) (snd a)
          then add_to_buffer on (make_event (new_command c) Order_Event) (rlf + 1) a \<bind>
            add_to_buffer on (make_event (new_command c) Finish_Event) (rlf + 15)
          else add_to_buffer on (make_event (new_command c) Finish_Event) (rlf + 13) a) = Some s'"
      using enters by (auto simp: Option.bind_eq_Some_conv)
    then show ?thesis
      using morph building [OF a] added_two [OF a, of "make_event (new_command c) Finish_Event" "rlf + 13" s' i]
        added_three [OF a, of "make_event (new_command c) Order_Event" "rlf + 1" _
          "make_event (new_command c) Finish_Event" "rlf + 15" s' i]
      by (auto simp: Option.bind_eq_Some_conv schedule_def split: if_splits)
  next
    case train
    then have "schedule rlf (uc_type c) b
        = [(rlf, Resource_Event), (rlf + 1, Order_Event), (rlf + 3, Finish_Event)]" for b
      by (auto simp: schedule_def)
    then show ?thesis
      using train enters added_three [of on "new_command c" rlf s _
          "make_event (new_command c) Order_Event" "rlf + 1" _
          "make_event (new_command c) Finish_Event" "rlf + 3" s' i]
      by (auto simp: Option.bind_eq_Some_conv)
  next
    case halt
    then show ?thesis
      using enters added_two [of on "new_command c\<lparr>lc_event := Order_Event\<rparr>" rlf s _
          "make_event (new_command c) Finish_Event" "rlf + 1" s' i]
      by (auto simp: Option.bind_eq_Some_conv schedule_def)
  next
    case one
    then have "schedule rlf (uc_type c) b = [(rlf, Resource_Event)]" for b
      by (simp add: schedule_def)
    then show ?thesis
      using one enters added_event [of on "new_command c" rlf s s' i] by simp
  qed
qed

end
