(* ===== verification/Latency_Undo.thy ===== *)
theory Latency_Undo
  imports Latency_Accounts Latency_Schedule
begin

text \<open>
  Ordering and taking back: what the mirror shows after a unit is queued and the order is cancelled.
\<close>

section \<open>One event of a fresh command\<close>

lemma execute_fresh:
  assumes "lc_player k = None" "\<not> isQueued (lc_command k)" "uc_unit (lc_command k) = Some v"
    "unit_exists g (u_index v)" "\<not> needs_motion (uc_type (lc_command k))"
    "execute_at True False k g = Some (k', g')"
  shows "apply_command False (k\<lparr>lc_player := getPlayer g (u_index v)\<rparr>) (u_index v) g = Some g'"
  using assms by (auto simp: execute_at_def claim_player_def Let_def)

lemma add_fresh:
  assumes "add_to_buffer True k frames s = Some s'" "frames > 0"
    "lc_player k = None" "\<not> isQueued (lc_command k)" "uc_unit (lc_command k) = Some v"
    "unit_exists (snd s) (u_index v)" "\<not> needs_motion (uc_type (lc_command k))"
  shows "apply_command False (k\<lparr>lc_player := getPlayer (snd s) (u_index v)\<rparr>) (u_index v) (snd s) = Some (snd s')"
proof -
  obtain k' where "execute_at True False k (snd s) = Some (k', snd s')"
    using add_to_buffer_snd [OF assms(1)] assms(2) by auto
  then show ?thesis by (rule execute_fresh [OF assms(3-7)])
qed

section \<open>Training\<close>

lemma lc_train_result:
  assumes "lc_train False c p u g = Some g'"
  obtains q r t where "p = Some q" "t = mkType UnitType_Unknown (uc_extra c)" "r = getRaceType t"
    "0 \<le> r" "r < 3" "in_queue g u (ud_trainingQueueCount (g_unit g u))"
    "ud_trainingQueue (g_unit g' u) = (ud_trainingQueue (g_unit g u))[nat (ud_trainingQueueCount (g_unit g u)) := t]"
    "ud_trainingQueueCount (g_unit g' u) = ud_trainingQueueCount (g_unit g u) + 1"
    "ud_player (g_unit g' u) = ud_player (g_unit g u)" "ud_exists (g_unit g' u) = ud_exists (g_unit g u)"
    "g_playerVector g' = g_playerVector g"
    "g_player g' = (g_player g)(q := (g_player g q)\<lparr>pd_minerals := pd_minerals (g_player g q) - mineralPrice t,
       pd_gas := pd_gas (g_player g q) - gasPrice t,
       pd_supplyUsed := (pd_supplyUsed (g_player g q))[nat r := pd_supplyUsed (g_player g q) ! nat r + supplyRequired t]\<rparr>)"
  using assms
  by (auto simp: lc_train_def Let_def add_resources_def set_player_def push_queue_def set_queue_def set_unit_def
      add_supply_def in_queue_def Option.bind_eq_Some_conv split: if_splits option.splits)

lemma cancel_train_resources_result:
  assumes "cancel_train_resources (Some q) u g = Some g'"
    "ud_trainingQueueCount (g_unit g u) = i + 1" "ud_trainingQueue (g_unit g u) ! nat i = t"
    "mkType UnitType_Unknown t = t"
  shows "ud_trainingQueueCount (g_unit g' u) = i + 1"
    "ud_trainingQueue (g_unit g' u) = ud_trainingQueue (g_unit g u)"
    "ud_player (g_unit g' u) = ud_player (g_unit g u)" "ud_exists (g_unit g' u) = ud_exists (g_unit g u)"
    "g_playerVector g' = g_playerVector g"
    "g_player g' = (g_player g)(q := (g_player g q)\<lparr>pd_minerals := pd_minerals (g_player g q) + mineralPrice t,
       pd_gas := pd_gas (g_player g q) + gasPrice t\<rparr>)"
  using assms
  by (auto simp: cancel_train_resources_def Let_def add_resources_def set_player_def set_unit_def queue_at_def
      Option.bind_eq_Some_conv split: if_splits)

lemma cancel_train_order_result:
  assumes "cancel_train_order (Some q) u g = Some g'"
    "ud_trainingQueueCount (g_unit g u) = i + 1" "ud_trainingQueue (g_unit g u) ! nat i = t"
    "mkType UnitType_Unknown t = t" "r = getRaceType t"
  shows "ud_trainingQueueCount (g_unit g' u) = i"
    "ud_trainingQueue (g_unit g' u) = ud_trainingQueue (g_unit g u)"
    "ud_player (g_unit g' u) = ud_player (g_unit g u)" "ud_exists (g_unit g' u) = ud_exists (g_unit g u)"
    "g_playerVector g' = g_playerVector g"
    "g_player g' = (g_player g)(q := (g_player g q)\<lparr>pd_supplyUsed :=
       (pd_supplyUsed (g_player g q))[nat r := pd_supplyUsed (g_player g q) ! nat r - supplyRequired t]\<rparr>)"
proof -
  define g1 where "g1 = g\<lparr>g_unit := (g_unit g)(u := (g_unit g u)\<lparr>ud_trainingQueueCount := ud_trainingQueueCount (g_unit g u) - 1\<rparr>)\<rparr>"
  have at: "ud_trainingQueueCount (g_unit g1 u) = i" "ud_trainingQueue (g_unit g1 u) = ud_trainingQueue (g_unit g u)"
    using assms(2) by (simp_all add: g1_def)
  from assms(1) obtain g2 where g2: "add_supply (Some q) r (- supplyRequired t) g1 = Some g2"
    and rest: "(if ud_trainingQueueCount (g_unit g2 u) = 0
       then set_unit u (\<lambda>d. d\<lparr>ud_buildType := UnitType_None\<rparr>) g2
       else do {
         t \<leftarrow> queue_at g2 u (ud_trainingQueueCount (g_unit g2 u) - 1);
         set_unit u (\<lambda>d. d\<lparr>ud_remainingTrainTime := buildTime (mkType UnitType_Unknown t), ud_buildType := t\<rparr>) g2 })
       = Some g'"
    unfolding cancel_train_order_def set_unit_def [of _ _ g] g1_def [symmetric] Option.bind.simps at Let_def
    using assms(3-5) at(2) by (auto simp: queue_at_def Option.bind_eq_Some_conv split: if_splits)
  from rest obtain d where g': "g' = g2\<lparr>g_unit := (g_unit g2)(u := d)\<rparr>"
      "ud_trainingQueueCount d = ud_trainingQueueCount (g_unit g2 u)"
      "ud_trainingQueue d = ud_trainingQueue (g_unit g2 u)"
      "ud_player d = ud_player (g_unit g2 u)" "ud_exists d = ud_exists (g_unit g2 u)"
    by (fastforce simp: set_unit_def Option.bind_eq_Some_conv split: if_splits)
  have g2': "g2 = g1\<lparr>g_player := (g_player g1)(q := (g_player g1 q)\<lparr>pd_supplyUsed :=
       (pd_supplyUsed (g_player g1 q))[nat r := pd_supplyUsed (g_player g1 q) ! nat r + - supplyRequired t]\<rparr>)\<rparr>"
    using g2 by (simp add: add_supply_def set_player_def split: if_splits)
  show "ud_trainingQueueCount (g_unit g' u) = i"
    "ud_trainingQueue (g_unit g' u) = ud_trainingQueue (g_unit g u)"
    "ud_player (g_unit g' u) = ud_player (g_unit g u)" "ud_exists (g_unit g' u) = ud_exists (g_unit g u)"
    "g_playerVector g' = g_playerVector g"
    "g_player g' = (g_player g)(q := (g_player g q)\<lparr>pd_supplyUsed :=
       (pd_supplyUsed (g_player g q))[nat r := pd_supplyUsed (g_player g q) ! nat r - supplyRequired t]\<rparr>)"
    using g'(2-5) assms(2) by (auto simp: g'(1) g2' g1_def)
qed

lemma cancel_train_finish_result:
  assumes "lc_cancel_train Finish_Event p u g = Some g'"
  shows "ud_trainingQueueCount (g_unit g' u) = ud_trainingQueueCount (g_unit g u)"
    "ud_trainingQueue (g_unit g' u) = ud_trainingQueue (g_unit g u)" "g_player g' = g_player g"
  using assms by (auto simp: lc_cancel_train_def set_unit_def split: if_splits)


lemma mkType_idem [simp]: "mkType n (mkType n t) = mkType n t"
  by (simp add: mkType_def)

lemma unit_exists_same: "ud_exists (g_unit g' u) = ud_exists (g_unit g u) \<Longrightarrow> unit_exists g' u = unit_exists g u"
  by (simp add: unit_exists_def)

lemma getPlayer_same:
  "ud_player (g_unit g' u) = ud_player (g_unit g u) \<Longrightarrow> g_playerVector g' = g_playerVector g \<Longrightarrow>
   getPlayer g' u = getPlayer g u"
  by (simp add: getPlayer_def getPlayerById_def)

text \<open>Cancelling undoes the effect of the training event, whatever latency the cancellation has.\<close>

lemma cancel_undoes:
  assumes "mirror_ok g" "unit_exists g u" "getPlayer g u = Some q" "lc_train False c (Some q) u g = Some (snd s1)"
    "0 < rlf" "uc_type d = Cancel_Train" "uc_unit d = Some v" "u = u_index v"
    "addToCommandBuffer True rlf d s1 = Some s2"
  shows "g_player (snd s2) = g_player g" "getTrainingQueue (snd s2) u = getTrainingQueue g u"
proof -
  let ?t = "mkType UnitType_Unknown (uc_extra c)"
  let ?n = "ud_trainingQueueCount (g_unit g u)" and ?r = "getRaceType (mkType UnitType_Unknown (uc_extra c))"
  from assms(4) have q: "0 \<le> ?r" "?r < 3" "in_queue g u ?n"
      "ud_trainingQueue (g_unit (snd s1) u) = (ud_trainingQueue (g_unit g u))[nat ?n := ?t]"
      "ud_trainingQueueCount (g_unit (snd s1) u) = ?n + 1"
      "ud_player (g_unit (snd s1) u) = ud_player (g_unit g u)" "ud_exists (g_unit (snd s1) u) = ud_exists (g_unit g u)"
      "g_playerVector (snd s1) = g_playerVector g"
    and players: "g_player (snd s1) = (g_player g)(q := (g_player g q)\<lparr>
       pd_minerals := pd_minerals (g_player g q) - mineralPrice ?t,
       pd_gas := pd_gas (g_player g q) - gasPrice ?t,
       pd_supplyUsed := (pd_supplyUsed (g_player g q))[nat ?r := pd_supplyUsed (g_player g q) ! nat ?r + supplyRequired ?t]\<rparr>)"
    by (elim lc_train_result, auto)+
  from assms(6,9) obtain a b where ev:
      "add_to_buffer True (new_command d) rlf s1 = Some a"
      "add_to_buffer True (make_event (new_command d) Order_Event) (rlf + 1) a = Some b"
      "add_to_buffer True (make_event (new_command d) Finish_Event) (rlf + 3) b = Some s2"
    by (auto simp: addToCommandBuffer_def insertIntoCommandBuffer_def Let_def Option.bind_eq_Some_conv)
  have q1: "getPlayer (snd s1) u = Some q" "unit_exists (snd s1) u"
    using assms(2,3) getPlayer_same [OF q(6,8)] unit_exists_same [OF q(7)] by simp_all
  have at: "ud_trainingQueue (g_unit (snd s1) u) ! nat ?n = ?t"
    using q(3) by (simp add: q(4) in_queue_def nth_list_update nat_less_iff)
  have "cancel_train_resources (Some q) u (snd s1) = Some (snd a)"
    using add_fresh [OF ev(1) assms(5), of v] assms(6-8) q1
    by (simp add: isQueued_def needs_motion_def apply_command_def lc_cancel_train_def)
  note a = cancel_train_resources_result [OF this q(5) at mkType_idem]
  have qa: "getPlayer (snd a) u = Some q" "unit_exists (snd a) u"
    using q1 getPlayer_same [OF a(3,5)] unit_exists_same [OF a(4)] by simp_all
  have "cancel_train_order (Some q) u (snd a) = Some (snd b)"
    using add_fresh [OF ev(2), of v] assms(5-8) qa
    by (simp add: isQueued_def needs_motion_def apply_command_def lc_cancel_train_def)
  note b = cancel_train_order_result [OF this a(1) at [folded a(2)] mkType_idem refl]
  have qb: "getPlayer (snd b) u = Some q" "unit_exists (snd b) u"
    using qa getPlayer_same [OF b(3,5)] unit_exists_same [OF b(4)] by simp_all
  have "lc_cancel_train Finish_Event (Some q) u (snd b) = Some (snd s2)"
    using add_fresh [OF ev(3), of v] assms(5-8) qb
    by (simp add: isQueued_def needs_motion_def apply_command_def)
  note c = cancel_train_finish_result [OF this]
  have len: "length (pd_supplyUsed (g_player g q)) = 3"
    using assms(1) by (simp add: mirror_ok_def player_ok_def)
  then have "nat ?r < length (pd_supplyUsed (g_player g q))" using q(1,2) by linarith
  then show "g_player (snd s2) = g_player g"
    by (simp add: c(3) b(6) a(6) players)
  show "getTrainingQueue (snd s2) u = getTrainingQueue g u"
    by (simp add: getTrainingQueue_def c(1,2) b(1,2) a(2) q(4))
qed

section \<open>A training event alone in the buffer\<close>

text \<open>The frames after a command, as in \<open>latency_frames\<close>, with the mirror the last one leaves.\<close>

fun latency_run ::
    "bool \<Rightarrow> (int \<times> game) list \<Rightarrow> lat_buffer \<times> game \<Rightarrow> (lat_buffer \<times> game) option" where
  "latency_run on [] s = Some s"
| "latency_run on ((rlf, g) # fs) s = do {
     s \<leftarrow> applyLatencyCompensation on rlf (fst s, g);
     latency_run on fs s }"

text \<open>The mirror the last frame started from.\<close>

fun last_mirror :: "game \<Rightarrow> (int \<times> game) list \<Rightarrow> game" where
  "last_mirror g [] = g"
| "last_mirror g ((rlf, h) # fs) = last_mirror h fs"

text \<open>
  The buffer holds the training event of \<open>c\<close> in slot \<open>j\<close> and nothing else, and the mirror shows its
  effect on \<open>g\<close>.
\<close>

definition training :: "unit_command \<Rightarrow> nat \<Rightarrow> nat \<Rightarrow> nat \<Rightarrow> game \<Rightarrow> lat_buffer \<times> game \<Rightarrow> bool" where
  "training c u q j g s \<longleftrightarrow>
     (\<exists>m. fst s = replicate j [] @
         [\<lparr>lc_command = c, lc_event = Resource_Event, lc_player = Some q\<rparr>] # replicate m [])
   \<and> lc_train False c (Some q) u g = Some (snd s)"

lemma run_slots_append:
  "run_slots f (xs @ ys) g = do {
     (xs, g) \<leftarrow> run_slots f xs g;
     (ys, g) \<leftarrow> run_slots f ys g;
     Some (xs @ ys, g) }"
  by (induction xs arbitrary: g) (simp_all add: Option.bind_assoc split_def)

lemma run_slots_empty [simp]: "run_slots f (replicate n []) g = Some (replicate n [], g)"
  by (induction n) simp_all

lemma grow_empty [simp]: "grow n (xs @ ks # replicate m []) = xs @ ks # replicate (m + (n - Suc (length xs + m))) []"
  by (simp add: grow_def replicate_add)

lemma training_event:
  assumes "uc_type c = Train" "uc_unit c = Some v" "unit_exists g (u_index v)"
    "k = \<lparr>lc_command = c, lc_event = Resource_Event, lc_player = Some q\<rparr>"
  shows "execute_at True False k g = map_option (Pair k) (lc_train False c (Some q) (u_index v) g)"
  using assms
  by (simp add: execute_at_def isQueued_def needs_motion_def apply_command_def claim_player_def Let_def)

lemma training_entered:
  assumes "uc_type c = Train" "uc_unit c = Some v" "unit_exists (snd s) (u_index v)"
    "getPlayer (snd s) (u_index v) = Some q" "0 < rlf" "fst s = replicate m []"
    "addToCommandBuffer True rlf c s = Some s'"
  shows "training c (u_index v) q (nat rlf - 1) (snd s) s'"
proof -
  let ?k = "\<lparr>lc_command = c, lc_event = Resource_Event, lc_player = Some q\<rparr>"
  have claim: "execute_at True False (new_command c) (snd s) = execute_at True False ?k (snd s)"
    using assms(1-4)
    by (simp add: execute_at_def isQueued_def claim_player_def new_command_def Let_def)
  have "add_to_buffer True (new_command c) rlf s = Some s'"
    using assms(1,7) by (simp add: addToCommandBuffer_def insertIntoCommandBuffer_def)
  then obtain g' where g': "lc_train False c (Some q) (u_index v) (snd s) = Some g'"
      and s': "s' = ((grow (nat rlf) (replicate m []))
        [nat (rlf - 1) := grow (nat rlf) (replicate m []) ! nat (rlf - 1) @ [?k]], g')"
    using assms(5,6)
    by (auto simp: add_to_buffer_def claim training_event [OF assms(1-3) refl] Let_def
        Option.bind_eq_Some_conv)
  have "grow (nat rlf) (replicate m []) = (replicate (nat rlf - 1) [] @ [] # replicate (m - nat rlf) [] :: lat_buffer)"
  proof -
    have "grow (nat rlf) (replicate m []) = (replicate (m + (nat rlf - m)) [] :: lat_buffer)"
      by (simp add: grow_def replicate_add)
    moreover have "m + (nat rlf - m) = (nat rlf - 1) + Suc (m - nat rlf)" using assms(5) by linarith
    ultimately show ?thesis by (simp only: replicate_add replicate_Suc)
  qed
  then have "fst s' = replicate (nat rlf - 1) [] @ [?k] # replicate (m - nat rlf) []"
    using assms(5) by (simp add: s' nat_diff_distrib list_update_append nth_append)
  then show ?thesis using g' by (auto simp: training_def s')
qed

lemma training_replayed:
  assumes "uc_type c = Train" "uc_unit c = Some v" "unit_exists h (u_index v)" "j < nat rlf"
    "training c (u_index v) q (Suc j) g s" "applyLatencyCompensation True rlf (fst s, h) = Some s'"
  shows "training c (u_index v) q j h s'"
proof -
  let ?k = "\<lparr>lc_command = c, lc_event = Resource_Event, lc_player = Some q\<rparr>"
  obtain m where m: "fst s = replicate (Suc j) [] @ [?k] # replicate m []"
    using assms(5) by (auto simp: training_def)
  have "rlf \<noteq> 0" using assms(4) by auto
  then have ex: "execute True rlf ?k h = map_option (Pair ?k) (lc_train False c (Some q) (u_index v) h)"
    using training_event [OF assms(1-3) refl, of q] assms(1) by (simp add: execute_def)
  have t: "take (nat rlf) (tl (fst s)) = replicate j [] @ [?k] # replicate (min (nat rlf - Suc j) m) []"
    and d: "drop (nat rlf) (tl (fst s)) = replicate (m - (nat rlf - Suc j)) []"
    using assms(4) by (simp_all add: m take_Cons' drop_Cons' min.commute)
  obtain h' where h': "lc_train False c (Some q) (u_index v) h = Some h'"
    and s': "s' = (grow (nat (rlf + 15)) (replicate j [] @ [?k] #
        replicate (min (nat rlf - Suc j) m + (m - (nat rlf - Suc j))) []), h')"
    using assms(6) unfolding applyLatencyCompensation_def Let_def fst_conv snd_conv t d
    by (auto simp: m run_slots_append ex Option.bind_eq_Some_conv replicate_add split: if_splits)
  then show ?thesis by (auto simp: training_def)
qed

lemma training_run:
  assumes "uc_type c = Train" "uc_unit c = Some v"
    "\<forall>(r, h)\<in>set fs. unit_exists h (u_index v)"
    "\<forall>j<length fs. n - 1 - int j \<le> fst (fs ! j)" "int (length fs) < n"
    "training c (u_index v) q (nat n - 1) g s" "latency_run True fs s = Some s'"
  shows "\<exists>j. training c (u_index v) q j (last_mirror g fs) s'"
  using assms(3-7)
proof (induction fs arbitrary: n g s)
  case Nil
  then show ?case by auto
next
  case (Cons f fs)
  obtain r h where f: "f = (r, h)" by (cases f)
  then obtain s1 where s1: "applyLatencyCompensation True r (fst s, h) = Some s1"
      "latency_run True fs s1 = Some s'"
    using Cons.prems(5) by (auto simp: Option.bind_eq_Some_conv)
  have n: "Suc (nat (n - 1) - 1) = nat n - 1" "nat (n - 1) - 1 < nat r"
    using Cons.prems(2,3) f by (auto dest: spec [of _ 0])
  have "training c (u_index v) q (nat (n - 1) - 1) h s1"
    using Cons.prems(1,4) f n(1)
    by (intro training_replayed [OF assms(1,2) _ n(2) _ s1(1)]) auto
  moreover have "n - 1 - 1 - int j \<le> fst (fs ! j)" if "j < length fs" for j
    using Cons.prems(2) that by (auto dest: spec [of _ "Suc j"])
  ultimately show ?case
    using Cons.IH [of "n - 1" h s1] Cons.prems(1,3) s1(2) f by auto
qed

lemma last_mirror_mem: "last_mirror g fs = g \<and> fs = [] \<or> (\<exists>r. (r, last_mirror g fs) \<in> set fs)"
  by (induction g fs rule: last_mirror.induct) auto

end
