(* ===== verification/Latency_Totality.thy ===== *)
theory Latency_Totality
  imports Latency_Undo Check_Properties Command_Issue
begin

text \<open>
  Which effects always have a result, and that the permission checks admit a command only in a state
  where its prediction has one; with the exceptions that concern the training queue.
\<close>

section \<open>Effects that always return\<close>

lemma set_unit_returns [simp]: "set_unit u f g \<noteq> None"
  by (simp add: set_unit_def)

lemma set_player_returns [simp]: "p \<noteq> None \<Longrightarrow> set_player p f g \<noteq> None"
  by (auto simp: set_player_def)

lemma add_resources_returns [simp]: "p \<noteq> None \<Longrightarrow> add_resources p m v g \<noteq> None"
  by (simp add: add_resources_def)

lemma bind_returns: "x \<noteq> None \<Longrightarrow> (\<And>y. x = Some y \<Longrightarrow> h y \<noteq> None) \<Longrightarrow> x \<bind> h \<noteq> None"
  by (cases x) simp_all

lemma return_rules:
  "Some g \<noteq> None"
  "(b \<Longrightarrow> x \<noteq> None) \<Longrightarrow> (\<not> b \<Longrightarrow> y \<noteq> None) \<Longrightarrow> (if b then x else y) \<noteq> None"
  "(v = None \<Longrightarrow> x \<noteq> None) \<Longrightarrow> (\<And>w. v = Some w \<Longrightarrow> k w \<noteq> None) \<Longrightarrow> (case v of None \<Rightarrow> x | Some w \<Rightarrow> k w) \<noteq> None"
  "a1 \<noteq> None \<Longrightarrow> a2 \<noteq> None \<Longrightarrow> a3 \<noteq> None \<Longrightarrow>
   (case ev of Order_Event \<Rightarrow> a1 | Resource_Event \<Rightarrow> a2 | Finish_Event \<Rightarrow> a3) \<noteq> None"
  "(\<And>a b. q = (a, b) \<Longrightarrow> f a b \<noteq> None) \<Longrightarrow> (case q of (a, b) \<Rightarrow> f a b) \<noteq> None"
  by (simp_all split: option.split event_type.split prod.split)

lemmas returns = return_rules bind_returns set_unit_returns set_player_returns add_resources_returns

lemma moves_return:
  "lc_attack_move c u g \<noteq> None" "lc_attack_unit c u g \<noteq> None" "lc_follow c u g \<noteq> None"
  "lc_hold_position u g \<noteq> None" "lc_move c u g \<noteq> None" "lc_patrol c u g \<noteq> None" "lc_stop u g \<noteq> None"
  "lc_right_click_position c u g \<noteq> None" "follow_if_mobile u g \<noteq> None"
  "target_of c \<noteq> None \<Longrightarrow> right_click_rest c u g \<noteq> None"
  "target_of c \<noteq> None \<Longrightarrow> lc_right_click_unit c u g \<noteq> None"
proof -
  show rest: "target_of c \<noteq> None \<Longrightarrow> right_click_rest c u g \<noteq> None" for g
    unfolding move_defs by (intro returns)
  show "target_of c \<noteq> None \<Longrightarrow> lc_right_click_unit c u g \<noteq> None"
    unfolding lc_right_click_unit_def by (intro returns rest)
qed (unfold move_defs, (intro returns)+)

lemma abilities_return:
  "lc_return_cargo u g \<noteq> None" "lc_repair c u g \<noteq> None" "lc_unload c u g \<noteq> None"
  "lc_unload_all_position c u g \<noteq> None" "lc_unload_all c u g \<noteq> None" "lc_lift u g \<noteq> None" "lc_land u g \<noteq> None"
  "lc_order ord u g \<noteq> None" "lc_cloak u g \<noteq> None" "lc_use_tech c u g \<noteq> None" "lc_use_tech_position c u g \<noteq> None"
  "lc_build c u g \<noteq> None" "lc_set_rally_position c u g \<noteq> None" "lc_set_rally_unit c u g \<noteq> None"
  "target_of c \<noteq> None \<Longrightarrow> lc_gather c u g \<noteq> None"
  "target_of c \<noteq> None \<Longrightarrow> lc_load c u g \<noteq> None"
  "target_of c \<noteq> None \<Longrightarrow> lc_use_tech_unit c u g \<noteq> None"
  unfolding ability_defs make_defs Let_def by (intro returns; assumption?)+


lemma halt_returns: "lc_halt_construction ev u g \<noteq> None"
  unfolding lc_halt_construction_def by (intro returns)

lemma orders_return:
  assumes "p \<noteq> None"
  shows "lc_build_addon cur ev c p u g \<noteq> None" "lc_research c p u g \<noteq> None"
    "lc_cancel_addon ev p u g \<noteq> None" "lc_cancel_research ev p u g \<noteq> None"
  unfolding make_defs cancel_defs Let_def using assms by (intro returns; assumption?)+

lemma upgrades_return:
  assumes "p \<noteq> None" "getPlayer g u \<noteq> None"
  shows "lc_upgrade c p u g \<noteq> None" "lc_cancel_upgrade ev p u g \<noteq> None"
proof -
  have "getPlayer (g\<lparr>g_unit := (g_unit g)(u := (g_unit g u)\<lparr>ud_order := Order_Upgrade,
      ud_upgrade := mkType UpgradeType_Unknown (uc_extra c), ud_isIdle := False\<rparr>)\<rparr>) u \<noteq> None"
    using assms(2) by (simp add: getPlayer_def getPlayerById_def split: if_splits)
  then show "lc_upgrade c p u g \<noteq> None"
    unfolding lc_upgrade_def Let_def set_unit_def [of _ _ g] Option.bind.simps using assms(1) by (intro returns)
  show "lc_cancel_upgrade ev p u g \<noteq> None"
    unfolding lc_cancel_upgrade_def Let_def using assms by (intro returns)
qed

text \<open>
  The commands that keep count of supply or of the training queue; cancelling a construction is one,
  since it gives a Zerg drone its supply back.
\<close>

definition counts_units :: "int \<Rightarrow> bool" where
  "counts_units t \<longleftrightarrow>
     t \<in> {Train, Morph, Cancel_Train, Cancel_Train_Slot, Cancel_Morph, Cancel_Construction}"

definition reads_target :: "int \<Rightarrow> bool" where
  "reads_target t \<longleftrightarrow> t \<in> {Gather, Load, Right_Click_Unit, Use_Tech_Unit}"

lemma apply_returns:
  assumes "\<not> counts_units (uc_type (lc_command k))" "lc_player k \<noteq> None" "getPlayer g u \<noteq> None"
    "reads_target (uc_type (lc_command k)) \<Longrightarrow> target_of (lc_command k) \<noteq> None"
  shows "apply_command cur k u g \<noteq> None"
  unfolding apply_command_def Let_def if_distribR
  by (intro return_rules moves_return abilities_return halt_returns orders_return upgrades_return
      assms(2,3)) (use assms(1,4) in \<open>simp_all add: counts_units_def reads_target_def\<close>)

section \<open>Events that count units\<close>

text \<open>A unit type whose race has a supply counter.\<close>

definition supply_race :: "int \<Rightarrow> bool" where
  "supply_race t \<longleftrightarrow> 0 \<le> getRaceType t \<and> getRaceType t < 3"

lemma add_supply_returns: "p \<noteq> None \<Longrightarrow> 0 \<le> r \<Longrightarrow> r < 3 \<Longrightarrow> add_supply p r n g \<noteq> None"
  by (auto simp: add_supply_def)

lemma supply_same: "add_supply p r n g = Some g' \<Longrightarrow> g_unit g' = g_unit g"
  by (auto simp: add_supply_def set_player_def split: if_splits option.splits)

lemma resources_same: "add_resources p m v g = Some g' \<Longrightarrow> g_unit g' = g_unit g"
  by (auto simp: add_resources_def set_player_def split: option.splits)

lemma cancel_train_resources_returns:
  assumes "p \<noteq> None" "in_queue g u (ud_trainingQueueCount (g_unit g u) - 1)"
  shows "cancel_train_resources p u g \<noteq> None"
proof -
  have "queue_at g u (ud_trainingQueueCount (g_unit g u) - 1) \<noteq> None"
    using assms(2) by (simp add: queue_at_def)
  then show ?thesis
    unfolding cancel_train_resources_def Let_def using assms(1) by (intro returns)
qed

lemma cancel_train_order_returns:
  assumes "p \<noteq> None" "unit_ok (g_unit g u)" "0 < ud_trainingQueueCount (g_unit g u)"
    "supply_race (mkType UnitType_Unknown (ud_trainingQueue (g_unit g u) ! nat (ud_trainingQueueCount (g_unit g u) - 1)))"
  shows "cancel_train_order p u g \<noteq> None"
proof -
  let ?n = "ud_trainingQueueCount (g_unit g u) - 1"
  let ?t = "mkType UnitType_Unknown (ud_trainingQueue (g_unit g u) ! nat ?n)"
  define g1 where "g1 = g\<lparr>g_unit := (g_unit g)(u := (g_unit g u)\<lparr>ud_trainingQueueCount := ?n\<rparr>)\<rparr>"
  have in1: "in_queue g1 u i \<longleftrightarrow> 0 \<le> i \<and> i < 5" for i
    using assms(2) by (simp add: in_queue_def g1_def unit_ok_def)
  have n1: "ud_trainingQueueCount (g_unit g1 u) = ?n" "ud_trainingQueue (g_unit g1 u) = ud_trainingQueue (g_unit g u)"
    by (simp_all add: g1_def)
  obtain g2 where g2: "add_supply p (getRaceType ?t) (- supplyRequired ?t) g1 = Some g2"
    using add_supply_returns [OF assms(1), of "getRaceType ?t" "- supplyRequired ?t" g1] assms(4)
    unfolding supply_race_def by blast
  have same: "g_unit g2 = g_unit g1" by (rule supply_same [OF g2])
  have q: "queue_at g1 u ?n = Some (ud_trainingQueue (g_unit g u) ! nat ?n)"
    "?n \<noteq> 0 \<Longrightarrow> queue_at g2 u (?n - 1) \<noteq> None"
    using assms(2,3) in1 n1 same by (auto simp: queue_at_def unit_ok_def in_queue_def)
  show ?thesis
    unfolding cancel_train_order_def set_unit_def [of _ _ g] g1_def [symmetric] Option.bind.simps n1 q(1) Let_def g2
      same
    using q(2) by (intro returns) auto
qed

lemma train_event_returns:
  assumes "p \<noteq> None" "supply_race (mkType UnitType_Unknown (uc_extra c))"
    "in_queue g u (ud_trainingQueueCount (g_unit g u))"
  shows "lc_train cur c p u g \<noteq> None"
proof -
  let ?t = "mkType UnitType_Unknown (uc_extra c)"
  obtain g1 where g1: "(if \<not> cur then add_resources p (- mineralPrice ?t) (- gasPrice ?t) g else Some g) = Some g1"
      "g_unit g1 = g_unit g"
    using assms(1) resources_same by (cases cur) (auto simp: add_resources_def set_player_def)
  have "push_queue u ?t g1 \<noteq> None"
    using assms(3) g1(2) by (simp add: push_queue_def set_queue_def set_unit_def in_queue_def)
  then show ?thesis
    unfolding lc_train_def Let_def g1(1) Option.bind.simps
    using assms(1,2) by (intro returns add_supply_returns) (auto simp: supply_race_def)
qed

lemma push_returns:
  "in_queue g u (ud_trainingQueueCount (g_unit g u)) \<Longrightarrow> push_queue u t g \<noteq> None"
  by (simp add: push_queue_def set_queue_def set_unit_def)

lemma morph_event_returns:
  assumes "p \<noteq> None"
    "ev = Resource_Event \<Longrightarrow> \<not> isBuilding (getType g u) \<Longrightarrow>
      supply_race (mkType UnitType_Unknown (uc_extra c)) \<and> (cur \<or> in_queue g u (ud_trainingQueueCount (g_unit g u)))"
  shows "lc_morph cur ev c p u g \<noteq> None"
proof (cases "ev = Resource_Event")
  case False
  then show ?thesis
    by (cases ev) (simp_all add: lc_morph_def set_unit_def)
next
  case True
  obtain q where q: "p = Some q" using assms(1) by blast
  show ?thesis
    using assms(2) True
    by (cases cur; cases "isBuilding (getType g u)")
      (simp_all add: q lc_morph_def Let_def set_unit_def add_supply_def set_player_def
        add_resources_def push_queue_def set_queue_def in_queue_def supply_race_def getType_def)
qed

lemma cancel_morph_event_returns:
  assumes "p \<noteq> None" "ev = Order_Event \<Longrightarrow> \<not> isBuilding (getType g u) \<Longrightarrow> supply_race (getType g u)"
  shows "lc_cancel_morph ev p u g \<noteq> None"
proof (cases "ev = Order_Event \<and> \<not> isBuilding (getType g u)")
  case True
  then have race: "0 \<le> own_race g u" "own_race g u < 3"
    using assms(2) by (simp_all add: supply_race_def own_race_def)
  obtain g1 where g1: "add_supply p (own_race g u) (- egg_supply (getType g u)) g = Some g1"
    using add_supply_returns [OF assms(1) race] by blast
  have "own_race g1 u = own_race g u"
    by (simp add: own_race_def getType_def supply_same [OF g1])
  then show ?thesis
    using True g1 add_supply_returns [OF assms(1) race]
    by (simp add: lc_cancel_morph_def cancel_morph_order_def)
next
  case False
  then show ?thesis
    using assms(1)
    by (cases ev) (auto simp: lc_cancel_morph_def cancel_morph_order_def cancel_morph_resources_def
      cancel_morph_finish_def set_unit_def add_resources_def set_player_def Let_def)
qed

lemma release_builder_result:
  obtains g1 where "release_builder ev u g = Some g1" "\<And>v. getType g1 v = getType g v"
proof -
  have "\<exists>g1. release_builder ev u g = Some g1 \<and> (\<forall>v. getType g1 v = getType g v)"
    by (cases ev) (auto simp: release_builder_def set_unit_def getType_def split: option.split)
  then show ?thesis using that by blast
qed

lemma refund_building_result:
  assumes "p \<noteq> None"
  obtains g1 where "refund_building p u g = Some g1" "\<And>v. getType g1 v = getType g v"
proof -
  have "\<exists>g1. refund_building p u g = Some g1 \<and> (\<forall>v. getType g1 v = getType g v)"
    using assms by (auto simp: refund_building_def set_unit_def add_resources_def set_player_def getType_def)
  then show ?thesis using that by blast
qed

lemma cancel_construction_event_returns:
  assumes "p \<noteq> None"
    "ev = Resource_Event \<Longrightarrow> own_race g u = Race_Zerg \<Longrightarrow>
      supply_race (mkType UnitType_Unknown (fst (whatBuilds (getType g u))))"
  shows "lc_cancel_construction ev p u g \<noteq> None"
proof -
  obtain g1 where g1: "release_builder ev u g = Some g1" "\<And>v. getType g1 v = getType g v"
    by (rule release_builder_result [of ev u g]) blast
  obtain g2 where g2: "(if ev = Resource_Event then refund_building p u g1 else Some g1) = Some g2"
      "\<And>v. getType g2 v = getType g v"
  proof (cases "ev = Resource_Event")
    case True
    then show ?thesis using refund_building_result [OF assms(1), of u g1] that g1(2) by metis
  next
    case False
    then show ?thesis using that g1(2) by simp
  qed
  have "return_drone ev p u g2 \<noteq> None"
  proof (cases "ev = Resource_Event \<and> own_race g u = Race_Zerg")
    case True
    then show ?thesis
      using assms add_supply_returns [OF assms(1)] g2(2)
      by (auto simp: return_drone_def own_race_def supply_race_def set_unit_def getType_def)
  next
    case False
    then show ?thesis
      using g2(2) by (cases ev) (auto simp: return_drone_def own_race_def set_unit_def)
  qed
  then show ?thesis by (simp add: lc_cancel_construction_def g1(1) g2(1))
qed


text \<open>
  The places of the arrays an event uses are there: a free place of the training queue for the unit
  that enters it, a place in use for a cancellation, and a supply counter for the race of a unit
  that is counted.
\<close>

definition room_for :: "bool \<Rightarrow> lat_command \<Rightarrow> nat \<Rightarrow> game \<Rightarrow> bool" where
  "room_for cur k u g \<longleftrightarrow>
     (let t = uc_type (lc_command k); ev = lc_event k; extra = uc_extra (lc_command k);
          count = ud_trainingQueueCount (g_unit g u);
          ordered = mkType UnitType_Unknown extra;
          trained = mkType UnitType_Unknown (ud_trainingQueue (g_unit g u) ! nat (count - 1));
          builder = mkType UnitType_Unknown (fst (whatBuilds (getType g u)))
      in if t = Train then count < 5 \<and> supply_race ordered
         else if t = Morph \<and> ev = Resource_Event \<and> \<not> isBuilding (getType g u)
         then supply_race ordered \<and> (cur \<or> count < 5)
         else if t = Cancel_Train \<or> t = Cancel_Train_Slot \<and> extra = 0
         then ev = Resource_Event \<and> 0 < count \<or> ev = Order_Event \<and> 0 < count \<and> supply_race trained
            \<or> ev = Finish_Event
         else if t = Cancel_Train_Slot \<and> ev = Resource_Event then 0 < extra \<and> extra < count
         else if t = Cancel_Morph \<and> ev = Order_Event \<and> \<not> isBuilding (getType g u)
         then supply_race (getType g u)
         else if t = Cancel_Construction \<and> ev = Resource_Event \<and> own_race g u = Race_Zerg
         then supply_race builder
         else True)"

lemma cancel_train_event_returns:
  assumes "p \<noteq> None" "unit_ok (g_unit g u)"
    "ev \<noteq> Finish_Event \<Longrightarrow> 0 < ud_trainingQueueCount (g_unit g u)"
    "ev = Order_Event \<Longrightarrow>
      supply_race (mkType UnitType_Unknown (ud_trainingQueue (g_unit g u) ! nat (ud_trainingQueueCount (g_unit g u) - 1)))"
  shows "lc_cancel_train ev p u g \<noteq> None"
proof (cases ev)
  case Order_Event
  then show ?thesis
    using cancel_train_order_returns [OF assms(1,2)] assms(3,4) by (simp add: lc_cancel_train_def)
next
  case Resource_Event
  then have "in_queue g u (ud_trainingQueueCount (g_unit g u) - 1)"
    using assms(2,3) by (simp add: in_queue_def unit_ok_def)
  then show ?thesis
    using cancel_train_resources_returns [OF assms(1)] Resource_Event by (simp add: lc_cancel_train_def)
next
  case Finish_Event
  then show ?thesis by (simp add: lc_cancel_train_def set_unit_def)
qed

lemma cancel_slot_event_returns:
  assumes "p \<noteq> None" "unit_ok (g_unit g u)" "uc_extra c \<noteq> 0"
    "ev = Resource_Event \<Longrightarrow> 0 < uc_extra c \<and> uc_extra c < ud_trainingQueueCount (g_unit g u)"
  shows "lc_cancel_train_slot ev c p u g \<noteq> None"
proof (cases "ev = Resource_Event")
  case True
  then have "in_queue g u (uc_extra c)" using assms(2,4) by (simp add: in_queue_def unit_ok_def)
  then have "queue_at g u (uc_extra c) \<noteq> None" by (simp add: queue_at_def)
  then show ?thesis
    unfolding lc_cancel_train_slot_def Let_def using assms(1,3) True by (intro returns) simp_all
next
  case False
  then show ?thesis using assms(3) by (simp add: lc_cancel_train_slot_def)
qed

lemma counting_returns:
  assumes "counts_units (uc_type (lc_command k))" "lc_player k \<noteq> None" "unit_ok (g_unit g u)"
    "room_for cur k u g"
  shows "apply_command cur k u g \<noteq> None"
proof -
  let ?c = "lc_command k" and ?p = "lc_player k" and ?ev = "lc_event k"
  have queue: "in_queue g u (ud_trainingQueueCount (g_unit g u)) \<longleftrightarrow> ud_trainingQueueCount (g_unit g u) < 5"
    using assms(3) by (simp add: in_queue_def unit_ok_def)
  from assms(1) consider "uc_type ?c = Train" | "uc_type ?c = Morph"
    | "uc_type ?c = Cancel_Train \<or> uc_type ?c = Cancel_Train_Slot \<and> uc_extra ?c = 0"
    | "uc_type ?c = Cancel_Train_Slot" "uc_extra ?c \<noteq> 0"
    | "uc_type ?c = Cancel_Morph" | "uc_type ?c = Cancel_Construction"
    by (auto simp: counts_units_def)
  then show ?thesis
  proof cases
    case 1
    then show ?thesis
      using train_event_returns [OF assms(2), of ?c g u cur] assms(4) queue
      by (simp add: apply_command_def room_for_def Let_def)
  next
    case 2
    then show ?thesis
      using morph_event_returns [OF assms(2), of ?ev g u ?c cur] assms(4) queue
      by (simp add: apply_command_def room_for_def Let_def)
  next
    case 3
    then have "lc_cancel_train ?ev ?p u g \<noteq> None"
      using assms(4) by (intro cancel_train_event_returns [OF assms(2,3)]) (auto simp: room_for_def Let_def)
    then show ?thesis
      using 3 by (auto simp: apply_command_def Let_def lc_cancel_train_slot_def)
  next
    case 4
    then have "lc_cancel_train_slot ?ev ?c ?p u g \<noteq> None"
      using assms(4) by (intro cancel_slot_event_returns [OF assms(2,3)]) (auto simp: room_for_def Let_def)
    then show ?thesis using 4 by (simp add: apply_command_def Let_def)
  next
    case 5
    then have "lc_cancel_morph ?ev ?p u g \<noteq> None"
      using assms(4) by (intro cancel_morph_event_returns [OF assms(2)]) (auto simp: room_for_def Let_def)
    then show ?thesis using 5 by (simp add: apply_command_def Let_def)
  next
    case 6
    then have "lc_cancel_construction ?ev ?p u g \<noteq> None"
      using assms(4) by (intro cancel_construction_event_returns [OF assms(2)]) (auto simp: room_for_def Let_def)
    then show ?thesis using 6 by (simp add: apply_command_def Let_def)
  qed
qed

lemma shape_event:
  assumes "room_for cur k u g"
  shows "shaping.reaches g (apply_command cur k u g)"
proof (cases "uc_type (lc_command k) = Cancel_Train_Slot \<and> (uc_extra (lc_command k) = 0 \<or> lc_event k \<noteq> Resource_Event)")
  case True
  then show ?thesis
    using shape_cancel_train [of g "lc_event k" "lc_player k" u] shaping.reaches_Some [of g]
    by (auto simp: apply_command_def Let_def lc_cancel_train_slot_def)
next
  case False
  then have "slot_in_use (lc_command k) u g"
    using assms by (auto simp: slot_in_use_def room_for_def Let_def)
  then show ?thesis by (rule shape_apply)
qed

lemma event_returns:
  assumes "uc_unit (lc_command k) = Some v" "mirror_ok g" "getPlayer g (u_index v) \<noteq> None"
    "reads_target (uc_type (lc_command k)) \<longrightarrow> target_of (lc_command k) \<noteq> None" "room_for cur k (u_index v) g"
  shows "\<exists>k' g'. execute_at on cur k g = Some (k', g') \<and> mirror_ok g'"
proof -
  let ?k = "claim_player g k"
  have p: "lc_player ?k \<noteq> None"
    using assms(1,3) by (simp add: claim_player_def split: option.split)
  have room: "room_for cur ?k (u_index v) g" using assms(5) by (simp add: room_for_def)
  have unit: "unit_ok (g_unit g (u_index v))" using assms(2) by (simp add: mirror_ok_def)
  have some: "apply_command cur ?k (u_index v) g \<noteq> None"
    using counting_returns [OF _ p unit room] apply_returns [OF _ p assms(3)] assms(4)
    by (cases "counts_units (uc_type (lc_command ?k))") auto
  then obtain g1 where g1: "apply_command cur ?k (u_index v) g = Some g1" by blast
  then have "mirror_ok g1"
    using shape_event [OF room] assms(2) by (auto simp: shaping.reaches_def keeps_shape_def)
  then show ?thesis
    using assms(1,2) g1 by (simp add: execute_at_def Let_def)
qed

section \<open>Accepted commands\<close>

lemma no_target: "canTargetUnit_unit g u None False e \<noteq> Some (True, x)"
  by (simp add: canTargetUnit_unit_def guard_skipped canTargetUnit_def ensure_def ask_def setLastError_def give_def)

lemma target_checks_refuse_null:
  "canGather_unit g u None True False False e \<noteq> Some (True, x)"
  "canLoad_unit g u None True False False e \<noteq> Some (True, x)"
  "canRightClickUnit_unit g u None True False False e \<noteq> Some (True, x)"
  "canUseTechUnit_target g u tech None True True False False e \<noteq> Some (True, x)"
  unfolding canGather_unit_def canLoad_unit_def canRightClickUnit_unit_def canUseTechUnit_target_def guard_skipped
  using no_target by (auto dest!: ensure_if_passed)

lemma accepted_target:
  assumes "canIssueCommand g u c f6 True f4 True True True e = Some (True, x)" "reads_target (uc_type c)"
  shows "target_of c \<noteq> None"
proof
  assume "target_of c = None"
  then have none: "command_target c = None" by (simp add: target_of_def command_target_def)
  from assms(1) obtain y where "(if uc_type c = Gather then canGather_unit g u None True False False
      else if uc_type c = Load then canLoad_unit g u None True False False
      else if uc_type c = Right_Click_Unit then canRightClickUnit_unit g u None True False False
      else canUseTechUnit_target g u (mkType TechType_Unknown (uc_extra c)) None True True False False) y = Some (True, x)"
    unfolding canIssueCommand_def Let_def
    using assms(2) none by (auto simp: reads_target_def dest!: guard_passed ensure_if_passed)
  then show False
    using target_checks_refuse_null by (simp split: if_splits)
qed


section \<open>Entering a command always returns\<close>

definition ready_for :: "lat_command \<Rightarrow> game \<Rightarrow> bool" where
  "ready_for k g \<longleftrightarrow>
     (\<exists>v. uc_unit (lc_command k) = Some v \<and> getPlayer g (u_index v) \<noteq> None)
     \<and> \<not> counts_units (uc_type (lc_command k))
     \<and> (reads_target (uc_type (lc_command k)) \<longrightarrow> target_of (lc_command k) \<noteq> None)"

lemma execute_at_returns:
  assumes "ready_for k g"
  shows "execute_at on cur k g \<noteq> None"
proof -
  obtain v where v: "uc_unit (lc_command k) = Some v" "getPlayer g (u_index v) \<noteq> None"
    using assms by (auto simp: ready_for_def)
  have "lc_player (claim_player g k) \<noteq> None"
    using v by (simp add: claim_player_def split: option.split)
  then have "apply_command cur (claim_player g k) (u_index v) g \<noteq> None"
    using assms v by (intro apply_returns) (auto simp: ready_for_def)
  then show ?thesis using v(1) by (simp add: execute_at_def Let_def)
qed

lemma ready_for_later:
  assumes "touches U P g g'" "ready_for k g" "lc_command k' = lc_command k"
  shows "ready_for k' g'"
proof -
  have "getPlayer g' u = getPlayer g u" for u
    using assms(1)
    by (auto elim!: touchesE simp: getPlayer_def getPlayerById_def same_body_def)
  then show ?thesis using assms(2,3) by (simp add: ready_for_def)
qed

lemma add_returns:
  assumes "ready_for k (snd s)"
  obtains s' where "add_to_buffer on k f s = Some s'"
    "\<And>k'. lc_command k' = lc_command k \<Longrightarrow> ready_for k' (snd s')"
proof -
  obtain k' g' where x: "execute_at on (f = 0) k (snd s) = Some (k', g')"
    using execute_at_returns [OF assms, of on "f = 0"] by auto
  then obtain buf where "add_to_buffer on k f s = Some (buf, g')"
    by (simp add: add_to_buffer_def Let_def)
  moreover have "ready_for k'' (snd (buf, g'))" if "lc_command k'' = lc_command k" for k''
    using ready_for_later [OF touches_execute_at [OF x] assms that] by simp
  ultimately show ?thesis by (rule that)
qed

lemma entering_returns:
  assumes "ready_for (new_command c) (snd s)"
  shows "\<exists>s'. addToCommandBuffer on rlf c s = Some s'"
proof -
  let ?k = "new_command c"
  obtain a where a: "add_to_buffer on ?k rlf s = Some a"
      "\<And>k'. lc_command k' = c \<Longrightarrow> ready_for k' (snd a)"
    by (rule add_returns [OF assms, of on rlf], rule that, simp_all)
  have one: "\<exists>s'. add_to_buffer on (make_event ?k ev) f a = Some s'" for ev f
    by (rule add_returns [OF a(2) [of "make_event ?k ev"], of on f]) auto
  have halt: "ready_for (?k\<lparr>lc_event := Order_Event\<rparr>) (snd s)"
    using assms by (simp add: ready_for_def)
  obtain h where h: "add_to_buffer on (?k\<lparr>lc_event := Order_Event\<rparr>) rlf s = Some h"
      "\<And>k'. lc_command k' = c \<Longrightarrow> ready_for k' (snd h)"
    by (rule add_returns [OF halt, of on rlf], rule that, simp_all)
  have last: "\<exists>s'. add_to_buffer on (make_event ?k ev) f h = Some s'" for ev f
    by (rule add_returns [OF h(2) [of "make_event ?k ev"], of on f]) auto
  have no: "\<not> counts_units (uc_type c)" using assms by (simp add: ready_for_def)
  then show ?thesis
    using a(1) one h(1) last
    by (auto simp: addToCommandBuffer_def insertIntoCommandBuffer_def Let_def counts_units_def)
qed

lemma accepted_is_ready:
  assumes "sound_game g" "canIssueCommand g u c f6 True f4 True True True e = Some (True, x)"
    "uc_unit c = Some v" "\<not> counts_units (uc_type c)"
  shows "ready_for (new_command c) g"
  using assms(1,3,4) accepted_target [OF assms(2)] by (simp add: ready_for_def sound_game_def)

end
