(* ===== verification/Latency_Properties.thy ===== *)
theory Latency_Properties
  imports Latency_Totality
begin

text \<open>
  What the latency compensation promises the AI: it predicts every accepted command, keeps the shape
  of the mirror, touches only the units and the player concerned, moves resources by exactly the price,
  and forgets each event after its number of frames; and where the prediction goes wrong.
\<close>

section \<open>Which events act\<close>

definition acts :: "bool \<Rightarrow> bool \<Rightarrow> lat_command \<Rightarrow> game \<Rightarrow> bool" where
  "acts on cur k g \<longleftrightarrow> on \<and> \<not> isQueued (lc_command k) \<and> (cur \<longrightarrow> acts_now k)
     \<and> (case uc_unit (lc_command k) of None \<Rightarrow> False
        | Some v \<Rightarrow> unit_exists g (u_index v)
            \<and> (needs_motion (uc_type (lc_command k)) \<longrightarrow> type_canMove (getType g (u_index v))))"

definition commanded :: "lat_command \<Rightarrow> nat" where
  "commanded k = (case uc_unit (lc_command k) of None \<Rightarrow> 0 | Some v \<Rightarrow> u_index v)"

lemma bill_claim: "bill cur (claim_player g k) = bill cur k"
  by (intro ext) (simp add: bill_def Let_def)

lemma settles_bill:
  assumes "execute_at on cur k g = Some (k', g')"
  shows "settles (lc_player k') (if acts on cur k g then bill cur k (commanded k) g else (0, 0)) g g'"
proof (cases "acts on cur k g")
  case False
  then have "g' = g"
    using assms by (auto simp: execute_at_def acts_def Let_def split: if_splits option.splits)
  then show ?thesis using False by (simp add: settles_none same_purses_def)
next
  case True
  then obtain v where v: "uc_unit (lc_command k) = Some v"
    by (auto simp: acts_def split: option.splits)
  with True assms have "k' = claim_player g k" "apply_command cur (claim_player g k) (u_index v) g = Some g'"
    by (auto simp: execute_at_def acts_def Let_def split: if_splits)
  then have "settles (lc_player k') (bill cur (claim_player g k) (u_index v) g) g g'"
    using bill_apply [of "claim_player g k" cur "u_index v" g] by (simp add: bills_def)
  then show ?thesis using True v by (simp add: bill_claim commanded_def)
qed

section \<open>The length of the buffer\<close>

lemma add_length:
  assumes "add_to_buffer on k f s = Some s'" "f \<le> int (length (fst s))"
  shows "length (fst s') = length (fst s)"
  using assms by (auto simp: add_to_buffer_def Option.bind_eq_Some_conv Let_def)

lemma insert_length:
  assumes "addToCommandBuffer on rlf c s = Some s'" "rlf + 15 \<le> int (length (fst s))"
  shows "length (fst s') = length (fst s)"
  using assms
  by (auto simp: addToCommandBuffer_def insertIntoCommandBuffer_def Let_def Option.bind_eq_Some_conv
      split: if_splits dest!: add_length)

lemma applied_length:
  assumes "applyLatencyCompensation on rlf s = Some s'"
  shows "rlf + 15 \<le> int (length (fst s'))"
  using assms by (auto simp: applyLatencyCompensation_def Let_def Option.bind_eq_Some_conv split: if_splits)

section \<open>A full training queue\<close>

lemma entering_train:
  assumes "uc_type c = Train"
  shows "addToCommandBuffer on rlf c s = add_to_buffer on (new_command c) rlf s"
  using assms by (simp add: addToCommandBuffer_def insertIntoCommandBuffer_def)

lemma bind_total: "(\<And>y. h y \<noteq> None) \<Longrightarrow> x \<bind> h \<noteq> None \<longleftrightarrow> x \<noteq> None"
  by (cases x) simp_all

lemma push_queue_returns: "push_queue u t g \<noteq> None \<longleftrightarrow> in_queue g u (ud_trainingQueueCount (g_unit g u))"
  by (simp add: push_queue_def set_queue_def set_unit_def)

lemma train_returns:
  assumes "p \<noteq> None" "0 \<le> getRaceType (mkType UnitType_Unknown (uc_extra c))"
    "getRaceType (mkType UnitType_Unknown (uc_extra c)) < 3"
  shows "lc_train cur c p u g \<noteq> None \<longleftrightarrow> in_queue g u (ud_trainingQueueCount (g_unit g u))"
proof -
  obtain g1 where g1: "(if \<not> cur then add_resources p (- mineralPrice (mkType UnitType_Unknown (uc_extra c)))
      (- gasPrice (mkType UnitType_Unknown (uc_extra c))) g else Some g) = Some g1" "g_unit g1 = g_unit g"
    using assms(1) by (cases cur) (auto simp: add_resources_def set_player_def)
  have iff: "in_queue g1 u (ud_trainingQueueCount (g_unit g1 u)) = in_queue g u (ud_trainingQueueCount (g_unit g u))"
    by (simp add: in_queue_def g1(2))
  have rest: "(add_supply p (getRaceType t) n g \<bind> (\<lambda>g. set_unit u f g \<bind> (\<lambda>g. if b then set_unit u f' g else Some g))) \<noteq> None"
    if "t = mkType UnitType_Unknown (uc_extra c)" for t n f b f' g
    unfolding add_supply_def using assms that by (intro returns) simp_all
  show ?thesis
    unfolding lc_train_def Let_def g1(1) Option.bind.simps
    by (subst bind_total, rule rest [OF refl]) (simp only: push_queue_returns iff)
qed

lemma training_returns:
  assumes "mirror_ok (snd s)" "uc_type c = Train" "uc_unit c = Some v" "unit_exists (snd s) (u_index v)"
    "getPlayer (snd s) (u_index v) \<noteq> None" "0 \<le> getRaceType (mkType UnitType_Unknown (uc_extra c))"
    "getRaceType (mkType UnitType_Unknown (uc_extra c)) < 3"
  shows "(\<exists>s'. addToCommandBuffer True rlf c s = Some s')
    \<longleftrightarrow> ud_trainingQueueCount (g_unit (snd s) (u_index v)) < 5"
proof -
  have "in_queue (snd s) (u_index v) (ud_trainingQueueCount (g_unit (snd s) (u_index v)))
      \<longleftrightarrow> ud_trainingQueueCount (g_unit (snd s) (u_index v)) < 5"
    using assms(1) by (auto simp: in_queue_def mirror_ok_def unit_ok_def)
  moreover have "execute_at True cur (new_command c) (snd s) \<noteq> None
      \<longleftrightarrow> lc_train cur c (getPlayer (snd s) (u_index v)) (u_index v) (snd s) \<noteq> None" for cur
    using assms(2-4) by (simp add: execute_at_def isQueued_def needs_motion_def acts_now_def apply_command_def claim_player_def Let_def)
  moreover have "(\<exists>s'. addToCommandBuffer True rlf c s = Some s') \<longleftrightarrow> execute_at True (rlf = 0) (new_command c) (snd s) \<noteq> None"
    unfolding entering_train [OF assms(2)]
    by (cases "execute_at True (rlf = 0) (new_command c) (snd s)") (auto simp: add_to_buffer_def Let_def)
  ultimately show ?thesis using train_returns [OF assms(5-7)] by simp
qed

section \<open>A cancelled egg\<close>

definition supplies :: "game \<Rightarrow> nat \<Rightarrow> int list" where
  "supplies g p = pd_supplyUsed (g_player g p)"

lemma egg_events:
  assumes "uc_type c = Cancel_Morph" "\<not> building_after on rlf c (snd s)" "addToCommandBuffer on rlf c s = Some s'"
  obtains a where "add_to_buffer on (new_command c) rlf s = Some a"
    "add_to_buffer on (make_event (new_command c) Finish_Event) (rlf + 13) a = Some s'"
proof -
  from assms(1,3) obtain a where a: "add_to_buffer on (new_command c) rlf s = Some a"
    and rest: "(if commands_building (new_command c) (snd a) then do {
            s \<leftarrow> add_to_buffer on (make_event (new_command c) Order_Event) (rlf + 1) a;
            add_to_buffer on (make_event (new_command c) Finish_Event) (rlf + 15) s }
          else add_to_buffer on (make_event (new_command c) Finish_Event) (rlf + 13) a) = Some s'"
    by (auto simp: addToCommandBuffer_def insertIntoCommandBuffer_def Let_def Option.bind_eq_Some_conv)
  have "\<not> commands_building (new_command c) (snd a)"
    using assms(2) add_to_buffer_snd [OF a] by (auto simp: building_after_def)
  then show ?thesis using that a rest by simp
qed

lemma cancel_morph_supplies:
  assumes "lc_cancel_morph ev p u g = Some g'" "ev \<noteq> Order_Event"
  shows "supplies g' q = supplies g q"
  using assms
  by (cases ev) (auto simp: lc_cancel_morph_def cancel_morph_resources_def cancel_morph_finish_def Let_def
      add_resources_def set_player_def set_unit_def supplies_def Option.bind_eq_Some_conv split: if_splits option.splits)

lemma cancel_morph_event_supplies:
  assumes "add_to_buffer on k f s = Some s'" "uc_type (lc_command k) = Cancel_Morph" "lc_event k \<noteq> Order_Event"
  shows "supplies (snd s') q = supplies (snd s) q"
proof -
  obtain k' where "execute_at on (f = 0) k (snd s) = Some (k', snd s')"
    using add_to_buffer_snd [OF assms(1)] by blast
  then show ?thesis
  proof (cases rule: execute_at_cases)
    case (2 v)
    then show ?thesis using assms(2,3)
      by (intro cancel_morph_supplies) (simp_all add: apply_command_def)
  qed simp
qed


section \<open>A demonstration\<close>

text \<open>The demonstration game with a barracks (4) that trains the units of a list, or an egg (4).\<close>

definition demo_barracks :: "int list \<Rightarrow> game" where
  "demo_barracks q = demo_game\<lparr>g_unit := demo_unit(4 := (demo_unit 4)\<lparr>ud_type := Terran_Barracks,
     ud_trainingQueue := q @ replicate (5 - length q) UnitType_None,
     ud_trainingQueueCount := int (length q), ud_isTraining := q \<noteq> [], ud_isIdle := q = []\<rparr>)\<rparr>"

definition demo_egg :: game where
  "demo_egg = demo_game\<lparr>g_unit := demo_unit(4 := (demo_unit 4)\<lparr>ud_type := Zerg_Egg, ud_buildType := Zerg_Drone,
     ud_isMorphing := True, ud_isCompleted := False\<rparr>)\<rparr>"

definition demo_marine :: unit_command where
  "demo_marine = uc_train (Some (demo_live 4)) Terran_Marine"

definition demo_cancel :: unit_command where
  "demo_cancel = uc_cancelTrain (Some (demo_live 4)) (- 2)"

definition demo_cancel_egg :: unit_command where
  "demo_cancel_egg = mk_command (Some (demo_live 4)) Cancel_Morph"

definition demo_halt :: unit_command where
  "demo_halt = mk_command (Some (demo_live 4)) Halt_Construction"

definition returns_some :: "'a option \<Rightarrow> bool" where
  "returns_some x \<longleftrightarrow> (case x of None \<Rightarrow> False | Some y \<Rightarrow> True)"

lemma returns_some: "returns_some x \<Longrightarrow> x = Some (the x)"
  by (simp add: returns_some_def split: option.splits)

lemma demo_unit_ok: "unit_ok (demo_unit u)"
  by (simp add: unit_ok_def demo_unit_def demo_base_def)

lemma demo_mirror_ok: "mirror_ok demo_game" "mirror_ok demo_egg" "length q \<le> 5 \<Longrightarrow> mirror_ok (demo_barracks q)"
  using demo_unit_ok
  by (auto simp: mirror_ok_def demo_game_def demo_egg_def demo_barracks_def unit_ok_def player_ok_def demo_player_def)

lemma demo_runs:
  "returns_some (addToCommandBuffer True 3 demo_marine ([], demo_barracks []))"
  "returns_some (addToCommandBuffer True 3 demo_cancel (the (addToCommandBuffer True 3 demo_marine ([], demo_barracks []))))"
  "returns_some (addToCommandBuffer True 3 demo_cancel_egg ([], demo_egg))"
  "returns_some (addToCommandBuffer True 3 demo_halt ([], demo_game))"
  by code_simp+


lemma demo_admits:
  "canIssueCommand demo_game 0 demo_attack True True True True True True No_Error = Some (True, Unable_To_Hit)"
  "canIssueCommand (demo_barracks (replicate 5 Terran_Marine)) 4 demo_marine True True True True True True No_Error
   = Some (True, No_Error)"
  by code_simp+

lemma demo_attack_unit: "uc_unit demo_attack = Some (demo_live 0)" "\<not> counts_units (uc_type demo_attack)"
  by code_simp+

section \<open>Properties\<close>

text \<open>
  C14. Every accepted command other than training, morphing and the cancelling of a training, of a morph and
  of a construction (\<open>counts_units\<close>) is predicted: entering it in the latency buffer dereferences no null
  pointer and stays within every array.
\<close>

theorem accepted_command_predicted:
  assumes "sound_game g" "canIssueCommand g u c f6 True f4 True True True e = Some (True, x)"
    "uc_unit c = Some v" "\<not> counts_units (uc_type c)"
  shows "\<exists>s'. addToCommandBuffer on rlf c (buf, g) = Some s'"
  by (rule entering_returns) (simp add: accepted_is_ready [OF assms])

theorem accepted_command_predicted_witness:
  "\<exists>s'. addToCommandBuffer True 3 demo_attack ([], demo_game) = Some s'"
  by (rule accepted_command_predicted [OF demo_sound demo_admits(1) demo_attack_unit])

text \<open>
  C21. An event touches only the commanded unit, its target and the unit it builds or is built by, and the
  player it is charged to; no unit moves, changes owner, appears or disappears.
\<close>

theorem prediction_touches_only_its_units:
  assumes "execute_at on cur k g = Some (k', g')"
  shows "touches (units_of k g) (players_of k g) g g'"
  by (rule touches_execute_at [OF assms])

lemma demo_event:
  "execute_at True False (new_command demo_marine) (demo_barracks [])
   = Some (fst (the (execute_at True False (new_command demo_marine) (demo_barracks []))),
           snd (the (execute_at True False (new_command demo_marine) (demo_barracks []))))"
proof -
  have "returns_some (execute_at True False (new_command demo_marine) (demo_barracks []))" by code_simp
  then show ?thesis by (simp add: returns_some [symmetric])
qed

lemma demo_marine_type: "uc_type demo_marine = Train" "uc_type demo_marine \<noteq> Cancel_Train_Slot"
  by code_simp+

theorem prediction_touches_only_its_units_witness:
  "touches (units_of (new_command demo_marine) (demo_barracks [])) (players_of (new_command demo_marine) (demo_barracks []))
     (demo_barracks []) (snd (the (execute_at True False (new_command demo_marine) (demo_barracks []))))"
  by (rule prediction_touches_only_its_units [OF demo_event])

text \<open>
  C15. Minerals and gas move by exactly the bill of the event: the price for an order, the whole or three
  quarters of it for a cancellation, nothing for any other command, and no other player is charged.
\<close>

theorem resources_follow_the_bill:
  assumes "execute_at on cur k g = Some (k', g')"
  shows "settles (lc_player k') (if acts on cur k g then bill cur k (commanded k) g else (0, 0)) g g'"
  by (rule settles_bill [OF assms])

theorem resources_follow_the_bill_witness:
  "settles (Some 0) (- 50, 0) (demo_barracks []) (snd (the (execute_at True False (new_command demo_marine) (demo_barracks []))))"
proof -
  let ?r = "the (execute_at True False (new_command demo_marine) (demo_barracks []))"
  have "lc_player (fst ?r) = Some 0" "acts True False (new_command demo_marine) (demo_barracks [])"
    "bill False (new_command demo_marine) (commanded (new_command demo_marine)) (demo_barracks []) = (- 50, 0)"
    by code_simp+
  then show ?thesis
    using resources_follow_the_bill [OF demo_event] by simp
qed

text \<open>
  C22. In a well-formed mirror (training queues of five places with zero to five of them in use, three supply
  counters per player), an event of a unit that has an owner, with its target where the command reads one and
  with room for it, has a result and leaves the mirror well formed. Room (\<open>room_for\<close>) is what the arrays need:
  fewer than five units in the queue for one more, a place in use for a cancellation, and a race with a
  supply counter for a unit that is counted; every other event needs none.
\<close>

theorem mirror_stays_well_formed:
  assumes "uc_unit (lc_command k) = Some v" "mirror_ok g" "getPlayer g (u_index v) \<noteq> None"
    "reads_target (uc_type (lc_command k)) \<longrightarrow> target_of (lc_command k) \<noteq> None"
    "room_for cur k (u_index v) g"
  shows "\<exists>k' g'. execute_at on cur k g = Some (k', g') \<and> mirror_ok g'"
  by (rule event_returns [OF assms])

theorem mirror_stays_well_formed_witness:
  "\<exists>k' g'. execute_at True False (new_command demo_marine) (demo_barracks (replicate 4 Terran_Marine)) = Some (k', g')
     \<and> mirror_ok g'"
proof (rule mirror_stays_well_formed)
  show "uc_unit (lc_command (new_command demo_marine)) = Some (demo_live 4)" by code_simp
  show "mirror_ok (demo_barracks (replicate 4 Terran_Marine))" by (simp add: demo_mirror_ok)
  have "getPlayer (demo_barracks (replicate 4 Terran_Marine)) (u_index (demo_live 4)) = Some 0" by code_simp
  then show "getPlayer (demo_barracks (replicate 4 Terran_Marine)) (u_index (demo_live 4)) \<noteq> None" by simp
  show "reads_target (uc_type (lc_command (new_command demo_marine)))
      \<longrightarrow> target_of (lc_command (new_command demo_marine)) \<noteq> None"
    by (simp add: demo_marine_type reads_target_def)
  show "room_for False (new_command demo_marine) (u_index (demo_live 4)) (demo_barracks (replicate 4 Terran_Marine))"
    by code_simp
qed

text \<open>
  C16. The events of a command are in the latency buffer for exactly the frames they are scheduled for: after
  any number of frames a slot holds the events that were that much further back before the command, followed by
  those of the command whose time it is (\<open>schedule\<close>), each with its type. The one exception is a halted
  construction: an event of it that was replayed in a frame is an order event from then on.
\<close>

theorem event_leaves_after_its_frames:
  assumes "addToCommandBuffer on rlf c s = Some s'" "latency_frames on fs (fst s') = Some buf"
  shows "events_in buf i = map (shown (replayed i fs)) (events_in (fst s) (i + length fs)
     @ map (Pair c) (due (schedule rlf (uc_type c) (building_after on rlf c (snd s))) (i + length fs)))"
  using frames_events [OF assms(2), of i] entered_events [OF assms(1), of "i + length fs"] by simp

definition demo_marine_buffer :: lat_buffer where
  "demo_marine_buffer = fst (the (addToCommandBuffer True 3 demo_marine ([], demo_barracks [])))"

theorem event_leaves_after_its_frames_witness:
  "events_in (the (latency_frames True [(2, demo_barracks []), (1, demo_barracks [])] demo_marine_buffer)) 0
   = [(demo_marine, Resource_Event)]"
proof -
  have run: "latency_frames True [(2, demo_barracks []), (1, demo_barracks [])] demo_marine_buffer
    = Some (the (latency_frames True [(2, demo_barracks []), (1, demo_barracks [])] demo_marine_buffer))"
    by (rule returns_some) code_simp
  have "due (schedule 3 (uc_type demo_marine) (building_after True 3 demo_marine (demo_barracks []))) (Suc (Suc 0))
      = [Resource_Event]"
    "shown True (demo_marine, Resource_Event) = (demo_marine, Resource_Event)"
    by code_simp+
  then show ?thesis
    using event_leaves_after_its_frames [OF returns_some [OF demo_runs(1)] run [unfolded demo_marine_buffer_def], of 0]
    by (simp add: demo_marine_buffer_def events_in_def [of "[]"] del: latency_frames.simps)
qed

text \<open>
  C17. Training a unit and cancelling it is undone in the mirror. With no other event in the buffer, the
  training is entered \<open>n\<close> frames before it takes effect; then come fewer than \<open>n\<close> frames (none at all
  included), each on a mirror of its own in which the unit exists with the same owner and each with a remaining
  latency that still covers the training; then the training of that unit is cancelled. Where
  each of these steps has a result, every player (minerals, gas, supply) and the training queue are those of
  the mirror the last frame started from, without the training.
\<close>

theorem cancelled_training_undone:
  assumes "uc_type c = Train" "uc_unit c = Some v" "uc_type d = Cancel_Train" "uc_unit d = Some v"
    and "fst s = replicate m []" "0 < n" "addToCommandBuffer True n c s = Some s1"
    and "int (length fs) < n" "\<forall>j<length fs. n - 1 - int j \<le> fst (fs ! j)" "latency_run True fs s1 = Some s2"
    and "0 < rlf" "addToCommandBuffer True rlf d s2 = Some s3"
    and "\<forall>h\<in>insert (snd s) (snd ` set fs). mirror_ok h \<and> unit_exists h (u_index v)
      \<and> getPlayer h (u_index v) = Some q"
    and "g = last_mirror (snd s) fs"
  shows "g_player (snd s3) = g_player g
    \<and> getTrainingQueue (snd s3) (u_index v) = getTrainingQueue g (u_index v)"
proof -
  have "training c (u_index v) q (nat n - 1) (snd s) s1"
    using assms(13) by (intro training_entered [OF assms(1,2) _ _ assms(6,5,7)]) auto
  then obtain j where "training c (u_index v) q j g s2"
    using training_run [OF assms(1,2) _ assms(9,8) _ assms(10)] assms(13,14) by fastforce
  then have train: "lc_train False c (Some q) (u_index v) g = Some (snd s2)"
    by (simp add: training_def)
  have "mirror_ok g \<and> unit_exists g (u_index v) \<and> getPlayer g (u_index v) = Some q"
    using last_mirror_mem [of "snd s" fs] assms(13,14) by force
  then show ?thesis
    using cancel_undoes [OF _ _ _ train assms(11,3,4) refl assms(12)] by blast
qed

definition demo_wait :: "(int \<times> game) list" where
  "demo_wait = [(2, demo_barracks []), (1, demo_barracks [Terran_Medic])]"

definition demo_waited :: "lat_buffer \<times> game" where
  "demo_waited = the (latency_run True demo_wait (the (addToCommandBuffer True 3 demo_marine ([], demo_barracks []))))"

lemma demo_wait_runs:
  "returns_some (latency_run True demo_wait (the (addToCommandBuffer True 3 demo_marine ([], demo_barracks []))))"
  "returns_some (addToCommandBuffer True 1 demo_cancel demo_waited)"
  by code_simp+

theorem cancelled_training_undone_witness:
  "g_player (snd (the (addToCommandBuffer True 1 demo_cancel demo_waited))) = demo_player
   \<and> getTrainingQueue (snd (the (addToCommandBuffer True 1 demo_cancel demo_waited))) 4 = [Terran_Medic]"
proof -
  have unit: "uc_type demo_marine = Train" "uc_unit demo_marine = Some (demo_live 4)"
    "uc_type demo_cancel = Cancel_Train" "uc_unit demo_cancel = Some (demo_live 4)" "u_index (demo_live 4) = 4"
    "getTrainingQueue (demo_barracks [Terran_Medic]) 4 = [Terran_Medic]"
    by code_simp+
  have "unit_exists (demo_barracks []) (u_index (demo_live 4))"
    "getPlayer (demo_barracks []) (u_index (demo_live 4)) = Some 0"
    "unit_exists (demo_barracks [Terran_Medic]) (u_index (demo_live 4))"
    "getPlayer (demo_barracks [Terran_Medic]) (u_index (demo_live 4)) = Some 0"
    by code_simp+
  then have mirrors: "\<forall>h\<in>insert (snd ([] :: lat_buffer, demo_barracks [])) (snd ` set demo_wait). mirror_ok h
      \<and> unit_exists h (u_index (demo_live 4)) \<and> getPlayer h (u_index (demo_live 4)) = Some 0"
    by (simp add: demo_wait_def demo_mirror_ok)
  have late: "\<forall>j<length demo_wait. 3 - 1 - int j \<le> fst (demo_wait ! j)" "int (length demo_wait) < 3"
    by (auto simp: demo_wait_def less_Suc_eq)
  have last: "demo_barracks [Terran_Medic] = last_mirror (snd ([] :: lat_buffer, demo_barracks [])) demo_wait"
    by (simp add: demo_wait_def)
  have "g_player (demo_barracks [Terran_Medic]) = demo_player" by (simp add: demo_barracks_def demo_game_def)
  then show ?thesis
    using cancelled_training_undone [OF unit(1-4) _ _ returns_some [OF demo_runs(1)] late(2,1)
        returns_some [OF demo_wait_runs(1)] _ returns_some [OF demo_wait_runs(2) [unfolded demo_waited_def]]
        mirrors last, of 0]
    by (simp add: demo_waited_def unit(5,6))
qed

text \<open>
  C23. A training order of an existing unit of a player, for a unit type of one of the three races, in a
  well-formed mirror: entering it in the latency buffer has a result, without an access behind the training
  queue, exactly when fewer than five places of the queue are in use.
\<close>

theorem training_needs_a_free_place:
  assumes "mirror_ok (snd s)" "uc_type c = Train" "uc_unit c = Some v" "unit_exists (snd s) (u_index v)"
    "getPlayer (snd s) (u_index v) = Some p" "getRaceType (mkType UnitType_Unknown (uc_extra c)) \<in> {0..2}"
  shows "(\<exists>s'. addToCommandBuffer True rlf c s = Some s')
    \<longleftrightarrow> ud_trainingQueueCount (g_unit (snd s) (u_index v)) < 5"
  using assms(5,6) by (intro training_returns [OF assms(1-4)]) auto

theorem training_needs_a_free_place_witness:
  "canIssueCommand (demo_barracks (replicate 5 Terran_Marine)) 4 demo_marine True True True True True True No_Error
     = Some (True, No_Error)
   \<and> \<not> (\<exists>s'. addToCommandBuffer True 3 demo_marine ([], demo_barracks (replicate 5 Terran_Marine)) = Some s')"
proof -
  let ?g = "demo_barracks (replicate 5 Terran_Marine)"
  have "uc_type demo_marine = Train" "uc_unit demo_marine = Some (demo_live 4)" "unit_exists ?g (u_index (demo_live 4))"
    "getPlayer ?g (u_index (demo_live 4)) = Some 0"
    "getRaceType (mkType UnitType_Unknown (uc_extra demo_marine)) = 1"
    "ud_trainingQueueCount (g_unit ?g (u_index (demo_live 4))) = 5"
    by code_simp+
  then show ?thesis
    using training_needs_a_free_place [of "([], ?g)" demo_marine "demo_live 4" 0 3] demo_admits(2)
    by (simp add: demo_mirror_ok)
qed

text \<open>
  Cancelling the morph of an egg never gives its supply back: the event that would is only scheduled
  for buildings, so the supply of every player stays what it was.
\<close>

theorem cancelled_egg_keeps_supply:
  assumes "uc_type c = Cancel_Morph" "\<not> building_after on rlf c (snd s)" "addToCommandBuffer on rlf c s = Some s'"
  shows "supplies (snd s') q = supplies (snd s) q"
  by (rule egg_events [OF assms]) (simp add: cancel_morph_event_supplies assms(1))

theorem cancelled_egg_keeps_supply_witness:
  "supplies (snd (the (addToCommandBuffer True 3 demo_cancel_egg ([], demo_egg)))) 0 = [0, 0, 0]"
proof -
  have "uc_type demo_cancel_egg = Cancel_Morph" "building_after True 3 demo_cancel_egg demo_egg = False"
    "supplies demo_egg 0 = [0, 0, 0]"
    by code_simp+
  then show ?thesis
    using cancelled_egg_keeps_supply [OF _ _ returns_some [OF demo_runs(3)], of 0] by simp
qed

text \<open>
  After a frame the buffer has a slot for every event a command can schedule, so entering a command
  never resizes it, as the comment in the code expects.
\<close>

theorem entering_never_resizes:
  assumes "applyLatencyCompensation on rlf s = Some s1" "addToCommandBuffer on rlf c (fst s1, g) = Some s2"
  shows "length (fst s2) = length (fst s1)"
  using insert_length [OF assms(2)] applied_length [OF assms(1)] by simp

theorem entering_never_resizes_witness:
  "length (fst (the (addToCommandBuffer True 3 demo_marine
     (fst (the (applyLatencyCompensation True 3 ([], demo_game))), demo_barracks [])))) = 18"
proof -
  have "returns_some (applyLatencyCompensation True 3 ([], demo_game))"
    "returns_some (addToCommandBuffer True 3 demo_marine (fst (the (applyLatencyCompensation True 3 ([], demo_game))), demo_barracks []))"
    "length (fst (the (applyLatencyCompensation True 3 ([], demo_game)))) = 18"
    by code_simp+
  then show ?thesis
    using entering_never_resizes [OF returns_some returns_some, of True 3 "([], demo_game)" demo_marine "demo_barracks []"] by simp
qed

section \<open>Where the prediction goes wrong\<close>

text \<open>
  A halted construction: at once the worker stands guard, as the finish event says; in every later frame
  the event is executed as the order event, and the worker is shown resetting its collision.
\<close>

lemma halt_finish_lost:
  "(let s = the (addToCommandBuffer True 3 demo_halt ([], demo_game));
        s1 = the (applyLatencyCompensation True 2 (fst s, demo_game));
        s2 = the (applyLatencyCompensation True 3 (fst s1, demo_game));
        s3 = the (applyLatencyCompensation True 3 (fst s2, demo_game))
    in map (\<lambda>s. ud_order (g_unit (snd s) 4)) [s, s1, s2, s3]
       = [Order_PlayerGuard, Order_ResetCollision, Order_ResetCollision, Order_ResetCollision])"
  by code_simp

text \<open>
  Two cancellations in one frame: at first both units are refunded (a marine of 50 minerals and a medic of
  50 minerals and 25 gas); from the next frame on the last one is refunded twice.
\<close>

lemma second_cancel_refunds_first_again:
  "(let g = demo_barracks [Terran_Marine, Terran_Medic];
        s = the (addToCommandBuffer True 3 demo_cancel ([], g));
        s = the (addToCommandBuffer True 3 demo_cancel s);
        s1 = the (applyLatencyCompensation True 2 (fst s, g))
    in map (\<lambda>g. purse g 0) [g, snd s, snd s1] = [(1000, 1000), (1100, 1025), (1100, 1050)])"
  by code_simp

end
