(* ===== verification/Log_Timestamps.thy ===== *)
theory Log_Timestamps
  imports Text_Lines
begin

text \<open>
  Reading the lines of the game's and the launcher's log files (\<open>RuntimeInstallation.cpp\<close>):
  searching in a line, the decimal fields of a timestamp, the number of days of a civil date
  (\<open>daysFromCivil\<close>) and the first timestamp of a line in milliseconds
  (\<open>parseLogTimestampMilliseconds\<close>). The calendar against which the day count is checked
  counts days by adding up the lengths of the years and of the months, and a timestamp printed in
  the logs' format is read back as the milliseconds of that calendar. A C++ \<open>int\<close> of this file
  holds a field of at most four digits or a quantity bounded below, so \<open>int\<close> is used for it, and
  for the \<open>unsigned\<close> quantities of \<open>daysFromCivil\<close>, which never wrap for a month and a day
  from 1.
\<close>

section \<open>Searching in a line\<close>

text \<open>\<open>std::string::find\<close>: the first position at which the needle occurs.\<close>

fun str_find :: "string \<Rightarrow> string \<Rightarrow> nat option" where
  "str_find needle [] = (if needle = [] then Some 0 else None)"
| "str_find needle (c # cs) =
     (if starts_with (c # cs) needle then Some 0 else map_option Suc (str_find needle cs))"

definition mentions :: "string \<Rightarrow> string \<Rightarrow> bool" where
  "mentions line needle \<longleftrightarrow> str_find needle line \<noteq> None"

definition lineContainsAny :: "string \<Rightarrow> string list \<Rightarrow> bool" where
  "lineContainsAny line needles \<longleftrightarrow> list_ex (\<lambda>needle. needle \<noteq> [] \<and> mentions line needle) needles"

lemma mentions_iff: "mentions line needle \<longleftrightarrow> (\<exists>a b. line = a @ needle @ b)"
proof (induction line)
  case Nil
  then show ?case by (simp add: mentions_def)
next
  case (Cons c cs)
  have "(\<exists>a b. c # cs = a @ needle @ b)
      \<longleftrightarrow> (\<exists>b. c # cs = needle @ b) \<or> (\<exists>a b. cs = a @ needle @ b)"
    by (metis append_Cons append_Nil list.inject neq_Nil_conv)
  then show ?case
    using Cons.IH by (auto simp: mentions_def starts_with_iff)
qed

lemma str_find_Some: "str_find needle line = Some k \<Longrightarrow> starts_with (drop k line) needle"
proof (induction line arbitrary: k)
  case Nil
  then show ?case by (simp add: starts_with_def split: if_splits)
next
  case (Cons c cs)
  then show ?case by (auto split: if_splits)
qed

section \<open>Decimal fields\<close>

definition isDigit :: "char \<Rightarrow> bool" where
  "isDigit ch \<longleftrightarrow> 48 \<le> (of_char ch :: nat) \<and> (of_char ch :: nat) \<le> 57"

definition digit_of :: "char \<Rightarrow> int" where
  "digit_of ch = int (of_char ch) - 48"

definition parseFixedInt :: "string \<Rightarrow> nat \<Rightarrow> nat \<Rightarrow> int option" where
  "parseFixedInt s off count =
     (if length s < off + count then None
      else let ds = take count (drop off s)
        in if list_all isDigit ds then Some (foldl (\<lambda>r ch. r * 10 + digit_of ch) 0 ds) else None)"

definition print_digit :: "int \<Rightarrow> char" where
  "print_digit d = char_of (48 + nat d)"

lemma print_digit_simps [simp]:
  assumes "0 \<le> d" "d \<le> 9"
  shows "isDigit (print_digit d)" "digit_of (print_digit d) = d"
  using assms by (simp_all add: isDigit_def digit_of_def print_digit_def)

lemma digit_of_bounds: "isDigit ch \<Longrightarrow> 0 \<le> digit_of ch \<and> digit_of ch \<le> 9"
  by (auto simp: isDigit_def digit_of_def)

section \<open>Days of a civil date\<close>

text \<open>
  The division of the source truncates towards zero; for a negative year the dividend
  \<open>year - 399\<close> is negative, so the quotient is written as the negated quotient of magnitudes.
\<close>

definition civil_era :: "int \<Rightarrow> int" where
  "civil_era year = (if year \<ge> 0 then year div 400 else - ((399 - year) div 400))"

definition day_of_era :: "int \<Rightarrow> int \<Rightarrow> int \<Rightarrow> int" where
  "day_of_era yearOfEra month day =
     (let adjustedMonth = (if month > 2 then month - 3 else month + 9);
          dayOfYear = (153 * adjustedMonth + 2) div 5 + day - 1
      in yearOfEra * 365 + yearOfEra div 4 - yearOfEra div 100 + dayOfYear)"

definition daysFromCivil :: "int \<Rightarrow> int \<Rightarrow> int \<Rightarrow> int" where
  "daysFromCivil year month day =
     (let year = year - (if month \<le> 2 then 1 else 0);
          era = civil_era year;
          yearOfEra = year - era * 400
      in era * 146097 + day_of_era yearOfEra month day)"

text \<open>The Gregorian calendar, by its definition.\<close>

definition leap_year :: "int \<Rightarrow> bool" where
  "leap_year y \<longleftrightarrow> 4 dvd y \<and> (\<not> 100 dvd y \<or> 400 dvd y)"

definition month_days :: "int \<Rightarrow> int \<Rightarrow> int" where
  "month_days y mo =
     (if mo = 2 then (if leap_year y then 29 else 28)
      else if mo \<in> {4, 6, 9, 11} then 30 else 31)"

definition valid_date :: "int \<Rightarrow> int \<Rightarrow> int \<Rightarrow> bool" where
  "valid_date y mo d \<longleftrightarrow> 0 \<le> y \<and> y \<le> 9999 \<and> 1 \<le> mo \<and> mo \<le> 12 \<and> 1 \<le> d \<and> d \<le> month_days y mo"

fun days_before_year :: "nat \<Rightarrow> int" where
  "days_before_year 0 = 0"
| "days_before_year (Suc y) = days_before_year y + (if leap_year (int y) then 366 else 365)"

fun days_before_month :: "int \<Rightarrow> nat \<Rightarrow> int" where
  "days_before_month y 0 = 0"
| "days_before_month y (Suc mo) =
     days_before_month y mo + (if mo = 0 then 0 else month_days y (int mo))"

definition calendar_days :: "int \<Rightarrow> int \<Rightarrow> int \<Rightarrow> int" where
  "calendar_days y mo d = days_before_year (nat y) + days_before_month y (nat mo) + d"

lemma div_next_multiple:
  assumes "k > (0 :: int)"
  shows "(n + k) div k = (n + k - 1) div k + (if k dvd n then 1 else 0)"
proof (cases "k dvd n")
  case True
  then obtain q where q: "n = k * q" by blast
  have "(n + k - 1) div k = q"
    using assms q by (intro int_div_pos_eq [where r = "k - 1"]) auto
  then show ?thesis using assms q True by simp
next
  case False
  let ?q = "n div k" and ?r = "n mod k"
  have "?r > 0" "?r < k" "n = k * ?q + ?r"
    using assms False pos_mod_bound [of k n] pos_mod_sign [of k n]
    by (auto simp: dvd_eq_mod_eq_0 order_less_le simp del: pos_mod_bound pos_mod_sign)
  then have "(n + k - 1) div k = ?q + 1"
    by (intro int_div_pos_eq [where r = "?r - 1"]) (auto simp: algebra_simps)
  then show ?thesis using assms False div_add_self2 [of k n] by simp
qed

lemma days_before_year_closed:
  "days_before_year n = 365 * int n + (int n + 3) div 4 - (int n + 99) div 100 + (int n + 399) div 400"
proof (induction n)
  case 0
  then show ?case by simp
next
  case (Suc n)
  have "100 dvd int n \<Longrightarrow> 4 dvd int n" "400 dvd int n \<Longrightarrow> 100 dvd int n"
    by (auto intro: dvd_trans [of 4 100] dvd_trans [of 100 400])
  then show ?case
    using Suc.IH div_next_multiple [of 4 "int n"] div_next_multiple [of 100 "int n"]
      div_next_multiple [of 400 "int n"]
    by (auto simp: leap_year_def algebra_simps)
qed

text \<open>The years of the source begin in March: January and February belong to the year before.\<close>

definition march_days :: "int \<Rightarrow> int" where
  "march_days y = 365 * y + y div 4 - y div 100 + y div 400"

lemma civil_era_div: "civil_era year = year div 400"
proof (cases "year \<ge> 0")
  case False
  have "- ((399 - year) div 400) = year div 400"
  proof -
    let ?q = "year div 400" and ?r = "year mod 400"
    have "(399 - year) div 400 = - ?q"
      by (intro int_div_pos_eq [where r = "399 - ?r"]) (simp_all add: minus_mod_eq_mult_div [symmetric])
    then show ?thesis by simp
  qed
  with False show ?thesis by (simp add: civil_era_def)
qed (simp add: civil_era_def)

lemma div_of_era:
  fixes e r c :: int
  assumes "c > 0"
  shows "(c * k * e + r) div c = k * e + r div c"
  using assms div_mult_self1 [of c "k * e" r] by (simp add: algebra_simps)

lemma era_and_year:
  "(y div 400) * 146097 + day_of_era (y - y div 400 * 400) mo d
     = march_days y + (153 * (if mo > 2 then mo - 3 else mo + 9) + 2) div 5 + d - 1"
proof -
  obtain e r where y: "y = 400 * e + r" and e: "y div 400 = e" and r: "y - y div 400 * 400 = r"
    by (metis minus_div_mult_eq_mod mult.commute mult_div_mod_eq)
  have "y div 4 = 100 * e + r div 4" "y div 100 = 4 * e + r div 100"
    using div_of_era [of 4 100 e r] div_of_era [of 100 4 e r] y by simp_all
  with y e r show ?thesis by (simp add: march_days_def day_of_era_def Let_def)
qed

lemma march_days_before: "y \<ge> 0 \<Longrightarrow> march_days (y - 1) = days_before_year (nat y) - 366"
  using div_add_self2 [of 4 "y - 1"] div_add_self2 [of 100 "y - 1"] div_add_self2 [of 400 "y - 1"]
  by (simp add: march_days_def days_before_year_closed algebra_simps)

lemma march_days_after:
  assumes "y \<ge> 0"
  shows "march_days y = days_before_year (nat y) + (if leap_year y then 1 else 0) - 1"
proof -
  have "march_days y = march_days (y + 1 - 1)" by simp
  also have "\<dots> = days_before_year (Suc (nat y)) - 366"
    using march_days_before [of "y + 1"] assms by (simp add: nat_add_distrib)
  finally show ?thesis using assms by simp
qed

lemma months_cases:
  assumes "1 \<le> mo" "mo \<le> (12 :: int)"
  obtains "mo = 1" | "mo = 2" | "mo = 3" | "mo = 4" | "mo = 5" | "mo = 6" | "mo = 7" | "mo = 8"
    | "mo = 9" | "mo = 10" | "mo = 11" | "mo = 12"
  using assms by atomize_elim presburger

lemma days_before_month_March:
  "days_before_month y (nat 1) = 0" "days_before_month y (nat 2) = 31"
  "days_before_month y (nat 3) = 59 + (if leap_year y then 1 else 0)"
  by (simp_all add: eval_nat_numeral month_days_def)

lemma days_before_month_step:
  "mo \<ge> 1 \<Longrightarrow> days_before_month y (nat (mo + 1)) = days_before_month y (nat mo) + month_days y mo"
  by (simp add: nat_add_distrib)

lemma days_before_month_late:
  assumes "3 \<le> mo" "mo \<le> 12"
  shows "days_before_month y (nat mo)
    = (153 * (mo - 3) + 2) div 5 + 59 + (if leap_year y then 1 else 0)"
proof -
  note step = days_before_month_step [of _ y]
  have m: "month_days y 3 = 31" "month_days y 4 = 30" "month_days y 5 = 31" "month_days y 6 = 30"
    "month_days y 7 = 31" "month_days y 8 = 31" "month_days y 9 = 30" "month_days y 10 = 31"
    "month_days y 11 = 30"
    by (simp_all add: month_days_def)
  from assms have "1 \<le> mo" "mo \<le> 12" by auto
  then show ?thesis
    using step [of 3] step [of 4] step [of 5] step [of 6] step [of 7] step [of 8] step [of 9]
      step [of 10] step [of 11] days_before_month_March(3) [of y] assms(1)
    by (cases rule: months_cases) (simp_all add: m)
qed

lemma daysFromCivil_calendar:
  assumes "y \<ge> 0" "1 \<le> mo" "mo \<le> 12"
  shows "daysFromCivil y mo d = calendar_days y mo d - 61"
proof (cases "mo \<le> 2")
  case True
  then have "mo = 1 \<or> mo = 2" using assms by linarith
  then have "days_before_month y (nat mo) = (153 * (mo + 9) + 2) div 5 - 306"
    using days_before_month_March(1,2) [of y] by auto
  then show ?thesis
    using True assms march_days_before [of y] era_and_year [of "y - 1" mo d]
    by (simp add: daysFromCivil_def civil_era_div calendar_days_def Let_def)
next
  case False
  then show ?thesis
    using assms march_days_after [of y] era_and_year [of y mo d] days_before_month_late [of mo y]
    by (simp add: daysFromCivil_def civil_era_div calendar_days_def Let_def)
qed

text \<open>The \<open>unsigned\<close> arithmetic of the source stays in range.\<close>

lemma day_of_era_bounds:
  assumes "0 \<le> yearOfEra" "yearOfEra < 400" "1 \<le> mo" "mo \<le> 12" "1 \<le> d" "d \<le> 31"
  shows "0 \<le> day_of_era yearOfEra mo d" "day_of_era yearOfEra mo d < 2 ^ 32"
proof -
  have "yearOfEra div 100 \<le> yearOfEra" using assms(1) by presburger
  then show "0 \<le> day_of_era yearOfEra mo d" "day_of_era yearOfEra mo d < 2 ^ 32"
    using assms by (auto simp: day_of_era_def Let_def)
qed

section \<open>Timestamps\<close>

text \<open>
  The fraction of a second after the point: up to three digits count, the others are skipped.
\<close>

fun fraction_ms :: "int \<Rightarrow> string \<Rightarrow> int" where
  "fraction_ms scale [] = 0"
| "fraction_ms scale (ch # cs) =
     (if \<not> isDigit ch then 0
      else if scale > 0 then digit_of ch * scale + fraction_ms (scale div 10) cs
      else fraction_ms scale cs)"

definition timestamp_separators :: "string \<Rightarrow> bool" where
  "timestamp_separators s \<longleftrightarrow>
     isDigit (s ! 0) \<and> isDigit (s ! 1) \<and> isDigit (s ! 2) \<and> isDigit (s ! 3)
     \<and> s ! 4 = CHR ''-'' \<and> s ! 7 = CHR ''-'' \<and> s ! 10 = CHR '' ''
     \<and> s ! 13 = CHR '':'' \<and> s ! 16 = CHR '':''"

definition timestamp_fields :: "string \<Rightarrow> (int \<times> int \<times> int \<times> int \<times> int \<times> int) option" where
  "timestamp_fields s =
     (case parseFixedInt s 0 4 of None \<Rightarrow> None | Some year \<Rightarrow>
     (case parseFixedInt s 5 2 of None \<Rightarrow> None | Some month \<Rightarrow>
     (case parseFixedInt s 8 2 of None \<Rightarrow> None | Some day \<Rightarrow>
     (case parseFixedInt s 11 2 of None \<Rightarrow> None | Some hour \<Rightarrow>
     (case parseFixedInt s 14 2 of None \<Rightarrow> None | Some minute \<Rightarrow>
     (case parseFixedInt s 17 2 of None \<Rightarrow> None | Some second \<Rightarrow>
        Some (year, month, day, hour, minute, second)))))))"

definition timestamp_in_range :: "int \<Rightarrow> int \<Rightarrow> int \<Rightarrow> int \<Rightarrow> int \<Rightarrow> bool" where
  "timestamp_in_range month day hour minute second \<longleftrightarrow>
     \<not> (month < 1 \<or> month > 12 \<or> day < 1 \<or> day > 31 \<or> hour < 0 \<or> hour > 23
        \<or> minute < 0 \<or> minute > 59 \<or> second < 0 \<or> second > 60)"

definition timestamp_ms :: "int \<Rightarrow> int \<Rightarrow> int \<Rightarrow> int \<Rightarrow> int" where
  "timestamp_ms days hour minute second = (((days * 24 + hour) * 60 + minute) * 60 + second) * 1000"

text \<open>The body of the loop, on the rest of the line from the current offset.\<close>

definition timestamp_at :: "string \<Rightarrow> (string \<times> int) option" where
  "timestamp_at s =
     (if \<not> timestamp_separators s then None
      else case timestamp_fields s of None \<Rightarrow> None
      | Some (year, month, day, hour, minute, second) \<Rightarrow>
          if \<not> timestamp_in_range month day hour minute second then None
          else let rest = drop 19 s;
                   fractional = rest \<noteq> [] \<and> hd rest = CHR ''.'';
                   milliseconds = timestamp_ms (daysFromCivil year month day) hour minute second
                     + (if fractional then fraction_ms 100 (tl rest) else 0);
                   stop = (if fractional then 20 + length (takeWhile isDigit (tl rest)) else 19)
            in Some (take stop s, milliseconds))"

fun parseLogTimestampMilliseconds :: "string \<Rightarrow> (string \<times> int) option" where
  "parseLogTimestampMilliseconds [] = None"
| "parseLogTimestampMilliseconds (ch # cs) =
     (if length (ch # cs) < 19 then None
      else case timestamp_at (ch # cs) of Some r \<Rightarrow> Some r
        | None \<Rightarrow> parseLogTimestampMilliseconds cs)"

text \<open>The format of the logs: a date, a time and milliseconds.\<close>

definition two_digits :: "int \<Rightarrow> string" where
  "two_digits n = [print_digit (n div 10), print_digit (n mod 10)]"

definition print_timestamp :: "int \<Rightarrow> int \<Rightarrow> int \<Rightarrow> int \<Rightarrow> int \<Rightarrow> int \<Rightarrow> int \<Rightarrow> string" where
  "print_timestamp y mo d h mi s ms =
     two_digits (y div 100) @ two_digits (y mod 100) @ ''-'' @ two_digits mo @ ''-'' @ two_digits d
     @ '' '' @ two_digits h @ '':'' @ two_digits mi @ '':'' @ two_digits s
     @ ''.'' @ [print_digit (ms div 100)] @ two_digits (ms mod 100)"

definition valid_time :: "int \<Rightarrow> int \<Rightarrow> int \<Rightarrow> int \<Rightarrow> bool" where
  "valid_time h mi s ms \<longleftrightarrow> 0 \<le> h \<and> h < 24 \<and> 0 \<le> mi \<and> mi < 60 \<and> 0 \<le> s \<and> s < 60 \<and> 0 \<le> ms \<and> ms < 1000"

text \<open>Milliseconds since 1 March of year 0, by the calendar.\<close>

definition calendar_ms :: "int \<Rightarrow> int \<Rightarrow> int \<Rightarrow> int \<Rightarrow> int \<Rightarrow> int \<Rightarrow> int \<Rightarrow> int" where
  "calendar_ms y mo d h mi s ms =
     86400000 * (calendar_days y mo d - calendar_days 0 3 1) + 3600000 * h + 60000 * mi + 1000 * s + ms"

lemma fraction_ms_digits:
  "isDigit a \<Longrightarrow> isDigit b \<Longrightarrow> isDigit c \<Longrightarrow> post = [] \<or> \<not> isDigit (hd post) \<Longrightarrow>
     fraction_ms 100 (a # b # c # post) = 100 * digit_of a + 10 * digit_of b + digit_of c"
  by (cases post) auto

lemma two_digits_value:
  assumes "0 \<le> n" "n < 100"
  shows "isDigit (print_digit (n div 10))" "isDigit (print_digit (n mod 10))"
    "digit_of (print_digit (n div 10)) * 10 + digit_of (print_digit (n mod 10)) = n"
  using assms by simp_all

lemma valid_date_bounds: "valid_date y mo d \<Longrightarrow> d \<le> 31"
  by (auto simp: valid_date_def month_days_def split: if_splits)

lemma timestamp_digits:
  assumes "list_all isDigit [a, b, c, e, f, g, i, j, k, l, m, n, p, q, u, v, w]"
    and post: "post = [] \<or> \<not> isDigit (hd post)"
    and stamp: "stamp = [a, b, c, e, CHR ''-'', f, g, CHR ''-'', i, j, CHR '' '', k, l, CHR '':'', m, n,
      CHR '':'', p, q, CHR ''.'', u, v, w]"
    and y: "y = ((digit_of a * 10 + digit_of b) * 10 + digit_of c) * 10 + digit_of e"
    and mo: "mo = digit_of f * 10 + digit_of g" and d: "d = digit_of i * 10 + digit_of j"
    and h: "h = digit_of k * 10 + digit_of l" and mi: "mi = digit_of m * 10 + digit_of n"
    and s: "s = digit_of p * 10 + digit_of q"
    and ms: "ms = 100 * digit_of u + 10 * digit_of v + digit_of w"
    and range: "timestamp_in_range mo d h mi s"
  shows "timestamp_at (stamp @ post)
    = Some (stamp, timestamp_ms (daysFromCivil y mo d) h mi s + ms)"
proof -
  from assms(1) have digits: "isDigit a" "isDigit b" "isDigit c" "isDigit e" "isDigit f" "isDigit g"
    "isDigit i" "isDigit j" "isDigit k" "isDigit l" "isDigit m" "isDigit n" "isDigit p" "isDigit q"
    "isDigit u" "isDigit v" "isDigit w"
    by simp_all
  have separators: "timestamp_separators (stamp @ post)"
    using digits by (simp add: timestamp_separators_def stamp)
  have fields: "timestamp_fields (stamp @ post) = Some (y, mo, d, h, mi, s)"
    using digits
    by (simp add: timestamp_fields_def parseFixedInt_def stamp y mo d h mi s eval_nat_numeral Let_def)
  have rest: "drop 19 (stamp @ post) = CHR ''.'' # u # v # w # post"
    by (simp add: stamp eval_nat_numeral)
  have run: "takeWhile isDigit (u # v # w # post) = [u, v, w]"
    using digits post by (cases post) auto
  have "take 23 (stamp @ post) = stamp" by (simp add: stamp eval_nat_numeral)
  then show ?thesis
    using separators fields range rest run fraction_ms_digits [OF digits(15-17) post] ms
    by (simp add: timestamp_at_def Let_def)
qed

lemma length_print_timestamp [simp]: "length (print_timestamp y mo d h mi s ms) = 23"
  by (simp add: print_timestamp_def two_digits_def)

lemma timestamp_at_printed:
  assumes date: "valid_date y mo d" and time: "valid_time h mi s ms"
    and post: "post = [] \<or> \<not> isDigit (hd post)"
  shows "timestamp_at (print_timestamp y mo d h mi s ms @ post)
    = Some (print_timestamp y mo d h mi s ms, calendar_ms y mo d h mi s ms)"
proof -
  have y: "0 \<le> y div 100" "y div 100 < 100" "0 \<le> y mod 100" "y mod 100 < 100"
    and mo: "0 \<le> mo" "mo < 100" and d: "0 \<le> d" "d < 100"
    using date valid_date_bounds [OF date] by (auto simp: valid_date_def)
  have h: "0 \<le> h" "h < 100" and mi: "0 \<le> mi" "mi < 100" and s: "0 \<le> s" "s < 100"
    and ms: "0 \<le> ms div 100" "ms div 100 \<le> 9" "0 \<le> ms mod 100" "ms mod 100 < 100"
    using time by (auto simp: valid_time_def)
  note yy = two_digits_value [OF y(1,2)] and yx = two_digits_value [OF y(3,4)]
    and mm = two_digits_value [OF mo] and dd = two_digits_value [OF d] and hh = two_digits_value [OF h]
    and mn = two_digits_value [OF mi] and ss = two_digits_value [OF s]
    and ms1 = print_digit_simps [OF ms(1,2)] and ms2 = two_digits_value [OF ms(3,4)]
  have year: "((digit_of (print_digit (y div 100 div 10)) * 10 + digit_of (print_digit (y div 100 mod 10))) * 10
      + digit_of (print_digit (y mod 100 div 10))) * 10 + digit_of (print_digit (y mod 100 mod 10)) = y"
    using yy(3) yx(3) mult_div_mod_eq [of 100 y] by (simp only: algebra_simps)
  have milli: "100 * digit_of (print_digit (ms div 100)) + 10 * digit_of (print_digit (ms mod 100 div 10))
      + digit_of (print_digit (ms mod 100 mod 10)) = ms"
    using ms1(2) ms2(3) mult_div_mod_eq [of 100 ms] by linarith
  have all: "list_all isDigit [print_digit (y div 100 div 10), print_digit (y div 100 mod 10),
      print_digit (y mod 100 div 10), print_digit (y mod 100 mod 10), print_digit (mo div 10),
      print_digit (mo mod 10), print_digit (d div 10), print_digit (d mod 10), print_digit (h div 10),
      print_digit (h mod 10), print_digit (mi div 10), print_digit (mi mod 10), print_digit (s div 10),
      print_digit (s mod 10), print_digit (ms div 100), print_digit (ms mod 100 div 10),
      print_digit (ms mod 100 mod 10)]"
    using yy(1,2) yx(1,2) mm(1,2) dd(1,2) hh(1,2) mn(1,2) ss(1,2) ms1(1) ms2(1,2)
    by (simp only: list.pred_inject simp_thms)
  have range: "timestamp_in_range mo d h mi s"
    using date time valid_date_bounds [OF date]
    by (auto simp: timestamp_in_range_def valid_date_def valid_time_def)
  have "timestamp_ms (daysFromCivil y mo d) h mi s + ms = calendar_ms y mo d h mi s ms"
    using date daysFromCivil_calendar [of y mo d] daysFromCivil_calendar [of 0 3 1]
    by (simp add: valid_date_def timestamp_ms_def calendar_ms_def daysFromCivil_def civil_era_def
        day_of_era_def)
  then show ?thesis
    using timestamp_digits [OF all post _ year [symmetric] mm(3) [symmetric] dd(3) [symmetric]
        hh(3) [symmetric] mn(3) [symmetric] ss(3) [symmetric] milli [symmetric] range]
    by (simp add: print_timestamp_def two_digits_def)
qed

lemma timestamp_at_no_digit: "\<not> isDigit ch \<Longrightarrow> timestamp_at (ch # cs) = None"
  by (simp add: timestamp_at_def timestamp_separators_def)

lemma parse_skips:
  assumes "list_all (\<lambda>ch. \<not> isDigit ch) pre" "length cs \<ge> 19"
  shows "parseLogTimestampMilliseconds (pre @ cs) = parseLogTimestampMilliseconds cs"
  using assms by (induction pre) (auto simp: timestamp_at_no_digit)

lemma parse_printed:
  assumes "valid_date y mo d" "valid_time h mi s ms" "list_all (\<lambda>ch. \<not> isDigit ch) pre"
    and "post = [] \<or> \<not> isDigit (hd post)"
  shows "parseLogTimestampMilliseconds (pre @ print_timestamp y mo d h mi s ms @ post)
    = Some (print_timestamp y mo d h mi s ms, calendar_ms y mo d h mi s ms)"
proof -
  let ?stamp = "print_timestamp y mo d h mi s ms"
  have len: "length (?stamp @ post) \<ge> 19" by simp
  then obtain c cs where "?stamp @ post = c # cs" by (cases "?stamp @ post") simp_all
  moreover from this have "length (c # cs) \<ge> 19" using len by metis
  ultimately show ?thesis
    using timestamp_at_printed [OF assms(1,2,4)] parse_skips [OF assms(3), of "c # cs"] by simp
qed

text \<open>
  What any accepted timestamp is: a piece of the line of at least 19 characters, and a number of
  milliseconds that fits the source's 64-bit integer by far.
\<close>

lemma fraction_ms_zero: "fraction_ms 0 s = 0"
  by (induction s) auto

lemma fraction_ms_step:
  assumes "scale \<ge> 1" "\<And>s. 0 \<le> fraction_ms (scale div 10) s \<and> fraction_ms (scale div 10) s \<le> m"
    and "m \<ge> 0"
  shows "0 \<le> fraction_ms scale s \<and> fraction_ms scale s \<le> 9 * scale + m"
proof (cases s)
  case (Cons ch cs)
  have "isDigit ch \<Longrightarrow> 0 \<le> digit_of ch * scale \<and> digit_of ch * scale \<le> 9 * scale"
    using digit_of_bounds [of ch] assms(1) by (intro conjI mult_nonneg_nonneg mult_right_mono) auto
  with assms(2) [of cs] have "isDigit ch \<Longrightarrow> 0 \<le> digit_of ch * scale + fraction_ms (scale div 10) cs
      \<and> digit_of ch * scale + fraction_ms (scale div 10) cs \<le> 9 * scale + m"
    by linarith
  then show ?thesis using Cons assms(1,3) by simp
qed (use assms in simp)

lemma fraction_ms_bounds: "0 \<le> fraction_ms 100 s \<and> fraction_ms 100 s \<le> 999"
proof -
  have one: "0 \<le> fraction_ms 1 s \<and> fraction_ms 1 s \<le> 9" for s
    using fraction_ms_step [of 1 0 s] by (simp add: fraction_ms_zero)
  have ten: "0 \<le> fraction_ms 10 s \<and> fraction_ms 10 s \<le> 99" for s
    using fraction_ms_step [of 10 9 s] one by simp
  show ?thesis using fraction_ms_step [of 100 99 s] ten by simp
qed

lemma parseFixedInt_bounds:
  assumes "parseFixedInt s off count = Some n"
  shows "0 \<le> n \<and> n < 10 ^ count"
proof -
  have "list_all isDigit ds \<Longrightarrow> 0 \<le> r \<Longrightarrow>
      0 \<le> foldl (\<lambda>r ch. r * 10 + digit_of ch) r ds
      \<and> foldl (\<lambda>r ch. r * 10 + digit_of ch) r ds < (r + 1) * 10 ^ length ds" for ds and r :: int
  proof (induction ds arbitrary: r)
    case (Cons ch ds)
    have d: "0 \<le> digit_of ch \<and> digit_of ch \<le> 9" using digit_of_bounds Cons.prems by simp
    then have "(r * 10 + digit_of ch + 1) * 10 ^ length ds \<le> ((r + 1) * 10) * 10 ^ length ds"
      by (intro mult_right_mono) auto
    moreover have "0 \<le> r * 10 + digit_of ch" using d Cons.prems by simp
    then have "0 \<le> foldl (\<lambda>r ch. r * 10 + digit_of ch) (r * 10 + digit_of ch) ds
        \<and> foldl (\<lambda>r ch. r * 10 + digit_of ch) (r * 10 + digit_of ch) ds
          < (r * 10 + digit_of ch + 1) * 10 ^ length ds"
      using Cons by simp
    ultimately show ?case by (simp only: foldl_Cons length_Cons power_Suc mult.assoc simp_thms) linarith
  qed simp
  from this [of "take count (drop off s)" 0] show ?thesis
    using assms by (auto simp: parseFixedInt_def Let_def split: if_splits)
qed

lemma parse_SomeD:
  assumes "parseLogTimestampMilliseconds line = Some (stamp, ms)"
  obtains pre rest where "line = pre @ rest" "length rest \<ge> 19" "timestamp_at rest = Some (stamp, ms)"
  using assms
proof (induction line arbitrary: thesis rule: parseLogTimestampMilliseconds.induct)
  case (2 ch cs)
  show ?case
  proof (cases "timestamp_at (ch # cs)")
    case None
    then show ?thesis using 2 by (metis append_Cons option.distinct(1) option.simps(4) parseLogTimestampMilliseconds.simps(2))
  next
    case (Some r)
    then show ?thesis using 2(2) [of "[]" "ch # cs"] 2(3) by (auto split: if_splits)
  qed
qed simp

lemma fraction_ms_takeWhile: "fraction_ms scale (takeWhile isDigit s) = fraction_ms scale s"
  by (induction scale s rule: fraction_ms.induct) auto

lemma parseFixedInt_take:
  "off + count \<le> n \<Longrightarrow> n \<le> length s \<Longrightarrow> parseFixedInt (take n s) off count = parseFixedInt s off count"
  by (simp add: parseFixedInt_def drop_take min_def)

lemma timestamp_fields_take:
  "19 \<le> n \<Longrightarrow> n \<le> length s \<Longrightarrow> timestamp_fields (take n s) = timestamp_fields s"
  using parseFixedInt_take [of 0 4 n s] parseFixedInt_take [of 5 2 n s] parseFixedInt_take [of 8 2 n s]
    parseFixedInt_take [of 11 2 n s] parseFixedInt_take [of 14 2 n s] parseFixedInt_take [of 17 2 n s]
  by (simp add: timestamp_fields_def cong: option.case_cong)

lemma timestamp_separators_take:
  "19 \<le> n \<Longrightarrow> n \<le> length s \<Longrightarrow> timestamp_separators (take n s) = timestamp_separators s"
  by (simp add: timestamp_separators_def)

lemma timestamp_at_reparses:
  assumes "timestamp_at s = Some (stamp, ms)" "length s \<ge> 19"
  shows "timestamp_at stamp = Some (stamp, ms)" "19 \<le> length stamp" "stamp = take (length stamp) s"
proof -
  let ?rest = "drop 19 s"
  let ?fractional = "?rest \<noteq> [] \<and> hd ?rest = CHR ''.''"
  let ?run = "takeWhile isDigit (tl ?rest)"
  let ?stop = "if ?fractional then 20 + length ?run else 19"
  from assms(1) obtain year month day hour minute second where
    sep: "timestamp_separators s" and
    fields: "timestamp_fields s = Some (year, month, day, hour, minute, second)" and
    range: "timestamp_in_range month day hour minute second" and
    stamp: "stamp = take ?stop s" and
    ms: "ms = timestamp_ms (daysFromCivil year month day) hour minute second
      + (if ?fractional then fraction_ms 100 (tl ?rest) else 0)"
    by (auto simp: timestamp_at_def Let_def split: if_splits option.splits)
  have "length ?run \<le> length (tl ?rest)" by (rule length_takeWhile_le)
  moreover have "length ?rest = length s - 19" by simp
  ultimately have len: "?stop \<le> length s" using assms(2) by (cases ?rest) auto
  then have l: "length stamp = ?stop" by (simp add: stamp)
  then show "19 \<le> length stamp" "stamp = take (length stamp) s" using stamp by auto
  have "tl ?rest = ?run @ dropWhile isDigit (tl ?rest)" by simp
  then have "take (length ?run) (tl ?rest) = ?run"
    by (metis append_eq_conv_conj)
  then have rest: "drop 19 stamp = (if ?fractional then CHR ''.'' # ?run else [])"
    unfolding stamp by (cases ?rest) (auto simp: drop_take)
  have "timestamp_separators stamp" "timestamp_fields stamp = timestamp_fields s"
    unfolding stamp using timestamp_separators_take [OF _ len] timestamp_fields_take [OF _ len] sep
    by auto
  then show "timestamp_at stamp = Some (stamp, ms)"
    using fields range rest ms l by (simp add: timestamp_at_def Let_def fraction_ms_takeWhile)
qed

lemma parse_timestamp_at:
  assumes "timestamp_at s = Some r" "length s \<ge> 19"
  shows "parseLogTimestampMilliseconds s = Some r"
  using assms by (cases s) auto

lemma parse_reparses:
  assumes "parseLogTimestampMilliseconds line = Some (stamp, ms)"
  shows "parseLogTimestampMilliseconds stamp = Some (stamp, ms)" "mentions line stamp"
    "19 \<le> length stamp"
proof -
  obtain pre rest where line: "line = pre @ rest" and rest: "length rest \<ge> 19"
      "timestamp_at rest = Some (stamp, ms)"
    using parse_SomeD [OF assms] .
  note again = timestamp_at_reparses [OF rest(2,1)]
  show "19 \<le> length stamp" by (rule again(2))
  show "parseLogTimestampMilliseconds stamp = Some (stamp, ms)"
    using parse_timestamp_at again(1,2) .
  have "line = pre @ stamp @ drop (length stamp) rest"
    unfolding line using again(3) by (metis append_take_drop_id)
  then show "mentions line stamp" unfolding mentions_iff by blast
qed

text \<open>Every accepted timestamp lies between 1 January of year 0 and the end of year 9999.\<close>

lemma march_days_bounds:
  assumes "-1 \<le> y" "y \<le> 9999"
  shows "-366 \<le> march_days y \<and> march_days y \<le> 3652200"
proof (cases "y = -1")
  case True
  then show ?thesis by (simp add: march_days_def)
next
  case False
  then have "0 \<le> y div 4" "y div 4 \<le> 2499" "0 \<le> y div 100" "0 \<le> y div 400" "y div 400 \<le> 24"
    "y div 100 \<le> y"
    using assms zdiv_mono1 [of y 9999 4] zdiv_mono1 [of y 9999 400] zdiv_mono2 [of y 1 100]
    by (simp_all add: pos_imp_zdiv_nonneg_iff)
  then show ?thesis using False assms by (simp add: march_days_def)
qed

lemma daysFromCivil_bounds:
  assumes "0 \<le> y" "y \<le> 9999" "1 \<le> mo" "mo \<le> 12" "1 \<le> d" "d \<le> 31"
  shows "-60 \<le> daysFromCivil y mo d \<and> daysFromCivil y mo d \<le> 3652600"
proof (cases "mo \<le> 2")
  case True
  then have "306 \<le> (153 * (mo + 9) + 2) div 5" "(153 * (mo + 9) + 2) div 5 \<le> 337"
    using assms zdiv_mono1 [of "153 * (mo + 9) + 2" "153 * 11 + 2" 5]
      zdiv_mono1 [of "153 * 10 + 2" "153 * (mo + 9) + 2" 5] by auto
  then show ?thesis
    using True assms march_days_bounds [of "y - 1"] era_and_year [of "y - 1" mo d]
    by (simp add: daysFromCivil_def civil_era_div Let_def)
next
  case False
  then have "0 \<le> (153 * (mo - 3) + 2) div 5" "(153 * (mo - 3) + 2) div 5 \<le> 275"
    using assms zdiv_mono1 [of "153 * (mo - 3) + 2" "153 * 9 + 2" 5]
    by (auto simp: pos_imp_zdiv_nonneg_iff)
  moreover have "0 \<le> march_days y"
    using assms(1) zdiv_mono2 [of y 1 100] by (simp add: march_days_def pos_imp_zdiv_nonneg_iff)
  ultimately show ?thesis
    using False assms march_days_bounds [of y] era_and_year [of y mo d]
    by (simp add: daysFromCivil_def civil_era_div Let_def)
qed

lemma parse_bounds:
  assumes "parseLogTimestampMilliseconds line = Some (stamp, ms)"
  shows "-5184000000 \<le> ms \<and> ms < 2 ^ 49"
proof -
  obtain rest where "timestamp_at rest = Some (stamp, ms)"
    using parse_SomeD [OF assms] by metis
  then obtain year month day hour minute second f where
    fields: "timestamp_fields rest = Some (year, month, day, hour, minute, second)" and
    range: "timestamp_in_range month day hour minute second" and
    ms: "ms = timestamp_ms (daysFromCivil year month day) hour minute second + f" "0 \<le> f" "f \<le> 999"
    using fraction_ms_bounds by (fastforce simp: timestamp_at_def Let_def split: if_splits option.splits)
  have "0 \<le> year" "year \<le> 9999"
    using fields parseFixedInt_bounds [of rest 0 4] by (force simp: timestamp_fields_def split: option.splits)+
  then have "-60 \<le> daysFromCivil year month day" "daysFromCivil year month day \<le> 3652600"
    using range daysFromCivil_bounds [of year month day] by (auto simp: timestamp_in_range_def)
  then show ?thesis using range ms by (auto simp: timestamp_in_range_def timestamp_ms_def)
qed

end
