(* ===== verification/Process_Evidence.thy ===== *)
theory Process_Evidence
  imports Log_Timestamps Bootstrap_Manifest
begin

text \<open>
  The lines of evidence a launch leaves behind and how \<open>RuntimeInstallation.cpp\<close> reads them:
  values cleaned for the report (\<open>sanitizeEvidenceValue\<close>), support codes and addresses of
  Battle.net errors, and the processes of a process listing with their category. The files
  themselves (a process snapshot, the log files) are arguments: the list of their lines.
\<close>

section \<open>Cleaned values\<close>

definition max_evidence_value_length :: nat where
  "max_evidence_value_length = 2000"

definition sanitize_char :: "char \<Rightarrow> char" where
  "sanitize_char ch = (if ch = CHR 0x0A \<or> ch = CHR 0x0D \<or> ch = CHR 0x09 then CHR '' '' else ch)"

definition sanitizeEvidenceValue :: "string \<Rightarrow> string" where
  "sanitizeEvidenceValue value =
     (let cleaned = map sanitize_char value
      in if length cleaned > max_evidence_value_length
         then take max_evidence_value_length cleaned @ ''...'' else cleaned)"

lemma sanitize_char_id: "ch \<noteq> CHR 0x0A \<Longrightarrow> ch \<noteq> CHR 0x0D \<Longrightarrow> ch \<noteq> CHR 0x09 \<Longrightarrow> sanitize_char ch = ch"
  by (simp add: sanitize_char_def)

lemma sanitize_char_clean [simp]:
  "sanitize_char ch \<noteq> CHR 0x0A" "sanitize_char ch \<noteq> CHR 0x0D" "sanitize_char ch \<noteq> CHR 0x09"
  "CHR 0x0A \<noteq> sanitize_char ch" "CHR 0x0D \<noteq> sanitize_char ch" "CHR 0x09 \<noteq> sanitize_char ch"
  by (auto simp: sanitize_char_def)

lemma sanitized_chars:
  assumes "ch \<in> set (sanitizeEvidenceValue s)"
  shows "ch \<noteq> CHR 0x0A" "ch \<noteq> CHR 0x0D" "ch \<noteq> CHR 0x09"
  using assms
  by (auto simp: sanitizeEvidenceValue_def Let_def split: if_splits dest!: in_set_takeD)

lemma sanitized_no_newline [simp]: "CHR 0x0A \<notin> set (sanitizeEvidenceValue s)"
  using sanitized_chars(1) by blast

lemma sanitized_length: "length (sanitizeEvidenceValue s) \<le> 2003"
  by (simp add: sanitizeEvidenceValue_def Let_def max_evidence_value_length_def)

lemma sanitize_map_id:
  "(\<And>ch. ch \<in> set s \<Longrightarrow> ch \<noteq> CHR 0x0A \<and> ch \<noteq> CHR 0x0D \<and> ch \<noteq> CHR 0x09) \<Longrightarrow> map sanitize_char s = s"
  by (induction s) (auto simp: sanitize_char_id)

lemma sanitize_idem [simp]: "sanitizeEvidenceValue (sanitizeEvidenceValue s) = sanitizeEvidenceValue s"
proof -
  have "map sanitize_char (sanitizeEvidenceValue s) = sanitizeEvidenceValue s"
    using sanitized_chars by (intro sanitize_map_id) blast
  then have "sanitizeEvidenceValue (sanitizeEvidenceValue s)
      = (if length (sanitizeEvidenceValue s) > max_evidence_value_length
         then take max_evidence_value_length (sanitizeEvidenceValue s) @ ''...''
         else sanitizeEvidenceValue s)"
    by (simp only: sanitizeEvidenceValue_def [of "sanitizeEvidenceValue s"] Let_def)
  then show ?thesis by (auto simp: sanitizeEvidenceValue_def Let_def)
qed

lemma sanitize_Nil_iff [simp]: "sanitizeEvidenceValue s = [] \<longleftrightarrow> s = []"
  by (auto simp: sanitizeEvidenceValue_def Let_def max_evidence_value_length_def)

section \<open>Support errors\<close>

definition isBattleNetSupportCodeChar :: "char \<Rightarrow> bool" where
  "isBattleNetSupportCodeChar ch \<longleftrightarrow>
     (65 \<le> (of_char ch :: nat) \<and> (of_char ch :: nat) \<le> 90) \<or> isDigit ch"

definition isBattleNetSupportErrorLine :: "string \<Rightarrow> bool" where
  "isBattleNetSupportErrorLine line \<longleftrightarrow> mentions line ''/client/error/''
     \<or> mentions line ''battle.net/support'' \<or> mentions line ''support.blizzard.com''"

text \<open>The search for the next \<open>BLZ\<close>, resumed three characters on when its run is too short.\<close>

fun support_code_from :: "string \<Rightarrow> string" where
  "support_code_from [] = []"
| "support_code_from (c # cs) =
     (if starts_with (c # cs) ''BLZ''
      then let run = takeWhile isBattleNetSupportCodeChar (c # cs)
        in if length run \<ge> 8 then run else support_code_from (drop 2 cs)
      else support_code_from cs)"

definition extractBattleNetSupportCode :: "string \<Rightarrow> string" where
  "extractBattleNetSupportCode line =
     (if \<not> isBattleNetSupportErrorLine line then [] else support_code_from line)"

text \<open>\<open>std::string::rfind\<close>: the last position not after \<open>pos\<close> at which the needle occurs.\<close>

definition str_rfind :: "string \<Rightarrow> string \<Rightarrow> nat \<Rightarrow> nat option" where
  "str_rfind needle line pos =
     (case filter (\<lambda>k. starts_with (drop k line) needle) [0..<Suc (min pos (length line))] of
        [] \<Rightarrow> None | ks \<Rightarrow> Some (last ks))"

definition first_some :: "'a option list \<Rightarrow> 'a option" where
  "first_some os = (case filter (\<lambda>x. x \<noteq> None) os of [] \<Rightarrow> None | x # _ \<Rightarrow> x)"

definition support_url_offset :: "string \<Rightarrow> string \<Rightarrow> nat option" where
  "support_url_offset line supportCode =
     (let codeOffset = (case (if supportCode = [] then None else str_find supportCode line) of
            None \<Rightarrow> 0 | Some k \<Rightarrow> k)
      in first_some [str_rfind ''https://'' line codeOffset, str_rfind ''http://'' line codeOffset,
           str_find ''https://'' line, str_find ''http://'' line])"

definition url_tail_char :: "char \<Rightarrow> bool" where
  "url_tail_char ch \<longleftrightarrow> ch = CHR '')'' \<or> ch = CHR '']'' \<or> ch = CHR '';'' \<or> ch = CHR '',''"

definition extractSupportUrl :: "string \<Rightarrow> string \<Rightarrow> string" where
  "extractSupportUrl line supportCode =
     (case support_url_offset line supportCode of None \<Rightarrow> []
      | Some urlOffset \<Rightarrow>
          let url = takeWhile (\<lambda>ch. \<not> is_space ch) (drop urlOffset line)
          in rev (dropWhile url_tail_char (rev url)))"

lemma support_code_sound:
  assumes "support_code_from s \<noteq> []"
  shows "starts_with (support_code_from s) ''BLZ'' \<and> 8 \<le> length (support_code_from s)
    \<and> list_all isBattleNetSupportCodeChar (support_code_from s)
    \<and> mentions s (support_code_from s)"
  using assms
proof (induction s rule: support_code_from.induct)
  case (2 c cs)
  have run: "starts_with (takeWhile isBattleNetSupportCodeChar (c # cs)) ''BLZ''"
    if "starts_with (c # cs) ''BLZ''"
  proof -
    from that obtain r where "c # cs = ''BLZ'' @ r" unfolding starts_with_iff by blast
    then show ?thesis
      by (auto simp: starts_with_iff isBattleNetSupportCodeChar_def)
  qed
  have mention: "mentions (c # cs) x" if "mentions (drop k (c # cs)) x" for x k
    using that unfolding mentions_iff by (metis append.assoc append_take_drop_id)
  have self: "mentions (c # cs) (takeWhile isBattleNetSupportCodeChar (c # cs))"
    unfolding mentions_iff by (metis append_Nil takeWhile_dropWhile_id)
  let ?run = "takeWhile isBattleNetSupportCodeChar (c # cs)"
  consider (found) "starts_with (c # cs) ''BLZ''" "length ?run \<ge> 8"
    | (short) "starts_with (c # cs) ''BLZ''" "\<not> length ?run \<ge> 8"
    | (other) "\<not> starts_with (c # cs) ''BLZ''"
    by blast
  then show ?case
  proof cases
    case found
    then have "support_code_from (c # cs) = ?run" by (simp add: Let_def)
    then show ?thesis using found run self by (metis list_all_iff set_takeWhileD)
  next
    case short
    then have "support_code_from (c # cs) = support_code_from (drop 2 cs)" by (simp add: Let_def)
    moreover have "drop 2 cs = drop 3 (c # cs)" by simp
    ultimately show ?thesis using "2.IH"(1) [OF short(1) refl short(2)] "2.prems" mention [of 3] by metis
  next
    case other
    then have "support_code_from (c # cs) = support_code_from cs" by simp
    moreover have "cs = drop 1 (c # cs)" by simp
    ultimately show ?thesis using "2.IH"(2) [OF other] "2.prems" mention [of 1] by metis
  qed
qed simp

lemma support_code_complete:
  assumes "s = a @ code @ b" "starts_with code ''BLZ''" "length code \<ge> 8"
    and "list_all isBattleNetSupportCodeChar code"
  shows "support_code_from s \<noteq> []"
  using assms
proof (induction s arbitrary: a rule: support_code_from.induct)
  case 1
  then show ?case by (auto simp: starts_with_iff)
next
  case (2 c cs)
  show ?case
  proof (cases a)
    case Nil
    then have run: "takeWhile isBattleNetSupportCodeChar (c # cs)
        = code @ takeWhile isBattleNetSupportCodeChar b"
      using 2 by (simp add: list_all_iff)
    have "starts_with (c # cs) ''BLZ''"
      using 2 Nil by (auto simp: starts_with_iff)
    moreover have "8 \<le> length (code @ takeWhile isBattleNetSupportCodeChar b)" using 2 by simp
    ultimately have "support_code_from (c # cs) = code @ takeWhile isBattleNetSupportCodeChar b"
      using run by (simp only: support_code_from.simps Let_def if_True)
    then show ?thesis using 2 by auto
  next
    case (Cons c' a')
    show ?thesis
    proof (cases "starts_with (c # cs) ''BLZ'' \<and> length (takeWhile isBattleNetSupportCodeChar (c # cs)) < 8")
      case False
      then show ?thesis using 2 Cons by (auto simp: Let_def)
    next
      case True
      then obtain r where r: "c # cs = ''BLZ'' @ r" unfolding starts_with_iff by blast
      obtain code' where code: "code = ''BLZ'' @ code'" using 2 by (auto simp: starts_with_iff)
      have "length a \<ge> 3"
        using r 2 Cons code by (cases a'; cases "tl a'") auto
      then have "drop 2 cs = drop 3 a @ code @ b"
        using r 2 Cons by (cases a'; cases "tl a'") auto
      moreover have "support_code_from (c # cs) = support_code_from (drop 2 cs)"
        using True by (simp add: Let_def)
      ultimately show ?thesis
        using "2.IH"(1) [of _ "drop 3 a"] True "2.prems"(2-4) by auto
    qed
  qed
qed

lemma support_code_iff:
  "support_code_from s \<noteq> [] \<longleftrightarrow>
     (\<exists>code. mentions s code \<and> starts_with code ''BLZ'' \<and> 8 \<le> length code
       \<and> list_all isBattleNetSupportCodeChar code)"
  using support_code_sound support_code_complete unfolding mentions_iff by metis

lemma url_no_space: "ch \<in> set (extractSupportUrl line code) \<Longrightarrow> \<not> is_space ch"
  by (auto simp: extractSupportUrl_def Let_def split: option.splits
      dest!: set_dropWhileD dest: set_takeWhileD)


section \<open>Processes\<close>

record observed_process =
  op_processId :: int
  op_parentProcessId :: int
  op_category :: string
  op_command :: string

definition blank_char :: "char \<Rightarrow> bool" where
  "blank_char ch \<longleftrightarrow> ch = CHR '' '' \<or> ch = CHR 0x09 \<or> ch = CHR 0x0D \<or> ch = CHR 0x0A"

definition trimLeft :: "string \<Rightarrow> string" where
  "trimLeft value = dropWhile blank_char value"

definition normalizePathSeparators :: "string \<Rightarrow> string" where
  "normalizePathSeparators value = map (\<lambda>ch. if ch = CHR 0x5C then CHR ''/'' else ch) value"

definition lowerCase :: "string \<Rightarrow> string" where
  "lowerCase value = map to_lower value"

text \<open>A path followed by the end of the text or by white space.\<close>

definition ends_word :: "string \<Rightarrow> string \<Rightarrow> bool" where
  "ends_word trimmed path \<longleftrightarrow>
     length trimmed = length path \<or> is_space (trimmed ! length path)"

definition trimmedCommandStartsWithPath :: "string \<Rightarrow> string \<Rightarrow> bool" where
  "trimmedCommandStartsWithPath trimmed path =
     (let doubly = CHR 0x22 # path @ [CHR 0x22]; singly = CHR 0x27 # path @ [CHR 0x27]
      in if path = [] then False
         else if starts_with trimmed path then ends_word trimmed path
         else if starts_with trimmed doubly then ends_word trimmed doubly
         else if starts_with trimmed singly then ends_word trimmed singly
         else False)"

definition commandStartsWithPath :: "string \<Rightarrow> string \<Rightarrow> bool" where
  "commandStartsWithPath command path =
     (let trimmed = trimLeft command;
          normalizedTrimmed = normalizePathSeparators trimmed;
          normalizedPath = normalizePathSeparators path
      in if trimmedCommandStartsWithPath trimmed path then True
         else if normalizedTrimmed = trimmed \<and> normalizedPath = path then False
         else trimmedCommandStartsWithPath normalizedTrimmed normalizedPath)"

definition commandMentionsPath :: "string \<Rightarrow> string \<Rightarrow> bool" where
  "commandMentionsPath command path =
     (let normalizedCommand = normalizePathSeparators command;
          normalizedPath = normalizePathSeparators path
      in if path = [] then False
         else if mentions command path then True
         else if mentions normalizedCommand normalizedPath then True
         else mentions (lowerCase normalizedCommand) (lowerCase normalizedPath))"

definition is_battle_net_main :: "string \<Rightarrow> bool" where
  "is_battle_net_main command =
     lineContainsAny command [''Battle.net.app/Contents/MacOS/Battle.net'', ''Battle.net.exe'']"

definition is_battle_net_support :: "string \<Rightarrow> bool" where
  "is_battle_net_support command =
     lineContainsAny command [''Battle.net Helper'', ''Agent.app/Contents/MacOS/Agent'']"

definition categorizeProcessCommand :: "runtime_installation \<Rightarrow> string \<Rightarrow> string" where
  "categorizeProcessCommand installation command =
     (if commandStartsWithPath command (ri_executablePath installation)
         \<or> commandStartsWithPath command ''StarCraft.app/Contents/MacOS/StarCraft''
      then ''starcraft-game''
      else if ri_product installation = StarCraftBroodWar1161
         \<and> commandMentionsPath command (ri_executablePath installation)
      then ''starcraft-game''
      else if ri_product installation = StarCraftBroodWar1161
         \<and> lineContainsAny (lowerCase command) [''starcraft.exe'', ''brood war.exe'', ''broodwar.exe'']
         \<and> commandMentionsPath command (ri_installRoot installation)
      then ''starcraft-game''
      else if (is_battle_net_main command \<or> is_battle_net_support command)
         \<and> mentions command ''--game=s1''
      then ''battle.net-handoff''
      else if is_battle_net_main command then ''battle.net-main''
      else if is_battle_net_support command then ''battle.net-support''
      else if lineContainsAny command [ri_installRoot installation,
           ''StarCraft Launcher.app/Contents/MacOS/StarCraft Launcher'', ''StarCraft Launcher.exe'']
      then ''starcraft-related''
      else [])"

definition isRelevantObservedProcess :: "observed_process \<Rightarrow> bool" where
  "isRelevantObservedProcess process \<longleftrightarrow> op_category process \<noteq> []"

text \<open>
  \<open>stream >> int\<close>: white space is skipped, the longest decimal number is read, and a number
  outside the range of an \<open>int\<close> fails the stream. The rest of the line follows the number.
\<close>

definition read_int :: "string \<Rightarrow> (int \<times> string) option" where
  "read_int s =
     (let (neg, _, body) = scan_sign (dropWhile is_space s);
          ds = takeWhile isDigit body;
          value = foldl (\<lambda>r ch. r * 10 + digit_of ch) 0 ds;
          signed = (if neg then - value else value)
      in if ds = [] \<or> \<not> int32_range signed then None
         else Some (signed, drop (length ds) body))"

definition parseObservedProcessLine :: "runtime_installation \<Rightarrow> string \<Rightarrow> observed_process option" where
  "parseObservedProcessLine installation line =
     (case read_int line of None \<Rightarrow> None
      | Some (processId, rest) \<Rightarrow>
     (case read_int rest of None \<Rightarrow> None
      | Some (parentProcessId, rest) \<Rightarrow>
          if processId \<le> 0 then None
          else let command = trimLeft rest;
                   process = \<lparr>op_processId = processId, op_parentProcessId = parentProcessId,
                     op_category = categorizeProcessCommand installation command,
                     op_command = command\<rparr>
            in if isRelevantObservedProcess process then Some process else None))"

definition collectSnapshotObservedProcesses ::
  "runtime_installation \<Rightarrow> string list \<Rightarrow> observed_process list" where
  "collectSnapshotObservedProcesses installation snapshot =
     List.map_filter (parseObservedProcessLine installation) snapshot"

definition processIdsFromObservedProcesses :: "observed_process list \<Rightarrow> string list \<Rightarrow> int list" where
  "processIdsFromObservedProcesses processes categories =
     map op_processId (filter (\<lambda>p. lineContainsAny (op_category p) categories) processes)"

subsection \<open>The direction of slashes does not matter\<close>

lemma mentions_map: "mentions s t \<Longrightarrow> mentions (map f s) (map f t)"
  unfolding mentions_iff by (metis map_append)

lemma mentions_normalize: "mentions s t \<Longrightarrow> mentions (normalizePathSeparators s) (normalizePathSeparators t)"
  unfolding normalizePathSeparators_def by (rule mentions_map)

lemma mentions_lowerCase: "mentions s t \<Longrightarrow> mentions (lowerCase s) (lowerCase t)"
  unfolding lowerCase_def by (rule mentions_map)

text \<open>The three comparisons of \<open>commandMentionsPath\<close> are the last one alone.\<close>

lemma commandMentionsPath_iff:
  "commandMentionsPath command path \<longleftrightarrow> path \<noteq> []
     \<and> mentions (lowerCase (normalizePathSeparators command)) (lowerCase (normalizePathSeparators path))"
  using mentions_normalize mentions_lowerCase by (auto simp: commandMentionsPath_def Let_def)

lemma starts_with_map: "starts_with s t \<Longrightarrow> starts_with (map f s) (map f t)"
  by (auto simp: starts_with_iff)

lemma normalize_length [simp]: "length (normalizePathSeparators s) = length s"
  by (simp add: normalizePathSeparators_def)

lemma normalize_Nil [simp]: "normalizePathSeparators s = [] \<longleftrightarrow> s = []"
  by (simp add: normalizePathSeparators_def)

lemma normalize_idem [simp]: "normalizePathSeparators (normalizePathSeparators s) = normalizePathSeparators s"
  by (simp add: normalizePathSeparators_def)

lemma ends_word_normalize:
  assumes "starts_with s t"
  shows "ends_word (normalizePathSeparators s) (normalizePathSeparators t) = ends_word s t"
proof (cases "length s = length t")
  case True
  then show ?thesis by (simp add: ends_word_def)
next
  case False
  obtain r where "s = t @ r" using assms unfolding starts_with_iff by blast
  then show ?thesis using False
    by (cases r) (auto simp: ends_word_def normalizePathSeparators_def nth_append is_space_def)
qed

lemma starts_with_normalize: "starts_with s t \<Longrightarrow> starts_with (normalizePathSeparators s) (normalizePathSeparators t)"
  unfolding normalizePathSeparators_def by (rule starts_with_map)

definition quoted_path :: "string \<Rightarrow> bool" where
  "quoted_path path \<longleftrightarrow> path \<noteq> [] \<and> (hd path = CHR 0x22 \<or> hd path = CHR 0x27)"

lemma quoted_path_normalize [simp]: "quoted_path (normalizePathSeparators path) = quoted_path path"
  by (cases path) (auto simp: quoted_path_def normalizePathSeparators_def)

lemma starts_with_Cons: "starts_with s (c # p) \<longleftrightarrow> (\<exists>r. s = c # r \<and> starts_with r p)"
  by (auto simp: starts_with_iff)

lemma normalize_wrapped:
  "q = CHR 0x22 \<or> q = CHR 0x27 \<Longrightarrow>
     q # normalizePathSeparators path @ [q] = normalizePathSeparators (q # path @ [q])"
  by (auto simp: normalizePathSeparators_def)

lemma trimmedCommandStartsWithPath_iff:
  assumes "\<not> quoted_path path"
  shows "trimmedCommandStartsWithPath trimmed path \<longleftrightarrow> path \<noteq> [] \<and>
    (\<exists>form \<in> {path, CHR 0x22 # path @ [CHR 0x22], CHR 0x27 # path @ [CHR 0x27]}.
       starts_with trimmed form \<and> ends_word trimmed form)"
  using assms
  by (cases path) (auto simp: trimmedCommandStartsWithPath_def Let_def quoted_path_def starts_with_Cons)

lemma starts_with_path_normalize:
  assumes "\<not> quoted_path path" "trimmedCommandStartsWithPath trimmed path"
  shows "trimmedCommandStartsWithPath (normalizePathSeparators trimmed) (normalizePathSeparators path)"
proof -
  from assms obtain form where
    form: "form \<in> {path, CHR 0x22 # path @ [CHR 0x22], CHR 0x27 # path @ [CHR 0x27]}"
      "starts_with trimmed form" "ends_word trimmed form" and "path \<noteq> []"
    by (auto simp: trimmedCommandStartsWithPath_iff)
  then show ?thesis
    using assms(1) starts_with_normalize [OF form(2)] ends_word_normalize [OF form(2)]
      normalize_wrapped [of _ path]
    by (auto simp: trimmedCommandStartsWithPath_iff)
qed

lemma commandStartsWithPath_iff:
  assumes "\<not> quoted_path path"
  shows "commandStartsWithPath command path \<longleftrightarrow>
    trimmedCommandStartsWithPath (normalizePathSeparators (trimLeft command)) (normalizePathSeparators path)"
  using starts_with_path_normalize [OF assms]
  by (auto simp: commandStartsWithPath_def Let_def)

lemma normalize_trimLeft: "normalizePathSeparators (trimLeft s) = trimLeft (normalizePathSeparators s)"
  by (induction s) (auto simp: trimLeft_def normalizePathSeparators_def blank_char_def)

lemma lowerCase_normalize: "lowerCase (normalizePathSeparators s) = normalizePathSeparators (lowerCase s)"
proof -
  have "to_lower ch = CHR 0x5C \<longleftrightarrow> ch = CHR 0x5C" for ch
    by (auto simp: to_lower_def Let_def dest!: arg_cong [where f = "of_char :: char \<Rightarrow> nat"])
  moreover have "to_lower (CHR ''/'') = CHR ''/''" by (simp add: to_lower_def)
  ultimately show ?thesis by (simp add: lowerCase_def normalizePathSeparators_def)
qed

lemma mentions_normalize_plain:
  assumes "CHR ''/'' \<notin> set t" "CHR 0x5C \<notin> set t"
  shows "mentions (normalizePathSeparators s) t = mentions s t"
proof
  assume "mentions (normalizePathSeparators s) t"
  then obtain x y where "normalizePathSeparators s = x @ t @ y"
    unfolding mentions_iff by blast
  from iffD1 [OF map_eq_append_conv this [unfolded normalizePathSeparators_def]]
  obtain a v where s: "s = a @ v" and "t @ y = normalizePathSeparators v"
    by (auto simp: normalizePathSeparators_def)
  from iffD1 [OF map_eq_append_conv this(2) [symmetric, unfolded normalizePathSeparators_def]]
  obtain u b where v: "v = u @ b" and t: "normalizePathSeparators u = t"
    by (auto simp: normalizePathSeparators_def)
  have "CHR 0x5C \<notin> set u"
    using t assms(1) by (force simp: normalizePathSeparators_def)
  then have "normalizePathSeparators u = u"
    by (induction u) (auto simp: normalizePathSeparators_def)
  with s t v have "s = a @ t @ b" by simp
  then show "mentions s t" unfolding mentions_iff by blast
next
  assume "mentions s t"
  then have "mentions (normalizePathSeparators s) (normalizePathSeparators t)" by (rule mentions_normalize)
  moreover have "normalizePathSeparators t = t"
    using assms(2) by (induction t) (auto simp: normalizePathSeparators_def)
  ultimately show "mentions (normalizePathSeparators s) t" by simp
qed

lemma game_words_normalize:
  "lineContainsAny (lowerCase (normalizePathSeparators command))
      [''starcraft.exe'', ''brood war.exe'', ''broodwar.exe'']
   = lineContainsAny (lowerCase command) [''starcraft.exe'', ''brood war.exe'', ''broodwar.exe'']"
  unfolding lowerCase_normalize by (simp add: lineContainsAny_def mentions_normalize_plain)

lemma categorize_game_iff:
  assumes "\<not> quoted_path (ri_executablePath i)"
  shows "categorizeProcessCommand i command = ''starcraft-game'' \<longleftrightarrow>
    (let c = normalizePathSeparators command; exe = normalizePathSeparators (ri_executablePath i);
         root = normalizePathSeparators (ri_installRoot i)
     in trimmedCommandStartsWithPath (trimLeft c) exe
        \<or> trimmedCommandStartsWithPath (trimLeft c) ''StarCraft.app/Contents/MacOS/StarCraft''
        \<or> ri_product i = StarCraftBroodWar1161 \<and>
          (commandMentionsPath c exe
           \<or> lineContainsAny (lowerCase c) [''starcraft.exe'', ''brood war.exe'', ''broodwar.exe'']
             \<and> commandMentionsPath c root))"
proof -
  have app: "normalizePathSeparators ''StarCraft.app/Contents/MacOS/StarCraft''
      = ''StarCraft.app/Contents/MacOS/StarCraft''"
    "\<not> quoted_path ''StarCraft.app/Contents/MacOS/StarCraft''"
    by (simp_all add: normalizePathSeparators_def quoted_path_def)
  have mention: "commandMentionsPath (normalizePathSeparators c) (normalizePathSeparators p)
      = commandMentionsPath c p" for c p
    by (simp add: commandMentionsPath_iff)
  show ?thesis
    by (auto simp: categorizeProcessCommand_def Let_def mention game_words_normalize
        commandStartsWithPath_iff [OF assms] commandStartsWithPath_iff [OF app(2)] app(1)
        normalize_trimLeft)
qed

end
