(* ===== verification/Session_Summary.thy ===== *)
theory Session_Summary
  imports Process_Evidence "HOL-Library.Multiset" "HOL-Library.Product_Lexorder"
begin

text \<open>
  What the log files say about the game's sessions (\<open>RuntimeInstallation.cpp\<close>): support errors
  and session events collected from the newest log files, put in order of time, bounded to the
  newest ones, and the events folded into a summary that pairs every session start with the stop
  that follows it. \<open>collectRuntimeLogFiles\<close> reads directories: its result is the argument
  \<open>files\<close>, the path of each file, newest first, with its lines, \<open>None\<close> for a file that cannot be
  opened. The comparison functions given to \<open>std::stable_sort\<close> order by a key; \<open>sort_key\<close> is a
  stable sort by that key. Counters and process identifiers are mathematical integers: a line
  whose digits after \<open>pid:\<close> exceed an \<open>int\<close> overflows in the source.
\<close>

section \<open>Lines in order of time\<close>

record 'a timestamped =
  ts_item :: 'a
  ts_timestamp :: string
  ts_milliseconds :: int
  ts_index :: nat
  ts_hasTimestamp :: bool

definition stamped :: "nat \<Rightarrow> 'a \<Rightarrow> string \<Rightarrow> 'a timestamped" where
  "stamped i item line =
     (case parseLogTimestampMilliseconds line of
        None \<Rightarrow> \<lparr>ts_item = item, ts_timestamp = [], ts_milliseconds = 0, ts_index = i, ts_hasTimestamp = False\<rparr>
      | Some (timestamp, milliseconds) \<Rightarrow>
          \<lparr>ts_item = item, ts_timestamp = timestamp, ts_milliseconds = milliseconds, ts_index = i,
            ts_hasTimestamp = True\<rparr>)"

definition stamp_all :: "('a \<Rightarrow> string) \<Rightarrow> 'a list \<Rightarrow> 'a timestamped list" where
  "stamp_all line items = map2 (\<lambda>i item. stamped i item (line item)) [0..<length items] items"

definition all_timestamped :: "'a timestamped list \<Rightarrow> bool" where
  "all_timestamped es \<longleftrightarrow> list_all ts_hasTimestamp es"

definition time_key :: "'a timestamped \<Rightarrow> int \<times> nat" where
  "time_key e = (ts_milliseconds e, ts_index e)"

definition oldest_first :: "'a timestamped list \<Rightarrow> 'a timestamped list" where
  "oldest_first es = sort_key time_key es"

definition newest_first :: "'a timestamped list \<Rightarrow> 'a timestamped list" where
  "newest_first es = sort_key (\<lambda>e. (- ts_milliseconds e, - int (ts_index e))) es"

definition file_order :: "'a timestamped list \<Rightarrow> 'a timestamped list" where
  "file_order es = sort_key ts_index es"

text \<open>The lines of the first \<open>maxFiles\<close> files, cleaned, each with its path.\<close>

definition log_lines :: "(string \<times> string list option) list \<Rightarrow> nat \<Rightarrow> (string \<times> string) list" where
  "log_lines files maxFiles =
     concat (map (\<lambda>(path, content). case content of None \<Rightarrow> []
       | Some lines \<Rightarrow> map (\<lambda>line. (path, sanitizeEvidenceValue line)) lines) (take maxFiles files))"

section \<open>Support errors\<close>

record support_error =
  sup_path :: string
  sup_code :: string
  sup_url :: string
  sup_line :: string

definition support_error_of :: "string \<times> string \<Rightarrow> support_error option" where
  "support_error_of entry =
     (let (path, line) = entry; supportCode = extractBattleNetSupportCode line
      in if supportCode = [] then None
         else Some \<lparr>sup_path = path, sup_code = supportCode, sup_url = extractSupportUrl line supportCode,
           sup_line = line\<rparr>)"

definition collectRuntimeSupportErrors ::
  "(string \<times> string list option) list \<Rightarrow> nat \<Rightarrow> nat \<Rightarrow> support_error list" where
  "collectRuntimeSupportErrors files maxFiles maxErrors =
     (let collected = stamp_all sup_line (List.map_filter support_error_of (log_lines files maxFiles));
          ordered = (if all_timestamped collected then oldest_first collected else file_order collected)
      in map ts_item (drop (length ordered - maxErrors) ordered))"

definition latestRuntimeSupportError :: "support_error list \<Rightarrow> support_error option" where
  "latestRuntimeSupportError errors = (if errors = [] then None else Some (last errors))"

section \<open>Session events\<close>

record session_event =
  se_path :: string
  se_category :: string
  se_line :: string

definition mentionsStarCraft :: "runtime_installation \<Rightarrow> string \<Rightarrow> bool" where
  "mentionsStarCraft installation line \<longleftrightarrow>
     mentions line ''uid=s1'' \<or> mentions line ''agentUid=s1'' \<or> mentions line ''InstallState (s1)''
     \<or> mentions line ''Game is running: s1'' \<or> mentions line ''Game is no longer running: s1''
     \<or> lineContainsAny line [''LaunchBinary: uid=s1'', ri_appBundlePath installation,
          ri_executablePath installation]"

definition categorizeSessionLogLine :: "runtime_installation \<Rightarrow> string \<Rightarrow> string" where
  "categorizeSessionLogLine installation line =
     (if \<not> mentionsStarCraft installation line then []
      else if mentions line ''Launched '' \<and> mentions line ''pid:''
        \<and> lineContainsAny line [ri_appBundlePath installation, ri_executablePath installation,
            ri_installRoot installation]
      then ''starcraft-launch-process''
      else if mentions line ''Game is running: s1''
        \<or> mentions line ''Setting Process Running: true uid=s1'' \<or> mentions line ''opStatus=On''
      then ''starcraft-session-started''
      else if mentions line ''Game is no longer running: s1''
        \<or> mentions line ''Setting Process Running: false uid=s1'' \<or> mentions line ''opStatus=Off''
      then ''starcraft-session-ended''
      else if mentions line ''Pre-existing game session detected''
      then ''starcraft-session-preexisting''
      else if mentions line ''InstallState (s1)''
      then ''starcraft-install-state''
      else ''starcraft-session-related'')"

definition session_event_of :: "runtime_installation \<Rightarrow> string \<times> string \<Rightarrow> session_event option" where
  "session_event_of installation entry =
     (let (path, line) = entry; category = categorizeSessionLogLine installation line
      in if category = [] then None
         else Some \<lparr>se_path = path, se_category = category, se_line = line\<rparr>)"

definition logged_events ::
  "runtime_installation \<Rightarrow> (string \<times> string list option) list \<Rightarrow> nat \<Rightarrow> session_event list" where
  "logged_events installation files maxFiles =
     List.map_filter (session_event_of installation) (log_lines files maxFiles)"

definition collectRuntimeSessionEvents ::
  "runtime_installation \<Rightarrow> (string \<times> string list option) list \<Rightarrow> nat \<Rightarrow> nat \<Rightarrow> session_event list" where
  "collectRuntimeSessionEvents installation files maxFiles maxEvents =
     (let collected = stamp_all se_line (logged_events installation files maxFiles);
          timed = all_timestamped collected;
          kept = (if length collected > maxEvents
             then (if timed then take maxEvents (newest_first collected) else take maxEvents collected)
             else collected)
      in map ts_item (if timed then oldest_first kept else file_order kept))"

section \<open>The summary\<close>

record session_transition =
  st_complete :: bool
  st_durationMilliseconds :: int
  st_startTimestamp :: string
  st_endTimestamp :: string
  st_startPath :: string
  st_endPath :: string
  st_startLine :: string
  st_endLine :: string
  st_reason :: string

record session_summary =
  sm_startedEventCount :: int
  sm_endedEventCount :: int
  sm_preexistingEventCount :: int
  sm_installStateEventCount :: int
  sm_launchProcessEventCount :: int
  sm_latestLaunchProcessId :: int
  sm_relatedEventCount :: int
  sm_completeTransitionCount :: int
  sm_incompleteTransitionCount :: int
  sm_shortestDurationMilliseconds :: int
  sm_longestDurationMilliseconds :: int
  sm_latestTransitionDurationMilliseconds :: int
  sm_latestTransitionStartTimestamp :: string
  sm_latestTransitionEndTimestamp :: string
  sm_latestObservedTimestamp :: string
  sm_latestState :: string
  sm_latestReason :: string
  sm_transitions :: "session_transition list"

definition empty_summary :: session_summary where
  "empty_summary =
     \<lparr>sm_startedEventCount = 0, sm_endedEventCount = 0, sm_preexistingEventCount = 0,
       sm_installStateEventCount = 0, sm_launchProcessEventCount = 0, sm_latestLaunchProcessId = 0,
       sm_relatedEventCount = 0, sm_completeTransitionCount = 0, sm_incompleteTransitionCount = 0,
       sm_shortestDurationMilliseconds = -1, sm_longestDurationMilliseconds = -1,
       sm_latestTransitionDurationMilliseconds = -1, sm_latestTransitionStartTimestamp = [],
       sm_latestTransitionEndTimestamp = [], sm_latestObservedTimestamp = [], sm_latestState = [],
       sm_latestReason = [], sm_transitions = []\<rparr>"

definition empty_transition :: session_transition where
  "empty_transition =
     \<lparr>st_complete = False, st_durationMilliseconds = -1, st_startTimestamp = [], st_endTimestamp = [],
       st_startPath = [], st_endPath = [], st_startLine = [], st_endLine = [], st_reason = []\<rparr>"

text \<open>The start that has no stop yet: the local variables \<open>openStart\<close> and its companions.\<close>

record open_start =
  os_event :: session_event
  os_timestamp :: string
  os_milliseconds :: int
  os_hasTimestamp :: bool

type_synonym summary_state = "session_summary \<times> open_start option"

definition max_int :: int where
  "max_int = 2147483647"

definition updateSessionDurationRange :: "session_summary \<Rightarrow> int \<Rightarrow> session_summary" where
  "updateSessionDurationRange s d =
     (if d < 0 then s
      else s\<lparr>sm_shortestDurationMilliseconds :=
               (if sm_shortestDurationMilliseconds s < 0 \<or> d < sm_shortestDurationMilliseconds s
                then d else sm_shortestDurationMilliseconds s),
             sm_longestDurationMilliseconds :=
               (if sm_longestDurationMilliseconds s < 0 \<or> d > sm_longestDurationMilliseconds s
                then d else sm_longestDurationMilliseconds s),
             sm_latestTransitionDurationMilliseconds := d\<rparr>)"

definition clamped_duration :: "int \<Rightarrow> int" where
  "clamped_duration d = (let d = (if d < 0 then 0 else d) in if d > max_int then max_int else d)"

definition timestampDeltaMilliseconds :: "string \<Rightarrow> string \<Rightarrow> int" where
  "timestampDeltaMilliseconds earlierTimestamp laterTimestamp =
     (case (parseLogTimestampMilliseconds earlierTimestamp, parseLogTimestampMilliseconds laterTimestamp) of
        (Some (_, earlier), Some (_, later)) \<Rightarrow> clamped_duration (later - earlier)
      | _ \<Rightarrow> -1)"

text \<open>
  The digits are read into an \<open>int\<close>: each step stays in 32 bits. Where the C++ multiplication
  overflows, which the language leaves undefined, the value here wraps around.
\<close>

definition parseIntegerAfterMarker :: "string \<Rightarrow> string \<Rightarrow> int" where
  "parseIntegerAfterMarker line marker =
     (case str_find marker line of None \<Rightarrow> 0
      | Some markerOffset \<Rightarrow>
          foldl (\<lambda>r ch. sint (word_of_int (r * 10 + digit_of ch) :: 32 word)) 0
            (takeWhile isDigit
              (dropWhile (\<lambda>ch. ch = CHR '' '') (drop (markerOffset + length marker) line))))"

definition latest :: "string \<Rightarrow> string \<Rightarrow> session_summary \<Rightarrow> session_summary" where
  "latest state reason s = s\<lparr>sm_latestState := state, sm_latestReason := reason\<rparr>"

definition on_started :: "session_event timestamped \<Rightarrow> summary_state \<Rightarrow> summary_state" where
  "on_started e st =
     (let (s, os) = st
      in (latest ''running'' ''latest StarCraft s1 event reports a running session''
            (s\<lparr>sm_startedEventCount := sm_startedEventCount s + 1\<rparr>),
          case os of Some start \<Rightarrow> Some start
          | None \<Rightarrow> Some \<lparr>os_event = ts_item e, os_timestamp = ts_timestamp e,
              os_milliseconds = ts_milliseconds e, os_hasTimestamp = ts_hasTimestamp e\<rparr>))"

definition closed_transition :: "open_start \<Rightarrow> session_event timestamped \<Rightarrow> session_transition" where
  "closed_transition start e =
     (let t = empty_transition\<lparr>st_complete := True, st_startPath := se_path (os_event start),
            st_endPath := se_path (ts_item e), st_startLine := se_line (os_event start),
            st_endLine := se_line (ts_item e), st_startTimestamp := os_timestamp start,
            st_endTimestamp := ts_timestamp e\<rparr>;
          duration = clamped_duration (ts_milliseconds e - os_milliseconds start)
      in if os_hasTimestamp start \<and> ts_hasTimestamp e
         then t\<lparr>st_durationMilliseconds := duration,
           st_reason := ''StarCraft s1 session ended after '' @ int_to_dec duration @ '' ms''\<rparr>
         else t\<lparr>st_reason := ''StarCraft s1 session ended; timestamp unavailable''\<rparr>)"

definition add_closed :: "session_transition \<Rightarrow> bool \<Rightarrow> session_summary \<Rightarrow> session_summary" where
  "add_closed t timed s =
     (let s = (if timed
            then (updateSessionDurationRange s (st_durationMilliseconds t))
              \<lparr>sm_latestTransitionStartTimestamp := st_startTimestamp t,
               sm_latestTransitionEndTimestamp := st_endTimestamp t\<rparr>
            else s)
      in s\<lparr>sm_completeTransitionCount := sm_completeTransitionCount s + 1,
           sm_transitions := sm_transitions s @ [t]\<rparr>)"

definition on_ended :: "session_event timestamped \<Rightarrow> summary_state \<Rightarrow> summary_state" where
  "on_ended e st =
     (let (s, os) = st;
          s = latest ''stopped'' ''latest StarCraft s1 event reports a stopped session''
            (s\<lparr>sm_endedEventCount := sm_endedEventCount s + 1\<rparr>)
      in case os of None \<Rightarrow> (s, None)
         | Some start \<Rightarrow>
             (add_closed (closed_transition start e) (os_hasTimestamp start \<and> ts_hasTimestamp e) s, None))"

definition on_preexisting :: "session_summary \<Rightarrow> session_summary" where
  "on_preexisting s =
     latest ''preexisting'' ''Battle.net reported a pre-existing StarCraft s1 session''
       (s\<lparr>sm_preexistingEventCount := sm_preexistingEventCount s + 1\<rparr>)"

definition on_install_state :: "session_event \<Rightarrow> session_summary \<Rightarrow> session_summary" where
  "on_install_state event s =
     (let s = s\<lparr>sm_installStateEventCount := sm_installStateEventCount s + 1\<rparr>
      in if lineContainsAny (se_line event) [''gameRunning=1'', ''isGameProcessRunning=1'']
         then latest ''running'' ''latest StarCraft s1 install state reports a running game process'' s
         else if lineContainsAny (se_line event) [''gameRunning=0'', ''isGameProcessRunning=0'']
         then latest ''stopped'' ''latest StarCraft s1 install state reports no running game process'' s
         else latest ''handoff''
           ''latest StarCraft s1 install state is a Battle.net handoff/update, not a running game session'' s)"

definition on_launch_process :: "session_event \<Rightarrow> session_summary \<Rightarrow> session_summary" where
  "on_launch_process event s =
     (let s = s\<lparr>sm_launchProcessEventCount := sm_launchProcessEventCount s + 1\<rparr>;
          processId = parseIntegerAfterMarker (se_line event) ''pid:'';
          s = (if processId > 0 then s\<lparr>sm_latestLaunchProcessId := processId\<rparr> else s)
      in latest ''launch-process''
           ''latest StarCraft s1 event reports a launch process, but no running session is confirmed'' s)"

definition on_related :: "session_summary \<Rightarrow> session_summary" where
  "on_related s =
     latest ''handoff''
       ''latest StarCraft s1 event is a Battle.net handoff/update, not a running game session''
       (s\<lparr>sm_relatedEventCount := sm_relatedEventCount s + 1\<rparr>)"

definition observe :: "session_event timestamped \<Rightarrow> session_summary \<Rightarrow> session_summary" where
  "observe e s = (if ts_hasTimestamp e then s\<lparr>sm_latestObservedTimestamp := ts_timestamp e\<rparr> else s)"

definition summary_step :: "summary_state \<Rightarrow> session_event timestamped \<Rightarrow> summary_state" where
  "summary_step st e =
     (let (s, os) = st; s = observe e s; event = ts_item e; category = se_category event
      in if category = ''starcraft-session-started'' then on_started e (s, os)
         else if category = ''starcraft-session-ended'' then on_ended e (s, os)
         else if category = ''starcraft-session-preexisting'' then (on_preexisting s, os)
         else if category = ''starcraft-install-state'' then (on_install_state event s, os)
         else if category = ''starcraft-launch-process'' then (on_launch_process event s, os)
         else (on_related s, os))"

definition open_transition :: "open_start \<Rightarrow> session_transition" where
  "open_transition start =
     empty_transition\<lparr>st_startPath := se_path (os_event start), st_startLine := se_line (os_event start),
       st_startTimestamp := os_timestamp start,
       st_reason := ''StarCraft s1 session start has no matching stop event in collected logs''\<rparr>"

definition close_summary :: "summary_state \<Rightarrow> session_summary" where
  "close_summary st =
     (let (s, os) = st;
          s = (case os of None \<Rightarrow> s
             | Some start \<Rightarrow>
                 let t = open_transition start
                 in latest ''running'' (st_reason t)
                      (s\<lparr>sm_incompleteTransitionCount := sm_incompleteTransitionCount s + 1,
                         sm_transitions := sm_transitions s @ [t]\<rparr>))
      in if sm_latestState s = []
         then latest ''unknown'' ''no StarCraft s1 session start/stop events were collected'' s
         else s)"

definition ordered_events :: "session_event list \<Rightarrow> session_event timestamped list" where
  "ordered_events events =
     (let es = stamp_all se_line events in if all_timestamped es then oldest_first es else es)"

definition summarizeRuntimeSessionEvents :: "session_event list \<Rightarrow> session_summary" where
  "summarizeRuntimeSessionEvents events =
     close_summary (foldl summary_step (empty_summary, None) (ordered_events events))"

end
