(* ===== verification/Session_Facts.thy ===== *)
theory Session_Facts
  imports Session_Summary
begin

text \<open>
  The facts about collected and summarised sessions: sorting by time is unique once the stamps are
  distinct, so that neither the bound on the number of events nor the order in which they were read
  hides the newest ones; the counters count; the transitions are the starts paired with the stops
  that follow them; and the durations are the extremes of the timed transitions.
\<close>

section \<open>Order\<close>

lemma stamped_item [simp]: "ts_item (stamped i item line) = item"
  by (simp add: stamped_def split: option.split)

lemma stamped_index [simp]: "ts_index (stamped i item line) = i"
  by (simp add: stamped_def split: option.split)

lemma stamp_all_items [simp]: "map ts_item (stamp_all line items) = items"
  by (intro nth_equalityI) (simp_all add: stamp_all_def)

lemma stamp_all_indices [simp]: "map ts_index (stamp_all line items) = [0..<length items]"
  by (intro nth_equalityI) (simp_all add: stamp_all_def)

lemma length_stamp_all [simp]: "length (stamp_all line items) = length items"
  by (simp add: stamp_all_def)

lemma inj_on_index_stamp_all: "inj_on ts_index (set (stamp_all line items))" "distinct (stamp_all line items)"
proof -
  have "distinct (map ts_index (stamp_all line items))" by simp
  then show "inj_on ts_index (set (stamp_all line items))" "distinct (stamp_all line items)"
    by (simp_all only: distinct_map)
qed

lemma inj_on_time_key: "inj_on ts_index A \<Longrightarrow> inj_on time_key A"
  by (auto simp: inj_on_def time_key_def)

lemma mset_oldest_first [simp]: "mset (oldest_first es) = mset es"
  by (simp add: oldest_first_def)

lemma set_oldest_first [simp]: "set (oldest_first es) = set es"
  by (simp add: oldest_first_def)

lemma length_oldest_first [simp]: "length (oldest_first es) = length es"
  by (simp add: oldest_first_def)

lemma sorted_oldest_first: "sorted (map time_key (oldest_first es))"
  by (simp add: oldest_first_def)

lemma oldest_first_eq:
  "inj_on time_key (set xs) \<Longrightarrow> mset xs = mset ys \<Longrightarrow> sorted (map time_key ys) \<Longrightarrow> oldest_first xs = ys"
  unfolding oldest_first_def by (rule sort_key_inj_key_eq) auto

lemma newest_first_rev:
  assumes "inj_on time_key (set es)"
  shows "newest_first es = rev (oldest_first es)"
  unfolding newest_first_def
proof (rule sort_key_inj_key_eq)
  show "inj_on (\<lambda>e. (- ts_milliseconds e, - int (ts_index e))) (set es)"
    using assms by (auto simp: inj_on_def time_key_def)
  have "sorted_wrt (\<lambda>x y. time_key x \<le> time_key y) (oldest_first es)"
    using sorted_oldest_first [of es] by (simp add: sorted_map)
  then have "sorted_wrt (\<lambda>x y. (- ts_milliseconds x, - int (ts_index x)) \<le> (- ts_milliseconds y, - int (ts_index y)))
      (rev (oldest_first es))"
    by (simp add: sorted_wrt_rev time_key_def less_eq_prod_def)
  then show "sorted (map (\<lambda>e. (- ts_milliseconds e, - int (ts_index e))) (rev (oldest_first es)))"
    by (simp add: sorted_map)
qed simp

lemma oldest_first_sorted:
  "inj_on time_key (set xs) \<Longrightarrow> sorted (map time_key xs) \<Longrightarrow> oldest_first xs = xs"
  by (rule oldest_first_eq) auto

lemma oldest_of_newest:
  assumes "inj_on time_key (set es)"
  shows "oldest_first (take k (newest_first es)) = drop (length es - k) (oldest_first es)"
proof (rule oldest_first_eq)
  have t: "take k (newest_first es) = rev (drop (length es - k) (oldest_first es))"
    by (simp add: newest_first_rev [OF assms] take_rev)
  then show "mset (take k (newest_first es)) = mset (drop (length es - k) (oldest_first es))" by simp
  show "inj_on time_key (set (take k (newest_first es)))"
    using assms by (rule inj_on_subset) (auto simp: t dest: in_set_dropD)
  show "sorted (map time_key (drop (length es - k) (oldest_first es)))"
    using sorted_oldest_first [of es] by (simp add: sorted_wrt_drop flip: drop_map)
qed

lemma collect_newest:
  assumes "all_timestamped (stamp_all se_line (logged_events i files n))"
  shows "collectRuntimeSessionEvents i files n k
    = (let es = stamp_all se_line (logged_events i files n)
       in map ts_item (drop (length es - k) (oldest_first es)))"
proof -
  let ?es = "stamp_all se_line (logged_events i files n)"
  have "inj_on time_key (set ?es)" by (rule inj_on_time_key) (rule inj_on_index_stamp_all)
  then show ?thesis
    using assms oldest_of_newest [of ?es k]
    by (auto simp: collectRuntimeSessionEvents_def Let_def)
qed

definition event_time :: "session_event \<Rightarrow> int" where
  "event_time e = (case parseLogTimestampMilliseconds (se_line e) of None \<Rightarrow> 0 | Some (_, ms) \<Rightarrow> ms)"

lemma stamp_all_nth: "k < length items \<Longrightarrow> stamp_all line items ! k = stamped k (items ! k) (line (items ! k))"
  by (simp add: stamp_all_def)

lemma stamp_all_memD: "x \<in> set (stamp_all line items) \<Longrightarrow> \<exists>k item. item \<in> set items \<and> x = stamped k item (line item)"
  by (metis in_set_conv_nth length_stamp_all stamp_all_nth)

lemma stamped_hasTimestamp:
  "ts_hasTimestamp (stamped k x l) \<longleftrightarrow> parseLogTimestampMilliseconds l \<noteq> None"
  by (simp add: stamped_def split: option.split)

lemma stamped_event_time: "ts_milliseconds (stamped k e (se_line e)) = event_time e"
  by (simp add: stamped_def event_time_def split: option.split)

lemma event_time_item: "x \<in> set (stamp_all se_line events) \<Longrightarrow> event_time (ts_item x) = ts_milliseconds x"
  using stamp_all_memD [of x se_line events] stamped_event_time by fastforce

lemma all_timestamped_stamp_all:
  "all_timestamped (stamp_all line items) \<longleftrightarrow> (\<forall>x\<in>set items. parseLogTimestampMilliseconds (line x) \<noteq> None)"
  by (auto simp: all_timestamped_def list_all_iff stamp_all_nth all_set_conv_all_nth stamped_hasTimestamp)

lemma oldest_first_times:
  "sorted (map event_time (map ts_item (oldest_first (stamp_all se_line events))))"
proof -
  let ?es = "oldest_first (stamp_all se_line events)"
  have "map event_time (map ts_item ?es) = map ts_milliseconds ?es"
    using event_time_item by simp
  moreover have "sorted_wrt (\<lambda>x y. time_key x \<le> time_key y) ?es"
    using sorted_oldest_first [of "stamp_all se_line events"] by (simp add: sorted_map)
  then have "sorted_wrt (\<lambda>x y. ts_milliseconds x \<le> ts_milliseconds y) ?es"
    by (rule sorted_wrt_mono_rel [rotated]) (auto simp: time_key_def less_eq_prod_def)
  ultimately show ?thesis by (simp add: sorted_map del: map_map)
qed

lemma collect_splits:
  fixes k :: nat
  assumes "\<forall>e\<in>set (logged_events i files n). parseLogTimestampMilliseconds (se_line e) \<noteq> None"
  defines "all \<equiv> logged_events i files n" and "kept \<equiv> collectRuntimeSessionEvents i files n k"
  shows "\<exists>older. mset (older @ kept) = mset all \<and> length kept = min k (length all)
    \<and> sorted (map event_time (older @ kept))"
proof -
  let ?ordered = "map ts_item (oldest_first (stamp_all se_line all))"
  have kept: "kept = drop (length all - k) ?ordered"
    unfolding kept_def all_def using assms(1)
    by (subst collect_newest) (simp_all add: all_timestamped_stamp_all Let_def drop_map)
  have "mset ?ordered = mset (map ts_item (stamp_all se_line all))"
    by (simp only: mset_map mset_oldest_first)
  then have "mset (take (length all - k) ?ordered @ kept) = mset all"
    unfolding kept append_take_drop_id by (simp only: stamp_all_items)
  moreover have "length kept = min k (length all)" unfolding kept by auto
  moreover have "sorted (map event_time (take (length all - k) ?ordered @ kept))"
    unfolding kept append_take_drop_id by (rule oldest_first_times)
  ultimately show ?thesis by blast
qed

text \<open>The indices only break ties: with distinct times the order is that of the times alone.\<close>

definition unindexed :: "'a timestamped \<Rightarrow> 'a timestamped" where
  "unindexed e = e\<lparr>ts_index := 0\<rparr>"

lemma unindexed_stamped [simp]: "unindexed (stamped i item line) = stamped 0 item line"
  by (simp add: unindexed_def stamped_def split: option.split)

lemma map_unindexed_stamp_all: "map unindexed (stamp_all line items) = map (\<lambda>x. stamped 0 x (line x)) items"
  by (intro nth_equalityI) (simp_all add: stamp_all_def)

definition distinct_times :: "('a \<Rightarrow> string) \<Rightarrow> 'a list \<Rightarrow> bool" where
  "distinct_times line items \<longleftrightarrow>
     list_all (\<lambda>x. parseLogTimestampMilliseconds (line x) \<noteq> None) items
     \<and> distinct (map (\<lambda>x. map_option snd (parseLogTimestampMilliseconds (line x))) items)"

lemma stamped_ms: "parseLogTimestampMilliseconds line = Some (t, ms) \<Longrightarrow>
    stamped i x line = \<lparr>ts_item = x, ts_timestamp = t, ts_milliseconds = ms, ts_index = i, ts_hasTimestamp = True\<rparr>"
  by (simp add: stamped_def)

lemma ordered_events_perm:
  assumes mset: "mset xs = mset ys" and dist: "distinct_times se_line xs"
  shows "map unindexed (ordered_events xs) = map unindexed (ordered_events ys)"
proof -
  let ?u = "\<lambda>x. stamped 0 x (se_line x)"
  have dist': "distinct_times se_line ys"
  proof -
    have "set xs = set ys" using mset by (rule mset_eq_setD)
    moreover have "distinct (map f xs) = distinct (map f ys)" for f :: "session_event \<Rightarrow> int option"
      using mset by (intro mset_eq_imp_distinct_iff) simp
    ultimately show ?thesis using dist by (simp add: distinct_times_def list_all_iff)
  qed
  have one: "map unindexed (ordered_events zs) = sort_key ts_milliseconds (map ?u zs)"
    and inj: "inj_on ts_milliseconds (set (map ?u zs))"
    if d: "distinct_times se_line zs" for zs
  proof -
    have timed: "\<exists>t ms. parseLogTimestampMilliseconds (se_line x) = Some (t, ms)" if "x \<in> set zs" for x
    proof -
      have "parseLogTimestampMilliseconds (se_line x) \<noteq> None"
        using d that by (simp add: distinct_times_def list_all_iff)
      then show ?thesis by auto
    qed
    have "all_timestamped (stamp_all se_line zs)"
    proof -
      have "map ts_hasTimestamp (stamp_all se_line zs) = map ts_hasTimestamp (map unindexed (stamp_all se_line zs))"
        by (simp add: unindexed_def)
      also have "\<dots> = map (\<lambda>_. True) zs"
        unfolding map_unindexed_stamp_all map_map using timed by (force simp: stamped_ms)
      finally have "set (map ts_hasTimestamp (stamp_all se_line zs)) \<subseteq> {True}" by auto
      then show ?thesis by (auto simp: all_timestamped_def list_all_iff)
    qed
    then have ord: "ordered_events zs = oldest_first (stamp_all se_line zs)"
      by (simp add: ordered_events_def)
    show inj: "inj_on ts_milliseconds (set (map ?u zs))"
    proof (rule inj_onI)
      fix a b
      assume "a \<in> set (map ?u zs)" "b \<in> set (map ?u zs)" and ms: "ts_milliseconds a = ts_milliseconds b"
      then obtain x y where xy: "x \<in> set zs" "a = ?u x" "y \<in> set zs" "b = ?u y" by auto
      obtain t m where x: "parseLogTimestampMilliseconds (se_line x) = Some (t, m)" using timed xy by blast
      obtain t' m' where y: "parseLogTimestampMilliseconds (se_line y) = Some (t', m')" using timed xy by blast
      have "m = m'" using ms unfolding xy by (simp add: stamped_ms [OF x] stamped_ms [OF y])
      moreover have inj: "inj_on (\<lambda>x. map_option snd (parseLogTimestampMilliseconds (se_line x))) (set zs)"
        using d by (simp add: distinct_times_def distinct_map)
      ultimately have "x = y" using inj_onD [OF inj, of x y] xy x y by simp
      then show "a = b" using xy by simp
    qed
    have "sort_key ts_milliseconds (map ?u zs) = map unindexed (oldest_first (stamp_all se_line zs))"
    proof (rule sort_key_inj_key_eq [OF _ inj])
      show "mset (map ?u zs) = mset (map unindexed (oldest_first (stamp_all se_line zs)))"
        by (metis map_unindexed_stamp_all mset_map mset_oldest_first)
      have "sorted_wrt (\<lambda>x y. time_key x \<le> time_key y) (oldest_first (stamp_all se_line zs))"
        using sorted_oldest_first [of "stamp_all se_line zs"] by (simp add: sorted_map)
      then have "sorted_wrt (\<lambda>x y. ts_milliseconds x \<le> ts_milliseconds y) (oldest_first (stamp_all se_line zs))"
        by (rule sorted_wrt_mono_rel [rotated]) (auto simp: time_key_def less_eq_prod_def)
      then show "sorted (map ts_milliseconds (map unindexed (oldest_first (stamp_all se_line zs))))"
        by (simp add: sorted_map unindexed_def sorted_wrt_map comp_def)
    qed
    then show "map unindexed (ordered_events zs) = sort_key ts_milliseconds (map ?u zs)"
      using ord by simp
  qed
  have "sort_key ts_milliseconds (map ?u xs) = sort_key ts_milliseconds (map ?u ys)"
    by (rule sort_key_inj_key_eq) (use inj [OF dist] mset in auto)
  then show ?thesis using one [OF dist] one [OF dist'] by simp
qed

section \<open>One step\<close>

lemma handlers_unindexed [simp]:
  "on_started (unindexed e) st = on_started e st" "on_ended (unindexed e) st = on_ended e st"
  "observe (unindexed e) s = observe e s" "ts_item (unindexed e) = ts_item e"
  by (simp_all add: on_started_def on_ended_def closed_transition_def observe_def unindexed_def
      split_def Let_def cong: option.case_cong)

lemma summary_step_unindexed: "summary_step st (unindexed e) = summary_step st e"
  by (simp add: summary_step_def split_def Let_def)

lemma summary_steps_unindexed: "foldl summary_step st (map unindexed es) = foldl summary_step st es"
  by (induction es arbitrary: st) (simp_all add: summary_step_unindexed)

definition is_start :: "session_event timestamped \<Rightarrow> bool" where
  "is_start e \<longleftrightarrow> se_category (ts_item e) = ''starcraft-session-started''"

definition is_stop :: "session_event timestamped \<Rightarrow> bool" where
  "is_stop e \<longleftrightarrow> se_category (ts_item e) = ''starcraft-session-ended''"

definition opened :: "session_event timestamped \<Rightarrow> open_start" where
  "opened e = \<lparr>os_event = ts_item e, os_timestamp = ts_timestamp e, os_milliseconds = ts_milliseconds e,
     os_hasTimestamp = ts_hasTimestamp e\<rparr>"

lemma start_not_stop [simp]: "is_start e \<Longrightarrow> \<not> is_stop e"
  by (simp add: is_start_def is_stop_def)

lemma latest_sel [simp]:
  "sm_startedEventCount (latest a b s) = sm_startedEventCount s"
  "sm_endedEventCount (latest a b s) = sm_endedEventCount s"
  "sm_preexistingEventCount (latest a b s) = sm_preexistingEventCount s"
  "sm_installStateEventCount (latest a b s) = sm_installStateEventCount s"
  "sm_launchProcessEventCount (latest a b s) = sm_launchProcessEventCount s"
  "sm_relatedEventCount (latest a b s) = sm_relatedEventCount s"
  "sm_completeTransitionCount (latest a b s) = sm_completeTransitionCount s"
  "sm_incompleteTransitionCount (latest a b s) = sm_incompleteTransitionCount s"
  "sm_shortestDurationMilliseconds (latest a b s) = sm_shortestDurationMilliseconds s"
  "sm_longestDurationMilliseconds (latest a b s) = sm_longestDurationMilliseconds s"
  "sm_latestTransitionDurationMilliseconds (latest a b s) = sm_latestTransitionDurationMilliseconds s"
  "sm_transitions (latest a b s) = sm_transitions s"
  "sm_latestState (latest a b s) = a" "sm_latestReason (latest a b s) = b"
  by (simp_all add: latest_def)

lemma observe_sel [simp]:
  "sm_startedEventCount (observe e s) = sm_startedEventCount s"
  "sm_endedEventCount (observe e s) = sm_endedEventCount s"
  "sm_preexistingEventCount (observe e s) = sm_preexistingEventCount s"
  "sm_installStateEventCount (observe e s) = sm_installStateEventCount s"
  "sm_launchProcessEventCount (observe e s) = sm_launchProcessEventCount s"
  "sm_relatedEventCount (observe e s) = sm_relatedEventCount s"
  "sm_completeTransitionCount (observe e s) = sm_completeTransitionCount s"
  "sm_incompleteTransitionCount (observe e s) = sm_incompleteTransitionCount s"
  "sm_shortestDurationMilliseconds (observe e s) = sm_shortestDurationMilliseconds s"
  "sm_longestDurationMilliseconds (observe e s) = sm_longestDurationMilliseconds s"
  "sm_latestTransitionDurationMilliseconds (observe e s) = sm_latestTransitionDurationMilliseconds s"
  "sm_transitions (observe e s) = sm_transitions s"
  by (simp_all add: observe_def)

lemma update_range_sel [simp]:
  "sm_startedEventCount (updateSessionDurationRange s d) = sm_startedEventCount s"
  "sm_endedEventCount (updateSessionDurationRange s d) = sm_endedEventCount s"
  "sm_preexistingEventCount (updateSessionDurationRange s d) = sm_preexistingEventCount s"
  "sm_installStateEventCount (updateSessionDurationRange s d) = sm_installStateEventCount s"
  "sm_launchProcessEventCount (updateSessionDurationRange s d) = sm_launchProcessEventCount s"
  "sm_relatedEventCount (updateSessionDurationRange s d) = sm_relatedEventCount s"
  "sm_completeTransitionCount (updateSessionDurationRange s d) = sm_completeTransitionCount s"
  "sm_incompleteTransitionCount (updateSessionDurationRange s d) = sm_incompleteTransitionCount s"
  "sm_transitions (updateSessionDurationRange s d) = sm_transitions s"
  by (simp_all add: updateSessionDurationRange_def)

lemma add_closed_sel [simp]:
  "sm_startedEventCount (add_closed t b s) = sm_startedEventCount s"
  "sm_endedEventCount (add_closed t b s) = sm_endedEventCount s"
  "sm_preexistingEventCount (add_closed t b s) = sm_preexistingEventCount s"
  "sm_installStateEventCount (add_closed t b s) = sm_installStateEventCount s"
  "sm_launchProcessEventCount (add_closed t b s) = sm_launchProcessEventCount s"
  "sm_relatedEventCount (add_closed t b s) = sm_relatedEventCount s"
  "sm_completeTransitionCount (add_closed t b s) = sm_completeTransitionCount s + 1"
  "sm_incompleteTransitionCount (add_closed t b s) = sm_incompleteTransitionCount s"
  "sm_transitions (add_closed t b s) = sm_transitions s @ [t]"
  by (simp_all add: add_closed_def)

lemmas session_handlers = on_started_def on_ended_def on_preexisting_def on_install_state_def
  on_launch_process_def on_related_def Let_def

text \<open>The counters, one per category; any other category is counted as related.\<close>

definition counters :: "session_summary \<Rightarrow> int list" where
  "counters s = [sm_startedEventCount s, sm_endedEventCount s, sm_preexistingEventCount s,
     sm_installStateEventCount s, sm_launchProcessEventCount s, sm_relatedEventCount s]"

definition counted_categories :: "string list" where
  "counted_categories = [''starcraft-session-started'', ''starcraft-session-ended'',
     ''starcraft-session-preexisting'', ''starcraft-install-state'', ''starcraft-launch-process'']"

definition counter_slot :: "string \<Rightarrow> nat" where
  "counter_slot category =
     length (takeWhile (\<lambda>c. c \<noteq> category) counted_categories)"

lemma summary_step_counters:
  "counters (fst (summary_step st e))
     = (let k = counter_slot (se_category (ts_item e)); c = counters (fst st) in c[k := c ! k + 1])"
  by (cases st) (auto simp: summary_step_def session_handlers counters_def counter_slot_def
      counted_categories_def split: option.split)


section \<open>Starts paired with stops\<close>

lemma summary_step_open:
  "snd (summary_step (s, os) e) =
     (if is_start e then Some (case os of Some start \<Rightarrow> start | None \<Rightarrow> opened e)
      else if is_stop e then None else os)"
  by (auto simp: is_start_def is_stop_def summary_step_def on_started_def on_ended_def opened_def Let_def
      split: option.split)

lemma summary_step_transitions:
  "sm_transitions (fst (summary_step (s, os) e)) =
     sm_transitions s @ (case os of Some start \<Rightarrow> if is_stop e then [closed_transition start e] else []
       | None \<Rightarrow> [])"
  by (auto simp: is_stop_def summary_step_def session_handlers split: option.split)

lemma summary_step_transition_counts:
  "sm_completeTransitionCount (fst (summary_step (s, os) e)) =
     sm_completeTransitionCount s + (if os \<noteq> None \<and> is_stop e then 1 else 0)"
  "sm_incompleteTransitionCount (fst (summary_step (s, os) e)) = sm_incompleteTransitionCount s"
  by (auto simp: is_stop_def summary_step_def session_handlers split: option.split)

text \<open>
  What the transitions are meant to be: the first start and the first stop after it, then the same
  on the events after that stop; a start with no stop after it ends the list.
\<close>

function sessions :: "session_event timestamped list
    \<Rightarrow> (session_event timestamped \<times> session_event timestamped option) list" where
  "sessions es =
     (case dropWhile (\<lambda>e. \<not> is_start e) es of [] \<Rightarrow> []
      | start # rest \<Rightarrow>
         (case dropWhile (\<lambda>e. \<not> is_stop e) rest of [] \<Rightarrow> [(start, None)]
          | stop # later \<Rightarrow> (start, Some stop) # sessions later))"
  by pat_completeness auto
termination
proof (relation "measure length")
  fix es start rest stop later
  assume "dropWhile (\<lambda>e. \<not> is_start e) es = start # rest"
    and "dropWhile (\<lambda>e. \<not> is_stop e) rest = stop # later"
  then have "length (start # rest) \<le> length es" "length (stop # later) \<le> length rest"
    by (metis length_dropWhile_le)+
  then show "(later, es) \<in> measure length" by simp
qed simp

declare sessions.simps [simp del]

definition transition_of ::
  "session_event timestamped \<times> session_event timestamped option \<Rightarrow> session_transition" where
  "transition_of session =
     (case session of (start, None) \<Rightarrow> open_transition (opened start)
      | (start, Some stop) \<Rightarrow> closed_transition (opened start) stop)"

text \<open>The transitions still to come, with a start open or not.\<close>

definition remaining :: "open_start option \<Rightarrow> session_event timestamped list \<Rightarrow> session_transition list" where
  "remaining os es =
     (case os of None \<Rightarrow> map transition_of (sessions es)
      | Some start \<Rightarrow>
         (case dropWhile (\<lambda>e. \<not> is_stop e) es of [] \<Rightarrow> [open_transition start]
          | stop # later \<Rightarrow> closed_transition start stop # map transition_of (sessions later)))"

lemma remaining_Nil: "remaining os [] = (case os of None \<Rightarrow> [] | Some start \<Rightarrow> [open_transition start])"
  by (auto simp: remaining_def sessions.simps [of "[]"] split: option.split)

lemma remaining_Cons:
  "remaining os (e # es) =
     (case os of None \<Rightarrow> remaining (if is_start e then Some (opened e) else None) es
      | Some start \<Rightarrow> if is_stop e then closed_transition start e # remaining None es
          else remaining (Some start) es)"
  by (auto simp: remaining_def sessions.simps [of "e # es"] sessions.simps [of es] transition_of_def
      simp del: dropWhile_eq_Nil_conv split: option.split list.split)

lemma transitions_remaining:
  "sm_transitions (close_summary (foldl summary_step (s, os) es)) = sm_transitions s @ remaining os es"
proof (induction es arbitrary: s os)
  case Nil
  then show ?case by (auto simp: close_summary_def remaining_Nil Let_def split: option.split)
next
  case (Cons e es)
  obtain s1 os1 where step: "summary_step (s, os) e = (s1, os1)" by (cases "summary_step (s, os) e")
  have os1: "os1 = (if is_start e then Some (case os of Some start \<Rightarrow> start | None \<Rightarrow> opened e)
      else if is_stop e then None else os)"
    using summary_step_open [of s os e] step by simp
  have s1: "sm_transitions s1 = sm_transitions s @ (case os of
      Some start \<Rightarrow> if is_stop e then [closed_transition start e] else [] | None \<Rightarrow> [])"
    using summary_step_transitions [of s os e] step by simp
  have "sm_transitions (close_summary (foldl summary_step (s, os) (e # es)))
      = sm_transitions s1 @ remaining os1 es"
    using Cons.IH [of s1 os1] step by simp
  then show ?case
    by (cases os) (auto simp: s1 os1 remaining_Cons)
qed

lemma transition_counts:
  "foldl summary_step (s, os) es = (s', os') \<Longrightarrow>
     sm_completeTransitionCount s' - sm_completeTransitionCount s
       = int (length (sm_transitions s')) - int (length (sm_transitions s))
     \<and> sm_incompleteTransitionCount s' = sm_incompleteTransitionCount s"
proof (induction es arbitrary: s os)
  case (Cons e es)
  obtain s1 os1 where s1: "summary_step (s, os) e = (s1, os1)" by (cases "summary_step (s, os) e")
  have "sm_completeTransitionCount s1 - sm_completeTransitionCount s
      = int (length (sm_transitions s1)) - int (length (sm_transitions s))"
    "sm_incompleteTransitionCount s1 = sm_incompleteTransitionCount s"
    using summary_step_transition_counts [of s os e] summary_step_transitions [of s os e]
    by (auto simp: s1 split: option.splits if_splits)
  then show ?case using Cons.IH [of s1 os1] Cons.prems s1 by simp
qed simp

section \<open>Durations\<close>

definition durations :: "session_summary \<Rightarrow> int list" where
  "durations s = filter (\<lambda>d. d \<ge> 0) (map st_durationMilliseconds (sm_transitions s))"

definition range_ok :: "session_summary \<Rightarrow> bool" where
  "range_ok s \<longleftrightarrow> (let ds = durations s in
     sm_shortestDurationMilliseconds s = (if ds = [] then -1 else Min (set ds))
     \<and> sm_longestDurationMilliseconds s = (if ds = [] then -1 else Max (set ds))
     \<and> sm_latestTransitionDurationMilliseconds s = (if ds = [] then -1 else last ds)
     \<and> list_all (\<lambda>d. d \<le> max_int) ds)"

lemma clamped_duration_range: "0 \<le> clamped_duration d \<and> clamped_duration d \<le> max_int"
  by (simp add: clamped_duration_def max_int_def)

lemma closed_transition_duration:
  "st_durationMilliseconds (closed_transition start e) =
     (if os_hasTimestamp start \<and> ts_hasTimestamp e
      then clamped_duration (ts_milliseconds e - os_milliseconds start) else -1)"
  "st_complete (closed_transition start e)"
  by (simp_all add: closed_transition_def empty_transition_def Let_def)

lemma durations_nonneg: "d \<in> set (durations s) \<Longrightarrow> d \<ge> 0"
  by (simp add: durations_def)

lemma range_ok_signs:
  assumes "range_ok s" "durations s \<noteq> []"
  shows "sm_shortestDurationMilliseconds s = Min (set (durations s))"
    "sm_longestDurationMilliseconds s = Max (set (durations s))"
    "Min (set (durations s)) \<ge> 0" "Max (set (durations s)) \<ge> 0"
proof -
  have "Min (set (durations s)) \<in> set (durations s)" "Max (set (durations s)) \<in> set (durations s)"
    using assms(2) by (auto intro: Min_in Max_in)
  then show "Min (set (durations s)) \<ge> 0" "Max (set (durations s)) \<ge> 0"
    using durations_nonneg by auto
  show "sm_shortestDurationMilliseconds s = Min (set (durations s))"
    "sm_longestDurationMilliseconds s = Max (set (durations s))"
    using assms by (simp_all add: range_ok_def Let_def)
qed

lemma range_ok_add:
  assumes ok: "range_ok s" and timed: "timed \<longleftrightarrow> st_durationMilliseconds t \<ge> 0"
    and max: "st_durationMilliseconds t \<le> max_int"
  shows "range_ok (add_closed t timed s)"
proof (cases timed)
  case False
  then have "durations (add_closed t timed s) = durations s" using timed by (simp add: durations_def)
  then show ?thesis using ok False by (simp add: range_ok_def add_closed_def)
next
  case True
  let ?d = "st_durationMilliseconds t" and ?ds = "durations s"
  have ds: "durations (add_closed t timed s) = ?ds @ [?d]"
    using True timed by (simp add: durations_def)
  have sel: "sm_shortestDurationMilliseconds (add_closed t timed s)
        = sm_shortestDurationMilliseconds (updateSessionDurationRange s ?d)"
      "sm_longestDurationMilliseconds (add_closed t timed s)
        = sm_longestDurationMilliseconds (updateSessionDurationRange s ?d)"
      "sm_latestTransitionDurationMilliseconds (add_closed t timed s)
        = sm_latestTransitionDurationMilliseconds (updateSessionDurationRange s ?d)"
    using True by (simp_all add: add_closed_def)
  have all: "list_all (\<lambda>d. d \<le> max_int) ?ds" using ok by (simp add: range_ok_def Let_def)
  show ?thesis
  proof (cases "?ds = []")
    case True
    then show ?thesis
      using ok timed \<open>timed\<close> max unfolding range_ok_def Let_def ds sel
      by (simp add: updateSessionDurationRange_def)
  next
    case False
    have "Min (set (?ds @ [?d])) = min ?d (Min (set ?ds))" "Max (set (?ds @ [?d])) = max ?d (Max (set ?ds))"
      using False by simp_all
    then show ?thesis
      using range_ok_signs [OF ok False] timed \<open>timed\<close> max all unfolding range_ok_def Let_def ds sel
      by (simp add: updateSessionDurationRange_def min_def max_def)
  qed
qed

lemma range_ok_same:
  "sm_transitions s' = sm_transitions s \<Longrightarrow>
   sm_shortestDurationMilliseconds s' = sm_shortestDurationMilliseconds s \<Longrightarrow>
   sm_longestDurationMilliseconds s' = sm_longestDurationMilliseconds s \<Longrightarrow>
   sm_latestTransitionDurationMilliseconds s' = sm_latestTransitionDurationMilliseconds s \<Longrightarrow>
   range_ok s' = range_ok s"
  by (simp add: range_ok_def durations_def)

lemma range_ok_simps [simp]:
  "range_ok (latest a b s) = range_ok s" "range_ok (observe e s) = range_ok s"
  "range_ok (s\<lparr>sm_startedEventCount := n\<rparr>) = range_ok s" "range_ok (s\<lparr>sm_endedEventCount := n\<rparr>) = range_ok s"
  "range_ok (s\<lparr>sm_preexistingEventCount := n\<rparr>) = range_ok s"
  "range_ok (s\<lparr>sm_installStateEventCount := n\<rparr>) = range_ok s"
  "range_ok (s\<lparr>sm_launchProcessEventCount := n\<rparr>) = range_ok s"
  "range_ok (s\<lparr>sm_latestLaunchProcessId := n\<rparr>) = range_ok s"
  "range_ok (s\<lparr>sm_relatedEventCount := n\<rparr>) = range_ok s"
  by (rule range_ok_same; simp)+

lemma range_ok_closed:
  "range_ok s \<Longrightarrow>
     range_ok (add_closed (closed_transition start e) (os_hasTimestamp start \<and> ts_hasTimestamp e) s)"
  using clamped_duration_range
  by (intro range_ok_add) (auto simp: closed_transition_duration max_int_def)

lemma summary_step_range: "range_ok s \<Longrightarrow> range_ok (fst (summary_step (s, os) e))"
  by (auto simp: summary_step_def session_handlers range_ok_closed split: option.split)

lemma summary_steps_range: "range_ok (fst st) \<Longrightarrow> range_ok (fst (foldl summary_step st es))"
proof (induction es arbitrary: st)
  case (Cons e es)
  then show ?case using summary_step_range [of "fst st" "snd st" e] by simp
qed simp

lemma range_ok_empty: "range_ok empty_summary"
  by (simp add: range_ok_def durations_def empty_summary_def)

lemma range_ok_open: "st_durationMilliseconds t < 0 \<Longrightarrow>
    range_ok (s\<lparr>sm_incompleteTransitionCount := n, sm_transitions := sm_transitions s @ [t]\<rparr>) = range_ok s"
  by (simp add: range_ok_def durations_def)

lemma open_transition_duration: "st_durationMilliseconds (open_transition start) = -1"
  "\<not> st_complete (open_transition start)"
  by (simp_all add: open_transition_def empty_transition_def)

lemma close_summary_range: "range_ok (close_summary (s, os)) = range_ok s"
  by (auto simp: close_summary_def Let_def range_ok_open open_transition_duration split: option.split)

section \<open>Counters\<close>

lemma counter_slot_le: "counter_slot c \<le> 5"
  by (simp add: counter_slot_def counted_categories_def)

lemma summary_steps_counters:
  "k < 6 \<Longrightarrow> counters (fst (foldl summary_step st es)) ! k = counters (fst st) ! k
     + int (length (filter (\<lambda>e. counter_slot (se_category (ts_item e)) = k) es))"
proof (induction es arbitrary: st)
  case (Cons e es)
  have "length (counters (fst st)) = 6" by (simp add: counters_def)
  then show ?case
    using Cons counter_slot_le [of "se_category (ts_item e)"]
    by (simp add: summary_step_counters Let_def nth_list_update)
qed simp

lemma close_summary_counters: "counters (close_summary (s, os)) = counters s"
  by (auto simp: counters_def close_summary_def Let_def split: option.split)

lemma mset_ordered_events: "mset (map ts_item (ordered_events events)) = mset events"
proof -
  have "mset (map ts_item (oldest_first es)) = mset (map ts_item es)" for es :: "session_event timestamped list"
    by (simp only: mset_map mset_oldest_first)
  then show ?thesis by (simp add: ordered_events_def Let_def del: mset_map)
qed

lemma length_filter_mset: "mset xs = mset ys \<Longrightarrow> length (filter P xs) = length (filter P ys)"
  by (metis mset_filter size_mset)

lemma length_filter_map: "length (filter P (map f xs)) = length (filter (\<lambda>x. P (f x)) xs)"
  by (simp add: filter_map comp_def)

lemma summary_counters:
  "k < 6 \<Longrightarrow> counters (summarizeRuntimeSessionEvents events) ! k
     = int (length (filter (\<lambda>e. counter_slot (se_category e) = k) events))"
proof -
  assume k: "k < 6"
  let ?st = "foldl summary_step (empty_summary, None) (ordered_events events)"
  have "counters (summarizeRuntimeSessionEvents events) = counters (fst ?st)"
    unfolding summarizeRuntimeSessionEvents_def by (metis close_summary_counters prod.collapse)
  then have "counters (summarizeRuntimeSessionEvents events) ! k
      = int (length (filter (\<lambda>e. counter_slot (se_category (ts_item e)) = k) (ordered_events events)))"
    using summary_steps_counters [OF k, of "(empty_summary, None)" "ordered_events events"] k
    by (auto simp: counters_def empty_summary_def less_Suc_eq eval_nat_numeral)
  also have "\<dots> = int (length (filter (\<lambda>e. counter_slot (se_category e) = k) events))"
    using length_filter_mset [OF mset_ordered_events [of events], of "\<lambda>e. counter_slot (se_category e) = k"]
    by (simp add: length_filter_map comp_def)
  finally show ?thesis .
qed

section \<open>The whole summary\<close>

lemma summary_range: "range_ok (summarizeRuntimeSessionEvents events)"
proof -
  have "range_ok (fst (foldl summary_step (empty_summary, None) (ordered_events events)))"
    by (rule summary_steps_range) (simp add: range_ok_empty)
  then show ?thesis
    unfolding summarizeRuntimeSessionEvents_def by (metis close_summary_range prod.collapse)
qed

lemma summary_transitions:
  "sm_transitions (summarizeRuntimeSessionEvents events) = map transition_of (sessions (ordered_events events))"
  using transitions_remaining [of empty_summary None "ordered_events events"]
  by (simp add: summarizeRuntimeSessionEvents_def remaining_def empty_summary_def)

lemma transition_of_complete: "st_complete (transition_of (start, stop)) \<longleftrightarrow> stop \<noteq> None"
  by (simp add: transition_of_def open_transition_duration closed_transition_duration split: option.split)

lemma close_summary_counts:
  "sm_completeTransitionCount (close_summary (s, os)) = sm_completeTransitionCount s"
  "sm_incompleteTransitionCount (close_summary (s, os)) =
     sm_incompleteTransitionCount s + (if os = None then 0 else 1)"
  "sm_transitions (close_summary (s, os)) = sm_transitions s @ (case os of None \<Rightarrow> []
     | Some start \<Rightarrow> [open_transition start])"
  by (auto simp: close_summary_def Let_def split: option.split)

lemma all_closed:
  "foldl summary_step (s, os) es = (s', os') \<Longrightarrow> list_all st_complete (sm_transitions s) \<Longrightarrow>
     list_all st_complete (sm_transitions s')"
proof (induction es arbitrary: s os)
  case (Cons e es)
  obtain s1 os1 where s1: "summary_step (s, os) e = (s1, os1)" by (cases "summary_step (s, os) e")
  have "list_all st_complete (sm_transitions s1)"
    using summary_step_transitions [of s os e] Cons.prems(2)
    by (auto simp: s1 closed_transition_duration split: option.splits if_splits)
  then show ?case using Cons.IH [of s1 os1] Cons.prems(1) s1 by simp
qed simp

lemma summary_transition_counts:
  "sm_completeTransitionCount (summarizeRuntimeSessionEvents events)
     = int (length (filter (\<lambda>(_, stop). stop \<noteq> None) (sessions (ordered_events events))))"
  "sm_incompleteTransitionCount (summarizeRuntimeSessionEvents events)
     = int (length (filter (\<lambda>(_, stop). stop = None) (sessions (ordered_events events))))"
proof -
  let ?s = "summarizeRuntimeSessionEvents events" and ?pairs = "sessions (ordered_events events)"
  obtain s os where s: "foldl summary_step (empty_summary, None) (ordered_events events) = (s, os)" by fastforce
  have zero: "sm_transitions empty_summary = []" "sm_completeTransitionCount empty_summary = 0"
    "sm_incompleteTransitionCount empty_summary = 0" by (simp_all add: empty_summary_def)
  have complete: "list_all st_complete (sm_transitions s)"
    using all_closed [OF s] zero by simp
  have counts: "sm_completeTransitionCount s = int (length (sm_transitions s))" "sm_incompleteTransitionCount s = 0"
    using transition_counts [OF s] zero by auto
  have summary: "?s = close_summary (s, os)" by (simp add: summarizeRuntimeSessionEvents_def s)
  have split: "filter (\<lambda>t. st_complete t = b) (sm_transitions ?s)
      = map transition_of (filter (\<lambda>(_, stop). (stop \<noteq> None) = b) ?pairs)" for b
    unfolding summary_transitions filter_map
    by (rule arg_cong [where f = "map transition_of"], rule filter_cong) (auto simp: transition_of_complete)
  have "filter (\<lambda>t. st_complete t = True) (sm_transitions ?s) = sm_transitions s"
    "length (filter (\<lambda>t. st_complete t = False) (sm_transitions ?s)) = (if os = None then 0 else 1)"
    using complete unfolding summary close_summary_counts
    by (auto simp: list_all_iff open_transition_duration filter_empty_conv split: option.split)
  then show "sm_completeTransitionCount ?s = int (length (filter (\<lambda>(_, stop). stop \<noteq> None) ?pairs))"
    "sm_incompleteTransitionCount ?s = int (length (filter (\<lambda>(_, stop). stop = None) ?pairs))"
    using split [of True] split [of False] counts unfolding summary close_summary_counts
    by (auto simp: case_prod_unfold dest!: arg_cong [where f = length])
qed

end
