(* ===== verification/Launch_Diagnosis.thy ===== *)
theory Launch_Diagnosis
  imports Session_Summary
begin

text \<open>
  The diagnosis of a launch (\<open>diagnoseRuntimeEvidence\<close> in \<open>RuntimeInstallation.cpp\<close>) and the
  evidence report (\<open>makeRuntimeEvidenceReport\<close>): from the installation, the result of the launch,
  the visible processes, the support errors and the session summary to a status with blockers, and
  from the whole evidence to lines \<open>key=value\<close>. What the operating system is asked for (the hash
  of the executable, the process listing, the log files) is an argument of
  \<open>collectRuntimeEvidence\<close>.
\<close>

section \<open>Evidence\<close>

record launch_result =
  lr_requestAccepted :: bool
  lr_launched :: bool
  lr_running :: bool
  lr_processId :: int
  lr_requiredStableMilliseconds :: int
  lr_observedStableMilliseconds :: int
  lr_reason :: string
  lr_warnings :: "string list"

record file_identity =
  fi_exists :: bool
  fi_size :: nat
  fi_fnv1a64 :: string
  fi_path :: string
  fi_reason :: string

record log_excerpt =
  le_path :: string
  le_lines :: "string list"
  le_reason :: string

record launch_diagnosis =
  ld_gameProcessVisible :: bool
  ld_battleNetMainVisible :: bool
  ld_battleNetHandoffVisible :: bool
  ld_battleNetSupportVisible :: bool
  ld_multipleBattleNetMainVisible :: bool
  ld_multipleBattleNetHandoffsVisible :: bool
  ld_gameProcessCount :: int
  ld_battleNetMainCount :: int
  ld_battleNetHandoffCount :: int
  ld_battleNetSupportCount :: int
  ld_shortLivedSessionObserved :: bool
  ld_shortLivedSessionAgeMilliseconds :: int
  ld_staleHandoffSuspected :: bool
  ld_readyForAttach :: bool
  ld_battleNetSupportCode :: string
  ld_battleNetSupportUrl :: string
  ld_battleNetSupportLine :: string
  ld_status :: string
  ld_blockers :: "string list"

record runtime_evidence =
  ev_installation :: runtime_installation
  ev_launchResult :: launch_result
  ev_executable :: file_identity
  ev_processes :: "observed_process list"
  ev_logs :: "log_excerpt list"
  ev_supportErrors :: "support_error list"
  ev_sessionEvents :: "session_event list"
  ev_sessionSummary :: session_summary
  ev_diagnosis :: launch_diagnosis

definition empty_diagnosis :: launch_diagnosis where
  "empty_diagnosis =
     \<lparr>ld_gameProcessVisible = False, ld_battleNetMainVisible = False, ld_battleNetHandoffVisible = False,
       ld_battleNetSupportVisible = False, ld_multipleBattleNetMainVisible = False,
       ld_multipleBattleNetHandoffsVisible = False, ld_gameProcessCount = 0, ld_battleNetMainCount = 0,
       ld_battleNetHandoffCount = 0, ld_battleNetSupportCount = 0, ld_shortLivedSessionObserved = False,
       ld_shortLivedSessionAgeMilliseconds = -1, ld_staleHandoffSuspected = False,
       ld_readyForAttach = False, ld_battleNetSupportCode = [], ld_battleNetSupportUrl = [],
       ld_battleNetSupportLine = [], ld_status = [], ld_blockers = []\<rparr>"

section \<open>The diagnosis\<close>

definition countObservedCategory :: "observed_process list \<Rightarrow> string \<Rightarrow> int" where
  "countObservedCategory processes category =
     int (length (filter (\<lambda>p. op_category p = category) processes))"

definition addDiagnosisBlocker :: "string \<Rightarrow> launch_diagnosis \<Rightarrow> launch_diagnosis" where
  "addDiagnosisBlocker blocker d = d\<lparr>ld_blockers := ld_blockers d @ [blocker]\<rparr>"

definition addSupportErrorBlocker :: "launch_diagnosis \<Rightarrow> launch_diagnosis" where
  "addSupportErrorBlocker d =
     (if ld_battleNetSupportCode d = [] then d
      else addDiagnosisBlocker
        (''Battle.net reported support error '' @ ld_battleNetSupportCode d
         @ (if ld_battleNetSupportUrl d \<noteq> [] then '': '' @ ld_battleNetSupportUrl d else [])) d)"

definition latestObservedEventCompletesTransition :: "session_summary \<Rightarrow> bool" where
  "latestObservedEventCompletesTransition s =
     (if sm_latestObservedTimestamp s = [] then False
      else list_ex (\<lambda>t. st_complete t \<and> st_endTimestamp t \<noteq> []
        \<and> st_endTimestamp t = sm_latestObservedTimestamp s) (sm_transitions s))"

definition latestTransitionAgeMilliseconds :: "session_summary \<Rightarrow> int" where
  "latestTransitionAgeMilliseconds s =
     (if sm_latestTransitionEndTimestamp s = [] \<or> sm_latestObservedTimestamp s = [] then -1
      else timestampDeltaMilliseconds (sm_latestTransitionEndTimestamp s) (sm_latestObservedTimestamp s))"

definition short_lived_threshold :: int where
  "short_lived_threshold = 15000"

definition short_lived_session :: "session_summary \<Rightarrow> bool" where
  "short_lived_session s =
     (let d = sm_latestTransitionDurationMilliseconds s; age = latestTransitionAgeMilliseconds s
      in d \<ge> 0 \<and> d \<le> short_lived_threshold
         \<and> (latestObservedEventCompletesTransition s \<or> (age \<ge> 0 \<and> age \<le> short_lived_threshold)))"

definition ready_for_attach :: "runtime_evidence \<Rightarrow> bool" where
  "ready_for_attach e \<longleftrightarrow> ri_found (ev_installation e) \<and> fi_exists (ev_executable e)
     \<and> lr_running (ev_launchResult e) \<and> lr_processId (ev_launchResult e) > 0
     \<and> countObservedCategory (ev_processes e) ''starcraft-game'' > 0"

text \<open>The observations: everything before the first test of the installation.\<close>

definition observations :: "runtime_evidence \<Rightarrow> launch_diagnosis" where
  "observations e =
     (let game = countObservedCategory (ev_processes e) ''starcraft-game'';
          main = countObservedCategory (ev_processes e) ''battle.net-main'';
          handoff = countObservedCategory (ev_processes e) ''battle.net-handoff'';
          support = countObservedCategory (ev_processes e) ''battle.net-support'';
          shortLived = short_lived_session (ev_sessionSummary e);
          supportError = latestRuntimeSupportError (ev_supportErrors e)
      in empty_diagnosis\<lparr>
           ld_gameProcessCount := game, ld_battleNetMainCount := main, ld_battleNetHandoffCount := handoff,
           ld_battleNetSupportCount := support,
           ld_gameProcessVisible := game > 0, ld_battleNetMainVisible := main > 0,
           ld_battleNetHandoffVisible := handoff > 0, ld_battleNetSupportVisible := support > 0,
           ld_battleNetSupportCode := (case supportError of None \<Rightarrow> [] | Some x \<Rightarrow> sup_code x),
           ld_battleNetSupportUrl := (case supportError of None \<Rightarrow> [] | Some x \<Rightarrow> sup_url x),
           ld_battleNetSupportLine := (case supportError of None \<Rightarrow> [] | Some x \<Rightarrow> sup_line x),
           ld_multipleBattleNetMainVisible := main > 1,
           ld_multipleBattleNetHandoffsVisible := handoff > 1,
           ld_shortLivedSessionObserved := shortLived,
           ld_shortLivedSessionAgeMilliseconds :=
             (if shortLived then latestTransitionAgeMilliseconds (ev_sessionSummary e) else -1),
           ld_staleHandoffSuspected :=
             (handoff > 0 \<and> \<not> game > 0 \<and> \<not> lr_running (ev_launchResult e)),
           ld_readyForAttach := ready_for_attach e\<rparr>)"

definition blocked :: "string \<Rightarrow> string \<Rightarrow> launch_diagnosis \<Rightarrow> launch_diagnosis" where
  "blocked status blocker d = addDiagnosisBlocker blocker (d\<lparr>ld_status := status\<rparr>)"

definition add_short_lived_blocker :: "runtime_evidence \<Rightarrow> launch_diagnosis \<Rightarrow> launch_diagnosis" where
  "add_short_lived_blocker e d =
     (if ld_shortLivedSessionObserved d
      then addDiagnosisBlocker (''Battle.net logs show the latest StarCraft session stopped after ''
        @ int_to_dec (sm_latestTransitionDurationMilliseconds (ev_sessionSummary e)) @ '' ms'') d
      else d)"

definition diagnose_legacy1161 :: "runtime_evidence \<Rightarrow> launch_diagnosis \<Rightarrow> launch_diagnosis" where
  "diagnose_legacy1161 e d =
     (if ri_compatibilityRuntime (ev_installation e) = ''wine''
         \<and> ri_compatibilityRuntimePath (ev_installation e) = []
      then blocked ''blocked-legacy1161-wine-not-configured''
        ''Wine is required to launch the Win32 Brood War 1.16.1 runtime on this host; set STARCRAFT_API_WINE'' d
      else if \<not> ld_gameProcessVisible d
      then blocked ''blocked-no-legacy1161-game-process''
        ''No stable StarCraft Brood War 1.16.1 game process is visible'' d
      else blocked ''blocked-legacy1161-game-process-not-selected''
        ''A StarCraft Brood War 1.16.1 process is visible, but launch/attach did not select a stable runtime process id'' d)"

definition handoff_status :: "launch_diagnosis \<Rightarrow> string" where
  "handoff_status d =
     (let supportError = ld_battleNetSupportCode d \<noteq> []; shortLived = ld_shortLivedSessionObserved d
      in if ld_multipleBattleNetHandoffsVisible d
         then (if supportError
           then (if shortLived then ''blocked-multiple-battlenet-handoffs-short-lived-session-support-error''
                 else ''blocked-multiple-battlenet-handoffs-support-error'')
           else (if shortLived then ''blocked-multiple-battlenet-handoffs-short-lived-session''
                 else ''blocked-multiple-battlenet-handoffs-without-game''))
         else (if supportError
           then (if shortLived then ''blocked-battlenet-handoff-short-lived-session-support-error''
                 else ''blocked-battlenet-handoff-support-error'')
           else (if shortLived then ''blocked-battlenet-handoff-short-lived-session''
                 else ''blocked-battlenet-handoff-without-game'')))"

definition diagnose_handoff :: "runtime_evidence \<Rightarrow> launch_diagnosis \<Rightarrow> launch_diagnosis" where
  "diagnose_handoff e d =
     (let d = d\<lparr>ld_status := handoff_status d\<rparr>;
          d = (if ld_multipleBattleNetHandoffsVisible d
            then addDiagnosisBlocker (''Multiple Battle.net StarCraft handoff processes are visible: ''
              @ int_to_dec (ld_battleNetHandoffCount d)) d
            else d);
          d = addDiagnosisBlocker
            ''Battle.net StarCraft handoff is visible, but the StarCraft game executable is not visible'' d
      in addSupportErrorBlocker (add_short_lived_blocker e d))"

definition diagnose_multiple_main :: "launch_diagnosis \<Rightarrow> launch_diagnosis" where
  "diagnose_multiple_main d =
     (let d = d\<lparr>ld_status := (if ld_battleNetSupportCode d = []
            then ''blocked-multiple-battlenet-main-processes-no-game''
            else ''blocked-multiple-battlenet-main-processes-support-error-no-game'')\<rparr>;
          d = addDiagnosisBlocker (''Multiple Battle.net main processes are visible: ''
            @ int_to_dec (ld_battleNetMainCount d)) d
      in addSupportErrorBlocker (addDiagnosisBlocker ''StarCraft game executable is not visible'' d))"

definition diagnose_no_game :: "runtime_evidence \<Rightarrow> launch_diagnosis \<Rightarrow> launch_diagnosis" where
  "diagnose_no_game e d =
     (let status = (if ld_battleNetSupportCode d \<noteq> []
            then (if ld_shortLivedSessionObserved d
              then ''blocked-short-lived-session-support-error-no-game-process''
              else ''blocked-battlenet-support-error-no-game-process'')
            else (if ld_shortLivedSessionObserved d
              then ''blocked-short-lived-session-no-game-process''
              else ''blocked-no-game-process''))
      in addSupportErrorBlocker (add_short_lived_blocker e
           (blocked status ''No stable StarCraft game executable process is visible'' d)))"

definition diagnoseRuntimeEvidence :: "runtime_evidence \<Rightarrow> launch_diagnosis" where
  "diagnoseRuntimeEvidence e =
     (let d = observations e
      in if \<not> ri_found (ev_installation e)
         then blocked ''blocked-installation-not-found''
           (if ri_reason (ev_installation e) = []
            then ''StarCraft Remastered installation is not configured''
            else ri_reason (ev_installation e)) d
         else if \<not> fi_exists (ev_executable e)
         then blocked ''blocked-executable-missing''
           (if fi_reason (ev_executable e) = [] then ''StarCraft executable is missing''
            else fi_reason (ev_executable e)) d
         else if ld_readyForAttach d then d\<lparr>ld_status := ''runtime-process-visible''\<rparr>
         else if ri_product (ev_installation e) = StarCraftBroodWar1161 then diagnose_legacy1161 e d
         else if ld_battleNetHandoffVisible d \<and> \<not> ld_gameProcessVisible d then diagnose_handoff e d
         else if ld_multipleBattleNetMainVisible d \<and> \<not> ld_gameProcessVisible d
         then diagnose_multiple_main d
         else if \<not> ld_gameProcessVisible d then diagnose_no_game e d
         else blocked ''blocked-game-process-not-selected''
           ''A StarCraft process is visible, but launch/attach did not select a stable runtime process id'' d)"

text \<open>
  \<open>tailFileLines\<close> and \<open>collectRuntimeLogExcerpts\<close>: the last lines of the newest files, cleaned.
\<close>

definition tailFileLines :: "string list option \<Rightarrow> nat \<Rightarrow> string list" where
  "tailFileLines content maxLines =
     (case content of None \<Rightarrow> []
      | Some lines \<Rightarrow> drop (length lines - maxLines) (map sanitizeEvidenceValue lines))"

definition collectRuntimeLogExcerpts ::
  "(string \<times> string list option) list \<Rightarrow> nat \<Rightarrow> nat \<Rightarrow> log_excerpt list" where
  "collectRuntimeLogExcerpts files maxFiles maxLines =
     map (\<lambda>(path, content). let lines = tailFileLines content maxLines
       in \<lparr>le_path = path, le_lines = lines,
         le_reason = (if lines = [] then ''log file is empty or unreadable'' else [])\<rparr>)
       (take maxFiles files)"

definition collectRuntimeEvidence ::
  "runtime_installation \<Rightarrow> launch_result \<Rightarrow> file_identity \<Rightarrow> observed_process list
    \<Rightarrow> (string \<times> string list option) list \<Rightarrow> runtime_evidence" where
  "collectRuntimeEvidence installation launchResult executable processes files =
     (let events = collectRuntimeSessionEvents installation files 8 50;
          evidence = \<lparr>ev_installation = installation, ev_launchResult = launchResult,
            ev_executable = executable, ev_processes = processes,
            ev_logs = collectRuntimeLogExcerpts files 4 20,
            ev_supportErrors = collectRuntimeSupportErrors files 8 10, ev_sessionEvents = events,
            ev_sessionSummary = summarizeRuntimeSessionEvents events, ev_diagnosis = empty_diagnosis\<rparr>
      in evidence\<lparr>ev_diagnosis := diagnoseRuntimeEvidence evidence\<rparr>)"

section \<open>The report\<close>

datatype evidence_value = Text string | Flag bool | Number int

text \<open>The overloads of \<open>writeEvidenceField\<close>: a text is cleaned and skipped when empty.\<close>

fun field_value :: "evidence_value \<Rightarrow> string option" where
  "field_value (Text value) = (if value \<noteq> [] then Some (sanitizeEvidenceValue value) else None)"
| "field_value (Flag value) = Some (if value then ''true'' else ''false'')"
| "field_value (Number value) = Some (int_to_dec value)"

definition writeEvidenceField :: "string \<times> evidence_value \<Rightarrow> string" where
  "writeEvidenceField field =
     (case field_value (snd field) of None \<Rightarrow> []
      | Some value \<Rightarrow> fst field @ ''='' @ value @ [CHR 0x0A])"

text \<open>The fields of a loop, under \<open>prefix + std::to_string(i)\<close>.\<close>

definition indexed :: "string \<Rightarrow> (string \<Rightarrow> 'a \<Rightarrow> (string \<times> evidence_value) list) \<Rightarrow> 'a list
    \<Rightarrow> (string \<times> evidence_value) list" where
  "indexed prefix entries items =
     concat (map2 (\<lambda>i item. entries (prefix @ nat_to_dec i) item) [0..<length items] items)"

definition plain_list :: "string \<Rightarrow> string list \<Rightarrow> (string \<times> evidence_value) list" where
  "plain_list prefix = indexed prefix (\<lambda>key item. [(key, Text item)])"

definition when_set :: "bool \<Rightarrow> string \<times> evidence_value \<Rightarrow> (string \<times> evidence_value) list" where
  "when_set condition field = (if condition then [field] else [])"

definition installation_fields :: "runtime_evidence \<Rightarrow> (string \<times> evidence_value) list" where
  "installation_fields e =
     [(''evidence.schema'', Text ''starcraft-api.runtime-evidence.v1''),
      (''install.found'', Flag (ri_found (ev_installation e))),
      (''platform'', Text (platform_toString (ri_platform (ev_installation e)))),
      (''product'', Text (product_toString (ri_product (ev_installation e)))),
      (''version'', Text (ri_version (ev_installation e))),
      (''install.root'', Text (ri_installRoot (ev_installation e))),
      (''install.app_bundle'', Text (ri_appBundlePath (ev_installation e))),
      (''install.executable'', Text (ri_executablePath (ev_installation e))),
      (''install.launcher'', Text (ri_launcherPath (ev_installation e))),
      (''install.compatibility_runtime'', Text (ri_compatibilityRuntime (ev_installation e))),
      (''install.compatibility_runtime_path'', Text (ri_compatibilityRuntimePath (ev_installation e))),
      (''install.compatibility_prefix'', Text (ri_compatibilityPrefix (ev_installation e))),
      (''install.reason'', Text (ri_reason (ev_installation e)))]"

definition executable_fields :: "runtime_evidence \<Rightarrow> (string \<times> evidence_value) list" where
  "executable_fields e =
     [(''executable.exists'', Flag (fi_exists (ev_executable e))),
      (''executable.path'', Text (fi_path (ev_executable e))),
      (''executable.size'', Number (int (fi_size (ev_executable e)))),
      (''executable.fnv1a64'', Text (fi_fnv1a64 (ev_executable e))),
      (''executable.reason'', Text (fi_reason (ev_executable e)))]"

definition launch_fields :: "runtime_evidence \<Rightarrow> (string \<times> evidence_value) list" where
  "launch_fields e =
     [(''runtime.launched'', Flag (lr_launched (ev_launchResult e))),
      (''runtime.running'', Flag (lr_running (ev_launchResult e))),
      (''runtime.request_accepted'', Flag (lr_requestAccepted (ev_launchResult e))),
      (''runtime.process_id'', Number (lr_processId (ev_launchResult e))),
      (''runtime.required_stable_ms'', Number (lr_requiredStableMilliseconds (ev_launchResult e))),
      (''runtime.observed_stable_ms'', Number (lr_observedStableMilliseconds (ev_launchResult e))),
      (''runtime.reason'', Text (lr_reason (ev_launchResult e)))]
     @ plain_list ''runtime.warning.'' (lr_warnings (ev_launchResult e))"

definition diagnosis_fields :: "runtime_evidence \<Rightarrow> (string \<times> evidence_value) list" where
  "diagnosis_fields e =
     [(''diagnosis.status'', Text (ld_status (ev_diagnosis e))),
      (''diagnosis.game_process_visible'', Flag (ld_gameProcessVisible (ev_diagnosis e))),
      (''diagnosis.battle_net_main_visible'', Flag (ld_battleNetMainVisible (ev_diagnosis e))),
      (''diagnosis.battle_net_handoff_visible'', Flag (ld_battleNetHandoffVisible (ev_diagnosis e))),
      (''diagnosis.battle_net_support_visible'', Flag (ld_battleNetSupportVisible (ev_diagnosis e))),
      (''diagnosis.multiple_battle_net_main_visible'', Flag (ld_multipleBattleNetMainVisible (ev_diagnosis e))),
      (''diagnosis.multiple_battle_net_handoffs_visible'', Flag (ld_multipleBattleNetHandoffsVisible (ev_diagnosis e))),
      (''diagnosis.game_process_count'', Number (ld_gameProcessCount (ev_diagnosis e))),
      (''diagnosis.battle_net_main_count'', Number (ld_battleNetMainCount (ev_diagnosis e))),
      (''diagnosis.battle_net_handoff_count'', Number (ld_battleNetHandoffCount (ev_diagnosis e))),
      (''diagnosis.battle_net_support_count'', Number (ld_battleNetSupportCount (ev_diagnosis e))),
      (''diagnosis.short_lived_session_observed'', Flag (ld_shortLivedSessionObserved (ev_diagnosis e)))]
     @ when_set (ld_shortLivedSessionAgeMilliseconds (ev_diagnosis e) \<ge> 0)
        (''diagnosis.short_lived_session_age_ms'', Number (ld_shortLivedSessionAgeMilliseconds (ev_diagnosis e)))
     @ [(''diagnosis.stale_handoff_suspected'', Flag (ld_staleHandoffSuspected (ev_diagnosis e))),
      (''diagnosis.ready_for_attach'', Flag (ld_readyForAttach (ev_diagnosis e))),
      (''diagnosis.battle_net_support_code'', Text (ld_battleNetSupportCode (ev_diagnosis e))),
      (''diagnosis.battle_net_support_url'', Text (ld_battleNetSupportUrl (ev_diagnosis e))),
      (''diagnosis.battle_net_support_line'', Text (ld_battleNetSupportLine (ev_diagnosis e))),
      (''diagnosis.blocker_count'', Number (int (length (ld_blockers (ev_diagnosis e)))))]
     @ plain_list ''diagnosis.blocker.'' (ld_blockers (ev_diagnosis e))"

definition process_fields :: "string \<Rightarrow> observed_process \<Rightarrow> (string \<times> evidence_value) list" where
  "process_fields key p =
     [(key @ ''.pid'', Number (op_processId p)),
      (key @ ''.ppid'', Number (op_parentProcessId p)),
      (key @ ''.category'', Text (op_category p)),
      (key @ ''.command'', Text (op_command p))]"

definition log_fields :: "string \<Rightarrow> log_excerpt \<Rightarrow> (string \<times> evidence_value) list" where
  "log_fields key l =
     [(key @ ''.path'', Text (le_path l)),
      (key @ ''.reason'', Text (le_reason l)),
      (key @ ''.line_count'', Number (int (length (le_lines l))))]
     @ plain_list (key @ ''.line.'') (le_lines l)"

definition support_fields :: "string \<Rightarrow> support_error \<Rightarrow> (string \<times> evidence_value) list" where
  "support_fields key x =
     [(key @ ''.path'', Text (sup_path x)),
      (key @ ''.code'', Text (sup_code x)),
      (key @ ''.url'', Text (sup_url x)),
      (key @ ''.line'', Text (sup_line x))]"

definition session_fields :: "runtime_evidence \<Rightarrow> (string \<times> evidence_value) list" where
  "session_fields e =
     [(''session.event_count'', Number (int (length (ev_sessionEvents e)))),
      (''session.started_event_count'', Number (sm_startedEventCount (ev_sessionSummary e))),
      (''session.ended_event_count'', Number (sm_endedEventCount (ev_sessionSummary e))),
      (''session.preexisting_event_count'', Number (sm_preexistingEventCount (ev_sessionSummary e))),
      (''session.install_state_event_count'', Number (sm_installStateEventCount (ev_sessionSummary e))),
      (''session.launch_process_event_count'', Number (sm_launchProcessEventCount (ev_sessionSummary e)))]
     @ when_set (sm_latestLaunchProcessId (ev_sessionSummary e) > 0)
        (''session.latest_launch_process_id'', Number (sm_latestLaunchProcessId (ev_sessionSummary e)))
     @ [(''session.related_event_count'', Number (sm_relatedEventCount (ev_sessionSummary e))),
      (''session.transition_count'', Number (int (length (sm_transitions (ev_sessionSummary e))))),
      (''session.complete_transition_count'', Number (sm_completeTransitionCount (ev_sessionSummary e))),
      (''session.incomplete_transition_count'', Number (sm_incompleteTransitionCount (ev_sessionSummary e)))]
     @ when_set (sm_shortestDurationMilliseconds (ev_sessionSummary e) \<ge> 0)
        (''session.shortest_transition_duration_ms'', Number (sm_shortestDurationMilliseconds (ev_sessionSummary e)))
     @ when_set (sm_longestDurationMilliseconds (ev_sessionSummary e) \<ge> 0)
        (''session.longest_transition_duration_ms'', Number (sm_longestDurationMilliseconds (ev_sessionSummary e)))
     @ when_set (sm_latestTransitionDurationMilliseconds (ev_sessionSummary e) \<ge> 0)
        (''session.latest_transition_duration_ms'', Number (sm_latestTransitionDurationMilliseconds (ev_sessionSummary e)))
     @ [(''session.latest_transition_start_timestamp'', Text (sm_latestTransitionStartTimestamp (ev_sessionSummary e))),
      (''session.latest_transition_end_timestamp'', Text (sm_latestTransitionEndTimestamp (ev_sessionSummary e))),
      (''session.latest_state'', Text (sm_latestState (ev_sessionSummary e))),
      (''session.latest_observed_timestamp'', Text (sm_latestObservedTimestamp (ev_sessionSummary e))),
      (''session.latest_reason'', Text (sm_latestReason (ev_sessionSummary e)))]"

definition transition_fields :: "string \<Rightarrow> session_transition \<Rightarrow> (string \<times> evidence_value) list" where
  "transition_fields key t =
     [(key @ ''.complete'', Flag (st_complete t))]
     @ when_set (st_durationMilliseconds t \<ge> 0)
        (key @ ''.duration_ms'', Number (st_durationMilliseconds t))
     @ [(key @ ''.start_timestamp'', Text (st_startTimestamp t)),
      (key @ ''.end_timestamp'', Text (st_endTimestamp t)),
      (key @ ''.start_path'', Text (st_startPath t)),
      (key @ ''.end_path'', Text (st_endPath t)),
      (key @ ''.start_line'', Text (st_startLine t)),
      (key @ ''.end_line'', Text (st_endLine t)),
      (key @ ''.reason'', Text (st_reason t))]"

definition event_fields :: "string \<Rightarrow> session_event \<Rightarrow> (string \<times> evidence_value) list" where
  "event_fields key v =
     [(key @ ''.category'', Text (se_category v)),
      (key @ ''.path'', Text (se_path v)),
      (key @ ''.line'', Text (se_line v))]"

definition report_fields :: "runtime_evidence \<Rightarrow> (string \<times> evidence_value) list" where
  "report_fields e =
     installation_fields e @ executable_fields e @ launch_fields e @ diagnosis_fields e
     @ (''process.count'', Number (int (length (ev_processes e)))) #
       indexed ''process.'' process_fields (ev_processes e)
     @ (''log.count'', Number (int (length (ev_logs e)))) #
       indexed ''log.'' log_fields (ev_logs e)
     @ (''support.error_count'', Number (int (length (ev_supportErrors e)))) #
       indexed ''support.error.'' support_fields (ev_supportErrors e)
     @ session_fields e
     @ indexed ''session.transition.'' transition_fields (sm_transitions (ev_sessionSummary e))
     @ indexed ''session.event.'' event_fields (ev_sessionEvents e)"

definition makeRuntimeEvidenceReport :: "runtime_evidence \<Rightarrow> string" where
  "makeRuntimeEvidenceReport e =
     output_line ''# Generated StarCraft API runtime evidence report.''
     @ output_line ''# This report is diagnostic evidence only. It does not claim BWAPI parity.''
     @ concat (map writeEvidenceField (report_fields e))"

section \<open>What the diagnosis amounts to\<close>

lemma blocker_sel [simp]:
  "ld_blockers (addDiagnosisBlocker b d) = ld_blockers d @ [b]"
  "ld_status (addDiagnosisBlocker b d) = ld_status d"
  "ld_readyForAttach (addDiagnosisBlocker b d) = ld_readyForAttach d"
  by (simp_all add: addDiagnosisBlocker_def)

lemma support_blocker_sel [simp]:
  "ld_blockers (addSupportErrorBlocker d) = [] \<longleftrightarrow> ld_blockers d = [] \<and> ld_battleNetSupportCode d = []"
  "ld_status (addSupportErrorBlocker d) = ld_status d"
  "ld_readyForAttach (addSupportErrorBlocker d) = ld_readyForAttach d"
  by (simp_all add: addSupportErrorBlocker_def)

lemma short_lived_blocker_sel [simp]:
  "ld_blockers (add_short_lived_blocker e d) = [] \<longleftrightarrow> ld_blockers d = [] \<and> \<not> ld_shortLivedSessionObserved d"
  "ld_status (add_short_lived_blocker e d) = ld_status d"
  "ld_readyForAttach (add_short_lived_blocker e d) = ld_readyForAttach d"
  by (simp_all add: add_short_lived_blocker_def)

lemma blocked_sel [simp]:
  "ld_blockers (blocked status b d) = ld_blockers d @ [b]" "ld_status (blocked status b d) = status"
  "ld_readyForAttach (blocked status b d) = ld_readyForAttach d"
  by (simp_all add: blocked_def)

definition refusal :: "launch_diagnosis \<Rightarrow> launch_diagnosis \<Rightarrow> bool" where
  "refusal d d' \<longleftrightarrow> ld_blockers d' \<noteq> [] \<and> starts_with (ld_status d') ''blocked-''
     \<and> ld_readyForAttach d' = ld_readyForAttach d"

lemma refusals:
  "starts_with status ''blocked-'' \<Longrightarrow> refusal d (blocked status b d)"
  "refusal d (diagnose_legacy1161 e d)" "refusal d (diagnose_handoff e d)"
  "refusal d (diagnose_multiple_main d)" "refusal d (diagnose_no_game e d)"
  by (simp_all add: refusal_def diagnose_legacy1161_def diagnose_handoff_def handoff_status_def
      diagnose_multiple_main_def diagnose_no_game_def Let_def starts_with_def)

lemma observations_ready: "ld_readyForAttach (observations e) = ready_for_attach e"
  "ld_blockers (observations e) = []"
  by (simp_all add: observations_def empty_diagnosis_def Let_def)

lemma diagnosis_outcome:
  "if ready_for_attach e
   then diagnoseRuntimeEvidence e = (observations e)\<lparr>ld_status := ''runtime-process-visible''\<rparr>
   else refusal (observations e) (diagnoseRuntimeEvidence e)"
proof (cases "ready_for_attach e")
  case True
  then show ?thesis by (simp add: diagnoseRuntimeEvidence_def observations_ready ready_for_attach_def Let_def)
next
  case False
  then show ?thesis
    using refusals(2-5) refusals(1) [where d = "observations e"]
    by (simp add: diagnoseRuntimeEvidence_def observations_ready Let_def starts_with_def)
qed

section \<open>What the report amounts to\<close>

lemma field_value_no_newline: "field_value v = Some s \<Longrightarrow> CHR 0x0A \<notin> set s"
  by (cases v) (auto split: if_splits)

text \<open>The lines of a report, and the fields a reader gets from them.\<close>

definition field_line :: "string \<times> string \<Rightarrow> string" where
  "field_line field = fst field @ ''='' @ snd field"

definition written_fields :: "(string \<times> evidence_value) list \<Rightarrow> (string \<times> string) list" where
  "written_fields fs =
     List.map_filter (\<lambda>(key, v). map_option (\<lambda>s. (key, s)) (field_value v)) fs"

lemma concat_fields: "concat (map writeEvidenceField fs) = text_of (map field_line (written_fields fs))"
  by (induction fs) (auto simp: written_fields_def map_filter_def writeEvidenceField_def field_line_def
      split: option.split)

definition plain_key :: "string \<Rightarrow> bool" where
  "plain_key key \<longleftrightarrow> CHR ''='' \<notin> set key \<and> CHR 0x0A \<notin> set key"

definition plain_keys :: "(string \<times> evidence_value) list \<Rightarrow> bool" where
  "plain_keys fs \<longleftrightarrow> list_all (\<lambda>f. plain_key (fst f)) fs"

lemma plain_keys_simps [simp]:
  "plain_keys []" "plain_keys (f # fs) \<longleftrightarrow> plain_key (fst f) \<and> plain_keys fs"
  "plain_keys (fs @ gs) \<longleftrightarrow> plain_keys fs \<and> plain_keys gs"
  "plain_keys (when_set b f) \<longleftrightarrow> (b \<longrightarrow> plain_key (fst f))"
  by (auto simp: plain_keys_def when_set_def)

lemma plain_key_append [simp]: "plain_key (a @ b) \<longleftrightarrow> plain_key a \<and> plain_key b"
  by (auto simp: plain_key_def)

lemma plain_key_number [simp]: "plain_key (nat_to_dec n)"
  by (simp add: plain_key_def)

lemma plain_keys_indexed:
  "plain_key prefix \<Longrightarrow> (\<And>key item. plain_key key \<Longrightarrow> plain_keys (entries key item)) \<Longrightarrow>
     plain_keys (indexed prefix entries items)"
  unfolding indexed_def plain_keys_def list_all_iff by auto (metis fst_conv plain_key_append plain_key_number)

lemma plain_keys_list: "plain_key prefix \<Longrightarrow> plain_keys (plain_list prefix items)"
  by (simp add: plain_list_def plain_keys_indexed)

lemma plain_keys_report: "plain_keys (report_fields e)"
proof -
  have literal: "list_all plain_key [''process.'', ''log.'', ''support.error.'', ''session.transition.'',
      ''session.event.'', ''runtime.warning.'', ''diagnosis.blocker.'']"
    by code_simp
  have groups: "plain_keys (installation_fields e)" "plain_keys (executable_fields e)"
    "plain_keys (launch_fields e)" "plain_keys (diagnosis_fields e)" "plain_keys (session_fields e)"
    using literal
    by (simp_all add: installation_fields_def executable_fields_def launch_fields_def diagnosis_fields_def
        session_fields_def plain_keys_list plain_key_def)
  have items: "plain_key key \<Longrightarrow> plain_keys (process_fields key p)"
    "plain_key key \<Longrightarrow> plain_keys (log_fields key l)" "plain_key key \<Longrightarrow> plain_keys (support_fields key x)"
    "plain_key key \<Longrightarrow> plain_keys (transition_fields key t)" "plain_key key \<Longrightarrow> plain_keys (event_fields key v)"
    for key p l x t v
    by (simp_all add: process_fields_def log_fields_def support_fields_def transition_fields_def
        event_fields_def plain_keys_list plain_key_def)
  show ?thesis
    using groups literal
    by (auto simp: report_fields_def intro!: plain_keys_indexed items) (simp_all add: plain_key_def)
qed

lemma written_fields_plain:
  "plain_keys fs \<Longrightarrow> (key, value) \<in> set (written_fields fs) \<Longrightarrow>
     plain_key key \<and> CHR 0x0A \<notin> set value"
  by (auto simp: written_fields_def map_filter_def plain_keys_def list_all_iff
      dest: field_value_no_newline)

lemma report_lines:
  "getlines (makeRuntimeEvidenceReport e) =
     [''# Generated StarCraft API runtime evidence report.'',
      ''# This report is diagnostic evidence only. It does not claim BWAPI parity.'']
     @ map field_line (written_fields (report_fields e))"
proof -
  have "makeRuntimeEvidenceReport e = text_of
     ([''# Generated StarCraft API runtime evidence report.'',
       ''# This report is diagnostic evidence only. It does not claim BWAPI parity.'']
      @ map field_line (written_fields (report_fields e)))"
    by (simp add: makeRuntimeEvidenceReport_def concat_fields output_line_def)
  moreover have "list_all (\<lambda>l. CHR 0x0A \<notin> set l) (map field_line (written_fields (report_fields e)))"
    using written_fields_plain [OF plain_keys_report]
    by (fastforce simp: list_all_iff field_line_def plain_key_def)
  ultimately show ?thesis by (simp only: getlines_text_of list_all_append) simp
qed

lemma fields_split:
  "map (split_at CHR ''='') (map field_line (written_fields (report_fields e)))
     = map Some (written_fields (report_fields e))"
  using written_fields_plain [OF plain_keys_report]
  by (auto simp: field_line_def plain_key_def)

end
