(* ===== verification/Session_Properties.thy ===== *)
theory Session_Properties
  imports Session_Facts Launch_Diagnosis
begin

text \<open>
  What the log reader, the session summary, the diagnosis and the evidence report promise. The
  demonstration events are lines as the launcher writes them.
\<close>

section \<open>Timestamps\<close>

text \<open>
  C31. A timestamp written in the logs' format, with the date of any day of the calendar, is found in
  a line after text without digits and read as the milliseconds that have passed since 1 March of
  year 0 by a calendar that adds up the lengths of the years and months.
\<close>

theorem printed_timestamp_read_back:
  assumes "valid_date y mo d" "valid_time h mi s ms"
    and "list_all (\<lambda>ch. \<not> isDigit ch) before" "after = [] \<or> \<not> isDigit (hd after)"
  shows "parseLogTimestampMilliseconds (before @ print_timestamp y mo d h mi s ms @ after)
    = Some (print_timestamp y mo d h mi s ms, calendar_ms y mo d h mi s ms)"
  using assms by (rule parse_printed)

theorem printed_timestamp_read_back_witness:
  "parseLogTimestampMilliseconds (''[I '' @ print_timestamp 2024 2 29 23 59 58 7 @ ''] uid=s1'')
    = Some (print_timestamp 2024 2 29 23 59 58 7, calendar_ms 2024 2 29 23 59 58 7)"
proof (rule printed_timestamp_read_back)
  show "valid_date 2024 2 29" "valid_time 23 59 58 7"
    "list_all (\<lambda>ch. \<not> isDigit ch) ''[I ''" "''] uid=s1'' = [] \<or> \<not> isDigit (hd ''] uid=s1'')"
    by code_simp+
qed

lemma demo_timestamp: "print_timestamp 2024 2 29 23 59 58 7 = ''2024-02-29 23:59:58.007''"
  by code_simp

text \<open>
  Any timestamp that is accepted is a piece of the line of at least 19 characters, its number of
  milliseconds is far within the source's 64 bits, and the stored text is read back to the same
  number, which is what the age of the last session is computed from.
\<close>

theorem timestamp_value_bounded:
  assumes "parseLogTimestampMilliseconds line = Some (timestamp, milliseconds)"
  shows "mentions line timestamp \<and> 19 \<le> length timestamp
    \<and> -5184000000 \<le> milliseconds \<and> milliseconds < 2 ^ 49
    \<and> parseLogTimestampMilliseconds timestamp = Some (timestamp, milliseconds)"
  using parse_reparses [OF assms] parse_bounds [OF assms] by simp

theorem timestamp_value_bounded_witness:
  "mentions ''[I 2024-02-31 10:00:60.1239] x'' ''2024-02-31 10:00:60.1239''
    \<and> 63871408860123 < (2 :: int) ^ 49"
proof -
  have "parseLogTimestampMilliseconds ''[I 2024-02-31 10:00:60.1239] x''
      = Some (''2024-02-31 10:00:60.1239'', 63871408860123)"
    by code_simp
  from timestamp_value_bounded [OF this] show ?thesis by simp
qed

section \<open>Session events\<close>

definition demo_line :: "string \<Rightarrow> string \<Rightarrow> string" where
  "demo_line time text = ''2024-05-01 '' @ time @ '' '' @ text"

definition demo_started :: string where
  "demo_started = demo_line ''10:00:00.000'' ''Game is running: s1''"

definition demo_stopped :: string where
  "demo_stopped = demo_line ''10:00:05.500'' ''Game is no longer running: s1''"

definition demo_restarted :: string where
  "demo_restarted = demo_line ''11:00:00.000'' ''Game is running: s1''"

definition demo_logs :: "(string \<times> string list option) list" where
  "demo_logs = [(''new.log'', Some [demo_restarted]), (''locked.log'', None),
     (''old.log'', Some [demo_started, ''noise'', demo_stopped])]"

definition event_of :: "string \<Rightarrow> string \<Rightarrow> session_event" where
  "event_of category line = \<lparr>se_path = ''old.log'', se_category = category, se_line = line\<rparr>"

definition demo_events :: "session_event list" where
  "demo_events = [event_of ''starcraft-session-started'' demo_started,
     event_of ''starcraft-session-ended'' demo_stopped,
     event_of ''starcraft-session-started'' demo_restarted]"

text \<open>
  C25. When every session event in the inspected log files carries a timestamp, the collected events
  are the newest ones whatever files and lines they stand in, as many as the bound allows, in order
  of time: together with the older ones left out they are all events, sorted.
\<close>

theorem newest_events_kept:
  fixes maxEvents :: nat
  assumes "\<forall>e\<in>set (logged_events installation files maxFiles).
    parseLogTimestampMilliseconds (se_line e) \<noteq> None"
  shows "\<exists>older. let kept = collectRuntimeSessionEvents installation files maxFiles maxEvents in
    mset (older @ kept) = mset (logged_events installation files maxFiles)
    \<and> length kept = min maxEvents (length (logged_events installation files maxFiles))
    \<and> sorted (map event_time (older @ kept))"
  using collect_splits [OF assms] by (simp add: Let_def)

lemma demo_logged:
  "map se_line (logged_events remastered_installation demo_logs 8)
     = [demo_restarted, demo_started, demo_stopped]"
  "list_all (\<lambda>e. parseLogTimestampMilliseconds (se_line e) \<noteq> None)
     (logged_events remastered_installation demo_logs 8)"
  by code_simp+

theorem newest_events_kept_witness:
  "\<exists>older. let kept = collectRuntimeSessionEvents remastered_installation demo_logs 8 2 in
    mset (older @ kept) = mset (logged_events remastered_installation demo_logs 8)
    \<and> length kept = min 2 (length (logged_events remastered_installation demo_logs 8))
    \<and> sorted (map event_time (older @ kept))"
  by (rule newest_events_kept) (use demo_logged(2) in \<open>simp add: list_all_iff\<close>)

text \<open>
  C24. The transitions of a summary are the sessions of the ordered events: the first start with the
  first stop after it, then the same after that stop, repeated starts and stray stops skipped, a
  start without a stop at the end left incomplete. The two counters count them.
\<close>

theorem sessions_paired:
  "let s = summarizeRuntimeSessionEvents events; pairs = sessions (ordered_events events) in
     sm_transitions s = map transition_of pairs
     \<and> sm_completeTransitionCount s = int (length (filter (\<lambda>(_, stop). stop \<noteq> None) pairs))
     \<and> sm_incompleteTransitionCount s = int (length (filter (\<lambda>(_, stop). stop = None) pairs))"
  using summary_transitions summary_transition_counts by (simp add: Let_def)

text \<open>
  The summary depends on what the log files say and not on the order in which they are read:
  reordering events with distinct timestamps changes nothing in it.
\<close>

theorem summary_ignores_reading_order:
  assumes "mset events = mset events'" "distinct_times se_line events"
  shows "summarizeRuntimeSessionEvents events = summarizeRuntimeSessionEvents events'"
proof -
  have "foldl summary_step st (ordered_events events) = foldl summary_step st (ordered_events events')" for st
    using ordered_events_perm [OF assms] summary_steps_unindexed by metis
  then show ?thesis by (simp add: summarizeRuntimeSessionEvents_def)
qed

theorem summary_ignores_reading_order_witness:
  "summarizeRuntimeSessionEvents demo_events = summarizeRuntimeSessionEvents (rev demo_events)"
  by (rule summary_ignores_reading_order) (simp, code_simp)

text \<open>
  The shortest, longest and latest duration of a summary are the extremes and the last of the
  durations of its timed transitions, -1 when there is none, and each lies within an \<open>int\<close>.
\<close>

theorem duration_range_exact:
  "let s = summarizeRuntimeSessionEvents events;
       ds = filter (\<lambda>d. d \<ge> 0) (map st_durationMilliseconds (sm_transitions s)) in
     sm_shortestDurationMilliseconds s = (if ds = [] then -1 else Min (set ds))
     \<and> sm_longestDurationMilliseconds s = (if ds = [] then -1 else Max (set ds))
     \<and> sm_latestTransitionDurationMilliseconds s = (if ds = [] then -1 else last ds)
     \<and> list_all (\<lambda>d. d < 2 ^ 31) ds"
proof -
  have "list_all (\<lambda>d. d \<le> max_int) ds \<longleftrightarrow> list_all (\<lambda>d. d < 2 ^ 31) ds" for ds :: "int list"
    by (auto simp: max_int_def list_all_iff)
  then show ?thesis using summary_range [of events] by (simp only: range_ok_def durations_def Let_def)
qed

text \<open>
  Every event is counted by exactly one of the six counters.
\<close>

lemma every_event_counted:
  "sum_list (counters (summarizeRuntimeSessionEvents events)) = int (length events)"
proof -
  have "sum_list (counters s) = (\<Sum>k<6. counters s ! k)" for s
    by (simp add: counters_def eval_nat_numeral)
  then have "sum_list (counters (summarizeRuntimeSessionEvents events))
      = (\<Sum>k<6. int (length (filter (\<lambda>e. counter_slot (se_category e) = k) events)))"
    by (simp add: summary_counters)
  also have "\<dots> = int (length events)"
  proof (induction events)
    case (Cons e events)
    let ?n = "\<lambda>es k. int (length (filter (\<lambda>e. counter_slot (se_category e) = k) es))"
    have "counter_slot (se_category e) < 6" using counter_slot_le [of "se_category e"] by simp
    moreover have "?n (e # events) k = ?n events k + (if k = counter_slot (se_category e) then 1 else 0)" for k
      by simp
    ultimately show ?case using Cons by (simp add: sum.distrib del: filter.simps)
  qed simp
  finally show ?thesis .
qed

section \<open>Support errors and processes\<close>

text \<open>
  A line of a support page yields a code exactly when it contains a word of at least eight capitals
  and digits that starts with \<open>BLZ\<close>.
\<close>

lemma support_code_found_exactly:
  "extractBattleNetSupportCode line \<noteq> [] \<longleftrightarrow> isBattleNetSupportErrorLine line \<and>
     (\<exists>code. mentions line code \<and> starts_with code ''BLZ'' \<and> 8 \<le> length code
       \<and> list_all isBattleNetSupportCodeChar code)"
  by (simp add: extractBattleNetSupportCode_def support_code_iff)

text \<open>
  Whether a process is the game does not depend on the direction of the slashes: two commands,
  and two installations of one product, that differ only in that are classified alike.
\<close>

theorem game_found_with_either_slash:
  assumes "normalizePathSeparators command = normalizePathSeparators command'"
    and "normalizePathSeparators (ri_executablePath i) = normalizePathSeparators (ri_executablePath i')"
    and "normalizePathSeparators (ri_installRoot i) = normalizePathSeparators (ri_installRoot i')"
    and "ri_product i = ri_product i'" and "\<not> quoted_path (ri_executablePath i)"
  shows "categorizeProcessCommand i command = ''starcraft-game''
    \<longleftrightarrow> categorizeProcessCommand i' command' = ''starcraft-game''"
proof -
  have "\<not> quoted_path (ri_executablePath i')"
    using assms(2,5) quoted_path_normalize by metis
  then show ?thesis using assms by (simp add: categorize_game_iff)
qed

definition slashed_installation :: "string \<Rightarrow> runtime_installation" where
  "slashed_installation path = remastered_installation\<lparr>ri_product := StarCraftBroodWar1161,
     ri_executablePath := path, ri_installRoot := ''C:/SC''\<rparr>"

definition backslashed :: "string \<Rightarrow> string" where
  "backslashed s = map (\<lambda>ch. if ch = CHR ''/'' then CHR 0x5C else ch) s"

theorem game_found_with_either_slash_witness:
  "categorizeProcessCommand (slashed_installation ''C:/SC/StarCraft.exe'') ''C:/SC/StarCraft.exe -x''
      = ''starcraft-game''
    \<longleftrightarrow> categorizeProcessCommand (slashed_installation (backslashed ''C:/SC/StarCraft.exe''))
        (backslashed ''C:/SC/StarCraft.exe -x'') = ''starcraft-game''"
  by (rule game_found_with_either_slash) code_simp+

section \<open>The diagnosis\<close>

text \<open>
  C27. A launch is reported ready exactly when nothing blocks it: without a blocker the installation
  and its executable exist, a process of the game is visible, and the launch runs a process with a
  valid identifier; otherwise the status begins with \<open>blocked-\<close>.
\<close>

theorem ready_iff_no_blocker:
  "let d = diagnoseRuntimeEvidence e in
     (ld_readyForAttach d \<longleftrightarrow> ready_for_attach e) \<and> (ld_blockers d = [] \<longleftrightarrow> ready_for_attach e)
     \<and> (ld_status d = ''runtime-process-visible'' \<longleftrightarrow> ready_for_attach e)
     \<and> (starts_with (ld_status d) ''blocked-'' \<longleftrightarrow> \<not> ready_for_attach e)"
  using diagnosis_outcome [of e] observations_ready [of e]
  by (cases "ready_for_attach e") (auto simp: Let_def refusal_def starts_with_iff)

text \<open>
  The age test of a short session looks at the end of any transition but at the duration of the last
  timed one: after a session whose start has no timestamp, the diagnosis presents the duration of an
  earlier session, hours old, as that of the latest.
\<close>

definition stale_events :: "session_event list" where
  "stale_events = [event_of ''starcraft-session-started'' demo_started,
     event_of ''starcraft-session-ended'' demo_stopped,
     event_of ''starcraft-session-started'' ''Game is running: s1'',
     event_of ''starcraft-session-ended'' (demo_line ''13:00:00.000'' ''Game is no longer running: s1'')]"

lemma stale_ordered:
  "ordered_events stale_events =
     (let stamp = (\<lambda>k timestamp ms. \<lparr>ts_item = stale_events ! k, ts_timestamp = timestamp,
        ts_milliseconds = ms, ts_index = k, ts_hasTimestamp = timestamp \<noteq> []\<rparr>)
      in [stamp 0 ''2024-05-01 10:00:00.000'' 63876592800000, stamp 1 ''2024-05-01 10:00:05.500'' 63876592805500,
          stamp 2 [] 0, stamp 3 ''2024-05-01 13:00:00.000'' 63876603600000])"
  by code_simp

lemma stale_duration_reported:
  "let s = summarizeRuntimeSessionEvents stale_events in
     short_lived_session s \<and> sm_latestTransitionDurationMilliseconds s = 5500
     \<and> latestTransitionAgeMilliseconds s = 10794500
     \<and> map st_durationMilliseconds (sm_transitions s) = [5500, -1]"
proof -
  let ?s = "summarizeRuntimeSessionEvents stale_events"
  have parse: "parseLogTimestampMilliseconds ''2024-05-01 10:00:05.500'' = Some (''2024-05-01 10:00:05.500'', 63876592805500)"
    "parseLogTimestampMilliseconds ''2024-05-01 13:00:00.000'' = Some (''2024-05-01 13:00:00.000'', 63876603600000)"
    by code_simp+
  note steps = stale_events_def event_of_def summary_step_def session_handlers observe_def
    latest_def add_closed_def closed_transition_def empty_transition_def empty_summary_def
    updateSessionDurationRange_def clamped_duration_def max_int_def close_summary_def
  have s: "sm_latestTransitionDurationMilliseconds ?s = 5500"
    "sm_latestTransitionEndTimestamp ?s = ''2024-05-01 10:00:05.500''"
    "sm_latestObservedTimestamp ?s = ''2024-05-01 13:00:00.000''"
    "map st_durationMilliseconds (sm_transitions ?s) = [5500, -1]"
    "map st_complete (sm_transitions ?s) = [True, True]"
    "map st_endTimestamp (sm_transitions ?s) = [''2024-05-01 10:00:05.500'', ''2024-05-01 13:00:00.000'']"
    unfolding summarizeRuntimeSessionEvents_def stale_ordered by (simp_all add: steps)
  have age: "latestTransitionAgeMilliseconds ?s = 10794500"
    by (simp add: latestTransitionAgeMilliseconds_def timestampDeltaMilliseconds_def s parse
        clamped_duration_def max_int_def del: parseLogTimestampMilliseconds.simps)
  obtain t1 t2 where t: "sm_transitions ?s = [t1, t2]" using s(4) by (auto simp: map_eq_Cons_conv)
  have "latestObservedEventCompletesTransition ?s"
    using s t by (simp add: latestObservedEventCompletesTransition_def)
  then show ?thesis using s age by (simp add: short_lived_session_def short_lived_threshold_def Let_def)
qed

section \<open>The report\<close>

text \<open>
  C26. An evidence report cannot be forged by what it reports: whatever the log lines, commands and
  paths contain, its lines are the two comments and one line per field that is set, and splitting
  each at its first \<open>=\<close> gives back exactly the keys and the cleaned values.
\<close>

theorem report_reads_back:
  "let lines = getlines (makeRuntimeEvidenceReport e) in
     take 2 lines = [''# Generated StarCraft API runtime evidence report.'',
       ''# This report is diagnostic evidence only. It does not claim BWAPI parity.'']
     \<and> map (split_at CHR ''='') (drop 2 lines) = map Some (written_fields (report_fields e))"
  using fields_split [of e] by (simp add: report_lines Let_def)

end
