(* ===== verification/Launch_Targets.thy ===== *)
theory Launch_Targets
  imports Launch_Diagnosis
begin

text \<open>
  What a launch starts (\<open>RuntimeInstallation.cpp\<close>): the extra arguments split out of an environment
  variable, the arguments of the game's executable, the targets tried one after the other, and the
  check of a replay request. The environment (\<open>getenvString\<close>) and the test for a regular file are
  arguments; the members of \<open>std::filesystem::path\<close> used here are those of a POSIX host.
\<close>

section \<open>Paths\<close>

definition path_filename :: "string \<Rightarrow> string" where
  "path_filename p = rev (takeWhile (\<lambda>c. c \<noteq> CHR ''/'') (rev p))"

definition path_extension :: "string \<Rightarrow> string" where
  "path_extension p =
     (let f = path_filename p; suffix = rev (takeWhile (\<lambda>c. c \<noteq> CHR ''.'') (rev f))
      in if f = ''..'' \<or> length suffix = length f \<or> length suffix + 1 = length f then []
         else CHR ''.'' # suffix)"

definition path_parent :: "string \<Rightarrow> string" where
  "path_parent p =
     (if CHR ''/'' \<notin> set p then []
      else let d = rev (dropWhile (\<lambda>c. c = CHR ''/'') (dropWhile (\<lambda>c. c \<noteq> CHR ''/'') (rev p)))
        in if d = [] then ''/'' else d)"

definition path_is_relative :: "string \<Rightarrow> bool" where
  "path_is_relative p \<longleftrightarrow> \<not> starts_with p ''/''"

definition path_join :: "string \<Rightarrow> string \<Rightarrow> string" where
  "path_join a b =
     (if \<not> path_is_relative b then b
      else if a = [] \<or> last a = CHR ''/'' then a @ b else a @ ''/'' @ b)"

lemma path_parent_shorter:
  assumes p: "p \<noteq> []" "path_parent p \<noteq> p"
  shows "length (path_parent p) < length p"
proof (cases "CHR ''/'' \<in> set p")
  case False
  then show ?thesis using p by (simp add: path_parent_def)
next
  case slash: True
  let ?tail = "dropWhile (\<lambda>c. c \<noteq> CHR ''/'') (rev p)"
  let ?d = "dropWhile (\<lambda>c. c = CHR ''/'') ?tail"
  have parent: "path_parent p = (if ?d = [] then ''/'' else rev ?d)"
    using slash by (simp add: path_parent_def Let_def)
  have "?tail \<noteq> []" using slash by (simp add: dropWhile_eq_Nil_conv)
  moreover have "hd ?tail = CHR ''/''"
    using hd_dropWhile [OF \<open>?tail \<noteq> []\<close>] by simp
  ultimately have tail: "?tail = CHR ''/'' # tl ?tail" by (metis list.collapse)
  have "length ?d \<le> length (tl ?tail)"
    by (subst tail) (simp add: length_dropWhile_le del: length_tl)
  moreover have "Suc (length (tl ?tail)) = length ?tail" using \<open>?tail \<noteq> []\<close> by simp
  moreover have "length ?tail \<le> length p" by (metis length_dropWhile_le length_rev)
  ultimately have d: "length ?d < length p" by linarith
  show ?thesis
  proof (cases "?d = []")
    case True
    have "length p \<noteq> 1"
    proof
      assume "length p = 1"
      then obtain c where "p = [c]" by (metis One_nat_def length_0_conv length_Suc_conv)
      then show False using slash p(2) parent True by simp
    qed
    moreover have "length p \<noteq> 0" using p(1) by simp
    ultimately have "length p > 1" by linarith
    then show ?thesis using parent True by simp
  next
    case False
    then have "path_parent p = rev ?d" using parent by metis
    then show ?thesis using d by simp
  qed
qed

function appBundleForExecutablePath :: "string \<Rightarrow> string" where
  "appBundleForExecutablePath cursor =
     (if cursor = [] then []
      else if path_extension cursor = ''.app'' then cursor
      else if path_parent cursor = cursor then []
      else appBundleForExecutablePath (path_parent cursor))"
  by pat_completeness auto
termination
  by (relation "measure length") (auto simp: path_parent_shorter)

section \<open>Extra arguments\<close>

record split_state =
  sp_arguments :: "string list"
  sp_current :: string
  sp_quote :: "char option"
  sp_escaped :: bool

definition push_current :: "char \<Rightarrow> split_state \<Rightarrow> split_state" where
  "push_current ch st = st\<lparr>sp_current := sp_current st @ [ch]\<rparr>"

definition flush_current :: "split_state \<Rightarrow> split_state" where
  "flush_current st =
     (if sp_current st = [] then st
      else st\<lparr>sp_arguments := sp_arguments st @ [sp_current st], sp_current := []\<rparr>)"

definition split_char :: "split_state \<Rightarrow> char \<Rightarrow> split_state" where
  "split_char st ch =
     (if sp_escaped st then (push_current ch st)\<lparr>sp_escaped := False\<rparr>
      else if ch = CHR 0x5C then st\<lparr>sp_escaped := True\<rparr>
      else case sp_quote st of
        Some q \<Rightarrow> if ch = q then st\<lparr>sp_quote := None\<rparr> else push_current ch st
      | None \<Rightarrow>
          if ch = CHR 0x27 \<or> ch = CHR 0x22 then st\<lparr>sp_quote := Some ch\<rparr>
          else if is_space ch then flush_current st
          else push_current ch st)"

definition splitExtraLaunchArguments :: "string \<Rightarrow> string list" where
  "splitExtraLaunchArguments value =
     (let st = foldl split_char
            \<lparr>sp_arguments = [], sp_current = [], sp_quote = None, sp_escaped = False\<rparr> value;
          st = (if sp_escaped st then push_current (CHR 0x5C) st else st)
      in sp_arguments (flush_current st))"

text \<open>How a text is written so that it is one argument: special characters after a backslash.\<close>

definition escape_char :: "char \<Rightarrow> string" where
  "escape_char ch =
     (if ch = CHR 0x5C \<or> ch = CHR 0x27 \<or> ch = CHR 0x22 \<or> is_space ch then [CHR 0x5C, ch] else [ch])"

definition escape_argument :: "string \<Rightarrow> string" where
  "escape_argument s = concat (map escape_char s)"

lemma split_escaped:
  "sp_quote st = None \<Longrightarrow> \<not> sp_escaped st \<Longrightarrow>
     foldl split_char st (escape_argument s) = st\<lparr>sp_current := sp_current st @ s\<rparr>"
proof (induction s arbitrary: st)
  case (Cons ch s)
  have "foldl split_char st (escape_char ch) = st\<lparr>sp_current := sp_current st @ [ch]\<rparr>"
    using Cons.prems by (auto simp: escape_char_def split_char_def push_current_def)
  then show ?case using Cons by (simp add: escape_argument_def)
qed (simp add: escape_argument_def)

lemma split_join_escaped:
  "args \<noteq> [] \<Longrightarrow> list_all (\<lambda>a. a \<noteq> []) args \<Longrightarrow>
   sp_quote st = None \<Longrightarrow> \<not> sp_escaped st \<Longrightarrow> sp_current st = [] \<Longrightarrow>
     foldl split_char st (join_on (CHR '' '') (map escape_argument args))
       = st\<lparr>sp_arguments := sp_arguments st @ butlast args, sp_current := last args\<rparr>"
proof (induction args arbitrary: st)
  case (Cons a args)
  show ?case
  proof (cases args)
    case Nil
    then show ?thesis using Cons.prems by (simp add: split_escaped)
  next
    case (Cons b bs)
    let ?st = "st\<lparr>sp_arguments := sp_arguments st @ [a], sp_current := []\<rparr>"
    have "foldl split_char st (escape_argument a @ [CHR '' '']) = ?st"
      using Cons.prems by (simp add: split_escaped split_char_def flush_current_def is_space_def)
    moreover have "join_on (CHR '' '') (map escape_argument (a # args))
        = (escape_argument a @ [CHR '' '']) @ join_on (CHR '' '') (map escape_argument args)"
      using Cons by simp
    moreover have "foldl split_char ?st (join_on (CHR '' '') (map escape_argument args))
        = ?st\<lparr>sp_arguments := sp_arguments ?st @ butlast args, sp_current := last args\<rparr>"
      using Cons.prems Cons by (intro Cons.IH) auto
    ultimately show ?thesis using Cons by (simp only: foldl_append) simp
  qed
qed simp

lemma split_escaped_arguments:
  assumes "list_all (\<lambda>a. a \<noteq> []) args"
  shows "splitExtraLaunchArguments (join_on (CHR '' '') (map escape_argument args)) = args"
proof (cases "args = []")
  case True
  then show ?thesis by (simp add: splitExtraLaunchArguments_def flush_current_def)
next
  case False
  then have "last args \<noteq> []" using assms by (simp add: list_all_iff)
  then show ?thesis
    using split_join_escaped [OF False assms] False
    by (simp add: splitExtraLaunchArguments_def flush_current_def)
qed

section \<open>Targets\<close>

record launch_target =
  lt_kind :: string
  lt_executable :: string
  lt_arguments :: "string list"
  lt_allowImmediateSuccessExit :: bool

definition envValueIsFalse :: "string \<Rightarrow> bool" where
  "envValueIsFalse value =
     (let value = map to_lower value
      in value = ''0'' \<or> value = ''false'' \<or> value = ''off'' \<or> value = ''no'')"

definition remasteredWindowedLaunchEnabled :: "(string \<Rightarrow> string) \<Rightarrow> bool" where
  "remasteredWindowedLaunchEnabled env =
     (let value = env ''STARCRAFT_API_WINDOWED'' in value = [] \<or> \<not> envValueIsFalse value)"

definition getenvOrDefault :: "(string \<Rightarrow> string) \<Rightarrow> string \<Rightarrow> string \<Rightarrow> string" where
  "getenvOrDefault env name fallback = (if env name = [] then fallback else env name)"

definition legacy1161HostNeedsCompatibilityRuntime :: "platform \<Rightarrow> bool" where
  "legacy1161HostNeedsCompatibilityRuntime p \<longleftrightarrow> p = MacOS \<or> p = Linux"

definition makeExecutableLaunchArguments ::
  "(string \<Rightarrow> string) \<Rightarrow> runtime_installation \<Rightarrow> string \<Rightarrow> string list" where
  "makeExecutableLaunchArguments env installation replayPath =
     (if ri_product installation \<noteq> StarCraftRemastered then [ri_executablePath installation]
      else [ri_executablePath installation, ''-launch'', ''-uid'', ''s1'']
        @ (if remasteredWindowedLaunchEnabled env
           then [''-displayMode'', ''0'',
             ''-windowwidth'', getenvOrDefault env ''STARCRAFT_API_WINDOW_WIDTH'' ''1024'',
             ''-windowheight'', getenvOrDefault env ''STARCRAFT_API_WINDOW_HEIGHT'' ''768'',
             ''-windowx'', getenvOrDefault env ''STARCRAFT_API_WINDOW_X'' ''100'',
             ''-windowy'', getenvOrDefault env ''STARCRAFT_API_WINDOW_Y'' ''100'']
           else [])
        @ (if replayPath \<noteq> [] then [''playReplay'', replayPath] else [])
        @ splitExtraLaunchArguments (env ''STARCRAFT_API_EXTRA_ARGS''))"

definition makeLegacy1161LaunchArguments ::
  "(string \<Rightarrow> string) \<Rightarrow> runtime_installation \<Rightarrow> string list" where
  "makeLegacy1161LaunchArguments env installation =
     (let legacyArgs = env ''STARCRAFT_API_BW1161_EXTRA_ARGS''
      in (if legacy1161HostNeedsCompatibilityRuntime (ri_platform installation)
          then [ri_compatibilityRuntimePath installation, ri_executablePath installation]
          else [ri_executablePath installation])
         @ splitExtraLaunchArguments (if legacyArgs = [] then env ''STARCRAFT_API_EXTRA_ARGS'' else legacyArgs))"

definition makeExecutableLaunchTarget ::
  "(string \<Rightarrow> string) \<Rightarrow> runtime_installation \<Rightarrow> string \<Rightarrow> launch_target" where
  "makeExecutableLaunchTarget env installation replayPath =
     (if ri_product installation = StarCraftBroodWar1161
      then let needsCompatibilityRuntime = legacy1161HostNeedsCompatibilityRuntime (ri_platform installation)
        in \<lparr>lt_kind = (if needsCompatibilityRuntime then ''wine-executable'' else ''executable''),
            lt_executable = (if needsCompatibilityRuntime then ri_compatibilityRuntimePath installation
               else ri_executablePath installation),
            lt_arguments = makeLegacy1161LaunchArguments env installation,
            lt_allowImmediateSuccessExit = False\<rparr>
      else \<lparr>lt_kind = ''executable'', lt_executable = ri_executablePath installation,
            lt_arguments = makeExecutableLaunchArguments env installation replayPath,
            lt_allowImmediateSuccessExit = False\<rparr>)"

definition launcher_targets :: "(string \<Rightarrow> bool) \<Rightarrow> runtime_installation \<Rightarrow> launch_target list" where
  "launcher_targets fileExists installation =
     (let launcherApp = appBundleForExecutablePath (ri_launcherPath installation)
      in (if ri_platform installation = MacOS \<and> fileExists ''/usr/bin/open'' \<and> launcherApp \<noteq> []
          then [\<lparr>lt_kind = ''launcher-app'', lt_executable = ''/usr/bin/open'',
                 lt_arguments = [''/usr/bin/open'', launcherApp], lt_allowImmediateSuccessExit = True\<rparr>]
          else [])
         @ [\<lparr>lt_kind = ''launcher'', lt_executable = ri_launcherPath installation,
              lt_arguments = [ri_launcherPath installation], lt_allowImmediateSuccessExit = True\<rparr>])"

definition makeRuntimeLaunchTargets ::
  "(string \<Rightarrow> string) \<Rightarrow> (string \<Rightarrow> bool) \<Rightarrow> runtime_installation \<Rightarrow> string \<Rightarrow> launch_target list" where
  "makeRuntimeLaunchTargets env fileExists installation replayPath =
     (let remastered = ri_product installation = StarCraftRemastered;
          windowed = remasteredWindowedLaunchEnabled env;
          executable = makeExecutableLaunchTarget env installation replayPath
      in (if remastered \<and> windowed then [executable] else [])
         @ (if ri_launcherPath installation \<noteq> [] \<and> remastered
            then launcher_targets fileExists installation else [])
         @ (if \<not> remastered \<or> \<not> windowed then [executable] else []))"

section \<open>Replays\<close>

definition hasBroodWarReplayExtension :: "string \<Rightarrow> bool" where
  "hasBroodWarReplayExtension path \<longleftrightarrow> lowerCase (path_extension path) = ''.rep''"

definition replayPathExistsForLaunch ::
  "(string \<Rightarrow> bool) \<Rightarrow> runtime_installation \<Rightarrow> string \<Rightarrow> bool" where
  "replayPathExistsForLaunch fileExists installation replayPath =
     (if fileExists replayPath then True
      else if path_is_relative replayPath \<and> ri_installRoot installation \<noteq> []
      then fileExists (path_join (ri_installRoot installation) replayPath)
      else False)"

text \<open>The reason of a refusal; \<open>None\<close> where the request is valid.\<close>

definition validateReplayLaunchRequest ::
  "(string \<Rightarrow> bool) \<Rightarrow> runtime_installation \<Rightarrow> string \<Rightarrow> string option" where
  "validateReplayLaunchRequest fileExists installation replayPath =
     (if replayPath = [] then None
      else if ri_product installation \<noteq> StarCraftRemastered
      then Some ''play-replay requires StarCraft Remastered''
      else if \<not> hasBroodWarReplayExtension replayPath
      then Some (''play-replay requires a Brood War .rep replay file: '' @ replayPath)
      else if \<not> replayPathExistsForLaunch fileExists installation replayPath
      then Some (''play-replay replay file does not exist: '' @ replayPath)
      else None)"

end
