(* ===== verification/Launch_Control.thy ===== *)
theory Launch_Control
  imports Launch_Targets "HOL-Library.Monad_Syntax"
begin

text \<open>
  Launching the game or attaching to it (\<open>launchOrAttachRuntime\<close> in \<open>RuntimeInstallation.cpp\<close>, as
  compiled for Linux). The operating system is a parameter: a record of its calls, each a
  function on a state of the world. What the program does to the system, and what it was shown, is
  recorded in a trace: listings of processes, forks, exits seen at once and signals. The two waiting
  loops run on the system's clock; they are partial functions, \<open>None\<close> where they do not return.
\<close>

section \<open>The operating system\<close>

record memory_region =
  mr_size :: u64
  mr_readable :: bool
  mr_executable :: bool

text \<open>
  \<open>h_ps\<close> is the listing read by \<open>collectPosixObservedProcesses\<close>: the lines of the snapshot file when
  one is configured, else the pieces \<open>fgets\<close> reads from \<open>ps\<close>, none where it cannot be run. Of a memory
  region the members read here are kept. \<open>h_bridge\<close> is \<open>runtimeProcessHasActiveResidentBridge\<close> with
  its reason: it reads the bridge directory, whose validation is modelled in \<open>Resident_Bridge\<close>.
  \<open>h_regions\<close> is \<open>listProcessMemoryRegions\<close>, the left side its failure. \<open>h_fork\<close> is \<open>fork\<close> with all
  the child does. \<open>h_waitpid\<close> with \<open>WNOHANG\<close> returns the process and status and, for a normal exit,
  the exit code; \<open>h_kill\<close> returns the error text where it fails and takes whether the signal is
  \<open>SIGKILL\<close>.
\<close>

record 'w host =
  h_env :: "string \<Rightarrow> string"
  h_fileExists :: "string \<Rightarrow> bool"
  h_ps :: "'w \<Rightarrow> string list \<times> 'w"
  h_bridge :: "int \<Rightarrow> 'w \<Rightarrow> (bool \<times> string) \<times> 'w"
  h_regions :: "int \<Rightarrow> 'w \<Rightarrow> (string + memory_region list) \<times> 'w"
  h_sleep :: "int \<Rightarrow> 'w \<Rightarrow> 'w"
  h_now :: "'w \<Rightarrow> int \<times> 'w"
  h_fork :: "string \<Rightarrow> string list \<Rightarrow> string \<Rightarrow> 'w \<Rightarrow> int \<times> 'w"
  h_waitpid :: "int \<Rightarrow> 'w \<Rightarrow> (int \<times> int \<times> int option) \<times> 'w"
  h_kill :: "int \<Rightarrow> bool \<Rightarrow> 'w \<Rightarrow> string option \<times> 'w"
  h_exists :: "int \<Rightarrow> 'w \<Rightarrow> bool \<times> 'w"

datatype launch_action =
    Listed "observed_process list"
  | Forked string int
  | ExitedAtOnce int
  | Signalled int bool

record 'w launch_state =
  lw_world :: 'w
  lw_trace :: "launch_action list"

definition record_action :: "launch_action \<Rightarrow> 'w launch_state \<Rightarrow> 'w launch_state" where
  "record_action a s = s\<lparr>lw_trace := lw_trace s @ [a]\<rparr>"

definition query_host :: "('w \<Rightarrow> 'a \<times> 'w) \<Rightarrow> 'w launch_state \<Rightarrow> 'a \<times> 'w launch_state" where
  "query_host f s = (let (x, w) = f (lw_world s) in (x, s\<lparr>lw_world := w\<rparr>))"

definition pause :: "'w host \<Rightarrow> int \<Rightarrow> 'w launch_state \<Rightarrow> 'w launch_state" where
  "pause h ms s = s\<lparr>lw_world := h_sleep h ms (lw_world s)\<rparr>"

section \<open>Looking for processes\<close>

definition collectPosixObservedProcesses ::
  "'w host \<Rightarrow> runtime_installation \<Rightarrow> 'w launch_state \<Rightarrow> observed_process list \<times> 'w launch_state" where
  "collectPosixObservedProcesses h installation s =
     (let (lines, s) = query_host (h_ps h) s;
          processes = List.map_filter (parseObservedProcessLine installation) lines
      in (processes, record_action (Listed processes) s))"

definition processIdsForCategory ::
  "'w host \<Rightarrow> runtime_installation \<Rightarrow> string list \<Rightarrow> 'w launch_state \<Rightarrow> int list \<times> 'w launch_state" where
  "processIdsForCategory h installation categories s =
     (let (processes, s) = collectPosixObservedProcesses h installation s
      in (processIdsFromObservedProcesses processes categories, s))"

definition findRuntimeProcessIds ::
  "'w host \<Rightarrow> runtime_installation \<Rightarrow> 'w launch_state \<Rightarrow> int list \<times> 'w launch_state" where
  "findRuntimeProcessIds h installation s =
     (if \<not> ri_found installation then ([], s)
      else processIdsForCategory h installation [''starcraft-game''] s)"

definition findBattleNetHandoffProcesses ::
  "'w host \<Rightarrow> runtime_installation \<Rightarrow> 'w launch_state \<Rightarrow> int list \<times> 'w launch_state" where
  "findBattleNetHandoffProcesses h installation s =
     processIdsForCategory h installation [''battle.net-handoff''] s"

definition containsProcessId :: "int list \<Rightarrow> int \<Rightarrow> bool" where
  "containsProcessId processIds processId \<longleftrightarrow> processId \<in> set processIds"

definition initialized_regions :: "memory_region list \<Rightarrow> memory_region list" where
  "initialized_regions regions = filter (\<lambda>r. mr_readable r \<and> \<not> mr_executable r) regions"

definition runtimeProcessAppearsInitialized ::
  "'w host \<Rightarrow> int \<Rightarrow> 'w launch_state \<Rightarrow> (bool \<times> string) \<times> 'w launch_state" where
  "runtimeProcessAppearsInitialized h processId s =
     (let ((active, residentReason), s) = query_host (h_bridge h processId) s
      in if active then ((True, []), s)
         else let (regions, s) = query_host (h_regions h processId) s
           in case regions of
             Inl why \<Rightarrow>
               ((h_env h ''STARCRAFT_API_PROCESS_SNAPSHOT'' \<noteq> [],
                 (if residentReason = [] then ''runtime memory map inspection is unavailable: '' @ why
                  else residentReason @ ''; runtime memory map inspection is unavailable: '' @ why)), s)
           | Inr regions \<Rightarrow>
               let rs = initialized_regions regions; bytes = sum_list (map mr_size rs)
               in if length rs < 4 \<or> bytes < 4194304
                  then ((False, ''runtime process '' @ int_to_dec processId @ '' has only ''
                     @ nat_to_dec (length rs) @ '' non-executable readable region(s) and ''
                     @ nat_to_dec (unat bytes)
                     @ '' readable byte(s); treating it as launched-suspended/not initialized''), s)
                  else ((True, residentReason), s))"

text \<open>The process and the reason of a rejection, empty where none is given.\<close>

definition findStableProcessId ::
  "'w host \<Rightarrow> runtime_installation \<Rightarrow> int \<Rightarrow> 'w launch_state \<Rightarrow> (int \<times> string) \<times> 'w launch_state" where
  "findStableProcessId h installation stableMilliseconds s =
     (let (firstPass, s) = findRuntimeProcessIds h installation s
      in if firstPass = [] then ((0, []), s)
         else let processId = hd firstPass;
                  s = (if stableMilliseconds > 0 then pause h stableMilliseconds s else s);
                  (secondPass, s) = findRuntimeProcessIds h installation s
           in if containsProcessId secondPass processId
              then let ((initialized, reason), s) = runtimeProcessAppearsInitialized h processId s
                in if initialized then ((processId, []), s) else ((0, reason), s)
              else ((0, []), s))"

partial_function (option) wait_until ::
  "'w host \<Rightarrow> runtime_installation \<Rightarrow> int \<Rightarrow> int \<Rightarrow> int \<Rightarrow> string \<Rightarrow> 'w launch_state
    \<Rightarrow> ((int \<times> string) \<times> 'w launch_state) option" where
  "wait_until h installation waitMilliseconds stableMilliseconds deadline rejection s =
     (let ((stableProcessId, reason), s) = findStableProcessId h installation stableMilliseconds s
      in if stableProcessId > 0 then Some ((stableProcessId, rejection), s)
         else let rejection = (if reason \<noteq> [] then reason else rejection);
                  (now, s') = query_host (h_now h) s
           in if waitMilliseconds \<le> 0 then Some ((0, rejection), s)
              else if now \<ge> deadline then Some ((0, rejection), s')
              else wait_until h installation waitMilliseconds stableMilliseconds deadline rejection
                (pause h 250 s'))"

declare wait_until.simps [code]

definition waitForStableRuntimeProcess ::
  "'w host \<Rightarrow> runtime_installation \<Rightarrow> int \<Rightarrow> int \<Rightarrow> 'w launch_state
    \<Rightarrow> ((int \<times> string) \<times> 'w launch_state) option" where
  "waitForStableRuntimeProcess h installation waitMilliseconds stableMilliseconds s =
     (let (now, s) = query_host (h_now h) s
      in wait_until h installation waitMilliseconds stableMilliseconds (now + waitMilliseconds) [] s)"

section \<open>Starting and stopping processes\<close>

definition joinArgumentsForMessage :: "string list \<Rightarrow> string" where
  "joinArgumentsForMessage arguments = join_on (CHR '' '') arguments"

text \<open>The reason of the failure or the process.\<close>

definition forkExecProcess ::
  "'w host \<Rightarrow> string \<Rightarrow> string list \<Rightarrow> string \<Rightarrow> bool \<Rightarrow> 'w launch_state
    \<Rightarrow> (string + int) \<times> 'w launch_state" where
  "forkExecProcess h executable arguments workingDirectory allowImmediateSuccessExit s =
     (if executable = [] \<or> arguments = [] then (Inl ''launch target is empty'', s)
      else let (processId, s) = query_host (h_fork h executable arguments workingDirectory) s
        in if processId < 0 then (Inl (''fork failed for '' @ executable), s)
           else let s = pause h 500 (record_action (Forked executable processId) s);
                    ((exited, status, code), s) = query_host (h_waitpid h processId) s
             in if exited = processId
                then if allowImmediateSuccessExit \<and> code = Some 0 then (Inr processId, s)
                  else (Inl (''process exited immediately for '' @ joinArgumentsForMessage arguments
                      @ '' with status '' @ int_to_dec status),
                    record_action (ExitedAtOnce processId) s)
                else (Inr processId, s))"

definition no_result :: launch_result where
  "no_result =
     \<lparr>lr_requestAccepted = True, lr_launched = False, lr_running = False, lr_processId = 0,
       lr_requiredStableMilliseconds = 0, lr_observedStableMilliseconds = 0, lr_reason = [],
       lr_warnings = []\<rparr>"

definition warn :: "string \<Rightarrow> launch_result \<Rightarrow> launch_result" where
  "warn w r = r\<lparr>lr_warnings := lr_warnings r @ [w]\<rparr>"

definition launchRuntimeTarget ::
  "'w host \<Rightarrow> runtime_installation \<Rightarrow> launch_target \<Rightarrow> 'w launch_state
    \<Rightarrow> launch_result \<times> 'w launch_state" where
  "launchRuntimeTarget h installation target s =
     (let (outcome, s) = forkExecProcess h (lt_executable target) (lt_arguments target)
            (ri_installRoot installation) (lt_allowImmediateSuccessExit target) s
      in case outcome of
        Inl reason \<Rightarrow>
          let w = ''runtime.launch_target_failed='' @ lt_kind target @ '': '' @ reason
          in ((warn w no_result)\<lparr>lr_reason := w\<rparr>, s)
      | Inr pid \<Rightarrow>
          (warn (''runtime.launch_target='' @ lt_kind target)
            (no_result\<lparr>lr_launched := True, lr_processId := pid\<rparr>), s))"

text \<open>Up to \<open>n\<close> looks, a tenth of a second apart, for a child that exited or a process that is gone.\<close>

fun wait_gone :: "nat \<Rightarrow> 'w host \<Rightarrow> int \<Rightarrow> 'w launch_state \<Rightarrow> bool \<times> 'w launch_state" where
  "wait_gone 0 h processId s = (False, s)"
| "wait_gone (Suc n) h processId s =
     (let ((exited, _, _), s) = query_host (h_waitpid h processId) s
      in if exited = processId then (True, s)
         else let (alive, s) = query_host (h_exists h processId) s
           in if \<not> alive then (True, s) else wait_gone n h processId (pause h 100 s))"

definition signal_process ::
  "'w host \<Rightarrow> int \<Rightarrow> bool \<Rightarrow> 'w launch_state \<Rightarrow> string option \<times> 'w launch_state" where
  "signal_process h processId forced s =
     (let (failure, s) = query_host (h_kill h processId forced) s
      in (case failure of None \<Rightarrow> None
          | Some why \<Rightarrow> Some ((if forced then ''kill(SIGKILL)'' else ''kill(SIGTERM)'')
              @ '' failed for process '' @ int_to_dec processId @ '': '' @ why),
          record_action (Signalled processId forced) s))"

text \<open>The reason of the failure; \<open>None\<close> where the process is terminated.\<close>

definition terminateRuntimeProcessId ::
  "'w host \<Rightarrow> int \<Rightarrow> 'w launch_state \<Rightarrow> string option \<times> 'w launch_state" where
  "terminateRuntimeProcessId h processId s =
     (if processId \<le> 0 then (Some ''process id must be positive'', s)
      else let (failure, s) = signal_process h processId False s
        in if failure \<noteq> None then (failure, s)
           else let (gone, s) = wait_gone 20 h processId s
             in if gone then (None, s)
                else let (failure, s) = signal_process h processId True s
                  in if failure \<noteq> None then (failure, s)
                     else let (gone, s) = wait_gone 20 h processId s
                       in if gone then (None, s)
                          else (Some (''process is still visible after SIGTERM and SIGKILL: ''
                             @ int_to_dec processId), s))"

fun terminate_each ::
  "'w host \<Rightarrow> int list \<Rightarrow> string \<Rightarrow> string \<Rightarrow> launch_result \<Rightarrow> 'w launch_state
    \<Rightarrow> (bool \<times> launch_result) \<times> 'w launch_state" where
  "terminate_each h [] prefix failing r s = ((True, r), s)"
| "terminate_each h (processId # processIds) prefix failing r s =
     (let (failure, s) = terminateRuntimeProcessId h processId s
      in case failure of
        Some reason \<Rightarrow> ((False, r\<lparr>lr_reason := ''unable to terminate '' @ failing @ '': '' @ reason\<rparr>), s)
      | None \<Rightarrow> terminate_each h processIds prefix failing
          (warn (prefix @ ''='' @ int_to_dec processId) r) s)"

definition terminateRuntimeProcessIds ::
  "'w host \<Rightarrow> int list \<Rightarrow> string \<Rightarrow> string \<Rightarrow> launch_result \<Rightarrow> 'w launch_state
    \<Rightarrow> (bool \<times> launch_result) \<times> 'w launch_state" where
  "terminateRuntimeProcessIds h processIds prefix failing r s =
     (let ((ok, r), s) = terminate_each h processIds prefix failing r s
      in ((ok, r), if ok then pause h 1000 s else s))"

definition terminateStaleHandoffProcessIds where
  "terminateStaleHandoffProcessIds h processIds r s =
     terminateRuntimeProcessIds h processIds ''battle.net.stale_handoff_terminated''
       ''stale Battle.net handoff process'' r s"

definition terminateExistingGameProcessIds where
  "terminateExistingGameProcessIds h processIds r s =
     terminateRuntimeProcessIds h processIds ''runtime.existing_process_terminated''
       ''existing StarCraft process'' r s"

definition terminateLaunchTargetProcess ::
  "'w host \<Rightarrow> int \<Rightarrow> launch_result \<Rightarrow> string \<Rightarrow> 'w launch_state
    \<Rightarrow> (bool \<times> launch_result) \<times> 'w launch_state" where
  "terminateLaunchTargetProcess h processId r kind s =
     (if processId \<le> 0 then ((True, r), s)
      else let (alive, s) = query_host (h_exists h processId) s
        in if \<not> alive then ((True, r), s)
           else terminateRuntimeProcessIds h [processId] ''runtime.launch_target_process_terminated''
             (''non-initialized '' @ kind @ '' launch target process'') r s)"

section \<open>Launching\<close>

definition runtimeDisplayName :: "product \<Rightarrow> string" where
  "runtimeDisplayName p =
     (if p = StarCraftBroodWar1161 then ''StarCraft Brood War 1.16.1''
      else if p = StarCraftRemastered then ''StarCraft Remastered'' else ''StarCraft'')"

definition appendLaunchWarnings :: "launch_result \<Rightarrow> launch_result \<Rightarrow> launch_result" where
  "appendLaunchWarnings r launched = r\<lparr>lr_warnings := lr_warnings r @ lr_warnings launched\<rparr>"

definition numbered_warnings :: "string \<Rightarrow> int list \<Rightarrow> string list" where
  "numbered_warnings prefix ids =
     map2 (\<lambda>i pid. prefix @ ''.'' @ nat_to_dec i @ ''='' @ int_to_dec pid) [0..<length ids] ids"

definition appendBattleNetHandoffWarnings :: "launch_result \<Rightarrow> int list \<Rightarrow> string \<Rightarrow> launch_result" where
  "appendBattleNetHandoffWarnings r ids suffix =
     (if ids = [] then r
      else r\<lparr>lr_warnings := lr_warnings r
        @ [''battle.net.process_count'' @ suffix @ ''='' @ nat_to_dec (length ids),
           ''battle.net.process_id'' @ suffix @ ''='' @ int_to_dec (hd ids)]
        @ numbered_warnings (''battle.net.process_id'' @ suffix) ids\<rparr>)"

definition all_targets_failed :: "runtime_installation \<Rightarrow> launch_result \<Rightarrow> launch_result" where
  "all_targets_failed installation r =
     r\<lparr>lr_reason := (if lr_launched r
        then runtimeDisplayName (ri_product installation)
          @ '' launch targets were tried, but no matching game process became visible before the wait timeout''
        else if lr_warnings r = [] then ''fork/exec failed for all launch targets''
        else last (lr_warnings r))\<rparr>"

text \<open>
  After a target was launched and no game became visible: whether to go on with the next target, and
  the result so far.
\<close>

definition after_no_game ::
  "'w host \<Rightarrow> runtime_installation \<Rightarrow> bool \<Rightarrow> launch_target \<Rightarrow> int \<Rightarrow> string \<Rightarrow> launch_result
    \<Rightarrow> 'w launch_state \<Rightarrow> (bool \<times> launch_result) \<times> 'w launch_state" where
  "after_no_game h installation replaceStaleHandoff target launchedProcessId rejection r s =
     (let r = (if rejection \<noteq> [] then warn (''runtime.stable_process_rejected='' @ rejection) r else r);
          r = warn (''runtime.launch_target_no_game='' @ lt_kind target) r;
          ((ok, r), s) = (if lt_kind target = ''executable'' \<and> rejection \<noteq> []
             then terminateLaunchTargetProcess h launchedProcessId r (lt_kind target) s
             else ((True, r), s))
      in if \<not> ok then ((False, r), s)
         else let (handoffs, s) = findBattleNetHandoffProcesses h installation s
           in if handoffs = [] then ((True, r), s)
              else let r = appendBattleNetHandoffWarnings r handoffs ''_after_launch''
                in if \<not> replaceStaleHandoff
                   then ((False, r\<lparr>lr_reason :=
                      ''Battle.net StarCraft handoff became visible after launch target ''
                      @ lt_kind target
                      @ ''; not launching another Battle.net instance; no matching game process became visible before the wait timeout''\<rparr>), s)
                   else terminateStaleHandoffProcessIds h handoffs r s)"

fun launch_targets ::
  "'w host \<Rightarrow> runtime_installation \<Rightarrow> int \<Rightarrow> int \<Rightarrow> bool \<Rightarrow> launch_target list \<Rightarrow> launch_result
    \<Rightarrow> 'w launch_state \<Rightarrow> (launch_result \<times> 'w launch_state) option" where
  "launch_targets h installation waitMilliseconds stableMilliseconds replaceStaleHandoff [] r s =
     Some (all_targets_failed installation r, s)"
| "launch_targets h installation waitMilliseconds stableMilliseconds replaceStaleHandoff (target # targets) r s =
     (let (launched, s) = launchRuntimeTarget h installation target s;
          r = appendLaunchWarnings r launched
      in if \<not> lr_launched launched
         then launch_targets h installation waitMilliseconds stableMilliseconds replaceStaleHandoff targets r s
         else let r = r\<lparr>lr_launched := True, lr_processId := lr_processId launched\<rparr> in do {
           ((stableProcessId, rejection), s) \<leftarrow>
             waitForStableRuntimeProcess h installation waitMilliseconds stableMilliseconds s;
           if stableProcessId > 0
           then Some (r\<lparr>lr_running := True, lr_processId := stableProcessId,
             lr_observedStableMilliseconds := stableMilliseconds\<rparr>, s)
           else let ((continue, r), s) = after_no_game h installation replaceStaleHandoff target
                  (lr_processId launched) rejection r s
             in if continue
                then launch_targets h installation waitMilliseconds stableMilliseconds replaceStaleHandoff targets r s
                else Some (r, s) })"

definition launchRuntimeProcessWithFallback ::
  "'w host \<Rightarrow> runtime_installation \<Rightarrow> int \<Rightarrow> int \<Rightarrow> bool \<Rightarrow> string \<Rightarrow> 'w launch_state
    \<Rightarrow> (launch_result \<times> 'w launch_state) option" where
  "launchRuntimeProcessWithFallback h installation waitMilliseconds stableMilliseconds replaceStaleHandoff
     replayPath s =
     launch_targets h installation waitMilliseconds stableMilliseconds replaceStaleHandoff
       (makeRuntimeLaunchTargets (h_env h) (h_fileExists h) installation replayPath)
       (no_result\<lparr>lr_requiredStableMilliseconds := stableMilliseconds\<rparr>) s"

section \<open>Launching or attaching\<close>

definition adopt_launch :: "launch_result \<Rightarrow> launch_result \<Rightarrow> launch_result" where
  "adopt_launch r launched =
     (let r = (appendLaunchWarnings r launched)\<lparr>lr_launched := lr_launched launched,
            lr_processId := lr_processId launched, lr_running := lr_running launched,
            lr_observedStableMilliseconds := lr_observedStableMilliseconds launched\<rparr>
      in if \<not> lr_running launched then r\<lparr>lr_reason := lr_reason launched\<rparr> else r)"

definition launch_and_adopt ::
  "'w host \<Rightarrow> runtime_installation \<Rightarrow> int \<Rightarrow> int \<Rightarrow> bool \<Rightarrow> string \<Rightarrow> launch_result \<Rightarrow> 'w launch_state
    \<Rightarrow> (launch_result \<times> 'w launch_state) option" where
  "launch_and_adopt h installation waitMilliseconds stableMilliseconds replaceStaleHandoff replayPath r s =
     do { (launched, s) \<leftarrow> launchRuntimeProcessWithFallback h installation waitMilliseconds
            stableMilliseconds replaceStaleHandoff replayPath s;
          Some (adopt_launch r launched, s) }"

definition attached :: "int \<Rightarrow> int \<Rightarrow> launch_result \<Rightarrow> launch_result" where
  "attached stableMilliseconds stableProcessId r =
     r\<lparr>lr_running := True, lr_processId := stableProcessId,
       lr_observedStableMilliseconds := stableMilliseconds\<rparr>"

partial_function (option) await_handoff ::
  "'w host \<Rightarrow> runtime_installation \<Rightarrow> int \<Rightarrow> int \<Rightarrow> launch_result \<Rightarrow> 'w launch_state
    \<Rightarrow> (launch_result \<times> 'w launch_state) option" where
  "await_handoff h installation stableMilliseconds deadline r s =
     (let (now, s) = query_host (h_now h) s
      in if now < deadline
         then let ((stableProcessId, _), s) = findStableProcessId h installation stableMilliseconds s
           in if stableProcessId > 0 then Some (attached stableMilliseconds stableProcessId r, s)
              else await_handoff h installation stableMilliseconds deadline r (pause h 250 s)
         else Some (r\<lparr>lr_running := False, lr_reason :=
           ''Battle.net StarCraft handoff is already running; not launching another Battle.net instance; no matching game process became visible before the wait timeout''\<rparr>, s))"

declare await_handoff.simps [code]

text \<open>The part after no process to attach to was found and a launch is wanted.\<close>

definition launch_missing ::
  "'w host \<Rightarrow> runtime_installation \<Rightarrow> int \<Rightarrow> int \<Rightarrow> bool \<Rightarrow> string \<Rightarrow> launch_result \<Rightarrow> 'w launch_state
    \<Rightarrow> (launch_result \<times> 'w launch_state) option" where
  "launch_missing h installation waitMilliseconds stableMilliseconds replaceStaleHandoff replayPath r s =
     (let (handoffs, s) = findBattleNetHandoffProcesses h installation s
      in if handoffs = []
         then launch_and_adopt h installation waitMilliseconds stableMilliseconds replaceStaleHandoff replayPath r s
         else let r = appendBattleNetHandoffWarnings r handoffs []
           in if replaceStaleHandoff
              then let ((ok, r), s) = terminateStaleHandoffProcessIds h handoffs r s
                in if \<not> ok then Some (r, s)
                   else launch_and_adopt h installation waitMilliseconds stableMilliseconds
                     replaceStaleHandoff replayPath r s
              else let (now, s) = query_host (h_now h) s
                in await_handoff h installation stableMilliseconds (now + waitMilliseconds) r s)"

definition attach_or_launch ::
  "'w host \<Rightarrow> runtime_installation \<Rightarrow> bool \<Rightarrow> int \<Rightarrow> int \<Rightarrow> bool \<Rightarrow> bool \<Rightarrow> string \<Rightarrow> launch_result
    \<Rightarrow> 'w launch_state \<Rightarrow> (launch_result \<times> 'w launch_state) option" where
  "attach_or_launch h installation launchIfMissing waitMilliseconds stableMilliseconds replaceStaleHandoff
     replaceRunning replayPath r s =
     (let ((stableProcessId, rejection), s) = findStableProcessId h installation stableMilliseconds s
      in if stableProcessId > 0
         then if replayPath \<noteq> [] \<and> \<not> replaceRunning
           then Some (warn ''runtime.launch_replay_existing_process_requires_replace_running=true''
             (r\<lparr>lr_requestAccepted := False, lr_running := True, lr_processId := stableProcessId,
                lr_reason := ''play-replay requested but an existing StarCraft process is already running; use --replace-running to relaunch a single process with the replay''\<rparr>), s)
           else Some (attached stableMilliseconds stableProcessId r, s)
         else
           let (refused, r, s) = (if rejection = [] then (None, r, s)
             else let r = warn (''runtime.stable_process_rejected='' @ rejection) r;
                      (visible, s) = findRuntimeProcessIds h installation s
               in if visible \<noteq> [] \<and> \<not> replaceRunning
                  then (Some (warn ''runtime.existing_process_requires_replace_running=true''
                    (r\<lparr>lr_requestAccepted := False, lr_processId := hd visible, lr_reason :=
                       ''a StarCraft process is visible but not initialized for attach; use --replace-running to terminate it before relaunching''\<rparr>)), r, s)
                  else (None, r, s))
           in case refused of Some r \<Rightarrow> Some (r, s)
             | None \<Rightarrow>
                 if \<not> launchIfMissing
                 then Some (r\<lparr>lr_reason := runtimeDisplayName (ri_product installation)
                   @ '' is installed but no running process was found''\<rparr>, s)
                 else launch_missing h installation waitMilliseconds stableMilliseconds
                   replaceStaleHandoff replayPath r s)"

definition launchOrAttachRuntime ::
  "'w host \<Rightarrow> runtime_installation \<Rightarrow> bool \<Rightarrow> int \<Rightarrow> int \<Rightarrow> bool \<Rightarrow> bool \<Rightarrow> string
    \<Rightarrow> 'w launch_state \<Rightarrow> (launch_result \<times> 'w launch_state) option" where
  "launchOrAttachRuntime h installation launchIfMissing waitMilliseconds stableMilliseconds
     replaceStaleHandoff replaceRunning replayPath s =
     (let r = no_result\<lparr>lr_requiredStableMilliseconds := stableMilliseconds\<rparr>
      in if \<not> ri_found installation then Some (r\<lparr>lr_reason := ri_reason installation\<rparr>, s)
         else let r = (if replayPath \<noteq> [] then warn (''runtime.launch_replay='' @ replayPath) r else r)
           in case validateReplayLaunchRequest (h_fileExists h) installation replayPath of
             Some reason \<Rightarrow> Some (r\<lparr>lr_requestAccepted := False, lr_reason := reason\<rparr>, s)
           | None \<Rightarrow>
               if \<not> replaceRunning
               then attach_or_launch h installation launchIfMissing waitMilliseconds stableMilliseconds
                 replaceStaleHandoff replaceRunning replayPath r s
               else if \<not> launchIfMissing
               then Some (r\<lparr>lr_reason := ''replace-running requires launch''\<rparr>, s)
               else let (existing, s) = findRuntimeProcessIds h installation s
                 in if existing = []
                    then attach_or_launch h installation launchIfMissing waitMilliseconds stableMilliseconds
                      replaceStaleHandoff replaceRunning replayPath r s
                    else let r = warn (''runtime.existing_process_count='' @ nat_to_dec (length existing)) r;
                             ((ok, r), s) = terminateExistingGameProcessIds h existing r s
                      in if \<not> ok then Some (r, s)
                         else attach_or_launch h installation launchIfMissing waitMilliseconds
                           stableMilliseconds replaceStaleHandoff replaceRunning replayPath r s)"

end
