(* ===== verification/Launch_Facts.thy ===== *)
theory Launch_Facts
  imports Launch_Control
begin

text \<open>
  What a launch keeps and what follows. A predicate of the trace that process listings keep is kept by
  every search and by the two waiting loops (locale \<open>observing\<close>); one that signals keep as well is kept
  by every termination (locale \<open>acting\<close>); one that forks keep as well is kept by the whole launch
  (locale \<open>launching\<close>). Their instances: an attach without a launch starts and stops nothing, every
  fork comes after a listing without a Battle.net handoff, what is reported as running was listed as
  the game. Last, with a clock that advances every launch returns.
\<close>

lemma query_trace: "query_host f s = (x, s') \<Longrightarrow> lw_trace s' = lw_trace s"
  by (auto simp: query_host_def split: prod.splits)

lemma pause_trace [simp]: "lw_trace (pause h ms s) = lw_trace s"
  by (simp add: pause_def)

lemma record_trace [simp]: "lw_trace (record_action a s) = lw_trace s @ [a]"
  by (simp add: record_action_def)

lemma initialized_trace:
  "runtimeProcessAppearsInitialized h pid s = (x, s') \<Longrightarrow> lw_trace s' = lw_trace s"
  by (auto simp: runtimeProcessAppearsInitialized_def Let_def dest!: query_trace
      split: prod.splits if_splits sum.splits)

lemma wait_gone_trace: "wait_gone n h pid s = (x, s') \<Longrightarrow> lw_trace s' = lw_trace s"
proof (induction n arbitrary: s)
  case (Suc n)
  then show ?case by (auto simp: Let_def split: prod.splits if_splits dest!: query_trace)
qed simp

lemma signal_trace:
  "signal_process h pid forced s = (x, s') \<Longrightarrow> lw_trace s' = lw_trace s @ [Signalled pid forced]"
  by (auto simp: signal_process_def Let_def dest!: query_trace split: prod.splits)

section \<open>Searching and waiting\<close>

locale observing =
  fixes keeps :: "launch_action list \<Rightarrow> bool"
  assumes listing: "keeps tr \<Longrightarrow> keeps (tr @ [Listed processes])"
begin

lemma collect_keeps:
  "collectPosixObservedProcesses h i s = (ps, s') \<Longrightarrow> keeps (lw_trace s) \<Longrightarrow> keeps (lw_trace s')"
  by (auto simp: collectPosixObservedProcesses_def Let_def listing dest!: query_trace split: prod.splits)

lemma category_keeps:
  "processIdsForCategory h i cs s = (ids, s') \<Longrightarrow> keeps (lw_trace s) \<Longrightarrow> keeps (lw_trace s')"
  by (auto simp: processIdsForCategory_def split: prod.splits dest: collect_keeps)

lemma find_keeps:
  "findRuntimeProcessIds h i s = (ids, s') \<Longrightarrow> keeps (lw_trace s) \<Longrightarrow> keeps (lw_trace s')"
  "findBattleNetHandoffProcesses h i s = (ids, s') \<Longrightarrow> keeps (lw_trace s) \<Longrightarrow> keeps (lw_trace s')"
  by (auto simp: findRuntimeProcessIds_def findBattleNetHandoffProcesses_def split: if_splits
      dest: category_keeps)

lemma stable_keeps:
  assumes "findStableProcessId h i settle s = (x, s')" "keeps (lw_trace s)"
  shows "keeps (lw_trace s')"
proof -
  obtain ids1 s1 where 1: "findRuntimeProcessIds h i s = (ids1, s1)" by fastforce
  define t where "t = (if settle > 0 then pause h settle s1 else s1)"
  obtain ids2 s2 where 2: "findRuntimeProcessIds h i t = (ids2, s2)" by fastforce
  have k1: "keeps (lw_trace s1)" using find_keeps(1) [OF 1 assms(2)] .
  then have "keeps (lw_trace t)" by (simp add: t_def)
  then have k2: "keeps (lw_trace s2)" using find_keeps(1) [OF 2] by simp
  from assms(1) show ?thesis
    using k1 k2
    by (auto simp: findStableProcessId_def Let_def 1 2 [unfolded t_def] dest!: initialized_trace
        split: prod.splits if_splits)
qed

lemma wait_until_keeps:
  assumes "wait_until h i wait settle deadline rejection s = Some y"
  shows "keeps (lw_trace s) \<longrightarrow> keeps (lw_trace (snd y))"
proof (rule wait_until.raw_induct [of "\<lambda>h i wait settle deadline rejection s y.
    keeps (lw_trace s) \<longrightarrow> keeps (lw_trace (snd y))", OF _ assms], goal_cases)
  case (1 rec h i wait settle deadline rejection s y)
  obtain pid why s1 where 2: "findStableProcessId h i settle s = ((pid, why), s1)" by (metis prod.exhaust)
  obtain now s2 where 3: "query_host (h_now h) s1 = (now, s2)" by fastforce
  show ?case
    using 1(2) 1(1) [of h i wait settle deadline _ "pause h 250 s2" y] stable_keeps [OF 2] query_trace [OF 3]
    by (auto simp: 2 3 Let_def split: if_splits)
qed

lemma wait_for_keeps:
  "waitForStableRuntimeProcess h i wait settle s = Some (x, s') \<Longrightarrow> keeps (lw_trace s) \<Longrightarrow> keeps (lw_trace s')"
  by (auto simp: waitForStableRuntimeProcess_def dest!: wait_until_keeps query_trace split: prod.splits)

lemma await_keeps:
  assumes "await_handoff h i settle deadline r s = Some y"
  shows "keeps (lw_trace s) \<longrightarrow> keeps (lw_trace (snd y))"
proof (rule await_handoff.raw_induct [of "\<lambda>h i settle deadline r s y.
    keeps (lw_trace s) \<longrightarrow> keeps (lw_trace (snd y))", OF _ assms], goal_cases)
  case (1 rec h i settle deadline r s y)
  obtain now s1 where 2: "query_host (h_now h) s = (now, s1)" by fastforce
  obtain pid why s2 where 3: "findStableProcessId h i settle s1 = ((pid, why), s2)" by (metis prod.exhaust)
  show ?case
    using 1(2) 1(1) [of h i settle deadline r "pause h 250 s2" y] stable_keeps [OF 3] query_trace [OF 2]
    by (auto simp: 2 3 split: if_splits)
qed

end

section \<open>Terminating\<close>

locale acting = observing +
  assumes signal: "keeps tr \<Longrightarrow> keeps (tr @ [Signalled pid forced])"
begin

lemma two_signals: "keeps tr \<Longrightarrow> keeps (tr @ [Signalled pid forced, Signalled pid' forced'])"
  using signal [OF signal] by simp

lemma terminate_keeps:
  "terminateRuntimeProcessId h pid s = (x, s') \<Longrightarrow> keeps (lw_trace s) \<Longrightarrow> keeps (lw_trace s')"
  by (auto simp: terminateRuntimeProcessId_def split: prod.splits if_splits
      dest!: wait_gone_trace signal_trace intro!: signal two_signals)

lemma terminate_each_keeps:
  "terminate_each h ids prefix failing r s = (x, s') \<Longrightarrow> keeps (lw_trace s) \<Longrightarrow> keeps (lw_trace s')"
proof (induction ids arbitrary: r s)
  case (Cons pid ids)
  then show ?case by (auto split: prod.splits option.splits dest: terminate_keeps)
qed simp

lemma terminate_ids_keeps:
  "terminateRuntimeProcessIds h ids prefix failing r s = (x, s') \<Longrightarrow> keeps (lw_trace s) \<Longrightarrow> keeps (lw_trace s')"
  by (auto simp: terminateRuntimeProcessIds_def split: prod.splits if_splits dest: terminate_each_keeps)

lemma terminate_target_keeps:
  "terminateLaunchTargetProcess h pid r kind s = (x, s') \<Longrightarrow> keeps (lw_trace s) \<Longrightarrow> keeps (lw_trace s')"
  by (auto simp: terminateLaunchTargetProcess_def split: prod.splits if_splits
      dest!: query_trace dest: terminate_ids_keeps)

lemma after_no_game_keeps:
  "after_no_game h i replace target pid rejection r s = (x, s') \<Longrightarrow> keeps (lw_trace s) \<Longrightarrow> keeps (lw_trace s')"
  by (auto simp: after_no_game_def Let_def terminateStaleHandoffProcessIds_def split: prod.splits if_splits
      dest: terminate_target_keeps find_keeps terminate_ids_keeps)

end

section \<open>Launching\<close>

locale launching = acting +
  assumes fork: "keeps tr \<Longrightarrow> keeps (tr @ [Forked executable pid])"
    and exited: "keeps tr \<Longrightarrow> keeps (tr @ [ExitedAtOnce pid])"
begin

lemma fork_and_exit: "keeps tr \<Longrightarrow> keeps (tr @ [Forked executable pid, ExitedAtOnce pid'])"
  using exited [OF fork] by simp

lemma fork_keeps:
  "forkExecProcess h executable arguments dir allow s = (x, s') \<Longrightarrow> keeps (lw_trace s) \<Longrightarrow> keeps (lw_trace s')"
  by (auto simp: forkExecProcess_def Let_def fork fork_and_exit dest!: query_trace split: prod.splits if_splits)

lemma launch_target_keeps:
  "launchRuntimeTarget h i target s = (x, s') \<Longrightarrow> keeps (lw_trace s) \<Longrightarrow> keeps (lw_trace s')"
  by (auto simp: launchRuntimeTarget_def Let_def split: prod.splits sum.splits dest: fork_keeps)

lemma launch_targets_keeps:
  "launch_targets h i wait settle replace targets r s = Some (x, s') \<Longrightarrow> keeps (lw_trace s) \<Longrightarrow> keeps (lw_trace s')"
proof (induction targets arbitrary: r s)
  case (Cons target targets)
  obtain launched s1 where 1: "launchRuntimeTarget h i target s = (launched, s1)" by fastforce
  have k: "keeps (lw_trace s1)" using launch_target_keeps [OF 1] Cons.prems(2) .
  show ?case
  proof (cases "lr_launched launched")
    case False
    then show ?thesis using Cons.prems(1) Cons.IH [OF _ k] by (simp add: 1)
  next
    case True
    with Cons.prems(1) obtain pid why s2 where
      2: "waitForStableRuntimeProcess h i wait settle s1 = Some ((pid, why), s2)"
      by (auto simp: 1 Let_def bind_eq_Some_conv)
    have k2: "keeps (lw_trace s2)" using wait_for_keeps [OF 2 k] .
    show ?thesis
      using Cons.prems(1) True k2
      by (auto simp: 1 2 Let_def split: if_splits prod.splits dest!: after_no_game_keeps
          intro: Cons.IH)
  qed
qed simp

lemma launch_and_adopt_keeps:
  "launch_and_adopt h i wait settle replace replay r s = Some (x, s') \<Longrightarrow> keeps (lw_trace s) \<Longrightarrow> keeps (lw_trace s')"
  by (auto simp: launch_and_adopt_def launchRuntimeProcessWithFallback_def bind_eq_Some_conv
      dest: launch_targets_keeps)

end

section \<open>Forks and signals\<close>

fun is_listing :: "launch_action \<Rightarrow> bool" where
  "is_listing (Listed _) = True"
| "is_listing _ = False"

definition effects :: "launch_action list \<Rightarrow> launch_action list" where
  "effects tr = filter (\<lambda>a. \<not> is_listing a) tr"

interpretation unaffected: observing "\<lambda>tr. effects tr = es" for es
  by unfold_locales (simp add: effects_def)

lemma attach_only:
  "\<exists>r' s'. attach_or_launch h i False wait settle replaceStale replaceRunning replay r s = Some (r', s')
     \<and> effects (lw_trace s') = effects (lw_trace s) \<and> lr_launched r' = lr_launched r"
proof -
  obtain pid why s1 where 1: "findStableProcessId h i settle s = ((pid, why), s1)" by (metis prod.exhaust)
  obtain ids s2 where 2: "findRuntimeProcessIds h i s1 = (ids, s2)" by fastforce
  have "effects (lw_trace s1) = effects (lw_trace s)" "effects (lw_trace s2) = effects (lw_trace s)"
    using unaffected.stable_keeps [OF 1] unaffected.find_keeps(1) [OF 2] by simp_all
  then show ?thesis
    by (auto simp: attach_or_launch_def 1 2 warn_def attached_def Let_def)
qed

lemma launch_refused_without_launch:
  "\<exists>r s'. launchOrAttachRuntime h i False wait settle replaceStale replaceRunning replay s = Some (r, s')
     \<and> effects (lw_trace s') = effects (lw_trace s) \<and> \<not> lr_launched r"
proof -
  have "\<exists>r s'. attach_or_launch h i False wait settle replaceStale False replay r0 s = Some (r, s')
      \<and> effects (lw_trace s') = effects (lw_trace s) \<and> \<not> lr_launched r" if "\<not> lr_launched r0" for r0
    using attach_only [of h i wait settle replaceStale False replay r0 s] that by auto
  moreover have "\<not> lr_launched (warn w r)" if "\<not> lr_launched r" for w and r :: launch_result
    using that by (simp add: warn_def)
  moreover have "\<not> lr_launched (no_result\<lparr>lr_requiredStableMilliseconds := settle\<rparr>)"
    by (simp add: no_result_def)
  ultimately show ?thesis
    by (auto simp: launchOrAttachRuntime_def Let_def split: option.split)
qed

section \<open>Guarded forks\<close>

definition no_handoff :: "observed_process list \<Rightarrow> bool" where
  "no_handoff processes \<longleftrightarrow> processIdsFromObservedProcesses processes [''battle.net-handoff''] = []"

text \<open>
  A monitor of the forks: what the last listing showed and whether a process was started since. It
  fails with \<open>None\<close> where a process is forked in any other situation than \<open>Clear\<close>. A process that
  exited at once no longer counts.
\<close>

datatype watch_state = Unclear | Clear | Started

fun watch :: "watch_state option \<Rightarrow> launch_action \<Rightarrow> watch_state option" where
  "watch None _ = None"
| "watch (Some _) (Listed processes) = Some (if no_handoff processes then Clear else Unclear)"
| "watch (Some st) (Forked _ _) = (if st = Clear then Some Started else None)"
| "watch (Some st) (ExitedAtOnce _) = (if st = Started then Some Clear else None)"
| "watch (Some st) (Signalled _ _) = Some st"

definition watched :: "launch_action list \<Rightarrow> watch_state option" where
  "watched tr = foldl watch (Some Unclear) tr"

lemma watched_snoc [simp]: "watched (tr @ [a]) = watch (watched tr) a"
  by (simp add: watched_def)

interpretation guarded: acting "\<lambda>tr. watched tr \<noteq> None"
  by unfold_locales auto

lemma no_handoff_clears:
  assumes "findBattleNetHandoffProcesses h i s = ([], s')" "watched (lw_trace s) \<noteq> None"
  shows "watched (lw_trace s') = Some Clear"
  using assms
  by (auto simp: findBattleNetHandoffProcesses_def processIdsForCategory_def
      collectPosixObservedProcesses_def Let_def no_handoff_def split: prod.splits dest!: query_trace)

lemma fork_clear:
  assumes "forkExecProcess h executable arguments dir allow s = (x, s')" "watched (lw_trace s) = Some Clear"
  shows "watched (lw_trace s') = Some (case x of Inl _ \<Rightarrow> Clear | Inr _ \<Rightarrow> Started)"
proof -
  have snoc2: "watched (tr @ [a, b]) = watch (watch (watched tr) a) b" for tr a b
    using watched_snoc [of "tr @ [a]" b] by simp
  show ?thesis
    using assms by (auto simp: forkExecProcess_def Let_def snoc2 split: prod.splits if_splits dest!: query_trace)
qed

lemma target_clear:
  assumes "launchRuntimeTarget h i target s = (launched, s')" "watched (lw_trace s) = Some Clear"
  shows "watched (lw_trace s') = Some (if lr_launched launched then Started else Clear)"
  using assms
  by (auto simp: launchRuntimeTarget_def Let_def warn_def no_result_def dest!: fork_clear
      split: prod.splits sum.splits)

lemma after_no_game_clear:
  assumes "after_no_game h i False target pid why r s = ((go_on, r'), s')" "watched (lw_trace s) \<noteq> None"
  shows "watched (lw_trace s') \<noteq> None" "go_on \<Longrightarrow> watched (lw_trace s') = Some Clear"
proof -
  show "watched (lw_trace s') \<noteq> None"
    using guarded.after_no_game_keeps [OF assms(1)] assms(2) by simp
  show "watched (lw_trace s') = Some Clear" if "go_on"
    using assms that
    by (auto simp: after_no_game_def Let_def split: prod.splits if_splits
        dest!: no_handoff_clears guarded.terminate_target_keeps)
qed

lemma launch_targets_clear:
  "launch_targets h i wait settle False targets r s = Some (r', s') \<Longrightarrow>
     watched (lw_trace s) = Some Clear \<Longrightarrow> watched (lw_trace s') \<noteq> None"
proof (induction targets arbitrary: r s)
  case (Cons target targets)
  obtain launched s1 where 1: "launchRuntimeTarget h i target s = (launched, s1)" by fastforce
  have k: "watched (lw_trace s1) = Some (if lr_launched launched then Started else Clear)"
    using target_clear [OF 1 Cons.prems(2)] .
  show ?case
  proof (cases "lr_launched launched")
    case False
    then show ?thesis using Cons.prems(1) k by (simp add: 1 Cons.IH)
  next
    case True
    with Cons.prems(1) obtain pid why s2 where
      2: "waitForStableRuntimeProcess h i wait settle s1 = Some ((pid, why), s2)"
      by (auto simp: 1 Let_def bind_eq_Some_conv)
    have k2: "watched (lw_trace s2) \<noteq> None" using guarded.wait_for_keeps [OF 2] k by simp
    let ?r = "(appendLaunchWarnings r launched)\<lparr>lr_launched := True, lr_processId := lr_processId launched\<rparr>"
    obtain go_on r3 s3 where
      3: "after_no_game h i False target (lr_processId launched) why ?r s2 = ((go_on, r3), s3)"
      by (metis prod.exhaust)
    show ?thesis
      using Cons.prems(1) True k2 after_no_game_clear [OF 3 k2] Cons.IH [of r3 s3]
      by (auto simp: 1 2 3 Let_def split: if_splits)
  qed
qed simp

lemma launch_missing_clear:
  assumes "launch_missing h i wait settle False replay r s = Some (r', s')" "watched (lw_trace s) \<noteq> None"
  shows "watched (lw_trace s') \<noteq> None"
proof -
  obtain handoffs s1 where 1: "findBattleNetHandoffProcesses h i s = (handoffs, s1)" by fastforce
  show ?thesis
  proof (cases "handoffs = []")
    case True
    then have "watched (lw_trace s1) = Some Clear"
      using no_handoff_clears 1 assms(2) by blast
    then show ?thesis
      using assms(1) True launch_targets_clear
      by (auto simp: launch_missing_def 1 launch_and_adopt_def launchRuntimeProcessWithFallback_def
          bind_eq_Some_conv)
  next
    case False
    have "watched (lw_trace s1) \<noteq> None" using guarded.find_keeps(2) [OF 1] assms(2) by simp
    moreover obtain now s2 where 2: "query_host (h_now h) s1 = (now, s2)" by fastforce
    ultimately show ?thesis
      using assms(1) False query_trace [OF 2]
      by (auto simp: launch_missing_def 1 2 Let_def dest!: guarded.await_keeps)
  qed
qed

lemma attach_or_launch_clear:
  assumes "attach_or_launch h i launch wait settle False replaceRunning replay r s = Some (r', s')"
    and "watched (lw_trace s) \<noteq> None"
  shows "watched (lw_trace s') \<noteq> None"
proof -
  obtain pid why s1 where 1: "findStableProcessId h i settle s = ((pid, why), s1)" by (metis prod.exhaust)
  obtain ids s2 where 2: "findRuntimeProcessIds h i s1 = (ids, s2)" by fastforce
  have k: "watched (lw_trace s1) \<noteq> None" "watched (lw_trace s2) \<noteq> None"
    using guarded.stable_keeps [OF 1] guarded.find_keeps(1) [OF 2] assms(2) by simp_all
  show ?thesis
    using assms(1) k launch_missing_clear [of h i wait settle replay]
    by (auto simp: attach_or_launch_def 1 2 Let_def split: if_splits option.splits simp del: not_None_eq)
qed

lemma launch_clear:
  assumes "launchOrAttachRuntime h i launch wait settle False replaceRunning replay s = Some (r, s')"
    and k: "watched (lw_trace s) \<noteq> None"
  shows "watched (lw_trace s') \<noteq> None"
proof -
  obtain ids s1 where 1: "findRuntimeProcessIds h i s = (ids, s1)" by fastforce
  have k1: "watched (lw_trace s1) \<noteq> None" using guarded.find_keeps(1) [OF 1] k by simp
  have k2: "watched (lw_trace s2) \<noteq> None"
    if "terminateExistingGameProcessIds h ids r0 s1 = (x, s2)" for r0 x s2
    using guarded.terminate_ids_keeps [OF that [unfolded terminateExistingGameProcessIds_def]] k1 by simp
  show ?thesis
    using assms(1) k k1 k2 attach_or_launch_clear [of h i launch wait settle]
    by (auto simp: launchOrAttachRuntime_def 1 Let_def simp del: not_None_eq
        split: if_splits option.splits prod.splits)
qed

text \<open>What the monitor means: the last listing before a fork, and what happened since.\<close>

fun is_fork :: "launch_action \<Rightarrow> bool" where
  "is_fork (Forked _ _) = True"
| "is_fork _ = False"

fun is_exit :: "launch_action \<Rightarrow> bool" where
  "is_exit (ExitedAtOnce _) = True"
| "is_exit _ = False"

definition cleared :: "launch_action list \<Rightarrow> nat \<Rightarrow> bool" where
  "cleared tr started \<longleftrightarrow>
     (\<exists>before processes since. tr = before @ Listed processes # since \<and> no_handoff processes
        \<and> \<not> list_ex is_listing since
        \<and> length (filter is_fork since) = length (filter is_exit since) + started)"

lemma cleared_Listed: "no_handoff processes \<Longrightarrow> cleared (tr @ [Listed processes]) 0"
  unfolding cleared_def by (intro exI [of _ tr] exI [of _ processes] exI [of _ "[]"]) simp

lemma cleared_snoc:
  "cleared tr n \<Longrightarrow> cleared (tr @ [Forked e pid]) (Suc n)"
  "cleared tr (Suc n) \<Longrightarrow> cleared (tr @ [ExitedAtOnce pid]) n"
  "cleared tr n \<Longrightarrow> cleared (tr @ [Signalled pid forced]) n"
proof -
  have step: "cleared (tr @ [a]) n'"
    if c: "cleared tr n" and l: "\<not> is_listing a" and
      count: "\<And>forks exits. forks = exits + n \<Longrightarrow>
        forks + (if is_fork a then 1 else 0) = exits + (if is_exit a then 1 else 0) + n'" for a n n'
  proof -
    obtain before processes since where
      d: "tr = before @ Listed processes # since" "no_handoff processes"
        "\<not> list_ex is_listing since" "length (filter is_fork since) = length (filter is_exit since) + n"
      using c unfolding cleared_def by blast
    have "tr @ [a] = before @ Listed processes # (since @ [a])" using d(1) by simp
    moreover have "\<not> list_ex is_listing (since @ [a])" using d(3) l by simp
    moreover have "length (filter is_fork (since @ [a])) = length (filter is_exit (since @ [a])) + n'"
      using count [OF d(4)] by (simp split: if_splits)
    ultimately show ?thesis using d(2) unfolding cleared_def by blast
  qed
  show "cleared tr n \<Longrightarrow> cleared (tr @ [Forked e pid]) (Suc n)" by (erule step) simp_all
  show "cleared tr (Suc n) \<Longrightarrow> cleared (tr @ [ExitedAtOnce pid]) n" by (erule step) simp_all
  show "cleared tr n \<Longrightarrow> cleared (tr @ [Signalled pid forced]) n" by (erule step) simp_all
qed

lemma watched_cleared:
  "(watched tr = Some Clear \<longrightarrow> cleared tr 0) \<and> (watched tr = Some Started \<longrightarrow> cleared tr 1)"
proof (induction tr rule: rev_induct)
  case Nil
  then show ?case by (simp add: watched_def)
next
  case (snoc a tr)
  then show ?case
    by (cases a; cases "watched tr")
      (auto simp: cleared_Listed cleared_snoc(3) split: if_splits
        intro: cleared_snoc(1) [where n = 0, simplified] cleared_snoc(2) [where n = 0, simplified])
qed

lemma watched_prefix: "watched (tr @ tr') \<noteq> None \<Longrightarrow> watched tr \<noteq> None"
proof (induction tr' rule: rev_induct)
  case (snoc a tr')
  then show ?case by (metis append_assoc watch.simps(1) watched_snoc)
qed simp

lemma fork_is_cleared:
  assumes "watched tr \<noteq> None" "tr = before @ Forked executable pid # after"
  shows "cleared before 0"
proof -
  have "watched (before @ [Forked executable pid]) \<noteq> None"
    using watched_prefix [of "before @ [Forked executable pid]" after] assms by simp
  then have "watched before = Some Clear"
    by (cases "watched before") (auto split: if_splits)
  then show ?thesis using watched_cleared by blast
qed

section \<open>What is running was listed\<close>

definition game_listed :: "int \<Rightarrow> launch_action list \<Rightarrow> bool" where
  "game_listed pid tr \<longleftrightarrow>
     (\<exists>processes p. Listed processes \<in> set tr \<and> p \<in> set processes \<and> op_processId p = pid
        \<and> lineContainsAny (op_category p) [''starcraft-game''])"

interpretation listed: launching "game_listed pid" for pid
  by unfold_locales (auto simp: game_listed_def)

lemma find_lists:
  assumes "findRuntimeProcessIds h i s = (ids, s')" "pid \<in> set ids"
  shows "game_listed pid (lw_trace s')"
proof -
  obtain lines s1 where 1: "query_host (h_ps h) s = (lines, s1)" by fastforce
  have "ri_found i" using assms by (auto simp: findRuntimeProcessIds_def split: if_splits)
  then have ids: "ids = processIdsFromObservedProcesses
      (List.map_filter (parseObservedProcessLine i) lines) [''starcraft-game'']"
    and s': "s' = record_action (Listed (List.map_filter (parseObservedProcessLine i) lines)) s1"
    using assms(1)
    by (auto simp: findRuntimeProcessIds_def processIdsForCategory_def collectPosixObservedProcesses_def 1
        Let_def)
  show ?thesis
    using assms(2) unfolding ids s' game_listed_def
    by (auto simp: processIdsFromObservedProcesses_def)
qed

lemma stable_lists:
  assumes "findStableProcessId h i settle s = ((pid, why), s')" "pid > 0"
  shows "game_listed pid (lw_trace s')"
proof -
  obtain ids1 s1 where 1: "findRuntimeProcessIds h i s = (ids1, s1)" by fastforce
  define t where "t = (if settle > 0 then pause h settle s1 else s1)"
  obtain ids2 s2 where 2: "findRuntimeProcessIds h i t = (ids2, s2)" by fastforce
  show ?thesis
    using assms find_lists [OF 2]
    by (auto simp: findStableProcessId_def Let_def 1 2 [unfolded t_def] containsProcessId_def
        dest!: initialized_trace split: prod.splits if_splits)
qed

lemma wait_until_lists:
  assumes "wait_until h i wait settle deadline rejection s = Some y"
  shows "fst (fst y) > 0 \<longrightarrow> game_listed (fst (fst y)) (lw_trace (snd y))"
proof (rule wait_until.raw_induct [of "\<lambda>h i wait settle deadline rejection s y.
    fst (fst y) > 0 \<longrightarrow> game_listed (fst (fst y)) (lw_trace (snd y))", OF _ assms], goal_cases)
  case (1 rec h i wait settle deadline rejection s y)
  obtain pid why s1 where 2: "findStableProcessId h i settle s = ((pid, why), s1)" by (metis prod.exhaust)
  obtain now s2 where 3: "query_host (h_now h) s1 = (now, s2)" by fastforce
  show ?case
    using 1(2) 1(1) [of h i wait settle deadline _ "pause h 250 s2" y] stable_lists [OF 2]
    by (auto simp: 2 3 Let_def split: if_splits)
qed

definition running_listed :: "launch_result \<Rightarrow> 'w launch_state \<Rightarrow> bool" where
  "running_listed r s \<longleftrightarrow> (lr_running r \<longrightarrow> lr_processId r > 0 \<and> game_listed (lr_processId r) (lw_trace s))"

lemma await_lists:
  assumes "await_handoff h i settle deadline r s = Some y"
  shows "running_listed (fst y) (snd y)"
proof (rule await_handoff.raw_induct [of "\<lambda>h i settle deadline r s y.
    running_listed (fst y) (snd y)", OF _ assms], goal_cases)
  case (1 rec h i settle deadline r s y)
  obtain now s1 where 2: "query_host (h_now h) s = (now, s1)" by fastforce
  obtain pid why s2 where 3: "findStableProcessId h i settle s1 = ((pid, why), s2)" by (metis prod.exhaust)
  show ?case
    using 1(2) 1(1) [of h i settle deadline r "pause h 250 s2" y] stable_lists [OF 3]
    by (auto simp: 2 3 running_listed_def attached_def split: if_splits)
qed

lemma terminate_each_running:
  "terminate_each h ids prefix failing r s = ((ok, r'), s') \<Longrightarrow> lr_running r' = lr_running r"
proof (induction ids arbitrary: r s)
  case (Cons pid ids)
  then show ?case by (auto simp: warn_def split: prod.splits option.splits)
qed simp

lemma terminate_ids_running:
  "terminateRuntimeProcessIds h ids prefix failing r s = ((ok, r'), s') \<Longrightarrow> lr_running r' = lr_running r"
  by (auto simp: terminateRuntimeProcessIds_def split: prod.splits dest: terminate_each_running)

lemma after_no_game_running:
  "after_no_game h i replace target pid why r s = ((go_on, r'), s') \<Longrightarrow> lr_running r' = lr_running r"
  by (auto simp: after_no_game_def Let_def terminateLaunchTargetProcess_def terminateStaleHandoffProcessIds_def
      warn_def appendBattleNetHandoffWarnings_def split: prod.splits if_splits dest!: terminate_ids_running)

lemma launch_targets_listed:
  "launch_targets h i wait settle replace targets r s = Some (r', s') \<Longrightarrow> \<not> lr_running r \<Longrightarrow>
     running_listed r' s'"
proof (induction targets arbitrary: r s)
  case Nil
  then show ?case by (auto simp: running_listed_def all_targets_failed_def)
next
  case (Cons target targets)
  obtain launched s1 where 1: "launchRuntimeTarget h i target s = (launched, s1)" by fastforce
  show ?case
  proof (cases "lr_launched launched")
    case False
    then show ?thesis using Cons.prems by (simp add: 1 Cons.IH appendLaunchWarnings_def)
  next
    case True
    with Cons.prems(1) obtain pid why s2 where
      2: "waitForStableRuntimeProcess h i wait settle s1 = Some ((pid, why), s2)"
      by (auto simp: 1 Let_def bind_eq_Some_conv)
    have listed: "pid > 0 \<Longrightarrow> game_listed pid (lw_trace s2)"
      using 2 by (auto simp: waitForStableRuntimeProcess_def split: prod.splits dest!: wait_until_lists)
    let ?r = "(appendLaunchWarnings r launched)\<lparr>lr_launched := True, lr_processId := lr_processId launched\<rparr>"
    obtain go_on r3 s3 where
      3: "after_no_game h i replace target (lr_processId launched) why ?r s2 = ((go_on, r3), s3)"
      by (metis prod.exhaust)
    have "\<not> lr_running r3"
      using after_no_game_running [OF 3] Cons.prems(2) by (simp add: appendLaunchWarnings_def)
    then show ?thesis
      using Cons.prems(1) True listed Cons.IH [of r3 s3]
      by (auto simp: 1 2 3 Let_def running_listed_def split: if_splits)
  qed
qed

lemma launch_and_adopt_listed:
  "launch_and_adopt h i wait settle replace replay r s = Some (r', s') \<Longrightarrow> running_listed r' s'"
  by (auto simp: launch_and_adopt_def launchRuntimeProcessWithFallback_def bind_eq_Some_conv
      adopt_launch_def appendLaunchWarnings_def running_listed_def no_result_def Let_def
      dest!: launch_targets_listed)

lemma launch_missing_listed:
  "launch_missing h i wait settle replace replay r s = Some (r', s') \<Longrightarrow> \<not> lr_running r \<Longrightarrow> running_listed r' s'"
  by (auto simp: launch_missing_def Let_def terminateStaleHandoffProcessIds_def running_listed_def
      appendBattleNetHandoffWarnings_def split: prod.splits if_splits
      dest: launch_and_adopt_listed await_lists dest!: terminate_ids_running)

lemma attach_or_launch_listed:
  assumes "attach_or_launch h i launch wait settle replace replaceRunning replay r s = Some (r', s')"
    and "\<not> lr_running r"
  shows "running_listed r' s'"
proof -
  obtain pid why s1 where 1: "findStableProcessId h i settle s = ((pid, why), s1)" by (metis prod.exhaust)
  obtain ids s2 where 2: "findRuntimeProcessIds h i s1 = (ids, s2)" by fastforce
  have none: "\<not> lr_running r0 \<Longrightarrow> running_listed r0 t" for r0 and t :: "'a launch_state"
    by (simp add: running_listed_def)
  have "launch_missing h i wait settle replace replay r0 t = Some (r', s') \<Longrightarrow> \<not> lr_running r0 \<Longrightarrow>
      running_listed r' s'" for r0 t
    by (rule launch_missing_listed)
  moreover have "pid > 0 \<Longrightarrow> game_listed pid (lw_trace s1)" using stable_lists [OF 1] by simp
  ultimately show ?thesis
    using assms none
    by (auto simp: attach_or_launch_def 1 2 Let_def running_listed_def warn_def attached_def
        split: if_splits option.splits)
qed

lemma launch_listed:
  assumes "launchOrAttachRuntime h i launch wait settle replace replaceRunning replay s = Some (r, s')"
  shows "running_listed r s'"
proof -
  have start: "\<not> lr_running (no_result\<lparr>lr_requiredStableMilliseconds := settle\<rparr>)"
    "\<not> lr_running r0 \<Longrightarrow> \<not> lr_running (warn w r0)" for w r0
    by (simp_all add: no_result_def warn_def)
  have attach: "attach_or_launch h i launch wait settle replace rr replay r0 t = Some (r, s') \<Longrightarrow>
      \<not> lr_running r0 \<Longrightarrow> running_listed r s'" for rr r0 t
    by (rule attach_or_launch_listed)
  show ?thesis
    using assms start
    by (auto simp: launchOrAttachRuntime_def Let_def terminateExistingGameProcessIds_def
        split: if_splits option.splits prod.splits dest!: terminate_ids_running intro: attach)
      (auto simp: running_listed_def)
qed

section \<open>Launches return\<close>

text \<open>
  A clock that never goes back and that a sleep moves on by at least its duration
  (\<open>std::chrono::steady_clock\<close>, \<open>std::this_thread::sleep_for\<close>).
\<close>

definition steady_clock :: "'w host \<Rightarrow> ('w \<Rightarrow> int) \<Rightarrow> bool" where
  "steady_clock h time \<longleftrightarrow>
     (\<forall>w. time w \<le> fst (h_now h w) \<and> time w \<le> time (snd (h_now h w)) \<and> time w \<le> time (snd (h_ps h w)))
     \<and> (\<forall>ms w. time w + ms \<le> time (h_sleep h ms w))
     \<and> (\<forall>pid w. time w \<le> time (snd (h_bridge h pid w)) \<and> time w \<le> time (snd (h_regions h pid w)))"

lemma now_time:
  assumes "steady_clock h time" "query_host (h_now h) s = (now, s')"
  shows "time (lw_world s) \<le> now" "time (lw_world s) \<le> time (lw_world s')"
  using assms by (auto simp: query_host_def steady_clock_def split: prod.splits) (metis fst_conv snd_conv)+

lemma pause_time: "steady_clock h time \<Longrightarrow> time (lw_world s) + ms \<le> time (lw_world (pause h ms s))"
  by (simp add: pause_def steady_clock_def)

lemma find_time:
  assumes "steady_clock h time" "findRuntimeProcessIds h i s = (ids, s')"
  shows "time (lw_world s) \<le> time (lw_world s')"
proof -
  have "time (lw_world s) \<le> time (snd (h_ps h (lw_world s)))"
    using assms(1) by (simp add: steady_clock_def)
  then show ?thesis
    using assms(2)
    by (auto simp: findRuntimeProcessIds_def processIdsForCategory_def collectPosixObservedProcesses_def
        query_host_def record_action_def Let_def split: prod.splits if_splits)
qed

lemma initialized_time:
  assumes "steady_clock h time" "runtimeProcessAppearsInitialized h pid s = (x, s')"
  shows "time (lw_world s) \<le> time (lw_world s')"
proof -
  obtain active why s1 where 1: "query_host (h_bridge h pid) s = ((active, why), s1)" by (metis prod.exhaust)
  obtain regions s2 where 2: "query_host (h_regions h pid) s1 = (regions, s2)" by fastforce
  have "time (lw_world s) \<le> time (lw_world s1)" "time (lw_world s1) \<le> time (lw_world s2)"
    using assms(1) 1 2 by (auto simp: query_host_def steady_clock_def split: prod.splits) (metis snd_conv)+
  moreover have "s' = s1 \<or> s' = s2"
    using assms(2) by (auto simp: runtimeProcessAppearsInitialized_def 1 2 Let_def
        split: if_splits sum.splits)
  ultimately show ?thesis by auto
qed

lemma stable_time:
  assumes clock: "steady_clock h time" and f: "findStableProcessId h i settle s = (x, s')"
  shows "time (lw_world s) \<le> time (lw_world s')"
proof -
  obtain ids1 s1 where 1: "findRuntimeProcessIds h i s = (ids1, s1)" by fastforce
  define t where "t = (if settle > 0 then pause h settle s1 else s1)"
  obtain ids2 s2 where 2: "findRuntimeProcessIds h i t = (ids2, s2)" by fastforce
  have "time (lw_world s) \<le> time (lw_world s1)" using find_time [OF clock 1] .
  moreover have "time (lw_world s1) \<le> time (lw_world t)"
    using pause_time [OF clock, of s1 settle] by (simp add: t_def)
  moreover have "time (lw_world t) \<le> time (lw_world s2)" using find_time [OF clock 2] .
  moreover have "s' = s1 \<or> s' = s2 \<or> (\<exists>pid x. runtimeProcessAppearsInitialized h pid s2 = (x, s'))"
    using f by (auto simp: findStableProcessId_def Let_def 1 2 [unfolded t_def] split: if_splits prod.splits)
  ultimately show ?thesis using initialized_time [OF clock] by force
qed

lemma wait_until_returns:
  assumes clock: "steady_clock h time"
  shows "\<exists>y. wait_until h i wait settle deadline rejection s = Some y"
proof (induction "nat (deadline - time (lw_world s))" arbitrary: rejection s rule: less_induct)
  case less
  obtain pid why s1 where 1: "findStableProcessId h i settle s = ((pid, why), s1)" by (metis prod.exhaust)
  obtain now s2 where 2: "query_host (h_now h) s1 = (now, s2)" by fastforce
  show ?case
  proof (cases "pid > 0 \<or> wait \<le> 0 \<or> now \<ge> deadline")
    case True
    then show ?thesis by (auto simp: wait_until.simps [of h i wait settle deadline rejection s] 1 2 Let_def)
  next
    case False
    have "time (lw_world s) < time (lw_world (pause h 250 s2))" "time (lw_world s) < deadline"
      using stable_time [OF clock 1] now_time [OF clock 2] pause_time [OF clock, of s2 250] False by linarith+
    then have "nat (deadline - time (lw_world (pause h 250 s2))) < nat (deadline - time (lw_world s))"
      by linarith
    from less [OF this] show ?thesis
      by (simp add: wait_until.simps [of h i wait settle deadline rejection s] 1 2 Let_def)
  qed
qed

lemma await_returns:
  assumes clock: "steady_clock h time"
  shows "\<exists>y. await_handoff h i settle deadline r s = Some y"
proof (induction "nat (deadline - time (lw_world s))" arbitrary: s rule: less_induct)
  case less
  obtain now s1 where 1: "query_host (h_now h) s = (now, s1)" by fastforce
  obtain pid why s2 where 2: "findStableProcessId h i settle s1 = ((pid, why), s2)" by (metis prod.exhaust)
  show ?case
  proof (cases "now < deadline \<and> \<not> pid > 0")
    case False
    then show ?thesis by (auto simp: await_handoff.simps [of h i settle deadline r s] 1 2)
  next
    case True
    have "time (lw_world s) < time (lw_world (pause h 250 s2))" "time (lw_world s) < deadline"
      using stable_time [OF clock 2] now_time [OF clock 1] pause_time [OF clock, of s2 250] True by linarith+
    then have "nat (deadline - time (lw_world (pause h 250 s2))) < nat (deadline - time (lw_world s))"
      by linarith
    from less [OF this] True show ?thesis
      by (simp add: await_handoff.simps [of h i settle deadline r s] 1 2)
  qed
qed

lemma launch_targets_returns:
  assumes clock: "steady_clock h time"
  shows "\<exists>y. launch_targets h i wait settle replace targets r s = Some y"
proof (induction targets arbitrary: r s)
  case (Cons target targets)
  obtain launched s1 where 1: "launchRuntimeTarget h i target s = (launched, s1)" by fastforce
  obtain now s2 where 2: "query_host (h_now h) s1 = (now, s2)" by fastforce
  obtain pid why s3 where
    3: "wait_until h i wait settle (now + wait) [] s2 = Some ((pid, why), s3)"
    using wait_until_returns [OF clock] by (metis prod.exhaust)
  let ?r = "(appendLaunchWarnings r launched)\<lparr>lr_launched := True, lr_processId := lr_processId launched\<rparr>"
  obtain go_on r4 s4 where
    4: "after_no_game h i replace target (lr_processId launched) why ?r s3 = ((go_on, r4), s4)"
    by (metis prod.exhaust)
  show ?case
    using Cons.IH by (simp add: 1 2 3 4 waitForStableRuntimeProcess_def Let_def)
qed simp

lemma launch_and_adopt_returns:
  "steady_clock h time \<Longrightarrow> \<exists>y. launch_and_adopt h i wait settle replace replay r s = Some y"
  using launch_targets_returns
  by (fastforce simp: launch_and_adopt_def launchRuntimeProcessWithFallback_def bind_eq_Some_conv)

lemma launch_missing_returns:
  assumes "steady_clock h time"
  shows "\<exists>y. launch_missing h i wait settle replace replay r s = Some y"
  using launch_and_adopt_returns [OF assms] await_returns [OF assms]
  by (auto simp: launch_missing_def Let_def split: prod.split)

lemma attach_or_launch_returns:
  assumes "steady_clock h time"
  shows "\<exists>y. attach_or_launch h i launch wait settle replace replaceRunning replay r s = Some y"
  using launch_missing_returns [OF assms]
  by (auto simp: attach_or_launch_def Let_def split: prod.split option.split)

lemma launchOrAttach_returns:
  assumes "steady_clock h time"
  shows "\<exists>y. launchOrAttachRuntime h i launch wait settle replace replaceRunning replay s = Some y"
  using attach_or_launch_returns [OF assms]
  by (auto simp: launchOrAttachRuntime_def Let_def split: prod.split option.split)

end
