(* ===== verification/Launch_Properties.thy ===== *)
theory Launch_Properties
  imports Launch_Facts
begin

text \<open>
  The properties of launching and attaching, with a demonstration host: a clock that sleeping moves,
  no or one Battle.net handoff at first, and a game of process 42 from half a second on.
\<close>

section \<open>A demonstration host\<close>

definition demo_game_line :: string where
  "demo_game_line = ''42 1 /opt/bw/StarCraft.exe -launch''"

definition demo_handoff_line :: string where
  "demo_handoff_line = ''7 1 /Applications/Battle.net.app/Contents/MacOS/Battle.net --game=s1''"

definition demo_region :: memory_region where
  "demo_region = \<lparr>mr_size = 2097152, mr_readable = True, mr_executable = False\<rparr>"

definition demo_host :: "bool \<Rightarrow> int host" where
  "demo_host handoff =
     \<lparr>h_env = (\<lambda>_. []), h_fileExists = (\<lambda>_. True),
       h_ps = (\<lambda>t. (if t \<ge> 500 then [demo_game_line] else if handoff then [demo_handoff_line] else [], t)),
       h_bridge = (\<lambda>_ t. ((False, []), t)),
       h_regions = (\<lambda>_ t. (Inr (replicate 4 demo_region), t)),
       h_sleep = (\<lambda>ms t. t + \<bar>ms\<bar>), h_now = (\<lambda>t. (t, t)),
       h_fork = (\<lambda>_ _ _ t. (42, t)), h_waitpid = (\<lambda>_ t. ((0, 0, None), t)),
       h_kill = (\<lambda>_ _ t. (None, t)), h_exists = (\<lambda>_ t. (True, t))\<rparr>"

definition demo_start :: "int launch_state" where
  "demo_start = \<lparr>lw_world = 0, lw_trace = []\<rparr>"

lemma demo_clock: "steady_clock (demo_host handoff) id"
  by (simp add: steady_clock_def demo_host_def abs_ge_self)

lemma demo_launch:
  "map_option (\<lambda>(r, s). (lr_running r, lr_processId r, list_ex is_fork (lw_trace s)))
     (launchOrAttachRuntime (demo_host False) remastered_installation True 1000 0 False False ''a.rep'' demo_start)
   = Some (True, 42, True)"
  by code_simp

lemma demo_run:
  obtains r s' where "launchOrAttachRuntime (demo_host False) remastered_installation True 1000 0 False False
      ''a.rep'' demo_start = Some (r, s')"
    and "lr_running r" "lr_processId r = 42" "list_ex is_fork (lw_trace s')"
  using demo_launch by auto

lemma list_ex_is_fork:
  assumes "list_ex is_fork tr"
  obtains before executable pid after where "tr = before @ Forked executable pid # after"
proof -
  from assms obtain a where a: "a \<in> set tr" "is_fork a" by (auto simp: list_ex_iff)
  obtain executable pid where "a = Forked executable pid" using a(2) by (cases a) simp_all
  with a(1) that show ?thesis by (metis split_list)
qed

section \<open>Properties\<close>

text \<open>
  C30. Without a launch (\<open>launchIfMissing\<close> false) the call returns whatever the other options, the host
  and the processes are, even on a host whose clock stands still: no process is started and none is
  signalled, and the result does not claim a launch.
\<close>

theorem attach_changes_nothing:
  "\<exists>r s'. launchOrAttachRuntime h i False wait settle replaceStale replaceRunning replay s = Some (r, s')
     \<and> filter (\<lambda>a. \<not> is_listing a) (lw_trace s') = filter (\<lambda>a. \<not> is_listing a) (lw_trace s)
     \<and> \<not> lr_launched r"
  using launch_refused_without_launch [of h i wait settle replaceStale replaceRunning replay s]
  by (simp add: effects_def)

text \<open>
  C28. With \<open>replaceStaleHandoff\<close> off, every process a launch starts comes after a listing of the
  processes without a Battle.net handoff, with no other listing in between; every process started
  since that listing has exited at once. So no second target is started next to a first one that may
  still be handing over to Battle.net.
\<close>

theorem forks_guarded:
  assumes "launchOrAttachRuntime h i launch wait settle False replaceRunning replay s = Some (r, s')"
    and "lw_trace s = []"
    and "lw_trace s' = before @ Forked executable pid # after"
  shows "\<exists>earlier processes since. before = earlier @ Listed processes # since
     \<and> processIdsFromObservedProcesses processes [''battle.net-handoff''] = []
     \<and> \<not> list_ex is_listing since
     \<and> length (filter is_fork since) = length (filter is_exit since)"
proof -
  have "watched (lw_trace s') \<noteq> None"
    using launch_clear [OF assms(1)] assms(2) by (simp add: watched_def)
  from fork_is_cleared [OF this assms(3)] show ?thesis
    by (auto simp: cleared_def no_handoff_def)
qed

theorem forks_guarded_witness:
  "\<exists>r s' before executable pid after earlier processes since.
     launchOrAttachRuntime (demo_host False) remastered_installation True 1000 0 False False ''a.rep''
       demo_start = Some (r, s')
     \<and> lw_trace s' = before @ Forked executable pid # after
     \<and> before = earlier @ Listed processes # since
     \<and> processIdsFromObservedProcesses processes [''battle.net-handoff''] = []
     \<and> \<not> list_ex is_listing since
     \<and> length (filter is_fork since) = length (filter is_exit since)"
proof -
  obtain r s' where run: "launchOrAttachRuntime (demo_host False) remastered_installation True 1000 0
      False False ''a.rep'' demo_start = Some (r, s')" and "list_ex is_fork (lw_trace s')"
    by (rule demo_run)
  then obtain before executable pid after where
    split: "lw_trace s' = before @ Forked executable pid # after"
    by (auto elim: list_ex_is_fork)
  have "lw_trace demo_start = []" by (simp add: demo_start_def)
  from forks_guarded [OF run this split] run split show ?thesis by blast
qed

text \<open>
  C29. On a host whose clock never goes back and is moved on by every sleep, a launch or attach always
  returns, for every combination of options, processes and launch targets, also where no game ever
  appears. Where it reports a running game, the process is a positive number that a listing taken
  during the call showed as the game.
\<close>

theorem launch_returns_listed:
  assumes "steady_clock h time" and "lw_trace s = []"
  shows "\<exists>r s'. launchOrAttachRuntime h i launch wait settle replaceStale replaceRunning replay s = Some (r, s')
     \<and> (lr_running r \<longrightarrow> lr_processId r > 0
        \<and> (\<exists>processes p. Listed processes \<in> set (lw_trace s') \<and> p \<in> set processes
             \<and> op_processId p = lr_processId r \<and> lineContainsAny (op_category p) [''starcraft-game'']))"
  using launchOrAttach_returns [OF assms(1)] launch_listed
  by (metis game_listed_def prod.exhaust running_listed_def)

theorem launch_returns_listed_witness:
  "\<exists>r s' processes p.
     launchOrAttachRuntime (demo_host False) remastered_installation True 1000 0 False False ''a.rep''
       demo_start = Some (r, s')
     \<and> lr_running r \<and> lr_processId r = 42
     \<and> Listed processes \<in> set (lw_trace s') \<and> p \<in> set processes \<and> op_processId p = 42
     \<and> lineContainsAny (op_category p) [''starcraft-game'']"
proof -
  have start: "lw_trace demo_start = []" by (simp add: demo_start_def)
  obtain r s' where run: "launchOrAttachRuntime (demo_host False) remastered_installation True 1000 0
      False False ''a.rep'' demo_start = Some (r, s')" and r: "lr_running r" "lr_processId r = 42"
    by (rule demo_run)
  obtain processes p where "Listed processes \<in> set (lw_trace s')" "p \<in> set processes"
      "op_processId p = 42" "lineContainsAny (op_category p) [''starcraft-game'']"
    using launch_returns_listed [OF demo_clock start, of False remastered_installation True 1000 0 False False
        "''a.rep''"] run r by auto
  with run r show ?thesis by blast
qed

text \<open>
  C32. Extra arguments given in an environment variable arrive unchanged: for every list of arguments,
  none of them empty, the text with a backslash before each backslash, quote and white space, joined
  by blanks, is split back into exactly that list.
\<close>

theorem extra_arguments_read_back:
  assumes "list_all (\<lambda>a. a \<noteq> []) args"
  shows "splitExtraLaunchArguments (join_on (CHR '' '') (map escape_argument args)) = args"
  using split_escaped_arguments [OF assms] .

theorem extra_arguments_read_back_witness:
  "splitExtraLaunchArguments
     (join_on (CHR '' '') (map escape_argument [''C:'' @ [CHR 0x5C] @ ''my maps'', [CHR 0x22]]))
   = [''C:'' @ [CHR 0x5C] @ ''my maps'', [CHR 0x22]]"
  by (rule extra_arguments_read_back) simp

section \<open>A replay that is never passed on\<close>

text \<open>
  A replay is refused when a game is already running, since it cannot be passed to it. With a visible
  handoff and no replacing, the call attaches to whatever game appears within the wait: the request
  counts as accepted and running, and no process was started that could have been given the replay.
\<close>

lemma replay_lost_to_handoff:
  "map_option (\<lambda>(r, s). (lr_requestAccepted r, lr_running r, lr_launched r, lr_reason r,
       list_ex is_fork (lw_trace s)))
     (launchOrAttachRuntime (demo_host True) remastered_installation True 1000 0 False False ''a.rep'' demo_start)
   = Some (True, True, False, [], False)"
  by code_simp

end
