(* ===== verification/Spec2Isabelle.thy ===== *)
theory Spec2Isabelle
  imports Contract_Properties Command_Queue Client_Agreement Resident_Queue_Properties
    Bootstrap_Manifest Implementation_Gap Backends Ingress_Properties Proof_Emission
    Executor_Routes Bridge_Contract_Proofs Heartbeat_Properties Type_Tables Issue_Properties
    Latency_Properties Session_Properties Launch_Properties
begin

text \<open>
  \<^bold>\<open>What the program is.\<close> The repository is BWAPI, the interface through which AI modules play
  StarCraft: Brood War, extended by a portable runtime. Two systems share its command vocabulary. The
  original client is injected into the 1.16.1 game: it checks a command, optimizes it and queues the
  game's own order structures. The runtime under \<open>src/bwapi/Runtime\<close> runs beside a later version of the
  game: it describes what it knows of that version in a contract, refuses to claim support it has no
  evidence for, and hands commands to an adapter inside the game through a ring file. The development
  covers both, and the places where they must agree.

  \<^bold>\<open>How to read it.\<close> A theory models one component and states its own lemmas; a theory ending in
  \<open>Properties\<close> (or named after the agreement it shows) holds theorems across components. Definitions keep
  the names of the code. Records are the code's structures, datatypes its enumerations and results;
  machine integers are words where they can wrap, otherwise mathematical integers; an early return, an
  exception or a null pointer is a value of the result. Every definition computes. All functions are
  total, by structural recursion or with a measure, and no fuel is used anywhere; the ones that need
  not end, \<open>canCommand\<close> and the two waiting loops of a launch (\<open>wait_until\<close>, \<open>await_handoff\<close>), are
  \<open>partial_function (option)\<close>, with value \<open>None\<close> then, and are shown to return. Operations of the
  operating system (files, process memory, clocks) and of the game's own data are arguments.

  \<^bold>\<open>Shared theories.\<close> \<open>Prelude\<close>: integer types, string routines of the C++ library, numerals, generic
  list lemmas. \<open>Text_Lines\<close>: lines, trimming and separated fields. \<open>Fifo\<close>: the locale \<open>fifo\<close>, what any
  command queue promises, interpreted by the in-memory queue and by the ring file. The locale
  \<open>enum_codec\<close> (\<open>Command_Surface\<close>) is the printing and parsing of an enumeration, interpreted for every
  such pair; the locale \<open>framing\<close> (\<open>Wire_Format\<close>) is the splitting of a buffer of self-delimiting
  messages, interpreted on the \<open>BW::Orders\<close> bytes.

  \<^bold>\<open>The runtime's contract and manifests.\<close> \<open>Command_Surface\<close> (\<open>RuntimeCommandSurface.cpp\<close>), \<open>Runtime_Backend\<close>
  (\<open>RuntimeBackend.cpp\<close>), \<open>Runtime_Contract\<close> (\<open>RuntimeContract.cpp\<close>: validation, evidence audit, production
  gate), \<open>Runtime_Manifest\<close> (\<open>RuntimeManifest.cpp\<close>: the directive loader), \<open>Bootstrap_Manifest\<close> (the text
  \<open>RuntimeInstallation.cpp\<close> generates), \<open>Runtime_Readiness\<close>, \<open>Implementation_Gap\<close>, \<open>Backends\<close>. The theorems of
  \<open>Contract_Properties\<close> and \<open>Manifest_Properties\<close> give validation, audit and gate as exact predicates, show
  that no manifest text carries a contract through the gate, that a loaded manifest is complete, and
  what each directive overlays; readiness and gap report are equivalent to the gate plus the executor's
  conditions; the bootstrap manifest reads back for a known product without a compatibility runtime.

  \<^bold>\<open>Encoding of commands.\<close> \<open>Command_Encoder\<close> (\<open>RuntimeCommandEncoder.cpp\<close>), \<open>Command_Queue\<close>
  (\<open>RuntimeCommandQueue.cpp\<close>), \<open>Order_Types\<close> (\<open>BW/OrderTypes.cpp\<close>), \<open>Wire_Format\<close>, \<open>Encoder_Properties\<close>: the
  encoder accepts exactly the well-formed requests and writes exactly the packed structure of the order,
  truncates nothing, and its turn buffers split uniquely. \<open>Unit_Command\<close> (\<open>UnitCommand.cpp\<close>),
  \<open>Game_Commands\<close> (\<open>GameImpl::executeCommand\<close>) and \<open>Client_Agreement\<close>: the portable encoder agrees with
  the injected client.

  \<^bold>\<open>From the runtime to the game.\<close> \<open>Resident_Queue\<close>, \<open>Resident_Queue_Ring\<close> and
  \<open>Resident_Queue_Properties\<close> (the ring file of \<open>RuntimeResidentBridge.cpp\<close>, byte by byte, including
  two processes without a lock), \<open>Command_Text\<close>, \<open>Command_Submission\<close> and \<open>Command_Ingress\<close> (the text of a
  command, the submission of \<open>RuntimeExecutor.cpp\<close>, one pass of the adapter), with
  \<open>Submission_Properties\<close> and \<open>Ingress_Properties\<close>: what is submitted is what the adapter parses, in order
  and once; a direct submission is all or nothing.

  \<^bold>\<open>Evidence.\<close> \<open>Resident_State\<close> and \<open>Resident_Bridge\<close> (the ready file and its state proofs),
  \<open>Executor_Evidence\<close>, \<open>Executor_Proofs\<close>, \<open>Runtime_Executor\<close>, \<open>Executor_Submission\<close> (\<open>RuntimeExecutor.cpp\<close>),
  \<open>Ready_Files\<close>, \<open>Live_Evidence\<close>, \<open>Remastered_Backend\<close> (\<open>RemasteredRuntimeBackend.cpp\<close>), \<open>Issue_Proofs\<close> (the
  issue proofs of \<open>RuntimeResidentAdapterEntry.cpp\<close>). \<open>Executor_Properties\<close>, \<open>Executor_Routes\<close>,
  \<open>Bridge_Contract_Proofs\<close>, \<open>Heartbeat_Properties\<close>, \<open>Evidence_Properties\<close>, \<open>Snapshot_Round_Trip\<close>,
  \<open>Proof_Emission\<close>: a bridge resolves only what its own validated evidence names; the executor's table of
  permitted evidence is the audit's; submission goes through the ring only; no backend opens a
  session; the heartbeat never goes back; of a kind of command the backend admits it promotes exactly the
  proofs the adapter emits, before the diagnostic lines it keeps from the earlier file, each from its own
  snapshot, described by the lines and rows of its text (\<open>own_snapshot\<close>).

  \<^bold>\<open>Checking commands in the client.\<close> \<open>Unit_Types\<close> and \<open>Tech_Types\<close> (the tables of \<open>UnitType.cpp\<close>,
  \<open>TechType.cpp\<close>, \<open>UpgradeType.cpp\<close>, \<open>WeaponType.cpp\<close>), \<open>Type_Tables\<close> (how they fit together: builders and
  products, the technology tree), \<open>Game_State\<close> (the mirrored unit and player data and the accessors over
  it), \<open>Unit_Finder\<close> (the rectangle search), \<open>Build_Checks\<close>, \<open>Command_Checks\<close>, \<open>Issue_Checks\<close> (all of the
  \<open>can...\<close> functions of \<open>Shared/Templates.h\<close>). A check is a function from the last error to an answer and a
  last error, with no value when null is dereferenced. \<open>Check_Rules\<close> is a small calculus for them, one
  rule per combinator, and a contract, \<open>reports\<close>; \<open>Check_Contracts\<close> shows that every check keeps it.
  \<open>Check_Properties\<close> concludes: on a well-formed game (\<open>sound_game\<close>) every command is answered for every
  unit and target, the answer and the last error agree up to the listed exceptions, checks that were
  passed can be skipped, and only the player's own free units are commanded. \<open>Demo_Game\<close> is the state the
  instances are evaluated in.

  \<^bold>\<open>Issuing commands in the client.\<close> \<open>Command_Optimizer\<close> (\<open>CommandOptimizer.cpp\<close>), \<open>Command_Issue\<close>
  (\<open>UnitImpl::issueCommand\<close> and \<open>prepareIssueCommand\<close>, \<open>GameImpl::issueCommand\<close>), \<open>Issue_Properties\<close>: an
  accepted command is sent at once or queued once, a flush sends batches that carry each queued order
  exactly once and empties the queues by its own loop, a train order accepted for a hatchery finds its larva.

  \<^bold>\<open>Latency compensation in the client.\<close> \<open>Latency_Effects\<close> (\<open>CommandTemp::execute\<close> of
  \<open>Client/CommandTemp.h\<close>: the predicted effect of each command type and event on the mirror),
  \<open>Latency_Buffer\<close> (\<open>insertIntoCommandBuffer\<close>, \<open>applyLatencyCompensation\<close> and the latency of the game).
  \<open>Latency_Rules\<close> holds the locale \<open>state_relation\<close>: a relation that the primitive updates keep is kept by
  every effect; it is interpreted by the units and players an effect may touch, by the shape of the
  mirror and, in \<open>Latency_Accounts\<close>, by the resources. \<open>Latency_Schedule\<close> follows a slot of the buffer
  through the frames, \<open>Latency_Undo\<close> an order and its cancellation, \<open>Latency_Totality\<close> the absence of null
  and of indices out of range. \<open>Latency_Properties\<close> concludes: an accepted command that counts no units is
  predicted without a fault, and every event that has room in the arrays it uses (\<open>room_for\<close>) has a result and keeps
  the mirror well formed; an event touches only its own units and player, moves resources by its bill
  and leaves the buffer after exactly its frames; a training cancelled while it waits is undone.

  \<^bold>\<open>What a launch leaves behind.\<close> The evidence half of \<open>RuntimeInstallation.cpp\<close>. \<open>Log_Timestamps\<close> (decimal
  fields, civil dates, the first timestamp of a line), \<open>Process_Evidence\<close> (cleaned values, support codes,
  the lines of a process listing and their categories), \<open>Session_Summary\<close> (support errors and session
  events collected from log files, the fold of the events into a summary), \<open>Launch_Diagnosis\<close> (the
  diagnosis and the text of the evidence report). \<open>Session_Facts\<close> and \<open>Session_Properties\<close>: a printed
  timestamp reads back as the calendar's milliseconds, the newest events are the ones kept, the
  transitions are the starts paired with the stops that follow them, the summary does not depend on the
  order of reading, a launch is ready exactly when nothing blocks it, and a report reads back as its
  fields whatever the logs contain. The log files and the process listing are arguments, as lists of
  lines.

  \<^bold>\<open>Launching and attaching.\<close> The other half of the same file, for Linux. \<open>Launch_Targets\<close> (the extra
  arguments, the command lines and targets of a launch, the check of a replay request), \<open>Launch_Control\<close>
  (\<open>launchOrAttachRuntime\<close> and everything below it: searching a stable process, waiting, \<open>forkExecProcess\<close>,
  terminating, the fallback from target to target). The operating system is a record of its calls over
  a state of the world, and a trace keeps what was listed, forked, seen to exit and signalled.
  \<open>Launch_Facts\<close> holds three locales, \<open>observing\<close>, \<open>acting\<close> and \<open>launching\<close>: a predicate of the trace that
  listings (and signals, and forks) keep is kept by every operation that does no more; they are
  interpreted by the forks and signals so far, a monitor of the forks and the listed games.
  \<open>Launch_Properties\<close> concludes: attaching starts and stops nothing; unless handoffs are
  replaced, a process is only started after a listing without one; with a clock that sleeping moves on
  every launch returns, and what it reports as running was listed as the game.

  \<^bold>\<open>What the properties found.\<close> Among others: a reaver is allowed to attack a flying unit with an
  error left behind; a taken building site is refused to a mobile builder without an error; a wide
  rectangle search reaches one pixel too far; the call for a set of units answers \<open>False\<close> when the
  optimizer took all of it; level four of the optimizer undoes rewritings of the lower levels; the
  upgrade set of the Dark Archon names air upgrades; short ring records are read past their end; a
  negative size in a manifest is accepted; commands are lost when the audit file cannot be opened; a
  sixth unit is written past the predicted training queue; the supply of a cancelled egg is never given
  back; the finish event of a halted construction is replayed as its order event; a second cancellation
  in a frame refunds the same unit again; the diagnosis reports the duration of an earlier session as
  that of the latest; a replay requested while a Battle.net handoff is visible is accepted and passed
  to no process.

  \<^bold>\<open>What is not modelled.\<close> Detection of installations and of live bridges, the Windows and macOS
  branches of a launch (the rest of \<open>RuntimeInstallation.cpp\<close>) and the lookup of processes
  (\<open>RuntimeProcess.cpp\<close>): calls of the operating system. The rest of
  \<open>RuntimeResidentAdapterEntry.cpp\<close> (snapshot writers, derived proofs, the loader): it reads the game's
  memory at discovered addresses. The mirroring of the game's memory and the callbacks of AI modules of
  the injected module: they read and write a third-party process at fixed addresses. The network modules,
  emulators, editors, tools, examples, tests and generated files. The name strings and the enumeration sets of the type tables, bullets, forces and regions, and the
  colours and filters of the client library: plain data and one-line accessors. Map and region lookups
  (\<open>isBuildable\<close>, \<open>hasCreep\<close>, the region group of a position) are functions of the game state, since
  they read the game's own tables.
\<close>

end
